(* ===== verification/Tde_Prelude.thy ===== *)
theory Tde_Prelude
  imports Main "HOL-Library.Word"
begin

text \<open>
  Shared vocabulary of the development: machine integers, little-endian byte encodings,
  \<open>pread\<close>/\<open>pwrite\<close> on byte lists, the record-file interface (locale \<open>codec\<close>) that every
  on-disk struct of the program implements, and the result type of operations that may
  raise an error (a state transformer that keeps the effects made before the error, as
  \<open>ereport(ERROR)\<close> does for files already written).
\<close>

section \<open>Machine integers and bytes\<close>

type_synonym byte = "8 word"
type_synonym u32 = "32 word"
type_synonym u64 = "64 word"
type_synonym bytes = "8 word list"
type_synonym Oid = "32 word"

named_theorems layout_defs \<open>definitions of on-disk layouts\<close>
named_theorems errM \<open>rules that run the state and error monad\<close>

text \<open>
  The first \<open>n\<close> bytes of a number in little-endian order, and back: how a scalar field of a
  struct lies in memory on the platforms the program supports.
\<close>

fun le_nat :: "nat \<Rightarrow> nat \<Rightarrow> bytes" where
  "le_nat 0 k = []"
| "le_nat (Suc n) k = of_nat (k mod 256) # le_nat n (k div 256)"

fun nat_le :: "bytes \<Rightarrow> nat" where
  "nat_le [] = 0"
| "nat_le (b # bs) = unat b + 256 * nat_le bs"

lemma length_le_nat [simp]: "length (le_nat n k) = n"
  by (induction n arbitrary: k) auto

lemma unat_of_nat_byte [simp]: "unat (of_nat (k mod 256) :: byte) = k mod 256"
  by (simp add: unat_of_nat)

lemma nat_le_le_nat: "nat_le (le_nat n k) = k mod 256 ^ n"
proof (induction n arbitrary: k)
  case 0
  show ?case by simp
next
  case (Suc n)
  have "nat_le (le_nat (Suc n) k) = k mod 256 + 256 * ((k div 256) mod 256 ^ n)"
    by (simp add: Suc.IH del: One_nat_def)
  also have "\<dots> = k mod (256 * 256 ^ n)"
    by (simp add: mod_mult2_eq)
  finally show ?case by simp
qed

lemma nat_le_bound: "nat_le bs < 256 ^ length bs"
proof (induction bs)
  case Nil
  show ?case by simp
next
  case (Cons b bs)
  have "unat b < 256" using unsigned_less [of b] by simp
  with Cons.IH show ?case by simp
qed

lemma le_nat_nat_le: "length bs = n \<Longrightarrow> le_nat n (nat_le bs) = bs"
proof (induction bs arbitrary: n)
  case Nil
  then show ?case by simp
next
  case (Cons b bs)
  have b: "unat b < 256" using unsigned_less [of b] by simp
  have m: "(unat b + 256 * nat_le bs) mod 256 = unat b"
    and d: "(unat b + 256 * nat_le bs) div 256 = nat_le bs"
    using b by simp_all
  show ?case
    using Cons.prems Cons.IH [of "length bs"] m d
    by (auto simp del: of_nat_add of_nat_mult)
qed

definition le32 :: "u32 \<Rightarrow> bytes" where
  "le32 w = le_nat 4 (unat w)"

definition le64 :: "u64 \<Rightarrow> bytes" where
  "le64 w = le_nat 8 (unat w)"

definition un32 :: "bytes \<Rightarrow> u32" where
  "un32 bs = of_nat (nat_le bs)"

definition un64 :: "bytes \<Rightarrow> u64" where
  "un64 bs = of_nat (nat_le bs)"

lemma length_le32 [simp]: "length (le32 w) = 4"
  by (simp add: le32_def)

lemma length_le64 [simp]: "length (le64 w) = 8"
  by (simp add: le64_def)

lemma un32_le32 [simp]: "un32 (le32 w) = w"
proof -
  have "unat w < 256 ^ 4" using unsigned_less [of w] by simp
  then show ?thesis by (simp add: un32_def le32_def nat_le_le_nat)
qed

lemma un64_le64 [simp]: "un64 (le64 w) = w"
proof -
  have "unat w < 256 ^ 8" using unsigned_less [of w] by simp
  then show ?thesis by (simp add: un64_def le64_def nat_le_le_nat)
qed

lemma le32_un32: "length bs = 4 \<Longrightarrow> le32 (un32 bs) = bs"
  using nat_le_bound [of bs] le_nat_nat_le [of bs 4]
  by (simp add: le32_def un32_def unat_of_nat)

lemma le64_un64: "length bs = 8 \<Longrightarrow> le64 (un64 bs) = bs"
  using nat_le_bound [of bs] le_nat_nat_le [of bs 8]
  by (simp add: le64_def un64_def unat_of_nat)

lemma le32_inject [simp]: "le32 a = le32 b \<longleftrightarrow> a = b"
  using un32_le32 by metis

lemma le64_inject [simp]: "le64 a = le64 b \<longleftrightarrow> a = b"
  using un64_le64 by metis

text \<open>The bytes \<open>[i, i + n)\<close> of a buffer: a field of a struct read back.\<close>

definition slice :: "nat \<Rightarrow> nat \<Rightarrow> 'a list \<Rightarrow> 'a list" where
  "slice i n xs = take n (drop i xs)"

lemma length_slice: "length (slice i n xs) = min n (length xs - i)"
  by (simp add: slice_def)

lemma slice_append_skip [simp]: "length xs \<le> i \<Longrightarrow> slice i n (xs @ ys) = slice (i - length xs) n ys"
  by (simp add: slice_def)

lemma slice_append_here [simp]: "length xs = n \<Longrightarrow> slice 0 n (xs @ ys) = xs"
  by (simp add: slice_def)

lemma slice_whole [simp]: "length xs = n \<Longrightarrow> slice 0 n xs = xs"
  by (simp add: slice_def)

lemma slice_Cons_skip [simp]: "0 < i \<Longrightarrow> slice i n (x # xs) = slice (i - 1) n xs"
  by (cases i) (simp_all add: slice_def)

lemma slice_split:
  "slice i (m + n) xs = slice i m xs @ slice (i + m) n xs"
  by (simp add: slice_def take_add add.commute)

text \<open>
  A byte buffer of exactly \<open>n\<close> bytes: what a C array of that size holds after \<open>bs\<close> has been
  copied over the uninitialised or previous content \<open>old\<close>.
\<close>

definition overlay :: "nat \<Rightarrow> 'a list \<Rightarrow> 'a list \<Rightarrow> 'a list" where
  "overlay n bs old = take n (bs @ drop (length bs) old)"

lemma length_overlay: "n \<le> length old \<Longrightarrow> length (overlay n bs old) = n"
  by (simp add: overlay_def)

lemma take_overlay: "length bs \<le> n \<Longrightarrow> take (length bs) (overlay n bs old) = bs"
  by (simp add: overlay_def)

definition zeros :: "nat \<Rightarrow> bytes" where
  "zeros n = replicate n 0"

lemma length_zeros [simp]: "length (zeros n) = n"
  by (simp add: zeros_def)

text \<open>Fitting a byte string into an array of \<open>n\<close> bytes, zero padded: \<open>memset\<close> then \<open>memcpy\<close>.\<close>

definition fit :: "nat \<Rightarrow> bytes \<Rightarrow> bytes" where
  "fit n bs = take n (bs @ zeros n)"

lemma length_fit [simp]: "length (fit n bs) = n"
  by (simp add: fit_def)

lemma fit_id: "length bs = n \<Longrightarrow> fit n bs = bs"
  by (simp add: fit_def)

section \<open>Positioned reads and writes\<close>

text \<open>
  \<open>pg_pread(fd, buf, n, off)\<close> returns the bytes the file has there (fewer than \<open>n\<close> at the
  end of the file); \<open>pg_pwrite\<close> overwrites in place and extends the file, with a hole of
  zero bytes when \<open>off\<close> lies past the end.
\<close>

definition pread :: "bytes \<Rightarrow> nat \<Rightarrow> nat \<Rightarrow> bytes" where
  "pread f n off = take n (drop off f)"

definition pwrite :: "bytes \<Rightarrow> bytes \<Rightarrow> nat \<Rightarrow> bytes" where
  "pwrite f d off = take off (f @ zeros (off - length f)) @ d @ drop (off + length d) f"

lemma length_pread: "length (pread f n off) = min n (length f - off)"
  by (simp add: pread_def)

lemma pread_full: "length (pread f n off) = n \<longleftrightarrow> n = 0 \<or> off + n \<le> length f"
  by (auto simp: length_pread)

lemma length_pwrite: "length (pwrite f d off) = max (length f) (off + length d)"
  by (simp add: pwrite_def)

lemma pread_pwrite_same: "pread (pwrite f d off) (length d) off = d"
proof -
  have "length (take off (f @ zeros (off - length f))) = off" by simp
  then show ?thesis by (simp add: pread_def pwrite_def)
qed

lemma pread_pwrite_before:
  assumes "off' + n \<le> off" and "off' + n \<le> length f"
  shows "pread (pwrite f d off) n off' = pread f n off'"
proof -
  have "take n (drop off' (take off (f @ zeros (off - length f)) @ d @ drop (off + length d) f))
      = take n (drop off' (take off (f @ zeros (off - length f))))"
    using assms by simp
  also have "\<dots> = take n (drop off' f)"
    using assms by (auto simp: drop_take)
  finally show ?thesis by (simp add: pread_def pwrite_def)
qed

lemma pread_pwrite_after:
  assumes "off + length d \<le> off'"
  shows "pread (pwrite f d off) n off' = pread f n off'"
proof -
  let ?p = "take off (f @ zeros (off - length f))"
  have len: "length ?p = off" by simp
  have "drop off' (?p @ d @ drop (off + length d) f)
      = drop (off' - off - length d) (drop (off + length d) f)"
    using assms len by simp
  also have "\<dots> = drop off' f" using assms by simp
  finally show ?thesis by (simp add: pread_def pwrite_def)
qed

lemma pwrite_at_end: "pwrite f d (length f) = f @ d"
  by (simp add: pwrite_def zeros_def)

lemma pwrite_append: "pwrite (h @ x @ t) d (length h) = h @ d @ drop (length d) (x @ t)"
  by (simp add: pwrite_def zeros_def)

lemma pwrite_replace: "length d = length x \<Longrightarrow> pwrite (h @ x @ t) d (length h) = h @ d @ t"
  by (simp add: pwrite_append)

end
