(* ===== verification/Tde_Recfile.thy ===== *)
theory Tde_Recfile
  imports Tde_Prelude
begin

text \<open>
  Files of fixed-size records after a fixed-size header, as every key file of the program is
  laid out: reading one record at an offset, reading on until a short read, writing one
  record in place. The interface a record type must offer is the locale \<open>codec\<close>; it is
  interpreted for each on-disk struct in the theory that declares the struct. Inside the
  locale, a file is related to the list of records it holds.
\<close>

section \<open>Reading records\<close>

text \<open>
  One record: \<open>bytes_read = pg_pread(fd, entry, sizeof(entry), *offset)\<close>; anything but a full
  read ends the scan, and a full one advances the offset.
\<close>

definition read_rec :: "nat \<Rightarrow> (bytes \<Rightarrow> 'e) \<Rightarrow> bytes \<Rightarrow> nat \<Rightarrow> ('e \<times> nat) option" where
  "read_rec sz dec f off =
     (let b = pread f sz off in if length b \<noteq> sz then None else Some (dec b, off + sz))"

lemma read_rec_Some:
  "0 < sz \<Longrightarrow> read_rec sz dec f off = Some (e, off') \<longleftrightarrow>
     off + sz \<le> length f \<and> e = dec (pread f sz off) \<and> off' = off + sz"
  by (auto simp: read_rec_def Let_def pread_full length_pread split: if_splits)

lemma read_rec_None: "0 < sz \<Longrightarrow> read_rec sz dec f off = None \<longleftrightarrow> length f < off + sz"
  by (auto simp: read_rec_def Let_def pread_full length_pread split: if_splits)

text \<open>All records from an offset on, with the offset each one was read at.\<close>

function read_all :: "nat \<Rightarrow> (bytes \<Rightarrow> 'e) \<Rightarrow> bytes \<Rightarrow> nat \<Rightarrow> (nat \<times> 'e) list" where
  "read_all sz dec f off =
     (if sz = 0 then [] else
      case read_rec sz dec f off of None \<Rightarrow> [] | Some (e, off') \<Rightarrow> (off, e) # read_all sz dec f off')"
  by pat_completeness auto
termination
  by (relation "measure (\<lambda>(sz, dec, f, off). length f - off)") (auto simp: read_rec_Some)

declare read_all.simps [simp del]

lemma read_all_step:
  "0 < sz \<Longrightarrow> off + sz \<le> length f \<Longrightarrow>
     read_all sz dec f off = (off, dec (pread f sz off)) # read_all sz dec f (off + sz)"
  by (subst read_all.simps) (simp add: read_rec_def Let_def pread_full length_pread)

lemma read_all_end: "0 < sz \<Longrightarrow> length f < off + sz \<Longrightarrow> read_all sz dec f off = []"
  by (subst read_all.simps) (simp add: read_rec_None [THEN iffD2])

definition recs :: "nat \<Rightarrow> (bytes \<Rightarrow> 'e) \<Rightarrow> bytes \<Rightarrow> nat \<Rightarrow> 'e list" where
  "recs sz dec f off = map snd (read_all sz dec f off)"

lemma recs_step:
  "0 < sz \<Longrightarrow> off + sz \<le> length f \<Longrightarrow>
     recs sz dec f off = dec (pread f sz off) # recs sz dec f (off + sz)"
  by (simp add: recs_def read_all_step)

lemma recs_end: "0 < sz \<Longrightarrow> length f < off + sz \<Longrightarrow> recs sz dec f off = []"
  by (simp add: recs_def read_all_end)

lemma length_recs: "0 < sz \<Longrightarrow> length (recs sz dec f off) = (length f - off) div sz"
proof (induction "length f - off" arbitrary: off rule: less_induct)
  case less
  show ?case
  proof (cases "off + sz \<le> length f")
    case True
    then have "length (recs sz dec f (off + sz)) = (length f - (off + sz)) div sz"
      using less.prems by (intro less.hyps) auto
    moreover have "(length f - off) div sz = Suc ((length f - (off + sz)) div sz)"
      using True less.prems le_div_geq [of sz "length f - off"] by simp
    ultimately show ?thesis
      using True less.prems by (simp add: recs_step)
  next
    case False
    then show ?thesis using less.prems by (simp add: recs_end)
  qed
qed

lemma recs_slot_bound:
  "0 < sz \<Longrightarrow> i < length (recs sz dec f off) \<Longrightarrow> off + i * sz + sz \<le> length f"
proof -
  assume sz: "0 < sz" and i: "i < length (recs sz dec f off)"
  then have "Suc i \<le> (length f - off) div sz" by (simp add: length_recs)
  then have "Suc i * sz \<le> length f - off"
    using sz by (simp add: less_eq_div_iff_mult_less_eq)
  then show ?thesis using sz by (cases "off \<le> length f") simp_all
qed

lemma nth_recs:
  "0 < sz \<Longrightarrow> i < length (recs sz dec f off) \<Longrightarrow>
     recs sz dec f off ! i = dec (pread f sz (off + i * sz))"
proof (induction i arbitrary: off)
  case 0
  then have "off + sz \<le> length f" using recs_slot_bound [of sz 0] by fastforce
  with 0 show ?case by (simp add: recs_step)
next
  case (Suc i)
  then have "off + sz \<le> length f" using recs_slot_bound [of sz "Suc i" dec f off] by simp
  with Suc show ?case by (simp add: recs_step algebra_simps)
qed

lemma recs_eqI:
  assumes "0 < sz" and "length es = length (recs sz dec f off)"
    and "\<And>i. i < length es \<Longrightarrow> es ! i = dec (pread f sz (off + i * sz))"
  shows "recs sz dec f off = es"
  using assms by (intro nth_equalityI) (simp_all add: nth_recs)

text \<open>The records with the offsets they were read at.\<close>

fun at_offsets :: "nat \<Rightarrow> nat \<Rightarrow> 'e list \<Rightarrow> (nat \<times> 'e) list" where
  "at_offsets sz off [] = []"
| "at_offsets sz off (e # es) = (off, e) # at_offsets sz (off + sz) es"

lemma map_snd_at_offsets [simp]: "map snd (at_offsets sz off es) = es"
  by (induction es arbitrary: off) auto

lemma read_all_eq: "0 < sz \<Longrightarrow> read_all sz dec f off = at_offsets sz off (recs sz dec f off)"
proof (induction "length f - off" arbitrary: off rule: less_induct)
  case less
  show ?case
  proof (cases "off + sz \<le> length f")
    case True
    then have "read_all sz dec f (off + sz) = at_offsets sz (off + sz) (recs sz dec f (off + sz))"
      using less.prems by (intro less.hyps) auto
    with True less.prems show ?thesis by (simp add: read_all_step recs_step)
  next
    case False
    with less.prems show ?thesis by (simp add: read_all_end recs_end)
  qed
qed

text \<open>The index of the first element with a property (the length of the list if none has it).\<close>

definition find_index :: "('e \<Rightarrow> bool) \<Rightarrow> 'e list \<Rightarrow> nat" where
  "find_index P es = length (takeWhile (\<lambda>e. \<not> P e) es)"

lemma find_index_simps [simp]:
  "find_index P [] = 0" "find_index P (e # es) = (if P e then 0 else Suc (find_index P es))"
  by (simp_all add: find_index_def)

lemma find_index_le: "find_index P es \<le> length es"
  by (simp add: find_index_def length_takeWhile_le)

lemma find_index_less: "find_index P es < length es \<longleftrightarrow> (\<exists>e\<in>set es. P e)"
  by (induction es) auto

lemma find_index_nth: "find_index P es < length es \<Longrightarrow> P (es ! find_index P es)"
  by (induction es) auto

lemma find_index_before: "i < find_index P es \<Longrightarrow> \<not> P (es ! i)"
  by (induction es arbitrary: i) (auto simp: nth_Cons split: nat.splits if_splits)

lemma find_conv_index:
  "find P es = (if find_index P es < length es then Some (es ! find_index P es) else None)"
  by (induction es) auto

lemma find_at_offsets:
  "find (\<lambda>(_, e). P e) (at_offsets sz off es) =
     (if find_index P es < length es then Some (off + find_index P es * sz, es ! find_index P es) else None)"
  by (induction es arbitrary: off) auto

lemma find_update_other:
  "i < length es \<Longrightarrow> \<not> P (es ! i) \<Longrightarrow> \<not> P e \<Longrightarrow> find P (es[i := e]) = find P es"
  by (induction es arbitrary: i) (auto split: nat.splits)

lemma find_update_first:
  "i < length es \<Longrightarrow> P e \<Longrightarrow> (\<And>j. j < i \<Longrightarrow> \<not> P (es ! j)) \<Longrightarrow> find P (es[i := e]) = Some e"
proof (induction es arbitrary: i)
  case Nil
  then show ?case by simp
next
  case (Cons a es)
  show ?case
  proof (cases i)
    case 0
    with Cons.prems show ?thesis by simp
  next
    case (Suc j)
    have "\<not> P a" using Cons.prems(3) [of 0] Suc by simp
    moreover have "find P (es[j := e]) = Some e"
    proof (rule Cons.IH)
      show "j < length es" "P e" using Cons.prems Suc by simp_all
      show "\<not> P (es ! l)" if "l < j" for l using Cons.prems(3) [of "Suc l"] Suc that by simp
    qed
    ultimately show ?thesis using Suc by simp
  qed
qed

lemma find_append: "find P (xs @ ys) = (case find P xs of None \<Rightarrow> find P ys | Some x \<Rightarrow> Some x)"
  by (induction xs) auto

section \<open>The interface of an on-disk record type\<close>

locale codec =
  fixes enc :: "'e \<Rightarrow> bytes"
    and dec :: "bytes \<Rightarrow> 'e"
    and sz :: nat
    and wf :: "'e \<Rightarrow> bool"
  assumes sz_pos: "0 < sz"
    and enc_length: "wf e \<Longrightarrow> length (enc e) = sz"
    and dec_enc: "wf e \<Longrightarrow> dec (enc e) = e"
    and dec_wf: "length b = sz \<Longrightarrow> wf (dec b)"
begin

lemma enc_inject: "wf a \<Longrightarrow> wf b \<Longrightarrow> enc a = enc b \<Longrightarrow> a = b"
  using dec_enc by metis

lemma recs_wf:
  assumes "e \<in> set (recs sz dec f off)"
  shows "wf e"
proof -
  obtain i where i: "i < length (recs sz dec f off)" and e: "e = recs sz dec f off ! i"
    using assms by (metis in_set_conv_nth)
  have "off + i * sz + sz \<le> length f"
    by (rule recs_slot_bound [OF sz_pos i])
  then have "length (pread f sz (off + i * sz)) = sz"
    by (simp add: length_pread)
  then show ?thesis
    using e nth_recs [OF sz_pos i] by (simp add: dec_wf)
qed

text \<open>Writing a record over the slot of record \<open>i\<close>, or just past the last one.\<close>

lemma recs_pwrite_replace:
  assumes wf: "wf e" and i: "i < length (recs sz dec f off)"
  shows "recs sz dec (pwrite f (enc e) (off + i * sz)) off = (recs sz dec f off)[i := e]"
proof (rule recs_eqI [OF sz_pos])
  have le: "off + i * sz + sz \<le> length f" by (rule recs_slot_bound [OF sz_pos i])
  have len: "length (enc e) = sz" by (rule enc_length [OF wf])
  show "length ((recs sz dec f off)[i := e]) = length (recs sz dec (pwrite f (enc e) (off + i * sz)) off)"
    using le len by (simp add: length_recs [OF sz_pos] length_pwrite)
  fix j assume j: "j < length ((recs sz dec f off)[i := e])"
  then have jb: "off + j * sz + sz \<le> length f"
    by (simp add: recs_slot_bound [OF sz_pos])
  consider "j = i" | "Suc j \<le> i" | "Suc i \<le> j" by linarith
  then show "(recs sz dec f off)[i := e] ! j = dec (pread (pwrite f (enc e) (off + i * sz)) sz (off + j * sz))"
  proof cases
    case 1
    then show ?thesis
      using i len dec_enc [OF wf] pread_pwrite_same [of f "enc e" "off + i * sz"] by simp
  next
    case 2
    then have "Suc j * sz \<le> i * sz" by (rule mult_le_mono1)
    with 2 j jb show ?thesis
      by (simp add: pread_pwrite_before nth_recs [OF sz_pos])
  next
    case 3
    then have "Suc i * sz \<le> j * sz" by (rule mult_le_mono1)
    with 3 j len show ?thesis
      by (simp add: pread_pwrite_after nth_recs [OF sz_pos])
  qed
qed

lemma recs_pwrite_append:
  assumes wf: "wf e" and off: "off \<le> length f"
  shows "recs sz dec (pwrite f (enc e) (off + length (recs sz dec f off) * sz)) off
    = recs sz dec f off @ [e]" (is "recs _ _ ?f' _ = _")
proof (rule recs_eqI [OF sz_pos])
  let ?n = "length (recs sz dec f off)"
  have len: "length (enc e) = sz" by (rule enc_length [OF wf])
  have n: "?n = (length f - off) div sz" by (rule length_recs [OF sz_pos])
  then have lo: "?n * sz \<le> length f - off" by simp
  have "length f - off < Suc ?n * sz"
    using n sz_pos by (metis dividend_less_times_div mult.commute mult_Suc_right add.commute)
  then have "max (length f) (off + ?n * sz + sz) = off + Suc ?n * sz"
    using off by simp
  then have len': "length ?f' = off + Suc ?n * sz"
    using len by (simp add: length_pwrite)
  show "length (recs sz dec f off @ [e]) = length (recs sz dec ?f' off)"
    using sz_pos len' by (simp only: length_recs [OF sz_pos] length_append) simp
  fix j assume "j < length (recs sz dec f off @ [e])"
  then consider "j = ?n" | "j < ?n" by fastforce
  then show "(recs sz dec f off @ [e]) ! j = dec (pread ?f' sz (off + j * sz))"
  proof cases
    case 1
    then show ?thesis
      using len dec_enc [OF wf] pread_pwrite_same [of f "enc e" "off + ?n * sz"] by simp
  next
    case 2
    then have "Suc j * sz \<le> ?n * sz" by (intro mult_le_mono1) simp
    with 2 lo off show ?thesis
      by (simp add: pread_pwrite_before nth_recs [OF sz_pos] nth_append)
  qed
qed

lemma recs_snoc:
  assumes "wf e" and "length f mod sz = 0"
  shows "recs sz dec (f @ enc e) 0 = recs sz dec f 0 @ [e]"
proof -
  have "length (recs sz dec f 0) * sz = length f"
    using length_recs [OF sz_pos, of dec f 0] assms(2) by (metis add.right_neutral div_mult_mod_eq diff_zero)
  then show ?thesis
    using recs_pwrite_append [OF assms(1), of 0 f] by (simp add: pwrite_at_end)
qed

end

end
