(* ===== verification/Tde_Types.thy ===== *)
theory Tde_Types
  imports Tde_Recfile
begin

text \<open>
  The data of the extension as its headers declare it (\<open>src/src/include\<close>): internal keys,
  principal keys and their signed form, keyring keys, relation locators, WAL locations and
  encryption ranges. Character and byte arrays are byte lists of the array's size, enums that
  are persisted without validation keep their 32-bit representation. The structs that lie
  on disk or in additional authenticated data get their little-endian LP64 layout and an
  interpretation of the \<open>codec\<close> interface.
\<close>

section \<open>Constants\<close>

definition KEY_DATA_SIZE_128 :: nat where "KEY_DATA_SIZE_128 = 16"
definition KEY_DATA_SIZE_256 :: nat where "KEY_DATA_SIZE_256 = 32"
definition TDE_KEY_NAME_LEN :: nat where "TDE_KEY_NAME_LEN = 256"
definition INTERNAL_KEY_MAX_LEN :: nat where "INTERNAL_KEY_MAX_LEN = 64"
definition INTERNAL_KEY_IV_LEN :: nat where "INTERNAL_KEY_IV_LEN = 16"
definition MAP_ENTRY_IV_SIZE :: nat where "MAP_ENTRY_IV_SIZE = 16"
definition MAP_ENTRY_AEAD_TAG_SIZE :: nat where "MAP_ENTRY_AEAD_TAG_SIZE = 16"

definition CIPHER_AES_128 :: u32 where "CIPHER_AES_128 = 0"
definition CIPHER_AES_256 :: u32 where "CIPHER_AES_256 = 1"
definition CIPHER_AES_128_XTS :: u32 where "CIPHER_AES_128_XTS = 2"
definition CIPHER_AES_256_XTS :: u32 where "CIPHER_AES_256_XTS = 3"

text \<open>\<open>GLOBALTABLESPACE_OID\<close> and \<open>DEFAULTTABLESPACE_OID\<close> of PostgreSQL's catalog.\<close>

definition GLOBAL_DATA_TDE_OID :: Oid where "GLOBAL_DATA_TDE_OID = 1664"
definition DEFAULT_DATA_TDE_OID :: Oid where "DEFAULT_DATA_TDE_OID = 1663"

definition OPEN_PG_TDE_WAL_KEY_FILE_MAGIC :: u32 where
  "OPEN_PG_TDE_WAL_KEY_FILE_MAGIC = 0x034B4557"
definition OPEN_PG_TDE_SMGR_FILE_MAGIC :: u32 where
  "OPEN_PG_TDE_SMGR_FILE_MAGIC = 0x06454454"

definition FILEMAGIC_VERSION :: "u32 \<Rightarrow> u32" where
  "FILEMAGIC_VERSION fm = drop_bit 24 (and fm 0xF000000)"

definition FILEMAGIC_TYPE :: "u32 \<Rightarrow> u32" where
  "FILEMAGIC_TYPE fm = and fm 0x0FFFFFF"

lemmas size_consts =
  KEY_DATA_SIZE_128_def KEY_DATA_SIZE_256_def TDE_KEY_NAME_LEN_def INTERNAL_KEY_MAX_LEN_def
  INTERNAL_KEY_IV_LEN_def MAP_ENTRY_IV_SIZE_def MAP_ENTRY_AEAD_TAG_SIZE_def

lemmas cipher_ids =
  CIPHER_AES_128_def CIPHER_AES_256_def CIPHER_AES_128_XTS_def CIPHER_AES_256_XTS_def

section \<open>Keys\<close>

record InternalKey =
  ik_key_len :: u32
  ik_cipher :: u32
  ik_base_iv :: bytes
  ik_key :: bytes

record TDEPrincipalKeyInfo =
  databaseId :: Oid
  keyringId :: Oid
  tv_sec :: u64
  tv_usec :: u64
  pk_name :: bytes

record TDEPrincipalKey =
  keyInfo :: TDEPrincipalKeyInfo
  keyData :: bytes
  keyLength :: u32

record TDESignedPrincipalKeyInfo =
  ski_data :: TDEPrincipalKeyInfo
  sign_iv :: bytes
  ski_aead_tag :: bytes

record KeyData =
  kd_data :: bytes
  kd_len :: u32

record KeyInfo =
  ki_name :: bytes
  ki_data :: KeyData

text \<open>The key material a cipher call uses: the first \<open>key_len\<close> bytes of the array.\<close>

definition ik_material :: "InternalKey \<Rightarrow> bytes" where
  "ik_material k = take (unat (ik_key_len k)) (ik_key k)"

definition pk_material :: "TDEPrincipalKey \<Rightarrow> bytes" where
  "pk_material pk = take (unat (keyLength pk)) (keyData pk)"

definition kd_material :: "KeyData \<Rightarrow> bytes" where
  "kd_material d = take (unat (kd_len d)) (kd_data d)"

section \<open>Relations and WAL positions\<close>

record RelFileLocator =
  spcOid :: Oid
  dbOid :: Oid
  relNumber :: Oid

datatype WalLocation = WalLocation (lsn: u64) (tli: u32)

definition WAL_ENCRYPTION_RANGE_INVALID :: u32 where "WAL_ENCRYPTION_RANGE_INVALID = 0"
definition WAL_ENCRYPTION_RANGE_UNENCRYPTED :: u32 where "WAL_ENCRYPTION_RANGE_UNENCRYPTED = 1"
definition WAL_ENCRYPTION_RANGE_ENCRYPTED :: u32 where "WAL_ENCRYPTION_RANGE_ENCRYPTED = 2"

lemmas range_types = WAL_ENCRYPTION_RANGE_INVALID_def WAL_ENCRYPTION_RANGE_UNENCRYPTED_def
  WAL_ENCRYPTION_RANGE_ENCRYPTED_def

record WalEncryptionRange =
  wr_type :: u32
  wr_key :: InternalKey
  wr_start :: WalLocation
  wr_end :: WalLocation

text \<open>\<open>wal_location_cmp\<close> and \<open>wal_location_valid\<close> of \<open>open_pg_tde_xlog_keys.h\<close>.\<close>

definition wal_location_cmp :: "WalLocation \<Rightarrow> WalLocation \<Rightarrow> int" where
  "wal_location_cmp l1 l2 =
     (if tli l1 < tli l2 then -1
      else if tli l1 > tli l2 then 1
      else if lsn l1 < lsn l2 then -1
      else if lsn l1 > lsn l2 then 1
      else 0)"

definition wal_location_valid :: "WalLocation \<Rightarrow> bool" where
  "wal_location_valid loc \<longleftrightarrow> tli loc \<noteq> 0 \<and> lsn loc \<noteq> 0"

text \<open>The order \<open>wal_location_cmp\<close> decides, made available to the library's order facts.\<close>

instantiation WalLocation :: linorder
begin

definition less_eq_WalLocation :: "WalLocation \<Rightarrow> WalLocation \<Rightarrow> bool" where
  "less_eq_WalLocation a b \<longleftrightarrow> wal_location_cmp a b \<le> 0"

definition less_WalLocation :: "WalLocation \<Rightarrow> WalLocation \<Rightarrow> bool" where
  "less_WalLocation a b \<longleftrightarrow> wal_location_cmp a b < 0"

instance
proof
  fix x y z :: WalLocation
  show "(x < y) = (x \<le> y \<and> \<not> y \<le> x)"
    by (auto simp: less_eq_WalLocation_def less_WalLocation_def wal_location_cmp_def)
  show "x \<le> x"
    by (simp add: less_eq_WalLocation_def wal_location_cmp_def)
  show "x \<le> y \<Longrightarrow> y \<le> z \<Longrightarrow> x \<le> z"
    by (auto simp: less_eq_WalLocation_def wal_location_cmp_def split: if_splits)
  show "x \<le> y \<Longrightarrow> y \<le> x \<Longrightarrow> x = y"
    by (auto simp: less_eq_WalLocation_def wal_location_cmp_def WalLocation.expand split: if_splits)
  show "x \<le> y \<or> y \<le> x"
    by (auto simp: less_eq_WalLocation_def wal_location_cmp_def)
qed

end

lemma wal_location_cmp_order:
  "wal_location_cmp a b < 0 \<longleftrightarrow> a < b" "wal_location_cmp a b \<le> 0 \<longleftrightarrow> a \<le> b"
  "wal_location_cmp a b > 0 \<longleftrightarrow> b < a" "wal_location_cmp a b \<ge> 0 \<longleftrightarrow> b \<le> a"
  "wal_location_cmp a b = 0 \<longleftrightarrow> a = b"
proof -
  have neg: "wal_location_cmp a b = - wal_location_cmp b a"
    by (auto simp: wal_location_cmp_def)
  show "wal_location_cmp a b < 0 \<longleftrightarrow> a < b" "wal_location_cmp a b \<le> 0 \<longleftrightarrow> a \<le> b"
    by (simp_all add: less_WalLocation_def less_eq_WalLocation_def)
  show "wal_location_cmp a b > 0 \<longleftrightarrow> b < a" "wal_location_cmp a b \<ge> 0 \<longleftrightarrow> b \<le> a"
    using neg by (simp_all add: less_WalLocation_def less_eq_WalLocation_def)
  show "wal_location_cmp a b = 0 \<longleftrightarrow> a = b"
    by (auto simp: wal_location_cmp_def WalLocation.expand split: if_splits)
qed

section \<open>Key providers\<close>

text \<open>The \<open>int\<close> fields keep their 32-bit representation; \<open>sint\<close> reads them as C does.\<close>

record KeyringProviderRecord =
  provider_id :: u32
  provider_name :: bytes
  options :: bytes
  provider_type :: u32

record KeyringProviderRecordInFile =
  database_id :: Oid
  offset_in_file :: nat
  provider :: KeyringProviderRecord

definition UNKNOWN_KEY_PROVIDER :: u32 where "UNKNOWN_KEY_PROVIDER = 0"
definition FILE_KEY_PROVIDER :: u32 where "FILE_KEY_PROVIDER = 1"
definition KMIP_KEY_PROVIDER :: u32 where "KMIP_KEY_PROVIDER = 2"
definition OPENBAO_KEY_PROVIDER :: u32 where "OPENBAO_KEY_PROVIDER = 3"

lemmas provider_types = UNKNOWN_KEY_PROVIDER_def FILE_KEY_PROVIDER_def KMIP_KEY_PROVIDER_def OPENBAO_KEY_PROVIDER_def

definition KEYRING_CODE_SUCCESS :: nat where "KEYRING_CODE_SUCCESS = 0"
definition KEYRING_CODE_INVALID_PROVIDER :: nat where "KEYRING_CODE_INVALID_PROVIDER = 1"
definition KEYRING_CODE_RESOURCE_NOT_AVAILABLE :: nat where "KEYRING_CODE_RESOURCE_NOT_AVAILABLE = 2"
definition KEYRING_CODE_INVALID_RESPONSE :: nat where "KEYRING_CODE_INVALID_RESPONSE = 5"
definition KEYRING_CODE_INVALID_KEY :: nat where "KEYRING_CODE_INVALID_KEY = 6"
definition KEYRING_CODE_DATA_CORRUPTED :: nat where "KEYRING_CODE_DATA_CORRUPTED = 7"

lemmas keyring_codes = KEYRING_CODE_SUCCESS_def KEYRING_CODE_INVALID_PROVIDER_def
  KEYRING_CODE_RESOURCE_NOT_AVAILABLE_def KEYRING_CODE_INVALID_RESPONSE_def KEYRING_CODE_INVALID_KEY_def
  KEYRING_CODE_DATA_CORRUPTED_def

text \<open>
  A loaded keyring: the common part and the options of the three provider structs, of which
  only those of the keyring's own type are ever set; \<open>None\<close> is a NULL pointer.
\<close>

record GenericKeyring =
  gk_type :: u32
  keyring_id :: u32
  gk_provider_name :: bytes
  gk_options :: bytes
  file_name :: "bytes option"
  kmip_host :: "bytes option"
  kmip_port :: "bytes option"
  kmip_ca_path :: "bytes option"
  kmip_cert_path :: "bytes option"
  kmip_key_path :: "bytes option"
  openbao_token :: "bytes option"
  openbao_token_path :: "bytes option"
  openbao_url :: "bytes option"
  openbao_ca_path :: "bytes option"
  openbao_mount_path :: "bytes option"
  openbao_namespace :: "bytes option"

text \<open>What the server's JSON parser reports to its client.\<close>

datatype json_token = JSON_TOKEN_STRING | JSON_TOKEN_NUMBER | JSON_TOKEN_TRUE | JSON_TOKEN_FALSE | JSON_TOKEN_NULL

datatype json_event = JsObjectStart | JsObjectEnd | JsArrayStart | JsField bytes | JsScalar json_token bytes

text \<open>The options of a curl handle, and the steps of setting up a TLS connection that can fail.\<close>

datatype curl_opt =
    CURLOPT_CAINFO bytes | CURLOPT_FOLLOWLOCATION int | CURLOPT_CONNECTTIMEOUT int | CURLOPT_TIMEOUT int
  | CURLOPT_HTTP_VERSION_1_1 | CURLOPT_WRITEFUNCTION | CURLOPT_WRITEDATA | CURLOPT_URL bytes
  | CURLOPT_POSTFIELDS bytes | CURLOPT_HTTPHEADER "bytes list"

datatype ssl_step =
    SSL_use_certificate_file | SSL_use_PrivateKey_file | SSL_load_verify_locations | BIO_new_ssl_connect
  | X509_set1_ip_asc | X509_set1_host | BIO_do_connect | SSL_get_verify_result

section \<open>DDL events\<close>

datatype TDEEncryptMode = TDE_ENCRYPT_MODE_RETAIN | TDE_ENCRYPT_MODE_ENCRYPT | TDE_ENCRYPT_MODE_PLAIN

text \<open>A parse tree is its address: only the identity of the statement is ever used.\<close>

record TdeDdlEvent =
  ev_parsetree :: nat
  encryptMode :: TDEEncryptMode
  rebuildSequencesFor :: Oid
  rebuildSequence :: Oid

section \<open>Relation storage\<close>

datatype ForkNumber = MAIN_FORKNUM | FSM_FORKNUM | VISIBILITYMAP_FORKNUM | INIT_FORKNUM

text \<open>\<open>backend\<close> is \<open>INVALID_PROC_NUMBER\<close> (-1) for a relation that is not temporary.\<close>

record RelFileLocatorBackend =
  locator :: RelFileLocator
  backend :: int

definition RelFileLocatorBackendIsTemp :: "RelFileLocatorBackend \<Rightarrow> bool" where
  "RelFileLocatorBackendIsTemp r \<longleftrightarrow> backend r \<noteq> -1"

datatype TDEMgrRelationEncryptionStatus = RELATION_NOT_ENCRYPTED | RELATION_ENCRYPTED | RELATION_ENCRYPTION_UNKNOWN

text \<open>The fields of \<open>TDESMgrRelation\<close> that are not the private data of \<open>md.c\<close>.\<close>

record TDESMgrRelation =
  smgr_rlocator :: RelFileLocatorBackend
  smgr_which :: nat
  encryption_status :: TDEMgrRelationEncryptionStatus
  relKey :: InternalKey

text \<open>
  The calls made into PostgreSQL's \<open>md.c\<close>. Their sequence is all that determines what it does
  next, as with an OpenSSL context.
\<close>

datatype md_call =
    MdOpen RelFileLocatorBackend
  | MdClose RelFileLocatorBackend ForkNumber
  | MdCreate RelFileLocator RelFileLocatorBackend ForkNumber bool
  | MdUnlink RelFileLocatorBackend "ForkNumber option" bool
  | MdWritev RelFileLocatorBackend ForkNumber u32 "bytes list" bool
  | MdExtend RelFileLocatorBackend ForkNumber u32 bytes bool
  | MdReadv RelFileLocatorBackend ForkNumber u32 nat
  | MdStartReadv nat RelFileLocatorBackend ForkNumber u32 nat

section \<open>Layouts shared by the key files\<close>

definition enc_pki :: "TDEPrincipalKeyInfo \<Rightarrow> bytes" where
  [layout_defs]: "enc_pki i = le32 (databaseId i) @ le32 (keyringId i) @ le64 (tv_sec i) @
     le64 (tv_usec i) @ pk_name i"

definition dec_pki :: "bytes \<Rightarrow> TDEPrincipalKeyInfo" where
  [layout_defs]: "dec_pki b = \<lparr>databaseId = un32 (slice 0 4 b), keyringId = un32 (slice 4 4 b),
     tv_sec = un64 (slice 8 8 b), tv_usec = un64 (slice 16 8 b), pk_name = slice 24 256 b\<rparr>"

definition wf_pki :: "TDEPrincipalKeyInfo \<Rightarrow> bool" where
  [layout_defs]: "wf_pki i \<longleftrightarrow> length (pk_name i) = 256"

definition enc_ski :: "TDESignedPrincipalKeyInfo \<Rightarrow> bytes" where
  [layout_defs]: "enc_ski s = enc_pki (ski_data s) @ sign_iv s @ ski_aead_tag s"

definition dec_ski :: "bytes \<Rightarrow> TDESignedPrincipalKeyInfo" where
  [layout_defs]: "dec_ski b = \<lparr>ski_data = dec_pki (slice 0 280 b), sign_iv = slice 280 16 b,
     ski_aead_tag = slice 296 16 b\<rparr>"

definition wf_ski :: "TDESignedPrincipalKeyInfo \<Rightarrow> bool" where
  [layout_defs]: "wf_ski s \<longleftrightarrow> wf_pki (ski_data s) \<and> length (sign_iv s) = 16 \<and> length (ski_aead_tag s) = 16"

text \<open>
  Header of a key file: a 32-bit version, four bytes of padding, the signed principal key
  information. The relation key map and the WAL key file use the same layout.
\<close>

record KeyFileHeader =
  file_version :: u32
  signed_key_info :: TDESignedPrincipalKeyInfo

definition enc_header :: "KeyFileHeader \<Rightarrow> bytes" where
  [layout_defs]: "enc_header h = le32 (file_version h) @ zeros 4 @ enc_ski (signed_key_info h)"

definition dec_header :: "bytes \<Rightarrow> KeyFileHeader" where
  [layout_defs]: "dec_header b = \<lparr>file_version = un32 (slice 0 4 b), signed_key_info = dec_ski (slice 8 312 b)\<rparr>"

definition wf_header :: "KeyFileHeader \<Rightarrow> bool" where
  [layout_defs]: "wf_header h \<longleftrightarrow> wf_ski (signed_key_info h)"

definition HEADER_SIZE :: nat where "HEADER_SIZE = 320"

lemma length_enc_pki: "wf_pki i \<Longrightarrow> length (enc_pki i) = 280"
  by (simp add: enc_pki_def wf_pki_def)

lemma dec_enc_pki: "wf_pki i \<Longrightarrow> dec_pki (enc_pki i) = i"
  by (simp add: enc_pki_def dec_pki_def wf_pki_def)

lemma length_enc_ski: "wf_ski s \<Longrightarrow> length (enc_ski s) = 312"
  by (simp add: enc_ski_def wf_ski_def length_enc_pki)

lemma dec_enc_ski: "wf_ski s \<Longrightarrow> dec_ski (enc_ski s) = s"
  by (simp add: enc_ski_def dec_ski_def wf_ski_def length_enc_pki dec_enc_pki)

interpretation header: codec enc_header dec_header HEADER_SIZE wf_header
proof unfold_locales
  fix h :: KeyFileHeader and b :: bytes
  show "0 < HEADER_SIZE" by (simp add: HEADER_SIZE_def)
  show "wf_header h \<Longrightarrow> length (enc_header h) = HEADER_SIZE"
    by (simp add: enc_header_def wf_header_def HEADER_SIZE_def length_enc_ski)
  show "wf_header h \<Longrightarrow> dec_header (enc_header h) = h"
    by (simp add: enc_header_def dec_header_def wf_header_def length_enc_ski dec_enc_ski)
  show "length b = HEADER_SIZE \<Longrightarrow> wf_header (dec_header b)"
    by (simp add: wf_header_def dec_header_def wf_ski_def dec_ski_def wf_pki_def dec_pki_def
        length_slice HEADER_SIZE_def)
qed

end
