(* ===== verification/Tde_World.thy ===== *)
theory Tde_World
  imports Tde_Types
begin

text \<open>
  What the extension's code runs against. \<open>env\<close> collects the code that is not part of the
  repository (OpenSSL, the random source, the clock, uninitialised memory, the server's GUCs
  and catalogs) as parameters; what the proofs use of it are the named predicates at the end.
  libcurl, libkmip, the key servers behind them and the server's JSON parser are parameters too.
  \<open>world\<close> is the state the code changes: files, the WAL records it inserts, the shared cache
  of principal keys, the process-local caches. An operation is a function
  \<open>world \<Rightarrow> (tde_error + 'a) \<times> world\<close>: an error keeps the changes made before it.
\<close>

section \<open>Errors\<close>

datatype tde_error =
    E_no_principal_key                   \<comment> \<open>principal key not configured\<close>
  | E_open string                        \<comment> \<open>could not open file\<close>
  | E_wrong_version string               \<comment> \<open>key file has wrong version (FATAL)\<close>
  | E_corrupted string                   \<comment> \<open>header cannot be read (FATAL)\<close>
  | E_write string                       \<comment> \<open>could not write file\<close>
  | E_fsync string
  | E_rename string
  | E_unlink string
  | E_rand                               \<comment> \<open>RAND_bytes failed\<close>
  | E_openssl                            \<comment> \<open>an EVP call failed\<close>
  | E_decrypt                            \<comment> \<open>failed to decrypt key, incorrect principal key or corrupted file\<close>
  | E_unknown_cipher u32
  | E_no_keystream_cipher int
  | E_no_cipher_id u32
  | E_key_length int
  | E_migration_version u32
  | E_migration_read
  | E_no_keyring
  | E_keyring nat                        \<comment> \<open>keyring return code other than success\<close>
  | E_key_not_found
  | E_key_exists
  | E_verify_principal_key
  | E_privilege
  | E_global_disabled
  | E_null_argument
  | E_name_too_short
  | E_name_too_long
  | E_options_too_long
  | E_in_use
  | E_provider_exists
  | E_provider_not_found
  | E_provider_type
  | E_provider_id
  | E_provider_corrupted
  | E_options string
  | E_wal_key_index int
  | E_unknown_record u32
  | E_state string
  | E_null_pointer string                \<comment> \<open>a NULL pointer is dereferenced\<close>

section \<open>Cipher contexts\<close>

text \<open>
  An OpenSSL cipher context is the sequence of calls made on it: nothing else determines what
  the library does next.
\<close>

datatype evp_cipher = AES_128_CBC | AES_256_CBC | AES_128_XTS | AES_256_XTS

datatype evp_call = EvpInit "bytes option" "bytes option" int | EvpRun bytes

record AesCtxCache =
  cc_cipher :: evp_cipher
  cc_ctx :: "evp_call list"
  cc_key :: bytes
  cc_key_len :: int
  cc_enc :: int

datatype gcm_result = GcmError | GcmBadTag | GcmOk bytes

section \<open>WAL records of the resource manager\<close>

datatype xlog_rec =
    XlCreateRelationKey RelFileLocator
  | XlAddPrincipalKey TDESignedPrincipalKeyInfo
  | XlRotatePrincipalKey Oid Oid bytes
  | XlWriteKeyProvider KeyringProviderRecordInFile
  | XlInstallExtension Oid
  | XlDeleteRelationKey RelFileLocator
  | XlDeletePrincipalKey Oid

section \<open>The environment\<close>

record env =
  data_dir :: string
  gcm_encrypt :: "bytes \<Rightarrow> bytes \<Rightarrow> bytes \<Rightarrow> bytes \<Rightarrow> (bytes \<times> bytes) option"
  gcm_decrypt :: "bytes \<Rightarrow> bytes \<Rightarrow> bytes \<Rightarrow> bytes \<Rightarrow> bytes \<Rightarrow> gcm_result"
  evp_init :: "evp_cipher \<Rightarrow> evp_call list \<Rightarrow> evp_call \<Rightarrow> bool"
  evp_run :: "evp_cipher \<Rightarrow> evp_call list \<Rightarrow> bytes \<Rightarrow> bytes option"
  ecb_encrypt :: "bytes \<Rightarrow> bytes \<Rightarrow> bytes option"
  rand_bytes :: "nat \<Rightarrow> nat \<Rightarrow> bytes option"
  uninit :: "nat \<Rightarrow> bytes"
  gettimeofday :: "nat \<Rightarrow> u64 \<times> u64"
  guc_Cipher :: int
  guc_DataCipher :: int
  guc_KeyLength :: int
  AllowInheritGlobalProviders :: bool
  superuser :: bool
  MyDatabaseId :: Oid
  pg_database :: "Oid list"
  IsBinaryUpgrade :: bool
  json_parse :: "bytes \<Rightarrow> json_event list \<times> bool"
  curl_easy_init :: bool
  curl_easy_setopt :: "curl_opt \<Rightarrow> bool"
  http_response :: "curl_opt list list \<Rightarrow> curl_opt list \<Rightarrow> (int \<times> bytes list) option"
  pg_b64_encode :: "bytes \<Rightarrow> nat \<Rightarrow> bytes option"
  pg_b64_decode :: "bytes \<Rightarrow> nat \<Rightarrow> bytes option"
  ssl_ok :: "GenericKeyring \<Rightarrow> ssl_step \<Rightarrow> bool"
  kmip_register_symmetric_key :: "(bytes \<times> bytes) list \<Rightarrow> bytes \<Rightarrow> bytes \<Rightarrow> int"
  kmip_locate :: "(bytes \<times> bytes) list \<Rightarrow> bytes \<Rightarrow> int \<times> bytes list"
  kmip_get_symmetric_key :: "(bytes \<times> bytes) list \<Rightarrow> bytes \<Rightarrow> int \<times> bytes"
  FRONTEND :: bool
  mlock_ok :: bool
  aes_128_ctr :: "bytes \<Rightarrow> bytes \<Rightarrow> bytes \<Rightarrow> bytes option"
  IsCatalogRelationOid :: "Oid \<Rightarrow> bool"
  CrashRecovery :: bool
  IsUnderPostmaster :: bool
  EnforceEncryption :: bool
  default_table_access_method :: string
  GetCurrentFullTransactionId :: u64
  GetCurrentFullTransactionIdIfAny :: u64
  md_error :: "md_call list \<Rightarrow> md_call \<Rightarrow> tde_error option"
  md_read :: "md_call list \<Rightarrow> RelFileLocatorBackend \<Rightarrow> ForkNumber \<Rightarrow> u32 \<Rightarrow> bytes"

section \<open>The state\<close>

datatype io_outcome = IO_ok | IO_short nat | IO_fail

record WALKeyCacheRec =
  wc_range :: WalEncryptionRange
  wc_crypt_ctx :: "bytes option"

record world =
  disk :: "string \<Rightarrow> bytes option"
  io :: "io_outcome list"
  rng :: nat
  xlog :: "xlog_rec list"
  pk_cache :: "Oid \<Rightarrow> TDEPrincipalKey option"
  ctx_cbc_128 :: AesCtxCache
  ctx_cbc_256 :: AesCtxCache
  ctx_xts_128 :: AesCtxCache
  ctx_xts_256 :: AesCtxCache
  tde_wal_key_cache :: "WALKeyCacheRec list"
  enc_key_tli :: u32
  enc_key_lsn :: u64
  CurrentWalEncryptionRange :: WalEncryptionRange
  EncryptionCryptCtx :: "bytes option"
  TempRelKeys :: "RelFileLocator \<Rightarrow> InternalKey option"
  tde_io_handle_keys :: "nat \<Rightarrow> InternalKey"
  tempfile_keys :: "(bytes \<times> bytes \<times> bytes) option"
  ddlEventStackTid :: u64
  ddlEventStack :: "TdeDdlEvent list"
  smgr_relns :: "nat \<Rightarrow> TDESMgrRelation"
  md_log :: "md_call list"
  aio_tde_callback :: "nat \<Rightarrow> bool"
  http_log :: "curl_opt list list"
  kmip_log :: "(bytes \<times> bytes) list"

section \<open>Operations that may raise an error\<close>

type_synonym 'a tdeM = "world \<Rightarrow> (tde_error + 'a) \<times> world"

definition ret :: "'a \<Rightarrow> 'a tdeM" where
  "ret x w = (Inr x, w)"

definition throw :: "tde_error \<Rightarrow> 'a tdeM" where
  "throw e w = (Inl e, w)"

definition bindM :: "'a tdeM \<Rightarrow> ('a \<Rightarrow> 'b tdeM) \<Rightarrow> 'b tdeM" where
  "bindM m f w = (case m w of (Inl e, w') \<Rightarrow> (Inl e, w') | (Inr x, w') \<Rightarrow> f x w')"

definition seqM :: "unit tdeM \<Rightarrow> 'b tdeM \<Rightarrow> 'b tdeM" where
  "seqM m k = bindM m (\<lambda>_. k)"

definition check :: "bool \<Rightarrow> tde_error \<Rightarrow> unit tdeM" where
  "check b e = (if b then ret () else throw e)"

definition getM :: "(world \<Rightarrow> 'a) \<Rightarrow> 'a tdeM" where
  "getM f w = (Inr (f w), w)"

definition modifyM :: "(world \<Rightarrow> world) \<Rightarrow> unit tdeM" where
  "modifyM f w = (Inr (), f w)"

definition whenM :: "bool \<Rightarrow> unit tdeM \<Rightarrow> unit tdeM" where
  "whenM b m = (if b then m else ret ())"

fun forM :: "'a list \<Rightarrow> ('a \<Rightarrow> unit tdeM) \<Rightarrow> unit tdeM" where
  "forM [] f = ret ()"
| "forM (x # xs) f = seqM (f x) (forM xs f)"

lemma ret_run [errM, simp]: "ret x w = (Inr x, w)"
  by (simp add: ret_def)

lemma throw_run [errM, simp]: "throw e w = (Inl e, w)"
  by (simp add: throw_def)

lemma getM_run [errM, simp]: "getM f w = (Inr (f w), w)"
  by (simp add: getM_def)

lemma modifyM_run [errM, simp]: "modifyM f w = (Inr (), f w)"
  by (simp add: modifyM_def)

lemma bindM_Inr [errM]: "m w = (Inr x, w') \<Longrightarrow> bindM m f w = f x w'"
  by (simp add: bindM_def)

lemma bindM_Inl [errM]: "m w = (Inl e, w') \<Longrightarrow> bindM m f w = (Inl e, w')"
  by (simp add: bindM_def)

lemma seqM_Inr [errM]: "m w = (Inr x, w') \<Longrightarrow> seqM m k w = k w'"
  by (simp add: seqM_def bindM_def)

lemma seqM_Inl [errM]: "m w = (Inl e, w') \<Longrightarrow> seqM m k w = (Inl e, w')"
  by (simp add: seqM_def bindM_def)

lemma check_run [errM, simp]: "check b e w = (if b then (Inr (), w) else (Inl e, w))"
  by (simp add: check_def)

lemma whenM_run [errM, simp]: "whenM b m w = (if b then m w else (Inr (), w))"
  by (simp add: whenM_def)

text \<open>Running a program forwards, once the results of its calls are known.\<close>

lemmas runM = bindM_def seqM_def

lemma bindM_eq_Inr:
  "bindM m f w = (Inr y, w') \<longleftrightarrow> (\<exists>x w1. m w = (Inr x, w1) \<and> f x w1 = (Inr y, w'))"
  by (auto simp: bindM_def split: prod.splits sum.splits)

lemma seqM_eq_Inr:
  "seqM m k w = (Inr y, w') \<longleftrightarrow> (\<exists>w1. m w = (Inr (), w1) \<and> k w1 = (Inr y, w'))"
  by (auto simp: seqM_def bindM_eq_Inr)

section \<open>Conditions on all outcomes\<close>

text \<open>
  \<open>wp m Q w\<close>: whatever \<open>m\<close> does from \<open>w\<close>, error or result, the outcome satisfies \<open>Q\<close>. The
  rewrite rules push it through a program; for a call with a known specification
  \<open>wp_mono\<close> weakens the specification to what is needed.
\<close>

definition wp :: "'a tdeM \<Rightarrow> (tde_error + 'a \<Rightarrow> world \<Rightarrow> bool) \<Rightarrow> world \<Rightarrow> bool" where
  "wp m Q w \<longleftrightarrow> Q (fst (m w)) (snd (m w))"

named_theorems wp_rules \<open>rewrite rules for wp\<close>

lemma wp_bindM [wp_rules]:
  "wp (bindM m f) Q w \<longleftrightarrow> wp m (\<lambda>r w'. case r of Inl e \<Rightarrow> Q (Inl e) w' | Inr x \<Rightarrow> wp (f x) Q w') w"
  by (auto simp: wp_def bindM_def split: prod.splits sum.splits)

lemma wp_seqM [wp_rules]:
  "wp (seqM m k) Q w \<longleftrightarrow> wp m (\<lambda>r w'. case r of Inl e \<Rightarrow> Q (Inl e) w' | Inr x \<Rightarrow> wp k Q w') w"
  by (simp add: seqM_def wp_bindM)

lemma wp_ret [wp_rules]: "wp (ret x) Q w \<longleftrightarrow> Q (Inr x) w"
  by (simp add: wp_def)

lemma wp_Pair [wp_rules]: "wp (Pair r) Q w \<longleftrightarrow> Q r w"
  by (simp add: wp_def)

lemma wp_throw [wp_rules]: "wp (throw e) Q w \<longleftrightarrow> Q (Inl e) w"
  by (simp add: wp_def)

lemma wp_getM [wp_rules]: "wp (getM g) Q w \<longleftrightarrow> Q (Inr (g w)) w"
  by (simp add: wp_def)

lemma wp_modifyM [wp_rules]: "wp (modifyM h) Q w \<longleftrightarrow> Q (Inr ()) (h w)"
  by (simp add: wp_def)

lemma wp_check [wp_rules]: "wp (check b e) Q w \<longleftrightarrow> (if b then Q (Inr ()) w else Q (Inl e) w)"
  by (simp add: wp_def)

lemma wp_whenM [wp_rules]: "wp (whenM b m) Q w \<longleftrightarrow> (if b then wp m Q w else Q (Inr ()) w)"
  by (simp add: wp_def)

lemma wp_mono: "wp m P w \<Longrightarrow> (\<And>r w'. P r w' \<Longrightarrow> Q r w') \<Longrightarrow> wp m Q w"
  by (simp add: wp_def)

lemma wp_bindI:
  assumes "wp m P w" and "\<And>e w'. P (Inl e) w' \<Longrightarrow> Q (Inl e) w'" and "\<And>x w'. P (Inr x) w' \<Longrightarrow> wp (f x) Q w'"
  shows "wp (bindM m f) Q w"
  unfolding wp_bindM by (rule wp_mono [OF assms(1)]) (use assms(2,3) in \<open>auto split: sum.splits\<close>)

lemma wp_seqI:
  assumes "wp m P w" and "\<And>e w'. P (Inl e) w' \<Longrightarrow> Q (Inl e) w'" and "\<And>w'. P (Inr ()) w' \<Longrightarrow> wp k Q w'"
  shows "wp (seqM m k) Q w"
  unfolding seqM_def by (rule wp_bindI [OF assms(1)]) (use assms(2,3) in auto)

lemma wp_conj: "wp m P w \<Longrightarrow> wp m Q w \<Longrightarrow> wp m (\<lambda>r w'. P r w' \<and> Q r w') w"
  by (simp add: wp_def)

lemma wp_run: "wp m Q w \<Longrightarrow> m w = (r, w') \<Longrightarrow> Q r w'"
  by (simp add: wp_def)

section \<open>What an operation leaves unchanged\<close>

text \<open>
  A relation between the states before and after, for results and errors alike. Any
  reflexive and transitive relation composes along a program, so a frame condition is
  proved operation by operation.
\<close>

definition keeps :: "(world \<Rightarrow> world \<Rightarrow> bool) \<Rightarrow> 'a tdeM \<Rightarrow> bool" where
  "keeps R m \<longleftrightarrow> (\<forall>w. R w (snd (m w)))"

lemma keeps_bind_rel:
  assumes "keeps S m" and "\<And>w x w'. m w = (Inr x, w') \<Longrightarrow> P x" and "\<And>x. P x \<Longrightarrow> keeps R (f x)"
    and SR: "\<And>a b. S a b \<Longrightarrow> R a b" and tr: "\<And>a b c. S a b \<Longrightarrow> R b c \<Longrightarrow> R a c"
  shows "keeps R (bindM m f)"
  unfolding keeps_def
proof
  fix w
  show "R w (snd (bindM m f w))"
  proof (cases "m w")
    case (Pair r w1)
    have m: "S w w1" using assms(1) Pair by (metis keeps_def snd_conv)
    show ?thesis
    proof (cases r)
      case (Inr x)
      then have "R w1 (snd (f x w1))" using assms(2,3) Pair by (simp add: keeps_def)
      with m Inr Pair show ?thesis by (auto simp: bindM_def intro: tr)
    qed (use m SR Pair in \<open>simp add: bindM_def\<close>)
  qed
qed

locale frame =
  fixes R :: "world \<Rightarrow> world \<Rightarrow> bool"
  assumes R_refl: "R w w"
    and R_trans: "R w w1 \<Longrightarrow> R w1 w2 \<Longrightarrow> R w w2"
begin

lemma of_looks: "keeps (=) m \<Longrightarrow> keeps R m"
  unfolding keeps_def by (metis R_refl)

lemma keeps_ret: "keeps R (ret x)"
  by (simp add: keeps_def R_refl)

lemma keeps_throw: "keeps R (throw e)"
  by (simp add: keeps_def R_refl)

lemma keeps_getM: "keeps R (getM f)"
  by (simp add: keeps_def R_refl)

lemma keeps_check: "keeps R (check b e)"
  by (simp add: keeps_def R_refl)

lemma keeps_bind_post:
  "keeps R m \<Longrightarrow> (\<And>w x w'. m w = (Inr x, w') \<Longrightarrow> P x) \<Longrightarrow> (\<And>x. P x \<Longrightarrow> keeps R (f x)) \<Longrightarrow> keeps R (bindM m f)"
  by (rule keeps_bind_rel [where S = R and P = P]) (auto intro: R_trans)

lemma keeps_bindM: "keeps R m \<Longrightarrow> (\<And>x. keeps R (f x)) \<Longrightarrow> keeps R (bindM m f)"
  by (rule keeps_bind_post [where P = "\<lambda>_. True"]) simp_all

lemma keeps_seqM: "keeps R m \<Longrightarrow> keeps R k \<Longrightarrow> keeps R (seqM m k)"
  unfolding seqM_def by (rule keeps_bindM)

lemma keeps_whenM: "keeps R m \<Longrightarrow> keeps R (whenM b m)"
  unfolding whenM_def by (simp add: keeps_ret)

lemma keeps_forM: "(\<And>x. x \<in> set xs \<Longrightarrow> keeps R (f x)) \<Longrightarrow> keeps R (forM xs f)"
  by (induction xs) (auto intro: keeps_ret keeps_seqM)

lemma keeps_if: "keeps R m \<Longrightarrow> keeps R k \<Longrightarrow> keeps R (if b then m else k)"
  by simp

lemma keeps_option: "keeps R m \<Longrightarrow> (\<And>x. keeps R (f x)) \<Longrightarrow> keeps R (case x of None \<Rightarrow> m | Some y \<Rightarrow> f y)"
  by (cases x) auto

lemmas keeps_intros = keeps_ret keeps_throw keeps_getM keeps_check keeps_bindM keeps_seqM
  keeps_whenM keeps_forM keeps_if keeps_option

end

definition same_file :: "string \<Rightarrow> world \<Rightarrow> world \<Rightarrow> bool" where
  "same_file p w w' \<longleftrightarrow> disk w' p = disk w p"

interpretation sf: frame "same_file p" for p
  by unfold_locales (auto simp: same_file_def)

definition same_cache :: "world \<Rightarrow> world \<Rightarrow> bool" where
  "same_cache w w' \<longleftrightarrow> pk_cache w' = pk_cache w"

interpretation sc: frame same_cache
  by unfold_locales (auto simp: same_cache_def)

section \<open>Files\<close>

text \<open>
  Every write, fsync and rename takes the next outcome of the \<open>io\<close> script (success when the
  script is used up), so that a theorem about all scripts is a theorem about every way the
  disk may fail. Reads return what the file holds.
\<close>

definition next_io :: "world \<Rightarrow> io_outcome \<times> world" where
  "next_io w = (case io w of [] \<Rightarrow> (IO_ok, w) | x # xs \<Rightarrow> (x, w\<lparr>io := xs\<rparr>))"

definition set_file :: "string \<Rightarrow> bytes \<Rightarrow> world \<Rightarrow> world" where
  "set_file p b w = w\<lparr>disk := (disk w)(p \<mapsto> b)\<rparr>"

definition file_bytes :: "world \<Rightarrow> string \<Rightarrow> bytes" where
  "file_bytes w p = (case disk w p of None \<Rightarrow> [] | Some b \<Rightarrow> b)"

text \<open>\<open>pg_pwrite\<close> followed by the check that all bytes were written.\<close>

definition write_at :: "string \<Rightarrow> bytes \<Rightarrow> nat \<Rightarrow> unit tdeM" where
  "write_at p d off w =
     (case next_io w of
        (IO_ok, w') \<Rightarrow> (Inr (), set_file p (pwrite (file_bytes w' p) d off) w')
      | (IO_short n, w') \<Rightarrow>
          (let d' = take n d; w'' = set_file p (pwrite (file_bytes w' p) d' off) w'
           in if length d' = length d then (Inr (), w'') else (Inl (E_write p), w''))
      | (IO_fail, w') \<Rightarrow> (Inl (E_write p), w'))"

definition fsync :: "string \<Rightarrow> unit tdeM" where
  "fsync p w = (case next_io w of (IO_ok, w') \<Rightarrow> (Inr (), w') | (_, w') \<Rightarrow> (Inl (E_fsync p), w'))"

text \<open>
  \<open>durable_rename(old, new, ERROR)\<close>: the file is synced and renamed, then the new name and
  the directory are synced. \<open>IO_fail\<close> is a failure before the rename, \<open>IO_short\<close> one of the
  syncs after it.
\<close>

definition durable_rename :: "string \<Rightarrow> string \<Rightarrow> unit tdeM" where
  "durable_rename old new w =
     (case next_io w of
        (IO_fail, w') \<Rightarrow> (Inl (E_rename old), w')
      | (r, w') \<Rightarrow>
          (let w'' = w'\<lparr>disk := (disk w')(new := disk w' old, old := None)\<rparr>
           in if r = IO_ok then (Inr (), w'') else (Inl (E_fsync new), w'')))"

text \<open>\<open>durable_unlink(path, elevel)\<close>: with WARNING a failure is only logged.\<close>

definition durable_unlink :: "string \<Rightarrow> bool \<Rightarrow> unit tdeM" where
  "durable_unlink p elevel_error w =
     (if disk w p = None then (if elevel_error then (Inl (E_unlink p), w) else (Inr (), w))
      else
        (case next_io w of
           (IO_ok, w') \<Rightarrow> (Inr (), w'\<lparr>disk := (disk w')(p := None)\<rparr>)
         | (_, w') \<Rightarrow> (if elevel_error then (Inl (E_unlink p), w') else (Inr (), w'))))"

text \<open>\<open>PathNameDeleteTemporaryFile(path, false)\<close>: removes the file without syncing the directory; a failure is only logged.\<close>

definition PathNameDeleteTemporaryFile :: "string \<Rightarrow> unit tdeM" where
  "PathNameDeleteTemporaryFile p w =
     (if disk w p = None then (Inr (), w)
      else (case next_io w of (IO_ok, w') \<Rightarrow> (Inr (), w'\<lparr>disk := (disk w')(p := None)\<rparr>) | (_, w') \<Rightarrow> (Inr (), w')))"

lemma next_io_no_faults [simp]: "io w = [] \<Longrightarrow> next_io w = (IO_ok, w)"
  by (simp add: next_io_def)

lemma next_io_disk: "next_io w = (r, w') \<Longrightarrow> disk w' = disk w \<and> pk_cache w' = pk_cache w"
  by (auto simp: next_io_def split: list.splits)

lemma set_file_simps [simp]:
  "disk (set_file p b w) = (disk w)(p \<mapsto> b)" "io (set_file p b w) = io w"
  "rng (set_file p b w) = rng w" "pk_cache (set_file p b w) = pk_cache w"
  "xlog (set_file p b w) = xlog w"
  by (simp_all add: set_file_def)

lemma file_bytes_set_file [simp]:
  "file_bytes (set_file p b w) q = (if q = p then b else file_bytes w q)"
  by (simp add: file_bytes_def)

lemma write_at_ok [errM]:
  "io w = [] \<Longrightarrow> write_at p d off w = (Inr (), set_file p (pwrite (file_bytes w p) d off) w)"
  by (simp add: write_at_def)

lemma fsync_ok [errM]: "io w = [] \<Longrightarrow> fsync p w = (Inr (), w)"
  by (simp add: fsync_def)

text \<open>A write that reports success wrote everything; no other file changes in any case.\<close>

lemma write_at_wp:
  "wp (write_at p d off) (\<lambda>r w'. (\<forall>q. q \<noteq> p \<longrightarrow> disk w' q = disk w q) \<and> pk_cache w' = pk_cache w \<and> xlog w' = xlog w \<and>
     (r = Inr () \<longrightarrow> disk w' = (disk w)(p \<mapsto> pwrite (file_bytes w p) d off))) w"
proof -
  have "take n d = d" if "length (take n d) = length d" for n
    using that by (metis length_take min.cobounded2 take_all_iff min_def)
  then show ?thesis
    by (auto simp: wp_def write_at_def Let_def next_io_def file_bytes_def
        split: list.splits io_outcome.splits if_splits)
qed

lemma fsync_wp: "wp (fsync p) (\<lambda>r w'. disk w' = disk w \<and> pk_cache w' = pk_cache w \<and> xlog w' = xlog w) w"
  by (auto simp: wp_def fsync_def next_io_def split: list.splits io_outcome.splits)

lemma durable_rename_wp:
  "wp (durable_rename old new) (\<lambda>r w'. pk_cache w' = pk_cache w \<and> xlog w' = xlog w \<and>
     (disk w' = disk w \<and> r \<noteq> Inr () \<or> disk w' = (disk w)(new := disk w old, old := None))) w"
  by (auto simp: wp_def durable_rename_def Let_def next_io_def split: list.splits io_outcome.splits)

lemma durable_rename_ok [errM]:
  "io w = [] \<Longrightarrow> durable_rename old new w = (Inr (), w\<lparr>disk := (disk w)(new := disk w old, old := None)\<rparr>)"
  by (simp add: durable_rename_def)

lemma durable_unlink_wp:
  "wp (durable_unlink p b) (\<lambda>r w'. (\<forall>q. q \<noteq> p \<longrightarrow> disk w' q = disk w q) \<and> pk_cache w' = pk_cache w \<and> xlog w' = xlog w) w"
  by (auto simp: wp_def durable_unlink_def next_io_def split: list.splits io_outcome.splits)

lemma write_at_keeps: "q \<noteq> p \<Longrightarrow> keeps (same_file q) (write_at p d off)"
  by (auto simp: keeps_def same_file_def write_at_def Let_def split: prod.splits io_outcome.splits
      dest!: next_io_disk)

lemma fsync_keeps: "keeps (same_file q) (fsync p)"
  by (auto simp: keeps_def same_file_def fsync_def split: prod.splits io_outcome.splits
      dest!: next_io_disk)

lemma write_at_cache: "keeps same_cache (write_at p d off)"
  by (auto simp: keeps_def same_cache_def write_at_def Let_def split: prod.splits io_outcome.splits
      dest!: next_io_disk)

lemma fsync_cache: "keeps same_cache (fsync p)"
  by (auto simp: keeps_def same_cache_def fsync_def split: prod.splits io_outcome.splits
      dest!: next_io_disk)

section \<open>Randomness, clock, WAL insertion\<close>

definition RAND_bytes :: "env \<Rightarrow> nat \<Rightarrow> bytes tdeM" where
  "RAND_bytes ev n w =
     (case rand_bytes ev (rng w) n of
        None \<Rightarrow> (Inl E_rand, w\<lparr>rng := Suc (rng w)\<rparr>)
      | Some b \<Rightarrow> (Inr (fit n b), w\<lparr>rng := Suc (rng w)\<rparr>))"

definition XLogInsert :: "xlog_rec \<Rightarrow> unit tdeM" where
  "XLogInsert r = modifyM (\<lambda>w. w\<lparr>xlog := xlog w @ [r]\<rparr>)"

definition garbage :: "env \<Rightarrow> nat \<Rightarrow> bytes" where
  "garbage ev n = fit n (uninit ev n)"

lemma length_garbage [simp]: "length (garbage ev n) = n"
  by (simp add: garbage_def)

lemma RAND_bytes_keeps: "keeps (same_file q) (RAND_bytes ev n)" "keeps same_cache (RAND_bytes ev n)"
  by (auto simp: keeps_def same_file_def same_cache_def RAND_bytes_def split: option.splits)

lemma XLogInsert_keeps: "keeps (same_file q) (XLogInsert r)" "keeps same_cache (XLogInsert r)"
  by (auto simp: keeps_def same_file_def same_cache_def XLogInsert_def)

lemma RAND_bytes_wp:
  "wp (RAND_bytes ev n) (\<lambda>r w'. disk w' = disk w \<and> pk_cache w' = pk_cache w \<and> xlog w' = xlog w \<and> io w' = io w \<and>
     (\<forall>b. r = Inr b \<longrightarrow> length b = n)) w"
  by (auto simp: wp_def RAND_bytes_def split: option.splits)

lemma RAND_bytes_length: "RAND_bytes ev n w = (Inr b, w') \<Longrightarrow> length b = n"
  by (auto simp: RAND_bytes_def split: option.splits)

section \<open>Documented behaviour of the environment\<close>

text \<open>
  AES-GCM as OpenSSL documents it: the ciphertext is as long as the plaintext, the tag is 16
  bytes, and opening accepts exactly what sealing under the same key, IV and additional data
  produces, returning the plaintext.
\<close>

definition gcm_ok :: "env \<Rightarrow> bool" where
  "gcm_ok ev \<longleftrightarrow>
     (\<forall>k iv aad pt. \<exists>ct tag. gcm_encrypt ev k iv aad pt = Some (ct, tag) \<and>
        length ct = length pt \<and> length tag = 16 \<and> gcm_decrypt ev k iv aad ct tag = GcmOk pt) \<and>
     (\<forall>k iv aad ct tag pt. gcm_decrypt ev k iv aad ct tag = GcmOk pt \<longrightarrow>
        gcm_encrypt ev k iv aad pt = Some (ct, tag))"

text \<open>The random source delivers.\<close>

definition rand_ok :: "env \<Rightarrow> bool" where
  "rand_ok ev \<longleftrightarrow> (\<forall>i n. \<exists>b. rand_bytes ev i n = Some b)"

lemma gcm_ok_seal:
  "gcm_ok ev \<Longrightarrow> \<exists>ct tag. gcm_encrypt ev k iv aad pt = Some (ct, tag) \<and>
     length ct = length pt \<and> length tag = 16 \<and> gcm_decrypt ev k iv aad ct tag = GcmOk pt"
  unfolding gcm_ok_def by blast

lemma gcm_ok_open:
  "gcm_ok ev \<Longrightarrow> gcm_decrypt ev k iv aad ct tag = GcmOk pt \<Longrightarrow>
     gcm_encrypt ev k iv aad pt = Some (ct, tag)"
  unfolding gcm_ok_def by blast

lemma RAND_bytes_ok:
  "rand_ok ev \<Longrightarrow> \<exists>b. RAND_bytes ev n w = (Inr b, w\<lparr>rng := Suc (rng w)\<rparr>) \<and> length b = n"
  unfolding rand_ok_def RAND_bytes_def by (metis (no_types, lifting) length_fit option.case(2))

end
