(* ===== verification/Tde_Cipher.thy ===== *)
theory Tde_Cipher
  imports Tde_World
begin

text \<open>
  The cipher suites (\<open>encryption/cipher_provider.c\<close>) and the OpenSSL wrappers
  (\<open>encryption/enc_aes.c\<close>): the registry with its three lookups, the cached contexts that
  avoid re-keying, CBC and XTS page encryption, GCM sealing, and the CTR keystream built on
  ECB. Proved here: the registry answers, that the context cache is transparent, and what
  the keystream bytes are.
\<close>

section \<open>Registry of cipher suites\<close>

datatype block_fn = AesEncrypt_fn | AesDecrypt_fn | AesXtsEncrypt_fn | AesXtsDecrypt_fn
datatype keystream_fn = AesCtrEncryptedZeroBlocks_fn

record TdeCipher =
  tc_id :: u32
  tc_name :: string
  tc_key_len :: u32
  encrypt_block :: block_fn
  decrypt_block :: block_fn
  keystream :: "keystream_fn option"

record cipher_registry =
  tde_ciphers :: "TdeCipher list"
  tde_cipher_registry_initialized :: bool

definition register_cipher ::
  "u32 \<Rightarrow> string \<Rightarrow> u32 \<Rightarrow> block_fn \<Rightarrow> block_fn \<Rightarrow> keystream_fn option \<Rightarrow> cipher_registry \<Rightarrow> cipher_registry"
where
  "register_cipher i nm len e d ks r =
     r\<lparr>tde_ciphers := tde_ciphers r @ [\<lparr>tc_id = i, tc_name = nm, tc_key_len = len,
        encrypt_block = e, decrypt_block = d, keystream = ks\<rparr>]\<rparr>"

definition TdeCipherRegistryInit :: "cipher_registry \<Rightarrow> cipher_registry" where
  "TdeCipherRegistryInit r =
     (if tde_cipher_registry_initialized r then r
      else
        (let r = register_cipher CIPHER_AES_128 ''aes-128'' 16 AesEncrypt_fn AesDecrypt_fn
                   (Some AesCtrEncryptedZeroBlocks_fn) r;
             r = register_cipher CIPHER_AES_256 ''aes-256'' 32 AesEncrypt_fn AesDecrypt_fn
                   (Some AesCtrEncryptedZeroBlocks_fn) r;
             r = register_cipher CIPHER_AES_128_XTS ''aes-128-xts'' 32 AesXtsEncrypt_fn AesXtsDecrypt_fn None r;
             r = register_cipher CIPHER_AES_256_XTS ''aes-256-xts'' 64 AesXtsEncrypt_fn AesXtsDecrypt_fn None r
         in r\<lparr>tde_cipher_registry_initialized := True\<rparr>))"

definition empty_registry :: cipher_registry where
  "empty_registry = \<lparr>tde_ciphers = [], tde_cipher_registry_initialized = False\<rparr>"

text \<open>The registry every caller sees: \<open>AesInit\<close> initialises it when the library is loaded.\<close>

definition ciphers :: cipher_registry where
  "ciphers = TdeCipherRegistryInit empty_registry"

definition TdeCipherByName :: "cipher_registry \<Rightarrow> string \<Rightarrow> TdeCipher option" where
  "TdeCipherByName r nm = find (\<lambda>c. tc_name c = nm) (tde_ciphers r)"

definition TdeCipherByKeyLen :: "cipher_registry \<Rightarrow> int \<Rightarrow> tde_error + TdeCipher" where
  "TdeCipherByKeyLen r key_len =
     (case find (\<lambda>c. tc_key_len c = word_of_int key_len \<and> keystream c \<noteq> None) (tde_ciphers r) of
        None \<Rightarrow> Inl (E_no_keystream_cipher key_len) | Some c \<Rightarrow> Inr c)"

definition TdeCipherById :: "cipher_registry \<Rightarrow> u32 \<Rightarrow> tde_error + TdeCipher" where
  "TdeCipherById r i =
     (case find (\<lambda>c. tc_id c = i) (tde_ciphers r) of None \<Rightarrow> Inl (E_no_cipher_id i) | Some c \<Rightarrow> Inr c)"

lemma registry_init_idem: "TdeCipherRegistryInit (TdeCipherRegistryInit r) = TdeCipherRegistryInit r"
  by (simp add: TdeCipherRegistryInit_def Let_def)

lemmas registry_defs = ciphers_def TdeCipherRegistryInit_def empty_registry_def register_cipher_def
  TdeCipherById_def TdeCipherByKeyLen_def TdeCipherByName_def cipher_ids

lemma tde_ciphers_ciphers:
  "tde_ciphers ciphers =
     [\<lparr>tc_id = 0, tc_name = ''aes-128'', tc_key_len = 16, encrypt_block = AesEncrypt_fn,
        decrypt_block = AesDecrypt_fn, keystream = Some AesCtrEncryptedZeroBlocks_fn\<rparr>,
      \<lparr>tc_id = 1, tc_name = ''aes-256'', tc_key_len = 32, encrypt_block = AesEncrypt_fn,
        decrypt_block = AesDecrypt_fn, keystream = Some AesCtrEncryptedZeroBlocks_fn\<rparr>,
      \<lparr>tc_id = 2, tc_name = ''aes-128-xts'', tc_key_len = 32, encrypt_block = AesXtsEncrypt_fn,
        decrypt_block = AesXtsDecrypt_fn, keystream = None\<rparr>,
      \<lparr>tc_id = 3, tc_name = ''aes-256-xts'', tc_key_len = 64, encrypt_block = AesXtsEncrypt_fn,
        decrypt_block = AesXtsDecrypt_fn, keystream = None\<rparr>]"
  by (simp add: ciphers_def TdeCipherRegistryInit_def empty_registry_def register_cipher_def
      cipher_ids Let_def)

section \<open>Cached cipher contexts\<close>

definition EVP_MAX_KEY_LENGTH :: int where "EVP_MAX_KEY_LENGTH = 64"

definition new_ctx_cache :: "evp_cipher \<Rightarrow> AesCtxCache" where
  "new_ctx_cache c = \<lparr>cc_cipher = c, cc_ctx = [EvpInit None None 1], cc_key = zeros 64,
     cc_key_len = 0, cc_enc = -1\<rparr>"

definition AesCbcInitCtx :: "env \<Rightarrow> evp_cipher \<Rightarrow> tde_error + AesCtxCache" where
  "AesCbcInitCtx ev c =
     (if evp_init ev c [] (EvpInit None None 1) then Inr (new_ctx_cache c) else Inl E_openssl)"

definition liftM :: "tde_error + 'a \<Rightarrow> 'a tdeM" where
  "liftM r = (case r of Inl e \<Rightarrow> throw e | Inr x \<Rightarrow> ret x)"

lemma liftM_run [simp]: "liftM (Inl e) w = (Inl e, w)" "liftM (Inr x) w = (Inr x, w)"
  by (simp_all add: liftM_def)

definition AesInit :: "env \<Rightarrow> unit tdeM" where
  "AesInit ev =
     bindM (liftM (AesCbcInitCtx ev AES_128_CBC)) (\<lambda>c1.
     seqM (modifyM (\<lambda>w. w\<lparr>ctx_cbc_128 := c1\<rparr>)) (
     bindM (liftM (AesCbcInitCtx ev AES_256_CBC)) (\<lambda>c2.
     seqM (modifyM (\<lambda>w. w\<lparr>ctx_cbc_256 := c2\<rparr>)) (
     bindM (liftM (AesCbcInitCtx ev AES_128_XTS)) (\<lambda>c3.
     seqM (modifyM (\<lambda>w. w\<lparr>ctx_xts_128 := c3\<rparr>)) (
     bindM (liftM (AesCbcInitCtx ev AES_256_XTS)) (\<lambda>c4.
     modifyM (\<lambda>w. w\<lparr>ctx_xts_256 := c4\<rparr>))))))))"

text \<open>
  \<open>aes_ctx_prepare\<close>: re-key only when the key or the direction differs from what the context
  holds, otherwise set just the IV. The calls made are recorded in the context, failed ones
  too.
\<close>

definition aes_ctx_prepare ::
  "env \<Rightarrow> AesCtxCache \<Rightarrow> int \<Rightarrow> bytes \<Rightarrow> int \<Rightarrow> bytes \<Rightarrow> (tde_error + unit) \<times> AesCtxCache"
where
  "aes_ctx_prepare ev cc enc key key_len iv =
     (if key_len < 0 \<or> EVP_MAX_KEY_LENGTH < key_len then (Inl (E_key_length key_len), cc)
      else if cc_key_len cc = key_len \<and> cc_enc cc = enc \<and>
              take (nat key_len) (cc_key cc) = take (nat key_len) key
      then
        (let call = EvpInit None (Some iv) (-1); cc' = cc\<lparr>cc_ctx := cc_ctx cc @ [call]\<rparr>
         in if evp_init ev (cc_cipher cc) (cc_ctx cc) call then (Inr (), cc') else (Inl E_openssl, cc'))
      else
        (let call = EvpInit (Some (take (nat key_len) key)) (Some iv) enc;
             cc' = cc\<lparr>cc_ctx := cc_ctx cc @ [call]\<rparr>
         in if evp_init ev (cc_cipher cc) (cc_ctx cc) call
            then (Inr (), cc'\<lparr>cc_key := overlay 64 (take (nat key_len) key) (cc_key cc),
                              cc_key_len := key_len, cc_enc := enc\<rparr>)
            else (Inl E_openssl, cc')))"

definition EVP_CipherUpdateFinal :: "env \<Rightarrow> AesCtxCache \<Rightarrow> bytes \<Rightarrow> (tde_error + bytes) \<times> AesCtxCache" where
  "EVP_CipherUpdateFinal ev cc inp =
     (case evp_run ev (cc_cipher cc) (cc_ctx cc) inp of
        None \<Rightarrow> (Inl E_openssl, cc\<lparr>cc_ctx := cc_ctx cc @ [EvpRun inp]\<rparr>)
      | Some out \<Rightarrow> (Inr out, cc\<lparr>cc_ctx := cc_ctx cc @ [EvpRun inp]\<rparr>))"

definition run_cached :: "env \<Rightarrow> AesCtxCache \<Rightarrow> int \<Rightarrow> bytes \<Rightarrow> int \<Rightarrow> bytes \<Rightarrow> bytes \<Rightarrow> (tde_error + bytes) \<times> AesCtxCache"
where
  "run_cached ev cc enc key key_len iv inp =
     (case aes_ctx_prepare ev cc enc key key_len iv of
        (Inl e, cc') \<Rightarrow> (Inl e, cc')
      | (Inr _, cc') \<Rightarrow> EVP_CipherUpdateFinal ev cc' inp)"

definition AesRunCbc :: "env \<Rightarrow> int \<Rightarrow> bytes \<Rightarrow> int \<Rightarrow> bytes \<Rightarrow> bytes \<Rightarrow> bytes tdeM" where
  "AesRunCbc ev enc key key_len iv inp w =
     (if key_len = 32
      then (case run_cached ev (ctx_cbc_256 w) enc key key_len iv inp of (r, cc) \<Rightarrow> (r, w\<lparr>ctx_cbc_256 := cc\<rparr>))
      else (case run_cached ev (ctx_cbc_128 w) enc key key_len iv inp of (r, cc) \<Rightarrow> (r, w\<lparr>ctx_cbc_128 := cc\<rparr>)))"

definition AesRunXts :: "env \<Rightarrow> int \<Rightarrow> bytes \<Rightarrow> int \<Rightarrow> bytes \<Rightarrow> bytes \<Rightarrow> bytes tdeM" where
  "AesRunXts ev enc key key_len iv inp w =
     (if key_len = 64
      then (case run_cached ev (ctx_xts_256 w) enc key key_len iv inp of (r, cc) \<Rightarrow> (r, w\<lparr>ctx_xts_256 := cc\<rparr>))
      else (case run_cached ev (ctx_xts_128 w) enc key key_len iv inp of (r, cc) \<Rightarrow> (r, w\<lparr>ctx_xts_128 := cc\<rparr>)))"

definition AesXtsEncrypt :: "env \<Rightarrow> bytes \<Rightarrow> int \<Rightarrow> bytes \<Rightarrow> bytes \<Rightarrow> bytes tdeM" where
  "AesXtsEncrypt ev key key_len iv inp = AesRunXts ev 1 key key_len iv inp"

definition AesXtsDecrypt :: "env \<Rightarrow> bytes \<Rightarrow> int \<Rightarrow> bytes \<Rightarrow> bytes \<Rightarrow> bytes tdeM" where
  "AesXtsDecrypt ev key key_len iv inp = AesRunXts ev 0 key key_len iv inp"

definition AesEncrypt :: "env \<Rightarrow> bytes \<Rightarrow> int \<Rightarrow> bytes \<Rightarrow> bytes \<Rightarrow> bytes tdeM" where
  "AesEncrypt ev key key_len iv inp = AesRunCbc ev 1 key key_len iv inp"

definition AesDecrypt :: "env \<Rightarrow> bytes \<Rightarrow> int \<Rightarrow> bytes \<Rightarrow> bytes \<Rightarrow> bytes tdeM" where
  "AesDecrypt ev key key_len iv inp = AesRunCbc ev 0 key key_len iv inp"

definition call_block :: "env \<Rightarrow> block_fn \<Rightarrow> bytes \<Rightarrow> int \<Rightarrow> bytes \<Rightarrow> bytes \<Rightarrow> bytes tdeM" where
  "call_block ev f = (case f of
       AesEncrypt_fn \<Rightarrow> AesEncrypt ev | AesDecrypt_fn \<Rightarrow> AesDecrypt ev
     | AesXtsEncrypt_fn \<Rightarrow> AesXtsEncrypt ev | AesXtsDecrypt_fn \<Rightarrow> AesXtsDecrypt ev)"

section \<open>Sealing with GCM\<close>

definition AesGcmEncrypt :: "env \<Rightarrow> bytes \<Rightarrow> bytes \<Rightarrow> bytes \<Rightarrow> bytes \<Rightarrow> (bytes \<times> bytes) tdeM" where
  "AesGcmEncrypt ev key iv aad inp =
     (case gcm_encrypt ev key iv aad inp of None \<Rightarrow> throw E_openssl | Some r \<Rightarrow> ret r)"

text \<open>\<open>None\<close> is the C function's \<open>false\<close>: the tag did not verify.\<close>

definition AesGcmDecrypt :: "env \<Rightarrow> bytes \<Rightarrow> bytes \<Rightarrow> bytes \<Rightarrow> bytes \<Rightarrow> bytes \<Rightarrow> bytes option tdeM" where
  "AesGcmDecrypt ev key iv aad inp tag =
     (case gcm_decrypt ev key iv aad inp tag of
        GcmError \<Rightarrow> throw E_openssl | GcmBadTag \<Rightarrow> ret None | GcmOk pt \<Rightarrow> ret (Some pt))"

section \<open>The CTR keystream\<close>

text \<open>
  \<open>AesEcbEncrypt\<close>: the context pointer is either NULL, and then a context is created for the
  key, or a context keyed earlier, and then the key argument is not looked at.
\<close>

definition AesEcbEncrypt :: "env \<Rightarrow> bytes option \<Rightarrow> bytes \<Rightarrow> bytes \<Rightarrow> (tde_error + bytes) \<times> bytes option" where
  "AesEcbEncrypt ev ctx key inp =
     (let k = (case ctx of None \<Rightarrow> key | Some k \<Rightarrow> k)
      in case ecb_encrypt ev k inp of None \<Rightarrow> (Inl E_openssl, Some k) | Some out \<Rightarrow> (Inr out, Some k))"

text \<open>
  The loop \<open>for (int32 j = blockNumber1; j < blockNumber2; ++j)\<close>: a 32-bit counter compared,
  after sign extension, with a 64-bit bound. Each block is the first twelve bytes of the IV
  prefix and the counter in the byte order of the machine.
\<close>

definition inc32 :: "int \<Rightarrow> int" where
  "inc32 j = (if j = 2 ^ 31 - 1 then - (2 ^ 31) else j + 1)"

lemma inc32_mod:
  assumes "j mod 2 ^ 64 < b" and "b < (2 ^ 64 :: int)"
  shows "j mod 2 ^ 64 < inc32 j mod 2 ^ 64"
proof (cases "j = 2 ^ 31 - 1")
  case True
  then show ?thesis by (simp add: inc32_def)
next
  case False
  have "j mod 2 ^ 64 + 1 < 2 ^ 64" using assms by simp
  moreover have "0 \<le> j mod 2 ^ 64" by simp
  ultimately have "(j mod 2 ^ 64 + 1) mod 2 ^ 64 = j mod 2 ^ 64 + 1"
    by (intro mod_pos_pos_trivial) auto
  then have "(j + 1) mod 2 ^ 64 = j mod 2 ^ 64 + 1" by (simp only: mod_add_left_eq)
  with False show ?thesis by (simp add: inc32_def)
qed

function ctr_blocks :: "bytes \<Rightarrow> int \<Rightarrow> u64 \<Rightarrow> bytes list" where
  "ctr_blocks iv_prefix j blockNumber2 =
     (if j mod 2 ^ 64 < uint blockNumber2
      then (take 12 iv_prefix @ le32 (word_of_int j)) # ctr_blocks iv_prefix (inc32 j) blockNumber2
      else [])"
  by pat_completeness auto
termination
proof (relation "measure (\<lambda>(p, j, b2). nat (uint b2 - j mod 2 ^ 64))", goal_cases)
  case 1
  show ?case by simp
next
  case (2 p j b2)
  have "uint b2 < 2 ^ 64" using uint_bounded [of b2] by simp
  from inc32_mod [OF 2 this] 2 show ?case by simp
qed

declare ctr_blocks.simps [simp del]

definition AesCtrEncryptedZeroBlocks ::
  "env \<Rightarrow> bytes option \<Rightarrow> bytes \<Rightarrow> bytes \<Rightarrow> u64 \<Rightarrow> u64 \<Rightarrow> (tde_error + bytes) \<times> bytes option"
where
  "AesCtrEncryptedZeroBlocks ev ctx key iv_prefix b1 b2 =
     AesEcbEncrypt ev ctx key (concat (ctr_blocks iv_prefix (signed_take_bit 31 (uint b1)) b2))"

definition call_keystream ::
  "env \<Rightarrow> keystream_fn \<Rightarrow> bytes option \<Rightarrow> bytes \<Rightarrow> bytes \<Rightarrow> u64 \<Rightarrow> u64 \<Rightarrow> (tde_error + bytes) \<times> bytes option"
where
  "call_keystream ev f = (case f of AesCtrEncryptedZeroBlocks_fn \<Rightarrow> AesCtrEncryptedZeroBlocks ev)"

text \<open>One counter block, and the keystream byte that belongs to a position of the stream.\<close>

definition ctr_block :: "bytes \<Rightarrow> nat \<Rightarrow> bytes" where
  "ctr_block iv_prefix i = take 12 iv_prefix @ le32 (of_nat i)"

definition ks_byte :: "(bytes \<Rightarrow> bytes \<Rightarrow> bytes) \<Rightarrow> bytes \<Rightarrow> bytes \<Rightarrow> nat \<Rightarrow> byte" where
  "ks_byte F key iv_prefix pos = F key (ctr_block iv_prefix (pos div 16)) ! (pos mod 16)"

lemma ctr_blocks_eq:
  assumes "n < 2 ^ 31" and "unat b2 = n" and "i \<le> n"
  shows "ctr_blocks iv_prefix (int i) b2 = map (ctr_block iv_prefix) [i..<n]"
  using assms
proof (induction "n - i" arbitrary: i)
  case 0
  then have "i = n" by simp
  with 0 show ?case by (subst ctr_blocks.simps) (simp add: uint_nat)
next
  case (Suc k)
  then have lt: "i < n" by simp
  have m: "int i mod 2 ^ 64 = int i" using lt Suc.prems(1) by simp
  have inc: "inc32 (int i) = int (Suc i)" using lt Suc.prems(1) by (simp add: inc32_def)
  have IH: "ctr_blocks iv_prefix (int (Suc i)) b2 = map (ctr_block iv_prefix) [Suc i..<n]"
    using Suc by (intro Suc.hyps(1)) auto
  have "ctr_blocks iv_prefix (int i) b2 = ctr_block iv_prefix i # ctr_blocks iv_prefix (int (Suc i)) b2"
    using lt Suc.prems(2) m inc by (subst ctr_blocks.simps) (simp add: ctr_block_def uint_nat)
  with IH lt show ?case by (simp add: upt_conv_Cons)
qed

section \<open>Documented behaviour of OpenSSL's block modes\<close>

text \<open>
  In ECB mode without padding every 16-byte block is mapped by the same keyed permutation
  \<open>F\<close>, whatever was encrypted with the context before.
\<close>

definition ecb_is :: "env \<Rightarrow> (bytes \<Rightarrow> bytes \<Rightarrow> bytes) \<Rightarrow> bool" where
  "ecb_is ev F \<longleftrightarrow>
     (\<forall>k bs. (\<forall>b\<in>set bs. length b = 16) \<longrightarrow> ecb_encrypt ev k (concat bs) = Some (concat (map (F k) bs))) \<and>
     (\<forall>k b. length b = 16 \<longrightarrow> length (F k b) = 16)"

text \<open>
  A context runs with the key and direction last given to it and with the IV of the
  latest initialisation; \<open>E\<close> is the cipher as a function of these.
\<close>

fun eff_key :: "evp_call list \<Rightarrow> bytes option" where
  "eff_key [] = None"
| "eff_key (EvpInit (Some k) iv e # cs) = (case eff_key cs of None \<Rightarrow> Some k | Some k' \<Rightarrow> Some k')"
| "eff_key (c # cs) = eff_key cs"

fun eff_enc :: "evp_call list \<Rightarrow> int option" where
  "eff_enc [] = None"
| "eff_enc (EvpInit k iv e # cs) = (case eff_enc cs of None \<Rightarrow> (if e = -1 then None else Some e) | Some x \<Rightarrow> Some x)"
| "eff_enc (EvpRun i # cs) = eff_enc cs"

definition evp_is :: "env \<Rightarrow> (evp_cipher \<Rightarrow> int \<Rightarrow> bytes \<Rightarrow> bytes \<Rightarrow> bytes \<Rightarrow> bytes option) \<Rightarrow> bool" where
  "evp_is ev E \<longleftrightarrow>
     (\<forall>c h call. evp_init ev c h call) \<and>
     (\<forall>c h ko iv e k d inp.
        eff_key (h @ [EvpInit ko (Some iv) e]) = Some k \<longrightarrow>
        eff_enc (h @ [EvpInit ko (Some iv) e]) = Some d \<longrightarrow>
        evp_run ev c (h @ [EvpInit ko (Some iv) e]) inp = E c d k iv inp)"

lemma eff_key_snoc_run [simp]: "eff_key (h @ [EvpRun i]) = eff_key h"
  by (induction h rule: eff_key.induct) auto

lemma eff_enc_snoc_run [simp]: "eff_enc (h @ [EvpRun i]) = eff_enc h"
  by (induction h rule: eff_enc.induct) auto

lemma eff_key_snoc_init:
  "eff_key (h @ [EvpInit ko iv e]) = (case ko of None \<Rightarrow> eff_key h | Some k \<Rightarrow> Some k)"
  by (induction h rule: eff_key.induct) (auto split: option.splits)

lemma eff_enc_snoc_init:
  "eff_enc (h @ [EvpInit ko iv e]) = (if e = -1 then eff_enc h else Some e)"
  by (induction h rule: eff_enc.induct) auto

section \<open>The context cache is transparent\<close>

text \<open>A loaded context really holds the key and direction the cache says it holds.\<close>

definition ctx_inv :: "AesCtxCache \<Rightarrow> bool" where
  "ctx_inv cc \<longleftrightarrow> length (cc_key cc) = 64 \<and>
     (cc_enc cc \<noteq> -1 \<longrightarrow>
        eff_key (cc_ctx cc) = Some (take (nat (cc_key_len cc)) (cc_key cc)) \<and>
        eff_enc (cc_ctx cc) = Some (cc_enc cc))"

lemma ctx_inv_new: "ctx_inv (new_ctx_cache c)"
  by (simp add: ctx_inv_def new_ctx_cache_def)

lemma aes_ctx_prepare_ok:
  assumes inv: "ctx_inv cc" and ev: "evp_is ev E" and len: "0 \<le> key_len" "key_len \<le> 64"
    and enc: "enc \<noteq> -1" and key: "length key = nat key_len"
  shows "\<exists>cc' ko e. aes_ctx_prepare ev cc enc key key_len iv = (Inr (), cc') \<and> ctx_inv cc' \<and>
     cc_cipher cc' = cc_cipher cc \<and> cc_ctx cc' = cc_ctx cc @ [EvpInit ko (Some iv) e] \<and>
     eff_key (cc_ctx cc') = Some key \<and> eff_enc (cc_ctx cc') = Some enc"
proof (cases "cc_key_len cc = key_len \<and> cc_enc cc = enc \<and> take (nat key_len) (cc_key cc) = take (nat key_len) key")
  case True
  have "take (nat key_len) key = key" using key by simp
  moreover have "eff_key (cc_ctx cc) = Some key" "eff_enc (cc_ctx cc) = Some enc"
    using True inv enc key by (auto simp: ctx_inv_def)
  ultimately show ?thesis
    using True ev len inv enc key
    by (auto simp: aes_ctx_prepare_def Let_def EVP_MAX_KEY_LENGTH_def evp_is_def ctx_inv_def
        eff_key_snoc_init eff_enc_snoc_init)
next
  case False
  have k: "take (nat key_len) key = key" using key by simp
  have ov: "length (overlay 64 key (cc_key cc)) = 64" "take (nat key_len) (overlay 64 key (cc_key cc)) = key"
    using inv key len take_overlay [of key 64 "cc_key cc"]
    by (simp_all add: length_overlay ctx_inv_def)
  show ?thesis
    using False ev len inv enc k ov
    by (auto simp: aes_ctx_prepare_def Let_def EVP_MAX_KEY_LENGTH_def evp_is_def ctx_inv_def
        eff_key_snoc_init eff_enc_snoc_init)
qed

lemma run_cached_transparent:
  assumes "ctx_inv cc" and ev: "evp_is ev E" and "0 \<le> key_len" "key_len \<le> 64"
    and "enc \<noteq> -1" and "length key = nat key_len"
  shows "\<exists>cc'. run_cached ev cc enc key key_len iv inp =
      ((case E (cc_cipher cc) enc key iv inp of None \<Rightarrow> Inl E_openssl | Some out \<Rightarrow> Inr out), cc') \<and>
      ctx_inv cc' \<and> cc_cipher cc' = cc_cipher cc"
proof -
  obtain cc' ko e where p: "aes_ctx_prepare ev cc enc key key_len iv = (Inr (), cc')" "ctx_inv cc'"
      "cc_cipher cc' = cc_cipher cc" "cc_ctx cc' = cc_ctx cc @ [EvpInit ko (Some iv) e]"
      "eff_key (cc_ctx cc') = Some key" "eff_enc (cc_ctx cc') = Some enc"
    using aes_ctx_prepare_ok [OF assms(1-6)] by blast
  have run: "evp_run ev (cc_cipher cc') (cc_ctx cc') inp = E (cc_cipher cc) enc key iv inp"
    using ev p by (auto simp: evp_is_def)
  have inv: "ctx_inv (cc'\<lparr>cc_ctx := cc_ctx cc' @ [EvpRun inp]\<rparr>)"
    using p(2) by (simp add: ctx_inv_def)
  show ?thesis
    using p(1,3) run inv
    by (auto simp: run_cached_def EVP_CipherUpdateFinal_def split: option.splits)
qed

definition ctxs_inv :: "world \<Rightarrow> bool" where
  "ctxs_inv w \<longleftrightarrow>
     ctx_inv (ctx_cbc_128 w) \<and> cc_cipher (ctx_cbc_128 w) = AES_128_CBC \<and>
     ctx_inv (ctx_cbc_256 w) \<and> cc_cipher (ctx_cbc_256 w) = AES_256_CBC \<and>
     ctx_inv (ctx_xts_128 w) \<and> cc_cipher (ctx_xts_128 w) = AES_128_XTS \<and>
     ctx_inv (ctx_xts_256 w) \<and> cc_cipher (ctx_xts_256 w) = AES_256_XTS"

lemma AesInit_ctxs_inv:
  assumes "AesInit ev w = (Inr (), w')"
  shows "ctxs_inv w'"
  using assms ctx_inv_new
  by (auto simp: AesInit_def AesCbcInitCtx_def bindM_eq_Inr seqM_eq_Inr ctxs_inv_def new_ctx_cache_def
      split: if_splits)

definition cbc_of :: "int \<Rightarrow> evp_cipher" where
  "cbc_of key_len = (if key_len = 32 then AES_256_CBC else AES_128_CBC)"

definition xts_of :: "int \<Rightarrow> evp_cipher" where
  "xts_of key_len = (if key_len = 64 then AES_256_XTS else AES_128_XTS)"

text \<open>
  The page operations, as functions of key, IV and data alone: which contexts were used
  before and with which keys does not show.
\<close>

definition evp_result :: "bytes option \<Rightarrow> tde_error + bytes" where
  "evp_result r = (case r of None \<Rightarrow> Inl E_openssl | Some out \<Rightarrow> Inr out)"

lemma AesRunCbc_transparent:
  assumes inv: "ctxs_inv w" and ev: "evp_is ev E" and "0 \<le> key_len" "key_len \<le> 64"
    and "enc \<noteq> -1" and "length key = nat key_len"
  shows "\<exists>w'. AesRunCbc ev enc key key_len iv inp w = (evp_result (E (cbc_of key_len) enc key iv inp), w') \<and>
     ctxs_inv w' \<and> disk w' = disk w \<and> pk_cache w' = pk_cache w \<and> xlog w' = xlog w"
proof -
  have "ctx_inv (ctx_cbc_256 w)" "ctx_inv (ctx_cbc_128 w)"
    and c: "cc_cipher (ctx_cbc_256 w) = AES_256_CBC" "cc_cipher (ctx_cbc_128 w) = AES_128_CBC"
    using inv by (simp_all add: ctxs_inv_def)
  note run = this(1,2) [THEN run_cached_transparent, OF ev assms(3-6), of iv inp]
  show ?thesis
    using run inv c
    by (cases "key_len = 32") (auto simp: AesRunCbc_def cbc_of_def ctxs_inv_def evp_result_def)
qed

lemma AesRunXts_transparent:
  assumes inv: "ctxs_inv w" and ev: "evp_is ev E" and "0 \<le> key_len" "key_len \<le> 64"
    and "enc \<noteq> -1" and "length key = nat key_len"
  shows "\<exists>w'. AesRunXts ev enc key key_len iv inp w = (evp_result (E (xts_of key_len) enc key iv inp), w') \<and>
     ctxs_inv w' \<and> disk w' = disk w \<and> pk_cache w' = pk_cache w \<and> xlog w' = xlog w"
proof -
  have "ctx_inv (ctx_xts_256 w)" "ctx_inv (ctx_xts_128 w)"
    and c: "cc_cipher (ctx_xts_256 w) = AES_256_XTS" "cc_cipher (ctx_xts_128 w) = AES_128_XTS"
    using inv by (simp_all add: ctxs_inv_def)
  note run = this(1,2) [THEN run_cached_transparent, OF ev assms(3-6), of iv inp]
  show ?thesis
    using run inv c
    by (cases "key_len = 64") (auto simp: AesRunXts_def xts_of_def ctxs_inv_def evp_result_def)
qed

section \<open>The keystream of a run of blocks\<close>

lemma length_ctr_block: "12 \<le> length iv_prefix \<Longrightarrow> length (ctr_block iv_prefix i) = 16"
  by (simp add: ctr_block_def)

lemma signed_take_bit_small: "0 \<le> x \<Longrightarrow> x < 2 ^ 31 \<Longrightarrow> signed_take_bit 31 (x :: int) = x"
  by (simp add: signed_take_bit_int_eq_self)

lemma AesCtrEncryptedZeroBlocks_ok:
  assumes ev: "ecb_is ev F" and iv: "12 \<le> length iv_prefix"
    and b: "unat b1 \<le> unat b2" "unat b2 < 2 ^ 31" and ctx: "ctx = None \<or> ctx = Some key"
  shows "AesCtrEncryptedZeroBlocks ev ctx key iv_prefix b1 b2 =
     (Inr (concat (map (\<lambda>i. F key (ctr_block iv_prefix i)) [unat b1..<unat b2])), Some key)"
proof -
  have "signed_take_bit 31 (uint b1) = int (unat b1)"
    unfolding uint_nat
  proof (rule signed_take_bit_small)
    have "unat b1 < 2 ^ 31" using b by (rule le_less_trans)
    then show "int (unat b1) < 2 ^ 31" by (metis of_nat_less_iff of_nat_numeral of_nat_power)
  qed simp
  then have "ctr_blocks iv_prefix (signed_take_bit 31 (uint b1)) b2
      = map (ctr_block iv_prefix) [unat b1..<unat b2]"
    using b ctr_blocks_eq [of "unat b2" b2 "unat b1" iv_prefix] by simp
  moreover have "\<forall>x\<in>set (map (ctr_block iv_prefix) [unat b1..<unat b2]). length x = 16"
    using iv by (simp add: length_ctr_block)
  ultimately have "ecb_encrypt ev key (concat (ctr_blocks iv_prefix (signed_take_bit 31 (uint b1)) b2))
      = Some (concat (map (F key) (map (ctr_block iv_prefix) [unat b1..<unat b2])))"
    using ev by (simp add: ecb_is_def)
  then show ?thesis
    using ctx by (auto simp: AesCtrEncryptedZeroBlocks_def AesEcbEncrypt_def comp_def)
qed

text \<open>The concatenated blocks are the keystream bytes of consecutive positions.\<close>

lemma concat_blocks_ks:
  assumes "\<And>i. length (F key (ctr_block iv_prefix i)) = 16" and "a \<le> b"
  shows "concat (map (\<lambda>i. F key (ctr_block iv_prefix i)) [a..<b]) = map (ks_byte F key iv_prefix) [16 * a..<16 * b]"
  using assms(2)
proof (induction b rule: dec_induct)
  case base
  show ?case by simp
next
  case (step n)
  have blk: "map (ks_byte F key iv_prefix) [16 * n..<16 * Suc n] = F key (ctr_block iv_prefix n)"
  proof (rule nth_equalityI)
    show "length (map (ks_byte F key iv_prefix) [16 * n..<16 * Suc n]) = length (F key (ctr_block iv_prefix n))"
      by (simp add: assms(1))
    fix i assume "i < length (map (ks_byte F key iv_prefix) [16 * n..<16 * Suc n])"
    then have "i < 16" by simp
    then show "map (ks_byte F key iv_prefix) [16 * n..<16 * Suc n] ! i = F key (ctr_block iv_prefix n) ! i"
      by (simp add: ks_byte_def)
  qed
  have "[16 * a..<16 * Suc n] = [16 * a..<16 * n] @ [16 * n..<16 * Suc n]"
    using step.hyps upt_add_eq_append [of "16 * a" "16 * n" 16] by (simp add: algebra_simps)
  with step.IH step.hyps blk show ?case by simp
qed

end
