(* ===== verification/Tde_Instance.thy ===== *)
theory Tde_Instance
  imports Tde_Cipher
begin

text \<open>
  A concrete environment that meets the documented behaviour the development relies on: a
  byte-rotating block cipher, a XOR page cipher and a checksum seal. It stands for no real
  cryptography; it shows that the hypotheses can hold together and it is what the witnesses
  compute with.
\<close>

definition demo_pad :: "bytes \<Rightarrow> bytes \<Rightarrow> nat \<Rightarrow> byte" where
  "demo_pad k iv i = xor (if k = [] then 0 else k ! (i mod length k)) (if iv = [] then 0 else iv ! (i mod length iv))"

definition demo_mask :: "bytes \<Rightarrow> bytes \<Rightarrow> bytes \<Rightarrow> bytes" where
  "demo_mask k iv d = map2 xor d (map (demo_pad k iv) [0..<length d])"

definition demo_E :: "evp_cipher \<Rightarrow> int \<Rightarrow> bytes \<Rightarrow> bytes \<Rightarrow> bytes \<Rightarrow> bytes option" where
  "demo_E c d k iv inp = Some (demo_mask k iv inp)"

definition demo_iv :: "evp_call list \<Rightarrow> bytes" where
  "demo_iv h = (case last h of EvpInit _ (Some iv) _ \<Rightarrow> iv | _ \<Rightarrow> [])"

definition demo_evp_run :: "evp_cipher \<Rightarrow> evp_call list \<Rightarrow> bytes \<Rightarrow> bytes option" where
  "demo_evp_run c h inp =
     (case eff_key h of None \<Rightarrow> None | Some k \<Rightarrow>
        (case eff_enc h of None \<Rightarrow> None | Some d \<Rightarrow> demo_E c d k (demo_iv h) inp))"

definition demo_F :: "bytes \<Rightarrow> bytes \<Rightarrow> bytes" where
  "demo_F k b = map (\<lambda>x. x + sum_list k + 1) b"

definition demo_ecb :: "bytes \<Rightarrow> bytes \<Rightarrow> bytes option" where
  "demo_ecb k inp = Some (demo_F k inp)"

definition demo_tag :: "bytes \<Rightarrow> bytes \<Rightarrow> bytes \<Rightarrow> bytes \<Rightarrow> bytes" where
  "demo_tag k iv aad pt = fit 16 [sum_list k, sum_list iv, sum_list aad, sum_list pt]"

definition demo_seal :: "bytes \<Rightarrow> bytes \<Rightarrow> bytes \<Rightarrow> bytes \<Rightarrow> (bytes \<times> bytes) option" where
  "demo_seal k iv aad pt = Some (demo_mask k iv pt, demo_tag k iv aad pt)"

definition demo_open :: "bytes \<Rightarrow> bytes \<Rightarrow> bytes \<Rightarrow> bytes \<Rightarrow> bytes \<Rightarrow> gcm_result" where
  "demo_open k iv aad ct tag =
     (let pt = demo_mask k iv ct in if demo_tag k iv aad pt = tag then GcmOk pt else GcmBadTag)"

text \<open>The block that the last call to write it wrote; \<open>l\<close> lists the calls, the last one first.\<close>

fun demo_md_read :: "md_call list \<Rightarrow> RelFileLocatorBackend \<Rightarrow> ForkNumber \<Rightarrow> u32 \<Rightarrow> bytes" where
  "demo_md_read [] r f b = zeros 8192"
| "demo_md_read (MdExtend r' f' b' d s # l) r f b = (if r' = r \<and> f' = f \<and> b' = b then d else demo_md_read l r f b)"
| "demo_md_read (MdWritev r' f' b' ds s # l) r f b =
     (if r' = r \<and> f' = f \<and> unat (b - b') < length ds then ds ! unat (b - b') else demo_md_read l r f b)"
| "demo_md_read (_ # l) r f b = demo_md_read l r f b"

text \<open>
  A key server that answers a read with the last body written under the same path, a reader that knows the one kind of
  document these bodies are, and an encoding with two letters for a byte.
\<close>

definition demo_quote :: bytes where
  "demo_quote = [123, 34, 100, 97, 116, 97, 34, 58, 123, 34, 107, 101, 121, 34, 58, 34]"

definition demo_data :: bytes where "demo_data = [100, 97, 116, 97]"

definition demo_json :: "bytes \<Rightarrow> json_event list \<times> bool" where
  "demo_json b =
     (if take 16 b = demo_quote then
        ([JsObjectStart, JsField demo_data, JsObjectStart, JsField demo_data, JsObjectStart, JsField [107, 101, 121],
          JsScalar JSON_TOKEN_STRING (take (length b - 19) (drop 16 b)), JsObjectEnd, JsObjectEnd, JsObjectEnd], True)
      else ([JsObjectStart, JsField [112, 97, 116, 104], JsScalar JSON_TOKEN_STRING b], True))"

definition demo_url :: "curl_opt list \<Rightarrow> bytes" where
  "demo_url opts = concat (map (\<lambda>opt. case opt of CURLOPT_URL u \<Rightarrow> u | _ \<Rightarrow> []) opts)"

definition demo_body :: "curl_opt list \<Rightarrow> bytes" where
  "demo_body opts = concat (map (\<lambda>opt. case opt of CURLOPT_POSTFIELDS d \<Rightarrow> d | _ \<Rightarrow> []) opts)"

definition demo_http :: "curl_opt list list \<Rightarrow> curl_opt list \<Rightarrow> (int \<times> bytes list) option" where
  "demo_http l opts =
     (if demo_body opts \<noteq> [] then Some (204, [])
      else case map_of (rev (map (\<lambda>r. (demo_url r, demo_body r)) l)) (demo_url opts) of
             None \<Rightarrow> Some (404, [])
           | Some b \<Rightarrow> Some (200, [b]))"

definition demo_b64 :: "bytes \<Rightarrow> nat \<Rightarrow> bytes option" where
  "demo_b64 d n = (if 2 * length d \<le> n then Some (concat (map (\<lambda>b. [97 + b div 16, 97 + b mod 16]) d)) else None)"

fun demo_pairs :: "bytes \<Rightarrow> bytes" where
  "demo_pairs (a # b # r) = (16 * (a - 97) + (b - 97)) # demo_pairs r"
| "demo_pairs _ = []"

definition demo_unb64 :: "bytes \<Rightarrow> nat \<Rightarrow> bytes option" where
  "demo_unb64 d n = (if length d \<le> 2 * n then Some (demo_pairs d) else None)"

text \<open>A KMIP server that numbers the keys it holds.\<close>

fun demo_ids :: "byte \<Rightarrow> (bytes \<times> bytes) list \<Rightarrow> bytes \<Rightarrow> bytes list" where
  "demo_ids j [] n = []"
| "demo_ids j ((m, k) # l) n = (if m = n then [[j]] else []) @ demo_ids (j + 1) l n"

fun demo_kmip_get :: "byte \<Rightarrow> (bytes \<times> bytes) list \<Rightarrow> bytes \<Rightarrow> int \<times> bytes" where
  "demo_kmip_get j [] i = (1, [])"
| "demo_kmip_get j ((m, k) # l) i = (if i = [j] then (0, k) else demo_kmip_get (j + 1) l i)"

definition demo_env :: env where
  "demo_env = \<lparr>data_dir = ''pg_tde'', gcm_encrypt = demo_seal, gcm_decrypt = demo_open,
     evp_init = (\<lambda>_ _ _. True), evp_run = demo_evp_run, ecb_encrypt = demo_ecb,
     rand_bytes = (\<lambda>i n. Some (replicate n (of_nat (i + 1)))), uninit = (\<lambda>n. replicate n 170),
     gettimeofday = (\<lambda>i. (of_nat i, 0)), guc_Cipher = 0, guc_DataCipher = -1, guc_KeyLength = 16,
     AllowInheritGlobalProviders = True, superuser = True, MyDatabaseId = 5,
     pg_database = [1, 4, 5], IsBinaryUpgrade = False,
     json_parse = demo_json,
     curl_easy_init = True, curl_easy_setopt = (\<lambda>_. True), http_response = demo_http,
     pg_b64_encode = demo_b64, pg_b64_decode = demo_unb64, ssl_ok = (\<lambda>_ _. True),
     kmip_register_symmetric_key = (\<lambda>_ _ _. 0), kmip_locate = (\<lambda>l n. (0, demo_ids 1 l n)),
     kmip_get_symmetric_key = (\<lambda>l i. demo_kmip_get 1 l i), FRONTEND = False,
     mlock_ok = True, aes_128_ctr = (\<lambda>k iv d. Some (demo_mask k iv d)),
     IsCatalogRelationOid = (\<lambda>r. r < 12000), CrashRecovery = False, IsUnderPostmaster = False,
     EnforceEncryption = False, default_table_access_method = ''heap'',
     GetCurrentFullTransactionId = 700, GetCurrentFullTransactionIdIfAny = 700,
     md_error = (\<lambda>_ _. None), md_read = (\<lambda>l r f b. demo_md_read (rev l) r f b)\<rparr>"

definition demo_key0 :: InternalKey where
  "demo_key0 = \<lparr>ik_key_len = 0, ik_cipher = 0, ik_base_iv = zeros 16, ik_key = zeros 64\<rparr>"

definition demo_world :: world where
  "demo_world = \<lparr>disk = (\<lambda>_. None), io = [], rng = 0, xlog = [], pk_cache = (\<lambda>_. None),
     ctx_cbc_128 = new_ctx_cache AES_128_CBC, ctx_cbc_256 = new_ctx_cache AES_256_CBC,
     ctx_xts_128 = new_ctx_cache AES_128_XTS, ctx_xts_256 = new_ctx_cache AES_256_XTS,
     tde_wal_key_cache = [], enc_key_tli = 0, enc_key_lsn = 0,
     CurrentWalEncryptionRange = \<lparr>wr_type = 0, wr_key = demo_key0, wr_start = WalLocation 0 0, wr_end = WalLocation 0 0\<rparr>,
     EncryptionCryptCtx = None, TempRelKeys = (\<lambda>_. None), tde_io_handle_keys = (\<lambda>_. demo_key0),
     tempfile_keys = None, ddlEventStackTid = 0, ddlEventStack = [],
     smgr_relns = (\<lambda>_. \<lparr>smgr_rlocator = \<lparr>locator = \<lparr>spcOid = 1663, dbOid = 5, relNumber = 16384\<rparr>, backend = -1\<rparr>,
       smgr_which = 1, encryption_status = RELATION_ENCRYPTION_UNKNOWN, relKey = demo_key0\<rparr>),
     md_log = [], aio_tde_callback = (\<lambda>_. False), http_log = [], kmip_log = []\<rparr>"

lemma demo_json_short [simp]:
  "length b < 16 \<Longrightarrow> demo_json b = ([JsObjectStart, JsField [112, 97, 116, 104], JsScalar JSON_TOKEN_STRING b], True)"
  by (auto simp: demo_json_def demo_quote_def dest: arg_cong [where f = length])

lemma demo_mask_nth: "i < length d \<Longrightarrow> demo_mask k iv d ! i = xor (d ! i) (demo_pad k iv i)"
  by (simp add: demo_mask_def)

lemma length_demo_mask [simp]: "length (demo_mask k iv d) = length d"
  by (simp add: demo_mask_def)

lemma demo_mask_twice [simp]: "demo_mask k iv (demo_mask k iv d) = d"
  by (rule nth_equalityI) (simp_all add: demo_mask_nth xor.assoc)

lemma demo_iv_last: "demo_iv (h @ [EvpInit ko (Some iv) e]) = iv"
  by (simp add: demo_iv_def)

lemma demo_gcm_ok: "gcm_ok demo_env"
  unfolding gcm_ok_def
  by (auto simp: demo_env_def demo_seal_def demo_open_def Let_def demo_tag_def split: if_splits)

lemma demo_rand_ok: "rand_ok demo_env"
  by (simp add: rand_ok_def demo_env_def)

lemma demo_evp_is: "evp_is demo_env demo_E"
  by (simp add: evp_is_def demo_env_def demo_evp_run_def demo_iv_last)

lemma demo_ecb_is: "ecb_is demo_env demo_F"
  by (simp add: ecb_is_def demo_env_def demo_ecb_def demo_F_def [abs_def] map_concat comp_def)

lemma demo_ctxs_inv: "ctxs_inv demo_world"
  by (simp add: ctxs_inv_def demo_world_def ctx_inv_new) (simp add: new_ctx_cache_def)

end
