(* ===== verification/Tde_Enc.thy ===== *)
theory Tde_Enc
  imports Tde_Instance
begin

text \<open>
  Encryption of data (\<open>encryption/enc_tde.c\<close>): generation of internal keys, the position-keyed
  stream cipher used for WAL and temporary files, and the page cipher used for relation
  files. Proved here: the batched stream loop computes the bytewise reference, with or
  without aliased buffers; the IV of a page determines fork and block; pages round-trip.
\<close>

section \<open>Internal keys\<close>

definition open_pg_tde_cipher_key_length :: "u32 \<Rightarrow> tde_error + u32" where
  "open_pg_tde_cipher_key_length c =
     (if c = CIPHER_AES_128 then Inr (of_nat KEY_DATA_SIZE_128)
      else if c = CIPHER_AES_256 then Inr (of_nat KEY_DATA_SIZE_256)
      else if c = CIPHER_AES_128_XTS then Inr (of_nat KEY_DATA_SIZE_256)
      else if c = CIPHER_AES_256_XTS then Inr (of_nat (2 * KEY_DATA_SIZE_256))
      else Inl (E_unknown_cipher c))"

definition open_pg_tde_generate_internal_key :: "env \<Rightarrow> u32 \<Rightarrow> InternalKey tdeM" where
  "open_pg_tde_generate_internal_key ev c =
     bindM (liftM (open_pg_tde_cipher_key_length c)) (\<lambda>key_len.
     bindM (RAND_bytes ev (unat key_len)) (\<lambda>k.
     bindM (RAND_bytes ev INTERNAL_KEY_IV_LEN) (\<lambda>iv.
     ret \<lparr>ik_key_len = key_len, ik_cipher = c, ik_base_iv = iv,
          ik_key = overlay INTERNAL_KEY_MAX_LEN k (zeros INTERNAL_KEY_MAX_LEN)\<rparr>)))"

text \<open>What every internal key of the program satisfies.\<close>

definition wf_ik :: "InternalKey \<Rightarrow> bool" where
  "wf_ik k \<longleftrightarrow> length (ik_base_iv k) = 16 \<and> length (ik_key k) = 64 \<and>
     open_pg_tde_cipher_key_length (ik_cipher k) = Inr (ik_key_len k)"

lemma cipher_key_length_cases:
  "open_pg_tde_cipher_key_length c = Inr n \<Longrightarrow> n = 16 \<or> n = 32 \<or> n = 64"
  by (auto simp: open_pg_tde_cipher_key_length_def size_consts split: if_splits)

lemma generate_internal_key_wf:
  "open_pg_tde_generate_internal_key ev c w = (Inr k, w') \<Longrightarrow> wf_ik k \<and> ik_cipher k = c"
  by (auto simp: open_pg_tde_generate_internal_key_def bindM_eq_Inr liftM_def wf_ik_def size_consts
      length_overlay dest!: RAND_bytes_length split: sum.splits)

lemma generate_internal_key_ok:
  assumes "rand_ok ev" and "open_pg_tde_cipher_key_length c = Inr n"
  shows "\<exists>k. open_pg_tde_generate_internal_key ev c w = (Inr k, w\<lparr>rng := rng w + 2\<rparr>) \<and> wf_ik k \<and>
     ik_cipher k = c"
proof -
  obtain k where k: "RAND_bytes ev (unat n) w = (Inr k, w\<lparr>rng := Suc (rng w)\<rparr>)"
    using RAND_bytes_ok [OF assms(1), of "unat n" w] by blast
  obtain iv where iv: "RAND_bytes ev INTERNAL_KEY_IV_LEN (w\<lparr>rng := Suc (rng w)\<rparr>)
      = (Inr iv, w\<lparr>rng := rng w + 2\<rparr>)"
    using RAND_bytes_ok [OF assms(1), of INTERNAL_KEY_IV_LEN "w\<lparr>rng := Suc (rng w)\<rparr>"] by auto
  have "\<exists>key. open_pg_tde_generate_internal_key ev c w = (Inr key, w\<lparr>rng := rng w + 2\<rparr>)"
    using assms(2) k iv by (simp add: open_pg_tde_generate_internal_key_def errM)
  then show ?thesis using generate_internal_key_wf by blast
qed

section \<open>The stream cipher\<close>

text \<open>
  The two XOR loops. In place, every byte is read from the buffer that is being written;
  otherwise from a second one. \<open>at\<close> is the common offset of \<open>out\<close> and \<open>data\<close>, \<open>ko\<close> the one
  of the keystream.
\<close>

definition tde_xor_stream :: "bytes \<Rightarrow> nat \<Rightarrow> bytes \<Rightarrow> nat \<Rightarrow> nat \<Rightarrow> bytes" where
  "tde_xor_stream out at ks ko n =
     fold (\<lambda>i out. out[at + i := xor (out ! (at + i)) (ks ! (ko + i))]) [0..<n] out"

definition tde_xor_stream_distinct :: "bytes \<Rightarrow> bytes \<Rightarrow> nat \<Rightarrow> bytes \<Rightarrow> nat \<Rightarrow> nat \<Rightarrow> bytes" where
  "tde_xor_stream_distinct out data at ks ko n =
     fold (\<lambda>i out. out[at + i := xor (data ! (at + i)) (ks ! (ko + i))]) [0..<n] out"

definition AES_BLOCK_SIZE :: nat where "AES_BLOCK_SIZE = 16"
definition NUM_AES_BLOCKS_IN_BATCH :: nat where "NUM_AES_BLOCKS_IN_BATCH = 200"

definition u32n :: "nat \<Rightarrow> nat" where "u32n n = n mod 2 ^ 32"

text \<open>
  The loop over batches of at most 200 blocks: state are the first block of the batch, the
  batch number, the index into the data, the output buffer and the cipher context. \<open>data\<close>
  is \<open>None\<close> for an in-place call (\<open>out == data\<close>). Unsigned 32-bit expressions are reduced
  modulo \<open>2 ^ 32\<close>.
\<close>

function stream_batches ::
  "env \<Rightarrow> keystream_fn \<Rightarrow> bytes \<Rightarrow> bytes \<Rightarrow> nat \<Rightarrow> nat \<Rightarrow> nat \<Rightarrow> bytes option \<Rightarrow>
   nat \<Rightarrow> nat \<Rightarrow> nat \<Rightarrow> bytes \<Rightarrow> bytes option \<Rightarrow> (tde_error + bytes) \<times> bytes option"
where
  "stream_batches ev ks iv_prefix key aes_block_no aes_end_block data_len data
      batch_start_block batch_no data_index out ctx =
     (if batch_start_block < aes_end_block then
        (let batch_end_block = min (batch_start_block + NUM_AES_BLOCKS_IN_BATCH) aes_end_block in
         case call_keystream ev ks ctx key iv_prefix (of_nat batch_start_block) (of_nat batch_end_block) of
           (Inl e, ctx') \<Rightarrow> (Inl e, ctx')
         | (Inr enc_key, ctx') \<Rightarrow>
             (let key_offset = (if batch_no > 0 then 0 else aes_block_no);
                  cur0 = u32n ((batch_end_block - batch_start_block) * AES_BLOCK_SIZE - key_offset);
                  current_batch_bytes =
                    (if u32n (data_index + cur0) > data_len then u32n (data_len + 2 ^ 32 - data_index) else cur0);
                  out' = (case data of
                            None \<Rightarrow> tde_xor_stream out data_index enc_key key_offset current_batch_bytes
                          | Some d \<Rightarrow> tde_xor_stream_distinct out d data_index enc_key key_offset current_batch_bytes)
              in stream_batches ev ks iv_prefix key aes_block_no aes_end_block data_len data
                   (batch_start_block + NUM_AES_BLOCKS_IN_BATCH) (batch_no + 1)
                   (u32n (data_index + current_batch_bytes)) out' ctx'))
      else (Inr out, ctx))"
  by pat_completeness auto
termination
  by (relation "measure (\<lambda>(ev, ks, iv, key, bn, eb, dl, d, bs, _). eb - bs)")
    (auto simp: NUM_AES_BLOCKS_IN_BATCH_def)

declare stream_batches.simps [simp del]

definition open_pg_tde_stream_crypt ::
  "env \<Rightarrow> bytes \<Rightarrow> u32 \<Rightarrow> bytes option \<Rightarrow> u32 \<Rightarrow> bytes \<Rightarrow> bytes \<Rightarrow> int \<Rightarrow> bytes option \<Rightarrow>
   (tde_error + bytes) \<times> bytes option"
where
  "open_pg_tde_stream_crypt ev iv_prefix start_offset data data_len out key key_len ctx =
     (let aes_start_block = unat start_offset div AES_BLOCK_SIZE;
          aes_end_block = u32n (unat start_offset + unat data_len + (AES_BLOCK_SIZE - 1)) div AES_BLOCK_SIZE;
          aes_block_no = unat start_offset mod AES_BLOCK_SIZE
      in case TdeCipherByKeyLen ciphers key_len of
           Inl e \<Rightarrow> (Inl e, ctx)
         | Inr c \<Rightarrow>
             (case keystream c of
                None \<Rightarrow> (Inl (E_null_pointer ''keystream''), ctx)
              | Some ks \<Rightarrow>
                  stream_batches ev ks iv_prefix (take (nat key_len) key) aes_block_no aes_end_block
                    (unat data_len) data aes_start_block 0 0 out ctx))"

text \<open>The reference: byte \<open>i\<close> of the data is combined with the keystream byte of its position.\<close>

definition stream_ref :: "(bytes \<Rightarrow> bytes \<Rightarrow> bytes) \<Rightarrow> bytes \<Rightarrow> bytes \<Rightarrow> nat \<Rightarrow> bytes \<Rightarrow> bytes" where
  "stream_ref F key iv_prefix start d =
     map (\<lambda>i. xor (d ! i) (ks_byte F key iv_prefix (start + i))) [0..<length d]"

lemma length_stream_ref [simp]: "length (stream_ref F key iv s d) = length d"
  by (simp add: stream_ref_def)

lemma stream_ref_append:
  "stream_ref F key iv s (a @ b) = stream_ref F key iv s a @ stream_ref F key iv (s + length a) b"
  by (rule nth_equalityI) (auto simp: stream_ref_def nth_append algebra_simps)

lemma xor_twice [simp]: "xor (xor (a :: byte) k) k = a"
  by (simp add: xor.assoc)

lemma stream_ref_involution [simp]: "stream_ref F key iv s (stream_ref F key iv s d) = d"
  by (rule nth_equalityI) (simp_all add: stream_ref_def)

section \<open>The loop computes the reference\<close>

text \<open>One batch writes \<open>n\<close> bytes at \<open>at\<close>; both loops have the same closed form.\<close>

lemma xor_fold_gen:
  assumes "at + n \<le> length out"
    and src: "\<And>i p. i < n \<Longrightarrow> length p = length out \<Longrightarrow> (\<And>j. at + i \<le> j \<Longrightarrow> j < length out \<Longrightarrow> p ! j = out ! j) \<Longrightarrow>
      f i p = p[at + i := g i]"
  shows "fold f [0..<n] out = take at out @ map g [0..<n] @ drop (at + n) out"
proof -
  have "m \<le> n \<Longrightarrow> fold f [0..<m] out = take at out @ map g [0..<m] @ drop (at + m) out" for m
  proof (induction m)
    case 0
    show ?case by simp
  next
    case (Suc m)
    let ?o = "take at out @ map g [0..<m] @ drop (at + m) out"
    have "fold f [0..<Suc m] out = f m ?o" using Suc by simp
    also have "\<dots> = ?o[at + m := g m]"
      using Suc.prems assms(1) by (intro src) (auto simp: nth_append)
    also have "\<dots> = take at out @ map g [0..<Suc m] @ drop (at + Suc m) out"
      using Suc.prems assms(1)
      by (simp add: list_update_append Cons_nth_drop_Suc [symmetric])
    finally show ?case .
  qed
  then show ?thesis by simp
qed

lemma tde_xor_stream_eq:
  assumes "at + n \<le> length out"
  shows "tde_xor_stream out at ks ko n =
    take at out @ map (\<lambda>i. xor (out ! (at + i)) (ks ! (ko + i))) [0..<n] @ drop (at + n) out"
  unfolding tde_xor_stream_def by (rule xor_fold_gen [OF assms]) (use assms in simp)

lemma tde_xor_stream_distinct_eq:
  assumes "at + n \<le> length out"
  shows "tde_xor_stream_distinct out d at ks ko n =
    take at out @ map (\<lambda>i. xor (d ! (at + i)) (ks ! (ko + i))) [0..<n] @ drop (at + n) out"
  unfolding tde_xor_stream_distinct_def by (rule xor_fold_gen [OF assms]) simp

text \<open>Arithmetic of one batch, in both its cases: full or last.\<close>

lemma batch_arith:
  fixes start len di bs eb ko be cur0 cur :: nat
  assumes "start + len + 15 < 2 ^ 32" and eb: "eb = (start + len + 15) div 16" and "bs < eb" and "di \<le> len"
    and pos: "start + di = 16 * bs + ko" and "ko < 16"
    and be: "be = min (bs + 200) eb" and cur0: "cur0 = u32n ((be - bs) * 16 - ko)"
    and cur: "cur = (if u32n (di + cur0) > len then u32n (len + 2 ^ 32 - di) else cur0)"
  shows "cur = min ((be - bs) * 16 - ko) (len - di)" and "u32n (di + cur) = di + cur"
    and "di + cur \<le> len" and "ko + cur \<le> (be - bs) * 16"
    and "di + cur = len \<and> eb \<le> bs + 200 \<or> start + (di + cur) = 16 * (bs + 200)"
proof -
  have bs: "bs < be" "be \<le> eb" "be \<le> bs + 200" using assms by auto
  have e16: "16 * eb \<le> start + len + 15" using eb by simp
  have e16': "start + len \<le> 16 * eb" using eb by presburger
  have "(be - bs) * 16 - ko < 2 ^ 32" using bs by simp
  then have c0: "cur0 = (be - bs) * 16 - ko" using cur0 by (simp add: u32n_def)
  have "di + cur0 < 2 ^ 32" proof -
    obtain m where m: "be = bs + Suc m" using bs(1) less_iff_Suc_add by auto
    have "start + (di + cur0) = 16 * be" using c0 pos assms(6) m by simp
    then have "start + (di + cur0) \<le> 16 * eb" using bs(2) by linarith
    then show ?thesis using e16 assms(1) by linarith
  qed
  then have s: "u32n (di + cur0) = di + cur0" by (simp add: u32n_def)
  have d: "u32n (len + 2 ^ 32 - di) = len - di"
  proof -
    have e: "len + 2 ^ 32 - di = (len - di) + 2 ^ 32" using assms(4) by simp
    have "len - di < 2 ^ 32" using assms(1) by linarith
    then show ?thesis unfolding u32n_def e by (simp only: mod_add_self2 mod_less)
  qed
  show c: "cur = min ((be - bs) * 16 - ko) (len - di)"
  proof (cases "len < di + cur0")
    case True
    then have "cur = len - di" unfolding cur s d by (simp only: if_True)
    moreover have "len - di \<le> cur0" using True by linarith
    ultimately show ?thesis unfolding c0 by (simp only: min_absorb2)
  next
    case False
    then have "cur0 \<le> len - di" by linarith
    moreover have "cur = cur0" unfolding cur s using False by (simp only: if_False)
    ultimately show ?thesis unfolding c0 by (simp only: min_absorb1)
  qed
  show "u32n (di + cur) = di + cur"
    using c assms(1,4) by (simp add: u32n_def)
  show "di + cur \<le> len" using c assms(4) by simp
  show "ko + cur \<le> (be - bs) * 16" using c bs assms(6) by simp
  show "di + cur = len \<and> eb \<le> bs + 200 \<or> start + (di + cur) = 16 * (bs + 200)"
  proof (cases "(be - bs) * 16 - ko \<le> len - di")
    case True
    then have "cur = (be - bs) * 16 - ko" using c by simp
    then have "start + (di + cur) = 16 * be" using pos bs assms(6) by linarith
    moreover have "be = bs + 200 \<or> be = eb \<and> eb \<le> bs + 200" using be by auto
    ultimately show ?thesis using e16' \<open>di + cur \<le> len\<close> by auto
  next
    case False
    then have "di + cur = len" using c assms(4) by simp
    moreover have "start + len < 16 * be" using False pos bs assms(4,6) by linarith
    then have "eb \<le> bs + 200" using bs e16 by linarith
    ultimately show ?thesis by simp
  qed
qed

definition stream_pos :: "nat \<Rightarrow> nat \<Rightarrow> nat \<Rightarrow> nat \<Rightarrow> nat \<Rightarrow> bool" where
  "stream_pos start len bs bn di \<longleftrightarrow> di \<le> len \<and>
     (if bn = 0 then di = 0 \<and> bs = start div 16
      else di = len \<and> (start + len + 15) div 16 \<le> bs \<or> start + di = 16 * bs)"

lemma stream_pos_done:
  "stream_pos start len bs bn di \<Longrightarrow> (start + len + 15) div 16 \<le> bs \<Longrightarrow> di = len"
proof -
  assume p: "stream_pos start len bs bn di" and e: "(start + len + 15) div 16 \<le> bs"
  have e': "start + len \<le> 16 * bs" using e by simp
  show "di = len"
  proof (cases "bn = 0")
    case True
    then have "di = 0" "bs = start div 16" using p by (simp_all add: stream_pos_def)
    moreover have "16 * (start div 16) \<le> start" by simp
    ultimately show ?thesis using e' by linarith
  next
    case False
    then show ?thesis using p e' by (auto simp: stream_pos_def)
  qed
qed

lemma stream_pos_here:
  "stream_pos start len bs bn di \<Longrightarrow> bs < (start + len + 15) div 16 \<Longrightarrow>
     start + di = 16 * bs + (if bn > 0 then 0 else start mod 16)"
  unfolding stream_pos_def by (cases "bn = 0") auto

text \<open>One batch extends the processed prefix.\<close>

lemma stream_step_out:
  assumes "di + cur \<le> length src" and "length src \<le> length out0"
    and out: "out = stream_ref F key iv start (take di src) @ drop di out0"
    and ks: "\<And>i. i < cur \<Longrightarrow> ks ! (ko + i) = ks_byte F key iv (start + di + i)"
    and data: "case data of None \<Rightarrow> src = take (length src) out0 | Some d \<Rightarrow> take (length src) d = src"
  shows "(case data of None \<Rightarrow> tde_xor_stream out di ks ko cur
       | Some d \<Rightarrow> tde_xor_stream_distinct out d di ks ko cur)
    = stream_ref F key iv start (take (di + cur) src) @ drop (di + cur) out0"
proof -
  have len: "di + cur \<le> length out" using assms(1,2) out by simp
  have srci: "(case data of None \<Rightarrow> out | Some d \<Rightarrow> d) ! (di + i) = src ! (di + i)" if "i < cur" for i
  proof (cases data)
    case None
    then have "src ! (di + i) = take (length src) out0 ! (di + i)" using data by simp
    then have "src ! (di + i) = out0 ! (di + i)" using that assms(1) by simp
    moreover have "out ! (di + i) = out0 ! (di + i)"
      using that assms(1,2) out by (simp add: nth_append)
    ultimately show ?thesis using None by simp
  next
    case (Some d)
    then have "src ! (di + i) = take (length src) d ! (di + i)" using data by simp
    then show ?thesis using Some that assms(1) by simp
  qed
  have "stream_ref F key iv (start + di) (take cur (drop di src))
      = map (\<lambda>i. xor (src ! (di + i)) (ks_byte F key iv (start + di + i))) [0..<cur]"
    using assms(1) by (simp add: stream_ref_def)
  also have "\<dots> = map (\<lambda>i. xor ((case data of None \<Rightarrow> out | Some d \<Rightarrow> d) ! (di + i)) (ks ! (ko + i))) [0..<cur]"
    by (rule map_cong) (simp_all only: set_upt atLeastLessThan_iff ks srci)
  finally have ref: "stream_ref F key iv (start + di) (take cur (drop di src))
      = map (\<lambda>i. xor ((case data of None \<Rightarrow> out | Some d \<Rightarrow> d) ! (di + i)) (ks ! (ko + i))) [0..<cur]" .
  have "stream_ref F key iv start (take (di + cur) src)
      = stream_ref F key iv start (take di src) @ stream_ref F key iv (start + di) (take cur (drop di src))"
    using assms(1) by (simp add: take_add stream_ref_append min_absorb2)
  moreover have "take di out = stream_ref F key iv start (take di src)"
    and "drop (di + cur) out = drop (di + cur) out0"
    using out assms(1) by (simp_all add: add.commute)
  ultimately show ?thesis
    using ref len by (cases data) (simp_all add: tde_xor_stream_eq tde_xor_stream_distinct_eq)
qed

lemma stream_batches_ok:
  assumes ev: "ecb_is ev F" and iv: "12 \<le> length iv" and bound: "start + len + 15 < 2 ^ 32"
    and src: "length src = len" "len \<le> length out0"
      "case data of None \<Rightarrow> src = take (length src) out0 | Some d \<Rightarrow> take (length src) d = src"
    and "stream_pos start len bs bn di"
    and "out = stream_ref F key iv start (take di src) @ drop di out0"
    and "ctx = None \<or> ctx = Some key"
  shows "\<exists>ctx'. stream_batches ev AesCtrEncryptedZeroBlocks_fn iv key (start mod 16)
     ((start + len + 15) div 16) len data bs bn di out ctx
       = (Inr (stream_ref F key iv start src @ drop len out0), ctx') \<and> (ctx' = None \<or> ctx' = Some key)"
  using assms(7-9)
proof (induction "(start + len + 15) div 16 - bs" arbitrary: bs bn di out ctx rule: less_induct)
  case less
  let ?eb = "(start + len + 15) div 16"
  let ?be = "min (bs + 200) ?eb" and ?ko = "if bn > 0 then 0 else start mod 16"
  show ?case
  proof (cases "bs < ?eb")
    case False
    then have "di = len" using stream_pos_done less.prems(1) by auto
    with False less.prems src(1) show ?thesis by (subst stream_batches.simps) auto
  next
    case True
    define cur where "cur = (if u32n (di + u32n ((?be - bs) * 16 - ?ko)) > len
      then u32n (len + 2 ^ 32 - di) else u32n ((?be - bs) * 16 - ?ko))"
    have pos: "start + di = 16 * bs + ?ko" by (rule stream_pos_here [OF less.prems(1) True])
    have di: "di \<le> len" using less.prems(1) by (simp add: stream_pos_def)
    have ko: "?ko < 16" by simp
    note ar = batch_arith [OF bound refl True di pos ko refl refl cur_def]
    have "?be < 2 ^ 31" using bound True by (simp add: min_def) linarith
    then have u: "unat (of_nat ?be :: u64) = ?be" "unat (of_nat bs :: u64) = bs"
      using True by (simp_all add: unat_of_nat)
    define blocks where "blocks = map (ks_byte F key iv) [16 * bs..<16 * ?be]"
    have call: "call_keystream ev AesCtrEncryptedZeroBlocks_fn ctx key iv (of_nat bs) (of_nat ?be) = (Inr blocks, Some key)"
      unfolding call_keystream_def keystream_fn.case blocks_def
      using AesCtrEncryptedZeroBlocks_ok [OF ev iv _ _ less.prems(3), of "of_nat bs" "of_nat ?be"]
        concat_blocks_ks [of F key iv bs ?be] ev length_ctr_block [OF iv] \<open>?be < 2 ^ 31\<close> True
      by (simp add: u ecb_is_def)
    have ks: "blocks ! (?ko + i) = ks_byte F key iv (start + di + i)" if "i < cur" for i
    proof -
      have "?ko + i < 16 * ?be - 16 * bs" 
        using ar(4) that unfolding diff_mult_distrib mult.commute [of 16] by linarith
      then show ?thesis unfolding blocks_def using pos by (simp add: add.assoc)
    qed
    define out' where "out' = stream_ref F key iv start (take (di + cur) src) @ drop (di + cur) out0"
    have step: "(case data of None \<Rightarrow> tde_xor_stream out di blocks ?ko cur
        | Some d \<Rightarrow> tde_xor_stream_distinct out d di blocks ?ko cur) = out'"
      unfolding out'_def
      by (rule stream_step_out [where src = src]) (use ar(3) src less.prems(2) ks in auto)
    have "stream_pos start len (bs + 200) (bn + 1) (di + cur)"
      using ar(3,5) by (simp add: stream_pos_def)
    then have "\<exists>ctx'. stream_batches ev AesCtrEncryptedZeroBlocks_fn iv key (start mod 16) ?eb len data
         (bs + 200) (bn + 1) (di + cur) out' (Some key)
       = (Inr (stream_ref F key iv start src @ drop len out0), ctx') \<and> (ctx' = None \<or> ctx' = Some key)"
      using True out'_def by (intro less.hyps) auto
    then show ?thesis
      using True call step ar(2)
      by (subst stream_batches.simps)
        (simp only: NUM_AES_BLOCKS_IN_BATCH_def AES_BLOCK_SIZE_def Let_def if_True prod.case sum.case
          cur_def [symmetric])
  qed
qed

lemma keystream_cipher_ok:
  "key_len = 16 \<or> key_len = 32 \<Longrightarrow>
     \<exists>c. TdeCipherByKeyLen ciphers key_len = Inr c \<and> keystream c = Some AesCtrEncryptedZeroBlocks_fn"
  by (auto simp: TdeCipherByKeyLen_def tde_ciphers_ciphers)

lemma stream_crypt_ref:
  assumes ev: "ecb_is ev F" and iv: "12 \<le> length iv" and bound: "unat start + unat len + 15 < 2 ^ 32"
    and key: "key_len = 16 \<or> key_len = 32" and ctx: "ctx = None \<or> ctx = Some (take (nat key_len) key)"
    and src: "length src = unat len" "unat len \<le> length out"
      "case data of None \<Rightarrow> src = take (length src) out | Some d \<Rightarrow> take (length src) d = src"
  shows "\<exists>ctx'. open_pg_tde_stream_crypt ev iv start data len out key key_len ctx =
     (Inr (stream_ref F (take (nat key_len) key) iv (unat start) src @ drop (unat len) out), ctx') \<and>
     (ctx' = None \<or> ctx' = Some (take (nat key_len) key))"
proof -
  have e: "u32n (unat start + unat len + 15) = unat start + unat len + 15"
    using bound by (simp add: u32n_def)
  have p: "stream_pos (unat start) (unat len) (unat start div 16) 0 0"
    by (simp add: stream_pos_def)
  show ?thesis
    using stream_batches_ok [OF ev iv bound src p _ ctx, of out] keystream_cipher_ok [OF key] e
    by (auto simp: open_pg_tde_stream_crypt_def AES_BLOCK_SIZE_def Let_def stream_ref_def)
qed

section \<open>The page cipher\<close>

primrec fork_byte :: "ForkNumber \<Rightarrow> byte" where
  "fork_byte MAIN_FORKNUM = 0"
| "fork_byte FSM_FORKNUM = 1"
| "fork_byte VISIBILITYMAP_FORKNUM = 2"
| "fork_byte INIT_FORKNUM = 3"

definition TDE_BLOCK_IV_LEN :: nat where "TDE_BLOCK_IV_LEN = 16"
definition BLCKSZ :: nat where "BLCKSZ = 8192"

definition CalcBlockIv :: "ForkNumber \<Rightarrow> u32 \<Rightarrow> bytes \<Rightarrow> bytes" where
  "CalcBlockIv forknum bn base_iv =
     (let iv = zeros TDE_BLOCK_IV_LEN;
          iv = iv[7 := fork_byte (if forknum = INIT_FORKNUM then MAIN_FORKNUM else forknum)];
          iv = iv[12 := ucast (drop_bit 24 bn)];
          iv = iv[13 := ucast (drop_bit 16 bn)];
          iv = iv[14 := ucast (drop_bit 8 bn)];
          iv = iv[15 := ucast bn]
      in map (\<lambda>i. xor (iv ! i) (base_iv ! i)) [0..<TDE_BLOCK_IV_LEN])"

definition all_zero :: "nat \<Rightarrow> bytes \<Rightarrow> bool" where
  "all_zero n b \<longleftrightarrow> (\<forall>i<n. b ! i = 0)"

text \<open>
  \<open>inp\<close> and \<open>out\<close> are the two page buffers; the result is what \<open>out\<close> holds afterwards.
\<close>

definition tde_decrypt_smgr_block :: "env \<Rightarrow> InternalKey \<Rightarrow> ForkNumber \<Rightarrow> u32 \<Rightarrow> bytes \<Rightarrow> bytes \<Rightarrow> bytes tdeM" where
  "tde_decrypt_smgr_block ev rel_key forknum blocknum inp out =
     (if all_zero 32 inp then ret out
      else
        (let iv = CalcBlockIv forknum blocknum (ik_base_iv rel_key) in
         bindM (liftM (TdeCipherById ciphers (ik_cipher rel_key))) (\<lambda>c.
         call_block ev (decrypt_block c) (ik_material rel_key) (sint (ik_key_len rel_key)) iv inp)))"

definition tde_encrypt_smgr_block :: "env \<Rightarrow> InternalKey \<Rightarrow> ForkNumber \<Rightarrow> u32 \<Rightarrow> bytes \<Rightarrow> bytes tdeM" where
  "tde_encrypt_smgr_block ev rel_key forknum blocknum inp =
     (let iv = CalcBlockIv forknum blocknum (ik_base_iv rel_key) in
      bindM (liftM (TdeCipherById ciphers (ik_cipher rel_key))) (\<lambda>c.
      call_block ev (encrypt_block c) (ik_material rel_key) (sint (ik_key_len rel_key)) iv inp))"

lemma block_iv_list:
  "(zeros 16)[7 := a, 12 := b, 13 := c, 14 := d, 15 := e] = [0, 0, 0, 0, 0, 0, 0, a, 0, 0, 0, 0, b, c, d, e]"
  by (simp add: zeros_def numeral_eq_Suc)

lemma CalcBlockIv_eq:
  "length base_iv = 16 \<Longrightarrow> CalcBlockIv f bn base_iv =
     map2 xor ([0, 0, 0, 0, 0, 0, 0, fork_byte (if f = INIT_FORKNUM then MAIN_FORKNUM else f), 0, 0, 0, 0,
       ucast (drop_bit 24 bn), ucast (drop_bit 16 bn), ucast (drop_bit 8 bn), ucast bn]) base_iv"
  unfolding CalcBlockIv_def Let_def TDE_BLOCK_IV_LEN_def block_iv_list
  by (rule nth_equalityI) simp_all

lemma block_bytes_inject:
  fixes a b :: u32
  assumes "(ucast (drop_bit 24 a) :: byte) = ucast (drop_bit 24 b)"
    and "(ucast (drop_bit 16 a) :: byte) = ucast (drop_bit 16 b)"
    and "(ucast (drop_bit 8 a) :: byte) = ucast (drop_bit 8 b)"
    and "(ucast a :: byte) = ucast b"
  shows "a = b"
proof (rule bit_word_eqI)
  fix n assume "n < LENGTH(32)"
  have e: "bit (ucast (drop_bit m x) :: byte) i = bit x (m + i)" if "i < 8" for m i and x :: u32
    using that by (simp add: bit_unsigned_iff bit_drop_bit_eq)
  have "bit a (m + i) = bit b (m + i)" if "m \<in> {0, 8, 16, 24}" "i < 8" for m i
    using that assms e [of i m a] e [of i m b] by auto
  moreover have "\<exists>m\<in>{0, 8, 16, 24}. \<exists>i<8. n = m + i"
  proof -
    have "n = 8 * (n div 8) + n mod 8" "n mod 8 < 8" "n div 8 < 4" using \<open>n < LENGTH(32)\<close> by auto
    moreover have "8 * (n div 8) \<in> {0, 8, 16, 24}" 
    proof -
      have "n div 8 = 0 \<or> n div 8 = 1 \<or> n div 8 = 2 \<or> n div 8 = 3" using \<open>n div 8 < 4\<close> by linarith
      then show ?thesis by (elim disjE) simp_all
    qed
    ultimately show ?thesis by blast
  qed
  ultimately show "bit a n = bit b n" by blast
qed

lemma map2_xor_inject:
  fixes xs ys zs :: bytes
  assumes "length xs = length zs" "length ys = length zs" "map2 xor xs zs = map2 xor ys zs"
  shows "xs = ys"
proof (rule nth_equalityI)
  show "length xs = length ys" using assms by simp
  fix i assume i: "i < length xs"
  then have "map2 xor xs zs ! i = map2 xor ys zs ! i" using assms(3) by simp
  then have "xor (xor (xs ! i) (zs ! i)) (zs ! i) = xor (xor (ys ! i) (zs ! i)) (zs ! i)"
    using i assms(1,2) by simp
  then show "xs ! i = ys ! i" by simp
qed

lemma fork_byte_inject: "fork_byte f = fork_byte g \<longleftrightarrow> f = g"
  by (cases f; cases g) simp_all

lemma length_CalcBlockIv: "length (CalcBlockIv f bn base_iv) = 16"
  by (simp add: CalcBlockIv_def Let_def TDE_BLOCK_IV_LEN_def)

section \<open>Pages as functions of key, IV and content\<close>

text \<open>Which OpenSSL cipher a key selects, and its key length as C passes it.\<close>

definition evp_of :: "InternalKey \<Rightarrow> evp_cipher" where
  "evp_of k = (if ik_cipher k = CIPHER_AES_128 then AES_128_CBC
     else if ik_cipher k = CIPHER_AES_256 then AES_256_CBC
     else if ik_cipher k = CIPHER_AES_128_XTS then AES_128_XTS else AES_256_XTS)"

text \<open>
  Decryption inverts encryption of a page, as documented for CBC without padding and XTS.
\<close>

definition page_cipher_ok :: "(evp_cipher \<Rightarrow> int \<Rightarrow> bytes \<Rightarrow> bytes \<Rightarrow> bytes \<Rightarrow> bytes option) \<Rightarrow> bool" where
  "page_cipher_ok E \<longleftrightarrow> (\<forall>c k iv d. length d = BLCKSZ \<longrightarrow>
     (\<exists>ct. E c 1 k iv d = Some ct \<and> length ct = BLCKSZ \<and> E c 0 k iv ct = Some d))"

lemma demo_page_cipher_ok: "page_cipher_ok demo_E"
  by (simp add: page_cipher_ok_def demo_E_def)

lemma wf_ik_material: "wf_ik k \<Longrightarrow> length (ik_material k) = nat (sint (ik_key_len k)) \<and>
   0 \<le> sint (ik_key_len k) \<and> sint (ik_key_len k) \<le> 64"
  using cipher_key_length_cases [of "ik_cipher k" "ik_key_len k"]
  by (auto simp: wf_ik_def ik_material_def)

lemma wf_ik_cases:
  assumes "wf_ik k"
  shows "ik_cipher k = 0 \<and> ik_key_len k = 16 \<or> ik_cipher k = 1 \<and> ik_key_len k = 32 \<or>
    ik_cipher k = 2 \<and> ik_key_len k = 32 \<or> ik_cipher k = 3 \<and> ik_key_len k = 64"
  using assms
  by (auto simp: wf_ik_def open_pg_tde_cipher_key_length_def cipher_ids size_consts split: if_splits)

definition same_but_ctx :: "world \<Rightarrow> world \<Rightarrow> bool" where
  "same_but_ctx w w' \<longleftrightarrow> disk w' = disk w \<and> pk_cache w' = pk_cache w \<and> xlog w' = xlog w"

lemma page_op_transparent:
  assumes wf: "wf_ik k" and inv: "ctxs_inv w" and ev: "evp_is ev E"
  shows "\<exists>w'. bindM (liftM (TdeCipherById ciphers (ik_cipher k))) (\<lambda>c.
        call_block ev (encrypt_block c) (ik_material k) (sint (ik_key_len k)) iv d) w
      = (evp_result (E (evp_of k) 1 (ik_material k) iv d), w') \<and> ctxs_inv w' \<and> same_but_ctx w w'"
    and "\<exists>w'. bindM (liftM (TdeCipherById ciphers (ik_cipher k))) (\<lambda>c.
        call_block ev (decrypt_block c) (ik_material k) (sint (ik_key_len k)) iv d) w
      = (evp_result (E (evp_of k) 0 (ik_material k) iv d), w') \<and> ctxs_inv w' \<and> same_but_ctx w w'"
proof -
  note m = wf_ik_material [OF wf]
  have run: "\<exists>w'. AesRunCbc ev e (ik_material k) (sint (ik_key_len k)) iv d w
        = (evp_result (E (cbc_of (sint (ik_key_len k))) e (ik_material k) iv d), w') \<and> ctxs_inv w' \<and> same_but_ctx w w'"
    "\<exists>w'. AesRunXts ev e (ik_material k) (sint (ik_key_len k)) iv d w
        = (evp_result (E (xts_of (sint (ik_key_len k))) e (ik_material k) iv d), w') \<and> ctxs_inv w' \<and> same_but_ctx w w'"
    if "e = 0 \<or> e = 1" for e
    using AesRunCbc_transparent [OF inv ev _ _ _ conjunct1 [OF m], of e iv d]
      AesRunXts_transparent [OF inv ev _ _ _ conjunct1 [OF m], of e iv d] m that
    by (auto simp: same_but_ctx_def)
  note r = run [of 1] run [of 0]
  show "\<exists>w'. bindM (liftM (TdeCipherById ciphers (ik_cipher k))) (\<lambda>c.
        call_block ev (encrypt_block c) (ik_material k) (sint (ik_key_len k)) iv d) w
      = (evp_result (E (evp_of k) 1 (ik_material k) iv d), w') \<and> ctxs_inv w' \<and> same_but_ctx w w'"
    using wf_ik_cases [OF wf] r(1,2)
    by (elim disjE) (auto simp: TdeCipherById_def tde_ciphers_ciphers bindM_Inr call_block_def
        AesEncrypt_def AesXtsEncrypt_def evp_of_def cipher_ids cbc_of_def xts_of_def)
  show "\<exists>w'. bindM (liftM (TdeCipherById ciphers (ik_cipher k))) (\<lambda>c.
        call_block ev (decrypt_block c) (ik_material k) (sint (ik_key_len k)) iv d) w
      = (evp_result (E (evp_of k) 0 (ik_material k) iv d), w') \<and> ctxs_inv w' \<and> same_but_ctx w w'"
    using wf_ik_cases [OF wf] r(3,4)
    by (elim disjE) (auto simp: TdeCipherById_def tde_ciphers_ciphers bindM_Inr call_block_def
        AesDecrypt_def AesXtsDecrypt_def evp_of_def cipher_ids cbc_of_def xts_of_def)
qed

section \<open>Properties\<close>

lemma slice_stream_ref:
  "i + n \<le> length d \<Longrightarrow> slice i n (stream_ref F key iv s d) = stream_ref F key iv (s + i) (slice i n d)"
  by (rule nth_equalityI) (simp_all add: slice_def stream_ref_def algebra_simps)

text \<open>
  C4. The stream cipher of WAL and temporary files, for in-place and for disjoint buffers:
  whatever the batches of 200 blocks and the alignment of the start offset, byte \<open>i\<close> of the
  output is byte \<open>i\<close> of the data combined with the keystream byte of its absolute position
  \<open>start + i\<close>, and the rest of the output buffer is untouched. The only requirement on the
  32-bit offsets is that the end of the last block does not wrap.
\<close>

theorem stream_crypt_correct:
  assumes "ecb_is ev F" and "12 \<le> length iv" and "unat start + unat len + 15 < 2 ^ 32"
    and "key_len = 16 \<or> key_len = 32" and "ctx = None \<or> ctx = Some (take (nat key_len) key)"
    and "length src = unat len" "unat len \<le> length out"
    and "case data of None \<Rightarrow> src = take (length src) out | Some d \<Rightarrow> take (length src) d = src"
  shows "fst (open_pg_tde_stream_crypt ev iv start data len out key key_len ctx) =
     Inr (map (\<lambda>i. xor (src ! i) (ks_byte F (take (nat key_len) key) iv (unat start + i))) [0..<unat len]
          @ drop (unat len) out)"
  using stream_crypt_ref [OF assms] assms(6) by (auto simp: stream_ref_def)

theorem stream_crypt_correct_witness:
  "fst (open_pg_tde_stream_crypt demo_env (zeros 16) 14 (Some [1, 2, 3, 4, 5]) 4 [9, 9, 9, 9, 9, 9] (zeros 16) 16 None) =
     Inr (map (\<lambda>i. xor ([1, 2, 3, 4] ! i) (ks_byte demo_F (zeros 16) (zeros 16) (14 + i))) [0..<4] @ [9, 9])"
  using stream_crypt_correct [OF demo_ecb_is, of "zeros 16" 14 4 16 None "zeros 16" "[1, 2, 3, 4]"
      "[9, 9, 9, 9, 9, 9]" "Some [1, 2, 3, 4, 5]"]
  by simp

text \<open>
  Random access: if a buffer was encrypted at offset \<open>start\<close>, then decrypting any part
  of the ciphertext on its own, at the offset where it lies, gives that part of the
  data, with a fresh context or with one keyed earlier.
\<close>

lemma stream_crypt_random_access:
  assumes "ecb_is ev F" and "12 \<le> length iv" and "unat start + length d + 15 < 2 ^ 32"
    and "key_len = 16 \<or> key_len = 32" and "ctx = None \<or> ctx = Some (take (nat key_len) key)"
    and "fst (open_pg_tde_stream_crypt ev iv start None (of_nat (length d)) d key key_len None) = Inr ct"
    and "i + n \<le> length d"
  shows "fst (open_pg_tde_stream_crypt ev iv (start + of_nat i) None (of_nat n) (slice i n ct) key key_len ctx)
     = Inr (slice i n d)"
proof -
  have len: "unat (of_nat (length d) :: u32) = length d" "unat (of_nat n :: u32) = n"
    using assms(3,7) by (simp_all add: unat_of_nat)
  have st: "unat (start + of_nat i) = unat start + i"
    using assms(3,7) by (simp add: unat_word_ariths unat_of_nat)
  have ct: "ct = stream_ref F (take (nat key_len) key) iv (unat start) d"
    using stream_crypt_ref [of ev F iv start "of_nat (length d)" key_len None key d d None] assms(1-4,6) len
    by auto
  then have sl: "slice i n ct = stream_ref F (take (nat key_len) key) iv (unat start + i) (slice i n d)"
    using assms(7) by (simp add: slice_stream_ref)
  have "length (slice i n d) = n" using assms(7) by (simp add: length_slice)
  then show ?thesis
    using stream_crypt_ref [of ev F iv "start + of_nat i" "of_nat n" key_len ctx key "slice i n ct" "slice i n ct" None]
      assms(1-5,7) len st sl
    by auto
qed

text \<open>
  Under one relation key, two pages get the same IV exactly if they have the same block
  number and the same fork, the init fork counting as the main fork.
\<close>

lemma CalcBlockIv_unique:
  assumes "length base_iv = 16"
  shows "CalcBlockIv f a base_iv = CalcBlockIv g b base_iv \<longleftrightarrow>
     a = b \<and> (f = g \<or> {f, g} \<subseteq> {MAIN_FORKNUM, INIT_FORKNUM})"
proof
  assume "CalcBlockIv f a base_iv = CalcBlockIv g b base_iv"
  note eq = this [unfolded CalcBlockIv_eq [OF assms]]
  have l: "[0, 0, 0, 0, 0, 0, 0, fork_byte (if f = INIT_FORKNUM then MAIN_FORKNUM else f), 0, 0, 0, 0,
       ucast (drop_bit 24 a), ucast (drop_bit 16 a), ucast (drop_bit 8 a), ucast a :: byte] =
     [0, 0, 0, 0, 0, 0, 0, fork_byte (if g = INIT_FORKNUM then MAIN_FORKNUM else g), 0, 0, 0, 0,
       ucast (drop_bit 24 b), ucast (drop_bit 16 b), ucast (drop_bit 8 b), ucast b]"
    by (rule map2_xor_inject [OF _ _ eq]) (simp_all add: assms)
  then have "a = b" by (intro block_bytes_inject) simp_all
  moreover have "(if f = INIT_FORKNUM then MAIN_FORKNUM else f) = (if g = INIT_FORKNUM then MAIN_FORKNUM else g)"
    using l by (simp only: list.inject fork_byte_inject)
  ultimately show "a = b \<and> (f = g \<or> {f, g} \<subseteq> {MAIN_FORKNUM, INIT_FORKNUM})"
    by (auto split: if_splits)
next
  assume "a = b \<and> (f = g \<or> {f, g} \<subseteq> {MAIN_FORKNUM, INIT_FORKNUM})"
  then show "CalcBlockIv f a base_iv = CalcBlockIv g b base_iv"
    by (auto simp: CalcBlockIv_eq [OF assms])
qed

lemma CalcBlockIv_unique_witness:
  "CalcBlockIv MAIN_FORKNUM 7 (zeros 16) \<noteq> CalcBlockIv MAIN_FORKNUM 263 (zeros 16) \<and>
   CalcBlockIv INIT_FORKNUM 7 (zeros 16) = CalcBlockIv MAIN_FORKNUM 7 (zeros 16)"
  using CalcBlockIv_unique [of "zeros 16" MAIN_FORKNUM 7 MAIN_FORKNUM 263]
    CalcBlockIv_unique [of "zeros 16" INIT_FORKNUM 7 MAIN_FORKNUM 7]
  by simp

text \<open>A call of a page operation, and the calls of a process one after the other, with the result of each.\<close>

datatype page_call =
    Encrypt_page InternalKey ForkNumber u32 bytes
  | Decrypt_page InternalKey ForkNumber u32 bytes bytes

fun page_call_key :: "page_call \<Rightarrow> InternalKey" where
  "page_call_key (Encrypt_page k f b d) = k"
| "page_call_key (Decrypt_page k f b d out) = k"

fun run_page_call :: "env \<Rightarrow> page_call \<Rightarrow> bytes tdeM" where
  "run_page_call ev (Encrypt_page k f b d) = tde_encrypt_smgr_block ev k f b d"
| "run_page_call ev (Decrypt_page k f b d out) = tde_decrypt_smgr_block ev k f b d out"

fun run_page_calls :: "env \<Rightarrow> page_call list \<Rightarrow> world \<Rightarrow> (tde_error + bytes) list \<times> world" where
  "run_page_calls ev [] w = ([], w)"
| "run_page_calls ev (c # cs) w =
     (case run_page_call ev c w of (r, w') \<Rightarrow> (case run_page_calls ev cs w' of (rs, w'') \<Rightarrow> (r # rs, w'')))"

text \<open>What the cipher gives for a call, without any state.\<close>

fun page_call_ref :: "(evp_cipher \<Rightarrow> int \<Rightarrow> bytes \<Rightarrow> bytes \<Rightarrow> bytes \<Rightarrow> bytes option) \<Rightarrow> page_call \<Rightarrow> tde_error + bytes" where
  "page_call_ref E (Encrypt_page k f b d) = evp_result (E (evp_of k) 1 (ik_material k) (CalcBlockIv f b (ik_base_iv k)) d)"
| "page_call_ref E (Decrypt_page k f b d out) =
     (if all_zero 32 d then Inr out else evp_result (E (evp_of k) 0 (ik_material k) (CalcBlockIv f b (ik_base_iv k)) d))"

lemma run_page_call_ref:
  assumes "wf_ik (page_call_key c)" "ctxs_inv w" "evp_is ev E"
  shows "\<exists>w'. run_page_call ev c w = (page_call_ref E c, w') \<and> ctxs_inv w'"
proof (cases c)
  case (Encrypt_page k f b d)
  then show ?thesis
    using page_op_transparent(1) [of k w ev E "CalcBlockIv f b (ik_base_iv k)" d] assms by (auto simp: tde_encrypt_smgr_block_def)
next
  case (Decrypt_page k f b d out)
  then show ?thesis
    using page_op_transparent(2) [of k w ev E "CalcBlockIv f b (ik_base_iv k)" d] assms by (auto simp: tde_decrypt_smgr_block_def)
qed

text \<open>
  C12. In any sequence of page encryptions and decryptions, with whatever keys and in whatever order, what each of them returns depends on the
  key, the page's IV and its content alone: it is what the cipher gives for them, and the contexts cached from the calls before, keyed for other
  keys or for the other direction, do not show. The cached contexts stay consistent. As in the code, a page that begins with 32 zero bytes
  is not decrypted, and the buffer for the result is left as it was.
\<close>

theorem page_ops_history_independent:
  assumes "ctxs_inv w" "evp_is ev E" "\<forall>c\<in>set cs. wf_ik (page_call_key c)"
  shows "fst (run_page_calls ev cs w) = map (page_call_ref E) cs \<and> ctxs_inv (snd (run_page_calls ev cs w))"
  using assms(1,3)
proof (induction cs arbitrary: w)
  case (Cons c cs)
  obtain w' where w': "run_page_call ev c w = (page_call_ref E c, w')" "ctxs_inv w'"
    using run_page_call_ref [of c w ev E] Cons.prems assms(2) by auto
  then show ?case using Cons.IH [OF w'(2)] Cons.prems(2) by (auto split: prod.split)
qed simp

definition demo_key :: InternalKey where
  "demo_key = \<lparr>ik_key_len = 32, ik_cipher = 2, ik_base_iv = replicate 16 5, ik_key = replicate 64 3\<rparr>"

lemma demo_key_wf: "wf_ik demo_key"
  by (simp add: wf_ik_def demo_key_def open_pg_tde_cipher_key_length_def cipher_ids size_consts)

lemma demo_other_key_wf: "wf_ik (demo_key\<lparr>ik_key := replicate 64 9\<rparr>)"
  by (simp add: wf_ik_def demo_key_def open_pg_tde_cipher_key_length_def cipher_ids size_consts)

theorem page_ops_history_independent_witness:
  "fst (run_page_calls demo_env [Encrypt_page demo_key MAIN_FORKNUM 1 (replicate 8192 1),
       Decrypt_page (demo_key\<lparr>ik_key := replicate 64 9\<rparr>) MAIN_FORKNUM 1 (replicate 8192 2) [],
       Encrypt_page demo_key MAIN_FORKNUM 1 (replicate 8192 1)] demo_world) =
     [evp_result (demo_E AES_128_XTS 1 (replicate 32 3) (CalcBlockIv MAIN_FORKNUM 1 (replicate 16 5)) (replicate 8192 1)),
      evp_result (demo_E AES_128_XTS 0 (replicate 32 9) (CalcBlockIv MAIN_FORKNUM 1 (replicate 16 5)) (replicate 8192 2)),
      evp_result (demo_E AES_128_XTS 1 (replicate 32 3) (CalcBlockIv MAIN_FORKNUM 1 (replicate 16 5)) (replicate 8192 1))]"
proof -
  have "replicate 8192 (2 :: byte) ! 0 \<noteq> 0" by simp
  then have "\<not> all_zero 32 (replicate 8192 (2 :: byte))" unfolding all_zero_def by (metis zero_less_numeral)
  then show ?thesis
    using page_ops_history_independent [OF demo_ctxs_inv demo_evp_is, of "[Encrypt_page demo_key MAIN_FORKNUM 1 (replicate 8192 1),
       Decrypt_page (demo_key\<lparr>ik_key := replicate 64 9\<rparr>) MAIN_FORKNUM 1 (replicate 8192 2) [],
       Encrypt_page demo_key MAIN_FORKNUM 1 (replicate 8192 1)]"] demo_key_wf demo_other_key_wf
    by (simp add: evp_of_def demo_key_def cipher_ids ik_material_def)
qed

text \<open>
  C11. A page that was encrypted decrypts to itself, in any later state of the cached
  contexts, unless the first 32 bytes of its ciphertext are all zero.
\<close>

theorem page_roundtrip:
  assumes "wf_ik k" and "ctxs_inv w" and "ctxs_inv w2" and "evp_is ev E" and "page_cipher_ok E"
    and "length d = BLCKSZ"
  shows "\<exists>ct. fst (tde_encrypt_smgr_block ev k f b d w) = Inr ct \<and> length ct = BLCKSZ \<and>
     (\<not> all_zero 32 ct \<longrightarrow> fst (tde_decrypt_smgr_block ev k f b ct out w2) = Inr d)"
proof -
  let ?iv = "CalcBlockIv f b (ik_base_iv k)"
  obtain ct where ct: "E (evp_of k) 1 (ik_material k) ?iv d = Some ct" "length ct = BLCKSZ"
      "E (evp_of k) 0 (ik_material k) ?iv ct = Some d"
    using assms(5,6) unfolding page_cipher_ok_def by blast
  have "fst (tde_encrypt_smgr_block ev k f b d w) = Inr ct"
    using page_op_transparent(1) [OF assms(1,2,4), of ?iv d] ct(1)
    by (auto simp: tde_encrypt_smgr_block_def evp_result_def)
  moreover have "fst (tde_decrypt_smgr_block ev k f b ct out w2) = Inr d" if "\<not> all_zero 32 ct"
    using page_op_transparent(2) [OF assms(1,3,4), of ?iv ct] ct(3) that
    by (auto simp: tde_decrypt_smgr_block_def evp_result_def)
  ultimately show ?thesis using ct(2) by blast
qed

theorem page_roundtrip_witness:
  "\<exists>ct. fst (tde_encrypt_smgr_block demo_env demo_key FSM_FORKNUM 9 (replicate 8192 1) demo_world) = Inr ct \<and>
     fst (tde_decrypt_smgr_block demo_env demo_key FSM_FORKNUM 9 ct [] demo_world) = Inr (replicate 8192 1)"
proof -
  let ?d = "replicate 8192 (1 :: byte)" and ?iv = "CalcBlockIv FSM_FORKNUM 9 (replicate 16 5)"
  have e: "fst (tde_encrypt_smgr_block demo_env demo_key FSM_FORKNUM 9 ?d demo_world) = Inr (demo_mask (replicate 32 3) ?iv ?d)"
    using page_op_transparent(1) [OF demo_key_wf demo_ctxs_inv demo_evp_is, of ?iv ?d]
    by (auto simp: tde_encrypt_smgr_block_def evp_result_def demo_E_def demo_key_def ik_material_def)
  have "demo_mask (replicate 32 3) ?iv ?d ! 0 \<noteq> 0"
    by (simp add: demo_mask_nth demo_pad_def CalcBlockIv_eq)
  then have "\<not> all_zero 32 (demo_mask (replicate 32 3) ?iv ?d)"
    unfolding all_zero_def by (metis zero_less_numeral)
  with e show ?thesis
    using page_roundtrip [OF demo_key_wf demo_ctxs_inv demo_ctxs_inv demo_evp_is demo_page_cipher_ok,
        of ?d FSM_FORKNUM 9 "[]"]
    by (auto simp: BLCKSZ_def)
qed

end
