(* ===== verification/Tde_Paths.thy ===== *)
theory Tde_Paths
  imports Tde_Enc
begin

text \<open>
  Names of the files in the data directory (\<open>common/open_pg_tde_utils.c\<close>, the \<open>_keys\<close> and
  \<open>_providers\<close> file names of the other modules) and the number format they are built with.
  Distinct databases have distinct files, and no file name is the name of a rotation's
  temporary file.
\<close>

section \<open>Decimal numbers\<close>

definition digit_char :: "nat \<Rightarrow> char" where
  "digit_char d = char_of (48 + d)"

fun digits :: "nat \<Rightarrow> string" where
  "digits n = (if n < 10 then [digit_char n] else digits (n div 10) @ [digit_char (n mod 10)])"

declare digits.simps [simp del]

definition is_digit :: "char \<Rightarrow> bool" where
  "is_digit c \<longleftrightarrow> 48 \<le> (of_char c :: nat) \<and> (of_char c :: nat) \<le> 57"

definition undigits :: "string \<Rightarrow> nat" where
  "undigits s = foldl (\<lambda>a c. 10 * a + (of_char c - 48)) 0 s"

text \<open>\<open>printf("%d", x)\<close> of a 32-bit value: an \<open>Oid\<close> above \<open>2 ^ 31\<close> prints as negative number.\<close>

definition fmt_d :: "u32 \<Rightarrow> string" where
  "fmt_d x = (if sint x < 0 then ''-'' @ digits (nat (- sint x)) else digits (nat (sint x)))"

text \<open>\<open>strtoul(s, &suffix, 10)\<close>: the value as unsigned 64-bit number and the rest of the string.\<close>

definition is_space :: "char \<Rightarrow> bool" where
  "is_space c \<longleftrightarrow> (of_char c :: nat) = 32 \<or> 9 \<le> (of_char c :: nat) \<and> (of_char c :: nat) \<le> 13"

definition strtoul :: "string \<Rightarrow> u64 \<times> string" where
  "strtoul s =
     (let t = dropWhile is_space s;
          neg = (t \<noteq> [] \<and> hd t = CHR ''-'');
          u = (if t \<noteq> [] \<and> (hd t = CHR ''-'' \<or> hd t = CHR ''+'') then tl t else t);
          ds = takeWhile is_digit u;
          v = undigits ds
      in if ds = [] then (0, s)
         else if v \<ge> 2 ^ 64 then (- 1, dropWhile is_digit u)
         else ((if neg then - of_nat v else of_nat v), dropWhile is_digit u))"

lemma of_digit_char [simp]: "d < 10 \<Longrightarrow> of_char (digit_char d) = (48 + d :: nat)"
  by (simp add: digit_char_def)

lemma is_digit_digit_char [simp]: "d < 10 \<Longrightarrow> is_digit (digit_char d)"
  by (simp add: is_digit_def)

lemma digits_all: "c \<in> set (digits n) \<Longrightarrow> is_digit c"
proof (induction n rule: digits.induct)
  case (1 n)
  then show ?case by (subst (asm) (2) digits.simps) (auto split: if_splits)
qed

lemma digits_not_Nil [simp]: "digits n \<noteq> []"
  by (subst digits.simps) simp

lemma undigits_digits [simp]: "undigits (digits n) = n"
proof (induction n rule: digits.induct)
  case (1 n)
  show ?case
  proof (cases "n < 10")
    case True
    then show ?thesis by (subst digits.simps) (simp add: undigits_def)
  next
    case False
    then have "undigits (digits n) = 10 * undigits (digits (n div 10)) + (of_char (digit_char (n mod 10)) - 48)"
      by (subst digits.simps) (simp add: undigits_def)
    with False 1 show ?thesis by simp
  qed
qed

lemma digits_inject: "digits a = digits b \<longleftrightarrow> a = b"
  using undigits_digits by metis

lemma hd_digits: "is_digit (hd (digits n))"
  using digits_all [of "hd (digits n)" n] by simp

lemma minus_not_digit: "\<not> is_digit CHR ''-''"
  by (simp add: is_digit_def)

lemma fmt_d_inject: "fmt_d a = fmt_d b \<longleftrightarrow> a = b"
proof
  have no: "''-'' @ digits x \<noteq> digits y" for x y
  proof
    assume "''-'' @ digits x = digits y"
    then have "hd (digits y) = CHR ''-''" by (metis append_Cons list.sel(1))
    then show False using hd_digits [of y] minus_not_digit by simp
  qed
  assume "fmt_d a = fmt_d b"
  then have "sint a = sint b"
    using no [of "nat (- sint a)" "nat (sint b)"] no [of "nat (- sint b)" "nat (sint a)"]
    by (auto simp: fmt_d_def digits_inject eq_nat_nat_iff split: if_splits dest: not_sym)
  then show "a = b" by (simp add: signed_word_eqI)
qed simp

lemma fmt_d_chars: "c \<in> set (fmt_d x) \<Longrightarrow> is_digit c \<or> c = CHR ''-''"
  by (auto simp: fmt_d_def dest: digits_all split: if_splits)

section \<open>File names\<close>

definition open_pg_tde_set_db_file_path :: "env \<Rightarrow> Oid \<Rightarrow> string" where
  "open_pg_tde_set_db_file_path ev db = data_dir ev @ ''/'' @ fmt_d db @ ''_keys''"

definition get_keyring_infofile_path :: "env \<Rightarrow> Oid \<Rightarrow> string" where
  "get_keyring_infofile_path ev db = data_dir ev @ ''/'' @ fmt_d db @ ''_providers''"

definition get_wal_key_file_path :: "env \<Rightarrow> string" where
  "get_wal_key_file_path ev = data_dir ev @ ''/wal_keys''"

text \<open>The temporary file of a rotation or migration.\<close>

definition tmp_path :: "string \<Rightarrow> string" where
  "tmp_path p = p @ ''.r''"

lemmas path_defs = open_pg_tde_set_db_file_path_def get_keyring_infofile_path_def
  get_wal_key_file_path_def tmp_path_def

lemma last_path [simp]:
  "last (open_pg_tde_set_db_file_path ev d) = CHR ''s''" "last (get_keyring_infofile_path ev d) = CHR ''s''"
  "last (get_wal_key_file_path ev) = CHR ''s''" "last (tmp_path p) = CHR ''r''"
  by (simp_all add: path_defs)

lemma tmp_path_neq [simp]:
  "tmp_path p \<noteq> p" "p \<noteq> tmp_path p" "tmp_path p = tmp_path q \<longleftrightarrow> p = q"
  by (simp_all add: tmp_path_def)

lemma tmp_path_other [simp]:
  "tmp_path p \<noteq> open_pg_tde_set_db_file_path ev d" "open_pg_tde_set_db_file_path ev d \<noteq> tmp_path p"
  "tmp_path p \<noteq> get_keyring_infofile_path ev d" "get_keyring_infofile_path ev d \<noteq> tmp_path p"
  "tmp_path p \<noteq> get_wal_key_file_path ev" "get_wal_key_file_path ev \<noteq> tmp_path p"
proof -
  have "CHR ''r'' \<noteq> CHR ''s''" by simp
  then show "tmp_path p \<noteq> open_pg_tde_set_db_file_path ev d" "open_pg_tde_set_db_file_path ev d \<noteq> tmp_path p"
    "tmp_path p \<noteq> get_keyring_infofile_path ev d" "get_keyring_infofile_path ev d \<noteq> tmp_path p"
    "tmp_path p \<noteq> get_wal_key_file_path ev" "get_wal_key_file_path ev \<noteq> tmp_path p"
    by (metis last_path)+
qed

lemma db_path_inject [simp]:
  "open_pg_tde_set_db_file_path ev a = open_pg_tde_set_db_file_path ev b \<longleftrightarrow> a = b"
  "get_keyring_infofile_path ev a = get_keyring_infofile_path ev b \<longleftrightarrow> a = b"
  by (simp_all add: path_defs fmt_d_inject)

lemma fmt_d_wal: "fmt_d a @ ''_keys'' \<noteq> ''wal_keys''"
proof
  assume "fmt_d a @ ''_keys'' = ''wal_keys''"
  then have "fmt_d a = ''wal''" by simp
  then show False using fmt_d_chars [of "CHR ''w''" a] by (simp add: is_digit_def)
qed

lemma path_kinds_distinct [simp]:
  "open_pg_tde_set_db_file_path ev a \<noteq> get_wal_key_file_path ev"
  "get_wal_key_file_path ev \<noteq> open_pg_tde_set_db_file_path ev a"
  "open_pg_tde_set_db_file_path ev a \<noteq> get_keyring_infofile_path ev b"
  "get_keyring_infofile_path ev b \<noteq> open_pg_tde_set_db_file_path ev a"
proof -
  show "open_pg_tde_set_db_file_path ev a \<noteq> get_wal_key_file_path ev"
    "get_wal_key_file_path ev \<noteq> open_pg_tde_set_db_file_path ev a"
    using fmt_d_wal [of a] fmt_d_wal [of a, symmetric] by (simp_all add: path_defs)
  have "fmt_d a @ ''_keys'' \<noteq> fmt_d b @ ''_providers''"
  proof
    assume "fmt_d a @ ''_keys'' = fmt_d b @ ''_providers''"
    then have "rev (fmt_d a @ ''_keys'') = rev (fmt_d b @ ''_providers'')" by simp
    then show False by simp
  qed
  then show "open_pg_tde_set_db_file_path ev a \<noteq> get_keyring_infofile_path ev b"
    "get_keyring_infofile_path ev b \<noteq> open_pg_tde_set_db_file_path ev a"
    by (auto simp: path_defs)
qed

section \<open>Reading a database's number back from its file name\<close>

lemma takeWhile_digits: "takeWhile is_digit (digits n @ CHR ''_'' # s) = digits n"
  using digits_all by (subst takeWhile_append2) (simp_all add: is_digit_def)

lemma dropWhile_digits: "dropWhile is_digit (digits n @ CHR ''_'' # s) = CHR ''_'' # s"
  using digits_all by (subst dropWhile_append2) (simp_all add: is_digit_def)

lemma dropWhile_space:
  "is_digit c \<or> c = CHR ''-'' \<Longrightarrow> dropWhile is_space (c # s) = c # s"
  by (auto simp: is_digit_def is_space_def)

lemma strtoul_digits:
  assumes "t = dropWhile is_space s" and "t = (if neg then CHR ''-'' # digits n @ ''_keys'' else digits n @ ''_keys'')"
    and "n < 2 ^ 64"
  shows "strtoul s = ((if neg then - of_nat n else of_nat n), ''_keys'')"
proof -
  obtain c r where cs: "digits n = c # r" by (meson digits_not_Nil neq_Nil_conv)
  then have d: "is_digit c" using hd_digits [of n] by simp
  then have c: "c \<noteq> CHR ''-''" "c \<noteq> CHR ''+''" by (auto simp: is_digit_def)
  have tw: "takeWhile is_digit (digits n @ ''_keys'') = digits n"
    and dw: "dropWhile is_digit (digits n @ ''_keys'') = ''_keys''"
    by (rule takeWhile_digits, rule dropWhile_digits)
  show ?thesis
  proof (cases neg)
    case True
    have tl: "tl (CHR ''-'' # digits n @ ''_keys'') = digits n @ ''_keys''" by (rule list.sel)
    show ?thesis
      unfolding strtoul_def assms(1) [symmetric] assms(2) Let_def
      using True assms(3) by (simp add: tl tw dw)
  next
    case False
    have "hd (digits n @ ''_keys'') = c" "digits n @ ''_keys'' \<noteq> []" using cs by simp_all
    then show ?thesis
      unfolding strtoul_def assms(1) [symmetric] assms(2) Let_def
      using False assms(3) c by (simp add: tw dw)
  qed
qed

text \<open>The directory scan of the migration finds the database a key file belongs to.\<close>

lemma strtoul_fmt_d:
  "strtoul (fmt_d d @ ''_keys'') = (word_of_int (sint d), ''_keys'')"
proof -
  let ?n = "nat \<bar>sint d\<bar>" and ?neg = "sint d < 0"
  have "\<bar>sint d\<bar> < 2 ^ 64"
    using sint_ge [of d] sint_lt [of d] by (simp add: abs_less_iff)
  then have n: "?n < 2 ^ 64" by (simp add: nat_less_iff)
  obtain c r where cs: "digits ?n = c # r" by (meson digits_not_Nil neq_Nil_conv)
  then have "is_digit c" using hd_digits [of ?n] by simp
  then have "digits ?n @ ''_keys'' = dropWhile is_space (digits ?n @ ''_keys'')"
    using cs dropWhile_space by simp
  then have t: "(if ?neg then CHR ''-'' # digits ?n @ ''_keys'' else digits ?n @ ''_keys'')
      = dropWhile is_space (fmt_d d @ ''_keys'')"
    by (cases ?neg) (simp_all add: fmt_d_def is_space_def)
  have "of_nat ?n = (word_of_int \<bar>sint d\<bar> :: u64)"
    by (metis abs_ge_zero int_nat_eq of_int_of_nat_eq)
  then have "(if ?neg then - of_nat ?n else of_nat ?n) = (word_of_int (sint d) :: u64)"
    by (cases ?neg) (simp_all del: of_nat_nat)
  then show ?thesis
    using strtoul_digits [OF t refl n] by simp
qed

lemma strtoul_oid: "ucast (word_of_int (sint d) :: u64) = (d :: u32)"
  by (rule bit_word_eqI) (simp add: bit_unsigned_iff bit_word_of_int_iff bit_sint_iff bit_signed_iff)

end
