(* ===== verification/Tde_Keyfile.thy ===== *)
theory Tde_Keyfile
  imports Tde_Paths
begin

text \<open>
  What the relation key map and the WAL key file have in common. The C sources hold two
  copies of these routines that differ in the magic number and the entry type; here they
  are written once, with the magic number and the codec of the entries as parameters, and
  the two modules instantiate them. The locale \<open>key_file\<close> is the contract: the codec of the
  entries together with the magic number of the header.
\<close>

section \<open>Headers\<close>

definition kf_header_read :: "string \<Rightarrow> (KeyFileHeader \<times> nat) tdeM" where
  "kf_header_read fn =
     bindM (getM (\<lambda>w. pread (file_bytes w fn) HEADER_SIZE 0)) (\<lambda>b.
     seqM (check (length b = 0 \<or> length b = HEADER_SIZE) (E_corrupted fn))
     (ret (dec_header b, length b)))"

definition kf_header_write :: "u32 \<Rightarrow> string \<Rightarrow> TDESignedPrincipalKeyInfo \<Rightarrow> nat tdeM" where
  "kf_header_write magic fn ski =
     (let fheader = \<lparr>file_version = magic, signed_key_info = ski\<rparr> in
      seqM (write_at fn (enc_header fheader) 0)
      (seqM (fsync fn) (ret HEADER_SIZE)))"

text \<open>\<open>None\<close> is the negative descriptor of a missing file.\<close>

definition kf_open_basic :: "string \<Rightarrow> bool \<Rightarrow> bool \<Rightarrow> bool \<Rightarrow> unit option tdeM" where
  "kf_open_basic fn creat trunc ignore_missing =
     bindM (getM (\<lambda>w. disk w fn)) (\<lambda>f.
     if f = None \<and> \<not> creat then (if ignore_missing then ret None else throw (E_open fn))
     else seqM (whenM (f = None \<or> trunc) (modifyM (set_file fn []))) (ret (Some ())))"

definition kf_open_read :: "u32 \<Rightarrow> string \<Rightarrow> bool \<Rightarrow> nat option tdeM" where
  "kf_open_read magic fn ignore_missing =
     bindM (kf_open_basic fn False False ignore_missing) (\<lambda>fd.
     if fd = None then ret None
     else
       bindM (kf_header_read fn) (\<lambda>(fheader, bytes_read).
       seqM (check (\<not> (bytes_read > 0 \<and> file_version fheader \<noteq> magic)) (E_wrong_version fn))
       (ret (Some bytes_read))))"

definition kf_open_write :: "u32 \<Rightarrow> string \<Rightarrow> TDESignedPrincipalKeyInfo option \<Rightarrow> bool \<Rightarrow> nat tdeM" where
  "kf_open_write magic fn ski trunc =
     bindM (kf_open_basic fn True trunc False) (\<lambda>_.
     bindM (kf_header_read fn) (\<lambda>(fheader, bytes_read).
     seqM (check (\<not> (bytes_read > 0 \<and> file_version fheader \<noteq> magic)) (E_wrong_version fn))
     (bindM (case ski of
               None \<Rightarrow> ret 0
             | Some s \<Rightarrow> if bytes_read = 0 then kf_header_write magic fn s else ret 0) (\<lambda>bytes_written.
      ret (bytes_read + bytes_written)))))"

definition kf_write_rec :: "('e \<Rightarrow> bytes) \<Rightarrow> nat \<Rightarrow> string \<Rightarrow> 'e \<Rightarrow> nat \<Rightarrow> nat tdeM" where
  "kf_write_rec enc sz fn e off =
     seqM (write_at fn (enc e) off) (seqM (fsync fn) (ret (off + sz)))"

section \<open>Well-formed key files\<close>

definition kf_good :: "u32 \<Rightarrow> bytes \<Rightarrow> bool" where
  "kf_good magic f \<longleftrightarrow> HEADER_SIZE \<le> length f \<and> file_version (dec_header (take HEADER_SIZE f)) = magic"

definition file_header :: "bytes \<Rightarrow> KeyFileHeader" where
  "file_header f = dec_header (take HEADER_SIZE f)"

definition kf_new :: "u32 \<Rightarrow> TDESignedPrincipalKeyInfo \<Rightarrow> bytes" where
  "kf_new magic ski = enc_header \<lparr>file_version = magic, signed_key_info = ski\<rparr>"

lemma HEADER_SIZE_pos [simp]: "0 < HEADER_SIZE"
  by (simp add: HEADER_SIZE_def)

lemma kf_good_not_Nil: "kf_good magic f \<Longrightarrow> f \<noteq> []"
  by (auto simp: kf_good_def HEADER_SIZE_def)

lemma set_file_same: "disk w p = Some f \<Longrightarrow> set_file p f w = w"
  by (simp add: set_file_def fun_upd_idem)

lemma kf_header_read_good:
  "disk w p = Some f \<Longrightarrow> kf_good magic f \<Longrightarrow> kf_header_read p w = (Inr (file_header f, HEADER_SIZE), w)"
  by (auto simp: kf_header_read_def runM kf_good_def file_header_def
      file_bytes_def pread_def min_def HEADER_SIZE_def)

lemma kf_open_read_good:
  "disk w p = Some f \<Longrightarrow> kf_good magic f \<Longrightarrow> kf_open_read magic p im w = (Inr (Some HEADER_SIZE), w)"
  by (simp add: kf_open_read_def kf_open_basic_def runM kf_header_read_good)
    (simp add: kf_good_def file_header_def)

lemma kf_open_read_missing: "disk w p = None \<Longrightarrow> kf_open_read magic p True w = (Inr None, w)"
  by (simp add: kf_open_read_def kf_open_basic_def runM)

lemma kf_open_write_good:
  "disk w p = Some f \<Longrightarrow> kf_good magic f \<Longrightarrow> kf_open_write magic p ski False w = (Inr HEADER_SIZE, w)"
  by (simp add: kf_open_write_def kf_open_basic_def runM kf_header_read_good)
    (simp add: kf_good_def file_header_def runM HEADER_SIZE_def split: option.splits)

lemma kf_open_write_new:
  assumes "disk w p = None \<or> disk w p = Some [] \<or> trunc" and "io w = []"
  shows "kf_open_write magic p (Some ski) trunc w = (Inr HEADER_SIZE, set_file p (kf_new magic ski) w)"
proof -
  define w0 where "w0 = (if disk w p = None \<or> trunc then set_file p [] w else w)"
  have b: "kf_open_basic p True trunc False w = (Inr (Some ()), w0)"
    by (auto simp: kf_open_basic_def runM w0_def)
  have f: "file_bytes w0 p = []" "io w0 = []" using assms by (auto simp: w0_def file_bytes_def)
  have sf: "set_file p (kf_new magic ski) w0 = set_file p (kf_new magic ski) w"
    by (auto simp: w0_def set_file_def)
  show ?thesis
    using b f sf assms(2)
    by (simp add: kf_open_write_def kf_header_read_def kf_header_write_def runM pread_def write_at_ok fsync_ok
        pwrite_def zeros_def Let_def flip: kf_new_def)
qed

lemma kf_new_good:
  assumes "wf_ski ski"
  shows "kf_good magic (kf_new magic ski)" "file_header (kf_new magic ski) = \<lparr>file_version = magic, signed_key_info = ski\<rparr>"
    "length (kf_new magic ski) = HEADER_SIZE"
proof -
  let ?h = "\<lparr>file_version = magic, signed_key_info = ski\<rparr>"
  have wf: "wf_header ?h" using assms by (simp add: wf_header_def)
  show len: "length (kf_new magic ski) = HEADER_SIZE"
    unfolding kf_new_def by (rule header.enc_length [OF wf])
  show hd: "file_header (kf_new magic ski) = ?h"
    using header.dec_enc [OF wf] len by (simp add: file_header_def kf_new_def)
  then show "kf_good magic (kf_new magic ski)"
    using len by (simp add: kf_good_def file_header_def)
qed

text \<open>Writing behind the header keeps it.\<close>

lemma kf_pwrite_good:
  assumes "kf_good magic f" and "HEADER_SIZE \<le> off"
  shows "kf_good magic (pwrite f d off)" "file_header (pwrite f d off) = file_header f"
proof -
  have "take HEADER_SIZE (pwrite f d off) = take HEADER_SIZE f"
    using pread_pwrite_before [of 0 HEADER_SIZE off f d] assms by (simp add: pread_def kf_good_def)
  then show "kf_good magic (pwrite f d off)" "file_header (pwrite f d off) = file_header f"
    using assms by (simp_all add: kf_good_def file_header_def length_pwrite)
qed

lemma kf_write_rec_ok:
  "io w = [] \<Longrightarrow> kf_write_rec enc sz p e off w = (Inr (off + sz), set_file p (pwrite (file_bytes w p) (enc e) off) w)"
  by (simp add: kf_write_rec_def runM write_at_ok fsync_ok)

text \<open>The file as an optional byte string before it is opened for writing.\<close>

definition usable_file :: "u32 \<Rightarrow> bytes option \<Rightarrow> bool" where
  "usable_file magic fo \<longleftrightarrow> (case fo of None \<Rightarrow> True | Some f \<Rightarrow> f = [] \<or> kf_good magic f)"

definition base_file :: "u32 \<Rightarrow> TDESignedPrincipalKeyInfo \<Rightarrow> bytes option \<Rightarrow> bytes" where
  "base_file magic ski fo = (case fo of None \<Rightarrow> kf_new magic ski | Some f \<Rightarrow> if f = [] then kf_new magic ski else f)"

lemma kf_open_write_base:
  assumes "usable_file magic (disk w p)" and "io w = []"
  shows "kf_open_write magic p (Some ski) False w = (Inr HEADER_SIZE, set_file p (base_file magic ski (disk w p)) w)"
proof (cases "disk w p = None \<or> disk w p = Some []")
  case True
  then show ?thesis using kf_open_write_new [of w p False magic ski] assms(2) by (auto simp: base_file_def)
next
  case False
  then obtain f where f: "disk w p = Some f" "kf_good magic f" "f \<noteq> []"
    using assms(1) by (auto simp: usable_file_def split: option.splits)
  then show ?thesis by (simp add: kf_open_write_good base_file_def set_file_same)
qed

section \<open>All outcomes\<close>

lemma kf_write_rec_wp:
  "wp (kf_write_rec enc sz p e off)
     (\<lambda>r w'. (\<forall>q. q \<noteq> p \<longrightarrow> disk w' q = disk w q) \<and> pk_cache w' = pk_cache w \<and> xlog w' = xlog w \<and>
        (\<forall>n. r = Inr n \<longrightarrow> n = off + sz \<and> disk w' = (disk w)(p \<mapsto> pwrite (file_bytes w p) (enc e) off))) w"
  unfolding kf_write_rec_def
proof (rule wp_seqI [OF write_at_wp], goal_cases)
  case (2 w1)
  show ?case
    by (rule wp_seqI [OF fsync_wp]) (use 2 in \<open>auto simp: wp_rules\<close>)
qed auto

lemma kf_header_write_wp:
  "wp (kf_header_write magic p ski) (\<lambda>r w'. (\<forall>q. q \<noteq> p \<longrightarrow> disk w' q = disk w q) \<and>
     pk_cache w' = pk_cache w \<and> xlog w' = xlog w \<and>
     (\<forall>n. r = Inr n \<longrightarrow> n = HEADER_SIZE \<and> disk w' = (disk w)(p \<mapsto> pwrite (file_bytes w p) (kf_new magic ski) 0))) w"
  unfolding kf_header_write_def Let_def kf_new_def [symmetric]
proof (rule wp_seqI [OF write_at_wp], goal_cases)
  case (2 w1)
  show ?case
    by (rule wp_seqI [OF fsync_wp]) (use 2 in \<open>auto simp: wp_rules\<close>)
qed auto

lemma kf_open_write_trunc_wp:
  "wp (kf_open_write magic p (Some ski) True) (\<lambda>r w'. (\<forall>q. q \<noteq> p \<longrightarrow> disk w' q = disk w q) \<and>
     pk_cache w' = pk_cache w \<and> xlog w' = xlog w \<and>
     (\<forall>n. r = Inr n \<longrightarrow> n = HEADER_SIZE \<and> disk w' p = Some (kf_new magic ski))) w"
proof -
  let ?w0 = "set_file p [] w"
  have b: "kf_open_basic p True True False w = (Inr (Some ()), ?w0)"
    by (simp add: kf_open_basic_def runM)
  have h: "kf_header_read p ?w0 = (Inr (dec_header [], 0), ?w0)"
    by (simp add: kf_header_read_def runM pread_def)
  have "kf_open_write magic p (Some ski) True w = bindM (kf_header_write magic p ski) (\<lambda>n. ret n) ?w0"
    using b h by (simp add: kf_open_write_def runM)
  moreover have "wp (bindM (kf_header_write magic p ski) (\<lambda>n. ret n)) (\<lambda>r w'. (\<forall>q. q \<noteq> p \<longrightarrow> disk w' q = disk w q) \<and>
     pk_cache w' = pk_cache w \<and> xlog w' = xlog w \<and>
     (\<forall>n. r = Inr n \<longrightarrow> n = HEADER_SIZE \<and> disk w' p = Some (kf_new magic ski))) ?w0"
    by (rule wp_bindI [OF kf_header_write_wp]) (auto simp: wp_rules pwrite_def zeros_def)
  ultimately show ?thesis unfolding wp_def by (metis (no_types, lifting))
qed

section \<open>The entries of a key file\<close>

text \<open>Writing entry \<open>i\<close>: replaced when it exists, appended when it is the next one.\<close>

definition put_entry :: "nat \<Rightarrow> 'e \<Rightarrow> 'e list \<Rightarrow> 'e list" where
  "put_entry i e es = (if i < length es then es[i := e] else es @ [e])"

lemma length_put_entry: "i \<le> length es \<Longrightarrow> length (put_entry i e es) = max (length es) (Suc i)"
  by (auto simp: put_entry_def)

lemma nth_put_entry:
  "i \<le> length es \<Longrightarrow> j < length (put_entry i e es) \<Longrightarrow> put_entry i e es ! j = (if j = i then e else es ! j)"
  by (auto simp: put_entry_def nth_append)

text \<open>
  The shape of every rewrite of a key file: entries computed one after the other are written
  to the temporary file, which is then renamed over the original.
\<close>

fun kf_copy :: "('e \<Rightarrow> bytes) \<Rightarrow> nat \<Rightarrow> ('x \<Rightarrow> 'e tdeM) \<Rightarrow> string \<Rightarrow> 'x list \<Rightarrow> nat \<Rightarrow> unit tdeM" where
  "kf_copy enc sz g np [] pos = ret ()"
| "kf_copy enc sz g np (x # xs) pos =
     bindM (g x) (\<lambda>e. bindM (kf_write_rec enc sz np e pos) (\<lambda>pos'. kf_copy enc sz g np xs pos'))"

definition kf_rewrite ::
  "u32 \<Rightarrow> ('e \<Rightarrow> bytes) \<Rightarrow> nat \<Rightarrow> ('x \<Rightarrow> 'e tdeM) \<Rightarrow> string \<Rightarrow> TDESignedPrincipalKeyInfo \<Rightarrow> 'x list \<Rightarrow> unit tdeM" where
  "kf_rewrite magic enc sz g old ski xs =
     bindM (kf_open_write magic (tmp_path old) (Some ski) True) (\<lambda>pos.
     seqM (kf_copy enc sz g (tmp_path old) xs pos)
     (durable_rename (tmp_path old) old))"

text \<open>An operation that computes an entry without touching files.\<close>

definition entry_op :: "('x \<Rightarrow> 'e tdeM) \<Rightarrow> ('x \<Rightarrow> 'e \<Rightarrow> bool) \<Rightarrow> 'x \<Rightarrow> bool" where
  "entry_op g R x \<longleftrightarrow> (\<forall>w. wp (g x) (\<lambda>r w'. disk w' = disk w \<and> pk_cache w' = pk_cache w \<and> xlog w' = xlog w \<and>
     (\<forall>e. r = Inr e \<longrightarrow> R x e)) w)"

lemma entry_opD:
  "entry_op g R x \<Longrightarrow> wp (g x) (\<lambda>r w'. disk w' = disk w \<and> pk_cache w' = pk_cache w \<and> xlog w' = xlog w \<and>
     (\<forall>e. r = Inr e \<longrightarrow> R x e)) w"
  by (simp add: entry_op_def)

lemma kf_copy_ok:
  assumes "\<And>x w. x \<in> set xs \<Longrightarrow> io w = [] \<Longrightarrow> \<exists>e w'. g x w = (Inr e, w') \<and> io w' = []" and "io w = []"
  shows "\<exists>w'. kf_copy enc sz g np xs pos w = (Inr (), w') \<and> io w' = []"
  using assms
proof (induction xs arbitrary: w pos)
  case Nil
  then show ?case by simp
next
  case (Cons x xs)
  obtain e w1 where e: "g x w = (Inr e, w1)" "io w1 = []" using Cons.prems by (meson list.set_intros(1))
  let ?w2 = "set_file np (pwrite (file_bytes w1 np) (enc e) pos) w1"
  have "\<exists>w'. kf_copy enc sz g np xs (pos + sz) ?w2 = (Inr (), w') \<and> io w' = []"
    using Cons e by (intro Cons.IH) auto
  with e show ?case by (simp add: runM kf_write_rec_ok)
qed

lemma kf_rewrite_ok:
  assumes "\<And>x w. x \<in> set xs \<Longrightarrow> io w = [] \<Longrightarrow> \<exists>e w'. g x w = (Inr e, w') \<and> io w' = []" and "io w = []"
  shows "\<exists>w'. kf_rewrite magic enc sz g old ski xs w = (Inr (), w') \<and> io w' = []"
  using kf_copy_ok [of xs g "set_file (tmp_path old) (kf_new magic ski) w" enc sz "tmp_path old" HEADER_SIZE] assms
  by (auto simp: kf_rewrite_def runM kf_open_write_new durable_rename_ok)

locale key_file = codec enc dec sz wf
  for enc :: "'e \<Rightarrow> bytes" and dec :: "bytes \<Rightarrow> 'e" and sz :: nat and wf :: "'e \<Rightarrow> bool" +
  fixes magic :: u32 and ents :: "bytes \<Rightarrow> 'e list"
  assumes ents_def: "ents f = recs sz dec f HEADER_SIZE"
begin

lemma ents_read_all: "read_all sz dec f HEADER_SIZE = at_offsets sz HEADER_SIZE (ents f)"
  unfolding ents_def by (rule read_all_eq [OF sz_pos])

lemma ents_wf: "e \<in> set (ents f) \<Longrightarrow> wf e"
  unfolding ents_def by (rule recs_wf)

lemma ents_Nil: "ents [] = []"
  unfolding ents_def by (intro recs_end sz_pos) simp

lemma ents_new: "wf_ski ski \<Longrightarrow> ents (kf_new magic ski) = []"
  unfolding ents_def using kf_new_good(3) [of ski magic] sz_pos by (intro recs_end) simp_all

lemma ents_pwrite:
  assumes "kf_good magic f" "wf e" "i \<le> length (ents f)"
  shows "ents (pwrite f (enc e) (HEADER_SIZE + i * sz)) = put_entry i e (ents f)"
  using assms recs_pwrite_replace [of e i f HEADER_SIZE] recs_pwrite_append [of e HEADER_SIZE f]
  by (auto simp: ents_def put_entry_def kf_good_def)

lemma ents_base:
  assumes "usable_file magic fo" "wf_ski ski"
  shows "kf_good magic (base_file magic ski fo)"
    "ents (base_file magic ski fo) = (case fo of None \<Rightarrow> [] | Some f \<Rightarrow> ents f)"
  using assms kf_new_good(1) [OF assms(2), of magic] ents_new [OF assms(2)] ents_Nil
  by (auto simp: usable_file_def base_file_def split: option.splits)

text \<open>Appending all of a list of entries, each computed by an operation that does not touch files.\<close>

lemma ents_append:
  assumes "kf_good magic f" "wf e" and "pos = HEADER_SIZE + length (ents f) * sz"
  shows "kf_good magic (pwrite f (enc e) pos)" "file_header (pwrite f (enc e) pos) = file_header f"
    "ents (pwrite f (enc e) pos) = ents f @ [e]"
  using kf_pwrite_good [OF assms(1)] ents_pwrite [OF assms(1,2), of "length (ents f)"] assms(3)
  by (simp_all add: put_entry_def)

lemma kf_copy_wp:
  assumes "\<forall>x\<in>set xs. entry_op g (\<lambda>x e. wf e \<and> R x e) x" and "disk w np = Some f" "kf_good magic f"
    and "pos = HEADER_SIZE + length (ents f) * sz"
  shows "wp (kf_copy enc sz g np xs pos)
     (\<lambda>r w'. (\<forall>q. q \<noteq> np \<longrightarrow> disk w' q = disk w q) \<and> pk_cache w' = pk_cache w \<and> xlog w' = xlog w \<and>
        (r = Inr () \<longrightarrow> (\<exists>f' es'. disk w' np = Some f' \<and> kf_good magic f' \<and> file_header f' = file_header f \<and>
           ents f' = ents f @ es' \<and> list_all2 R xs es'))) w"
  using assms
proof (induction xs arbitrary: w f pos)
  case Nil
  then show ?case by (auto simp: wp_rules)
next
  case (Cons x xs)
  have g: "entry_op g (\<lambda>x e. wf e \<and> R x e) x" using Cons.prems(1) by simp
  show ?case
    unfolding kf_copy.simps
  proof (rule wp_bindI [OF entry_opD [OF g]], goal_cases)
    case (2 e w2)
    then have e: "wf e" "R x e" and d2: "disk w2 = disk w" "pk_cache w2 = pk_cache w" "xlog w2 = xlog w" by auto
    show ?case
    proof (rule wp_bindI [OF kf_write_rec_wp], goal_cases)
      case (2 n w3)
      let ?f = "pwrite f (enc e) pos"
      have n: "n = pos + sz" and d3: "disk w3 = (disk w)(np \<mapsto> ?f)"
        using 2 d2 Cons.prems(2) by (auto simp: file_bytes_def)
      note a = ents_append [OF Cons.prems(3) e(1) Cons.prems(4)]
      have np: "disk w3 np = Some ?f" "n = HEADER_SIZE + length (ents ?f) * sz"
        using d3 n a(3) Cons.prems(4) by simp_all
      have all: "\<forall>x\<in>set xs. entry_op g (\<lambda>x e. wf e \<and> R x e) x" using Cons.prems(1) by simp
      show ?case
        by (rule wp_mono [OF Cons.IH [OF all np(1) a(1) np(2)]]) (use 2 d2 d3 a(2,3) e(2) in auto)
    qed (use d2 in auto)
  qed auto
qed

text \<open>
  A rewrite is atomic: in every outcome the file is the old one, or the complete new one.
\<close>

lemma kf_rewrite_wp:
  assumes g: "\<forall>x\<in>set xs. entry_op g (\<lambda>x e. wf e \<and> R x e) x" and ski: "wf_ski ski"
    and old: "old \<noteq> tmp_path old" "disk w old = Some f"
  shows "wp (kf_rewrite magic enc sz g old ski xs)
     (\<lambda>r w'. (\<forall>q. q \<noteq> old \<and> q \<noteq> tmp_path old \<longrightarrow> disk w' q = disk w q) \<and> pk_cache w' = pk_cache w \<and> xlog w' = xlog w \<and>
        (disk w' old = Some f \<and> r \<noteq> Inr () \<or>
         (\<exists>f'. disk w' old = Some f' \<and> kf_good magic f' \<and>
            file_header f' = \<lparr>file_version = magic, signed_key_info = ski\<rparr> \<and> list_all2 R xs (ents f')))) w"
  unfolding kf_rewrite_def
proof (rule wp_bindI [OF kf_open_write_trunc_wp], goal_cases)
  case (2 pos w2)
  let ?new = "kf_new magic ski" and ?np = "tmp_path old"
  have w2: "disk w2 old = Some f" "disk w2 ?np = Some ?new" "pos = HEADER_SIZE"
      "\<forall>q. q \<noteq> ?np \<longrightarrow> disk w2 q = disk w q" "pk_cache w2 = pk_cache w" "xlog w2 = xlog w"
    using 2 old by auto
  note nf = kf_new_good [OF ski, of magic] ents_new [OF ski]
  have "pos = HEADER_SIZE + length (ents ?new) * sz" using w2(3) nf by simp
  from kf_copy_wp [OF g w2(2) nf(1) this]
  show ?case
  proof (rule wp_seqI, goal_cases)
    case (1 e w3)
    then show ?case using w2 old(1) by auto
  next
    case (2 w3)
    then obtain f' where f': "disk w3 ?np = Some f'" "kf_good magic f'"
        "file_header f' = \<lparr>file_version = magic, signed_key_info = ski\<rparr>" "list_all2 R xs (ents f')"
      using nf by auto
    show ?case
      by (rule wp_mono [OF durable_rename_wp]) (use f' 2 w2 old in auto)
  qed
qed (use old in auto)

end

end
