(* ===== verification/Tde_Keymap.thy ===== *)
theory Tde_Keymap
  imports Tde_Keyfile
begin

text \<open>
  The relation key map (\<open>access/open_pg_tde_tdemap.c\<close>), the part below the principal key
  lookup: the file of a database is a header with the signed principal key information and
  a sequence of 128-byte entries, each an internal key sealed under the principal key with
  its identifying fields as additional authenticated data. Modelled are reading, finding,
  inserting, freeing, counting, rotating to a new principal key, and signing.
\<close>

section \<open>Entries\<close>

definition MAP_ENTRY_TYPE_EMPTY :: u32 where "MAP_ENTRY_TYPE_EMPTY = 0"
definition MAP_ENTRY_TYPE_KEY :: u32 where "MAP_ENTRY_TYPE_KEY = 1"

lemmas map_entry_types = MAP_ENTRY_TYPE_EMPTY_def MAP_ENTRY_TYPE_KEY_def

record TDEMapEntry =
  me_cipher :: u32
  me_spcOid :: Oid
  me_relNumber :: Oid
  me_type :: u32
  me_key_base_iv :: bytes
  me_entry_iv :: bytes
  me_aead_tag :: bytes
  me_encrypted_key_data :: bytes

text \<open>The bytes before \<open>entry_iv\<close> are the additional authenticated data.\<close>

definition entry_aad :: "TDEMapEntry \<Rightarrow> bytes" where
  "entry_aad e = le32 (me_cipher e) @ le32 (me_spcOid e) @ le32 (me_relNumber e) @ le32 (me_type e) @
     me_key_base_iv e"

definition enc_entry :: "TDEMapEntry \<Rightarrow> bytes" where
  "enc_entry e = entry_aad e @ me_entry_iv e @ me_aead_tag e @ me_encrypted_key_data e"

definition dec_entry :: "bytes \<Rightarrow> TDEMapEntry" where
  "dec_entry b = \<lparr>me_cipher = un32 (slice 0 4 b), me_spcOid = un32 (slice 4 4 b),
     me_relNumber = un32 (slice 8 4 b), me_type = un32 (slice 12 4 b), me_key_base_iv = slice 16 16 b,
     me_entry_iv = slice 32 16 b, me_aead_tag = slice 48 16 b, me_encrypted_key_data = slice 64 64 b\<rparr>"

definition wf_entry :: "TDEMapEntry \<Rightarrow> bool" where
  "wf_entry e \<longleftrightarrow> length (me_key_base_iv e) = 16 \<and> length (me_entry_iv e) = 16 \<and>
     length (me_aead_tag e) = 16 \<and> length (me_encrypted_key_data e) = 64"

definition ENTRY_SIZE :: nat where "ENTRY_SIZE = 128"

interpretation entry: codec enc_entry dec_entry ENTRY_SIZE wf_entry
proof unfold_locales
  fix e :: TDEMapEntry and b :: bytes
  show "0 < ENTRY_SIZE" by (simp add: ENTRY_SIZE_def)
  show "wf_entry e \<Longrightarrow> length (enc_entry e) = ENTRY_SIZE"
    by (simp add: enc_entry_def entry_aad_def wf_entry_def ENTRY_SIZE_def)
  show "wf_entry e \<Longrightarrow> dec_entry (enc_entry e) = e"
    by (simp add: enc_entry_def entry_aad_def dec_entry_def wf_entry_def)
  show "length b = ENTRY_SIZE \<Longrightarrow> wf_entry (dec_entry b)"
    by (simp add: wf_entry_def dec_entry_def length_slice ENTRY_SIZE_def)
qed

text \<open>The entry a C initialiser \<open>{.type = MAP_ENTRY_TYPE_EMPTY}\<close> or a \<open>memset\<close> to zero gives.\<close>

definition empty_map_entry :: TDEMapEntry where
  "empty_map_entry = \<lparr>me_cipher = 0, me_spcOid = 0, me_relNumber = 0, me_type = MAP_ENTRY_TYPE_EMPTY,
     me_key_base_iv = zeros 16, me_entry_iv = zeros 16, me_aead_tag = zeros 16, me_encrypted_key_data = zeros 64\<rparr>"

text \<open>The entries of a key file, with their offsets: successive reads until a short one.\<close>

definition map_entries_at :: "bytes \<Rightarrow> nat \<Rightarrow> (nat \<times> TDEMapEntry) list" where
  "map_entries_at f off = read_all ENTRY_SIZE dec_entry f off"

definition map_entries :: "bytes \<Rightarrow> TDEMapEntry list" where
  "map_entries f = recs ENTRY_SIZE dec_entry f HEADER_SIZE"

interpretation mapfile: key_file enc_entry dec_entry ENTRY_SIZE wf_entry OPEN_PG_TDE_SMGR_FILE_MAGIC map_entries
  by unfold_locales (simp add: map_entries_def)

section \<open>Opening key files\<close>

definition open_pg_tde_file_header_read :: "string \<Rightarrow> (KeyFileHeader \<times> nat) tdeM" where
  "open_pg_tde_file_header_read tde_filename = kf_header_read tde_filename"

definition open_pg_tde_file_header_write :: "string \<Rightarrow> TDESignedPrincipalKeyInfo \<Rightarrow> nat tdeM" where
  "open_pg_tde_file_header_write tde_filename ski = kf_header_write OPEN_PG_TDE_SMGR_FILE_MAGIC tde_filename ski"

definition open_pg_tde_open_file_basic :: "string \<Rightarrow> bool \<Rightarrow> bool \<Rightarrow> bool \<Rightarrow> unit option tdeM" where
  "open_pg_tde_open_file_basic tde_filename creat trunc ignore_missing =
     kf_open_basic tde_filename creat trunc ignore_missing"

definition open_pg_tde_open_file_read :: "string \<Rightarrow> bool \<Rightarrow> nat option tdeM" where
  "open_pg_tde_open_file_read tde_filename ignore_missing =
     kf_open_read OPEN_PG_TDE_SMGR_FILE_MAGIC tde_filename ignore_missing"

definition open_pg_tde_open_file_write ::
  "string \<Rightarrow> TDESignedPrincipalKeyInfo option \<Rightarrow> bool \<Rightarrow> nat tdeM" where
  "open_pg_tde_open_file_write tde_filename ski trunc =
     kf_open_write OPEN_PG_TDE_SMGR_FILE_MAGIC tde_filename ski trunc"

lemmas smgr_file_defs = open_pg_tde_file_header_read_def open_pg_tde_file_header_write_def
  open_pg_tde_open_file_basic_def open_pg_tde_open_file_read_def open_pg_tde_open_file_write_def

text \<open>One entry written and synced; the result is the advanced offset.\<close>

definition open_pg_tde_read_one_map_entry :: "bytes \<Rightarrow> nat \<Rightarrow> (TDEMapEntry \<times> nat) option" where
  "open_pg_tde_read_one_map_entry map_file offset = read_rec ENTRY_SIZE dec_entry map_file offset"

definition open_pg_tde_write_one_map_entry :: "string \<Rightarrow> TDEMapEntry \<Rightarrow> nat \<Rightarrow> nat tdeM" where
  "open_pg_tde_write_one_map_entry db_map_path map_entry offset =
     kf_write_rec enc_entry ENTRY_SIZE db_map_path map_entry offset"

lemma map_entries_at_unfold:
  "map_entries_at f off =
     (case open_pg_tde_read_one_map_entry f off of
        None \<Rightarrow> [] | Some (e, off') \<Rightarrow> (off, e) # map_entries_at f off')"
  unfolding map_entries_at_def open_pg_tde_read_one_map_entry_def
  by (subst read_all.simps) (simp add: ENTRY_SIZE_def)

section \<open>Sealing and opening\<close>

definition open_pg_tde_sign_principal_key_info :: "env \<Rightarrow> TDEPrincipalKey \<Rightarrow> TDESignedPrincipalKeyInfo tdeM" where
  "open_pg_tde_sign_principal_key_info ev pk =
     bindM (RAND_bytes ev MAP_ENTRY_IV_SIZE) (\<lambda>iv.
     bindM (AesGcmEncrypt ev (pk_material pk) iv (enc_pki (keyInfo pk)) []) (\<lambda>(_, tag).
     ret \<lparr>ski_data = keyInfo pk, sign_iv = iv, ski_aead_tag = tag\<rparr>))"

definition open_pg_tde_verify_principal_key_info :: "env \<Rightarrow> TDESignedPrincipalKeyInfo \<Rightarrow> KeyData \<Rightarrow> bool tdeM" where
  "open_pg_tde_verify_principal_key_info ev ski kd =
     bindM (AesGcmDecrypt ev (kd_material kd) (sign_iv ski) (enc_pki (ski_data ski)) [] (ski_aead_tag ski)) (\<lambda>r.
     ret (r \<noteq> None))"

text \<open>
  The bytes of \<open>encrypted_key_data\<close> past the key are never assigned: they keep what the
  stack held.
\<close>

definition open_pg_tde_initialize_map_entry ::
  "env \<Rightarrow> TDEPrincipalKey \<Rightarrow> RelFileLocator \<Rightarrow> InternalKey \<Rightarrow> TDEMapEntry tdeM" where
  "open_pg_tde_initialize_map_entry ev pk rlocator rel_key_data =
     bindM (RAND_bytes ev MAP_ENTRY_IV_SIZE) (\<lambda>iv.
       let map_entry = \<lparr>me_cipher = ik_cipher rel_key_data, me_spcOid = spcOid rlocator,
             me_relNumber = relNumber rlocator, me_type = MAP_ENTRY_TYPE_KEY,
             me_key_base_iv = ik_base_iv rel_key_data, me_entry_iv = iv, me_aead_tag = garbage ev 16,
             me_encrypted_key_data = garbage ev INTERNAL_KEY_MAX_LEN\<rparr> in
       bindM (AesGcmEncrypt ev (pk_material pk) iv (entry_aad map_entry) (ik_material rel_key_data)) (\<lambda>(ct, tag).
       ret (map_entry\<lparr>me_aead_tag := tag,
              me_encrypted_key_data := overlay INTERNAL_KEY_MAX_LEN ct (garbage ev INTERNAL_KEY_MAX_LEN)\<rparr>)))"

definition tde_decrypt_rel_key :: "env \<Rightarrow> TDEPrincipalKey \<Rightarrow> TDEMapEntry \<Rightarrow> InternalKey tdeM" where
  "tde_decrypt_rel_key ev pk map_entry =
     bindM (liftM (open_pg_tde_cipher_key_length (me_cipher map_entry))) (\<lambda>key_len.
     bindM (AesGcmDecrypt ev (pk_material pk) (me_entry_iv map_entry) (entry_aad map_entry)
              (take (unat key_len) (me_encrypted_key_data map_entry)) (me_aead_tag map_entry)) (\<lambda>r.
     case r of
       None \<Rightarrow> throw E_decrypt
     | Some pt \<Rightarrow> ret \<lparr>ik_key_len = key_len, ik_cipher = me_cipher map_entry,
         ik_base_iv = me_key_base_iv map_entry,
         ik_key = overlay INTERNAL_KEY_MAX_LEN pt (garbage ev INTERNAL_KEY_MAX_LEN)\<rparr>))"

section \<open>Finding, inserting, freeing, counting\<close>

definition entry_matches :: "RelFileLocator \<Rightarrow> TDEMapEntry \<Rightarrow> bool" where
  "entry_matches rlocator e \<longleftrightarrow> me_type e = MAP_ENTRY_TYPE_KEY \<and> me_spcOid e = spcOid rlocator \<and>
     me_relNumber e = relNumber rlocator"

definition open_pg_tde_find_map_entry :: "RelFileLocator \<Rightarrow> string \<Rightarrow> TDEMapEntry option tdeM" where
  "open_pg_tde_find_map_entry rlocator db_map_path =
     bindM (open_pg_tde_open_file_read db_map_path False) (\<lambda>curr_pos.
     bindM (getM (\<lambda>w. map_entries_at (file_bytes w db_map_path) (the curr_pos))) (\<lambda>es.
     ret (find (entry_matches rlocator) (map snd es))))"

text \<open>
  The scan of \<open>open_pg_tde_save_smgr_key\<close>: stop at an entry for the relation; remember the
  first empty slot; at the end of the file write there unless an empty slot was seen.
\<close>

fun save_scan :: "RelFileLocator \<Rightarrow> (nat \<times> TDEMapEntry) list \<Rightarrow> nat \<Rightarrow> nat \<Rightarrow> bool \<times> nat" where
  "save_scan rel [] scan_offset write_offset =
     (False, if write_offset = 0 then scan_offset else write_offset)"
| "save_scan rel ((entry_offset, entry) # es) scan_offset write_offset =
     (if me_spcOid entry = spcOid rel \<and> me_relNumber entry = relNumber rel then (True, entry_offset)
      else save_scan rel es (entry_offset + ENTRY_SIZE)
             (if write_offset = 0 \<and> me_type entry = MAP_ENTRY_TYPE_EMPTY then entry_offset else write_offset))"

text \<open>\<open>open_pg_tde_save_smgr_key\<close> once the principal key has been looked up.\<close>

definition save_smgr_key_with ::
  "env \<Rightarrow> TDEPrincipalKey \<Rightarrow> RelFileLocator \<Rightarrow> InternalKey \<Rightarrow> bool \<Rightarrow> unit tdeM" where
  "save_smgr_key_with ev pk rel rel_key_data replace_existing =
     (let file_path = open_pg_tde_set_db_file_path ev (dbOid rel) in
      bindM (open_pg_tde_sign_principal_key_info ev pk) (\<lambda>ski.
      bindM (open_pg_tde_open_file_write file_path (Some ski) False) (\<lambda>scan_offset.
      bindM (getM (\<lambda>w. save_scan rel (map_entries_at (file_bytes w file_path) scan_offset) scan_offset 0))
        (\<lambda>(entry_already_exists, write_offset).
      whenM (\<not> entry_already_exists \<or> replace_existing)
        (bindM (open_pg_tde_initialize_map_entry ev pk rel rel_key_data) (\<lambda>write_entry.
         bindM (open_pg_tde_write_one_map_entry file_path write_entry write_offset) (\<lambda>_. ret ())))))))"

definition open_pg_tde_free_key_map_entry :: "env \<Rightarrow> RelFileLocator \<Rightarrow> unit tdeM" where
  "open_pg_tde_free_key_map_entry ev rlocator =
     (let db_map_path = open_pg_tde_set_db_file_path ev (dbOid rlocator) in
      bindM (open_pg_tde_open_file_write db_map_path None False) (\<lambda>curr_pos.
      bindM (getM (\<lambda>w. map_entries_at (file_bytes w db_map_path) curr_pos)) (\<lambda>es.
      case find (\<lambda>(_, e). entry_matches rlocator e) es of
        None \<Rightarrow> ret ()
      | Some (prev_pos, _) \<Rightarrow>
          bindM (open_pg_tde_write_one_map_entry db_map_path empty_map_entry prev_pos) (\<lambda>_. ret ()))))"

definition open_pg_tde_count_encryption_keys :: "env \<Rightarrow> Oid \<Rightarrow> Oid \<Rightarrow> nat tdeM" where
  "open_pg_tde_count_encryption_keys ev db spc =
     (let db_map_path = open_pg_tde_set_db_file_path ev db in
      bindM (open_pg_tde_open_file_read db_map_path True) (\<lambda>fd.
      case fd of
        None \<Rightarrow> ret 0
      | Some curr_pos \<Rightarrow>
          bindM (getM (\<lambda>w. map_entries_at (file_bytes w db_map_path) curr_pos)) (\<lambda>es.
          ret (length (filter (\<lambda>e. me_type e = MAP_ENTRY_TYPE_KEY \<and> (spc = 0 \<or> me_spcOid e = spc)) (map snd es))))))"

definition open_pg_tde_delete_tde_files :: "env \<Rightarrow> Oid \<Rightarrow> unit tdeM" where
  "open_pg_tde_delete_tde_files ev db = PathNameDeleteTemporaryFile (open_pg_tde_set_db_file_path ev db)"

section \<open>The principal key information of a database\<close>

definition open_pg_tde_save_principal_key_redo :: "env \<Rightarrow> TDESignedPrincipalKeyInfo \<Rightarrow> unit tdeM" where
  "open_pg_tde_save_principal_key_redo ev ski =
     (let db_map_path = open_pg_tde_set_db_file_path ev (databaseId (ski_data ski)) in
      bindM (open_pg_tde_open_file_write db_map_path (Some ski) False) (\<lambda>_. ret ()))"

definition open_pg_tde_save_principal_key :: "env \<Rightarrow> TDEPrincipalKey \<Rightarrow> bool \<Rightarrow> unit tdeM" where
  "open_pg_tde_save_principal_key ev pk write_xlog =
     (let db_map_path = open_pg_tde_set_db_file_path ev (databaseId (keyInfo pk)) in
      bindM (open_pg_tde_sign_principal_key_info ev pk) (\<lambda>ski.
      seqM (whenM write_xlog (XLogInsert (XlAddPrincipalKey ski)))
      (bindM (open_pg_tde_open_file_write db_map_path (Some ski) True) (\<lambda>_. ret ()))))"

definition open_pg_tde_get_principal_key_info :: "env \<Rightarrow> Oid \<Rightarrow> TDESignedPrincipalKeyInfo option tdeM" where
  "open_pg_tde_get_principal_key_info ev db =
     (let db_map_path = open_pg_tde_set_db_file_path ev db in
      bindM (open_pg_tde_open_file_basic db_map_path False False True) (\<lambda>fd.
      if fd = None then ret None
      else
        bindM (open_pg_tde_file_header_read db_map_path) (\<lambda>(fheader, bytes_read).
        seqM (check (\<not> (bytes_read > 0 \<and>
                 FILEMAGIC_TYPE (file_version fheader) \<noteq> FILEMAGIC_TYPE OPEN_PG_TDE_SMGR_FILE_MAGIC))
                (E_wrong_version db_map_path))
        (ret (if bytes_read > 0 then Some (signed_key_info fheader) else None)))))"

definition open_pg_tde_delete_principal_key_redo :: "env \<Rightarrow> Oid \<Rightarrow> unit tdeM" where
  "open_pg_tde_delete_principal_key_redo ev db = durable_unlink (open_pg_tde_set_db_file_path ev db) False"

definition open_pg_tde_delete_principal_key :: "env \<Rightarrow> Oid \<Rightarrow> unit tdeM" where
  "open_pg_tde_delete_principal_key ev db =
     seqM (XLogInsert (XlDeletePrincipalKey db))
     (durable_unlink (open_pg_tde_set_db_file_path ev db) True)"

section \<open>Rotation\<close>

fun rotate_entries ::
  "env \<Rightarrow> TDEPrincipalKey \<Rightarrow> TDEPrincipalKey \<Rightarrow> string \<Rightarrow> TDEMapEntry list \<Rightarrow> nat \<Rightarrow> unit tdeM" where
  "rotate_entries ev pk npk new_path [] new_curr_pos = ret ()"
| "rotate_entries ev pk npk new_path (read_map_entry # es) new_curr_pos =
     (if me_type read_map_entry = MAP_ENTRY_TYPE_EMPTY then rotate_entries ev pk npk new_path es new_curr_pos
      else
        (let rloc = \<lparr>spcOid = me_spcOid read_map_entry, dbOid = databaseId (keyInfo pk),
                      relNumber = me_relNumber read_map_entry\<rparr> in
         bindM (tde_decrypt_rel_key ev pk read_map_entry) (\<lambda>rel_key_data.
         bindM (open_pg_tde_initialize_map_entry ev npk rloc rel_key_data) (\<lambda>write_map_entry.
         bindM (open_pg_tde_write_one_map_entry new_path write_map_entry new_curr_pos) (\<lambda>pos'.
         rotate_entries ev pk npk new_path es pos')))))"

definition open_pg_tde_perform_rotate_key :: "env \<Rightarrow> TDEPrincipalKey \<Rightarrow> TDEPrincipalKey \<Rightarrow> bool \<Rightarrow> unit tdeM" where
  "open_pg_tde_perform_rotate_key ev pk npk write_xlog =
     bindM (open_pg_tde_sign_principal_key_info ev npk) (\<lambda>new_signed_key_info.
       let old_path = open_pg_tde_set_db_file_path ev (databaseId (keyInfo pk));
           new_path = tmp_path old_path in
       bindM (open_pg_tde_open_file_read old_path False) (\<lambda>old_curr_pos.
       bindM (open_pg_tde_open_file_write new_path (Some new_signed_key_info) True) (\<lambda>new_curr_pos.
       bindM (getM (\<lambda>w. map_entries_at (file_bytes w old_path) (the old_curr_pos))) (\<lambda>es.
       seqM (rotate_entries ev pk npk new_path (map snd es) new_curr_pos)
       (seqM (durable_rename new_path old_path)
       (whenM write_xlog (XLogInsert
          (XlRotatePrincipalKey (databaseId (keyInfo npk)) (keyringId (keyInfo npk)) (pk_name (keyInfo npk))))))))))"

section \<open>What an entry holds\<close>

text \<open>The entry opens under the principal key to the material of the internal key \<open>k\<close>.\<close>

definition entry_holds :: "env \<Rightarrow> TDEPrincipalKey \<Rightarrow> TDEMapEntry \<Rightarrow> InternalKey \<Rightarrow> bool" where
  "entry_holds ev pk e k \<longleftrightarrow>
     gcm_decrypt ev (pk_material pk) (me_entry_iv e) (entry_aad e)
       (take (unat (ik_key_len k)) (me_encrypted_key_data e)) (me_aead_tag e) = GcmOk (ik_material k) \<and>
     me_cipher e = ik_cipher k \<and> me_key_base_iv e = ik_base_iv k \<and> wf_ik k"

definition entry_is :: "RelFileLocator \<Rightarrow> TDEMapEntry \<Rightarrow> bool" where
  "entry_is rel e \<longleftrightarrow> me_type e = MAP_ENTRY_TYPE_KEY \<and> me_spcOid e = spcOid rel \<and> me_relNumber e = relNumber rel"

text \<open>Internal keys that no operation of the program can tell apart.\<close>

definition ik_equiv :: "InternalKey \<Rightarrow> InternalKey \<Rightarrow> bool" where
  "ik_equiv a b \<longleftrightarrow> ik_key_len a = ik_key_len b \<and> ik_cipher a = ik_cipher b \<and>
     ik_base_iv a = ik_base_iv b \<and> ik_material a = ik_material b"

lemma entry_matches_is: "entry_matches rel e \<longleftrightarrow> entry_is rel e"
  by (simp add: entry_matches_def entry_is_def)

lemma wf_ik_len: "wf_ik k \<Longrightarrow> length (ik_material k) = unat (ik_key_len k) \<and> unat (ik_key_len k) \<le> 64"
  using wf_ik_cases [of k] by (auto simp: wf_ik_def ik_material_def)

lemma initialize_with_iv:
  assumes "gcm_ok ev" "wf_ik k" and iv: "RAND_bytes ev MAP_ENTRY_IV_SIZE w = (Inr iv, w1)"
  shows "\<exists>e. open_pg_tde_initialize_map_entry ev pk rel k w = (Inr e, w1) \<and>
     wf_entry e \<and> entry_is rel e \<and> entry_holds ev pk e k"
proof -
  have ivl: "length iv = 16" using RAND_bytes_length [OF iv] by (simp add: size_consts)
  define e0 where "e0 = \<lparr>me_cipher = ik_cipher k, me_spcOid = spcOid rel,
      me_relNumber = relNumber rel, me_type = MAP_ENTRY_TYPE_KEY,
      me_key_base_iv = ik_base_iv k, me_entry_iv = iv, me_aead_tag = garbage ev 16,
      me_encrypted_key_data = garbage ev INTERNAL_KEY_MAX_LEN\<rparr>"
  obtain ct tag where g: "gcm_encrypt ev (pk_material pk) iv (entry_aad e0) (ik_material k) = Some (ct, tag)"
      "length ct = length (ik_material k)" "length tag = 16"
      "gcm_decrypt ev (pk_material pk) iv (entry_aad e0) ct tag = GcmOk (ik_material k)"
    using gcm_ok_seal [OF assms(1)] by blast
  define e where "e = e0\<lparr>me_aead_tag := tag,
      me_encrypted_key_data := overlay INTERNAL_KEY_MAX_LEN ct (garbage ev INTERNAL_KEY_MAX_LEN)\<rparr>"
  have "open_pg_tde_initialize_map_entry ev pk rel k w = (Inr e, w1)"
    using iv g(1)
    by (simp add: open_pg_tde_initialize_map_entry_def runM AesGcmEncrypt_def Let_def e_def flip: e0_def)
      (simp add: e0_def)
  moreover have aad: "entry_aad e = entry_aad e0" by (simp add: entry_aad_def e_def)
  have m: "length ct = unat (ik_key_len k)" "length ct \<le> 64"
    using g(2) wf_ik_len [OF assms(2)] by simp_all
  have "take (unat (ik_key_len k)) (me_encrypted_key_data e) = ct"
    using m take_overlay [of ct 64 "garbage ev 64"] by (simp add: e_def size_consts)
  then have "entry_holds ev pk e k"
    using g(4) assms(2) by (simp add: entry_holds_def aad) (simp add: e_def e0_def)
  moreover have "wf_entry e" "entry_is rel e"
    using assms(2) ivl g(3)
    by (simp_all add: wf_entry_def entry_is_def e_def e0_def wf_ik_def length_overlay size_consts)
  ultimately show ?thesis by blast
qed

lemma initialize_map_entry_ok:
  assumes "gcm_ok ev" "rand_ok ev" "wf_ik k"
  shows "\<exists>e. open_pg_tde_initialize_map_entry ev pk rel k w = (Inr e, w\<lparr>rng := Suc (rng w)\<rparr>) \<and>
     wf_entry e \<and> entry_is rel e \<and> entry_holds ev pk e k"
  using RAND_bytes_ok [OF assms(2), of MAP_ENTRY_IV_SIZE w] initialize_with_iv [OF assms(1,3)] by blast

lemma initialize_map_entry_wp:
  assumes "gcm_ok ev" "wf_ik k"
  shows "wp (open_pg_tde_initialize_map_entry ev pk rel k)
     (\<lambda>r w'. disk w' = disk w \<and> pk_cache w' = pk_cache w \<and> xlog w' = xlog w \<and>
        (\<forall>e. r = Inr e \<longrightarrow> wf_entry e \<and> entry_is rel e \<and> entry_holds ev pk e k)) w"
proof (cases "RAND_bytes ev MAP_ENTRY_IV_SIZE w")
  case (Pair r w1)
  have w1: "disk w1 = disk w" "pk_cache w1 = pk_cache w" "xlog w1 = xlog w"
    using wp_run [OF RAND_bytes_wp Pair] by simp_all
  show ?thesis
  proof (cases r)
    case (Inl x)
    then show ?thesis
      using Pair w1 by (simp add: wp_def open_pg_tde_initialize_map_entry_def bindM_def)
  next
    case (Inr iv)
    then obtain e where "open_pg_tde_initialize_map_entry ev pk rel k w = (Inr e, w1)"
        "wf_entry e" "entry_is rel e" "entry_holds ev pk e k"
      using initialize_with_iv [OF assms, of w iv w1] Pair by blast
    then show ?thesis using w1 by (simp add: wp_def)
  qed
qed

lemma decrypt_rel_key_ok:
  assumes "entry_holds ev pk e k"
  shows "\<exists>k'. tde_decrypt_rel_key ev pk e w = (Inr k', w) \<and> ik_equiv k' k \<and> wf_ik k'"
proof -
  have kl: "open_pg_tde_cipher_key_length (me_cipher e) = Inr (ik_key_len k)"
    and len: "length (ik_material k) = unat (ik_key_len k)" "unat (ik_key_len k) \<le> 64"
    and iv: "length (ik_base_iv k) = 16"
    using assms wf_ik_len [of k] by (auto simp: entry_holds_def wf_ik_def)
  let ?k = "\<lparr>ik_key_len = ik_key_len k, ik_cipher = me_cipher e, ik_base_iv = me_key_base_iv e,
      ik_key = overlay INTERNAL_KEY_MAX_LEN (ik_material k) (garbage ev INTERNAL_KEY_MAX_LEN)\<rparr>"
  have "tde_decrypt_rel_key ev pk e w = (Inr ?k, w)"
    using assms kl by (simp add: tde_decrypt_rel_key_def runM AesGcmDecrypt_def entry_holds_def)
  moreover have "ik_material ?k = ik_material k"
    using len take_overlay [of "ik_material k" 64 "garbage ev 64"]
    by (simp add: ik_material_def size_consts)
  ultimately show ?thesis
    using assms kl iv by (auto simp: ik_equiv_def entry_holds_def wf_ik_def length_overlay size_consts)
qed

lemma decrypt_rel_key_state: "snd (tde_decrypt_rel_key ev pk e w) = w"
  by (auto simp: tde_decrypt_rel_key_def bindM_def AesGcmDecrypt_def liftM_def
      split: sum.splits prod.splits gcm_result.splits option.splits)

text \<open>Only the key that was sealed comes out: opening with success determines the key.\<close>

lemma decrypt_rel_key_inv:
  assumes "tde_decrypt_rel_key ev pk e w = (Inr k, w')" and "gcm_ok ev" and "wf_entry e"
  shows "w' = w \<and> entry_holds ev pk e k"
proof -
  obtain n pt where n: "open_pg_tde_cipher_key_length (me_cipher e) = Inr n"
    and d: "gcm_decrypt ev (pk_material pk) (me_entry_iv e) (entry_aad e)
       (take (unat n) (me_encrypted_key_data e)) (me_aead_tag e) = GcmOk pt"
    and k: "k = \<lparr>ik_key_len = n, ik_cipher = me_cipher e, ik_base_iv = me_key_base_iv e,
         ik_key = overlay INTERNAL_KEY_MAX_LEN pt (garbage ev INTERNAL_KEY_MAX_LEN)\<rparr>" and w: "w' = w"
    using assms(1)
    by (auto simp: tde_decrypt_rel_key_def bindM_eq_Inr AesGcmDecrypt_def liftM_def
        split: sum.splits gcm_result.splits option.splits)
  have nb: "unat n \<le> 64" using cipher_key_length_cases [OF n] by auto
  obtain ct tag where "gcm_encrypt ev (pk_material pk) (me_entry_iv e) (entry_aad e) pt = Some (ct, tag)"
      "length ct = length pt"
    using gcm_ok_seal [OF assms(2)] by blast
  then have len: "length pt = unat n"
    using gcm_ok_open [OF assms(2) d] nb assms(3) by (auto simp: wf_entry_def)
  have "take (unat n) (overlay INTERNAL_KEY_MAX_LEN pt (garbage ev INTERNAL_KEY_MAX_LEN)) = pt"
    using take_overlay [of pt 64] len nb by (simp add: size_consts)
  then show ?thesis
    using n d k w nb assms(3)
    by (auto simp: entry_holds_def wf_ik_def ik_material_def length_overlay size_consts wf_entry_def)
qed

section \<open>Key files\<close>

abbreviation good_file :: "bytes \<Rightarrow> bool" where
  "good_file \<equiv> kf_good OPEN_PG_TDE_SMGR_FILE_MAGIC"

lemma open_read_good [errM]:
  "disk w p = Some f \<Longrightarrow> good_file f \<Longrightarrow> open_pg_tde_open_file_read p im w = (Inr (Some HEADER_SIZE), w)"
  by (simp add: smgr_file_defs kf_open_read_good)

lemma open_write_good [errM]:
  "disk w p = Some f \<Longrightarrow> good_file f \<Longrightarrow> open_pg_tde_open_file_write p ski False w = (Inr HEADER_SIZE, w)"
  by (simp add: smgr_file_defs kf_open_write_good)

lemma write_one_ok [errM]:
  "io w = [] \<Longrightarrow> open_pg_tde_write_one_map_entry p e off w =
     (Inr (off + ENTRY_SIZE), set_file p (pwrite (file_bytes w p) (enc_entry e) off) w)"
  by (simp add: open_pg_tde_write_one_map_entry_def kf_write_rec_ok)

lemma map_entries_at_header: "map_entries_at f HEADER_SIZE = at_offsets ENTRY_SIZE HEADER_SIZE (map_entries f)"
  unfolding map_entries_at_def by (rule mapfile.ents_read_all)

lemma map_snd_entries [simp]: "map snd (map_entries_at f HEADER_SIZE) = map_entries f"
  by (simp add: map_entries_at_header)

section \<open>Inserting and freeing on the list of entries\<close>

definition same_rel :: "RelFileLocator \<Rightarrow> TDEMapEntry \<Rightarrow> bool" where
  "same_rel rel e \<longleftrightarrow> me_spcOid e = spcOid rel \<and> me_relNumber e = relNumber rel"

definition is_empty_entry :: "TDEMapEntry \<Rightarrow> bool" where
  "is_empty_entry e \<longleftrightarrow> me_type e = MAP_ENTRY_TYPE_EMPTY"

text \<open>The slot an insertion writes: the relation's entry, else the first empty one, else the end.\<close>

definition save_slot :: "RelFileLocator \<Rightarrow> TDEMapEntry list \<Rightarrow> nat" where
  "save_slot rel es = (if find_index (same_rel rel) es < length es then find_index (same_rel rel) es
     else find_index is_empty_entry es)"

lemma save_scan_eq:
  "0 < off \<Longrightarrow> save_scan rel (at_offsets ENTRY_SIZE off es) off wo =
     (if find_index (same_rel rel) es < length es then (True, off + find_index (same_rel rel) es * ENTRY_SIZE)
      else (False, if wo \<noteq> 0 then wo else off + find_index is_empty_entry es * ENTRY_SIZE))"
proof (induction es arbitrary: off wo)
  case Nil
  then show ?case by simp
next
  case (Cons e es)
  show ?case
  proof (cases "same_rel rel e")
    case True
    then show ?thesis by (simp add: same_rel_def)
  next
    case False
    then have "\<not> (me_spcOid e = spcOid rel \<and> me_relNumber e = relNumber rel)" by (simp add: same_rel_def)
    with False Cons.prems show ?thesis
      by (auto simp: Cons.IH is_empty_entry_def)
  qed
qed

lemma save_slot_le: "save_slot rel es \<le> length es"
  by (simp add: save_slot_def find_index_le less_imp_le)

lemma save_slot_entry:
  "save_slot rel es < length es \<Longrightarrow> same_rel rel (es ! save_slot rel es) \<or> is_empty_entry (es ! save_slot rel es)"
  using find_index_nth [of "same_rel rel" es] find_index_nth [of is_empty_entry es]
  by (auto simp: save_slot_def split: if_splits)

lemma save_slot_fresh:
  assumes "i < length es" "i < save_slot rel es \<or> find_index (same_rel rel) es = length es"
  shows "\<not> same_rel rel (es ! i)"
  using assms find_index_before [of i "same_rel rel" es] find_index_le [of "same_rel rel" es]
  by (auto simp: save_slot_def split: if_splits)

lemma put_find_same:
  assumes "entry_is rel e"
  shows "find (entry_matches rel) (put_entry (save_slot rel es) e es) = Some e"
proof (cases "save_slot rel es < length es")
  case True
  have "find (entry_matches rel) (es[save_slot rel es := e]) = Some e"
  proof (rule find_update_first [OF True])
    show "entry_matches rel e" using assms by (simp add: entry_matches_is)
    show "\<not> entry_matches rel (es ! j)" if "j < save_slot rel es" for j
      using save_slot_fresh [of j es rel] that True by (auto simp: entry_matches_def same_rel_def)
  qed
  with True show ?thesis by (simp add: put_entry_def)
next
  case False
  then have "find_index (same_rel rel) es = length es"
    using find_index_le [of "same_rel rel" es] by (auto simp: save_slot_def split: if_splits)
  then have "\<forall>x\<in>set es. \<not> same_rel rel x" using find_index_less [of "same_rel rel" es] by auto
  then have "find (entry_matches rel) es = None"
    by (auto simp: find_None_iff entry_matches_def same_rel_def)
  with False assms show ?thesis by (simp add: put_entry_def find_append entry_matches_is)
qed

lemma put_find_other:
  assumes "entry_is rel e" and "spcOid rel' \<noteq> spcOid rel \<or> relNumber rel' \<noteq> relNumber rel"
  shows "find (entry_matches rel') (put_entry (save_slot rel es) e es) = find (entry_matches rel') es"
proof -
  have e: "\<not> entry_matches rel' e" using assms by (auto simp: entry_matches_def entry_is_def)
  show ?thesis
  proof (cases "save_slot rel es < length es")
    case True
    then have "\<not> entry_matches rel' (es ! save_slot rel es)"
      using save_slot_entry [of rel es] assms(2)
      by (auto simp: entry_matches_def same_rel_def is_empty_entry_def map_entry_types)
    with True e show ?thesis by (simp add: put_entry_def find_update_other)
  next
    case False
    with e show ?thesis by (simp add: put_entry_def find_append split: option.splits)
  qed
qed

text \<open>
  The invariant of the entries of a key file: each is empty or a key, empty ones carry no
  relation, and no relation has two keys.
\<close>

definition entry_ok :: "TDEMapEntry \<Rightarrow> bool" where
  "entry_ok e \<longleftrightarrow> (me_type e = MAP_ENTRY_TYPE_EMPTY \<and> me_relNumber e = 0) \<or>
     (me_type e = MAP_ENTRY_TYPE_KEY \<and> me_relNumber e \<noteq> 0)"

definition keymap_inv :: "TDEMapEntry list \<Rightarrow> bool" where
  "keymap_inv es \<longleftrightarrow> (\<forall>e\<in>set es. entry_ok e) \<and>
     (\<forall>i<length es. \<forall>j<length es. i \<noteq> j \<longrightarrow> me_relNumber (es ! i) \<noteq> 0 \<longrightarrow>
        \<not> (me_spcOid (es ! i) = me_spcOid (es ! j) \<and> me_relNumber (es ! i) = me_relNumber (es ! j)))"

lemma keymap_inv_Nil: "keymap_inv []"
  by (simp add: keymap_inv_def)

lemma keymap_inv_put:
  assumes inv: "keymap_inv es" and i: "i \<le> length es" and ok: "entry_ok e"
    and fresh: "\<And>j. j < length es \<Longrightarrow> j \<noteq> i \<Longrightarrow> me_relNumber e \<noteq> 0 \<Longrightarrow>
      \<not> (me_spcOid e = me_spcOid (es ! j) \<and> me_relNumber e = me_relNumber (es ! j))"
  shows "keymap_inv (put_entry i e es)"
proof -
  let ?es = "put_entry i e es"
  have in_range: "j < length es" if "j < length ?es" "j \<noteq> i" for j
    using that i by (auto simp: length_put_entry)
  have "entry_ok x" if "x \<in> set ?es" for x
    using that inv ok set_update_subset_insert [of es i e] by (auto simp: put_entry_def keymap_inv_def split: if_splits)
  moreover have "\<not> (me_spcOid (?es ! a) = me_spcOid (?es ! b) \<and> me_relNumber (?es ! a) = me_relNumber (?es ! b))"
    if a: "a < length ?es" and b: "b < length ?es" and ne: "a \<noteq> b" and nz: "me_relNumber (?es ! a) \<noteq> 0" for a b
  proof -
    consider "a = i" | "b = i" | "a \<noteq> i" "b \<noteq> i" by blast
    then show ?thesis
    proof cases
      case 1
      then show ?thesis using fresh [of b] in_range [of b] a b ne nz i by (simp add: nth_put_entry)
    next
      case 2
      then show ?thesis using fresh [of a] in_range [of a] a b ne nz i by (auto simp: nth_put_entry)
    next
      case 3
      then have "a < length es" "b < length es" using in_range a b by blast+
      then show ?thesis using 3 inv a b ne nz i unfolding keymap_inv_def by (simp add: nth_put_entry)
    qed
  qed
  ultimately show ?thesis unfolding keymap_inv_def by blast
qed

lemma keymap_inv_save:
  assumes inv: "keymap_inv es" and e: "entry_is rel e" and rel: "relNumber rel \<noteq> 0"
  shows "keymap_inv (put_entry (save_slot rel es) e es)"
proof (rule keymap_inv_put [OF inv save_slot_le])
  show "entry_ok e" using e rel by (simp add: entry_ok_def entry_is_def)
  fix j assume j: "j < length es" "j \<noteq> save_slot rel es"
  show "\<not> (me_spcOid e = me_spcOid (es ! j) \<and> me_relNumber e = me_relNumber (es ! j))"
  proof
    assume "me_spcOid e = me_spcOid (es ! j) \<and> me_relNumber e = me_relNumber (es ! j)"
    then have sj: "same_rel rel (es ! j)" using e by (simp add: same_rel_def entry_is_def)
    then have lt: "find_index (same_rel rel) es < length es" using find_index_less j(1) nth_mem by blast
    then have "same_rel rel (es ! save_slot rel es)" "save_slot rel es < length es"
      using find_index_nth [OF lt] by (simp_all add: save_slot_def)
    moreover have "me_relNumber (es ! j) \<noteq> 0" using sj rel by (simp add: same_rel_def)
    ultimately have "\<not> (me_spcOid (es ! j) = me_spcOid (es ! save_slot rel es) \<and>
        me_relNumber (es ! j) = me_relNumber (es ! save_slot rel es))"
      using inv j unfolding keymap_inv_def by blast
    then show False using \<open>same_rel rel (es ! save_slot rel es)\<close> sj by (simp add: same_rel_def)
  qed
qed

lemma keymap_inv_free: "keymap_inv es \<Longrightarrow> i < length es \<Longrightarrow> keymap_inv (put_entry i empty_map_entry es)"
  by (rule keymap_inv_put) (auto simp: entry_ok_def empty_map_entry_def)

text \<open>After freeing the first match of a relation, it has no key; the others keep theirs.\<close>

lemma free_find:
  assumes inv: "keymap_inv es" and i: "i = find_index (entry_matches rel) es" "i < length es"
    and rel: "relNumber rel \<noteq> 0"
  shows "find (entry_matches rel) (put_entry i empty_map_entry es) = None"
    and "spcOid rel' \<noteq> spcOid rel \<or> relNumber rel' \<noteq> relNumber rel \<Longrightarrow>
      find (entry_matches rel') (put_entry i empty_map_entry es) = find (entry_matches rel') es"
proof -
  have m: "entry_matches rel (es ! i)" using find_index_nth [of "entry_matches rel" es] i by simp
  have "\<not> entry_matches rel x" if x: "x \<in> set (es[i := empty_map_entry])" for x
  proof -
    obtain j where j: "j < length es" "x = es[i := empty_map_entry] ! j"
      using x by (auto simp: in_set_conv_nth)
    show ?thesis
    proof (cases "j = i")
      case True
      then show ?thesis using j i by (simp add: entry_matches_def empty_map_entry_def map_entry_types)
    next
      case False
      then have x: "x = es ! j" using j by simp
      have "me_relNumber (es ! i) \<noteq> 0" using m rel by (simp add: entry_matches_def)
      then have "\<not> (me_spcOid (es ! i) = me_spcOid (es ! j) \<and> me_relNumber (es ! i) = me_relNumber (es ! j))"
        using inv False j(1) i(2) by (simp add: keymap_inv_def)
      then show ?thesis using m x by (auto simp: entry_matches_def)
    qed
  qed
  then show "find (entry_matches rel) (put_entry i empty_map_entry es) = None"
    using i by (simp add: put_entry_def find_None_iff)
  assume ne: "spcOid rel' \<noteq> spcOid rel \<or> relNumber rel' \<noteq> relNumber rel"
  then have "\<not> entry_matches rel' (es ! i)" using m by (auto simp: entry_matches_def)
  then show "find (entry_matches rel') (put_entry i empty_map_entry es) = find (entry_matches rel') es"
    using i by (simp add: put_entry_def find_update_other entry_matches_def empty_map_entry_def map_entry_types)
qed

end
