(* ===== verification/Tde_Keymap_Ops.thy ===== *)
theory Tde_Keymap_Ops
  imports Tde_Keymap
begin

text \<open>
  What the operations of the relation key map do to key files: insertion, lookup, freeing and
  counting in terms of the list of entries, the signed header, and rotation, which is
  atomic under every failure of a write, sync or rename.
\<close>

section \<open>Signing and verifying the header\<close>

lemma sign_with_iv:
  assumes "gcm_ok ev" and "wf_pki (keyInfo pk)" and iv: "RAND_bytes ev MAP_ENTRY_IV_SIZE w = (Inr iv, w1)"
  shows "\<exists>ski. open_pg_tde_sign_principal_key_info ev pk w = (Inr ski, w1) \<and> wf_ski ski \<and>
     ski_data ski = keyInfo pk \<and>
     gcm_decrypt ev (pk_material pk) (sign_iv ski) (enc_pki (keyInfo pk)) [] (ski_aead_tag ski) = GcmOk []"
proof -
  have "length iv = 16" using RAND_bytes_length [OF iv] by (simp add: size_consts)
  moreover obtain ct tag where "gcm_encrypt ev (pk_material pk) iv (enc_pki (keyInfo pk)) [] = Some (ct, tag)"
      "length ct = length ([] :: bytes)" "length tag = 16"
      "gcm_decrypt ev (pk_material pk) iv (enc_pki (keyInfo pk)) ct tag = GcmOk []"
    using gcm_ok_seal [OF assms(1)] by blast
  ultimately show ?thesis
    using assms(2) iv by (simp add: open_pg_tde_sign_principal_key_info_def runM AesGcmEncrypt_def wf_ski_def)
qed

lemma sign_ok:
  assumes "gcm_ok ev" "rand_ok ev" and "wf_pki (keyInfo pk)"
  shows "\<exists>ski. open_pg_tde_sign_principal_key_info ev pk w = (Inr ski, w\<lparr>rng := Suc (rng w)\<rparr>) \<and> wf_ski ski \<and>
     ski_data ski = keyInfo pk \<and>
     gcm_decrypt ev (pk_material pk) (sign_iv ski) (enc_pki (keyInfo pk)) [] (ski_aead_tag ski) = GcmOk []"
  using RAND_bytes_ok [OF assms(2), of MAP_ENTRY_IV_SIZE w] sign_with_iv [OF assms(1,3)] by blast

definition signed_by :: "env \<Rightarrow> TDEPrincipalKey \<Rightarrow> TDESignedPrincipalKeyInfo \<Rightarrow> bool" where
  "signed_by ev pk ski \<longleftrightarrow> wf_ski ski \<and> ski_data ski = keyInfo pk \<and>
     gcm_decrypt ev (pk_material pk) (sign_iv ski) (enc_pki (keyInfo pk)) [] (ski_aead_tag ski) = GcmOk []"

lemma sign_wp:
  assumes "gcm_ok ev" and "wf_pki (keyInfo pk)"
  shows "wp (open_pg_tde_sign_principal_key_info ev pk)
     (\<lambda>r w'. disk w' = disk w \<and> pk_cache w' = pk_cache w \<and> xlog w' = xlog w \<and> (\<forall>ski. r = Inr ski \<longrightarrow> signed_by ev pk ski)) w"
proof (cases "RAND_bytes ev MAP_ENTRY_IV_SIZE w")
  case (Pair r w1)
  have w1: "disk w1 = disk w" "pk_cache w1 = pk_cache w" "xlog w1 = xlog w"
    using wp_run [OF RAND_bytes_wp Pair] by simp_all
  show ?thesis
  proof (cases r)
    case (Inl x)
    then show ?thesis using Pair w1 by (simp add: wp_def open_pg_tde_sign_principal_key_info_def bindM_def)
  next
    case (Inr iv)
    with Pair obtain ski where "open_pg_tde_sign_principal_key_info ev pk w = (Inr ski, w1)" "signed_by ev pk ski"
      using sign_with_iv [OF assms, of w iv w1] unfolding signed_by_def by blast
    then show ?thesis using w1 by (simp add: wp_def)
  qed
qed

lemma verify_signed:
  assumes "signed_by ev pk ski" and "kd_material kd = pk_material pk"
  shows "open_pg_tde_verify_principal_key_info ev ski kd w = (Inr True, w)"
  using assms by (simp add: open_pg_tde_verify_principal_key_info_def runM AesGcmDecrypt_def signed_by_def)

section \<open>Lookup, insertion, freeing, counting\<close>

lemma find_map_entry_ok:
  "disk w p = Some f \<Longrightarrow> good_file f \<Longrightarrow>
     open_pg_tde_find_map_entry rel p w = (Inr (find (entry_matches rel) (map_entries f)), w)"
  by (simp add: open_pg_tde_find_map_entry_def runM open_read_good file_bytes_def map_entries_at_header)

definition entries_of :: "bytes option \<Rightarrow> TDEMapEntry list" where
  "entries_of fo = (case fo of None \<Rightarrow> [] | Some f \<Rightarrow> map_entries f)"

abbreviation "smgr_usable \<equiv> usable_file OPEN_PG_TDE_SMGR_FILE_MAGIC"
abbreviation "smgr_base \<equiv> base_file OPEN_PG_TDE_SMGR_FILE_MAGIC"

text \<open>
  Insertion: the entry of the relation is replaced if it exists and \<open>replace_existing\<close> is
  set, otherwise the first empty entry is used, otherwise one is appended.
\<close>

lemma save_with_ok:
  assumes ok: "gcm_ok ev" "rand_ok ev" and wf: "wf_ik k" "wf_pki (keyInfo pk)" and io: "io w = []"
    and p: "p = open_pg_tde_set_db_file_path ev (dbOid rel)" and us: "smgr_usable (disk w p)"
    and es: "es = entries_of (disk w p)"
  shows "\<exists>ski f' n. signed_by ev pk ski \<and>
     save_smgr_key_with ev pk rel k rep w = (Inr (), (set_file p f' w)\<lparr>rng := n\<rparr>) \<and> good_file f' \<and>
     file_header f' = file_header (smgr_base ski (disk w p)) \<and>
     (if find_index (same_rel rel) es < length es \<and> \<not> rep then f' = smgr_base ski (disk w p)
      else \<exists>e. wf_entry e \<and> entry_is rel e \<and> entry_holds ev pk e k \<and>
        map_entries f' = put_entry (save_slot rel es) e es)"
proof -
  obtain ski where ski: "open_pg_tde_sign_principal_key_info ev pk w = (Inr ski, w\<lparr>rng := Suc (rng w)\<rparr>)" "signed_by ev pk ski"
    using sign_ok [OF ok wf(2)] unfolding signed_by_def by blast
  let ?f = "smgr_base ski (disk w p)" and ?w1 = "set_file p (smgr_base ski (disk w p)) (w\<lparr>rng := Suc (rng w)\<rparr>)"
  have f: "good_file ?f" "map_entries ?f = es"
    using mapfile.ents_base [OF us, of ski] ski(2) es by (simp_all add: signed_by_def entries_of_def)
  have ow: "open_pg_tde_open_file_write p (Some ski) False (w\<lparr>rng := Suc (rng w)\<rparr>) = (Inr HEADER_SIZE, ?w1)"
    using kf_open_write_base [of OPEN_PG_TDE_SMGR_FILE_MAGIC "w\<lparr>rng := Suc (rng w)\<rparr>" p ski] us io
    by (simp add: smgr_file_defs)
  have sc: "save_scan rel (map_entries_at (file_bytes ?w1 p) HEADER_SIZE) HEADER_SIZE 0 =
      (find_index (same_rel rel) es < length es, HEADER_SIZE + save_slot rel es * ENTRY_SIZE)"
    using f by (simp add: map_entries_at_header save_scan_eq save_slot_def)
  obtain e where e: "open_pg_tde_initialize_map_entry ev pk rel k ?w1 = (Inr e, ?w1\<lparr>rng := Suc (rng ?w1)\<rparr>)"
      "wf_entry e" "entry_is rel e" "entry_holds ev pk e k"
    using initialize_map_entry_ok [OF ok wf(1)] by blast
  define f2 where "f2 = pwrite ?f (enc_entry e) (HEADER_SIZE + save_slot rel es * ENTRY_SIZE)"
  have f2: "good_file f2" "file_header f2 = file_header ?f" "map_entries f2 = put_entry (save_slot rel es) e es"
    using kf_pwrite_good [OF f(1)] mapfile.ents_pwrite [OF f(1) e(2)] f(2) save_slot_le
    by (simp_all add: f2_def)
  have w1: "?w1 = (set_file p ?f w)\<lparr>rng := Suc (rng w)\<rparr>" by (simp add: set_file_def)
  show ?thesis
  proof (cases "find_index (same_rel rel) es < length es \<and> \<not> rep")
    case True
    then have "save_smgr_key_with ev pk rel k rep w = (Inr (), ?w1)"
      using ski ow sc by (simp add: save_smgr_key_with_def runM Let_def flip: p)
    with True ski(2) f w1 show ?thesis by fastforce
  next
    case False
    have "save_smgr_key_with ev pk rel k rep w = (Inr (), (set_file p f2 w)\<lparr>rng := Suc (Suc (rng w))\<rparr>)"
      using False ski ow sc e(1) io
      by (simp add: save_smgr_key_with_def runM Let_def write_one_ok f2_def flip: p)
        (simp add: set_file_def file_bytes_def)
    with False ski(2) f2 e show ?thesis by fastforce
  qed
qed

lemma free_ok:
  assumes io: "io w = []" and p: "p = open_pg_tde_set_db_file_path ev (dbOid rel)"
    and f: "disk w p = Some f" "good_file f"
  shows "\<exists>f'. open_pg_tde_free_key_map_entry ev rel w = (Inr (), set_file p f' w) \<and> good_file f' \<and>
     file_header f' = file_header f \<and>
     map_entries f' = (let i = find_index (entry_matches rel) (map_entries f) in
       if i < length (map_entries f) then put_entry i empty_map_entry (map_entries f) else map_entries f)"
proof -
  let ?es = "map_entries f" and ?i = "find_index (entry_matches rel) (map_entries f)"
  have fi: "find (\<lambda>(_, e). entry_matches rel e) (map_entries_at f HEADER_SIZE)
      = (if ?i < length ?es then Some (HEADER_SIZE + ?i * ENTRY_SIZE, ?es ! ?i) else None)"
    by (simp add: map_entries_at_header find_at_offsets)
  have wf: "wf_entry empty_map_entry" by (simp add: wf_entry_def empty_map_entry_def)
  show ?thesis
  proof (cases "?i < length ?es")
    case True
    let ?f = "pwrite f (enc_entry empty_map_entry) (HEADER_SIZE + ?i * ENTRY_SIZE)"
    have "open_pg_tde_free_key_map_entry ev rel w = (Inr (), set_file p ?f w)"
      using True f fi io
      by (simp add: open_pg_tde_free_key_map_entry_def Let_def runM open_write_good file_bytes_def
          write_one_ok flip: p)
    then show ?thesis
      using True kf_pwrite_good [OF f(2)] mapfile.ents_pwrite [OF f(2) wf, of ?i] by (auto simp: Let_def)
  next
    case False
    then have "open_pg_tde_free_key_map_entry ev rel w = (Inr (), w)"
      using f fi io
      by (simp add: open_pg_tde_free_key_map_entry_def Let_def runM open_write_good file_bytes_def flip: p)
    then show ?thesis using False f by (intro exI [of _ f]) (simp add: set_file_same)
  qed
qed

lemma count_ok:
  assumes "disk w (open_pg_tde_set_db_file_path ev db) = Some f" "good_file f"
  shows "open_pg_tde_count_encryption_keys ev db spc w =
     (Inr (length (filter (\<lambda>e. me_type e = MAP_ENTRY_TYPE_KEY \<and> (spc = 0 \<or> me_spcOid e = spc)) (map_entries f))), w)"
  using assms
  by (simp add: open_pg_tde_count_encryption_keys_def Let_def runM open_read_good file_bytes_def del: length_filter_map)

lemma count_missing:
  "disk w (open_pg_tde_set_db_file_path ev db) = None \<Longrightarrow> open_pg_tde_count_encryption_keys ev db spc w = (Inr 0, w)"
  by (simp add: open_pg_tde_count_encryption_keys_def smgr_file_defs kf_open_read_missing Let_def runM)

section \<open>Rotation\<close>

text \<open>The rotated entry holds the same key for the same relation, under the new principal key.\<close>

definition rotated :: "env \<Rightarrow> TDEPrincipalKey \<Rightarrow> TDEPrincipalKey \<Rightarrow> TDEMapEntry \<Rightarrow> TDEMapEntry \<Rightarrow> bool" where
  "rotated ev pk npk e e' \<longleftrightarrow> me_spcOid e' = me_spcOid e \<and> me_relNumber e' = me_relNumber e \<and>
     me_type e' = MAP_ENTRY_TYPE_KEY \<and> (\<exists>k. entry_holds ev pk e k \<and> entry_holds ev npk e' k)"

lemma decrypt_rel_key_wp:
  "gcm_ok ev \<Longrightarrow> wf_entry e \<Longrightarrow>
     wp (tde_decrypt_rel_key ev pk e) (\<lambda>r w'. w' = w \<and> (\<forall>k. r = Inr k \<longrightarrow> entry_holds ev pk e k)) w"
  unfolding wp_def using decrypt_rel_key_inv [of ev pk e w] decrypt_rel_key_state [of ev pk e w]
  by (metis prod.collapse)

definition live_entries :: "TDEMapEntry list \<Rightarrow> TDEMapEntry list" where
  "live_entries es = filter (\<lambda>e. me_type e \<noteq> MAP_ENTRY_TYPE_EMPTY) es"

lemma live_entries_simps [simp]:
  "live_entries [] = []"
  "live_entries (e # es) = (if me_type e = MAP_ENTRY_TYPE_EMPTY then live_entries es else e # live_entries es)"
  by (simp_all add: live_entries_def)

text \<open>The body of the rotation loop: open an entry and seal its key again.\<close>

definition reseal :: "env \<Rightarrow> TDEPrincipalKey \<Rightarrow> TDEPrincipalKey \<Rightarrow> TDEMapEntry \<Rightarrow> TDEMapEntry tdeM" where
  "reseal ev pk npk e =
     bindM (tde_decrypt_rel_key ev pk e) (\<lambda>k.
     open_pg_tde_initialize_map_entry ev npk
       \<lparr>spcOid = me_spcOid e, dbOid = databaseId (keyInfo pk), relNumber = me_relNumber e\<rparr> k)"

lemma bindM_assoc: "bindM (bindM m f) g = bindM m (\<lambda>x. bindM (f x) g)"
  by (auto simp: fun_eq_iff bindM_def split: prod.splits sum.splits)

lemma rotate_entries_copy:
  "rotate_entries ev pk npk np es = kf_copy enc_entry ENTRY_SIZE (reseal ev pk npk) np (live_entries es)"
proof (induction es)
  case Nil
  show ?case by (simp add: fun_eq_iff)
next
  case (Cons e es)
  show ?case
    by (rule ext) (simp add: Cons.IH reseal_def bindM_assoc Let_def open_pg_tde_write_one_map_entry_def)
qed

lemma reseal_op:
  assumes "gcm_ok ev" "wf_entry e"
  shows "entry_op (reseal ev pk npk) (\<lambda>e e'. wf_entry e' \<and> rotated ev pk npk e e') e"
  unfolding entry_op_def reseal_def
proof
  fix w
  let ?rl = "\<lparr>spcOid = me_spcOid e, dbOid = databaseId (keyInfo pk), relNumber = me_relNumber e\<rparr>"
  show "wp (bindM (tde_decrypt_rel_key ev pk e) (open_pg_tde_initialize_map_entry ev npk ?rl))
     (\<lambda>r w'. disk w' = disk w \<and> pk_cache w' = pk_cache w \<and> xlog w' = xlog w \<and>
        (\<forall>e'. r = Inr e' \<longrightarrow> wf_entry e' \<and> rotated ev pk npk e e')) w"
  proof (rule wp_bindI [OF decrypt_rel_key_wp [OF assms]], goal_cases)
    case (2 k w1)
    then have k: "entry_holds ev pk e k" "w1 = w" by auto
    then have "wf_ik k" by (simp add: entry_holds_def)
    from initialize_map_entry_wp [OF assms(1) this] show ?case
      unfolding k(2) by (rule wp_mono) (use k in \<open>auto simp: rotated_def entry_is_def\<close>)
  qed auto
qed

lemma reseal_ok:
  assumes "gcm_ok ev" "rand_ok ev" "entry_holds ev pk e k" "io w = []"
  shows "\<exists>e' w'. reseal ev pk npk e w = (Inr e', w') \<and> io w' = []"
proof -
  obtain k' where k': "tde_decrypt_rel_key ev pk e w = (Inr k', w)" "wf_ik k'"
    using decrypt_rel_key_ok [OF assms(3)] by blast
  then show ?thesis
    using initialize_map_entry_ok [OF assms(1,2) k'(2)] assms(4) by (fastforce simp: reseal_def runM)
qed

text \<open>
  Signing a header, reading the entries of the old file and writing the new one to the
  temporary file is, once the old file is known to be good, a rewrite.
\<close>

lemma sign_state: "disk (snd (open_pg_tde_sign_principal_key_info ev npk w)) = disk w"
  by (auto simp: open_pg_tde_sign_principal_key_info_def bindM_def AesGcmEncrypt_def RAND_bytes_def
      split: sum.splits prod.splits option.splits)

lemma sign_then_rewrite:
  assumes f: "disk w old = Some f" "kf_good magic f" and ne: "old \<noteq> tmp_path old"
  shows "bindM (open_pg_tde_sign_principal_key_info ev npk) (\<lambda>ski.
       bindM (kf_open_read magic old False) (\<lambda>old_pos.
       bindM (kf_open_write magic (tmp_path old) (Some ski) True) (\<lambda>new_pos.
       bindM (getM (\<lambda>w. R (file_bytes w old) (the old_pos))) (\<lambda>es.
       seqM (kf_copy enc sz g (tmp_path old) (S es) new_pos)
       (seqM (durable_rename (tmp_path old) old) k))))) w
     = bindM (open_pg_tde_sign_principal_key_info ev npk) (\<lambda>ski.
       seqM (kf_rewrite magic enc sz g old ski (S (R f HEADER_SIZE))) k) w"
proof (cases "open_pg_tde_sign_principal_key_info ev npk w")
  case (Pair r w1)
  have d1: "disk w1 = disk w" using sign_state [of ev npk w] Pair by simp
  show ?thesis
  proof (cases r)
    case (Inl x)
    with Pair show ?thesis by (simp add: bindM_def)
  next
    case (Inr ski)
    have r1: "kf_open_read magic old False w1 = (Inr (Some HEADER_SIZE), w1)"
      using kf_open_read_good [of w1 old f] d1 f by simp
    obtain r2 w2 where o: "kf_open_write magic (tmp_path old) (Some ski) True w1 = (r2, w2)" by fastforce
    have "disk w2 old = Some f" using wp_run [OF kf_open_write_trunc_wp o] d1 f(1) ne by auto
    then have "file_bytes w2 old = f" by (simp add: file_bytes_def)
    with Pair Inr r1 o show ?thesis
      by (cases r2) (auto simp: kf_rewrite_def bindM_def seqM_def split: prod.splits sum.splits)
  qed
qed

lemma rotate_is_rewrite:
  assumes old: "old = open_pg_tde_set_db_file_path ev (databaseId (keyInfo pk))"
    and f: "disk w old = Some f" "good_file f"
  shows "open_pg_tde_perform_rotate_key ev pk npk wx w =
     bindM (open_pg_tde_sign_principal_key_info ev npk) (\<lambda>ski.
     seqM (kf_rewrite OPEN_PG_TDE_SMGR_FILE_MAGIC enc_entry ENTRY_SIZE (reseal ev pk npk) old ski (live_entries (map_entries f)))
     (whenM wx (XLogInsert
        (XlRotatePrincipalKey (databaseId (keyInfo npk)) (keyringId (keyInfo npk)) (pk_name (keyInfo npk)))))) w"
proof -
  have "old \<noteq> tmp_path old" using old by simp
  from sign_then_rewrite [OF f this, of ev npk map_entries_at enc_entry ENTRY_SIZE "reseal ev pk npk" "\<lambda>es. live_entries (map snd es)"]
  show ?thesis
    by (simp add: open_pg_tde_perform_rotate_key_def smgr_file_defs rotate_entries_copy Let_def flip: old)
qed

lemma rotate_wp:
  assumes ok: "gcm_ok ev" and npk: "wf_pki (keyInfo npk)"
    and old: "old = open_pg_tde_set_db_file_path ev (databaseId (keyInfo pk))"
    and f: "disk w old = Some f" "good_file f"
  shows "wp (open_pg_tde_perform_rotate_key ev pk npk wx)
     (\<lambda>r w'. (\<forall>q. q \<noteq> old \<and> q \<noteq> tmp_path old \<longrightarrow> disk w' q = disk w q) \<and> pk_cache w' = pk_cache w \<and>
        (disk w' old = Some f \<and> r \<noteq> Inr () \<or>
         (\<exists>f' ski. disk w' old = Some f' \<and> good_file f' \<and> signed_by ev npk ski \<and>
            file_header f' = \<lparr>file_version = OPEN_PG_TDE_SMGR_FILE_MAGIC, signed_key_info = ski\<rparr> \<and>
            list_all2 (rotated ev pk npk) (live_entries (map_entries f)) (map_entries f')))) w"
    (is "wp _ ?Q w")
proof -
  let ?xl = "XlRotatePrincipalKey (databaseId (keyInfo npk)) (keyringId (keyInfo npk)) (pk_name (keyInfo npk))"
  have g: "\<forall>e\<in>set (live_entries (map_entries f)). entry_op (reseal ev pk npk) (\<lambda>e e'. wf_entry e' \<and> rotated ev pk npk e e') e"
    using reseal_op [OF ok] mapfile.ents_wf by (auto simp: live_entries_def)
  have "wp (bindM (open_pg_tde_sign_principal_key_info ev npk) (\<lambda>ski.
     seqM (kf_rewrite OPEN_PG_TDE_SMGR_FILE_MAGIC enc_entry ENTRY_SIZE (reseal ev pk npk) old ski (live_entries (map_entries f)))
     (whenM wx (XLogInsert ?xl)))) ?Q w"
  proof (rule wp_bindI [OF sign_wp [OF ok npk]], goal_cases)
    case (2 ski w1)
    then have w1: "disk w1 = disk w" "pk_cache w1 = pk_cache w" and ski: "signed_by ev npk ski" by auto
    have "wf_ski ski" using ski by (simp add: signed_by_def)
    moreover have "old \<noteq> tmp_path old" "disk w1 old = Some f" using f w1 by simp_all
    ultimately show ?case
      by (rule wp_seqI [OF mapfile.kf_rewrite_wp [OF g]])
        (use w1 ski in \<open>auto simp: wp_rules XLogInsert_def\<close>)
  qed (use f in auto)
  then show ?thesis unfolding wp_def rotate_is_rewrite [OF old f] .
qed

lemma rotate_ok:
  assumes ok: "gcm_ok ev" "rand_ok ev" and npk: "wf_pki (keyInfo npk)"
    and old: "old = open_pg_tde_set_db_file_path ev (databaseId (keyInfo pk))"
    and f: "disk w old = Some f" "good_file f" and io: "io w = []"
    and all: "\<forall>e\<in>set (live_entries (map_entries f)). \<exists>k. entry_holds ev pk e k"
  shows "fst (open_pg_tde_perform_rotate_key ev pk npk wx w) = Inr ()"
proof -
  obtain ski where ski: "open_pg_tde_sign_principal_key_info ev npk w = (Inr ski, w\<lparr>rng := Suc (rng w)\<rparr>)"
    using sign_ok [OF ok npk] by blast
  have "\<exists>w'. kf_rewrite OPEN_PG_TDE_SMGR_FILE_MAGIC enc_entry ENTRY_SIZE (reseal ev pk npk) old ski
      (live_entries (map_entries f)) (w\<lparr>rng := Suc (rng w)\<rparr>) = (Inr (), w') \<and> io w' = []"
  proof (rule kf_rewrite_ok)
    show "\<exists>e' w'. reseal ev pk npk e w = (Inr e', w') \<and> io w' = []"
      if "e \<in> set (live_entries (map_entries f))" "io w = []" for e w
      using all reseal_ok [OF ok] that by blast
  qed (use io in simp)
  then obtain w' where "kf_rewrite OPEN_PG_TDE_SMGR_FILE_MAGIC enc_entry ENTRY_SIZE (reseal ev pk npk) old ski
      (live_entries (map_entries f)) (w\<lparr>rng := Suc (rng w)\<rparr>) = (Inr (), w')" by blast
  then show ?thesis
    unfolding rotate_is_rewrite [OF old f] using ski by (simp add: runM XLogInsert_def)
qed

section \<open>Properties\<close>

lemma live_is_key: "keymap_inv es \<Longrightarrow> e \<in> set (live_entries es) \<Longrightarrow> me_type e = MAP_ENTRY_TYPE_KEY"
  by (auto simp: keymap_inv_def entry_ok_def live_entries_def)

lemma find_live: "find (entry_matches rel) (live_entries es) = find (entry_matches rel) es"
  by (induction es) (auto simp: live_entries_def entry_matches_def map_entry_types)

lemma find_rotated:
  assumes "list_all2 (rotated ev pk npk) es es'" and "\<forall>e\<in>set es. me_type e = MAP_ENTRY_TYPE_KEY"
  shows "case find (entry_matches rel) es of
      None \<Rightarrow> find (entry_matches rel) es' = None
    | Some e \<Rightarrow> (\<exists>e'. find (entry_matches rel) es' = Some e' \<and> rotated ev pk npk e e')"
  using assms
proof (induction rule: list_all2_induct)
  case Nil
  show ?case by simp
next
  case (Cons e es e' es')
  have "entry_matches rel e' \<longleftrightarrow> entry_matches rel e"
    using Cons.hyps(1) Cons.prems by (auto simp: rotated_def entry_matches_def)
  with Cons show ?case by (auto split: option.splits)
qed

lemma entry_holds_unique:
  "entry_holds ev pk e k \<Longrightarrow> entry_holds ev pk e k' \<Longrightarrow> ik_equiv k k'"
  by (auto simp: entry_holds_def ik_equiv_def wf_ik_def)

lemma entry_holds_equiv: "entry_holds ev pk e k \<Longrightarrow> ik_equiv k k' \<Longrightarrow> wf_ik k' \<Longrightarrow> entry_holds ev pk e k'"
  by (auto simp: entry_holds_def ik_equiv_def)

text \<open>The concrete principal keys and key file the witnesses use.\<close>

definition demo_pk :: TDEPrincipalKey where
  "demo_pk = \<lparr>keyInfo = \<lparr>databaseId = 5, keyringId = 1, tv_sec = 7, tv_usec = 0, pk_name = fit 256 [97]\<rparr>,
     keyData = replicate 32 11, keyLength = 16\<rparr>"

definition demo_pk2 :: TDEPrincipalKey where
  "demo_pk2 = demo_pk\<lparr>keyData := replicate 32 12\<rparr>"

definition demo_rel :: RelFileLocator where
  "demo_rel = \<lparr>spcOid = 1663, dbOid = 5, relNumber = 16384\<rparr>"

lemma demo_pk_wf: "wf_pki (keyInfo demo_pk)" "wf_pki (keyInfo demo_pk2)"
  by (simp_all add: wf_pki_def demo_pk_def demo_pk2_def)

lemma demo_rel_simps [simp]: "dbOid demo_rel = 5" "relNumber demo_rel = 16384" "spcOid demo_rel = 1663"
  "databaseId (keyInfo demo_pk) = 5" "databaseId (keyInfo demo_pk2) = 5"
  by (simp_all add: demo_rel_def demo_pk_def demo_pk2_def)

lemma demo_world_simps [simp]: "io demo_world = []" "disk demo_world p = None" "pk_cache demo_world d = None" "rng demo_world = 0"
  by (simp_all add: demo_world_def)

lemma demo_file_of:
  assumes "wf_ik k"
  shows "\<exists>f e. good_file f \<and> map_entries f = [e] \<and> wf_entry e \<and> entry_is demo_rel e \<and>
     entry_holds demo_env demo_pk e k \<and> keymap_inv [e] \<and> find (entry_matches demo_rel) [e] = Some e \<and>
     (\<exists>ski. signed_by demo_env demo_pk ski \<and> signed_key_info (file_header f) = ski)"
proof -
  obtain ski f' n where s: "signed_by demo_env demo_pk ski" "good_file f'"
      "file_header f' = file_header (smgr_base ski None)"
      "\<exists>e. wf_entry e \<and> entry_is demo_rel e \<and> entry_holds demo_env demo_pk e k \<and>
        map_entries f' = put_entry (save_slot demo_rel []) e []"
    using save_with_ok [OF demo_gcm_ok demo_rand_ok assms demo_pk_wf(1), of demo_world _ demo_rel "[]" True]
    by (auto simp: usable_file_def entries_of_def)
  then obtain e where e: "wf_entry e" "entry_is demo_rel e" "entry_holds demo_env demo_pk e k" "map_entries f' = [e]"
    by (auto simp: put_entry_def)
  have "keymap_inv [e]" "find (entry_matches demo_rel) [e] = Some e"
    using e(2) by (auto simp: keymap_inv_def entry_ok_def entry_is_def entry_matches_def)
  moreover have "signed_key_info (file_header f') = ski"
    using s(1,3) kf_new_good(2) [of ski] by (simp add: base_file_def signed_by_def)
  ultimately show ?thesis using s(1,2) e by blast
qed

lemmas demo_file = demo_file_of [OF demo_key_wf]

text \<open>
  C6. Rotating the principal key of a database is atomic: whatever write, sync or rename
  fails and wherever, the key file is afterwards either exactly the old file, or a complete
  file under the new principal key, whose header the new key signed and which holds for
  each live entry the same internal key for the same relation. No file other than it and
  the temporary file changes.
\<close>

theorem rotation_atomic:
  assumes "gcm_ok ev" and "wf_pki (keyInfo npk)"
    and "disk w (open_pg_tde_set_db_file_path ev (databaseId (keyInfo pk))) = Some f" and "good_file f"
  shows "let old = open_pg_tde_set_db_file_path ev (databaseId (keyInfo pk));
      (r, w') = open_pg_tde_perform_rotate_key ev pk npk write_xlog w
    in (\<forall>q. q \<noteq> old \<and> q \<noteq> tmp_path old \<longrightarrow> disk w' q = disk w q) \<and>
       (disk w' old = Some f \<and> r \<noteq> Inr () \<or>
        (\<exists>f' ski. disk w' old = Some f' \<and> good_file f' \<and> signed_by ev npk ski \<and>
           signed_key_info (file_header f') = ski \<and>
           list_all2 (rotated ev pk npk) (live_entries (map_entries f)) (map_entries f')))"
  using rotate_wp [OF assms(1,2) refl assms(3,4), of write_xlog]
  by (cases "open_pg_tde_perform_rotate_key ev pk npk write_xlog w") (auto simp: wp_def Let_def)

theorem rotation_atomic_witness:
  "\<exists>f w. disk w (open_pg_tde_set_db_file_path demo_env 5) = Some f \<and> good_file f \<and> map_entries f \<noteq> [] \<and> io w = [IO_ok, IO_ok, IO_short 3] \<and>
     (let (r, w') = open_pg_tde_perform_rotate_key demo_env demo_pk demo_pk2 True w
      in \<forall>d. d \<noteq> 5 \<longrightarrow> disk w' (open_pg_tde_set_db_file_path demo_env d) = disk w (open_pg_tde_set_db_file_path demo_env d))"
proof -
  obtain f where f: "good_file f" "map_entries f \<noteq> []" using demo_file by force
  let ?w = "demo_world\<lparr>disk := [open_pg_tde_set_db_file_path demo_env 5 \<mapsto> f], io := [IO_ok, IO_ok, IO_short 3]\<rparr>"
  have d: "disk ?w (open_pg_tde_set_db_file_path demo_env (databaseId (keyInfo demo_pk))) = Some f" by simp
  show ?thesis
    using rotation_atomic [OF demo_gcm_ok demo_pk_wf(2) d f(1), of True] f d
    by (intro exI [of _ f] exI [of _ ?w]) (auto simp: Let_def split: prod.splits)
qed

text \<open>
  C3. A rotation that meets no failure of the disk succeeds if every live entry opens under
  the current principal key, and afterwards every relation's key is the one it had: the
  lookup of any relation finds an entry exactly if it did before, and that entry holds
  the same internal key under the new principal key.
\<close>

theorem rotation_preserves_keys:
  assumes "gcm_ok ev" "rand_ok ev" and "wf_pki (keyInfo npk)"
    and "disk w (open_pg_tde_set_db_file_path ev (databaseId (keyInfo pk))) = Some f" and "good_file f"
    and "io w = []" and "keymap_inv (map_entries f)"
    and "\<forall>e\<in>set (live_entries (map_entries f)). \<exists>k. entry_holds ev pk e k"
  shows "\<exists>f'. fst (open_pg_tde_perform_rotate_key ev pk npk wx w) = Inr () \<and>
     disk (snd (open_pg_tde_perform_rotate_key ev pk npk wx w))
       (open_pg_tde_set_db_file_path ev (databaseId (keyInfo pk))) = Some f' \<and>
     (\<forall>rel. case find (entry_matches rel) (map_entries f) of
        None \<Rightarrow> find (entry_matches rel) (map_entries f') = None
      | Some e \<Rightarrow> (\<exists>e'. find (entry_matches rel) (map_entries f') = Some e' \<and>
          (\<exists>k. entry_holds ev pk e k \<and> entry_holds ev npk e' k)))"
proof -
  have r: "fst (open_pg_tde_perform_rotate_key ev pk npk wx w) = Inr ()"
    by (rule rotate_ok [OF assms(1-3) refl assms(4-6,8)])
  obtain f' where f': "disk (snd (open_pg_tde_perform_rotate_key ev pk npk wx w))
       (open_pg_tde_set_db_file_path ev (databaseId (keyInfo pk))) = Some f'"
      "list_all2 (rotated ev pk npk) (live_entries (map_entries f)) (map_entries f')"
    using rotate_wp [OF assms(1,3) refl assms(4,5), of wx] r by (auto simp: wp_def)
  have "\<forall>e\<in>set (live_entries (map_entries f)). me_type e = MAP_ENTRY_TYPE_KEY"
    using live_is_key [OF assms(7)] by blast
  from find_rotated [OF f'(2) this] show ?thesis
    using r f'(1) by (intro exI [of _ f']) (fastforce simp: find_live rotated_def split: option.splits)
qed

theorem rotation_preserves_keys_witness:
  "\<exists>w f' e'. fst (open_pg_tde_perform_rotate_key demo_env demo_pk demo_pk2 True w) = Inr () \<and>
     disk (snd (open_pg_tde_perform_rotate_key demo_env demo_pk demo_pk2 True w)) (open_pg_tde_set_db_file_path demo_env 5) = Some f' \<and>
     find (entry_matches demo_rel) (map_entries f') = Some e' \<and> entry_holds demo_env demo_pk2 e' demo_key"
proof -
  obtain f e where f: "good_file f" "map_entries f = [e]" "entry_holds demo_env demo_pk e demo_key"
      "keymap_inv [e]" "find (entry_matches demo_rel) [e] = Some e"
    using demo_file by blast
  let ?w = "demo_world\<lparr>disk := [open_pg_tde_set_db_file_path demo_env 5 \<mapsto> f]\<rparr>"
  have d: "disk ?w (open_pg_tde_set_db_file_path demo_env (databaseId (keyInfo demo_pk))) = Some f" by simp
  have h: "\<forall>e\<in>set (live_entries (map_entries f)). \<exists>k. entry_holds demo_env demo_pk e k"
    using f by (auto simp: live_entries_def)
  obtain f' e' k where k: "fst (open_pg_tde_perform_rotate_key demo_env demo_pk demo_pk2 True ?w) = Inr ()"
      "disk (snd (open_pg_tde_perform_rotate_key demo_env demo_pk demo_pk2 True ?w)) (open_pg_tde_set_db_file_path demo_env 5) = Some f'"
      "find (entry_matches demo_rel) (map_entries f') = Some e'" "entry_holds demo_env demo_pk e k"
      "entry_holds demo_env demo_pk2 e' k"
    using rotation_preserves_keys [OF demo_gcm_ok demo_rand_ok demo_pk_wf(2) d f(1) _ _ h, of True] f
    by (fastforce dest: spec [of _ demo_rel])
  have "entry_holds demo_env demo_pk2 e' demo_key"
    using entry_holds_equiv [OF k(5) entry_holds_unique [OF k(4) f(3)] demo_key_wf] .
  with k show ?thesis by blast
qed

text \<open>
  Freeing the key of a relation: the call succeeds, the relation's key can no longer be
  found, every other relation's entry is found as before, the header is kept and the
  invariant of the key map (no relation with two keys) is preserved.
\<close>

lemma free_key_forgets:
  assumes "io w = []" and "disk w (open_pg_tde_set_db_file_path ev (dbOid rel)) = Some f" "good_file f"
    and "keymap_inv (map_entries f)" and "relNumber rel \<noteq> 0"
  shows "\<exists>f'. open_pg_tde_free_key_map_entry ev rel w
        = (Inr (), set_file (open_pg_tde_set_db_file_path ev (dbOid rel)) f' w) \<and>
     good_file f' \<and> file_header f' = file_header f \<and> keymap_inv (map_entries f') \<and>
     find (entry_matches rel) (map_entries f') = None \<and>
     (\<forall>rel'. spcOid rel' \<noteq> spcOid rel \<or> relNumber rel' \<noteq> relNumber rel \<longrightarrow>
        find (entry_matches rel') (map_entries f') = find (entry_matches rel') (map_entries f))"
proof -
  let ?i = "find_index (entry_matches rel) (map_entries f)"
  obtain f' where f': "open_pg_tde_free_key_map_entry ev rel w
        = (Inr (), set_file (open_pg_tde_set_db_file_path ev (dbOid rel)) f' w)" "good_file f'"
      "file_header f' = file_header f"
      "map_entries f' = (if ?i < length (map_entries f) then put_entry ?i empty_map_entry (map_entries f) else map_entries f)"
    using free_ok [OF assms(1) refl assms(2,3)] by (auto simp: Let_def)
  show ?thesis
  proof (cases "?i < length (map_entries f)")
    case True
    with f' show ?thesis
      using free_find [OF assms(4) refl True assms(5)] keymap_inv_free [OF assms(4) True] by auto
  next
    case False
    then have "find (entry_matches rel) (map_entries f) = None" by (simp add: find_conv_index)
    with False f' assms(4) show ?thesis by auto
  qed
qed

lemma free_key_forgets_witness:
  "\<exists>w f f' e. disk w (open_pg_tde_set_db_file_path demo_env 5) = Some f \<and>
     find (entry_matches demo_rel) (map_entries f) = Some e \<and>
     open_pg_tde_free_key_map_entry demo_env demo_rel w = (Inr (), set_file (open_pg_tde_set_db_file_path demo_env 5) f' w) \<and>
     find (entry_matches demo_rel) (map_entries f') = None"
proof -
  obtain f e where f: "good_file f" "map_entries f = [e]" "keymap_inv [e]" "find (entry_matches demo_rel) [e] = Some e"
    using demo_file by blast
  let ?w = "demo_world\<lparr>disk := [open_pg_tde_set_db_file_path demo_env 5 \<mapsto> f]\<rparr>"
  have d: "disk ?w (open_pg_tde_set_db_file_path demo_env (dbOid demo_rel)) = Some f" by simp
  have i: "keymap_inv (map_entries f)" "relNumber demo_rel \<noteq> 0" "io ?w = []"
    and e: "find (entry_matches demo_rel) (map_entries f) = Some e" using f by simp_all
  show ?thesis
    using free_key_forgets [OF i(3) d f(1) i(1,2)] d e unfolding demo_rel_simps by blast
qed

text \<open>
  The count that decides whether a principal key may be deleted is zero exactly if no
  relation of the database has a key in the key map.
\<close>

lemma count_keys_zero:
  assumes "disk w (open_pg_tde_set_db_file_path ev db) = Some f" "good_file f"
  shows "fst (open_pg_tde_count_encryption_keys ev db 0 w) = Inr 0 \<longleftrightarrow>
     (\<forall>rel. dbOid rel = db \<longrightarrow>
        fst (open_pg_tde_find_map_entry rel (open_pg_tde_set_db_file_path ev db) w) = Inr None)"
proof -
  have "(\<forall>e\<in>set (map_entries f). me_type e \<noteq> MAP_ENTRY_TYPE_KEY) \<longleftrightarrow>
      (\<forall>rel. dbOid rel = db \<longrightarrow> find (entry_matches rel) (map_entries f) = None)" (is "?L \<longleftrightarrow> ?R")
  proof
    show "?L \<Longrightarrow> ?R" by (auto simp: find_None_iff entry_matches_def)
    show "?R \<Longrightarrow> ?L"
    proof (intro ballI notI)
      fix e assume R: ?R and e: "e \<in> set (map_entries f)" "me_type e = MAP_ENTRY_TYPE_KEY"
      have "find (entry_matches \<lparr>spcOid = me_spcOid e, dbOid = db, relNumber = me_relNumber e\<rparr>) (map_entries f) = None"
        using R by simp
      with e show False by (auto simp: find_None_iff entry_matches_def)
    qed
  qed
  then show ?thesis
    using count_ok [OF assms, of 0] find_map_entry_ok [OF assms] by (simp add: filter_empty_conv)
qed

end
