(* ===== verification/Tde_Cstring.thy ===== *)
theory Tde_Cstring
  imports Tde_Paths
begin

text \<open>
  C strings: a byte array up to its first zero byte, the comparisons the sources use on them, \<open>snprintf\<close>
  into a buffer, and the conversions between byte strings and the strings of file names and literals.
\<close>

definition cstr :: "bytes \<Rightarrow> bytes" where
  "cstr b = takeWhile (\<lambda>x. x \<noteq> 0) b"

definition strcmp_eq :: "bytes \<Rightarrow> bytes \<Rightarrow> bool" where
  "strcmp_eq a b \<longleftrightarrow> cstr a = cstr b"

definition to_lower :: "byte \<Rightarrow> byte" where
  "to_lower c = (if 65 \<le> c \<and> c \<le> 90 then c + 32 else c)"

definition pg_strcasecmp_eq :: "bytes \<Rightarrow> bytes \<Rightarrow> bool" where
  "pg_strcasecmp_eq a b \<longleftrightarrow> map to_lower (cstr a) = map to_lower (cstr b)"

definition pg_strncasecmp_eq :: "bytes \<Rightarrow> bytes \<Rightarrow> nat \<Rightarrow> bool" where
  "pg_strncasecmp_eq a b n \<longleftrightarrow> map to_lower (cstr (take n a)) = map to_lower (cstr (take n b))"

definition bytes_of :: "string \<Rightarrow> bytes" where
  "bytes_of s = map (\<lambda>c. of_nat (of_char c)) s"

definition path_of :: "bytes \<Rightarrow> string" where
  "path_of b = map (\<lambda>x. char_of (unat x)) (cstr b)"

lemma strcmp_casecmp: "strcmp_eq a b \<Longrightarrow> pg_strcasecmp_eq a b"
  by (simp add: strcmp_eq_def pg_strcasecmp_eq_def)

text \<open>\<open>snprintf\<close> into a buffer of \<open>n\<close> bytes: what the buffer holds as a C string afterwards.\<close>

definition snprintf :: "nat \<Rightarrow> bytes \<Rightarrow> bytes" where
  "snprintf n txt = take (n - 1) txt"

lemma cstr_no_zero: "0 \<notin> set (cstr b)"
  by (auto simp: cstr_def dest: set_takeWhileD)

lemma cstr_idem [simp]: "cstr (cstr b) = cstr b"
  by (simp add: cstr_def takeWhile_idem)

lemma cstr_id: "0 \<notin> set b \<Longrightarrow> cstr b = b"
  by (auto simp: cstr_def takeWhile_eq_all_conv)

end
