(* ===== verification/Tde_OpenBao.thy ===== *)
theory Tde_OpenBao
  imports Tde_Cstring
begin

text \<open>
  The OpenBao keyring (\<open>keyring/keyring_openbao.c\<close>) and its HTTP session (\<open>keyring/keyring_curl.c\<close>): the
  requests it builds, the state machines that read the answers of the JSON parser, and the three
  operations of a keyring.

  libcurl and the key server are parameters of the environment: a request is the list of options the handle
  has when it is performed, the answer (status and the chunks of the body, or none when the transfer fails)
  depends on the request and on the requests with a body sent before it.
\<close>

section \<open>The HTTP session\<close>

definition write_func :: "bytes \<Rightarrow> bytes \<Rightarrow> bytes" where
  "write_func s ptr = s @ ptr"

definition curlSetupSession :: "env \<Rightarrow> bytes \<Rightarrow> bytes option \<Rightarrow> curl_opt list option" where
  "curlSetupSession ev url caFile =
     (let opts = (case caFile of None \<Rightarrow> [] | Some ca \<Rightarrow> if length (cstr ca) \<noteq> 0 then [CURLOPT_CAINFO (cstr ca)] else []) @
            [CURLOPT_FOLLOWLOCATION 0, CURLOPT_CONNECTTIMEOUT 3, CURLOPT_TIMEOUT 10, CURLOPT_HTTP_VERSION_1_1,
             CURLOPT_WRITEFUNCTION, CURLOPT_WRITEDATA, CURLOPT_URL url]
      in if curl_easy_init ev \<and> list_all (curl_easy_setopt ev) opts then Some opts else None)"

text \<open>\<open>%s\<close> of a null pointer prints as \<open>(null)\<close>.\<close>

definition fmt_s :: "bytes option \<Rightarrow> bytes" where
  "fmt_s v = (case v of None \<Rightarrow> bytes_of ''(null)'' | Some b \<Rightarrow> cstr b)"

definition openbao_headers :: "GenericKeyring \<Rightarrow> bytes list" where
  "openbao_headers keyring =
     [snprintf 256 (bytes_of ''X-Vault-Token: '' @ fmt_s (openbao_token keyring))] @
     (case openbao_namespace keyring of
        None \<Rightarrow> []
      | Some ns \<Rightarrow> [snprintf 256 (bytes_of ''X-Vault-Namespace: '' @ cstr ns)]) @
     [bytes_of ''Content-Type: application/json'']"

text \<open>Status and body; \<open>None\<close> stands for the return value 0.\<close>

definition curl_perform :: "env \<Rightarrow> GenericKeyring \<Rightarrow> bytes \<Rightarrow> bytes option \<Rightarrow> (int \<times> bytes) option tdeM" where
  "curl_perform ev keyring url postData =
     (case curlSetupSession ev url (openbao_ca_path keyring) of
        None \<Rightarrow> ret None
      | Some opts0 \<Rightarrow>
          (let opts = opts0 @ (case postData of None \<Rightarrow> [] | Some d \<Rightarrow> [CURLOPT_POSTFIELDS d]) @
                 [CURLOPT_HTTPHEADER (openbao_headers keyring)] in
           if \<not> list_all (curl_easy_setopt ev) (drop (length opts0) opts) then ret None
           else
             bindM (getM (\<lambda>w. http_response ev (http_log w) opts)) (\<lambda>r.
             seqM (whenM (postData \<noteq> None) (modifyM (\<lambda>w. w\<lparr>http_log := http_log w @ [opts]\<rparr>)))
             (ret (map_option (\<lambda>(httpCode, chunks). (httpCode, foldl write_func [] chunks)) r)))))"

section \<open>Reading the answer to a key request\<close>

datatype JsonOpenBaoRespSemState = JRESP_EXPECT_TOP_DATA | JRESP_EXPECT_DATA | JRESP_EXPECT_KEY

datatype JsonOpenBaoRespField = JRESP_F_UNUSED | JRESP_F_KEY

record JsonOpenBaoRespState =
  jr_state :: JsonOpenBaoRespSemState
  jr_field :: JsonOpenBaoRespField
  jr_level :: int
  jr_key :: "bytes option"

definition json_resp_object_start :: "JsonOpenBaoRespState \<Rightarrow> JsonOpenBaoRespState" where
  "json_resp_object_start parse = parse\<lparr>jr_level := jr_level parse + 1\<rparr>"

definition json_resp_object_end :: "JsonOpenBaoRespState \<Rightarrow> JsonOpenBaoRespState" where
  "json_resp_object_end parse = parse\<lparr>jr_level := jr_level parse - 1\<rparr>"

definition json_resp_scalar :: "bytes \<Rightarrow> JsonOpenBaoRespState \<Rightarrow> JsonOpenBaoRespState" where
  "json_resp_scalar tok parse =
     (case jr_field parse of
        JRESP_F_KEY \<Rightarrow> parse\<lparr>jr_key := Some tok, jr_field := JRESP_F_UNUSED\<rparr>
      | JRESP_F_UNUSED \<Rightarrow> parse)"

definition json_resp_object_field_start :: "bytes \<Rightarrow> JsonOpenBaoRespState \<Rightarrow> JsonOpenBaoRespState" where
  "json_resp_object_field_start fname parse =
     (case jr_state parse of
        JRESP_EXPECT_TOP_DATA \<Rightarrow>
          if strcmp_eq fname (bytes_of ''data'') \<and> jr_level parse = 0 then parse\<lparr>jr_state := JRESP_EXPECT_DATA\<rparr> else parse
      | JRESP_EXPECT_DATA \<Rightarrow>
          if strcmp_eq fname (bytes_of ''data'') \<and> jr_level parse = 1 then parse\<lparr>jr_state := JRESP_EXPECT_KEY\<rparr> else parse
      | JRESP_EXPECT_KEY \<Rightarrow>
          if strcmp_eq fname (bytes_of ''key'') \<and> jr_level parse = 2 then parse\<lparr>jr_field := JRESP_F_KEY\<rparr> else parse)"

definition json_resp_step :: "json_event \<Rightarrow> JsonOpenBaoRespState \<Rightarrow> JsonOpenBaoRespState" where
  "json_resp_step e parse = (case e of
       JsObjectStart \<Rightarrow> json_resp_object_start parse
     | JsObjectEnd \<Rightarrow> json_resp_object_end parse
     | JsArrayStart \<Rightarrow> parse
     | JsField fname \<Rightarrow> json_resp_object_field_start fname parse
     | JsScalar t tok \<Rightarrow> json_resp_scalar tok parse)"

definition json_resp_init :: JsonOpenBaoRespState where
  "json_resp_init = \<lparr>jr_state = JRESP_EXPECT_TOP_DATA, jr_field = JRESP_F_UNUSED, jr_level = -1, jr_key = None\<rparr>"

text \<open>\<open>None\<close> is a parse error.\<close>

definition parse_json_response :: "env \<Rightarrow> bytes \<Rightarrow> JsonOpenBaoRespState option" where
  "parse_json_response ev body =
     (case json_parse ev body of (evs, well_formed) \<Rightarrow>
        if well_formed then Some (fold json_resp_step evs json_resp_init) else None)"

section \<open>Reading the answer to a mount request\<close>

datatype JsonOpenBaoRespMountInfoSemState =
    JRESP_MOUNT_INFO_EXPECT_TOPLEVEL_FIELD | JRESP_MOUNT_INFO_EXPECT_DATA_START | JRESP_MOUNT_INFO_EXPECT_DATA_FIELD
  | JRESP_MOUNT_INFO_EXPECT_TYPE_VALUE | JRESP_MOUNT_INFO_EXPECT_VERSION_VALUE
  | JRESP_MOUNT_INFO_EXPECT_OPTIONS_START | JRESP_MOUNT_INFO_EXPECT_OPTIONS_FIELD

record JsonOpenBaoMountInfoState =
  mi_state :: JsonOpenBaoRespMountInfoSemState
  mi_level :: int
  mi_type :: "bytes option"
  mi_version :: "bytes option"

definition json_mountinfo_object_start :: "JsonOpenBaoMountInfoState \<Rightarrow> JsonOpenBaoMountInfoState" where
  "json_mountinfo_object_start parse =
     (let parse' = (case mi_state parse of
          JRESP_MOUNT_INFO_EXPECT_DATA_START \<Rightarrow> parse\<lparr>mi_state := JRESP_MOUNT_INFO_EXPECT_DATA_FIELD\<rparr>
        | JRESP_MOUNT_INFO_EXPECT_OPTIONS_START \<Rightarrow> parse\<lparr>mi_state := JRESP_MOUNT_INFO_EXPECT_OPTIONS_FIELD\<rparr>
        | _ \<Rightarrow> parse)
      in parse'\<lparr>mi_level := mi_level parse' + 1\<rparr>)"

definition json_mountinfo_object_end :: "JsonOpenBaoMountInfoState \<Rightarrow> JsonOpenBaoMountInfoState" where
  "json_mountinfo_object_end parse =
     (let parse' =
        (if mi_state parse = JRESP_MOUNT_INFO_EXPECT_OPTIONS_FIELD
         then parse\<lparr>mi_state := JRESP_MOUNT_INFO_EXPECT_DATA_FIELD\<rparr>
         else if mi_state parse = JRESP_MOUNT_INFO_EXPECT_DATA_FIELD \<and> mi_level parse = 1
         then parse\<lparr>mi_state := JRESP_MOUNT_INFO_EXPECT_TOPLEVEL_FIELD\<rparr>
         else parse)
      in parse'\<lparr>mi_level := mi_level parse' - 1\<rparr>)"

definition json_mountinfo_scalar :: "bytes \<Rightarrow> JsonOpenBaoMountInfoState \<Rightarrow> JsonOpenBaoMountInfoState" where
  "json_mountinfo_scalar tok parse =
     (case mi_state parse of
        JRESP_MOUNT_INFO_EXPECT_TYPE_VALUE \<Rightarrow>
          parse\<lparr>mi_type := Some tok, mi_state := JRESP_MOUNT_INFO_EXPECT_DATA_FIELD\<rparr>
      | JRESP_MOUNT_INFO_EXPECT_VERSION_VALUE \<Rightarrow>
          parse\<lparr>mi_version := Some tok, mi_state := JRESP_MOUNT_INFO_EXPECT_OPTIONS_FIELD\<rparr>
      | JRESP_MOUNT_INFO_EXPECT_OPTIONS_START \<Rightarrow> parse\<lparr>mi_state := JRESP_MOUNT_INFO_EXPECT_DATA_FIELD\<rparr>
      | JRESP_MOUNT_INFO_EXPECT_DATA_START \<Rightarrow> parse\<lparr>mi_state := JRESP_MOUNT_INFO_EXPECT_TOPLEVEL_FIELD\<rparr>
      | _ \<Rightarrow> parse)"

definition json_mountinfo_object_field_start :: "bytes \<Rightarrow> JsonOpenBaoMountInfoState \<Rightarrow> JsonOpenBaoMountInfoState" where
  "json_mountinfo_object_field_start fname parse =
     (case mi_state parse of
        JRESP_MOUNT_INFO_EXPECT_TOPLEVEL_FIELD \<Rightarrow>
          if mi_level parse = 0 \<and> strcmp_eq fname (bytes_of ''data'')
          then parse\<lparr>mi_state := JRESP_MOUNT_INFO_EXPECT_DATA_START\<rparr> else parse
      | JRESP_MOUNT_INFO_EXPECT_DATA_FIELD \<Rightarrow>
          if mi_level parse = 1 \<and> strcmp_eq fname (bytes_of ''type'')
          then parse\<lparr>mi_state := JRESP_MOUNT_INFO_EXPECT_TYPE_VALUE\<rparr>
          else if mi_level parse = 1 \<and> strcmp_eq fname (bytes_of ''options'')
          then parse\<lparr>mi_state := JRESP_MOUNT_INFO_EXPECT_OPTIONS_START\<rparr> else parse
      | JRESP_MOUNT_INFO_EXPECT_OPTIONS_FIELD \<Rightarrow>
          if mi_level parse = 2 \<and> strcmp_eq fname (bytes_of ''version'')
          then parse\<lparr>mi_state := JRESP_MOUNT_INFO_EXPECT_VERSION_VALUE\<rparr> else parse
      | _ \<Rightarrow> parse)"

definition json_mountinfo_step :: "json_event \<Rightarrow> JsonOpenBaoMountInfoState \<Rightarrow> JsonOpenBaoMountInfoState" where
  "json_mountinfo_step e parse = (case e of
       JsObjectStart \<Rightarrow> json_mountinfo_object_start parse
     | JsObjectEnd \<Rightarrow> json_mountinfo_object_end parse
     | JsArrayStart \<Rightarrow> parse
     | JsField fname \<Rightarrow> json_mountinfo_object_field_start fname parse
     | JsScalar t tok \<Rightarrow> json_mountinfo_scalar tok parse)"

definition json_mountinfo_init :: JsonOpenBaoMountInfoState where
  "json_mountinfo_init = \<lparr>mi_state = JRESP_MOUNT_INFO_EXPECT_TOPLEVEL_FIELD, mi_level = -1, mi_type = None, mi_version = None\<rparr>"

definition parse_openbao_mount_info :: "env \<Rightarrow> bytes \<Rightarrow> JsonOpenBaoMountInfoState option" where
  "parse_openbao_mount_info ev body =
     (case json_parse ev body of (evs, well_formed) \<Rightarrow>
        if well_formed then Some (fold json_mountinfo_step evs json_mountinfo_init) else None)"

section \<open>The operations of the keyring\<close>

definition OPENBAO_URL_MAX_LEN :: nat where "OPENBAO_URL_MAX_LEN = 512"

definition get_keyring_openbao_url :: "GenericKeyring \<Rightarrow> bytes \<Rightarrow> bytes" where
  "get_keyring_openbao_url keyring key_name =
     snprintf OPENBAO_URL_MAX_LEN (fmt_s (openbao_url keyring) @ bytes_of ''/v1/'' @ fmt_s (openbao_mount_path keyring) @
       bytes_of ''/data/'' @ cstr key_name)"

definition openbao_key_json :: "bytes \<Rightarrow> bytes" where
  "openbao_key_json b64 =
     snprintf 512 (bytes_of ''{\"data\":{\"key\":\"'' @ b64 @ bytes_of ''\"}}'')"

text \<open>A failing \<open>pg_b64_encode\<close> returns -1, and the terminating zero is written before the buffer.\<close>

definition openbao_set_key_by_name :: "env \<Rightarrow> GenericKeyring \<Rightarrow> KeyInfo \<Rightarrow> unit tdeM" where
  "openbao_set_key_by_name ev keyring k =
     (case pg_b64_encode ev (kd_material (ki_data k)) 64 of
        None \<Rightarrow> throw (E_null_pointer ''keyData'')
      | Some b64 \<Rightarrow>
          bindM (curl_perform ev keyring (get_keyring_openbao_url keyring (ki_name k)) (Some (openbao_key_json (cstr b64)))) (\<lambda>r.
          case r of
            None \<Rightarrow> throw (E_state ''HTTP(S) request to keyring provider failed'')
          | Some (httpCode, str) \<Rightarrow> check (httpCode div 100 = 2) (E_state ''Invalid HTTP response from keyring provider'')))"

text \<open>Bytes of the key that are not decoded are those of the allocation.\<close>

definition openbao_get_key_by_name :: "env \<Rightarrow> GenericKeyring \<Rightarrow> bytes \<Rightarrow> (nat \<times> KeyInfo option) tdeM" where
  "openbao_get_key_by_name ev keyring key_name =
     bindM (curl_perform ev keyring (get_keyring_openbao_url keyring key_name) None) (\<lambda>r.
     case r of
       None \<Rightarrow> ret (KEYRING_CODE_INVALID_KEY, None)
     | Some (httpCode, str) \<Rightarrow>
         if httpCode = 404 then ret (KEYRING_CODE_SUCCESS, None)
         else if httpCode div 100 \<noteq> 2 then ret (KEYRING_CODE_INVALID_RESPONSE, None)
         else
           (case parse_json_response ev str of
              None \<Rightarrow> ret (KEYRING_CODE_INVALID_RESPONSE, None)
            | Some parse \<Rightarrow>
                (case jr_key parse of
                   None \<Rightarrow> ret (KEYRING_CODE_INVALID_RESPONSE, None)
                 | Some responseKey \<Rightarrow>
                     (case pg_b64_decode ev (cstr responseKey) KEY_DATA_SIZE_256 of
                        None \<Rightarrow> ret (KEYRING_CODE_INVALID_KEY, None)
                      | Some d \<Rightarrow>
                          ret (KEYRING_CODE_SUCCESS, Some
                            \<lparr>ki_name = fit TDE_KEY_NAME_LEN (take (TDE_KEY_NAME_LEN - 1) (cstr key_name)),
                             ki_data = \<lparr>kd_data = overlay KEY_DATA_SIZE_256 d (garbage ev KEY_DATA_SIZE_256),
                                        kd_len = of_nat (length d)\<rparr>\<rparr>)))))"

text \<open>A mount that cannot be inspected gives a warning only.\<close>

definition check_mount_info :: "env \<Rightarrow> bytes \<Rightarrow> unit tdeM" where
  "check_mount_info ev str =
     (case parse_openbao_mount_info ev str of
        None \<Rightarrow> ret ()
      | Some parse \<Rightarrow>
          (case mi_type parse of
             None \<Rightarrow> ret ()
           | Some typ \<Rightarrow>
               if \<not> strcmp_eq typ (bytes_of ''kv'') then throw (E_options ''unsupported engine type'')
               else
                 (case mi_version parse of
                    None \<Rightarrow> throw (E_options ''missing version field'')
                  | Some version \<Rightarrow>
                      check (strcmp_eq version (bytes_of ''2'')) (E_options ''unsupported Key/Value engine version''))))"

definition openbao_validate :: "env \<Rightarrow> GenericKeyring \<Rightarrow> unit tdeM" where
  "openbao_validate ev keyring =
     (let mounts = fmt_s (openbao_url keyring) @ bytes_of ''/v1/sys/mounts/'' @ fmt_s (openbao_mount_path keyring);
          metadata = fmt_s (openbao_url keyring) @ bytes_of ''/v1/'' @ fmt_s (openbao_mount_path keyring) @
            bytes_of ''/metadata/?list=true'' in
      seqM (check (\<not> length mounts \<ge> OPENBAO_URL_MAX_LEN) (E_options ''openbao mounts URL is too long''))
      (bindM (curl_perform ev keyring mounts None) (\<lambda>r.
       case r of
         None \<Rightarrow> throw (E_state ''HTTP(S) request to keyring provider failed'')
       | Some (httpCode, str) \<Rightarrow>
           seqM (whenM (httpCode = 200) (check_mount_info ev str))
           (seqM (check (\<not> length metadata \<ge> OPENBAO_URL_MAX_LEN) (E_options ''openbao metadata URL is too long''))
           (bindM (curl_perform ev keyring metadata None) (\<lambda>r.
            case r of
              None \<Rightarrow> throw (E_state ''HTTP(S) request to keyring provider failed'')
            | Some (httpCode, _) \<Rightarrow> check (httpCode = 200 \<or> httpCode = 404) (E_options ''Listing secrets failed'')))))))"

end
