(* ===== verification/Tde_Kmip.thy ===== *)
theory Tde_Kmip
  imports Tde_Cstring
begin

text \<open>
  The KMIP keyring (\<open>keyring/keyring_kmip.c\<close>, \<open>keyring/keyring_kmip_impl.c\<close>): setting up the TLS connection
  step by step, and storing, finding and fetching a key through libkmip. OpenSSL's answers and the key server are
  parameters; what the server answers depends on the keys registered with it before.
\<close>

section \<open>The connection\<close>

text \<open>
  The steps in the order they are made; the host is set as an IP address, or as a name when it is not one.
  \<open>None\<close> is success, otherwise the step that failed.
\<close>

definition kmip_first_failure :: "env \<Rightarrow> GenericKeyring \<Rightarrow> ssl_step option" where
  "kmip_first_failure ev keyring =
     (if \<not> ssl_ok ev keyring SSL_use_certificate_file then Some SSL_use_certificate_file
      else if \<not> ssl_ok ev keyring SSL_use_PrivateKey_file then Some SSL_use_PrivateKey_file
      else if \<not> ssl_ok ev keyring SSL_load_verify_locations then Some SSL_load_verify_locations
      else if \<not> ssl_ok ev keyring BIO_new_ssl_connect then Some BIO_new_ssl_connect
      else if \<not> ssl_ok ev keyring X509_set1_ip_asc \<and> \<not> ssl_ok ev keyring X509_set1_host then Some X509_set1_host
      else if \<not> ssl_ok ev keyring BIO_do_connect then Some BIO_do_connect
      else if \<not> ssl_ok ev keyring SSL_get_verify_result then Some SSL_get_verify_result
      else None)"

definition kmipSslConnect :: "env \<Rightarrow> GenericKeyring \<Rightarrow> bool \<Rightarrow> bool tdeM" where
  "kmipSslConnect ev keyring throw_error =
     (if kmip_first_failure ev keyring = None then ret True
      else if throw_error then throw (E_state ''SSL error'')
      else ret False)"

section \<open>Requests\<close>

text \<open>The name is cut to 250 bytes.\<close>

definition kmip_name :: "bytes \<Rightarrow> bytes" where
  "kmip_name key_name = take 250 (cstr key_name)"

definition open_pg_tde_kmip_set_by_name :: "env \<Rightarrow> bytes \<Rightarrow> bytes \<Rightarrow> int tdeM" where
  "open_pg_tde_kmip_set_by_name ev key_name key =
     bindM (getM (\<lambda>w. kmip_register_symmetric_key ev (kmip_log w) (kmip_name key_name) key)) (\<lambda>result.
     seqM (whenM (result = 0) (modifyM (\<lambda>w. w\<lparr>kmip_log := kmip_log w @ [(kmip_name key_name, key)]\<rparr>)))
     (ret result))"

definition MAX_LOCATE_LEN :: nat where "MAX_LOCATE_LEN = 128"

text \<open>The result, the number of keys found and the first identifier.\<close>

definition open_pg_tde_kmip_locate_key :: "env \<Rightarrow> bytes \<Rightarrow> (int \<times> nat \<times> bytes) tdeM" where
  "open_pg_tde_kmip_locate_key ev key_name =
     bindM (getM (\<lambda>w. kmip_locate ev (kmip_log w) (kmip_name key_name))) (\<lambda>(result, ids).
     ret (result, length ids, if ids = [] then garbage ev MAX_LOCATE_LEN else take MAX_LOCATE_LEN (hd ids)))"

definition open_pg_tde_kmip_get_key :: "env \<Rightarrow> bytes \<Rightarrow> (int \<times> bytes) tdeM" where
  "open_pg_tde_kmip_get_key ev i = getM (\<lambda>w. kmip_get_symmetric_key ev (kmip_log w) (cstr i))"

section \<open>The operations of the keyring\<close>

definition kmip_set_key_by_name :: "env \<Rightarrow> GenericKeyring \<Rightarrow> KeyInfo \<Rightarrow> unit tdeM" where
  "kmip_set_key_by_name ev keyring k =
     bindM (kmipSslConnect ev keyring True) (\<lambda>_.
     bindM (open_pg_tde_kmip_set_by_name ev (ki_name k) (kd_material (ki_data k))) (\<lambda>result.
     check (result = 0) (E_state ''KMIP server reported error on register symmetric key'')))"

text \<open>A connection that cannot be made is reported as success without a key.\<close>

definition kmip_get_key_by_name :: "env \<Rightarrow> GenericKeyring \<Rightarrow> bytes \<Rightarrow> (nat \<times> KeyInfo option) tdeM" where
  "kmip_get_key_by_name ev keyring key_name =
     bindM (kmipSslConnect ev keyring False) (\<lambda>connected.
     if \<not> connected then ret (KEYRING_CODE_SUCCESS, None)
     else
       bindM (open_pg_tde_kmip_locate_key ev key_name) (\<lambda>(result, ids_found, i).
       if result \<noteq> 0 then ret (KEYRING_CODE_RESOURCE_NOT_AVAILABLE, None)
       else if ids_found = 0 then ret (KEYRING_CODE_SUCCESS, None)
       else if ids_found > 1 then ret (KEYRING_CODE_RESOURCE_NOT_AVAILABLE, None)
       else
         bindM (open_pg_tde_kmip_get_key ev i) (\<lambda>(result, keyp).
         if result \<noteq> 0 then ret (KEYRING_CODE_RESOURCE_NOT_AVAILABLE, None)
         else if length keyp > KEY_DATA_SIZE_256 then ret (KEYRING_CODE_INVALID_KEY, None)
         else
           ret (KEYRING_CODE_SUCCESS, Some
             \<lparr>ki_name = fit TDE_KEY_NAME_LEN (take (TDE_KEY_NAME_LEN - 1) (cstr key_name)),
              ki_data = \<lparr>kd_data = overlay KEY_DATA_SIZE_256 keyp (garbage ev KEY_DATA_SIZE_256),
                         kd_len = of_nat (length keyp)\<rparr>\<rparr>))))"

definition kmip_validate :: "env \<Rightarrow> GenericKeyring \<Rightarrow> unit tdeM" where
  "kmip_validate ev keyring = bindM (kmipSslConnect ev keyring True) (\<lambda>_. ret ())"

end
