(* ===== verification/Tde_Keyring.thy ===== *)
theory Tde_Keyring
  imports Tde_OpenBao Tde_Kmip
begin

text \<open>
  Key providers: the provider registry and key validation (\<open>keyring/keyring_api.c\<close>), the file
  provider (\<open>keyring/keyring_file.c\<close>), the JSON options (\<open>catalog/tde_keyring_parse_opts.c\<close>) and
  the provider info files (\<open>catalog/tde_keyring.c\<close>) as far as they do not depend on
  principal keys.
\<close>

section \<open>On-disk records\<close>

definition enc_key :: "KeyInfo \<Rightarrow> bytes" where
  "enc_key k = ki_name k @ kd_data (ki_data k) @ le32 (kd_len (ki_data k))"

definition dec_key :: "bytes \<Rightarrow> KeyInfo" where
  "dec_key b = \<lparr>ki_name = slice 0 256 b, ki_data = \<lparr>kd_data = slice 256 32 b, kd_len = un32 (slice 288 4 b)\<rparr>\<rparr>"

definition wf_key :: "KeyInfo \<Rightarrow> bool" where
  "wf_key k \<longleftrightarrow> length (ki_name k) = 256 \<and> length (kd_data (ki_data k)) = 32"

definition KEYINFO_SIZE :: nat where "KEYINFO_SIZE = 292"

interpretation key: codec enc_key dec_key KEYINFO_SIZE wf_key
proof unfold_locales
  fix k :: KeyInfo and b :: bytes
  show "0 < KEYINFO_SIZE" by (simp add: KEYINFO_SIZE_def)
  show "wf_key k \<Longrightarrow> length (enc_key k) = KEYINFO_SIZE" by (simp add: enc_key_def wf_key_def KEYINFO_SIZE_def)
  show "wf_key k \<Longrightarrow> dec_key (enc_key k) = k" by (simp add: enc_key_def dec_key_def wf_key_def)
  show "length b = KEYINFO_SIZE \<Longrightarrow> wf_key (dec_key b)"
    by (simp add: wf_key_def dec_key_def length_slice KEYINFO_SIZE_def)
qed

definition enc_prov :: "KeyringProviderRecord \<Rightarrow> bytes" where
  "enc_prov p = le32 (provider_id p) @ provider_name p @ options p @ le32 (provider_type p)"

definition dec_prov :: "bytes \<Rightarrow> KeyringProviderRecord" where
  "dec_prov b = \<lparr>provider_id = un32 (slice 0 4 b), provider_name = slice 4 128 b, options = slice 132 1024 b,
     provider_type = un32 (slice 1156 4 b)\<rparr>"

definition wf_prov :: "KeyringProviderRecord \<Rightarrow> bool" where
  "wf_prov p \<longleftrightarrow> length (provider_name p) = 128 \<and> length (options p) = 1024"

definition PROVIDER_SIZE :: nat where "PROVIDER_SIZE = 1160"

interpretation prov: codec enc_prov dec_prov PROVIDER_SIZE wf_prov
proof unfold_locales
  fix p :: KeyringProviderRecord and b :: bytes
  show "0 < PROVIDER_SIZE" by (simp add: PROVIDER_SIZE_def)
  show "wf_prov p \<Longrightarrow> length (enc_prov p) = PROVIDER_SIZE" by (simp add: enc_prov_def wf_prov_def PROVIDER_SIZE_def)
  show "wf_prov p \<Longrightarrow> dec_prov (enc_prov p) = p" by (simp add: enc_prov_def dec_prov_def wf_prov_def)
  show "length b = PROVIDER_SIZE \<Longrightarrow> wf_prov (dec_prov b)"
    by (simp add: wf_prov_def dec_prov_def length_slice PROVIDER_SIZE_def)
qed

section \<open>The file provider\<close>

text \<open>The scan of \<open>get_key_by_name\<close> from a position on: return code and key.\<close>

function get_key_scan :: "bytes \<Rightarrow> bytes \<Rightarrow> nat \<Rightarrow> nat \<times> KeyInfo option" where
  "get_key_scan f key_name curr_pos =
     (let b = pread f KEYINFO_SIZE curr_pos in
      if length b = 0 then (KEYRING_CODE_SUCCESS, None)
      else if length b \<noteq> KEYINFO_SIZE then (KEYRING_CODE_DATA_CORRUPTED, None)
      else if pg_strncasecmp_eq (ki_name (dec_key b)) key_name TDE_KEY_NAME_LEN
           then (KEYRING_CODE_SUCCESS, Some (dec_key b))
      else get_key_scan f key_name (curr_pos + KEYINFO_SIZE))"
  by pat_completeness auto
termination
  by (relation "measure (\<lambda>(f, n, pos). length f - pos)") (auto simp: length_pread KEYINFO_SIZE_def)

declare get_key_scan.simps [simp del]

definition file_get_key_by_name :: "GenericKeyring \<Rightarrow> bytes \<Rightarrow> (nat \<times> KeyInfo option) tdeM" where
  "file_get_key_by_name keyring key_name =
     (case file_name keyring of
        None \<Rightarrow> throw (E_null_pointer ''file_name'')
      | Some fn \<Rightarrow>
          bindM (getM (\<lambda>w. disk w (path_of fn))) (\<lambda>f.
          ret (case f of None \<Rightarrow> (KEYRING_CODE_SUCCESS, None) | Some b \<Rightarrow> get_key_scan b key_name 0)))"

text \<open>A corrupted file is reported by the lookup, and then ignored: the key is appended.\<close>

definition file_set_key_by_name :: "GenericKeyring \<Rightarrow> KeyInfo \<Rightarrow> unit tdeM" where
  "file_set_key_by_name keyring k =
     bindM (file_get_key_by_name keyring (ki_name k)) (\<lambda>(return_code, existing_key).
     seqM (check (existing_key = None) E_key_exists)
     (let p = path_of (the (file_name keyring)) in
      seqM (modifyM (\<lambda>w. if disk w p = None then set_file p [] w else w))
      (bindM (getM (\<lambda>w. length (file_bytes w p))) (\<lambda>curr_pos.
       seqM (write_at p (enc_key k) curr_pos) (fsync p)))))"

definition file_validate :: "GenericKeyring \<Rightarrow> unit tdeM" where
  "file_validate keyring =
     (case file_name keyring of
        None \<Rightarrow> throw (E_null_pointer ''file_name'')
      | Some fn \<Rightarrow> modifyM (\<lambda>w. if disk w (path_of fn) = None then set_file (path_of fn) [] w else w))"

section \<open>The registry of provider types\<close>

record TDEKeyringRoutine =
  keyring_get_key :: "GenericKeyring \<Rightarrow> bytes \<Rightarrow> (nat \<times> KeyInfo option) tdeM"
  keyring_store_key :: "GenericKeyring \<Rightarrow> KeyInfo \<Rightarrow> unit tdeM"
  keyring_validate :: "GenericKeyring \<Rightarrow> unit tdeM"

definition keyringFileRoutine :: TDEKeyringRoutine where
  "keyringFileRoutine = \<lparr>keyring_get_key = file_get_key_by_name, keyring_store_key = file_set_key_by_name,
     keyring_validate = file_validate\<rparr>"

definition keyringOpenBaoRoutine :: "env \<Rightarrow> TDEKeyringRoutine" where
  "keyringOpenBaoRoutine ev = \<lparr>keyring_get_key = openbao_get_key_by_name ev, keyring_store_key = openbao_set_key_by_name ev,
     keyring_validate = openbao_validate ev\<rparr>"

definition keyringKmipRoutine :: "env \<Rightarrow> TDEKeyringRoutine" where
  "keyringKmipRoutine ev = \<lparr>keyring_get_key = kmip_get_key_by_name ev, keyring_store_key = kmip_set_key_by_name ev,
     keyring_validate = kmip_validate ev\<rparr>"

definition find_key_provider_type :: "(u32 \<times> TDEKeyringRoutine) list \<Rightarrow> u32 \<Rightarrow> TDEKeyringRoutine option" where
  "find_key_provider_type reg t = map_option snd (find (\<lambda>kp. fst kp = t) reg)"

definition RegisterKeyProviderType ::
  "TDEKeyringRoutine \<Rightarrow> u32 \<Rightarrow> (u32 \<times> TDEKeyringRoutine) list \<Rightarrow> tde_error + (u32 \<times> TDEKeyringRoutine) list" where
  "RegisterKeyProviderType routine t reg =
     (case find_key_provider_type reg t of
        Some _ \<Rightarrow> Inl (E_state ''Key provider already registered'')
      | None \<Rightarrow> Inr (reg @ [(t, routine)]))"

text \<open>What \<open>_PG_init\<close> has registered: the file, OpenBao and KMIP keyrings.\<close>

definition registeredKeyProviderTypes :: "env \<Rightarrow> (u32 \<times> TDEKeyringRoutine) list" where
  "registeredKeyProviderTypes ev =
     [(FILE_KEY_PROVIDER, keyringFileRoutine), (OPENBAO_KEY_PROVIDER, keyringOpenBaoRoutine ev),
      (KMIP_KEY_PROVIDER, keyringKmipRoutine ev)]"

section \<open>The keyring interface\<close>

definition ValidateKey :: "KeyInfo \<Rightarrow> bool" where
  "ValidateKey k =
     (if ki_name k ! 0 = 0 then False
      else if kd_len (ki_data k) = 0 then False
      else if kd_len (ki_data k) \<noteq> of_nat KEY_DATA_SIZE_128 \<and> kd_len (ki_data k) \<noteq> of_nat KEY_DATA_SIZE_256 then False
      else True)"

definition KeyringGetKey :: "env \<Rightarrow> GenericKeyring \<Rightarrow> bytes \<Rightarrow> (nat \<times> KeyInfo option) tdeM" where
  "KeyringGetKey ev keyring key_name =
     (case find_key_provider_type (registeredKeyProviderTypes ev) (gk_type keyring) of
        None \<Rightarrow> ret (KEYRING_CODE_INVALID_PROVIDER, None)
      | Some routine \<Rightarrow>
          bindM (keyring_get_key routine keyring key_name) (\<lambda>(returnCode, key).
          case key of
            None \<Rightarrow> ret (returnCode, None)
          | Some k \<Rightarrow>
              ret (if returnCode \<noteq> KEYRING_CODE_SUCCESS then (returnCode, None)
                   else if \<not> ValidateKey k then (KEYRING_CODE_INVALID_KEY, None)
                   else (returnCode, Some k))))"

definition KeyringStoreKey :: "env \<Rightarrow> GenericKeyring \<Rightarrow> KeyInfo \<Rightarrow> unit tdeM" where
  "KeyringStoreKey ev keyring k =
     (case find_key_provider_type (registeredKeyProviderTypes ev) (gk_type keyring) of
        None \<Rightarrow> throw (E_keyring KEYRING_CODE_INVALID_PROVIDER)
      | Some routine \<Rightarrow> keyring_store_key routine keyring k)"

definition KeyringGenerateNewKey :: "env \<Rightarrow> bytes \<Rightarrow> u32 \<Rightarrow> KeyInfo tdeM" where
  "KeyringGenerateNewKey ev key_name key_len =
     bindM (RAND_bytes ev (unat key_len)) (\<lambda>b.
     ret \<lparr>ki_name = fit TDE_KEY_NAME_LEN (take (TDE_KEY_NAME_LEN - 1) (cstr key_name)),
          ki_data = \<lparr>kd_data = fit KEY_DATA_SIZE_256 b, kd_len = key_len\<rparr>\<rparr>)"

definition KeyringGenerateNewKeyAndStore :: "env \<Rightarrow> GenericKeyring \<Rightarrow> bytes \<Rightarrow> u32 \<Rightarrow> KeyInfo tdeM" where
  "KeyringGenerateNewKeyAndStore ev keyring key_name key_len =
     bindM (KeyringGenerateNewKey ev key_name key_len) (\<lambda>k.
     seqM (KeyringStoreKey ev keyring k) (ret k))"

definition KeyringValidate :: "env \<Rightarrow> GenericKeyring \<Rightarrow> unit tdeM" where
  "KeyringValidate ev keyring =
     (case find_key_provider_type (registeredKeyProviderTypes ev) (gk_type keyring) of
        None \<Rightarrow> throw (E_keyring KEYRING_CODE_INVALID_PROVIDER)
      | Some routine \<Rightarrow> keyring_validate routine keyring)"

definition KeyringErrorCodeToString :: "nat \<Rightarrow> string" where
  "KeyringErrorCodeToString code =
     (if code = KEYRING_CODE_SUCCESS then ''Success''
      else if code = KEYRING_CODE_INVALID_PROVIDER then ''Invalid key''
      else if code = KEYRING_CODE_RESOURCE_NOT_AVAILABLE then ''Resource not available''
      else if code = KEYRING_CODE_INVALID_RESPONSE then ''Invalid response from keyring provider''
      else if code = KEYRING_CODE_INVALID_KEY then ''Invalid key''
      else if code = KEYRING_CODE_DATA_CORRUPTED then ''Data corrupted''
      else ''Unknown error code'')"

section \<open>Provider options in JSON\<close>

datatype JsonKeyringSemState = JK_EXPECT_TOP_LEVEL_OBJECT | JK_EXPECT_FIELD

datatype JsonKeyringField =
    JK_FIELD_UNKNOWN | JK_FILE_PATH
  | JK_OPENBAO_TOKEN_PATH | JK_OPENBAO_URL | JK_OPENBAO_MOUNT_PATH | JK_OPENBAO_CA_PATH | JK_OPENBAO_NAMESPACE
  | JK_KMIP_HOST | JK_KMIP_PORT | JK_KMIP_CA_PATH | JK_KMIP_CERT_PATH | JK_KMIP_KEY_PATH

primrec JK_FIELD_NAMES :: "JsonKeyringField \<Rightarrow> string" where
  "JK_FIELD_NAMES JK_FIELD_UNKNOWN = ''unknownField''"
| "JK_FIELD_NAMES JK_FILE_PATH = ''path''"
| "JK_FIELD_NAMES JK_OPENBAO_TOKEN_PATH = ''tokenPath''"
| "JK_FIELD_NAMES JK_OPENBAO_URL = ''url''"
| "JK_FIELD_NAMES JK_OPENBAO_MOUNT_PATH = ''mountPath''"
| "JK_FIELD_NAMES JK_OPENBAO_CA_PATH = ''caPath''"
| "JK_FIELD_NAMES JK_OPENBAO_NAMESPACE = ''namespace''"
| "JK_FIELD_NAMES JK_KMIP_HOST = ''host''"
| "JK_FIELD_NAMES JK_KMIP_PORT = ''port''"
| "JK_FIELD_NAMES JK_KMIP_CA_PATH = ''caPath''"
| "JK_FIELD_NAMES JK_KMIP_CERT_PATH = ''certPath''"
| "JK_FIELD_NAMES JK_KMIP_KEY_PATH = ''keyPath''"

record JsonKeyringState =
  jk_provider_type :: u32
  jk_provider_opts :: GenericKeyring
  jk_current_field :: JsonKeyringField
  jk_state :: JsonKeyringSemState

definition json_kring_array_start :: "JsonKeyringState \<Rightarrow> tde_error + JsonKeyringState" where
  "json_kring_array_start parse =
     (case jk_state parse of
        JK_EXPECT_TOP_LEVEL_OBJECT \<Rightarrow> Inl (E_options ''key provider options must be an object'')
      | JK_EXPECT_FIELD \<Rightarrow> Inl (E_options (''unexpected array in field '' @ JK_FIELD_NAMES (jk_current_field parse))))"

definition json_kring_object_start :: "JsonKeyringState \<Rightarrow> tde_error + JsonKeyringState" where
  "json_kring_object_start parse =
     (case jk_state parse of
        JK_EXPECT_TOP_LEVEL_OBJECT \<Rightarrow> Inr (parse\<lparr>jk_state := JK_EXPECT_FIELD\<rparr>)
      | JK_EXPECT_FIELD \<Rightarrow> Inl (E_options ''key provider value cannot be an object''))"

text \<open>The fields a provider type accepts, in the order they are compared.\<close>

definition provider_fields :: "u32 \<Rightarrow> JsonKeyringField list" where
  "provider_fields t =
     (if t = FILE_KEY_PROVIDER then [JK_FILE_PATH]
      else if t = OPENBAO_KEY_PROVIDER then
        [JK_OPENBAO_TOKEN_PATH, JK_OPENBAO_URL, JK_OPENBAO_MOUNT_PATH, JK_OPENBAO_CA_PATH, JK_OPENBAO_NAMESPACE]
      else if t = KMIP_KEY_PROVIDER then
        [JK_KMIP_HOST, JK_KMIP_PORT, JK_KMIP_CA_PATH, JK_KMIP_CERT_PATH, JK_KMIP_KEY_PATH]
      else [])"

definition json_kring_object_field_start :: "bytes \<Rightarrow> JsonKeyringState \<Rightarrow> tde_error + JsonKeyringState" where
  "json_kring_object_field_start fname parse =
     (case jk_state parse of
        JK_EXPECT_TOP_LEVEL_OBJECT \<Rightarrow> Inl (E_options ''invalid semantic state'')
      | JK_EXPECT_FIELD \<Rightarrow>
          (if jk_provider_type parse \<in> {FILE_KEY_PROVIDER, OPENBAO_KEY_PROVIDER, KMIP_KEY_PROVIDER} then
             (case find (\<lambda>fld. strcmp_eq fname (bytes_of (JK_FIELD_NAMES fld))) (provider_fields (jk_provider_type parse)) of
                Some fld \<Rightarrow> Inr (parse\<lparr>jk_current_field := fld\<rparr>)
              | None \<Rightarrow> Inl (E_options ''unexpected field''))
           else if jk_provider_type parse = UNKNOWN_KEY_PROVIDER then Inl (E_options ''invalid token'')
           else Inr parse))"

definition json_kring_assign_scalar :: "JsonKeyringState \<Rightarrow> JsonKeyringField \<Rightarrow> bytes option \<Rightarrow> tde_error + JsonKeyringState" where
  "json_kring_assign_scalar parse fld v =
     (let po = jk_provider_opts parse; put = (\<lambda>k. Inr (parse\<lparr>jk_provider_opts := k\<rparr>)) in
      case fld of
        JK_FILE_PATH \<Rightarrow> put (po\<lparr>file_name := v\<rparr>)
      | JK_OPENBAO_TOKEN_PATH \<Rightarrow> put (po\<lparr>openbao_token_path := v\<rparr>)
      | JK_OPENBAO_URL \<Rightarrow> put (po\<lparr>openbao_url := v\<rparr>)
      | JK_OPENBAO_MOUNT_PATH \<Rightarrow> put (po\<lparr>openbao_mount_path := v\<rparr>)
      | JK_OPENBAO_CA_PATH \<Rightarrow> put (po\<lparr>openbao_ca_path := v\<rparr>)
      | JK_OPENBAO_NAMESPACE \<Rightarrow> put (po\<lparr>openbao_namespace := v\<rparr>)
      | JK_KMIP_HOST \<Rightarrow> put (po\<lparr>kmip_host := v\<rparr>)
      | JK_KMIP_PORT \<Rightarrow> put (po\<lparr>kmip_port := v\<rparr>)
      | JK_KMIP_CA_PATH \<Rightarrow> put (po\<lparr>kmip_ca_path := v\<rparr>)
      | JK_KMIP_CERT_PATH \<Rightarrow> put (po\<lparr>kmip_cert_path := v\<rparr>)
      | JK_KMIP_KEY_PATH \<Rightarrow> put (po\<lparr>kmip_key_path := v\<rparr>)
      | JK_FIELD_UNKNOWN \<Rightarrow> Inl (E_options ''unexpected scalar field''))"

definition json_kring_scalar :: "json_token \<Rightarrow> bytes \<Rightarrow> JsonKeyringState \<Rightarrow> tde_error + JsonKeyringState" where
  "json_kring_scalar tokentype tok parse =
     (if jk_state parse = JK_EXPECT_TOP_LEVEL_OBJECT then Inl (E_options ''key provider options must be an object'')
      else
        (case tokentype of
           JSON_TOKEN_STRING \<Rightarrow> json_kring_assign_scalar parse (jk_current_field parse) (Some tok)
         | JSON_TOKEN_NUMBER \<Rightarrow> json_kring_assign_scalar parse (jk_current_field parse) (Some tok)
         | JSON_TOKEN_TRUE \<Rightarrow> Inl (E_options (''unexpected boolean in field '' @ JK_FIELD_NAMES (jk_current_field parse)))
         | JSON_TOKEN_FALSE \<Rightarrow> Inl (E_options (''unexpected boolean in field '' @ JK_FIELD_NAMES (jk_current_field parse)))
         | JSON_TOKEN_NULL \<Rightarrow> json_kring_assign_scalar parse (jk_current_field parse) None))"

definition json_step :: "json_event \<Rightarrow> JsonKeyringState \<Rightarrow> tde_error + JsonKeyringState" where
  "json_step e parse = (case e of
       JsObjectStart \<Rightarrow> json_kring_object_start parse
     | JsObjectEnd \<Rightarrow> Inr parse
     | JsArrayStart \<Rightarrow> json_kring_array_start parse
     | JsField fname \<Rightarrow> json_kring_object_field_start fname parse
     | JsScalar t tok \<Rightarrow> json_kring_scalar t tok parse)"

fun json_run :: "json_event list \<Rightarrow> JsonKeyringState \<Rightarrow> tde_error + JsonKeyringState" where
  "json_run [] parse = Inr parse"
| "json_run (e # es) parse = (case json_step e parse of Inl x \<Rightarrow> Inl x | Inr p \<Rightarrow> json_run es p)"

definition ParseKeyringJSONOptions :: "env \<Rightarrow> u32 \<Rightarrow> GenericKeyring \<Rightarrow> bytes \<Rightarrow> tde_error + GenericKeyring" where
  "ParseKeyringJSONOptions ev t out_opts in_buf =
     (let parse = \<lparr>jk_provider_type = t, jk_provider_opts = out_opts, jk_current_field = JK_FIELD_UNKNOWN,
                   jk_state = JK_EXPECT_TOP_LEVEL_OBJECT\<rparr>;
          (evs, well_formed) = json_parse ev (cstr in_buf)
      in case json_run evs parse of
           Inl e \<Rightarrow> Inl e
         | Inr p \<Rightarrow> if well_formed then Inr (jk_provider_opts p) else Inl (E_options ''invalid JSON''))"

section \<open>Loading providers\<close>

definition palloc0_keyring :: "u32 \<Rightarrow> GenericKeyring" where
  "palloc0_keyring t = \<lparr>gk_type = t, keyring_id = 0, gk_provider_name = zeros 128, gk_options = zeros 1024,
     file_name = None, kmip_host = None, kmip_port = None, kmip_ca_path = None, kmip_cert_path = None,
     kmip_key_path = None, openbao_token = None, openbao_token_path = None, openbao_url = None,
     openbao_ca_path = None, openbao_mount_path = None, openbao_namespace = None\<rparr>"

definition is_set :: "bytes option \<Rightarrow> bool" where
  "is_set v = (case v of None \<Rightarrow> False | Some b \<Rightarrow> cstr b \<noteq> [])"

definition load_file_keyring_provider_options :: "env \<Rightarrow> bytes \<Rightarrow> GenericKeyring tdeM" where
  "load_file_keyring_provider_options ev opts =
     bindM (liftM (ParseKeyringJSONOptions ev FILE_KEY_PROVIDER (palloc0_keyring FILE_KEY_PROVIDER) opts)) (\<lambda>k.
     seqM (check (is_set (file_name k)) (E_options ''file path is missing in the keyring options'')) (ret k))"

definition load_kmip_keyring_provider_options :: "env \<Rightarrow> bytes \<Rightarrow> GenericKeyring tdeM" where
  "load_kmip_keyring_provider_options ev opts =
     bindM (liftM (ParseKeyringJSONOptions ev KMIP_KEY_PROVIDER (palloc0_keyring KMIP_KEY_PROVIDER) opts)) (\<lambda>k.
     seqM (check (is_set (kmip_host k) \<and> is_set (kmip_port k) \<and> is_set (kmip_ca_path k) \<and>
                  is_set (kmip_cert_path k) \<and> is_set (kmip_key_path k)) (E_options ''missing in the keyring options''))
     (ret k))"

text \<open>
  \<open>get_file_value\<close>: the first line, cut at the first white space. For an empty file \<open>fgets\<close>
  returns NULL without an error and the buffer is used as allocated.
\<close>

definition get_file_value :: "env \<Rightarrow> string \<Rightarrow> bytes tdeM" where
  "get_file_value ev path =
     bindM (getM (\<lambda>w. disk w path)) (\<lambda>f.
     case f of
       None \<Rightarrow> throw (E_open path)
     | Some b \<Rightarrow>
         (let line = take 1023 (takeWhile (\<lambda>x. x \<noteq> 10) b);
              v = (if b = [] then cstr (garbage ev 1024) else cstr line)
          in ret (takeWhile (\<lambda>x. x \<notin> {32, 9, 10, 13}) v)))"

definition load_openbao_keyring_provider_options :: "env \<Rightarrow> bytes \<Rightarrow> GenericKeyring tdeM" where
  "load_openbao_keyring_provider_options ev opts =
     bindM (liftM (ParseKeyringJSONOptions ev OPENBAO_KEY_PROVIDER (palloc0_keyring OPENBAO_KEY_PROVIDER) opts)) (\<lambda>k.
     seqM (check (is_set (openbao_token_path k) \<and> is_set (openbao_url k) \<and> is_set (openbao_mount_path k))
             (E_options ''missing in the keyring options''))
     (bindM (get_file_value ev (path_of (the (openbao_token_path k)))) (\<lambda>tok.
      ret (k\<lparr>openbao_token := Some tok\<rparr>))))"

definition load_keyring_provider_from_record :: "env \<Rightarrow> KeyringProviderRecord \<Rightarrow> GenericKeyring tdeM" where
  "load_keyring_provider_from_record ev p =
     bindM (if provider_type p = FILE_KEY_PROVIDER then load_file_keyring_provider_options ev (options p)
            else if provider_type p = OPENBAO_KEY_PROVIDER then load_openbao_keyring_provider_options ev (options p)
            else if provider_type p = KMIP_KEY_PROVIDER then load_kmip_keyring_provider_options ev (options p)
            else throw E_provider_type) (\<lambda>k.
     ret (k\<lparr>keyring_id := provider_id p, gk_provider_name := provider_name p, gk_type := provider_type p,
            gk_options := options p\<rparr>))"

section \<open>Provider info files\<close>

definition fetch_next_key_provider :: "bytes \<Rightarrow> nat \<Rightarrow> tde_error + (KeyringProviderRecord \<times> nat) option" where
  "fetch_next_key_provider f curr_pos =
     (let b = pread f PROVIDER_SIZE curr_pos in
      if length b = 0 then Inr None
      else if length b \<noteq> PROVIDER_SIZE then Inl E_provider_corrupted
      else Inr (Some (dec_prov b, curr_pos + PROVIDER_SIZE)))"

text \<open>
  All calls of a loop \<open>while (fetch_next_key_provider(...))\<close>: the records with their offsets,
  and the error or end offset the loop stops with after having processed them.
\<close>

function fetch_all :: "bytes \<Rightarrow> nat \<Rightarrow> (nat \<times> KeyringProviderRecord) list \<times> (tde_error + nat)" where
  "fetch_all f pos =
     (case fetch_next_key_provider f pos of
        Inl e \<Rightarrow> ([], Inl e)
      | Inr None \<Rightarrow> ([], Inr pos)
      | Inr (Some (p, pos')) \<Rightarrow> (case fetch_all f pos' of (ps, r) \<Rightarrow> ((pos, p) # ps, r)))"
  by pat_completeness auto
termination
  by (relation "measure (\<lambda>(f, pos). length f - pos)")
    (auto simp: fetch_next_key_provider_def Let_def length_pread PROVIDER_SIZE_def split: if_splits)

declare fetch_all.simps [simp del]

datatype ProviderScan = PROVIDER_SCAN_BY_NAME bytes | PROVIDER_SCAN_BY_ID u32 | PROVIDER_SCAN_ALL

definition scan_match :: "ProviderScan \<Rightarrow> KeyringProviderRecord \<Rightarrow> bool" where
  "scan_match sc p =
     (if provider_type p = UNKNOWN_KEY_PROVIDER then False
      else (case sc of
              PROVIDER_SCAN_BY_NAME n \<Rightarrow> pg_strcasecmp_eq (provider_name p) n
            | PROVIDER_SCAN_BY_ID i \<Rightarrow> provider_id p = i
            | PROVIDER_SCAN_ALL \<Rightarrow> True))"

fun load_matching :: "env \<Rightarrow> ProviderScan \<Rightarrow> KeyringProviderRecord list \<Rightarrow> GenericKeyring list tdeM" where
  "load_matching ev sc [] = ret []"
| "load_matching ev sc (p # ps) =
     (if scan_match sc p
      then bindM (load_keyring_provider_from_record ev p) (\<lambda>k. bindM (load_matching ev sc ps) (\<lambda>ks. ret (k # ks)))
      else load_matching ev sc ps)"

definition scan_key_provider_file :: "env \<Rightarrow> ProviderScan \<Rightarrow> Oid \<Rightarrow> GenericKeyring list tdeM" where
  "scan_key_provider_file ev sc db =
     bindM (getM (\<lambda>w. disk w (get_keyring_infofile_path ev db))) (\<lambda>f.
     case f of
       None \<Rightarrow> ret []
     | Some b \<Rightarrow>
         (case fetch_all b 0 of (ps, r) \<Rightarrow>
            bindM (load_matching ev sc (map snd ps)) (\<lambda>ks.
            bindM (liftM r) (\<lambda>_. ret ks))))"

definition GetAllKeyringProviders :: "env \<Rightarrow> Oid \<Rightarrow> GenericKeyring list tdeM" where
  "GetAllKeyringProviders ev db = scan_key_provider_file ev PROVIDER_SCAN_ALL db"

text \<open>Provider numbers are C \<open>int\<close>s; those of global providers are negative.\<close>

definition GetKeyProviderByID :: "env \<Rightarrow> u32 \<Rightarrow> Oid \<Rightarrow> GenericKeyring option tdeM" where
  "GetKeyProviderByID ev i db =
     (let realOid = (if sint i < 0 then GLOBAL_DATA_TDE_OID else db) in
      bindM (scan_key_provider_file ev (PROVIDER_SCAN_BY_ID i) realOid) (\<lambda>ks.
      ret (case ks of [] \<Rightarrow> None | k # _ \<Rightarrow> Some k)))"

definition GetKeyProviderByName :: "env \<Rightarrow> bytes \<Rightarrow> Oid \<Rightarrow> GenericKeyring tdeM" where
  "GetKeyProviderByName ev n db =
     bindM (scan_key_provider_file ev (PROVIDER_SCAN_BY_NAME n) db) (\<lambda>ks.
     case ks of [] \<Rightarrow> throw E_provider_not_found | k # _ \<Rightarrow> ret k)"

definition get_keyring_provider_from_typename :: "bytes \<Rightarrow> u32" where
  "get_keyring_provider_from_typename t =
     (if strcmp_eq (bytes_of ''file'') t then FILE_KEY_PROVIDER
      else if strcmp_eq (bytes_of ''kmip'') t then KMIP_KEY_PROVIDER
      else if strcmp_eq (bytes_of ''openbao'') t then OPENBAO_KEY_PROVIDER
      else UNKNOWN_KEY_PROVIDER)"

definition get_keyring_provider_typename :: "u32 \<Rightarrow> string option" where
  "get_keyring_provider_typename t =
     (if t = FILE_KEY_PROVIDER then Some ''file''
      else if t = KMIP_KEY_PROVIDER then Some ''kmip''
      else if t = OPENBAO_KEY_PROVIDER then Some ''openbao''
      else None)"

definition write_key_provider_info :: "env \<Rightarrow> KeyringProviderRecordInFile \<Rightarrow> bool \<Rightarrow> unit tdeM" where
  "write_key_provider_info ev record write_xlog =
     (let kp_info_path = get_keyring_infofile_path ev (database_id record) in
      seqM (modifyM (\<lambda>w. if disk w kp_info_path = None then set_file kp_info_path [] w else w))
      (seqM (whenM write_xlog (XLogInsert (XlWriteKeyProvider record)))
      (seqM (write_at kp_info_path (enc_prov (provider record)) (offset_in_file record))
      (fsync kp_info_path))))"

definition redo_key_provider_info :: "env \<Rightarrow> KeyringProviderRecordInFile \<Rightarrow> unit tdeM" where
  "redo_key_provider_info ev xlrec = write_key_provider_info ev xlrec False"

definition open_keyring_infofile :: "env \<Rightarrow> Oid \<Rightarrow> bool \<Rightarrow> string tdeM" where
  "open_keyring_infofile ev db creat =
     (let kp_info_path = get_keyring_infofile_path ev db in
      bindM (getM (\<lambda>w. disk w kp_info_path)) (\<lambda>f.
      if f = None
      then (if creat then seqM (modifyM (set_file kp_info_path [])) (ret kp_info_path) else throw (E_open kp_info_path))
      else ret kp_info_path))"

definition get_keyring_info_file_record_by_name :: "env \<Rightarrow> bytes \<Rightarrow> Oid \<Rightarrow> KeyringProviderRecordInFile option tdeM" where
  "get_keyring_info_file_record_by_name ev n db =
     bindM (open_keyring_infofile ev db False) (\<lambda>p.
     bindM (getM (\<lambda>w. fetch_all (file_bytes w p) 0)) (\<lambda>(ps, r).
     case find (\<lambda>(_, x). provider_type x \<noteq> UNKNOWN_KEY_PROVIDER \<and> strcmp_eq (provider_name x) n) ps of
       Some (off, x) \<Rightarrow> ret (Some \<lparr>database_id = db, offset_in_file = off, provider = x\<rparr>)
     | None \<Rightarrow> bindM (liftM r) (\<lambda>_. ret None)))"

definition key_provider_startup_cleanup :: "env \<Rightarrow> Oid \<Rightarrow> unit tdeM" where
  "key_provider_startup_cleanup ev db = durable_unlink (get_keyring_infofile_path ev db) False"

end
