(* ===== verification/Tde_Keyring_Ops.thy ===== *)
theory Tde_Keyring_Ops
  imports Tde_Keyring
begin

text \<open>
  Facts about the key providers: the file provider as a list of keys, storing and fetching,
  the provider records of an info file, and that the JSON callbacks of a provider type
  only ever write options of that type.
\<close>

section \<open>The keys of a provider file\<close>

definition same_key_name :: "bytes \<Rightarrow> KeyInfo \<Rightarrow> bool" where
  "same_key_name n k \<longleftrightarrow> pg_strncasecmp_eq (ki_name k) n TDE_KEY_NAME_LEN"

lemma get_key_scan_eq:
  "get_key_scan f n pos =
     (case find (same_key_name n) (recs KEYINFO_SIZE dec_key f pos) of
        Some k \<Rightarrow> (KEYRING_CODE_SUCCESS, Some k)
      | None \<Rightarrow> (if (length f - pos) mod KEYINFO_SIZE = 0 then KEYRING_CODE_SUCCESS else KEYRING_CODE_DATA_CORRUPTED, None))"
proof (induction "length f - pos" arbitrary: pos rule: less_induct)
  case less
  have sz: "0 < KEYINFO_SIZE" by (simp add: KEYINFO_SIZE_def)
  show ?case
  proof (cases "pos + KEYINFO_SIZE \<le> length f")
    case True
    then have len: "length (pread f KEYINFO_SIZE pos) = KEYINFO_SIZE" by (simp add: length_pread)
    have IH: "get_key_scan f n (pos + KEYINFO_SIZE) =
       (case find (same_key_name n) (recs KEYINFO_SIZE dec_key f (pos + KEYINFO_SIZE)) of
          Some k \<Rightarrow> (KEYRING_CODE_SUCCESS, Some k)
        | None \<Rightarrow> (if (length f - (pos + KEYINFO_SIZE)) mod KEYINFO_SIZE = 0 then KEYRING_CODE_SUCCESS else KEYRING_CODE_DATA_CORRUPTED, None))"
      using True sz by (intro less.hyps) simp
    have m: "(length f - pos) mod KEYINFO_SIZE = (length f - (pos + KEYINFO_SIZE)) mod KEYINFO_SIZE"
      using True le_mod_geq [of KEYINFO_SIZE "length f - pos"] by simp
    have "pread f KEYINFO_SIZE pos \<noteq> []" using len sz by auto
    then show ?thesis
      using len sz IH m
      by (subst get_key_scan.simps) (simp add: Let_def recs_step [OF sz True] same_key_name_def)
  next
    case False
    then have r: "recs KEYINFO_SIZE dec_key f pos = []" by (intro recs_end [OF sz]) simp
    have l: "length (pread f KEYINFO_SIZE pos) = length f - pos" "length f - pos < KEYINFO_SIZE"
      using False sz by (auto simp: length_pread)
    then have "pread f KEYINFO_SIZE pos = [] \<longleftrightarrow> length f \<le> pos"
      using length_0_conv [of "pread f KEYINFO_SIZE pos"] by simp
    with l show ?thesis
      by (subst get_key_scan.simps) (simp add: Let_def r)
  qed
qed

text \<open>A provider file that ends with a complete record.\<close>

definition aligned_file :: "bytes option \<Rightarrow> bool" where
  "aligned_file fo \<longleftrightarrow> (case fo of None \<Rightarrow> True | Some f \<Rightarrow> length f mod KEYINFO_SIZE = 0)"

definition keys_of :: "bytes option \<Rightarrow> KeyInfo list" where
  "keys_of fo = (case fo of None \<Rightarrow> [] | Some f \<Rightarrow> recs KEYINFO_SIZE dec_key f 0)"

lemma file_get_ok:
  assumes "file_name kr = Some fn"
  shows "file_get_key_by_name kr n w = (Inr (case find (same_key_name n) (keys_of (disk w (path_of fn))) of
        Some k \<Rightarrow> (KEYRING_CODE_SUCCESS, Some k)
      | None \<Rightarrow> (if aligned_file (disk w (path_of fn)) then KEYRING_CODE_SUCCESS else KEYRING_CODE_DATA_CORRUPTED, None)), w)"
  using assms
  by (simp add: file_get_key_by_name_def runM get_key_scan_eq keys_of_def aligned_file_def split: option.splits)

lemma keyring_get_file:
  assumes "gk_type kr = FILE_KEY_PROVIDER" "file_name kr = Some fn"
  shows "KeyringGetKey ev kr n w =
     (Inr (case find (same_key_name n) (keys_of (disk w (path_of fn))) of
        Some k \<Rightarrow> if ValidateKey k then (KEYRING_CODE_SUCCESS, Some k) else (KEYRING_CODE_INVALID_KEY, None)
      | None \<Rightarrow> (if aligned_file (disk w (path_of fn)) then KEYRING_CODE_SUCCESS else KEYRING_CODE_DATA_CORRUPTED, None)), w)"
  using assms
  by (simp add: KeyringGetKey_def find_key_provider_type_def registeredKeyProviderTypes_def keyringFileRoutine_def
      runM file_get_ok split: option.splits)

lemma file_set_ok:
  assumes "file_name kr = Some fn" "io w = []" "wf_key k" and al: "aligned_file (disk w (path_of fn))"
    and new: "find (same_key_name (ki_name k)) (keys_of (disk w (path_of fn))) = None"
  shows "\<exists>f'. file_set_key_by_name kr k w = (Inr (), set_file (path_of fn) f' w) \<and>
     length f' mod KEYINFO_SIZE = 0 \<and> recs KEYINFO_SIZE dec_key f' 0 = keys_of (disk w (path_of fn)) @ [k]"
proof -
  let ?p = "path_of fn"
  define f where "f = (case disk w ?p of None \<Rightarrow> [] | Some b \<Rightarrow> b)"
  have f: "length f mod KEYINFO_SIZE = 0" "recs KEYINFO_SIZE dec_key f 0 = keys_of (disk w ?p)"
    using al key.sz_pos by (auto simp: f_def aligned_file_def keys_of_def recs_end split: option.splits)
  have "file_set_key_by_name kr k w = (Inr (), set_file ?p (f @ enc_key k) w)"
    using assms(1,2) new
    by (auto simp: file_set_key_by_name_def runM file_get_ok Let_def write_at_ok fsync_ok f_def pwrite_at_end
        pwrite_def zeros_def file_bytes_def set_file_def split: option.splits)
  moreover have "length (f @ enc_key k) mod KEYINFO_SIZE = 0"
    using f(1) key.enc_length [OF assms(3)] by simp
  ultimately show ?thesis using key.recs_snoc [OF assms(3) f(1)] f(2) by auto
qed

section \<open>Generated keys\<close>

lemma cstr_fit: "length (cstr b) < n \<Longrightarrow> cstr (fit n (cstr b)) = cstr b"
  unfolding cstr_def fit_def zeros_def
  by (simp add: takeWhile_append2 takeWhile_eq_all_conv)
    (metis (mono_tags, lifting) Suc_diff_Suc set_takeWhileD takeWhile_append2 takeWhile_eq_Nil_iff append_Nil2
      hd_replicate replicate_empty nat.distinct(1) zero_less_diff)

text \<open>
  The name of a generated key: the requested one, as long as it fits the array.
\<close>

lemma generate_key_ok:
  assumes "rand_ok ev" and "length (cstr n) < TDE_KEY_NAME_LEN" and "cstr n \<noteq> []" and "len = 16 \<or> len = 32"
  shows "\<exists>k. KeyringGenerateNewKey ev n len w = (Inr k, w\<lparr>rng := Suc (rng w)\<rparr>) \<and> wf_key k \<and>
     cstr (ki_name k) = cstr n \<and> ValidateKey k"
proof -
  obtain b where b: "RAND_bytes ev (unat len) w = (Inr b, w\<lparr>rng := Suc (rng w)\<rparr>)" "length b = unat len"
    using RAND_bytes_ok [OF assms(1)] by blast
  let ?k = "\<lparr>ki_name = fit 256 (cstr n), ki_data = \<lparr>kd_data = fit 32 b, kd_len = len\<rparr>\<rparr>"
  have "KeyringGenerateNewKey ev n len w = (Inr ?k, w\<lparr>rng := Suc (rng w)\<rparr>)"
    using b(1) assms(2) by (simp add: KeyringGenerateNewKey_def runM size_consts)
  moreover have "cstr (fit 256 (cstr n)) = cstr n" using cstr_fit assms(2) by (simp add: size_consts)
  moreover have "fit 256 (cstr n) ! 0 \<noteq> 0"
  proof -
    obtain x xs where x: "cstr n = x # xs" using assms(3) by (meson neq_Nil_conv)
    then have "x \<noteq> 0" by (metis cstr_def list.set_intros(1) set_takeWhileD)
    then show ?thesis using x by (simp add: fit_def)
  qed
  ultimately show ?thesis
    using assms(4) by (auto simp: wf_key_def ValidateKey_def size_consts)
qed

lemma same_name_cstr:
  assumes "cstr (ki_name k) = cstr n" "length (cstr n) < 256" "length (ki_name k) = 256"
  shows "same_key_name m k \<longleftrightarrow> map to_lower (cstr (take 256 m)) = map to_lower (cstr n)"
  using assms by (auto simp: same_key_name_def pg_strncasecmp_eq_def size_consts)

lemma cstr_take: "length (cstr n) < m \<Longrightarrow> cstr (take m n) = cstr n"
  unfolding cstr_def
proof (induction n arbitrary: m)
  case Nil
  then show ?case by simp
next
  case (Cons a n)
  then show ?case by (cases m) auto
qed

text \<open>
  Storing a key in a file key provider and fetching it back: if no key of that name (compared without case) is there, fetching by
  that name returns exactly the stored key, and what any other name gives is unchanged.
\<close>

lemma file_store_get:
  assumes kr: "gk_type kr = FILE_KEY_PROVIDER" "file_name kr = Some fn" and "io w = []"
    and k: "wf_key k" "ValidateKey k" and n: "length (cstr n) < TDE_KEY_NAME_LEN" "cstr (ki_name k) = cstr n"
    and get: "fst (KeyringGetKey ev kr n w) = Inr (KEYRING_CODE_SUCCESS, None)"
  shows "\<exists>w'. KeyringStoreKey ev kr k w = (Inr (), w') \<and>
     KeyringGetKey ev kr n w' = (Inr (KEYRING_CODE_SUCCESS, Some k), w') \<and>
     (\<forall>m. \<not> pg_strcasecmp_eq (take TDE_KEY_NAME_LEN m) n \<longrightarrow>
        fst (KeyringGetKey ev kr m w') = fst (KeyringGetKey ev kr m w))"
proof -
  let ?p = "path_of fn"
  have len: "length (cstr n) < 256" "length (ki_name k) = 256" using n(1) k(1) by (simp_all add: size_consts wf_key_def)
  have none: "find (same_key_name n) (keys_of (disk w ?p)) = None" and al: "aligned_file (disk w ?p)"
    using get keyring_get_file [OF kr, of ev n w]
    by (auto simp: keyring_codes split: option.splits if_splits)
  have eqn: "same_key_name (ki_name k) = same_key_name n"
    using n(2) len cstr_take [of n 256] cstr_take [of "ki_name k" 256]
    by (simp add: fun_eq_iff same_key_name_def pg_strncasecmp_eq_def size_consts)
  obtain f' where f': "file_set_key_by_name kr k w = (Inr (), set_file ?p f' w)"
      "length f' mod KEYINFO_SIZE = 0" "recs KEYINFO_SIZE dec_key f' 0 = keys_of (disk w ?p) @ [k]"
    using file_set_ok [OF kr(2) assms(3) k(1) al] none eqn by auto
  let ?w2 = "set_file ?p f' w"
  have st: "KeyringStoreKey ev kr k w = (Inr (), ?w2)"
    using f'(1) kr(1)
    by (simp add: KeyringStoreKey_def find_key_provider_type_def registeredKeyProviderTypes_def keyringFileRoutine_def)
  have d: "keys_of (disk ?w2 ?p) = keys_of (disk w ?p) @ [k]" "aligned_file (disk ?w2 ?p)"
    using f'(2,3) by (simp_all add: keys_of_def aligned_file_def)
  have "same_key_name n k" using eqn by (metis same_key_name_def pg_strncasecmp_eq_def)
  then have "KeyringGetKey ev kr n ?w2 = (Inr (KEYRING_CODE_SUCCESS, Some k), ?w2)"
    unfolding keyring_get_file [OF kr] d using none k(2) by (simp add: find_append)
  moreover have "fst (KeyringGetKey ev kr m ?w2) = fst (KeyringGetKey ev kr m w)"
    if "\<not> pg_strcasecmp_eq (take TDE_KEY_NAME_LEN m) n" for m
  proof -
    have "\<not> same_key_name m k"
      using that same_name_cstr [OF n(2) len] by (simp add: pg_strcasecmp_eq_def size_consts)
    then show ?thesis
      unfolding keyring_get_file [OF kr] d using al d(2) by (simp add: find_append split: option.splits)
  qed
  ultimately show ?thesis using st by blast
qed

end
