(* ===== verification/Tde_WalKeyFile.thy ===== *)
theory Tde_WalKeyFile
  imports Tde_Keymap_Ops
begin

text \<open>
  The WAL key file (\<open>access/open_pg_tde_xlog_keys.c\<close>), the part below the principal key lookup:
  its 104-byte entries, the server key in its header, the in-place update of the last
  entry's start, rotation of the server key. The start of a range lies outside the
  authenticated data, its type inside.
\<close>

section \<open>Entries\<close>

record WalKeyFileEntry =
  we_cipher :: u32
  we_range_type :: u32
  we_key_base_iv :: bytes
  we_range_start :: WalLocation
  we_entry_iv :: bytes
  we_aead_tag :: bytes
  we_encrypted_key_data :: bytes

definition enc_loc :: "WalLocation \<Rightarrow> bytes" where
  "enc_loc l = le64 (lsn l) @ le32 (tli l) @ zeros 4"

definition dec_loc :: "bytes \<Rightarrow> WalLocation" where
  "dec_loc b = WalLocation (un64 (slice 0 8 b)) (un32 (slice 8 4 b))"

text \<open>The bytes before \<open>range_start\<close> are the additional authenticated data.\<close>

definition wal_entry_aad :: "WalKeyFileEntry \<Rightarrow> bytes" where
  "wal_entry_aad e = le32 (we_cipher e) @ le32 (we_range_type e) @ we_key_base_iv e"

definition enc_wal_entry :: "WalKeyFileEntry \<Rightarrow> bytes" where
  "enc_wal_entry e = wal_entry_aad e @ enc_loc (we_range_start e) @ we_entry_iv e @ we_aead_tag e @ we_encrypted_key_data e"

definition dec_wal_entry :: "bytes \<Rightarrow> WalKeyFileEntry" where
  "dec_wal_entry b = \<lparr>we_cipher = un32 (slice 0 4 b), we_range_type = un32 (slice 4 4 b), we_key_base_iv = slice 8 16 b,
     we_range_start = dec_loc (slice 24 16 b), we_entry_iv = slice 40 16 b, we_aead_tag = slice 56 16 b,
     we_encrypted_key_data = slice 72 32 b\<rparr>"

definition wf_wal_entry :: "WalKeyFileEntry \<Rightarrow> bool" where
  "wf_wal_entry e \<longleftrightarrow> length (we_key_base_iv e) = 16 \<and> length (we_entry_iv e) = 16 \<and>
     length (we_aead_tag e) = 16 \<and> length (we_encrypted_key_data e) = 32"

definition WAL_ENTRY_SIZE :: nat where "WAL_ENTRY_SIZE = 104"

definition RANGE_START_OFFSET :: nat where "RANGE_START_OFFSET = 24"

lemma length_enc_loc [simp]: "length (enc_loc l) = 16"
  by (simp add: enc_loc_def)

lemma dec_enc_loc [simp]: "dec_loc (enc_loc l) = l"
  by (simp add: enc_loc_def dec_loc_def)

interpretation wal_entry: codec enc_wal_entry dec_wal_entry WAL_ENTRY_SIZE wf_wal_entry
proof unfold_locales
  fix e :: WalKeyFileEntry and b :: bytes
  show "0 < WAL_ENTRY_SIZE" by (simp add: WAL_ENTRY_SIZE_def)
  show "wf_wal_entry e \<Longrightarrow> length (enc_wal_entry e) = WAL_ENTRY_SIZE"
    by (simp add: enc_wal_entry_def wal_entry_aad_def wf_wal_entry_def WAL_ENTRY_SIZE_def)
  show "wf_wal_entry e \<Longrightarrow> dec_wal_entry (enc_wal_entry e) = e"
    by (simp add: enc_wal_entry_def wal_entry_aad_def dec_wal_entry_def wf_wal_entry_def)
  show "length b = WAL_ENTRY_SIZE \<Longrightarrow> wf_wal_entry (dec_wal_entry b)"
    by (simp add: wf_wal_entry_def dec_wal_entry_def length_slice WAL_ENTRY_SIZE_def)
qed

definition wal_entries :: "bytes \<Rightarrow> WalKeyFileEntry list" where
  "wal_entries f = recs WAL_ENTRY_SIZE dec_wal_entry f HEADER_SIZE"

interpretation walfile: key_file enc_wal_entry dec_wal_entry WAL_ENTRY_SIZE wf_wal_entry OPEN_PG_TDE_WAL_KEY_FILE_MAGIC wal_entries
  by unfold_locales (simp add: wal_entries_def)

section \<open>Opening the file\<close>

definition open_pg_tde_open_wal_key_file_basic :: "string \<Rightarrow> bool \<Rightarrow> bool \<Rightarrow> bool \<Rightarrow> unit option tdeM" where
  "open_pg_tde_open_wal_key_file_basic fn creat trunc ignore_missing = kf_open_basic fn creat trunc ignore_missing"

definition open_pg_tde_wal_key_file_header_read :: "string \<Rightarrow> (KeyFileHeader \<times> nat) tdeM" where
  "open_pg_tde_wal_key_file_header_read fn = kf_header_read fn"

definition open_pg_tde_wal_key_file_header_write :: "string \<Rightarrow> TDESignedPrincipalKeyInfo \<Rightarrow> nat tdeM" where
  "open_pg_tde_wal_key_file_header_write fn ski = kf_header_write OPEN_PG_TDE_WAL_KEY_FILE_MAGIC fn ski"

definition open_pg_tde_open_wal_key_file_read :: "string \<Rightarrow> bool \<Rightarrow> nat option tdeM" where
  "open_pg_tde_open_wal_key_file_read fn ignore_missing = kf_open_read OPEN_PG_TDE_WAL_KEY_FILE_MAGIC fn ignore_missing"

definition open_pg_tde_open_wal_key_file_write :: "string \<Rightarrow> TDESignedPrincipalKeyInfo option \<Rightarrow> bool \<Rightarrow> nat tdeM" where
  "open_pg_tde_open_wal_key_file_write fn ski trunc = kf_open_write OPEN_PG_TDE_WAL_KEY_FILE_MAGIC fn ski trunc"

definition open_pg_tde_read_one_wal_key_file_entry :: "bytes \<Rightarrow> nat \<Rightarrow> (WalKeyFileEntry \<times> nat) option" where
  "open_pg_tde_read_one_wal_key_file_entry f offset = read_rec WAL_ENTRY_SIZE dec_wal_entry f offset"

text \<open>The entry with a given index; the index is a C \<open>int32\<close>.\<close>

definition open_pg_tde_read_one_wal_key_file_entry2 :: "env \<Rightarrow> int \<Rightarrow> WalKeyFileEntry tdeM" where
  "open_pg_tde_read_one_wal_key_file_entry2 ev key_index =
     (let read_pos = unat (of_nat HEADER_SIZE + word_of_int key_index * of_nat WAL_ENTRY_SIZE :: u64) in
      bindM (getM (\<lambda>w. pread (file_bytes w (get_wal_key_file_path ev)) WAL_ENTRY_SIZE read_pos)) (\<lambda>b.
      seqM (check (length b = WAL_ENTRY_SIZE) (E_wal_key_index key_index))
      (ret (dec_wal_entry b))))"

definition open_pg_tde_write_one_wal_key_file_entry :: "string \<Rightarrow> WalKeyFileEntry \<Rightarrow> nat \<Rightarrow> nat tdeM" where
  "open_pg_tde_write_one_wal_key_file_entry fn e offset = kf_write_rec enc_wal_entry WAL_ENTRY_SIZE fn e offset"

lemmas wal_file_defs = open_pg_tde_open_wal_key_file_basic_def open_pg_tde_wal_key_file_header_read_def
  open_pg_tde_wal_key_file_header_write_def open_pg_tde_open_wal_key_file_read_def open_pg_tde_open_wal_key_file_write_def
  open_pg_tde_write_one_wal_key_file_entry_def

section \<open>Sealing and opening\<close>

definition MaxXLogRecPtr :: u64 where "MaxXLogRecPtr = - 1"
definition MaxTimeLineID :: u32 where "MaxTimeLineID = - 1"

definition max_location :: WalLocation where "max_location = WalLocation MaxXLogRecPtr MaxTimeLineID"

definition open_pg_tde_initialize_wal_key_file_entry ::
  "env \<Rightarrow> TDEPrincipalKey \<Rightarrow> WalEncryptionRange \<Rightarrow> WalKeyFileEntry tdeM" where
  "open_pg_tde_initialize_wal_key_file_entry ev pk rg =
     seqM (check (\<not> unat (ik_key_len (wr_key rg)) > 32) (E_key_length (uint (ik_key_len (wr_key rg)))))
     (bindM (RAND_bytes ev MAP_ENTRY_IV_SIZE) (\<lambda>iv.
        let e = \<lparr>we_cipher = ik_cipher (wr_key rg), we_range_type = wr_type rg,
              we_key_base_iv = ik_base_iv (wr_key rg), we_range_start = wr_start rg,
              we_entry_iv = iv, we_aead_tag = zeros 16, we_encrypted_key_data = zeros 32\<rparr> in
        bindM (AesGcmEncrypt ev (pk_material pk) iv (wal_entry_aad e) (ik_material (wr_key rg))) (\<lambda>(ct, tag).
        ret (e\<lparr>we_aead_tag := tag, we_encrypted_key_data := overlay 32 ct (zeros 32)\<rparr>))))"

text \<open>The key array of the range is zero filled (\<open>palloc0\<close>, or preallocated that way).\<close>

definition open_pg_tde_wal_range_from_entry :: "env \<Rightarrow> TDEPrincipalKey \<Rightarrow> WalKeyFileEntry \<Rightarrow> WalEncryptionRange tdeM" where
  "open_pg_tde_wal_range_from_entry ev pk e =
     bindM (liftM (open_pg_tde_cipher_key_length (we_cipher e))) (\<lambda>key_len.
     bindM (AesGcmDecrypt ev (pk_material pk) (we_entry_iv e) (wal_entry_aad e)
              (take (unat key_len) (we_encrypted_key_data e)) (we_aead_tag e)) (\<lambda>r.
     case r of
       None \<Rightarrow> throw E_decrypt
     | Some pt \<Rightarrow> ret \<lparr>wr_type = we_range_type e,
         wr_key = \<lparr>ik_key_len = key_len, ik_cipher = we_cipher e, ik_base_iv = we_key_base_iv e,
                    ik_key = overlay INTERNAL_KEY_MAX_LEN pt (zeros INTERNAL_KEY_MAX_LEN)\<rparr>,
         wr_start = we_range_start e, wr_end = max_location\<rparr>))"

section \<open>Adding a range and updating the last one\<close>

definition open_pg_tde_write_wal_key_file_entry :: "env \<Rightarrow> WalEncryptionRange \<Rightarrow> TDEPrincipalKey \<Rightarrow> unit tdeM" where
  "open_pg_tde_write_wal_key_file_entry ev rg pk =
     (let path = get_wal_key_file_path ev in
      bindM (open_pg_tde_sign_principal_key_info ev pk) (\<lambda>ski.
      bindM (open_pg_tde_open_wal_key_file_write path (Some ski) False) (\<lambda>_.
      bindM (getM (\<lambda>w. length (file_bytes w path))) (\<lambda>curr_pos.
      bindM (open_pg_tde_initialize_wal_key_file_entry ev pk rg) (\<lambda>write_entry.
      bindM (open_pg_tde_write_one_wal_key_file_entry path write_entry curr_pos) (\<lambda>_. ret ()))))))"

text \<open>
  The index of the last entry, and the offset of its start, are unsigned 64-bit expressions;
  the index is then compared as a signed number.
\<close>

definition last_wal_key_idx :: "nat \<Rightarrow> u64" where
  "last_wal_key_idx fsize = (of_nat fsize - of_nat HEADER_SIZE) div of_nat WAL_ENTRY_SIZE - 1"

definition open_pg_tde_wal_last_range_set_location :: "env \<Rightarrow> WalLocation \<Rightarrow> unit tdeM" where
  "open_pg_tde_wal_last_range_set_location ev loc =
     (let path = get_wal_key_file_path ev in
      bindM (open_pg_tde_open_wal_key_file_write path None False) (\<lambda>_.
      bindM (getM (\<lambda>w. last_wal_key_idx (length (file_bytes w path)))) (\<lambda>last_key_idx.
      seqM (write_at path (enc_loc loc)
              (unat (of_nat HEADER_SIZE + last_key_idx * of_nat WAL_ENTRY_SIZE + of_nat RANGE_START_OFFSET :: u64)))
      (seqM
        (if sint last_key_idx > 0 then
           (let prev_key_pos = unat (of_nat HEADER_SIZE + (last_key_idx - 1) * of_nat WAL_ENTRY_SIZE :: u64) in
            bindM (getM (\<lambda>w. pread (file_bytes w path) WAL_ENTRY_SIZE prev_key_pos)) (\<lambda>b.
            seqM (check (length b = WAL_ENTRY_SIZE) (E_state ''could not read previous WAL key''))
            (let prev_entry = dec_wal_entry b in
             if wal_location_cmp (we_range_start prev_entry) loc \<ge> 0
             then write_at path (enc_wal_entry (prev_entry\<lparr>we_range_type := WAL_ENCRYPTION_RANGE_INVALID\<rparr>)) prev_key_pos
             else ret ())))
         else ret ())
        (fsync path)))))"

section \<open>The server key\<close>

fun rotate_wal_entries ::
  "env \<Rightarrow> TDEPrincipalKey \<Rightarrow> TDEPrincipalKey \<Rightarrow> string \<Rightarrow> WalKeyFileEntry list \<Rightarrow> nat \<Rightarrow> unit tdeM" where
  "rotate_wal_entries ev pk npk tmp [] new_curr_pos = ret ()"
| "rotate_wal_entries ev pk npk tmp (read_map_entry # es) new_curr_pos =
     bindM (open_pg_tde_wal_range_from_entry ev pk read_map_entry) (\<lambda>rg.
     bindM (open_pg_tde_initialize_wal_key_file_entry ev npk rg) (\<lambda>write_map_entry.
     bindM (open_pg_tde_write_one_wal_key_file_entry tmp write_map_entry new_curr_pos) (\<lambda>pos'.
     rotate_wal_entries ev pk npk tmp es pos')))"

definition open_pg_tde_perform_rotate_server_key :: "env \<Rightarrow> TDEPrincipalKey \<Rightarrow> TDEPrincipalKey \<Rightarrow> bool \<Rightarrow> unit tdeM" where
  "open_pg_tde_perform_rotate_server_key ev pk npk write_xlog =
     bindM (open_pg_tde_sign_principal_key_info ev npk) (\<lambda>new_signed_key_info.
       let path = get_wal_key_file_path ev; tmp = tmp_path path in
       bindM (open_pg_tde_open_wal_key_file_read path False) (\<lambda>old_curr_pos.
       bindM (open_pg_tde_open_wal_key_file_write tmp (Some new_signed_key_info) True) (\<lambda>new_curr_pos.
       bindM (getM (\<lambda>w. read_all WAL_ENTRY_SIZE dec_wal_entry (file_bytes w path) (the old_curr_pos))) (\<lambda>es.
       seqM (rotate_wal_entries ev pk npk tmp (map snd es) new_curr_pos)
       (seqM (durable_rename tmp path)
       (whenM write_xlog (XLogInsert
          (XlRotatePrincipalKey (databaseId (keyInfo npk)) (keyringId (keyInfo npk)) (pk_name (keyInfo npk))))))))))"

definition open_pg_tde_save_server_key_redo :: "env \<Rightarrow> TDESignedPrincipalKeyInfo \<Rightarrow> unit tdeM" where
  "open_pg_tde_save_server_key_redo ev ski =
     bindM (open_pg_tde_open_wal_key_file_write (get_wal_key_file_path ev) (Some ski) False) (\<lambda>_. ret ())"

definition open_pg_tde_save_server_key :: "env \<Rightarrow> TDEPrincipalKey \<Rightarrow> bool \<Rightarrow> unit tdeM" where
  "open_pg_tde_save_server_key ev pk write_xlog =
     bindM (open_pg_tde_sign_principal_key_info ev pk) (\<lambda>ski.
     seqM (whenM write_xlog (XLogInsert (XlAddPrincipalKey ski)))
     (bindM (open_pg_tde_open_wal_key_file_write (get_wal_key_file_path ev) (Some ski) True) (\<lambda>_. ret ())))"

definition open_pg_tde_get_server_key_info :: "env \<Rightarrow> TDESignedPrincipalKeyInfo option tdeM" where
  "open_pg_tde_get_server_key_info ev =
     (let path = get_wal_key_file_path ev in
      bindM (open_pg_tde_open_wal_key_file_basic path False False True) (\<lambda>fd.
      if fd = None then ret None
      else
        bindM (open_pg_tde_wal_key_file_header_read path) (\<lambda>(fheader, bytes_read).
        seqM (check (\<not> (bytes_read > 0 \<and>
                 FILEMAGIC_TYPE (file_version fheader) \<noteq> FILEMAGIC_TYPE OPEN_PG_TDE_WAL_KEY_FILE_MAGIC))
                (E_wrong_version path))
        (ret (if bytes_read > 0 then Some (signed_key_info fheader) else None)))))"

definition open_pg_tde_count_wal_ranges_in_file :: "env \<Rightarrow> nat tdeM" where
  "open_pg_tde_count_wal_ranges_in_file ev =
     bindM (open_pg_tde_open_wal_key_file_read (get_wal_key_file_path ev) True) (\<lambda>fd.
     case fd of
       None \<Rightarrow> ret 0
     | Some curr_pos \<Rightarrow>
         getM (\<lambda>w. length (read_all WAL_ENTRY_SIZE dec_wal_entry (file_bytes w (get_wal_key_file_path ev)) curr_pos)))"

definition open_pg_tde_delete_server_key :: "env \<Rightarrow> unit tdeM" where
  "open_pg_tde_delete_server_key ev =
     seqM (XLogInsert (XlDeletePrincipalKey GLOBAL_DATA_TDE_OID))
     (durable_unlink (get_wal_key_file_path ev) True)"

end
