(* ===== verification/Tde_WalKeyFile_Ops.thy ===== *)
theory Tde_WalKeyFile_Ops
  imports Tde_WalKeyFile
begin

text \<open>
  What the operations of the WAL key file do: appending a range, moving the start of the last
  range (and invalidating its predecessor), rotating the server key.
\<close>

section \<open>What an entry holds\<close>

definition wal_holds :: "env \<Rightarrow> TDEPrincipalKey \<Rightarrow> WalKeyFileEntry \<Rightarrow> InternalKey \<Rightarrow> bool" where
  "wal_holds ev pk e k \<longleftrightarrow>
     gcm_decrypt ev (pk_material pk) (we_entry_iv e) (wal_entry_aad e)
       (take (unat (ik_key_len k)) (we_encrypted_key_data e)) (we_aead_tag e) = GcmOk (ik_material k) \<and>
     we_cipher e = ik_cipher k \<and> we_key_base_iv e = ik_base_iv k \<and> wf_ik k \<and> unat (ik_key_len k) \<le> 32"

definition range_of :: "WalEncryptionRange \<Rightarrow> WalKeyFileEntry \<Rightarrow> bool" where
  "range_of rg e \<longleftrightarrow> we_range_type e = wr_type rg \<and> we_range_start e = wr_start rg"

lemma wal_initialize_with_iv:
  assumes "gcm_ok ev" "wf_ik (wr_key rg)" "unat (ik_key_len (wr_key rg)) \<le> 32"
    and iv: "RAND_bytes ev MAP_ENTRY_IV_SIZE w = (Inr iv, w1)"
  shows "\<exists>e. open_pg_tde_initialize_wal_key_file_entry ev pk rg w = (Inr e, w1) \<and>
     wf_wal_entry e \<and> range_of rg e \<and> wal_holds ev pk e (wr_key rg)"
proof -
  let ?k = "wr_key rg"
  have ivl: "length iv = 16" using RAND_bytes_length [OF iv] by (simp add: size_consts)
  define e0 where "e0 = \<lparr>we_cipher = ik_cipher ?k, we_range_type = wr_type rg, we_key_base_iv = ik_base_iv ?k,
      we_range_start = wr_start rg, we_entry_iv = iv, we_aead_tag = zeros 16, we_encrypted_key_data = zeros 32\<rparr>"
  obtain ct tag where g: "gcm_encrypt ev (pk_material pk) iv (wal_entry_aad e0) (ik_material ?k) = Some (ct, tag)"
      "length ct = length (ik_material ?k)" "length tag = 16"
      "gcm_decrypt ev (pk_material pk) iv (wal_entry_aad e0) ct tag = GcmOk (ik_material ?k)"
    using gcm_ok_seal [OF assms(1)] by blast
  define e where "e = e0\<lparr>we_aead_tag := tag, we_encrypted_key_data := overlay 32 ct (zeros 32)\<rparr>"
  have "open_pg_tde_initialize_wal_key_file_entry ev pk rg w = (Inr e, w1)"
    using iv g(1) assms(3)
    by (simp add: open_pg_tde_initialize_wal_key_file_entry_def runM AesGcmEncrypt_def Let_def e_def flip: e0_def)
      (simp add: e0_def)
  moreover have aad: "wal_entry_aad e = wal_entry_aad e0" by (simp add: wal_entry_aad_def e_def)
  have m: "length ct = unat (ik_key_len ?k)" "length ct \<le> 32"
    using g(2) wf_ik_len [OF assms(2)] assms(3) by simp_all
  have "take (unat (ik_key_len ?k)) (we_encrypted_key_data e) = ct"
    using m take_overlay [of ct 32 "zeros 32"] by (simp add: e_def)
  then have "wal_holds ev pk e ?k"
    using g(4) assms(2,3) by (simp add: wal_holds_def aad) (simp add: e_def e0_def)
  moreover have "wf_wal_entry e" "range_of rg e"
    using assms(2) ivl g(3) by (simp_all add: wf_wal_entry_def range_of_def e_def e0_def wf_ik_def length_overlay)
  ultimately show ?thesis by blast
qed

lemma wal_initialize_ok:
  assumes "gcm_ok ev" "rand_ok ev" "wf_ik (wr_key rg)" "unat (ik_key_len (wr_key rg)) \<le> 32"
  shows "\<exists>e. open_pg_tde_initialize_wal_key_file_entry ev pk rg w = (Inr e, w\<lparr>rng := Suc (rng w)\<rparr>) \<and>
     wf_wal_entry e \<and> range_of rg e \<and> wal_holds ev pk e (wr_key rg)"
  using RAND_bytes_ok [OF assms(2), of MAP_ENTRY_IV_SIZE w] wal_initialize_with_iv [OF assms(1,3,4)] by blast

lemma wal_initialize_wp:
  assumes "gcm_ok ev" "unat (ik_key_len (wr_key rg)) \<le> 32 \<Longrightarrow> wf_ik (wr_key rg)"
  shows "wp (open_pg_tde_initialize_wal_key_file_entry ev pk rg)
     (\<lambda>r w'. disk w' = disk w \<and> pk_cache w' = pk_cache w \<and> xlog w' = xlog w \<and>
        (\<forall>e. r = Inr e \<longrightarrow> wf_wal_entry e \<and> range_of rg e \<and> wal_holds ev pk e (wr_key rg))) w"
proof (cases "unat (ik_key_len (wr_key rg)) \<le> 32")
  case False
  then show ?thesis by (simp add: wp_def open_pg_tde_initialize_wal_key_file_entry_def runM)
next
  case True
  show ?thesis
  proof (cases "RAND_bytes ev MAP_ENTRY_IV_SIZE w")
    case (Pair r w1)
    have w1: "disk w1 = disk w" "pk_cache w1 = pk_cache w" "xlog w1 = xlog w"
      using wp_run [OF RAND_bytes_wp Pair] by simp_all
    show ?thesis
    proof (cases r)
      case (Inl x)
      then show ?thesis
        using Pair w1 True by (simp add: wp_def open_pg_tde_initialize_wal_key_file_entry_def runM)
    next
      case (Inr iv)
      then obtain e where "open_pg_tde_initialize_wal_key_file_entry ev pk rg w = (Inr e, w1)"
          "wf_wal_entry e" "range_of rg e" "wal_holds ev pk e (wr_key rg)"
        using wal_initialize_with_iv [OF assms(1) assms(2) [OF True] True, of w iv w1] Pair by blast
      then show ?thesis using w1 by (simp add: wp_def)
    qed
  qed
qed

lemma wal_range_from_entry_ok:
  assumes "wal_holds ev pk e k"
  shows "\<exists>rg. open_pg_tde_wal_range_from_entry ev pk e w = (Inr rg, w) \<and> ik_equiv (wr_key rg) k \<and> wf_ik (wr_key rg) \<and>
     range_of rg e \<and> wr_end rg = max_location"
proof -
  have kl: "open_pg_tde_cipher_key_length (we_cipher e) = Inr (ik_key_len k)"
    and len: "length (ik_material k) = unat (ik_key_len k)" "unat (ik_key_len k) \<le> 64"
    and iv: "length (ik_base_iv k) = 16"
    using assms wf_ik_len [of k] by (auto simp: wal_holds_def wf_ik_def)
  let ?k = "\<lparr>ik_key_len = ik_key_len k, ik_cipher = we_cipher e, ik_base_iv = we_key_base_iv e,
      ik_key = overlay INTERNAL_KEY_MAX_LEN (ik_material k) (zeros INTERNAL_KEY_MAX_LEN)\<rparr>"
  have "open_pg_tde_wal_range_from_entry ev pk e w = (Inr \<lparr>wr_type = we_range_type e, wr_key = ?k,
      wr_start = we_range_start e, wr_end = max_location\<rparr>, w)"
    using assms kl by (simp add: open_pg_tde_wal_range_from_entry_def runM AesGcmDecrypt_def wal_holds_def)
  moreover have "ik_material ?k = ik_material k"
    using len take_overlay [of "ik_material k" 64 "zeros 64"] by (simp add: ik_material_def size_consts)
  ultimately show ?thesis
    using assms kl iv by (auto simp: ik_equiv_def wal_holds_def wf_ik_def length_overlay size_consts range_of_def)
qed

lemma wal_range_from_entry_state: "snd (open_pg_tde_wal_range_from_entry ev pk e w) = w"
  by (auto simp: open_pg_tde_wal_range_from_entry_def bindM_def AesGcmDecrypt_def liftM_def
      split: sum.splits prod.splits gcm_result.splits option.splits)

lemma wal_range_from_entry_inv:
  assumes "open_pg_tde_wal_range_from_entry ev pk e w = (Inr rg, w')" and "gcm_ok ev" and "wf_wal_entry e"
  shows "range_of rg e \<and> (unat (ik_key_len (wr_key rg)) \<le> 32 \<longrightarrow> wal_holds ev pk e (wr_key rg))"
proof -
  obtain n pt where n: "open_pg_tde_cipher_key_length (we_cipher e) = Inr n"
    and d: "gcm_decrypt ev (pk_material pk) (we_entry_iv e) (wal_entry_aad e)
       (take (unat n) (we_encrypted_key_data e)) (we_aead_tag e) = GcmOk pt"
    and rg: "rg = \<lparr>wr_type = we_range_type e, wr_key = \<lparr>ik_key_len = n, ik_cipher = we_cipher e,
         ik_base_iv = we_key_base_iv e, ik_key = overlay INTERNAL_KEY_MAX_LEN pt (zeros INTERNAL_KEY_MAX_LEN)\<rparr>,
         wr_start = we_range_start e, wr_end = max_location\<rparr>"
    using assms(1)
    by (auto simp: open_pg_tde_wal_range_from_entry_def bindM_eq_Inr AesGcmDecrypt_def liftM_def
        split: sum.splits gcm_result.splits option.splits)
  have "wal_holds ev pk e (wr_key rg)" if nb: "unat n \<le> 32"
  proof -
    obtain ct tag where "gcm_encrypt ev (pk_material pk) (we_entry_iv e) (wal_entry_aad e) pt = Some (ct, tag)"
        "length ct = length pt"
      using gcm_ok_seal [OF assms(2)] by blast
    then have len: "length pt = unat n"
      using gcm_ok_open [OF assms(2) d] nb assms(3) by (auto simp: wf_wal_entry_def)
    have "take (unat n) (overlay INTERNAL_KEY_MAX_LEN pt (zeros INTERNAL_KEY_MAX_LEN)) = pt"
      using take_overlay [of pt 64] len nb by (simp add: size_consts)
    then show ?thesis
      using n d rg nb assms(3)
      by (auto simp: wal_holds_def wf_ik_def ik_material_def length_overlay size_consts wf_wal_entry_def)
  qed
  with rg show ?thesis by (simp add: range_of_def)
qed

section \<open>Appending a range\<close>

abbreviation good_wal :: "bytes \<Rightarrow> bool" where
  "good_wal \<equiv> kf_good OPEN_PG_TDE_WAL_KEY_FILE_MAGIC"

abbreviation "wal_usable \<equiv> usable_file OPEN_PG_TDE_WAL_KEY_FILE_MAGIC"
abbreviation "wal_base \<equiv> base_file OPEN_PG_TDE_WAL_KEY_FILE_MAGIC"

text \<open>No torn entry at the end of the file.\<close>

definition aligned :: "bytes \<Rightarrow> bool" where
  "aligned f \<longleftrightarrow> length f = HEADER_SIZE + length (wal_entries f) * WAL_ENTRY_SIZE"

definition wal_entries_of :: "bytes option \<Rightarrow> WalKeyFileEntry list" where
  "wal_entries_of fo = (case fo of None \<Rightarrow> [] | Some f \<Rightarrow> wal_entries f)"

lemma aligned_new: "wf_ski ski \<Longrightarrow> aligned (kf_new OPEN_PG_TDE_WAL_KEY_FILE_MAGIC ski)"
  using walfile.ents_new [of ski] kf_new_good(3) [of ski] by (simp add: aligned_def)

lemma aligned_append:
  assumes "aligned f" "wf_wal_entry e" "good_wal f"
  shows "aligned (pwrite f (enc_wal_entry e) (length f))"
  using assms walfile.ents_append(3) [of f e "length f"] wal_entry.enc_length [of e]
  by (simp add: aligned_def length_pwrite)

lemma aligned_base:
  assumes "wal_usable fo" "\<forall>f. fo = Some f \<and> f \<noteq> [] \<longrightarrow> aligned f" "wf_ski ski"
  shows "aligned (wal_base ski fo)"
  using assms aligned_new [OF assms(3)] by (auto simp: base_file_def split: option.splits)

lemma write_wal_entry_ok:
  assumes ok: "gcm_ok ev" "rand_ok ev" and wf: "wf_ik (wr_key rg)" "unat (ik_key_len (wr_key rg)) \<le> 32" "wf_pki (keyInfo pk)"
    and io: "io w = []" and p: "p = get_wal_key_file_path ev" and us: "wal_usable (disk w p)"
    and al: "\<forall>f. disk w p = Some f \<and> f \<noteq> [] \<longrightarrow> aligned f"
  shows "\<exists>ski e f' n. signed_by ev pk ski \<and>
     open_pg_tde_write_wal_key_file_entry ev rg pk w = (Inr (), (set_file p f' w)\<lparr>rng := n\<rparr>) \<and>
     good_wal f' \<and> aligned f' \<and> file_header f' = file_header (wal_base ski (disk w p)) \<and>
     wal_entries f' = wal_entries_of (disk w p) @ [e] \<and> range_of rg e \<and> wal_holds ev pk e (wr_key rg)"
proof -
  obtain ski where ski: "open_pg_tde_sign_principal_key_info ev pk w = (Inr ski, w\<lparr>rng := Suc (rng w)\<rparr>)" "signed_by ev pk ski"
    using sign_ok [OF ok wf(3)] unfolding signed_by_def by blast
  then have wfs: "wf_ski ski" by (simp add: signed_by_def)
  let ?f = "wal_base ski (disk w p)" and ?w1 = "set_file p (wal_base ski (disk w p)) (w\<lparr>rng := Suc (rng w)\<rparr>)"
  have f: "good_wal ?f" "wal_entries ?f = wal_entries_of (disk w p)" "aligned ?f"
    using walfile.ents_base [OF us wfs] aligned_base [OF us al wfs] by (simp_all add: wal_entries_of_def)
  have ow: "open_pg_tde_open_wal_key_file_write p (Some ski) False (w\<lparr>rng := Suc (rng w)\<rparr>) = (Inr HEADER_SIZE, ?w1)"
    using kf_open_write_base [of OPEN_PG_TDE_WAL_KEY_FILE_MAGIC "w\<lparr>rng := Suc (rng w)\<rparr>" p ski] us io
    by (simp add: wal_file_defs)
  obtain e where e: "open_pg_tde_initialize_wal_key_file_entry ev pk rg ?w1 = (Inr e, ?w1\<lparr>rng := Suc (rng ?w1)\<rparr>)"
      "wf_wal_entry e" "range_of rg e" "wal_holds ev pk e (wr_key rg)"
    using wal_initialize_ok [OF ok wf(1,2)] by blast
  define f2 where "f2 = pwrite ?f (enc_wal_entry e) (length ?f)"
  have f2: "good_wal f2" "file_header f2 = file_header ?f" "wal_entries f2 = wal_entries ?f @ [e]" "aligned f2"
    using walfile.ents_append [OF f(1) e(2), of "length ?f"] aligned_append [OF f(3) e(2) f(1)] f(3)
    by (simp_all add: f2_def aligned_def)
  have "open_pg_tde_write_wal_key_file_entry ev rg pk w = (Inr (), (set_file p f2 w)\<lparr>rng := Suc (Suc (rng w))\<rparr>)"
    using ski ow e(1) io
    by (simp add: open_pg_tde_write_wal_key_file_entry_def open_pg_tde_write_one_wal_key_file_entry_def runM Let_def
        kf_write_rec_ok f2_def flip: p) (simp add: set_file_def file_bytes_def)
  with ski(2) f2 f e show ?thesis
    by (intro exI [of _ ski] exI [of _ e] exI [of _ f2] exI [of _ "Suc (Suc (rng w))"]) simp
qed

section \<open>Moving the start of the last range\<close>

lemma enc_relocated:
  assumes "length b = WAL_ENTRY_SIZE"
  shows "enc_wal_entry ((dec_wal_entry b)\<lparr>we_range_start := loc\<rparr>) = take 24 b @ enc_loc loc @ drop 40 b"
proof -
  have "take 24 b = slice 0 4 b @ slice 4 4 b @ slice 8 16 b"
    using slice_split [of 0 4 20 b] slice_split [of 4 4 16 b] by (simp add: slice_def)
  moreover have "drop 40 b = slice 40 16 b @ slice 56 16 b @ slice 72 32 b"
    using slice_split [of 40 16 48 b] slice_split [of 56 16 32 b] assms by (simp add: slice_def WAL_ENTRY_SIZE_def)
  ultimately show ?thesis
    using assms by (simp add: enc_wal_entry_def wal_entry_aad_def dec_wal_entry_def le32_un32 length_slice WAL_ENTRY_SIZE_def)
qed

lemma pwrite_relocated:
  assumes "q + WAL_ENTRY_SIZE \<le> length f"
  shows "pwrite f (enc_loc loc) (q + RANGE_START_OFFSET) =
    pwrite f (enc_wal_entry ((dec_wal_entry (pread f WAL_ENTRY_SIZE q))\<lparr>we_range_start := loc\<rparr>)) q"
proof -
  have "length (pread f WAL_ENTRY_SIZE q) = WAL_ENTRY_SIZE" using assms by (simp add: length_pread)
  then have "enc_wal_entry ((dec_wal_entry (pread f WAL_ENTRY_SIZE q))\<lparr>we_range_start := loc\<rparr>)
      = take 24 (drop q f) @ enc_loc loc @ drop 40 (take 104 (drop q f))"
    by (simp add: enc_relocated) (simp add: pread_def WAL_ENTRY_SIZE_def)
  moreover have "take (q + 24) f = take q f @ take 24 (drop q f)" by (simp add: take_add)
  moreover have "drop (40 + q) f = drop 40 (take 104 (drop q f)) @ drop (q + 104) f"
  proof -
    let ?X = "drop q f"
    have "drop 40 ?X = drop 40 (take 104 ?X @ drop 104 ?X)" by (simp only: append_take_drop_id)
    also have "\<dots> = drop 40 (take 104 ?X) @ drop (40 - length (take 104 ?X)) (drop 104 ?X)" by (rule drop_append)
    also have "length (take 104 ?X) = 104" using assms by (simp add: WAL_ENTRY_SIZE_def)
    finally show ?thesis by (simp add: add.commute)
  qed
  ultimately show ?thesis
    using assms by (simp add: pwrite_def zeros_def RANGE_START_OFFSET_def WAL_ENTRY_SIZE_def)
qed

definition located :: "WalLocation \<Rightarrow> WalKeyFileEntry list \<Rightarrow> WalKeyFileEntry list" where
  "located loc es =
     (let n = length es - 1; es1 = es[n := (es ! n)\<lparr>we_range_start := loc\<rparr>] in
      if 0 < n \<and> loc \<le> we_range_start (es ! (n - 1))
      then es1[n - 1 := (es ! (n - 1))\<lparr>we_range_type := WAL_ENCRYPTION_RANGE_INVALID\<rparr>] else es1)"

lemma last_wal_key_idx_aligned:
  assumes "0 < n" "HEADER_SIZE + n * WAL_ENTRY_SIZE < 2 ^ 63"
  shows "last_wal_key_idx (HEADER_SIZE + n * WAL_ENTRY_SIZE) = of_nat (n - 1)"
    "m < n \<Longrightarrow> k < WAL_ENTRY_SIZE \<Longrightarrow> unat (of_nat HEADER_SIZE + of_nat m * of_nat WAL_ENTRY_SIZE + of_nat k :: u64)
       = HEADER_SIZE + m * WAL_ENTRY_SIZE + k"
    "0 < sint (of_nat (n - 1) :: u64) \<longleftrightarrow> 1 < n"
proof -
  have b: "n * 104 < 2 ^ 63 - 320" using assms by (simp add: HEADER_SIZE_def WAL_ENTRY_SIZE_def)
  have "of_nat (HEADER_SIZE + n * WAL_ENTRY_SIZE) - of_nat HEADER_SIZE = (of_nat (n * 104) :: u64)"
    by (simp add: WAL_ENTRY_SIZE_def)
  moreover have "(of_nat (n * 104) :: u64) div of_nat WAL_ENTRY_SIZE = of_nat n"
  proof -
    have "unat (of_nat (n * 104) :: u64) = n * 104" using b by (subst unat_of_nat) simp
    moreover have "unat (of_nat n :: u64) = n" using b by (subst unat_of_nat) simp
    ultimately have "(of_nat (n * 104) :: u64) div of_nat 104 = of_nat n"
      unfolding word_unat_eq_iff unat_div by simp
    then show ?thesis by (simp add: WAL_ENTRY_SIZE_def)
  qed
  ultimately show "last_wal_key_idx (HEADER_SIZE + n * WAL_ENTRY_SIZE) = of_nat (n - 1)"
    using assms(1) by (simp add: last_wal_key_idx_def)
  show "0 < sint (of_nat (n - 1) :: u64) \<longleftrightarrow> 1 < n"
  proof -
    have "sint (of_nat (n - 1) :: u64) = int (n - 1)"
      using b by (simp add: signed_of_nat signed_take_bit_int_eq_self)
    then show ?thesis by simp
  qed
  show "unat (of_nat HEADER_SIZE + of_nat m * of_nat WAL_ENTRY_SIZE + of_nat k :: u64)
       = HEADER_SIZE + m * WAL_ENTRY_SIZE + k" if "m < n" "k < WAL_ENTRY_SIZE"
  proof -
    have "(of_nat HEADER_SIZE + of_nat m * of_nat WAL_ENTRY_SIZE + of_nat k :: u64) = of_nat (HEADER_SIZE + m * WAL_ENTRY_SIZE + k)"
      by simp
    moreover have "HEADER_SIZE + m * WAL_ENTRY_SIZE + k < 2 ^ 64"
      using b that by (simp add: HEADER_SIZE_def WAL_ENTRY_SIZE_def)
    ultimately show ?thesis by (simp only: unat_of_nat) simp
  qed
qed

lemma set_location_ok:
  assumes io: "io w = []" and p: "p = get_wal_key_file_path ev" and f: "disk w p = Some f" "good_wal f" "aligned f"
    and ne: "wal_entries f \<noteq> []" and small: "length f < 2 ^ 63"
  shows "\<exists>f'. open_pg_tde_wal_last_range_set_location ev loc w = (Inr (), set_file p f' w) \<and> good_wal f' \<and> aligned f' \<and>
     file_header f' = file_header f \<and> wal_entries f' = located loc (wal_entries f)"
proof -
  let ?es = "wal_entries f"
  let ?n = "length ?es"
  let ?q = "\<lambda>i. HEADER_SIZE + i * WAL_ENTRY_SIZE"
  have len: "length f = ?q ?n" and n: "0 < ?n" using f(3) ne by (simp_all add: aligned_def)
  note idx = last_wal_key_idx_aligned [OF n small [unfolded len]]
  define e where "e = (?es ! (?n - 1))\<lparr>we_range_start := loc\<rparr>"
  have slot: "?q i + WAL_ENTRY_SIZE \<le> length f" "?es ! i = dec_wal_entry (pread f WAL_ENTRY_SIZE (?q i))" if "i < ?n" for i
    using recs_slot_bound [of WAL_ENTRY_SIZE i dec_wal_entry f HEADER_SIZE] nth_recs [of WAL_ENTRY_SIZE i dec_wal_entry f HEADER_SIZE]
      that walfile.ents_def [of f] by (simp_all add: WAL_ENTRY_SIZE_def)
  have wfe: "wf_wal_entry (?es ! i)" if "i < ?n" for i using walfile.ents_wf that nth_mem by blast
  then have we: "wf_wal_entry e" using n by (simp add: e_def wf_wal_entry_def)
  define f1 where "f1 = pwrite f (enc_wal_entry e) (?q (?n - 1))"
  have f1: "pwrite f (enc_loc loc) (?q (?n - 1) + RANGE_START_OFFSET) = f1"
    using pwrite_relocated [OF slot(1) [of "?n - 1"]] slot(2) [of "?n - 1"] n by (simp add: f1_def e_def)
  have g1: "good_wal f1" "file_header f1 = file_header f" "wal_entries f1 = ?es[?n - 1 := e]" "length f1 = length f"
    using kf_pwrite_good [OF f(2)] walfile.ents_pwrite [OF f(2) we, of "?n - 1"] n slot(1) [of "?n - 1"] wal_entry.enc_length [OF we]
    by (simp_all add: f1_def put_entry_def length_pwrite)
  have off: "unat (of_nat HEADER_SIZE + last_wal_key_idx (length f) * of_nat WAL_ENTRY_SIZE + of_nat RANGE_START_OFFSET :: u64)
      = ?q (?n - 1) + RANGE_START_OFFSET"
    using idx(2) [of "?n - 1" RANGE_START_OFFSET] idx(1) n len by (simp add: RANGE_START_OFFSET_def WAL_ENTRY_SIZE_def)
  have ow: "open_pg_tde_open_wal_key_file_write p None False w = (Inr HEADER_SIZE, w)"
    using kf_open_write_good [OF f(1,2)] by (simp add: wal_file_defs)
  have si: "0 < sint (last_wal_key_idx (length f)) \<longleftrightarrow> 1 < ?n" using idx(1,3) len by simp
  let ?pv = "?es ! (?n - 2)"
  show ?thesis
  proof (cases "1 < ?n")
    case False
    then have "open_pg_tde_wal_last_range_set_location ev loc w = (Inr (), set_file p f1 w)"
      using ow off f1 io f(1) si
      by (simp add: open_pg_tde_wal_last_range_set_location_def Let_def runM write_at_ok fsync_ok file_bytes_def flip: p)
    moreover have "wal_entries f1 = located loc ?es" using False g1 by (simp add: located_def Let_def e_def)
    moreover have "aligned f1" using f(3) g1 by (simp add: aligned_def)
    ultimately show ?thesis using g1 by blast
  next
    case True
    then have m: "?n - 2 < ?n" by simp
    have "last_wal_key_idx (length f) - 1 = of_nat (?n - 2)"
      using idx(1) len True by (simp add: of_nat_diff)
    then have off2: "unat (of_nat HEADER_SIZE + (last_wal_key_idx (length f) - 1) * of_nat WAL_ENTRY_SIZE :: u64) = ?q (?n - 2)"
      using idx(2) [OF m, of 0] by (simp add: WAL_ENTRY_SIZE_def)
    have pr: "pread f1 WAL_ENTRY_SIZE (?q (?n - 2)) = pread f WAL_ENTRY_SIZE (?q (?n - 2))"
      unfolding f1_def using True slot(1) [OF m] by (intro pread_pwrite_before) (auto simp: WAL_ENTRY_SIZE_def)
    have prl: "length (pread f WAL_ENTRY_SIZE (?q (?n - 2))) = WAL_ENTRY_SIZE" using slot(1) [OF m] by (simp add: length_pread)
    define e2 where "e2 = ?pv\<lparr>we_range_type := WAL_ENCRYPTION_RANGE_INVALID\<rparr>"
    have we2: "wf_wal_entry e2" using wfe [OF m] by (simp add: e2_def wf_wal_entry_def)
    define f2 where "f2 = (if loc \<le> we_range_start ?pv then pwrite f1 (enc_wal_entry e2) (?q (?n - 2)) else f1)"
    have "wal_entries (pwrite f1 (enc_wal_entry e2) (?q (?n - 2))) = (?es[?n - 1 := e])[?n - 2 := e2]"
      using walfile.ents_pwrite [OF g1(1) we2, of "?n - 2"] g1 m by (simp add: put_entry_def)
    moreover have "?n - Suc 0 - Suc 0 = ?n - 2" by simp
    ultimately have g2: "good_wal f2" "file_header f2 = file_header f" "wal_entries f2 = located loc ?es" "length f2 = length f"
      using kf_pwrite_good [OF g1(1)] g1 True slot(1) [OF m] wal_entry.enc_length [OF we2]
      by (auto simp: f2_def located_def Let_def e_def e2_def length_pwrite)
    have "open_pg_tde_wal_last_range_set_location ev loc w = (Inr (), set_file p f2 w)"
      using ow off f1 io f(1) si True off2 pr prl slot(2) [OF m]
      by (simp add: open_pg_tde_wal_last_range_set_location_def Let_def runM write_at_ok fsync_ok file_bytes_def
          wal_location_cmp_order f2_def e2_def flip: p) (simp add: set_file_def)
    moreover have "aligned f2" using f(3) g2 by (simp add: aligned_def located_def Let_def)
    ultimately show ?thesis using g2 by blast
  qed
qed

section \<open>Rotation of the server key\<close>

definition wal_rotated :: "env \<Rightarrow> TDEPrincipalKey \<Rightarrow> TDEPrincipalKey \<Rightarrow> WalKeyFileEntry \<Rightarrow> WalKeyFileEntry \<Rightarrow> bool" where
  "wal_rotated ev pk npk e e' \<longleftrightarrow> we_range_type e' = we_range_type e \<and> we_range_start e' = we_range_start e \<and>
     (\<exists>k. wal_holds ev pk e k \<and> wal_holds ev npk e' k)"

definition wal_reseal :: "env \<Rightarrow> TDEPrincipalKey \<Rightarrow> TDEPrincipalKey \<Rightarrow> WalKeyFileEntry \<Rightarrow> WalKeyFileEntry tdeM" where
  "wal_reseal ev pk npk e =
     bindM (open_pg_tde_wal_range_from_entry ev pk e) (\<lambda>rg. open_pg_tde_initialize_wal_key_file_entry ev npk rg)"

lemma rotate_wal_entries_copy:
  "rotate_wal_entries ev pk npk np es = kf_copy enc_wal_entry WAL_ENTRY_SIZE (wal_reseal ev pk npk) np es"
proof (induction es)
  case Nil
  show ?case by (simp add: fun_eq_iff)
next
  case (Cons e es)
  show ?case
    by (rule ext) (simp add: Cons.IH wal_reseal_def bindM_assoc open_pg_tde_write_one_wal_key_file_entry_def)
qed

lemma wal_range_from_entry_wp:
  "gcm_ok ev \<Longrightarrow> wf_wal_entry e \<Longrightarrow>
     wp (open_pg_tde_wal_range_from_entry ev pk e) (\<lambda>r w'. w' = w \<and> (\<forall>rg. r = Inr rg \<longrightarrow> range_of rg e \<and>
       (unat (ik_key_len (wr_key rg)) \<le> 32 \<longrightarrow> wal_holds ev pk e (wr_key rg)))) w"
  unfolding wp_def using wal_range_from_entry_inv [of ev pk e w] wal_range_from_entry_state [of ev pk e w]
  by (metis prod.collapse)

lemma wal_rotatedI:
  assumes "range_of rg e" "range_of rg e'" "wal_holds ev npk e' (wr_key rg)"
    and "unat (ik_key_len (wr_key rg)) \<le> 32 \<longrightarrow> wal_holds ev pk e (wr_key rg)"
  shows "wal_rotated ev pk npk e e'"
proof -
  have "wal_holds ev pk e (wr_key rg)" using assms(3,4) by (simp add: wal_holds_def)
  then show ?thesis using assms by (auto simp: wal_rotated_def range_of_def)
qed

lemma wal_reseal_op:
  assumes "gcm_ok ev" "wf_wal_entry e"
  shows "entry_op (wal_reseal ev pk npk) (\<lambda>e e'. wf_wal_entry e' \<and> wal_rotated ev pk npk e e') e"
  unfolding entry_op_def wal_reseal_def
proof
  fix w
  show "wp (bindM (open_pg_tde_wal_range_from_entry ev pk e) (open_pg_tde_initialize_wal_key_file_entry ev npk))
     (\<lambda>r w'. disk w' = disk w \<and> pk_cache w' = pk_cache w \<and> xlog w' = xlog w \<and>
        (\<forall>e'. r = Inr e' \<longrightarrow> wf_wal_entry e' \<and> wal_rotated ev pk npk e e')) w"
  proof (rule wp_bindI [OF wal_range_from_entry_wp [OF assms]], goal_cases)
    case (2 rg w1)
    then have k: "unat (ik_key_len (wr_key rg)) \<le> 32 \<longrightarrow> wal_holds ev pk e (wr_key rg)" "w1 = w" "range_of rg e" by auto
    then have "unat (ik_key_len (wr_key rg)) \<le> 32 \<Longrightarrow> wf_ik (wr_key rg)" by (simp add: wal_holds_def)
    from wal_initialize_wp [OF assms(1) this] show ?case
      unfolding k(2) by (rule wp_mono) (use k in \<open>auto intro: wal_rotatedI\<close>)
  qed auto
qed

lemma wal_reseal_ok:
  assumes "gcm_ok ev" "rand_ok ev" "wal_holds ev pk e k" "io w = []"
  shows "\<exists>e' w'. wal_reseal ev pk npk e w = (Inr e', w') \<and> io w' = []"
proof -
  obtain rg where rg: "open_pg_tde_wal_range_from_entry ev pk e w = (Inr rg, w)" "ik_equiv (wr_key rg) k" "wf_ik (wr_key rg)"
    using wal_range_from_entry_ok [OF assms(3)] by blast
  then have "unat (ik_key_len (wr_key rg)) \<le> 32" using assms(3) by (simp add: ik_equiv_def wal_holds_def)
  with rg show ?thesis
    using wal_initialize_ok [OF assms(1,2) rg(3)] assms(4) by (fastforce simp: wal_reseal_def runM)
qed

lemma rotate_server_is_rewrite:
  assumes old: "old = get_wal_key_file_path ev" and f: "disk w old = Some f" "good_wal f"
  shows "open_pg_tde_perform_rotate_server_key ev pk npk wx w =
     bindM (open_pg_tde_sign_principal_key_info ev npk) (\<lambda>ski.
     seqM (kf_rewrite OPEN_PG_TDE_WAL_KEY_FILE_MAGIC enc_wal_entry WAL_ENTRY_SIZE (wal_reseal ev pk npk) old ski (wal_entries f))
     (whenM wx (XLogInsert
        (XlRotatePrincipalKey (databaseId (keyInfo npk)) (keyringId (keyInfo npk)) (pk_name (keyInfo npk)))))) w"
proof -
  have "old \<noteq> tmp_path old" using old by simp
  from sign_then_rewrite [OF f this, of ev npk "read_all WAL_ENTRY_SIZE dec_wal_entry" enc_wal_entry WAL_ENTRY_SIZE
      "wal_reseal ev pk npk" "map snd"]
  show ?thesis
    by (simp add: open_pg_tde_perform_rotate_server_key_def wal_file_defs rotate_wal_entries_copy walfile.ents_read_all Let_def flip: old)
qed

lemma rotate_server_wp:
  assumes ok: "gcm_ok ev" and npk: "wf_pki (keyInfo npk)" and old: "old = get_wal_key_file_path ev"
    and f: "disk w old = Some f" "good_wal f"
  shows "wp (open_pg_tde_perform_rotate_server_key ev pk npk wx)
     (\<lambda>r w'. (\<forall>q. q \<noteq> old \<and> q \<noteq> tmp_path old \<longrightarrow> disk w' q = disk w q) \<and> pk_cache w' = pk_cache w \<and>
        (disk w' old = Some f \<and> r \<noteq> Inr () \<or>
         (\<exists>f' ski. disk w' old = Some f' \<and> good_wal f' \<and> signed_by ev npk ski \<and>
            file_header f' = \<lparr>file_version = OPEN_PG_TDE_WAL_KEY_FILE_MAGIC, signed_key_info = ski\<rparr> \<and>
            list_all2 (wal_rotated ev pk npk) (wal_entries f) (wal_entries f')))) w"
    (is "wp _ ?Q w")
proof -
  let ?xl = "XlRotatePrincipalKey (databaseId (keyInfo npk)) (keyringId (keyInfo npk)) (pk_name (keyInfo npk))"
  have g: "\<forall>e\<in>set (wal_entries f). entry_op (wal_reseal ev pk npk) (\<lambda>e e'. wf_wal_entry e' \<and> wal_rotated ev pk npk e e') e"
    using wal_reseal_op [OF ok] walfile.ents_wf by auto
  have "wp (bindM (open_pg_tde_sign_principal_key_info ev npk) (\<lambda>ski.
     seqM (kf_rewrite OPEN_PG_TDE_WAL_KEY_FILE_MAGIC enc_wal_entry WAL_ENTRY_SIZE (wal_reseal ev pk npk) old ski (wal_entries f))
     (whenM wx (XLogInsert ?xl)))) ?Q w"
  proof (rule wp_bindI [OF sign_wp [OF ok npk]], goal_cases)
    case (2 ski w1)
    then have w1: "disk w1 = disk w" "pk_cache w1 = pk_cache w" and ski: "signed_by ev npk ski" by auto
    have "wf_ski ski" using ski by (simp add: signed_by_def)
    moreover have "old \<noteq> tmp_path old" "disk w1 old = Some f" using f w1 old by simp_all
    ultimately show ?case
      by (rule wp_seqI [OF walfile.kf_rewrite_wp [OF g]])
        (use w1 ski in \<open>auto simp: wp_rules XLogInsert_def\<close>)
  qed (use f in auto)
  then show ?thesis unfolding wp_def rotate_server_is_rewrite [OF old f] .
qed

text \<open>An entry that does not open stops the rotation, and the key file stays as it was.\<close>

lemma kf_copy_fails:
  assumes "x \<in> set xs" and "\<And>w. fst (g x w) = Inl E"
    and "\<And>y w. y \<in> set xs \<Longrightarrow> y \<noteq> x \<Longrightarrow> io w = [] \<Longrightarrow> \<exists>e w'. g y w = (Inr e, w') \<and> io w' = []" and "io w = []"
  shows "fst (kf_copy enc sz g np xs pos w) = Inl E"
  using assms
proof (induction xs arbitrary: w pos)
  case Nil
  then show ?case by simp
next
  case (Cons y ys)
  show ?case
  proof (cases "y = x")
    case True
    then show ?thesis using Cons.prems(2) [of w] by (auto simp: bindM_def split: prod.splits)
  next
    case False
    then obtain e w1 where e: "g y w = (Inr e, w1)" "io w1 = []" using Cons.prems by (meson list.set_intros(1))
    let ?w2 = "set_file np (pwrite (file_bytes w1 np) (enc e) pos) w1"
    have "fst (kf_copy enc sz g np ys (pos + sz) ?w2) = Inl E"
      using Cons.prems False e by (intro Cons.IH) auto
    with e show ?thesis by (simp add: runM kf_write_rec_ok)
  qed
qed

lemma wal_reseal_fails:
  assumes "open_pg_tde_cipher_key_length (we_cipher e) = Inr n"
    and "gcm_decrypt ev (pk_material pk) (we_entry_iv e) (wal_entry_aad e) (take (unat n) (we_encrypted_key_data e)) (we_aead_tag e) = GcmBadTag"
  shows "fst (wal_reseal ev pk npk e w) = Inl E_decrypt"
  using assms by (simp add: wal_reseal_def open_pg_tde_wal_range_from_entry_def runM AesGcmDecrypt_def)

section \<open>Properties\<close>

text \<open>The WAL key file the witnesses use: two ranges under the concrete server key.\<close>

definition demo_wal_key :: InternalKey where
  "demo_wal_key = \<lparr>ik_key_len = 32, ik_cipher = 1, ik_base_iv = replicate 16 7, ik_key = replicate 64 9\<rparr>"

definition demo_range :: "u64 \<Rightarrow> WalEncryptionRange" where
  "demo_range l = \<lparr>wr_type = WAL_ENCRYPTION_RANGE_ENCRYPTED, wr_key = demo_wal_key, wr_start = WalLocation l 1, wr_end = max_location\<rparr>"

lemma demo_wal_key_wf: "wf_ik demo_wal_key" "unat (ik_key_len demo_wal_key) \<le> 32"
  by (simp_all add: wf_ik_def demo_wal_key_def open_pg_tde_cipher_key_length_def cipher_ids size_consts)

lemma demo_range_simps [simp]: "wr_key (demo_range l) = demo_wal_key" "wr_start (demo_range l) = WalLocation l 1"
  "wr_type (demo_range l) = WAL_ENCRYPTION_RANGE_ENCRYPTED"
  by (simp_all add: demo_range_def)

lemma demo_wal_append:
  assumes "wal_usable fo" "\<forall>f. fo = Some f \<and> f \<noteq> [] \<longrightarrow> aligned f"
  shows "\<exists>e f'. good_wal f' \<and> aligned f' \<and> wal_entries f' = wal_entries_of fo @ [e] \<and> range_of (demo_range l) e \<and>
     wal_holds demo_env demo_pk e demo_wal_key"
proof -
  let ?w = "demo_world\<lparr>disk := (disk demo_world)(get_wal_key_file_path demo_env := fo)\<rparr>"
  have "wal_usable (disk ?w (get_wal_key_file_path demo_env))"
    "\<forall>f. disk ?w (get_wal_key_file_path demo_env) = Some f \<and> f \<noteq> [] \<longrightarrow> aligned f" "io ?w = []"
    using assms by simp_all
  then show ?thesis
    using write_wal_entry_ok [OF demo_gcm_ok demo_rand_ok _ _ demo_pk_wf(1), of "demo_range l" ?w "get_wal_key_file_path demo_env"]
      demo_wal_key_wf by (simp, blast)
qed

lemma demo_wal_file:
  "\<exists>f e1 e2. good_wal f \<and> aligned f \<and> wal_entries f = [e1, e2] \<and> range_of (demo_range 100) e1 \<and> range_of (demo_range 0) e2 \<and>
     wal_holds demo_env demo_pk e1 demo_wal_key \<and> wal_holds demo_env demo_pk e2 demo_wal_key \<and> length f < 2 ^ 63"
proof -
  obtain f1 e1 where f1: "good_wal f1" "aligned f1" "wal_entries f1 = [e1]" "range_of (demo_range 100) e1" "wal_holds demo_env demo_pk e1 demo_wal_key"
    using demo_wal_append [of None 100] by (auto simp: usable_file_def wal_entries_of_def)
  obtain f2 e2 where f2: "good_wal f2" "aligned f2" "wal_entries f2 = [e1, e2]" "range_of (demo_range 0) e2" "wal_holds demo_env demo_pk e2 demo_wal_key"
    using demo_wal_append [of "Some f1" 0] f1(1-3) by (auto simp: usable_file_def wal_entries_of_def)
  then show ?thesis
    using f1 by (intro exI [of _ f2] exI [of _ e1] exI [of _ e2]) (simp add: aligned_def HEADER_SIZE_def WAL_ENTRY_SIZE_def)
qed

text \<open>
  Adding a WAL range: the call succeeds on a key file without a torn entry (or none yet),
  the entries before it are kept in order, and the new last entry opens under the
  server key to a range with the same type, start and key, open towards infinity.
\<close>

lemma wal_range_appended:
  assumes "gcm_ok ev" "rand_ok ev" and "wf_ik (wr_key rg)" "unat (ik_key_len (wr_key rg)) \<le> 32" "wf_pki (keyInfo pk)"
    and "io w = []" and "wal_usable (disk w (get_wal_key_file_path ev))"
    and "\<forall>f. disk w (get_wal_key_file_path ev) = Some f \<and> f \<noteq> [] \<longrightarrow> aligned f"
  shows "\<exists>f' e rg'. fst (open_pg_tde_write_wal_key_file_entry ev rg pk w) = Inr () \<and>
     disk (snd (open_pg_tde_write_wal_key_file_entry ev rg pk w)) = (disk w)(get_wal_key_file_path ev \<mapsto> f') \<and>
     good_wal f' \<and> aligned f' \<and> wal_entries f' = wal_entries_of (disk w (get_wal_key_file_path ev)) @ [e] \<and>
     (\<forall>w2. open_pg_tde_wal_range_from_entry ev pk e w2 = (Inr rg', w2)) \<and>
     wr_type rg' = wr_type rg \<and> wr_start rg' = wr_start rg \<and> wr_end rg' = max_location \<and> ik_equiv (wr_key rg') (wr_key rg)"
proof -
  obtain e f' n where f': "open_pg_tde_write_wal_key_file_entry ev rg pk w
        = (Inr (), (set_file (get_wal_key_file_path ev) f' w)\<lparr>rng := n\<rparr>)" "good_wal f'" "aligned f'"
      "wal_entries f' = wal_entries_of (disk w (get_wal_key_file_path ev)) @ [e]" "range_of rg e" "wal_holds ev pk e (wr_key rg)"
    using write_wal_entry_ok [OF assms(1-6) refl assms(7,8)] by blast
  obtain rg' where rg': "open_pg_tde_wal_range_from_entry ev pk e w = (Inr rg', w)" "ik_equiv (wr_key rg') (wr_key rg)"
      "range_of rg' e" "wr_end rg' = max_location"
    using wal_range_from_entry_ok [OF f'(6)] by blast
  have "open_pg_tde_wal_range_from_entry ev pk e w2 = (Inr rg', w2)" for w2
    using rg'(1) by (auto simp: open_pg_tde_wal_range_from_entry_def bindM_def AesGcmDecrypt_def liftM_def
        split: sum.splits prod.splits gcm_result.splits option.splits)
  then show ?thesis using f' rg' by (intro exI [of _ f'] exI [of _ e] exI [of _ rg']) (simp add: range_of_def)
qed

lemma wal_range_appended_witness:
  "\<exists>w f' e. fst (open_pg_tde_write_wal_key_file_entry demo_env (demo_range 5) demo_pk w) = Inr () \<and>
     disk (snd (open_pg_tde_write_wal_key_file_entry demo_env (demo_range 5) demo_pk w)) (get_wal_key_file_path demo_env) = Some f' \<and>
     length (wal_entries f') = 3"
proof -
  obtain f e1 e2 where f: "good_wal f" "aligned f" "wal_entries f = [e1, e2]" using demo_wal_file by blast
  let ?w = "demo_world\<lparr>disk := [get_wal_key_file_path demo_env \<mapsto> f]\<rparr>"
  have u: "wal_usable (disk ?w (get_wal_key_file_path demo_env))"
    "\<forall>f. disk ?w (get_wal_key_file_path demo_env) = Some f \<and> f \<noteq> [] \<longrightarrow> aligned f" "io ?w = []"
    "wf_ik (wr_key (demo_range 5))" "unat (ik_key_len (wr_key (demo_range 5))) \<le> 32"
    using f demo_wal_key_wf by (simp_all add: usable_file_def)
  obtain f' e where "fst (open_pg_tde_write_wal_key_file_entry demo_env (demo_range 5) demo_pk ?w) = Inr ()"
     "disk (snd (open_pg_tde_write_wal_key_file_entry demo_env (demo_range 5) demo_pk ?w)) = (disk ?w)(get_wal_key_file_path demo_env \<mapsto> f')"
     "wal_entries f' = wal_entries_of (disk ?w (get_wal_key_file_path demo_env)) @ [e]"
    using wal_range_appended [OF demo_gcm_ok demo_rand_ok u(4,5) demo_pk_wf(1) u(3,1,2)] by blast
  then show ?thesis using f by (intro exI [of _ ?w] exI [of _ f']) (simp add: wal_entries_of_def)
qed

text \<open>
  Setting the start of the last range: the call succeeds, the last entry's start becomes
  the location and nothing else of it changes; its predecessor is marked invalid exactly if
  it starts at the location or later; the header and all other entries are kept.
\<close>

lemma wal_start_set:
  assumes "io w = []" and "disk w (get_wal_key_file_path ev) = Some f" "good_wal f" "aligned f"
    and "wal_entries f = es @ [prev, lst]" and "length f < 2 ^ 63"
  shows "\<exists>f'. open_pg_tde_wal_last_range_set_location ev loc w = (Inr (), set_file (get_wal_key_file_path ev) f' w) \<and>
     good_wal f' \<and> aligned f' \<and> file_header f' = file_header f \<and>
     wal_entries f' = es @ [if loc \<le> we_range_start prev then prev\<lparr>we_range_type := WAL_ENCRYPTION_RANGE_INVALID\<rparr> else prev,
       lst\<lparr>we_range_start := loc\<rparr>]"
proof -
  have "located loc (es @ [prev, lst]) = es @ [if loc \<le> we_range_start prev then prev\<lparr>we_range_type := WAL_ENCRYPTION_RANGE_INVALID\<rparr> else prev,
       lst\<lparr>we_range_start := loc\<rparr>]"
    by (simp add: located_def Let_def nth_append list_update_append)
  moreover have "wal_entries f \<noteq> []" using assms(5) by simp
  ultimately show ?thesis using set_location_ok [OF assms(1) refl assms(2-4) _ assms(6), of loc] unfolding assms(5) by metis
qed

text \<open>
  C9. Rotating the server key is atomic: whatever write, sync or rename fails and wherever,
  the WAL key file is afterwards either exactly the old file, or a complete file under the new
  server key in which every range has kept its type, its start and its key.
\<close>

theorem server_rotation_atomic:
  assumes "gcm_ok ev" and "wf_pki (keyInfo npk)"
    and "disk w (get_wal_key_file_path ev) = Some f" and "good_wal f"
  shows "let old = get_wal_key_file_path ev; (r, w') = open_pg_tde_perform_rotate_server_key ev pk npk write_xlog w
    in (\<forall>q. q \<noteq> old \<and> q \<noteq> tmp_path old \<longrightarrow> disk w' q = disk w q) \<and>
       (disk w' old = Some f \<and> r \<noteq> Inr () \<or>
        (\<exists>f' ski. disk w' old = Some f' \<and> good_wal f' \<and> signed_by ev npk ski \<and> signed_key_info (file_header f') = ski \<and>
           list_all2 (wal_rotated ev pk npk) (wal_entries f) (wal_entries f')))"
  using rotate_server_wp [OF assms(1,2) refl assms(3,4), of pk write_xlog]
  by (cases "open_pg_tde_perform_rotate_server_key ev pk npk write_xlog w") (auto simp: wp_def Let_def)

theorem server_rotation_atomic_witness:
  "\<exists>w f. disk w (get_wal_key_file_path demo_env) = Some f \<and> length (wal_entries f) = 2 \<and> io w = [IO_ok, IO_ok, IO_ok, IO_fail] \<and>
     (let (r, w') = open_pg_tde_perform_rotate_server_key demo_env demo_pk demo_pk2 True w
      in \<forall>d. disk w' (open_pg_tde_set_db_file_path demo_env d) = disk w (open_pg_tde_set_db_file_path demo_env d))"
proof -
  obtain f where f: "good_wal f" "length (wal_entries f) = 2" using demo_wal_file by force
  let ?w = "demo_world\<lparr>disk := [get_wal_key_file_path demo_env \<mapsto> f], io := [IO_ok, IO_ok, IO_ok, IO_fail]\<rparr>"
  have d: "disk ?w (get_wal_key_file_path demo_env) = Some f" by simp
  show ?thesis
    using server_rotation_atomic [OF demo_gcm_ok demo_pk_wf(2) d f(1), of demo_pk True] f d
    by (intro exI [of _ ?w] exI [of _ f]) (auto simp: Let_def split: prod.splits)
qed

text \<open>
  C34. Marking a range invalid in place rewrites a field that the entry's tag authenticates.
  So once the start of a new range has invalidated its predecessor, and the cipher rejects
  the changed data as it is documented to, every later rotation of the server key fails
  with a decryption error and leaves the key file as it is, although every other entry opens.
\<close>

theorem invalidated_range_blocks_rotation:
  assumes "gcm_ok ev" "rand_ok ev" "wf_pki (keyInfo npk)"
    and "io w = []" and "disk w (get_wal_key_file_path ev) = Some f" "good_wal f" "aligned f"
    and "wal_entries f = es @ [prev, lst]" and "length f < 2 ^ 63"
    and "\<forall>e\<in>set es \<union> {lst}. \<exists>k. wal_holds ev pk e k" and "wal_holds ev pk prev pkey"
    and "loc \<le> we_range_start prev"
    and "gcm_decrypt ev (pk_material pk) (we_entry_iv prev) (wal_entry_aad (prev\<lparr>we_range_type := WAL_ENCRYPTION_RANGE_INVALID\<rparr>))
       (take (unat (ik_key_len pkey)) (we_encrypted_key_data prev)) (we_aead_tag prev) = GcmBadTag"
  shows "\<exists>w1 f1. open_pg_tde_wal_last_range_set_location ev loc w = (Inr (), w1) \<and>
     disk w1 (get_wal_key_file_path ev) = Some f1 \<and>
     fst (open_pg_tde_perform_rotate_server_key ev pk npk wx w1) = Inl E_decrypt \<and>
     disk (snd (open_pg_tde_perform_rotate_server_key ev pk npk wx w1)) (get_wal_key_file_path ev) = Some f1"
proof -
  let ?p = "get_wal_key_file_path ev"
  let ?x = "prev\<lparr>we_range_type := WAL_ENCRYPTION_RANGE_INVALID\<rparr>"
  have "located loc (wal_entries f) = es @ [?x, lst\<lparr>we_range_start := loc\<rparr>]"
    using assms(8,12) by (simp add: located_def Let_def nth_append list_update_append)
  then obtain f1 where f1: "open_pg_tde_wal_last_range_set_location ev loc w = (Inr (), set_file ?p f1 w)" "good_wal f1"
      "wal_entries f1 = es @ [?x, lst\<lparr>we_range_start := loc\<rparr>]"
    using set_location_ok [OF assms(4) refl assms(5-7) _ assms(9), of loc] assms(8)
    by (metis append_is_Nil_conv list.distinct(1))
  let ?w1 = "set_file ?p f1 w"
  have d: "disk ?w1 ?p = Some f1" "io ?w1 = []" using assms(4) by simp_all
  obtain ski where ski: "open_pg_tde_sign_principal_key_info ev npk ?w1 = (Inr ski, ?w1\<lparr>rng := Suc (rng ?w1)\<rparr>)"
    using sign_ok [OF assms(1-3)] by blast
  have x: "fst (wal_reseal ev pk npk ?x w) = Inl E_decrypt" for w
    using wal_reseal_fails [of ?x "ik_key_len pkey" ev pk npk w] assms(11,13) by (simp add: wal_holds_def wf_ik_def)
  have "wal_holds ev pk (e\<lparr>we_range_start := l\<rparr>) k" if "wal_holds ev pk e k" for e l k
    using that by (auto simp: wal_holds_def wal_entry_aad_def)
  then have "\<exists>k. wal_holds ev pk y k" if "y \<in> set (wal_entries f1)" "y \<noteq> ?x" for y
    using that assms(10) unfolding f1(3) by auto
  then have y: "\<exists>e w'. wal_reseal ev pk npk y w = (Inr e, w') \<and> io w' = []"
    if "y \<in> set (wal_entries f1)" "y \<noteq> ?x" "io w = []" for y w
    using that wal_reseal_ok [OF assms(1,2) _ that(3)] by blast
  let ?w2 = "set_file (tmp_path ?p) (kf_new OPEN_PG_TDE_WAL_KEY_FILE_MAGIC ski) (?w1\<lparr>rng := Suc (rng ?w1)\<rparr>)"
  have "fst (kf_copy enc_wal_entry WAL_ENTRY_SIZE (wal_reseal ev pk npk) (tmp_path ?p) (wal_entries f1) HEADER_SIZE ?w2) = Inl E_decrypt"
    by (rule kf_copy_fails [of ?x]) (use x y d f1(3) in auto)
  then have "fst (open_pg_tde_perform_rotate_server_key ev pk npk wx ?w1) = Inl E_decrypt"
    unfolding rotate_server_is_rewrite [OF refl d(1) f1(2)] using ski d
    by (auto simp: runM kf_rewrite_def kf_open_write_new split: prod.splits)
  moreover have "\<not> wal_holds ev pk ?x k" for k
    using assms(11,13) by (auto simp: wal_holds_def wf_ik_def)
  then have "\<not> list_all2 (wal_rotated ev pk npk) (wal_entries f1) fs" for fs
    unfolding f1(3) by (auto simp: wal_rotated_def list_all2_append1 list_all2_Cons1)
  ultimately show ?thesis
    using f1(1) d rotate_server_wp [OF assms(1,3) refl d(1) f1(2), of pk wx] unfolding wp_def by blast
qed

lemma demo_le32: "le32 0 = [0, 0, 0, 0]" "le32 2 = [2, 0, 0, 0]"
  by (code_simp, code_simp)

lemma demo_aad_checked:
  assumes "wal_holds demo_env demo_pk e k" "we_range_type e = 2"
  shows "gcm_decrypt demo_env (pk_material demo_pk) (we_entry_iv e) (wal_entry_aad (e\<lparr>we_range_type := WAL_ENCRYPTION_RANGE_INVALID\<rparr>))
       (take (unat (ik_key_len k)) (we_encrypted_key_data e)) (we_aead_tag e) = GcmBadTag"
proof -
  have "sum_list (wal_entry_aad (e\<lparr>we_range_type := 0\<rparr>)) = sum_list (wal_entry_aad e) - 2"
    using assms(2) by (simp add: wal_entry_aad_def demo_le32)
  moreover have "s - 2 \<noteq> s" for s :: byte by simp
  ultimately have "demo_tag k iv (wal_entry_aad (e\<lparr>we_range_type := 0\<rparr>)) pt \<noteq> demo_tag k iv (wal_entry_aad e) pt" for k iv pt
    by (simp add: demo_tag_def fit_def)
  then show ?thesis
    using assms(1) by (auto simp: wal_holds_def demo_env_def demo_open_def Let_def range_types split: if_splits) metis
qed

theorem invalidated_range_blocks_rotation_witness:
  "\<exists>w w1. open_pg_tde_wal_last_range_set_location demo_env (WalLocation 50 1) w = (Inr (), w1) \<and>
     fst (open_pg_tde_perform_rotate_server_key demo_env demo_pk demo_pk2 True w1) = Inl E_decrypt"
proof -
  obtain f e1 e2 where f: "good_wal f" "aligned f" "wal_entries f = [] @ [e1, e2]" "range_of (demo_range 100) e1" "length f < 2 ^ 63"
      "wal_holds demo_env demo_pk e1 demo_wal_key" "wal_holds demo_env demo_pk e2 demo_wal_key"
    using demo_wal_file by force
  let ?w = "demo_world\<lparr>disk := [get_wal_key_file_path demo_env \<mapsto> f]\<rparr>"
  have d: "disk ?w (get_wal_key_file_path demo_env) = Some f" "io ?w = []" by simp_all
  have l: "WalLocation 50 1 \<le> we_range_start e1" and t: "we_range_type e1 = 2"
    using f(4) by (simp_all add: range_of_def less_eq_WalLocation_def wal_location_cmp_def range_types)
  have a: "\<forall>e\<in>set [] \<union> {e2}. \<exists>k. wal_holds demo_env demo_pk e k" using f(7) by auto
  show ?thesis
    using invalidated_range_blocks_rotation [OF demo_gcm_ok demo_rand_ok demo_pk_wf(2) d(2,1) f(1-3,5) a f(6) l
        demo_aad_checked [OF f(6) t], of True] by blast
qed

end
