(* ===== verification/Tde_Principal.thy ===== *)
theory Tde_Principal
  imports Tde_WalKeyFile Tde_Keyring
begin

text \<open>
  Principal keys (\<open>catalog/tde_principal_key.c\<close>): the shared cache, loading a key from its
  keyring and verifying it against the signed header of the key file, the fall-back to the default
  key, setting, rotating and deleting keys, and the checks on key providers in use.

  A key of the cache is handed out as a pointer; no operation uses it after the entry was
  removed, so the model returns the key. Locks are not modelled: an operation is one step.
\<close>

section \<open>The shared cache\<close>

definition get_principal_key_from_cache :: "Oid \<Rightarrow> TDEPrincipalKey option tdeM" where
  "get_principal_key_from_cache db = getM (\<lambda>w. pk_cache w db)"

text \<open>An existing entry is kept.\<close>

definition push_principal_key_to_cache :: "env \<Rightarrow> TDEPrincipalKey \<Rightarrow> unit tdeM" where
  "push_principal_key_to_cache ev pk =
     (let db = databaseId (keyInfo pk) in
      seqM (modifyM (\<lambda>w. if pk_cache w db = None then w\<lparr>pk_cache := (pk_cache w)(db \<mapsto> pk)\<rparr> else w))
      (check (mlock_ok ev) (E_state ''could not mlock principal key cache entry'')))"

definition clear_principal_key_cache :: "Oid \<Rightarrow> unit tdeM" where
  "clear_principal_key_cache db = modifyM (\<lambda>w. w\<lparr>pk_cache := (pk_cache w)(db := None)\<rparr>)"

definition principal_key_startup_cleanup :: "env \<Rightarrow> Oid \<Rightarrow> unit tdeM" where
  "principal_key_startup_cleanup ev db =
     seqM (clear_principal_key_cache db) (open_pg_tde_delete_tde_files ev db)"

section \<open>Looking up a key\<close>

text \<open>The bytes of \<open>keyData\<close> past the key are those of the uninitialised allocation.\<close>

definition principal_key_of :: "env \<Rightarrow> TDEPrincipalKeyInfo \<Rightarrow> KeyData \<Rightarrow> TDEPrincipalKey" where
  "principal_key_of ev info kd =
     \<lparr>keyInfo = info, keyData = overlay KEY_DATA_SIZE_256 (kd_material kd) (garbage ev KEY_DATA_SIZE_256),
      keyLength = kd_len kd\<rparr>"

definition get_principal_key_from_keyring :: "env \<Rightarrow> Oid \<Rightarrow> TDEPrincipalKey option tdeM" where
  "get_principal_key_from_keyring ev db =
     bindM (if db = GLOBAL_DATA_TDE_OID then open_pg_tde_get_server_key_info ev
            else open_pg_tde_get_principal_key_info ev db) (\<lambda>principalKeyInfo.
     case principalKeyInfo of
       None \<Rightarrow> ret None
     | Some ski \<Rightarrow>
         bindM (GetKeyProviderByID ev (keyringId (ski_data ski)) db) (\<lambda>keyring.
         case keyring of
           None \<Rightarrow> throw E_no_keyring
         | Some kr \<Rightarrow>
             bindM (KeyringGetKey ev kr (pk_name (ski_data ski))) (\<lambda>(keyring_ret, key_info).
             seqM (check (keyring_ret = KEYRING_CODE_SUCCESS) (E_keyring keyring_ret))
             (case key_info of
                None \<Rightarrow> throw E_key_not_found
              | Some ki \<Rightarrow>
                  bindM (open_pg_tde_verify_principal_key_info ev ski (ki_data ki)) (\<lambda>verified.
                  seqM (check verified E_verify_principal_key)
                  (ret (Some (principal_key_of ev (ski_data ski) (ki_data ki)))))))))"

text \<open>
  In the command line tools, which are compiled with \<open>FRONTEND\<close>, only the server key is cached, in a variable of the process: there
  the entry of \<open>pk_cache\<close> for the server stands for this variable, and no other entry is looked at.
\<close>

definition fe_server_principal_key_cache :: "TDEPrincipalKey option tdeM" where
  "fe_server_principal_key_cache = getM (\<lambda>w. pk_cache w GLOBAL_DATA_TDE_OID)"

definition set_fe_server_principal_key_cache :: "TDEPrincipalKey \<Rightarrow> unit tdeM" where
  "set_fe_server_principal_key_cache pk =
     modifyM (\<lambda>w. if pk_cache w GLOBAL_DATA_TDE_OID = None then w\<lparr>pk_cache := (pk_cache w)(GLOBAL_DATA_TDE_OID \<mapsto> pk)\<rparr> else w)"

definition get_principal_key_cached :: "env \<Rightarrow> Oid \<Rightarrow> TDEPrincipalKey option tdeM" where
  "get_principal_key_cached ev db =
     (if \<not> FRONTEND ev then get_principal_key_from_cache db
      else if db = GLOBAL_DATA_TDE_OID then fe_server_principal_key_cache
      else ret None)"

definition GetPrincipalKeyNoDefault :: "env \<Rightarrow> Oid \<Rightarrow> TDEPrincipalKey option tdeM" where
  "GetPrincipalKeyNoDefault ev db =
     bindM (get_principal_key_cached ev db) (\<lambda>cached.
     if cached \<noteq> None then ret cached
     else
       bindM (get_principal_key_from_keyring ev db) (\<lambda>principalKey.
       case principalKey of
         None \<Rightarrow> ret None
       | Some pk \<Rightarrow>
           if \<not> FRONTEND ev then seqM (push_principal_key_to_cache ev pk) (get_principal_key_from_cache db)
           else seqM (whenM (db = GLOBAL_DATA_TDE_OID) (set_fe_server_principal_key_cache pk)) (ret (Some pk))))"

definition with_database :: "TDEPrincipalKey \<Rightarrow> Oid \<Rightarrow> TDEPrincipalKey" where
  "with_database pk db = pk\<lparr>keyInfo := (keyInfo pk)\<lparr>databaseId := db\<rparr>\<rparr>"

text \<open>The command line tools are compiled without the fall-back.\<close>

definition GetPrincipalKey :: "env \<Rightarrow> Oid \<Rightarrow> TDEPrincipalKey option tdeM" where
  "GetPrincipalKey ev db =
     bindM (GetPrincipalKeyNoDefault ev db) (\<lambda>principalKey.
     if principalKey \<noteq> None \<or> FRONTEND ev then ret principalKey
     else
       bindM (GetPrincipalKeyNoDefault ev DEFAULT_DATA_TDE_OID) (\<lambda>default_key.
       case default_key of
         None \<Rightarrow> ret None
       | Some pk \<Rightarrow>
           (let newPrincipalKey = with_database pk db in
            seqM (if db = GLOBAL_DATA_TDE_OID then open_pg_tde_save_server_key ev newPrincipalKey False
                  else open_pg_tde_save_principal_key ev newPrincipalKey False)
            (seqM (push_principal_key_to_cache ev newPrincipalKey)
             (GetPrincipalKeyNoDefault ev db)))))"

definition open_pg_tde_principal_key_configured :: "env \<Rightarrow> Oid \<Rightarrow> bool tdeM" where
  "open_pg_tde_principal_key_configured ev db =
     bindM (GetPrincipalKeyNoDefault ev db) (\<lambda>principalKey.
     if principalKey \<noteq> None then ret True
     else bindM (GetPrincipalKeyNoDefault ev DEFAULT_DATA_TDE_OID) (\<lambda>pk. ret (pk \<noteq> None)))"

section \<open>Setting and rotating\<close>

definition perform_rotate :: "env \<Rightarrow> Oid \<Rightarrow> TDEPrincipalKey \<Rightarrow> TDEPrincipalKey \<Rightarrow> bool \<Rightarrow> unit tdeM" where
  "perform_rotate ev db pk npk write_xlog =
     (if db = GLOBAL_DATA_TDE_OID then open_pg_tde_perform_rotate_server_key ev pk npk write_xlog
      else open_pg_tde_perform_rotate_key ev pk npk write_xlog)"

definition now :: "env \<Rightarrow> (u64 \<times> u64) tdeM" where
  "now ev = getM (\<lambda>w. gettimeofday ev (rng w))"

definition new_principal_key :: "env \<Rightarrow> Oid \<Rightarrow> GenericKeyring \<Rightarrow> KeyInfo \<Rightarrow> TDEPrincipalKey tdeM" where
  "new_principal_key ev db kr ki =
     bindM (now ev) (\<lambda>(sec, usec).
     ret (principal_key_of ev
       \<lparr>databaseId = db, keyringId = keyring_id kr, tv_sec = sec, tv_usec = usec, pk_name = ki_name ki\<rparr> (ki_data ki)))"

definition set_principal_key_with_keyring :: "env \<Rightarrow> bytes \<Rightarrow> bytes \<Rightarrow> Oid \<Rightarrow> Oid \<Rightarrow> unit tdeM" where
  "set_principal_key_with_keyring ev key_name prov_name providerOid db =
     bindM (GetPrincipalKeyNoDefault ev db) (\<lambda>curr_principal_key.
     bindM (GetKeyProviderByName ev prov_name providerOid) (\<lambda>new_keyring.
     bindM (KeyringGetKey ev new_keyring key_name) (\<lambda>(return_code, key_info).
     seqM (check (return_code = KEYRING_CODE_SUCCESS) (E_keyring return_code))
     (case key_info of
        None \<Rightarrow> throw E_key_not_found
      | Some ki \<Rightarrow>
          bindM (new_principal_key ev db new_keyring ki) (\<lambda>npk.
          case curr_principal_key of
            None \<Rightarrow>
              seqM (if db = GLOBAL_DATA_TDE_OID then open_pg_tde_save_server_key ev npk True
                    else open_pg_tde_save_principal_key ev npk True)
              (push_principal_key_to_cache ev npk)
          | Some pk \<Rightarrow>
              seqM (perform_rotate ev db pk npk True)
              (seqM (clear_principal_key_cache (databaseId (keyInfo pk)))
              (push_principal_key_to_cache ev npk)))))))"

definition xl_tde_perform_rotate_key :: "env \<Rightarrow> Oid \<Rightarrow> Oid \<Rightarrow> bytes \<Rightarrow> unit tdeM" where
  "xl_tde_perform_rotate_key ev db kr_id key_name =
     bindM (GetPrincipalKeyNoDefault ev db) (\<lambda>curr_principal_key.
     case curr_principal_key of
       None \<Rightarrow> throw E_no_principal_key
     | Some pk \<Rightarrow>
         bindM (GetKeyProviderByID ev kr_id db) (\<lambda>new_keyring.
         case new_keyring of
           None \<Rightarrow> throw (E_null_pointer ''new_keyring'')
         | Some kr \<Rightarrow>
             bindM (KeyringGetKey ev kr key_name) (\<lambda>(return_code, key_info).
             seqM (check (return_code = KEYRING_CODE_SUCCESS) (E_keyring return_code))
             (case key_info of
                None \<Rightarrow> throw E_key_not_found
              | Some ki \<Rightarrow>
                  bindM (new_principal_key ev db kr ki) (\<lambda>npk.
                  seqM (perform_rotate ev db pk npk False)
                  (seqM (clear_principal_key_cache (databaseId (keyInfo pk)))
                  (push_principal_key_to_cache ev npk)))))))"

text \<open>The checks \<open>open_pg_tde_create_principal_key_internal\<close> and \<open>open_pg_tde_set_principal_key_internal\<close> begin with.\<close>

definition check_key_arguments :: "env \<Rightarrow> Oid \<Rightarrow> bytes option \<Rightarrow> bytes option \<Rightarrow> (bytes \<times> bytes) tdeM" where
  "check_key_arguments ev providerOid key_name prov_name =
     seqM (check (\<not> (providerOid = GLOBAL_DATA_TDE_OID \<and> \<not> superuser ev)) E_privilege)
     (seqM (check (\<not> (providerOid = GLOBAL_DATA_TDE_OID \<and> \<not> AllowInheritGlobalProviders ev)) E_global_disabled)
     (case key_name of
        None \<Rightarrow> throw E_null_argument
      | Some kn \<Rightarrow>
          seqM (check (length (cstr kn) \<noteq> 0) E_name_too_short)
          (seqM (check (\<not> length (cstr kn) \<ge> TDE_KEY_NAME_LEN) E_name_too_long)
          (case prov_name of
             None \<Rightarrow> throw E_null_argument
           | Some pn \<Rightarrow> ret (kn, pn)))))"

definition open_pg_tde_create_principal_key_internal :: "env \<Rightarrow> Oid \<Rightarrow> bytes option \<Rightarrow> bytes option \<Rightarrow> unit tdeM" where
  "open_pg_tde_create_principal_key_internal ev providerOid key_name prov_name =
     bindM (check_key_arguments ev providerOid key_name prov_name) (\<lambda>(kn, pn).
     bindM (GetKeyProviderByName ev pn providerOid) (\<lambda>provider.
     bindM (KeyringGetKey ev provider kn) (\<lambda>(return_code, key_info).
     seqM (check (key_info = None) E_key_exists)
     (bindM (KeyringGenerateNewKeyAndStore ev provider kn (word_of_int (guc_KeyLength ev))) (\<lambda>_. ret ())))))"

definition open_pg_tde_create_key_using_database_key_provider :: "env \<Rightarrow> bytes option \<Rightarrow> bytes option \<Rightarrow> unit tdeM" where
  "open_pg_tde_create_key_using_database_key_provider ev key_name prov_name =
     open_pg_tde_create_principal_key_internal ev (MyDatabaseId ev) key_name prov_name"

definition open_pg_tde_create_key_using_global_key_provider :: "env \<Rightarrow> bytes option \<Rightarrow> bytes option \<Rightarrow> unit tdeM" where
  "open_pg_tde_create_key_using_global_key_provider ev key_name prov_name =
     open_pg_tde_create_principal_key_internal ev GLOBAL_DATA_TDE_OID key_name prov_name"

definition open_pg_tde_is_same_principal_key :: "TDEPrincipalKey option \<Rightarrow> TDEPrincipalKey option \<Rightarrow> bool" where
  "open_pg_tde_is_same_principal_key a b =
     (case (a, b) of
        (Some x, Some y) \<Rightarrow> strcmp_eq (pk_name (keyInfo x)) (pk_name (keyInfo y)) \<and> keyringId (keyInfo x) = keyringId (keyInfo y)
      | _ \<Rightarrow> False)"

definition open_pg_tde_rotate_default_key_for_database :: "env \<Rightarrow> TDEPrincipalKey \<Rightarrow> TDEPrincipalKey \<Rightarrow> unit tdeM" where
  "open_pg_tde_rotate_default_key_for_database ev oldKey newKeyTemplate =
     (let newKey = with_database newKeyTemplate (databaseId (keyInfo oldKey)) in
      seqM (perform_rotate ev (databaseId (keyInfo oldKey)) oldKey newKey True)
      (seqM (clear_principal_key_cache (databaseId (keyInfo oldKey)))
      (push_principal_key_to_cache ev newKey)))"

definition rotate_if_default :: "env \<Rightarrow> TDEPrincipalKey \<Rightarrow> TDEPrincipalKey \<Rightarrow> Oid \<Rightarrow> unit tdeM" where
  "rotate_if_default ev oldKey newKey db =
     bindM (GetPrincipalKeyNoDefault ev db) (\<lambda>principal_key.
     whenM (open_pg_tde_is_same_principal_key (Some oldKey) principal_key)
       (open_pg_tde_rotate_default_key_for_database ev (the principal_key) newKey))"

definition open_pg_tde_update_default_principal_key_everywhere :: "env \<Rightarrow> TDEPrincipalKey \<Rightarrow> TDEPrincipalKey \<Rightarrow> unit tdeM" where
  "open_pg_tde_update_default_principal_key_everywhere ev oldKey newKey =
     seqM (rotate_if_default ev oldKey newKey GLOBAL_DATA_TDE_OID)
     (forM (pg_database ev) (rotate_if_default ev oldKey newKey))"

definition open_pg_tde_set_principal_key_internal :: "env \<Rightarrow> Oid \<Rightarrow> Oid \<Rightarrow> bytes option \<Rightarrow> bytes option \<Rightarrow> unit tdeM" where
  "open_pg_tde_set_principal_key_internal ev providerOid db key_name prov_name =
     bindM (check_key_arguments ev providerOid key_name prov_name) (\<lambda>(kn, pn).
     bindM (if db = DEFAULT_DATA_TDE_OID then GetPrincipalKeyNoDefault ev db else ret None) (\<lambda>existingDefaultKey.
     seqM (set_principal_key_with_keyring ev kn pn providerOid db)
     (case existingDefaultKey of
        None \<Rightarrow> ret ()
      | Some existingKeyCopy \<Rightarrow>
          bindM (GetPrincipalKeyNoDefault ev db) (\<lambda>newDefaultKey.
          case newDefaultKey of
            None \<Rightarrow> throw (E_null_pointer ''newDefaultKey'')
          | Some nk \<Rightarrow> open_pg_tde_update_default_principal_key_everywhere ev existingKeyCopy nk))))"

definition open_pg_tde_set_default_key_using_global_key_provider :: "env \<Rightarrow> bytes option \<Rightarrow> bytes option \<Rightarrow> unit tdeM" where
  "open_pg_tde_set_default_key_using_global_key_provider ev key_name prov_name =
     seqM (open_pg_tde_set_principal_key_internal ev GLOBAL_DATA_TDE_OID DEFAULT_DATA_TDE_OID key_name prov_name)
     (bindM (GetPrincipalKeyNoDefault ev GLOBAL_DATA_TDE_OID) (\<lambda>pk.
      whenM (pk = None)
        (open_pg_tde_set_principal_key_internal ev GLOBAL_DATA_TDE_OID GLOBAL_DATA_TDE_OID key_name prov_name)))"

definition open_pg_tde_set_key_using_database_key_provider :: "env \<Rightarrow> bytes option \<Rightarrow> bytes option \<Rightarrow> unit tdeM" where
  "open_pg_tde_set_key_using_database_key_provider ev key_name prov_name =
     open_pg_tde_set_principal_key_internal ev (MyDatabaseId ev) (MyDatabaseId ev) key_name prov_name"

definition open_pg_tde_set_key_using_global_key_provider :: "env \<Rightarrow> bytes option \<Rightarrow> bytes option \<Rightarrow> unit tdeM" where
  "open_pg_tde_set_key_using_global_key_provider ev key_name prov_name =
     open_pg_tde_set_principal_key_internal ev GLOBAL_DATA_TDE_OID (MyDatabaseId ev) key_name prov_name"

definition open_pg_tde_set_server_key_using_global_key_provider :: "env \<Rightarrow> bytes option \<Rightarrow> bytes option \<Rightarrow> unit tdeM" where
  "open_pg_tde_set_server_key_using_global_key_provider ev key_name prov_name =
     open_pg_tde_set_principal_key_internal ev GLOBAL_DATA_TDE_OID GLOBAL_DATA_TDE_OID key_name prov_name"

section \<open>Deleting\<close>

definition open_pg_tde_delete_key :: "env \<Rightarrow> unit tdeM" where
  "open_pg_tde_delete_key ev =
     bindM (GetPrincipalKeyNoDefault ev (MyDatabaseId ev)) (\<lambda>principal_key.
     case principal_key of
       None \<Rightarrow> throw E_no_principal_key
     | Some pk \<Rightarrow>
         bindM (open_pg_tde_count_encryption_keys ev (MyDatabaseId ev) 0) (\<lambda>count.
         if count \<noteq> 0 then
           bindM (GetPrincipalKeyNoDefault ev DEFAULT_DATA_TDE_OID) (\<lambda>default_principal_key.
           case default_principal_key of
             None \<Rightarrow> throw E_in_use
           | Some dpk \<Rightarrow>
               seqM (check (\<not> open_pg_tde_is_same_principal_key (Some pk) (Some dpk)) E_in_use)
               (open_pg_tde_rotate_default_key_for_database ev pk dpk))
         else
           seqM (open_pg_tde_delete_principal_key ev (MyDatabaseId ev))
           (clear_principal_key_cache (MyDatabaseId ev))))"

text \<open>The scan of \<open>pg_database\<close> in \<open>open_pg_tde_delete_default_key\<close>: the databases without keys that use it.\<close>

fun default_key_users :: "env \<Rightarrow> TDEPrincipalKey \<Rightarrow> Oid list \<Rightarrow> Oid list tdeM" where
  "default_key_users ev dpk [] = ret []"
| "default_key_users ev dpk (db # dbs) =
     bindM (GetPrincipalKeyNoDefault ev db) (\<lambda>principal_key.
     if open_pg_tde_is_same_principal_key (Some dpk) principal_key then
       bindM (open_pg_tde_count_encryption_keys ev db 0) (\<lambda>count.
       seqM (check (count = 0) E_in_use)
       (bindM (default_key_users ev dpk dbs) (\<lambda>us. ret (db # us))))
     else default_key_users ev dpk dbs)"

definition open_pg_tde_delete_default_key :: "env \<Rightarrow> unit tdeM" where
  "open_pg_tde_delete_default_key ev =
     seqM (check (superuser ev) E_privilege)
     (bindM (GetPrincipalKeyNoDefault ev DEFAULT_DATA_TDE_OID) (\<lambda>default_principal_key.
      case default_principal_key of
        None \<Rightarrow> throw E_no_principal_key
      | Some dpk \<Rightarrow>
          bindM (default_key_users ev dpk (pg_database ev)) (\<lambda>dbs.
          bindM (GetPrincipalKeyNoDefault ev GLOBAL_DATA_TDE_OID) (\<lambda>principal_key.
          seqM (whenM (open_pg_tde_is_same_principal_key (Some dpk) principal_key)
                  (bindM (open_pg_tde_count_wal_ranges_in_file ev) (\<lambda>count.
                   seqM (check (count = 0) E_in_use)
                   (seqM (open_pg_tde_delete_server_key ev)
                   (clear_principal_key_cache GLOBAL_DATA_TDE_OID)))))
          (seqM (forM dbs (\<lambda>db. seqM (open_pg_tde_delete_principal_key ev db) (clear_principal_key_cache db)))
          (seqM (open_pg_tde_delete_principal_key ev DEFAULT_DATA_TDE_OID)
          (clear_principal_key_cache DEFAULT_DATA_TDE_OID)))))))"

section \<open>Reporting and verifying\<close>

record key_info_row =
  row_name :: bytes
  row_provider_name :: "bytes option"
  row_provider_id :: int
  row_creation_time :: int

text \<open>
  The creation time in microseconds since 2000-01-01, as a 64-bit number. The keyring is
  freed unconditionally, also when the lookup returned NULL.
\<close>

definition creation_timestamp :: "TDEPrincipalKeyInfo \<Rightarrow> int" where
  "creation_timestamp i = sint ((tv_sec i - of_nat (10957 * 86400)) * of_nat 1000000 + tv_usec i :: u64)"

definition open_pg_tde_get_key_info :: "env \<Rightarrow> Oid \<Rightarrow> key_info_row option tdeM" where
  "open_pg_tde_get_key_info ev db =
     bindM (GetPrincipalKeyNoDefault ev db) (\<lambda>principal_key.
     case principal_key of
       None \<Rightarrow> ret None
     | Some pk \<Rightarrow>
         bindM (GetKeyProviderByID ev (keyringId (keyInfo pk)) (databaseId (keyInfo pk))) (\<lambda>keyring.
         case keyring of
           None \<Rightarrow> throw (E_null_pointer ''keyring'')
         | Some kr \<Rightarrow>
             ret (Some \<lparr>row_name = cstr (pk_name (keyInfo pk)), row_provider_name = Some (cstr (gk_provider_name kr)),
               row_provider_id = sint (keyringId (keyInfo pk)), row_creation_time = creation_timestamp (keyInfo pk)\<rparr>)))"

definition open_pg_tde_key_info :: "env \<Rightarrow> key_info_row option tdeM" where
  "open_pg_tde_key_info ev = open_pg_tde_get_key_info ev (MyDatabaseId ev)"

definition open_pg_tde_server_key_info :: "env \<Rightarrow> key_info_row option tdeM" where
  "open_pg_tde_server_key_info ev = open_pg_tde_get_key_info ev GLOBAL_DATA_TDE_OID"

definition open_pg_tde_default_key_info :: "env \<Rightarrow> key_info_row option tdeM" where
  "open_pg_tde_default_key_info ev = open_pg_tde_get_key_info ev DEFAULT_DATA_TDE_OID"

definition open_pg_tde_verify_principal_key_internal :: "env \<Rightarrow> Oid \<Rightarrow> unit tdeM" where
  "open_pg_tde_verify_principal_key_internal ev db =
     bindM (get_principal_key_from_keyring ev db) (\<lambda>fromKeyring.
     bindM (get_principal_key_from_cache db) (\<lambda>fromCache.
     case fromKeyring of
       None \<Rightarrow> throw E_no_principal_key
     | Some k \<Rightarrow>
         check (\<not> (case fromCache of None \<Rightarrow> False
                   | Some c \<Rightarrow> keyLength k \<noteq> keyLength c \<or>
                       take (unat (keyLength c)) (keyData k) \<noteq> take (unat (keyLength c)) (keyData c)))
           (E_state ''key returned from keyring and cached in open_pg_tde differ'')))"

definition open_pg_tde_verify_key :: "env \<Rightarrow> unit tdeM" where
  "open_pg_tde_verify_key ev = open_pg_tde_verify_principal_key_internal ev (MyDatabaseId ev)"

definition open_pg_tde_verify_server_key :: "env \<Rightarrow> unit tdeM" where
  "open_pg_tde_verify_server_key ev = open_pg_tde_verify_principal_key_internal ev GLOBAL_DATA_TDE_OID"

definition open_pg_tde_verify_default_key :: "env \<Rightarrow> unit tdeM" where
  "open_pg_tde_verify_default_key ev = open_pg_tde_verify_principal_key_internal ev DEFAULT_DATA_TDE_OID"

section \<open>Providers in use\<close>

definition key_uses :: "TDEPrincipalKey option \<Rightarrow> Oid \<Rightarrow> bool" where
  "key_uses pk providerId = (case pk of None \<Rightarrow> False | Some k \<Rightarrow> providerId = keyringId (keyInfo k))"

fun any_database_uses :: "env \<Rightarrow> Oid \<Rightarrow> Oid list \<Rightarrow> bool tdeM" where
  "any_database_uses ev providerId [] = ret False"
| "any_database_uses ev providerId (db # dbs) =
     bindM (GetPrincipalKeyNoDefault ev db) (\<lambda>pk.
     if key_uses pk providerId then ret True else any_database_uses ev providerId dbs)"

definition open_pg_tde_is_provider_used :: "env \<Rightarrow> Oid \<Rightarrow> Oid \<Rightarrow> bool tdeM" where
  "open_pg_tde_is_provider_used ev databaseOid providerId =
     (if databaseOid = GLOBAL_DATA_TDE_OID \<or> databaseOid = DEFAULT_DATA_TDE_OID then
        bindM (GetPrincipalKeyNoDefault ev GLOBAL_DATA_TDE_OID) (\<lambda>pk.
        if key_uses pk providerId then ret True
        else
          bindM (GetPrincipalKeyNoDefault ev DEFAULT_DATA_TDE_OID) (\<lambda>pk.
          if key_uses pk providerId then ret True
          else any_database_uses ev providerId (pg_database ev)))
      else
        bindM (GetPrincipalKeyNoDefault ev databaseOid) (\<lambda>pk. ret (key_uses pk providerId)))"

text \<open>The check of one key in use against the settings a provider is to get.\<close>

definition verify_key_in_use :: "env \<Rightarrow> GenericKeyring \<Rightarrow> TDESignedPrincipalKeyInfo option \<Rightarrow> unit tdeM" where
  "verify_key_in_use ev modified_provider existing_principal_key =
     (case existing_principal_key of
        None \<Rightarrow> ret ()
      | Some ski \<Rightarrow>
          whenM (keyringId (ski_data ski) = keyring_id modified_provider)
            (bindM (KeyringGetKey ev modified_provider (pk_name (ski_data ski))) (\<lambda>(return_code, proposed_key).
             seqM (check (return_code = KEYRING_CODE_SUCCESS) (E_keyring return_code))
             (case proposed_key of
                None \<Rightarrow> throw E_key_not_found
              | Some k \<Rightarrow>
                  bindM (open_pg_tde_verify_principal_key_info ev ski (ki_data k)) (\<lambda>verified.
                  check verified E_verify_principal_key)))))"

definition open_pg_tde_verify_provider_keys_in_use :: "env \<Rightarrow> GenericKeyring \<Rightarrow> unit tdeM" where
  "open_pg_tde_verify_provider_keys_in_use ev modified_provider =
     seqM (bindM (open_pg_tde_get_server_key_info ev) (verify_key_in_use ev modified_provider))
     (forM (pg_database ev) (\<lambda>db.
        bindM (open_pg_tde_get_principal_key_info ev db) (verify_key_in_use ev modified_provider)))"

end
