(* ===== verification/Tde_WalKeys.thy ===== *)
theory Tde_WalKeys
  imports Tde_Principal
begin

text \<open>
  WAL keys on top of the principal key lookup (\<open>access/open_pg_tde_xlog_keys.c\<close>): the process-local
  cache of ranges, filling it from the WAL key file, creating a range, and the migration of WAL
  key files of versions 1 and 2. The cache is the C linked list; its last record is
  \<open>tde_wal_key_last_rec\<close>, and a pointer to a record is its position.
\<close>

section \<open>The cache\<close>

definition open_pg_tde_free_wal_key_cache :: "unit tdeM" where
  "open_pg_tde_free_wal_key_cache = modifyM (\<lambda>w. w\<lparr>tde_wal_key_cache := []\<rparr>)"

definition open_pg_tde_get_last_wal_key :: "WALKeyCacheRec option tdeM" where
  "open_pg_tde_get_last_wal_key = getM (\<lambda>w. if tde_wal_key_cache w = [] then None else Some (last (tde_wal_key_cache w)))"

definition open_pg_tde_get_wal_cache_keys :: "nat option tdeM" where
  "open_pg_tde_get_wal_cache_keys = getM (\<lambda>w. if tde_wal_key_cache w = [] then None else Some 0)"

definition cache_range :: "WalEncryptionRange \<Rightarrow> WALKeyCacheRec list \<Rightarrow> WALKeyCacheRec list" where
  "cache_range rg c =
     (if c = [] then [\<lparr>wc_range = rg, wc_crypt_ctx = None\<rparr>]
      else butlast c @ [(last c)\<lparr>wc_range := (wc_range (last c))\<lparr>wr_end := wr_start rg\<rparr>\<rparr>, \<lparr>wc_range = rg, wc_crypt_ctx = None\<rparr>])"

definition open_pg_tde_add_wal_range_to_cache :: "WalEncryptionRange \<Rightarrow> nat tdeM" where
  "open_pg_tde_add_wal_range_to_cache rg =
     seqM (modifyM (\<lambda>w. w\<lparr>tde_wal_key_cache := cache_range rg (tde_wal_key_cache w)\<rparr>))
     (getM (\<lambda>w. length (tde_wal_key_cache w) - 1))"

section \<open>Creating a range\<close>

text \<open>The range that a caller passes is overwritten in full.\<close>

definition open_pg_tde_create_wal_range :: "env \<Rightarrow> u32 \<Rightarrow> int \<Rightarrow> WalEncryptionRange tdeM" where
  "open_pg_tde_create_wal_range ev typ key_len =
     bindM (GetPrincipalKey ev GLOBAL_DATA_TDE_OID) (\<lambda>principal_key.
     case principal_key of
       None \<Rightarrow> throw E_no_principal_key
     | Some pk \<Rightarrow>
         bindM (liftM (TdeCipherByKeyLen ciphers key_len)) (\<lambda>c.
         bindM (open_pg_tde_generate_internal_key ev (tc_id c)) (\<lambda>key.
           let rg = \<lparr>wr_type = typ, wr_key = key, wr_start = WalLocation 0 0, wr_end = max_location\<rparr> in
           seqM (open_pg_tde_write_wal_key_file_entry ev rg pk) (ret rg))))"

section \<open>Reading ranges\<close>

text \<open>The number of entries, an unsigned 64-bit quotient cut to an \<open>int\<close>.\<close>

definition wal_keys_count :: "nat \<Rightarrow> int" where
  "wal_keys_count fsize = sint (ucast ((of_nat fsize - of_nat HEADER_SIZE :: u64) div of_nat WAL_ENTRY_SIZE) :: u32)"

definition wal_file_size :: "env \<Rightarrow> nat tdeM" where
  "wal_file_size ev = getM (\<lambda>w. length (file_bytes w (get_wal_key_file_path ev)))"

definition open_pg_tde_read_last_wal_range :: "env \<Rightarrow> WalEncryptionRange option tdeM" where
  "open_pg_tde_read_last_wal_range ev =
     bindM (GetPrincipalKey ev GLOBAL_DATA_TDE_OID) (\<lambda>principal_key.
     case principal_key of
       None \<Rightarrow> ret None
     | Some pk \<Rightarrow>
         bindM (open_pg_tde_open_wal_key_file_read (get_wal_key_file_path ev) False) (\<lambda>_.
         bindM (wal_file_size ev) (\<lambda>fsize.
         if fsize = HEADER_SIZE then ret None
         else
           bindM (open_pg_tde_read_one_wal_key_file_entry2 ev
                    (sint (ucast (last_wal_key_idx fsize) :: u32))) (\<lambda>entry.
           bindM (open_pg_tde_wal_range_from_entry ev pk entry) (\<lambda>rg. ret (Some rg))))))"

text \<open>The range a reader gets when there are no keys: from the beginning to infinity, not encrypted.\<close>

definition stub_range :: WalEncryptionRange where
  "stub_range = \<lparr>wr_type = WAL_ENCRYPTION_RANGE_INVALID,
     wr_key = \<lparr>ik_key_len = 0, ik_cipher = 0, ik_base_iv = zeros 16, ik_key = zeros 64\<rparr>,
     wr_start = WalLocation 0 0, wr_end = max_location\<rparr>"

text \<open>Entries just created but not used by a write yet, and invalid ones, are skipped.\<close>

definition wal_entry_wanted :: "WalLocation \<Rightarrow> WalKeyFileEntry \<Rightarrow> bool" where
  "wal_entry_wanted start entry \<longleftrightarrow> we_range_type entry \<noteq> WAL_ENCRYPTION_RANGE_INVALID \<and>
     wal_location_valid (we_range_start entry) \<and> wal_location_cmp (we_range_start entry) start \<ge> 0"

fun fetch_loop :: "env \<Rightarrow> TDEPrincipalKey \<Rightarrow> WalLocation \<Rightarrow> nat list \<Rightarrow> nat option \<Rightarrow> nat option tdeM" where
  "fetch_loop ev pk start [] return_wal_rec = ret return_wal_rec"
| "fetch_loop ev pk start (file_idx # idxs) return_wal_rec =
     bindM (open_pg_tde_read_one_wal_key_file_entry2 ev (int file_idx)) (\<lambda>entry.
     if wal_entry_wanted start entry then
       bindM (open_pg_tde_wal_range_from_entry ev pk entry) (\<lambda>rg.
       bindM (open_pg_tde_add_wal_range_to_cache rg) (\<lambda>wal_rec.
       fetch_loop ev pk start idxs (if return_wal_rec = None then Some wal_rec else return_wal_rec)))
     else fetch_loop ev pk start idxs return_wal_rec)"

definition open_pg_tde_fetch_wal_keys :: "env \<Rightarrow> WalLocation \<Rightarrow> nat option tdeM" where
  "open_pg_tde_fetch_wal_keys ev start =
     bindM (GetPrincipalKey ev GLOBAL_DATA_TDE_OID) (\<lambda>principal_key.
     case principal_key of
       None \<Rightarrow> ret None
     | Some pk \<Rightarrow>
         bindM (open_pg_tde_open_wal_key_file_read (get_wal_key_file_path ev) False) (\<lambda>_.
         bindM (wal_file_size ev) (\<lambda>fsize.
         let keys_count = wal_keys_count fsize in
         if keys_count = 0 then bindM (open_pg_tde_add_wal_range_to_cache stub_range) (\<lambda>wal_rec. ret (Some wal_rec))
         else fetch_loop ev pk start [0..<nat keys_count] None)))"

section \<open>Migration of older files\<close>

record WalKeyFileEntryV1 =
  wv1_unused1 :: u32
  wv1_unused2 :: u32
  wv1_encrypted_key_data :: bytes
  wv1_key_base_iv :: bytes
  wv1_range_type :: u32
  wv1_range_start :: WalLocation
  wv1_entry_iv :: bytes
  wv1_aead_tag :: bytes

definition dec_wal_entry_v1 :: "bytes \<Rightarrow> WalKeyFileEntryV1" where
  "dec_wal_entry_v1 b = \<lparr>wv1_unused1 = un32 (slice 0 4 b), wv1_unused2 = un32 (slice 4 4 b),
     wv1_encrypted_key_data = slice 8 16 b, wv1_key_base_iv = slice 24 16 b, wv1_range_type = un32 (slice 40 4 b),
     wv1_range_start = dec_loc (slice 48 16 b), wv1_entry_iv = slice 64 16 b, wv1_aead_tag = slice 80 16 b\<rparr>"

record WalKeyFileEntryV2 =
  wv2_cipher :: u32
  wv2_range_type :: u32
  wv2_range_start :: WalLocation
  wv2_entry_iv :: bytes
  wv2_aead_tag :: bytes
  wv2_key_base_iv :: bytes
  wv2_encrypted_key_data :: bytes

definition dec_wal_entry_v2 :: "bytes \<Rightarrow> WalKeyFileEntryV2" where
  "dec_wal_entry_v2 b = \<lparr>wv2_cipher = un32 (slice 0 4 b), wv2_range_type = un32 (slice 4 4 b),
     wv2_range_start = dec_loc (slice 8 16 b), wv2_entry_iv = slice 24 16 b, wv2_aead_tag = slice 40 16 b,
     wv2_key_base_iv = slice 56 16 b, wv2_encrypted_key_data = slice 72 32 b\<rparr>"

definition WV1_SIZE :: nat where "WV1_SIZE = 96"
definition WV2_SIZE :: nat where "WV2_SIZE = 104"

definition open_pg_tde_read_one_wal_key_file_entry_v1 :: "bytes \<Rightarrow> nat \<Rightarrow> (WalKeyFileEntryV1 \<times> nat) option" where
  "open_pg_tde_read_one_wal_key_file_entry_v1 f offset = read_rec WV1_SIZE dec_wal_entry_v1 f offset"

definition open_pg_tde_read_one_wal_key_file_entry_v2 :: "bytes \<Rightarrow> nat \<Rightarrow> (WalKeyFileEntryV2 \<times> nat) option" where
  "open_pg_tde_read_one_wal_key_file_entry_v2 f offset = read_rec WV2_SIZE dec_wal_entry_v2 f offset"

definition wal_range_from_entry_v1 :: "env \<Rightarrow> WalKeyFileEntryV1 \<Rightarrow> TDEPrincipalKey \<Rightarrow> WalEncryptionRange tdeM" where
  "wal_range_from_entry_v1 ev e pk =
     bindM (AesGcmDecrypt ev (pk_material pk) (wv1_entry_iv e) (le32 (wv1_unused1 e) @ le32 (wv1_unused2 e))
              (wv1_encrypted_key_data e) (wv1_aead_tag e)) (\<lambda>r.
     case r of
       None \<Rightarrow> throw E_decrypt
     | Some pt \<Rightarrow> ret \<lparr>wr_type = wv1_range_type e,
         wr_key = \<lparr>ik_key_len = 16, ik_cipher = CIPHER_AES_128, ik_base_iv = wv1_key_base_iv e,
                    ik_key = overlay INTERNAL_KEY_MAX_LEN pt (garbage ev INTERNAL_KEY_MAX_LEN)\<rparr>,
         wr_start = wv1_range_start e, wr_end = max_location\<rparr>)"

definition wal_range_from_entry_v2 :: "env \<Rightarrow> WalKeyFileEntryV2 \<Rightarrow> TDEPrincipalKey \<Rightarrow> WalEncryptionRange tdeM" where
  "wal_range_from_entry_v2 ev e pk =
     bindM (liftM (open_pg_tde_cipher_key_length (wv2_cipher e))) (\<lambda>key_len.
     bindM (AesGcmDecrypt ev (pk_material pk) (wv2_entry_iv e) (le32 (wv2_cipher e) @ le32 (wv2_range_type e))
              (take (unat key_len) (wv2_encrypted_key_data e)) (wv2_aead_tag e)) (\<lambda>r.
     case r of
       None \<Rightarrow> throw E_decrypt
     | Some pt \<Rightarrow> ret \<lparr>wr_type = wv2_range_type e,
         wr_key = \<lparr>ik_key_len = key_len, ik_cipher = wv2_cipher e, ik_base_iv = wv2_key_base_iv e,
                    ik_key = overlay INTERNAL_KEY_MAX_LEN pt (garbage ev INTERNAL_KEY_MAX_LEN)\<rparr>,
         wr_start = wv2_range_start e, wr_end = max_location\<rparr>))"

definition range_from_disk_entry_v1 :: "env \<Rightarrow> TDEPrincipalKey \<Rightarrow> WalKeyFileEntryV1 \<Rightarrow> WalKeyFileEntry tdeM" where
  "range_from_disk_entry_v1 ev pk disk_entry =
     bindM (wal_range_from_entry_v1 ev disk_entry pk) (\<lambda>rg. open_pg_tde_initialize_wal_key_file_entry ev pk rg)"

definition range_from_disk_entry_v2 :: "env \<Rightarrow> TDEPrincipalKey \<Rightarrow> WalKeyFileEntryV2 \<Rightarrow> WalKeyFileEntry tdeM" where
  "range_from_disk_entry_v2 ev pk disk_entry =
     bindM (wal_range_from_entry_v2 ev disk_entry pk) (\<lambda>rg. open_pg_tde_initialize_wal_key_file_entry ev pk rg)"

text \<open>
  For an empty file the header on the stack is never read into: its version is whatever the
  stack held.
\<close>

definition open_pg_tde_update_wal_keys_file :: "env \<Rightarrow> unit tdeM" where
  "open_pg_tde_update_wal_keys_file ev =
     (let path = get_wal_key_file_path ev; tmp = tmp_path path in
      bindM (open_pg_tde_open_wal_key_file_basic path False False True) (\<lambda>old_fd.
      if old_fd = None then ret ()
      else
        bindM (open_pg_tde_wal_key_file_header_read path) (\<lambda>(h, read_pos).
        let fheader = (if read_pos = 0 then dec_header (garbage ev HEADER_SIZE) else h);
            version = FILEMAGIC_VERSION (file_version fheader) in
        if file_version fheader = OPEN_PG_TDE_WAL_KEY_FILE_MAGIC then ret ()
        else
          seqM (check (version = 1 \<or> version = 2) (E_migration_version version))
          (bindM (GetPrincipalKey ev GLOBAL_DATA_TDE_OID) (\<lambda>principal_key.
           case principal_key of
             None \<Rightarrow> throw E_no_principal_key
           | Some pk \<Rightarrow>
               bindM (open_pg_tde_sign_principal_key_info ev pk) (\<lambda>ski.
               bindM (open_pg_tde_open_wal_key_file_write tmp (Some ski) True) (\<lambda>write_pos.
               bindM (getM (\<lambda>w. file_bytes w path)) (\<lambda>old.
               seqM (if version = 1
                     then kf_copy enc_wal_entry WAL_ENTRY_SIZE (range_from_disk_entry_v1 ev pk) tmp
                            (recs WV1_SIZE dec_wal_entry_v1 old read_pos) write_pos
                     else kf_copy enc_wal_entry WAL_ENTRY_SIZE (range_from_disk_entry_v2 ev pk) tmp
                            (recs WV2_SIZE dec_wal_entry_v2 old read_pos) write_pos)
               (durable_rename tmp path)))))))))"

end
