(* ===== verification/Tde_WalSmgr.thy ===== *)
theory Tde_WalSmgr
  imports Tde_WalKeys
begin

text \<open>
  The encrypting WAL storage manager (\<open>access/open_pg_tde_xlog_smgr.c\<close>): the position of the write
  key that readers synchronise on, the choice of the range a write uses, and the
  en- and decryption of a piece of a WAL segment by the cached ranges that overlap it.
  A segment file is named by its path; sizes and offsets are 64-bit words.
\<close>

section \<open>The location of the write key\<close>

definition TDEXLogGetEncKeyLsn :: "u64 tdeM" where
  "TDEXLogGetEncKeyLsn = getM enc_key_lsn"

definition TDEXLogGetEncKeyTli :: "u32 tdeM" where
  "TDEXLogGetEncKeyTli = getM enc_key_tli"

definition TDEXLogSetEncKeyLocation :: "WalLocation \<Rightarrow> unit tdeM" where
  "TDEXLogSetEncKeyLocation loc =
     seqM (modifyM (\<lambda>w. w\<lparr>enc_key_tli := tli loc\<rparr>)) (modifyM (\<lambda>w. w\<lparr>enc_key_lsn := lsn loc\<rparr>))"

section \<open>Sizes\<close>

definition XLOG_BLCKSZ :: int where "XLOG_BLCKSZ = 8192"
definition MAX_SEND_SIZE :: int where "MAX_SEND_SIZE = XLOG_BLCKSZ * 16"

text \<open>C division truncates, the operands are not negative.\<close>

definition XLOGChooseNumBuffers :: "int \<Rightarrow> int \<Rightarrow> int" where
  "XLOGChooseNumBuffers NBuffers wal_segment_size =
     (let xbuffers = NBuffers div 32;
          xbuffers = (if xbuffers > wal_segment_size div XLOG_BLCKSZ then wal_segment_size div XLOG_BLCKSZ else xbuffers)
      in if xbuffers < 8 then 8 else xbuffers)"

definition TDEXLogEncryptBuffSize :: "int \<Rightarrow> int \<Rightarrow> int \<Rightarrow> int" where
  "TDEXLogEncryptBuffSize XLOGbuffers NBuffers wal_segment_size =
     (let xbuffers = (if XLOGbuffers = -1 then XLOGChooseNumBuffers NBuffers wal_segment_size else XLOGbuffers)
      in max MAX_SEND_SIZE (XLOG_BLCKSZ * xbuffers))"

section \<open>IVs\<close>

text \<open>
  The base IV is a big-endian 128-bit number; the time line is added above bit 112, the segment
  number above bit 32.
\<close>

definition be128 :: "bytes \<Rightarrow> 128 word" where
  "be128 b = of_nat (nat_le (rev b))"

definition un_be128 :: "128 word \<Rightarrow> bytes" where
  "un_be128 x = rev (le_nat 16 (unat x))"

definition CalcXLogPageIVPrefix :: "u32 \<Rightarrow> u64 \<Rightarrow> bytes \<Rightarrow> bytes" where
  "CalcXLogPageIVPrefix tmln sno base_iv =
     (let base = and (be128 base_iv) (not (push_bit 32 1));
          offset = or (push_bit 112 (ucast tmln)) (push_bit 32 (ucast sno))
      in un_be128 (base + offset))"

text \<open>The version for compilers without a 128-bit type: two halves and a carry.\<close>

definition CalcXLogPageIVPrefix_halves :: "u32 \<Rightarrow> u64 \<Rightarrow> bytes \<Rightarrow> bytes" where
  "CalcXLogPageIVPrefix_halves tmln sno base_iv =
     (let base = rev base_iv;
          base_lo = and (un64 (take 8 base)) (not (push_bit 32 1));
          base_hi = un64 (drop 8 base);
          offset_lo = push_bit 32 sno;
          offset_hi = or (drop_bit 32 sno) (push_bit 48 (ucast (and tmln 0xFFFF)));
          iv_lo = base_lo + offset_lo;
          carry = (if iv_lo < base_lo then 1 else 0);
          iv_hi = base_hi + offset_hi + carry
      in rev (le64 iv_lo @ le64 iv_hi))"

section \<open>En- and decryption by the cached ranges\<close>

definition XLogSegNoOffsetToRecPtr :: "u64 \<Rightarrow> u64 \<Rightarrow> u64 \<Rightarrow> u64" where
  "XLogSegNoOffsetToRecPtr segno offset segSize = segno * segSize + offset"

definition XLogSegmentOffset :: "u64 \<Rightarrow> u64 \<Rightarrow> u64" where
  "XLogSegmentOffset xlogptr segSize = and xlogptr (segSize - 1)"

text \<open>
  One turn of the loop of \<open>TDEXLogCryptBuffer\<close>: the part of the buffer that lies in the range of
  the key. \<open>data\<close> is the input, or \<open>None\<close> when the output buffer is transformed in place. The
  result is the output buffer and the cipher context of the record.
\<close>

definition crypt_with_key ::
  "env \<Rightarrow> bytes option \<Rightarrow> u64 \<Rightarrow> u64 \<Rightarrow> u32 \<Rightarrow> u64 \<Rightarrow> u64 \<Rightarrow> WALKeyCacheRec \<Rightarrow> bytes \<Rightarrow> (tde_error + bytes) \<times> bytes option" where
  "crypt_with_key ev data count offset tmln segno segSize curr_key out_buf =
     (let rg = wc_range curr_key;
          data_start = WalLocation (XLogSegNoOffsetToRecPtr segno offset segSize) tmln;
          data_end = WalLocation (XLogSegNoOffsetToRecPtr segno (offset + count) segSize) tmln in
      if wal_location_valid (wr_start rg) \<and> wr_type rg = WAL_ENCRYPTION_RANGE_ENCRYPTED \<and>
         wal_location_cmp data_start (wr_end rg) < 0 \<and> wal_location_cmp data_end (wr_start rg) > 0
      then
        (let end_lsn = (if tmln < tli (wr_end rg) then lsn data_end else min (lsn data_end) (lsn (wr_end rg)));
             start_lsn = (if tmln > tli (wr_start rg) then lsn data_start else max (lsn data_start) (lsn (wr_start rg)));
             dec_off = XLogSegmentOffset start_lsn segSize;
             dec_end = XLogSegmentOffset end_lsn segSize;
             iv_prefix = CalcXLogPageIVPrefix tmln segno (ik_base_iv (wr_key rg));
             dec_end = (if dec_end = 0 then offset + count else dec_end);
             dec_sz = dec_end - dec_off;
             k = unat (dec_off - offset)
         in case open_pg_tde_stream_crypt ev iv_prefix (ucast dec_off) (map_option (drop k) data) (ucast dec_sz) (drop k out_buf)
                   (ik_key (wr_key rg)) (uint (ik_key_len (wr_key rg))) (wc_crypt_ctx curr_key) of
              (Inl e, ctx) \<Rightarrow> (Inl e, ctx)
            | (Inr o_buf, ctx) \<Rightarrow> (Inr (take k out_buf @ o_buf), ctx))
      else (Inr out_buf, wc_crypt_ctx curr_key))"

fun crypt_keys ::
  "env \<Rightarrow> bytes option \<Rightarrow> u64 \<Rightarrow> u64 \<Rightarrow> u32 \<Rightarrow> u64 \<Rightarrow> u64 \<Rightarrow> WALKeyCacheRec list \<Rightarrow> bytes \<Rightarrow>
   (tde_error + bytes) \<times> WALKeyCacheRec list" where
  "crypt_keys ev data count offset tmln segno segSize [] out_buf = (Inr out_buf, [])"
| "crypt_keys ev data count offset tmln segno segSize (curr_key # ks) out_buf =
     (case crypt_with_key ev data count offset tmln segno segSize curr_key out_buf of
        (Inl e, ctx) \<Rightarrow> (Inl e, curr_key\<lparr>wc_crypt_ctx := ctx\<rparr> # ks)
      | (Inr out', ctx) \<Rightarrow>
          (case crypt_keys ev data count offset tmln segno segSize ks out' of
             (r, ks') \<Rightarrow> (r, curr_key\<lparr>wc_crypt_ctx := ctx\<rparr> # ks')))"

text \<open>The keys the loop runs over: from the first cached one, reading them first when needed.\<close>

definition crypt_buffer_keys :: "env \<Rightarrow> nat option tdeM" where
  "crypt_buffer_keys ev =
     bindM open_pg_tde_get_wal_cache_keys (\<lambda>keys0.
     bindM (if keys0 = None then open_pg_tde_fetch_wal_keys ev (WalLocation 0 1) else ret keys0) (\<lambda>keys.
     bindM TDEXLogGetEncKeyLsn (\<lambda>write_key_lsn.
     if write_key_lsn = 0 then ret keys
     else
       bindM open_pg_tde_get_last_wal_key (\<lambda>last_key.
       bindM TDEXLogGetEncKeyTli (\<lambda>t.
       case last_key of
         None \<Rightarrow> ret keys
       | Some k \<Rightarrow>
           if wal_location_cmp (wr_start (wc_range k)) (WalLocation write_key_lsn t) < 0
           then bindM (open_pg_tde_fetch_wal_keys ev (WalLocation write_key_lsn t)) (\<lambda>_. open_pg_tde_get_wal_cache_keys)
           else ret keys)))))"

definition TDEXLogCryptBuffer :: "env \<Rightarrow> bytes option \<Rightarrow> bytes \<Rightarrow> u64 \<Rightarrow> u64 \<Rightarrow> u32 \<Rightarrow> u64 \<Rightarrow> u64 \<Rightarrow> bytes tdeM" where
  "TDEXLogCryptBuffer ev data out_buf count offset tmln segno segSize =
     bindM (crypt_buffer_keys ev) (\<lambda>keys.
     case keys of
       None \<Rightarrow> ret out_buf
     | Some i \<Rightarrow>
         bindM (getM tde_wal_key_cache) (\<lambda>c.
         case crypt_keys ev data count offset tmln segno segSize (drop i c) out_buf of
           (r, ks) \<Rightarrow> seqM (modifyM (\<lambda>w. w\<lparr>tde_wal_key_cache := take i c @ ks\<rparr>)) (liftM r)))"

section \<open>Segments\<close>

text \<open>\<open>pg_pwrite\<close> with its result handed to the caller: the number of bytes written, or -1.\<close>

definition pg_pwrite :: "string \<Rightarrow> bytes \<Rightarrow> nat \<Rightarrow> int tdeM" where
  "pg_pwrite fd d off w =
     (case next_io w of
        (IO_ok, w') \<Rightarrow> (Inr (int (length d)), set_file fd (pwrite (file_bytes w' fd) d off) w')
      | (IO_short n, w') \<Rightarrow> (Inr (int (length (take n d))), set_file fd (pwrite (file_bytes w' fd) (take n d) off) w')
      | (IO_fail, w') \<Rightarrow> (Inr (-1), w'))"

definition TDEXLogWriteEncryptedPagesOldKeys :: "env \<Rightarrow> string \<Rightarrow> bytes \<Rightarrow> u64 \<Rightarrow> u32 \<Rightarrow> u64 \<Rightarrow> u64 \<Rightarrow> int tdeM" where
  "TDEXLogWriteEncryptedPagesOldKeys ev fd buf offset tmln segno segSize =
     bindM (TDEXLogCryptBuffer ev (Some buf) buf (of_nat (length buf)) offset tmln segno segSize) (\<lambda>enc_buff.
     pg_pwrite fd enc_buff (unat offset))"

definition TDEXLogWriteEncryptedPages :: "env \<Rightarrow> string \<Rightarrow> bytes \<Rightarrow> u64 \<Rightarrow> u32 \<Rightarrow> u64 \<Rightarrow> int tdeM" where
  "TDEXLogWriteEncryptedPages ev fd buf offset tmln segno =
     bindM (getM CurrentWalEncryptionRange) (\<lambda>rg.
     bindM (getM EncryptionCryptCtx) (\<lambda>ctx0.
       let iv_prefix = CalcXLogPageIVPrefix tmln segno (ik_base_iv (wr_key rg)) in
       case open_pg_tde_stream_crypt ev iv_prefix (ucast offset) (Some buf) (of_nat (length buf)) (garbage ev (length buf))
              (ik_key (wr_key rg)) (uint (ik_key_len (wr_key rg))) ctx0 of
         (r, ctx) \<Rightarrow>
           seqM (modifyM (\<lambda>w. w\<lparr>EncryptionCryptCtx := ctx\<rparr>))
           (bindM (liftM r) (\<lambda>enc_buff. pg_pwrite fd enc_buff (unat offset)))))"

definition tde_ensure_xlog_key_location :: "env \<Rightarrow> WalLocation \<Rightarrow> bool tdeM" where
  "tde_ensure_xlog_key_location ev loc =
     bindM TDEXLogGetEncKeyLsn (\<lambda>l.
     bindM TDEXLogGetEncKeyTli (\<lambda>t.
     bindM (getM CurrentWalEncryptionRange) (\<lambda>rg.
       let writeKeyLoc = WalLocation l t;
           lastKeyUsable = (lsn writeKeyLoc \<noteq> 0);
           afterWriteKey = (wal_location_cmp writeKeyLoc loc \<le> 0) in
       if wr_type rg \<noteq> WAL_ENCRYPTION_RANGE_INVALID \<and> \<not> lastKeyUsable \<and> afterWriteKey \<and> \<not> CrashRecovery ev then
         bindM open_pg_tde_get_last_wal_key (\<lambda>last_key.
         if (case last_key of None \<Rightarrow> True | Some k \<Rightarrow> wal_location_cmp (wr_start (wc_range k)) loc < 0) then
           seqM (open_pg_tde_wal_last_range_set_location ev loc)
           (seqM (modifyM (\<lambda>w. w\<lparr>CurrentWalEncryptionRange := (CurrentWalEncryptionRange w)\<lparr>wr_start := loc\<rparr>\<rparr>))
           (seqM (TDEXLogSetEncKeyLocation loc)
           (ret afterWriteKey)))
         else ret (lastKeyUsable \<and> afterWriteKey))
       else ret (lastKeyUsable \<and> afterWriteKey))))"

definition tdeheap_xlog_seg_write :: "env \<Rightarrow> string \<Rightarrow> bytes \<Rightarrow> u64 \<Rightarrow> u32 \<Rightarrow> u64 \<Rightarrow> u64 \<Rightarrow> int tdeM" where
  "tdeheap_xlog_seg_write ev fd buf offset tmln segno segSize =
     (let loc = WalLocation (XLogSegNoOffsetToRecPtr segno offset segSize) tmln in
      bindM (tde_ensure_xlog_key_location ev loc) (\<lambda>lastKeyUsable.
      bindM (getM CurrentWalEncryptionRange) (\<lambda>rg.
      if \<not> lastKeyUsable \<and> wr_type rg \<noteq> WAL_ENCRYPTION_RANGE_INVALID
      then TDEXLogWriteEncryptedPagesOldKeys ev fd buf offset tmln segno segSize
      else if wr_type rg = WAL_ENCRYPTION_RANGE_ENCRYPTED
      then TDEXLogWriteEncryptedPages ev fd buf offset tmln segno
      else pg_pwrite fd buf (unat offset))))"

text \<open>
  The whole buffer is transformed, also after a short read: \<open>buf\<close> is what it held before.
\<close>

definition tdeheap_xlog_seg_read :: "env \<Rightarrow> string \<Rightarrow> bytes \<Rightarrow> u64 \<Rightarrow> u32 \<Rightarrow> u64 \<Rightarrow> u64 \<Rightarrow> (int \<times> bytes) tdeM" where
  "tdeheap_xlog_seg_read ev fd buf offset tmln segno segSize =
     bindM (getM (\<lambda>w. pread (file_bytes w fd) (length buf) (unat offset))) (\<lambda>d.
     if length d = 0 then ret (0, buf)
     else
       bindM (TDEXLogCryptBuffer ev None (d @ drop (length d) buf) (of_nat (length buf)) offset tmln segno segSize) (\<lambda>buf'.
       ret (int (length d), buf')))"

section \<open>Starting up\<close>

definition TDEXLogSmgrInitWrite :: "env \<Rightarrow> bool \<Rightarrow> int \<Rightarrow> unit tdeM" where
  "TDEXLogSmgrInitWrite ev encrypt_xlog key_len =
     seqM open_pg_tde_free_wal_key_cache
     (bindM (open_pg_tde_read_last_wal_range ev) (\<lambda>rg.
      seqM
       (if IsUnderPostmaster ev then
          (case rg of None \<Rightarrow> ret () | Some r \<Rightarrow> modifyM (\<lambda>w. w\<lparr>CurrentWalEncryptionRange := r\<rparr>))
        else if encrypt_xlog then
          bindM (open_pg_tde_create_wal_range ev WAL_ENCRYPTION_RANGE_ENCRYPTED key_len)
            (\<lambda>r. modifyM (\<lambda>w. w\<lparr>CurrentWalEncryptionRange := r\<rparr>))
        else
          (case rg of
             None \<Rightarrow> ret ()
           | Some r \<Rightarrow>
               if wr_type r = WAL_ENCRYPTION_RANGE_ENCRYPTED then
                 bindM (open_pg_tde_create_wal_range ev WAL_ENCRYPTION_RANGE_UNENCRYPTED key_len)
                   (\<lambda>r. modifyM (\<lambda>w. w\<lparr>CurrentWalEncryptionRange := r\<rparr>))
               else seqM (modifyM (\<lambda>w. w\<lparr>CurrentWalEncryptionRange := r\<rparr>)) (TDEXLogSetEncKeyLocation (wr_start r))))
       (bindM open_pg_tde_get_wal_cache_keys (\<lambda>keys.
        if keys = None then bindM (open_pg_tde_fetch_wal_keys ev (WalLocation 0 1)) (\<lambda>_. ret ()) else ret ()))))"

definition dummy_range :: WalEncryptionRange where
  "dummy_range = stub_range\<lparr>wr_type := WAL_ENCRYPTION_RANGE_UNENCRYPTED, wr_start := max_location, wr_end := max_location\<rparr>"

definition TDEXLogSmgrInitWriteOldKeys :: "env \<Rightarrow> unit tdeM" where
  "TDEXLogSmgrInitWriteOldKeys ev =
     seqM (modifyM (\<lambda>w. w\<lparr>CurrentWalEncryptionRange := dummy_range\<rparr>))
     (seqM (TDEXLogSetEncKeyLocation (wr_start dummy_range))
     (bindM open_pg_tde_get_wal_cache_keys (\<lambda>keys.
      if keys = None then bindM (open_pg_tde_fetch_wal_keys ev (WalLocation 0 1)) (\<lambda>_. ret ()) else ret ())))"

end
