(* ===== verification/Tde_WalIv.thy ===== *)
theory Tde_WalIv
  imports Tde_WalSmgr
begin

text \<open>
  The IVs of WAL segments: the two implementations of \<open>CalcXLogPageIVPrefix\<close> agree, and two segments
  share a keystream only if their numbers and the low halves of their time lines agree. The keystream uses the
  first twelve bytes of the IV; the last four are its block counter.
\<close>

section \<open>Splitting numbers\<close>

lemma le_nat_add: "le_nat (a + b) n = le_nat a n @ le_nat b (n div 256 ^ a)"
  by (induction a arbitrary: n) (simp_all add: div_mult2_eq)

lemma le_nat_inject: "m < 256 ^ k \<Longrightarrow> n < 256 ^ k \<Longrightarrow> le_nat k m = le_nat k n \<longleftrightarrow> m = n"
  by (metis nat_le_le_nat mod_less)

lemma nat_le_append: "nat_le (xs @ ys) = nat_le xs + 256 ^ length xs * nat_le ys"
  by (induction xs) (simp_all add: algebra_simps)

lemma u64_less: "unat (a :: u64) < 18446744073709551616"
  by (rule less_le_trans [OF unsigned_less]) simp

lemma u32_less: "unat (a :: u32) < 4294967296"
  by (rule less_le_trans [OF unsigned_less]) simp

lemma be_digits_inject:
  fixes M :: nat
  assumes "s < M" "s' < M" "t * M + s = t' * M + s'"
  shows "t = t' \<and> s = s'"
proof -
  have "(t * M + s) div M = t" "(t' * M + s') div M = t'" using assms(1,2) by simp_all
  then show ?thesis using assms(3) by simp
qed

lemma mod_add_cancel:
  fixes b :: nat
  assumes "k < 2 ^ 96" "l < 2 ^ 96"
  shows "(b + k) mod 2 ^ 96 = (b + l) mod 2 ^ 96 \<longleftrightarrow> k = l"
proof -
  have m: "x mod 2 ^ 96 = y mod 2 ^ 96 \<longleftrightarrow> (of_nat x :: 96 word) = of_nat y" for x y :: nat
    by (simp add: word_of_nat_eq_iff take_bit_eq_mod)
  have "(b + k) mod 2 ^ 96 = (b + l) mod 2 ^ 96 \<longleftrightarrow> k mod 2 ^ 96 = l mod 2 ^ 96"
    unfolding m by simp
  then show ?thesis using assms by simp
qed

lemma mod_square: "y < M \<Longrightarrow> (x * M + y) mod (M * M) = (x mod M) * M + y" for M :: nat
  by (simp add: mod_mult2_eq)

definition join :: "u64 \<Rightarrow> u64 \<Rightarrow> 128 word" where
  "join hi lo = or (push_bit 64 (ucast hi)) (ucast lo)"

lemma bit_join: "bit (join hi lo) n \<longleftrightarrow> (if n < 64 then bit lo n else bit hi (n - 64))"
  using bit_imp_le_length [of lo n] bit_imp_le_length [of hi "n - 64"]
  by (auto simp: join_def bit_simps)

lemma unat_join: "unat (join hi lo) = unat hi * 2 ^ 64 + unat lo"
proof -
  have h: "unat hi < 2 ^ 64" and l: "unat lo < 2 ^ 64"
    using u64_less by simp_all
  have "join hi lo = push_bit 64 (ucast hi) + ucast lo"
    unfolding join_def
    by (rule disjunctive_add_eq_or [symmetric]) (rule bit_word_eqI, use bit_imp_le_length [of lo] in \<open>force simp: bit_simps\<close>)
  moreover have "unat (push_bit 64 (ucast hi :: 128 word)) = unat hi * 2 ^ 64"
    using h by (simp add: push_bit_eq_mult unat_word_ariths unsigned_ucast_eq take_bit_eq_mod)
  moreover have "unat (ucast lo :: 128 word) = unat lo"
    using l by (simp add: unsigned_ucast_eq take_bit_eq_mod)
  moreover have "unat hi * 2 ^ 64 + unat lo < 2 ^ 128" using h l by simp
  ultimately show ?thesis by (simp add: unat_word_ariths)
qed

lemma be128_join:
  assumes "length b = 16"
  shows "be128 b = join (un64 (drop 8 (rev b))) (un64 (take 8 (rev b)))"
proof -
  let ?lo = "nat_le (take 8 (rev b))" and ?hi = "nat_le (drop 8 (rev b))"
  have lo: "?lo < 2 ^ 64" and hi: "?hi < 2 ^ 64"
    using nat_le_bound [of "take 8 (rev b)"] nat_le_bound [of "drop 8 (rev b)"] assms by simp_all
  have "nat_le (rev b) = ?lo + 2 ^ 64 * ?hi"
    using nat_le_append [of "take 8 (rev b)" "drop 8 (rev b)"] assms by simp
  moreover have "nat_le (rev b) < 2 ^ 128"
    using nat_le_bound [of "rev b"] assms by simp
  moreover have "unat (be128 b) = nat_le (rev b) mod 2 ^ 128"
    unfolding be128_def by (subst unat_of_nat) simp
  ultimately have "unat (be128 b) = unat (join (un64 (drop 8 (rev b))) (un64 (take 8 (rev b))))"
    using lo hi by (simp add: un64_def unat_join unat_of_nat)
  then show ?thesis by (simp add: unsigned_word_eqI)
qed

lemma le_nat_mod: "le_nat k (256 ^ k * m + n) = le_nat k n"
  by (induction k arbitrary: n) (simp_all add: mult.assoc)

lemma un_be128_join: "un_be128 (join hi lo) = rev (le64 lo @ le64 hi)"
proof -
  have l: "unat lo < 2 ^ 64" using unsigned_less [of lo] by simp
  have "le_nat 8 (unat hi * 2 ^ 64 + unat lo) = le_nat 8 (unat lo)"
    using le_nat_mod [of 8 "unat hi" "unat lo"] by (simp add: mult.commute)
  then show ?thesis
    using l le_nat_add [of 8 8 "unat hi * 2 ^ 64 + unat lo"]
    by (simp add: un_be128_def unat_join le64_def)
qed

section \<open>Adding the offset\<close>

lemma join_add: "join a b + join c d = join (a + c + (if b + d < b then 1 else 0)) (b + d)"
proof -
  define c0 :: nat where "c0 = (if b + d < b then 1 else 0)"
  let ?M = "18446744073709551616 :: nat"
  have bd: "unat (b + d) = (unat b + unat d) mod ?M"
    by (simp add: unat_word_ariths)
  have c0: "unat b + unat d = c0 * ?M + unat (b + d)"
    using u64_less [of b] u64_less [of d] le_mod_geq [of ?M "unat b + unat d"]
    by (cases "unat b + unat d < ?M") (simp_all add: c0_def word_less_nat_alt bd)
  have "unat (a + c + (if b + d < b then 1 else 0)) = (unat a + unat c + c0) mod ?M"
    by (simp add: unat_word_ariths c0_def mod_simps)
  moreover have "unat a * ?M + unat b + (unat c * ?M + unat d) = (unat a + unat c + c0) * ?M + unat (b + d)"
    using c0 by (simp add: algebra_simps)
  moreover have "unat (join a b + join c d) = (unat a * ?M + unat b + (unat c * ?M + unat d)) mod (?M * ?M)"
    by (simp add: unat_word_ariths unat_join)
  ultimately have "unat (join a b + join c d) = unat (join (a + c + (if b + d < b then 1 else 0)) (b + d))"
    using mod_square [OF u64_less [of "b + d"], of "unat a + unat c + c0"] unat_join [of "a + c + (if b + d < b then 1 else 0)" "b + d"]
    by (simp only:) simp
  then show ?thesis by (rule unsigned_word_eqI)
qed

lemma bit_bit32: "bit (push_bit 32 1 :: 'a::len word) n \<longleftrightarrow> n = 32 \<and> n < LENGTH('a)"
  by (auto simp only: push_bit_of_1 bit_exp_iff possible_bit_word)

lemma join_clear: "and (join hi lo) (not (push_bit 32 1)) = join hi (and lo (not (push_bit 32 1)))"
  by (rule bit_word_eqI, unfold bit_and_iff bit_not_iff bit_join bit_bit32) auto

lemma offset_join:
  "or (push_bit 112 (ucast tmln)) (push_bit 32 (ucast sno)) =
   join (or (drop_bit 32 sno) (push_bit 48 (ucast (and tmln 0xFFFF)))) (push_bit 32 sno)"
  for tmln :: u32 and sno :: u64
proof (rule bit_word_eqI)
  fix n assume n: "n < LENGTH(128)"
  have m: "(0xFFFF :: u32) = mask 16" by (simp add: mask_eq_exp_minus_1)
  show "bit (or (push_bit 112 (ucast tmln)) (push_bit 32 (ucast sno)) :: 128 word) n =
    bit (join (or (drop_bit 32 sno) (push_bit 48 (ucast (and tmln 0xFFFF)))) (push_bit 32 sno)) n"
  proof (cases "n < 64")
    case True
    then show ?thesis using n by (auto simp: bit_simps bit_join)
  next
    case False
    then have "32 + (n - 64) = n - 32" "n - 64 - 48 = n - 112" by simp_all
    then show ?thesis using n False
      by (auto simp: bit_simps bit_join m)
  qed
qed

section \<open>Properties\<close>

text \<open>
  The two implementations of \<open>CalcXLogPageIVPrefix\<close> agree: adding the offset of time line and segment in
  two 64-bit halves with a carry gives the 128-bit sum.
\<close>

lemma CalcXLogPageIVPrefix_portable:
  assumes "length base_iv = 16"
  shows "CalcXLogPageIVPrefix_halves tmln sno base_iv = CalcXLogPageIVPrefix tmln sno base_iv"
  by (simp only: CalcXLogPageIVPrefix_def CalcXLogPageIVPrefix_halves_def Let_def be128_join [OF assms]
      join_clear offset_join join_add un_be128_join)

lemma CalcXLogPageIVPrefix_portable_witness:
  "CalcXLogPageIVPrefix_halves 3 0x100000001 (replicate 16 0xFF) = CalcXLogPageIVPrefix 3 0x100000001 (replicate 16 0xFF)"
  by (rule CalcXLogPageIVPrefix_portable) simp

section \<open>Distinct segments\<close>

definition seg_offset :: "u32 \<Rightarrow> u64 \<Rightarrow> nat" where
  "seg_offset tmln sno = (unat tmln mod 2 ^ 16) * 2 ^ 80 + unat sno"

lemma unat_offset:
  "unat (or (push_bit 112 (ucast tmln)) (push_bit 32 (ucast sno)) :: 128 word) = seg_offset tmln sno * 2 ^ 32"
proof -
  have s: "unat sno * 2 ^ 32 < 2 ^ 96" using u64_less [of sno] by simp
  have t: "unat tmln mod 2 ^ 16 < 2 ^ 16" by simp
  have "unat (push_bit 112 (ucast tmln) :: 128 word) = (unat tmln mod 2 ^ 16) * 2 ^ 112"
    unfolding push_bit_eq_mult unat_word_ariths unsigned_ucast_eq take_bit_eq_mod
    using u32_less [of tmln] by (simp add: mult_mod_left)
  moreover have "unat (push_bit 32 (ucast sno) :: 128 word) = unat sno * 2 ^ 32"
    using s by (simp add: push_bit_eq_mult unat_word_ariths unsigned_ucast_eq take_bit_eq_mod mult.commute)
  moreover have "or (push_bit 112 (ucast tmln)) (push_bit 32 (ucast sno)) = (push_bit 112 (ucast tmln) + push_bit 32 (ucast sno) :: 128 word)"
    by (rule disjunctive_add_eq_or [symmetric]) (rule bit_word_eqI, use bit_imp_le_length [of sno] in \<open>force simp: bit_simps\<close>)
  moreover have "(unat tmln mod 2 ^ 16) * 2 ^ 112 + unat sno * 2 ^ 32 < 2 ^ 128"
    using s t by simp
  ultimately show ?thesis
    by (simp add: unat_plus_if_size word_size seg_offset_def)
qed

lemma seg_offset_less: "seg_offset tmln sno < 2 ^ 96"
proof -
  have "unat tmln mod 2 ^ 16 < 2 ^ 16" by simp
  then show ?thesis using u64_less [of sno] by (simp add: seg_offset_def)
qed

lemma seg_offset_inject:
  "seg_offset t s = seg_offset t' s' \<longleftrightarrow> unat t mod 2 ^ 16 = unat t' mod 2 ^ 16 \<and> s = s'"
proof
  assume eq: "seg_offset t s = seg_offset t' s'"
  have "unat t mod 2 ^ 16 = unat t' mod 2 ^ 16 \<and> unat s = unat s'"
    using be_digits_inject [OF _ _ eq [unfolded seg_offset_def]] u64_less [of s] u64_less [of s'] by simp
  then show "unat t mod 2 ^ 16 = unat t' mod 2 ^ 16 \<and> s = s'" by (auto intro: unsigned_word_eqI)
qed (auto simp: seg_offset_def)

lemma take_un_be128: "take 12 (un_be128 x) = rev (le_nat 12 (unat x div 2 ^ 32))"
  using le_nat_add [of 4 12 "unat x"] by (simp add: un_be128_def)

lemma high_part_add:
  assumes "unat o' = k * 2 ^ 32"
  shows "unat (b + o' :: 128 word) div 2 ^ 32 = (unat b div 2 ^ 32 + k) mod 2 ^ 96"
proof -
  have "(x mod (m * n)) div m = (x div m) mod n" if "0 < m" for x m n :: nat
    using that by (simp add: mod_mult2_eq)
  from this [of "2 ^ 32" "unat b + k * 2 ^ 32" "2 ^ 96"]
  have "(unat b + k * 2 ^ 32) mod 2 ^ 128 div 2 ^ 32 = (unat b div 2 ^ 32 + k) mod 2 ^ 96"
    by (simp add: ac_simps)
  then show ?thesis
    by (simp only: unat_word_ariths assms) simp
qed

lemma prefix_eq_iff:
  assumes "unat x = k * 2 ^ 32" "unat y = l * 2 ^ 32" "k < 2 ^ 96" "l < 2 ^ 96"
  shows "take 12 (un_be128 (b + x)) = take 12 (un_be128 (b + y)) \<longleftrightarrow> k = l"
proof -
  have "take 12 (un_be128 (b + x)) = take 12 (un_be128 (b + y)) \<longleftrightarrow>
     (unat b div 2 ^ 32 + k) mod 2 ^ 96 = (unat b div 2 ^ 32 + l) mod 2 ^ 96"
    unfolding take_un_be128 rev_is_rev_conv high_part_add [OF assms(1)] high_part_add [OF assms(2)]
    by (rule le_nat_inject) simp_all
  also have "\<dots> \<longleftrightarrow> k = l"
    using mod_add_cancel [OF assms(3,4)] by simp
  finally show ?thesis .
qed

text \<open>
  C30. Two WAL segments get the same keystream under one key only if they have the same number and
  their time lines agree modulo \<open>2\<^sup>16\<close>: the twelve bytes of the IV prefix that enter the cipher
  are equal exactly then.
\<close>

theorem wal_iv_unique:
  "take 12 (CalcXLogPageIVPrefix t s base_iv) = take 12 (CalcXLogPageIVPrefix t' s' base_iv) \<longleftrightarrow>
     s = s' \<and> unat t mod 2 ^ 16 = unat t' mod 2 ^ 16"
  unfolding CalcXLogPageIVPrefix_def Let_def
    prefix_eq_iff [OF unat_offset unat_offset seg_offset_less seg_offset_less] seg_offset_inject
  by auto

end
