(* ===== verification/Tde_WalCrypt.thy ===== *)
theory Tde_WalCrypt
  imports Tde_WalIv Tde_WalKeyFile_Ops
begin

text \<open>
  What the WAL storage manager does to the bytes of a segment. \<open>wal_crypt\<close> is the specification: a byte is
  combined with the keystream byte of its position in the segment if its location lies in an
  encrypted range, and kept otherwise. The loop of \<open>TDEXLogCryptBuffer\<close> over the cached ranges
  implements it, and what is written is what is read.
\<close>

section \<open>Specification\<close>

definition covers :: "WalEncryptionRange \<Rightarrow> WalLocation \<Rightarrow> bool" where
  "covers rg loc \<longleftrightarrow> wal_location_valid (wr_start rg) \<and> wr_type rg = WAL_ENCRYPTION_RANGE_ENCRYPTED \<and>
     wr_start rg \<le> loc \<and> loc < wr_end rg"

text \<open>The position of byte \<open>i\<close> of a buffer that begins at \<open>offset\<close> of a segment of \<open>2 ^ m\<close> bytes.\<close>

definition seg_loc :: "u32 \<Rightarrow> u64 \<Rightarrow> nat \<Rightarrow> nat \<Rightarrow> WalLocation" where
  "seg_loc tmln segno m pos = WalLocation (segno * 2 ^ m + of_nat pos) tmln"

definition wal_ks :: "(bytes \<Rightarrow> bytes \<Rightarrow> bytes) \<Rightarrow> u32 \<Rightarrow> u64 \<Rightarrow> WalEncryptionRange \<Rightarrow> nat \<Rightarrow> byte" where
  "wal_ks F tmln segno rg pos =
     ks_byte F (ik_material (wr_key rg)) (CalcXLogPageIVPrefix tmln segno (ik_base_iv (wr_key rg))) pos"

definition wal_crypt :: "(bytes \<Rightarrow> bytes \<Rightarrow> bytes) \<Rightarrow> WalEncryptionRange list \<Rightarrow> u32 \<Rightarrow> u64 \<Rightarrow> nat \<Rightarrow> nat \<Rightarrow> bytes \<Rightarrow> bytes" where
  "wal_crypt F rgs tmln segno m offset d =
     map (\<lambda>i. case find (\<lambda>rg. covers rg (seg_loc tmln segno m (offset + i))) rgs of
                None \<Rightarrow> d ! i
              | Some rg \<Rightarrow> xor (d ! i) (wal_ks F tmln segno rg (offset + i))) [0..<length d]"

text \<open>A cached range the loop can use, and a list of them in WAL order without overlaps.\<close>

definition rec_ok :: "WALKeyCacheRec \<Rightarrow> bool" where
  "rec_ok r \<longleftrightarrow> wr_start (wc_range r) \<le> wr_end (wc_range r) \<and>
     (wr_type (wc_range r) = WAL_ENCRYPTION_RANGE_ENCRYPTED \<longrightarrow> ik_key_len (wr_key (wc_range r)) \<in> {16, 32}) \<and>
     wc_crypt_ctx r \<in> {None, Some (ik_material (wr_key (wc_range r)))}"

definition ordered :: "WALKeyCacheRec list \<Rightarrow> bool" where
  "ordered rs \<longleftrightarrow> sorted_wrt (\<lambda>a b. wr_end (wc_range a) \<le> wr_start (wc_range b)) rs"

section \<open>Positions\<close>

lemma less_loc: "WalLocation l t < L \<longleftrightarrow> t < tli L \<or> t = tli L \<and> l < lsn L"
  by (auto simp: less_WalLocation_def wal_location_cmp_def)

lemma loc_less: "L < WalLocation l t \<longleftrightarrow> tli L < t \<or> tli L = t \<and> lsn L < l"
  by (auto simp: less_WalLocation_def wal_location_cmp_def)

lemma loc_le: "L \<le> WalLocation l t \<longleftrightarrow> tli L < t \<or> tli L = t \<and> lsn L \<le> l"
  by (auto simp: less_eq_WalLocation_def wal_location_cmp_def)

lemma unat_pos:
  assumes "(unat segno + 1) * 2 ^ m < 2 ^ 64" "p \<le> 2 ^ m"
  shows "unat (segno * 2 ^ m + of_nat p :: u64) = unat segno * 2 ^ m + p"
proof -
  have "unat segno * 2 ^ m + p < 2 ^ 64" using assms by (simp add: algebra_simps)
  moreover have "segno * 2 ^ m + of_nat p = (of_nat (unat segno * 2 ^ m + p) :: u64)" by simp
  ultimately show ?thesis by (simp only: unat_of_nat) simp
qed

lemma XLogSegmentOffset_mod: "unat (XLogSegmentOffset l (2 ^ m)) = unat l mod 2 ^ m"
proof -
  have "(2 ^ m - 1 :: u64) = mask m" by (simp add: mask_eq_exp_minus_1)
  then have "unat (XLogSegmentOffset l (2 ^ m)) = unat (take_bit m l)"
    by (simp only: XLogSegmentOffset_def take_bit_eq_mask [symmetric])
  also have "\<dots> = take_bit m (unat l)" by (rule unsigned_take_bit_eq)
  finally show ?thesis by (simp only: take_bit_eq_mod)
qed

lemma unat_max: "unat (max x y) = max (unat x) (unat y)" and unat_min: "unat (min x y) = min (unat x) (unat y)"
  for x y :: u64
  by (simp_all add: max_def min_def word_le_nat_alt)

lemma max_shift: "max (P + q) s = P + max q (s - P)" for P q s :: nat
  by (auto simp: max_def)

lemma unat_eq_of_nat: "unat w = n \<Longrightarrow> w = of_nat n"
  by auto

lemma ucast_of_nat: "(ucast (of_nat x :: u64) :: u32) = of_nat x"
  by (rule unsigned_word_eqI) (simp add: unsigned_ucast_eq unsigned_of_nat take_bit_of_nat)

text \<open>The part of a buffer that the range of a key covers, as an interval of positions in the segment.\<close>

definition from_pos :: "u32 \<Rightarrow> u64 \<Rightarrow> nat \<Rightarrow> nat \<Rightarrow> WalLocation \<Rightarrow> nat" where
  "from_pos tmln segno m offset start =
     (if tmln > tli start then offset else max offset (unat (lsn start) - unat segno * 2 ^ m))"

definition to_pos :: "u32 \<Rightarrow> u64 \<Rightarrow> nat \<Rightarrow> nat \<Rightarrow> WalLocation \<Rightarrow> nat" where
  "to_pos tmln segno m last' end' =
     (if tmln < tli end' then last' else min last' (unat (lsn end') - unat segno * 2 ^ m))"

lemma covers_interval:
  assumes seg: "(unat segno + 1) * 2 ^ m < 2 ^ 64" and pos: "offset \<le> p" "p < last'" "last' \<le> 2 ^ m"
    and ov: "seg_loc tmln segno m offset < E" "S < seg_loc tmln segno m last'"
  shows "S \<le> seg_loc tmln segno m p \<and> seg_loc tmln segno m p < E \<longleftrightarrow>
     from_pos tmln segno m offset S \<le> p \<and> p < to_pos tmln segno m last' E"
proof -
  have u: "unat (segno * 2 ^ m + of_nat q :: u64) = unat segno * 2 ^ m + q" if "q \<le> 2 ^ m" for q
    using unat_pos [OF seg that] .
  have ups: "unat (segno * 2 ^ m + of_nat p :: u64) = unat segno * 2 ^ m + p"
    "unat (segno * 2 ^ m + of_nat offset :: u64) = unat segno * 2 ^ m + offset"
    "unat (segno * 2 ^ m + of_nat last' :: u64) = unat segno * 2 ^ m + last'"
    using pos by (simp_all only: u)
  show ?thesis
    using ov pos unfolding seg_loc_def less_loc loc_le loc_less from_pos_def to_pos_def word_less_nat_alt word_le_nat_alt ups
    by (auto simp: word_less_nat_alt [symmetric])
qed

section \<open>One range\<close>

definition crypt_part :: "(nat \<Rightarrow> byte) \<Rightarrow> nat \<Rightarrow> nat \<Rightarrow> nat \<Rightarrow> bytes \<Rightarrow> bytes \<Rightarrow> bytes" where
  "crypt_part ks offset a b src out =
     map (\<lambda>i. if a \<le> offset + i \<and> offset + i < b then xor (src ! i) (ks (offset + i)) else out ! i) [0..<length out]"

lemma stream_crypt_part:
  assumes ev: "ecb_is ev F" and iv: "12 \<le> length iv" and b: "b \<le> 2 ^ 30" and ab: "offset \<le> a" "a \<le> b"
    and key: "key_len = 16 \<or> key_len = 32" and ctx: "ctx = None \<or> ctx = Some (take (nat key_len) key)"
    and len: "b \<le> offset + length out" and data: "case data of None \<Rightarrow> src = out | Some d \<Rightarrow> src = d \<and> b \<le> offset + length d"
  shows "\<exists>ctx' o_buf. open_pg_tde_stream_crypt ev iv (of_nat a) (map_option (drop (a - offset)) data) (of_nat (b - a))
       (drop (a - offset) out) key key_len ctx = (Inr o_buf, ctx') \<and>
     (ctx' = None \<or> ctx' = Some (take (nat key_len) key)) \<and>
     take (a - offset) out @ o_buf = crypt_part (ks_byte F (take (nat key_len) key) iv) offset a b src out"
proof -
  let ?k = "a - offset" and ?K = "take (nat key_len) key"
  let ?src = "take (b - a) (drop ?k src)"
  have len_src: "length ?src = b - a" using len data ab by (cases data) auto
  have le: "b - a \<le> length (drop ?k out)" using len ab by simp
  have un: "unat (of_nat a :: u32) = a" "unat (of_nat (b - a) :: u32) = b - a"
    using ab b by (simp_all only: unat_of_nat) simp_all
  obtain ctx' where c: "open_pg_tde_stream_crypt ev iv (of_nat a) (map_option (drop ?k) data) (of_nat (b - a)) (drop ?k out) key key_len ctx
      = (Inr (stream_ref F ?K iv a ?src @ drop (b - a) (drop ?k out)), ctx')" "ctx' = None \<or> ctx' = Some ?K"
    using stream_crypt_ref [OF ev iv _ key ctx, where start = "of_nat a" and len = "of_nat (b - a)" and src = ?src
        and out = "drop ?k out" and data = "map_option (drop ?k) data"] un len_src le data ab b
    by (cases data) (auto simp del: of_nat_diff)
  have "take ?k out @ stream_ref F ?K iv a ?src @ drop (b - a) (drop ?k out) = crypt_part (ks_byte F ?K iv) offset a b src out"
  proof (rule nth_equalityI)
    show "length (take ?k out @ stream_ref F ?K iv a ?src @ drop (b - a) (drop ?k out)) = length (crypt_part (ks_byte F ?K iv) offset a b src out)"
      using len len_src ab by (simp add: crypt_part_def)
    fix i assume i: "i < length (take ?k out @ stream_ref F ?K iv a ?src @ drop (b - a) (drop ?k out))"
    show "(take ?k out @ stream_ref F ?K iv a ?src @ drop (b - a) (drop ?k out)) ! i = crypt_part (ks_byte F ?K iv) offset a b src out ! i"
      using i len len_src ab by (auto simp: crypt_part_def stream_ref_def nth_append add.commute)
  qed
  with c show ?thesis by auto
qed

lemma length_CalcXLogPageIVPrefix: "length (CalcXLogPageIVPrefix tmln segno iv) = 16"
  by (simp add: CalcXLogPageIVPrefix_def un_be128_def Let_def)

lemma material_take: "take (nat (uint (ik_key_len k))) (ik_key k) = ik_material k"
  by (simp add: ik_material_def)

lemma key_len_uint: "ik_key_len k \<in> {16, 32} \<Longrightarrow> uint (ik_key_len k) = 16 \<or> uint (ik_key_len k) = 32"
  by auto

text \<open>What a turn of the loop computes with the range: the interval of positions, in 64-bit arithmetic.\<close>

lemma turn_interval:
  assumes m: "m \<le> 30" and seg: "(unat segno + 1) * 2 ^ m < 2 ^ 64" and n: "0 < n" "offset + n \<le> 2 ^ m"
    and ov: "seg_loc tmln segno m offset < E" "S < seg_loc tmln segno m (offset + n)" and SE: "S \<le> E"
  defines "a \<equiv> from_pos tmln segno m offset S" and "b \<equiv> to_pos tmln segno m (offset + n) E"
  shows "offset \<le> a" "a \<le> b" "b \<le> offset + n"
    and "XLogSegmentOffset (if tmln > tli S then lsn (seg_loc tmln segno m offset) else max (lsn (seg_loc tmln segno m offset)) (lsn S)) (2 ^ m) = of_nat a"
    and "(let e = XLogSegmentOffset (if tmln < tli E then lsn (seg_loc tmln segno m (offset + n))
            else min (lsn (seg_loc tmln segno m (offset + n))) (lsn E)) (2 ^ m)
          in if e = 0 then of_nat (offset + n) else e) = of_nat b"
proof -
  let ?P = "unat segno * 2 ^ m"
  have u: "unat (lsn (seg_loc tmln segno m q)) = ?P + q" if "q \<le> 2 ^ m" for q
    using unat_pos [OF seg that] by (simp add: seg_loc_def)
  have uo: "unat (lsn (seg_loc tmln segno m offset)) = ?P + offset"
    and ul: "unat (lsn (seg_loc tmln segno m (offset + n))) = ?P + (offset + n)" using n by (simp_all add: u)
  have tl: "tli (seg_loc tmln segno m q) = tmln" for q by (simp add: seg_loc_def)
  have lt: "x < y \<longleftrightarrow> tli x < tli y \<or> tli x = tli y \<and> unat (lsn x) < unat (lsn y)" for x y
    by (cases x) (simp add: less_loc word_less_nat_alt [where ?'a = 64])
  have le: "x \<le> y \<longleftrightarrow> tli x < tli y \<or> tli x = tli y \<and> unat (lsn x) \<le> unat (lsn y)" for x y
    by (cases y) (simp add: loc_le word_le_nat_alt [where ?'a = 64])
  note facts = ov [unfolded lt tl uo ul] SE [unfolded le] n
  show 1: "offset \<le> a" "b \<le> offset + n" unfolding a_def b_def from_pos_def to_pos_def by auto
  show ab: "a \<le> b" unfolding a_def b_def from_pos_def to_pos_def using facts by auto
  have a: "unat (if tmln > tli S then lsn (seg_loc tmln segno m offset) else max (lsn (seg_loc tmln segno m offset)) (lsn S)) = ?P + a"
    unfolding a_def from_pos_def by (simp add: unat_max uo max_shift)
  have b: "unat (if tmln < tli E then lsn (seg_loc tmln segno m (offset + n))
            else min (lsn (seg_loc tmln segno m (offset + n))) (lsn E)) = ?P + b"
    unfolding b_def to_pos_def using facts by (auto simp: unat_min ul)
  have m30: "(2 :: nat) ^ m \<le> 2 ^ 30" using m by (rule power_increasing) simp
  have am: "a < 2 ^ m" unfolding a_def from_pos_def using facts by auto
  show "XLogSegmentOffset (if tmln > tli S then lsn (seg_loc tmln segno m offset) else max (lsn (seg_loc tmln segno m offset)) (lsn S)) (2 ^ m) = of_nat a"
    by (rule unat_eq_of_nat) (use am in \<open>simp only: XLogSegmentOffset_mod a mod_mult_self3 mod_less\<close>)
  let ?e = "XLogSegmentOffset (if tmln < tli E then lsn (seg_loc tmln segno m (offset + n))
            else min (lsn (seg_loc tmln segno m (offset + n))) (lsn E)) (2 ^ m)"
  have e: "unat ?e = b mod 2 ^ m" by (simp add: XLogSegmentOffset_mod b)
  have "0 < b" unfolding b_def to_pos_def using facts by auto
  show "(let e = ?e in if e = 0 then of_nat (offset + n) else e) = of_nat b"
  proof (cases "b = 2 ^ m")
    case True
    with 1 n have "b = offset + n" by simp
    with True e show ?thesis by (simp add: unat_eq_0 [symmetric])
  next
    case False
    with 1 n have "b < 2 ^ m" by simp
    with e \<open>0 < b\<close> have ub: "unat ?e = b" by simp
    with \<open>0 < b\<close> have "?e \<noteq> 0" by (metis unsigned_0 less_numeral_extra(3))
    moreover have "?e = of_nat b" by (rule unat_eq_of_nat) (rule ub)
    ultimately show ?thesis by (simp add: Let_def)
  qed
qed

lemma seg_loc_less:
  assumes "(unat segno + 1) * 2 ^ m < 2 ^ 64" "p < q" "q \<le> 2 ^ m"
  shows "seg_loc tmln segno m p < seg_loc tmln segno m q"
  using assms by (simp add: seg_loc_def less_loc word_less_nat_alt unat_pos)

text \<open>One turn of the loop.\<close>

lemma crypt_with_key_ok:
  assumes ev: "ecb_is ev F" and m: "m \<le> 30" and seg: "(unat segno + 1) * 2 ^ m < 2 ^ 64"
    and n: "0 < n" "offset + n \<le> 2 ^ m" and r: "rec_ok r" and len: "length out = n"
    and data: "case data of None \<Rightarrow> src = out | Some d \<Rightarrow> src = d \<and> length d = n"
  shows "\<exists>ctx'. crypt_with_key ev data (of_nat n) (of_nat offset) tmln segno (2 ^ m) r out =
     (Inr (map (\<lambda>i. if covers (wc_range r) (seg_loc tmln segno m (offset + i))
                    then xor (src ! i) (wal_ks F tmln segno (wc_range r) (offset + i)) else out ! i) [0..<n]), ctx') \<and>
     ctx' \<in> {None, Some (ik_material (wr_key (wc_range r)))}"
proof -
  let ?rg = "wc_range r" and ?D = "seg_loc tmln segno m offset" and ?L = "seg_loc tmln segno m (offset + n)"
  let ?out = "map (\<lambda>i. if covers ?rg (seg_loc tmln segno m (offset + i))
                    then xor (src ! i) (wal_ks F tmln segno ?rg (offset + i)) else out ! i) [0..<n]"
  have D: "WalLocation (XLogSegNoOffsetToRecPtr segno (of_nat offset) (2 ^ m)) tmln = ?D"
    "WalLocation (XLogSegNoOffsetToRecPtr segno (of_nat offset + of_nat n) (2 ^ m)) tmln = ?L"
    by (simp_all add: seg_loc_def XLogSegNoOffsetToRecPtr_def)
  have ctx: "wc_crypt_ctx r = None \<or> wc_crypt_ctx r = Some (ik_material (wr_key ?rg))"
    and SE: "wr_start ?rg \<le> wr_end ?rg"
    using r by (auto simp: rec_ok_def)
  show ?thesis
  proof (cases "wal_location_valid (wr_start ?rg) \<and> wr_type ?rg = WAL_ENCRYPTION_RANGE_ENCRYPTED \<and> ?D < wr_end ?rg \<and> wr_start ?rg < ?L")
    case False
    have "\<not> covers ?rg (seg_loc tmln segno m (offset + i))" if "i < n" for i
    proof
      assume c: "covers ?rg (seg_loc tmln segno m (offset + i))"
      have "seg_loc tmln segno m (offset + i) < ?L" using seg_loc_less [OF seg] that n by simp
      moreover have "?D \<le> seg_loc tmln segno m (offset + i)"
        using seg_loc_less [OF seg, of offset "offset + i"] that n by (cases "i = 0") (simp_all add: order_less_imp_le)
      ultimately have "?D < wr_end ?rg" "wr_start ?rg < ?L" using c by (auto simp: covers_def)
      with False c show False by (auto simp: covers_def)
    qed
    then have "?out = out" using len by (auto intro: nth_equalityI)
    then show ?thesis using False ctx
      unfolding crypt_with_key_def Let_def D wal_location_cmp_order by auto
  next
    case True
    have k: "uint (ik_key_len (wr_key ?rg)) = 16 \<or> uint (ik_key_len (wr_key ?rg)) = 32"
      using r True key_len_uint [of "wr_key ?rg"] by (simp add: rec_ok_def)
    define a where "a = from_pos tmln segno m offset (wr_start ?rg)"
    define b where "b = to_pos tmln segno m (offset + n) (wr_end ?rg)"
    have ab: "offset \<le> a" "a \<le> b" "b \<le> offset + n"
      using turn_interval(1-3) [OF m seg n _ _ SE, of tmln] True by (auto simp: a_def b_def)
    have st: "XLogSegmentOffset (if tmln > tli (wr_start ?rg) then lsn ?D else max (lsn ?D) (lsn (wr_start ?rg))) (2 ^ m) = of_nat a"
      using turn_interval(4) [OF m seg n _ _ SE, of tmln] True by (simp add: a_def)
    have en: "(if XLogSegmentOffset (if tmln < tli (wr_end ?rg) then lsn ?L else min (lsn ?L) (lsn (wr_end ?rg))) (2 ^ m) = 0
        then of_nat offset + of_nat n
        else XLogSegmentOffset (if tmln < tli (wr_end ?rg) then lsn ?L else min (lsn ?L) (lsn (wr_end ?rg))) (2 ^ m)) = of_nat b"
      using turn_interval(5) [OF m seg n _ _ SE, of tmln] True unfolding b_def Let_def of_nat_add by blast
    have m30: "(2 :: nat) ^ m \<le> 2 ^ 30" using m by (rule power_increasing) simp
    have cov: "covers ?rg (seg_loc tmln segno m (offset + i)) \<longleftrightarrow> a \<le> offset + i \<and> offset + i < b" if "i < n" for i
      using covers_interval [OF seg, of offset "offset + i" "offset + n" tmln "wr_end ?rg" "wr_start ?rg"] that n True
      by (simp add: covers_def a_def b_def)
    have w: "(of_nat b - of_nat a :: u64) = of_nat (b - a)" using ab by simp
    have ao: "unat (of_nat a - of_nat offset :: u64) = a - offset"
      using of_nat_diff [OF ab(1), where ?'a = u64, symmetric] ab n m30 by (simp only: unat_of_nat) simp
    let ?iv = "CalcXLogPageIVPrefix tmln segno (ik_base_iv (wr_key ?rg))"
    have len_b: "b \<le> offset + length out" "case data of None \<Rightarrow> src = out | Some d \<Rightarrow> src = d \<and> b \<le> offset + length d"
      using ab len data by (auto split: option.splits)
    obtain ctx' o_buf where c: "open_pg_tde_stream_crypt ev ?iv (of_nat a) (map_option (drop (a - offset)) data) (of_nat (b - a))
        (drop (a - offset) out) (ik_key (wr_key ?rg)) (uint (ik_key_len (wr_key ?rg))) (wc_crypt_ctx r) = (Inr o_buf, ctx')"
      "ctx' = None \<or> ctx' = Some (ik_material (wr_key ?rg))"
      "take (a - offset) out @ o_buf = crypt_part (ks_byte F (ik_material (wr_key ?rg)) ?iv) offset a b src out"
      using stream_crypt_part [OF ev _ _ ab(1,2) k _ len_b, of ?iv "wc_crypt_ctx r" "ik_key (wr_key ?rg)"] ctx ab n m30
      unfolding material_take length_CalcXLogPageIVPrefix by fastforce
    have o: "crypt_part (ks_byte F (ik_material (wr_key ?rg)) ?iv) offset a b src out = ?out"
      using cov len by (auto simp: crypt_part_def wal_ks_def)
    show ?thesis
      using True c(1,2) unfolding crypt_with_key_def Let_def D wal_location_cmp_order st en w ucast_of_nat ao c(3) [unfolded o]
      by (simp add: c(3) o del: of_nat_diff)
  qed
qed

section \<open>All ranges\<close>

definition wal_crypt_into ::
  "(bytes \<Rightarrow> bytes \<Rightarrow> bytes) \<Rightarrow> WalEncryptionRange list \<Rightarrow> u32 \<Rightarrow> u64 \<Rightarrow> nat \<Rightarrow> nat \<Rightarrow> bytes \<Rightarrow> bytes \<Rightarrow> bytes" where
  "wal_crypt_into F rgs tmln segno m offset src out =
     map (\<lambda>i. case find (\<lambda>rg. covers rg (seg_loc tmln segno m (offset + i))) rgs of
                None \<Rightarrow> out ! i
              | Some rg \<Rightarrow> xor (src ! i) (wal_ks F tmln segno rg (offset + i))) [0..<length out]"

lemma wal_crypt_into_same: "wal_crypt_into F rgs tmln segno m offset d d = wal_crypt F rgs tmln segno m offset d"
  by (simp add: wal_crypt_into_def wal_crypt_def)

lemma ordered_disjoint:
  assumes "ordered (r # rs)" "r' \<in> set rs" "covers (wc_range r) loc"
  shows "\<not> covers (wc_range r') loc"
  using assms by (fastforce simp: ordered_def covers_def)

lemma wal_crypt_into_step:
  assumes "ordered (r # rs)"
    and that: "\<And>i. i < length out \<Longrightarrow> \<not> covers (wc_range r) (seg_loc tmln segno m (offset + i)) \<Longrightarrow> src' ! i = src ! i"
  shows "wal_crypt_into F (map wc_range (r # rs)) tmln segno m offset src out =
     wal_crypt_into F (map wc_range rs) tmln segno m offset src'
       (map (\<lambda>i. if covers (wc_range r) (seg_loc tmln segno m (offset + i))
                 then xor (src ! i) (wal_ks F tmln segno (wc_range r) (offset + i)) else out ! i) [0..<length out])"
    (is "?l = wal_crypt_into _ _ _ _ _ _ _ ?o")
proof (rule nth_equalityI)
  show "length ?l = length (wal_crypt_into F (map wc_range rs) tmln segno m offset src' ?o)"
    by (simp add: wal_crypt_into_def)
  fix i assume i: "i < length ?l"
  then have i': "i < length out" by (simp add: wal_crypt_into_def)
  show "?l ! i = wal_crypt_into F (map wc_range rs) tmln segno m offset src' ?o ! i"
  proof (cases "covers (wc_range r) (seg_loc tmln segno m (offset + i))")
    case True
    then have "find (\<lambda>rg. covers rg (seg_loc tmln segno m (offset + i))) (map wc_range rs) = None"
      using ordered_disjoint [OF assms(1)] by (auto simp: find_None_iff)
    with True i' show ?thesis by (simp add: wal_crypt_into_def)
  next
    case False
    with i' that [of i] show ?thesis by (simp add: wal_crypt_into_def split: option.splits)
  qed
qed

lemma crypt_keys_ok:
  assumes ev: "ecb_is ev F" and m: "m \<le> 30" and seg: "(unat segno + 1) * 2 ^ m < 2 ^ 64"
    and n: "0 < n" "offset + n \<le> 2 ^ m"
  shows "ordered rs \<Longrightarrow> \<forall>r\<in>set rs. rec_ok r \<Longrightarrow> length out = n \<Longrightarrow>
     case data of None \<Rightarrow> src = out | Some d \<Rightarrow> src = d \<and> length d = n \<Longrightarrow>
     \<exists>rs'. crypt_keys ev data (of_nat n) (of_nat offset) tmln segno (2 ^ m) rs out =
       (Inr (wal_crypt_into F (map wc_range rs) tmln segno m offset src out), rs') \<and>
       map wc_range rs' = map wc_range rs \<and> (\<forall>r\<in>set rs'. rec_ok r)"
proof (induction rs arbitrary: out src)
  case Nil
  then show ?case using map_nth [of out] by (simp add: wal_crypt_into_def)
next
  case (Cons r rs)
  let ?o = "map (\<lambda>i. if covers (wc_range r) (seg_loc tmln segno m (offset + i))
                 then xor (src ! i) (wal_ks F tmln segno (wc_range r) (offset + i)) else out ! i) [0..<n]"
  let ?src = "case data of None \<Rightarrow> ?o | Some d \<Rightarrow> d"
  obtain ctx' where c: "crypt_with_key ev data (of_nat n) (of_nat offset) tmln segno (2 ^ m) r out = (Inr ?o, ctx')"
      "ctx' \<in> {None, Some (ik_material (wr_key (wc_range r)))}"
    using crypt_with_key_ok [OF ev m seg n, of r out src data tmln] Cons.prems by auto
  obtain rs' where k: "crypt_keys ev data (of_nat n) (of_nat offset) tmln segno (2 ^ m) rs ?o =
       (Inr (wal_crypt_into F (map wc_range rs) tmln segno m offset ?src ?o), rs')"
       "map wc_range rs' = map wc_range rs" "\<forall>r\<in>set rs'. rec_ok r"
    using Cons.IH [of ?o ?src] Cons.prems by (auto simp: ordered_def split: option.splits)
  have "wal_crypt_into F (map wc_range (r # rs)) tmln segno m offset src out =
      wal_crypt_into F (map wc_range rs) tmln segno m offset ?src ?o"
    using wal_crypt_into_step [OF Cons.prems(1), of out tmln segno m offset ?src src F] Cons.prems
    by (auto split: option.splits)
  moreover have "rec_ok (r\<lparr>wc_crypt_ctx := ctx'\<rparr>)" using c(2) Cons.prems by (simp add: rec_ok_def)
  ultimately show ?case using c(1) k by simp
qed

lemma find_covering:
  assumes "ordered rs" "r \<in> set rs" "covers (wc_range r) loc"
  shows "find (\<lambda>rg. covers rg loc) (map wc_range rs) = Some (wc_range r)"
  using assms
proof (induction rs)
  case (Cons r' rs)
  show ?case
  proof (cases "r = r'")
    case False
    with Cons.prems have "r \<in> set rs" by simp
    then have "\<not> covers (wc_range r') loc" using ordered_disjoint [OF Cons.prems(1)] Cons.prems(3) by blast
    with \<open>r \<in> set rs\<close> Cons show ?thesis by (simp add: ordered_def)
  qed (use Cons.prems in simp)
qed simp

text \<open>The reader has the keys of everything written so far.\<close>

definition keys_current :: "world \<Rightarrow> bool" where
  "keys_current w \<longleftrightarrow> tde_wal_key_cache w \<noteq> [] \<and>
     (enc_key_lsn w = 0 \<or> WalLocation (enc_key_lsn w) (enc_key_tli w) \<le> wr_start (wc_range (last (tde_wal_key_cache w))))"

definition cache_ok :: "world \<Rightarrow> bool" where
  "cache_ok w \<longleftrightarrow> ordered (tde_wal_key_cache w) \<and> (\<forall>r\<in>set (tde_wal_key_cache w). rec_ok r)"

lemma crypt_buffer_keys_current: "keys_current w \<Longrightarrow> crypt_buffer_keys ev w = (Inr (Some 0), w)"
  by (auto simp: crypt_buffer_keys_def keys_current_def open_pg_tde_get_wal_cache_keys_def open_pg_tde_get_last_wal_key_def
      TDEXLogGetEncKeyLsn_def TDEXLogGetEncKeyTli_def wal_location_cmp_order runM not_less)

lemma crypt_buffer_ok:
  assumes "ecb_is ev F" "m \<le> 30" "(unat segno + 1) * 2 ^ m < 2 ^ 64" "buf \<noteq> []" "offset + length buf \<le> 2 ^ m"
    and "keys_current w" "cache_ok w" and data: "data = None \<or> data = Some buf"
  shows "\<exists>rs'. TDEXLogCryptBuffer ev data buf (of_nat (length buf)) (of_nat offset) tmln segno (2 ^ m) w =
     (Inr (wal_crypt F (map wc_range (tde_wal_key_cache w)) tmln segno m offset buf), w\<lparr>tde_wal_key_cache := rs'\<rparr>) \<and>
     map wc_range rs' = map wc_range (tde_wal_key_cache w) \<and> (\<forall>r\<in>set rs'. rec_ok r)"
proof -
  obtain rs' where "crypt_keys ev data (of_nat (length buf)) (of_nat offset) tmln segno (2 ^ m) (tde_wal_key_cache w) buf =
       (Inr (wal_crypt F (map wc_range (tde_wal_key_cache w)) tmln segno m offset buf), rs')"
       "map wc_range rs' = map wc_range (tde_wal_key_cache w)" "\<forall>r\<in>set rs'. rec_ok r"
    using crypt_keys_ok [OF assms(1-3), of "length buf" offset "tde_wal_key_cache w" buf buf data tmln] assms(4,5,7) data
    unfolding wal_crypt_into_same cache_ok_def by auto
  then show ?thesis
    by (intro exI [of _ rs']) (simp add: TDEXLogCryptBuffer_def runM crypt_buffer_keys_current [OF assms(6)])
qed

section \<open>Properties\<close>

text \<open>
  C2. \<open>TDEXLogCryptBuffer\<close> implements the specification: with ordered ranges that are up to date, a byte whose
  location lies in an encrypted range is combined with the keystream byte of its position in the segment
  under that range's key, every other byte is kept, in place as well as into a copy, wherever the
  buffer begins and ends; the cached ranges stay as they are. The segment size is a power of
  two of at most 1 GB and the segment does not reach the end of the 64-bit WAL address space.
\<close>

theorem wal_crypt_buffer_correct:
  assumes "ecb_is ev F" "m \<le> 30" "(unat segno + 1) * 2 ^ m < 2 ^ 64" "buf \<noteq> []" "offset + length buf \<le> 2 ^ m"
    and "keys_current w" "cache_ok w" and "data = None \<or> data = Some buf"
  shows "\<exists>w'. TDEXLogCryptBuffer ev data buf (of_nat (length buf)) (of_nat offset) tmln segno (2 ^ m) w =
     (Inr (wal_crypt F (map wc_range (tde_wal_key_cache w)) tmln segno m offset buf), w') \<and>
     map wc_range (tde_wal_key_cache w') = map wc_range (tde_wal_key_cache w) \<and> cache_ok w'"
proof -
  obtain rs' where c: "TDEXLogCryptBuffer ev data buf (of_nat (length buf)) (of_nat offset) tmln segno (2 ^ m) w =
     (Inr (wal_crypt F (map wc_range (tde_wal_key_cache w)) tmln segno m offset buf), w\<lparr>tde_wal_key_cache := rs'\<rparr>)"
     "map wc_range rs' = map wc_range (tde_wal_key_cache w)" "\<forall>r\<in>set rs'. rec_ok r"
    using crypt_buffer_ok [OF assms] by blast
  have "ordered rs \<longleftrightarrow> sorted_wrt (\<lambda>a b. wr_end a \<le> wr_start b) (map wc_range rs)" for rs
    by (simp add: ordered_def sorted_wrt_map)
  with c assms(7) have "cache_ok (w\<lparr>tde_wal_key_cache := rs'\<rparr>)" by (simp add: cache_ok_def)
  with c show ?thesis by auto
qed

definition demo_wal_ranges :: "WALKeyCacheRec list" where
  "demo_wal_ranges = [
     \<lparr>wc_range = \<lparr>wr_type = 1, wr_key = demo_key0\<lparr>ik_key_len := 16\<rparr>, wr_start = WalLocation 1 1, wr_end = WalLocation 0x1000002 1\<rparr>, wc_crypt_ctx = None\<rparr>,
     \<lparr>wc_range = \<lparr>wr_type = 2, wr_key = demo_key0\<lparr>ik_key_len := 16\<rparr>, wr_start = WalLocation 0x1000002 1, wr_end = max_location\<rparr>, wc_crypt_ctx = None\<rparr>]"

definition demo_wal_world :: world where
  "demo_wal_world = demo_world\<lparr>tde_wal_key_cache := demo_wal_ranges, enc_key_lsn := 0x1000002, enc_key_tli := 1,
     CurrentWalEncryptionRange := wc_range (demo_wal_ranges ! 1)\<rparr>"

lemma demo_wal_world_ok: "keys_current demo_wal_world" "cache_ok demo_wal_world"
  by (simp_all add: demo_wal_world_def keys_current_def cache_ok_def demo_wal_ranges_def ordered_def rec_ok_def
      max_location_def MaxXLogRecPtr_def MaxTimeLineID_def loc_le less_eq_WalLocation_def wal_location_cmp_def)

theorem wal_crypt_buffer_correct_witness:
  "\<exists>w'. TDEXLogCryptBuffer demo_env None [7, 7, 7, 7] (of_nat 4) (of_nat 0) 1 1 (2 ^ 24) demo_wal_world =
     (Inr (wal_crypt demo_F (map wc_range demo_wal_ranges) 1 1 24 0 [7, 7, 7, 7]), w')"
  using wal_crypt_buffer_correct [OF demo_ecb_is, of 24 1 "[7, 7, 7, 7]" 0 demo_wal_world None 1] demo_wal_world_ok
  by (auto simp: demo_wal_world_def)

section \<open>Writing and reading segments\<close>

lemma stream_crypt_whole:
  assumes ev: "ecb_is ev F" and k: "ik_key_len k \<in> {16, 32}" and ctx: "ctx \<in> {None, Some (ik_material k)}"
    and n: "offset + length d \<le> 2 ^ 30" "length out = length d" and iv: "length iv = 16"
  shows "\<exists>ctx'. open_pg_tde_stream_crypt ev iv (of_nat offset) (Some d) (of_nat (length d)) out (ik_key k) (uint (ik_key_len k)) ctx =
     (Inr (stream_ref F (ik_material k) iv offset d), ctx')"
proof -
  have un: "unat (of_nat offset :: u32) = offset" "unat (of_nat (length d) :: u32) = length d"
    using n by (simp_all add: unat_of_nat)
  have ctx': "ctx = None \<or> ctx = Some (take (nat (uint (ik_key_len k))) (ik_key k))"
    using ctx by (simp only: material_take) auto
  have b: "unat (of_nat offset :: u32) + unat (of_nat (length d) :: u32) + 15 < 2 ^ 32" using n un by simp
  show ?thesis
    using stream_crypt_ref [OF ev _ b key_len_uint [OF k] ctx', of iv d out "Some d", unfolded un material_take] n iv
    by auto
qed

lemma wal_crypt_under_one_range:
  assumes "ordered rs" "r \<in> set rs" "wr_key (wc_range r) = k"
    and "\<forall>i<length d. covers (wc_range r) (seg_loc tmln segno m (offset + i))"
  shows "wal_crypt F (map wc_range rs) tmln segno m offset d =
     stream_ref F (ik_material k) (CalcXLogPageIVPrefix tmln segno (ik_base_iv k)) offset d"
  using assms(3,4) find_covering [OF assms(1,2)]
  by (auto simp: wal_crypt_def stream_ref_def wal_ks_def)

text \<open>
  C7. What is written to an encrypted part of the WAL is what is read back: of a buffer written by
  \<open>tdeheap_xlog_seg_write\<close> under the current write key, whose location is not past the buffer, exactly the
  ciphertext is put at the offset, the buffer combined with the keystream of the position in the segment under that key,
  and no other file changes; and every process whose cached ranges are in order and up to date and contain a range with
  that key around the buffer gets the same bytes from \<open>tdeheap_xlog_seg_read\<close>. No disk failure during the write is assumed.
\<close>

theorem wal_write_read:
  assumes ev: "ecb_is ev F" and seg: "m \<le> 30" "(unat segno + 1) * 2 ^ m < 2 ^ 64" "buf \<noteq> []" "offset + length buf \<le> 2 ^ m"
    and rg: "wr_type (CurrentWalEncryptionRange w) = WAL_ENCRYPTION_RANGE_ENCRYPTED"
      "ik_key_len (wr_key (CurrentWalEncryptionRange w)) \<in> {16, 32}"
      "EncryptionCryptCtx w \<in> {None, Some (ik_material (wr_key (CurrentWalEncryptionRange w)))}"
    and key: "enc_key_lsn w \<noteq> 0" "WalLocation (enc_key_lsn w) (enc_key_tli w) \<le> seg_loc tmln segno m offset" "io w = []"
    and reader: "disk w2 fd = disk (snd (tdeheap_xlog_seg_write ev fd buf (of_nat offset) tmln segno (2 ^ m) w)) fd"
      "keys_current w2" "cache_ok w2" "r \<in> set (tde_wal_key_cache w2)"
      "wr_key (wc_range r) = wr_key (CurrentWalEncryptionRange w)"
      "\<forall>i<length buf. covers (wc_range r) (seg_loc tmln segno m (offset + i))"
    and old: "length old = length buf"
  shows "fst (tdeheap_xlog_seg_write ev fd buf (of_nat offset) tmln segno (2 ^ m) w) = Inr (int (length buf)) \<and>
     disk (snd (tdeheap_xlog_seg_write ev fd buf (of_nat offset) tmln segno (2 ^ m) w)) =
       (disk w)(fd \<mapsto> pwrite (file_bytes w fd)
          (stream_ref F (ik_material (wr_key (CurrentWalEncryptionRange w)))
             (CalcXLogPageIVPrefix tmln segno (ik_base_iv (wr_key (CurrentWalEncryptionRange w)))) offset buf) offset) \<and>
     fst (tdeheap_xlog_seg_read ev fd old (of_nat offset) tmln segno (2 ^ m) w2) = Inr (int (length buf), buf)"
proof -
  let ?k = "wr_key (CurrentWalEncryptionRange w)"
  let ?iv = "CalcXLogPageIVPrefix tmln segno (ik_base_iv ?k)"
  let ?ct = "stream_ref F (ik_material ?k) ?iv offset buf"
  have m30: "(2 :: nat) ^ m \<le> 2 ^ 30" using seg(1) by (rule power_increasing) simp
  have un: "unat (of_nat offset :: u32) = offset" "unat (of_nat (length buf) :: u32) = length buf" "unat (of_nat offset :: u64) = offset"
    using seg m30 by (simp_all add: unat_of_nat)
  obtain ctx where c: "open_pg_tde_stream_crypt ev ?iv (of_nat offset) (Some buf) (of_nat (length buf)) (garbage ev (length buf))
       (ik_key ?k) (uint (ik_key_len ?k)) (EncryptionCryptCtx w) = (Inr ?ct, ctx)"
    using stream_crypt_whole [OF ev rg(2,3), of offset buf "garbage ev (length buf)" ?iv] seg m30
    by (auto simp: length_CalcXLogPageIVPrefix)
  have loc: "WalLocation (XLogSegNoOffsetToRecPtr segno (of_nat offset) (2 ^ m)) tmln = seg_loc tmln segno m offset"
    by (simp add: seg_loc_def XLogSegNoOffsetToRecPtr_def)
  have ens: "tde_ensure_xlog_key_location ev (seg_loc tmln segno m offset) w = (Inr True, w)"
    using key by (simp add: tde_ensure_xlog_key_location_def runM TDEXLogGetEncKeyLsn_def TDEXLogGetEncKeyTli_def
        wal_location_cmp_order Let_def)
  have wr: "tdeheap_xlog_seg_write ev fd buf (of_nat offset) tmln segno (2 ^ m) w =
      (Inr (int (length buf)), set_file fd (pwrite (file_bytes w fd) ?ct offset) (w\<lparr>EncryptionCryptCtx := ctx\<rparr>))"
    unfolding tdeheap_xlog_seg_write_def Let_def loc
    using rg(1) key(3) by (simp add: runM ens TDEXLogWriteEncryptedPages_def ucast_of_nat c pg_pwrite_def un Let_def file_bytes_def)
  have ne: "?ct \<noteq> []" using seg(3) by (metis length_stream_ref length_0_conv)
  have rd: "pread (file_bytes w2 fd) (length buf) offset = ?ct"
    using reader(1) pread_pwrite_same [of "file_bytes w fd" ?ct offset] unfolding wr by (simp add: file_bytes_def un)
  have "wal_crypt F (map wc_range (tde_wal_key_cache w2)) tmln segno m offset ?ct = buf"
    using wal_crypt_under_one_range [of "tde_wal_key_cache w2" r ?k ?ct] reader(3-6) by (simp add: cache_ok_def)
  then have "fst (tdeheap_xlog_seg_read ev fd old (of_nat offset) tmln segno (2 ^ m) w2) = Inr (int (length buf), buf)"
    using crypt_buffer_ok [OF ev seg(1,2) ne, of offset w2 None tmln] seg(3,4) reader(2,3) ne
    unfolding tdeheap_xlog_seg_read_def old un(3)
    by (auto simp: runM rd old)
  with wr show ?thesis by (simp add: set_file_def)
qed

theorem wal_write_read_witness:
  "disk (snd (tdeheap_xlog_seg_write demo_env ''wal'' [1, 2, 3] (of_nat 8192) 1 1 (2 ^ 24) demo_wal_world)) ''wal'' =
     Some (zeros 8192 @ stream_ref demo_F (ik_material (demo_key0\<lparr>ik_key_len := 16\<rparr>)) (CalcXLogPageIVPrefix 1 1 (ik_base_iv demo_key0)) 8192 [1, 2, 3]) \<and>
   fst (tdeheap_xlog_seg_read demo_env ''wal'' [0, 0, 0] (of_nat 8192) 1 1 (2 ^ 24)
     (snd (tdeheap_xlog_seg_write demo_env ''wal'' [1, 2, 3] (of_nat 8192) 1 1 (2 ^ 24) demo_wal_world)\<lparr>
        tde_wal_key_cache := demo_wal_ranges, enc_key_lsn := 0\<rparr>)) = Inr (3, [1, 2, 3])"
proof -
  let ?w = "snd (tdeheap_xlog_seg_write demo_env ''wal'' [1, 2, 3] (of_nat 8192) 1 1 (2 ^ 24) demo_wal_world)\<lparr>
        tde_wal_key_cache := demo_wal_ranges, enc_key_lsn := 0\<rparr>"
  have ok: "keys_current ?w" "cache_ok ?w"
    using demo_wal_world_ok by (simp_all add: keys_current_def cache_ok_def demo_wal_world_def)
  have lt: "(1 :: u32) < -1" by (simp add: word_less_nat_alt unsigned_minus_1_eq_mask mask_eq_exp_minus_1)
  have "covers (wc_range (demo_wal_ranges ! 1)) (seg_loc 1 1 24 (8192 + i))" if "i = 0 \<or> i = 1 \<or> i = 2" for i
    using that lt by (auto simp: covers_def demo_wal_ranges_def seg_loc_def wal_location_valid_def range_types max_location_def
        MaxXLogRecPtr_def MaxTimeLineID_def less_loc loc_le)
  then have cov: "\<forall>i<3. covers (wc_range (demo_wal_ranges ! 1)) (seg_loc 1 1 24 (8192 + i))"
    by (simp add: numeral_eq_Suc less_Suc_eq)
  show ?thesis
    using wal_write_read [OF demo_ecb_is, of 24 1 "[1, 2, 3]" 8192 demo_wal_world 1 ?w "''wal''" "demo_wal_ranges ! 1" "[0, 0, 0]"]
      ok cov by (simp add: demo_wal_world_def demo_wal_ranges_def range_types seg_loc_def loc_le demo_world_def file_bytes_def pwrite_def)
qed

end
