(* ===== verification/Tde_Relkeys.thy ===== *)
theory Tde_Relkeys
  imports Tde_Principal
begin

text \<open>
  Relation keys on top of the principal key lookup (\<open>access/open_pg_tde_tdemap.c\<close>): saving,
  testing and fetching the key of a relation, and the migration of key files of
  versions 3, 4 and 5 to the current format.
\<close>

section \<open>Saving and fetching\<close>

definition open_pg_tde_save_smgr_key :: "env \<Rightarrow> RelFileLocator \<Rightarrow> InternalKey \<Rightarrow> bool \<Rightarrow> unit tdeM" where
  "open_pg_tde_save_smgr_key ev rel rel_key_data replace_existing =
     bindM (GetPrincipalKey ev (dbOid rel)) (\<lambda>principal_key.
     case principal_key of
       None \<Rightarrow> throw E_no_principal_key
     | Some pk \<Rightarrow> save_smgr_key_with ev pk rel rel_key_data replace_existing)"

definition open_pg_tde_has_smgr_key :: "env \<Rightarrow> RelFileLocator \<Rightarrow> bool tdeM" where
  "open_pg_tde_has_smgr_key ev rel =
     (let db_map_path = open_pg_tde_set_db_file_path ev (dbOid rel) in
      bindM (getM (\<lambda>w. disk w db_map_path)) (\<lambda>f.
      if f = None then ret False
      else bindM (open_pg_tde_find_map_entry rel db_map_path) (\<lambda>e. ret (e \<noteq> None))))"

definition open_pg_tde_get_smgr_key :: "env \<Rightarrow> RelFileLocator \<Rightarrow> InternalKey option tdeM" where
  "open_pg_tde_get_smgr_key ev rel =
     (let db_map_path = open_pg_tde_set_db_file_path ev (dbOid rel) in
      bindM (getM (\<lambda>w. disk w db_map_path)) (\<lambda>f.
      if f = None then ret None
      else
        bindM (open_pg_tde_find_map_entry rel db_map_path) (\<lambda>map_entry.
        case map_entry of
          None \<Rightarrow> ret None
        | Some e \<Rightarrow>
            bindM (GetPrincipalKey ev (dbOid rel)) (\<lambda>principal_key.
            case principal_key of
              None \<Rightarrow> throw E_no_principal_key
            | Some pk \<Rightarrow> bindM (tde_decrypt_rel_key ev pk e) (\<lambda>rel_key. ret (Some rel_key))))))"

text \<open>Each \<open>sprintf\<close> writes two digits and a terminator one position after the previous one.\<close>

definition hex_digit :: "nat \<Rightarrow> char" where
  "hex_digit n = (''0123456789ABCDEF'' ! (n mod 16))"

definition sprint_hex :: "byte \<Rightarrow> string" where
  "sprint_hex b = [hex_digit (unat b div 16), hex_digit (unat b)]"

definition tde_sprint_key :: "InternalKey \<Rightarrow> string" where
  "tde_sprint_key k = foldl (\<lambda>buf i. take i buf @ sprint_hex (ik_key k ! i)) [] [0..<INTERNAL_KEY_MAX_LEN]"

section \<open>Entries of older versions\<close>

record TDEMapEntryV3 =
  v3_spcOid :: Oid
  v3_relNumber :: Oid
  v3_type :: u32
  v3_unused1 :: u32
  v3_encrypted_key_data :: bytes
  v3_key_base_iv :: bytes
  v3_entry_iv :: bytes
  v3_aead_tag :: bytes

definition dec_entry_v3 :: "bytes \<Rightarrow> TDEMapEntryV3" where
  "dec_entry_v3 b = \<lparr>v3_spcOid = un32 (slice 0 4 b), v3_relNumber = un32 (slice 4 4 b), v3_type = un32 (slice 8 4 b),
     v3_unused1 = un32 (slice 12 4 b), v3_encrypted_key_data = slice 16 16 b, v3_key_base_iv = slice 32 16 b,
     v3_entry_iv = slice 64 16 b, v3_aead_tag = slice 80 16 b\<rparr>"

definition v3_aad :: "TDEMapEntryV3 \<Rightarrow> bytes" where
  "v3_aad e = le32 (v3_spcOid e) @ le32 (v3_relNumber e) @ le32 (v3_type e) @ le32 (v3_unused1 e)"

text \<open>Versions 4 and 5 have the same fields in the same order, the key buffer has 32 or 64 bytes.\<close>

record TDEMapEntryV4 =
  v4_cipher :: u32
  v4_spcOid :: Oid
  v4_relNumber :: Oid
  v4_type :: u32
  v4_entry_iv :: bytes
  v4_aead_tag :: bytes
  v4_key_base_iv :: bytes
  v4_encrypted_key_data :: bytes

definition dec_entry_v45 :: "nat \<Rightarrow> bytes \<Rightarrow> TDEMapEntryV4" where
  "dec_entry_v45 key_size b = \<lparr>v4_cipher = un32 (slice 0 4 b), v4_spcOid = un32 (slice 4 4 b), v4_relNumber = un32 (slice 8 4 b),
     v4_type = un32 (slice 12 4 b), v4_entry_iv = slice 16 16 b, v4_aead_tag = slice 32 16 b,
     v4_key_base_iv = slice 48 16 b, v4_encrypted_key_data = slice 64 key_size b\<rparr>"

definition v4_aad :: "TDEMapEntryV4 \<Rightarrow> bytes" where
  "v4_aad e = le32 (v4_cipher e) @ le32 (v4_spcOid e) @ le32 (v4_relNumber e) @ le32 (v4_type e)"

definition V3_SIZE :: nat where "V3_SIZE = 96"
definition V4_SIZE :: nat where "V4_SIZE = 96"
definition V5_SIZE :: nat where "V5_SIZE = 128"

lemmas v_sizes = V3_SIZE_def V4_SIZE_def V5_SIZE_def

text \<open>The loop over an old file: in version 3 a short read ends it, in versions 4 and 5 it is an error.\<close>

definition read_entries_v3 :: "bytes \<Rightarrow> nat \<Rightarrow> TDEMapEntryV3 list" where
  "read_entries_v3 f off = recs V3_SIZE dec_entry_v3 f off"

definition read_entries_v45 :: "nat \<Rightarrow> bytes \<Rightarrow> nat \<Rightarrow> TDEMapEntryV4 list \<times> tde_error option" where
  "read_entries_v45 sz f off =
     (recs sz (dec_entry_v45 (sz - 64)) f off, if (length f - off) mod sz = 0 then None else Some E_migration_read)"

definition ikey_from_map_entry_v3 :: "env \<Rightarrow> TDEPrincipalKey \<Rightarrow> TDEMapEntryV3 \<Rightarrow> InternalKey tdeM" where
  "ikey_from_map_entry_v3 ev pk e =
     bindM (AesGcmDecrypt ev (pk_material pk) (v3_entry_iv e) (v3_aad e) (v3_encrypted_key_data e) (v3_aead_tag e)) (\<lambda>r.
     case r of
       None \<Rightarrow> throw E_decrypt
     | Some pt \<Rightarrow> ret \<lparr>ik_key_len = 16, ik_cipher = CIPHER_AES_128, ik_base_iv = v3_key_base_iv e,
         ik_key = overlay INTERNAL_KEY_MAX_LEN pt (garbage ev INTERNAL_KEY_MAX_LEN)\<rparr>)"

definition ikey_from_map_entry_v45 :: "env \<Rightarrow> TDEPrincipalKey \<Rightarrow> TDEMapEntryV4 \<Rightarrow> InternalKey tdeM" where
  "ikey_from_map_entry_v45 ev pk e =
     bindM (liftM (open_pg_tde_cipher_key_length (v4_cipher e))) (\<lambda>key_len.
     bindM (AesGcmDecrypt ev (pk_material pk) (v4_entry_iv e) (v4_aad e)
              (take (unat key_len) (v4_encrypted_key_data e)) (v4_aead_tag e)) (\<lambda>r.
     case r of
       None \<Rightarrow> throw E_decrypt
     | Some pt \<Rightarrow> ret \<lparr>ik_key_len = key_len, ik_cipher = v4_cipher e, ik_base_iv = v4_key_base_iv e,
         ik_key = overlay INTERNAL_KEY_MAX_LEN pt (garbage ev INTERNAL_KEY_MAX_LEN)\<rparr>))"

definition map_from_disk_entry_v3 :: "env \<Rightarrow> TDEPrincipalKey \<Rightarrow> TDEMapEntryV3 \<Rightarrow> TDEMapEntry tdeM" where
  "map_from_disk_entry_v3 ev pk d =
     (if v3_type d = MAP_ENTRY_TYPE_EMPTY then ret empty_map_entry
      else bindM (ikey_from_map_entry_v3 ev pk d) (\<lambda>key.
        open_pg_tde_initialize_map_entry ev pk
          \<lparr>spcOid = v3_spcOid d, dbOid = databaseId (keyInfo pk), relNumber = v3_relNumber d\<rparr> key))"

definition map_from_disk_entry_v45 :: "(TDEMapEntryV4 \<Rightarrow> InternalKey tdeM) \<Rightarrow> env \<Rightarrow> TDEPrincipalKey \<Rightarrow> TDEMapEntryV4 \<Rightarrow> TDEMapEntry tdeM" where
  "map_from_disk_entry_v45 ikey ev pk d =
     (if v4_type d = MAP_ENTRY_TYPE_EMPTY then ret empty_map_entry
      else bindM (ikey d) (\<lambda>key.
        open_pg_tde_initialize_map_entry ev pk
          \<lparr>spcOid = v4_spcOid d, dbOid = databaseId (keyInfo pk), relNumber = v4_relNumber d\<rparr> key))"

text \<open>The routines of the two versions.\<close>

definition ikey_from_map_entry_v4 :: "env \<Rightarrow> TDEPrincipalKey \<Rightarrow> TDEMapEntryV4 \<Rightarrow> InternalKey tdeM" where
  "ikey_from_map_entry_v4 ev pk entry = ikey_from_map_entry_v45 ev pk entry"

definition ikey_from_map_entry_v5 :: "env \<Rightarrow> TDEPrincipalKey \<Rightarrow> TDEMapEntryV4 \<Rightarrow> InternalKey tdeM" where
  "ikey_from_map_entry_v5 ev pk entry = ikey_from_map_entry_v45 ev pk entry"

definition read_entries_v4 :: "bytes \<Rightarrow> nat \<Rightarrow> TDEMapEntryV4 list \<times> tde_error option" where
  "read_entries_v4 f off = read_entries_v45 V4_SIZE f off"

definition read_entries_v5 :: "bytes \<Rightarrow> nat \<Rightarrow> TDEMapEntryV4 list \<times> tde_error option" where
  "read_entries_v5 f off = read_entries_v45 V5_SIZE f off"

definition map_from_disk_entry_v4 :: "env \<Rightarrow> TDEPrincipalKey \<Rightarrow> TDEMapEntryV4 \<Rightarrow> TDEMapEntry tdeM" where
  "map_from_disk_entry_v4 ev pk d = map_from_disk_entry_v45 (ikey_from_map_entry_v4 ev pk) ev pk d"

definition map_from_disk_entry_v5 :: "env \<Rightarrow> TDEPrincipalKey \<Rightarrow> TDEMapEntryV4 \<Rightarrow> TDEMapEntry tdeM" where
  "map_from_disk_entry_v5 ev pk d = map_from_disk_entry_v45 (ikey_from_map_entry_v5 ev pk) ev pk d"

section \<open>Migration\<close>

text \<open>
  The loop converts an entry and writes it to the temporary file; empty entries are dropped.
  The old file is not written to, so its entries can be read beforehand.
\<close>

fun migrate_entries :: "('d \<Rightarrow> TDEMapEntry tdeM) \<Rightarrow> string \<Rightarrow> 'd list \<Rightarrow> nat \<Rightarrow> unit tdeM" where
  "migrate_entries conv tmp [] write_pos = ret ()"
| "migrate_entries conv tmp (d # ds) write_pos =
     bindM (conv d) (\<lambda>new_entry.
     if me_type new_entry = MAP_ENTRY_TYPE_EMPTY then migrate_entries conv tmp ds write_pos
     else
       bindM (open_pg_tde_write_one_map_entry tmp new_entry write_pos) (\<lambda>pos'.
       migrate_entries conv tmp ds pos'))"

definition migrate_version :: "env \<Rightarrow> u32 \<Rightarrow> TDEPrincipalKey \<Rightarrow> string \<Rightarrow> bytes \<Rightarrow> nat \<Rightarrow> nat \<Rightarrow> unit tdeM" where
  "migrate_version ev version pk tmp old read_pos write_pos =
     (if version = 3 then
        migrate_entries (map_from_disk_entry_v3 ev pk) tmp (read_entries_v3 old read_pos) write_pos
      else
        (case (if version = 4 then read_entries_v4 old read_pos else read_entries_v5 old read_pos) of (ds, err) \<Rightarrow>
           seqM (migrate_entries (if version = 4 then map_from_disk_entry_v4 ev pk else map_from_disk_entry_v5 ev pk) tmp ds write_pos)
           (case err of None \<Rightarrow> ret () | Some e \<Rightarrow> throw e)))"

definition migrate_smgr_keys_of_database :: "env \<Rightarrow> Oid \<Rightarrow> unit tdeM" where
  "migrate_smgr_keys_of_database ev db =
     (let db_map_path = open_pg_tde_set_db_file_path ev db; tmp_db_map_path = tmp_path db_map_path in
      bindM (open_pg_tde_open_file_basic db_map_path False False False) (\<lambda>_.
      bindM (open_pg_tde_file_header_read db_map_path) (\<lambda>(fheader, read_pos).
      if read_pos = 0 \<or> file_version fheader = OPEN_PG_TDE_SMGR_FILE_MAGIC then ret ()
      else
        (let version = FILEMAGIC_VERSION (file_version fheader) in
         seqM (check (version \<in> {3, 4, 5}) (E_migration_version version))
         (bindM (GetPrincipalKey ev db) (\<lambda>principal_key.
          case principal_key of
            None \<Rightarrow> throw E_no_principal_key
          | Some pk \<Rightarrow>
              bindM (open_pg_tde_sign_principal_key_info ev pk) (\<lambda>ski.
              bindM (open_pg_tde_open_file_write tmp_db_map_path (Some ski) True) (\<lambda>write_pos.
              bindM (getM (\<lambda>w. file_bytes w db_map_path)) (\<lambda>old.
              seqM (migrate_version ev version pk tmp_db_map_path old read_pos write_pos)
              (durable_rename tmp_db_map_path db_map_path))))))))))"

text \<open>
  The directory loop: \<open>d_names\<close> is what \<open>readdir\<close> reports. The number in the name is read
  as an \<open>unsigned long\<close> and cut to an \<open>Oid\<close>.
\<close>

definition open_pg_tde_migrate_smgr_keys_file :: "env \<Rightarrow> string list \<Rightarrow> unit tdeM" where
  "open_pg_tde_migrate_smgr_keys_file ev d_names =
     forM d_names (\<lambda>d_name.
       case strtoul d_name of (n, suffix) \<Rightarrow>
         whenM (suffix = ''_keys'') (migrate_smgr_keys_of_database ev (ucast n)))"

end
