(* ===== verification/Tde_Frame.thy ===== *)
theory Tde_Frame
  imports Tde_Relkeys
begin

text \<open>
  What the key management leaves alone. The operations that only look something up (headers,
  entries, providers, keys in a keyring) leave the whole state as it is; those that change keys change
  files, the script of faults, the random source, the inserted WAL records and the cache of principal keys,
  and nothing else. Both are instances of the \<open>frame\<close> interface, proved operation by operation.
\<close>

named_theorems looks \<open>operations that only look something up\<close>
named_theorems manages \<open>operations that change only the key management's state\<close>

section \<open>Looking things up\<close>

interpretation un: frame "(=)"
  by unfold_locales auto

lemma keeps_prod: "(\<And>a b. keeps R (f a b)) \<Longrightarrow> keeps R (case x of (a, b) \<Rightarrow> f a b)"
  by (cases x) simp

lemma keeps_sum: "(\<And>a. keeps R (f a)) \<Longrightarrow> (\<And>b. keeps R (g b)) \<Longrightarrow> keeps R (case x of Inl a \<Rightarrow> f a | Inr b \<Rightarrow> g b)"
  by (cases x) simp_all

lemma looks_liftM [looks]: "keeps (=) (liftM r)"
  by (cases r) (simp_all add: keeps_def)

lemma looks_AesGcmDecrypt [looks]: "keeps (=) (AesGcmDecrypt ev k iv aad c t)"
  by (simp add: AesGcmDecrypt_def keeps_def split: gcm_result.split)

lemma keeps_run: "keeps (=) m \<Longrightarrow> snd (m w) = w"
  by (simp add: keeps_def)

lemma looks_Pair [looks]: "keeps (=) (Pair r)"
  by (simp add: keeps_def)

lemmas look_intros = un.keeps_intros keeps_prod keeps_sum

lemma looks_kf_header_read [looks]: "keeps (=) (kf_header_read fn)"
  unfolding kf_header_read_def by (intro look_intros looks)

lemma looks_kf_open_basic [looks]: "keeps (=) (kf_open_basic fn False False im)"
  by (auto simp: kf_open_basic_def keeps_def runM)

lemma looks_kf_open_read [looks]: "keeps (=) (kf_open_read magic fn im)"
  unfolding kf_open_read_def by (intro look_intros looks)

lemma looks_get_key_info [looks]:
  "keeps (=) (open_pg_tde_get_principal_key_info ev db)" "keeps (=) (open_pg_tde_get_server_key_info ev)"
  unfolding open_pg_tde_get_principal_key_info_def open_pg_tde_get_server_key_info_def Let_def
    smgr_file_defs wal_file_defs by (intro look_intros looks)+

lemma looks_get_file_value [looks]: "keeps (=) (get_file_value ev p)"
  unfolding get_file_value_def Let_def by (intro look_intros)

lemma looks_load_provider [looks]: "keeps (=) (load_keyring_provider_from_record ev p)"
  unfolding load_keyring_provider_from_record_def load_file_keyring_provider_options_def
    load_kmip_keyring_provider_options_def load_openbao_keyring_provider_options_def
  by (intro look_intros looks)

lemma looks_load_matching [looks]: "keeps (=) (load_matching ev sc ps)"
  by (induction ps) (auto intro!: look_intros looks)

lemma looks_scan [looks]: "keeps (=) (scan_key_provider_file ev sc db)"
  unfolding scan_key_provider_file_def by (intro look_intros looks)

lemma looks_get_provider [looks]:
  "keeps (=) (GetKeyProviderByID ev i db)" "keeps (=) (GetKeyProviderByName ev n db)"
  unfolding GetKeyProviderByID_def GetKeyProviderByName_def Let_def
  by (intro look_intros looks, auto intro!: look_intros looks split: list.splits)

lemma looks_curl_get [looks]: "keeps (=) (curl_perform ev kr url None)"
  by (auto simp: curl_perform_def Let_def keeps_def runM split: option.splits)

lemma looks_keyring_get [looks]:
  "keeps (=) (file_get_key_by_name kr n)" "keeps (=) (openbao_get_key_by_name ev kr n)" "keeps (=) (kmip_get_key_by_name ev kr n)"
  unfolding file_get_key_by_name_def openbao_get_key_by_name_def kmip_get_key_by_name_def kmipSslConnect_def
    open_pg_tde_kmip_locate_key_def open_pg_tde_kmip_get_key_def
  by (intro look_intros looks)+

lemma looks_KeyringGetKey [looks]: "keeps (=) (KeyringGetKey ev kr n)"
  by (auto simp: KeyringGetKey_def find_key_provider_type_def registeredKeyProviderTypes_def keyringFileRoutine_def
      keyringOpenBaoRoutine_def keyringKmipRoutine_def intro!: look_intros looks)

lemma looks_verify [looks]: "keeps (=) (open_pg_tde_verify_principal_key_info ev ski kd)"
  unfolding open_pg_tde_verify_principal_key_info_def by (intro look_intros looks)

lemma looks_from_keyring [looks]: "keeps (=) (get_principal_key_from_keyring ev db)"
  unfolding get_principal_key_from_keyring_def by (intro look_intros looks)

lemma looks_find_map_entry [looks]: "keeps (=) (open_pg_tde_find_map_entry rel p)"
  unfolding open_pg_tde_find_map_entry_def smgr_file_defs by (intro look_intros looks)

lemma looks_has_smgr_key [looks]: "keeps (=) (open_pg_tde_has_smgr_key ev rel)"
  unfolding open_pg_tde_has_smgr_key_def Let_def by (intro look_intros looks)

lemma looks_decrypt_rel_key [looks]: "keeps (=) (tde_decrypt_rel_key ev pk e)"
  unfolding tde_decrypt_rel_key_def by (intro look_intros looks)

lemma looks_count_keys [looks]: "keeps (=) (open_pg_tde_count_encryption_keys ev db spc)"
  unfolding open_pg_tde_count_encryption_keys_def Let_def smgr_file_defs by (intro look_intros looks)

section \<open>Changing keys\<close>

definition only_keys :: "world \<Rightarrow> world \<Rightarrow> bool" where
  "only_keys w w' \<longleftrightarrow>
     ctx_cbc_128 w' = ctx_cbc_128 w \<and> ctx_cbc_256 w' = ctx_cbc_256 w \<and> ctx_xts_128 w' = ctx_xts_128 w \<and> ctx_xts_256 w' = ctx_xts_256 w \<and>
     tde_wal_key_cache w' = tde_wal_key_cache w \<and> enc_key_tli w' = enc_key_tli w \<and> enc_key_lsn w' = enc_key_lsn w \<and>
     CurrentWalEncryptionRange w' = CurrentWalEncryptionRange w \<and> EncryptionCryptCtx w' = EncryptionCryptCtx w \<and>
     TempRelKeys w' = TempRelKeys w \<and> tde_io_handle_keys w' = tde_io_handle_keys w \<and> tempfile_keys w' = tempfile_keys w \<and>
     ddlEventStackTid w' = ddlEventStackTid w \<and> ddlEventStack w' = ddlEventStack w \<and> smgr_relns w' = smgr_relns w \<and>
     md_log w' = md_log w \<and> aio_tde_callback w' = aio_tde_callback w"

interpretation ok: frame only_keys
  by unfold_locales (auto simp: only_keys_def)

lemmas manage_intros = ok.keeps_intros keeps_prod keeps_sum

lemma next_io_only_keys: "next_io w = (r, w') \<Longrightarrow> only_keys w w'"
  by (auto simp: next_io_def only_keys_def split: list.splits)

lemma only_keys_set_file [simp]: "only_keys w (set_file p b w') \<longleftrightarrow> only_keys w w'"
  by (simp add: only_keys_def set_file_def)

lemma only_keys_upd [simp]:
  "only_keys w (w'\<lparr>disk := d\<rparr>) \<longleftrightarrow> only_keys w w'" "only_keys w (w'\<lparr>rng := n\<rparr>) \<longleftrightarrow> only_keys w w'"
  "only_keys w (w'\<lparr>xlog := x\<rparr>) \<longleftrightarrow> only_keys w w'" "only_keys w (w'\<lparr>pk_cache := c\<rparr>) \<longleftrightarrow> only_keys w w'"
  by (simp_all add: only_keys_def)

lemma manages_disk [manages]:
  "keeps only_keys (write_at p d off)" "keeps only_keys (fsync p)" "keeps only_keys (durable_rename p q)" "keeps only_keys (durable_unlink p b)"
  by (auto simp: keeps_def write_at_def fsync_def durable_rename_def durable_unlink_def Let_def ok.R_refl
      split: prod.splits io_outcome.splits dest: next_io_only_keys)

lemma manages_basic [manages]:
  "keeps only_keys (RAND_bytes ev n)" "keeps only_keys (XLogInsert r)" "keeps only_keys (modifyM (set_file p b))"
  "keeps only_keys (modifyM (\<lambda>w. if disk w p = None then set_file p b w else w))" "keeps only_keys (Pair v)"
  by (auto simp: keeps_def RAND_bytes_def XLogInsert_def ok.R_refl split: option.splits)

lemma manages_AesGcmEncrypt [manages]: "keeps only_keys (AesGcmEncrypt ev k iv aad p)"
  unfolding AesGcmEncrypt_def by (intro manage_intros)

lemma manages_kf [manages]:
  "keeps only_keys (kf_header_write magic fn ski)" "keeps only_keys (kf_open_basic fn c t im)"
  "keeps only_keys (kf_open_write magic fn so t)" "keeps only_keys (kf_write_rec enc sz fn e off)"
  unfolding kf_header_write_def kf_open_basic_def kf_open_write_def kf_write_rec_def Let_def
  by (intro manage_intros manages looks [THEN ok.of_looks])+

lemma manages_sign [manages]: "keeps only_keys (open_pg_tde_sign_principal_key_info ev pk)"
  unfolding open_pg_tde_sign_principal_key_info_def by (intro manage_intros manages)

lemma manages_save_key [manages]:
  "keeps only_keys (open_pg_tde_save_principal_key ev pk x)" "keeps only_keys (open_pg_tde_save_server_key ev pk x)"
  "keeps only_keys (open_pg_tde_save_principal_key_redo ev ski)" "keeps only_keys (open_pg_tde_save_server_key_redo ev ski)"
  unfolding open_pg_tde_save_principal_key_def open_pg_tde_save_server_key_def open_pg_tde_save_principal_key_redo_def
    open_pg_tde_save_server_key_redo_def Let_def smgr_file_defs wal_file_defs
  by (intro manage_intros manages)+

lemma manages_cache [manages]:
  "keeps only_keys (push_principal_key_to_cache ev pk)" "keeps only_keys (clear_principal_key_cache db)"
  "keeps only_keys (set_fe_server_principal_key_cache pk)"
  by (auto simp: push_principal_key_to_cache_def set_fe_server_principal_key_cache_def clear_principal_key_cache_def Let_def keeps_def runM ok.R_refl)

lemma manages_GetPrincipalKeyNoDefault [manages]: "keeps only_keys (GetPrincipalKeyNoDefault ev db)"
  unfolding GetPrincipalKeyNoDefault_def get_principal_key_cached_def get_principal_key_from_cache_def fe_server_principal_key_cache_def
  by (intro manage_intros manages looks [THEN ok.of_looks])

lemma manages_GetPrincipalKey [manages]: "keeps only_keys (GetPrincipalKey ev db)"
  unfolding GetPrincipalKey_def Let_def by (intro manage_intros manages)

lemma manages_configured [manages]: "keeps only_keys (open_pg_tde_principal_key_configured ev db)"
  unfolding open_pg_tde_principal_key_configured_def by (intro manage_intros manages)

lemma manages_map_entry [manages]:
  "keeps only_keys (open_pg_tde_initialize_map_entry ev pk rel k)" "keeps only_keys (open_pg_tde_write_one_map_entry p e off)"
  unfolding open_pg_tde_initialize_map_entry_def open_pg_tde_write_one_map_entry_def Let_def
  by (intro manage_intros manages)+

lemma manages_smgr_key [manages]:
  "keeps only_keys (open_pg_tde_save_smgr_key ev rel k b)" "keeps only_keys (open_pg_tde_get_smgr_key ev rel)"
  "keeps only_keys (open_pg_tde_free_key_map_entry ev rel)"
  unfolding open_pg_tde_save_smgr_key_def save_smgr_key_with_def open_pg_tde_get_smgr_key_def open_pg_tde_free_key_map_entry_def
    Let_def smgr_file_defs
  by (intro manage_intros manages looks [THEN ok.of_looks])+

lemma manages_generate [manages]: "keeps only_keys (open_pg_tde_generate_internal_key ev c)"
  unfolding open_pg_tde_generate_internal_key_def Let_def by (intro manage_intros manages looks [THEN ok.of_looks])

end
