(* ===== verification/Tde_WalCache.thy ===== *)
theory Tde_WalCache
  imports Tde_WalCrypt Tde_Frame
begin

text \<open>
  The invariant of the WAL key cache: the cached ranges follow each other without gaps, each ends where the
  next one starts, the last one is open-ended. Fetching keys keeps it, whatever happens on the
  way; with start locations in WAL order every location from the first one on lies in
  exactly one range.
\<close>

definition chained :: "WALKeyCacheRec list \<Rightarrow> bool" where
  "chained rs \<longleftrightarrow> rs = [] \<or> map (wr_end \<circ> wc_range) rs = tl (map (wr_start \<circ> wc_range) rs) @ [max_location]"

lemma chained_Nil [simp]: "chained []"
  by (simp add: chained_def)

lemma chained_Cons:
  "chained (r # rs) \<longleftrightarrow> (if rs = [] then wr_end (wc_range r) = max_location
     else wr_end (wc_range r) = wr_start (wc_range (hd rs)) \<and> chained rs)"
  by (cases rs) (auto simp: chained_def)

lemma cache_range_Cons:
  "rs \<noteq> [] \<Longrightarrow> cache_range rg (r # rs) = r # cache_range rg rs"
  by (simp add: cache_range_def)

lemma cache_range_starts:
  "map (wr_start \<circ> wc_range) (cache_range rg rs) = map (wr_start \<circ> wc_range) rs @ [wr_start rg]"
proof (induction rs)
  case (Cons r rs)
  then show ?case by (cases "rs = []") (simp_all add: cache_range_Cons, simp add: cache_range_def)
qed (simp add: cache_range_def)

lemma hd_cache_range:
  assumes "rs \<noteq> []"
  shows "cache_range rg rs \<noteq> []" "wr_start (wc_range (hd (cache_range rg rs))) = wr_start (wc_range (hd rs))"
proof -
  show ne: "cache_range rg rs \<noteq> []" by (simp add: cache_range_def)
  show "wr_start (wc_range (hd (cache_range rg rs))) = wr_start (wc_range (hd rs))"
    using arg_cong [OF cache_range_starts [of rg rs], of hd] assms ne by (simp add: hd_map hd_append)
qed

lemma chained_cache_range: "chained rs \<Longrightarrow> wr_end rg = max_location \<Longrightarrow> chained (cache_range rg rs)"
proof (induction rs)
  case (Cons r rs)
  then show ?case
    by (cases "rs = []") (simp_all add: cache_range_Cons chained_Cons hd_cache_range, simp add: cache_range_def chained_Cons)
qed (simp add: cache_range_def chained_Cons)

definition keeps_chained :: "world \<Rightarrow> world \<Rightarrow> bool" where
  "keeps_chained w w' \<longleftrightarrow> (chained (tde_wal_key_cache w) \<longrightarrow> chained (tde_wal_key_cache w'))"

interpretation ch: frame keeps_chained
  by unfold_locales (auto simp: keeps_chained_def)

lemma chained_of_keys: "keeps only_keys m \<Longrightarrow> keeps keeps_chained m"
  by (auto simp: keeps_def keeps_chained_def only_keys_def)

lemma chained_add: "wr_end rg = max_location \<Longrightarrow> keeps keeps_chained (open_pg_tde_add_wal_range_to_cache rg)"
  by (simp add: keeps_def keeps_chained_def open_pg_tde_add_wal_range_to_cache_def runM chained_cache_range)

lemma wal_range_end: "open_pg_tde_wal_range_from_entry ev pk e w = (Inr rg, w') \<Longrightarrow> wr_end rg = max_location"
  by (auto simp: open_pg_tde_wal_range_from_entry_def bindM_eq_Inr split: option.splits)

lemma looks_wal_entry [looks]:
  "keeps (=) (open_pg_tde_read_one_wal_key_file_entry2 ev i)" "keeps (=) (open_pg_tde_wal_range_from_entry ev pk e)"
  "keeps (=) (wal_file_size ev)" "keeps (=) (open_pg_tde_open_wal_key_file_read p im)"
  unfolding open_pg_tde_read_one_wal_key_file_entry2_def open_pg_tde_wal_range_from_entry_def wal_file_size_def
    open_pg_tde_open_wal_key_file_read_def Let_def
  by (intro look_intros looks)+

lemmas chained_looks = looks [THEN ok.of_looks, THEN chained_of_keys] manages [THEN chained_of_keys]

lemma chained_fetch_loop: "keeps keeps_chained (fetch_loop ev pk start idxs r)"
proof (induction idxs arbitrary: r)
  case (Cons i idxs)
  have step: "keeps keeps_chained (bindM (open_pg_tde_wal_range_from_entry ev pk e) (\<lambda>rg.
      bindM (open_pg_tde_add_wal_range_to_cache rg) (\<lambda>wal_rec. fetch_loop ev pk start idxs (g wal_rec))))" for e g
    by (rule ch.keeps_bind_post [where P = "\<lambda>rg. wr_end rg = max_location"])
      (auto intro!: chained_looks ch.keeps_bindM chained_add Cons.IH dest: wal_range_end)
  show ?case
    unfolding fetch_loop.simps by (rule ch.keeps_bindM, intro chained_looks, intro ch.keeps_if step Cons.IH)
qed (simp add: ch.keeps_ret)

lemma chained_fetch: "keeps keeps_chained (open_pg_tde_fetch_wal_keys ev start)"
  unfolding open_pg_tde_fetch_wal_keys_def Let_def
  by (intro ch.keeps_intros chained_looks chained_fetch_loop chained_add) (simp add: stub_range_def)

section \<open>Properties\<close>

lemma starts_after:
  "chained (r # rs) \<Longrightarrow> sorted (map (wr_start \<circ> wc_range) (r # rs)) \<Longrightarrow> x \<in> set rs \<Longrightarrow> wr_end (wc_range r) \<le> wr_start (wc_range x)"
  by (cases rs) (auto simp: chained_Cons)

lemma chained_ordered: "chained rs \<Longrightarrow> sorted (map (wr_start \<circ> wc_range) rs) \<Longrightarrow> ordered rs"
proof (induction rs)
  case (Cons r rs)
  then have "chained rs" by (cases "rs = []") (simp_all add: chained_Cons)
  with Cons show ?case using starts_after [OF Cons.prems] by (simp add: ordered_def)
qed (simp add: ordered_def)

lemma chained_covers:
  "chained rs \<Longrightarrow> rs \<noteq> [] \<Longrightarrow> wr_start (wc_range (hd rs)) \<le> loc \<Longrightarrow> loc < max_location \<Longrightarrow>
     \<exists>r\<in>set rs. wr_start (wc_range r) \<le> loc \<and> loc < wr_end (wc_range r)"
proof (induction rs)
  case (Cons r rs)
  show ?case
  proof (cases "loc < wr_end (wc_range r)")
    case False
    with Cons.prems have "rs \<noteq> []" "chained rs" "wr_start (wc_range (hd rs)) \<le> loc"
      by (auto simp: chained_Cons split: if_splits)
    with Cons show ?thesis by auto
  qed (use Cons.prems in simp)
qed simp

text \<open>
  Fetching WAL keys keeps the cache gapless, on success and on every error: if each cached range ended where
  the next one starts, and the last one at the end of the address space, then the same holds
  afterwards.
\<close>

lemma wal_cache_gapless:
  assumes "chained (tde_wal_key_cache w)"
  shows "chained (tde_wal_key_cache (snd (open_pg_tde_fetch_wal_keys ev start w)))"
  using chained_fetch assms by (simp add: keeps_def keeps_chained_def)

lemma wal_cache_gapless_witness:
  "chained (tde_wal_key_cache (snd (open_pg_tde_fetch_wal_keys demo_env (WalLocation 5 1) demo_wal_world)))"
  by (rule wal_cache_gapless) (simp add: demo_wal_world_def demo_wal_ranges_def chained_def)

text \<open>
  In a gapless cache whose ranges start in WAL order, every location from the first start
  on lies in exactly one range, so the ranges \<open>TDEXLogCryptBuffer\<close> goes through do not overlap.
\<close>

lemma wal_cache_partition:
  assumes "chained (tde_wal_key_cache w)" "sorted (map (wr_start \<circ> wc_range) (tde_wal_key_cache w))"
    and "open_pg_tde_get_wal_cache_keys w = (Inr (Some 0), w)"
    and "wr_start (wc_range (hd (tde_wal_key_cache w))) \<le> loc" "loc < max_location"
  shows "ordered (tde_wal_key_cache w) \<and>
     (\<exists>!i. i < length (tde_wal_key_cache w) \<and> wr_start (wc_range (tde_wal_key_cache w ! i)) \<le> loc \<and>
        loc < wr_end (wc_range (tde_wal_key_cache w ! i)))"
proof -
  let ?c = "tde_wal_key_cache w"
  have ne: "?c \<noteq> []" using assms(3) by (simp add: open_pg_tde_get_wal_cache_keys_def split: if_splits)
  have ord: "ordered ?c" using chained_ordered assms(1,2) by blast
  obtain i where i: "i < length ?c" "wr_start (wc_range (?c ! i)) \<le> loc" "loc < wr_end (wc_range (?c ! i))"
    using chained_covers [OF assms(1) ne assms(4,5)] by (metis in_set_conv_nth)
  have "j = i" if j: "j < length ?c" "wr_start (wc_range (?c ! j)) \<le> loc" "loc < wr_end (wc_range (?c ! j))" for j
  proof (rule ccontr)
    assume "j \<noteq> i"
    then consider "i < j" | "j < i" by linarith
    then show False
      using ord i j unfolding ordered_def sorted_wrt_iff_nth_less by cases force+
  qed
  with i ord show ?thesis by blast
qed

lemma wal_cache_partition_witness:
  "ordered demo_wal_ranges \<and> (\<exists>!i. i < length demo_wal_ranges \<and> wr_start (wc_range (demo_wal_ranges ! i)) \<le> WalLocation 77 1 \<and>
     WalLocation 77 1 < wr_end (wc_range (demo_wal_ranges ! i)))"
  using wal_cache_partition [of demo_wal_world "WalLocation 77 1"]
  by (simp add: demo_wal_world_def demo_wal_ranges_def chained_def open_pg_tde_get_wal_cache_keys_def
      less_loc loc_le max_location_def MaxTimeLineID_def word_less_nat_alt unsigned_minus_1_eq_mask mask_eq_exp_minus_1)

end
