(* ===== verification/Tde_Keyring_Files.thy ===== *)
theory Tde_Keyring_Files
  imports Tde_Keyring_Ops Tde_Keymap_Ops
begin

text \<open>
  Provider info files as lists of records, looking providers up in them, and the JSON options of a provider:
  the callbacks of a provider type write options of that type only. At the end a concrete keyring with one
  provider and one key, which the witnesses of later theories use.
\<close>

section \<open>Provider info files\<close>

lemma fetch_all_eq:
  "pos \<le> length f \<Longrightarrow> fetch_all f pos =
     (read_all PROVIDER_SIZE dec_prov f pos,
      if (length f - pos) mod PROVIDER_SIZE = 0 then Inr (length f) else Inl E_provider_corrupted)"
proof (induction "length f - pos" arbitrary: pos rule: less_induct)
  case less
  have sz: "0 < PROVIDER_SIZE" by (rule prov.sz_pos)
  show ?case
  proof (cases "pos + PROVIDER_SIZE \<le> length f")
    case True
    then have len: "length (pread f PROVIDER_SIZE pos) = PROVIDER_SIZE" by (simp add: length_pread)
    have "(length f - pos) mod PROVIDER_SIZE = (length f - (pos + PROVIDER_SIZE)) mod PROVIDER_SIZE"
      using True le_mod_geq [of PROVIDER_SIZE "length f - pos"] by simp
    moreover have "pread f PROVIDER_SIZE pos \<noteq> []" using len sz by auto
    ultimately show ?thesis
      using len True less.hyps [of "pos + PROVIDER_SIZE"] sz
      by (subst fetch_all.simps) (simp add: fetch_next_key_provider_def Let_def read_all_step)
  next
    case False
    then have l: "length (pread f PROVIDER_SIZE pos) = length f - pos" "length f - pos < PROVIDER_SIZE"
      using less.prems sz by (auto simp: length_pread)
    then have "pread f PROVIDER_SIZE pos = [] \<longleftrightarrow> length f = pos"
      using less.prems length_0_conv [of "pread f PROVIDER_SIZE pos"] by auto
    with l False less.prems show ?thesis
      by (subst fetch_all.simps) (auto simp: fetch_next_key_provider_def Let_def read_all_end sz)
  qed
qed

abbreviation "providers_in f \<equiv> recs PROVIDER_SIZE dec_prov f 0"

lemma fetch_all_good:
  "length f mod PROVIDER_SIZE = 0 \<Longrightarrow> fetch_all f 0 = (at_offsets PROVIDER_SIZE 0 (providers_in f), Inr (length f))"
  using fetch_all_eq [of 0 f] read_all_eq [OF prov.sz_pos] by simp

lemma scan_good:
  assumes "disk w (get_keyring_infofile_path ev db) = Some f" "length f mod PROVIDER_SIZE = 0"
  shows "scan_key_provider_file ev sc db w = load_matching ev sc (providers_in f) w"
  using assms by (simp add: scan_key_provider_file_def fetch_all_good bindM_def split: prod.splits sum.splits)

section \<open>JSON options\<close>

text \<open>The options that belong to other provider types are not set.\<close>

definition foreign_unset :: "u32 \<Rightarrow> GenericKeyring \<Rightarrow> bool" where
  "foreign_unset t k \<longleftrightarrow>
     (t \<noteq> FILE_KEY_PROVIDER \<longrightarrow> file_name k = None) \<and>
     (t \<noteq> KMIP_KEY_PROVIDER \<longrightarrow> kmip_host k = None \<and> kmip_port k = None \<and> kmip_ca_path k = None \<and> kmip_cert_path k = None \<and> kmip_key_path k = None) \<and>
     (t \<noteq> OPENBAO_KEY_PROVIDER \<longrightarrow> openbao_token_path k = None \<and> openbao_url k = None \<and> openbao_mount_path k = None \<and>
        openbao_ca_path k = None \<and> openbao_namespace k = None)"

definition json_inv :: "u32 \<Rightarrow> JsonKeyringState \<Rightarrow> bool" where
  "json_inv t p \<longleftrightarrow> jk_provider_type p = t \<and> foreign_unset t (jk_provider_opts p) \<and>
     jk_current_field p \<in> insert JK_FIELD_UNKNOWN (set (provider_fields t))"

text \<open>A field that the type accepts is assigned to an option of the type.\<close>

lemma assign_foreign:
  assumes "foreign_unset t (jk_provider_opts p)" "fld \<in> insert JK_FIELD_UNKNOWN (set (provider_fields t))"
    and "json_kring_assign_scalar p fld v = Inr p'"
  shows "foreign_unset t (jk_provider_opts p')"
  using assms
  by (cases fld)
    (auto simp: json_kring_assign_scalar_def Let_def provider_fields_def foreign_unset_def provider_types split: if_splits)

lemma assign_frame:
  assumes "json_kring_assign_scalar p fld v = Inr p'"
  shows "jk_provider_type p' = jk_provider_type p" "jk_current_field p' = jk_current_field p"
    "gk_type (jk_provider_opts p') = gk_type (jk_provider_opts p)"
  using assms by (cases fld; auto simp: json_kring_assign_scalar_def Let_def)+

lemma scalar_assigns:
  "json_kring_scalar tt tok p = Inr p' \<Longrightarrow> \<exists>v. json_kring_assign_scalar p (jk_current_field p) v = Inr p'"
  by (cases tt) (auto simp: json_kring_scalar_def split: if_splits)

lemma field_start_inv:
  assumes "json_kring_object_field_start fname p = Inr p'"
  shows "jk_provider_type p' = jk_provider_type p" "jk_provider_opts p' = jk_provider_opts p"
    "jk_current_field p' = jk_current_field p \<or> jk_current_field p' \<in> set (provider_fields (jk_provider_type p))"
proof -
  have "find P xs = Some x \<Longrightarrow> x \<in> set xs" for P and xs :: "JsonKeyringField list" and x
    by (induction xs) (auto split: if_splits)
  then show "jk_provider_type p' = jk_provider_type p" "jk_provider_opts p' = jk_provider_opts p"
    "jk_current_field p' = jk_current_field p \<or> jk_current_field p' \<in> set (provider_fields (jk_provider_type p))"
    using assms
    by (auto simp: json_kring_object_field_start_def split: JsonKeyringSemState.splits if_splits option.splits)
qed

lemma json_step_inv:
  assumes "json_inv t p" "json_step e p = Inr p'"
  shows "json_inv t p' \<and> gk_type (jk_provider_opts p') = gk_type (jk_provider_opts p)"
proof (cases e)
  case (JsScalar tt tok)
  then obtain v where v: "json_kring_assign_scalar p (jk_current_field p) v = Inr p'"
    using assms(2) scalar_assigns [of tt tok p p'] by (auto simp: json_step_def)
  then show ?thesis
    using assms(1) assign_foreign [OF _ _ v, of t] assign_frame [OF v] by (simp add: json_inv_def)
next
  case (JsField fname)
  then have "json_kring_object_field_start fname p = Inr p'" using assms(2) by (simp add: json_step_def)
  from field_start_inv [OF this] show ?thesis using assms(1) by (auto simp: json_inv_def)
qed (use assms in \<open>auto simp: json_step_def json_inv_def json_kring_object_start_def json_kring_array_start_def
      split: JsonKeyringSemState.splits\<close>)

lemma json_run_inv:
  "json_inv t p \<Longrightarrow> json_run es p = Inr p' \<Longrightarrow> json_inv t p' \<and> gk_type (jk_provider_opts p') = gk_type (jk_provider_opts p)"
proof (induction es arbitrary: p)
  case (Cons e es)
  then obtain q where "json_step e p = Inr q" "json_run es q = Inr p'" by (auto split: sum.splits)
  with Cons json_step_inv show ?case by metis
qed simp

text \<open>The documented options of the three types of providers.\<close>

definition option_names :: "u32 \<Rightarrow> string set" where
  "option_names t =
     (if t = FILE_KEY_PROVIDER then {''path''}
      else if t = OPENBAO_KEY_PROVIDER then {''url'', ''mountPath'', ''tokenPath'', ''caPath'', ''namespace''}
      else if t = KMIP_KEY_PROVIDER then {''host'', ''port'', ''caPath'', ''certPath'', ''keyPath''}
      else {})"

definition option_event :: "u32 \<Rightarrow> json_event \<Rightarrow> bool" where
  "option_event t e \<longleftrightarrow> (case e of
       JsField fname \<Rightarrow> \<exists>n\<in>option_names t. strcmp_eq fname (bytes_of n)
     | JsArrayStart \<Rightarrow> False
     | JsScalar tt tok \<Rightarrow> tt \<in> {JSON_TOKEN_STRING, JSON_TOKEN_NUMBER, JSON_TOKEN_NULL}
     | _ \<Rightarrow> True)"

lemma find_option:
  assumes "find (\<lambda>fld. strcmp_eq fname (bytes_of (JK_FIELD_NAMES fld))) (provider_fields t) = Some fld"
  shows "\<exists>n\<in>option_names t. strcmp_eq fname (bytes_of n)"
proof -
  have "strcmp_eq fname (bytes_of (JK_FIELD_NAMES fld))" "fld \<in> set (provider_fields t)" using assms by (auto simp: find_Some_iff)
  moreover from this(2) have "JK_FIELD_NAMES fld \<in> option_names t" by (auto simp: provider_fields_def option_names_def provider_types split: if_splits)
  ultimately show ?thesis by blast
qed

lemma json_step_accepts:
  assumes "json_step e p = Inr p'" "jk_provider_type p \<in> {FILE_KEY_PROVIDER, OPENBAO_KEY_PROVIDER, KMIP_KEY_PROVIDER}"
  shows "option_event (jk_provider_type p) e"
proof (cases e)
  case (JsField fname)
  then show ?thesis
    using assms find_option [of fname "jk_provider_type p"]
    by (auto simp: option_event_def json_step_def json_kring_object_field_start_def split: JsonKeyringSemState.splits option.splits if_splits)
next
  case JsArrayStart
  then show ?thesis using assms by (simp add: json_step_def json_kring_array_start_def split: JsonKeyringSemState.splits)
next
  case (JsScalar tt tok)
  then show ?thesis using assms by (cases tt) (auto simp: option_event_def json_step_def json_kring_scalar_def split: if_splits)
qed (simp_all add: option_event_def)

lemma json_run_accepts:
  assumes "json_inv t p" "json_run es p = Inr p'" "t \<in> {FILE_KEY_PROVIDER, OPENBAO_KEY_PROVIDER, KMIP_KEY_PROVIDER}"
  shows "\<forall>e\<in>set es. option_event t e"
  using assms(1,2)
proof (induction es arbitrary: p)
  case (Cons e es)
  then obtain q where q: "json_step e p = Inr q" "json_run es q = Inr p'" by (auto split: sum.splits)
  have "jk_provider_type p = t" using Cons.prems(1) by (simp add: json_inv_def)
  then show ?case using Cons.IH [of q] json_step_inv [OF Cons.prems(1) q(1)] json_step_accepts [OF q(1)] q(2) assms(3) by auto
qed simp

text \<open>
  C33. The options of a key provider are confined to its type: whatever text is parsed for a provider of one of the three types, if it is
  accepted it is well-formed JSON, names only the options that are documented for this type, has no arrays, and no values but strings, numbers and null, so that a text with any other
  field is refused; and in the provider that comes out the options of the other two types are unset.
\<close>

theorem json_options_confined:
  assumes "ParseKeyringJSONOptions ev t (palloc0_keyring t) buf = Inr k" "t \<in> {FILE_KEY_PROVIDER, OPENBAO_KEY_PROVIDER, KMIP_KEY_PROVIDER}"
  shows "snd (json_parse ev (cstr buf)) \<and> (\<forall>e\<in>set (fst (json_parse ev (cstr buf))). option_event t e) \<and> foreign_unset t k \<and> gk_type k = t"
proof -
  let ?p = "\<lparr>jk_provider_type = t, jk_provider_opts = palloc0_keyring t, jk_current_field = JK_FIELD_UNKNOWN,
      jk_state = JK_EXPECT_TOP_LEVEL_OBJECT\<rparr>"
  obtain evs p where p: "json_parse ev (cstr buf) = (evs, True)" "json_run evs ?p = Inr p" "k = jk_provider_opts p"
    using assms(1) by (auto simp: ParseKeyringJSONOptions_def Let_def split: prod.splits sum.splits if_splits)
  have i: "json_inv t ?p" by (simp add: json_inv_def foreign_unset_def palloc0_keyring_def)
  from json_run_inv [OF i p(2)] json_run_accepts [OF i p(2) assms(2)] show ?thesis
    using p(1,3) by (simp add: json_inv_def palloc0_keyring_def)
qed

theorem json_options_confined_witness:
  "\<exists>k. ParseKeyringJSONOptions demo_env FILE_KEY_PROVIDER (palloc0_keyring FILE_KEY_PROVIDER) [114, 0] = Inr k \<and>
     file_name k = Some [114] \<and> foreign_unset FILE_KEY_PROVIDER k \<and> (\<forall>e\<in>set (fst (json_parse demo_env [114])). option_event FILE_KEY_PROVIDER e)"
proof -
  obtain k where k: "ParseKeyringJSONOptions demo_env FILE_KEY_PROVIDER (palloc0_keyring FILE_KEY_PROVIDER) [114, 0] = Inr k"
      "file_name k = Some [114]"
    by (simp add: ParseKeyringJSONOptions_def demo_env_def json_step_def json_kring_object_start_def json_kring_object_field_start_def
        json_kring_scalar_def json_kring_assign_scalar_def provider_fields_def provider_types strcmp_eq_def bytes_of_def cstr_def Let_def)
  have "cstr [114, 0] = [114]" by (simp add: cstr_def)
  then show ?thesis using json_options_confined [OF k(1)] k by auto
qed

section \<open>A concrete keyring\<close>

definition demo_prov :: KeyringProviderRecord where
  "demo_prov = \<lparr>provider_id = 1, provider_name = fit 128 [118], options = fit 1024 [114], provider_type = FILE_KEY_PROVIDER\<rparr>"

definition demo_ring_key :: KeyInfo where
  "demo_ring_key = \<lparr>ki_name = fit 256 [97], ki_data = \<lparr>kd_data = replicate 32 11, kd_len = 16\<rparr>\<rparr>"

text \<open>A provider with number 1 for database 5 and its key file; database 5 uses its key.\<close>

definition demo_disk :: "bytes \<Rightarrow> string \<Rightarrow> bytes option" where
  "demo_disk f = [get_keyring_infofile_path demo_env 5 \<mapsto> enc_prov demo_prov, ''r'' \<mapsto> enc_key demo_ring_key,
     open_pg_tde_set_db_file_path demo_env 5 \<mapsto> f]"

lemma demo_paths [simp]:
  "get_keyring_infofile_path demo_env 5 = ''pg_tde/5_providers''" "open_pg_tde_set_db_file_path demo_env 5 = ''pg_tde/5_keys''"
  by (simp_all add: path_defs demo_env_def fmt_d_def digits.simps digit_char_def) (code_simp)+

lemma demo_ring_path: "path_of [114] = ''r''"
  by code_simp

lemma cstr_fit_1: "x \<noteq> 0 \<Longrightarrow> 1 < n \<Longrightarrow> cstr (fit n [x]) = [x]"
  using cstr_fit [of "[x]" n] by (simp add: cstr_def)

lemma demo_load:
  assumes "options p = fit 1024 [114]" "provider_type p = FILE_KEY_PROVIDER"
  shows "\<exists>kr. load_keyring_provider_from_record demo_env p w = (Inr kr, w) \<and> gk_type kr = FILE_KEY_PROVIDER \<and>
     file_name kr = Some [114] \<and> keyring_id kr = provider_id p"
  using cstr_fit_1 [of 114 1024] assms
  by (simp add: load_keyring_provider_from_record_def load_file_keyring_provider_options_def runM
      ParseKeyringJSONOptions_def is_set_def demo_env_def json_step_def json_kring_object_start_def json_kring_object_field_start_def
        json_kring_scalar_def json_kring_assign_scalar_def provider_fields_def provider_types strcmp_eq_def bytes_of_def cstr_def Let_def)

lemma demo_GetKeyProviderByID:
  assumes "disk w = demo_disk f"
  shows "\<exists>kr. GetKeyProviderByID demo_env 1 5 w = (Inr (Some kr), w) \<and> gk_type kr = FILE_KEY_PROVIDER \<and> file_name kr = Some [114]"
proof -
  have wf: "wf_prov demo_prov" by (simp add: wf_prov_def demo_prov_def)
  have r: "providers_in (enc_prov demo_prov) = [demo_prov]"
    using prov.recs_snoc [OF wf, of "[]"] by (simp add: recs_end prov.sz_pos)
  have f: "disk w (get_keyring_infofile_path demo_env 5) = Some (enc_prov demo_prov)"
    using assms by (simp add: demo_disk_def)
  have "scan_match (PROVIDER_SCAN_BY_ID 1) demo_prov" by (simp add: scan_match_def demo_prov_def provider_types)
  then show ?thesis
    using demo_load [of demo_prov w] scan_good [OF f] prov.enc_length [OF wf] r
    by (auto simp: GetKeyProviderByID_def runM demo_prov_def)
qed

lemma demo_KeyringGetKey:
  assumes "disk w = demo_disk f" "gk_type kr = FILE_KEY_PROVIDER" "file_name kr = Some [114]"
  shows "KeyringGetKey ev kr (fit 256 [97]) w = (Inr (KEYRING_CODE_SUCCESS, Some demo_ring_key), w)"
proof -
  have wf: "wf_key demo_ring_key" by (simp add: wf_key_def demo_ring_key_def)
  have p: "disk w (path_of [114]) = Some (enc_key demo_ring_key)"
    using assms(1) by (simp add: demo_disk_def demo_ring_path)
  have k: "keys_of (disk w (path_of [114])) = [demo_ring_key]"
    using key.recs_snoc [OF wf, of "[]"] p by (simp add: keys_of_def recs_end key.sz_pos)
  have "same_key_name (fit 256 [97]) demo_ring_key" "ValidateKey demo_ring_key"
    by (simp_all add: same_key_name_def pg_strncasecmp_eq_def demo_ring_key_def ValidateKey_def size_consts fit_def)
  with k show ?thesis unfolding keyring_get_file [OF assms(2,3)] by simp
qed

end
