(* ===== verification/Tde_Principal_Ops.thy ===== *)
theory Tde_Principal_Ops
  imports Tde_Frame Tde_Keyring_Files Tde_WalKeyFile_Ops
begin

text \<open>
  What the principal key lookup promises: a key that was not in the cache comes from the keyring and was
  verified against the signed header of the key file, a cached key is returned as it is, a database without
  a key of its own gets the default key, and deleting a key never loses the keys below it.
\<close>

section \<open>The cache\<close>

text \<open>The entries of the cache that a program looks at.\<close>

definition uses_cache :: "env \<Rightarrow> Oid \<Rightarrow> bool" where
  "uses_cache ev db \<longleftrightarrow> \<not> FRONTEND ev \<or> db = GLOBAL_DATA_TDE_OID"

lemma uses_cache_simps [simp]: "\<not> FRONTEND ev \<Longrightarrow> uses_cache ev db" "uses_cache ev GLOBAL_DATA_TDE_OID"
  by (simp_all add: uses_cache_def)

lemma demo_not_frontend [simp]: "\<not> FRONTEND demo_env"
  by (simp add: demo_env_def)

lemma get_principal_key_cached_run [simp]: "uses_cache ev db \<Longrightarrow> get_principal_key_cached ev db w = (Inr (pk_cache w db), w)"
  by (auto simp: uses_cache_def get_principal_key_cached_def get_principal_key_from_cache_def fe_server_principal_key_cache_def runM)

lemma get_cached: "pk_cache w db = Some pk \<Longrightarrow> uses_cache ev db \<Longrightarrow> GetPrincipalKeyNoDefault ev db w = (Inr (Some pk), w)"
  by (simp add: GetPrincipalKeyNoDefault_def runM)

lemma GetPrincipalKey_cached: "pk_cache w db = Some pk \<Longrightarrow> uses_cache ev db \<Longrightarrow> GetPrincipalKey ev db w = (Inr (Some pk), w)"
  by (simp add: GetPrincipalKey_def get_cached runM)

lemma push_new:
  "mlock_ok ev \<Longrightarrow> pk_cache w (databaseId (keyInfo pk)) = None \<Longrightarrow>
     push_principal_key_to_cache ev pk w = (Inr (), w\<lparr>pk_cache := (pk_cache w)(databaseId (keyInfo pk) \<mapsto> pk)\<rparr>)"
  by (simp add: push_principal_key_to_cache_def Let_def runM)

text \<open>A lookup without the default changes nothing but the cache.\<close>

definition only_cache :: "world \<Rightarrow> world \<Rightarrow> bool" where
  "only_cache w w' \<longleftrightarrow> (\<exists>c. w' = w\<lparr>pk_cache := c\<rparr>)"

interpretation oc: frame only_cache
proof
  fix w :: world
  have "w = w\<lparr>pk_cache := pk_cache w\<rparr>" by simp
  then show "only_cache w w" unfolding only_cache_def by blast
qed (auto simp: only_cache_def)

lemma push_only_cache: "keeps only_cache (push_principal_key_to_cache ev pk)"
  using oc.R_refl by (auto simp: keeps_def only_cache_def push_principal_key_to_cache_def Let_def runM)

lemma set_fe_only_cache: "keeps only_cache (set_fe_server_principal_key_cache pk)"
  using oc.R_refl by (auto simp: keeps_def only_cache_def set_fe_server_principal_key_cache_def runM)

lemma get_only_cache: "keeps only_cache (GetPrincipalKeyNoDefault ev db)"
  unfolding GetPrincipalKeyNoDefault_def get_principal_key_cached_def get_principal_key_from_cache_def fe_server_principal_key_cache_def
  by (intro oc.keeps_intros looks [THEN oc.of_looks] push_only_cache set_fe_only_cache)

lemma get_disk: "GetPrincipalKeyNoDefault ev db w = (r, w') \<Longrightarrow> disk w' = disk w \<and> io w' = io w \<and> rng w' = rng w \<and> xlog w' = xlog w"
proof -
  assume "GetPrincipalKeyNoDefault ev db w = (r, w')"
  then obtain c where "w' = w\<lparr>pk_cache := c\<rparr>"
    using get_only_cache [of ev db] unfolding keeps_def only_cache_def by (metis snd_conv)
  then show ?thesis by simp
qed

text \<open>What is returned is what the cache holds afterwards.\<close>

lemma get_in_cache: "GetPrincipalKeyNoDefault ev db w = (Inr (Some pk), w') \<Longrightarrow> \<not> FRONTEND ev \<Longrightarrow> pk_cache w' db = Some pk"
  by (auto simp: GetPrincipalKeyNoDefault_def get_principal_key_from_cache_def bindM_eq_Inr seqM_eq_Inr split: if_splits option.splits)

lemma GetPrincipalKey_in_cache: "GetPrincipalKey ev db w = (Inr (Some pk), w') \<Longrightarrow> \<not> FRONTEND ev \<Longrightarrow> pk_cache w' db = Some pk"
  by (auto simp: GetPrincipalKey_def bindM_eq_Inr seqM_eq_Inr Let_def dest: get_in_cache split: if_splits option.splits)

section \<open>Properties\<close>

text \<open>The signed key information of a database, or of the server, as its file holds it.\<close>

definition key_info_of :: "env \<Rightarrow> Oid \<Rightarrow> TDESignedPrincipalKeyInfo option tdeM" where
  "key_info_of ev db = (if db = GLOBAL_DATA_TDE_OID then open_pg_tde_get_server_key_info ev else open_pg_tde_get_principal_key_info ev db)"

text \<open>
  C5. A principal key that is not cached is handed out only after verification: it was built from a
  keyring key with which the seal over the key information in the header of the key file opens, under
  exactly that information, and it is cached as such (in the command line tools, only the key of the server is cached); nothing else changes.
\<close>

theorem principal_key_verified:
  assumes "pk_cache w db = None" and "GetPrincipalKeyNoDefault ev db w = (Inr (Some pk), w')"
  shows "\<exists>ski kd. key_info_of ev db w = (Inr (Some ski), w) \<and> pk = principal_key_of ev (ski_data ski) kd \<and>
     (\<exists>pt. gcm_decrypt ev (kd_material kd) (sign_iv ski) (enc_pki (ski_data ski)) [] (ski_aead_tag ski) = GcmOk pt) \<and>
     w' = (if uses_cache ev db then w\<lparr>pk_cache := (pk_cache w)(db \<mapsto> pk)\<rparr> else w)"
proof -
  have m: "get_principal_key_cached ev db w = (Inr None, w)"
    using assms(1) get_principal_key_cached_run [of ev db w] by (cases "uses_cache ev db") (auto simp: get_principal_key_cached_def uses_cache_def)
  obtain pk0 w1 where f: "get_principal_key_from_keyring ev db w = (Inr (Some pk0), w1)"
    and p: "(if \<not> FRONTEND ev then seqM (push_principal_key_to_cache ev pk0) (get_principal_key_from_cache db)
        else seqM (whenM (db = GLOBAL_DATA_TDE_OID) (set_fe_server_principal_key_cache pk0)) (ret (Some pk0))) w1 = (Inr (Some pk), w')"
    using assms(2) by (auto simp: GetPrincipalKeyNoDefault_def bindM_Inr m bindM_eq_Inr split: option.splits)
  have w1: "w1 = w" using keeps_run [OF looks_from_keyring, of ev db w] f by simp
  have c: "pk0 = pk \<and> w' = (if uses_cache ev db then w\<lparr>pk_cache := (pk_cache w)(db \<mapsto> pk)\<rparr> else w)"
    using p assms(1) w1
    by (auto simp: push_principal_key_to_cache_def set_fe_server_principal_key_cache_def get_principal_key_from_cache_def uses_cache_def Let_def
        runM whenM_def split: if_splits)
  obtain ski kd w2 where "key_info_of ev db w = (Inr (Some ski), w2)" "pk0 = principal_key_of ev (ski_data ski) kd"
      "\<exists>w3. open_pg_tde_verify_principal_key_info ev ski kd w3 = (Inr True, w1)"
    using f unfolding get_principal_key_from_keyring_def key_info_of_def
    by (auto simp: bindM_eq_Inr seqM_eq_Inr split: option.splits if_splits prod.splits)
  moreover have "w2 = w" if "key_info_of ev db w = (Inr (Some ski), w2)" for w2
    using that keeps_run [OF looks_get_key_info(1), of ev db w] keeps_run [OF looks_get_key_info(2), of ev w]
    by (auto simp: key_info_of_def split: if_splits)
  ultimately show ?thesis
    using c by (auto simp: open_pg_tde_verify_principal_key_info_def bindM_eq_Inr AesGcmDecrypt_def split: gcm_result.splits)
qed

lemma get_principal_key_info_good:
  assumes "disk w (open_pg_tde_set_db_file_path ev db) = Some f" "good_file f"
  shows "open_pg_tde_get_principal_key_info ev db w = (Inr (Some (signed_key_info (file_header f))), w)"
  using assms kf_header_read_good [OF assms]
  by (simp add: open_pg_tde_get_principal_key_info_def smgr_file_defs kf_open_basic_def runM Let_def)
    (simp add: kf_good_def file_header_def)

text \<open>In a world with the concrete keyring, the lookup for database 5 succeeds.\<close>

lemma demo_lookup:
  "\<exists>w pk w'. pk_cache w 5 = None \<and> io w = [] \<and> GetPrincipalKeyNoDefault demo_env 5 w = (Inr (Some pk), w') \<and> keyInfo pk = keyInfo demo_pk"
proof -
  obtain f ski where f: "good_file f" "signed_by demo_env demo_pk ski" "signed_key_info (file_header f) = ski"
    using demo_file by blast
  let ?w = "demo_world\<lparr>disk := demo_disk f\<rparr>"
  have i: "open_pg_tde_get_principal_key_info demo_env 5 ?w = (Inr (Some ski), ?w)"
    using get_principal_key_info_good [of ?w demo_env 5 f] f by (simp add: demo_disk_def)
  have sd: "ski_data ski = keyInfo demo_pk" using f(2) by (simp add: signed_by_def)
  obtain kr where kr: "GetKeyProviderByID demo_env 1 5 ?w = (Inr (Some kr), ?w)"
      "KeyringGetKey demo_env kr (fit 256 [97]) ?w = (Inr (KEYRING_CODE_SUCCESS, Some demo_ring_key), ?w)"
    using demo_GetKeyProviderByID [of ?w f] demo_KeyringGetKey [of ?w f] by auto
  have "kd_material (ki_data demo_ring_key) = pk_material demo_pk"
    by (simp add: kd_material_def pk_material_def demo_ring_key_def demo_pk_def)
  then have v: "open_pg_tde_verify_principal_key_info demo_env ski (ki_data demo_ring_key) ?w = (Inr True, ?w)"
    using verify_signed [OF f(2)] by simp
  have k: "keyringId (keyInfo demo_pk) = 1" "pk_name (keyInfo demo_pk) = fit 256 [97]" by (simp_all add: demo_pk_def)
  have "get_principal_key_from_keyring demo_env 5 ?w =
      (Inr (Some (principal_key_of demo_env (keyInfo demo_pk) (ki_data demo_ring_key))), ?w)"
    using i kr v k by (simp add: get_principal_key_from_keyring_def runM GLOBAL_DATA_TDE_OID_def sd)
  then have "GetPrincipalKeyNoDefault demo_env 5 ?w =
      (Inr (Some (principal_key_of demo_env (keyInfo demo_pk) (ki_data demo_ring_key))),
       ?w\<lparr>pk_cache := [5 \<mapsto> principal_key_of demo_env (keyInfo demo_pk) (ki_data demo_ring_key)]\<rparr>)"
    by (simp add: GetPrincipalKeyNoDefault_def get_principal_key_cached_def get_principal_key_from_cache_def runM push_principal_key_to_cache_def
        principal_key_of_def demo_env_def demo_world_def fun_upd_def)
  then show ?thesis by (intro exI [of _ ?w]) (auto simp: principal_key_of_def)
qed

theorem principal_key_verified_witness:
  "\<exists>w pk w' ski kd. GetPrincipalKeyNoDefault demo_env 5 w = (Inr (Some pk), w') \<and> key_info_of demo_env 5 w = (Inr (Some ski), w) \<and>
     pk = principal_key_of demo_env (ski_data ski) kd \<and>
     (\<exists>pt. gcm_decrypt demo_env (kd_material kd) (sign_iv ski) (enc_pki (ski_data ski)) [] (ski_aead_tag ski) = GcmOk pt)"
proof -
  obtain w pk w' where "pk_cache w 5 = None" "GetPrincipalKeyNoDefault demo_env 5 w = (Inr (Some pk), w')"
    using demo_lookup by blast
  from this(2) principal_key_verified [OF this] show ?thesis by blast
qed

end
