(* ===== verification/Tde_Relkeys_Ops.thy ===== *)
theory Tde_Relkeys_Ops
  imports Tde_Relkeys Tde_Principal_Ops
begin

text \<open>
  The key file of a database as a map from relations to keys: what \<open>open_pg_tde_save_smgr_key\<close>
  stores, \<open>open_pg_tde_get_smgr_key\<close> and \<open>open_pg_tde_has_smgr_key\<close> find.
\<close>

section \<open>The state a backend works in\<close>

text \<open>
  The principal key of the database is cached, its information fits the header, and the key file
  is absent or well formed with every entry sealed under that key.
\<close>

definition sealed_under :: "env \<Rightarrow> TDEPrincipalKey \<Rightarrow> TDEMapEntry list \<Rightarrow> bool" where
  "sealed_under ev pk es \<longleftrightarrow> (\<forall>e\<in>set es. me_type e = MAP_ENTRY_TYPE_KEY \<longrightarrow> (\<exists>k. entry_holds ev pk e k))"

definition keys_ready :: "env \<Rightarrow> TDEPrincipalKey \<Rightarrow> Oid \<Rightarrow> world \<Rightarrow> bool" where
  "keys_ready ev pk db w \<longleftrightarrow> \<not> FRONTEND ev \<and> pk_cache w db = Some pk \<and> wf_pki (keyInfo pk) \<and> io w = [] \<and>
     smgr_usable (disk w (open_pg_tde_set_db_file_path ev db)) \<and>
     keymap_inv (entries_of (disk w (open_pg_tde_set_db_file_path ev db))) \<and>
     sealed_under ev pk (entries_of (disk w (open_pg_tde_set_db_file_path ev db)))"

text \<open>The key file alone.\<close>

definition keys_file_ok :: "env \<Rightarrow> TDEPrincipalKey \<Rightarrow> Oid \<Rightarrow> world \<Rightarrow> bool" where
  "keys_file_ok ev pk db w \<longleftrightarrow> wf_pki (keyInfo pk) \<and> io w = [] \<and>
     smgr_usable (disk w (open_pg_tde_set_db_file_path ev db)) \<and>
     keymap_inv (entries_of (disk w (open_pg_tde_set_db_file_path ev db))) \<and>
     sealed_under ev pk (entries_of (disk w (open_pg_tde_set_db_file_path ev db)))"

lemma keys_ready_file: "keys_ready ev pk db w \<longleftrightarrow> \<not> FRONTEND ev \<and> pk_cache w db = Some pk \<and> keys_file_ok ev pk db w"
  by (auto simp: keys_ready_def keys_file_ok_def)

lemma keys_ready_lookup: "keys_ready ev pk db w \<Longrightarrow> GetPrincipalKey ev db w = (Inr (Some pk), w)"
  by (simp add: keys_ready_def GetPrincipalKey_cached)

text \<open>The entry of a relation.\<close>

definition rel_entry :: "env \<Rightarrow> RelFileLocator \<Rightarrow> world \<Rightarrow> TDEMapEntry option" where
  "rel_entry ev rel w = find (entry_matches rel) (entries_of (disk w (open_pg_tde_set_db_file_path ev (dbOid rel))))"

definition same_relation :: "RelFileLocator \<Rightarrow> RelFileLocator \<Rightarrow> bool" where
  "same_relation a b \<longleftrightarrow> spcOid a = spcOid b \<and> dbOid a = dbOid b \<and> relNumber a = relNumber b"

section \<open>Lookup\<close>

lemma find_map_entry_usable:
  assumes "disk w p = Some f" "smgr_usable (disk w p)"
  shows "open_pg_tde_find_map_entry rel p w = (Inr (find (entry_matches rel) (map_entries f)), w)"
proof (cases "f = []")
  case True
  have "map_entries_at [] 0 = []" by (simp add: map_entries_at_def read_all_end ENTRY_SIZE_def)
  with mapfile.ents_Nil show ?thesis
    using assms True
    by (simp add: open_pg_tde_find_map_entry_def smgr_file_defs kf_open_read_def kf_open_basic_def kf_header_read_def
        runM file_bytes_def pread_def)
next
  case False
  with assms show ?thesis by (simp add: find_map_entry_ok usable_file_def)
qed

lemma get_spec_lookup:
  assumes "GetPrincipalKey ev (dbOid rel) w = (Inr (Some pk), w)" "smgr_usable (disk w (open_pg_tde_set_db_file_path ev (dbOid rel)))"
  shows "open_pg_tde_get_smgr_key ev rel w =
     (case rel_entry ev rel w of None \<Rightarrow> (Inr None, w) | Some e \<Rightarrow> bindM (tde_decrypt_rel_key ev pk e) (\<lambda>k. ret (Some k)) w)"
proof (cases "disk w (open_pg_tde_set_db_file_path ev (dbOid rel))")
  case None
  then show ?thesis by (simp add: open_pg_tde_get_smgr_key_def Let_def runM rel_entry_def entries_of_def)
next
  case (Some f)
  with assms have "open_pg_tde_find_map_entry rel (open_pg_tde_set_db_file_path ev (dbOid rel)) w = (Inr (rel_entry ev rel w), w)"
    using find_map_entry_usable [OF Some] by (simp add: rel_entry_def entries_of_def)
  with Some assms show ?thesis
    by (simp add: open_pg_tde_get_smgr_key_def Let_def runM split: option.splits)
qed

lemma get_spec:
  assumes "keys_ready ev pk (dbOid rel) w"
  shows "open_pg_tde_get_smgr_key ev rel w =
     (case rel_entry ev rel w of None \<Rightarrow> (Inr None, w) | Some e \<Rightarrow> bindM (tde_decrypt_rel_key ev pk e) (\<lambda>k. ret (Some k)) w)"
  using get_spec_lookup [OF keys_ready_lookup [OF assms]] assms by (simp add: keys_ready_def)

lemma has_spec:
  assumes "smgr_usable (disk w (open_pg_tde_set_db_file_path ev (dbOid rel)))"
  shows "open_pg_tde_has_smgr_key ev rel w = (Inr (rel_entry ev rel w \<noteq> None), w)"
  using find_map_entry_usable [OF _ assms]
  by (cases "disk w (open_pg_tde_set_db_file_path ev (dbOid rel))")
    (auto simp: open_pg_tde_has_smgr_key_def Let_def runM rel_entry_def entries_of_def)

text \<open>With every entry sealed under the principal key, a lookup returns the key of the relation's entry.\<close>

lemma get_holds:
  assumes "keys_ready ev pk (dbOid rel) w" "rel_entry ev rel w = Some e" "entry_holds ev pk e k"
  shows "\<exists>k'. open_pg_tde_get_smgr_key ev rel w = (Inr (Some k'), w) \<and> ik_equiv k' k \<and> wf_ik k'"
  using get_spec [OF assms(1)] decrypt_rel_key_ok [OF assms(3), of w] assms(2) by (auto simp: runM)

text \<open>What an entry opens to does not depend on the state.\<close>

lemma decrypt_rel_key_indep: "fst (tde_decrypt_rel_key ev pk e w) = fst (tde_decrypt_rel_key ev pk e w')"
  by (auto simp: tde_decrypt_rel_key_def bindM_def liftM_def AesGcmDecrypt_def ret_def throw_def
      split: sum.splits prod.splits gcm_result.splits option.splits)

lemma fst_bindM_ret: "fst (bindM m (\<lambda>x. ret (f x)) w) = (case fst (m w) of Inl e \<Rightarrow> Inl e | Inr x \<Rightarrow> Inr (f x))"
  by (simp add: bindM_def ret_def split: sum.splits prod.splits)

section \<open>Insertion\<close>

lemma rel_entry_same_rel:
  assumes inv: "keymap_inv es" and rel: "relNumber rel \<noteq> 0"
  shows "find_index (same_rel rel) es < length es \<longleftrightarrow> find (entry_matches rel) es \<noteq> None"
proof -
  have "same_rel rel e \<longleftrightarrow> entry_matches rel e" if "e \<in> set es" for e
    using inv that rel by (auto simp: keymap_inv_def entry_ok_def same_rel_def entry_matches_def)
  then show ?thesis
    using find_index_less [of "same_rel rel" es] by (auto simp: find_None_iff)
qed

lemma sealed_put: "sealed_under ev pk es \<Longrightarrow> entry_holds ev pk e k \<Longrightarrow> sealed_under ev pk (put_entry i e es)"
  using set_update_subset_insert [of es i e] by (auto simp: sealed_under_def put_entry_def)

lemma save_spec_lookup:
  assumes ok: "gcm_ok ev" "rand_ok ev" and look: "GetPrincipalKey ev (dbOid rel) w = (Inr (Some pk), w)"
    and rdy: "keys_file_ok ev pk (dbOid rel) w" and k: "wf_ik k" and rel: "relNumber rel \<noteq> 0"
  shows "\<exists>w' f n ski. open_pg_tde_save_smgr_key ev rel k rep w = (Inr (), w') \<and>
     w' = (set_file (open_pg_tde_set_db_file_path ev (dbOid rel)) f w)\<lparr>rng := n\<rparr> \<and>
     good_file f \<and> signed_by ev pk ski \<and> file_header f = file_header (smgr_base ski (disk w (open_pg_tde_set_db_file_path ev (dbOid rel)))) \<and>
     keys_file_ok ev pk (dbOid rel) w' \<and>
     (\<forall>rel'. \<not> same_relation rel' rel \<longrightarrow> rel_entry ev rel' w' = rel_entry ev rel' w) \<and>
     (if rel_entry ev rel w \<noteq> None \<and> \<not> rep then rel_entry ev rel w' = rel_entry ev rel w
      else \<exists>e. rel_entry ev rel w' = Some e \<and> entry_holds ev pk e k)"
proof -
  let ?p = "open_pg_tde_set_db_file_path ev (dbOid rel)"
  define es where "es = entries_of (disk w ?p)"
  have r: "wf_pki (keyInfo pk)" "io w = []" "smgr_usable (disk w ?p)" "keymap_inv es" "sealed_under ev pk es"
    using rdy by (simp_all add: keys_file_ok_def es_def)
  have found: "find_index (same_rel rel) es < length es \<longleftrightarrow> rel_entry ev rel w \<noteq> None"
    using rel_entry_same_rel [OF r(4) rel] by (simp add: rel_entry_def es_def)
  obtain ski f n where s: "signed_by ev pk ski"
      "save_smgr_key_with ev pk rel k rep w = (Inr (), (set_file ?p f w)\<lparr>rng := n\<rparr>)" "good_file f" "file_header f = file_header (smgr_base ski (disk w ?p))"
      "if find_index (same_rel rel) es < length es \<and> \<not> rep then f = smgr_base ski (disk w ?p)
       else \<exists>e. wf_entry e \<and> entry_is rel e \<and> entry_holds ev pk e k \<and> map_entries f = put_entry (save_slot rel es) e es"
    using save_with_ok [OF ok k r(1,2) refl r(3) es_def, of rep] by blast
  let ?w' = "(set_file ?p f w)\<lparr>rng := n\<rparr>"
  have base: "map_entries (smgr_base ski (disk w ?p)) = es"
    using mapfile.ents_base [OF r(3), of ski] s(1) by (simp add: signed_by_def entries_of_def es_def)
  have en: "entries_of (disk ?w' ?p) = map_entries f" by (simp add: entries_of_def set_file_simps)
  have other: "rel_entry ev rel' ?w' = rel_entry ev rel' w" if "dbOid rel' \<noteq> dbOid rel" for rel'
    using that by (simp add: rel_entry_def set_file_simps)
  have here: "rel_entry ev rel' ?w' = find (entry_matches rel') (map_entries f)"
      "rel_entry ev rel' w = find (entry_matches rel') es" if "dbOid rel' = dbOid rel" for rel'
    using that en by (simp_all add: rel_entry_def es_def)
  have "keymap_inv (map_entries f) \<and> sealed_under ev pk (map_entries f) \<and>
     (\<forall>rel'. \<not> same_relation rel' rel \<longrightarrow> rel_entry ev rel' ?w' = rel_entry ev rel' w) \<and>
     (if rel_entry ev rel w \<noteq> None \<and> \<not> rep then rel_entry ev rel ?w' = rel_entry ev rel w
      else \<exists>e. rel_entry ev rel ?w' = Some e \<and> entry_holds ev pk e k)"
  proof (cases "rel_entry ev rel w \<noteq> None \<and> \<not> rep")
    case True
    with s(5) found base have "map_entries f = es" by simp
    with True r(4,5) other here show ?thesis by (metis (no_types))
  next
    case False
    with s(5) found obtain e where e: "entry_is rel e" "entry_holds ev pk e k" "map_entries f = put_entry (save_slot rel es) e es"
      by auto
    have "sealed_under ev pk (map_entries f)" using sealed_put [OF r(5) e(2)] e(3) by simp
    moreover have "rel_entry ev rel' ?w' = rel_entry ev rel' w" if "\<not> same_relation rel' rel" for rel'
      using that put_find_other [OF e(1), of rel' es] other [of rel'] here [of rel'] e(3)
      by (cases "dbOid rel' = dbOid rel") (auto simp: same_relation_def)
    moreover have "rel_entry ev rel ?w' = Some e" using put_find_same [OF e(1)] here [of rel] e(3) by simp
    ultimately show ?thesis using False keymap_inv_save [OF r(4) e(1) rel] e(2,3) by auto
  qed
  moreover have "keys_file_ok ev pk (dbOid rel) ?w'" if "keymap_inv (map_entries f)"
      "sealed_under ev pk (map_entries f)"
    using that r(1,2) s(3) en by (simp add: keys_file_ok_def set_file_simps usable_file_def)
  moreover have "open_pg_tde_save_smgr_key ev rel k rep w = (Inr (), ?w')"
    using s(2) look by (simp add: open_pg_tde_save_smgr_key_def runM)
  ultimately show ?thesis using s(1,3,4) by blast
qed

lemma save_spec:
  assumes "gcm_ok ev" "rand_ok ev" and rdy: "keys_ready ev pk (dbOid rel) w" and "wf_ik k" and "relNumber rel \<noteq> 0"
  shows "\<exists>w' f n. open_pg_tde_save_smgr_key ev rel k rep w = (Inr (), w') \<and>
     w' = (set_file (open_pg_tde_set_db_file_path ev (dbOid rel)) f w)\<lparr>rng := n\<rparr> \<and>
     keys_ready ev pk (dbOid rel) w' \<and>
     (\<forall>rel'. \<not> same_relation rel' rel \<longrightarrow> rel_entry ev rel' w' = rel_entry ev rel' w) \<and>
     (if rel_entry ev rel w \<noteq> None \<and> \<not> rep then rel_entry ev rel w' = rel_entry ev rel w
      else \<exists>e. rel_entry ev rel w' = Some e \<and> entry_holds ev pk e k)"
proof -
  have f: "keys_file_ok ev pk (dbOid rel) w" "\<not> FRONTEND ev" "pk_cache w (dbOid rel) = Some pk" using rdy by (simp_all add: keys_ready_file)
  have "keys_ready ev pk (dbOid rel) ((set_file p f w)\<lparr>rng := n\<rparr>) \<longleftrightarrow> keys_file_ok ev pk (dbOid rel) ((set_file p f w)\<lparr>rng := n\<rparr>)" for p f n
    using f(2,3) by (simp add: keys_ready_file set_file_def)
  then show ?thesis using save_spec_lookup [OF assms(1,2) keys_ready_lookup [OF rdy] f(1) assms(4,5), of rep] by metis
qed

section \<open>Properties\<close>

text \<open>
  C8. A relation key that was saved is found: after \<open>open_pg_tde_save_smgr_key\<close> (replacing), the
  lookup of the relation returns the key, with the same cipher, base vector and material;
  the state stays one in which keys can be saved and looked up; which other relations of any
  database have a key does not change, and lookups in the same database return what they did.
\<close>

theorem smgr_key_roundtrip:
  assumes "gcm_ok ev" "rand_ok ev" and "keys_ready ev pk (dbOid rel) w" and "wf_ik k" and "relNumber rel \<noteq> 0"
  shows "\<exists>w' k'. open_pg_tde_save_smgr_key ev rel k True w = (Inr (), w') \<and> keys_ready ev pk (dbOid rel) w' \<and>
     open_pg_tde_get_smgr_key ev rel w' = (Inr (Some k'), w') \<and> ik_equiv k' k \<and>
     (\<forall>rel'. \<not> same_relation rel' rel \<longrightarrow>
        (smgr_usable (disk w (open_pg_tde_set_db_file_path ev (dbOid rel'))) \<longrightarrow>
           fst (open_pg_tde_has_smgr_key ev rel' w') = fst (open_pg_tde_has_smgr_key ev rel' w)) \<and>
        (dbOid rel' = dbOid rel \<longrightarrow>
           fst (open_pg_tde_get_smgr_key ev rel' w') = fst (open_pg_tde_get_smgr_key ev rel' w)))"
proof -
  obtain w' f n e where w': "open_pg_tde_save_smgr_key ev rel k True w = (Inr (), w')"
      "w' = (set_file (open_pg_tde_set_db_file_path ev (dbOid rel)) f w)\<lparr>rng := n\<rparr>" "keys_ready ev pk (dbOid rel) w'"
      "\<And>rel'. \<not> same_relation rel' rel \<Longrightarrow> rel_entry ev rel' w' = rel_entry ev rel' w"
      "rel_entry ev rel w' = Some e" "entry_holds ev pk e k"
    using save_spec [OF assms, of True] by auto
  obtain k' where "open_pg_tde_get_smgr_key ev rel w' = (Inr (Some k'), w')" "ik_equiv k' k"
    using get_holds [OF w'(3,5,6)] by blast
  moreover have "fst (open_pg_tde_has_smgr_key ev rel' w') = fst (open_pg_tde_has_smgr_key ev rel' w)"
    if d: "\<not> same_relation rel' rel" and u: "smgr_usable (disk w (open_pg_tde_set_db_file_path ev (dbOid rel')))" for rel'
  proof -
    have "smgr_usable (disk w' (open_pg_tde_set_db_file_path ev (dbOid rel')))"
      using u w'(2,3) by (cases "dbOid rel' = dbOid rel") (simp_all add: keys_ready_def set_file_simps)
    with has_spec [OF this] has_spec [OF u] show ?thesis using w'(4) [OF d] by simp
  qed
  moreover have "fst (open_pg_tde_get_smgr_key ev rel' w') = fst (open_pg_tde_get_smgr_key ev rel' w)"
    if "\<not> same_relation rel' rel" "dbOid rel' = dbOid rel" for rel'
    using get_spec [of ev pk rel' w'] get_spec [of ev pk rel' w] assms(3) w'(3) w'(4) [OF that(1)] that(2)
      decrypt_rel_key_indep [of ev pk _ w' w] by (auto simp: fst_bindM_ret split: option.splits)
  ultimately show ?thesis using w'(1,3) by blast
qed

definition demo_ready :: world where
  "demo_ready = demo_world\<lparr>pk_cache := [5 \<mapsto> demo_pk]\<rparr>"

lemma demo_keys_ready: "keys_ready demo_env demo_pk 5 demo_ready"
  by (simp add: keys_ready_def demo_ready_def demo_pk_wf usable_file_def entries_of_def keymap_inv_Nil sealed_under_def)

theorem smgr_key_roundtrip_witness:
  "\<exists>w' k'. open_pg_tde_save_smgr_key demo_env demo_rel demo_key True demo_ready = (Inr (), w') \<and>
     open_pg_tde_get_smgr_key demo_env demo_rel w' = (Inr (Some k'), w') \<and> ik_equiv k' demo_key"
  using smgr_key_roundtrip [OF demo_gcm_ok demo_rand_ok _ demo_key_wf, of demo_pk demo_rel demo_ready] demo_keys_ready
  by (simp del: One_nat_def) blast

end
