(* ===== verification/Tde_Event.thy ===== *)
theory Tde_Event
  imports Tde_Principal Tde_Keymap
begin

text \<open>
  Capturing DDL (\<open>open_pg_tde_event_capture.c\<close>): the stack of statements under way and the encryption
  mode each asks for, the decision made at the start of a statement, what happens at its end, and
  the utility commands that are refused. The catalogs belong to the server: \<open>catalog\<close> is what the
  code reads of them, and the server's operation that rewrites a sequence.
\<close>

section \<open>The server's catalogs\<close>

record pg_class_row =
  relkind :: char
  relam :: Oid
  reltype :: Oid
  relpersistence :: char

text \<open>
  A range variable is a qualified name, the relation name last. \<open>relids\<close> resolves it
  (\<open>None\<close>: no such relation); \<open>pg_class_oftype\<close> is the scan of \<open>pg_class\<close> by \<open>reloftype\<close>.
\<close>

record catalog =
  relids :: "string list \<Rightarrow> Oid option"
  pg_class :: "Oid \<Rightarrow> pg_class_row option"
  pg_class_oftype :: "Oid \<Rightarrow> Oid list"
  inheritance_children :: "Oid \<Rightarrow> Oid list"
  table_am_oid :: "string \<Rightarrow> Oid option"
  getOwnedSequences :: "Oid \<Rightarrow> Oid list"
  SequenceChangePersistence :: "Oid \<Rightarrow> char \<Rightarrow> unit tdeM"

definition InvalidOid :: Oid where "InvalidOid = 0"

definition RELKIND_COMPOSITE_TYPE :: char where "RELKIND_COMPOSITE_TYPE = CHR ''c''"

text \<open>Tables, indexes, sequences, TOAST tables and materialized views.\<close>

definition RELKIND_HAS_STORAGE :: "char \<Rightarrow> bool" where
  "RELKIND_HAS_STORAGE k \<longleftrightarrow> k \<in> set ''riStm''"

definition relation_open :: "catalog \<Rightarrow> Oid \<Rightarrow> tde_error + pg_class_row" where
  "relation_open cat relid =
     (case pg_class cat relid of None \<Rightarrow> Inl (E_state ''could not open relation'') | Some r \<Rightarrow> Inr r)"

text \<open>With \<open>missing_ok\<close> an unknown name gives \<open>InvalidOid\<close>.\<close>

definition RangeVarGetRelid :: "catalog \<Rightarrow> string list \<Rightarrow> bool \<Rightarrow> tde_error + Oid" where
  "RangeVarGetRelid cat rv missing_ok =
     (case relids cat rv of
        Some r \<Rightarrow> Inr r
      | None \<Rightarrow> if missing_ok then Inr InvalidOid else Inl (E_state ''relation does not exist''))"

definition makeRangeVarFromNameList :: "string list \<Rightarrow> tde_error + string list" where
  "makeRangeVarFromNameList names =
     (if 1 \<le> length names \<and> length names \<le> 3 then Inr names
      else Inl (E_state ''improper relation name (too many dotted names)''))"

definition get_tde_table_am_oid :: "catalog \<Rightarrow> tde_error + Oid" where
  "get_tde_table_am_oid cat =
     (case table_am_oid cat ''tde_heap'' of
        None \<Rightarrow> Inl (E_state ''access method tde_heap does not exist'')
      | Some a \<Rightarrow> Inr a)"

definition get_rel_relam :: "catalog \<Rightarrow> Oid \<Rightarrow> tde_error + Oid" where
  "get_rel_relam cat relid =
     (case pg_class cat relid of None \<Rightarrow> Inl (E_state ''cache lookup failed for relation'') | Some r \<Rightarrow> Inr (relam r))"

section \<open>The event stack\<close>

definition currentTdeEncryptMode :: "TDEEncryptMode tdeM" where
  "currentTdeEncryptMode =
     getM (\<lambda>w. if ddlEventStack w = [] then TDE_ENCRYPT_MODE_RETAIN else encryptMode (last (ddlEventStack w)))"

definition currentTdeEncryptModeValidated :: "env \<Rightarrow> TDEEncryptMode tdeM" where
  "currentTdeEncryptModeValidated ev =
     bindM (getM ddlEventStackTid) (\<lambda>tid.
     if tid \<noteq> GetCurrentFullTransactionIdIfAny ev then ret TDE_ENCRYPT_MODE_RETAIN
     else currentTdeEncryptMode)"

definition shouldEncryptTable :: "env \<Rightarrow> string option \<Rightarrow> bool" where
  "shouldEncryptTable ev accessMethod =
     (case accessMethod of
        Some am \<Rightarrow> am = ''tde_heap''
      | None \<Rightarrow> default_table_access_method ev = ''tde_heap'')"

definition checkPrincipalKeyConfigured :: "env \<Rightarrow> unit tdeM" where
  "checkPrincipalKeyConfigured ev =
     bindM (open_pg_tde_principal_key_configured ev (MyDatabaseId ev)) (\<lambda>b. check b E_no_principal_key)"

definition E_enforce_encryption :: tde_error where
  "E_enforce_encryption = E_state ''open_pg_tde.enforce_encryption is ON''"

definition checkEncryptionStatus :: "env \<Rightarrow> unit tdeM" where
  "checkEncryptionStatus ev =
     bindM currentTdeEncryptMode (\<lambda>mode.
     if mode = TDE_ENCRYPT_MODE_ENCRYPT then checkPrincipalKeyConfigured ev
     else check (\<not> EnforceEncryption ev) E_enforce_encryption)"

definition verify_event_stack :: "env \<Rightarrow> unit tdeM" where
  "verify_event_stack ev =
     (let tid = GetCurrentFullTransactionId ev in
      modifyM (\<lambda>w. if ddlEventStackTid w \<noteq> tid then w\<lparr>ddlEventStack := [], ddlEventStackTid := tid\<rparr> else w))"

definition push_event_stack :: "env \<Rightarrow> TdeDdlEvent \<Rightarrow> unit tdeM" where
  "push_event_stack ev event =
     seqM (verify_event_stack ev) (modifyM (\<lambda>w. w\<lparr>ddlEventStack := ddlEventStack w @ [event]\<rparr>))"

section \<open>Mixes of encrypted and plain relations\<close>

datatype EncryptionMix = ENC_MIX_UNKNOWN | ENC_MIX_PLAIN | ENC_MIX_ENCRYPTED | ENC_MIX_MIXED

definition find_typed_table_dependencies :: "catalog \<Rightarrow> Oid \<Rightarrow> Oid list" where
  "find_typed_table_dependencies cat typeOid = pg_class_oftype cat typeOid"

text \<open>
  The recursion follows the catalog's inheritance links and need not be well-founded on an
  arbitrary catalog: the first argument bounds its depth, \<open>None\<close> is a bound that was not enough.
\<close>

definition own_mix :: "catalog \<Rightarrow> pg_class_row \<Rightarrow> tde_error + EncryptionMix" where
  "own_mix cat r =
     (if RELKIND_HAS_STORAGE (relkind r)
      then (case get_tde_table_am_oid cat of
              Inl e \<Rightarrow> Inl e
            | Inr am \<Rightarrow> Inr (if relam r = am then ENC_MIX_ENCRYPTED else ENC_MIX_PLAIN))
      else Inr ENC_MIX_UNKNOWN)"

definition mix_children_of :: "catalog \<Rightarrow> Oid \<Rightarrow> pg_class_row \<Rightarrow> Oid list" where
  "mix_children_of cat relid r =
     (if relkind r = RELKIND_COMPOSITE_TYPE then find_typed_table_dependencies cat (reltype r)
      else inheritance_children cat relid)"

fun mix_loop :: "(Oid \<Rightarrow> (tde_error + EncryptionMix) option) \<Rightarrow> EncryptionMix \<Rightarrow> Oid list \<Rightarrow> (tde_error + EncryptionMix) option" where
  "mix_loop f enc [] = Some (Inr enc)"
| "mix_loop f enc (childid # children) =
     (case f childid of
        None \<Rightarrow> None
      | Some (Inl e) \<Rightarrow> Some (Inl e)
      | Some (Inr childenc) \<Rightarrow>
          if childenc \<noteq> ENC_MIX_UNKNOWN
          then if enc = ENC_MIX_UNKNOWN then mix_loop f childenc children
               else if enc \<noteq> childenc then Some (Inr ENC_MIX_MIXED)
               else mix_loop f enc children
          else mix_loop f enc children)"

primrec alter_table_encryption_mix :: "nat \<Rightarrow> catalog \<Rightarrow> Oid \<Rightarrow> (tde_error + EncryptionMix) option" where
  "alter_table_encryption_mix 0 cat relid = None"
| "alter_table_encryption_mix (Suc depth) cat relid =
     (case relation_open cat relid of
        Inl e \<Rightarrow> Some (Inl e)
      | Inr r \<Rightarrow>
          (case own_mix cat r of
             Inl e \<Rightarrow> Some (Inl e)
           | Inr enc \<Rightarrow> mix_loop (alter_table_encryption_mix depth cat) enc (mix_children_of cat relid r)))"

definition encryption_mix :: "nat \<Rightarrow> catalog \<Rightarrow> Oid \<Rightarrow> EncryptionMix tdeM" where
  "encryption_mix depth cat relid =
     (case alter_table_encryption_mix depth cat relid of
        None \<Rightarrow> throw (E_state ''recursion bound'')
      | Some r \<Rightarrow> liftM r)"

section \<open>The start of a statement\<close>

text \<open>
  The parts of the parse trees that are read: an ALTER TABLE command is \<open>Some am\<close> for
  \<open>SET ACCESS METHOD\<close> (\<open>am\<close> is \<open>None\<close> for \<open>DEFAULT\<close>) and \<open>None\<close> otherwise; a sequence option is its
  name and the qualified name in it.
\<close>

datatype ddl_stmt =
    IndexStmt "string list"
  | CreateStmt "string option" bool "string list list"
  | CreateTableAsStmt "string option"
  | AlterTableStmt "string list" "string option option list"
  | CreateSeqStmt "(string \<times> string list) list"
  | AlterSeqStmt "string list" "(string \<times> string list) list"
  | OtherStmt

definition new_event :: "nat \<Rightarrow> TdeDdlEvent" where
  "new_event parsetree =
     \<lparr>ev_parsetree = parsetree, encryptMode = TDE_ENCRYPT_MODE_RETAIN, rebuildSequencesFor = InvalidOid, rebuildSequence = InvalidOid\<rparr>"

definition mode_of :: "bool \<Rightarrow> TDEEncryptMode" where
  "mode_of b = (if b then TDE_ENCRYPT_MODE_ENCRYPT else TDE_ENCRYPT_MODE_PLAIN)"

definition E_mixed :: tde_error where
  "E_mixed = E_state ''mix of encrypted and unencrypted relations is not supported''"

definition start_index :: "env \<Rightarrow> nat \<Rightarrow> catalog \<Rightarrow> nat \<Rightarrow> string list \<Rightarrow> unit tdeM" where
  "start_index ev depth cat parsetree relation =
     bindM (liftM (RangeVarGetRelid cat relation False)) (\<lambda>relid.
     bindM (encryption_mix depth cat relid) (\<lambda>encmix.
     bindM
       (case encmix of
          ENC_MIX_ENCRYPTED \<Rightarrow> ret TDE_ENCRYPT_MODE_ENCRYPT
        | ENC_MIX_PLAIN \<Rightarrow> ret TDE_ENCRYPT_MODE_PLAIN
        | ENC_MIX_UNKNOWN \<Rightarrow> ret TDE_ENCRYPT_MODE_RETAIN
        | ENC_MIX_MIXED \<Rightarrow> throw E_mixed) (\<lambda>mode.
     push_event_stack ev ((new_event parsetree)\<lparr>encryptMode := mode\<rparr>))))"

text \<open>The access method a partition inherits: \<open>None\<close> when its parent has none.\<close>

definition parent_am :: "catalog \<Rightarrow> string list list \<Rightarrow> tde_error + Oid option" where
  "parent_am cat inhRelations =
     (case inhRelations of
        [] \<Rightarrow> Inl (E_null_pointer ''inhRelations'')
      | rv # _ \<Rightarrow>
          (case RangeVarGetRelid cat rv False of
             Inl e \<Rightarrow> Inl e
           | Inr parentOid \<Rightarrow>
               (case get_rel_relam cat parentOid of
                  Inl e \<Rightarrow> Inl e
                | Inr parentAmOid \<Rightarrow> Inr (if parentAmOid \<noteq> InvalidOid then Some parentAmOid else None))))"

definition create_mode :: "env \<Rightarrow> catalog \<Rightarrow> string option \<Rightarrow> bool \<Rightarrow> string list list \<Rightarrow> tde_error + TDEEncryptMode" where
  "create_mode ev cat accessMethod partbound inhRelations =
     (let dflt = mode_of (default_table_access_method ev = ''tde_heap'') in
      case accessMethod of
        Some am \<Rightarrow> Inr (mode_of (am = ''tde_heap''))
      | None \<Rightarrow>
          if partbound then
            (case parent_am cat inhRelations of
               Inl e \<Rightarrow> Inl e
             | Inr None \<Rightarrow> Inr dflt
             | Inr (Some parentAmOid) \<Rightarrow>
                 (case get_tde_table_am_oid cat of
                    Inl e \<Rightarrow> Inl e
                  | Inr am \<Rightarrow> Inr (mode_of (parentAmOid = am))))
          else Inr dflt)"

definition start_create :: "env \<Rightarrow> catalog \<Rightarrow> nat \<Rightarrow> string option \<Rightarrow> bool \<Rightarrow> string list list \<Rightarrow> unit tdeM" where
  "start_create ev cat parsetree accessMethod partbound inhRelations =
     bindM (liftM (create_mode ev cat accessMethod partbound inhRelations)) (\<lambda>mode.
     seqM (push_event_stack ev ((new_event parsetree)\<lparr>encryptMode := mode\<rparr>))
     (checkEncryptionStatus ev))"

definition start_create_as :: "env \<Rightarrow> nat \<Rightarrow> string option \<Rightarrow> unit tdeM" where
  "start_create_as ev parsetree accessMethod =
     seqM (push_event_stack ev ((new_event parsetree)\<lparr>encryptMode := mode_of (shouldEncryptTable ev accessMethod)\<rparr>))
     (checkEncryptionStatus ev)"

text \<open>The last \<open>SET ACCESS METHOD\<close> command counts.\<close>

definition last_set_am :: "string option option list \<Rightarrow> string option option" where
  "last_set_am cmds = foldl (\<lambda>acc cmd. if cmd \<noteq> None then cmd else acc) None cmds"

definition start_alter :: "env \<Rightarrow> nat \<Rightarrow> catalog \<Rightarrow> nat \<Rightarrow> string list \<Rightarrow> string option option list \<Rightarrow> unit tdeM" where
  "start_alter ev depth cat parsetree relation cmds =
     bindM (liftM (RangeVarGetRelid cat relation True)) (\<lambda>relid.
     if relid = InvalidOid then ret ()
     else
       bindM (encryption_mix depth cat relid) (\<lambda>encmix.
       seqM (check (encmix \<noteq> ENC_MIX_MIXED) E_mixed)
       (bindM (liftM (relation_open cat relid)) (\<lambda>rel.
        let event = new_event parsetree in
        bindM
          (if last_set_am cmds \<noteq> None \<and> RELKIND_HAS_STORAGE (relkind rel) then
             (let encrypt = shouldEncryptTable ev (the (last_set_am cmds)) in
              seqM (whenM encrypt (checkPrincipalKeyConfigured ev))
              (ret (event\<lparr>encryptMode := mode_of encrypt, rebuildSequencesFor := relid\<rparr>)))
           else if encmix = ENC_MIX_ENCRYPTED then
             seqM (checkPrincipalKeyConfigured ev) (ret (event\<lparr>encryptMode := TDE_ENCRYPT_MODE_ENCRYPT\<rparr>))
           else if encmix = ENC_MIX_PLAIN then ret (event\<lparr>encryptMode := TDE_ENCRYPT_MODE_PLAIN\<rparr>)
           else ret event)
          (\<lambda>event.
        seqM (push_event_stack ev event) (checkEncryptionStatus ev))))))"

text \<open>The first \<open>OWNED BY\<close> option of a sequence statement, and the mode of the table it names.\<close>

definition owned_by_of :: "(string \<times> string list) list \<Rightarrow> string list" where
  "owned_by_of opts = (case filter (\<lambda>o'. fst o' = ''owned_by'') opts of [] \<Rightarrow> [] | x # _ \<Rightarrow> snd x)"

definition owner_mode :: "env \<Rightarrow> catalog \<Rightarrow> string list \<Rightarrow> TDEEncryptMode tdeM" where
  "owner_mode ev cat owned_by =
     bindM (liftM (makeRangeVarFromNameList (butlast owned_by))) (\<lambda>rv.
     bindM (liftM (RangeVarGetRelid cat rv False)) (\<lambda>relid.
     bindM (liftM (relation_open cat relid)) (\<lambda>tablerel.
     bindM (liftM (get_tde_table_am_oid cat)) (\<lambda>am.
     if relam tablerel = am then seqM (checkPrincipalKeyConfigured ev) (ret TDE_ENCRYPT_MODE_ENCRYPT)
     else ret TDE_ENCRYPT_MODE_PLAIN))))"

definition start_create_seq :: "env \<Rightarrow> catalog \<Rightarrow> nat \<Rightarrow> (string \<times> string list) list \<Rightarrow> unit tdeM" where
  "start_create_seq ev cat parsetree opts =
     bindM (if length (owned_by_of opts) > 1 then owner_mode ev cat (owned_by_of opts) else ret TDE_ENCRYPT_MODE_PLAIN) (\<lambda>mode.
     push_event_stack ev ((new_event parsetree)\<lparr>encryptMode := mode\<rparr>))"

definition start_alter_seq :: "env \<Rightarrow> catalog \<Rightarrow> nat \<Rightarrow> string list \<Rightarrow> (string \<times> string list) list \<Rightarrow> unit tdeM" where
  "start_alter_seq ev cat parsetree sequence opts =
     bindM (liftM (RangeVarGetRelid cat sequence True)) (\<lambda>relid.
     if relid = InvalidOid then ret ()
     else
       (let owned_by = owned_by_of opts; event = new_event parsetree in
        bindM
          (if length owned_by > 1 then
             bindM (owner_mode ev cat owned_by) (\<lambda>mode. ret (event\<lparr>encryptMode := mode, rebuildSequence := relid\<rparr>))
           else if length owned_by = 1 then
             ret (event\<lparr>encryptMode := TDE_ENCRYPT_MODE_PLAIN, rebuildSequence := relid\<rparr>)
           else ret event)
          (push_event_stack ev)))"

definition E_not_event_trigger :: tde_error where
  "E_not_event_trigger = E_state ''Function can only be fired by event trigger manager''"

definition open_pg_tde_ddl_command_start_capture :: "env \<Rightarrow> nat \<Rightarrow> catalog \<Rightarrow> bool \<Rightarrow> nat \<Rightarrow> ddl_stmt \<Rightarrow> unit tdeM" where
  "open_pg_tde_ddl_command_start_capture ev depth cat called_as_trigger parsetree stmt =
     seqM (check called_as_trigger E_not_event_trigger)
     (case stmt of
        IndexStmt relation \<Rightarrow> start_index ev depth cat parsetree relation
      | CreateStmt am partbound inh \<Rightarrow> start_create ev cat parsetree am partbound inh
      | CreateTableAsStmt am \<Rightarrow> start_create_as ev parsetree am
      | AlterTableStmt relation cmds \<Rightarrow> start_alter ev depth cat parsetree relation cmds
      | CreateSeqStmt opts \<Rightarrow> start_create_seq ev cat parsetree opts
      | AlterSeqStmt sequence opts \<Rightarrow> start_alter_seq ev cat parsetree sequence opts
      | OtherStmt \<Rightarrow> ret ())"

section \<open>The end of a statement\<close>

definition open_pg_tde_ddl_command_end_capture :: "catalog \<Rightarrow> bool \<Rightarrow> nat \<Rightarrow> unit tdeM" where
  "open_pg_tde_ddl_command_end_capture cat called_as_trigger parsetree =
     seqM (check called_as_trigger E_not_event_trigger)
     (bindM (getM ddlEventStack) (\<lambda>stack.
      if stack = [] \<or> ev_parsetree (last stack) \<noteq> parsetree then ret ()
      else
        (let event = last stack in
         seqM (whenM (rebuildSequencesFor event \<noteq> InvalidOid)
                 (bindM (liftM (relation_open cat (rebuildSequencesFor event))) (\<lambda>rel.
                  forM (getOwnedSequences cat (rebuildSequencesFor event))
                    (\<lambda>seq_relid. SequenceChangePersistence cat seq_relid (relpersistence rel)))))
         (seqM (whenM (rebuildSequence event \<noteq> InvalidOid)
                 (bindM (liftM (relation_open cat (rebuildSequence event))) (\<lambda>rel.
                  SequenceChangePersistence cat (rebuildSequence event) (relpersistence rel))))
         (modifyM (\<lambda>w. w\<lparr>ddlEventStack := butlast (ddlEventStack w)\<rparr>))))))"

section \<open>Utility commands\<close>

text \<open>
  One round of the loop of \<open>get_db_info\<close>: what the scan by name finds, and name and tablespace
  of that database once it is locked. The loop goes round again when the database was renamed
  in between; \<open>None\<close> is a list of rounds that ends before it is done.
\<close>

type_synonym db_round = "Oid option \<times> (string \<times> Oid) option"

fun get_db_info :: "string \<Rightarrow> db_round list \<Rightarrow> (Oid \<times> Oid) option option" where
  "get_db_info name [] = None"
| "get_db_info name ((None, _) # rounds) = Some None"
| "get_db_info name ((Some db, refetched) # rounds) =
     (case refetched of
        Some (datname, dattablespace) \<Rightarrow>
          if datname = name then Some (Some (db, dattablespace)) else get_db_info name rounds
      | None \<Rightarrow> get_db_info name rounds)"

datatype utility_stmt =
    CreatedbStmt "(string \<times> string) list"
  | AlterDatabaseStmt string "(string \<times> string) list"
  | OtherUtility

text \<open>The value of the last option of that name.\<close>

definition def_string :: "string \<Rightarrow> (string \<times> string) list \<Rightarrow> string option" where
  "def_string defname opts = map_of (rev opts) defname"

definition check_no_keys :: "env \<Rightarrow> string \<Rightarrow> db_round list \<Rightarrow> (Oid \<times> Oid \<Rightarrow> Oid) \<Rightarrow> string \<Rightarrow> unit tdeM" where
  "check_no_keys ev dbname rounds spc msg =
     (case get_db_info dbname rounds of
        None \<Rightarrow> throw (E_state ''waiting for the database lock'')
      | Some None \<Rightarrow> ret ()
      | Some (Some info) \<Rightarrow>
          bindM (open_pg_tde_count_encryption_keys ev (fst info) (spc info)) (\<lambda>count.
          check (\<not> count > 0) (E_state msg)))"

definition open_pg_tde_proccess_utility :: "env \<Rightarrow> db_round list \<Rightarrow> utility_stmt \<Rightarrow> unit tdeM \<Rightarrow> unit tdeM" where
  "open_pg_tde_proccess_utility ev rounds stmt next_ProcessUtility =
     seqM
      (case stmt of
         CreatedbStmt opts \<Rightarrow>
           (let dbtemplate = (case def_string ''template'' opts of None \<Rightarrow> ''template1'' | Some s \<Rightarrow> s);
                strategy = (case def_string ''strategy'' opts of None \<Rightarrow> ''wal_log'' | Some s \<Rightarrow> s)
            in whenM (pg_strcasecmp_eq (bytes_of strategy) (bytes_of ''file_copy''))
                 (check_no_keys ev dbtemplate rounds (\<lambda>_. InvalidOid) ''The FILE_COPY strategy cannot be used''))
       | AlterDatabaseStmt dbname opts \<Rightarrow>
           whenM (def_string ''tablespace'' opts \<noteq> None)
             (check_no_keys ev dbname rounds snd ''SET TABLESPACE cannot be used'')
       | OtherUtility \<Rightarrow> ret ())
      next_ProcessUtility"

end
