(* ===== verification/Tde_Smgr.thy ===== *)
theory Tde_Smgr
  imports Tde_Relkeys Tde_Event Tde_Enc
begin

text \<open>
  The encrypting storage manager of relations (\<open>smgr/open_pg_tde_smgr.c\<close>): which cipher a new relation
  gets, creating and deleting its key, keys of temporary relations, the encryption status kept
  with an open relation, and reading and writing blocks. \<open>md.c\<close> belongs to the server: a call
  into it is appended to \<open>md_log\<close>, may raise the error \<open>md_error\<close> says, and blocks read are
  those \<open>md_read\<close> gives for the calls so far. An open relation is an index into \<open>smgr_relns\<close>.
\<close>

section \<open>Calls into md.c\<close>

definition md_do :: "env \<Rightarrow> md_call \<Rightarrow> unit tdeM" where
  "md_do ev c w =
     (case md_error ev (md_log w) c of
        Some e \<Rightarrow> (Inl e, w)
      | None \<Rightarrow> (Inr (), w\<lparr>md_log := md_log w @ [c]\<rparr>))"

section \<open>Keys of temporary relations\<close>

definition tde_smgr_save_temp_key :: "RelFileLocator \<Rightarrow> InternalKey \<Rightarrow> unit tdeM" where
  "tde_smgr_save_temp_key newrlocator key = modifyM (\<lambda>w. w\<lparr>TempRelKeys := (TempRelKeys w)(newrlocator \<mapsto> key)\<rparr>)"

definition tde_smgr_get_temp_key :: "RelFileLocator \<Rightarrow> InternalKey option tdeM" where
  "tde_smgr_get_temp_key rel = getM (\<lambda>w. TempRelKeys w rel)"

definition tde_smgr_has_temp_key :: "RelFileLocator \<Rightarrow> bool tdeM" where
  "tde_smgr_has_temp_key rel = getM (\<lambda>w. TempRelKeys w rel \<noteq> None)"

definition tde_smgr_delete_temp_key :: "RelFileLocator \<Rightarrow> unit tdeM" where
  "tde_smgr_delete_temp_key rel = modifyM (\<lambda>w. w\<lparr>TempRelKeys := (TempRelKeys w)(rel := None)\<rparr>)"

section \<open>Keys\<close>

definition tde_smgr_log_create_key :: "RelFileLocator \<Rightarrow> unit tdeM" where
  "tde_smgr_log_create_key rlocator = XLogInsert (XlCreateRelationKey rlocator)"

definition tde_smgr_log_delete_leftover_key :: "RelFileLocator \<Rightarrow> unit tdeM" where
  "tde_smgr_log_delete_leftover_key rlocator = XLogInsert (XlDeleteRelationKey rlocator)"

text \<open>The GUC values are converted to the unsigned enum.\<close>

definition tde_smgr_data_cipher :: "env \<Rightarrow> u32" where
  "tde_smgr_data_cipher ev =
     (let cipher = word_of_int (if guc_DataCipher ev < 0 then guc_Cipher ev else guc_DataCipher ev) in
      if cipher = CIPHER_AES_128 then CIPHER_AES_128_XTS
      else if cipher = CIPHER_AES_256 then CIPHER_AES_256_XTS
      else cipher)"

definition tde_smgr_create_key :: "env \<Rightarrow> RelFileLocatorBackend \<Rightarrow> InternalKey tdeM" where
  "tde_smgr_create_key ev rlocb =
     bindM (open_pg_tde_generate_internal_key ev (tde_smgr_data_cipher ev)) (\<lambda>key.
     seqM (if RelFileLocatorBackendIsTemp rlocb then tde_smgr_save_temp_key (locator rlocb) key
           else seqM (open_pg_tde_save_smgr_key ev (locator rlocb) key True) (tde_smgr_log_create_key (locator rlocb)))
     (ret key))"

definition tde_smgr_create_key_redo :: "env \<Rightarrow> RelFileLocator \<Rightarrow> unit tdeM" where
  "tde_smgr_create_key_redo ev rlocator =
     bindM (open_pg_tde_generate_internal_key ev (tde_smgr_data_cipher ev)) (\<lambda>key.
     open_pg_tde_save_smgr_key ev rlocator key False)"

definition tde_smgr_delete_key :: "env \<Rightarrow> RelFileLocatorBackend \<Rightarrow> unit tdeM" where
  "tde_smgr_delete_key ev rlocb =
     (if RelFileLocatorBackendIsTemp rlocb then tde_smgr_delete_temp_key (locator rlocb)
      else open_pg_tde_free_key_map_entry ev (locator rlocb))"

definition tde_smgr_delete_leftover_key :: "env \<Rightarrow> RelFileLocatorBackend \<Rightarrow> unit tdeM" where
  "tde_smgr_delete_leftover_key ev rlocb =
     whenM (\<not> RelFileLocatorBackendIsTemp rlocb)
       (seqM (open_pg_tde_free_key_map_entry ev (locator rlocb)) (tde_smgr_log_delete_leftover_key (locator rlocb)))"

definition tde_smgr_delete_leftover_key_redo :: "env \<Rightarrow> RelFileLocator \<Rightarrow> unit tdeM" where
  "tde_smgr_delete_leftover_key_redo ev rlocator = open_pg_tde_free_key_map_entry ev rlocator"

definition tde_smgr_is_encrypted :: "env \<Rightarrow> RelFileLocatorBackend \<Rightarrow> bool tdeM" where
  "tde_smgr_is_encrypted ev rlocb =
     (if RelFileLocatorBackendIsTemp rlocb then tde_smgr_has_temp_key (locator rlocb)
      else open_pg_tde_has_smgr_key ev (locator rlocb))"

definition tde_smgr_get_key :: "env \<Rightarrow> RelFileLocatorBackend \<Rightarrow> InternalKey option tdeM" where
  "tde_smgr_get_key ev rlocb =
     (if RelFileLocatorBackendIsTemp rlocb then tde_smgr_get_temp_key (locator rlocb)
      else open_pg_tde_get_smgr_key ev (locator rlocb))"

definition tde_smgr_should_encrypt :: "env \<Rightarrow> RelFileLocatorBackend \<Rightarrow> RelFileLocator option \<Rightarrow> bool tdeM" where
  "tde_smgr_should_encrypt ev rlocb old_locator =
     (if IsCatalogRelationOid ev (relNumber (locator rlocb)) then ret False
      else
        bindM (currentTdeEncryptModeValidated ev) (\<lambda>mode.
        case mode of
          TDE_ENCRYPT_MODE_PLAIN \<Rightarrow> ret False
        | TDE_ENCRYPT_MODE_ENCRYPT \<Rightarrow> ret True
        | TDE_ENCRYPT_MODE_RETAIN \<Rightarrow>
            (case old_locator of
               Some old \<Rightarrow> tde_smgr_is_encrypted ev \<lparr>locator = old, backend = backend rlocb\<rparr>
             | None \<Rightarrow> ret False)))"

section \<open>The encryption status of an open relation\<close>

definition set_reln :: "nat \<Rightarrow> (TDESMgrRelation \<Rightarrow> TDESMgrRelation) \<Rightarrow> unit tdeM" where
  "set_reln reln f = modifyM (\<lambda>w. w\<lparr>smgr_relns := (smgr_relns w)(reln := f (smgr_relns w reln))\<rparr>)"

definition tde_smgr_resolve_encryption_status :: "env \<Rightarrow> nat \<Rightarrow> unit tdeM" where
  "tde_smgr_resolve_encryption_status ev reln =
     bindM (getM (\<lambda>w. smgr_relns w reln)) (\<lambda>tdereln.
     if encryption_status tdereln \<noteq> RELATION_ENCRYPTION_UNKNOWN then ret ()
     else
       bindM (tde_smgr_get_key ev (smgr_rlocator tdereln)) (\<lambda>key.
       case key of
         Some k \<Rightarrow> set_reln reln (\<lambda>r. r\<lparr>encryption_status := RELATION_ENCRYPTED, relKey := k\<rparr>)
       | None \<Rightarrow> set_reln reln (\<lambda>r. r\<lparr>encryption_status := RELATION_NOT_ENCRYPTED\<rparr>)))"

definition tde_smgr_rel_is_encrypted :: "env \<Rightarrow> nat \<Rightarrow> nat \<Rightarrow> bool tdeM" where
  "tde_smgr_rel_is_encrypted ev OurSMgrId reln =
     bindM (getM (\<lambda>w. smgr_relns w reln)) (\<lambda>tdereln.
     if smgr_which tdereln \<noteq> OurSMgrId then ret False
     else if encryption_status tdereln = RELATION_ENCRYPTION_UNKNOWN then tde_smgr_is_encrypted ev (smgr_rlocator tdereln)
     else ret (encryption_status tdereln = RELATION_ENCRYPTED))"

section \<open>Blocks\<close>

text \<open>The buffers of a vectored call are those of consecutive blocks, numbered modulo \<open>2\<^sup>32\<close>.\<close>

fun encrypt_blocks :: "env \<Rightarrow> InternalKey \<Rightarrow> ForkNumber \<Rightarrow> u32 \<Rightarrow> bytes list \<Rightarrow> bytes list tdeM" where
  "encrypt_blocks ev key forknum bn [] = ret []"
| "encrypt_blocks ev key forknum bn (buf # bufs) =
     bindM (tde_encrypt_smgr_block ev key forknum bn buf) (\<lambda>c.
     bindM (encrypt_blocks ev key forknum (bn + 1) bufs) (\<lambda>cs. ret (c # cs)))"

fun decrypt_blocks :: "env \<Rightarrow> InternalKey \<Rightarrow> ForkNumber \<Rightarrow> u32 \<Rightarrow> bytes list \<Rightarrow> bytes list tdeM" where
  "decrypt_blocks ev key forknum bn [] = ret []"
| "decrypt_blocks ev key forknum bn (buf # bufs) =
     bindM (tde_decrypt_smgr_block ev key forknum bn buf buf) (\<lambda>c.
     bindM (decrypt_blocks ev key forknum (bn + 1) bufs) (\<lambda>cs. ret (c # cs)))"

definition tde_mdwritev :: "env \<Rightarrow> nat \<Rightarrow> ForkNumber \<Rightarrow> u32 \<Rightarrow> bytes list \<Rightarrow> bool \<Rightarrow> unit tdeM" where
  "tde_mdwritev ev reln forknum blocknum buffers skipFsync =
     seqM (tde_smgr_resolve_encryption_status ev reln)
     (bindM (getM (\<lambda>w. smgr_relns w reln)) (\<lambda>tdereln.
      if encryption_status tdereln = RELATION_NOT_ENCRYPTED
      then md_do ev (MdWritev (smgr_rlocator tdereln) forknum blocknum buffers skipFsync)
      else
        bindM (encrypt_blocks ev (relKey tdereln) forknum blocknum buffers) (\<lambda>local_buffers.
        md_do ev (MdWritev (smgr_rlocator tdereln) forknum blocknum local_buffers skipFsync))))"

text \<open>The versions for servers before 17, a block at a time.\<close>

definition tde_mdwrite :: "env \<Rightarrow> nat \<Rightarrow> ForkNumber \<Rightarrow> u32 \<Rightarrow> bytes \<Rightarrow> bool \<Rightarrow> unit tdeM" where
  "tde_mdwrite ev reln forknum blocknum buffer skipFsync =
     seqM (tde_smgr_resolve_encryption_status ev reln)
     (bindM (getM (\<lambda>w. smgr_relns w reln)) (\<lambda>tdereln.
      if encryption_status tdereln = RELATION_NOT_ENCRYPTED
      then md_do ev (MdWritev (smgr_rlocator tdereln) forknum blocknum [buffer] skipFsync)
      else
        bindM (tde_encrypt_smgr_block ev (relKey tdereln) forknum blocknum buffer) (\<lambda>local_buffer.
        md_do ev (MdWritev (smgr_rlocator tdereln) forknum blocknum [local_buffer] skipFsync))))"

definition tde_mdextend :: "env \<Rightarrow> nat \<Rightarrow> ForkNumber \<Rightarrow> u32 \<Rightarrow> bytes \<Rightarrow> bool \<Rightarrow> unit tdeM" where
  "tde_mdextend ev reln forknum blocknum buffer skipFsync =
     seqM (tde_smgr_resolve_encryption_status ev reln)
     (bindM (getM (\<lambda>w. smgr_relns w reln)) (\<lambda>tdereln.
      if encryption_status tdereln = RELATION_NOT_ENCRYPTED
      then md_do ev (MdExtend (smgr_rlocator tdereln) forknum blocknum buffer skipFsync)
      else
        bindM (tde_encrypt_smgr_block ev (relKey tdereln) forknum blocknum buffer) (\<lambda>local_blocks.
        md_do ev (MdExtend (smgr_rlocator tdereln) forknum blocknum local_blocks skipFsync))))"

definition md_blocks :: "env \<Rightarrow> RelFileLocatorBackend \<Rightarrow> ForkNumber \<Rightarrow> u32 \<Rightarrow> nat \<Rightarrow> world \<Rightarrow> bytes list" where
  "md_blocks ev rlocb forknum blocknum nblocks w =
     map (\<lambda>i. md_read ev (md_log w) rlocb forknum (blocknum + of_nat i)) [0..<nblocks]"

definition tde_mdreadv :: "env \<Rightarrow> nat \<Rightarrow> ForkNumber \<Rightarrow> u32 \<Rightarrow> nat \<Rightarrow> bytes list tdeM" where
  "tde_mdreadv ev reln forknum blocknum nblocks =
     bindM (getM (\<lambda>w. smgr_rlocator (smgr_relns w reln))) (\<lambda>rlocb.
     seqM (md_do ev (MdReadv rlocb forknum blocknum nblocks))
     (bindM (getM (md_blocks ev rlocb forknum blocknum nblocks)) (\<lambda>buffers.
      seqM (tde_smgr_resolve_encryption_status ev reln)
      (bindM (getM (\<lambda>w. smgr_relns w reln)) (\<lambda>tdereln.
       if encryption_status tdereln = RELATION_NOT_ENCRYPTED then ret buffers
       else decrypt_blocks ev (relKey tdereln) forknum blocknum buffers)))))"

definition tde_mdread :: "env \<Rightarrow> nat \<Rightarrow> ForkNumber \<Rightarrow> u32 \<Rightarrow> bytes tdeM" where
  "tde_mdread ev reln forknum blocknum =
     bindM (getM (\<lambda>w. smgr_rlocator (smgr_relns w reln))) (\<lambda>rlocb.
     seqM (md_do ev (MdReadv rlocb forknum blocknum 1))
     (bindM (getM (\<lambda>w. md_read ev (md_log w) rlocb forknum blocknum)) (\<lambda>buffer.
      seqM (tde_smgr_resolve_encryption_status ev reln)
      (bindM (getM (\<lambda>w. smgr_relns w reln)) (\<lambda>tdereln.
       if encryption_status tdereln = RELATION_NOT_ENCRYPTED then ret buffer
       else tde_decrypt_smgr_block ev (relKey tdereln) forknum blocknum buffer buffer)))))"

section \<open>Creating, opening, closing and removing relations\<close>

text \<open>\<open>None\<close> is \<open>InvalidForkNumber\<close>.\<close>

definition tde_mdunlink :: "env \<Rightarrow> RelFileLocatorBackend \<Rightarrow> ForkNumber option \<Rightarrow> bool \<Rightarrow> unit tdeM" where
  "tde_mdunlink ev rlocator forknum isRedo =
     seqM (md_do ev (MdUnlink rlocator forknum isRedo))
     (whenM (forknum = Some MAIN_FORKNUM \<or> forknum = None)
       (bindM (tde_smgr_is_encrypted ev rlocator) (\<lambda>enc.
        whenM enc (tde_smgr_delete_key ev rlocator))))"

definition tde_mdcreate :: "env \<Rightarrow> RelFileLocator \<Rightarrow> nat \<Rightarrow> ForkNumber \<Rightarrow> bool \<Rightarrow> unit tdeM" where
  "tde_mdcreate ev relold reln forknum isRedo =
     bindM (getM (\<lambda>w. smgr_rlocator (smgr_relns w reln))) (\<lambda>rlocb.
     seqM (md_do ev (MdCreate relold rlocb forknum isRedo))
     (if isRedo then ret ()
      else if IsBinaryUpgrade ev then ret ()
      else if forknum \<noteq> MAIN_FORKNUM then ret ()
      else
        bindM (tde_smgr_should_encrypt ev rlocb (Some relold)) (\<lambda>should.
        if \<not> should then
          seqM (tde_smgr_delete_leftover_key ev rlocb)
          (set_reln reln (\<lambda>r. r\<lparr>encryption_status := RELATION_NOT_ENCRYPTED\<rparr>))
        else
          bindM (tde_smgr_create_key ev rlocb) (\<lambda>key.
          set_reln reln (\<lambda>r. r\<lparr>encryption_status := RELATION_ENCRYPTED, relKey := key\<rparr>)))))"

definition tde_mdopen :: "env \<Rightarrow> nat \<Rightarrow> unit tdeM" where
  "tde_mdopen ev reln =
     bindM (getM (\<lambda>w. smgr_rlocator (smgr_relns w reln))) (\<lambda>rlocb.
     seqM (md_do ev (MdOpen rlocb))
     (set_reln reln (\<lambda>r. r\<lparr>encryption_status := RELATION_ENCRYPTION_UNKNOWN\<rparr>)))"

text \<open>An \<open>InternalKey\<close> after \<open>explicit_bzero\<close>.\<close>

definition zero_key :: InternalKey where
  "zero_key = \<lparr>ik_key_len = 0, ik_cipher = 0, ik_base_iv = zeros INTERNAL_KEY_IV_LEN, ik_key = zeros INTERNAL_KEY_MAX_LEN\<rparr>"

definition tde_mdclose :: "env \<Rightarrow> nat \<Rightarrow> ForkNumber \<Rightarrow> unit tdeM" where
  "tde_mdclose ev reln forknum =
     bindM (getM (\<lambda>w. smgr_rlocator (smgr_relns w reln))) (\<lambda>rlocb.
     seqM (md_do ev (MdClose rlocb forknum))
     (whenM (forknum = MAIN_FORKNUM)
       (set_reln reln (\<lambda>r. r\<lparr>relKey := zero_key, encryption_status := RELATION_ENCRYPTION_UNKNOWN\<rparr>))))"

section \<open>Asynchronous reads\<close>

definition tde_mdstartreadv :: "env \<Rightarrow> nat \<Rightarrow> nat \<Rightarrow> ForkNumber \<Rightarrow> u32 \<Rightarrow> nat \<Rightarrow> unit tdeM" where
  "tde_mdstartreadv ev ioh reln forknum blocknum nblocks =
     seqM (tde_smgr_resolve_encryption_status ev reln)
     (bindM (getM (\<lambda>w. smgr_relns w reln)) (\<lambda>tdereln.
      seqM (whenM (encryption_status tdereln = RELATION_ENCRYPTED)
              (modifyM (\<lambda>w. w\<lparr>tde_io_handle_keys := (tde_io_handle_keys w)(ioh := relKey tdereln),
                              aio_tde_callback := (aio_tde_callback w)(ioh := True)\<rparr>)))
      (md_do ev (MdStartReadv ioh (smgr_rlocator tdereln) forknum blocknum nblocks))))"

text \<open>
  The completion callback: \<open>prior_ok\<close> and \<open>prior_result\<close> are the result of the read so far,
  \<open>buffers\<close> the pages of the handle, of which the first \<open>prior_result\<close> were read. The loop counter
  has 8 bits and so has the number of buffers.
\<close>

definition tde_readv_complete :: "env \<Rightarrow> nat \<Rightarrow> bool \<Rightarrow> int \<Rightarrow> ForkNumber \<Rightarrow> u32 \<Rightarrow> bytes list \<Rightarrow> bytes list tdeM" where
  "tde_readv_complete ev ioh prior_ok prior_result forkNum blockNum buffers =
     (let wipe = modifyM (\<lambda>w. w\<lparr>tde_io_handle_keys := (tde_io_handle_keys w)(ioh := zero_key)\<rparr>) in
      if \<not> prior_ok then seqM wipe (ret buffers)
      else
        bindM (getM (\<lambda>w. tde_io_handle_keys w ioh)) (\<lambda>int_key.
        bindM (decrypt_blocks ev int_key forkNum blockNum (take (nat prior_result) buffers)) (\<lambda>bufs.
        seqM wipe (ret (bufs @ drop (nat prior_result) buffers)))))"

end
