(* ===== verification/Tde_Smgr_Ops.thy ===== *)
theory Tde_Smgr_Ops
  imports Tde_Smgr Tde_Relkeys_Ops
begin

text \<open>
  What the storage manager promises. Keys of relations live in two stores, the key file of the database
  and the hash table of temporary relations; both satisfy the interface \<open>rel_key_store\<close>, and the
  facts on creating a relation and resolving its encryption status are proved once over it.
\<close>

section \<open>Block ciphers change only the cached contexts\<close>

definition without_ctx :: "world \<Rightarrow> world" where
  "without_ctx w = (let c = new_ctx_cache AES_128_CBC in w\<lparr>ctx_cbc_128 := c, ctx_cbc_256 := c, ctx_xts_128 := c, ctx_xts_256 := c\<rparr>)"

definition only_ctx :: "world \<Rightarrow> world \<Rightarrow> bool" where
  "only_ctx w w' \<longleftrightarrow> without_ctx w' = without_ctx w"

interpretation cx: frame only_ctx
  by unfold_locales (simp_all add: only_ctx_def)

lemma ctx_run_cached: "keeps only_ctx (AesRunCbc ev e k n iv d)" "keeps only_ctx (AesRunXts ev e k n iv d)"
  unfolding only_ctx_def keeps_def
  by (auto simp: AesRunCbc_def AesRunXts_def without_ctx_def Let_def split: prod.splits)

lemma ctx_call_block: "keeps only_ctx (call_block ev f k n iv d)"
  unfolding call_block_def AesEncrypt_def AesDecrypt_def AesXtsEncrypt_def AesXtsDecrypt_def
  by (cases f) (auto intro: ctx_run_cached)

lemma ctx_block:
  "keeps only_ctx (tde_encrypt_smgr_block ev k f b d)" "keeps only_ctx (tde_decrypt_smgr_block ev k f b d out)"
  unfolding tde_encrypt_smgr_block_def tde_decrypt_smgr_block_def Let_def
  by (intro cx.keeps_intros looks_liftM [THEN cx.of_looks] ctx_call_block)+

lemma ctx_blocks: "keeps only_ctx (encrypt_blocks ev k f b ds)" "keeps only_ctx (decrypt_blocks ev k f b ds)"
  by (induction ds arbitrary: b) (auto intro!: cx.keeps_intros ctx_block)

lemma only_ctx_fields:
  assumes "only_ctx w w'"
  shows "smgr_relns w' = smgr_relns w \<and> md_log w' = md_log w \<and> disk w' = disk w \<and> pk_cache w' = pk_cache w \<and> io w' = io w \<and>
     TempRelKeys w' = TempRelKeys w"
proof -
  note same = arg_cong [OF assms [unfolded only_ctx_def]]
  show ?thesis
    using same [of smgr_relns] same [of md_log] same [of disk] same [of pk_cache] same [of io] same [of TempRelKeys]
    by (simp add: without_ctx_def Let_def)
qed

section \<open>Encrypting and decrypting blocks\<close>

text \<open>The stored form of a block: what the cipher of the key makes of it.\<close>

definition stored_block :: "(evp_cipher \<Rightarrow> int \<Rightarrow> bytes \<Rightarrow> bytes \<Rightarrow> bytes \<Rightarrow> bytes option) \<Rightarrow> InternalKey \<Rightarrow> ForkNumber \<Rightarrow> u32 \<Rightarrow> bytes \<Rightarrow> bytes" where
  "stored_block E k f b d = the (E (evp_of k) 1 (ik_material k) (CalcBlockIv f b (ik_base_iv k)) d)"

definition stored_blocks where
  "stored_blocks E k f b ds = map (\<lambda>i. stored_block E k f (b + of_nat i) (ds ! i)) [0..<length ds]"

lemma stored_blocks_Cons: "stored_blocks E k f b (d # ds) = stored_block E k f b d # stored_blocks E k f (b + 1) ds"
  unfolding stored_blocks_def length_Cons upt_conv_Cons [OF zero_less_Suc]
  by (simp add: map_Suc_upt [symmetric] add.assoc del: upt_Suc)

lemma stored_block_ok:
  assumes "page_cipher_ok E" "length d = BLCKSZ"
  shows "E (evp_of k) 1 (ik_material k) (CalcBlockIv f b (ik_base_iv k)) d = Some (stored_block E k f b d)"
    and "E (evp_of k) 0 (ik_material k) (CalcBlockIv f b (ik_base_iv k)) (stored_block E k f b d) = Some d"
proof -
  obtain ct where "E (evp_of k) 1 (ik_material k) (CalcBlockIv f b (ik_base_iv k)) d = Some ct"
      "E (evp_of k) 0 (ik_material k) (CalcBlockIv f b (ik_base_iv k)) ct = Some d"
    using assms unfolding page_cipher_ok_def by blast
  then show "E (evp_of k) 1 (ik_material k) (CalcBlockIv f b (ik_base_iv k)) d = Some (stored_block E k f b d)"
    "E (evp_of k) 0 (ik_material k) (CalcBlockIv f b (ik_base_iv k)) (stored_block E k f b d) = Some d"
    by (simp_all add: stored_block_def)
qed

lemma encrypt_blocks_ok:
  assumes k: "wf_ik k" and ev: "evp_is ev E" "page_cipher_ok E"
  shows "\<forall>d\<in>set ds. length d = BLCKSZ \<Longrightarrow> ctxs_inv w \<Longrightarrow>
     \<exists>w'. encrypt_blocks ev k f b ds w = (Inr (stored_blocks E k f b ds), w') \<and> ctxs_inv w'"
proof (induction ds arbitrary: b w)
  case Nil
  then show ?case by (simp add: stored_blocks_def)
next
  case (Cons d ds)
  have "length d = BLCKSZ" using Cons.prems(1) by simp
  then obtain w1 where "tde_encrypt_smgr_block ev k f b d w = (Inr (stored_block E k f b d), w1)" "ctxs_inv w1"
    using page_op_transparent(1) [OF k Cons.prems(2) ev(1), of "CalcBlockIv f b (ik_base_iv k)" d]
    by (auto simp: tde_encrypt_smgr_block_def evp_result_def stored_block_ok(1) [OF ev(2)])
  then show ?case
    using Cons.IH [of w1 "b + 1"] Cons.prems by (auto simp: runM stored_blocks_Cons)
qed

lemma decrypt_blocks_ok:
  assumes k: "wf_ik k" and ev: "evp_is ev E" "page_cipher_ok E"
  shows "\<forall>d\<in>set ds. length d = BLCKSZ \<Longrightarrow> ctxs_inv w \<Longrightarrow> \<forall>c\<in>set (stored_blocks E k f b ds). \<not> all_zero 32 c \<Longrightarrow>
     \<exists>w'. decrypt_blocks ev k f b (stored_blocks E k f b ds) w = (Inr ds, w') \<and> ctxs_inv w'"
proof (induction ds arbitrary: b w)
  case Nil
  then show ?case by (simp add: stored_blocks_def)
next
  case (Cons d ds)
  let ?c = "stored_block E k f b d"
  have "length d = BLCKSZ" using Cons.prems(1) by simp
  then obtain w1 where "tde_decrypt_smgr_block ev k f b ?c ?c w = (Inr d, w1)" "ctxs_inv w1"
    using page_op_transparent(2) [OF k Cons.prems(2) ev(1), of "CalcBlockIv f b (ik_base_iv k)" ?c] Cons.prems(3)
    by (auto simp: tde_decrypt_smgr_block_def evp_result_def stored_blocks_Cons stored_block_ok(2) [OF ev(2)])
  then show ?case
    using Cons.IH [of w1 "b + 1"] Cons.prems by (auto simp: runM stored_blocks_Cons)
qed

text \<open>Keys that are equal up to the unused bytes of their buffer decrypt alike.\<close>

lemma decrypt_blocks_equiv: "ik_equiv k' k \<Longrightarrow> decrypt_blocks ev k' f b cs = decrypt_blocks ev k f b cs"
  by (induction cs arbitrary: b) (simp_all add: ik_equiv_def tde_decrypt_smgr_block_def)




section \<open>The key stores\<close>

text \<open>What a store depends on, and what it leaves alone.\<close>

definition same_stores :: "world \<Rightarrow> world \<Rightarrow> bool" where
  "same_stores w w' \<longleftrightarrow> disk w' = disk w \<and> pk_cache w' = pk_cache w \<and> io w' = io w \<and> TempRelKeys w' = TempRelKeys w"

definition same_relns :: "world \<Rightarrow> world \<Rightarrow> bool" where
  "same_relns w w' \<longleftrightarrow> smgr_relns w' = smgr_relns w \<and> md_log w' = md_log w \<and> (ctxs_inv w \<longrightarrow> ctxs_inv w')"

lemma same_relns_trans: "same_relns a b \<Longrightarrow> same_relns b c \<Longrightarrow> same_relns a c"
  by (simp add: same_relns_def)

lemma same_relns_rng [simp]: "same_relns w (w'\<lparr>rng := n\<rparr>) \<longleftrightarrow> same_relns w w'"
  by (simp add: same_relns_def ctxs_inv_def)

lemma same_stores_upd [simp]:
  "same_stores w (w'\<lparr>rng := n\<rparr>) \<longleftrightarrow> same_stores w w'" "same_stores w (w'\<lparr>md_log := l\<rparr>) \<longleftrightarrow> same_stores w w'"
  "same_stores w (w'\<lparr>smgr_relns := rs\<rparr>) \<longleftrightarrow> same_stores w w'" "same_stores w w" "same_stores w (w'\<lparr>xlog := x\<rparr>) \<longleftrightarrow> same_stores w w'"
  by (simp_all add: same_stores_def)

lemma same_stores_ctx: "only_ctx w w' \<Longrightarrow> same_stores w w'"
  using only_ctx_fields by (simp add: same_stores_def)

lemma same_stores_trans: "same_stores a b \<Longrightarrow> same_stores b c \<Longrightarrow> same_stores a c"
  by (simp add: same_stores_def)

locale rel_key_store =
  fixes ready :: "RelFileLocator \<Rightarrow> world \<Rightarrow> bool"
    and stored :: "RelFileLocator \<Rightarrow> InternalKey \<Rightarrow> world \<Rightarrow> bool"
    and put :: "RelFileLocator \<Rightarrow> InternalKey \<Rightarrow> unit tdeM"
    and fetch :: "RelFileLocator \<Rightarrow> InternalKey option tdeM"
  assumes put_ok: "ready rel w \<Longrightarrow> wf_ik k \<Longrightarrow>
      \<exists>w'. put rel k w = (Inr (), w') \<and> ready rel w' \<and> stored rel k w' \<and> same_relns w w'"
    and fetch_ok: "ready rel w \<Longrightarrow> stored rel k w \<Longrightarrow> \<exists>k'. fetch rel w = (Inr (Some k'), w) \<and> ik_equiv k' k"
    and ready_same: "ready rel w \<Longrightarrow> same_stores w w' \<Longrightarrow> ready rel w'"
    and stored_same: "stored rel k w \<Longrightarrow> same_stores w w' \<Longrightarrow> stored rel k w'"
begin

lemma create:
  assumes "ready rel w" "rand_ok ev" "open_pg_tde_cipher_key_length c = Inr n"
  shows "\<exists>k w'. bindM (open_pg_tde_generate_internal_key ev c) (\<lambda>key. seqM (put rel key) (ret key)) w = (Inr k, w') \<and>
     wf_ik k \<and> ik_cipher k = c \<and> ready rel w' \<and> stored rel k w' \<and> same_relns w w'"
proof -
  obtain k where k: "open_pg_tde_generate_internal_key ev c w = (Inr k, w\<lparr>rng := rng w + 2\<rparr>)" "wf_ik k" "ik_cipher k = c"
    using generate_internal_key_ok [OF assms(2,3)] by blast
  have "ready rel (w\<lparr>rng := rng w + 2\<rparr>)" using ready_same [OF assms(1)] by simp
  from put_ok [OF this k(2)] obtain w' where "put rel k (w\<lparr>rng := rng w + 2\<rparr>) = (Inr (), w')" "ready rel w'"
      "stored rel k w'" "same_relns (w\<lparr>rng := rng w + 2\<rparr>) w'" by blast
  with k show ?thesis by (auto simp: runM same_relns_def ctxs_inv_def)
qed

text \<open>The status of a relation whose key is stored resolves to encrypted, with that key.\<close>

lemma resolve:
  assumes "ready (locator rlocb) w" "stored (locator rlocb) k w"
    and get: "tde_smgr_get_key ev rlocb = fetch (locator rlocb)"
    and r: "smgr_rlocator (smgr_relns w reln) = rlocb" "encryption_status (smgr_relns w reln) = RELATION_ENCRYPTION_UNKNOWN"
  shows "\<exists>k'. tde_smgr_resolve_encryption_status ev reln w = (Inr (), w\<lparr>smgr_relns := (smgr_relns w)
       (reln := (smgr_relns w reln)\<lparr>encryption_status := RELATION_ENCRYPTED, relKey := k'\<rparr>)\<rparr>) \<and> ik_equiv k' k"
  using fetch_ok [OF assms(1,2)] get r by (auto simp: tde_smgr_resolve_encryption_status_def runM set_reln_def)

end

text \<open>The key file of the relation's database, under the principal key \<open>pk\<close>.\<close>

definition file_ready :: "env \<Rightarrow> TDEPrincipalKey \<Rightarrow> RelFileLocator \<Rightarrow> world \<Rightarrow> bool" where
  "file_ready ev pk rel w \<longleftrightarrow> gcm_ok ev \<and> rand_ok ev \<and> relNumber rel \<noteq> 0 \<and> keys_ready ev pk (dbOid rel) w"

definition file_stored :: "env \<Rightarrow> TDEPrincipalKey \<Rightarrow> RelFileLocator \<Rightarrow> InternalKey \<Rightarrow> world \<Rightarrow> bool" where
  "file_stored ev pk rel k w \<longleftrightarrow> (\<exists>e. rel_entry ev rel w = Some e \<and> entry_holds ev pk e k)"

definition file_put :: "env \<Rightarrow> RelFileLocator \<Rightarrow> InternalKey \<Rightarrow> unit tdeM" where
  "file_put ev rel k = seqM (open_pg_tde_save_smgr_key ev rel k True) (tde_smgr_log_create_key rel)"

interpretation kfs: rel_key_store "file_ready ev pk" "file_stored ev pk" "file_put ev" "open_pg_tde_get_smgr_key ev" for ev pk
proof
  fix rel w k
  assume r: "file_ready ev pk rel w" and k: "wf_ik k"
  then obtain w1 f n e where w1: "open_pg_tde_save_smgr_key ev rel k True w = (Inr (), w1)"
      "w1 = (set_file (open_pg_tde_set_db_file_path ev (dbOid rel)) f w)\<lparr>rng := n\<rparr>" "keys_ready ev pk (dbOid rel) w1"
      "rel_entry ev rel w1 = Some e" "entry_holds ev pk e k"
    using save_spec [of ev pk rel w k True] by (auto simp: file_ready_def)
  let ?w' = "w1\<lparr>xlog := xlog w1 @ [XlCreateRelationKey rel]\<rparr>"
  have "file_put ev rel k w = (Inr (), ?w')"
    using w1(1) by (simp add: file_put_def runM tde_smgr_log_create_key_def XLogInsert_def)
  moreover have "file_ready ev pk rel ?w'" "file_stored ev pk rel k ?w'"
    using r w1(3-5) by (auto simp: file_ready_def keys_ready_def file_stored_def rel_entry_def)
  moreover have "same_relns w ?w'" using w1(2) by (simp add: same_relns_def ctxs_inv_def set_file_def)
  ultimately show "\<exists>w'. file_put ev rel k w = (Inr (), w') \<and> file_ready ev pk rel w' \<and> file_stored ev pk rel k w' \<and> same_relns w w'"
    by blast
next
  show "\<exists>k'. open_pg_tde_get_smgr_key ev rel w = (Inr (Some k'), w) \<and> ik_equiv k' k"
    if "file_ready ev pk rel w" "file_stored ev pk rel k w" for rel w k
    using that get_holds unfolding file_ready_def file_stored_def by blast
qed (simp_all add: file_ready_def file_stored_def keys_ready_def rel_entry_def same_stores_def)

text \<open>The hash table of temporary relations.\<close>

interpretation tks: rel_key_store "\<lambda>_ _. True" "\<lambda>rel k w. TempRelKeys w rel = Some k" tde_smgr_save_temp_key tde_smgr_get_temp_key
  by unfold_locales
    (auto simp: tde_smgr_save_temp_key_def tde_smgr_get_temp_key_def runM same_relns_def ctxs_inv_def same_stores_def ik_equiv_def)

section \<open>The life of a relation\<close>

text \<open>
  What is relied on of \<open>md.c\<close>: no call fails, a block that was written reads as written, and opening,
  closing and reading change no block.
\<close>

fun md_keeps_blocks :: "md_call \<Rightarrow> bool" where
  "md_keeps_blocks (MdReadv _ _ _ _) = True"
| "md_keeps_blocks (MdOpen _) = True"
| "md_keeps_blocks (MdClose _ _) = True"
| "md_keeps_blocks _ = False"

definition md_ok :: "env \<Rightarrow> bool" where
  "md_ok ev \<longleftrightarrow> (\<forall>log c. md_error ev log c = None) \<and> (\<forall>log c. md_keeps_blocks c \<longrightarrow> md_read ev (log @ [c]) = md_read ev log) \<and>
     (\<forall>log r f b ds s i. i < length ds \<and> length ds < 2 ^ 32 \<longrightarrow> md_read ev (log @ [MdWritev r f b ds s]) r f (b + of_nat i) = ds ! i)"

lemma md_do_ok: "md_ok ev \<Longrightarrow> md_do ev c w = (Inr (), w\<lparr>md_log := md_log w @ [c]\<rparr>)"
  by (simp add: md_do_def md_ok_def)

lemma md_read_keeps: "md_ok ev \<Longrightarrow> md_keeps_blocks c \<Longrightarrow> md_read ev (log @ [c]) = md_read ev log"
  by (simp add: md_ok_def)

lemma length_stored_blocks [simp]: "length (stored_blocks E k f b ds) = length ds"
  by (simp add: stored_blocks_def)

lemma md_blocks_written:
  assumes "md_ok ev" "length ds < 2 ^ 32" and "md_read ev (md_log w) = md_read ev (log @ [MdWritev r f b ds s])"
  shows "md_blocks ev r f b (length ds) w = ds"
  using assms by (auto simp: md_blocks_def md_ok_def intro!: nth_equalityI)

text \<open>Writing blocks of a relation known to be encrypted.\<close>

lemma mdwritev_encrypted:
  assumes "md_ok ev" and ev: "evp_is ev E" "page_cipher_ok E" and w: "ctxs_inv w"
    and r: "smgr_relns w reln = r" "encryption_status r = RELATION_ENCRYPTED" "wf_ik (relKey r)"
    and ds: "\<forall>d\<in>set ds. length d = BLCKSZ"
  shows "\<exists>w'. tde_mdwritev ev reln f b ds s w = (Inr (), w') \<and> ctxs_inv w' \<and> same_stores w w' \<and> smgr_relns w' = smgr_relns w \<and>
     md_log w' = md_log w @ [MdWritev (smgr_rlocator r) f b (stored_blocks E (relKey r) f b ds) s]"
proof -
  obtain w1 where e: "encrypt_blocks ev (relKey r) f b ds w = (Inr (stored_blocks E (relKey r) f b ds), w1)" "ctxs_inv w1"
    using encrypt_blocks_ok [OF r(3) ev ds w] by blast
  have "only_ctx w w1" using ctx_blocks(1) [of ev "relKey r" f b ds] e(1) unfolding keeps_def by (metis snd_conv)
  then have w1: "smgr_relns w1 = smgr_relns w" "md_log w1 = md_log w" "same_stores w w1"
    using only_ctx_fields same_stores_ctx by blast+
  have "tde_smgr_resolve_encryption_status ev reln w = (Inr (), w)"
    using r by (simp add: tde_smgr_resolve_encryption_status_def runM)
  then show ?thesis
    using r e w1 md_do_ok [OF assms(1)] by (simp add: tde_mdwritev_def runM ctxs_inv_def)
qed

lemma close_open:
  assumes "md_ok ev" and "ctxs_inv w"
  shows "\<exists>w'. seqM (tde_mdclose ev reln MAIN_FORKNUM) (tde_mdopen ev reln) w = (Inr (), w') \<and> ctxs_inv w' \<and> same_stores w w' \<and>
     smgr_relns w' reln = (smgr_relns w reln)\<lparr>relKey := zero_key, encryption_status := RELATION_ENCRYPTION_UNKNOWN\<rparr> \<and>
     md_read ev (md_log w') = md_read ev (md_log w)"
proof -
  let ?rl = "smgr_rlocator (smgr_relns w reln)"
  have "md_read ev ((md_log w @ [MdClose ?rl MAIN_FORKNUM]) @ [MdOpen ?rl]) = md_read ev (md_log w)"
    by (simp only: md_read_keeps [OF assms(1)] md_keeps_blocks.simps)
  then show ?thesis
    using assms by (simp add: tde_mdclose_def tde_mdopen_def runM md_do_ok set_reln_def ctxs_inv_def same_stores_def)
qed

context rel_key_store
begin

text \<open>Reading blocks through a relation just opened, whose key is in the store.\<close>

lemma mdreadv_stored:
  assumes md: "md_ok ev" and ev: "evp_is ev E" "page_cipher_ok E" and w: "ctxs_inv w"
    and st: "ready (locator rlocb) w" "stored (locator rlocb) k w" "wf_ik k"
    and get: "tde_smgr_get_key ev rlocb = fetch (locator rlocb)"
    and r: "smgr_rlocator (smgr_relns w reln) = rlocb" "encryption_status (smgr_relns w reln) = RELATION_ENCRYPTION_UNKNOWN"
    and ds: "\<forall>d\<in>set ds. length d = BLCKSZ" "length ds < 2 ^ 32" "\<forall>c\<in>set (stored_blocks E k f b ds). \<not> all_zero 32 c"
    and log: "md_read ev (md_log w) = md_read ev (log @ [MdWritev rlocb f b (stored_blocks E k f b ds) s])"
  shows "fst (tde_mdreadv ev reln f b (length ds) w) = Inr ds"
proof -
  let ?c = "MdReadv rlocb f b (length ds)" and ?cs = "stored_blocks E k f b ds"
  let ?w1 = "w\<lparr>md_log := md_log w @ [?c]\<rparr>"
  have "md_read ev (md_log ?w1) = md_read ev (log @ [MdWritev rlocb f b ?cs s])"
    using md_read_keeps [OF md, of ?c "md_log w"] log by simp
  from md_blocks_written [OF md _ this] ds(2) have bl: "md_blocks ev rlocb f b (length ds) ?w1 = ?cs" by simp
  have "same_stores w ?w1" by simp
  from ready_same [OF st(1) this] stored_same [OF st(2) this] get obtain k' where
    k': "tde_smgr_resolve_encryption_status ev reln ?w1 = (Inr (), ?w1\<lparr>smgr_relns := (smgr_relns ?w1)
       (reln := (smgr_relns ?w1 reln)\<lparr>encryption_status := RELATION_ENCRYPTED, relKey := k'\<rparr>)\<rparr>)" "ik_equiv k' k"
    using resolve [of rlocb ?w1 k ev reln] r by auto
  let ?w2 = "?w1\<lparr>smgr_relns := (smgr_relns ?w1)
       (reln := (smgr_relns ?w1 reln)\<lparr>encryption_status := RELATION_ENCRYPTED, relKey := k'\<rparr>)\<rparr>"
  have "ctxs_inv ?w2" using w by (simp add: ctxs_inv_def)
  from decrypt_blocks_ok [OF st(3) ev ds(1) this ds(3)]
  show ?thesis
    using md_do_ok [OF md, of ?c w] r bl k' by (auto simp: tde_mdreadv_def runM decrypt_blocks_equiv [OF k'(2)])
qed

text \<open>Creating the main fork of a relation for which encryption was asked.\<close>

lemma mdcreate_encrypted:
  assumes md: "md_ok ev" and ra: "rand_ok ev" and w: "ctxs_inv w" and st: "ready (locator rlocb) w"
    and cr: "tde_smgr_create_key ev rlocb =
      bindM (open_pg_tde_generate_internal_key ev (tde_smgr_data_cipher ev)) (\<lambda>key. seqM (put (locator rlocb) key) (ret key))"
    and r: "smgr_rlocator (smgr_relns w reln) = rlocb" and n: "open_pg_tde_cipher_key_length (tde_smgr_data_cipher ev) = Inr n"
    and asked: "\<not> IsBinaryUpgrade ev" "\<not> IsCatalogRelationOid ev (relNumber (locator rlocb))"
      "ddlEventStackTid w = GetCurrentFullTransactionIdIfAny ev" "ddlEventStack w \<noteq> []"
      "encryptMode (last (ddlEventStack w)) = TDE_ENCRYPT_MODE_ENCRYPT"
  shows "\<exists>k w'. tde_mdcreate ev relold reln MAIN_FORKNUM False w = (Inr (), w') \<and> wf_ik k \<and> ik_cipher k = tde_smgr_data_cipher ev \<and>
     ready (locator rlocb) w' \<and> stored (locator rlocb) k w' \<and> ctxs_inv w' \<and>
     smgr_relns w' reln = (smgr_relns w reln)\<lparr>encryption_status := RELATION_ENCRYPTED, relKey := k\<rparr>"
proof -
  let ?w1 = "w\<lparr>md_log := md_log w @ [MdCreate relold rlocb MAIN_FORKNUM False]\<rparr>"
  have sh: "tde_smgr_should_encrypt ev rlocb (Some relold) ?w1 = (Inr True, ?w1)"
    using asked by (simp add: tde_smgr_should_encrypt_def currentTdeEncryptModeValidated_def currentTdeEncryptMode_def runM)
  have "ready (locator rlocb) ?w1" using ready_same [OF st] by simp
  from create [OF this ra n] cr obtain k w2 where k: "tde_smgr_create_key ev rlocb ?w1 = (Inr k, w2)" "wf_ik k"
      "ik_cipher k = tde_smgr_data_cipher ev" "ready (locator rlocb) w2" "stored (locator rlocb) k w2" "same_relns ?w1 w2"
    by (metis (no_types, lifting))
  let ?w' = "w2\<lparr>smgr_relns := (smgr_relns w2)(reln := (smgr_relns w2 reln)\<lparr>encryption_status := RELATION_ENCRYPTED, relKey := k\<rparr>)\<rparr>"
  have "same_stores w2 ?w'" by simp
  then have "ready (locator rlocb) ?w'" "stored (locator rlocb) k ?w'" using ready_same [OF k(4)] stored_same [OF k(5)] by blast+
  moreover have "ctxs_inv w2" "smgr_relns w2 = smgr_relns w" using k(6) w by (simp_all add: same_relns_def ctxs_inv_def)
  moreover have "tde_mdcreate ev relold reln MAIN_FORKNUM False w = (Inr (), ?w')"
    using md_do_ok [OF md, of "MdCreate relold rlocb MAIN_FORKNUM False" w] r sh k(1) asked(1) by (simp add: tde_mdcreate_def runM set_reln_def)
  ultimately show ?thesis using k(2,3) by (intro exI [of _ k] exI [of _ ?w']) (simp add: ctxs_inv_def)
qed

lemma life_cycle:
  assumes md: "md_ok ev" and ra: "rand_ok ev" and ev: "evp_is ev E" "page_cipher_ok E" and w: "ctxs_inv w"
    and st: "ready (locator rlocb) w"
    and cr: "tde_smgr_create_key ev rlocb =
      bindM (open_pg_tde_generate_internal_key ev (tde_smgr_data_cipher ev)) (\<lambda>key. seqM (put (locator rlocb) key) (ret key))"
    and get: "tde_smgr_get_key ev rlocb = fetch (locator rlocb)"
    and r: "smgr_rlocator (smgr_relns w reln) = rlocb" and n: "open_pg_tde_cipher_key_length (tde_smgr_data_cipher ev) = Inr n"
    and asked: "\<not> IsBinaryUpgrade ev" "\<not> IsCatalogRelationOid ev (relNumber (locator rlocb))"
      "ddlEventStackTid w = GetCurrentFullTransactionIdIfAny ev" "ddlEventStack w \<noteq> []"
      "encryptMode (last (ddlEventStack w)) = TDE_ENCRYPT_MODE_ENCRYPT"
    and ds: "\<forall>d\<in>set ds. length d = BLCKSZ" "length ds < 2 ^ 32"
  shows "\<exists>k w1 w2 w3. tde_mdcreate ev relold reln MAIN_FORKNUM False w = (Inr (), w1) \<and> ik_cipher k = tde_smgr_data_cipher ev \<and>
     tde_mdwritev ev reln f b ds s w1 = (Inr (), w2) \<and> last (md_log w2) = MdWritev rlocb f b (stored_blocks E k f b ds) s \<and>
     seqM (tde_mdclose ev reln MAIN_FORKNUM) (tde_mdopen ev reln) w2 = (Inr (), w3) \<and> relKey (smgr_relns w3 reln) = zero_key \<and>
     ((\<forall>c\<in>set (stored_blocks E k f b ds). \<not> all_zero 32 c) \<longrightarrow> fst (tde_mdreadv ev reln f b (length ds) w3) = Inr ds)"
proof -
  obtain k w1 where w1: "tde_mdcreate ev relold reln MAIN_FORKNUM False w = (Inr (), w1)" "wf_ik k" "ik_cipher k = tde_smgr_data_cipher ev"
      "ready (locator rlocb) w1" "stored (locator rlocb) k w1" "ctxs_inv w1"
      "smgr_relns w1 reln = (smgr_relns w reln)\<lparr>encryption_status := RELATION_ENCRYPTED, relKey := k\<rparr>"
    using mdcreate_encrypted [OF md ra w st cr r n asked] by blast
  obtain w2 where w2: "tde_mdwritev ev reln f b ds s w1 = (Inr (), w2)" "ctxs_inv w2" "same_stores w1 w2" "smgr_relns w2 = smgr_relns w1"
      "md_log w2 = md_log w1 @ [MdWritev rlocb f b (stored_blocks E k f b ds) s]"
    using mdwritev_encrypted [OF md ev w1(6,7) _ _ ds(1), of f b s] w1(2) r by auto
  obtain w3 where w3: "seqM (tde_mdclose ev reln MAIN_FORKNUM) (tde_mdopen ev reln) w2 = (Inr (), w3)" "ctxs_inv w3" "same_stores w2 w3"
      "smgr_relns w3 reln = (smgr_relns w2 reln)\<lparr>relKey := zero_key, encryption_status := RELATION_ENCRYPTION_UNKNOWN\<rparr>"
      "md_read ev (md_log w3) = md_read ev (md_log w2)"
    using close_open [OF md w2(2), of reln] by blast
  have ss: "same_stores w1 w3" using same_stores_trans [OF w2(3) w3(3)] .
  have "fst (tde_mdreadv ev reln f b (length ds) w3) = Inr ds" if z: "\<forall>c\<in>set (stored_blocks E k f b ds). \<not> all_zero 32 c"
    by (rule mdreadv_stored [OF md ev w3(2) ready_same [OF w1(4) ss] stored_same [OF w1(5) ss] w1(2) get _ _ ds z])
      (use r w3(4,5) w2(4,5) w1(7) in simp_all)
  with w1(1,3) w2(1,5) w3(1,4) show ?thesis by (intro exI conjI impI) (assumption | simp)+
qed

end

section \<open>Properties\<close>

text \<open>The values the settings \<open>open_pg_tde.cipher\<close> and \<open>open_pg_tde.data_cipher\<close> can have.\<close>

definition cipher_gucs_ok :: "env \<Rightarrow> bool" where
  "cipher_gucs_ok ev \<longleftrightarrow> guc_Cipher ev \<in> {0, 1} \<and> guc_DataCipher ev \<in> {-1, 2, 3}"

lemma data_cipher_cases: "cipher_gucs_ok ev \<Longrightarrow> tde_smgr_data_cipher ev = (if guc_DataCipher ev = 3 \<or> guc_DataCipher ev = -1 \<and> guc_Cipher ev = 1
    then CIPHER_AES_256_XTS else CIPHER_AES_128_XTS)"
  by (auto simp: cipher_gucs_ok_def tde_smgr_data_cipher_def Let_def cipher_ids)

lemma data_cipher_length: "cipher_gucs_ok ev \<Longrightarrow> \<exists>n. open_pg_tde_cipher_key_length (tde_smgr_data_cipher ev) = Inr n"
  by (auto simp: data_cipher_cases open_pg_tde_cipher_key_length_def cipher_ids)

text \<open>What is needed of the state to create a relation's key: for a permanent relation a principal key and a usable key file.\<close>

definition store_ready :: "env \<Rightarrow> TDEPrincipalKey \<Rightarrow> RelFileLocatorBackend \<Rightarrow> world \<Rightarrow> bool" where
  "store_ready ev pk rlocb w \<longleftrightarrow> RelFileLocatorBackendIsTemp rlocb \<or> file_ready ev pk (locator rlocb) w"

definition encrypt_asked :: "env \<Rightarrow> RelFileLocatorBackend \<Rightarrow> world \<Rightarrow> bool" where
  "encrypt_asked ev rlocb w \<longleftrightarrow> \<not> IsBinaryUpgrade ev \<and> \<not> IsCatalogRelationOid ev (relNumber (locator rlocb)) \<and>
     ddlEventStackTid w = GetCurrentFullTransactionIdIfAny ev \<and> ddlEventStack w \<noteq> [] \<and>
     encryptMode (last (ddlEventStack w)) = TDE_ENCRYPT_MODE_ENCRYPT"

text \<open>
  C1. The life of an encrypted relation, permanent or temporary: creating its main fork while an encrypting statement
  is under way gives it a key of an XTS cipher; blocks written then reach \<open>md.c\<close> only in their encrypted form;
  closing the relation wipes the key from the open relation; and after it was opened again, the key found in the key file
  (or the table of temporary keys) reads back exactly the blocks written, unless an encrypted block
  starts with 32 zero bytes.
\<close>

theorem encrypted_relation_readable:
  assumes "md_ok ev" "rand_ok ev" "evp_is ev E" "page_cipher_ok E" "cipher_gucs_ok ev"
    and "ctxs_inv w" "store_ready ev pk rlocb w" "encrypt_asked ev rlocb w" "smgr_rlocator (smgr_relns w reln) = rlocb"
    and "\<forall>d\<in>set ds. length d = BLCKSZ" "length ds < 2 ^ 32"
  shows "\<exists>k w1 w2 w3. tde_mdcreate ev relold reln MAIN_FORKNUM False w = (Inr (), w1) \<and>
     ik_cipher k \<in> {CIPHER_AES_128_XTS, CIPHER_AES_256_XTS} \<and>
     tde_mdwritev ev reln f b ds s w1 = (Inr (), w2) \<and> last (md_log w2) = MdWritev rlocb f b (stored_blocks E k f b ds) s \<and>
     seqM (tde_mdclose ev reln MAIN_FORKNUM) (tde_mdopen ev reln) w2 = (Inr (), w3) \<and> relKey (smgr_relns w3 reln) = zero_key \<and>
     ((\<forall>c\<in>set (stored_blocks E k f b ds). \<not> all_zero 32 c) \<longrightarrow> fst (tde_mdreadv ev reln f b (length ds) w3) = Inr ds)"
proof -
  obtain n where n: "open_pg_tde_cipher_key_length (tde_smgr_data_cipher ev) = Inr n" using data_cipher_length [OF assms(5)] by blast
  have xts: "tde_smgr_data_cipher ev \<in> {CIPHER_AES_128_XTS, CIPHER_AES_256_XTS}" using data_cipher_cases [OF assms(5)] by simp
  have asked: "\<not> IsBinaryUpgrade ev" "\<not> IsCatalogRelationOid ev (relNumber (locator rlocb))"
      "ddlEventStackTid w = GetCurrentFullTransactionIdIfAny ev" "ddlEventStack w \<noteq> []"
      "encryptMode (last (ddlEventStack w)) = TDE_ENCRYPT_MODE_ENCRYPT"
    using assms(8) by (simp_all add: encrypt_asked_def)
  show ?thesis
  proof (cases "RelFileLocatorBackendIsTemp rlocb")
    case True
    show ?thesis
      using tks.life_cycle [OF assms(1-4,6) TrueI _ _ assms(9) n asked assms(10,11), of relold f b s] True xts
      by (fastforce simp: tde_smgr_create_key_def tde_smgr_get_key_def)
  next
    case False
    then have "file_ready ev pk (locator rlocb) w" using assms(7) by (simp add: store_ready_def)
    from kfs.life_cycle [OF assms(1-4,6) this _ _ assms(9) n asked assms(10,11), of relold f b s] show ?thesis
      using False xts by (fastforce simp: tde_smgr_create_key_def tde_smgr_get_key_def file_put_def)
  qed
qed

lemma demo_md_ok: "md_ok demo_env"
proof -
  have "md_read demo_env (log @ [c]) = md_read demo_env log" if "md_keeps_blocks c" for log c
    using that by (intro ext) (cases c, simp_all add: demo_env_def)
  moreover have "unat (b + of_nat i - b :: u32) = i" if "i < n" "n < 2 ^ 32" for b i n
    using that by (simp add: unat_of_nat)
  ultimately show ?thesis by (auto simp: md_ok_def demo_env_def)
qed

text \<open>A backend of the concrete world in the middle of an encrypting statement.\<close>

definition demo_ddl :: world where
  "demo_ddl = demo_ready\<lparr>ddlEventStackTid := 700, ddlEventStack :=
     [\<lparr>ev_parsetree = 1, encryptMode = TDE_ENCRYPT_MODE_ENCRYPT, rebuildSequencesFor = 0, rebuildSequence = 0\<rparr>]\<rparr>"

abbreviation "demo_rlocb \<equiv> \<lparr>locator = demo_rel, backend = -1\<rparr>"

lemma demo_ddl_ready: "store_ready demo_env demo_pk demo_rlocb demo_ddl"
  using demo_keys_ready demo_gcm_ok demo_rand_ok
  by (simp add: store_ready_def file_ready_def demo_ddl_def keys_ready_def)

lemma demo_ddl_asked: "encrypt_asked demo_env demo_rlocb demo_ddl"
  by (simp add: encrypt_asked_def demo_ddl_def demo_env_def)

lemma demo_ddl_simps: "ctxs_inv demo_ddl" "smgr_rlocator (smgr_relns demo_ddl 0) = demo_rlocb" "cipher_gucs_ok demo_env"
  using demo_ctxs_inv by (simp_all add: demo_ddl_def demo_ready_def ctxs_inv_def demo_world_def demo_rel_def cipher_gucs_ok_def demo_env_def)

theorem encrypted_relation_readable_witness:
  "\<exists>k w1 w2 w3. tde_mdcreate demo_env demo_rel 0 MAIN_FORKNUM False demo_ddl = (Inr (), w1) \<and>
     tde_mdwritev demo_env 0 MAIN_FORKNUM 7 [replicate 8192 1] True w1 = (Inr (), w2) \<and>
     seqM (tde_mdclose demo_env 0 MAIN_FORKNUM) (tde_mdopen demo_env 0) w2 = (Inr (), w3) \<and>
     ((\<forall>c\<in>set (stored_blocks demo_E k MAIN_FORKNUM 7 [replicate 8192 1]). \<not> all_zero 32 c) \<longrightarrow>
        fst (tde_mdreadv demo_env 0 MAIN_FORKNUM 7 1 w3) = Inr [replicate 8192 1])"
proof -
  have "\<forall>d\<in>set [replicate 8192 1 :: bytes]. length d = BLCKSZ" "length [replicate 8192 1 :: bytes] < 2 ^ 32" "length [replicate 8192 1 :: bytes] = 1"
    by (simp_all add: BLCKSZ_def)
  with encrypted_relation_readable [OF demo_md_ok demo_rand_ok demo_evp_is demo_page_cipher_ok demo_ddl_simps(3,1)
      demo_ddl_ready demo_ddl_asked demo_ddl_simps(2) this(1,2), of demo_rel MAIN_FORKNUM 7 True]
  show ?thesis by metis
qed

text \<open>
  Replaying the record of a key creation: if the relation has a key in the key file, as it does on the server that wrote the
  record and after a crash between the two, the key stays the one it was, so that blocks written under it
  stay readable; if it has none, it gets a fresh one of the configured cipher. No other relation is touched.
\<close>

lemma create_key_redo_keeps_key:
  assumes "file_ready ev pk rel w" "cipher_gucs_ok ev"
  shows "\<exists>w'. tde_smgr_create_key_redo ev rel w = (Inr (), w') \<and> file_ready ev pk rel w' \<and>
     (\<forall>rel'. rel_entry ev rel' w \<noteq> None \<or> \<not> same_relation rel' rel \<longrightarrow> rel_entry ev rel' w' = rel_entry ev rel' w) \<and>
     (rel_entry ev rel w = None \<longrightarrow> (\<exists>k. file_stored ev pk rel k w' \<and> ik_cipher k = tde_smgr_data_cipher ev))"
proof -
  have ok: "gcm_ok ev" "rand_ok ev" "relNumber rel \<noteq> 0" "keys_ready ev pk (dbOid rel) w" using assms(1) by (simp_all add: file_ready_def)
  obtain n where "open_pg_tde_cipher_key_length (tde_smgr_data_cipher ev) = Inr n" using data_cipher_length [OF assms(2)] by blast
  then obtain k where k: "open_pg_tde_generate_internal_key ev (tde_smgr_data_cipher ev) w = (Inr k, w\<lparr>rng := rng w + 2\<rparr>)" "wf_ik k"
      "ik_cipher k = tde_smgr_data_cipher ev"
    using generate_internal_key_ok [OF ok(2)] by blast
  let ?w1 = "w\<lparr>rng := rng w + 2\<rparr>"
  have w1: "keys_ready ev pk (dbOid rel) ?w1" "\<And>rel'. rel_entry ev rel' ?w1 = rel_entry ev rel' w"
    using ok(4) by (simp_all add: keys_ready_def rel_entry_def)
  obtain w' where w': "open_pg_tde_save_smgr_key ev rel k False ?w1 = (Inr (), w')" "keys_ready ev pk (dbOid rel) w'"
      "\<forall>rel'. \<not> same_relation rel' rel \<longrightarrow> rel_entry ev rel' w' = rel_entry ev rel' w"
      "if rel_entry ev rel w \<noteq> None then rel_entry ev rel w' = rel_entry ev rel w
       else \<exists>e. rel_entry ev rel w' = Some e \<and> entry_holds ev pk e k"
    using save_spec [OF ok(1,2) w1(1) k(2) ok(3), of False] unfolding w1(2) by auto
  have "tde_smgr_create_key_redo ev rel w = (Inr (), w')" using k(1) w'(1) by (simp add: tde_smgr_create_key_redo_def runM)
  moreover have "rel_entry ev rel' w' = rel_entry ev rel' w" if "rel_entry ev rel' w \<noteq> None" "same_relation rel' rel" for rel'
    using that w'(4) by (cases rel', cases rel) (auto simp: same_relation_def split: if_splits)
  ultimately show ?thesis using w' ok k(3) by (auto simp: file_ready_def file_stored_def)
qed

lemma create_key_redo_keeps_key_witness:
  "\<exists>w' k. rel_entry demo_env demo_rel demo_ready = None \<and> tde_smgr_create_key_redo demo_env demo_rel demo_ready = (Inr (), w') \<and>
     file_stored demo_env demo_pk demo_rel k w' \<and> ik_cipher k = CIPHER_AES_128_XTS"
proof -
  have "file_ready demo_env demo_pk demo_rel demo_ready"
    using demo_keys_ready demo_gcm_ok demo_rand_ok by (simp add: file_ready_def)
  moreover have "rel_entry demo_env demo_rel demo_ready = None" by (simp add: rel_entry_def demo_ready_def entries_of_def)
  moreover have "tde_smgr_data_cipher demo_env = CIPHER_AES_128_XTS"
    using data_cipher_cases [OF demo_ddl_simps(3)] by (simp add: demo_env_def)
  ultimately show ?thesis using create_key_redo_keeps_key [OF _ demo_ddl_simps(3)] by fastforce
qed





end
