(* ===== verification/Tde_Event_Ops.thy ===== *)
theory Tde_Event_Ops
  imports Tde_Event Tde_Relkeys_Ops
begin

text \<open>
  What the capture of DDL promises: the mix of encrypted and plain relations below a table is computed correctly and
  the recursion ends on every acyclic catalog; statements nest, so that the mode of the outer statement is
  in force again when an inner one ends; an enforced encryption cannot be avoided; and commands that
  would copy encrypted files without their keys are refused.
\<close>

section \<open>Mixes\<close>

text \<open>The relations reached by the recursion from a relation, itself included.\<close>

inductive in_tree :: "catalog \<Rightarrow> Oid \<Rightarrow> Oid \<Rightarrow> bool" for cat where
  in_tree_root: "in_tree cat relid relid"
| in_tree_child: "pg_class cat relid = Some r \<Longrightarrow> c \<in> set (mix_children_of cat relid r) \<Longrightarrow> in_tree cat c x \<Longrightarrow> in_tree cat relid x"

definition stores_as :: "catalog \<Rightarrow> (Oid \<Rightarrow> bool) \<Rightarrow> Oid \<Rightarrow> bool" where
  "stores_as cat P x \<longleftrightarrow> (\<exists>r. pg_class cat x = Some r \<and> RELKIND_HAS_STORAGE (relkind r) \<and> P (relam r))"

definition tree_has :: "catalog \<Rightarrow> (Oid \<Rightarrow> bool) \<Rightarrow> Oid \<Rightarrow> bool" where
  "tree_has cat P relid \<longleftrightarrow> (\<exists>x. in_tree cat relid x \<and> stores_as cat P x)"

definition mix_of :: "bool \<Rightarrow> bool \<Rightarrow> EncryptionMix" where
  "mix_of enc plain = (if enc then (if plain then ENC_MIX_MIXED else ENC_MIX_ENCRYPTED)
     else if plain then ENC_MIX_PLAIN else ENC_MIX_UNKNOWN)"

lemma mix_loop_spec:
  assumes "\<And>c. c \<in> set cs \<Longrightarrow> f c = Some (Inr (mix_of (E c) (P c)))"
  shows "mix_loop f (mix_of a b) cs = Some (Inr (mix_of (a \<or> (\<exists>c\<in>set cs. E c)) (b \<or> (\<exists>c\<in>set cs. P c))))"
  using assms
proof (induction cs arbitrary: a b)
  case Nil
  then show ?case by simp
next
  case (Cons c cs)
  have fc: "f c = Some (Inr (mix_of (E c) (P c)))" using Cons.prems by simp
  have IH: "mix_loop f (mix_of a' b') cs = Some (Inr (mix_of (a' \<or> (\<exists>c\<in>set cs. E c)) (b' \<or> (\<exists>c\<in>set cs. P c))))" for a' b'
    using Cons by simp
  show ?case
    using IH [of True True] IH [of True False] IH [of False True] IH [of False False]
    by (cases a; cases b; cases "E c"; cases "P c") (auto simp: fc mix_of_def)
qed

lemma tree_has_step:
  assumes "pg_class cat relid = Some r"
  shows "tree_has cat P relid \<longleftrightarrow>
     (RELKIND_HAS_STORAGE (relkind r) \<and> P (relam r)) \<or> (\<exists>c\<in>set (mix_children_of cat relid r). tree_has cat P c)"
proof -
  have "in_tree cat relid x \<longleftrightarrow> x = relid \<or> (\<exists>c\<in>set (mix_children_of cat relid r). in_tree cat c x)" for x
    using assms by (subst in_tree.simps) auto
  then show ?thesis using assms by (auto simp: tree_has_def stores_as_def)
qed

text \<open>Inheritance has no cycles: some rank falls from a relation to those below it.\<close>

definition acyclic_catalog :: "catalog \<Rightarrow> (Oid \<Rightarrow> nat) \<Rightarrow> bool" where
  "acyclic_catalog cat rank \<longleftrightarrow> (\<forall>relid r. pg_class cat relid = Some r \<longrightarrow> (\<forall>c\<in>set (mix_children_of cat relid r). rank c < rank relid))"

lemma mix_correct:
  assumes "acyclic_catalog cat rank" and "get_tde_table_am_oid cat = Inr am"
    and "\<forall>x. in_tree cat relid x \<longrightarrow> pg_class cat x \<noteq> None" and "rank relid < depth"
  shows "alter_table_encryption_mix depth cat relid = Some (Inr (mix_of (tree_has cat (\<lambda>a. a = am) relid) (tree_has cat (\<lambda>a. a \<noteq> am) relid)))"
  using assms(3,4)
proof (induction depth arbitrary: relid)
  case 0
  then show ?case by simp
next
  case (Suc depth)
  obtain r where r: "pg_class cat relid = Some r" using Suc.prems(1) in_tree_root by blast
  have IH: "alter_table_encryption_mix depth cat c = Some (Inr (mix_of (tree_has cat (\<lambda>a. a = am) c) (tree_has cat (\<lambda>a. a \<noteq> am) c)))"
    if c: "c \<in> set (mix_children_of cat relid r)" for c
  proof (rule Suc.IH)
    show "\<forall>x. in_tree cat c x \<longrightarrow> pg_class cat x \<noteq> None" using Suc.prems(1) in_tree_child [OF r c] by blast
    have "rank c < rank relid" using assms(1) r c unfolding acyclic_catalog_def by blast
    then show "rank c < depth" using Suc.prems(2) by simp
  qed
  have "own_mix cat r = Inr (mix_of (RELKIND_HAS_STORAGE (relkind r) \<and> relam r = am) (RELKIND_HAS_STORAGE (relkind r) \<and> relam r \<noteq> am))"
    using assms(2) by (auto simp: own_mix_def mix_of_def)
  with mix_loop_spec [OF IH] show ?case
    using r tree_has_step [OF r] by (simp add: relation_open_def)
qed

text \<open>
  C13. The decision whether the relations below a table are encrypted, plain, mixed or have no storage ends, with a recursion no
  deeper than the rank of the table, on every acyclic catalog, and is right: it is the mix of
  all relations with storage reached over inheritance (or, for a type, its typed tables), although the loop stops
  at the first difference.
\<close>

theorem encryption_mix_correct:
  assumes "acyclic_catalog cat rank" and "get_tde_table_am_oid cat = Inr am"
    and "\<forall>x. in_tree cat relid x \<longrightarrow> pg_class cat x \<noteq> None" and "rank relid < depth"
  shows "alter_table_encryption_mix depth cat relid = Some (Inr (mix_of (tree_has cat (\<lambda>a. a = am) relid) (tree_has cat (\<lambda>a. a \<noteq> am) relid)))"
  using assms by (rule mix_correct)

text \<open>A partitioned table (20) with an encrypted (21) and a plain (22) partition.\<close>

definition demo_catalog :: catalog where
  "demo_catalog = \<lparr>relids = (\<lambda>n. if n = [''t''] then Some 20 else None),
     pg_class = [20 \<mapsto> \<lparr>relkind = CHR ''p'', relam = 0, reltype = 0, relpersistence = CHR ''p''\<rparr>,
       21 \<mapsto> \<lparr>relkind = CHR ''r'', relam = 90, reltype = 0, relpersistence = CHR ''p''\<rparr>,
       22 \<mapsto> \<lparr>relkind = CHR ''r'', relam = 2, reltype = 0, relpersistence = CHR ''p''\<rparr>],
     pg_class_oftype = (\<lambda>_. []), inheritance_children = (\<lambda>r. if r = 20 then [21, 22] else []),
     table_am_oid = (\<lambda>n. if n = ''tde_heap'' then Some 90 else None), getOwnedSequences = (\<lambda>_. []),
     SequenceChangePersistence = (\<lambda>_ _. ret ())\<rparr>"

lemmas demo_tree = demo_catalog_def mix_children_of_def find_typed_table_dependencies_def RELKIND_COMPOSITE_TYPE_def

lemma demo_in_tree: "in_tree demo_catalog a x \<Longrightarrow> a = 20 \<Longrightarrow> x = 20 \<or> x = 21 \<or> x = 22"
proof (induction rule: in_tree.induct)
  case (in_tree_child relid r c x)
  have "x = c" if "c \<noteq> 20" using in_tree_child.hyps(3) that
    by (cases rule: in_tree.cases) (auto simp: demo_tree split: if_splits)
  then show ?case using in_tree_child
    by (auto simp: demo_tree split: if_splits)
qed simp

theorem encryption_mix_correct_witness:
  "alter_table_encryption_mix 2 demo_catalog 20 = Some (Inr ENC_MIX_MIXED)"
proof -
  have a: "acyclic_catalog demo_catalog (\<lambda>r. if r = 20 then 1 else 0)"
    by (auto simp: acyclic_catalog_def demo_tree
        split: if_splits)
  have am: "get_tde_table_am_oid demo_catalog = Inr 90" by (simp add: get_tde_table_am_oid_def demo_catalog_def)
  have ex: "\<forall>x. in_tree demo_catalog 20 x \<longrightarrow> pg_class demo_catalog x \<noteq> None"
    using demo_in_tree [OF _ refl] by (fastforce simp: demo_catalog_def)
  have r: "pg_class demo_catalog 20 = Some \<lparr>relkind = CHR ''p'', relam = 0, reltype = 0, relpersistence = CHR ''p''\<rparr>"
    by (simp add: demo_catalog_def)
  have t: "in_tree demo_catalog 20 21" "in_tree demo_catalog 20 22"
    using in_tree_child [OF r _ in_tree_root] by (simp_all add: demo_tree)
  have "tree_has demo_catalog (\<lambda>a. a = 90) 20" "tree_has demo_catalog (\<lambda>a. a \<noteq> 90) 20"
    unfolding tree_has_def
    by (rule exI [of _ 21], use t in \<open>simp add: stores_as_def demo_catalog_def RELKIND_HAS_STORAGE_def\<close>)
      (rule exI [of _ 22], use t in \<open>simp add: stores_as_def demo_catalog_def RELKIND_HAS_STORAGE_def\<close>)
  with encryption_mix_correct [OF a am ex, of 2] show ?thesis by (simp add: mix_of_def)
qed

section \<open>The event stack\<close>

definition same_ddl :: "world \<Rightarrow> world \<Rightarrow> bool" where
  "same_ddl w w' \<longleftrightarrow> ddlEventStack w' = ddlEventStack w \<and> ddlEventStackTid w' = ddlEventStackTid w"

interpretation sd: frame same_ddl
  by unfold_locales (simp_all add: same_ddl_def)

lemma ddl_get_key: "keeps same_ddl (GetPrincipalKeyNoDefault ev db)"
  using get_only_cache [of ev db] unfolding keeps_def only_cache_def same_ddl_def by (metis world.select_convs world.update_convs world.surjective)

text \<open>What the start of a statement does to the stack: nothing, or it pushes one event of that statement.\<close>

definition pushed :: "env \<Rightarrow> nat \<Rightarrow> world \<Rightarrow> world \<Rightarrow> bool" where
  "pushed ev pt w w' \<longleftrightarrow> ddlEventStackTid w' = GetCurrentFullTransactionId ev \<and>
     (\<exists>e. ev_parsetree e = pt \<and>
        ddlEventStack w' = (if ddlEventStackTid w = GetCurrentFullTransactionId ev then ddlEventStack w else []) @ [e])"

definition starts :: "env \<Rightarrow> nat \<Rightarrow> world \<Rightarrow> world \<Rightarrow> bool" where
  "starts ev pt w w' \<longleftrightarrow> same_ddl w w' \<or> pushed ev pt w w'"

lemma starts_of_same: "keeps same_ddl m \<Longrightarrow> keeps (starts ev pt) m"
  by (simp add: keeps_def starts_def)

lemma same_then_starts: "same_ddl w w1 \<Longrightarrow> starts ev pt w1 w2 \<Longrightarrow> starts ev pt w w2"
  by (auto simp: starts_def same_ddl_def pushed_def)

lemma starts_bind_post:
  "keeps same_ddl m \<Longrightarrow> (\<And>w x w'. m w = (Inr x, w') \<Longrightarrow> P x) \<Longrightarrow> (\<And>x. P x \<Longrightarrow> keeps (starts ev pt) (f x)) \<Longrightarrow>
     keeps (starts ev pt) (bindM m f)"
  by (rule keeps_bind_rel [where S = same_ddl and P = P]) (auto intro: same_then_starts, simp add: starts_def)

lemma starts_bind: "keeps same_ddl m \<Longrightarrow> (\<And>x. keeps (starts ev pt) (f x)) \<Longrightarrow> keeps (starts ev pt) (bindM m f)"
  by (rule starts_bind_post [where P = "\<lambda>_. True"]) simp_all

lemma starts_seq: "keeps same_ddl m \<Longrightarrow> keeps (starts ev pt) k \<Longrightarrow> keeps (starts ev pt) (seqM m k)"
  unfolding seqM_def by (rule starts_bind)

lemma push_run:
  "push_event_stack ev e w = (Inr (), w\<lparr>ddlEventStack := (if ddlEventStackTid w = GetCurrentFullTransactionId ev then ddlEventStack w else []) @ [e],
     ddlEventStackTid := GetCurrentFullTransactionId ev\<rparr>)"
  by (simp add: push_event_stack_def verify_event_stack_def Let_def runM)

lemma starts_push:
  assumes "ev_parsetree e = pt" "keeps same_ddl m"
  shows "keeps (starts ev pt) (push_event_stack ev e)" "keeps (starts ev pt) (seqM (push_event_stack ev e) m)"
  using assms by (auto simp: keeps_def starts_def pushed_def push_run runM same_ddl_def)

lemma new_event_parsetree [simp]: "ev_parsetree (new_event pt) = pt"
  by (simp add: new_event_def)

lemma ddl_check_key: "keeps same_ddl (checkPrincipalKeyConfigured ev)" "keeps same_ddl (checkEncryptionStatus ev)"
  unfolding checkEncryptionStatus_def checkPrincipalKeyConfigured_def open_pg_tde_principal_key_configured_def currentTdeEncryptMode_def
  by (intro sd.keeps_intros ddl_get_key)+

lemma ddl_mix: "keeps same_ddl (encryption_mix depth cat relid)"
  unfolding encryption_mix_def by (intro sd.keeps_intros looks_liftM [THEN sd.of_looks])

lemma ddl_owner: "keeps same_ddl (owner_mode ev cat o')"
  unfolding owner_mode_def by (intro sd.keeps_intros looks_liftM [THEN sd.of_looks] ddl_check_key)

lemmas ddl_intros = starts_bind starts_seq starts_push sd.keeps_intros looks_liftM [THEN sd.of_looks] ddl_check_key ddl_mix ddl_owner

text \<open>A handler that computes the event first and pushes it then.\<close>

lemma starts_push_post:
  assumes "keeps same_ddl m" "\<And>w e w'. m w = (Inr e, w') \<Longrightarrow> ev_parsetree e = pt" "keeps same_ddl k"
  shows "keeps (starts ev pt) (bindM m (push_event_stack ev))"
    and "keeps (starts ev pt) (bindM m (\<lambda>e. seqM (push_event_stack ev e) k))"
  by (rule starts_bind_post [OF assms(1), where P = "\<lambda>e. ev_parsetree e = pt"]; use assms starts_push in blast)+

lemma starts_if: "keeps (starts ev pt) a \<Longrightarrow> keeps (starts ev pt) b \<Longrightarrow> keeps (starts ev pt) (if c then a else b)"
  by simp

lemma start_alter_starts: "keeps (starts ev pt) (start_alter ev depth cat pt rel cmds)"
  unfolding start_alter_def Let_def
proof (intro starts_if starts_seq starts_of_same [OF sd.keeps_ret] starts_bind [OF looks_liftM [THEN sd.of_looks]] starts_bind [OF ddl_mix] sd.keeps_check,
    rule starts_push_post(2))
qed (auto simp: bindM_eq_Inr seqM_eq_Inr ret_def intro!: sd.keeps_intros ddl_check_key split: if_splits)

lemma start_alter_seq_starts: "keeps (starts ev pt) (start_alter_seq ev cat pt sq opts)"
  unfolding start_alter_seq_def Let_def
proof (intro starts_if starts_of_same [OF sd.keeps_ret] starts_bind [OF looks_liftM [THEN sd.of_looks]], rule starts_push_post(1))
qed (auto simp: bindM_eq_Inr ret_def intro!: sd.keeps_intros ddl_owner split: if_splits)

lemma start_capture_starts: "keeps (starts ev pt) (open_pg_tde_ddl_command_start_capture ev depth cat b pt stmt)"
  by (cases stmt)
    (auto simp: open_pg_tde_ddl_command_start_capture_def start_index_def start_create_def start_create_as_def start_create_seq_def Let_def
     intro!: ddl_intros starts_of_same [OF sd.keeps_ret] start_alter_starts start_alter_seq_starts split: EncryptionMix.splits)

section \<open>Nesting\<close>

lemma end_capture_stack:
  assumes seqs: "\<forall>r c. keeps same_ddl (SequenceChangePersistence cat r c)"
    and run: "open_pg_tde_ddl_command_end_capture cat b pt w = (Inr (), w')"
  shows "ddlEventStackTid w' = ddlEventStackTid w \<and>
     ddlEventStack w' = (if ddlEventStack w \<noteq> [] \<and> ev_parsetree (last (ddlEventStack w)) = pt then butlast (ddlEventStack w) else ddlEventStack w)"
proof (cases "ddlEventStack w = [] \<or> ev_parsetree (last (ddlEventStack w)) \<noteq> pt")
  case True
  then show ?thesis using run by (auto simp: open_pg_tde_ddl_command_end_capture_def seqM_eq_Inr bindM_eq_Inr runM split: if_splits)
next
  case False
  let ?e = "last (ddlEventStack w)" and ?pop = "modifyM (\<lambda>w. w\<lparr>ddlEventStack := butlast (ddlEventStack w)\<rparr>)"
  define A where "A = whenM (rebuildSequencesFor ?e \<noteq> InvalidOid)
                 (bindM (liftM (relation_open cat (rebuildSequencesFor ?e))) (\<lambda>rel.
                  forM (getOwnedSequences cat (rebuildSequencesFor ?e))
                    (\<lambda>seq_relid. SequenceChangePersistence cat seq_relid (relpersistence rel))))"
  define B where "B = whenM (rebuildSequence ?e \<noteq> InvalidOid)
                 (bindM (liftM (relation_open cat (rebuildSequence ?e))) (\<lambda>rel.
                  SequenceChangePersistence cat (rebuildSequence ?e) (relpersistence rel)))"
  have keep: "keeps same_ddl (seqM A B)"
    unfolding A_def B_def using seqs by (intro sd.keeps_intros looks_liftM [THEN sd.of_looks]) blast+
  have "seqM (check b E_not_event_trigger) (seqM A (seqM B ?pop)) w = (Inr (), w')"
    using run False unfolding open_pg_tde_ddl_command_end_capture_def A_def B_def by (simp add: seqM_def bindM_def getM_def Let_def check_def split: if_splits)
  then obtain w0 w1 where "A w = (Inr (), w0)" "B w0 = (Inr (), w1)" "w' = w1\<lparr>ddlEventStack := butlast (ddlEventStack w1)\<rparr>"
    by (auto simp: seqM_eq_Inr split: if_splits)
  moreover from this have "same_ddl w w1" using keep [unfolded keeps_def, THEN spec, of w] by (simp add: seqM_Inr)
  ultimately have "same_ddl w w1" "w' = w1\<lparr>ddlEventStack := butlast (ddlEventStack w1)\<rparr>" by simp_all
  with False show ?thesis by (simp add: same_ddl_def)
qed

text \<open>
  The statements of one transaction: a statement starts, whatever it executes runs, and it ends; other work
  of the server leaves the stack alone. The parse tree of a statement is at no address that one under way has.
\<close>

inductive ddl_run :: "env \<Rightarrow> nat \<Rightarrow> catalog \<Rightarrow> world \<Rightarrow> world \<Rightarrow> bool" for ev depth cat where
  ddl_done: "ddl_run ev depth cat w w"
| ddl_other: "same_ddl w w1 \<Longrightarrow> ddl_run ev depth cat w1 w2 \<Longrightarrow> ddl_run ev depth cat w w2"
| ddl_stmt: "\<forall>e\<in>set (ddlEventStack w). ev_parsetree e \<noteq> pt \<Longrightarrow>
    open_pg_tde_ddl_command_start_capture ev depth cat True pt stmt w = (Inr (), w1) \<Longrightarrow> ddl_run ev depth cat w1 w2 \<Longrightarrow>
    open_pg_tde_ddl_command_end_capture cat True pt w2 = (Inr (), w3) \<Longrightarrow> ddl_run ev depth cat w3 w4 \<Longrightarrow> ddl_run ev depth cat w w4"

text \<open>
  C15. Statements nest: after any sequence of nested statements of a transaction that all complete, the event stack is
  what it was, so that the encryption mode in force is the one of the enclosing statement again.
\<close>

theorem nested_statements_restore_mode:
  assumes "ddl_run ev depth cat w w'" and "ddlEventStackTid w = GetCurrentFullTransactionId ev"
    and "\<forall>r c. keeps same_ddl (SequenceChangePersistence cat r c)"
  shows "ddlEventStack w' = ddlEventStack w \<and> ddlEventStackTid w' = ddlEventStackTid w \<and>
     fst (currentTdeEncryptModeValidated ev w') = fst (currentTdeEncryptModeValidated ev w)"
proof -
  have "same_ddl w w'"
    using assms(1,2)
  proof (induction rule: ddl_run.induct)
    case (ddl_done w)
    show ?case by (rule sd.R_refl)
  next
    case (ddl_other w w1 w2)
    then show ?case by (auto simp: same_ddl_def)
  next
    case (ddl_stmt w pt stmt w1 w2 w3 w4)
    have st: "starts ev pt w w1"
      using start_capture_starts [of ev pt depth cat True stmt] ddl_stmt.hyps(2) unfolding keeps_def by (metis snd_conv)
    then have "ddlEventStackTid w1 = GetCurrentFullTransactionId ev" using ddl_stmt.prems by (auto simp: starts_def same_ddl_def pushed_def)
    then have "same_ddl w1 w2" by (rule ddl_stmt.IH(1))
    have "same_ddl w w3"
    proof (cases "same_ddl w w1")
      case True
      then have w2: "ddlEventStack w2 = ddlEventStack w" using \<open>same_ddl w1 w2\<close> by (simp add: same_ddl_def)
      then have "\<not> (ddlEventStack w2 \<noteq> [] \<and> ev_parsetree (last (ddlEventStack w2)) = pt)" using ddl_stmt.hyps(1) last_in_set by metis
      with end_capture_stack [OF assms(3) ddl_stmt.hyps(4)] True \<open>same_ddl w1 w2\<close> show ?thesis by (auto simp: same_ddl_def)
    next
      case False
      with st obtain e where "ev_parsetree e = pt" "ddlEventStack w2 = ddlEventStack w @ [e]"
        using ddl_stmt.prems \<open>same_ddl w1 w2\<close> by (auto simp: starts_def pushed_def same_ddl_def)
      with end_capture_stack [OF assms(3) ddl_stmt.hyps(4)] \<open>same_ddl w1 w2\<close> \<open>ddlEventStackTid w1 = _\<close> ddl_stmt.prems
      show ?thesis by (simp add: same_ddl_def)
    qed
    then show ?case using ddl_stmt.IH(2) ddl_stmt.prems by (auto simp: same_ddl_def)
  qed
  then show ?thesis by (simp add: same_ddl_def currentTdeEncryptModeValidated_def currentTdeEncryptMode_def runM)
qed

theorem nested_statements_restore_mode_witness:
  "\<exists>w w'. ddl_run demo_env 3 demo_catalog w w' \<and> ddlEventStack w = [] \<and> ddlEventStack w' = [] \<and>
     (\<exists>w1. open_pg_tde_ddl_command_start_capture demo_env 3 demo_catalog True 1 (CreateSeqStmt []) w = (Inr (), w1) \<and> ddlEventStack w1 \<noteq> [])"
proof -
  let ?w = "demo_world\<lparr>ddlEventStackTid := 700\<rparr>"
  define e where "e = (new_event 1)\<lparr>encryptMode := TDE_ENCRYPT_MODE_PLAIN\<rparr>"
  have s: "open_pg_tde_ddl_command_start_capture demo_env 3 demo_catalog True 1 (CreateSeqStmt []) ?w = (Inr (), ?w\<lparr>ddlEventStack := [e]\<rparr>)"
    by (simp add: open_pg_tde_ddl_command_start_capture_def start_create_seq_def owned_by_of_def runM push_run e_def demo_env_def demo_world_def)
  have "open_pg_tde_ddl_command_end_capture demo_catalog True 1 (?w\<lparr>ddlEventStack := [e]\<rparr>) = (Inr (), ?w)"
    by (simp add: open_pg_tde_ddl_command_end_capture_def runM e_def new_event_def Let_def demo_world_def)
  then obtain w' where r: "ddl_run demo_env 3 demo_catalog ?w w'"
    using ddl_stmt [OF _ s ddl_done _ ddl_done] by (simp add: demo_world_def)
  have "\<forall>r c. keeps same_ddl (SequenceChangePersistence demo_catalog r c)" by (simp add: demo_catalog_def sd.keeps_ret)
  with nested_statements_restore_mode [OF r] have "ddlEventStack w' = ddlEventStack ?w" by (simp add: demo_env_def)
  moreover have "ddlEventStack ?w = []" by (simp add: demo_world_def)
  moreover have "ddlEventStack (?w\<lparr>ddlEventStack := [e]\<rparr>) \<noteq> []" by simp
  ultimately show ?thesis using r s by metis
qed

text \<open>
  The end of a statement does not check the transaction of the event on top of the stack. An event an aborted transaction left
  behind, whose parse tree was at the address the parse tree of a later statement has that pushes none itself, is taken for an event of that
  statement: its sequence is rewritten and the event is popped.
\<close>

lemma stale_event_handled:
  assumes "ddlEventStack w = es @ [e]" "ev_parsetree e = pt" "ddlEventStackTid w \<noteq> GetCurrentFullTransactionId ev"
    and "rebuildSequence e \<noteq> InvalidOid" "rebuildSequencesFor e = InvalidOid" "pg_class cat (rebuildSequence e) = Some r"
  shows "seqM (open_pg_tde_ddl_command_start_capture ev depth cat True pt OtherStmt) (open_pg_tde_ddl_command_end_capture cat True pt) w
     = seqM (SequenceChangePersistence cat (rebuildSequence e) (relpersistence r)) (modifyM (\<lambda>w. w\<lparr>ddlEventStack := butlast (ddlEventStack w)\<rparr>)) w"
  using assms
  by (simp add: open_pg_tde_ddl_command_start_capture_def open_pg_tde_ddl_command_end_capture_def runM Let_def relation_open_def)

lemma stale_event_handled_witness:
  "seqM (open_pg_tde_ddl_command_start_capture demo_env 3 demo_catalog True 9 OtherStmt) (open_pg_tde_ddl_command_end_capture demo_catalog True 9)
     (demo_world\<lparr>ddlEventStackTid := 699, ddlEventStack := [(new_event 9)\<lparr>rebuildSequence := 21\<rparr>]\<rparr>)
   = (Inr (), demo_world\<lparr>ddlEventStackTid := 699, ddlEventStack := []\<rparr>)"
  using stale_event_handled [of "demo_world\<lparr>ddlEventStackTid := 699, ddlEventStack := [(new_event 9)\<lparr>rebuildSequence := 21\<rparr>]\<rparr>"
      "[]" "(new_event 9)\<lparr>rebuildSequence := 21\<rparr>" 9 demo_env demo_catalog _ 3]
  by (simp add: demo_catalog_def demo_env_def new_event_def InvalidOid_def runM demo_world_def)

section \<open>Enforced encryption\<close>

definition key_at_hand :: "env \<Rightarrow> world \<Rightarrow> bool" where
  "key_at_hand ev w \<longleftrightarrow> pk_cache w (MyDatabaseId ev) \<noteq> None \<or> pk_cache w DEFAULT_DATA_TDE_OID \<noteq> None"

lemma check_key_at_hand: "checkPrincipalKeyConfigured ev w = (Inr (), w') \<Longrightarrow> \<not> FRONTEND ev \<Longrightarrow> key_at_hand ev w'"
  by (auto simp: checkPrincipalKeyConfigured_def open_pg_tde_principal_key_configured_def bindM_eq_Inr check_def ret_def throw_def
      key_at_hand_def dest: get_in_cache split: if_splits)

text \<open>The last step of the statements that create relations.\<close>

lemma push_then_check:
  assumes "seqM (push_event_stack ev e) (checkEncryptionStatus ev) w = (Inr (), w')" "\<not> FRONTEND ev"
  shows "ddlEventStack w' \<noteq> [] \<and> last (ddlEventStack w') = e \<and> ddlEventStackTid w' = GetCurrentFullTransactionId ev \<and>
     (if encryptMode e = TDE_ENCRYPT_MODE_ENCRYPT then key_at_hand ev w' else \<not> EnforceEncryption ev)"
proof -
  let ?w1 = "snd (push_event_stack ev e w)"
  have c: "checkEncryptionStatus ev ?w1 = (Inr (), w')" using assms(1) by (simp add: push_run runM)
  then have "same_ddl ?w1 w'" using ddl_check_key(2) [of ev] unfolding keeps_def by (metis snd_conv)
  then have st: "ddlEventStack w' \<noteq> []" "last (ddlEventStack w') = e" "ddlEventStackTid w' = GetCurrentFullTransactionId ev"
    by (simp_all add: push_run same_ddl_def)
  have "last (ddlEventStack ?w1) = e" "ddlEventStack ?w1 \<noteq> []" by (simp_all add: push_run)
  then show ?thesis
    using c st assms(2) by (auto simp: checkEncryptionStatus_def currentTdeEncryptMode_def bindM_Inr getM_run check_run
        dest: check_key_at_hand split: if_splits)
qed

text \<open>
  C14. A \<open>CREATE TABLE\<close>, \<open>CREATE TABLE AS\<close> or \<open>ALTER TABLE\<close> of an existing table that gets past the start capture has its event
  on top of the stack, in the current transaction. If it is to encrypt, a principal key of the
  database or the default key is at hand; if encryption is enforced, it is to encrypt. This holds for every \<open>ALTER TABLE\<close>, also for one that leaves the access method alone, which the
  documentation of the setting promises to allow.
\<close>

theorem enforced_encryption:
  assumes "open_pg_tde_ddl_command_start_capture ev depth cat True pt stmt w = (Inr (), w')"
    and "case stmt of CreateStmt _ _ _ \<Rightarrow> True | CreateTableAsStmt _ \<Rightarrow> True
       | AlterTableStmt rel _ \<Rightarrow> (\<exists>relid. relids cat rel = Some relid \<and> relid \<noteq> InvalidOid) | _ \<Rightarrow> False"
    and "\<not> FRONTEND ev"
  shows "\<exists>e. ddlEventStack w' \<noteq> [] \<and> last (ddlEventStack w') = e \<and> ev_parsetree e = pt \<and> ddlEventStackTid w' = GetCurrentFullTransactionId ev \<and>
     (encryptMode e = TDE_ENCRYPT_MODE_ENCRYPT \<longrightarrow> key_at_hand ev w') \<and> (EnforceEncryption ev \<longrightarrow> encryptMode e = TDE_ENCRYPT_MODE_ENCRYPT)"
proof -
  obtain e w1 where "seqM (push_event_stack ev e) (checkEncryptionStatus ev) w1 = (Inr (), w')" "ev_parsetree e = pt"
  proof (cases stmt)
    case (AlterTableStmt rel cmds)
    with assms obtain e w1 where "seqM (push_event_stack ev e) (checkEncryptionStatus ev) w1 = (Inr (), w')" "ev_parsetree e = pt"
      by (auto simp: open_pg_tde_ddl_command_start_capture_def seqM_Inr check_run start_alter_def RangeVarGetRelid_def Let_def bindM_eq_Inr
          seqM_eq_Inr [of "check _ _"] seqM_eq_Inr [of _ "ret _"] split: if_splits)
    then show thesis by (rule that)
  qed (use assms that in \<open>auto simp: open_pg_tde_ddl_command_start_capture_def seqM_Inr check_run start_create_def start_create_as_def bindM_eq_Inr\<close>)
  with push_then_check [OF this(1) assms(3)] show ?thesis by (auto split: if_splits)
qed

theorem enforced_encryption_witness:
  "\<exists>w'. open_pg_tde_ddl_command_start_capture (demo_env\<lparr>EnforceEncryption := True\<rparr>) 3 demo_catalog True 4 (CreateStmt (Some ''tde_heap'') False []) demo_ready
       = (Inr (), w') \<and> encryptMode (last (ddlEventStack w')) = TDE_ENCRYPT_MODE_ENCRYPT"
proof -
  let ?ev = "demo_env\<lparr>EnforceEncryption := True\<rparr>"
  let ?s = "open_pg_tde_ddl_command_start_capture ?ev 3 demo_catalog True 4 (CreateStmt (Some ''tde_heap'') False []) demo_ready"
  have "\<not> FRONTEND ?ev" by simp
  have "fst ?s = Inr ()"
    by (simp add: open_pg_tde_ddl_command_start_capture_def start_create_def create_mode_def Let_def runM push_run mode_of_def
        checkEncryptionStatus_def currentTdeEncryptMode_def checkPrincipalKeyConfigured_def open_pg_tde_principal_key_configured_def
        GetPrincipalKeyNoDefault_def get_principal_key_cached_def get_principal_key_from_cache_def demo_ready_def demo_env_def)
  then obtain w' where w': "?s = (Inr (), w')" by (metis prod.collapse)
  from enforced_encryption [OF this] w' show ?thesis by auto
qed

text \<open>
  C40. The documentation of \<open>open_pg_tde.enforce_encryption\<close> says that \<open>ALTER\<close> commands that do not change the access method are still allowed on
  unencrypted tables. They are not: if encryption is enforced, every \<open>ALTER TABLE\<close> without \<open>SET ACCESS METHOD\<close>, whatever else it does, fails with the error of the
  setting if no relation with storage at or below the table is encrypted, be they plain or be there none with storage at all. The catalog has no cycles.
\<close>

theorem plain_alter_refused:
  assumes "acyclic_catalog cat rank" "get_tde_table_am_oid cat = Inr am" "\<forall>x. in_tree cat relid x \<longrightarrow> pg_class cat x \<noteq> None" "rank relid < depth"
    and "relids cat rel = Some relid" "relid \<noteq> InvalidOid" "\<forall>cmd\<in>set cmds. cmd = None" "EnforceEncryption ev" "\<not> tree_has cat (\<lambda>a. a = am) relid"
  shows "fst (open_pg_tde_ddl_command_start_capture ev depth cat True pt (AlterTableStmt rel cmds) w) = Inl E_enforce_encryption"
proof -
  have m: "alter_table_encryption_mix depth cat relid = Some (Inr (mix_of False (tree_has cat (\<lambda>a. a \<noteq> am) relid)))"
    using mix_correct [OF assms(1-4)] assms(9) by simp
  have am: "last_set_am cmds = None" using assms(7) by (induction cmds) (simp_all add: last_set_am_def)
  obtain r where r: "pg_class cat relid = Some r" using assms(3) in_tree_root by blast
  show ?thesis
    using assms(5,6,8) m am r
    by (cases "tree_has cat (\<lambda>a. a \<noteq> am) relid")
      (simp_all add: open_pg_tde_ddl_command_start_capture_def start_alter_def RangeVarGetRelid_def Let_def runM encryption_mix_def mix_of_def relation_open_def push_run
        checkEncryptionStatus_def currentTdeEncryptMode_def check_run new_event_def)
qed

text \<open>A partitioned table (20) whose only partition (22) is plain, to which a column is added.\<close>

definition demo_plain_catalog :: catalog where
  "demo_plain_catalog = demo_catalog\<lparr>inheritance_children := (\<lambda>r. if r = 20 then [22] else [])\<rparr>"

theorem plain_alter_refused_witness:
  "fst (open_pg_tde_ddl_command_start_capture (demo_env\<lparr>EnforceEncryption := True\<rparr>) 3 demo_plain_catalog True 4 (AlterTableStmt [''t''] [None]) demo_ready)
     = Inl E_enforce_encryption"
proof -
  have tree: "x = 20 \<or> x = 22" if "in_tree demo_plain_catalog a x" "a = 20 \<or> a = 22" for a x
    using that by (induction rule: in_tree.induct) (auto simp: demo_plain_catalog_def demo_tree split: if_splits)
  have "acyclic_catalog demo_plain_catalog (\<lambda>r. if r = 20 then 1 else 0)"
    by (auto simp: acyclic_catalog_def demo_plain_catalog_def demo_tree split: if_splits)
  moreover have "\<not> stores_as demo_plain_catalog (\<lambda>a. a = 90) x" "pg_class demo_plain_catalog x \<noteq> None" if "x = 20 \<or> x = 22" for x
    using that by (auto simp: stores_as_def demo_plain_catalog_def demo_catalog_def)
  then have "\<not> tree_has demo_plain_catalog (\<lambda>a. a = 90) 20" "\<forall>x. in_tree demo_plain_catalog 20 x \<longrightarrow> pg_class demo_plain_catalog x \<noteq> None"
    using tree [of 20] unfolding tree_has_def by blast+
  moreover have "get_tde_table_am_oid demo_plain_catalog = Inr 90" "relids demo_plain_catalog [''t''] = Some 20"
    by (simp_all add: demo_plain_catalog_def demo_catalog_def get_tde_table_am_oid_def)
  ultimately show ?thesis
    by (intro plain_alter_refused [where am = 90 and relid = 20 and rank = "\<lambda>r. if r = 20 then 1 else 0"]) (simp_all add: InvalidOid_def)
qed

section \<open>Commands that copy files\<close>

lemma count_usable:
  assumes "smgr_usable (disk w (open_pg_tde_set_db_file_path ev db))"
  shows "\<exists>n. open_pg_tde_count_encryption_keys ev db spc w = (Inr n, w) \<and>
     (0 < n \<longleftrightarrow> (\<exists>rel. dbOid rel = db \<and> (spc = 0 \<or> spcOid rel = spc) \<and> rel_entry ev rel w \<noteq> None))"
proof -
  let ?p = "open_pg_tde_set_db_file_path ev db" and ?es = "entries_of (disk w (open_pg_tde_set_db_file_path ev db))"
  let ?P = "\<lambda>e. me_type e = MAP_ENTRY_TYPE_KEY \<and> (spc = 0 \<or> me_spcOid e = spc)"
  have "open_pg_tde_count_encryption_keys ev db spc w = (Inr (length (filter ?P ?es)), w)"
  proof (cases "disk w ?p")
    case None
    then show ?thesis by (simp add: count_missing entries_of_def)
  next
    case (Some f)
    show ?thesis
    proof (cases "f = []")
      case True
      have "map_entries_at [] 0 = []" by (simp add: map_entries_at_def read_all_end ENTRY_SIZE_def)
      with True Some mapfile.ents_Nil show ?thesis
        by (simp add: open_pg_tde_count_encryption_keys_def smgr_file_defs kf_open_read_def kf_open_basic_def kf_header_read_def runM Let_def
            file_bytes_def pread_def entries_of_def)
    next
      case False
      with Some assms show ?thesis by (simp add: count_ok usable_file_def entries_of_def)
    qed
  qed
  moreover have "0 < length (filter ?P ?es) \<longleftrightarrow> (\<exists>rel. dbOid rel = db \<and> (spc = 0 \<or> spcOid rel = spc) \<and> rel_entry ev rel w \<noteq> None)"
  proof
    assume "0 < length (filter ?P ?es)"
    then obtain e where e: "e \<in> set ?es" "?P e" by (auto simp: filter_empty_conv)
    let ?rel = "\<lparr>spcOid = me_spcOid e, dbOid = db, relNumber = me_relNumber e\<rparr>"
    have "entry_matches ?rel e" using e by (simp add: entry_matches_def)
    then have "rel_entry ev ?rel w \<noteq> None" using e(1) by (auto simp: rel_entry_def find_None_iff)
    then show "\<exists>rel. dbOid rel = db \<and> (spc = 0 \<or> spcOid rel = spc) \<and> rel_entry ev rel w \<noteq> None" using e(2)
      by (intro exI [of _ ?rel]) auto
  next
    assume "\<exists>rel. dbOid rel = db \<and> (spc = 0 \<or> spcOid rel = spc) \<and> rel_entry ev rel w \<noteq> None"
    then obtain rel e where "spc = 0 \<or> spcOid rel = spc" "find (entry_matches rel) ?es = Some e"
      by (auto simp: rel_entry_def)
    then have "e \<in> set ?es" "?P e" by (auto simp: find_Some_iff entry_matches_def)
    then show "0 < length (filter ?P ?es)" by (auto simp: filter_empty_conv)
  qed
  ultimately show ?thesis by blast
qed

text \<open>
  \<open>CREATE DATABASE\<close> with the \<open>FILE_COPY\<close> strategy (in any case of letters) is refused, with nothing changed, exactly
  if some relation of the template database has a key; otherwise exactly the next hook runs.
\<close>

lemma file_copy_refused:
  assumes "pg_strcasecmp_eq (bytes_of strategy) (bytes_of ''file_copy'')" and "get_db_info tmpl rounds = Some (Some (db, spc))"
    and "def_string ''strategy'' opts = Some strategy" "def_string ''template'' opts = Some tmpl"
    and "smgr_usable (disk w (open_pg_tde_set_db_file_path ev db))"
  shows "open_pg_tde_proccess_utility ev rounds (CreatedbStmt opts) next w =
     (if \<exists>rel. dbOid rel = db \<and> rel_entry ev rel w \<noteq> None then (Inl (E_state ''The FILE_COPY strategy cannot be used''), w) else next w)"
  using count_usable [OF assms(5), of 0] assms(1-4)
  by (auto simp: open_pg_tde_proccess_utility_def check_no_keys_def runM InvalidOid_def)

lemma file_copy_refused_witness:
  "\<exists>w. open_pg_tde_proccess_utility demo_env [(Some 5, Some (''tpl'', 1663))]
       (CreatedbStmt [(''template'', ''tpl''), (''strategy'', ''FILE_COPY'')]) (ret ()) w
     = (Inl (E_state ''The FILE_COPY strategy cannot be used''), w)"
proof -
  obtain f e where f: "good_file f" "map_entries f = [e]" "find (entry_matches demo_rel) [e] = Some e" using demo_file by blast
  let ?w = "demo_world\<lparr>disk := [open_pg_tde_set_db_file_path demo_env 5 \<mapsto> f]\<rparr>"
  have "rel_entry demo_env demo_rel ?w \<noteq> None" using f by (simp add: rel_entry_def entries_of_def)
  then have k: "\<exists>rel. dbOid rel = 5 \<and> rel_entry demo_env rel ?w \<noteq> None" using demo_rel_simps(1) by blast
  have "pg_strcasecmp_eq (bytes_of ''FILE_COPY'') (bytes_of ''file_copy'')"
    by (simp add: pg_strcasecmp_eq_def bytes_of_def cstr_def to_lower_def)
  from file_copy_refused [OF this, of "''tpl''" "[(Some 5, Some (''tpl'', 1663))]" 5 1663
      "[(''template'', ''tpl''), (''strategy'', ''FILE_COPY'')]" ?w demo_env "ret ()"] f(1) k
  show ?thesis by (intro exI [of _ ?w]) (simp add: def_string_def usable_file_def)
qed

end
