(* ===== verification/Tde_Providers.thy ===== *)
theory Tde_Providers
  imports Tde_Principal
begin

text \<open>
  Changing the set of key providers (\<open>catalog/tde_keyring.c\<close>): adding, modifying and deleting
  the records of a provider info file, with their checks against the principal keys in use,
  and the SQL functions above them.
\<close>

section \<open>Records\<close>

definition check_provider_record :: "env \<Rightarrow> KeyringProviderRecord \<Rightarrow> unit tdeM" where
  "check_provider_record ev provider_record =
     seqM (check (provider_type provider_record \<noteq> UNKNOWN_KEY_PROVIDER) E_provider_type)
     (bindM (load_keyring_provider_from_record ev provider_record) (\<lambda>provider.
      seqM (KeyringValidate ev provider)
      (whenM (keyring_id provider \<noteq> 0) (open_pg_tde_verify_provider_keys_in_use ev provider))))"

text \<open>\<open>abs\<close> on a C \<open>int\<close>; \<open>abs(INT_MIN)\<close> is \<open>INT_MIN\<close> again with wrap-around.\<close>

definition int32_abs :: "u32 \<Rightarrow> u32" where
  "int32_abs i = (if sint i < 0 then - i else i)"

definition PG_INT32_MAX :: int where "PG_INT32_MAX = 2147483647"

text \<open>The loop of \<open>save_new_key_provider_info\<close>: the largest absolute id, unless the name is taken.\<close>

fun scan_for_new :: "bytes \<Rightarrow> KeyringProviderRecord list \<Rightarrow> int \<Rightarrow> tde_error + int" where
  "scan_for_new n [] max_provider_id = Inr max_provider_id"
| "scan_for_new n (existing_provider # ps) max_provider_id =
     (let m = max max_provider_id (sint (int32_abs (provider_id existing_provider))) in
      if provider_type existing_provider = UNKNOWN_KEY_PROVIDER then scan_for_new n ps m
      else if strcmp_eq (provider_name existing_provider) n then Inl E_provider_exists
      else scan_for_new n ps m)"

definition save_new_key_provider_info :: "env \<Rightarrow> KeyringProviderRecord \<Rightarrow> Oid \<Rightarrow> unit tdeM" where
  "save_new_key_provider_info ev p db =
     seqM (check_provider_record ev p)
     (bindM (open_keyring_infofile ev db True) (\<lambda>path.
      bindM (getM (\<lambda>w. fetch_all (file_bytes w path) 0)) (\<lambda>(ps, r).
      bindM (liftM (scan_for_new (provider_name p) (map snd ps) 0)) (\<lambda>max_provider_id.
      bindM (liftM r) (\<lambda>next_file_offset.
      seqM (check (max_provider_id \<noteq> PG_INT32_MAX) E_provider_id)
      (let new_provider_id = word_of_int (max_provider_id + 1) :: u32;
           p' = p\<lparr>provider_id := if db = GLOBAL_DATA_TDE_OID then - new_provider_id else new_provider_id\<rparr>
       in write_key_provider_info ev \<lparr>database_id = db, offset_in_file = next_file_offset, provider = p'\<rparr> True))))))"

definition modify_key_provider_info :: "env \<Rightarrow> KeyringProviderRecord \<Rightarrow> Oid \<Rightarrow> unit tdeM" where
  "modify_key_provider_info ev p db =
     seqM (check_provider_record ev p)
     (bindM (get_keyring_info_file_record_by_name ev (provider_name p) db) (\<lambda>record.
      case record of
        None \<Rightarrow> throw E_provider_not_found
      | Some r \<Rightarrow>
          seqM (check (provider_id p = provider_id (provider r)) E_provider_id)
          (write_key_provider_info ev (r\<lparr>provider := p\<rparr>) True)))"

definition deleted_record :: "u32 \<Rightarrow> KeyringProviderRecord" where
  "deleted_record i = \<lparr>provider_id = i, provider_name = zeros 128, options = zeros 1024, provider_type = UNKNOWN_KEY_PROVIDER\<rparr>"

definition delete_key_provider_info :: "env \<Rightarrow> bytes \<Rightarrow> Oid \<Rightarrow> unit tdeM" where
  "delete_key_provider_info ev n db =
     bindM (get_keyring_info_file_record_by_name ev n db) (\<lambda>record.
     case record of
       None \<Rightarrow> throw E_provider_not_found
     | Some r \<Rightarrow> write_key_provider_info ev (r\<lparr>provider := deleted_record (provider_id (provider r))\<rparr>) True)"

section \<open>SQL functions\<close>

definition required_text_argument :: "bytes option \<Rightarrow> bytes tdeM" where
  "required_text_argument arg = (case arg of None \<Rightarrow> throw E_null_argument | Some a \<Rightarrow> ret a)"

definition PROVIDER_NAME_SIZE :: nat where "PROVIDER_NAME_SIZE = 128"
definition PROVIDER_OPTIONS_SIZE :: nat where "PROVIDER_OPTIONS_SIZE = 1024"

definition make_record :: "u32 \<Rightarrow> bytes \<Rightarrow> bytes \<Rightarrow> bytes \<Rightarrow> KeyringProviderRecord" where
  "make_record i n opts t = \<lparr>provider_id = i, provider_name = fit PROVIDER_NAME_SIZE (cstr n),
     options = fit PROVIDER_OPTIONS_SIZE (cstr opts), provider_type = get_keyring_provider_from_typename t\<rparr>"

definition open_pg_tde_change_key_provider_internal :: "env \<Rightarrow> Oid \<Rightarrow> bytes option \<Rightarrow> bytes option \<Rightarrow> bytes option \<Rightarrow> unit tdeM" where
  "open_pg_tde_change_key_provider_internal ev db a0 a1 a2 =
     seqM (check (superuser ev) E_privilege)
     (bindM (required_text_argument a0) (\<lambda>type_name.
      bindM (required_text_argument a1) (\<lambda>n.
      bindM (required_text_argument a2) (\<lambda>opts.
      bindM (GetKeyProviderByName ev n db) (\<lambda>keyring.
      seqM (check (\<not> length (cstr opts) \<ge> PROVIDER_OPTIONS_SIZE) E_options_too_long)
      (modify_key_provider_info ev (make_record (keyring_id keyring) n opts type_name) db))))))"

definition open_pg_tde_change_database_key_provider :: "env \<Rightarrow> bytes option \<Rightarrow> bytes option \<Rightarrow> bytes option \<Rightarrow> unit tdeM" where
  "open_pg_tde_change_database_key_provider ev = open_pg_tde_change_key_provider_internal ev (MyDatabaseId ev)"

definition open_pg_tde_change_global_key_provider :: "env \<Rightarrow> bytes option \<Rightarrow> bytes option \<Rightarrow> bytes option \<Rightarrow> unit tdeM" where
  "open_pg_tde_change_global_key_provider ev = open_pg_tde_change_key_provider_internal ev GLOBAL_DATA_TDE_OID"

definition open_pg_tde_add_key_provider_internal :: "env \<Rightarrow> Oid \<Rightarrow> bytes option \<Rightarrow> bytes option \<Rightarrow> bytes option \<Rightarrow> unit tdeM" where
  "open_pg_tde_add_key_provider_internal ev db a0 a1 a2 =
     seqM (check (superuser ev) E_privilege)
     (bindM (required_text_argument a0) (\<lambda>type_name.
      bindM (required_text_argument a1) (\<lambda>n.
      bindM (required_text_argument a2) (\<lambda>opts.
      seqM (check (length (cstr n) \<noteq> 0) E_name_too_short)
      (seqM (check (\<not> length (cstr n) \<ge> PROVIDER_NAME_SIZE - 1) E_name_too_long)
      (seqM (check (\<not> length (cstr opts) \<ge> PROVIDER_OPTIONS_SIZE) E_options_too_long)
      (save_new_key_provider_info ev (make_record 0 n opts type_name) db)))))))"

definition open_pg_tde_add_database_key_provider :: "env \<Rightarrow> bytes option \<Rightarrow> bytes option \<Rightarrow> bytes option \<Rightarrow> unit tdeM" where
  "open_pg_tde_add_database_key_provider ev = open_pg_tde_add_key_provider_internal ev (MyDatabaseId ev)"

definition open_pg_tde_add_global_key_provider :: "env \<Rightarrow> bytes option \<Rightarrow> bytes option \<Rightarrow> bytes option \<Rightarrow> unit tdeM" where
  "open_pg_tde_add_global_key_provider ev = open_pg_tde_add_key_provider_internal ev GLOBAL_DATA_TDE_OID"

definition open_pg_tde_delete_key_provider_internal :: "env \<Rightarrow> Oid \<Rightarrow> bytes option \<Rightarrow> unit tdeM" where
  "open_pg_tde_delete_key_provider_internal ev db a0 =
     seqM (check (superuser ev) E_privilege)
     (bindM (required_text_argument a0) (\<lambda>n.
      bindM (GetKeyProviderByName ev n db) (\<lambda>p.
      bindM (open_pg_tde_is_provider_used ev db (keyring_id p)) (\<lambda>provider_used.
      seqM (check (\<not> provider_used) E_in_use)
      (delete_key_provider_info ev n db)))))"

definition open_pg_tde_delete_database_key_provider :: "env \<Rightarrow> bytes option \<Rightarrow> unit tdeM" where
  "open_pg_tde_delete_database_key_provider ev = open_pg_tde_delete_key_provider_internal ev (MyDatabaseId ev)"

definition open_pg_tde_delete_global_key_provider :: "env \<Rightarrow> bytes option \<Rightarrow> unit tdeM" where
  "open_pg_tde_delete_global_key_provider ev = open_pg_tde_delete_key_provider_internal ev GLOBAL_DATA_TDE_OID"

text \<open>The rows of the listing functions: id, name, type name, options.\<close>

definition open_pg_tde_list_all_key_providers_internal ::
  "env \<Rightarrow> Oid \<Rightarrow> (int \<times> bytes \<times> string option \<times> bytes) list tdeM" where
  "open_pg_tde_list_all_key_providers_internal ev db =
     bindM (GetAllKeyringProviders ev db) (\<lambda>all_providers.
     ret (map (\<lambda>k. (sint (keyring_id k), cstr (gk_provider_name k), get_keyring_provider_typename (gk_type k), cstr (gk_options k)))
       all_providers))"

definition open_pg_tde_list_all_database_key_providers :: "env \<Rightarrow> (int \<times> bytes \<times> string option \<times> bytes) list tdeM" where
  "open_pg_tde_list_all_database_key_providers ev = open_pg_tde_list_all_key_providers_internal ev (MyDatabaseId ev)"

definition open_pg_tde_list_all_global_key_providers :: "env \<Rightarrow> (int \<times> bytes \<times> string option \<times> bytes) list tdeM" where
  "open_pg_tde_list_all_global_key_providers ev = open_pg_tde_list_all_key_providers_internal ev GLOBAL_DATA_TDE_OID"

end
