(* ===== verification/Tde_Providers_Ops.thy ===== *)
theory Tde_Providers_Ops
  imports Tde_Providers Tde_Principal_Ops
begin

text \<open>
  The set of key providers of a database: new providers get a number that no provider, present or deleted, ever had, and
  names stay unique; a deleted provider keeps its number; who may change providers.
\<close>

section \<open>New providers\<close>

definition name_taken :: "bytes \<Rightarrow> KeyringProviderRecord list \<Rightarrow> bool" where
  "name_taken n ps \<longleftrightarrow> (\<exists>q\<in>set ps. provider_type q \<noteq> UNKNOWN_KEY_PROVIDER \<and> strcmp_eq (provider_name q) n)"

definition max_id :: "KeyringProviderRecord list \<Rightarrow> int \<Rightarrow> int" where
  "max_id ps m = foldl (\<lambda>m q. max m (sint (int32_abs (provider_id q)))) m ps"

lemma scan_for_new_eq:
  "scan_for_new n ps m = (if name_taken n ps then Inl E_provider_exists else Inr (max_id ps m))"
  by (induction ps arbitrary: m) (auto simp: name_taken_def max_id_def Let_def)

lemma max_id_bounds:
  "m \<le> max_id ps m" "q \<in> set ps \<Longrightarrow> sint (int32_abs (provider_id q)) \<le> max_id ps m"
proof (induction ps arbitrary: m)
  case (Cons a ps)
  case 1
  show ?case using Cons.IH(1) [of "max m (sint (int32_abs (provider_id a)))"] by (simp add: max_id_def)
  case 2
  then show ?case
    using Cons.IH(1) [of "max m (sint (int32_abs (provider_id a)))"] Cons.IH(2) [of "max m (sint (int32_abs (provider_id a)))"]
    by (auto simp: max_id_def)
qed (simp_all add: max_id_def)

lemma sint32_less: "sint (x :: u32) < 2147483648"
  using sint_lt [of x] by simp

lemma max_id_le: "m \<le> PG_INT32_MAX \<Longrightarrow> max_id ps m \<le> PG_INT32_MAX"
proof (induction ps arbitrary: m)
  case (Cons q ps)
  have "sint (int32_abs (provider_id q)) \<le> PG_INT32_MAX" using sint32_less [of "int32_abs (provider_id q)"] by (simp add: PG_INT32_MAX_def)
  then show ?case using Cons.IH [of "max m (sint (int32_abs (provider_id q)))"] Cons.prems by (simp add: max_id_def)
qed (simp add: max_id_def)

lemma sint_of_int32: "- 2147483648 \<le> k \<Longrightarrow> k < 2147483648 \<Longrightarrow> sint (word_of_int k :: u32) = k"
  by (simp add: sint_sbintrunc' signed_take_bit_int_eq_self)

text \<open>A number above all absolute values is new, with either sign.\<close>

lemma fresh_number:
  assumes m: "0 \<le> m" "m < PG_INT32_MAX"
  shows "sint (int32_abs j) \<le> m \<Longrightarrow> i = word_of_int (m + 1) \<or> i = - word_of_int (m + 1) \<Longrightarrow> j \<noteq> i"
    and "sint (word_of_int (m + 1) :: u32) = m + 1" "sint (- word_of_int (m + 1) :: u32) = - (m + 1)"
proof -
  let ?n = "word_of_int (m + 1) :: u32"
  have "(- ?n) = word_of_int (- (m + 1))" by (simp only: of_int_minus)
  then show n: "sint ?n = m + 1" and nn: "sint (- ?n) = - (m + 1)"
    using m sint_of_int32 [of "m + 1"] sint_of_int32 [of "- (m + 1)"] by (simp_all add: PG_INT32_MAX_def del: of_int_add of_int_minus)
  show "j \<noteq> i" if "sint (int32_abs j) \<le> m" "i = ?n \<or> i = - ?n"
  proof
    assume "j = i"
    moreover have "sint (int32_abs i) = m + 1" using m that(2) n nn by (auto simp: int32_abs_def simp del: of_int_add)
    ultimately show False using that(1) by simp
  qed
qed

lemma fresh_sign:
  fixes db :: Oid
  assumes "max_id ps 0 \<noteq> PG_INT32_MAX"
  defines "i \<equiv> (if db = GLOBAL_DATA_TDE_OID then - word_of_int (max_id ps 0 + 1) else word_of_int (max_id ps 0 + 1) :: u32)"
  shows "(\<forall>q\<in>set ps. provider_id q \<noteq> i \<and> provider_id q \<noteq> - i) \<and> (sint i < 0 \<longleftrightarrow> db = GLOBAL_DATA_TDE_OID) \<and> i \<noteq> 0"
proof -
  let ?m = "max_id ps 0"
  have m: "0 \<le> ?m" "?m < PG_INT32_MAX" using max_id_bounds(1) [of 0 ps] max_id_le [of 0 ps] assms(1) by (auto simp: PG_INT32_MAX_def)
  have "provider_id q \<noteq> i \<and> provider_id q \<noteq> - i" if "q \<in> set ps" for q
    using fresh_number(1) [OF m max_id_bounds(2) [OF that]] unfolding i_def by (auto simp del: of_int_add)
  moreover have "sint (word_of_int (?m + 1) :: u32) = ?m + 1" "sint (- word_of_int (?m + 1) :: u32) = - (?m + 1)"
    using fresh_number(2,3) [OF m] by simp_all
  ultimately show ?thesis using m(1) unfolding i_def by (auto simp del: of_int_add)
qed

text \<open>
  Adding a provider: if a provider that was not deleted has the name, the call raises an error; if numbers are used up, likewise.
  Otherwise one record is appended to the file, with the given name, type and options and a number that, with
  either sign, no record of the file has, not even a deleted one; the number is negative exactly for a global provider.
  A failed call leaves the records as they were.
\<close>

lemma new_provider_number_fresh:
  assumes "check_provider_record ev p w0 = (Inr (), w)" and "io w = []" and "wf_prov p"
    and "ps = providers_in (file_bytes w (get_keyring_infofile_path ev db))" and "length (file_bytes w (get_keyring_infofile_path ev db)) mod PROVIDER_SIZE = 0"
  shows "let (r, w') = save_new_key_provider_info ev p db w0; ps' = providers_in (file_bytes w' (get_keyring_infofile_path ev db)) in
     if name_taken (provider_name p) ps then r = Inl E_provider_exists \<and> ps' = ps
     else if max_id ps 0 = PG_INT32_MAX then r = Inl E_provider_id \<and> ps' = ps
     else r = Inr () \<and> (\<exists>i. ps' = ps @ [p\<lparr>provider_id := i\<rparr>] \<and> (\<forall>q\<in>set ps. provider_id q \<noteq> i \<and> provider_id q \<noteq> - i) \<and>
        (sint i < 0 \<longleftrightarrow> db = GLOBAL_DATA_TDE_OID) \<and> i \<noteq> 0)"
proof -
  let ?p = "get_keyring_infofile_path ev db" and ?m = "max_id ps 0"
  define f where "f = file_bytes w ?p"
  have f: "length f mod PROVIDER_SIZE = 0" "providers_in f = ps" using assms(4,5) by (simp_all add: f_def)
  define w1 where "w1 = set_file ?p f w"
  have o: "open_keyring_infofile ev db True w = (Inr ?p, w1)"
    by (cases "disk w ?p") (auto simp: open_keyring_infofile_def runM Let_def w1_def f_def file_bytes_def set_file_same)
  have w1: "file_bytes w1 ?p = f" "io w1 = []" "disk w1 ?p = Some f" using assms(2) by (simp_all add: w1_def set_file_simps file_bytes_def)
  define i :: u32 where "i = (if db = GLOBAL_DATA_TDE_OID then - word_of_int (?m + 1) else word_of_int (?m + 1))"
  have run: "save_new_key_provider_info ev p db w0 =
     (if name_taken (provider_name p) ps then (Inl E_provider_exists, w1)
      else if ?m = PG_INT32_MAX then (Inl E_provider_id, w1)
      else write_key_provider_info ev \<lparr>database_id = db, offset_in_file = length f, provider = p\<lparr>provider_id := i\<rparr>\<rparr> True w1)"
    using assms(1) o w1(1) f
    by (auto simp: save_new_key_provider_info_def runM fetch_all_good scan_for_new_eq i_def Let_def map_snd_at_offsets)
  have wr: "\<exists>w'. write_key_provider_info ev \<lparr>database_id = db, offset_in_file = length f, provider = p\<lparr>provider_id := i\<rparr>\<rparr> True w1
       = (Inr (), w') \<and> file_bytes w' ?p = f @ enc_prov (p\<lparr>provider_id := i\<rparr>)"
    using w1 by (simp add: write_key_provider_info_def runM XLogInsert_def Let_def file_bytes_def set_file_simps pwrite_at_end write_at_ok fsync_ok)
  have wf: "wf_prov (p\<lparr>provider_id := i\<rparr>)" using assms(3) by (simp add: wf_prov_def)
  have fresh: "(\<forall>q\<in>set ps. provider_id q \<noteq> i \<and> provider_id q \<noteq> - i) \<and> (sint i < 0 \<longleftrightarrow> db = GLOBAL_DATA_TDE_OID) \<and> i \<noteq> 0"
    if "?m \<noteq> PG_INT32_MAX" using fresh_sign [OF that] unfolding i_def by blast
  show ?thesis
    using run wr fresh f(2) w1(1) prov.recs_snoc [OF wf f(1)] by (auto simp: Let_def split: prod.splits)
qed

text \<open>A provider for the concrete keyring, beside the one that is there.\<close>

definition demo_prov2 :: KeyringProviderRecord where
  "demo_prov2 = demo_prov\<lparr>provider_id := 0, provider_name := fit 128 [119]\<rparr>"

lemma demo_check_record: "disk w ''r'' = Some b \<Longrightarrow> check_provider_record demo_env demo_prov2 w = (Inr (), w)"
  using demo_load [of demo_prov2 w]
  by (auto simp: check_provider_record_def runM demo_prov2_def demo_prov_def provider_types KeyringValidate_def find_key_provider_type_def
      registeredKeyProviderTypes_def keyringFileRoutine_def file_validate_def demo_ring_path)

lemma new_provider_number_fresh_witness:
  "\<exists>w'. save_new_key_provider_info demo_env demo_prov2 5 (demo_world\<lparr>disk := demo_disk []\<rparr>) = (Inr (), w') \<and>
     (\<exists>i. providers_in (file_bytes w' ''pg_tde/5_providers'') = [demo_prov, demo_prov2\<lparr>provider_id := i\<rparr>] \<and> i \<noteq> 1 \<and> i \<noteq> 0)"
proof -
  let ?w = "demo_world\<lparr>disk := demo_disk []\<rparr>"
  have wf: "wf_prov demo_prov" "wf_prov demo_prov2" by (simp_all add: wf_prov_def demo_prov_def demo_prov2_def)
  have b: "file_bytes ?w (get_keyring_infofile_path demo_env 5) = enc_prov demo_prov" by (simp add: file_bytes_def demo_disk_def)
  have ps: "[demo_prov] = providers_in (enc_prov demo_prov)"
    using prov.recs_snoc [OF wf(1), of "[]"] by (simp add: recs_end prov.sz_pos)
  have c: "check_provider_record demo_env demo_prov2 ?w = (Inr (), ?w)" by (rule demo_check_record) (simp add: demo_disk_def)
  have nt: "\<not> name_taken (provider_name demo_prov2) [demo_prov]" "max_id [demo_prov] 0 = 1"
    using cstr_fit_1 [of 118 128] cstr_fit_1 [of 119 128]
    by (simp_all add: name_taken_def demo_prov_def demo_prov2_def strcmp_eq_def max_id_def int32_abs_def)
  have "io ?w = []" by simp
  note fresh = new_provider_number_fresh [OF c this wf(2), of "[demo_prov]" 5, unfolded b, OF ps]
  obtain r w' where s: "save_new_key_provider_info demo_env demo_prov2 5 ?w = (r, w')" by fastforce
  then obtain i where "r = Inr ()" "providers_in (file_bytes w' ''pg_tde/5_providers'') = [demo_prov] @ [demo_prov2\<lparr>provider_id := i\<rparr>]"
      "provider_id demo_prov \<noteq> i" "i \<noteq> 0"
    using fresh nt prov.enc_length [OF wf(1)] by (auto simp: PG_INT32_MAX_def)
  with s show ?thesis by (auto simp: demo_prov_def)
qed

section \<open>Deleting providers\<close>

text \<open>
  C36. The check that a provider is not in use looks the provider up without regard to case, the deletion itself with: if
  two providers' names differ in case only, deleting the second, which holds the principal key in use, checks
  the first, and succeeds. The principal key then refers to a provider that does not exist any more.
\<close>

theorem delete_checks_wrong_provider:
  assumes "superuser ev" "\<not> FRONTEND ev" "io w = []"
    and f: "disk w (get_keyring_infofile_path ev db) = Some f" "length f mod PROVIDER_SIZE = 0" "providers_in f = [p, q]"
    and live: "provider_type p \<noteq> UNKNOWN_KEY_PROVIDER" "provider_type q \<noteq> UNKNOWN_KEY_PROVIDER"
    and names: "pg_strcasecmp_eq (provider_name p) n" "\<not> strcmp_eq (provider_name p) n" "strcmp_eq (provider_name q) n"
    and loads: "load_keyring_provider_from_record ev p w = (Inr kp, w)" "keyring_id kp = provider_id p" "load_keyring_provider_from_record ev q w = (Inr kq, w)"
    and use: "pk_cache w db = Some pk" "keyringId (keyInfo pk) = provider_id q" "provider_id p \<noteq> provider_id q"
    and db: "db \<noteq> GLOBAL_DATA_TDE_OID" "db \<noteq> DEFAULT_DATA_TDE_OID"
  shows "\<exists>w'. open_pg_tde_delete_key_provider_internal ev db (Some n) w = (Inr (), w') \<and> pk_cache w' db = Some pk \<and>
     providers_in (file_bytes w' (get_keyring_infofile_path ev db)) = [p, deleted_record (provider_id q)]"
proof -
  let ?path = "get_keyring_infofile_path ev db" and ?d = "deleted_record (provider_id q)"
  let ?r = "\<lparr>database_id = db, offset_in_file = PROVIDER_SIZE, provider = q\<rparr>"
  have "GetKeyProviderByName ev n db w = (Inr kp, w)"
    using scan_good [OF f(1,2), of "PROVIDER_SCAN_BY_NAME n"] live names(1,3) loads strcmp_casecmp
    by (simp add: GetKeyProviderByName_def runM f(3) scan_match_def)
  moreover have "open_pg_tde_is_provider_used ev db (keyring_id kp) w = (Inr False, w)"
    using db use loads(2) get_cached assms(2) by (simp add: open_pg_tde_is_provider_used_def runM key_uses_def)
  moreover have "get_keyring_info_file_record_by_name ev n db w = (Inr (Some ?r), w)"
    using f live names by (simp add: get_keyring_info_file_record_by_name_def open_keyring_infofile_def runM Let_def file_bytes_def fetch_all_good)
  moreover have "wf_prov ?d" by (simp add: wf_prov_def deleted_record_def)
  then have "providers_in (pwrite f (enc_prov ?d) PROVIDER_SIZE) = [p, ?d]"
    using prov.recs_pwrite_replace [of ?d 1 f 0] f(3) by simp
  ultimately show ?thesis
    using assms(1-3) f(1) use(1)
    by (simp add: open_pg_tde_delete_key_provider_internal_def required_text_argument_def delete_key_provider_info_def write_key_provider_info_def runM Let_def
        XLogInsert_def write_at_ok fsync_ok set_file_simps file_bytes_def)
qed

theorem delete_checks_wrong_provider_witness:
  "\<exists>w w'. providers_in (file_bytes w ''pg_tde/5_providers'') = [demo_prov\<lparr>provider_name := fit 128 [86]\<rparr>, demo_prov\<lparr>provider_id := 2\<rparr>] \<and>
     open_pg_tde_delete_key_provider_internal demo_env 5 (Some [118]) w = (Inr (), w') \<and>
     providers_in (file_bytes w' ''pg_tde/5_providers'') = [demo_prov\<lparr>provider_name := fit 128 [86]\<rparr>, deleted_record 2] \<and>
     keyringId (keyInfo (the (pk_cache w' 5))) = 2"
proof -
  let ?p = "demo_prov\<lparr>provider_name := fit 128 [86]\<rparr>" and ?q = "demo_prov\<lparr>provider_id := 2\<rparr>"
  let ?pk = "demo_pk\<lparr>keyInfo := (keyInfo demo_pk)\<lparr>keyringId := 2\<rparr>\<rparr>"
  let ?f = "([] @ enc_prov ?p) @ enc_prov ?q"
  let ?w = "demo_world\<lparr>disk := [''pg_tde/5_providers'' \<mapsto> ?f], pk_cache := [5 \<mapsto> ?pk]\<rparr>"
  have wf: "wf_prov ?p" "wf_prov ?q" by (simp_all add: wf_prov_def demo_prov_def)
  have len: "length (enc_prov ?p) = PROVIDER_SIZE" "length ?f mod PROVIDER_SIZE = 0"
    using prov.enc_length [OF wf(1)] prov.enc_length [OF wf(2)] by simp_all
  have ps: "providers_in ?f = [?p, ?q]"
    using prov.recs_snoc [OF wf(2), of "[] @ enc_prov ?p"] prov.recs_snoc [OF wf(1), of "[]"] len by (simp add: recs_end prov.sz_pos)
  obtain kp kq where l: "load_keyring_provider_from_record demo_env ?p ?w = (Inr kp, ?w)" "keyring_id kp = provider_id ?p"
      "load_keyring_provider_from_record demo_env ?q ?w = (Inr kq, ?w)"
    using demo_load [of ?p ?w] demo_load [of ?q ?w] by (auto simp: demo_prov_def)
  have n: "pg_strcasecmp_eq (provider_name ?p) [118]" "\<not> strcmp_eq (provider_name ?p) [118]" "strcmp_eq (provider_name ?q) [118]"
    using cstr_fit_1 [of 86 128] cstr_fit_1 [of 118 128]
    by (simp_all add: pg_strcasecmp_eq_def strcmp_eq_def to_lower_def demo_prov_def cstr_def [of "[118]"])
  have su: "superuser demo_env" by (simp add: demo_env_def)
  have "\<exists>w'. open_pg_tde_delete_key_provider_internal demo_env 5 (Some [118]) ?w = (Inr (), w') \<and> pk_cache w' 5 = Some ?pk \<and>
     providers_in (file_bytes w' (get_keyring_infofile_path demo_env 5)) = [?p, deleted_record (provider_id ?q)]"
    by (rule delete_checks_wrong_provider [OF su demo_not_frontend _ _ len(2) ps _ _ n l])
      (simp_all add: demo_prov_def provider_types GLOBAL_DATA_TDE_OID_def DEFAULT_DATA_TDE_OID_def)
  then obtain w' where "open_pg_tde_delete_key_provider_internal demo_env 5 (Some [118]) ?w = (Inr (), w')" "pk_cache w' 5 = Some ?pk"
     "providers_in (file_bytes w' (get_keyring_infofile_path demo_env 5)) = [?p, deleted_record (provider_id ?q)]" by blast
  with ps show ?thesis by (intro exI [of _ ?w] exI [of _ w']) (simp add: file_bytes_def)
qed

end
