(* ===== verification/Tde_Redo.thy ===== *)
theory Tde_Redo
  imports Tde_Smgr Tde_WalSmgr
begin

text \<open>
  The resource manager of the extension's WAL records (\<open>access/open_pg_tde_xlog.c\<close>) and the parts of the
  main file (\<open>open_pg_tde.c\<close>) that change state: installing the extension, the file that says which
  versions the key files have, and start-up. A record is an info byte and the bytes of a C struct;
  \<open>xlog_record\<close> is what \<open>XLogInsert\<close> is given for each of the records the components log.
\<close>

section \<open>Records\<close>

definition XLOG_TDE_CREATE_RELATION_KEY :: byte where "XLOG_TDE_CREATE_RELATION_KEY = 0x00"
definition XLOG_TDE_ADD_PRINCIPAL_KEY :: byte where "XLOG_TDE_ADD_PRINCIPAL_KEY = 0x10"
definition XLOG_TDE_ROTATE_PRINCIPAL_KEY :: byte where "XLOG_TDE_ROTATE_PRINCIPAL_KEY = 0x20"
definition XLOG_TDE_WRITE_KEY_PROVIDER :: byte where "XLOG_TDE_WRITE_KEY_PROVIDER = 0x30"
definition XLOG_TDE_INSTALL_EXTENSION :: byte where "XLOG_TDE_INSTALL_EXTENSION = 0x40"
definition XLOG_TDE_DELETE_RELATION_KEY :: byte where "XLOG_TDE_DELETE_RELATION_KEY = 0x50"
definition XLOG_TDE_DELETE_PRINCIPAL_KEY :: byte where "XLOG_TDE_DELETE_PRINCIPAL_KEY = 0x60"

lemmas xlog_ops = XLOG_TDE_CREATE_RELATION_KEY_def XLOG_TDE_ADD_PRINCIPAL_KEY_def
  XLOG_TDE_ROTATE_PRINCIPAL_KEY_def XLOG_TDE_WRITE_KEY_PROVIDER_def XLOG_TDE_INSTALL_EXTENSION_def
  XLOG_TDE_DELETE_RELATION_KEY_def XLOG_TDE_DELETE_PRINCIPAL_KEY_def

definition XLR_INFO_MASK :: byte where "XLR_INFO_MASK = 0x0F"

text \<open>The low bits of the info byte belong to the server.\<close>

definition op_of_info :: "byte \<Rightarrow> byte" where
  "op_of_info info = and info (not XLR_INFO_MASK)"

definition enc_rlocator :: "RelFileLocator \<Rightarrow> bytes" where
  "enc_rlocator r = le32 (spcOid r) @ le32 (dbOid r) @ le32 (relNumber r)"

definition dec_rlocator :: "bytes \<Rightarrow> RelFileLocator" where
  "dec_rlocator b = \<lparr>spcOid = un32 (slice 0 4 b), dbOid = un32 (slice 4 4 b), relNumber = un32 (slice 8 4 b)\<rparr>"

definition enc_rotate :: "Oid \<Rightarrow> Oid \<Rightarrow> bytes \<Rightarrow> bytes" where
  "enc_rotate db kr_id key_name = le32 db @ le32 kr_id @ key_name"

definition enc_prov_in_file :: "KeyringProviderRecordInFile \<Rightarrow> bytes" where
  "enc_prov_in_file r = le32 (database_id r) @ zeros 4 @ le64 (of_nat (offset_in_file r)) @ enc_prov (provider r)"

definition dec_prov_in_file :: "bytes \<Rightarrow> KeyringProviderRecordInFile" where
  "dec_prov_in_file b = \<lparr>database_id = un32 (slice 0 4 b), offset_in_file = unat (un64 (slice 8 8 b)),
     provider = dec_prov (slice 16 PROVIDER_SIZE b)\<rparr>"

fun xlog_record :: "xlog_rec \<Rightarrow> byte \<times> bytes" where
  "xlog_record (XlCreateRelationKey r) = (XLOG_TDE_CREATE_RELATION_KEY, enc_rlocator r)"
| "xlog_record (XlAddPrincipalKey ski) = (XLOG_TDE_ADD_PRINCIPAL_KEY, enc_ski ski)"
| "xlog_record (XlRotatePrincipalKey db k n) = (XLOG_TDE_ROTATE_PRINCIPAL_KEY, enc_rotate db k n)"
| "xlog_record (XlWriteKeyProvider r) = (XLOG_TDE_WRITE_KEY_PROVIDER, enc_prov_in_file r)"
| "xlog_record (XlInstallExtension db) = (XLOG_TDE_INSTALL_EXTENSION, le32 db)"
| "xlog_record (XlDeleteRelationKey r) = (XLOG_TDE_DELETE_RELATION_KEY, enc_rlocator r)"
| "xlog_record (XlDeletePrincipalKey db) = (XLOG_TDE_DELETE_PRINCIPAL_KEY, le32 db)"

section \<open>Installing the extension\<close>

definition extension_install :: "env \<Rightarrow> Oid \<Rightarrow> unit tdeM" where
  "extension_install ev db = seqM (key_provider_startup_cleanup ev db) (principal_key_startup_cleanup ev db)"

definition open_pg_tde_extension_initialize :: "env \<Rightarrow> unit tdeM" where
  "open_pg_tde_extension_initialize ev =
     seqM (extension_install ev (MyDatabaseId ev)) (XLogInsert (XlInstallExtension (MyDatabaseId ev)))"

definition extension_install_redo :: "env \<Rightarrow> Oid \<Rightarrow> unit tdeM" where
  "extension_install_redo ev db = extension_install ev db"

section \<open>Redo\<close>

definition tdeheap_rmgr_redo :: "env \<Rightarrow> byte \<Rightarrow> bytes \<Rightarrow> unit tdeM" where
  "tdeheap_rmgr_redo ev xl_info d =
     (let info = op_of_info xl_info in
      if info = XLOG_TDE_CREATE_RELATION_KEY then tde_smgr_create_key_redo ev (dec_rlocator d)
      else if info = XLOG_TDE_ADD_PRINCIPAL_KEY then
        (let mkey = dec_ski d in
         if databaseId (ski_data mkey) = GLOBAL_DATA_TDE_OID then open_pg_tde_save_server_key_redo ev mkey
         else open_pg_tde_save_principal_key_redo ev mkey)
      else if info = XLOG_TDE_DELETE_RELATION_KEY then tde_smgr_delete_leftover_key_redo ev (dec_rlocator d)
      else if info = XLOG_TDE_ROTATE_PRINCIPAL_KEY then
        xl_tde_perform_rotate_key ev (un32 (slice 0 4 d)) (un32 (slice 4 4 d)) (slice 8 256 d)
      else if info = XLOG_TDE_DELETE_PRINCIPAL_KEY then open_pg_tde_delete_principal_key_redo ev (un32 (slice 0 4 d))
      else if info = XLOG_TDE_WRITE_KEY_PROVIDER then redo_key_provider_info ev (dec_prov_in_file d)
      else if info = XLOG_TDE_INSTALL_EXTENSION then extension_install_redo ev (un32 (slice 0 4 d))
      else throw (E_unknown_record (ucast info)))"

definition fmt_u :: "u32 \<Rightarrow> string" where
  "fmt_u x = digits (unat x)"

definition desc_rel :: "RelFileLocator \<Rightarrow> string" where
  "desc_rel r = ''rel: '' @ fmt_u (spcOid r) @ ''/'' @ fmt_u (dbOid r) @ ''/'' @ fmt_u (relNumber r)"

definition desc_db :: "bytes \<Rightarrow> string" where
  "desc_db d = ''db: '' @ fmt_u (un32 (slice 0 4 d))"

definition tdeheap_rmgr_desc :: "byte \<Rightarrow> bytes \<Rightarrow> string" where
  "tdeheap_rmgr_desc xl_info d =
     (let info = op_of_info xl_info in
      if info = XLOG_TDE_CREATE_RELATION_KEY then desc_rel (dec_rlocator d)
      else if info = XLOG_TDE_ADD_PRINCIPAL_KEY then desc_db d
      else if info = XLOG_TDE_ROTATE_PRINCIPAL_KEY then desc_db d
      else if info = XLOG_TDE_DELETE_PRINCIPAL_KEY then desc_db d
      else if info = XLOG_TDE_DELETE_RELATION_KEY then desc_rel (dec_rlocator d)
      else if info = XLOG_TDE_WRITE_KEY_PROVIDER then
        desc_db d @ '', provider id: '' @ fmt_d (provider_id (provider (dec_prov_in_file d)))
      else if info = XLOG_TDE_INSTALL_EXTENSION then desc_db d
      else [])"

definition tdeheap_rmgr_identify :: "byte \<Rightarrow> string option" where
  "tdeheap_rmgr_identify xl_info =
     (let info = op_of_info xl_info in
      if info = XLOG_TDE_CREATE_RELATION_KEY then Some ''CREATE_RELATION_KEY''
      else if info = XLOG_TDE_ADD_PRINCIPAL_KEY then Some ''ADD_PRINCIPAL_KEY''
      else if info = XLOG_TDE_ROTATE_PRINCIPAL_KEY then Some ''ROTATE_PRINCIPAL_KEY''
      else if info = XLOG_TDE_DELETE_RELATION_KEY then Some ''DELETE_RELATION_KEY''
      else if info = XLOG_TDE_DELETE_PRINCIPAL_KEY then Some ''DELETE_PRINCIPAL_KEY''
      else if info = XLOG_TDE_WRITE_KEY_PROVIDER then Some ''WRITE_KEY_PROVIDER''
      else if info = XLOG_TDE_INSTALL_EXTENSION then Some ''INSTALL_EXTENSION''
      else None)"

section \<open>The versions of the key files\<close>

definition keys_version_path :: "env \<Rightarrow> string" where
  "keys_version_path ev = data_dir ev @ ''/keys_version''"

definition curr_version :: bytes where
  "curr_version = le32 OPEN_PG_TDE_SMGR_FILE_MAGIC @ le32 OPEN_PG_TDE_WAL_KEY_FILE_MAGIC"

text \<open>A write that fails is only logged.\<close>

definition open_pg_tde_create_keys_version_file :: "env \<Rightarrow> unit tdeM" where
  "open_pg_tde_create_keys_version_file ev =
     seqM (modifyM (set_file (keys_version_path ev) []))
     (bindM (pg_pwrite (keys_version_path ev) curr_version 0) (\<lambda>_. ret ()))"

text \<open>\<open>exists\<close>, \<open>made\<close>: what \<open>access\<close> and \<open>MakePGDirectory\<close> say about the directory.\<close>

definition open_pg_tde_init_data_dir :: "env \<Rightarrow> bool \<Rightarrow> bool \<Rightarrow> unit tdeM" where
  "open_pg_tde_init_data_dir ev exists made =
     whenM (\<not> exists)
       (seqM (check made (E_open (data_dir ev))) (open_pg_tde_create_keys_version_file ev))"

definition open_pg_tde_migrate_internal_keys :: "env \<Rightarrow> string list \<Rightarrow> unit tdeM" where
  "open_pg_tde_migrate_internal_keys ev d_names =
     bindM (getM (\<lambda>w. disk w (keys_version_path ev))) (\<lambda>f.
     seqM (check (case f of None \<Rightarrow> True | Some b \<Rightarrow> length (pread b 8 0) = 8) (E_corrupted (keys_version_path ev)))
     (if (case f of None \<Rightarrow> False | Some b \<Rightarrow> pread b 8 0 = curr_version) then ret ()
      else
        seqM (open_pg_tde_update_wal_keys_file ev)
        (seqM (open_pg_tde_migrate_smgr_keys_file ev d_names)
        (open_pg_tde_create_keys_version_file ev))))"

text \<open>Start-up of the server: the shared state is empty, then keys are migrated and the WAL write key is set up.\<close>

definition tde_shmem_startup :: "env \<Rightarrow> string list \<Rightarrow> bool \<Rightarrow> unit tdeM" where
  "tde_shmem_startup ev d_names EncryptXLog =
     seqM (modifyM (\<lambda>w. w\<lparr>pk_cache := (\<lambda>_. None), enc_key_tli := 0, enc_key_lsn := 0\<rparr>))
     (seqM (open_pg_tde_migrate_internal_keys ev d_names)
     (TDEXLogSmgrInitWrite ev EncryptXLog (guc_KeyLength ev)))"

text \<open>\<open>fips\<close>: whether OpenSSL has its FIPS provider active.\<close>

definition open_pg_tde_check_fips :: "bool \<Rightarrow> bool \<Rightarrow> tde_error + unit" where
  "open_pg_tde_check_fips RequireFips fips =
     (if \<not> RequireFips then Inr ()
      else if \<not> fips then Inl (E_state ''open_pg_tde.require_fips is set but OpenSSL is not in FIPS mode'')
      else Inr ())"

end
