(* ===== verification/Tde_Redo_Ops.thy ===== *)
theory Tde_Redo_Ops
  imports Tde_Redo Tde_Smgr_Ops
begin

text \<open>
  What replay promises: every record the components insert is decoded to the arguments it was built from and handed
  to the redo routine of its kind, whatever the server put into the low bits of the info byte.
\<close>

section \<open>Records and their replay\<close>

text \<open>The replay of a record, in terms of what was logged.\<close>

definition redo_of :: "env \<Rightarrow> xlog_rec \<Rightarrow> unit tdeM" where
  "redo_of ev r =
     (case r of
        XlCreateRelationKey rel \<Rightarrow> tde_smgr_create_key_redo ev rel
      | XlAddPrincipalKey ski \<Rightarrow>
          (if databaseId (ski_data ski) = GLOBAL_DATA_TDE_OID then open_pg_tde_save_server_key_redo ev ski
           else open_pg_tde_save_principal_key_redo ev ski)
      | XlRotatePrincipalKey db k n \<Rightarrow> xl_tde_perform_rotate_key ev db k n
      | XlWriteKeyProvider p \<Rightarrow> redo_key_provider_info ev p
      | XlInstallExtension db \<Rightarrow> extension_install_redo ev db
      | XlDeleteRelationKey rel \<Rightarrow> tde_smgr_delete_leftover_key_redo ev rel
      | XlDeletePrincipalKey db \<Rightarrow> open_pg_tde_delete_principal_key_redo ev db)"

text \<open>Records the components can log: C arrays have their length, offsets fit 64 bits.\<close>

definition wf_xlog :: "xlog_rec \<Rightarrow> bool" where
  "wf_xlog r =
     (case r of
        XlAddPrincipalKey ski \<Rightarrow> wf_ski ski
      | XlRotatePrincipalKey db k n \<Rightarrow> length n = 256
      | XlWriteKeyProvider p \<Rightarrow> wf_prov (provider p) \<and> offset_in_file p < 2 ^ 64
      | _ \<Rightarrow> True)"

lemma dec_enc_rlocator [simp]: "dec_rlocator (enc_rlocator r) = r"
  by (simp add: dec_rlocator_def enc_rlocator_def)

lemma dec_enc_prov_in_file:
  assumes "wf_prov (provider p)" "offset_in_file p < 2 ^ 64"
  shows "dec_prov_in_file (enc_prov_in_file p) = p"
proof -
  have "unat (of_nat (offset_in_file p) :: u64) = offset_in_file p" using assms(2) by (simp add: unat_of_nat)
  moreover have "slice 16 PROVIDER_SIZE (enc_prov_in_file p) = enc_prov (provider p)"
    using prov.enc_length [OF assms(1)] by (simp add: enc_prov_in_file_def)
  moreover have "slice 0 4 (enc_prov_in_file p) = le32 (database_id p)" "slice 8 8 (enc_prov_in_file p) = le64 (of_nat (offset_in_file p))"
    by (simp_all add: enc_prov_in_file_def)
  ultimately show ?thesis using prov.dec_enc [OF assms(1)] by (simp add: dec_prov_in_file_def)
qed

lemma slice_le32: "slice 0 4 (le32 x) = le32 x" "slice 0 4 (le32 x @ t) = le32 x"
  by simp_all

lemma op_of_info_low:
  "and low (not XLR_INFO_MASK) = 0 \<Longrightarrow> op_of_info (or op low) = op_of_info op"
  by (simp add: op_of_info_def and.commute bit.conj_disj_distrib2 bit.conj_disj_distrib)

lemma op_of_info_ops [simp]:
  "op_of_info XLOG_TDE_CREATE_RELATION_KEY = 0x00" "op_of_info XLOG_TDE_ADD_PRINCIPAL_KEY = 0x10" "op_of_info XLOG_TDE_ROTATE_PRINCIPAL_KEY = 0x20"
  "op_of_info XLOG_TDE_WRITE_KEY_PROVIDER = 0x30" "op_of_info XLOG_TDE_INSTALL_EXTENSION = 0x40" "op_of_info XLOG_TDE_DELETE_RELATION_KEY = 0x50"
  "op_of_info XLOG_TDE_DELETE_PRINCIPAL_KEY = 0x60"
  by (simp_all add: op_of_info_def xlog_ops XLR_INFO_MASK_def)

section \<open>Properties\<close>

text \<open>
  C10. Replay decodes what was logged: for every record the components insert, and whatever bits the server sets in the low
  half of the info byte, the resource manager runs the redo routine of the record's kind on exactly the
  arguments the record was built from, and names it; an unknown kind of record raises an error and changes nothing.
\<close>

theorem redo_replays_record:
  assumes "xlog_record r = (op, d)" "wf_xlog r" and "and low (not XLR_INFO_MASK) = 0"
  shows "tdeheap_rmgr_redo ev (or op low) d = redo_of ev r \<and> tdeheap_rmgr_identify (or op low) \<noteq> None \<and>
     (\<forall>info d' w. tdeheap_rmgr_identify info = None \<longrightarrow>
        tdeheap_rmgr_redo ev info d' w = (Inl (E_unknown_record (ucast (op_of_info info))), w))"
proof -
  have i: "op_of_info (or op low) = op_of_info op" by (rule op_of_info_low [OF assms(3)])
  have rot: "slice 4 4 (enc_rotate db k n) = le32 k" "slice 0 4 (enc_rotate db k n) = le32 db" for db k n
    by (simp_all add: enc_rotate_def)
  have name: "slice 8 256 (enc_rotate db k n) = n" if "length n = 256" for db k n
    using that by (simp add: enc_rotate_def)
  have "tdeheap_rmgr_redo ev (or op low) d = redo_of ev r \<and> tdeheap_rmgr_identify (or op low) \<noteq> None"
    using assms(1,2) unfolding tdeheap_rmgr_redo_def tdeheap_rmgr_identify_def i
    by (cases r) (auto simp: redo_of_def wf_xlog_def xlog_ops Let_def slice_le32 rot name dec_enc_prov_in_file dec_enc_ski
        op_of_info_ops [unfolded xlog_ops])
  moreover have "tdeheap_rmgr_redo ev info d' w = (Inl (E_unknown_record (ucast (op_of_info info))), w)"
    if "tdeheap_rmgr_identify info = None" for info d' w
    using that unfolding tdeheap_rmgr_redo_def tdeheap_rmgr_identify_def Let_def by (auto simp: throw_run split: if_splits)
  ultimately show ?thesis by blast
qed

theorem redo_replays_record_witness:
  "tdeheap_rmgr_redo demo_env 0x23 (le32 5 @ le32 1 @ fit 256 [97]) = xl_tde_perform_rotate_key demo_env 5 1 (fit 256 [97])"
proof -
  let ?r = "XlRotatePrincipalKey 5 1 (fit 256 [97])"
  have r: "xlog_record ?r = (0x20, le32 5 @ le32 1 @ fit 256 [97])" by (simp add: enc_rotate_def XLOG_TDE_ROTATE_PRINCIPAL_KEY_def)
  have "wf_xlog ?r" "and 3 (not XLR_INFO_MASK) = 0" "or 0x20 3 = (0x23 :: byte)" by (simp_all add: wf_xlog_def XLR_INFO_MASK_def)
  with redo_replays_record [OF r, of 3 demo_env] show ?thesis by (simp add: redo_of_def)
qed

text \<open>
  C35. Deleting the server's principal key is not replayed: the primary removes the file of WAL keys, \<open>wal_keys\<close>, and logs a
  record for the database number that stands for the server; the replay of that record, in any state of the standby and of its disk, leaves \<open>wal_keys\<close> as it is and
  keeps the server's key in the cache. It removes at most the key file of a database with this number and leaves every other file as it is.
  On the primary no disk failure is assumed.
\<close>

theorem server_key_deletion_not_replayed:
  assumes "disk w (get_wal_key_file_path ev) = Some f" "io w = []"
  shows "open_pg_tde_delete_server_key ev w =
       (Inr (), w\<lparr>xlog := xlog w @ [XlDeletePrincipalKey GLOBAL_DATA_TDE_OID], disk := (disk w)(get_wal_key_file_path ev := None)\<rparr>) \<and>
     (\<forall>standby. let s' = snd (tdeheap_rmgr_redo ev XLOG_TDE_DELETE_PRINCIPAL_KEY (le32 GLOBAL_DATA_TDE_OID) standby) in
        disk s' (get_wal_key_file_path ev) = disk standby (get_wal_key_file_path ev) \<and> pk_cache s' = pk_cache standby \<and>
        disk s' \<in> {disk standby, (disk standby)(open_pg_tde_set_db_file_path ev GLOBAL_DATA_TDE_OID := None)})"
proof -
  have p: "get_wal_key_file_path ev \<noteq> open_pg_tde_set_db_file_path ev GLOBAL_DATA_TDE_OID" using path_kinds_distinct by metis
  have "open_pg_tde_delete_server_key ev w =
       (Inr (), w\<lparr>xlog := xlog w @ [XlDeletePrincipalKey GLOBAL_DATA_TDE_OID], disk := (disk w)(get_wal_key_file_path ev := None)\<rparr>)"
    using assms by (simp add: open_pg_tde_delete_server_key_def runM XLogInsert_def durable_unlink_def)
  moreover have "tdeheap_rmgr_redo ev XLOG_TDE_DELETE_PRINCIPAL_KEY (le32 GLOBAL_DATA_TDE_OID) s
      = open_pg_tde_delete_principal_key_redo ev GLOBAL_DATA_TDE_OID s" for s
    by (simp add: tdeheap_rmgr_redo_def Let_def xlog_ops op_of_info_ops [unfolded xlog_ops] slice_le32)
  ultimately show ?thesis
    using p by (auto simp: open_pg_tde_delete_principal_key_redo_def durable_unlink_def Let_def
        dest: next_io_disk split: prod.splits io_outcome.splits)
qed

theorem server_key_deletion_not_replayed_witness:
  "let w = demo_world\<lparr>disk := [get_wal_key_file_path demo_env \<mapsto> [1], ''other'' \<mapsto> [2]]\<rparr> in
     disk (snd (open_pg_tde_delete_server_key demo_env w)) (get_wal_key_file_path demo_env) = None \<and>
     disk (snd (tdeheap_rmgr_redo demo_env XLOG_TDE_DELETE_PRINCIPAL_KEY (le32 GLOBAL_DATA_TDE_OID) w)) (get_wal_key_file_path demo_env) = Some [1]"
proof -
  have "get_wal_key_file_path demo_env \<noteq> ''other''" by (simp add: path_defs demo_env_def)
  then show ?thesis
    using server_key_deletion_not_replayed [of "demo_world\<lparr>disk := [get_wal_key_file_path demo_env \<mapsto> [1], ''other'' \<mapsto> [2]]\<rparr>" demo_env "[1]"]
    by (simp add: Let_def demo_world_def)
qed

end
