(* ===== verification/Tde_Tempfile.thy ===== *)
theory Tde_Tempfile
  imports Tde_Instance
begin

text \<open>
  Encryption of temporary files (\<open>open_pg_tde_tempfile.c\<close>): ephemeral keys of the cluster, an IV per
  file and block, AES-128-XTS for a buffer of at least one AES block and AES-128-CTR for a shorter tail.
  The three keys are \<open>tempfile_keys\<close>; \<open>None\<close> is \<open>tempfile_key_ready = false\<close>.
\<close>

section \<open>Keys\<close>

definition TEMPFILE_XTS_KEY_LEN :: nat where "TEMPFILE_XTS_KEY_LEN = 32"
definition TEMPFILE_CTR_KEY_LEN :: nat where "TEMPFILE_CTR_KEY_LEN = 16"
definition TEMPFILE_IV_LEN :: nat where "TEMPFILE_IV_LEN = 16"

text \<open>\<open>pg_strong_random\<close> draws from the same source as \<open>RAND_bytes\<close>.\<close>

definition tempfile_init_key :: "env \<Rightarrow> unit tdeM" where
  "tempfile_init_key ev =
     bindM (getM tempfile_keys) (\<lambda>k.
     if k \<noteq> None then ret ()
     else
       bindM (RAND_bytes ev TEMPFILE_XTS_KEY_LEN) (\<lambda>xts_key.
       bindM (RAND_bytes ev TEMPFILE_CTR_KEY_LEN) (\<lambda>ctr_key.
       bindM (RAND_bytes ev TEMPFILE_IV_LEN) (\<lambda>base_iv.
       modifyM (\<lambda>w. w\<lparr>tempfile_keys := Some (xts_key, ctr_key, base_iv)\<rparr>)))))"

section \<open>IVs\<close>

text \<open>The shift of the signed block number is arithmetic.\<close>

definition block_byte :: "64 word \<Rightarrow> nat \<Rightarrow> byte" where
  "block_byte blocknum i = ucast (signed_drop_bit (8 * i) blocknum)"

definition tempfile_block_iv :: "bytes \<Rightarrow> bytes \<Rightarrow> 64 word \<Rightarrow> bytes" where
  "tempfile_block_iv base_iv file_iv_salt blocknum =
     (let iv = map (\<lambda>i. xor (base_iv ! i) (file_iv_salt ! i)) [0..<TEMPFILE_IV_LEN]
      in foldl (\<lambda>iv i. iv[TEMPFILE_IV_LEN - 1 - i := xor (iv ! (TEMPFILE_IV_LEN - 1 - i)) (block_byte blocknum i)]) iv [0..<8])"

section \<open>Buffers\<close>

text \<open>A fresh context is initialised and run once.\<close>

definition tempfile_run_xts :: "env \<Rightarrow> bytes \<Rightarrow> int \<Rightarrow> bytes \<Rightarrow> bytes \<Rightarrow> tde_error + bytes" where
  "tempfile_run_xts ev xts_key enc iv buf =
     (let init = EvpInit (Some xts_key) (Some iv) enc in
      if \<not> evp_init ev AES_128_XTS [] init then Inl E_openssl
      else (case evp_run ev AES_128_XTS [init] buf of None \<Rightarrow> Inl E_openssl | Some out \<Rightarrow> Inr out))"

definition tempfile_run_ctr :: "env \<Rightarrow> bytes \<Rightarrow> bytes \<Rightarrow> bytes \<Rightarrow> tde_error + bytes" where
  "tempfile_run_ctr ev ctr_key iv buf =
     (case aes_128_ctr ev ctr_key iv buf of None \<Rightarrow> Inl E_openssl | Some out \<Rightarrow> Inr out)"

definition tempfile_crypt_buffer :: "env \<Rightarrow> int \<Rightarrow> bytes \<Rightarrow> 64 word \<Rightarrow> bytes \<Rightarrow> bytes tdeM" where
  "tempfile_crypt_buffer ev enc data blocknum file_iv_salt =
     (if length data = 0 then ret data
      else
        bindM (getM tempfile_keys) (\<lambda>ready.
        seqM (whenM (ready = None) (tempfile_init_key ev))
        (bindM (getM tempfile_keys) (\<lambda>keys.
         case the keys of (xts_key, ctr_key, base_iv) \<Rightarrow>
           (let iv = tempfile_block_iv base_iv file_iv_salt blocknum in
            if length data \<ge> 16 then liftM (tempfile_run_xts ev xts_key enc iv data)
            else liftM (tempfile_run_ctr ev ctr_key iv data))))))"

definition tempfile_encrypt :: "env \<Rightarrow> bytes \<Rightarrow> 64 word \<Rightarrow> bytes \<Rightarrow> bytes tdeM" where
  "tempfile_encrypt ev data blocknum file_iv_salt = tempfile_crypt_buffer ev 1 data blocknum file_iv_salt"

definition tempfile_decrypt :: "env \<Rightarrow> bytes \<Rightarrow> 64 word \<Rightarrow> bytes \<Rightarrow> bytes tdeM" where
  "tempfile_decrypt ev data blocknum file_iv_salt = tempfile_crypt_buffer ev 0 data blocknum file_iv_salt"

definition TdeTempFileInit :: "env \<Rightarrow> unit tdeM" where
  "TdeTempFileInit ev = tempfile_init_key ev"

end
