(* ===== verification/Tde_Tempfile_Ops.thy ===== *)
theory Tde_Tempfile_Ops
  imports Tde_Tempfile Tde_Enc
begin

text \<open>
  Temporary files: blocks of a file never share an IV, and what was encrypted decrypts to itself as long as the keys
  of the cluster are the same.
\<close>

section \<open>IVs\<close>

text \<open>Byte \<open>15 - i\<close> of the vector takes byte \<open>i\<close> of the block number, the upper half comes from base vector and salt alone.\<close>

definition block_bytes_be :: "64 word \<Rightarrow> bytes" where
  "block_bytes_be b = map (\<lambda>i. if i < 8 then 0 else block_byte b (15 - i)) [0..<16]"

lemma tempfile_block_iv_eq:
  "tempfile_block_iv base salt b = map (\<lambda>i. xor (xor (base ! i) (salt ! i)) (block_bytes_be b ! i)) [0..<16]"
  by (rule nth_equalityI) (simp_all add: tempfile_block_iv_def TEMPFILE_IV_LEN_def Let_def block_bytes_be_def upt_rec numeral_eq_Suc)

lemma bit_block_byte: "i < 8 \<Longrightarrow> n < 8 \<Longrightarrow> bit (block_byte b i) n = bit b (8 * i + n)"
  by (auto simp: block_byte_def bit_unsigned_iff bit_signed_drop_bit_iff)

lemma nth_block_bytes_be: "j < 8 \<Longrightarrow> block_bytes_be b ! (15 - j) = block_byte b j"
  using nth_upt [of 0 "15 - j" 16] by (auto simp: block_bytes_be_def)

lemma block_bytes_be_inject: "block_bytes_be a = block_bytes_be b \<longleftrightarrow> a = b"
proof
  assume eq: "block_bytes_be a = block_bytes_be b"
  show "a = b"
  proof (rule bit_word_eqI)
    fix n assume "n < LENGTH(64)"
    then have n: "n div 8 < 8" "n mod 8 < 8" "8 * (n div 8) + n mod 8 = n" by simp_all
    have "block_byte a (n div 8) = block_byte b (n div 8)"
      using eq nth_block_bytes_be [OF n(1), of a] nth_block_bytes_be [OF n(1), of b] by simp
    then show "bit a n = bit b n" using bit_block_byte [OF n(1,2)] n(3) by metis
  qed
qed simp

lemma length_block_bytes_be [simp]: "length (block_bytes_be b) = 16"
  by (simp add: block_bytes_be_def)

lemma xor_cancel: "xor x a = xor x b \<longleftrightarrow> a = (b :: byte)"
  by (metis bit.xor_left_self)

text \<open>
  C31. In a temporary file no two blocks share an initialisation vector: the vectors of two blocks are equal only if the block
  numbers are, negative ones included; and a block of two files with different salts has different vectors.
\<close>

theorem tempfile_iv_unique:
  "(tempfile_block_iv base salt b = tempfile_block_iv base salt b' \<longleftrightarrow> b = b') \<and>
   (length salt = 16 \<and> length salt' = 16 \<longrightarrow>
      (tempfile_block_iv base salt b = tempfile_block_iv base salt' b \<longleftrightarrow> salt = salt'))"
proof -
  have "tempfile_block_iv base salt b = tempfile_block_iv base salt b' \<longleftrightarrow> block_bytes_be b = block_bytes_be b'"
    by (simp add: tempfile_block_iv_eq xor_cancel list_eq_iff_nth_eq)
  moreover have "tempfile_block_iv base salt b = tempfile_block_iv base salt' b \<longleftrightarrow> salt = salt'" if "length salt = 16" "length salt' = 16"
  proof -
    have "tempfile_block_iv base salt b = tempfile_block_iv base salt' b \<longleftrightarrow>
        (\<forall>i<16. xor (base ! i) (salt ! i) = xor (base ! i) (salt' ! i))"
      by (simp add: tempfile_block_iv_eq list_eq_iff_nth_eq xor.commute [of "xor _ _"] xor_cancel)
    then show ?thesis using that by (simp add: xor_cancel list_eq_iff_nth_eq)
  qed
  ultimately show ?thesis by (simp add: block_bytes_be_inject)
qed

theorem tempfile_iv_unique_witness:
  "tempfile_block_iv (replicate 16 1) (replicate 16 2) 7 \<noteq> tempfile_block_iv (replicate 16 1) (replicate 16 3) 7"
  using tempfile_iv_unique [of "replicate 16 1" "replicate 16 2" 7 7 "replicate 16 3"] by simp

section \<open>Round trip\<close>

text \<open>What is relied on of OpenSSL: XTS on a buffer of at least one block and CTR on any buffer are inverted.\<close>

definition tempfile_ciphers_ok :: "env \<Rightarrow> bool" where
  "tempfile_ciphers_ok ev \<longleftrightarrow>
     (\<forall>k iv d. 16 \<le> length d \<longrightarrow> (\<exists>c. evp_init ev AES_128_XTS [] (EvpInit (Some k) (Some iv) 1) \<and>
        evp_run ev AES_128_XTS [EvpInit (Some k) (Some iv) 1] d = Some c \<and> length c = length d \<and>
        evp_init ev AES_128_XTS [] (EvpInit (Some k) (Some iv) 0) \<and> evp_run ev AES_128_XTS [EvpInit (Some k) (Some iv) 0] c = Some d)) \<and>
     (\<forall>k iv d. \<exists>c. aes_128_ctr ev k iv d = Some c \<and> length c = length d \<and> aes_128_ctr ev k iv c = Some d)"

lemma init_key_ok:
  "rand_ok ev \<Longrightarrow> tempfile_keys w = None \<Longrightarrow> \<exists>ks w'. tempfile_init_key ev w = (Inr (), w') \<and> tempfile_keys w' = Some ks"
proof -
  assume r: "rand_ok ev" and k: "tempfile_keys w = None"
  obtain x where "RAND_bytes ev TEMPFILE_XTS_KEY_LEN w = (Inr x, w\<lparr>rng := Suc (rng w)\<rparr>)"
    using RAND_bytes_ok [OF r] by blast
  moreover obtain c where "RAND_bytes ev TEMPFILE_CTR_KEY_LEN (w\<lparr>rng := Suc (rng w)\<rparr>) = (Inr c, w\<lparr>rng := Suc (Suc (rng w))\<rparr>)"
    using RAND_bytes_ok [OF r, of TEMPFILE_CTR_KEY_LEN "w\<lparr>rng := Suc (rng w)\<rparr>"] by auto
  moreover obtain v where "RAND_bytes ev TEMPFILE_IV_LEN (w\<lparr>rng := Suc (Suc (rng w))\<rparr>) = (Inr v, w\<lparr>rng := Suc (Suc (Suc (rng w)))\<rparr>)"
    using RAND_bytes_ok [OF r, of TEMPFILE_IV_LEN "w\<lparr>rng := Suc (Suc (rng w))\<rparr>"] by auto
  ultimately show ?thesis using k by (auto simp: tempfile_init_key_def runM)
qed

text \<open>
  Temporary files round trip: encrypting a buffer, of any length, succeeds, draws the keys of the cluster if there are none and
  keeps them otherwise, keeps the length; and in every later state with the same keys decrypting the result for the
  same block of the same file gives the buffer back.
\<close>

lemma tempfile_roundtrip:
  assumes "rand_ok ev" "tempfile_ciphers_ok ev"
  shows "\<exists>c w1. tempfile_encrypt ev data blocknum salt w = (Inr c, w1) \<and> length c = length data \<and>
     (tempfile_keys w \<noteq> None \<longrightarrow> w1 = w) \<and>
     (\<forall>w2. tempfile_keys w2 = tempfile_keys w1 \<longrightarrow> tempfile_decrypt ev c blocknum salt w2 = (Inr data, w2))"
proof (cases "data = []")
  case True
  then show ?thesis by (simp add: tempfile_encrypt_def tempfile_decrypt_def tempfile_crypt_buffer_def runM)
next
  case False
  obtain ks w1 where w1: "whenM (tempfile_keys w = None) (tempfile_init_key ev) w = (Inr (), w1)" "tempfile_keys w1 = Some ks"
      "tempfile_keys w \<noteq> None \<longrightarrow> w1 = w"
    using init_key_ok [OF assms(1), of w] by (cases "tempfile_keys w") (auto simp: whenM_def ret_def)
  obtain xk ck biv where ks: "ks = (xk, ck, biv)" by (cases ks)
  let ?iv = "tempfile_block_iv biv salt blocknum"
  obtain c where c: "length c = length data"
      "(if 16 \<le> length data then tempfile_run_xts ev xk 1 ?iv data else tempfile_run_ctr ev ck ?iv data) = Inr c"
      "(if 16 \<le> length data then tempfile_run_xts ev xk 0 ?iv c else tempfile_run_ctr ev ck ?iv c) = Inr data"
  proof (cases "16 \<le> length data")
    case True
    with assms(2) obtain c where "evp_init ev AES_128_XTS [] (EvpInit (Some xk) (Some ?iv) 1)"
        "evp_run ev AES_128_XTS [EvpInit (Some xk) (Some ?iv) 1] data = Some c" "length c = length data"
        "evp_init ev AES_128_XTS [] (EvpInit (Some xk) (Some ?iv) 0)" "evp_run ev AES_128_XTS [EvpInit (Some xk) (Some ?iv) 0] c = Some data"
      unfolding tempfile_ciphers_ok_def by blast
    with True show thesis by (intro that [of c]) (simp_all add: tempfile_run_xts_def Let_def)
  next
    case False
    from assms(2) obtain c where "aes_128_ctr ev ck ?iv data = Some c" "length c = length data" "aes_128_ctr ev ck ?iv c = Some data"
      unfolding tempfile_ciphers_ok_def by blast
    with False show thesis by (intro that [of c]) (simp_all add: tempfile_run_ctr_def)
  qed
  have st: "seqM (whenM (tempfile_keys w = None) (tempfile_init_key ev)) k w = k w1" for k :: "bytes tdeM"
    using w1(1) by (simp only: seqM_def bindM_def) simp
  have "tempfile_encrypt ev data blocknum salt w = (Inr c, w1)"
    using False w1(1,2) ks c(2)
    by (auto simp: tempfile_encrypt_def tempfile_crypt_buffer_def Let_def bindM_Inr [OF getM_run] st runM split: if_splits)
  moreover have "tempfile_decrypt ev c blocknum salt w2 = (Inr data, w2)" if "tempfile_keys w2 = tempfile_keys w1" for w2
    using False w1(2) ks c(1,3) that
    by (auto simp: tempfile_decrypt_def tempfile_crypt_buffer_def Let_def runM split: if_splits)
  ultimately show ?thesis using c(1) w1(3) by blast
qed

lemma demo_tempfile_ciphers: "tempfile_ciphers_ok demo_env"
  by (simp add: tempfile_ciphers_ok_def demo_env_def demo_evp_run_def demo_iv_def demo_E_def)

lemma tempfile_roundtrip_witness:
  "\<exists>c w1. tempfile_encrypt demo_env [1, 2, 3] 4 (replicate 16 9) demo_world = (Inr c, w1) \<and>
     tempfile_decrypt demo_env c 4 (replicate 16 9) w1 = (Inr [1, 2, 3], w1)"
  using tempfile_roundtrip [OF demo_rand_ok demo_tempfile_ciphers, of "[1, 2, 3]" 4 "replicate 16 9" demo_world] by blast

end
