(* ===== verification/Tde_DefaultKey.thy ===== *)
theory Tde_DefaultKey
  imports Tde_Principal_Ops
begin

text \<open>
  The default principal key: a database without a principal key of its own inherits it, and deleting the
  principal key of a database that has encrypted relations hands their keys over to it or fails.
\<close>

section \<open>Lookups without a key file\<close>

lemma get_missing:
  assumes "pk_cache w db = None" "db \<noteq> GLOBAL_DATA_TDE_OID" "disk w (open_pg_tde_set_db_file_path ev db) = None"
    "uses_cache ev db"
  shows "GetPrincipalKeyNoDefault ev db w = (Inr None, w)"
  using assms
  by (simp add: GetPrincipalKeyNoDefault_def get_principal_key_from_keyring_def runM
      open_pg_tde_get_principal_key_info_def smgr_file_defs kf_open_basic_def Let_def)

lemma wf_with_database [simp]: "wf_pki (keyInfo (with_database pk db)) = wf_pki (keyInfo pk)" "databaseId (keyInfo (with_database pk db)) = db"
  by (simp_all add: with_database_def wf_pki_def)

lemma save_principal_key_ok:
  assumes "gcm_ok ev" "rand_ok ev" "wf_pki (keyInfo pk)" "io w = []"
  shows "\<exists>ski. signed_by ev pk ski \<and> open_pg_tde_save_principal_key ev pk False w =
     (Inr (), (set_file (open_pg_tde_set_db_file_path ev (databaseId (keyInfo pk))) (kf_new OPEN_PG_TDE_SMGR_FILE_MAGIC ski) w)\<lparr>rng := Suc (rng w)\<rparr>)"
proof -
  obtain ski where ski: "open_pg_tde_sign_principal_key_info ev pk w = (Inr ski, w\<lparr>rng := Suc (rng w)\<rparr>)" "signed_by ev pk ski"
    using sign_ok [OF assms(1-3)] unfolding signed_by_def by blast
  then show ?thesis
    using kf_open_write_new [of "w\<lparr>rng := Suc (rng w)\<rparr>" _ True OPEN_PG_TDE_SMGR_FILE_MAGIC ski] assms(4)
    by (auto simp: open_pg_tde_save_principal_key_def Let_def runM smgr_file_defs set_file_def)
qed

text \<open>
  The fall-back to the default key: in the server, the lookup of the principal key of a database that has none, while there is a default
  key, succeeds and gives the default key, labelled with the database; a key file without entries is created for the
  database whose header that key signed, no other file changes, and from then on the lookup finds the key in the cache.
\<close>

lemma default_key_inherited:
  assumes "gcm_ok ev" "rand_ok ev" "mlock_ok ev" "io w = []"
    and "db \<noteq> GLOBAL_DATA_TDE_OID" "pk_cache w db = None" "disk w (open_pg_tde_set_db_file_path ev db) = None"
    and "pk_cache w DEFAULT_DATA_TDE_OID = Some dpk" "wf_pki (keyInfo dpk)" "\<not> FRONTEND ev"
  shows "\<exists>w' f ski. GetPrincipalKey ev db w = (Inr (Some (with_database dpk db)), w') \<and> GetPrincipalKey ev db w' = (Inr (Some (with_database dpk db)), w') \<and>
     disk w' = (disk w)(open_pg_tde_set_db_file_path ev db \<mapsto> f) \<and> good_file f \<and> map_entries f = [] \<and>
     signed_key_info (file_header f) = ski \<and> signed_by ev (with_database dpk db) ski"
proof -
  let ?p = "open_pg_tde_set_db_file_path ev db" and ?pk = "with_database dpk db"
  obtain ski where ski: "signed_by ev ?pk ski" "open_pg_tde_save_principal_key ev ?pk False w =
      (Inr (), (set_file ?p (kf_new OPEN_PG_TDE_SMGR_FILE_MAGIC ski) w)\<lparr>rng := Suc (rng w)\<rparr>)"
    using save_principal_key_ok [OF assms(1,2) _ assms(4), of ?pk] assms(9) by auto
  let ?f = "kf_new OPEN_PG_TDE_SMGR_FILE_MAGIC ski"
  let ?w' = "(set_file ?p ?f w)\<lparr>rng := Suc (rng w), pk_cache := (pk_cache w)(db \<mapsto> ?pk)\<rparr>"
  have wf: "wf_ski ski" using ski(1) by (simp add: signed_by_def)
  have "GetPrincipalKeyNoDefault ev db w = (Inr None, w)" using get_missing [OF assms(6,5,7)] assms(10) by simp
  moreover have "push_principal_key_to_cache ev ?pk ((set_file ?p ?f w)\<lparr>rng := Suc (rng w)\<rparr>) = (Inr (), ?w')"
    using push_new [OF assms(3), of "(set_file ?p ?f w)\<lparr>rng := Suc (rng w)\<rparr>" ?pk] assms(6) by (simp add: set_file_def)
  ultimately have "GetPrincipalKey ev db w = (Inr (Some ?pk), ?w')"
    using get_cached [OF assms(8), of ev] get_cached [of ?w' db ?pk ev] uses_cache_simps(1) [OF assms(10)] ski(2) assms(5,10) by (simp add: GetPrincipalKey_def runM Let_def)
  moreover have "GetPrincipalKey ev db ?w' = (Inr (Some ?pk), ?w')" using assms(10) by (simp add: GetPrincipalKey_cached)
  moreover have "disk ?w' = (disk w)(?p \<mapsto> ?f)" by (simp add: set_file_def)
  moreover have "good_file ?f" "signed_key_info (file_header ?f) = ski" "map_entries ?f = []"
    using kf_new_good [OF wf] mapfile.ents_new [OF wf] by simp_all
  ultimately show ?thesis using ski(1) by blast
qed

lemma default_key_inherited_witness:
  "\<exists>w'. GetPrincipalKey demo_env 7 (demo_world\<lparr>pk_cache := [DEFAULT_DATA_TDE_OID \<mapsto> demo_pk]\<rparr>) = (Inr (Some (with_database demo_pk 7)), w')"
proof -
  let ?w = "demo_world\<lparr>pk_cache := [DEFAULT_DATA_TDE_OID \<mapsto> demo_pk]\<rparr>"
  have h: "mlock_ok demo_env" "io ?w = []" "(7 :: Oid) \<noteq> GLOBAL_DATA_TDE_OID" "pk_cache ?w 7 = None" "disk ?w (open_pg_tde_set_db_file_path demo_env 7) = None"
      "pk_cache ?w DEFAULT_DATA_TDE_OID = Some demo_pk"
    by (simp_all add: demo_env_def GLOBAL_DATA_TDE_OID_def DEFAULT_DATA_TDE_OID_def)
  have "\<not> FRONTEND demo_env" by simp
  with default_key_inherited [OF demo_gcm_ok demo_rand_ok h demo_pk_wf(1)] show ?thesis by blast
qed

section \<open>Deleting the principal key of a database\<close>

text \<open>Rotation to the default key, with the changes to the cache that follow it.\<close>

lemma rotate_default_wp:
  assumes "gcm_ok ev" "wf_pki (keyInfo dpk)" and db: "databaseId (keyInfo pk) = db" "db \<noteq> GLOBAL_DATA_TDE_OID"
    and f: "disk w (open_pg_tde_set_db_file_path ev db) = Some f" "good_file f"
  shows "wp (open_pg_tde_rotate_default_key_for_database ev pk dpk)
     (\<lambda>r w'. disk w' (open_pg_tde_set_db_file_path ev db) = Some f \<and> r \<noteq> Inr () \<and> pk_cache w' db = pk_cache w db \<or>
        (\<exists>f'. disk w' (open_pg_tde_set_db_file_path ev db) = Some f' \<and> good_file f' \<and>
           signed_by ev (with_database dpk db) (signed_key_info (file_header f')) \<and>
           list_all2 (rotated ev pk (with_database dpk db)) (live_entries (map_entries f)) (map_entries f') \<and>
           (r = Inr () \<longrightarrow> pk_cache w' db = Some (with_database dpk db)))) w"
proof -
  let ?npk = "with_database dpk db" and ?p = "open_pg_tde_set_db_file_path ev db"
  let ?new = "\<lambda>w'. \<exists>f'. disk w' ?p = Some f' \<and> good_file f' \<and> signed_by ev ?npk (signed_key_info (file_header f')) \<and>
     list_all2 (rotated ev pk ?npk) (live_entries (map_entries f)) (map_entries f')"
  have p: "?p = open_pg_tde_set_db_file_path ev (databaseId (keyInfo pk))" using db(1) by simp
  have "wp (open_pg_tde_perform_rotate_key ev pk ?npk True)
      (\<lambda>r w'. disk w' ?p = Some f \<and> r \<noteq> Inr () \<and> pk_cache w' db = pk_cache w db \<or> ?new w') w"
    by (rule wp_mono [OF rotate_wp [OF assms(1) _ p f]]) (use assms(2) in auto)
  then show ?thesis
    using db unfolding open_pg_tde_rotate_default_key_for_database_def perform_rotate_def Let_def
    by (auto simp: wp_rules push_principal_key_to_cache_def clear_principal_key_cache_def Let_def elim!: wp_mono split: sum.splits)
qed

text \<open>
  Deleting the principal key of a database never loses the keys of its relations, whatever write, sync or rename fails: if the
  database has encrypted relations, then afterwards its key file is either the old one and the call raised an error, or a complete file
  under the default key, whose header the default key signed and which holds for every live entry the same key of the same relation.
  Without a default key, or if the default key is the key to be deleted, the call is refused and nothing changes.
\<close>

lemma delete_key_keeps_relation_keys:
  assumes "gcm_ok ev" "db = MyDatabaseId ev" "db \<noteq> GLOBAL_DATA_TDE_OID" "\<not> FRONTEND ev"
    and "disk w (open_pg_tde_set_db_file_path ev db) = Some f" "good_file f" "e \<in> set (map_entries f)" "me_type e = MAP_ENTRY_TYPE_KEY"
    and "pk_cache w db = Some pk" "databaseId (keyInfo pk) = db"
    and "case pk_cache w DEFAULT_DATA_TDE_OID of Some dpk \<Rightarrow> wf_pki (keyInfo dpk) | None \<Rightarrow> disk w (open_pg_tde_set_db_file_path ev DEFAULT_DATA_TDE_OID) = None"
  shows "let (r, w') = open_pg_tde_delete_key ev w; p = open_pg_tde_set_db_file_path ev db in
     if open_pg_tde_is_same_principal_key (Some pk) (pk_cache w DEFAULT_DATA_TDE_OID) \<or> pk_cache w DEFAULT_DATA_TDE_OID = None
     then r = Inl E_in_use \<and> w' = w
     else disk w' p = Some f \<and> r \<noteq> Inr () \<and> pk_cache w' db = pk_cache w db \<or>
       (\<exists>f' npk. npk = with_database (the (pk_cache w DEFAULT_DATA_TDE_OID)) db \<and> disk w' p = Some f' \<and> good_file f' \<and>
          signed_by ev npk (signed_key_info (file_header f')) \<and> list_all2 (rotated ev pk npk) (live_entries (map_entries f)) (map_entries f') \<and>
          (r = Inr () \<longrightarrow> pk_cache w' db = Some npk))"
proof -
  have c: "\<exists>n. open_pg_tde_count_encryption_keys ev db 0 w = (Inr n, w) \<and> n \<noteq> 0"
    using count_ok [OF assms(5,6), of 0] assms(7,8) by (auto simp: filter_empty_conv)
  have d: "GetPrincipalKeyNoDefault ev DEFAULT_DATA_TDE_OID w = (Inr (pk_cache w DEFAULT_DATA_TDE_OID), w)"
    using get_cached [of w DEFAULT_DATA_TDE_OID] get_missing [of w DEFAULT_DATA_TDE_OID ev] assms(4,11)
    by (cases "pk_cache w DEFAULT_DATA_TDE_OID") (auto simp: DEFAULT_DATA_TDE_OID_def GLOBAL_DATA_TDE_OID_def)
  have run: "open_pg_tde_delete_key ev w =
     (case pk_cache w DEFAULT_DATA_TDE_OID of
        None \<Rightarrow> (Inl E_in_use, w)
      | Some dpk \<Rightarrow> if open_pg_tde_is_same_principal_key (Some pk) (Some dpk) then (Inl E_in_use, w)
          else open_pg_tde_rotate_default_key_for_database ev pk dpk w)"
    using c d get_cached [OF assms(9), of ev] assms(2,4) by (auto simp: open_pg_tde_delete_key_def runM split: option.splits)
  show ?thesis
  proof (cases "pk_cache w DEFAULT_DATA_TDE_OID")
    case None
    then show ?thesis using run by simp
  next
    case (Some dpk)
    then have "wf_pki (keyInfo dpk)" using assms(11) by simp
    from rotate_default_wp [OF assms(1) this assms(10,3,5,6)] show ?thesis
      using run Some by (cases "open_pg_tde_rotate_default_key_for_database ev pk dpk w") (auto simp: wp_def)
  qed
qed

lemma delete_key_keeps_relation_keys_witness:
  "\<exists>f w. map_entries f \<noteq> [] \<and> io w = [IO_ok, IO_ok, IO_fail] \<and>
     (let (r, w') = open_pg_tde_delete_key demo_env w in disk w' (open_pg_tde_set_db_file_path demo_env 5) = Some f \<and> r \<noteq> Inr () \<or>
        (\<exists>f' e'. disk w' (open_pg_tde_set_db_file_path demo_env 5) = Some f' \<and> map_entries f' = [e']))"
proof -
  obtain f e where f: "good_file f" "map_entries f = [e]" "entry_is demo_rel e" using demo_file by blast
  let ?dpk = "demo_pk2\<lparr>keyInfo := (keyInfo demo_pk2)\<lparr>databaseId := DEFAULT_DATA_TDE_OID, keyringId := 9\<rparr>\<rparr>"
  let ?w = "demo_world\<lparr>disk := [open_pg_tde_set_db_file_path demo_env 5 \<mapsto> f], io := [IO_ok, IO_ok, IO_fail],
      pk_cache := [5 \<mapsto> demo_pk, DEFAULT_DATA_TDE_OID \<mapsto> ?dpk]\<rparr>"
  have ne: "DEFAULT_DATA_TDE_OID \<noteq> 5" "(5 :: Oid) \<noteq> GLOBAL_DATA_TDE_OID" by (simp_all add: DEFAULT_DATA_TDE_OID_def GLOBAL_DATA_TDE_OID_def)
  have pre: "5 = MyDatabaseId demo_env" "disk ?w (open_pg_tde_set_db_file_path demo_env 5) = Some f" "e \<in> set (map_entries f)"
      "me_type e = MAP_ENTRY_TYPE_KEY" "pk_cache ?w 5 = Some demo_pk" "pk_cache ?w DEFAULT_DATA_TDE_OID = Some ?dpk" "wf_pki (keyInfo ?dpk)"
    using f ne(1) demo_pk_wf(2) by (simp_all add: entry_is_def wf_pki_def) (simp add: demo_env_def)
  have "me_type e \<noteq> MAP_ENTRY_TYPE_EMPTY" using pre(4) by (simp add: map_entry_types)
  then have live: "live_entries (map_entries f) = [e]" using f(2) by simp
  have same: "\<not> open_pg_tde_is_same_principal_key (Some demo_pk) (Some ?dpk)" by (simp add: open_pg_tde_is_same_principal_key_def demo_pk_def demo_pk2_def)
  obtain r w' where rw: "open_pg_tde_delete_key demo_env ?w = (r, w')" by fastforce
  have "disk w' (open_pg_tde_set_db_file_path demo_env 5) = Some f \<and> r \<noteq> Inr () \<or>
        (\<exists>f' e'. disk w' (open_pg_tde_set_db_file_path demo_env 5) = Some f' \<and> map_entries f' = [e'])"
    using delete_key_keeps_relation_keys [OF demo_gcm_ok pre(1) ne(2) demo_not_frontend pre(2) f(1) pre(3,4,5) demo_rel_simps(4)] pre(6,7) same rw
    by (auto simp: live list_all2_Cons1 Let_def)
  moreover have "map_entries f \<noteq> []" "io ?w = [IO_ok, IO_ok, IO_fail]" using f(2) by simp_all
  ultimately show ?thesis using rw by (intro exI [of _ f] exI [of _ ?w]) simp
qed

end
