(* ===== verification/Tde_OpenBao_Ops.thy ===== *)
theory Tde_OpenBao_Ops
  imports Tde_OpenBao Tde_Instance
begin

text \<open>
  What the OpenBao keyring reads out of an answer. A JSON document is a tree; the events of the parser are its
  traversal. The state machine of a key request, which never looks at the tree, is shown to find the value that the path
  \<open>data.data.key\<close> names.
\<close>

section \<open>JSON documents and their events\<close>

datatype jvalue = JScalar json_token bytes | JArray "jvalue list" | JObject "jfield list"
  and jfield = JField bytes jvalue

fun jevents :: "jvalue \<Rightarrow> json_event list" and fevents :: "jfield \<Rightarrow> json_event list" where
  "jevents (JScalar t s) = [JsScalar t s]"
| "jevents (JArray vs) = JsArrayStart # concat (map jevents vs)"
| "jevents (JObject fs) = JsObjectStart # concat (map fevents fs) @ [JsObjectEnd]"
| "fevents (JField n v) = JsField n # jevents v"

text \<open>The value of the first field with a name, and the value at the end of a path of names.\<close>

primrec named :: "bytes \<Rightarrow> jfield \<Rightarrow> bool" where
  "named n (JField m v) \<longleftrightarrow> strcmp_eq m n"

primrec field_value :: "jfield \<Rightarrow> jvalue" where
  "field_value (JField m v) = v"

fun json_get :: "bytes \<Rightarrow> jvalue \<Rightarrow> jvalue option" where
  "json_get n (JObject fs) = map_option field_value (find (named n) fs)"
| "json_get n _ = None"

fun json_path :: "bytes list \<Rightarrow> jvalue \<Rightarrow> jvalue option" where
  "json_path [] v = Some v"
| "json_path (n # ns) v = (case json_get n v of None \<Rightarrow> None | Some v' \<Rightarrow> json_path ns v')"

text \<open>How many fields of a name stand at a depth; the fields of the outermost object have depth 0, arrays do not count.\<close>

fun count_at :: "bytes \<Rightarrow> int \<Rightarrow> jvalue \<Rightarrow> nat" and fcount_at :: "bytes \<Rightarrow> int \<Rightarrow> jfield \<Rightarrow> nat" where
  "count_at n d (JScalar t s) = 0"
| "count_at n d (JArray vs) = sum_list (map (count_at n d) vs)"
| "count_at n d (JObject fs) = sum_list (map (fcount_at n d) fs)"
| "fcount_at n d (JField m v) = (if d = 0 \<and> strcmp_eq m n then 1 else 0) + count_at n (d - 1) v"

lemma count_at_negative: "d < 0 \<Longrightarrow> count_at n d v = 0" "d < 0 \<Longrightarrow> fcount_at n d f = 0"
  by (induction n d v and n d f rule: count_at_fcount_at.induct) auto

lemma unnamed_count: "list_all (\<lambda>f. \<not> named n f) fs \<Longrightarrow> sum_list (map (fcount_at n 0) fs) = 0"
proof (induction fs)
  case (Cons f fs)
  then show ?case by (cases f) (simp add: count_at_negative)
qed simp

lemma find_split: "find P xs = Some y \<Longrightarrow> \<exists>pre post. xs = pre @ y # post \<and> P y \<and> list_all (\<lambda>x. \<not> P x) pre"
proof (induction xs)
  case (Cons x xs)
  show ?case
  proof (cases "P x")
    case True
    then show ?thesis using Cons.prems by (intro exI [of _ "[]"] exI [of _ xs]) auto
  next
    case False
    then obtain pre post where "xs = pre @ y # post" "P y" "list_all (\<lambda>x. \<not> P x) pre" using Cons by auto
    then show ?thesis using False by (intro exI [of _ "x # pre"] exI [of _ post]) simp
  qed
qed simp

lemma json_get_split:
  assumes "json_get n v = Some v'"
  obtains pre m post where "v = JObject (pre @ JField m v' # post)" "strcmp_eq m n" "list_all (\<lambda>f. \<not> named n f) pre"
proof -
  obtain fs where fs: "v = JObject fs" using assms by (cases v) auto
  then obtain f where f: "find (named n) fs = Some f" "field_value f = v'" using assms by auto
  obtain pre post where "fs = pre @ f # post" "named n f" "list_all (\<lambda>x. \<not> named n x) pre" using find_split [OF f(1)] by blast
  then show ?thesis using that fs f(2) by (cases f) auto
qed

section \<open>The machine of a key request\<close>

text \<open>The field a state waits for, and the level it must have.\<close>

primrec awaited_name :: "JsonOpenBaoRespSemState \<Rightarrow> bytes" where
  "awaited_name JRESP_EXPECT_TOP_DATA = bytes_of ''data''"
| "awaited_name JRESP_EXPECT_DATA = bytes_of ''data''"
| "awaited_name JRESP_EXPECT_KEY = bytes_of ''key''"

primrec awaited_level :: "JsonOpenBaoRespSemState \<Rightarrow> int" where
  "awaited_level JRESP_EXPECT_TOP_DATA = 0"
| "awaited_level JRESP_EXPECT_DATA = 1"
| "awaited_level JRESP_EXPECT_KEY = 2"

abbreviation resp_run :: "json_event list \<Rightarrow> JsonOpenBaoRespState \<Rightarrow> JsonOpenBaoRespState" where
  "resp_run \<equiv> fold json_resp_step"

lemma json_resp_step_simps [simp]:
  "json_resp_step JsObjectStart s = s\<lparr>jr_level := jr_level s + 1\<rparr>"
  "json_resp_step JsObjectEnd s = s\<lparr>jr_level := jr_level s - 1\<rparr>"
  "json_resp_step JsArrayStart s = s"
  "json_resp_step (JsField m) s = json_resp_object_field_start m s"
  "json_resp_step (JsScalar t k) s =
     (if jr_field s = JRESP_F_KEY then s\<lparr>jr_key := Some k, jr_field := JRESP_F_UNUSED\<rparr> else s)"
  by (auto simp: json_resp_step_def json_resp_object_start_def json_resp_object_end_def json_resp_scalar_def
      split: JsonOpenBaoRespField.splits)

lemma field_not_awaited:
  "\<not> (strcmp_eq m (awaited_name (jr_state s)) \<and> jr_level s = awaited_level (jr_state s)) \<Longrightarrow>
     json_resp_object_field_start m s = s"
  by (cases "jr_state s") (auto simp: json_resp_object_field_start_def)

text \<open>A value without the awaited field leaves the machine as it was.\<close>

lemma quiet:
  "\<lbrakk>jr_field s = JRESP_F_UNUSED; count_at (awaited_name (jr_state s)) (awaited_level (jr_state s) - jr_level s - 1) v = 0\<rbrakk> \<Longrightarrow>
     resp_run (jevents v) s = s"
  "\<lbrakk>jr_field s = JRESP_F_UNUSED; fcount_at (awaited_name (jr_state s)) (awaited_level (jr_state s) - jr_level s) f = 0\<rbrakk> \<Longrightarrow>
     resp_run (fevents f) s = s"
proof (induction v and f arbitrary: s and s rule: jevents_fevents.induct)
  case (2 vs)
  then have "resp_run (concat (map jevents us)) s = s" if "set us \<subseteq> set vs" for us
    using that by (induction us) auto
  then show ?case by simp
next
  case (3 fs)
  let ?s = "s\<lparr>jr_level := jr_level s + 1\<rparr>"
  have "resp_run (fevents f) ?s = ?s" if "f \<in> set fs" for f
    using that 3 by (intro 3(1)) (auto simp: algebra_simps)
  then have "resp_run (concat (map fevents gs)) ?s = ?s" if "set gs \<subseteq> set fs" for gs
    using that by (induction gs) auto
  then show ?case by simp
next
  case (4 n v)
  then show ?case by (auto simp: field_not_awaited split: if_splits)
qed simp_all

lemma quiet_fields:
  "jr_field s = JRESP_F_UNUSED \<Longrightarrow>
     sum_list (map (fcount_at (awaited_name (jr_state s)) (awaited_level (jr_state s) - jr_level s)) fs) = 0 \<Longrightarrow>
     resp_run (concat (map fevents fs)) s = s"
  by (induction fs) (simp_all add: quiet)

lemma quiet_unnamed:
  "jr_field s = JRESP_F_UNUSED \<Longrightarrow> jr_level s = awaited_level (jr_state s) \<Longrightarrow>
     list_all (\<lambda>f. \<not> named (awaited_name (jr_state s)) f) fs \<Longrightarrow> resp_run (concat (map fevents fs)) s = s"
  by (rule quiet_fields) (simp_all add: unnamed_count)

text \<open>The fields of an object up to the first one that is awaited, and the fields after it.\<close>

lemma run_object:
  assumes "jr_field s = JRESP_F_UNUSED" "jr_level s + 1 = awaited_level (jr_state s)"
    and "list_all (\<lambda>f. \<not> named (awaited_name (jr_state s)) f) pre"
    and "resp_run (jevents v) (json_resp_object_field_start m (s\<lparr>jr_level := jr_level s + 1\<rparr>)) = s'"
    and "jr_field s' = JRESP_F_UNUSED" "sum_list (map (fcount_at (awaited_name (jr_state s')) (awaited_level (jr_state s') - jr_level s')) post) = 0"
  shows "resp_run (jevents (JObject (pre @ JField m v # post))) s = s'\<lparr>jr_level := jr_level s' - 1\<rparr>"
  using quiet_unnamed [of "s\<lparr>jr_level := jr_level s + 1\<rparr>" pre] quiet_fields [OF assms(5,6)] assms(1-4) by simp

text \<open>The innermost object: the machine waits for the key at level 2.\<close>

lemma key_object:
  assumes "json_get (bytes_of ''key'') v = Some (JScalar t k)" "count_at (bytes_of ''key'') 0 v = 1"
    and s: "s = \<lparr>jr_state = JRESP_EXPECT_KEY, jr_field = JRESP_F_UNUSED, jr_level = 1, jr_key = ko\<rparr>"
  shows "resp_run (jevents v) s = s\<lparr>jr_key := Some k\<rparr>"
proof -
  obtain pre m post where v: "v = JObject (pre @ JField m (JScalar t k) # post)" "strcmp_eq m (bytes_of ''key'')"
      "list_all (\<lambda>f. \<not> named (bytes_of ''key'') f) pre"
    using json_get_split [OF assms(1)] by blast
  have "sum_list (map (fcount_at (bytes_of ''key'') 0) post) = 0" using assms(2) v by simp
  then show ?thesis
    unfolding v(1) using v(2,3) s
    by (subst run_object [where s' = "s\<lparr>jr_level := 2, jr_key := Some k\<rparr>"]) (simp_all add: json_resp_object_field_start_def)
qed

lemma data_object:
  assumes "json_get (bytes_of ''data'') v = Some v2" "json_get (bytes_of ''key'') v2 = Some (JScalar t k)" "count_at (bytes_of ''key'') 1 v = 1"
    and s: "s = \<lparr>jr_state = JRESP_EXPECT_DATA, jr_field = JRESP_F_UNUSED, jr_level = 0, jr_key = ko\<rparr>"
  shows "resp_run (jevents v) s = s\<lparr>jr_state := JRESP_EXPECT_KEY, jr_key := Some k\<rparr>"
proof -
  obtain pre m post where v: "v = JObject (pre @ JField m v2 # post)" "strcmp_eq m (bytes_of ''data'')"
      "list_all (\<lambda>f. \<not> named (bytes_of ''data'') f) pre"
    using json_get_split [OF assms(1)] by blast
  obtain pre2 m2 post2 where v2: "v2 = JObject (pre2 @ JField m2 (JScalar t k) # post2)" "strcmp_eq m2 (bytes_of ''key'')"
    using json_get_split [OF assms(2)] by blast
  have c: "count_at (bytes_of ''key'') 0 v2 = 1" "sum_list (map (fcount_at (bytes_of ''key'') 1) post) = 0"
    using assms(3) v v2 by (auto simp del: sum_list_eq_0_iff)
  show ?thesis
    unfolding v(1) using v(2,3) s c(2) key_object [OF assms(2) c(1) refl]
    by (subst run_object [where s' = "s\<lparr>jr_state := JRESP_EXPECT_KEY, jr_level := 1, jr_key := Some k\<rparr>"])
      (simp_all add: json_resp_object_field_start_def)
qed

lemma response_key:
  assumes "json_parse ev body = (jevents doc, True)"
    and "json_path [bytes_of ''data'', bytes_of ''data'', bytes_of ''key''] doc = Some (JScalar t k)"
    and "count_at (bytes_of ''key'') 2 doc = 1"
  shows "map_option jr_key (parse_json_response ev body) = Some (Some k)"
proof -
  obtain v v2 where g: "json_get (bytes_of ''data'') doc = Some v" "json_get (bytes_of ''data'') v = Some v2"
      "json_get (bytes_of ''key'') v2 = Some (JScalar t k)"
    using assms(2) by (auto split: option.splits)
  obtain pre m post where d: "doc = JObject (pre @ JField m v # post)" "strcmp_eq m (bytes_of ''data'')"
      "list_all (\<lambda>f. \<not> named (bytes_of ''data'') f) pre"
    using json_get_split [OF g(1)] by blast
  obtain pre1 m1 post1 where v: "v = JObject (pre1 @ JField m1 v2 # post1)"
    using json_get_split [OF g(2)] by blast
  obtain pre2 m2 post2 where v2: "v2 = JObject (pre2 @ JField m2 (JScalar t k) # post2)" "strcmp_eq m2 (bytes_of ''key'')"
    using json_get_split [OF g(3)] by blast
  have c: "count_at (bytes_of ''key'') 1 v = 1" "sum_list (map (fcount_at (bytes_of ''key'') 2) post) = 0"
    using assms(3) d(1) v v2 by (auto simp del: sum_list_eq_0_iff)
  have "resp_run (jevents doc) json_resp_init = \<lparr>jr_state = JRESP_EXPECT_KEY, jr_field = JRESP_F_UNUSED, jr_level = -1, jr_key = Some k\<rparr>"
    unfolding d(1) json_resp_init_def using d(2,3) c(2) data_object [OF g(2,3) c(1) refl]
    by (subst run_object [where s' = "\<lparr>jr_state = JRESP_EXPECT_KEY, jr_field = JRESP_F_UNUSED, jr_level = 0, jr_key = Some k\<rparr>"])
      (simp_all add: json_resp_object_field_start_def)
  then show ?thesis using assms(1) by (simp add: parse_json_response_def)
qed

text \<open>
  The answer to a key request is read correctly, whatever else the document holds and in whatever order: if the path
  \<open>data.data.key\<close> leads to a scalar and no other field named \<open>key\<close> stands at that depth, the state machine over the events
  of the parser returns that scalar.
\<close>

lemma openbao_response_key:
  assumes "json_parse ev body = (jevents doc, True)"
    and "json_path [bytes_of ''data'', bytes_of ''data'', bytes_of ''key''] doc = Some (JScalar t k)"
    and "count_at (bytes_of ''key'') 2 doc = 1"
  shows "map_option jr_key (parse_json_response ev body) = Some (Some k)"
  using assms by (rule response_key)

definition demo_answer :: jvalue where
  "demo_answer = JObject
     [JField (bytes_of ''request_id'') (JScalar JSON_TOKEN_STRING [114]),
      JField (bytes_of ''data'') (JObject
        [JField (bytes_of ''metadata'') (JObject
           [JField (bytes_of ''custom_metadata'') (JObject [JField (bytes_of ''key'') (JScalar JSON_TOKEN_STRING [120])])]),
         JField (bytes_of ''data'') (JObject [JField (bytes_of ''key'') (JScalar JSON_TOKEN_STRING [75])])]),
      JField (bytes_of ''auth'') (JScalar JSON_TOKEN_NULL [])]"

lemma openbao_response_key_witness:
  "map_option jr_key (parse_json_response (demo_env\<lparr>json_parse := \<lambda>_. (jevents demo_answer, True)\<rparr>) []) = Some (Some [75])"
  by (rule openbao_response_key [where doc = demo_answer and t = JSON_TOKEN_STRING])
    (simp, simp_all add: demo_answer_def bytes_of_def strcmp_eq_def cstr_def)

end
