(* ===== verification/Tde_Keyring_Contract.thy ===== *)
theory Tde_Keyring_Contract
  imports Tde_Keyring_Ops Tde_OpenBao_Ops
begin

text \<open>
  What a keyring promises to the rest of the extension, as the locale \<open>keyring_kind\<close>: a key stored under a name
  that had no key is what fetching this name gives, and other names are not disturbed. The three kinds of
  keyring (file, OpenBao, KMIP) are instances; for the latter two the documented behaviour of the key server is a hypothesis.
\<close>

section \<open>The contract\<close>

definition key_agrees :: "KeyInfo \<Rightarrow> KeyInfo \<Rightarrow> bool" where
  "key_agrees k k' \<longleftrightarrow> cstr (ki_name k) = cstr (ki_name k') \<and> kd_len (ki_data k) = kd_len (ki_data k') \<and>
     kd_material (ki_data k) = kd_material (ki_data k')"

text \<open>
  \<open>ready\<close> says when a keyring can take a key of a name and length in a state; \<open>apart\<close>, when two names are different
  ones to the keyring.
\<close>

locale keyring_kind =
  fixes ready :: "env \<Rightarrow> GenericKeyring \<Rightarrow> bytes \<Rightarrow> u32 \<Rightarrow> world \<Rightarrow> bool"
    and apart :: "GenericKeyring \<Rightarrow> bytes \<Rightarrow> bytes \<Rightarrow> bool"
  assumes ready_rng: "ready ev kr n len w \<Longrightarrow> ready ev kr n len (w\<lparr>rng := i\<rparr>)"
    and get_rng: "ready ev kr n len w \<Longrightarrow> fst (KeyringGetKey ev kr m (w\<lparr>rng := i\<rparr>)) = fst (KeyringGetKey ev kr m w)"
    and store: "\<lbrakk>ready ev kr n len w; wf_key k; ValidateKey k; length (cstr n) < TDE_KEY_NAME_LEN; cstr (ki_name k) = cstr n;
         kd_len (ki_data k) = len; fst (KeyringGetKey ev kr n w) = Inr (KEYRING_CODE_SUCCESS, None)\<rbrakk> \<Longrightarrow>
       \<exists>w' k'. KeyringStoreKey ev kr k w = (Inr (), w') \<and>
         KeyringGetKey ev kr n w' = (Inr (KEYRING_CODE_SUCCESS, Some k'), w') \<and> key_agrees k k' \<and>
         (\<forall>m. apart kr m n \<longrightarrow> fst (KeyringGetKey ev kr m w') = fst (KeyringGetKey ev kr m w))"
begin

lemma generate_store_get:
  assumes "ready ev kr n len w" "rand_ok ev" "length (cstr n) < TDE_KEY_NAME_LEN" "cstr n \<noteq> []" "len = 16 \<or> len = 32"
    and "fst (KeyringGetKey ev kr n w) = Inr (KEYRING_CODE_SUCCESS, None)"
  shows "\<exists>k k' w'. KeyringGenerateNewKeyAndStore ev kr n len w = (Inr k, w') \<and> kd_len (ki_data k) = len \<and>
     KeyringGetKey ev kr n w' = (Inr (KEYRING_CODE_SUCCESS, Some k'), w') \<and> key_agrees k k' \<and>
     (\<forall>m. apart kr m n \<longrightarrow> fst (KeyringGetKey ev kr m w') = fst (KeyringGetKey ev kr m w))"
proof -
  let ?w1 = "w\<lparr>rng := Suc (rng w)\<rparr>"
  obtain k where k: "KeyringGenerateNewKey ev n len w = (Inr k, ?w1)" "wf_key k" "cstr (ki_name k) = cstr n" "ValidateKey k"
    using generate_key_ok [OF assms(2-5)] by blast
  have l: "kd_len (ki_data k) = len" using k(1) by (auto simp: KeyringGenerateNewKey_def bindM_eq_Inr)
  obtain w' k' where s: "KeyringStoreKey ev kr k ?w1 = (Inr (), w')"
      "KeyringGetKey ev kr n w' = (Inr (KEYRING_CODE_SUCCESS, Some k'), w')" "key_agrees k k'"
      "\<forall>m. apart kr m n \<longrightarrow> fst (KeyringGetKey ev kr m w') = fst (KeyringGetKey ev kr m ?w1)"
    using store [OF ready_rng [OF assms(1), of "Suc (rng w)"] k(2,4) assms(3) k(3) l] get_rng [OF assms(1)] assms(6) by auto
  have "KeyringGenerateNewKeyAndStore ev kr n len w = (Inr k, w')"
    using k(1) s(1) by (simp add: KeyringGenerateNewKeyAndStore_def runM)
  then show ?thesis using s(2-4) l get_rng [OF assms(1)] by auto
qed

end

section \<open>File keyrings\<close>

definition file_ready :: "env \<Rightarrow> GenericKeyring \<Rightarrow> bytes \<Rightarrow> u32 \<Rightarrow> world \<Rightarrow> bool" where
  "file_ready ev kr n len w \<longleftrightarrow> gk_type kr = FILE_KEY_PROVIDER \<and> file_name kr \<noteq> None \<and> io w = []"

definition file_apart :: "GenericKeyring \<Rightarrow> bytes \<Rightarrow> bytes \<Rightarrow> bool" where
  "file_apart kr m n \<longleftrightarrow> \<not> pg_strcasecmp_eq (take TDE_KEY_NAME_LEN m) n"

interpretation file_kind: keyring_kind file_ready file_apart
proof
  fix ev kr n len w i m
  assume "file_ready ev kr n len w"
  then show "file_ready ev kr n len (w\<lparr>rng := i\<rparr>)" by (simp add: file_ready_def)
  from \<open>file_ready ev kr n len w\<close> show "fst (KeyringGetKey ev kr m (w\<lparr>rng := i\<rparr>)) = fst (KeyringGetKey ev kr m w)"
    by (auto simp: file_ready_def keyring_get_file)
next
  fix ev kr len w k n
  assume a: "file_ready ev kr n len w" "wf_key k" "ValidateKey k" "length (cstr n) < TDE_KEY_NAME_LEN" "cstr (ki_name k) = cstr n"
    and "fst (KeyringGetKey ev kr n w) = Inr (KEYRING_CODE_SUCCESS, None)"
  then obtain fn where kr: "gk_type kr = FILE_KEY_PROVIDER" "file_name kr = Some fn" "io w = []" by (auto simp: file_ready_def)
  with file_store_get [OF kr a(2-5)] \<open>fst (KeyringGetKey ev kr n w) = _\<close>
  show "\<exists>w' k'. KeyringStoreKey ev kr k w = (Inr (), w') \<and> KeyringGetKey ev kr n w' = (Inr (KEYRING_CODE_SUCCESS, Some k'), w') \<and>
      key_agrees k k' \<and> (\<forall>m. file_apart kr m n \<longrightarrow> fst (KeyringGetKey ev kr m w') = fst (KeyringGetKey ev kr m w))"
    unfolding file_apart_def key_agrees_def by blast
qed

section \<open>Keys that come back from a server\<close>

lemma fit_name:
  assumes "length (cstr n) < TDE_KEY_NAME_LEN" "cstr n \<noteq> []"
  shows "cstr (fit TDE_KEY_NAME_LEN (take (TDE_KEY_NAME_LEN - 1) (cstr n))) = cstr n"
    "fit TDE_KEY_NAME_LEN (take (TDE_KEY_NAME_LEN - 1) (cstr n)) ! 0 \<noteq> 0"
proof -
  obtain x xs where x: "cstr n = x # xs" using assms(2) by (meson neq_Nil_conv)
  then have "x \<noteq> 0" using cstr_no_zero [of n] by auto
  then show "fit TDE_KEY_NAME_LEN (take (TDE_KEY_NAME_LEN - 1) (cstr n)) ! 0 \<noteq> 0"
    using x assms(1) by (simp add: fit_def)
  show "cstr (fit TDE_KEY_NAME_LEN (take (TDE_KEY_NAME_LEN - 1) (cstr n))) = cstr n"
    using cstr_fit [of n TDE_KEY_NAME_LEN] assms(1) by simp
qed

lemma valid_name: "ValidateKey k \<Longrightarrow> wf_key k \<Longrightarrow> cstr (ki_name k) \<noteq> []"
  by (cases "ki_name k") (auto simp: ValidateKey_def wf_key_def cstr_def split: if_splits)

lemma valid_len: "ValidateKey k \<Longrightarrow> kd_len (ki_data k) = 16 \<or> kd_len (ki_data k) = 32"
  by (auto simp: ValidateKey_def size_consts split: if_splits)

lemma length_material: "wf_key k \<Longrightarrow> ValidateKey k \<Longrightarrow> length (kd_material (ki_data k)) = unat (kd_len (ki_data k))"
  by (drule valid_len) (auto simp: kd_material_def wf_key_def size_consts)

definition fetched_key :: "env \<Rightarrow> bytes \<Rightarrow> bytes \<Rightarrow> KeyInfo" where
  "fetched_key ev n d = \<lparr>ki_name = fit TDE_KEY_NAME_LEN (take (TDE_KEY_NAME_LEN - 1) (cstr n)),
     ki_data = \<lparr>kd_data = overlay KEY_DATA_SIZE_256 d (garbage ev KEY_DATA_SIZE_256), kd_len = of_nat (length d)\<rparr>\<rparr>"

lemma fetched_key_ok:
  assumes "wf_key k" "ValidateKey k" "length (cstr n) < TDE_KEY_NAME_LEN" "cstr (ki_name k) = cstr n"
  shows "ValidateKey (fetched_key ev n (kd_material (ki_data k)))" "key_agrees k (fetched_key ev n (kd_material (ki_data k)))"
proof -
  let ?d = "kd_material (ki_data k)"
  have n: "cstr n \<noteq> []" using valid_name [OF assms(2,1)] assms(4) by simp
  have d: "length ?d = unat (kd_len (ki_data k))" by (rule length_material [OF assms(1,2)])
  have l: "of_nat (length ?d) = kd_len (ki_data k)" unfolding d by simp
  show "ValidateKey (fetched_key ev n ?d)"
    using fit_name [OF assms(3) n] l valid_len [OF assms(2)] by (auto simp: ValidateKey_def fetched_key_def size_consts)
  have "length ?d \<le> 32" using d valid_len [OF assms(2)] by auto
  then have "take (length ?d) (overlay KEY_DATA_SIZE_256 ?d (garbage ev KEY_DATA_SIZE_256)) = ?d"
    by (intro take_overlay) (simp add: size_consts)
  then show "key_agrees k (fetched_key ev n ?d)"
    using fit_name [OF assms(3) n] assms(4) l d by (simp add: key_agrees_def fetched_key_def kd_material_def [of "\<lparr>kd_data = _, kd_len = _\<rparr>"])
qed

section \<open>OpenBao keyrings\<close>

definition curl_ok :: "env \<Rightarrow> bool" where
  "curl_ok ev \<longleftrightarrow> curl_easy_init ev \<and> (\<forall>opt. curl_easy_setopt ev opt)"

text \<open>Base64 of \<open>n\<close> bytes: fits the buffer, needs no quoting in a JSON string, and is undone by the decoder.\<close>

definition plain_text :: "bytes \<Rightarrow> bool" where
  "plain_text e \<longleftrightarrow> length e < 64 \<and> set e \<inter> {0, 34, 92} = {}"

definition b64_ok :: "env \<Rightarrow> nat \<Rightarrow> bool" where
  "b64_ok ev n \<longleftrightarrow> (\<forall>d. length d = n \<longrightarrow> (\<exists>e. pg_b64_encode ev d 64 = Some e \<and> plain_text e \<and>
     pg_b64_decode ev e KEY_DATA_SIZE_256 = Some d))"

text \<open>The options of the requests.\<close>

definition openbao_request :: "GenericKeyring \<Rightarrow> bytes \<Rightarrow> bytes option \<Rightarrow> curl_opt list" where
  "openbao_request kr u d =
     (case openbao_ca_path kr of None \<Rightarrow> [] | Some ca \<Rightarrow> if length (cstr ca) \<noteq> 0 then [CURLOPT_CAINFO (cstr ca)] else []) @
     [CURLOPT_FOLLOWLOCATION 0, CURLOPT_CONNECTTIMEOUT 3, CURLOPT_TIMEOUT 10, CURLOPT_HTTP_VERSION_1_1,
      CURLOPT_WRITEFUNCTION, CURLOPT_WRITEDATA, CURLOPT_URL u] @
     (case d of None \<Rightarrow> [] | Some d \<Rightarrow> [CURLOPT_POSTFIELDS d]) @ [CURLOPT_HTTPHEADER (openbao_headers kr)]"

text \<open>
  A Key/Value (version 2) engine, mounted where the keyring says, that is up and whose token may write: for names of letters, digits, dashes and underscores, which mean the same
  in a URL with and without escapes, and whose URL is not cut off, a write is accepted, reading the path of the last write gives a
  document that holds what was written under \<open>data.data\<close>, and reading the path of another such name gives what it gave before.
\<close>

definition holds_key :: "env \<Rightarrow> bytes \<Rightarrow> (int \<times> bytes list) option \<Rightarrow> bool" where
  "holds_key ev b r \<longleftrightarrow> (\<exists>chunks doc t. r = Some (200, chunks) \<and> json_parse ev (concat chunks) = (jevents doc, True) \<and>
     json_path [bytes_of ''data'', bytes_of ''data'', bytes_of ''key''] doc = Some (JScalar t b) \<and> count_at (bytes_of ''key'') 2 doc = 1)"

definition name_char :: "byte \<Rightarrow> bool" where
  "name_char c \<longleftrightarrow> 48 \<le> c \<and> c \<le> 57 \<or> 65 \<le> c \<and> c \<le> 90 \<or> 97 \<le> c \<and> c \<le> 122 \<or> c = 45 \<or> c = 95"

definition kv2_name :: "GenericKeyring \<Rightarrow> bytes \<Rightarrow> bool" where
  "kv2_name kr n \<longleftrightarrow> cstr n \<noteq> [] \<and> list_all name_char (cstr n) \<and>
     length (fmt_s (openbao_url kr) @ bytes_of ''/v1/'' @ fmt_s (openbao_mount_path kr) @ bytes_of ''/data/'' @ cstr n) < OPENBAO_URL_MAX_LEN"

abbreviation kv2_put :: "GenericKeyring \<Rightarrow> bytes \<Rightarrow> bytes \<Rightarrow> curl_opt list" where
  "kv2_put kr n b \<equiv> openbao_request kr (get_keyring_openbao_url kr n) (Some (openbao_key_json b))"

abbreviation kv2_get :: "GenericKeyring \<Rightarrow> bytes \<Rightarrow> curl_opt list" where
  "kv2_get kr n \<equiv> openbao_request kr (get_keyring_openbao_url kr n) None"

definition kv2_server :: "env \<Rightarrow> GenericKeyring \<Rightarrow> bool" where
  "kv2_server ev kr \<longleftrightarrow> (\<forall>l n b. kv2_name kr n \<and> plain_text b \<longrightarrow>
     (\<exists>code chunks. http_response ev l (kv2_put kr n b) = Some (code, chunks) \<and> code div 100 = 2) \<and>
     holds_key ev b (http_response ev (l @ [kv2_put kr n b]) (kv2_get kr n)) \<and>
     (\<forall>m. kv2_name kr m \<and> cstr m \<noteq> cstr n \<longrightarrow> http_response ev (l @ [kv2_put kr n b]) (kv2_get kr m) = http_response ev l (kv2_get kr m)))"

lemma kv2_write:
  "kv2_server ev kr \<Longrightarrow> kv2_name kr n \<Longrightarrow> plain_text b \<Longrightarrow> \<exists>code chunks. http_response ev l (kv2_put kr n b) = Some (code, chunks) \<and> code div 100 = 2"
  by (simp add: kv2_server_def)

lemma kv2_read:
  assumes "kv2_server ev kr" "kv2_name kr n" "plain_text b"
  shows "\<exists>chunks. http_response ev (l @ [kv2_put kr n b]) (kv2_get kr n) = Some (200, chunks) \<and>
       map_option jr_key (parse_json_response ev (concat chunks)) = Some (Some b)"
proof -
  have "holds_key ev b (http_response ev (l @ [kv2_put kr n b]) (kv2_get kr n))" using assms by (simp add: kv2_server_def)
  then show ?thesis unfolding holds_key_def using response_key by blast
qed

lemma kv2_other:
  "kv2_server ev kr \<Longrightarrow> kv2_name kr n \<Longrightarrow> plain_text b \<Longrightarrow> kv2_name kr m \<Longrightarrow> cstr m \<noteq> cstr n \<Longrightarrow>
     http_response ev (l @ [kv2_put kr n b]) (kv2_get kr m) = http_response ev l (kv2_get kr m)"
  by (simp add: kv2_server_def)

definition openbao_ready :: "env \<Rightarrow> GenericKeyring \<Rightarrow> bytes \<Rightarrow> u32 \<Rightarrow> world \<Rightarrow> bool" where
  "openbao_ready ev kr n len w \<longleftrightarrow> gk_type kr = OPENBAO_KEY_PROVIDER \<and> curl_ok ev \<and> b64_ok ev (unat len) \<and> kv2_server ev kr \<and> kv2_name kr n"

definition openbao_apart :: "GenericKeyring \<Rightarrow> bytes \<Rightarrow> bytes \<Rightarrow> bool" where
  "openbao_apart kr m n \<longleftrightarrow> kv2_name kr m \<and> cstr m \<noteq> cstr n"

lemma foldl_write_func: "foldl write_func b cs = b @ concat cs"
  by (induction cs arbitrary: b) (auto simp: write_func_def)

lemma curl_perform_eq:
  assumes "curl_ok ev"
  shows "curl_perform ev kr u d w =
     (Inr (map_option (\<lambda>(code, chunks). (code, concat chunks)) (http_response ev (http_log w) (openbao_request kr u d))),
      if d = None then w else w\<lparr>http_log := http_log w @ [openbao_request kr u d]\<rparr>)"
  using assms
  by (auto simp: curl_perform_def curlSetupSession_def curl_ok_def Let_def runM openbao_request_def foldl_write_func
      list_all_iff option.map_comp comp_def split_def split: option.splits)

lemma keyring_routine_openbao:
  assumes "gk_type kr = OPENBAO_KEY_PROVIDER"
  shows "find_key_provider_type (registeredKeyProviderTypes ev) (gk_type kr) = Some (keyringOpenBaoRoutine ev)"
  using assms by (simp add: find_key_provider_type_def registeredKeyProviderTypes_def provider_types)

lemma openbao_get_same:
  assumes "gk_type kr = OPENBAO_KEY_PROVIDER" "curl_ok ev"
    and "http_response ev (http_log w1) (openbao_request kr (get_keyring_openbao_url kr m) None) =
       http_response ev (http_log w2) (openbao_request kr (get_keyring_openbao_url kr m) None)"
  shows "fst (KeyringGetKey ev kr m w1) = fst (KeyringGetKey ev kr m w2)"
  using assms(3)
  by (simp add: KeyringGetKey_def keyring_routine_openbao [OF assms(1)] keyringOpenBaoRoutine_def openbao_get_key_by_name_def
      runM curl_perform_eq [OF assms(2)] split: option.splits prod.splits)

lemma openbao_get_found:
  assumes "gk_type kr = OPENBAO_KEY_PROVIDER" "curl_ok ev"
    and "http_response ev (http_log w) (openbao_request kr (get_keyring_openbao_url kr n) None) = Some (200, chunks)"
    and "map_option jr_key (parse_json_response ev (concat chunks)) = Some (Some b)" "cstr b = b"
    and "pg_b64_decode ev b KEY_DATA_SIZE_256 = Some d" "ValidateKey (fetched_key ev n d)"
  shows "KeyringGetKey ev kr n w = (Inr (KEYRING_CODE_SUCCESS, Some (fetched_key ev n d)), w)"
  using assms(3-)
  by (auto simp: KeyringGetKey_def keyring_routine_openbao [OF assms(1)] keyringOpenBaoRoutine_def openbao_get_key_by_name_def
      runM curl_perform_eq [OF assms(2)] fetched_key_def)

lemma openbao_store_ok:
  assumes "gk_type kr = OPENBAO_KEY_PROVIDER" "curl_ok ev" "kv2_server ev kr"
    and "pg_b64_encode ev (kd_material (ki_data k)) 64 = Some b" "plain_text b" "cstr (ki_name k) = cstr n" "kv2_name kr n"
  shows "KeyringStoreKey ev kr k w = (Inr (), w\<lparr>http_log := http_log w @
     [openbao_request kr (get_keyring_openbao_url kr n) (Some (openbao_key_json b))]\<rparr>)"
proof -
  have u: "get_keyring_openbao_url kr (ki_name k) = get_keyring_openbao_url kr n"
    using assms(6) by (simp add: get_keyring_openbao_url_def)
  have c: "cstr b = b" using assms(5) by (intro cstr_id) (auto simp: plain_text_def)
  let ?r = "openbao_request kr (get_keyring_openbao_url kr n) (Some (openbao_key_json b))"
  have "\<exists>code chunks. http_response ev (http_log w) ?r = Some (code, chunks) \<and> code div 100 = 2"
    by (rule kv2_write [OF assms(3,7,5)])
  then show ?thesis
    using assms(4) c u
    by (auto simp: KeyringStoreKey_def keyring_routine_openbao [OF assms(1)] keyringOpenBaoRoutine_def openbao_set_key_by_name_def
        runM curl_perform_eq [OF assms(2)])
qed

interpretation openbao_kind: keyring_kind openbao_ready openbao_apart
proof
  fix ev kr n len w i m
  assume "openbao_ready ev kr n len w"
  then show "openbao_ready ev kr n len (w\<lparr>rng := i\<rparr>)" by (simp add: openbao_ready_def)
  from \<open>openbao_ready ev kr n len w\<close> show "fst (KeyringGetKey ev kr m (w\<lparr>rng := i\<rparr>)) = fst (KeyringGetKey ev kr m w)"
    by (intro openbao_get_same) (simp_all add: openbao_ready_def)
next
  fix ev kr len w k n
  assume r: "openbao_ready ev kr n len w" and k: "wf_key k" "ValidateKey k" "length (cstr n) < TDE_KEY_NAME_LEN" "cstr (ki_name k) = cstr n"
    and len: "kd_len (ki_data k) = len"
  let ?u = "get_keyring_openbao_url kr"
  have o: "gk_type kr = OPENBAO_KEY_PROVIDER" "curl_ok ev" "kv2_server ev kr" "b64_ok ev (unat len)" "kv2_name kr n"
    using r by (simp_all add: openbao_ready_def)
  obtain b where b: "pg_b64_encode ev (kd_material (ki_data k)) 64 = Some b" "plain_text b"
      "pg_b64_decode ev b KEY_DATA_SIZE_256 = Some (kd_material (ki_data k))"
    using o(4) length_material [OF k(1,2)] len unfolding b64_ok_def by blast
  have c: "cstr b = b" using b(2) by (intro cstr_id) (auto simp: plain_text_def)
  let ?r = "openbao_request kr (?u n) (Some (openbao_key_json b))"
  let ?w' = "w\<lparr>http_log := http_log w @ [?r]\<rparr>"
  have st: "KeyringStoreKey ev kr k w = (Inr (), ?w')" by (rule openbao_store_ok [OF o(1-3) b(1,2) k(4) o(5)])
  obtain chunks where "http_response ev (http_log w @ [?r]) (openbao_request kr (?u n) None) = Some (200, chunks)"
      "map_option jr_key (parse_json_response ev (concat chunks)) = Some (Some b)"
    using kv2_read [OF o(3,5) b(2), of "http_log w"] by auto
  then have "KeyringGetKey ev kr n ?w' = (Inr (KEYRING_CODE_SUCCESS, Some (fetched_key ev n (kd_material (ki_data k)))), ?w')"
    by (intro openbao_get_found [OF o(1,2) _ _ c b(3) fetched_key_ok(1) [OF k]]) simp_all
  moreover have "fst (KeyringGetKey ev kr m ?w') = fst (KeyringGetKey ev kr m w)" if "openbao_apart kr m n" for m
    using that kv2_other [OF o(3,5) b(2), of m "http_log w"]
    by (intro openbao_get_same [OF o(1,2)]) (simp add: openbao_apart_def)
  ultimately show "\<exists>w' k'. KeyringStoreKey ev kr k w = (Inr (), w') \<and> KeyringGetKey ev kr n w' = (Inr (KEYRING_CODE_SUCCESS, Some k'), w') \<and>
      key_agrees k k' \<and> (\<forall>m. openbao_apart kr m n \<longrightarrow> fst (KeyringGetKey ev kr m w') = fst (KeyringGetKey ev kr m w))"
    using st fetched_key_ok(2) [OF k] by blast
qed

section \<open>KMIP keyrings\<close>

text \<open>
  A KMIP server that holds the keys \<open>l\<close>, is up, and whose client certificate may register: it registers a key under a name that has none, finds it by that name under an
  identifier that fits the client's buffer, gives its bytes back, and does not touch other keys.
\<close>

definition kmip_server :: "env \<Rightarrow> (bytes \<times> bytes) list \<Rightarrow> bool" where
  "kmip_server ev l \<longleftrightarrow> (\<forall>n k. kmip_locate ev l n = (0, []) \<longrightarrow>
     kmip_register_symmetric_key ev l n k = 0 \<and>
     (\<exists>i. kmip_locate ev (l @ [(n, k)]) n = (0, [i]) \<and> length i < MAX_LOCATE_LEN \<and> cstr i = i \<and>
        kmip_get_symmetric_key ev (l @ [(n, k)]) i = (0, k)) \<and>
     (\<forall>m. m \<noteq> n \<longrightarrow> kmip_locate ev (l @ [(n, k)]) m = kmip_locate ev l m \<and>
        (\<forall>i\<in>set (snd (kmip_locate ev l m)). length i < MAX_LOCATE_LEN \<and> cstr i = i \<and>
           kmip_get_symmetric_key ev (l @ [(n, k)]) i = kmip_get_symmetric_key ev l i)))"

definition kmip_ready :: "env \<Rightarrow> GenericKeyring \<Rightarrow> bytes \<Rightarrow> u32 \<Rightarrow> world \<Rightarrow> bool" where
  "kmip_ready ev kr n len w \<longleftrightarrow> gk_type kr = KMIP_KEY_PROVIDER \<and> kmip_first_failure ev kr = None \<and> kmip_server ev (kmip_log w)"

definition kmip_apart :: "GenericKeyring \<Rightarrow> bytes \<Rightarrow> bytes \<Rightarrow> bool" where
  "kmip_apart kr m n \<longleftrightarrow> kmip_name m \<noteq> kmip_name n"

lemma keyring_routine_kmip:
  assumes "gk_type kr = KMIP_KEY_PROVIDER"
  shows "find_key_provider_type (registeredKeyProviderTypes ev) (gk_type kr) = Some (keyringKmipRoutine ev)"
  using assms by (simp add: find_key_provider_type_def registeredKeyProviderTypes_def provider_types)

text \<open>What fetching computes from the answers to the two requests.\<close>

definition kmip_fetch :: "env \<Rightarrow> bytes \<Rightarrow> int \<times> bytes list \<Rightarrow> (bytes \<Rightarrow> int \<times> bytes) \<Rightarrow> nat \<times> KeyInfo option" where
  "kmip_fetch ev n located fetch =
     (if fst located \<noteq> 0 then (KEYRING_CODE_RESOURCE_NOT_AVAILABLE, None)
      else case snd located of
        [] \<Rightarrow> (KEYRING_CODE_SUCCESS, None)
      | [i] \<Rightarrow> (let (r, d) = fetch (cstr (take MAX_LOCATE_LEN i)) in
          if r \<noteq> 0 then (KEYRING_CODE_RESOURCE_NOT_AVAILABLE, None)
          else if length d > KEY_DATA_SIZE_256 then (KEYRING_CODE_INVALID_KEY, None)
          else (KEYRING_CODE_SUCCESS, Some (fetched_key ev n d)))
      | _ \<Rightarrow> (KEYRING_CODE_RESOURCE_NOT_AVAILABLE, None))"

lemma kmip_get_eq:
  assumes "gk_type kr = KMIP_KEY_PROVIDER" "kmip_first_failure ev kr = None"
  shows "KeyringGetKey ev kr n w =
     (Inr (case kmip_fetch ev n (kmip_locate ev (kmip_log w) (kmip_name n)) (kmip_get_symmetric_key ev (kmip_log w)) of
        (c, None) \<Rightarrow> (c, None)
      | (c, Some k) \<Rightarrow> if c \<noteq> KEYRING_CODE_SUCCESS then (c, None) else if ValidateKey k then (c, Some k) else (KEYRING_CODE_INVALID_KEY, None)), w)"
proof -
  obtain r ids where l: "kmip_locate ev (kmip_log w) (kmip_name n) = (r, ids)" by fastforce
  consider "ids = []" | i where "ids = [i]" | i j js where "ids = i # j # js" by (metis neq_Nil_conv)
  then have "kmip_get_key_by_name ev kr n w =
     (Inr (kmip_fetch ev n (kmip_locate ev (kmip_log w) (kmip_name n)) (kmip_get_symmetric_key ev (kmip_log w))), w)"
    by cases (simp_all add: kmip_get_key_by_name_def kmipSslConnect_def assms(2) open_pg_tde_kmip_locate_key_def open_pg_tde_kmip_get_key_def
        runM l kmip_fetch_def fetched_key_def split_def Let_def)
  then show ?thesis
    by (simp add: KeyringGetKey_def keyring_routine_kmip [OF assms(1)] keyringKmipRoutine_def runM split: prod.splits option.splits)
qed

lemma kmip_fetch_cong:
  "(\<And>i. i \<in> set (snd l) \<Longrightarrow> length i < MAX_LOCATE_LEN \<and> cstr i = i \<and> f i = g i) \<Longrightarrow> kmip_fetch ev n l f = kmip_fetch ev n l g"
  by (cases "snd l") (auto simp: kmip_fetch_def split: list.splits)

lemma kmip_fetch_none: "kmip_fetch ev n l f = (KEYRING_CODE_SUCCESS, None) \<Longrightarrow> l = (0, [])"
  by (cases l) (auto simp: kmip_fetch_def keyring_codes split: if_splits list.splits prod.splits)

lemma kmip_fetch_valid:
  "kmip_fetch ev n l f = (c, Some k) \<Longrightarrow> c = KEYRING_CODE_SUCCESS"
  by (auto simp: kmip_fetch_def split: if_splits list.splits prod.splits)

interpretation kmip_kind: keyring_kind kmip_ready kmip_apart
proof
  fix ev kr n len w i m
  assume "kmip_ready ev kr n len w"
  then show "kmip_ready ev kr n len (w\<lparr>rng := i\<rparr>)" by (simp add: kmip_ready_def)
  show "fst (KeyringGetKey ev kr m (w\<lparr>rng := i\<rparr>)) = fst (KeyringGetKey ev kr m w)"
    using \<open>kmip_ready ev kr n len w\<close> by (simp add: kmip_ready_def kmip_get_eq)
next
  fix ev kr len w k n
  assume r: "kmip_ready ev kr n len w" and k: "wf_key k" "ValidateKey k" "length (cstr n) < TDE_KEY_NAME_LEN" "cstr (ki_name k) = cstr n"
    and "fst (KeyringGetKey ev kr n w) = Inr (KEYRING_CODE_SUCCESS, None)"
  let ?l = "kmip_log w" and ?n = "kmip_name n" and ?d = "kd_material (ki_data k)"
  let ?w' = "w\<lparr>kmip_log := ?l @ [(?n, ?d)]\<rparr>"
  have o: "gk_type kr = KMIP_KEY_PROVIDER" "kmip_first_failure ev kr = None" "kmip_server ev ?l"
    using r by (simp_all add: kmip_ready_def)
  have none: "kmip_locate ev ?l ?n = (0, [])"
    using \<open>fst (KeyringGetKey ev kr n w) = _\<close> kmip_fetch_valid
    by (intro kmip_fetch_none) (force simp: kmip_get_eq [OF o(1,2)] keyring_codes split: prod.splits option.splits if_splits)
  with o(3) [unfolded kmip_server_def, THEN spec, THEN spec, of ?n ?d] obtain i where i: "kmip_register_symmetric_key ev ?l ?n ?d = 0" "kmip_locate ev (?l @ [(?n, ?d)]) ?n = (0, [i])"
      "length i < MAX_LOCATE_LEN" "cstr i = i" "kmip_get_symmetric_key ev (?l @ [(?n, ?d)]) i = (0, ?d)"
    by blast
  have nm: "kmip_name (ki_name k) = ?n" using k(4) by (simp add: kmip_name_def)
  have st: "KeyringStoreKey ev kr k w = (Inr (), ?w')"
    using o(2) i(1) nm
    by (simp add: KeyringStoreKey_def keyring_routine_kmip [OF o(1)] keyringKmipRoutine_def kmip_set_key_by_name_def kmipSslConnect_def
        open_pg_tde_kmip_set_by_name_def runM)
  have "length ?d \<le> KEY_DATA_SIZE_256" using length_material [OF k(1,2)] valid_len [OF k(2)] by (auto simp: size_consts)
  then have "KeyringGetKey ev kr n ?w' = (Inr (KEYRING_CODE_SUCCESS, Some (fetched_key ev n ?d)), ?w')"
    using i fetched_key_ok(1) [OF k] by (simp add: kmip_get_eq [OF o(1,2)] kmip_fetch_def)
  moreover have "fst (KeyringGetKey ev kr m ?w') = fst (KeyringGetKey ev kr m w)" if "kmip_apart kr m n" for m
  proof -
    have "kmip_locate ev (?l @ [(?n, ?d)]) (kmip_name m) = kmip_locate ev ?l (kmip_name m) \<and>
        (\<forall>i\<in>set (snd (kmip_locate ev ?l (kmip_name m))). length i < MAX_LOCATE_LEN \<and> cstr i = i \<and>
           kmip_get_symmetric_key ev (?l @ [(?n, ?d)]) i = kmip_get_symmetric_key ev ?l i)"
      using that none o(3) [unfolded kmip_server_def, THEN spec, THEN spec, of ?n ?d] unfolding kmip_apart_def by simp
    moreover from this have "kmip_fetch ev m (kmip_locate ev ?l (kmip_name m)) (kmip_get_symmetric_key ev (?l @ [(?n, ?d)])) =
        kmip_fetch ev m (kmip_locate ev ?l (kmip_name m)) (kmip_get_symmetric_key ev ?l)"
      by (intro kmip_fetch_cong) blast
    ultimately show ?thesis by (simp add: kmip_get_eq [OF o(1,2)])
  qed
  ultimately show "\<exists>w' k'. KeyringStoreKey ev kr k w = (Inr (), w') \<and> KeyringGetKey ev kr n w' = (Inr (KEYRING_CODE_SUCCESS, Some k'), w') \<and>
      key_agrees k k' \<and> (\<forall>m. kmip_apart kr m n \<longrightarrow> fst (KeyringGetKey ev kr m w') = fst (KeyringGetKey ev kr m w))"
    using st fetched_key_ok(2) [OF k] by blast
qed

section \<open>All kinds\<close>

definition keyring_ready :: "env \<Rightarrow> GenericKeyring \<Rightarrow> bytes \<Rightarrow> u32 \<Rightarrow> world \<Rightarrow> bool" where
  "keyring_ready ev kr n len w \<longleftrightarrow> file_ready ev kr n len w \<or> openbao_ready ev kr n len w \<or> kmip_ready ev kr n len w"

definition names_apart :: "GenericKeyring \<Rightarrow> bytes \<Rightarrow> bytes \<Rightarrow> bool" where
  "names_apart kr m n \<longleftrightarrow>
     (if gk_type kr = FILE_KEY_PROVIDER then file_apart kr m n
      else if gk_type kr = OPENBAO_KEY_PROVIDER then openbao_apart kr m n else kmip_apart kr m n)"

text \<open>
  C16. Creating a key in a keyring of any kind and fetching it back: if the keyring has no key of that name, the generated key is stored and
  fetching by that name afterwards succeeds with the same name, length and key bytes; what fetching gives for names that are different ones to
  this kind of keyring is the same as before. A file keyring compares names without case, and no disk failure is assumed; KMIP
  sees the first 250 bytes of a name. For OpenBao, names of letters, digits, dashes and underscores are covered, whose URL fits the buffer. The key servers are assumed to be up,
  to let the client write, and to behave as documented, and so are libcurl and base64.
\<close>

theorem keyring_store_get:
  assumes "keyring_ready ev kr n len w" "rand_ok ev" "length (cstr n) < TDE_KEY_NAME_LEN" "cstr n \<noteq> []" "len = 16 \<or> len = 32"
    and "fst (KeyringGetKey ev kr n w) = Inr (KEYRING_CODE_SUCCESS, None)"
  shows "\<exists>k k' w'. KeyringGenerateNewKeyAndStore ev kr n len w = (Inr k, w') \<and> kd_len (ki_data k) = len \<and>
     KeyringGetKey ev kr n w' = (Inr (KEYRING_CODE_SUCCESS, Some k'), w') \<and> key_agrees k k' \<and>
     (\<forall>m. names_apart kr m n \<longrightarrow> fst (KeyringGetKey ev kr m w') = fst (KeyringGetKey ev kr m w))"
  using assms(1) unfolding keyring_ready_def
proof (elim disjE)
  assume r: "file_ready ev kr n len w"
  then have "names_apart kr = file_apart kr" by (intro ext) (simp add: names_apart_def file_ready_def)
  then show ?thesis using file_kind.generate_store_get [OF r assms(2-)] by simp
next
  assume r: "openbao_ready ev kr n len w"
  then have "names_apart kr = openbao_apart kr" by (intro ext) (simp add: names_apart_def openbao_ready_def provider_types)
  then show ?thesis using openbao_kind.generate_store_get [OF r assms(2-)] by simp
next
  assume r: "kmip_ready ev kr n len w"
  then have "names_apart kr = kmip_apart kr" by (intro ext) (simp add: names_apart_def kmip_ready_def provider_types)
  then show ?thesis using kmip_kind.generate_store_get [OF r assms(2-)] by simp
qed

definition demo_keyring :: "u32 \<Rightarrow> GenericKeyring" where
  "demo_keyring t = (palloc0_keyring t)\<lparr>keyring_id := 1, file_name := Some [47, 107], openbao_url := Some [104], openbao_token := Some [116],
     openbao_mount_path := Some [109], openbao_ca_path := None, openbao_namespace := None\<rparr>"

lemma demo_pairs_b64: "demo_pairs (concat (map (\<lambda>b. [97 + b div 16, 97 + b mod 16]) d)) = d"
proof (induction d)
  case (Cons b d)
  have "16 * (b div 16) + b mod 16 = b" by (rule mult_div_mod_eq)
  then show ?case using Cons by simp
qed simp

lemma letter: "(x :: byte) < 16 \<Longrightarrow> 97 + x \<notin> {0, 34, 92}"
proof -
  assume "x < 16"
  then have "unat x < 16" by (simp add: word_less_nat_alt)
  then have "unat (97 + x) = 97 + unat x" by (subst unat_add_lem [THEN iffD1]) simp_all
  then have "unat (97 + x) \<notin> unat ` {0 :: byte, 34, 92}" by simp
  then show ?thesis by blast
qed

lemma demo_b64_ok: "b64_ok demo_env 16"
proof -
  have div: "(b :: byte) div 16 < 16" for b
    using unsigned_less [of b, where ?'a = nat] by (simp add: word_less_nat_alt unat_div less_mult_imp_div_less)
  have mod: "(b :: byte) mod 16 < 16" for b by (simp add: word_mod_less_divisor)
  have "plain_text (concat (map (\<lambda>b. [97 + b div 16, 97 + b mod 16]) d))" if "length d = 16" for d :: bytes
  proof -
    have "length (concat (map (\<lambda>b. [97 + b div 16, 97 + b mod 16]) d)) = 2 * length d" by (induction d) simp_all
    then show ?thesis using that letter [OF div] letter [OF mod] by (auto simp: plain_text_def)
  qed
  then show ?thesis
    by (auto simp: b64_ok_def demo_env_def demo_b64_def demo_unb64_def demo_pairs_b64 size_consts length_concat comp_def sum_list_triv)
qed

lemma demo_key_json: "length b < 64 \<Longrightarrow> openbao_key_json b = demo_quote @ b @ [34, 125, 125]"
  by (simp add: openbao_key_json_def snprintf_def demo_quote_def bytes_of_def)

lemma demo_request [simp]: "demo_url (openbao_request kr u d) = u" "demo_body (openbao_request kr u d) = (case d of None \<Rightarrow> [] | Some b \<Rightarrow> b)"
  by (cases d; cases "openbao_ca_path kr"; simp add: demo_url_def demo_body_def openbao_request_def)+

lemma kv2_url:
  "kv2_name kr n \<Longrightarrow> get_keyring_openbao_url kr n = fmt_s (openbao_url kr) @ bytes_of ''/v1/'' @ fmt_s (openbao_mount_path kr) @ bytes_of ''/data/'' @ cstr n"
  unfolding kv2_name_def get_keyring_openbao_url_def snprintf_def by (intro take_all) linarith

lemma kv2_url_inj: "kv2_name kr m \<Longrightarrow> kv2_name kr n \<Longrightarrow> get_keyring_openbao_url kr m = get_keyring_openbao_url kr n \<Longrightarrow> cstr m = cstr n"
  by (simp add: kv2_url)

lemma demo_kv2: "kv2_server demo_env kr"
proof -
  have "holds_key demo_env b (http_response demo_env (l @ [kv2_put kr n b]) (kv2_get kr n))"
    "\<exists>code chunks. http_response demo_env l (kv2_put kr n b) = Some (code, chunks) \<and> code div 100 = 2"
    if "plain_text b" for l n b
  proof -
    have b: "openbao_key_json b = demo_quote @ b @ [34, 125, 125]" using that by (intro demo_key_json) (simp add: plain_text_def)
    let ?doc = "JObject [JField demo_data (JObject [JField demo_data (JObject [JField [107, 101, 121] (JScalar JSON_TOKEN_STRING b)])])]"
    have "http_response demo_env (l @ [kv2_put kr n b]) (kv2_get kr n) = Some (200, [openbao_key_json b])"
      by (simp add: demo_env_def demo_http_def)
    moreover have "json_parse demo_env (openbao_key_json b) = (jevents ?doc, True)"
      unfolding b by (simp add: demo_env_def demo_json_def demo_quote_def)
    ultimately show "holds_key demo_env b (http_response demo_env (l @ [kv2_put kr n b]) (kv2_get kr n))"
      unfolding holds_key_def by (intro exI [of _ "[openbao_key_json b]"] exI [of _ ?doc] exI [of _ JSON_TOKEN_STRING])
        (simp add: bytes_of_def demo_data_def strcmp_eq_def cstr_def)
    show "\<exists>code chunks. http_response demo_env l (kv2_put kr n b) = Some (code, chunks) \<and> code div 100 = 2"
      by (simp add: demo_env_def demo_http_def b demo_quote_def)
  qed
  moreover have "http_response demo_env (l @ [kv2_put kr n b]) (kv2_get kr m) = http_response demo_env l (kv2_get kr m)"
    if "kv2_name kr n" "kv2_name kr m" "cstr m \<noteq> cstr n" for l n m b
    using that kv2_url_inj [of kr m n] by (auto simp: demo_env_def demo_http_def)
  ultimately show ?thesis unfolding kv2_server_def by blast
qed

lemma demo_kmip: "kmip_server demo_env []"
  by (auto simp: kmip_server_def demo_env_def MAX_LOCATE_LEN_def cstr_def)

lemma demo_kv2_name: "kv2_name (demo_keyring OPENBAO_KEY_PROVIDER) [75]"
  by (simp add: kv2_name_def demo_keyring_def palloc0_keyring_def cstr_def name_char_def fmt_s_def bytes_of_def OPENBAO_URL_MAX_LEN_def)

lemma demo_keyrings_ready:
  "keyring_ready demo_env (demo_keyring FILE_KEY_PROVIDER) [75] 16 demo_world"
  "keyring_ready demo_env (demo_keyring OPENBAO_KEY_PROVIDER) [75] 16 demo_world"
  "keyring_ready demo_env (demo_keyring KMIP_KEY_PROVIDER) [75] 16 demo_world"
  using demo_b64_ok demo_kmip demo_kv2 demo_kv2_name
  by (simp_all add: keyring_ready_def file_ready_def openbao_ready_def kmip_ready_def demo_keyring_def palloc0_keyring_def
      demo_world_def kmip_first_failure_def curl_ok_def demo_env_def [THEN arg_cong [where f = curl_easy_init]]
      demo_env_def [THEN arg_cong [where f = curl_easy_setopt]] demo_env_def [THEN arg_cong [where f = ssl_ok]])

lemma demo_keyrings_empty:
  "fst (KeyringGetKey demo_env (demo_keyring FILE_KEY_PROVIDER) [75] demo_world) = Inr (KEYRING_CODE_SUCCESS, None)"
  "fst (KeyringGetKey demo_env (demo_keyring OPENBAO_KEY_PROVIDER) [75] demo_world) = Inr (KEYRING_CODE_SUCCESS, None)"
  "fst (KeyringGetKey demo_env (demo_keyring KMIP_KEY_PROVIDER) [75] demo_world) = Inr (KEYRING_CODE_SUCCESS, None)"
proof -
  let ?o = "demo_keyring OPENBAO_KEY_PROVIDER"
  have t: "gk_type (demo_keyring ty) = ty" "file_name (demo_keyring ty) = Some [47, 107]" for ty
    by (simp_all add: demo_keyring_def palloc0_keyring_def)
  show "fst (KeyringGetKey demo_env (demo_keyring FILE_KEY_PROVIDER) [75] demo_world) = Inr (KEYRING_CODE_SUCCESS, None)"
    using keyring_get_file [OF t] by (simp add: demo_world_def keys_of_def aligned_file_def)
  have "curl_ok demo_env" by (simp add: curl_ok_def demo_env_def)
  moreover have "http_response demo_env (http_log demo_world) (openbao_request ?o (get_keyring_openbao_url ?o [75]) None) = Some (404, [])"
    by (simp add: demo_env_def demo_world_def demo_http_def)
  ultimately show "fst (KeyringGetKey demo_env ?o [75] demo_world) = Inr (KEYRING_CODE_SUCCESS, None)"
    by (simp add: KeyringGetKey_def keyring_routine_openbao [OF t(1)] keyringOpenBaoRoutine_def openbao_get_key_by_name_def runM curl_perform_eq)
  show "fst (KeyringGetKey demo_env (demo_keyring KMIP_KEY_PROVIDER) [75] demo_world) = Inr (KEYRING_CODE_SUCCESS, None)"
    using kmip_get_eq [OF t(1), of demo_env "[75]" demo_world]
    by (simp add: kmip_first_failure_def demo_env_def demo_world_def kmip_fetch_def)
qed

theorem keyring_store_get_witness:
  "list_all (\<lambda>t. \<exists>k k' w'.
     KeyringGenerateNewKeyAndStore demo_env (demo_keyring t) [75] 16 demo_world = (Inr k, w') \<and>
     KeyringGetKey demo_env (demo_keyring t) [75] w' = (Inr (KEYRING_CODE_SUCCESS, Some k'), w') \<and> key_agrees k k')
     [FILE_KEY_PROVIDER, OPENBAO_KEY_PROVIDER, KMIP_KEY_PROVIDER]"
proof -
  have n: "length (cstr [75]) < TDE_KEY_NAME_LEN" "cstr [75] \<noteq> []" "(16 :: u32) = 16 \<or> (16 :: u32) = 32"
    by (simp_all add: cstr_def size_consts)
  show ?thesis
    using keyring_store_get [OF demo_keyrings_ready(1) demo_rand_ok n demo_keyrings_empty(1)]
      keyring_store_get [OF demo_keyrings_ready(2) demo_rand_ok n demo_keyrings_empty(2)]
      keyring_store_get [OF demo_keyrings_ready(3) demo_rand_ok n demo_keyrings_empty(3)] by auto
qed

end
