(* ===== verification/Tde_Archive.thy ===== *)
theory Tde_Archive
  imports Tde_WalSmgr
begin

text \<open>
  The two programs that wrap the archive and restore commands of the server (\<open>bin/open_pg_tde_archive_decrypt.c\<close>,
  \<open>bin/open_pg_tde_restore_encrypt.c\<close>, \<open>bin/open_pg_tde_fe_archive_common.h\<close>): a WAL segment is decrypted
  into a temporary file for the archive command, and what the restore command fetched is encrypted on its way to \<open>pg_wal\<close>.

  The record \<open>tool\<close> holds what the programs call outside the repository: the C library, and the inline functions and the page header of
  PostgreSQL. A fatal error ends the process; the handler registered with \<open>atexit\<close> runs on every way out.
\<close>

record tool =
  mkdtemp :: "string option"
  replace_percent_placeholders :: "string \<Rightarrow> string \<Rightarrow> string \<Rightarrow> string option"
  system :: "string \<Rightarrow> world \<Rightarrow> int \<times> world"
  XLogFromFileName :: "string \<Rightarrow> int \<Rightarrow> u32 \<times> u64"
  xlp_seg_size :: "bytes \<Rightarrow> int"
  unlink_fails :: "string \<Rightarrow> bool"

definition MAXPGPATH :: nat where "MAXPGPATH = 1024"

text \<open>\<open>snprintf\<close> into an array of \<open>MAXPGPATH\<close> bytes.\<close>

definition path_in :: "string \<Rightarrow> string \<Rightarrow> string" where
  "path_in dir name = take (MAXPGPATH - 1) (dir @ ''/'' @ name)"

text \<open>\<open>atoi\<close> is \<open>strtol\<close>, cut to 32 bits.\<close>

definition atoi :: "string \<Rightarrow> u32" where
  "atoi s =
     (let s = dropWhile is_space s;
          neg = (s \<noteq> [] \<and> hd s = CHR ''-'');
          s = (if s \<noteq> [] \<and> (hd s = CHR ''-'' \<or> hd s = CHR ''+'') then tl s else s);
          n = int (undigits (takeWhile is_digit s));
          v = max (- (2 ^ 63)) (min (2 ^ 63 - 1) (if neg then - n else n))
      in word_of_int v)"

section \<open>Start of a program\<close>

text \<open>The data directory is a setting of the environment; changing it drops the cached keys.\<close>

definition fe_env :: "env \<Rightarrow> string \<Rightarrow> env" where
  "fe_env ev dir = ev\<lparr>data_dir := take (MAXPGPATH - 1) dir, FRONTEND := True\<rparr>"

definition clean_fe_server_principal_key_cache :: "unit tdeM" where
  "clean_fe_server_principal_key_cache = modifyM (\<lambda>w. w\<lparr>pk_cache := (pk_cache w)(GLOBAL_DATA_TDE_OID := None)\<rparr>)"

definition open_pg_tde_set_data_dir :: "unit tdeM" where
  "open_pg_tde_set_data_dir = seqM open_pg_tde_free_wal_key_cache clean_fe_server_principal_key_cache"

definition open_pg_tde_fe_init :: "unit tdeM" where
  "open_pg_tde_fe_init = open_pg_tde_set_data_dir"

section \<open>Names\<close>

definition XLOG_FNAME_LEN :: nat where "XLOG_FNAME_LEN = 24"

definition is_segment :: "string \<Rightarrow> bool" where
  "is_segment filename \<longleftrightarrow>
     length (takeWhile (\<lambda>c. c \<in> set ''0123456789ABCDEF'') filename) = XLOG_FNAME_LEN \<and>
     (drop XLOG_FNAME_LEN filename = [] \<or> drop XLOG_FNAME_LEN filename = ''.partial'')"

text \<open>The position of the last slash.\<close>

definition strrchr_slash :: "string \<Rightarrow> nat option" where
  "strrchr_slash p =
     (if CHR ''/'' \<in> set p then Some (length p - 1 - length (takeWhile (\<lambda>c. c \<noteq> CHR ''/'') (rev p))) else None)"

definition base_name :: "string \<Rightarrow> string" where
  "base_name p = (case strrchr_slash p of Some sep \<Rightarrow> drop (sep + 1) p | None \<Rightarrow> p)"

text \<open>The copy of the directory is bounded by the length of the source, not by the array it goes to.\<close>

definition derive_tde_dir_from_segment_path :: "string \<Rightarrow> nat option \<Rightarrow> tde_error + string" where
  "derive_tde_dir_from_segment_path segpath sep =
     (case sep of
        Some i \<Rightarrow>
          if i + 1 > MAXPGPATH then Inl (E_state ''segdir overflows'')
          else Inr (take (MAXPGPATH - 1) (take i segpath @ ''/../open_pg_tde''))
      | None \<Rightarrow> Inr (take (MAXPGPATH - 1) ''../open_pg_tde''))"

section \<open>Copying segments\<close>

definition open_create :: "string \<Rightarrow> unit tdeM" where
  "open_create p = modifyM (\<lambda>w. if disk w p = None then set_file p [] w else w)"

definition IsValidWalSegSize :: "int \<Rightarrow> bool" where
  "IsValidWalSegSize n \<longleftrightarrow> list_ex (\<lambda>m. n = 2 ^ m) [20..<31]"

abbreviation BLCK :: nat where "BLCK \<equiv> 8192"

text \<open>
  The loop that reads and decrypts block by block. Every turn but the last one reads at least a byte, so the size of the file plus one is
  enough fuel.
\<close>

definition write_all :: "string \<Rightarrow> bytes \<Rightarrow> nat \<Rightarrow> unit tdeM" where
  "write_all fd d off =
     bindM (pg_pwrite fd d off) (\<lambda>n. check (\<not> n < 0 \<and> n = int (length d)) (E_write fd))"

fun decrypt_loop :: "env \<Rightarrow> nat \<Rightarrow> string \<Rightarrow> string \<Rightarrow> u32 \<Rightarrow> u64 \<Rightarrow> u64 \<Rightarrow> nat \<Rightarrow> bytes \<Rightarrow> unit tdeM" where
  "decrypt_loop ev 0 segfd tmpfd tmln segno fsize pos buf = throw (E_state ''out of fuel'')"
| "decrypt_loop ev (Suc fuel) segfd tmpfd tmln segno fsize pos buf =
     bindM (tdeheap_xlog_seg_read ev segfd buf (of_nat pos) tmln segno fsize) (\<lambda>(r, buf').
     if r = 0 then ret ()
     else if r < 0 then throw (E_state ''could not read file'')
     else seqM (write_all tmpfd (take (nat r) buf') pos) (decrypt_loop ev fuel segfd tmpfd tmln segno fsize (pos + nat r) buf'))"

definition write_decrypted_segment :: "env \<Rightarrow> tool \<Rightarrow> string \<Rightarrow> string \<Rightarrow> string \<Rightarrow> unit tdeM" where
  "write_decrypted_segment ev lib segpath segname tmppath =
     bindM (getM (\<lambda>w. disk w segpath)) (\<lambda>seg.
     seqM (check (seg \<noteq> None) (E_open segpath))
     (seqM (open_create tmppath)
     (bindM (getM (\<lambda>w. length (file_bytes w segpath))) (\<lambda>fsize.
      case XLogFromFileName lib segname (int fsize) of (tmln, segno) \<Rightarrow>
      bindM (tdeheap_xlog_seg_read ev segpath (garbage ev BLCK) 0 tmln segno (of_nat fsize)) (\<lambda>(r, buf).
      if r \<noteq> int BLCK then throw (E_state ''could not read file'')
      else
        (let walsegsz = xlp_seg_size lib buf in
         seqM (check (walsegsz = int fsize) (E_state ''mismatch of segment size in WAL file''))
         (seqM (check (IsValidWalSegSize walsegsz) (E_state ''invalid WAL segment size in WAL file''))
         (seqM (write_all tmppath buf 0)
         (decrypt_loop ev (Suc fsize) segpath tmppath tmln segno (of_nat fsize) BLCK buf)))))))))"

fun encrypt_loop :: "env \<Rightarrow> nat \<Rightarrow> string \<Rightarrow> string \<Rightarrow> u32 \<Rightarrow> u64 \<Rightarrow> u64 \<Rightarrow> nat \<Rightarrow> unit tdeM" where
  "encrypt_loop ev 0 segfd tmpfd tmln segno walsegsz pos = throw (E_state ''out of fuel'')"
| "encrypt_loop ev (Suc fuel) segfd tmpfd tmln segno walsegsz pos =
     bindM (getM (\<lambda>w. pread (file_bytes w tmpfd) BLCK pos)) (\<lambda>d.
     if length d = 0 then ret ()
     else
       bindM (tdeheap_xlog_seg_write ev segfd d (of_nat pos) tmln segno walsegsz) (\<lambda>n.
       seqM (check (\<not> n < 0 \<and> n = int (length d)) (E_write segfd))
       (encrypt_loop ev fuel segfd tmpfd tmln segno walsegsz (pos + nat n))))"

definition write_encrypted_segment :: "env \<Rightarrow> tool \<Rightarrow> string \<Rightarrow> string \<Rightarrow> string \<Rightarrow> unit tdeM" where
  "write_encrypted_segment ev lib segpath segname tmppath =
     bindM (getM (\<lambda>w. disk w tmppath)) (\<lambda>tmp.
     seqM (check (tmp \<noteq> None) (E_open tmppath))
     (seqM (open_create segpath)
     (bindM (getM (\<lambda>w. pread (file_bytes w tmppath) BLCK 0)) (\<lambda>buf.
      seqM (check (length buf = BLCK) (E_state ''could not read file''))
      (let walsegsz = xlp_seg_size lib buf in
       seqM (check (IsValidWalSegSize walsegsz) (E_state ''invalid WAL segment size in WAL file''))
       (case XLogFromFileName lib segname walsegsz of (tmln, segno) \<Rightarrow>
        seqM (TDEXLogSmgrInitWriteOldKeys ev)
        (bindM (tdeheap_xlog_seg_write ev segpath buf 0 tmln segno (of_int walsegsz)) (\<lambda>n.
         seqM (check (\<not> n < 0 \<and> n = int (length buf)) (E_write segpath))
         (bindM (getM (\<lambda>w. length (file_bytes w tmppath))) (\<lambda>tmpsize.
          encrypt_loop ev (Suc tmpsize) segpath tmppath tmln segno (of_int walsegsz) (nat n)))))))))))"

section \<open>The programs\<close>

definition cleanup_tmpdir :: "tool \<Rightarrow> string \<Rightarrow> world \<Rightarrow> world" where
  "cleanup_tmpdir lib tmppath w = (if unlink_fails lib tmppath then w else w\<lparr>disk := (disk w)(tmppath := None)\<rparr>)"

definition atexit_cleanup :: "tool \<Rightarrow> string \<Rightarrow> 'a tdeM \<Rightarrow> 'a tdeM" where
  "atexit_cleanup lib tmppath m w = (case m w of (r, w') \<Rightarrow> (r, cleanup_tmpdir lib tmppath w'))"

definition run_command :: "tool \<Rightarrow> string \<Rightarrow> unit tdeM" where
  "run_command lib command w = (case system lib command w of (rc, w') \<Rightarrow> check (rc = 0) (E_state ''command failed'') w')"

definition expand_command :: "tool \<Rightarrow> string \<Rightarrow> string \<Rightarrow> string \<Rightarrow> string tdeM" where
  "expand_command lib command f p =
     (case replace_percent_placeholders lib command f p of
        None \<Rightarrow> throw (E_state ''invalid value for the command'')
      | Some c \<Rightarrow> ret c)"

definition just_information :: "string list \<Rightarrow> bool" where
  "just_information args \<longleftrightarrow> args \<noteq> [] \<and> hd args \<in> {''--help'', ''-?'', ''--version'', ''-V''}"

definition archive_decrypt_main :: "env \<Rightarrow> tool \<Rightarrow> string list \<Rightarrow> unit tdeM" where
  "archive_decrypt_main ev lib args =
     (if just_information args then ret ()
      else case args of
        [targetname, sourcepath, command] \<Rightarrow>
          (let sep = strrchr_slash sourcepath; sourcename = base_name sourcepath in
           if is_segment targetname then
             (case mkdtemp lib of
                None \<Rightarrow> throw (E_state ''could not create temporary directory'')
              | Some tmpdir \<Rightarrow>
                  (let tmppath = take (MAXPGPATH - 1) (tmpdir @ ''/'' @ sourcename) in
                   atexit_cleanup lib tmppath
                     (bindM (expand_command lib command targetname tmppath) (\<lambda>command'.
                      bindM (liftM (derive_tde_dir_from_segment_path sourcepath sep)) (\<lambda>tdedir.
                      seqM open_pg_tde_fe_init
                      (seqM (write_decrypted_segment (fe_env ev tdedir) lib sourcepath targetname tmppath)
                      (run_command lib command')))))))
           else bindM (expand_command lib command targetname sourcepath) (run_command lib))
      | _ \<Rightarrow> throw (E_state ''wrong number of arguments, 3 expected''))"

definition restore_encrypt_main :: "env \<Rightarrow> tool \<Rightarrow> string list \<Rightarrow> unit tdeM" where
  "restore_encrypt_main ev lib args =
     (if just_information args then ret ()
      else case args of
        [sourcename, targetpath, command] \<Rightarrow>
          (let sep = strrchr_slash targetpath; targetname = base_name targetpath in
           if is_segment sourcename then
             (case mkdtemp lib of
                None \<Rightarrow> throw (E_state ''could not create temporary directory'')
              | Some tmpdir \<Rightarrow>
                  (let tmppath = take (MAXPGPATH - 1) (tmpdir @ ''/'' @ targetname) in
                   atexit_cleanup lib tmppath
                     (bindM (expand_command lib command sourcename tmppath) (\<lambda>command'.
                      seqM (run_command lib command')
                      (bindM (liftM (derive_tde_dir_from_segment_path targetpath sep)) (\<lambda>tdedir.
                      seqM open_pg_tde_fe_init
                      (write_encrypted_segment (fe_env ev tdedir) lib targetpath sourcename tmppath)))))))
           else bindM (expand_command lib command sourcename targetpath) (run_command lib))
      | _ \<Rightarrow> throw (E_state ''wrong number of arguments, 3 expected''))"

end
