(* ===== verification/Tde_WalFetch.thy ===== *)
theory Tde_WalFetch
  imports Tde_WalCache Tde_WalKeyFile_Ops Tde_Principal_Ops
begin

text \<open>
  Filling the cache of WAL ranges from the key file: the cache that \<open>open_pg_tde_fetch_wal_keys\<close> builds is determined by the entries of the
  file, and a reader that starts without keys, or has set its write location past the end of the WAL, works with exactly these ranges.
\<close>

section \<open>Reading the entries\<close>

text \<open>The server key can be had without changing anything but the cache of principal keys.\<close>

definition server_key :: "env \<Rightarrow> TDEPrincipalKey \<Rightarrow> world \<Rightarrow> bool" where
  "server_key ev pk w \<longleftrightarrow>
     (\<exists>c. GetPrincipalKey ev GLOBAL_DATA_TDE_OID w = (Inr (Some pk), w\<lparr>pk_cache := c\<rparr>) \<and> c GLOBAL_DATA_TDE_OID = Some pk)"

definition opens_to :: "env \<Rightarrow> TDEPrincipalKey \<Rightarrow> WalKeyFileEntry \<Rightarrow> WalEncryptionRange \<Rightarrow> bool" where
  "opens_to ev pk e rg \<longleftrightarrow> (\<forall>w. open_pg_tde_wal_range_from_entry ev pk e w = (Inr rg, w))"

text \<open>The ranges of the usable entries of a key file, in the order of the file.\<close>

definition wal_ranges_on_disk :: "env \<Rightarrow> TDEPrincipalKey \<Rightarrow> WalEncryptionRange list \<Rightarrow> world \<Rightarrow> bool" where
  "wal_ranges_on_disk ev pk rgs w \<longleftrightarrow> (\<exists>f. disk w (get_wal_key_file_path ev) = Some f \<and> good_wal f \<and> aligned f \<and>
     wal_entries f \<noteq> [] \<and> length (wal_entries f) < 2 ^ 31 \<and>
     list_all2 (opens_to ev pk) (filter (wal_entry_wanted (WalLocation 0 1)) (wal_entries f)) rgs)"

lemma keys_count_aligned:
  assumes "n < 2 ^ 31"
  shows "wal_keys_count (HEADER_SIZE + n * WAL_ENTRY_SIZE) = int n"
proof -
  have b: "n * 104 < 2 ^ 63" using assms by simp
  have "(of_nat (n * 104) :: u64) div of_nat WAL_ENTRY_SIZE = of_nat n"
  proof -
    have "unat (of_nat (n * 104) :: u64) = n * 104" using b by (subst unat_of_nat) simp
    moreover have "unat (of_nat n :: u64) = n" using b by (subst unat_of_nat) simp
    ultimately have "(of_nat (n * 104) :: u64) div of_nat 104 = of_nat n"
      unfolding word_unat_eq_iff unat_div by simp
    then show ?thesis by (simp add: WAL_ENTRY_SIZE_def)
  qed
  moreover have "of_nat (HEADER_SIZE + n * WAL_ENTRY_SIZE) - of_nat HEADER_SIZE = (of_nat (n * 104) :: u64)"
    by (simp add: WAL_ENTRY_SIZE_def)
  ultimately have "wal_keys_count (HEADER_SIZE + n * WAL_ENTRY_SIZE) = sint (of_nat n :: u32)"
    unfolding wal_keys_count_def by (simp add: ucast_of_nat)
  also have "\<dots> = int n" using assms by (simp add: signed_of_nat signed_take_bit_int_eq_self)
  finally show ?thesis .
qed

lemma read_entry_ok:
  assumes "disk w (get_wal_key_file_path ev) = Some f" "aligned f" "length (wal_entries f) < 2 ^ 31" "i < length (wal_entries f)"
  shows "open_pg_tde_read_one_wal_key_file_entry2 ev (int i) w = (Inr (wal_entries f ! i), w)"
proof -
  let ?q = "HEADER_SIZE + i * WAL_ENTRY_SIZE"
  have slot: "?q + WAL_ENTRY_SIZE \<le> length f" "wal_entries f ! i = dec_wal_entry (pread f WAL_ENTRY_SIZE ?q)"
    using recs_slot_bound [of WAL_ENTRY_SIZE i dec_wal_entry f HEADER_SIZE] nth_recs [of WAL_ENTRY_SIZE i dec_wal_entry f HEADER_SIZE]
      assms(4) walfile.ents_def [of f] by (simp_all add: WAL_ENTRY_SIZE_def)
  have "unat (of_nat HEADER_SIZE + word_of_int (int i) * of_nat WAL_ENTRY_SIZE :: u64) = ?q"
    using last_wal_key_idx_aligned(2) [of "length (wal_entries f)" i 0] assms(3,4)
    by (cases "wal_entries f = []") (simp_all add: HEADER_SIZE_def WAL_ENTRY_SIZE_def)
  then show ?thesis
    using assms(1) slot
    by (simp add: open_pg_tde_read_one_wal_key_file_entry2_def Let_def runM file_bytes_def length_pread)
qed

lemma length_cache_range [simp]: "length (cache_range rg c) = Suc (length c)"
  by (cases c rule: rev_cases) (simp_all add: cache_range_def)

lemma fetch_loop_ok:
  assumes "\<And>w. disk w p = Some f \<Longrightarrow> \<forall>i\<in>set idxs. open_pg_tde_read_one_wal_key_file_entry2 ev (int i) w = (Inr (es ! i), w)"
    and "list_all2 (opens_to ev pk) (filter (wal_entry_wanted start) (map ((!) es) idxs)) rgs" "disk w p = Some f"
  shows "fetch_loop ev pk start idxs r w =
     (Inr (if r \<noteq> None then r else if rgs = [] then None else Some (length (tde_wal_key_cache w))),
      w\<lparr>tde_wal_key_cache := fold cache_range rgs (tde_wal_key_cache w)\<rparr>)"
  using assms
proof (induction idxs arbitrary: r w rgs)
  case (Cons i idxs)
  have rd: "open_pg_tde_read_one_wal_key_file_entry2 ev (int i) w = (Inr (es ! i), w)" using Cons.prems(1,3) by simp
  show ?case
  proof (cases "wal_entry_wanted start (es ! i)")
    case True
    then obtain rg rgs' where rgs: "rgs = rg # rgs'" "opens_to ev pk (es ! i) rg"
        "list_all2 (opens_to ev pk) (filter (wal_entry_wanted start) (map ((!) es) idxs)) rgs'"
      using Cons.prems(2) by (auto simp: list_all2_Cons1)
    let ?w = "w\<lparr>tde_wal_key_cache := cache_range rg (tde_wal_key_cache w)\<rparr>"
    have "fetch_loop ev pk start idxs r' ?w =
        (Inr (if r' \<noteq> None then r' else if rgs' = [] then None else Some (length (tde_wal_key_cache ?w))),
         ?w\<lparr>tde_wal_key_cache := fold cache_range rgs' (tde_wal_key_cache ?w)\<rparr>)" for r'
      using Cons.prems(1,3) rgs(3) by (intro Cons.IH) simp_all
    then show ?thesis
      using True rgs(1,2) by (simp add: runM rd opens_to_def open_pg_tde_add_wal_range_to_cache_def)
  next
    case False
    then have "list_all2 (opens_to ev pk) (filter (wal_entry_wanted start) (map ((!) es) idxs)) rgs" using Cons.prems(2) by simp
    then show ?thesis using False Cons.IH [of rgs w r] Cons.prems(1,3) by (simp add: runM rd)
  qed
qed simp

lemma fetch_ok:
  assumes "server_key ev pk w" and f: "disk w (get_wal_key_file_path ev) = Some f" "good_wal f" "aligned f"
    "wal_entries f \<noteq> []" "length (wal_entries f) < 2 ^ 31"
    and "list_all2 (opens_to ev pk) (filter (wal_entry_wanted start) (wal_entries f)) rgs"
  shows "\<exists>c. open_pg_tde_fetch_wal_keys ev start w =
     (Inr (if rgs = [] then None else Some (length (tde_wal_key_cache w))),
      w\<lparr>pk_cache := c, tde_wal_key_cache := fold cache_range rgs (tde_wal_key_cache w)\<rparr>) \<and> c GLOBAL_DATA_TDE_OID = Some pk"
proof -
  let ?n = "length (wal_entries f)" and ?p = "get_wal_key_file_path ev"
  obtain c where c: "GetPrincipalKey ev GLOBAL_DATA_TDE_OID w = (Inr (Some pk), w\<lparr>pk_cache := c\<rparr>)" "c GLOBAL_DATA_TDE_OID = Some pk"
    using assms(1) by (auto simp: server_key_def)
  let ?w = "w\<lparr>pk_cache := c\<rparr>"
  have "\<forall>i\<in>set [0..<?n]. open_pg_tde_read_one_wal_key_file_entry2 ev (int i) w1 = (Inr (wal_entries f ! i), w1)"
    if "disk w1 ?p = Some f" for w1 using read_entry_ok [OF that f(3,5)] by simp
  from fetch_loop_ok [OF this, where w = ?w and r = None] have l: "fetch_loop ev pk start [0..<?n] None ?w =
      (Inr (if rgs = [] then None else Some (length (tde_wal_key_cache w))), ?w\<lparr>tde_wal_key_cache := fold cache_range rgs (tde_wal_key_cache w)\<rparr>)"
    using assms(7) f(1) by (simp add: map_nth)
  have "wal_keys_count (length f) = int ?n" using keys_count_aligned [OF f(5)] f(3) by (simp add: aligned_def)
  moreover have "\<exists>r. open_pg_tde_open_wal_key_file_read ?p False ?w = (Inr r, ?w)"
    using kf_open_read_good [of ?w ?p f] f(1,2) by (simp add: wal_file_defs)
  ultimately show ?thesis
    using c l f(1,4) by (auto simp: open_pg_tde_fetch_wal_keys_def runM wal_file_size_def Let_def file_bytes_def intro!: exI [of _ c])
qed

section \<open>The cache that results\<close>

abbreviation loaded :: "WalEncryptionRange list \<Rightarrow> WALKeyCacheRec list" where
  "loaded rgs \<equiv> fold cache_range rgs []"

text \<open>Each range ends where the next one starts.\<close>

definition chain_ranges :: "WalEncryptionRange list \<Rightarrow> WalEncryptionRange list" where
  "chain_ranges rgs = map wc_range (loaded rgs)"

definition ranges_ok :: "WalEncryptionRange list \<Rightarrow> bool" where
  "ranges_ok rgs \<longleftrightarrow> sorted (map wr_start rgs) \<and>
     (\<forall>rg\<in>set rgs. wr_end rg = max_location \<and> wr_start rg < max_location \<and>
        (wr_type rg = WAL_ENCRYPTION_RANGE_ENCRYPTED \<longrightarrow> ik_key_len (wr_key rg) \<in> {16, 32}))"

lemma fold_starts: "map (wr_start \<circ> wc_range) (fold cache_range rgs rs) = map (wr_start \<circ> wc_range) rs @ map wr_start rgs"
  by (induction rgs arbitrary: rs) (simp_all add: cache_range_starts)

lemma fold_chained: "chained rs \<Longrightarrow> \<forall>rg\<in>set rgs. wr_end rg = max_location \<Longrightarrow> chained (fold cache_range rgs rs)"
  by (induction rgs arbitrary: rs) (simp_all add: chained_cache_range)

text \<open>Caching changes the end of a range only.\<close>

definition key_and_type :: "WALKeyCacheRec \<Rightarrow> InternalKey \<times> u32 \<times> bytes option" where
  "key_and_type r = (wr_key (wc_range r), wr_type (wc_range r), wc_crypt_ctx r)"

lemma cache_range_keys: "map key_and_type (cache_range rg rs) = map key_and_type rs @ [(wr_key rg, wr_type rg, None)]"
  by (cases rs rule: rev_cases) (simp_all add: cache_range_def key_and_type_def)

lemma fold_keys: "map key_and_type (fold cache_range rgs rs) = map key_and_type rs @ map (\<lambda>rg. (wr_key rg, wr_type rg, None)) rgs"
  by (induction rgs arbitrary: rs) (simp_all add: cache_range_keys)

lemma max_location_greatest: "l \<le> max_location"
  by (cases l) (auto simp: max_location_def loc_le MaxTimeLineID_def MaxXLogRecPtr_def less_le not_less intro: word_order.extremum)

lemma chained_start_end:
  "chained rs \<Longrightarrow> sorted (map (wr_start \<circ> wc_range) rs) \<Longrightarrow> r \<in> set rs \<Longrightarrow> wr_start (wc_range r) \<le> wr_end (wc_range r)"
proof (induction rs)
  case (Cons x rs)
  then show ?case by (cases rs) (auto simp: chained_Cons max_location_greatest)
qed simp

lemma loaded_ok:
  assumes "ranges_ok rgs"
  shows "ordered (loaded rgs)" "\<forall>r\<in>set (loaded rgs). rec_ok r" "loaded rgs = [] \<longleftrightarrow> rgs = []"
proof -
  let ?c = "loaded rgs"
  have st: "map (wr_start \<circ> wc_range) ?c = map wr_start rgs" using fold_starts [of rgs "[]"] by simp
  have ch: "chained ?c" using assms by (intro fold_chained) (simp_all add: ranges_ok_def)
  have so: "sorted (map (wr_start \<circ> wc_range) ?c)" using assms st by (simp add: ranges_ok_def)
  show ord: "ordered ?c" by (rule chained_ordered [OF ch so])
  show "?c = [] \<longleftrightarrow> rgs = []" using arg_cong [OF st, of length] by auto
  show "\<forall>r\<in>set ?c. rec_ok r"
  proof
    fix r assume "r \<in> set ?c"
    then obtain i where i: "i < length ?c" "r = ?c ! i" by (metis in_set_conv_nth)
    have ks: "map key_and_type ?c = map (\<lambda>rg. (wr_key rg, wr_type rg, None)) rgs" using fold_keys [of rgs "[]"] by simp
    have len: "length ?c = length rgs" using arg_cong [OF st, of length] by simp
    have k: "wr_key (wc_range r) = wr_key (rgs ! i)" "wr_type (wc_range r) = wr_type (rgs ! i)" "wc_crypt_ctx r = None"
      using arg_cong [OF ks, of "\<lambda>l. l ! i"] i len by (simp_all add: key_and_type_def)
    have "wr_start (wc_range r) \<le> wr_end (wc_range r)" using chained_start_end [OF ch so] \<open>r \<in> set ?c\<close> by blast
    then show "rec_ok r" using k assms i len by (simp add: rec_ok_def ranges_ok_def)
  qed
qed

section \<open>A process that uses the ranges of the file\<close>

text \<open>
  The keys of the process are those of the file: not read yet, or cached as they were loaded. Its write location is unset, or past everything.
\<close>

definition uses_ranges :: "env \<Rightarrow> TDEPrincipalKey \<Rightarrow> WalEncryptionRange list \<Rightarrow> world \<Rightarrow> bool" where
  "uses_ranges ev pk rgs w \<longleftrightarrow> server_key ev pk w \<and> wal_ranges_on_disk ev pk rgs w \<and> ranges_ok rgs \<and>
     (tde_wal_key_cache w = [] \<or> map wc_range (tde_wal_key_cache w) = chain_ranges rgs \<and> (\<forall>r\<in>set (tde_wal_key_cache w). rec_ok r) \<and>
        pk_cache w GLOBAL_DATA_TDE_OID = Some pk) \<and>
     (enc_key_lsn w = 0 \<or> WalLocation (enc_key_lsn w) (enc_key_tli w) = max_location)"

lemma server_key_cached: "pk_cache w GLOBAL_DATA_TDE_OID = Some pk \<Longrightarrow> server_key ev pk w"
  by (auto simp: server_key_def GetPrincipalKey_cached intro!: exI [of _ "pk_cache w"])

lemma list_all2_partner: "list_all2 P xs ys \<Longrightarrow> x \<in> set xs \<Longrightarrow> \<exists>y\<in>set ys. P x y"
  by (induction rule: list_all2_induct) auto

lemma nothing_wanted:
  assumes "wal_ranges_on_disk ev pk rgs w" "ranges_ok rgs"
  shows "\<exists>f. disk w (get_wal_key_file_path ev) = Some f \<and> good_wal f \<and> aligned f \<and> wal_entries f \<noteq> [] \<and> length (wal_entries f) < 2 ^ 31 \<and>
     filter (wal_entry_wanted max_location) (wal_entries f) = []"
proof -
  obtain f where f: "disk w (get_wal_key_file_path ev) = Some f" "good_wal f" "aligned f" "wal_entries f \<noteq> []" "length (wal_entries f) < 2 ^ 31"
      "list_all2 (opens_to ev pk) (filter (wal_entry_wanted (WalLocation 0 1)) (wal_entries f)) rgs"
    using assms(1) by (auto simp: wal_ranges_on_disk_def)
  have "\<not> wal_entry_wanted max_location e" if e: "e \<in> set (wal_entries f)" for e
  proof
    assume wm: "wal_entry_wanted max_location e"
    then have "wal_entry_wanted (WalLocation 0 1) e" "max_location \<le> we_range_start e"
      by (auto simp: wal_entry_wanted_def wal_location_cmp_order intro: order_trans [OF max_location_greatest])
    then obtain rg where "rg \<in> set rgs" "opens_to ev pk e rg"
      using list_all2_partner [OF f(6)] e by auto
    then have "open_pg_tde_wal_range_from_entry ev pk e w = (Inr rg, w)" "wr_start rg < max_location"
      using assms(2) by (simp_all add: opens_to_def ranges_ok_def)
    then have "wr_start rg = we_range_start e" "wr_start rg < max_location"
      by (auto simp: open_pg_tde_wal_range_from_entry_def bindM_eq_Inr split: option.splits)
    with \<open>max_location \<le> we_range_start e\<close> show False by simp
  qed
  then show ?thesis using f by (intro exI [of _ f]) (simp add: filter_empty_conv)
qed

lemma fetch_all_ok:
  assumes "uses_ranges ev pk rgs w" "tde_wal_key_cache w = []"
  shows "\<exists>c. open_pg_tde_fetch_wal_keys ev (WalLocation 0 1) w =
     (Inr (if rgs = [] then None else Some 0), w\<lparr>pk_cache := c, tde_wal_key_cache := loaded rgs\<rparr>) \<and> c GLOBAL_DATA_TDE_OID = Some pk"
proof -
  obtain f where "disk w (get_wal_key_file_path ev) = Some f" "good_wal f" "aligned f" "wal_entries f \<noteq> []" "length (wal_entries f) < 2 ^ 31"
      "list_all2 (opens_to ev pk) (filter (wal_entry_wanted (WalLocation 0 1)) (wal_entries f)) rgs"
    using assms(1) by (auto simp: uses_ranges_def wal_ranges_on_disk_def)
  from fetch_ok [OF _ this] show ?thesis using assms by (cases "rgs = []") (auto simp: uses_ranges_def)
qed

lemma fetch_max_ok:
  assumes "uses_ranges ev pk rgs w"
  shows "\<exists>c. open_pg_tde_fetch_wal_keys ev max_location w = (Inr None, w\<lparr>pk_cache := c\<rparr>) \<and> c GLOBAL_DATA_TDE_OID = Some pk"
proof -
  obtain f where "disk w (get_wal_key_file_path ev) = Some f" "good_wal f" "aligned f" "wal_entries f \<noteq> []" "length (wal_entries f) < 2 ^ 31"
      "filter (wal_entry_wanted max_location) (wal_entries f) = []"
    using nothing_wanted [of ev pk rgs w] assms unfolding uses_ranges_def by blast
  from fetch_ok [OF _ this(1-5), where start = max_location and rgs = "[]"] this(6) show ?thesis using assms by (auto simp: uses_ranges_def)
qed

lemma uses_ranges_upd:
  assumes "uses_ranges ev pk rgs w" "c GLOBAL_DATA_TDE_OID = Some pk"
    and "rs = [] \<or> map wc_range rs = chain_ranges rgs \<and> (\<forall>r\<in>set rs. rec_ok r)"
  shows "uses_ranges ev pk rgs (w\<lparr>pk_cache := c, tde_wal_key_cache := rs\<rparr>)"
  using assms server_key_cached [of "w\<lparr>pk_cache := c, tde_wal_key_cache := rs\<rparr>" pk ev]
  by (auto simp: uses_ranges_def wal_ranges_on_disk_def)

lemma last_start:
  assumes "ranges_ok rgs" "map wc_range rs = chain_ranges rgs" "rs \<noteq> []"
  shows "wr_start (wc_range (last rs)) < max_location"
proof -
  have "map wr_start (map wc_range rs) = map wr_start rgs"
    using assms(2) fold_starts [of rgs "[]"] by (simp add: chain_ranges_def)
  then have "last (map wr_start (map wc_range rs)) = last (map wr_start rgs)" "rgs \<noteq> []" using assms(3) by auto
  then show ?thesis using assms(1,3) by (simp add: last_map ranges_ok_def)
qed

lemma crypt_buffer_keys_uses:
  assumes u: "uses_ranges ev pk rgs w"
  shows "\<exists>c rs. crypt_buffer_keys ev w = (Inr (if rgs = [] then None else Some 0), w\<lparr>pk_cache := c, tde_wal_key_cache := rs\<rparr>) \<and>
     uses_ranges ev pk rgs (w\<lparr>pk_cache := c, tde_wal_key_cache := rs\<rparr>) \<and>
     map wc_range rs = chain_ranges rgs \<and> (\<forall>r\<in>set rs. rec_ok r) \<and> c GLOBAL_DATA_TDE_OID = Some pk"
proof -
  have ok: "ranges_ok rgs" using u by (simp add: uses_ranges_def)
  let ?keys = "bindM open_pg_tde_get_wal_cache_keys (\<lambda>k. if k = None then open_pg_tde_fetch_wal_keys ev (WalLocation 0 1) else ret k)"
  have "\<exists>c rs. ?keys w = (Inr (if rgs = [] then None else Some 0), w\<lparr>pk_cache := c, tde_wal_key_cache := rs\<rparr>) \<and>
     uses_ranges ev pk rgs (w\<lparr>pk_cache := c, tde_wal_key_cache := rs\<rparr>) \<and> map wc_range rs = chain_ranges rgs \<and> (\<forall>r\<in>set rs. rec_ok r) \<and>
     c GLOBAL_DATA_TDE_OID = Some pk"
  proof (cases "tde_wal_key_cache w = []")
    case True
    obtain c where c: "open_pg_tde_fetch_wal_keys ev (WalLocation 0 1) w =
        (Inr (if rgs = [] then None else Some 0), w\<lparr>pk_cache := c, tde_wal_key_cache := loaded rgs\<rparr>)" "c GLOBAL_DATA_TDE_OID = Some pk"
      using fetch_all_ok [OF u True] by blast
    then show ?thesis
      using True loaded_ok [OF ok] uses_ranges_upd [OF u, of c "loaded rgs"] c(2)
      by (intro exI [of _ c] exI [of _ "loaded rgs"]) (simp add: runM open_pg_tde_get_wal_cache_keys_def chain_ranges_def)
  next
    case False
    then have "map wc_range (tde_wal_key_cache w) = chain_ranges rgs" "\<forall>r\<in>set (tde_wal_key_cache w). rec_ok r"
        "pk_cache w GLOBAL_DATA_TDE_OID = Some pk"
      using u by (auto simp: uses_ranges_def)
    moreover from this False have "rgs \<noteq> []" by (auto simp: chain_ranges_def)
    ultimately show ?thesis
      using False u by (intro exI [of _ "pk_cache w"] exI [of _ "tde_wal_key_cache w"]) (simp add: runM open_pg_tde_get_wal_cache_keys_def)
  qed
  then obtain c rs where k: "?keys w = (Inr (if rgs = [] then None else Some 0), w\<lparr>pk_cache := c, tde_wal_key_cache := rs\<rparr>)"
     "uses_ranges ev pk rgs (w\<lparr>pk_cache := c, tde_wal_key_cache := rs\<rparr>)" "map wc_range rs = chain_ranges rgs" "\<forall>r\<in>set rs. rec_ok r"
     "c GLOBAL_DATA_TDE_OID = Some pk" by blast
  let ?w = "w\<lparr>pk_cache := c, tde_wal_key_cache := rs\<rparr>"
  have rs: "rs = [] \<longleftrightarrow> rgs = []" using k(3) loaded_ok(3) [OF ok] by (auto simp: chain_ranges_def)
  let ?rest = "\<lambda>keys.
     bindM TDEXLogGetEncKeyLsn (\<lambda>write_key_lsn.
     if write_key_lsn = 0 then ret keys
     else
       bindM open_pg_tde_get_last_wal_key (\<lambda>last_key.
       bindM TDEXLogGetEncKeyTli (\<lambda>t.
       case last_key of
         None \<Rightarrow> ret keys
       | Some k \<Rightarrow>
           if wal_location_cmp (wr_start (wc_range k)) (WalLocation write_key_lsn t) < 0
           then bindM (open_pg_tde_fetch_wal_keys ev (WalLocation write_key_lsn t)) (\<lambda>_. open_pg_tde_get_wal_cache_keys)
           else ret keys)))"
  have run: "crypt_buffer_keys ev w = ?rest (if rgs = [] then None else Some 0) ?w"
  proof -
    have "crypt_buffer_keys ev w = bindM ?keys ?rest w"
      by (simp add: crypt_buffer_keys_def bindM_def split: sum.splits prod.splits)
    also have "\<dots> = ?rest (if rgs = [] then None else Some 0) ?w" using k(1) by (rule bindM_Inr)
    finally show ?thesis .
  qed
  show ?thesis
  proof (cases "enc_key_lsn w = 0 \<or> rgs = []")
    case True
    then show ?thesis
      using k rs unfolding run
      by (intro exI [of _ c] exI [of _ rs]) (auto simp: runM TDEXLogGetEncKeyLsn_def TDEXLogGetEncKeyTli_def open_pg_tde_get_last_wal_key_def)
  next
    case False
    then have m: "WalLocation (enc_key_lsn w) (enc_key_tli w) = max_location" using u by (simp add: uses_ranges_def)
    obtain c' where c': "open_pg_tde_fetch_wal_keys ev max_location ?w = (Inr None, ?w\<lparr>pk_cache := c'\<rparr>)" "c' GLOBAL_DATA_TDE_OID = Some pk"
      using fetch_max_ok [OF k(2)] by blast
    have "wr_start (wc_range (last rs)) < max_location" using last_start [OF ok k(3)] False rs by simp
    then show ?thesis
      using False rs c' m k(3,4) uses_ranges_upd [OF u, of c' rs] unfolding run
      by (intro exI [of _ c'] exI [of _ rs])
        (simp add: runM TDEXLogGetEncKeyLsn_def TDEXLogGetEncKeyTli_def open_pg_tde_get_last_wal_key_def
          open_pg_tde_get_wal_cache_keys_def wal_location_cmp_order)
  qed
qed

lemma ordered_ranges: "ordered rs \<longleftrightarrow> sorted_wrt (\<lambda>a b. wr_end a \<le> wr_start b) (map wc_range rs)"
  by (simp add: ordered_def sorted_wrt_map)

lemma crypt_buffer_uses:
  assumes "ecb_is ev F" "m \<le> 30" "(unat segno + 1) * 2 ^ m < 2 ^ 64" "buf \<noteq> []" "offset + length buf \<le> 2 ^ m"
    and u: "uses_ranges ev pk rgs w" and data: "data = None \<or> data = Some buf"
  shows "\<exists>c rs. TDEXLogCryptBuffer ev data buf (of_nat (length buf)) (of_nat offset) tmln segno (2 ^ m) w =
     (Inr (wal_crypt F (chain_ranges rgs) tmln segno m offset buf), w\<lparr>pk_cache := c, tde_wal_key_cache := rs\<rparr>) \<and>
     uses_ranges ev pk rgs (w\<lparr>pk_cache := c, tde_wal_key_cache := rs\<rparr>) \<and> c GLOBAL_DATA_TDE_OID = Some pk"
proof -
  obtain c rs where k: "crypt_buffer_keys ev w = (Inr (if rgs = [] then None else Some 0), w\<lparr>pk_cache := c, tde_wal_key_cache := rs\<rparr>)"
      "uses_ranges ev pk rgs (w\<lparr>pk_cache := c, tde_wal_key_cache := rs\<rparr>)" "map wc_range rs = chain_ranges rgs" "\<forall>r\<in>set rs. rec_ok r"
      "c GLOBAL_DATA_TDE_OID = Some pk"
    using crypt_buffer_keys_uses [OF u] by blast
  let ?w = "w\<lparr>pk_cache := c, tde_wal_key_cache := rs\<rparr>"
  show ?thesis
  proof (cases "rgs = []")
    case True
    then have "wal_crypt F (chain_ranges rgs) tmln segno m offset buf = buf" by (simp add: wal_crypt_def chain_ranges_def map_nth)
    then show ?thesis using True k(1,2,5) by (intro exI [of _ c] exI [of _ rs]) (simp add: TDEXLogCryptBuffer_def runM)
  next
    case False
    have "ordered rs"
      using k(3) loaded_ok(1) [of rgs] u unfolding ordered_ranges by (simp add: uses_ranges_def chain_ranges_def)
    then obtain rs' where r: "crypt_keys ev data (of_nat (length buf)) (of_nat offset) tmln segno (2 ^ m) rs buf =
         (Inr (wal_crypt F (chain_ranges rgs) tmln segno m offset buf), rs')" "map wc_range rs' = map wc_range rs" "\<forall>r\<in>set rs'. rec_ok r"
      using crypt_keys_ok [OF assms(1-3), of "length buf" offset rs buf buf data tmln] assms(4,5) k(3,4) data
      unfolding wal_crypt_into_same by auto
    have "uses_ranges ev pk rgs (w\<lparr>pk_cache := c, tde_wal_key_cache := rs'\<rparr>)"
      using k(3,5) r(2,3) by (intro uses_ranges_upd [OF u]) simp_all
    then show ?thesis
      using False k(1,5) r(1) by (intro exI [of _ c] exI [of _ rs']) (simp add: TDEXLogCryptBuffer_def runM)
  qed
qed

lemma uses_ranges_set_file:
  assumes "uses_ranges ev pk rgs w" "pk_cache w GLOBAL_DATA_TDE_OID = Some pk" "p \<noteq> get_wal_key_file_path ev"
  shows "uses_ranges ev pk rgs (set_file p b w)"
  using assms server_key_cached [of "set_file p b w" pk ev]
  by (auto simp: uses_ranges_def wal_ranges_on_disk_def set_file_def)

end
