(* ===== verification/Tde_Archive_Ops.thy ===== *)
theory Tde_Archive_Ops
  imports Tde_Archive Tde_WalFetch
begin

text \<open>
  Archiving and restoring encrypted WAL: the temporary file for the archive command is the decryption of the
  segment, and encrypting what was archived gives the segment back.
\<close>

section \<open>Decryption of a whole segment\<close>

lemma length_wal_crypt [simp]: "length (wal_crypt F rgs t sg m off d) = length d"
  by (simp add: wal_crypt_def)

lemma wal_crypt_append:
  "wal_crypt F rgs t sg m off (a @ b) = wal_crypt F rgs t sg m off a @ wal_crypt F rgs t sg m (off + length a) b"
  by (rule nth_equalityI) (auto simp: wal_crypt_def nth_append add.assoc split: option.splits)

lemma wal_crypt_twice [simp]: "wal_crypt F rgs t sg m off (wal_crypt F rgs t sg m off d) = d"
  by (rule nth_equalityI) (auto simp: wal_crypt_def xor.assoc split: option.splits)

text \<open>A block of the whole.\<close>

lemma wal_crypt_block:
  assumes "pos + n \<le> length d"
  shows "take pos (wal_crypt F rgs t sg m 0 d) @ wal_crypt F rgs t sg m pos (take n (drop pos d)) = take (pos + n) (wal_crypt F rgs t sg m 0 d)"
proof -
  have d: "d = take pos d @ take n (drop pos d) @ drop (pos + n) d"
    by (metis append_take_drop_id drop_drop add.commute)
  show ?thesis
    using assms by (subst (1 3) d) (simp add: wal_crypt_append del: append_assoc append_take_drop_id)
qed

lemma pread_block: "pos + n \<le> length f \<Longrightarrow> pread f n pos = take n (drop pos f)"
  by (simp add: pread_def)

lemma pwrite_take: "pos \<le> length f \<Longrightarrow> pwrite (take pos f) d pos = take pos f @ d"
  using pwrite_at_end [of "take pos f" d] by (simp add: min_absorb2)

lemma pg_pwrite_ok: "io w = [] \<Longrightarrow> pg_pwrite p d off w = (Inr (int (length d)), set_file p (pwrite (file_bytes w p) d off) w)"
  by (simp add: pg_pwrite_def next_io_def)

lemma write_all_ok:
  "io w = [] \<Longrightarrow> write_all p d off w = (Inr (), set_file p (pwrite (file_bytes w p) d off) w)"
  by (simp add: write_all_def runM pg_pwrite_ok)

lemma seg_read_ok:
  assumes "ecb_is ev F" "m \<le> 30" "(unat sg + 1) * 2 ^ m < 2 ^ 64" "disk w seg = Some S" "length S = 2 ^ m" "pos + BLCK \<le> 2 ^ m"
    and "length buf = BLCK" "uses_ranges ev pk rgs w"
  shows "\<exists>c rs. tdeheap_xlog_seg_read ev seg buf (of_nat pos) t sg (2 ^ m) w =
     (Inr (int BLCK, wal_crypt F (chain_ranges rgs) t sg m pos (take BLCK (drop pos S))), w\<lparr>pk_cache := c, tde_wal_key_cache := rs\<rparr>) \<and>
     uses_ranges ev pk rgs (w\<lparr>pk_cache := c, tde_wal_key_cache := rs\<rparr>) \<and> c GLOBAL_DATA_TDE_OID = Some pk"
proof -
  let ?d = "take BLCK (drop pos S)"
  have d: "length ?d = BLCK" "?d \<noteq> []" using assms(5,6) by auto
  have "(2 :: nat) ^ m \<le> 2 ^ 30" using assms(2) by (rule power_increasing) simp
  then have p: "unat (of_nat pos :: u64) = pos" using assms(6) by (subst unat_of_nat) simp
  from crypt_buffer_uses [OF assms(1-3) d(2) _ assms(8), of pos None t] d(1) assms(6) obtain c rs where
    "TDEXLogCryptBuffer ev None ?d (of_nat BLCK) (of_nat pos) t sg (2 ^ m) w =
       (Inr (wal_crypt F (chain_ranges rgs) t sg m pos ?d), w\<lparr>pk_cache := c, tde_wal_key_cache := rs\<rparr>)"
    "uses_ranges ev pk rgs (w\<lparr>pk_cache := c, tde_wal_key_cache := rs\<rparr>)" "c GLOBAL_DATA_TDE_OID = Some pk" by auto
  then show ?thesis
    using d assms(4-7) by (auto simp: tdeheap_xlog_seg_read_def runM file_bytes_def p pread_block)
qed

lemma seg_read_end:
  assumes "disk w seg = Some S" "length S = 2 ^ m" "m \<le> 30"
  shows "tdeheap_xlog_seg_read ev seg buf (of_nat (2 ^ m)) t sg fs w = (Inr (0, buf), w)"
proof -
  have "(2 :: nat) ^ m \<le> 2 ^ 30" using assms(3) by (rule power_increasing) simp
  then have "unat (of_nat (2 ^ m) :: u64) = 2 ^ m" by (subst unat_of_nat) simp
  then show ?thesis using assms(1,2) by (simp add: tdeheap_xlog_seg_read_def runM file_bytes_def pread_def)
qed

lemma decrypt_loop_ok:
  assumes "ecb_is ev F" "m \<le> 30" "(unat sg + 1) * 2 ^ m < 2 ^ 64" "length S = 2 ^ m" "tmp \<noteq> seg" "tmp \<noteq> get_wal_key_file_path ev"
    and "P = wal_crypt F (chain_ranges rgs) t sg m 0 S"
  shows "pos + n * BLCK = 2 ^ m \<Longrightarrow> n < fuel \<Longrightarrow> length buf = BLCK \<Longrightarrow> disk w seg = Some S \<Longrightarrow> disk w tmp = Some (take pos P) \<Longrightarrow>
     io w = [] \<Longrightarrow> uses_ranges ev pk rgs w \<Longrightarrow> pk_cache w GLOBAL_DATA_TDE_OID = Some pk \<Longrightarrow>
     \<exists>w'. decrypt_loop ev fuel seg tmp t sg (2 ^ m) pos buf w = (Inr (), w') \<and> disk w' = (disk w)(tmp \<mapsto> P)"
proof (induction n arbitrary: pos fuel buf w)
  case 0
  then obtain fuel' where "fuel = Suc fuel'" by (metis gr0_implies_Suc)
  moreover have "take pos P = P" "pos = 2 ^ m" using 0 assms(4,7) by simp_all
  ultimately show ?case using 0 seg_read_end [OF 0(4) assms(4,2)] by (auto simp: runM fun_upd_idem_iff)
next
  case (Suc n)
  then obtain fuel' where f: "fuel = Suc fuel'" by (metis gr0_implies_Suc less_nat_zero_code not_gr_zero)
  let ?b = "wal_crypt F (chain_ranges rgs) t sg m pos (take BLCK (drop pos S))"
  have le: "pos + BLCK \<le> 2 ^ m" and lb: "length ?b = BLCK" using Suc.prems(1) assms(4) by simp_all
  obtain c rs where r: "tdeheap_xlog_seg_read ev seg buf (of_nat pos) t sg (2 ^ m) w = (Inr (int BLCK, ?b), w\<lparr>pk_cache := c, tde_wal_key_cache := rs\<rparr>)"
      "uses_ranges ev pk rgs (w\<lparr>pk_cache := c, tde_wal_key_cache := rs\<rparr>)" "c GLOBAL_DATA_TDE_OID = Some pk"
    using seg_read_ok [OF assms(1-3) Suc.prems(4) assms(4) le Suc.prems(3,7)] by blast
  let ?w = "w\<lparr>pk_cache := c, tde_wal_key_cache := rs\<rparr>"
  have tk: "take pos P @ ?b = take (pos + BLCK) P" using wal_crypt_block [of pos BLCK S] le assms(4,7) by simp
  have wr: "write_all tmp ?b pos ?w = (Inr (), set_file tmp (take (pos + BLCK) P) ?w)"
    using Suc.prems(5,6) le assms(4,7) tk by (simp add: write_all_ok file_bytes_def pwrite_take)
  let ?w2 = "set_file tmp (take (pos + BLCK) P) ?w"
  have "\<exists>w'. decrypt_loop ev fuel' seg tmp t sg (2 ^ m) (pos + BLCK) ?b ?w2 = (Inr (), w') \<and> disk w' = (disk ?w2)(tmp \<mapsto> P)"
    using Suc.prems f assms(5,6) lb r uses_ranges_set_file [OF r(2) _ assms(6)]
    by (intro Suc.IH) (simp_all add: set_file_def)
  then show ?case
    using f r(1) wr lb by (auto simp: runM set_file_def)
qed

text \<open>What is asked of the names and of the header for a segment of size \<open>2 ^ m\<close>.\<close>

definition segment_named :: "tool \<Rightarrow> string \<Rightarrow> nat \<Rightarrow> u32 \<Rightarrow> u64 \<Rightarrow> bytes \<Rightarrow> bool" where
  "segment_named lib segname m t sg plain \<longleftrightarrow> 20 \<le> m \<and> m \<le> 30 \<and> (unat sg + 1) * 2 ^ m < 2 ^ 64 \<and> length plain = 2 ^ m \<and>
     XLogFromFileName lib segname (2 ^ m) = (t, sg) \<and> xlp_seg_size lib (take BLCK plain) = 2 ^ m"

lemma segment_blocks: "20 \<le> m \<Longrightarrow> \<exists>n. (2 :: nat) ^ m = BLCK + n * BLCK \<and> n < 2 ^ m"
proof -
  assume "20 \<le> m"
  then have "m = 13 + (m - 13)" by simp
  then have "(2 :: nat) ^ m = 2 ^ 13 * 2 ^ (m - 13)" by (metis power_add)
  moreover obtain q where "(2 :: nat) ^ (m - 13) = Suc q" by (metis gr0_implies_Suc zero_less_numeral zero_less_power)
  ultimately show ?thesis by (intro exI [of _ q]) simp
qed

lemma seg_size_valid: "20 \<le> m \<Longrightarrow> m \<le> 30 \<Longrightarrow> IsValidWalSegSize (2 ^ m)"
  unfolding IsValidWalSegSize_def list_ex_iff by (intro bexI [of _ m]) (simp_all del: upt_rec_numeral)

lemma decrypt_segment_ok:
  assumes "ecb_is ev F" and f: "disk w seg = Some S" "disk w tmp = None" "io w = []" "tmp \<noteq> seg" "tmp \<noteq> get_wal_key_file_path ev"
    and u: "uses_ranges ev pk rgs (set_file tmp [] w)"
    and n: "segment_named lib segname m t sg (wal_crypt F (chain_ranges rgs) t sg m 0 S)"
  shows "\<exists>w'. write_decrypted_segment ev lib seg segname tmp w = (Inr (), w') \<and>
     disk w' = (disk w)(tmp \<mapsto> wal_crypt F (chain_ranges rgs) t sg m 0 S)"
proof -
  let ?P = "wal_crypt F (chain_ranges rgs) t sg m 0 S" and ?w1 = "set_file tmp [] w"
  let ?b = "wal_crypt F (chain_ranges rgs) t sg m 0 (take BLCK (drop 0 S))"
  have s: "20 \<le> m" "m \<le> 30" "(unat sg + 1) * 2 ^ m < 2 ^ 64" "length S = 2 ^ m" "XLogFromFileName lib segname (2 ^ m) = (t, sg)"
      "xlp_seg_size lib (take BLCK ?P) = 2 ^ m"
    using n by (simp_all add: segment_named_def)
  obtain k where k: "(2 :: nat) ^ m = BLCK + k * BLCK" "k < 2 ^ m" using segment_blocks [OF s(1)] by blast
  have S1: "disk ?w1 seg = Some S" using f(1,4) by (simp add: set_file_def)
  obtain c rs where r: "tdeheap_xlog_seg_read ev seg (garbage ev BLCK) (of_nat 0) t sg (2 ^ m) ?w1 =
      (Inr (int BLCK, ?b), ?w1\<lparr>pk_cache := c, tde_wal_key_cache := rs\<rparr>)"
      "uses_ranges ev pk rgs (?w1\<lparr>pk_cache := c, tde_wal_key_cache := rs\<rparr>)" "c GLOBAL_DATA_TDE_OID = Some pk"
    using seg_read_ok [OF assms(1) s(2,3) S1 s(4) _ _ u, of 0 "garbage ev BLCK" t] k(1) by auto
  let ?w2 = "?w1\<lparr>pk_cache := c, tde_wal_key_cache := rs\<rparr>"
  have b: "?b = take BLCK ?P" using wal_crypt_block [of 0 BLCK S] k(1) s(4) by simp
  have wr: "write_all tmp ?b 0 ?w2 = (Inr (), set_file tmp (take BLCK ?P) ?w2)"
    using f(3) b pwrite_at_end [of "[]"] by (simp add: write_all_ok file_bytes_def set_file_def)
  let ?w3 = "set_file tmp (take BLCK ?P) ?w2"
  have "\<exists>w'. decrypt_loop ev (Suc (2 ^ m)) seg tmp t sg (2 ^ m) BLCK ?b ?w3 = (Inr (), w') \<and> disk w' = (disk ?w3)(tmp \<mapsto> ?P)"
    using k S1 f(3,4) r(3) s(4) uses_ranges_set_file [OF r(2) _ f(5)]
    by (intro decrypt_loop_ok [OF assms(1) s(2-4) f(4,5) refl, where n = k]) (simp_all add: set_file_def)
  then obtain w' where l: "decrypt_loop ev (Suc (2 ^ m)) seg tmp t sg (2 ^ m) BLCK ?b ?w3 = (Inr (), w')" "disk w' = (disk w)(tmp \<mapsto> ?P)"
    by (auto simp: set_file_def)
  have "write_decrypted_segment ev lib seg segname tmp w = (Inr (), w')"
    using f(1,2) S1 s r(1) b wr l(1) seg_size_valid [OF s(1,2)]
    by (simp add: write_decrypted_segment_def runM open_create_def Let_def file_bytes_def)
  with l(2) show ?thesis by blast
qed

section \<open>Encryption of a whole segment\<close>

text \<open>A process that writes with old keys only.\<close>

definition writes_old :: "world \<Rightarrow> bool" where
  "writes_old w \<longleftrightarrow> CurrentWalEncryptionRange w = dummy_range \<and> WalLocation (enc_key_lsn w) (enc_key_tli w) = max_location"

lemma seg_write_ok:
  assumes "ecb_is ev F" "m \<le> 30" "(unat sg + 1) * 2 ^ m < 2 ^ 64" "d \<noteq> []" "pos + length d \<le> 2 ^ m"
    and "uses_ranges ev pk rgs w" "writes_old w" "io w = []"
  shows "\<exists>c rs. tdeheap_xlog_seg_write ev seg d (of_nat pos) t sg (2 ^ m) w =
     (Inr (int (length d)), set_file seg (pwrite (file_bytes w seg) (wal_crypt F (chain_ranges rgs) t sg m pos d) pos)
        (w\<lparr>pk_cache := c, tde_wal_key_cache := rs\<rparr>)) \<and>
     uses_ranges ev pk rgs (w\<lparr>pk_cache := c, tde_wal_key_cache := rs\<rparr>) \<and> c GLOBAL_DATA_TDE_OID = Some pk"
proof -
  let ?loc = "WalLocation (XLogSegNoOffsetToRecPtr sg (of_nat pos) (2 ^ m)) t"
  have "(2 :: nat) ^ m \<le> 2 ^ 30" using assms(2) by (rule power_increasing) simp
  then have p: "unat (of_nat pos :: u64) = pos" using assms(5) by (subst unat_of_nat) simp
  have "XLogSegNoOffsetToRecPtr sg (of_nat pos) (2 ^ m) \<noteq> MaxXLogRecPtr"
  proof
    assume "XLogSegNoOffsetToRecPtr sg (of_nat pos) (2 ^ m) = MaxXLogRecPtr"
    then have "unat sg * 2 ^ m + pos = 2 ^ 64 - 1"
      using unat_pos [of sg m pos] assms(3,5)
      by (simp add: XLogSegNoOffsetToRecPtr_def MaxXLogRecPtr_def unsigned_minus_1_eq_mask mask_eq_exp_minus_1)
    moreover have "1 \<le> length d" using assms(4) by (cases d) auto
    moreover have "(unat sg + 1) * 2 ^ m = unat sg * 2 ^ m + 2 ^ m" by simp
    ultimately show False using assms(3,5) by linarith
  qed
  then have lt: "\<not> max_location \<le> ?loc"
    by (auto simp: loc_le max_location_def MaxTimeLineID_def MaxXLogRecPtr_def word_order.extremum_strict dest: word_order.extremum_uniqueI)
  have e: "tde_ensure_xlog_key_location ev ?loc w = (Inr False, w)"
    using assms(7) lt by (simp add: tde_ensure_xlog_key_location_def TDEXLogGetEncKeyLsn_def TDEXLogGetEncKeyTli_def runM writes_old_def Let_def
        wal_location_cmp_order max_location_def MaxXLogRecPtr_def)
  have ty: "wr_type dummy_range = WAL_ENCRYPTION_RANGE_UNENCRYPTED" "WAL_ENCRYPTION_RANGE_UNENCRYPTED \<noteq> WAL_ENCRYPTION_RANGE_INVALID"
    by (simp_all add: dummy_range_def WAL_ENCRYPTION_RANGE_UNENCRYPTED_def WAL_ENCRYPTION_RANGE_INVALID_def)
  from crypt_buffer_uses [OF assms(1-6), of "Some d" t] obtain c rs where
    "TDEXLogCryptBuffer ev (Some d) d (of_nat (length d)) (of_nat pos) t sg (2 ^ m) w =
       (Inr (wal_crypt F (chain_ranges rgs) t sg m pos d), w\<lparr>pk_cache := c, tde_wal_key_cache := rs\<rparr>)"
    "uses_ranges ev pk rgs (w\<lparr>pk_cache := c, tde_wal_key_cache := rs\<rparr>)" "c GLOBAL_DATA_TDE_OID = Some pk" by auto
  then show ?thesis
    using e ty assms(7,8)
    by (auto simp: tdeheap_xlog_seg_write_def Let_def runM writes_old_def TDEXLogWriteEncryptedPagesOldKeys_def p pg_pwrite_ok file_bytes_def
        intro!: exI [of _ c] exI [of _ rs])
qed

lemma encrypt_loop_ok:
  assumes "ecb_is ev F" "m \<le> 30" "(unat sg + 1) * 2 ^ m < 2 ^ 64" "length P = 2 ^ m" "seg \<noteq> tmp" "seg \<noteq> get_wal_key_file_path ev"
    and "S = wal_crypt F (chain_ranges rgs) t sg m 0 P"
  shows "pos + n * BLCK = 2 ^ m \<Longrightarrow> n < fuel \<Longrightarrow> disk w tmp = Some P \<Longrightarrow> disk w seg = Some (take pos S) \<Longrightarrow> io w = [] \<Longrightarrow>
     uses_ranges ev pk rgs w \<Longrightarrow> writes_old w \<Longrightarrow>
     \<exists>w'. encrypt_loop ev fuel seg tmp t sg (2 ^ m) pos w = (Inr (), w') \<and> disk w' = (disk w)(seg \<mapsto> S)"
proof (induction n arbitrary: pos fuel w)
  case 0
  then obtain fuel' where "fuel = Suc fuel'" by (metis gr0_implies_Suc)
  moreover have "take pos S = S" "pos = 2 ^ m" using 0 assms(4,7) by simp_all
  ultimately show ?case using 0 assms(4) by (auto simp: runM fun_upd_idem_iff pread_def file_bytes_def)
next
  case (Suc n)
  then obtain fuel' where f: "fuel = Suc fuel'" by (metis gr0_implies_Suc less_nat_zero_code not_gr_zero)
  let ?d = "take BLCK (drop pos P)"
  let ?b = "wal_crypt F (chain_ranges rgs) t sg m pos ?d"
  have le: "pos + BLCK \<le> 2 ^ m" and ld: "length ?d = BLCK" using Suc.prems(1) assms(4) by simp_all
  have d: "?d \<noteq> []" "pos + length ?d \<le> 2 ^ m" using ld le by auto
  obtain c rs where r: "tdeheap_xlog_seg_write ev seg ?d (of_nat pos) t sg (2 ^ m) w =
       (Inr (int (length ?d)), set_file seg (pwrite (file_bytes w seg) ?b pos) (w\<lparr>pk_cache := c, tde_wal_key_cache := rs\<rparr>))"
      "uses_ranges ev pk rgs (w\<lparr>pk_cache := c, tde_wal_key_cache := rs\<rparr>)" "c GLOBAL_DATA_TDE_OID = Some pk"
    using seg_write_ok [OF assms(1-3) d Suc.prems(6,7,5)] by blast
  let ?w = "w\<lparr>pk_cache := c, tde_wal_key_cache := rs\<rparr>"
  have "take pos S @ ?b = take (pos + BLCK) S" using wal_crypt_block [of pos BLCK P] le assms(4,7) by simp
  then have pw: "pwrite (file_bytes w seg) ?b pos = take (pos + BLCK) S"
    using Suc.prems(4) le assms(4,7) by (simp add: file_bytes_def pwrite_take)
  let ?w2 = "set_file seg (take (pos + BLCK) S) ?w"
  have "\<exists>w'. encrypt_loop ev fuel' seg tmp t sg (2 ^ m) (pos + BLCK) ?w2 = (Inr (), w') \<and> disk w' = (disk ?w2)(seg \<mapsto> S)"
    using Suc.prems f assms(5,6) r uses_ranges_set_file [OF r(2) _ assms(6)]
    by (intro Suc.IH) (simp_all add: set_file_def writes_old_def)
  moreover have "pread (file_bytes w tmp) BLCK pos = ?d" using Suc.prems(3) le assms(4) by (simp add: file_bytes_def pread_block)
  ultimately show ?case
    using f r(1) ld pw by (auto simp: runM set_file_def)
qed

text \<open>The state in which the restoring process looks for its keys.\<close>

definition old_keys_state :: "world \<Rightarrow> world" where
  "old_keys_state w = w\<lparr>CurrentWalEncryptionRange := dummy_range, enc_key_tli := tli max_location, enc_key_lsn := lsn max_location\<rparr>"

lemma init_old_keys_ok:
  assumes "uses_ranges ev pk rgs (old_keys_state w)"
  shows "\<exists>w'. TDEXLogSmgrInitWriteOldKeys ev w = (Inr (), w') \<and> disk w' = disk w \<and> io w' = io w \<and> uses_ranges ev pk rgs w' \<and> writes_old w' \<and>
     pk_cache w' GLOBAL_DATA_TDE_OID = Some pk"
proof -
  let ?w = "old_keys_state w"
  have st: "wr_start dummy_range = max_location" by (simp add: dummy_range_def)
  have wo: "writes_old ?w" by (simp add: writes_old_def old_keys_state_def)
  have run: "TDEXLogSmgrInitWriteOldKeys ev w =
      (if tde_wal_key_cache w = [] then bindM (open_pg_tde_fetch_wal_keys ev (WalLocation 0 1)) (\<lambda>_. ret ()) else ret ()) ?w"
    by (simp add: TDEXLogSmgrInitWriteOldKeys_def TDEXLogSetEncKeyLocation_def runM st open_pg_tde_get_wal_cache_keys_def old_keys_state_def)
  show ?thesis
  proof (cases "tde_wal_key_cache w = []")
    case True
    then have "tde_wal_key_cache ?w = []" by (simp add: old_keys_state_def)
    then obtain c where c: "open_pg_tde_fetch_wal_keys ev (WalLocation 0 1) ?w =
        (Inr (if rgs = [] then None else Some 0), ?w\<lparr>pk_cache := c, tde_wal_key_cache := loaded rgs\<rparr>)" "c GLOBAL_DATA_TDE_OID = Some pk"
      using fetch_all_ok [OF assms] by blast
    have "ranges_ok rgs" using assms by (simp add: uses_ranges_def)
    then have "uses_ranges ev pk rgs (?w\<lparr>pk_cache := c, tde_wal_key_cache := loaded rgs\<rparr>)"
      using c(2) loaded_ok(2) by (intro uses_ranges_upd [OF assms]) (simp_all add: chain_ranges_def)
    moreover have "TDEXLogSmgrInitWriteOldKeys ev w = (Inr (), ?w\<lparr>pk_cache := c, tde_wal_key_cache := loaded rgs\<rparr>)"
      unfolding run using True c(1) by (simp add: runM)
    moreover have "writes_old (?w\<lparr>pk_cache := c, tde_wal_key_cache := loaded rgs\<rparr>)" using wo by (simp add: writes_old_def)
    moreover have "disk ?w = disk w" "io ?w = io w" by (simp_all add: old_keys_state_def)
    ultimately show ?thesis
      using c(2) by (intro exI [of _ "?w\<lparr>pk_cache := c, tde_wal_key_cache := loaded rgs\<rparr>"]) simp
  next
    case False
    then have "pk_cache ?w GLOBAL_DATA_TDE_OID = Some pk" using assms by (simp add: uses_ranges_def old_keys_state_def)
    then show ?thesis
      using False assms wo
      by (intro exI [of _ ?w])
        (simp add: run, simp add: old_keys_state_def)
  qed
qed

lemma encrypt_segment_ok:
  assumes "ecb_is ev F" and f: "disk w tmp = Some P" "disk w seg = None" "io w = []" "seg \<noteq> tmp" "seg \<noteq> get_wal_key_file_path ev"
    and u: "uses_ranges ev pk rgs (old_keys_state (set_file seg [] w))"
    and n: "segment_named lib segname m t sg P"
  shows "\<exists>w'. write_encrypted_segment ev lib seg segname tmp w = (Inr (), w') \<and>
     disk w' = (disk w)(seg \<mapsto> wal_crypt F (chain_ranges rgs) t sg m 0 P)"
proof -
  let ?S = "wal_crypt F (chain_ranges rgs) t sg m 0 P" and ?w1 = "set_file seg [] w" and ?d = "take BLCK P"
  let ?b = "wal_crypt F (chain_ranges rgs) t sg m 0 ?d"
  have s: "20 \<le> m" "m \<le> 30" "(unat sg + 1) * 2 ^ m < 2 ^ 64" "length P = 2 ^ m" "XLogFromFileName lib segname (2 ^ m) = (t, sg)"
      "xlp_seg_size lib ?d = 2 ^ m"
    using n by (simp_all add: segment_named_def)
  obtain k where k: "(2 :: nat) ^ m = BLCK + k * BLCK" "k < 2 ^ m" using segment_blocks [OF s(1)] by blast
  have d: "?d \<noteq> []" "0 + length ?d \<le> 2 ^ m" "length ?d = BLCK" using k(1) s(4) by auto
  obtain w2 where i: "TDEXLogSmgrInitWriteOldKeys ev ?w1 = (Inr (), w2)" "disk w2 = disk ?w1" "io w2 = io ?w1" "uses_ranges ev pk rgs w2" "writes_old w2"
    using init_old_keys_ok [OF u] by blast
  have io2: "io w2 = []" "file_bytes w2 seg = []" using i(2,3) f(3) by (simp_all add: set_file_def file_bytes_def)
  obtain c rs where r: "tdeheap_xlog_seg_write ev seg ?d (of_nat 0) t sg (2 ^ m) w2 =
       (Inr (int (length ?d)), set_file seg (pwrite (file_bytes w2 seg) ?b 0) (w2\<lparr>pk_cache := c, tde_wal_key_cache := rs\<rparr>))"
      "uses_ranges ev pk rgs (w2\<lparr>pk_cache := c, tde_wal_key_cache := rs\<rparr>)" "c GLOBAL_DATA_TDE_OID = Some pk"
    using seg_write_ok [OF assms(1) s(2,3) d(1,2) i(4,5) io2(1)] by blast
  have pw: "pwrite (file_bytes w2 seg) ?b 0 = take BLCK ?S"
    using wal_crypt_block [of 0 BLCK P] k(1) s(4) io2(2) pwrite_at_end [of "[]"] by simp
  let ?w3 = "set_file seg (take BLCK ?S) (w2\<lparr>pk_cache := c, tde_wal_key_cache := rs\<rparr>)"
  have tmp3: "disk ?w3 tmp = Some P" using f(1,4) i(2) by (simp add: set_file_def)
  have "\<exists>w'. encrypt_loop ev (Suc (2 ^ m)) seg tmp t sg (2 ^ m) BLCK ?w3 = (Inr (), w') \<and> disk w' = (disk ?w3)(seg \<mapsto> ?S)"
    using k tmp3 io2(1) i(5) r(3) uses_ranges_set_file [OF r(2) _ f(5)]
    by (intro encrypt_loop_ok [OF assms(1) s(2-4) f(4,5) refl, where n = k]) (simp_all add: set_file_def writes_old_def)
  then obtain w' where l: "encrypt_loop ev (Suc (2 ^ m)) seg tmp t sg (2 ^ m) BLCK ?w3 = (Inr (), w')" "disk w' = (disk w)(seg \<mapsto> ?S)"
    using i(2) by (auto simp: set_file_def)
  have "disk ?w1 tmp = Some P" using f(1,4) by (simp add: set_file_def)
  then have "write_encrypted_segment ev lib seg segname tmp w = (Inr (), w')"
    using f(1,2,4) s i(1) r(1) pw d(3) l(1) tmp3 seg_size_valid [OF s(1,2)]
    by (simp add: write_encrypted_segment_def runM open_create_def Let_def file_bytes_def pread_def del: encrypt_loop.simps)
  with l(2) show ?thesis by blast
qed

section \<open>Properties\<close>

text \<open>
  Archiving an encrypted segment: the program that wraps the archive command decrypts the whole segment. If the segment is a complete
  one whose name, size and header fit together, the temporary file holds exactly the segment with every byte of an
  encrypted range combined with the keystream of that range, the ranges being those of the WAL key file, and no other file is
  changed. The loop over the blocks ends.
\<close>

lemma archive_decrypts_segment:
  assumes "ecb_is ev F" and "disk w seg = Some S" "disk w tmp = None" "io w = []" "tmp \<noteq> seg" "tmp \<noteq> get_wal_key_file_path ev"
    and "uses_ranges ev pk rgs (set_file tmp [] w)"
    and "segment_named lib segname m t sg (wal_crypt F (chain_ranges rgs) t sg m 0 S)"
  shows "\<exists>w'. write_decrypted_segment ev lib seg segname tmp w = (Inr (), w') \<and>
     disk w' = (disk w)(tmp \<mapsto> wal_crypt F (chain_ranges rgs) t sg m 0 S)"
  by (rule decrypt_segment_ok [OF assms])

definition demo_tool :: tool where
  "demo_tool = \<lparr>mkdtemp = Some ''/dev/shm/x'', replace_percent_placeholders = (\<lambda>c f p. Some (c @ p)), system = (\<lambda>c w. (0, w)),
     XLogFromFileName = (\<lambda>n s. (1, 1)), xlp_seg_size = (\<lambda>b. 2 ^ 20), unlink_fails = (\<lambda>p. False)\<rparr>"

definition demo_segment :: bytes where
  "demo_segment = replicate (2 ^ 20) 7"

lemma demo_segment_named: "segment_named demo_tool n 20 1 1 (wal_crypt F rgs 1 1 20 0 demo_segment)"
  by (simp add: segment_named_def demo_tool_def demo_segment_def)

text \<open>A key file with one range, and states that use it.\<close>

lemma demo_range_opens:
  assumes "range_of (demo_range l) e" "wal_holds demo_env pk e demo_wal_key" "l = 100 \<or> l = 200"
  shows "\<exists>rg. opens_to demo_env pk e rg \<and> ranges_ok [rg] \<and> wal_entry_wanted (WalLocation 0 1) e \<and> wr_type rg = WAL_ENCRYPTION_RANGE_ENCRYPTED \<and>
     wr_start rg = WalLocation l 1"
proof -
  obtain rg where rg: "open_pg_tde_wal_range_from_entry demo_env pk e demo_world = (Inr rg, demo_world)" "ik_equiv (wr_key rg) demo_wal_key"
      "range_of rg e" "wr_end rg = max_location"
    using wal_range_from_entry_ok [OF assms(2)] by blast
  have o: "opens_to demo_env pk e rg"
    unfolding opens_to_def using rg(1)
    by (auto simp: open_pg_tde_wal_range_from_entry_def bindM_def AesGcmDecrypt_def liftM_def
        split: sum.splits prod.splits gcm_result.splits option.splits)
  have st: "wr_start rg = WalLocation l 1" "wr_type rg = WAL_ENCRYPTION_RANGE_ENCRYPTED" "we_range_start e = WalLocation l 1"
      "we_range_type e = WAL_ENCRYPTION_RANGE_ENCRYPTED"
    using rg(3) assms(1) by (simp_all add: range_of_def)
  have "wal_entry_wanted (WalLocation 0 1) e"
    using st assms(3) by (auto simp: wal_entry_wanted_def wal_location_valid_def wal_location_cmp_order loc_le
        WAL_ENCRYPTION_RANGE_ENCRYPTED_def WAL_ENCRYPTION_RANGE_INVALID_def)
  moreover have "ranges_ok [rg]"
    using rg(2,4) st assms(3)
    by (auto simp: ranges_ok_def ik_equiv_def demo_wal_key_def max_location_def MaxTimeLineID_def MaxXLogRecPtr_def less_loc
        word_less_nat_alt unsigned_minus_1_eq_mask mask_eq_exp_minus_1)
  ultimately show ?thesis using o st by blast
qed

lemma demo_uses_ranges:
  "\<exists>f rg. wr_type rg = WAL_ENCRYPTION_RANGE_ENCRYPTED \<and> wr_start rg = WalLocation 100 1 \<and>
     (\<forall>w. disk w (get_wal_key_file_path demo_env) = Some f \<and> pk_cache w GLOBAL_DATA_TDE_OID = Some demo_pk \<and> tde_wal_key_cache w = [] \<and>
        (enc_key_lsn w = 0 \<or> WalLocation (enc_key_lsn w) (enc_key_tli w) = max_location) \<longrightarrow> uses_ranges demo_env demo_pk [rg] w)"
proof -
  obtain f e where f: "good_wal f" "aligned f" "wal_entries f = [e]" "range_of (demo_range 100) e" "wal_holds demo_env demo_pk e demo_wal_key"
    using demo_wal_append [of None 100] by (auto simp: usable_file_def wal_entries_of_def)
  obtain rg where rg: "opens_to demo_env demo_pk e rg" "ranges_ok [rg]" "wal_entry_wanted (WalLocation 0 1) e"
      "wr_type rg = WAL_ENCRYPTION_RANGE_ENCRYPTED" "wr_start rg = WalLocation 100 1"
    using demo_range_opens [OF f(4,5)] by auto
  then have "uses_ranges demo_env demo_pk [rg] w"
    if "disk w (get_wal_key_file_path demo_env) = Some f" "pk_cache w GLOBAL_DATA_TDE_OID = Some demo_pk" "tde_wal_key_cache w = []"
      "enc_key_lsn w = 0 \<or> WalLocation (enc_key_lsn w) (enc_key_tli w) = max_location" for w
    using that f server_key_cached [OF that(2), of demo_env] by (auto simp: uses_ranges_def wal_ranges_on_disk_def)
  then show ?thesis using rg(4,5) by (intro exI [of _ f] exI [of _ rg]) auto
qed

definition demo_tool_world :: "bytes \<Rightarrow> string \<Rightarrow> bytes \<Rightarrow> world" where
  "demo_tool_world f p d = demo_world\<lparr>disk := [get_wal_key_file_path demo_env \<mapsto> f, p \<mapsto> d], pk_cache := [GLOBAL_DATA_TDE_OID \<mapsto> demo_pk]\<rparr>"

lemma demo_key_path: "get_wal_key_file_path demo_env = ''pg_tde/wal_keys''"
  by (simp add: get_wal_key_file_path_def demo_env_def)

lemma demo_tool_world_simps [simp]:
  "disk (demo_tool_world f p d) = [get_wal_key_file_path demo_env \<mapsto> f, p \<mapsto> d]" "io (demo_tool_world f p d) = []"
  "pk_cache (demo_tool_world f p d) = [GLOBAL_DATA_TDE_OID \<mapsto> demo_pk]" "tde_wal_key_cache (demo_tool_world f p d) = []"
  "enc_key_lsn (demo_tool_world f p d) = 0"
  by (simp_all add: demo_tool_world_def demo_world_def)

lemma demo_archive:
  "\<exists>f rg. wr_type rg = WAL_ENCRYPTION_RANGE_ENCRYPTED \<and> uses_ranges demo_env demo_pk [rg] (set_file ''tmp'' [] (demo_tool_world f ''seg'' d)) \<and>
     (\<forall>d'. uses_ranges demo_env demo_pk [rg] (old_keys_state (set_file ''seg'' [] (demo_tool_world f ''tmp'' d'))))"
proof -
  obtain f rg where f: "wr_type rg = WAL_ENCRYPTION_RANGE_ENCRYPTED"
      "\<And>w. disk w (get_wal_key_file_path demo_env) = Some f \<Longrightarrow> pk_cache w GLOBAL_DATA_TDE_OID = Some demo_pk \<Longrightarrow> tde_wal_key_cache w = [] \<Longrightarrow>
        enc_key_lsn w = 0 \<or> WalLocation (enc_key_lsn w) (enc_key_tli w) = max_location \<Longrightarrow> uses_ranges demo_env demo_pk [rg] w"
    using demo_uses_ranges by blast
  show ?thesis
    using f(1) by (intro exI [of _ f] exI [of _ rg] conjI allI f(2)) (simp_all add: set_file_def demo_key_path old_keys_state_def)
qed

lemma archive_decrypts_segment_witness:
  "\<exists>f rg w'. wr_type rg = WAL_ENCRYPTION_RANGE_ENCRYPTED \<and>
     write_decrypted_segment demo_env demo_tool ''seg'' ''000000010000000000000001'' ''tmp'' (demo_tool_world f ''seg'' demo_segment) = (Inr (), w') \<and>
     disk w' ''tmp'' = Some (wal_crypt demo_F (chain_ranges [rg]) 1 1 20 0 demo_segment)"
proof -
  obtain f rg where f: "wr_type rg = WAL_ENCRYPTION_RANGE_ENCRYPTED" "uses_ranges demo_env demo_pk [rg] (set_file ''tmp'' [] (demo_tool_world f ''seg'' demo_segment))"
    using demo_archive by blast
  show ?thesis
    using archive_decrypts_segment [where segname = "''000000010000000000000001''" and seg = "''seg''",
        OF demo_ecb_is _ _ _ _ _ f(2) demo_segment_named] f(1)
    by (intro exI [of _ f] exI [of _ rg]) (auto simp: demo_key_path)
qed

text \<open>
  C17. Restoring undoes archiving: the segment that the program wrapping the restore command writes from what was archived is byte for byte the
  segment that was archived, if the WAL key file still holds the same ranges, whatever has happened to the server in between.
\<close>

theorem restore_undoes_archive:
  assumes "ecb_is ev F" and "disk w seg = Some S" "disk w tmp = None" "io w = []" "tmp \<noteq> seg" "tmp \<noteq> get_wal_key_file_path ev"
    and "uses_ranges ev pk rgs (set_file tmp [] w)"
    and "segment_named lib segname m t sg (wal_crypt F (chain_ranges rgs) t sg m 0 S)"
    and "disk w2 tmp2 = disk (snd (write_decrypted_segment ev lib seg segname tmp w)) tmp"
    and "ecb_is ev2 F" "disk w2 seg2 = None" "io w2 = []" "seg2 \<noteq> tmp2" "seg2 \<noteq> get_wal_key_file_path ev2"
    and "uses_ranges ev2 pk2 rgs (old_keys_state (set_file seg2 [] w2))"
  shows "fst (write_encrypted_segment ev2 lib seg2 segname tmp2 w2) = Inr () \<and>
     disk (snd (write_encrypted_segment ev2 lib seg2 segname tmp2 w2)) = (disk w2)(seg2 \<mapsto> S)"
proof -
  let ?P = "wal_crypt F (chain_ranges rgs) t sg m 0 S"
  have "disk w2 tmp2 = Some ?P" using decrypt_segment_ok [OF assms(1-8)] assms(9) by auto
  from encrypt_segment_ok [OF assms(10) this assms(11-15,8)] show ?thesis by auto
qed

theorem restore_undoes_archive_witness:
  "\<exists>f P w'. write_encrypted_segment demo_env demo_tool ''seg'' ''000000010000000000000001'' ''tmp'' (demo_tool_world f ''tmp'' P) = (Inr (), w') \<and>
     disk w' ''seg'' = Some demo_segment \<and>
     disk (snd (write_decrypted_segment demo_env demo_tool ''seg'' ''000000010000000000000001'' ''tmp'' (demo_tool_world f ''seg'' demo_segment))) ''tmp'' = Some P"
proof -
  obtain f rg where f: "uses_ranges demo_env demo_pk [rg] (set_file ''tmp'' [] (demo_tool_world f ''seg'' demo_segment))"
      "\<And>d. uses_ranges demo_env demo_pk [rg] (old_keys_state (set_file ''seg'' [] (demo_tool_world f ''tmp'' d)))"
    using demo_archive by blast
  let ?n = "''000000010000000000000001''" and ?P = "wal_crypt demo_F (chain_ranges [rg]) 1 1 20 0 demo_segment"
  have P: "disk (snd (write_decrypted_segment demo_env demo_tool ''seg'' ?n ''tmp'' (demo_tool_world f ''seg'' demo_segment))) ''tmp'' = Some ?P"
    using decrypt_segment_ok [where segname = ?n and seg = "''seg''", OF demo_ecb_is _ _ _ _ _ f(1) demo_segment_named]
    by (auto simp: demo_key_path)
  have "fst (write_encrypted_segment demo_env demo_tool ''seg'' ?n ''tmp'' (demo_tool_world f ''tmp'' ?P)) = Inr () \<and>
      disk (snd (write_encrypted_segment demo_env demo_tool ''seg'' ?n ''tmp'' (demo_tool_world f ''tmp'' ?P))) =
        (disk (demo_tool_world f ''tmp'' ?P))(''seg'' \<mapsto> demo_segment)"
    by (rule restore_undoes_archive [where seg = "''seg''", OF demo_ecb_is _ _ _ _ _ f(1) demo_segment_named _ demo_ecb_is _ _ _ _ f(2)])
      (simp_all add: P demo_key_path)
  then show ?thesis
    using P by (intro exI [of _ f] exI [of _ ?P]) (auto simp: prod_eq_iff)
qed

end
