(* ===== verification/Tde_Filemap.thy ===== *)
theory Tde_Filemap
  imports Tde_Archive
begin

text \<open>
  What \<open>pg_rewind\<close> does with each file (\<open>fetools/pg18/pg_rewind/datapagemap.c\<close>, \<open>filemap.c\<close>): the bitmap of the blocks that changed on the
  target, the map of the files of the two servers, the relation and segment that a path stands for, and the decision per file.

  The hash table is the list of its entries; the order in which the program walks it does not matter, since the entries are sorted by
  action and path. The record \<open>pg\<close> holds what comes from PostgreSQL and the build configuration.
\<close>

record pg =
  relpathperm :: "RelFileLocator \<Rightarrow> ForkNumber \<Rightarrow> string"
  TABLESPACE_VERSION_DIRECTORY :: string
  RELSEG_SIZE :: u32
  XLOG_CONTROL_FILE :: string

section \<open>The map of the pages of a file\<close>

record datapagemap_t =
  bitmap :: bytes
  bitmapsize :: nat

definition no_pages :: datapagemap_t where
  "no_pages = \<lparr>bitmap = [], bitmapsize = 0\<rparr>"

definition datapagemap_add :: "datapagemap_t \<Rightarrow> u32 \<Rightarrow> datapagemap_t" where
  "datapagemap_add pm blkno =
     (let offset = unat blkno div 8;
          bitno = unat blkno mod 8;
          newsize = offset + 1 + 10;
          pm = (if bitmapsize pm \<le> offset
                 then \<lparr>bitmap = take (bitmapsize pm) (bitmap pm) @ replicate (newsize - bitmapsize pm) 0, bitmapsize = newsize\<rparr>
                 else pm)
      in pm\<lparr>bitmap := (bitmap pm)[offset := or (bitmap pm ! offset) (push_bit bitno 1)]\<rparr>)"

text \<open>
  The iterator is the number of the next block, an unsigned 32-bit number: the search for the next bit that is set may wrap around and go on
  for ever.
\<close>

partial_function (option) datapagemap_next :: "datapagemap_t \<Rightarrow> u32 \<Rightarrow> (u32 option \<times> u32) option" where
  [code]: "datapagemap_next pm nextblkno =
     (if bitmapsize pm \<le> unat nextblkno div 8 then Some (None, nextblkno)
      else if and (bitmap pm ! (unat nextblkno div 8)) (push_bit (unat nextblkno mod 8) 1) \<noteq> 0 then Some (Some nextblkno, nextblkno + 1)
      else datapagemap_next pm (nextblkno + 1))"

text \<open>The loop that the callers of the iterator run, started with \<open>datapagemap_iterate\<close>: the blocks in the order in which they come.\<close>

definition datapagemap_iterate :: "datapagemap_t \<Rightarrow> u32" where
  "datapagemap_iterate pm = 0"

partial_function (option) datapagemap_rest :: "datapagemap_t \<Rightarrow> u32 \<Rightarrow> u32 list option" where
  [code]: "datapagemap_rest pm iter =
     Option.bind (datapagemap_next pm iter) (\<lambda>(blkno, iter').
     case blkno of
       None \<Rightarrow> Some []
     | Some b \<Rightarrow> Option.bind (datapagemap_rest pm iter') (\<lambda>bs. Some (b # bs)))"

definition datapagemap_blocks :: "datapagemap_t \<Rightarrow> u32 list option" where
  "datapagemap_blocks pm = datapagemap_rest pm (datapagemap_iterate pm)"

section \<open>Paths\<close>

text \<open>\<open>sscanf\<close> with \<open>%u\<close> and literal text: the values converted up to the first failure.\<close>

datatype scan_directive = Lit string | ScanU

definition scan_u :: "string \<Rightarrow> (u32 \<times> string) option" where
  "scan_u s = (case strtoul s of (v, rest) \<Rightarrow> if rest = s then None else Some (ucast v, rest))"

fun sscanf :: "scan_directive list \<Rightarrow> string \<Rightarrow> u32 list" where
  "sscanf [] s = []"
| "sscanf (Lit l # fmt) s = (if take (length l) s = l then sscanf fmt (drop (length l) s) else [])"
| "sscanf (ScanU # fmt) s = (case scan_u s of None \<Rightarrow> [] | Some (v, rest) \<Rightarrow> v # sscanf fmt rest)"

definition GLOBALTABLESPACE_OID :: Oid where "GLOBALTABLESPACE_OID = 1664"
definition DEFAULTTABLESPACE_OID :: Oid where "DEFAULTTABLESPACE_OID = 1663"

text \<open>The third attempt writes all fields of the locator, so what a failed attempt left in them is never returned.\<close>

definition path_rlocator :: "pg \<Rightarrow> string \<Rightarrow> (RelFileLocator \<times> u32) option" where
  "path_rlocator pg path =
     (case sscanf [Lit ''global/'', ScanU, Lit ''.'', ScanU] path of
        [rel] \<Rightarrow> Some (\<lparr>spcOid = GLOBALTABLESPACE_OID, dbOid = 0, relNumber = rel\<rparr>, 0)
      | [rel, seg] \<Rightarrow> Some (\<lparr>spcOid = GLOBALTABLESPACE_OID, dbOid = 0, relNumber = rel\<rparr>, seg)
      | _ \<Rightarrow>
        (case sscanf [Lit ''base/'', ScanU, Lit ''/'', ScanU, Lit ''.'', ScanU] path of
           [db, rel] \<Rightarrow> Some (\<lparr>spcOid = DEFAULTTABLESPACE_OID, dbOid = db, relNumber = rel\<rparr>, 0)
         | [db, rel, seg] \<Rightarrow> Some (\<lparr>spcOid = DEFAULTTABLESPACE_OID, dbOid = db, relNumber = rel\<rparr>, seg)
         | _ \<Rightarrow>
           (case sscanf [Lit ''pg_tblspc/'', ScanU, Lit (''/'' @ TABLESPACE_VERSION_DIRECTORY pg @ ''/''), ScanU, Lit ''/'', ScanU, Lit ''.'', ScanU] path of
              [spc, db, rel] \<Rightarrow> Some (\<lparr>spcOid = spc, dbOid = db, relNumber = rel\<rparr>, 0)
            | [spc, db, rel, seg] \<Rightarrow> Some (\<lparr>spcOid = spc, dbOid = db, relNumber = rel\<rparr>, seg)
            | _ \<Rightarrow> None)))"

definition datasegpath :: "pg \<Rightarrow> RelFileLocator \<Rightarrow> ForkNumber \<Rightarrow> u32 \<Rightarrow> string" where
  "datasegpath pg rlocator forknum segno =
     (if segno > 0 then relpathperm pg rlocator forknum @ ''.'' @ digits (unat segno) else relpathperm pg rlocator forknum)"

definition isRelDataFile :: "pg \<Rightarrow> string \<Rightarrow> bool" where
  "isRelDataFile pg path =
     (case path_rlocator pg path of
        None \<Rightarrow> False
      | Some (rlocator, segNo) \<Rightarrow> datasegpath pg rlocator MAIN_FORKNUM segNo = path)"

section \<open>The files of the two servers\<close>

datatype file_action_t =
    FILE_ACTION_UNDECIDED | FILE_ACTION_CREATE | FILE_ACTION_COPY | FILE_ACTION_COPY_TAIL | FILE_ACTION_NONE | FILE_ACTION_TRUNCATE
  | FILE_ACTION_REMOVE | FILE_ACTION_ENSURE_TDE_KEY | FILE_ACTION_ENSURE_WAL_SEG

datatype file_type_t = FILE_TYPE_UNDEFINED | FILE_TYPE_REGULAR | FILE_TYPE_DIRECTORY | FILE_TYPE_SYMLINK

record file_entry_t =
  path :: string
  isrelfile :: bool
  target_exists :: bool
  target_type :: file_type_t
  target_size :: nat
  target_link_target :: "string option"
  target_pages_to_overwrite :: datapagemap_t
  source_exists :: bool
  source_type :: file_type_t
  source_size :: nat
  source_link_target :: "string option"
  action :: file_action_t

type_synonym filehash = "file_entry_t list"

definition new_entry :: "pg \<Rightarrow> string \<Rightarrow> file_entry_t" where
  "new_entry pg p =
     \<lparr>path = p, isrelfile = isRelDataFile pg p, target_exists = False, target_type = FILE_TYPE_UNDEFINED, target_size = 0,
      target_link_target = None, target_pages_to_overwrite = no_pages, source_exists = False, source_type = FILE_TYPE_UNDEFINED,
      source_size = 0, source_link_target = None, action = FILE_ACTION_UNDECIDED\<rparr>"

definition lookup_filehash_entry :: "filehash \<Rightarrow> string \<Rightarrow> file_entry_t option" where
  "lookup_filehash_entry h p = find (\<lambda>e. path e = p) h"

definition insert_filehash_entry :: "pg \<Rightarrow> filehash \<Rightarrow> string \<Rightarrow> filehash" where
  "insert_filehash_entry pg h p = (if lookup_filehash_entry h p = None then h @ [new_entry pg p] else h)"

text \<open>Writing to the entry of a path.\<close>

definition update_entry :: "string \<Rightarrow> (file_entry_t \<Rightarrow> file_entry_t) \<Rightarrow> filehash \<Rightarrow> filehash" where
  "update_entry p f h = map (\<lambda>e. if path e = p then f e else e) h"

definition process_source_file :: "pg \<Rightarrow> filehash \<Rightarrow> string \<Rightarrow> file_type_t \<Rightarrow> nat \<Rightarrow> string option \<Rightarrow> tde_error + filehash" where
  "process_source_file pg h p type sz link_target =
     (let type = (if p = ''pg_wal'' \<and> type = FILE_TYPE_SYMLINK then FILE_TYPE_DIRECTORY else type) in
      if type \<noteq> FILE_TYPE_REGULAR \<and> isRelDataFile pg p then Inl (E_state ''data file in source is not a regular file'')
      else
        (let h = insert_filehash_entry pg h p in
         if (case lookup_filehash_entry h p of Some e \<Rightarrow> source_exists e | None \<Rightarrow> False) then Inl (E_state ''duplicate source file'')
         else Inr (update_entry p (\<lambda>e. e\<lparr>source_exists := True, source_type := type, source_size := sz, source_link_target := link_target\<rparr>) h)))"

definition process_target_file :: "pg \<Rightarrow> filehash \<Rightarrow> string \<Rightarrow> file_type_t \<Rightarrow> nat \<Rightarrow> string option \<Rightarrow> tde_error + filehash" where
  "process_target_file pg h p type sz link_target =
     (let type = (if p = ''pg_wal'' \<and> type = FILE_TYPE_SYMLINK then FILE_TYPE_DIRECTORY else type);
          h = insert_filehash_entry pg h p in
      if (case lookup_filehash_entry h p of Some e \<Rightarrow> target_exists e | None \<Rightarrow> False) then Inl (E_state ''duplicate source file'')
      else Inr (update_entry p (\<lambda>e. e\<lparr>target_exists := True, target_type := type, target_size := sz, target_link_target := link_target\<rparr>) h))"

text \<open>The end of the block is computed with 32 bits before it is widened.\<close>

definition process_target_wal_block_change :: "pg \<Rightarrow> filehash \<Rightarrow> ForkNumber \<Rightarrow> RelFileLocator \<Rightarrow> u32 \<Rightarrow> tde_error + filehash" where
  "process_target_wal_block_change pg h forknum rlocator blkno =
     (let segno = blkno div RELSEG_SIZE pg;
          blkno_inseg = blkno mod RELSEG_SIZE pg;
          p = datasegpath pg rlocator forknum segno
      in case lookup_filehash_entry h p of
           None \<Rightarrow> Inr h
         | Some e \<Rightarrow>
             if \<not> target_exists e then Inr h
             else if target_type e \<noteq> FILE_TYPE_REGULAR then Inl (E_state ''unexpected page modification for non-regular file'')
             else if \<not> source_exists e then Inr h
             else
               (let end_offset = unat ((blkno_inseg + 1) * 8192) in
                if end_offset \<le> source_size e \<and> end_offset \<le> target_size e
                then Inr (update_entry p (\<lambda>e. e\<lparr>target_pages_to_overwrite := datapagemap_add (target_pages_to_overwrite e) blkno_inseg\<rparr>) h)
                else Inr h))"

section \<open>Deciding\<close>

fun contains :: "string \<Rightarrow> string \<Rightarrow> bool" where
  "contains [] needle = (needle = [])"
| "contains (c # s) needle = (take (length needle) (c # s) = needle \<or> contains s needle)"

definition excludeDirContents :: "string list" where
  "excludeDirContents = [''pg_stat_tmp'', ''pg_replslot'', ''pg_dynshmem'', ''pg_notify'', ''pg_serial'', ''pg_snapshots'', ''pg_subtrans'']"

definition excludeFiles :: "(string \<times> bool) list" where
  "excludeFiles =
     [(''postgresql.auto.conf.tmp'', False), (''current_logfiles.tmp'', False), (''pg_internal.init'', True), (''backup_label'', False),
      (''tablespace_map'', False), (''backup_manifest'', False), (''postmaster.pid'', False), (''postmaster.opts'', False)]"

definition check_file_excluded :: "string \<Rightarrow> bool" where
  "check_file_excluded p \<longleftrightarrow>
     contains p ''/pgsql_tmp'' \<or> contains p ''/pgsql_tmp/'' \<or>
     list_ex (\<lambda>(n, match_prefix). if match_prefix then take (length n) (base_name p) = n else base_name p = n) excludeFiles \<or>
     list_ex (\<lambda>d. take (length d + 1) p = d @ ''/'') excludeDirContents"

text \<open>\<open>keepwal\<close> is the set of the WAL files that must not be removed. \<open>None\<close> is the fatal error of a file of unknown or different type.\<close>

definition ends_with :: "string \<Rightarrow> string \<Rightarrow> bool" where
  "ends_with s e \<longleftrightarrow> length e \<le> length s \<and> drop (length s - length e) s = e"

definition decide_file_action :: "pg \<Rightarrow> string list \<Rightarrow> file_entry_t \<Rightarrow> file_action_t option" where
  "decide_file_action pg keepwal entry =
     (let p = path entry in
      if p = XLOG_CONTROL_FILE pg then Some FILE_ACTION_NONE
      else if contains p ''.DS_Store'' then Some FILE_ACTION_NONE
      else if take 7 p = take 7 ''open_pg_tde/'' then Some FILE_ACTION_NONE
      else if check_file_excluded p then Some (if target_exists entry then FILE_ACTION_REMOVE else FILE_ACTION_NONE)
      else if \<not> target_exists entry \<and> source_exists entry then
        (case source_type entry of
           FILE_TYPE_DIRECTORY \<Rightarrow> Some FILE_ACTION_CREATE
         | FILE_TYPE_SYMLINK \<Rightarrow> Some FILE_ACTION_CREATE
         | FILE_TYPE_REGULAR \<Rightarrow> Some FILE_ACTION_COPY
         | FILE_TYPE_UNDEFINED \<Rightarrow> None)
      else if target_exists entry \<and> \<not> source_exists entry then
        Some (if p \<in> set keepwal then FILE_ACTION_ENSURE_WAL_SEG else FILE_ACTION_REMOVE)
      else if \<not> target_exists entry \<and> \<not> source_exists entry then Some FILE_ACTION_NONE
      else if source_type entry \<noteq> target_type entry then None
      else if ends_with p ''PG_VERSION'' then Some FILE_ACTION_NONE
      else
        (case source_type entry of
           FILE_TYPE_DIRECTORY \<Rightarrow> Some FILE_ACTION_NONE
         | FILE_TYPE_SYMLINK \<Rightarrow> Some FILE_ACTION_NONE
         | FILE_TYPE_REGULAR \<Rightarrow>
             Some (if \<not> isrelfile entry then FILE_ACTION_COPY
                   else if target_size entry < source_size entry then FILE_ACTION_COPY_TAIL
                   else if target_size entry > source_size entry then FILE_ACTION_TRUNCATE
                   else FILE_ACTION_ENSURE_TDE_KEY)
         | FILE_TYPE_UNDEFINED \<Rightarrow> None))"

fun strcmp :: "string \<Rightarrow> string \<Rightarrow> int" where
  "strcmp [] [] = 0"
| "strcmp [] (c # cs) = - 1"
| "strcmp (c # cs) [] = 1"
| "strcmp (c # cs) (d # ds) = (if c = d then strcmp cs ds else if (of_char c :: nat) < of_char d then - 1 else 1)"

fun action_rank :: "file_action_t \<Rightarrow> nat" where
  "action_rank FILE_ACTION_UNDECIDED = 0"
| "action_rank FILE_ACTION_CREATE = 1"
| "action_rank FILE_ACTION_COPY = 2"
| "action_rank FILE_ACTION_COPY_TAIL = 3"
| "action_rank FILE_ACTION_NONE = 4"
| "action_rank FILE_ACTION_TRUNCATE = 5"
| "action_rank FILE_ACTION_REMOVE = 6"
| "action_rank FILE_ACTION_ENSURE_TDE_KEY = 7"
| "action_rank FILE_ACTION_ENSURE_WAL_SEG = 8"

definition final_filemap_cmp :: "file_entry_t \<Rightarrow> file_entry_t \<Rightarrow> int" where
  "final_filemap_cmp fa fb =
     (if action_rank (action fa) > action_rank (action fb) then 1
      else if action_rank (action fa) < action_rank (action fb) then - 1
      else if action fa = FILE_ACTION_REMOVE then strcmp (path fb) (path fa)
      else strcmp (path fa) (path fb))"

text \<open>Sorting with a comparison function, as \<open>qsort\<close> does.\<close>

fun insert_by :: "('a \<Rightarrow> 'a \<Rightarrow> int) \<Rightarrow> 'a \<Rightarrow> 'a list \<Rightarrow> 'a list" where
  "insert_by cmp x [] = [x]"
| "insert_by cmp x (y # ys) = (if cmp x y \<le> 0 then x # y # ys else y # insert_by cmp x ys)"

definition qsort :: "('a \<Rightarrow> 'a \<Rightarrow> int) \<Rightarrow> 'a list \<Rightarrow> 'a list" where
  "qsort cmp xs = foldr (insert_by cmp) xs []"

definition decide_file_actions :: "pg \<Rightarrow> string list \<Rightarrow> filehash \<Rightarrow> filehash option" where
  "decide_file_actions pg keepwal h =
     (if list_ex (\<lambda>e. decide_file_action pg keepwal e = None) h then None
      else Some (qsort final_filemap_cmp (map (\<lambda>e. e\<lparr>action := the (decide_file_action pg keepwal e)\<rparr>) h)))"

text \<open>The sizes for the progress report.\<close>

definition entry_fetch_size :: "file_entry_t \<Rightarrow> nat option" where
  "entry_fetch_size e =
     (if source_type e \<noteq> FILE_TYPE_REGULAR then Some 0
      else if action e = FILE_ACTION_COPY then Some (source_size e)
      else Option.bind (datapagemap_blocks (target_pages_to_overwrite e)) (\<lambda>bs.
        Some ((if action e = FILE_ACTION_COPY_TAIL then source_size e - target_size e else 0) + 8192 * length bs)))"

definition calculate_totals :: "filehash \<Rightarrow> (nat \<times> nat) option" where
  "calculate_totals es =
     foldr (\<lambda>e r. Option.bind r (\<lambda>(total, fetch). Option.bind (entry_fetch_size e) (\<lambda>n.
       Some (total + (if source_type e = FILE_TYPE_REGULAR then source_size e else 0), fetch + n)))) es (Some (0, 0))"

end
