(* ===== verification/Tde_Filemap_Ops.thy ===== *)
theory Tde_Filemap_Ops
  imports Tde_Filemap Tde_WalCrypt
begin

text \<open>
  The bitmap of changed blocks implements a finite set and its iterator ends, and the path of a relation file determines the
  relation and the segment.
\<close>

section \<open>The set of blocks that a map holds\<close>

definition pages :: "datapagemap_t \<Rightarrow> u32 set" where
  "pages pm = {b. unat b div 8 < bitmapsize pm \<and> bit (bitmap pm ! (unat b div 8)) (unat b mod 8)}"

definition wf_pages :: "datapagemap_t \<Rightarrow> bool" where
  "wf_pages pm \<longleftrightarrow> length (bitmap pm) = bitmapsize pm"

lemma pages_empty [simp]: "pages no_pages = {}" "wf_pages no_pages"
  by (simp_all add: pages_def no_pages_def wf_pages_def)

lemma bit_test: "and (x :: byte) (2 ^ n) = 0 \<longleftrightarrow> \<not> bit x n"
proof -
  have "and x (push_bit n 1) = (if bit x n then push_bit n 1 else 0)"
    by (rule bit_word_eqI) (auto simp: bit_simps)
  moreover have "push_bit n (1 :: byte) \<noteq> 0" if "bit x n"
    using bit_imp_le_length [OF that] by (simp add: push_bit_eq_mult word_neq_0_conv [symmetric])
  ultimately show ?thesis by (auto simp: push_bit_eq_mult)
qed

lemma datapagemap_add_wf: "wf_pages pm \<Longrightarrow> wf_pages (datapagemap_add pm b)"
  by (auto simp: wf_pages_def datapagemap_add_def Let_def)

lemma datapagemap_add_size: "bitmapsize (datapagemap_add pm b) = (if bitmapsize pm \<le> unat b div 8 then unat b div 8 + 11 else bitmapsize pm)"
  by (simp add: datapagemap_add_def Let_def)

lemma page_position: "a = b \<longleftrightarrow> unat a div 8 = unat b div 8 \<and> unat a mod 8 = unat (b :: u32) mod 8"
  by (metis div_mult_mod_eq word_unat_eq_iff)

lemma datapagemap_add_pages:
  assumes "wf_pages pm"
  shows "pages (datapagemap_add pm b) = insert b (pages pm)"
proof (intro set_eqI)
  fix x :: u32
  let ?o = "unat b div 8" and ?p = "unat x div 8"
  have set_bit: "bit (or v (push_bit (unat b mod 8) (1 :: byte))) i \<longleftrightarrow> bit v i \<or> i = unat b mod 8" if "i < 8" for v i
    using that by (auto simp: bit_simps)
  define bm where "bm = (if bitmapsize pm \<le> ?o then take (bitmapsize pm) (bitmap pm) @ replicate (?o + 11 - bitmapsize pm) 0 else bitmap pm)"
  define n where "n = (if bitmapsize pm \<le> ?o then ?o + 11 else bitmapsize pm)"
  have add: "datapagemap_add pm b = \<lparr>bitmap = bm[?o := or (bm ! ?o) (push_bit (unat b mod 8) 1)], bitmapsize = n\<rparr>"
    by (simp add: datapagemap_add_def Let_def bm_def n_def add.commute)
  have bm: "length bm = n" "?o < n" "bitmapsize pm \<le> n" using assms by (auto simp: bm_def n_def wf_pages_def)
  have old: "bm ! i = (if i < bitmapsize pm then bitmap pm ! i else 0)" if "i < n" for i
    using that assms by (auto simp: bm_def n_def wf_pages_def nth_append)
  have "x \<in> pages (datapagemap_add pm b) \<longleftrightarrow> ?p < n \<and> (bit (bm ! ?p) (unat x mod 8) \<or> ?p = ?o \<and> unat x mod 8 = unat b mod 8)"
    using bm set_bit by (auto simp: pages_def add nth_list_update)
  also have "\<dots> \<longleftrightarrow> x \<in> pages pm \<or> x = b"
  proof -
    have "?p < n \<and> bit (bm ! ?p) (unat x mod 8) \<longleftrightarrow> x \<in> pages pm"
      using bm(3) old [of ?p] by (cases "?p < bitmapsize pm") (auto simp: pages_def)
    then show ?thesis using bm(2) page_position [of x b] by auto
  qed
  finally show "x \<in> pages (datapagemap_add pm b) \<longleftrightarrow> x \<in> insert b (pages pm)" by auto
qed

section \<open>Iterating\<close>

text \<open>The search cannot wrap around if the number of bits is a 32-bit number.\<close>

definition no_wrap :: "datapagemap_t \<Rightarrow> bool" where
  "no_wrap pm \<longleftrightarrow> 8 * bitmapsize pm < 2 ^ 32"

lemma unat_Suc: "unat (b :: u32) < 8 * n \<Longrightarrow> 8 * n < 2 ^ 32 \<Longrightarrow> unat (b + 1) = Suc (unat b)"
  by (simp add: unat_word_ariths)

lemma next_spec:
  assumes "no_wrap pm"
  shows "\<exists>e. datapagemap_next pm i = (if {b \<in> pages pm. i \<le> b} = {} then Some (None, e)
     else Some (Some (Min {b \<in> pages pm. i \<le> b}), Min {b \<in> pages pm. i \<le> b} + 1))"
proof (induction "8 * bitmapsize pm - unat i" arbitrary: i rule: less_induct)
  case less
  let ?S = "\<lambda>i. {b \<in> pages pm. i \<le> b}"
  show ?case
  proof (cases "bitmapsize pm \<le> unat i div 8")
    case True
    then have "?S i = {}" by (auto simp: pages_def word_le_nat_alt dest: div_le_mono [where k = 8])
    with True show ?thesis by (subst datapagemap_next.simps) simp
  next
    case False
    then have lt: "unat i < 8 * bitmapsize pm" by (simp add: less_mult_imp_div_less not_le div_less_iff_less_mult mult.commute)
    have s: "unat (i + 1) = Suc (unat i)" using unat_Suc [OF lt] assms by (simp add: no_wrap_def)
    show ?thesis
    proof (cases "bit (bitmap pm ! (unat i div 8)) (unat i mod 8)")
      case True
      then have "i \<in> ?S i" using False by (simp add: pages_def)
      moreover from this have "Min (?S i) = i" by (intro Min_eqI) auto
      ultimately show ?thesis using True False by (subst datapagemap_next.simps) (auto simp: bit_test)
    next
      case b: False
      have "?S i = ?S (i + 1)"
      proof (intro Collect_cong conj_cong refl)
        fix x assume "x \<in> pages pm"
        then have "x \<noteq> i" using b by (auto simp: pages_def)
        then show "i \<le> x \<longleftrightarrow> i + 1 \<le> x" using s by (auto simp: word_le_nat_alt word_unat_eq_iff)
      qed
      moreover have "datapagemap_next pm i = datapagemap_next pm (i + 1)"
        using b False by (subst datapagemap_next.simps) (simp add: bit_test)
      moreover have "8 * bitmapsize pm - unat (i + 1) < 8 * bitmapsize pm - unat i" using s lt by simp
      ultimately show ?thesis using less [of "i + 1"] by (simp only: refl)
    qed
  qed
qed

lemma rest_spec:
  assumes "no_wrap pm"
  shows "datapagemap_rest pm i = Some (sorted_list_of_set {b \<in> pages pm. i \<le> b})"
proof (induction "8 * bitmapsize pm - unat i" arbitrary: i rule: less_induct)
  case less
  let ?S = "{b \<in> pages pm. i \<le> b}"
  show ?case
  proof (cases "?S = {}")
    case True
    with next_spec [OF assms, of i] show ?thesis by (subst datapagemap_rest.simps) (auto simp del: Collect_empty_eq)
  next
    case False
    let ?m = "Min ?S"
    have m: "?m \<in> ?S" using False by (intro Min_in) simp_all
    then have lt: "unat ?m < 8 * bitmapsize pm" by (auto simp: pages_def div_less_iff_less_mult mult.commute)
    have s: "unat (?m + 1) = Suc (unat ?m)" using unat_Suc [OF lt] assms by (simp add: no_wrap_def)
    have "{b \<in> pages pm. ?m + 1 \<le> b} = ?S - {?m}"
    proof (intro set_eqI)
      fix x
      have "?m \<le> x" if "x \<in> ?S" using that by (intro Min_le) simp_all
      then show "x \<in> {b \<in> pages pm. ?m + 1 \<le> b} \<longleftrightarrow> x \<in> ?S - {?m}"
        using m s by (auto simp: word_le_nat_alt word_unat_eq_iff)
    qed
    moreover have "datapagemap_rest pm (?m + 1) = Some (sorted_list_of_set {b \<in> pages pm. ?m + 1 \<le> b})"
      using s m lt by (intro less) (auto simp: word_le_nat_alt)
    moreover have "datapagemap_next pm i = Some (Some ?m, ?m + 1)" using next_spec [OF assms, of i] False by auto
    ultimately show ?thesis using False by (subst datapagemap_rest.simps) (simp add: sorted_list_of_set_nonempty)
  qed
qed

lemma fold_add_pages: "wf_pages pm \<Longrightarrow> pages (fold (\<lambda>b pm. datapagemap_add pm b) bs pm) = pages pm \<union> set bs"
  by (induction bs arbitrary: pm) (simp_all add: datapagemap_add_pages datapagemap_add_wf)

lemma fold_add_size:
  "bitmapsize pm \<le> n \<Longrightarrow> \<forall>b\<in>set bs. unat b div 8 + 11 \<le> n \<Longrightarrow> bitmapsize (fold (\<lambda>b pm. datapagemap_add pm b) bs pm) \<le> n"
  by (induction bs arbitrary: pm) (simp_all add: datapagemap_add_size)

text \<open>
  The blocks of a file that changed on the target are copied each once and in order: for blocks of a segment added in any order and
  number, walking the bitmap ends and gives exactly the blocks added, in ascending order.
\<close>

lemma datapagemap_exact:
  assumes "\<forall>b\<in>set bs. b < 2 ^ 31"
  shows "datapagemap_blocks (fold (\<lambda>b pm. datapagemap_add pm b) bs no_pages) = Some (sorted_list_of_set (set bs))"
proof -
  let ?pm = "fold (\<lambda>b pm. datapagemap_add pm b) bs no_pages"
  have "unat b div 8 + 11 \<le> 2 ^ 28 + 11" if "b \<in> set bs" for b
    using assms that by (auto simp: word_less_nat_alt)
  then have "bitmapsize ?pm \<le> 2 ^ 28 + 11" by (intro fold_add_size) (simp_all add: no_pages_def)
  then have "no_wrap ?pm" by (simp add: no_wrap_def)
  then show ?thesis
    by (simp add: datapagemap_blocks_def datapagemap_iterate_def rest_spec fold_add_pages word_coorder.extremum)
qed

lemma datapagemap_exact_witness:
  "datapagemap_blocks (fold (\<lambda>b pm. datapagemap_add pm b) [70, 3, 9, 3] no_pages) = Some [3, 9, 70]"
  using datapagemap_exact [of "[70, 3, 9, 3]"] unfolding sorted_list_of_set_sort_remdups by simp

section \<open>The relation of a path\<close>

definition no_digit_first :: "string \<Rightarrow> bool" where
  "no_digit_first r \<longleftrightarrow> r = [] \<or> \<not> is_digit (hd r)"

lemma scan_digits:
  assumes "no_digit_first r"
  shows "scan_u (digits (unat (v :: u32)) @ r) = Some (v, r)"
proof -
  let ?n = "unat v"
  obtain c cs where ds: "digits ?n = c # cs" by (meson digits_not_Nil neq_Nil_conv)
  then have c: "is_digit c" using hd_digits [of ?n] by simp
  then have "\<not> is_space c" "c \<noteq> CHR ''-''" "c \<noteq> CHR ''+''" by (auto simp: is_digit_def is_space_def)
  then have sign: "dropWhile is_space (digits ?n @ r) = digits ?n @ r" "hd (digits ?n @ r) \<noteq> CHR ''-''" "hd (digits ?n @ r) \<noteq> CHR ''+''"
    using ds by simp_all
  have tw: "takeWhile is_digit (digits ?n @ r) = digits ?n" "dropWhile is_digit (digits ?n @ r) = r"
    using digits_all assms by (cases r; simp add: no_digit_first_def)+
  have n: "?n < 2 ^ 64" using unsigned_less [of v, where ?'a = nat] by simp
  have "strtoul (digits ?n @ r) = (of_nat ?n, r)"
    unfolding strtoul_def Let_def sign(1) using sign(2,3) tw n by simp
  moreover have "ucast (of_nat ?n :: u64) = v" unfolding ucast_of_nat by simp
  ultimately show ?thesis by (simp add: scan_u_def del: of_nat_unat)
qed

text \<open>The suffix of a segment.\<close>

definition seg_suffix :: "u32 \<Rightarrow> string" where
  "seg_suffix seg = (if seg > 0 then ''.'' @ digits (unat seg) else [])"

lemma no_digit_first_simps [simp]:
  "no_digit_first []" "no_digit_first (CHR ''/'' # s)" "no_digit_first (CHR ''.'' # s)" "no_digit_first (CHR ''_'' # s)"
  by (simp_all add: no_digit_first_def is_digit_def)

lemma scan_digits_end: "scan_u (digits (unat (v :: u32))) = Some (v, [])"
  using scan_digits [of "[]" v] by simp

lemmas scan_path = scan_digits scan_digits_end seg_suffix_def

text \<open>The documented form of the names of the main fork.\<close>

definition relpath_documented :: "pg \<Rightarrow> bool" where
  "relpath_documented pg \<longleftrightarrow> (\<forall>rl. relpathperm pg rl MAIN_FORKNUM =
     (if spcOid rl = GLOBALTABLESPACE_OID then ''global/'' @ digits (unat (relNumber rl))
      else if spcOid rl = DEFAULTTABLESPACE_OID then ''base/'' @ digits (unat (dbOid rl)) @ ''/'' @ digits (unat (relNumber rl))
      else ''pg_tblspc/'' @ digits (unat (spcOid rl)) @ ''/'' @ TABLESPACE_VERSION_DIRECTORY pg @ ''/'' @ digits (unat (dbOid rl)) @ ''/'' @
        digits (unat (relNumber rl))))"

lemma datasegpath_suffix: "datasegpath pg rl fk seg = relpathperm pg rl fk @ seg_suffix seg"
  by (simp add: datasegpath_def seg_suffix_def)

lemma path_rlocator_datasegpath:
  assumes "relpath_documented pg" "spcOid rl = GLOBALTABLESPACE_OID \<longrightarrow> dbOid rl = 0"
  shows "path_rlocator pg (datasegpath pg rl MAIN_FORKNUM seg) = Some (rl, seg)"
proof -
  let ?p = "datasegpath pg rl MAIN_FORKNUM seg"
  consider (glob) "spcOid rl = GLOBALTABLESPACE_OID" "?p = ''global/'' @ digits (unat (relNumber rl)) @ seg_suffix seg"
    | (base) "spcOid rl = DEFAULTTABLESPACE_OID" "?p = ''base/'' @ digits (unat (dbOid rl)) @ ''/'' @ digits (unat (relNumber rl)) @ seg_suffix seg"
    | (spc) "?p = ''pg_tblspc/'' @ digits (unat (spcOid rl)) @ ''/'' @ TABLESPACE_VERSION_DIRECTORY pg @ ''/'' @ digits (unat (dbOid rl)) @ ''/'' @
        digits (unat (relNumber rl)) @ seg_suffix seg"
    using spec [OF assms(1) [unfolded relpath_documented_def], of rl]
    by (cases "spcOid rl = GLOBALTABLESPACE_OID"; cases "spcOid rl = DEFAULTTABLESPACE_OID") (simp_all add: datasegpath_suffix)
  then show ?thesis
  proof cases
    case glob
    then show ?thesis using assms(2) by (cases rl; cases "seg = 0") (auto simp: path_rlocator_def scan_path word_neq_0_conv)
  next
    case base
    then show ?thesis by (cases rl; cases "seg = 0") (auto simp: path_rlocator_def scan_path word_neq_0_conv)
  next
    case spc
    then show ?thesis by (cases rl; cases "seg = 0") (auto simp: path_rlocator_def scan_path word_neq_0_conv)
  qed
qed

text \<open>The name of another fork matches as well, as if it were the first segment of the main fork.\<close>

lemma path_rlocator_fork:
  "path_rlocator pg (''base/'' @ digits (unat db) @ ''/'' @ digits (unat rel) @ CHR ''_'' # s) =
     Some (\<lparr>spcOid = DEFAULTTABLESPACE_OID, dbOid = db, relNumber = rel\<rparr>, 0)"
  by (simp add: path_rlocator_def scan_path)

text \<open>
  The relation and the segment that a path stands for: with the names that PostgreSQL gives to the files of the main fork, a path counts as
  relation file if and only if it is the name of a segment of the main fork of some relation, and then exactly this relation and this segment are found.
\<close>

lemma relation_files_recognised:
  assumes "relpath_documented pg"
  shows "isRelDataFile pg p \<longleftrightarrow>
     (\<exists>rl seg. (spcOid rl = GLOBALTABLESPACE_OID \<longrightarrow> dbOid rl = 0) \<and> p = datasegpath pg rl MAIN_FORKNUM seg \<and> path_rlocator pg p = Some (rl, seg))"
proof
  assume "isRelDataFile pg p"
  then obtain rl seg where p: "path_rlocator pg p = Some (rl, seg)" "datasegpath pg rl MAIN_FORKNUM seg = p"
    by (auto simp: isRelDataFile_def split: option.splits)
  moreover have "dbOid rl = 0" if "spcOid rl = GLOBALTABLESPACE_OID"
  proof -
    have "path_rlocator pg (datasegpath pg (rl\<lparr>dbOid := 0\<rparr>) MAIN_FORKNUM seg) = Some (rl\<lparr>dbOid := 0\<rparr>, seg)"
      by (rule path_rlocator_datasegpath [OF assms]) simp
    moreover have "datasegpath pg (rl\<lparr>dbOid := 0\<rparr>) MAIN_FORKNUM seg = p"
      using p(2) that assms by (simp add: datasegpath_suffix relpath_documented_def)
    ultimately have "rl = rl\<lparr>dbOid := 0\<rparr>" using p(1) by simp
    then show ?thesis by (metis RelFileLocator.select_convs(2) RelFileLocator.surjective RelFileLocator.update_convs(2))
  qed
  ultimately show "\<exists>rl seg. (spcOid rl = GLOBALTABLESPACE_OID \<longrightarrow> dbOid rl = 0) \<and> p = datasegpath pg rl MAIN_FORKNUM seg \<and> path_rlocator pg p = Some (rl, seg)"
    by blast
next
  assume "\<exists>rl seg. (spcOid rl = GLOBALTABLESPACE_OID \<longrightarrow> dbOid rl = 0) \<and> p = datasegpath pg rl MAIN_FORKNUM seg \<and> path_rlocator pg p = Some (rl, seg)"
  then show "isRelDataFile pg p" by (auto simp: isRelDataFile_def)
qed

definition demo_pg :: pg where
  "demo_pg = \<lparr>relpathperm = (\<lambda>rl fk.
       (if spcOid rl = GLOBALTABLESPACE_OID then ''global/'' @ digits (unat (relNumber rl))
        else if spcOid rl = DEFAULTTABLESPACE_OID then ''base/'' @ digits (unat (dbOid rl)) @ ''/'' @ digits (unat (relNumber rl))
        else ''pg_tblspc/'' @ digits (unat (spcOid rl)) @ ''/PG_18_202506291/'' @ digits (unat (dbOid rl)) @ ''/'' @ digits (unat (relNumber rl))) @
       (case fk of FSM_FORKNUM \<Rightarrow> ''_fsm'' | VISIBILITYMAP_FORKNUM \<Rightarrow> ''_vm'' | INIT_FORKNUM \<Rightarrow> ''_init'' | _ \<Rightarrow> [])),
     TABLESPACE_VERSION_DIRECTORY = ''PG_18_202506291'', RELSEG_SIZE = 131072, XLOG_CONTROL_FILE = ''global/pg_control''\<rparr>"

lemma demo_relpath_documented: "relpath_documented demo_pg"
  by (simp add: relpath_documented_def demo_pg_def)

lemma relation_files_recognised_witness:
  "isRelDataFile demo_pg ''base/5/16384.3'' \<and> \<not> isRelDataFile demo_pg ''base/5/16384_fsm''"
proof -
  have d: "digits 5 = ''5''" "digits 16384 = ''16384''" "digits 3 = ''3''" by (simp_all add: digits.simps digit_char_def char_of_eq_iff)
  have "datasegpath demo_pg \<lparr>spcOid = 1663, dbOid = 5, relNumber = 16384\<rparr> MAIN_FORKNUM 3 = ''base/5/16384.3''"
    by (simp add: datasegpath_def demo_pg_def GLOBALTABLESPACE_OID_def DEFAULTTABLESPACE_OID_def d)
  moreover from this have "path_rlocator demo_pg ''base/5/16384.3'' = Some (\<lparr>spcOid = 1663, dbOid = 5, relNumber = 16384\<rparr>, 3)"
    using path_rlocator_datasegpath [OF demo_relpath_documented, of "\<lparr>spcOid = 1663, dbOid = 5, relNumber = 16384\<rparr>" 3]
    by (simp add: GLOBALTABLESPACE_OID_def)
  ultimately have "isRelDataFile demo_pg ''base/5/16384.3''"
    unfolding relation_files_recognised [OF demo_relpath_documented]
    by (intro exI [of _ "\<lparr>spcOid = 1663, dbOid = 5, relNumber = 16384\<rparr>"] exI [of _ 3]) (simp add: GLOBALTABLESPACE_OID_def)
  moreover have "\<not> isRelDataFile demo_pg ''base/5/16384_fsm''"
  proof -
    have "path_rlocator demo_pg ''base/5/16384_fsm'' = Some (\<lparr>spcOid = DEFAULTTABLESPACE_OID, dbOid = 5, relNumber = 16384\<rparr>, 0)"
      using path_rlocator_fork [of demo_pg 5 16384 "''fsm''"] by (simp add: d)
    then show ?thesis by (simp add: isRelDataFile_def datasegpath_def demo_pg_def GLOBALTABLESPACE_OID_def DEFAULTTABLESPACE_OID_def d)
  qed
  ultimately show ?thesis by blast
qed

end
