(* ===== verification/Tde_Rewind.thy ===== *)
theory Tde_Rewind
  imports Tde_Filemap Tde_Relkeys
begin

text \<open>
  Encrypted relations and WAL in \<open>pg_rewind\<close> (\<open>fetools/pg18/pg_rewind/tde_ops.c\<close>, with the parts of \<open>file_ops.c\<close>, \<open>local_source.c\<close> and
  \<open>pg_rewind.c\<close> that call it): the files copied from the source come encrypted under the keys of the source, the blocks that
  are kept lie under the keys of the target. Blocks that are copied into a relation file are re-encrypted with the key of the target, whose key then
  replaces the one in a working copy of the key files of the source; at the end this copy becomes the key directory of the target.

  The record \<open>rewind\<close> holds the options of the program and what it calls outside the repository. Fatal errors end the program.
\<close>

record rewind =
  rw_pg :: pg
  datadir_target :: string
  datadir_source :: string
  dry_run :: bool
  WalSegSz :: int
  rw_XLogFromFileName :: "string \<Rightarrow> int \<Rightarrow> u32 \<times> u64"
  TMPDIR :: "string option"
  rw_mkdtemp :: "string \<Rightarrow> string option"
  is_dir :: "world \<Rightarrow> string \<Rightarrow> bool"
  readdir :: "world \<Rightarrow> string \<Rightarrow> (string \<times> bool) list option"
  rmtree :: "string \<Rightarrow> bool \<Rightarrow> world \<Rightarrow> world"
  open_fails :: "string \<Rightarrow> bool"
  path_is_safe_for_extraction :: "string \<Rightarrow> bool"

record current_file_data =
  source_key :: "InternalKey option"
  target_key :: "InternalKey option"
  cf_path :: string
  rlocator :: RelFileLocator
  segNo :: u32

definition no_file :: current_file_data where
  "no_file = \<lparr>source_key = None, target_key = None, cf_path = [], rlocator = \<lparr>spcOid = 0, dbOid = 0, relNumber = 0\<rparr>, segNo = 0\<rparr>"

record rewind_state =
  current_tde_file :: current_file_data
  tde_tmp_source :: string
  source_has_tde :: bool
  archive_wal_segments :: "string list"
  keepwal :: "string list"
  dstpath :: "string option"

definition target_tde_path :: "rewind \<Rightarrow> string" where
  "target_tde_path rw = path_in (datadir_target rw) ''open_pg_tde''"

text \<open>The environment after a call of \<open>open_pg_tde_set_data_dir\<close> for the keys of the target, or for the copy of those of the source.\<close>

definition target_env :: "env \<Rightarrow> rewind \<Rightarrow> env" where
  "target_env ev rw = fe_env ev (target_tde_path rw)"

definition source_env :: "env \<Rightarrow> rewind_state \<Rightarrow> env" where
  "source_env ev st = fe_env ev (tde_tmp_source st)"

section \<open>Files of the target\<close>

definition open_target_file :: "rewind \<Rightarrow> string \<Rightarrow> bool \<Rightarrow> rewind_state \<Rightarrow> rewind_state tdeM" where
  "open_target_file rw p trunc st =
     seqM (check (path_is_safe_for_extraction rw p) (E_state ''target file path is unsafe for open''))
     (if dry_run rw then ret st
      else if \<not> trunc \<and> (case dstpath st of None \<Rightarrow> False | Some d \<Rightarrow> drop (length (datadir_target rw) + 1) d = p) then ret st
      else
        (let d = path_in (datadir_target rw) p in
         seqM (check (\<not> open_fails rw d) (E_open d))
         (seqM (modifyM (\<lambda>w. if trunc \<or> disk w d = None then set_file d [] w else w))
         (ret (st\<lparr>dstpath := Some d\<rparr>)))))"

definition close_target_file :: "rewind_state \<Rightarrow> rewind_state" where
  "close_target_file st = st\<lparr>dstpath := None\<rparr>"

text \<open>Every turn of the loop takes an outcome of the list, and when there is none left the write is complete.\<close>

fun write_loop :: "nat \<Rightarrow> string \<Rightarrow> bytes \<Rightarrow> nat \<Rightarrow> unit tdeM" where
  "write_loop fuel fd [] off = ret ()"
| "write_loop 0 fd d off = throw (E_state ''out of fuel'')"
| "write_loop (Suc fuel) fd d off =
     bindM (pg_pwrite fd d off) (\<lambda>n.
     if n < 0 then throw (E_write fd) else write_loop fuel fd (drop (nat n) d) (off + nat n))"

definition write_target_range :: "rewind \<Rightarrow> rewind_state \<Rightarrow> bytes \<Rightarrow> nat \<Rightarrow> unit tdeM" where
  "write_target_range rw st buf start =
     (if dry_run rw then ret ()
      else
        (case dstpath st of
           None \<Rightarrow> throw (E_write ''target file'')
         | Some fd \<Rightarrow> bindM (getM (\<lambda>w. length (io w))) (\<lambda>n. write_loop (Suc n) fd buf start)))"

definition truncate_target_file :: "rewind \<Rightarrow> string \<Rightarrow> nat \<Rightarrow> unit tdeM" where
  "truncate_target_file rw p newsize =
     seqM (check (path_is_safe_for_extraction rw p) (E_state ''target file path is unsafe for truncation''))
     (if dry_run rw then ret ()
      else
        (let d = path_in (datadir_target rw) p in
         bindM (getM (\<lambda>w. disk w d)) (\<lambda>f.
         case f of
           None \<Rightarrow> throw (E_open d)
         | Some b \<Rightarrow> seqM (check (\<not> open_fails rw d) (E_open d)) (modifyM (set_file d (take newsize b @ replicate (newsize - length b) 0))))))"

definition remove_target_file :: "rewind \<Rightarrow> string \<Rightarrow> bool \<Rightarrow> unit tdeM" where
  "remove_target_file rw p missing_ok =
     seqM (check (path_is_safe_for_extraction rw p) (E_state ''target file path is unsafe for removal''))
     (if dry_run rw then ret ()
      else
        (let d = path_in (datadir_target rw) p in
         bindM (getM (\<lambda>w. disk w d)) (\<lambda>f.
         if f = None then (if missing_ok then ret () else throw (E_state ''could not remove file''))
         else modifyM (\<lambda>w. w\<lparr>disk := (disk w)(d := None)\<rparr>))))"

text \<open>Directories and symbolic links are not files of the model; making or removing one changes nothing in it.\<close>

definition remove_target :: "rewind \<Rightarrow> file_entry_t \<Rightarrow> unit tdeM" where
  "remove_target rw entry =
     (case target_type entry of
        FILE_TYPE_REGULAR \<Rightarrow> remove_target_file rw (path entry) False
      | FILE_TYPE_UNDEFINED \<Rightarrow> throw (E_state ''undefined file type'')
      | _ \<Rightarrow> check (path_is_safe_for_extraction rw (path entry)) (E_state ''target path is unsafe for removal''))"

definition create_target :: "rewind \<Rightarrow> file_entry_t \<Rightarrow> unit tdeM" where
  "create_target rw entry =
     (case source_type entry of
        FILE_TYPE_REGULAR \<Rightarrow> throw (E_state ''invalid action (CREATE) for regular file'')
      | FILE_TYPE_UNDEFINED \<Rightarrow> throw (E_state ''undefined file type'')
      | _ \<Rightarrow> check (path_is_safe_for_extraction rw (path entry)) (E_state ''target path is unsafe for creation''))"

definition slurpFile :: "rewind \<Rightarrow> string \<Rightarrow> string \<Rightarrow> bytes tdeM" where
  "slurpFile rw dir name =
     (let fullpath = path_in dir name in
      bindM (getM (\<lambda>w. disk w fullpath)) (\<lambda>f.
      case f of
        None \<Rightarrow> throw (E_open fullpath)
      | Some b \<Rightarrow> seqM (check (\<not> open_fails rw fullpath) (E_open fullpath)) (ret b)))"

section \<open>Relation files\<close>

definition tde_reencrypt_block :: "env \<Rightarrow> rewind \<Rightarrow> current_file_data \<Rightarrow> bytes \<Rightarrow> nat \<Rightarrow> ForkNumber \<Rightarrow> bytes tdeM" where
  "tde_reencrypt_block ev rw cur buf file_offset fork =
     (case source_key cur of
        None \<Rightarrow> ret buf
      | Some sk \<Rightarrow>
          (let blkno = of_nat (file_offset div BLCK) + segNo cur * RELSEG_SIZE (rw_pg rw) in
           bindM (tde_decrypt_smgr_block ev sk fork blkno buf buf) (\<lambda>plain.
           case target_key cur of
             None \<Rightarrow> throw (E_null_pointer ''target_key'')
           | Some tk \<Rightarrow> tde_encrypt_smgr_block ev tk fork blkno plain)))"

text \<open>Whatever goes wrong with a fork is a warning. The size of the file plus one is enough fuel.\<close>

fun reencrypt_loop :: "env \<Rightarrow> rewind \<Rightarrow> current_file_data \<Rightarrow> ForkNumber \<Rightarrow> string \<Rightarrow> nat \<Rightarrow> nat \<Rightarrow> unit tdeM" where
  "reencrypt_loop ev rw cur fork fd 0 offset = throw (E_state ''out of fuel'')"
| "reencrypt_loop ev rw cur fork fd (Suc fuel) offset =
     bindM (getM (\<lambda>w. pread (file_bytes w fd) BLCK offset)) (\<lambda>buf.
     if length buf \<noteq> BLCK then ret ()
     else
       bindM (tde_reencrypt_block ev rw cur buf offset fork) (\<lambda>buf'.
       bindM (pg_pwrite fd buf' offset) (\<lambda>n.
       if n \<noteq> int BLCK then ret () else reencrypt_loop ev rw cur fork fd fuel (offset + BLCK))))"

definition reencrypt_fork :: "env \<Rightarrow> rewind \<Rightarrow> current_file_data \<Rightarrow> ForkNumber \<Rightarrow> unit tdeM" where
  "reencrypt_fork ev rw cur fork =
     (if dry_run rw then ret ()
      else
        (let srcpath = path_in (datadir_target rw) (relpathperm (rw_pg rw) (rlocator cur) fork) in
         bindM (getM (\<lambda>w. disk w srcpath)) (\<lambda>f.
         case f of
           None \<Rightarrow> ret ()
         | Some b \<Rightarrow> if open_fails rw srcpath then ret () else reencrypt_loop ev rw cur fork srcpath (Suc (length b)) 0)))"

definition flush_current_tde_rel_key :: "env \<Rightarrow> rewind \<Rightarrow> rewind_state \<Rightarrow> rewind_state tdeM" where
  "flush_current_tde_rel_key ev rw st =
     (let cur = current_tde_file st in
      if source_key cur = None then ret st
      else
        seqM (reencrypt_fork ev rw cur FSM_FORKNUM)
        (seqM (reencrypt_fork ev rw cur VISIBILITYMAP_FORKNUM)
        (seqM open_pg_tde_set_data_dir
        (seqM (case target_key cur of
                 None \<Rightarrow> throw (E_null_pointer ''target_key'')
               | Some tk \<Rightarrow> open_pg_tde_save_smgr_key (source_env ev st) (rlocator cur) tk True)
        (ret (st\<lparr>current_tde_file := no_file\<rparr>))))))"

definition ensure_tde_keys :: "env \<Rightarrow> rewind \<Rightarrow> string \<Rightarrow> rewind_state \<Rightarrow> rewind_state tdeM" where
  "ensure_tde_keys ev rw relpath st =
     (if \<not> source_has_tde st then ret st
      else if cf_path (current_tde_file st) = relpath then ret st
      else
        bindM (flush_current_tde_rel_key ev rw st) (\<lambda>st.
        case path_rlocator (rw_pg rw) relpath of
          None \<Rightarrow> ret st
        | Some (rl, seg) \<Rightarrow>
            seqM open_pg_tde_set_data_dir
            (bindM (open_pg_tde_get_smgr_key (source_env ev st) rl) (\<lambda>sk.
             seqM open_pg_tde_set_data_dir
             (bindM (open_pg_tde_get_smgr_key (target_env ev rw) rl) (\<lambda>tk.
              let cur = (current_tde_file st)\<lparr>source_key := sk, target_key := tk\<rparr> in
              ret (st\<lparr>current_tde_file :=
                     if sk \<noteq> None then cur\<lparr>cf_path := take (MAXPGPATH - 1) relpath, rlocator := rl, segNo := seg\<rparr> else cur\<rparr>)))))))"

section \<open>WAL segments\<close>

fun wal_seg_loop :: "env \<Rightarrow> rewind \<Rightarrow> rewind_state \<Rightarrow> string \<Rightarrow> u32 \<Rightarrow> u64 \<Rightarrow> nat \<Rightarrow> nat \<Rightarrow> unit tdeM" where
  "wal_seg_loop ev rw st fd tmln segno 0 offset = throw (E_state ''out of fuel'')"
| "wal_seg_loop ev rw st fd tmln segno (Suc fuel) offset =
     bindM (getM (\<lambda>w. pread (file_bytes w fd) BLCK offset)) (\<lambda>buf.
     if buf = [] then ret ()
     else
       seqM open_pg_tde_set_data_dir
       (bindM (TDEXLogCryptBuffer (target_env ev rw) None buf (of_nat (length buf)) (of_nat offset) tmln segno (of_int (WalSegSz rw))) (\<lambda>plain.
        seqM open_pg_tde_set_data_dir
        (bindM (TDEXLogCryptBuffer (source_env ev st) None plain (of_nat (length plain)) (of_nat offset) tmln segno (of_int (WalSegSz rw))) (\<lambda>buf'.
         bindM (pg_pwrite fd buf' offset) (\<lambda>n.
         if n \<noteq> int (length buf') then ret () else wal_seg_loop ev rw st fd tmln segno fuel (offset + length buf')))))))"

definition ensure_tde_wal_seg :: "env \<Rightarrow> rewind \<Rightarrow> rewind_state \<Rightarrow> string \<Rightarrow> unit tdeM" where
  "ensure_tde_wal_seg ev rw st relpath =
     (if dry_run rw then ret ()
      else
        (case rw_XLogFromFileName rw (base_name relpath) (WalSegSz rw) of (tmln, segno) \<Rightarrow>
         let wal_path = path_in (datadir_target rw) relpath in
         bindM (getM (\<lambda>w. disk w wal_path)) (\<lambda>f.
         case f of
           None \<Rightarrow> ret ()
         | Some b \<Rightarrow> if open_fails rw wal_path then ret () else wal_seg_loop ev rw st wal_path tmln segno (Suc (length b)) 0)))"

definition archive_wal_segments_add_entry :: "string \<Rightarrow> rewind_state \<Rightarrow> rewind_state" where
  "archive_wal_segments_add_entry p st = st\<lparr>archive_wal_segments := archive_wal_segments st @ [p]\<rparr>"

definition keepwal_add_entry :: "string \<Rightarrow> rewind_state \<Rightarrow> rewind_state" where
  "keepwal_add_entry p st = (if p \<in> set (keepwal st) then st else st\<lparr>keepwal := keepwal st @ [p]\<rparr>)"

definition ensure_tde_archive_wal :: "env \<Rightarrow> rewind \<Rightarrow> rewind_state \<Rightarrow> unit tdeM" where
  "ensure_tde_archive_wal ev rw st =
     forM (archive_wal_segments st) (\<lambda>segpath.
       if segpath \<in> set (keepwal st) then ret ()
       else
         bindM (getM (\<lambda>w. disk w (path_in (datadir_target rw) segpath))) (\<lambda>f.
         if f = None then ret () else ensure_tde_wal_seg ev rw st segpath))"

section \<open>The copy of the key files\<close>

definition create_tde_tmp_dir :: "rewind \<Rightarrow> rewind_state \<Rightarrow> rewind_state tdeM" where
  "create_tde_tmp_dir rw st =
     (let tmpdir = (case TMPDIR rw of None \<Rightarrow> ''/tmp'' | Some d \<Rightarrow> if d = [] then ''/tmp'' else d) in
      case rw_mkdtemp rw (path_in tmpdir ''open_pg_tde_rewindXXXXXX'') of
        None \<Rightarrow> throw (E_state ''could not create temporary directory'')
      | Some d \<Rightarrow> ret (st\<lparr>tde_tmp_source := d\<rparr>))"

definition destroy_tde_tmp_dir :: "rewind \<Rightarrow> rewind_state \<Rightarrow> unit tdeM" where
  "destroy_tde_tmp_dir rw st = (if tde_tmp_source st = [] then ret () else modifyM (rmtree rw (tde_tmp_source st) True))"

definition write_file :: "rewind \<Rightarrow> string \<Rightarrow> bytes \<Rightarrow> unit tdeM" where
  "write_file rw p buf =
     seqM (check (\<not> open_fails rw p) (E_open p))
     (seqM (modifyM (set_file p []))
     (bindM (pg_pwrite p buf 0) (\<lambda>n. check (n = int (length buf)) (E_write p))))"

definition write_tmp_source_file :: "rewind \<Rightarrow> rewind_state \<Rightarrow> string \<Rightarrow> bytes \<Rightarrow> unit tdeM" where
  "write_tmp_source_file rw st fname buf = write_file rw (path_in (tde_tmp_source st) fname) buf"

definition copy_dir :: "rewind \<Rightarrow> string \<Rightarrow> string \<Rightarrow> unit tdeM" where
  "copy_dir rw src dst =
     bindM (getM (\<lambda>w. readdir rw w src)) (\<lambda>entries.
     case entries of
       None \<Rightarrow> throw (E_open src)
     | Some es \<Rightarrow>
         forM es (\<lambda>(d_name, S_ISREG).
           if d_name = ''.'' \<or> d_name = ''..'' then ret ()
           else if S_ISREG then bindM (slurpFile rw src d_name) (write_file rw (path_in dst d_name))
           else ret ()))"

definition init_tde :: "rewind \<Rightarrow> rewind_state \<Rightarrow> rewind_state tdeM" where
  "init_tde rw st = create_tde_tmp_dir rw (st\<lparr>source_has_tde := True\<rparr>)"

definition copy_tmp_tde_files :: "rewind \<Rightarrow> rewind_state \<Rightarrow> string \<Rightarrow> unit tdeM" where
  "copy_tmp_tde_files rw st from = copy_dir rw from (tde_tmp_source st)"

definition fetch_tde_dir :: "rewind \<Rightarrow> rewind_state \<Rightarrow> unit tdeM" where
  "fetch_tde_dir rw st =
     (if dry_run rw then ret ()
      else if \<not> source_has_tde st then ret ()
      else seqM (modifyM (rmtree rw (target_tde_path rw) False)) (copy_dir rw (tde_tmp_source st) (target_tde_path rw)))"

section \<open>Copying from a local source\<close>

definition local_fetch_tde_keys :: "rewind \<Rightarrow> rewind_state \<Rightarrow> rewind_state tdeM" where
  "local_fetch_tde_keys rw st =
     (let tde_source_dir = path_in (datadir_source rw) ''open_pg_tde'' in
      bindM (getM (\<lambda>w. is_dir rw w tde_source_dir)) (\<lambda>present.
      if \<not> present then ret st
      else bindM (init_tde rw st) (\<lambda>st. seqM (copy_tmp_tde_files rw st tde_source_dir) (ret st))))"

text \<open>The loops over the blocks of the source; every turn reads at least a byte.\<close>

fun fetch_file_loop :: "rewind \<Rightarrow> rewind_state \<Rightarrow> string \<Rightarrow> nat \<Rightarrow> nat \<Rightarrow> nat tdeM" where
  "fetch_file_loop rw st srcfd 0 written_len = throw (E_state ''out of fuel'')"
| "fetch_file_loop rw st srcfd (Suc fuel) written_len =
     bindM (getM (\<lambda>w. pread (file_bytes w srcfd) BLCK written_len)) (\<lambda>buf.
     if buf = [] then ret written_len
     else seqM (write_target_range rw st buf written_len) (fetch_file_loop rw st srcfd fuel (written_len + length buf)))"

definition local_queue_fetch_file :: "rewind \<Rightarrow> string \<Rightarrow> nat \<Rightarrow> rewind_state \<Rightarrow> rewind_state tdeM" where
  "local_queue_fetch_file rw p len st =
     (let srcpath = path_in (datadir_source rw) p in
      bindM (getM (\<lambda>w. disk w srcpath)) (\<lambda>f.
      case f of
        None \<Rightarrow> throw (E_open srcpath)
      | Some b \<Rightarrow>
          seqM (check (\<not> open_fails rw srcpath) (E_open srcpath))
          (bindM (open_target_file rw p True st) (\<lambda>st.
           bindM (fetch_file_loop rw st srcpath (Suc (length b)) 0) (\<lambda>written_len.
           seqM (check (written_len = len) (E_state ''size of source file changed concurrently'')) (ret st))))))"

text \<open>The whole buffer is re-encrypted, also after a short read: \<open>buf\<close> is what it held before.\<close>

fun fetch_range_loop :: "env \<Rightarrow> rewind \<Rightarrow> rewind_state \<Rightarrow> string \<Rightarrow> nat \<Rightarrow> nat \<Rightarrow> nat \<Rightarrow> bytes \<Rightarrow> unit tdeM" where
  "fetch_range_loop ev rw st srcfd 0 start stop buf = throw (E_state ''out of fuel'')"
| "fetch_range_loop ev rw st srcfd (Suc fuel) start stop buf =
     (if start \<ge> stop then ret ()
      else
        bindM (getM (\<lambda>w. pread (file_bytes w srcfd) (min BLCK (stop - start)) start)) (\<lambda>d.
        if d = [] then throw (E_state ''unexpected EOF while reading file'')
        else
          bindM (tde_reencrypt_block ev rw (current_tde_file st) (d @ drop (length d) buf) start MAIN_FORKNUM) (\<lambda>buf'.
          seqM (write_target_range rw st (take (length d) buf') start)
          (fetch_range_loop ev rw st srcfd fuel (start + length d) stop buf'))))"

definition local_queue_fetch_range :: "env \<Rightarrow> rewind \<Rightarrow> string \<Rightarrow> nat \<Rightarrow> nat \<Rightarrow> rewind_state \<Rightarrow> rewind_state tdeM" where
  "local_queue_fetch_range ev rw p off len st =
     (let srcpath = path_in (datadir_source rw) p in
      bindM (getM (\<lambda>w. disk w srcpath)) (\<lambda>f.
      seqM (check (f \<noteq> None \<and> \<not> open_fails rw srcpath) (E_open srcpath))
      (bindM (open_target_file rw p False st) (\<lambda>st.
       bindM (ensure_tde_keys ev rw p st) (\<lambda>st.
       seqM (fetch_range_loop ev rw st srcpath (Suc len) off (off + len) (garbage ev BLCK)) (ret st))))))"

definition local_finish_fetch :: "env \<Rightarrow> rewind \<Rightarrow> rewind_state \<Rightarrow> rewind_state tdeM" where
  "local_finish_fetch ev rw st = flush_current_tde_rel_key ev rw st"

section \<open>Executing the file map\<close>

fun fetch_blocks :: "env \<Rightarrow> rewind \<Rightarrow> string \<Rightarrow> u32 list \<Rightarrow> rewind_state \<Rightarrow> rewind_state tdeM" where
  "fetch_blocks ev rw p [] st = ret st"
| "fetch_blocks ev rw p (blkno # bs) st =
     bindM (local_queue_fetch_range ev rw p (unat (blkno * 8192)) BLCK st) (fetch_blocks ev rw p bs)"

definition perform_entry :: "env \<Rightarrow> rewind \<Rightarrow> file_entry_t \<Rightarrow> rewind_state \<Rightarrow> rewind_state tdeM" where
  "perform_entry ev rw entry st =
     (let unchanged = (bitmapsize (target_pages_to_overwrite entry) = 0) in
      bindM (if unchanged then ret st
             else
               (case datapagemap_blocks (target_pages_to_overwrite entry) of
                  None \<Rightarrow> throw (E_state ''iteration does not end'')
                | Some bs \<Rightarrow> fetch_blocks ev rw (path entry) bs st)) (\<lambda>st.
      case action entry of
        FILE_ACTION_NONE \<Rightarrow> ret st
      | FILE_ACTION_ENSURE_TDE_KEY \<Rightarrow> if unchanged then ensure_tde_keys ev rw (path entry) st else ret st
      | FILE_ACTION_ENSURE_WAL_SEG \<Rightarrow> seqM (ensure_tde_wal_seg ev rw st (path entry)) (ret st)
      | FILE_ACTION_COPY \<Rightarrow> local_queue_fetch_file rw (path entry) (source_size entry) st
      | FILE_ACTION_TRUNCATE \<Rightarrow>
          seqM (truncate_target_file rw (path entry) (source_size entry))
          (if unchanged then ensure_tde_keys ev rw (path entry) st else ret st)
      | FILE_ACTION_COPY_TAIL \<Rightarrow>
          local_queue_fetch_range ev rw (path entry) (target_size entry) (source_size entry - target_size entry) st
      | FILE_ACTION_REMOVE \<Rightarrow> seqM (remove_target rw entry) (ret st)
      | FILE_ACTION_CREATE \<Rightarrow> seqM (create_target rw entry) (ret st)
      | FILE_ACTION_UNDECIDED \<Rightarrow> throw (E_state ''no action decided for file'')))"

fun perform_entries :: "env \<Rightarrow> rewind \<Rightarrow> file_entry_t list \<Rightarrow> rewind_state \<Rightarrow> rewind_state tdeM" where
  "perform_entries ev rw [] st = ret st"
| "perform_entries ev rw (e # es) st = bindM (perform_entry ev rw e st) (perform_entries ev rw es)"

text \<open>The part of the program that brings the files of the target up to date, before the control file and the backup label.\<close>

definition perform_rewind :: "env \<Rightarrow> rewind \<Rightarrow> file_entry_t list \<Rightarrow> rewind_state \<Rightarrow> rewind_state tdeM" where
  "perform_rewind ev rw filemap st =
     bindM (perform_entries ev rw filemap st) (\<lambda>st.
     bindM (local_finish_fetch ev rw st) (\<lambda>st.
       let st = close_target_file st in
       seqM (ensure_tde_archive_wal ev rw st)
       (seqM (fetch_tde_dir rw st) (ret st))))"

end
