(* ===== verification/Tde_Rewind_Ops.thy ===== *)
theory Tde_Rewind_Ops
  imports Tde_Rewind Tde_Filemap_Ops Tde_Relkeys_Ops Tde_Archive_Ops
begin

text \<open>
  What re-encryption in \<open>pg_rewind\<close> achieves: the blocks of a relation file that are copied from the source can be read with the key of the
  target, which the key file then holds, and a WAL segment of the target can be read with the keys of the source. It fails
  for a relation of more than one segment: only the file that is processed first is re-encrypted.
\<close>

section \<open>Keys in a command line tool\<close>

text \<open>The key provider hands out the principal key in every state that agrees on the files \<open>P\<close> of the provider.\<close>

definition keyring_gives :: "env \<Rightarrow> Oid \<Rightarrow> TDEPrincipalKey \<Rightarrow> string set \<Rightarrow> world \<Rightarrow> bool" where
  "keyring_gives ev db pk P w \<longleftrightarrow> (\<exists>ki. kd_material (ki_data ki) = pk_material pk \<and> pk = principal_key_of ev (keyInfo pk) (ki_data ki) \<and>
     (\<forall>w'. (\<forall>p\<in>P. disk w' p = disk w p) \<longrightarrow>
        (\<exists>kr. GetKeyProviderByID ev (keyringId (keyInfo pk)) db w' = (Inr (Some kr), w') \<and>
           KeyringGetKey ev kr (pk_name (keyInfo pk)) w' = (Inr (KEYRING_CODE_SUCCESS, Some ki), w'))))"

definition fe_keys :: "env \<Rightarrow> TDEPrincipalKey \<Rightarrow> Oid \<Rightarrow> string set \<Rightarrow> world \<Rightarrow> bool" where
  "fe_keys ev pk db P w \<longleftrightarrow> FRONTEND ev \<and> db \<noteq> GLOBAL_DATA_TDE_OID \<and> open_pg_tde_set_db_file_path ev db \<notin> P \<and>
     keyring_gives ev db pk P w \<and> keys_file_ok ev pk db w \<and>
     (\<exists>f. disk w (open_pg_tde_set_db_file_path ev db) = Some f \<and> good_file f \<and> signed_by ev pk (signed_key_info (file_header f)))"

lemma fe_keys_cong:
  assumes "\<forall>p\<in>insert (open_pg_tde_set_db_file_path ev db) P. disk w' p = disk w p" "io w' = io w" "fe_keys ev pk db P w"
  shows "fe_keys ev pk db P w'"
  using assms by (auto simp: fe_keys_def keyring_gives_def keys_file_ok_def)

lemma fe_lookup:
  assumes "fe_keys ev pk db P w"
  shows "GetPrincipalKey ev db w = (Inr (Some pk), w)"
proof -
  obtain f where f: "disk w (open_pg_tde_set_db_file_path ev db) = Some f" "good_file f" "signed_by ev pk (signed_key_info (file_header f))"
      and fe: "FRONTEND ev" "db \<noteq> GLOBAL_DATA_TDE_OID"
    using assms by (auto simp: fe_keys_def)
  obtain ki kr where k: "kd_material (ki_data ki) = pk_material pk" "pk = principal_key_of ev (keyInfo pk) (ki_data ki)"
      "GetKeyProviderByID ev (keyringId (keyInfo pk)) db w = (Inr (Some kr), w)"
      "KeyringGetKey ev kr (pk_name (keyInfo pk)) w = (Inr (KEYRING_CODE_SUCCESS, Some ki), w)"
    using assms by (auto simp: fe_keys_def keyring_gives_def)
  have sd: "ski_data (signed_key_info (file_header f)) = keyInfo pk" using f(3) by (simp add: signed_by_def)
  have "get_principal_key_from_keyring ev db w = (Inr (Some pk), w)"
    using get_principal_key_info_good [OF f(1,2)] verify_signed [OF f(3) k(1)] k(2) [symmetric] k(3,4) fe(2)
    by (simp add: get_principal_key_from_keyring_def runM sd)
  then show ?thesis
    using fe by (simp add: GetPrincipalKey_def GetPrincipalKeyNoDefault_def get_principal_key_cached_def runM whenM_def)
qed

lemma fe_get:
  assumes "fe_keys ev pk (dbOid rel) P w" "rel_entry ev rel w = Some e" "entry_holds ev pk e k"
  shows "\<exists>k'. open_pg_tde_get_smgr_key ev rel w = (Inr (Some k'), w) \<and> ik_equiv k' k \<and> wf_ik k'"
  using get_spec_lookup [OF fe_lookup [OF assms(1)]] decrypt_rel_key_ok [OF assms(3), of w] assms(1,2)
  by (auto simp: runM fe_keys_def keys_file_ok_def)

lemma fe_save:
  assumes "gcm_ok ev" "rand_ok ev" "fe_keys ev pk (dbOid rel) P w" "wf_ik k" "relNumber rel \<noteq> 0"
  shows "\<exists>w' f n e. open_pg_tde_save_smgr_key ev rel k True w = (Inr (), w') \<and>
     w' = (set_file (open_pg_tde_set_db_file_path ev (dbOid rel)) f w)\<lparr>rng := n\<rparr> \<and> fe_keys ev pk (dbOid rel) P w' \<and>
     rel_entry ev rel w' = Some e \<and> entry_holds ev pk e k \<and> (\<forall>rel'. \<not> same_relation rel' rel \<longrightarrow> rel_entry ev rel' w' = rel_entry ev rel' w)"
proof -
  let ?p = "open_pg_tde_set_db_file_path ev (dbOid rel)"
  obtain f0 where f0: "disk w ?p = Some f0" "good_file f0" "signed_by ev pk (signed_key_info (file_header f0))"
      and fe: "FRONTEND ev" "dbOid rel \<noteq> GLOBAL_DATA_TDE_OID" "?p \<notin> P" "keyring_gives ev (dbOid rel) pk P w" "keys_file_ok ev pk (dbOid rel) w"
    using assms(3) by (auto simp: fe_keys_def)
  obtain w' f n ski e where s: "open_pg_tde_save_smgr_key ev rel k True w = (Inr (), w')" "w' = (set_file ?p f w)\<lparr>rng := n\<rparr>" "good_file f"
      "file_header f = file_header (smgr_base ski (disk w ?p))" "keys_file_ok ev pk (dbOid rel) w'"
      "\<forall>rel'. \<not> same_relation rel' rel \<longrightarrow> rel_entry ev rel' w' = rel_entry ev rel' w" "rel_entry ev rel w' = Some e" "entry_holds ev pk e k"
    using save_spec_lookup [OF assms(1,2) fe_lookup [OF assms(3)] fe(5) assms(4,5), of True] by auto
  have "f0 \<noteq> []" using f0(2) by (auto simp: kf_good_def HEADER_SIZE_def)
  then have "signed_by ev pk (signed_key_info (file_header f))" using s(4) f0 by (simp add: base_file_def)
  moreover have "disk w' ?p = Some f" "\<forall>p\<in>P. disk w' p = disk w p" using s(2) fe(3) by (auto simp: set_file_simps)
  ultimately have "fe_keys ev pk (dbOid rel) P w'" using fe s(3,5) by (auto simp: fe_keys_def keyring_gives_def)
  with s show ?thesis by blast
qed

section \<open>Re-encrypting a block\<close>

abbreviation page_op :: "(evp_cipher \<Rightarrow> int \<Rightarrow> bytes \<Rightarrow> bytes \<Rightarrow> bytes \<Rightarrow> bytes option) \<Rightarrow> int \<Rightarrow> InternalKey \<Rightarrow> ForkNumber \<Rightarrow> u32 \<Rightarrow> bytes \<Rightarrow> bytes option" where
  "page_op E d k fk b x \<equiv> E (evp_of k) d (ik_material k) (CalcBlockIv fk b (ik_base_iv k)) x"

text \<open>The page that is read from a block with a key, and the block that a page is written to.\<close>

definition page_holds :: "(evp_cipher \<Rightarrow> int \<Rightarrow> bytes \<Rightarrow> bytes \<Rightarrow> bytes \<Rightarrow> bytes option) \<Rightarrow> InternalKey \<Rightarrow> ForkNumber \<Rightarrow> u32 \<Rightarrow> bytes \<Rightarrow> bytes \<Rightarrow> bool" where
  "page_holds E k fk b ct p \<longleftrightarrow> length ct = BLCK \<and> length p = BLCK \<and> (if all_zero 32 ct then p = ct else page_op E 0 k fk b ct = Some p)"

definition page_enc :: "(evp_cipher \<Rightarrow> int \<Rightarrow> bytes \<Rightarrow> bytes \<Rightarrow> bytes \<Rightarrow> bytes option) \<Rightarrow> InternalKey \<Rightarrow> ForkNumber \<Rightarrow> u32 \<Rightarrow> bytes \<Rightarrow> bytes" where
  "page_enc E k fk b p = the (page_op E 1 k fk b p)"

lemma page_enc_ok:
  assumes "page_cipher_ok E" "length p = BLCK"
  shows "page_op E 1 k fk b p = Some (page_enc E k fk b p)" "length (page_enc E k fk b p) = BLCK" "page_op E 0 k fk b (page_enc E k fk b p) = Some p"
proof -
  obtain ct where "page_op E 1 k fk b p = Some ct" "length ct = BLCK" "page_op E 0 k fk b ct = Some p"
    using assms unfolding page_cipher_ok_def BLCKSZ_def by blast
  then show "page_op E 1 k fk b p = Some (page_enc E k fk b p)" "length (page_enc E k fk b p) = BLCK" "page_op E 0 k fk b (page_enc E k fk b p) = Some p"
    by (simp_all add: page_enc_def)
qed

lemma page_enc_holds: "page_cipher_ok E \<Longrightarrow> length p = BLCK \<Longrightarrow> \<not> all_zero 32 (page_enc E k fk b p) \<Longrightarrow> page_holds E k fk b (page_enc E k fk b p) p"
  using page_enc_ok by (simp add: page_holds_def)

lemma ik_equiv_page: "ik_equiv k' k \<Longrightarrow> page_holds E k' = page_holds E k \<and> page_enc E k' = page_enc E k"
  by (auto simp: ik_equiv_def page_holds_def page_enc_def evp_of_def fun_eq_iff)

text \<open>The state between two blocks: the cached cipher contexts are consistent; nothing but them has changed.\<close>

definition after_block :: "world \<Rightarrow> world \<Rightarrow> bool" where
  "after_block w w' \<longleftrightarrow> ctxs_inv w' \<and> disk w' = disk w \<and> io w' = io w"

lemma call_block_io: "io (snd (call_block ev f k n iv d w)) = io w"
  by (auto simp: call_block_def AesEncrypt_def AesDecrypt_def AesXtsEncrypt_def AesXtsDecrypt_def AesRunCbc_def AesRunXts_def
      split: block_fn.splits prod.splits)

lemma page_op_io: "io (snd (bindM (liftM c) (\<lambda>c. call_block ev (g c) k n iv d) w)) = io w"
  by (cases c) (simp_all add: runM liftM_def call_block_io)

lemma encrypt_block_run:
  assumes "wf_ik k" "ctxs_inv w" "evp_is ev E" "page_cipher_ok E" "length p = BLCK"
  shows "\<exists>w'. tde_encrypt_smgr_block ev k fk b p w = (Inr (page_enc E k fk b p), w') \<and> after_block w w'"
proof -
  let ?iv = "CalcBlockIv fk b (ik_base_iv k)"
  obtain w' where "tde_encrypt_smgr_block ev k fk b p w = (evp_result (page_op E 1 k fk b p), w')" "ctxs_inv w'" "same_but_ctx w w'"
    using page_op_transparent(1) [OF assms(1-3), of ?iv p] by (auto simp: tde_encrypt_smgr_block_def)
  moreover from this(1) have "io w' = io w"
    using page_op_io [of "TdeCipherById ciphers (ik_cipher k)" ev encrypt_block "ik_material k" "sint (ik_key_len k)" ?iv p w]
    by (simp add: tde_encrypt_smgr_block_def)
  ultimately show ?thesis using page_enc_ok(1) [OF assms(4,5), of k fk b] by (auto simp: evp_result_def after_block_def same_but_ctx_def)
qed

lemma decrypt_block_run:
  assumes "wf_ik k" "ctxs_inv w" "evp_is ev E" "page_holds E k fk b ct p"
  shows "\<exists>w'. tde_decrypt_smgr_block ev k fk b ct ct w = (Inr p, w') \<and> after_block w w'"
proof (cases "all_zero 32 ct")
  case True
  then show ?thesis using assms(2,4) by (auto simp: tde_decrypt_smgr_block_def page_holds_def after_block_def)
next
  case False
  let ?iv = "CalcBlockIv fk b (ik_base_iv k)"
  obtain w' where "tde_decrypt_smgr_block ev k fk b ct ct w = (evp_result (page_op E 0 k fk b ct), w')" "ctxs_inv w'" "same_but_ctx w w'"
    using page_op_transparent(2) [OF assms(1-3), of ?iv ct] False by (auto simp: tde_decrypt_smgr_block_def)
  moreover from this(1) False have "io w' = io w"
    using page_op_io [of "TdeCipherById ciphers (ik_cipher k)" ev decrypt_block "ik_material k" "sint (ik_key_len k)" ?iv ct w]
    by (simp add: tde_decrypt_smgr_block_def)
  ultimately show ?thesis using False assms(4) by (auto simp: page_holds_def evp_result_def after_block_def same_but_ctx_def)
qed

text \<open>The keys of the current file, and the number of a block of it.\<close>

definition has_keys :: "current_file_data \<Rightarrow> InternalKey \<Rightarrow> InternalKey \<Rightarrow> bool" where
  "has_keys cur ks kt \<longleftrightarrow> (\<exists>sk tk. source_key cur = Some sk \<and> target_key cur = Some tk \<and> wf_ik sk \<and> wf_ik tk \<and> ik_equiv sk ks \<and> ik_equiv tk kt)"

definition block_no :: "rewind \<Rightarrow> current_file_data \<Rightarrow> nat \<Rightarrow> u32" where
  "block_no rw cur i = of_nat i + segNo cur * RELSEG_SIZE (rw_pg rw)"

lemma reencrypt_block_run:
  assumes "has_keys cur ks kt" "ctxs_inv w" "evp_is ev E" "page_cipher_ok E" "page_holds E ks fk (block_no rw cur i) ct p"
  shows "\<exists>w'. tde_reencrypt_block ev rw cur ct (i * BLCK) fk w = (Inr (page_enc E kt fk (block_no rw cur i) p), w') \<and> after_block w w'"
proof -
  obtain sk tk where k: "source_key cur = Some sk" "target_key cur = Some tk" "wf_ik sk" "wf_ik tk" "ik_equiv sk ks" "ik_equiv tk kt"
    using assms(1) by (auto simp: has_keys_def)
  let ?b = "block_no rw cur i"
  have h: "page_holds E sk fk ?b ct p" "page_enc E tk fk ?b p = page_enc E kt fk ?b p" "length p = BLCK"
    using assms(5) ik_equiv_page [OF k(5), of E] ik_equiv_page [OF k(6), of E] by (simp_all add: page_holds_def)
  obtain w1 where w1: "tde_decrypt_smgr_block ev sk fk ?b ct ct w = (Inr p, w1)" "after_block w w1"
    using decrypt_block_run [OF k(3) assms(2,3) h(1)] by blast
  then have "ctxs_inv w1" by (simp add: after_block_def)
  with encrypt_block_run [OF k(4) this assms(3,4) h(3), of fk ?b] obtain w2 where
    w2: "tde_encrypt_smgr_block ev tk fk ?b p w1 = (Inr (page_enc E tk fk ?b p), w2)" "after_block w1 w2" by blast
  then show ?thesis
    using w1 k(1,2) h(2) by (auto simp: tde_reencrypt_block_def Let_def runM block_no_def after_block_def)
qed

section \<open>Copying a range of blocks\<close>

definition blk :: "bytes \<Rightarrow> nat \<Rightarrow> bytes" where
  "blk f i = take BLCK (drop (i * BLCK) f)"

text \<open>The blocks \<open>i, ..., i + n - 1\<close> of a file, and the re-encrypted ones.\<close>

definition blocks_hold where
  "blocks_hold E bn ks fk f i n pl \<longleftrightarrow> (i + n) * BLCK \<le> length f \<and>
     (\<forall>j. i \<le> j \<and> j < i + n \<longrightarrow> page_holds E ks fk (bn j) (blk f j) (pl j))"

definition blocks_enc where
  "blocks_enc E bn kt fk i n pl = concat (map (\<lambda>j. page_enc E kt fk (bn j) (pl j)) [i..<i + n])"

lemma blocks_hold_Suc:
  assumes "blocks_hold E bn ks fk f i (Suc n) pl"
  shows "page_holds E ks fk (bn i) (blk f i) (pl i)" "blocks_hold E bn ks fk f (Suc i) n pl" "i * BLCK + BLCK \<le> length f"
  using assms by (auto simp: blocks_hold_def)

lemma blocks_enc_Suc: "blocks_enc E bn kt fk i (Suc n) pl = page_enc E kt fk (bn i) (pl i) @ blocks_enc E bn kt fk (Suc i) n pl"
  using upt_conv_Cons [of i "i + Suc n"] by (simp add: blocks_enc_def)

lemma pwrite_pwrite: "off \<le> length f \<Longrightarrow> pwrite (pwrite f a off) b (off + length a) = pwrite f (a @ b) off"
  by (simp add: pwrite_def ac_simps)

lemma pwrite_Nil: "off \<le> length f \<Longrightarrow> pwrite f [] off = f"
  by (simp add: pwrite_def)

lemma write_target_ok:
  "\<not> dry_run rw \<Longrightarrow> dstpath st = Some d \<Longrightarrow> io w = [] \<Longrightarrow> buf \<noteq> [] \<Longrightarrow>
     write_target_range rw st buf off w = (Inr (), set_file d (pwrite (file_bytes w d) buf off) w)"
  by (cases buf) (simp_all add: write_target_range_def runM pg_pwrite_ok)

lemma fetch_range_ok:
  assumes "has_keys (current_tde_file st) ks kt" "evp_is ev E" "page_cipher_ok E" "\<not> dry_run rw" "dstpath st = Some d" "d \<noteq> src"
  shows "blocks_hold E (block_no rw (current_tde_file st)) ks MAIN_FORKNUM S i n pl \<Longrightarrow> n < fuel \<Longrightarrow> length buf = BLCK \<Longrightarrow> disk w src = Some S \<Longrightarrow>
     disk w d = Some T \<Longrightarrow> i * BLCK \<le> length T \<Longrightarrow> io w = [] \<Longrightarrow> ctxs_inv w \<Longrightarrow>
     \<exists>w'. fetch_range_loop ev rw st src fuel (i * BLCK) ((i + n) * BLCK) buf w = (Inr (), w') \<and>
       disk w' = (disk w)(d \<mapsto> pwrite T (blocks_enc E (block_no rw (current_tde_file st)) kt MAIN_FORKNUM i n pl) (i * BLCK)) \<and> io w' = [] \<and> ctxs_inv w'"
proof (induction n arbitrary: i fuel buf w T)
  case 0
  then obtain fuel' where "fuel = Suc fuel'" by (metis gr0_implies_Suc)
  with 0 show ?case by (simp add: blocks_enc_def pwrite_Nil fun_upd_idem)
next
  case (Suc n)
  let ?cur = "current_tde_file st"
  obtain fuel' where f: "fuel = Suc fuel'" using Suc.prems(2) by (metis Suc_lessE)
  note b = blocks_hold_Suc [OF Suc.prems(1)]
  have d: "pread S BLCK (i * BLCK) = blk S i" "length (blk S i) = BLCK" "min BLCK ((i + Suc n) * BLCK - i * BLCK) = BLCK"
    using b(3) by (simp_all add: pread_block blk_def)
  let ?e = "page_enc E kt MAIN_FORKNUM (block_no rw ?cur i) (pl i)"
  obtain w1 where w1: "tde_reencrypt_block ev rw ?cur (blk S i) (i * BLCK) MAIN_FORKNUM w = (Inr ?e, w1)" "ctxs_inv w1" "disk w1 = disk w" "io w1 = io w"
    using reencrypt_block_run [OF assms(1) Suc.prems(8) assms(2,3) b(1)] by (auto simp: after_block_def)
  have e: "length ?e = BLCK" using page_enc_ok(2) [OF assms(3)] b(1) by (simp add: page_holds_def)
  let ?w2 = "set_file d (pwrite T ?e (i * BLCK)) w1"
  have "take (length (blk S i)) ?e = ?e" "?e \<noteq> []" using e d(2) by auto
  then have wr: "write_target_range rw st (take (length (blk S i)) ?e) (i * BLCK) w1 = (Inr (), ?w2)"
    using write_target_ok [OF assms(4,5)] Suc.prems(5,7) w1(3,4) by (simp add: file_bytes_def)
  have "\<exists>w'. fetch_range_loop ev rw st src fuel' (Suc i * BLCK) ((Suc i + n) * BLCK) ?e ?w2 = (Inr (), w') \<and>
      disk w' = (disk ?w2)(d \<mapsto> pwrite (pwrite T ?e (i * BLCK)) (blocks_enc E (block_no rw ?cur) kt MAIN_FORKNUM (Suc i) n pl) (Suc i * BLCK)) \<and> io w' = [] \<and> ctxs_inv w'"
    using Suc.prems f b(2) e w1 assms(6) by (intro Suc.IH) (simp_all add: set_file_def length_pwrite ctxs_inv_def)
  moreover have "pwrite (pwrite T ?e (i * BLCK)) (blocks_enc E (block_no rw ?cur) kt MAIN_FORKNUM (Suc i) n pl) (Suc i * BLCK) =
      pwrite T (blocks_enc E (block_no rw ?cur) kt MAIN_FORKNUM i (Suc n) pl) (i * BLCK)"
    using pwrite_pwrite [of "i * BLCK" T ?e] e Suc.prems(6) by (simp add: blocks_enc_Suc add.commute)
  moreover have "fetch_range_loop ev rw st src fuel (i * BLCK) ((i + Suc n) * BLCK) buf w =
      fetch_range_loop ev rw st src fuel' (Suc i * BLCK) ((Suc i + n) * BLCK) ?e ?w2"
  proof -
    have ne: "blk S i \<noteq> []" "blk S i @ drop (length (blk S i)) buf = blk S i" using d(2) Suc.prems(3) by auto
    have "(pread (file_bytes w src) (min BLCK ((i + Suc n) * BLCK - i * BLCK)) (i * BLCK)) = blk S i"
      unfolding d(3) using Suc.prems(4) d(1) by (simp add: file_bytes_def)
    then show ?thesis unfolding f using ne w1(1) wr d(2) by (simp add: runM add.commute)
  qed
  ultimately show ?case using w1(3) by (auto simp: set_file_def)
qed

section \<open>Forks\<close>

definition fork_path :: "rewind \<Rightarrow> RelFileLocator \<Rightarrow> ForkNumber \<Rightarrow> string" where
  "fork_path rw rl fk = path_in (datadir_target rw) (relpathperm (rw_pg rw) rl fk)"

definition whole_blocks where
  "whole_blocks E bn ks fk f n pl \<longleftrightarrow> length f = n * BLCK \<and> blocks_hold E bn ks fk f 0 n pl"

lemma blk_pwrite:
  assumes "length e = BLCK" "i * BLCK \<le> length f"
  shows "blk (pwrite f e (i * BLCK)) j = (if j = i then e else blk f j)"
proof -
  consider "j = i" | k where "j = i + 1 + k" | k where "i = j + 1 + k"
    by (metis add.assoc add.commute less_imp_Suc_add linorder_neqE_nat Suc_eq_plus1)
  then show ?thesis
  proof cases
    case 1
    then show ?thesis using assms by (simp add: blk_def pwrite_def)
  next
    case (2 k)
    then have j: "j * BLCK = i * BLCK + BLCK + k * BLCK" by (simp add: algebra_simps)
    have "drop (j * BLCK) (pwrite f e (i * BLCK)) = drop (j * BLCK) f" unfolding j using assms by (simp add: pwrite_def ac_simps)
    then show ?thesis using 2 by (simp add: blk_def)
  next
    case (3 k)
    then have i: "i * BLCK = j * BLCK + (BLCK + k * BLCK)" by (simp add: algebra_simps)
    have "take BLCK (drop (j * BLCK) (take (j * BLCK + (BLCK + k * BLCK)) f)) = take BLCK (drop (j * BLCK) f)" by (simp add: drop_take)
    then show ?thesis using 3 assms(2) unfolding i blk_def pwrite_def by simp
  qed
qed

lemma reencrypt_loop_ok:
  assumes "has_keys cur ks kt" "evp_is ev E" "page_cipher_ok E"
  shows "blocks_hold E (block_no rw cur) ks fk T i n pl \<Longrightarrow> length T = (i + n) * BLCK \<Longrightarrow> n < fuel \<Longrightarrow> disk w fd = Some T \<Longrightarrow> io w = [] \<Longrightarrow> ctxs_inv w \<Longrightarrow>
     \<exists>w'. reencrypt_loop ev rw cur fk fd fuel (i * BLCK) w = (Inr (), w') \<and>
       disk w' = (disk w)(fd \<mapsto> pwrite T (blocks_enc E (block_no rw cur) kt fk i n pl) (i * BLCK)) \<and> io w' = [] \<and> ctxs_inv w'"
proof (induction n arbitrary: i fuel w T)
  case 0
  then obtain fuel' where "fuel = Suc fuel'" by (metis gr0_implies_Suc)
  with 0 show ?case by (simp add: blocks_enc_def pwrite_Nil fun_upd_idem runM file_bytes_def length_pread)
next
  case (Suc n)
  obtain fuel' where f: "fuel = Suc fuel'" using Suc.prems(3) by (metis Suc_lessE)
  note b = blocks_hold_Suc [OF Suc.prems(1)]
  have d: "pread T BLCK (i * BLCK) = blk T i" "length (blk T i) = BLCK" using b(3) by (simp_all add: pread_block blk_def)
  let ?e = "page_enc E kt fk (block_no rw cur i) (pl i)"
  obtain w1 where w1: "tde_reencrypt_block ev rw cur (blk T i) (i * BLCK) fk w = (Inr ?e, w1)" "ctxs_inv w1" "disk w1 = disk w" "io w1 = io w"
    using reencrypt_block_run [OF assms(1) Suc.prems(6) assms(2,3) b(1)] by (auto simp: after_block_def)
  have e: "length ?e = BLCK" using page_enc_ok(2) [OF assms(3)] b(1) by (simp add: page_holds_def)
  let ?T = "pwrite T ?e (i * BLCK)"
  let ?w2 = "set_file fd ?T w1"
  have wr: "pg_pwrite fd ?e (i * BLCK) w1 = (Inr (int BLCK), ?w2)"
    using pg_pwrite_ok [of w1 fd ?e "i * BLCK"] Suc.prems(4,5) w1(3,4) e by (simp add: file_bytes_def)
  have h: "blocks_hold E (block_no rw cur) ks fk ?T (Suc i) n pl"
    using b(2,3) e by (auto simp: blocks_hold_def length_pwrite blk_pwrite)
  have "\<exists>w'. reencrypt_loop ev rw cur fk fd fuel' (Suc i * BLCK) ?w2 = (Inr (), w') \<and>
      disk w' = (disk ?w2)(fd \<mapsto> pwrite ?T (blocks_enc E (block_no rw cur) kt fk (Suc i) n pl) (Suc i * BLCK)) \<and> io w' = [] \<and> ctxs_inv w'"
    using Suc.prems f e w1 by (intro Suc.IH [OF h]) (simp_all add: set_file_def length_pwrite ctxs_inv_def)
  moreover have "pwrite ?T (blocks_enc E (block_no rw cur) kt fk (Suc i) n pl) (Suc i * BLCK) = pwrite T (blocks_enc E (block_no rw cur) kt fk i (Suc n) pl) (i * BLCK)"
    using pwrite_pwrite [of "i * BLCK" T ?e] e b(3) by (simp add: blocks_enc_Suc add.commute)
  moreover have "reencrypt_loop ev rw cur fk fd fuel (i * BLCK) w = reencrypt_loop ev rw cur fk fd fuel' (Suc i * BLCK) ?w2"
    unfolding f using d w1(1) wr Suc.prems(4) by (simp add: runM file_bytes_def add.commute)
  ultimately show ?case using w1(3) by (auto simp: set_file_def)
qed

text \<open>A fork that is absent stays so; one of whole blocks is re-encrypted.\<close>

definition fork_change where
  "fork_change E bn ks kt fk x y \<longleftrightarrow> (case x of
     None \<Rightarrow> y = None
   | Some f \<Rightarrow> (\<exists>n pl. whole_blocks E bn ks fk f n pl \<and> y = Some (blocks_enc E bn kt fk 0 n pl)))"

definition fork_readable where
  "fork_readable E bn ks fk x \<longleftrightarrow> (case x of None \<Rightarrow> True | Some f \<Rightarrow> \<exists>n pl. whole_blocks E bn ks fk f n pl)"

lemma length_blocks_enc:
  assumes "page_cipher_ok E" "blocks_hold E bn ks fk f i n pl"
  shows "length (blocks_enc E bn kt fk i n pl) = n * BLCK"
  using assms(2)
proof (induction n arbitrary: i)
  case (Suc n)
  have "length (page_enc E kt fk (bn i) (pl i)) = BLCK"
    using blocks_hold_Suc(1) [OF Suc.prems] page_enc_ok(2) [OF assms(1)] by (simp add: page_holds_def)
  then show ?case using Suc.IH [OF blocks_hold_Suc(2) [OF Suc.prems]] by (simp add: blocks_enc_Suc)
qed (simp add: blocks_enc_def)

lemma reencrypt_fork_ok:
  assumes "has_keys cur ks kt" "evp_is ev E" "page_cipher_ok E" "\<not> dry_run rw" "\<not> open_fails rw (fork_path rw (rlocator cur) fk)"
    and "fork_readable E (block_no rw cur) ks fk (disk w (fork_path rw (rlocator cur) fk))" "io w = []" "ctxs_inv w"
  shows "\<exists>w' y. reencrypt_fork ev rw cur fk w = (Inr (), w') \<and> disk w' = (disk w)(fork_path rw (rlocator cur) fk := y) \<and>
     fork_change E (block_no rw cur) ks kt fk (disk w (fork_path rw (rlocator cur) fk)) y \<and> io w' = [] \<and> ctxs_inv w'"
proof (cases "disk w (fork_path rw (rlocator cur) fk)")
  case None
  then have "reencrypt_fork ev rw cur fk w = (Inr (), w)" using assms(4) by (simp add: reencrypt_fork_def Let_def runM fork_path_def)
  with None assms(7,8) show ?thesis by (auto simp: fork_change_def fun_upd_idem intro!: exI [of _ None])
next
  case (Some f)
  let ?q = "fork_path rw (rlocator cur) fk"
  obtain n pl where n: "length f = n * BLCK" "blocks_hold E (block_no rw cur) ks fk f 0 n pl"
    using assms(6) Some by (auto simp: fork_readable_def whole_blocks_def)
  have "n < Suc (length f)" using n(1) by simp
  then obtain w' where w': "reencrypt_loop ev rw cur fk ?q (Suc (length f)) (0 * BLCK) w = (Inr (), w')"
      "disk w' = (disk w)(?q \<mapsto> pwrite f (blocks_enc E (block_no rw cur) kt fk 0 n pl) (0 * BLCK))" "io w' = []" "ctxs_inv w'"
    using reencrypt_loop_ok [OF assms(1-3) n(2) _ _ Some assms(7,8), of "Suc (length f)"] n(1) by auto
  have "pwrite f (blocks_enc E (block_no rw cur) kt fk 0 n pl) (0 * BLCK) = blocks_enc E (block_no rw cur) kt fk 0 n pl"
    using length_blocks_enc [OF assms(3) n(2), of kt] n(1) by (simp add: pwrite_def)
  moreover have "reencrypt_fork ev rw cur fk w = (Inr (), w')"
    using assms(4,5) Some w'(1) by (simp add: reencrypt_fork_def Let_def runM fork_path_def [symmetric] del: reencrypt_loop.simps)
  ultimately show ?thesis using w'(2-4) Some n by (auto simp: fork_change_def whole_blocks_def)
qed

section \<open>Saving and loading the keys of a file\<close>

lemma set_data_dir_run:
  "\<exists>w'. open_pg_tde_set_data_dir w = (Inr (), w') \<and> disk w' = disk w \<and> io w' = io w \<and> ctxs_inv w' = ctxs_inv w"
  by (simp add: open_pg_tde_set_data_dir_def clean_fe_server_principal_key_cache_def open_pg_tde_free_wal_key_cache_def runM ctxs_inv_def)

lemma fe_env_ok [simp]: "gcm_ok (fe_env ev d) = gcm_ok ev" "rand_ok (fe_env ev d) = rand_ok ev"
  by (simp_all add: gcm_ok_def rand_ok_def fe_env_def)

lemma source_env_ok [simp]: "gcm_ok (source_env ev st) = gcm_ok ev" "rand_ok (source_env ev st) = rand_ok ev"
  by (simp_all add: source_env_def)

lemma source_env_upd [simp]:
  "source_env ev (st\<lparr>current_tde_file := c\<rparr>) = source_env ev st" "source_env ev (st\<lparr>dstpath := d\<rparr>) = source_env ev st"
  by (simp_all add: source_env_def)

lemma rel_entry_cong: "disk w' (open_pg_tde_set_db_file_path ev (dbOid rel)) = disk w (open_pg_tde_set_db_file_path ev (dbOid rel)) \<Longrightarrow>
    rel_entry ev rel w' = rel_entry ev rel w"
  by (simp add: rel_entry_def)

text \<open>The key of a relation in the key files of an environment.\<close>

definition rel_key :: "env \<Rightarrow> TDEPrincipalKey \<Rightarrow> string set \<Rightarrow> RelFileLocator \<Rightarrow> InternalKey \<Rightarrow> world \<Rightarrow> bool" where
  "rel_key ev pk P rl k w \<longleftrightarrow> fe_keys ev pk (dbOid rl) P w \<and> (\<exists>e. rel_entry ev rl w = Some e \<and> entry_holds ev pk e k)"

lemma rel_key_cong:
  assumes "rel_key ev pk P rl k w" "\<forall>p\<in>insert (open_pg_tde_set_db_file_path ev (dbOid rl)) P. disk w' p = disk w p" "io w' = io w"
  shows "rel_key ev pk P rl k w'"
  using assms fe_keys_cong [OF assms(2,3)] rel_entry_cong [of w' ev rl w] by (auto simp: rel_key_def)

lemma rel_key_wf: "rel_key ev pk P rl k w \<Longrightarrow> wf_ik k \<and> io w = []"
  by (auto simp: rel_key_def entry_holds_def fe_keys_def keys_file_ok_def)

definition key_files :: "env \<Rightarrow> rewind_state \<Rightarrow> Oid \<Rightarrow> string set \<Rightarrow> string set" where
  "key_files ev st db P = insert (open_pg_tde_set_db_file_path (source_env ev st) db) P"

lemma flush_ok:
  assumes cur: "current_tde_file st = cur" "has_keys cur ks kt" "wf_ik kt" "relNumber (rlocator cur) \<noteq> 0"
    and ev: "evp_is ev E" "page_cipher_ok E" "gcm_ok ev" "rand_ok ev" and rw: "\<not> dry_run rw" "\<forall>q. \<not> open_fails rw q"
    and keys: "rel_key (source_env ev st) pk P (rlocator cur) ks w" "ctxs_inv w"
    and forks: "\<forall>fk\<in>{FSM_FORKNUM, VISIBILITYMAP_FORKNUM}. fork_path rw (rlocator cur) fk \<notin> key_files ev st (dbOid (rlocator cur)) P \<and>
        fork_readable E (block_no rw cur) ks fk (disk w (fork_path rw (rlocator cur) fk))"
      "fork_path rw (rlocator cur) FSM_FORKNUM \<noteq> fork_path rw (rlocator cur) VISIBILITYMAP_FORKNUM"
  shows "\<exists>w'. flush_current_tde_rel_key ev rw st w = (Inr (st\<lparr>current_tde_file := no_file\<rparr>), w') \<and>
     rel_key (source_env ev st) pk P (rlocator cur) kt w' \<and> ctxs_inv w' \<and>
     (\<forall>rel'. \<not> same_relation rel' (rlocator cur) \<longrightarrow> open_pg_tde_set_db_file_path (source_env ev st) (dbOid rel') \<notin> fork_path rw (rlocator cur) ` {FSM_FORKNUM, VISIBILITYMAP_FORKNUM} \<longrightarrow>
        rel_entry (source_env ev st) rel' w' = rel_entry (source_env ev st) rel' w) \<and>
     (\<forall>q. q \<notin> insert (open_pg_tde_set_db_file_path (source_env ev st) (dbOid (rlocator cur))) (fork_path rw (rlocator cur) ` {FSM_FORKNUM, VISIBILITYMAP_FORKNUM}) \<longrightarrow>
        disk w' q = disk w q) \<and>
     (\<forall>fk\<in>{FSM_FORKNUM, VISIBILITYMAP_FORKNUM}.
        fork_change E (block_no rw cur) ks kt fk (disk w (fork_path rw (rlocator cur) fk)) (disk w' (fork_path rw (rlocator cur) fk)))"
proof -
  let ?ev = "source_env ev st" and ?rl = "rlocator cur" and ?f = "fork_path rw (rlocator cur)"
  let ?K = "open_pg_tde_set_db_file_path ?ev (dbOid ?rl)"
  obtain sk tk where k: "source_key cur = Some sk" "target_key cur = Some tk" "wf_ik tk" "ik_equiv tk kt"
    using cur(2) by (auto simp: has_keys_def)
  have io: "io w = []" using rel_key_wf [OF keys(1)] by simp
  obtain w1 y1 where w1: "reencrypt_fork ev rw cur FSM_FORKNUM w = (Inr (), w1)" "disk w1 = (disk w)(?f FSM_FORKNUM := y1)"
      "fork_change E (block_no rw cur) ks kt FSM_FORKNUM (disk w (?f FSM_FORKNUM)) y1" "io w1 = []" "ctxs_inv w1"
    using reencrypt_fork_ok [OF cur(2) ev(1,2) rw(1) _ _ io keys(2), of FSM_FORKNUM] rw(2) forks(1) by auto
  obtain w2 y2 where w2: "reencrypt_fork ev rw cur VISIBILITYMAP_FORKNUM w1 = (Inr (), w2)" "disk w2 = (disk w1)(?f VISIBILITYMAP_FORKNUM := y2)"
      "fork_change E (block_no rw cur) ks kt VISIBILITYMAP_FORKNUM (disk w (?f VISIBILITYMAP_FORKNUM)) y2" "io w2 = []" "ctxs_inv w2"
    using reencrypt_fork_ok [OF cur(2) ev(1,2) rw(1) _ _ w1(4,5), of VISIBILITYMAP_FORKNUM] rw(2) forks w1(2) by auto
  obtain w3 where w3: "open_pg_tde_set_data_dir w2 = (Inr (), w3)" "disk w3 = disk w2" "io w3 = []" "ctxs_inv w3"
    using set_data_dir_run [of w2] w2(4,5) by auto
  have d3: "disk w3 = (disk w)(?f FSM_FORKNUM := y1, ?f VISIBILITYMAP_FORKNUM := y2)" using w1(2) w2(2) w3(2) by simp
  then have keep: "\<forall>p\<in>insert ?K P. disk w3 p = disk w p" using forks(1) by (auto simp: key_files_def)
  then have fe: "fe_keys ?ev pk (dbOid ?rl) P w3" using keys(1) fe_keys_cong [of ?ev "dbOid ?rl" P w3 w pk] io w3(3) by (auto simp: rel_key_def)
  obtain w' f n e where s: "open_pg_tde_save_smgr_key ?ev ?rl tk True w3 = (Inr (), w')" "w' = (set_file ?K f w3)\<lparr>rng := n\<rparr>"
      "fe_keys ?ev pk (dbOid ?rl) P w'" "rel_entry ?ev ?rl w' = Some e" "entry_holds ?ev pk e tk"
      "\<forall>rel'. \<not> same_relation rel' ?rl \<longrightarrow> rel_entry ?ev rel' w' = rel_entry ?ev rel' w3"
    using fe_save [OF _ _ fe k(3) cur(4)] ev(3,4) by auto
  have "flush_current_tde_rel_key ev rw st w = (Inr (st\<lparr>current_tde_file := no_file\<rparr>), w')"
    using cur(1) k w1(1) w2(1) w3(1) s(1) by (simp add: flush_current_tde_rel_key_def Let_def runM)
  moreover have "rel_key ?ev pk P ?rl kt w'" using s(3-5) entry_holds_equiv [OF s(5) k(4) cur(3)] by (auto simp: rel_key_def)
  moreover have "ctxs_inv w'" using s(2) w3(4) by (simp add: ctxs_inv_def set_file_def)
  moreover have "disk w' = (disk w)(?f FSM_FORKNUM := y1, ?f VISIBILITYMAP_FORKNUM := y2, ?K \<mapsto> f)" using s(2) d3 by (simp add: set_file_def)
  moreover have "rel_entry ?ev rel' w' = rel_entry ?ev rel' w"
    if "\<not> same_relation rel' ?rl" "open_pg_tde_set_db_file_path ?ev (dbOid rel') \<notin> ?f ` {FSM_FORKNUM, VISIBILITYMAP_FORKNUM}" for rel'
    using s(6) that rel_entry_cong [of w3 ?ev rel' w] d3 by auto
  ultimately show ?thesis
    using w1(3) w2(3) forks by (intro exI [of _ w']) (auto simp: key_files_def)
qed

lemma ensure_loads:
  assumes "source_has_tde st" "cf_path (current_tde_file st) \<noteq> p" "flush_current_tde_rel_key ev rw st w0 = (Inr st1, w)"
    and "source_env ev st1 = source_env ev st" "path_rlocator (rw_pg rw) p = Some (rl, seg)"
    and "rel_key (source_env ev st) pks Ps rl ks w" "rel_key (target_env ev rw) pkt Pt rl kt w"
  shows "\<exists>w' cur. ensure_tde_keys ev rw p st w0 = (Inr (st1\<lparr>current_tde_file := cur\<rparr>), w') \<and> has_keys cur ks kt \<and> rlocator cur = rl \<and> segNo cur = seg \<and>
     cf_path cur = take (MAXPGPATH - 1) p \<and> disk w' = disk w \<and> io w' = io w \<and> ctxs_inv w' = ctxs_inv w"
proof -
  obtain w1 where w1: "open_pg_tde_set_data_dir w = (Inr (), w1)" "disk w1 = disk w" "io w1 = io w" "ctxs_inv w1 = ctxs_inv w"
    using set_data_dir_run by blast
  have "rel_key (source_env ev st) pks Ps rl ks w1" by (rule rel_key_cong [OF assms(6)]) (simp_all add: w1)
  then obtain sk where sk: "open_pg_tde_get_smgr_key (source_env ev st) rl w1 = (Inr (Some sk), w1)" "ik_equiv sk ks" "wf_ik sk"
    using fe_get by (force simp: rel_key_def)
  obtain w2 where w2: "open_pg_tde_set_data_dir w1 = (Inr (), w2)" "disk w2 = disk w1" "io w2 = io w1" "ctxs_inv w2 = ctxs_inv w1"
    using set_data_dir_run by blast
  have "rel_key (target_env ev rw) pkt Pt rl kt w2" by (rule rel_key_cong [OF assms(7)]) (simp_all add: w1 w2)
  then obtain tk where tk: "open_pg_tde_get_smgr_key (target_env ev rw) rl w2 = (Inr (Some tk), w2)" "ik_equiv tk kt" "wf_ik tk"
    using fe_get by (force simp: rel_key_def)
  let ?cur = "(current_tde_file st1)\<lparr>source_key := Some sk, target_key := Some tk, cf_path := take (MAXPGPATH - 1) p, rlocator := rl, segNo := seg\<rparr>"
  have "ensure_tde_keys ev rw p st w0 = (Inr (st1\<lparr>current_tde_file := ?cur\<rparr>), w2)"
    using assms(1-5) w1(1) sk(1) w2(1) tk(1) by (simp add: ensure_tde_keys_def runM Let_def)
  moreover have "has_keys ?cur ks kt" using sk tk by (simp add: has_keys_def)
  ultimately show ?thesis using w1 w2 by (intro exI [of _ w2] exI [of _ ?cur]) simp
qed

definition plain_run :: "rewind \<Rightarrow> bool" where
  "plain_run rw \<longleftrightarrow> \<not> dry_run rw \<and> (\<forall>q. \<not> open_fails rw q) \<and> (\<forall>q. path_is_safe_for_extraction rw q)"

lemma queue_range_ok:
  assumes rw: "plain_run rw" "src = path_in (datadir_source rw) p" "d = path_in (datadir_target rw) p" "d \<noteq> src"
    and op: "case dstpath st of None \<Rightarrow> True | Some q \<Rightarrow> drop (length (datadir_target rw) + 1) q \<noteq> p"
    and files: "disk w src = Some S" "disk w d = Some T0" "disk w2 src = Some S" "disk w2 d = Some T" "i * BLCK \<le> length T"
    and ens: "ensure_tde_keys ev rw p (st\<lparr>dstpath := Some d\<rparr>) w = (Inr st2, w2)" "dstpath st2 = Some d" "has_keys (current_tde_file st2) ks kt"
    and ev: "evp_is ev E" "page_cipher_ok E" "io w2 = []" "ctxs_inv w2"
    and h: "blocks_hold E (block_no rw (current_tde_file st2)) ks MAIN_FORKNUM S i n pl"
  shows "\<exists>w'. local_queue_fetch_range ev rw p (i * BLCK) (n * BLCK) st w = (Inr st2, w') \<and>
     disk w' = (disk w2)(d \<mapsto> pwrite T (blocks_enc E (block_no rw (current_tde_file st2)) kt MAIN_FORKNUM i n pl) (i * BLCK)) \<and> io w' = [] \<and> ctxs_inv w'"
proof -
  have dr: "\<not> dry_run rw" using rw(1) by (simp add: plain_run_def)
  have o: "open_target_file rw p False st w = (Inr (st\<lparr>dstpath := Some d\<rparr>), w)"
    using rw(1,3) op files(2) by (auto simp: open_target_file_def plain_run_def runM Let_def split: option.splits)
  have "n < Suc (n * BLCK)" by simp
  moreover have "length (garbage ev BLCK) = BLCK" by simp
  ultimately obtain w' where w': "fetch_range_loop ev rw st2 src (Suc (n * BLCK)) (i * BLCK) ((i + n) * BLCK) (garbage ev BLCK) w2 = (Inr (), w')"
      "disk w' = (disk w2)(d \<mapsto> pwrite T (blocks_enc E (block_no rw (current_tde_file st2)) kt MAIN_FORKNUM i n pl) (i * BLCK))" "io w' = []" "ctxs_inv w'"
    using fetch_range_ok [OF ens(3) ev(1,2) dr ens(2) rw(4) h _ _ files(3,4,5) ev(3,4), of "Suc (n * BLCK)" "garbage ev BLCK"] by blast
  have "local_queue_fetch_range ev rw p (i * BLCK) (n * BLCK) st w = (Inr st2, w')"
    using rw(1,2) files(1) o ens(1) w'(1)
    by (simp add: local_queue_fetch_range_def Let_def runM plain_run_def del: fetch_range_loop.simps)
  with w'(2-4) show ?thesis by blast
qed

section \<open>One file, and a second file of the same relation\<close>

lemma blocks_written:
  assumes "page_cipher_ok E"
  shows "blocks_hold E bn ks fk S i n pl \<Longrightarrow> i * BLCK \<le> length T \<Longrightarrow>
     blk (pwrite T (blocks_enc E bn kt fk i n pl) (i * BLCK)) j = (if i \<le> j \<and> j < i + n then page_enc E kt fk (bn j) (pl j) else blk T j)"
proof (induction n arbitrary: i T)
  case 0
  then show ?case by (auto simp: blocks_enc_def pwrite_Nil)
next
  case (Suc n)
  let ?e = "page_enc E kt fk (bn i) (pl i)"
  note b = blocks_hold_Suc [OF Suc.prems(1)]
  have e: "length ?e = BLCK" using page_enc_ok(2) [OF assms] b(1) by (simp add: page_holds_def)
  have "pwrite T (blocks_enc E bn kt fk i (Suc n) pl) (i * BLCK) = pwrite (pwrite T ?e (i * BLCK)) (blocks_enc E bn kt fk (Suc i) n pl) (Suc i * BLCK)"
    using pwrite_pwrite [of "i * BLCK" T ?e] e Suc.prems(2) by (simp add: blocks_enc_Suc add.commute)
  moreover have "Suc i * BLCK \<le> length (pwrite T ?e (i * BLCK))" using e by (simp add: length_pwrite)
  ultimately show ?case using Suc.IH [OF b(2)] blk_pwrite [OF e Suc.prems(2), of j] by auto
qed

text \<open>The files that the program reads and writes for a relation are different files.\<close>

definition forks_of :: "rewind \<Rightarrow> RelFileLocator \<Rightarrow> string set" where
  "forks_of rw rl = fork_path rw rl ` {FSM_FORKNUM, VISIBILITYMAP_FORKNUM}"

definition files_apart :: "env \<Rightarrow> rewind \<Rightarrow> rewind_state \<Rightarrow> RelFileLocator \<Rightarrow> string set \<Rightarrow> string set \<Rightarrow> string set \<Rightarrow> bool" where
  "files_apart ev rw st rl Ps Pt ps \<longleftrightarrow>
     (let sk = open_pg_tde_set_db_file_path (source_env ev st) (dbOid rl); tk = open_pg_tde_set_db_file_path (target_env ev rw) (dbOid rl);
          K = insert sk Ps \<union> insert tk Pt; src = path_in (datadir_source rw) ` ps; dst = path_in (datadir_target rw) ` ps
      in sk \<notin> insert tk (Pt \<union> src) \<and> dst \<inter> (src \<union> K \<union> forks_of rw rl) = {} \<and> forks_of rw rl \<inter> (src \<union> K) = {} \<and>
         fork_path rw rl FSM_FORKNUM \<noteq> fork_path rw rl VISIBILITYMAP_FORKNUM)"

lemma no_file_simps [simp]: "source_key no_file = None" "cf_path no_file = []"
  by (simp_all add: no_file_def)

lemma flush_no_file: "current_tde_file st = no_file \<Longrightarrow> flush_current_tde_rel_key ev rw st w = (Inr st, w)"
  by (simp add: flush_current_tde_rel_key_def Let_def)

text \<open>Copying a range of the first file.\<close>

lemma first_range_ok:
  assumes rw: "plain_run rw" "files_apart ev rw st rl Ps Pt ps" "p \<in> ps"
    and st: "source_has_tde st" "current_tde_file st = no_file" "dstpath st = None"
    and path: "path_rlocator (rw_pg rw) p = Some (rl, seg)" "p \<noteq> []"
    and ev: "evp_is ev E" "page_cipher_ok E" "ctxs_inv w"
    and keys: "rel_key (source_env ev st) pks Ps rl ks w" "rel_key (target_env ev rw) pkt Pt rl kt w"
    and files: "disk w (path_in (datadir_source rw) p) = Some S" "disk w (path_in (datadir_target rw) p) = Some T" "i * BLCK \<le> length T"
    and bn: "bn = (\<lambda>j. of_nat j + seg * RELSEG_SIZE (rw_pg rw))" and h: "blocks_hold E bn ks MAIN_FORKNUM S i n pl"
  shows "\<exists>cur w'. local_queue_fetch_range ev rw p (i * BLCK) (n * BLCK) st w =
       (Inr (st\<lparr>dstpath := Some (path_in (datadir_target rw) p), current_tde_file := cur\<rparr>), w') \<and>
     has_keys cur ks kt \<and> rlocator cur = rl \<and> block_no rw cur = bn \<and> cf_path cur = take (MAXPGPATH - 1) p \<and>
     disk w' = (disk w)(path_in (datadir_target rw) p \<mapsto> pwrite T (blocks_enc E bn kt MAIN_FORKNUM i n pl) (i * BLCK)) \<and> io w' = [] \<and> ctxs_inv w'"
proof -
  let ?d = "path_in (datadir_target rw) p" and ?s = "path_in (datadir_source rw) p"
  let ?st = "st\<lparr>dstpath := Some ?d\<rparr>"
  have ds: "?d \<noteq> ?s" using rw(2,3) by (auto simp: files_apart_def Let_def)
  have fl: "flush_current_tde_rel_key ev rw ?st w = (Inr ?st, w)" using st(2) by (intro flush_no_file) simp
  obtain w2 cur where e: "ensure_tde_keys ev rw p ?st w = (Inr (?st\<lparr>current_tde_file := cur\<rparr>), w2)" "has_keys cur ks kt" "rlocator cur = rl" "segNo cur = seg"
      "cf_path cur = take (MAXPGPATH - 1) p" "disk w2 = disk w" "io w2 = io w" "ctxs_inv w2 = ctxs_inv w"
    using ensure_loads [OF _ _ fl _ path(1), of pks Ps ks pkt Pt kt] st(1,2) keys path(2) by auto
  have io: "io w = []" using rel_key_wf [OF keys(1)] by simp
  have bc: "block_no rw cur = bn" using e(4) bn by (simp add: block_no_def fun_eq_iff)
  have "\<exists>w'. local_queue_fetch_range ev rw p (i * BLCK) (n * BLCK) st w = (Inr (?st\<lparr>current_tde_file := cur\<rparr>), w') \<and>
     disk w' = (disk w2)(?d \<mapsto> pwrite T (blocks_enc E (block_no rw (current_tde_file (?st\<lparr>current_tde_file := cur\<rparr>))) kt MAIN_FORKNUM i n pl) (i * BLCK)) \<and>
     io w' = [] \<and> ctxs_inv w'"
    using st(3) files e ev io bc h
    by (intro queue_range_ok [OF rw(1) refl refl ds, where w = w and S = S and ?T0.0 = T and ks = ks]) simp_all
  then show ?thesis using e bc by auto
qed

text \<open>The flush after the blocks of a file have been copied.\<close>

lemma flush_file_ok:
  assumes rw: "plain_run rw" "files_apart ev rw st rl Ps Pt ps"
    and cur: "current_tde_file st' = cur" "has_keys cur ks kt" "rlocator cur = rl" "relNumber rl \<noteq> 0" "source_env ev st' = source_env ev st" "wf_ik kt"
    and ev: "evp_is ev E" "page_cipher_ok E" "gcm_ok ev" "rand_ok ev" "ctxs_inv w"
    and keys: "rel_key (source_env ev st) pks Ps rl ks w" "rel_key (target_env ev rw) pkt Pt rl kt w"
    and forks: "\<forall>fk\<in>{FSM_FORKNUM, VISIBILITYMAP_FORKNUM}. fork_readable E (block_no rw cur) ks fk (disk w (fork_path rw rl fk))"
  shows "\<exists>w'. flush_current_tde_rel_key ev rw st' w = (Inr (st'\<lparr>current_tde_file := no_file\<rparr>), w') \<and>
     rel_key (source_env ev st) pks Ps rl kt w' \<and> rel_key (target_env ev rw) pkt Pt rl kt w' \<and> ctxs_inv w' \<and>
     (\<forall>q. q \<notin> insert (open_pg_tde_set_db_file_path (source_env ev st) (dbOid rl)) (forks_of rw rl) \<longrightarrow> disk w' q = disk w q) \<and>
     (\<forall>fk\<in>{FSM_FORKNUM, VISIBILITYMAP_FORKNUM}. fork_change E (block_no rw cur) ks kt fk (disk w (fork_path rw rl fk)) (disk w' (fork_path rw rl fk)))"
proof -
  let ?K = "open_pg_tde_set_db_file_path (source_env ev st) (dbOid rl)"
  have pl: "\<not> dry_run rw" "\<forall>q. \<not> open_fails rw q" using rw(1) by (simp_all add: plain_run_def)
  have f: "\<forall>fk\<in>{FSM_FORKNUM, VISIBILITYMAP_FORKNUM}. fork_path rw (rlocator cur) fk \<notin> key_files ev st' (dbOid (rlocator cur)) Ps \<and>
      fork_readable E (block_no rw cur) ks fk (disk w (fork_path rw (rlocator cur) fk))"
      "fork_path rw (rlocator cur) FSM_FORKNUM \<noteq> fork_path rw (rlocator cur) VISIBILITYMAP_FORKNUM"
    using rw(2) forks cur(3,5) by (auto simp: files_apart_def Let_def key_files_def forks_of_def)
  have rn: "relNumber (rlocator cur) \<noteq> 0" and rk: "rel_key (source_env ev st') pks Ps (rlocator cur) ks w" using cur(3,4,5) keys(1) by simp_all
  obtain w' where w': "flush_current_tde_rel_key ev rw st' w = (Inr (st'\<lparr>current_tde_file := no_file\<rparr>), w')"
      "rel_key (source_env ev st) pks Ps rl kt w'" "ctxs_inv w'"
      "\<And>q. q \<notin> insert ?K (forks_of rw rl) \<Longrightarrow> disk w' q = disk w q"
      "\<forall>fk\<in>{FSM_FORKNUM, VISIBILITYMAP_FORKNUM}. fork_change E (block_no rw cur) ks kt fk (disk w (fork_path rw rl fk)) (disk w' (fork_path rw rl fk))"
    using flush_ok [OF cur(1,2,6) rn ev(1-4) pl rk ev(5) f, unfolded cur(3,5), folded forks_of_def] by blast
  have "rel_key (target_env ev rw) pkt Pt rl kt w'"
    using rel_key_wf [OF keys(2)] rel_key_wf [OF w'(2)] rw(2)
    by (intro rel_key_cong [OF keys(2)]) (auto simp: files_apart_def Let_def intro!: w'(4))
  with w' show ?thesis by blast
qed

text \<open>
  C18. Rewinding an encrypted relation file: blocks that are copied from the source into the first file of a relation, which lie there under the key of the
  source, are afterwards blocks of the target from which the key of the target reads the same pages; the other blocks are as they were; the free
  space map and the visibility map, which were copied whole, have been re-encrypted as well; and the copy of the key files, which becomes the key
  directory of the target, holds the key of the target for the relation.
\<close>

theorem rewind_reencrypts_file:
  assumes "plain_run rw" "files_apart ev rw st rl Ps Pt {p}"
    and "source_has_tde st" "current_tde_file st = no_file" "dstpath st = None"
    and "path_rlocator (rw_pg rw) p = Some (rl, 0)" "p \<noteq> []" "relNumber rl \<noteq> 0"
    and "evp_is ev E" "page_cipher_ok E" "gcm_ok ev" "rand_ok ev" "ctxs_inv w"
    and "rel_key (source_env ev st) pks Ps rl ks w" "rel_key (target_env ev rw) pkt Pt rl kt w"
    and "disk w (path_in (datadir_source rw) p) = Some S" "disk w (path_in (datadir_target rw) p) = Some T" "i * BLCK \<le> length T"
    and "(i + n) * BLCK \<le> length S" "\<forall>j. i \<le> j \<and> j < i + n \<longrightarrow> page_holds E ks MAIN_FORKNUM (of_nat j) (blk S j) (pl j)"
    and "\<forall>fk\<in>{FSM_FORKNUM, VISIBILITYMAP_FORKNUM}. fork_readable E of_nat ks fk (disk w (fork_path rw rl fk))"
  shows "\<exists>st' w' T'. bindM (local_queue_fetch_range ev rw p (i * BLCK) (n * BLCK) st) (local_finish_fetch ev rw) w = (Inr st', w') \<and>
     disk w' (path_in (datadir_target rw) p) = Some T' \<and>
     (\<forall>j. if i \<le> j \<and> j < i + n then (\<not> all_zero 32 (blk T' j) \<longrightarrow> page_holds E kt MAIN_FORKNUM (of_nat j) (blk T' j) (pl j)) else blk T' j = blk T j) \<and>
     (\<forall>fk\<in>{FSM_FORKNUM, VISIBILITYMAP_FORKNUM}. fork_change E of_nat ks kt fk (disk w (fork_path rw rl fk)) (disk w' (fork_path rw rl fk))) \<and>
     rel_key (source_env ev st) pks Ps rl kt w'"
proof -
  let ?d = "path_in (datadir_target rw) p" and ?K = "open_pg_tde_set_db_file_path (source_env ev st) (dbOid rl)"
  let ?T = "pwrite T (blocks_enc E of_nat kt MAIN_FORKNUM i n pl) (i * BLCK)"
  have h: "blocks_hold E of_nat ks MAIN_FORKNUM S i n pl" using assms(19,20) by (simp add: blocks_hold_def)
  have p: "p \<in> {p}" and bn: "of_nat = (\<lambda>j. of_nat j + 0 * RELSEG_SIZE (rw_pg rw))" by simp_all
  obtain cur w1 where r: "local_queue_fetch_range ev rw p (i * BLCK) (n * BLCK) st w = (Inr (st\<lparr>dstpath := Some ?d, current_tde_file := cur\<rparr>), w1)"
      "has_keys cur ks kt" "rlocator cur = rl" "block_no rw cur = of_nat" "disk w1 = (disk w)(?d \<mapsto> ?T)" "io w1 = []" "ctxs_inv w1"
    using first_range_ok [OF assms(1,2) p assms(3-7,9,10,13-18) bn h] by blast
  have d: "?d \<notin> insert ?K Ps" "?d \<notin> insert (open_pg_tde_set_db_file_path (target_env ev rw) (dbOid rl)) Pt" "?d \<notin> forks_of rw rl"
    using assms(2) by (auto simp: files_apart_def Let_def)
  have k: "rel_key (source_env ev st) pks Ps rl ks w1" "rel_key (target_env ev rw) pkt Pt rl kt w1"
    using d(1,2) r(5,6) rel_key_wf [OF assms(14)]
    by (auto intro!: rel_key_cong [OF assms(14)] rel_key_cong [OF assms(15)] simp del: insert_iff)
  have fk: "disk w1 (fork_path rw rl f) = disk w (fork_path rw rl f)" if "f \<in> {FSM_FORKNUM, VISIBILITYMAP_FORKNUM}" for f
    using that d(3) r(5) by (auto simp: forks_of_def)
  obtain w' where w': "flush_current_tde_rel_key ev rw (st\<lparr>dstpath := Some ?d, current_tde_file := cur\<rparr>) w1 =
        (Inr (st\<lparr>dstpath := Some ?d, current_tde_file := no_file\<rparr>), w')" "rel_key (source_env ev st) pks Ps rl kt w'"
      "\<forall>q. q \<notin> insert ?K (forks_of rw rl) \<longrightarrow> disk w' q = disk w1 q"
      "\<forall>fk\<in>{FSM_FORKNUM, VISIBILITYMAP_FORKNUM}. fork_change E of_nat ks kt fk (disk w1 (fork_path rw rl fk)) (disk w' (fork_path rw rl fk))"
    using flush_file_ok [OF assms(1,2) _ r(2,3) assms(8) _ _ assms(9-12) r(7) k, of "st\<lparr>dstpath := Some ?d, current_tde_file := cur\<rparr>"]
      rel_key_wf [OF k(2)] r(4) assms(21) fk by auto
  have "disk w' ?d = Some ?T" using w'(3) r(5) d by auto
  moreover have "blk ?T j = (if i \<le> j \<and> j < i + n then page_enc E kt MAIN_FORKNUM (of_nat j) (pl j) else blk T j)" for j
    by (rule blocks_written [OF assms(10) h assms(18)])
  moreover have "length (pl j) = BLCK" if "i \<le> j \<and> j < i + n" for j using assms(20) that by (simp add: page_holds_def)
  ultimately show ?thesis
    using r(1) w' fk page_enc_holds [OF assms(10)] by (simp add: runM local_finish_fetch_def)
qed

text \<open>Encryption inverts decryption of a page, as documented for CBC without padding and XTS.\<close>

definition page_cipher_onto :: "(evp_cipher \<Rightarrow> int \<Rightarrow> bytes \<Rightarrow> bytes \<Rightarrow> bytes \<Rightarrow> bytes option) \<Rightarrow> bool" where
  "page_cipher_onto E \<longleftrightarrow> (\<forall>c k iv ct. length ct = BLCKSZ \<longrightarrow> (\<exists>p. length p = BLCKSZ \<and> E c 0 k iv ct = Some p \<and> E c 1 k iv p = Some ct))"

text \<open>With the same key on both sides, re-encryption does nothing.\<close>

lemma same_key_blocks:
  assumes "page_cipher_onto E" "(i + n) * BLCK \<le> length S" "\<forall>j. i \<le> j \<and> j < i + n \<longrightarrow> \<not> all_zero 32 (blk S j)"
  shows "\<exists>pl. blocks_hold E bn k fk S i n pl \<and> (\<forall>j. i \<le> j \<and> j < i + n \<longrightarrow> page_enc E k fk (bn j) (pl j) = blk S j)"
proof -
  have "\<forall>j. i \<le> j \<and> j < i + n \<longrightarrow> (\<exists>p. length p = BLCK \<and> page_op E 0 k fk (bn j) (blk S j) = Some p \<and> page_op E 1 k fk (bn j) p = Some (blk S j))"
  proof (intro allI impI)
    fix j assume "i \<le> j \<and> j < i + n"
    then have "Suc j * BLCK \<le> (i + n) * BLCK" by (intro mult_le_mono1) simp
    then have "length (blk S j) = BLCKSZ" using assms(2) by (simp add: blk_def BLCKSZ_def)
    then show "\<exists>p. length p = BLCK \<and> page_op E 0 k fk (bn j) (blk S j) = Some p \<and> page_op E 1 k fk (bn j) p = Some (blk S j)"
      using assms(1) unfolding page_cipher_onto_def BLCKSZ_def by blast
  qed
  then obtain pl where pl: "\<And>j. i \<le> j \<and> j < i + n \<Longrightarrow>
      length (pl j) = BLCK \<and> page_op E 0 k fk (bn j) (blk S j) = Some (pl j) \<and> page_op E 1 k fk (bn j) (pl j) = Some (blk S j)" by metis
  moreover have "length (blk S j) = BLCK" if "i \<le> j \<and> j < i + n" for j
  proof -
    have "Suc j * BLCK \<le> (i + n) * BLCK" using that by (intro mult_le_mono1) simp
    then show ?thesis using assms(2) by (simp add: blk_def)
  qed
  ultimately show ?thesis using assms(2,3) by (intro exI [of _ pl]) (auto simp: blocks_hold_def page_holds_def page_enc_def)
qed

text \<open>Copying a range of a second file, after a first one of the same relation.\<close>

lemma second_range_ok:
  fixes ev rw st rl p2
  defines "d2 \<equiv> path_in (datadir_target rw) p2" and "s2 \<equiv> path_in (datadir_source rw) p2"
    and "K \<equiv> open_pg_tde_set_db_file_path (source_env ev st) (dbOid rl)"
  assumes rw: "plain_run rw" "files_apart ev rw st rl Ps Pt {p1, p2}"
    and st1: "source_has_tde st1" "current_tde_file st1 = cur" "source_env ev st1 = source_env ev st"
      "\<exists>q. dstpath st1 = Some q \<and> drop (length (datadir_target rw) + 1) q \<noteq> p2"
    and cur: "has_keys cur ks kt" "rlocator cur = rl" "cf_path cur \<noteq> p2"
    and path: "path_rlocator (rw_pg rw) p2 = Some (rl, seg2)" "relNumber rl \<noteq> 0"
    and ev: "evp_is ev E" "page_cipher_ok E" "page_cipher_onto E" "gcm_ok ev" "rand_ok ev" "ctxs_inv w"
    and keys: "rel_key (source_env ev st) pks Ps rl ks w" "rel_key (target_env ev rw) pkt Pt rl kt w"
    and f2: "disk w s2 = Some S2" "disk w d2 = Some T2" "i2 * BLCK \<le> length T2" "(i2 + n2) * BLCK \<le> length S2"
      "\<forall>j. i2 \<le> j \<and> j < i2 + n2 \<longrightarrow> \<not> all_zero 32 (blk S2 j)"
    and forks: "\<forall>q\<in>forks_of rw rl. disk w q = None"
  shows "\<exists>cur3 w4 T'. local_queue_fetch_range ev rw p2 (i2 * BLCK) (n2 * BLCK) st1 w = (Inr (st1\<lparr>dstpath := Some d2, current_tde_file := cur3\<rparr>), w4) \<and>
     has_keys cur3 kt kt \<and> rlocator cur3 = rl \<and> ctxs_inv w4 \<and> rel_key (source_env ev st) pks Ps rl kt w4 \<and> rel_key (target_env ev rw) pkt Pt rl kt w4 \<and>
     (\<forall>q\<in>forks_of rw rl. disk w4 q = None) \<and>
     disk w4 d2 = Some T' \<and> (\<forall>j. blk T' j = (if i2 \<le> j \<and> j < i2 + n2 then blk S2 j else blk T2 j))"
proof -
  let ?KT = "open_pg_tde_set_db_file_path (target_env ev rw) (dbOid rl)" and ?st2 = "st1\<lparr>dstpath := Some d2\<rparr>"
  have ap: "d2 \<notin> insert K Ps" "d2 \<notin> insert ?KT Pt" "d2 \<notin> forks_of rw rl" "s2 \<noteq> K" "s2 \<notin> forks_of rw rl" "d2 \<noteq> s2"
    using rw(2) by (auto simp: files_apart_def Let_def d2_def s2_def K_def)
  obtain w2 where w2: "flush_current_tde_rel_key ev rw ?st2 w = (Inr (?st2\<lparr>current_tde_file := no_file\<rparr>), w2)"
      "rel_key (source_env ev st) pks Ps rl kt w2" "rel_key (target_env ev rw) pkt Pt rl kt w2" "ctxs_inv w2"
      "\<And>q. q \<notin> insert K (forks_of rw rl) \<Longrightarrow> disk w2 q = disk w q" "\<forall>q\<in>forks_of rw rl. disk w2 q = None"
    using flush_file_ok [OF rw(1,2) _ cur(1,2) path(2) _ _ ev(1,2,4-6) keys, of ?st2] st1(2,3) rel_key_wf [OF keys(2)] forks
    by (auto simp: fork_readable_def fork_change_def forks_of_def K_def)
  have cp: "cf_path (current_tde_file ?st2) \<noteq> p2" using cur(3) st1(2) by simp
  obtain w3 cur3 where e: "ensure_tde_keys ev rw p2 ?st2 w = (Inr (?st2\<lparr>current_tde_file := cur3\<rparr>), w3)" "has_keys cur3 kt kt" "rlocator cur3 = rl"
      "disk w3 = disk w2" "io w3 = io w2" "ctxs_inv w3"
    using ensure_loads [OF _ cp w2(1) _ path(1), of pks Ps kt pkt Pt kt] st1(1,3) w2(2-4) by auto
  have io: "io w2 = []" using rel_key_wf [OF w2(2)] by simp
  obtain pl2 where pl2: "blocks_hold E (block_no rw cur3) kt MAIN_FORKNUM S2 i2 n2 pl2"
      "\<forall>j. i2 \<le> j \<and> j < i2 + n2 \<longrightarrow> page_enc E kt MAIN_FORKNUM (block_no rw cur3 j) (pl2 j) = blk S2 j"
    using same_key_blocks [OF ev(3) f2(4,5)] by blast
  have files: "disk w3 s2 = Some S2" "disk w3 d2 = Some T2" using w2(5) [of s2] w2(5) [of d2] f2(1,2) ap e(4) by auto
  have op: "case dstpath st1 of None \<Rightarrow> True | Some q \<Rightarrow> drop (length (datadir_target rw) + 1) q \<noteq> p2" using st1(4) by auto
  let ?T = "pwrite T2 (blocks_enc E (block_no rw cur3) kt MAIN_FORKNUM i2 n2 pl2) (i2 * BLCK)"
  have "\<exists>w4. local_queue_fetch_range ev rw p2 (i2 * BLCK) (n2 * BLCK) st1 w = (Inr (?st2\<lparr>current_tde_file := cur3\<rparr>), w4) \<and>
      disk w4 = (disk w3)(d2 \<mapsto> pwrite T2 (blocks_enc E (block_no rw (current_tde_file (?st2\<lparr>current_tde_file := cur3\<rparr>))) kt MAIN_FORKNUM i2 n2 pl2) (i2 * BLCK)) \<and>
      io w4 = [] \<and> ctxs_inv w4"
    using e io pl2(1) by (intro queue_range_ok [OF rw(1) meta_eq_to_obj_eq [OF s2_def] meta_eq_to_obj_eq [OF d2_def] ap(6) op f2(1,2) files f2(3) _ _ _ ev(1,2), where ks = kt]) simp_all
  then obtain w4 where w4: "local_queue_fetch_range ev rw p2 (i2 * BLCK) (n2 * BLCK) st1 w = (Inr (?st2\<lparr>current_tde_file := cur3\<rparr>), w4)"
      "disk w4 = (disk w2)(d2 \<mapsto> ?T)" "io w4 = []" "ctxs_inv w4" using e(4) by auto
  have "\<forall>q\<in>insert K Ps. disk w4 q = disk w2 q" "\<forall>q\<in>insert ?KT Pt. disk w4 q = disk w2 q" "\<forall>q\<in>forks_of rw rl. disk w4 q = None"
    using w4(2) w2(6) ap(1-3) by auto
  then have "rel_key (source_env ev st) pks Ps rl kt w4" "rel_key (target_env ev rw) pkt Pt rl kt w4" "\<forall>q\<in>forks_of rw rl. disk w4 q = None"
    using rel_key_cong [OF w2(2)] rel_key_cong [OF w2(3)] w4(3) io by (simp_all add: K_def)
  moreover have "blk ?T j = (if i2 \<le> j \<and> j < i2 + n2 then blk S2 j else blk T2 j)" for j
    using blocks_written [OF ev(2) pl2(1) f2(3), of kt j] pl2(2) by simp
  ultimately show ?thesis using w4 e(2,3) by (intro exI [of _ cur3] exI [of _ w4] exI [of _ ?T]) simp
qed

text \<open>
  C37. Only the first file of a relation is re-encrypted: when blocks of a second file of the same relation follow, the key of the source has already been
  replaced in the copy of the key files, so that the key of the target is taken for both sides. The blocks of the second file end up in the target as
  they are in the source, under the key of the source, which no key file holds any more.
\<close>

theorem rewind_second_segment_not_reencrypted:
  assumes rw: "plain_run rw" "files_apart ev rw st rl Ps Pt {p1, p2}" "length (datadir_target rw) + length p1 + 1 < MAXPGPATH"
    and st: "source_has_tde st" "current_tde_file st = no_file" "dstpath st = None"
    and path: "path_rlocator (rw_pg rw) p1 = Some (rl, seg1)" "path_rlocator (rw_pg rw) p2 = Some (rl, seg2)" "p1 \<noteq> []" "p1 \<noteq> p2" "relNumber rl \<noteq> 0"
      "path_in (datadir_target rw) p1 \<noteq> path_in (datadir_target rw) p2"
    and ev: "evp_is ev E" "page_cipher_ok E" "page_cipher_onto E" "gcm_ok ev" "rand_ok ev" "ctxs_inv w"
    and keys: "rel_key (source_env ev st) pks Ps rl ks w" "rel_key (target_env ev rw) pkt Pt rl kt w"
    and f1: "disk w (path_in (datadir_source rw) p1) = Some S1" "disk w (path_in (datadir_target rw) p1) = Some T1" "i1 * BLCK \<le> length T1"
    and h: "blocks_hold E (\<lambda>j. of_nat j + seg1 * RELSEG_SIZE (rw_pg rw)) ks MAIN_FORKNUM S1 i1 n1 pl"
    and f2: "disk w (path_in (datadir_source rw) p2) = Some S2" "disk w (path_in (datadir_target rw) p2) = Some T2" "i2 * BLCK \<le> length T2"
      "(i2 + n2) * BLCK \<le> length S2" "\<forall>j. i2 \<le> j \<and> j < i2 + n2 \<longrightarrow> \<not> all_zero 32 (blk S2 j)"
    and forks: "\<forall>fk\<in>{FSM_FORKNUM, VISIBILITYMAP_FORKNUM}. disk w (fork_path rw rl fk) = None"
  shows "\<exists>st' w' T'. bindM (local_queue_fetch_range ev rw p1 (i1 * BLCK) (n1 * BLCK) st) (\<lambda>st.
       bindM (local_queue_fetch_range ev rw p2 (i2 * BLCK) (n2 * BLCK) st) (local_finish_fetch ev rw)) w = (Inr st', w') \<and>
     disk w' (path_in (datadir_target rw) p2) = Some T' \<and> (\<forall>j. blk T' j = (if i2 \<le> j \<and> j < i2 + n2 then blk S2 j else blk T2 j)) \<and>
     rel_key (source_env ev st) pks Ps rl kt w'"
proof -
  let ?d1 = "path_in (datadir_target rw) p1" and ?d2 = "path_in (datadir_target rw) p2" and ?s2 = "path_in (datadir_source rw) p2"
  let ?K = "open_pg_tde_set_db_file_path (source_env ev st) (dbOid rl)" and ?KT = "open_pg_tde_set_db_file_path (target_env ev rw) (dbOid rl)"
  have ap: "?d1 \<notin> insert ?K Ps" "?d1 \<notin> insert ?KT Pt" "?d1 \<notin> forks_of rw rl" "?s2 \<noteq> ?d1" "?d2 \<notin> insert ?K (forks_of rw rl)"
    using rw(2) by (auto simp: files_apart_def Let_def)
  have p: "p1 \<in> {p1, p2}" by simp
  obtain cur w1 where r: "local_queue_fetch_range ev rw p1 (i1 * BLCK) (n1 * BLCK) st w = (Inr (st\<lparr>dstpath := Some ?d1, current_tde_file := cur\<rparr>), w1)"
      "has_keys cur ks kt" "rlocator cur = rl" "cf_path cur = take (MAXPGPATH - 1) p1"
      "\<exists>x. disk w1 = (disk w)(?d1 \<mapsto> x)" "io w1 = []" "ctxs_inv w1"
    using first_range_ok [OF rw(1,2) p st path(1,3) ev(1,2,6) keys f1 refl h] by blast
  let ?st1 = "st\<lparr>dstpath := Some ?d1, current_tde_file := cur\<rparr>"
  have same: "disk w1 q = disk w q" if "q \<noteq> ?d1" for q using r(5) that by auto
  have "\<forall>q\<in>insert ?K Ps. disk w1 q = disk w q" "\<forall>q\<in>insert ?KT Pt. disk w1 q = disk w q" "\<forall>q\<in>forks_of rw rl. disk w1 q = None"
    using same ap forks by (metis, metis, metis forks_of_def image_iff)
  then have k1: "rel_key (source_env ev st) pks Ps rl ks w1" "rel_key (target_env ev rw) pkt Pt rl kt w1" "\<forall>q\<in>forks_of rw rl. disk w1 q = None"
    using rel_key_cong [OF keys(1)] rel_key_cong [OF keys(2)] r(6) rel_key_wf [OF keys(1)] by simp_all
  have names: "cf_path cur \<noteq> p2" "\<exists>q. dstpath ?st1 = Some q \<and> drop (length (datadir_target rw) + 1) q \<noteq> p2"
    using r(4) rw(3) path(4) by (simp_all add: path_in_def MAXPGPATH_def)
  have files: "disk w1 ?s2 = Some S2" "disk w1 ?d2 = Some T2" using same f2(1,2) ap(4) path(6) by simp_all
  obtain cur3 w4 T' where w4: "local_queue_fetch_range ev rw p2 (i2 * BLCK) (n2 * BLCK) ?st1 w1 = (Inr (?st1\<lparr>dstpath := Some ?d2, current_tde_file := cur3\<rparr>), w4)"
      "has_keys cur3 kt kt" "rlocator cur3 = rl" "ctxs_inv w4" "rel_key (source_env ev st) pks Ps rl kt w4" "rel_key (target_env ev rw) pkt Pt rl kt w4"
      "\<forall>q\<in>forks_of rw rl. disk w4 q = None" "disk w4 ?d2 = Some T'" "\<forall>j. blk T' j = (if i2 \<le> j \<and> j < i2 + n2 then blk S2 j else blk T2 j)"
    using second_range_ok [OF rw(1,2) _ _ _ names(2) r(2,3) names(1) path(2,5) ev(1-5) r(7) k1(1,2) files f2(3-5) k1(3)] st(1) by auto
  obtain st' w5 where w5: "flush_current_tde_rel_key ev rw (?st1\<lparr>dstpath := Some ?d2, current_tde_file := cur3\<rparr>) w4 = (Inr st', w5)"
      "rel_key (source_env ev st) pks Ps rl kt w5" "\<And>q. q \<notin> insert ?K (forks_of rw rl) \<Longrightarrow> disk w5 q = disk w4 q"
    using flush_file_ok [OF rw(1,2) _ w4(2,3) path(5) _ _ ev(1,2,4,5) w4(4-6), of "?st1\<lparr>dstpath := Some ?d2, current_tde_file := cur3\<rparr>"]
      rel_key_wf [OF w4(6)] w4(7) by (auto simp: fork_readable_def forks_of_def)
  have "disk w5 ?d2 = Some T'" using w5(3) [OF ap(5)] w4(8) by simp
  with w4(1,9) w5(1,2) r(1) show ?thesis by (simp add: runM local_finish_fetch_def)
qed

section \<open>Concrete servers\<close>

definition demo_key2 :: InternalKey where
  "demo_key2 = demo_key\<lparr>ik_key := replicate 64 9\<rparr>"

lemma demo_key2_wf: "wf_ik demo_key2"
  using demo_key_wf by (simp add: wf_ik_def demo_key2_def)

definition demo_ring_pk :: TDEPrincipalKey where
  "demo_ring_pk = principal_key_of demo_env (keyInfo demo_pk) (ki_data demo_ring_key)"

lemma demo_ring_pk_simps [simp]: "keyInfo demo_ring_pk = keyInfo demo_pk" "pk_material demo_ring_pk = pk_material demo_pk"
  by (simp_all add: demo_ring_pk_def principal_key_of_def pk_material_def demo_pk_def kd_material_def demo_ring_key_def overlay_def size_consts)

lemma fe_env_crypto [simp]:
  "entry_holds (fe_env ev d) pk e k = entry_holds ev pk e k" "signed_by (fe_env ev d) pk ski = signed_by ev pk ski"
  "principal_key_of (fe_env ev d) i kd = principal_key_of ev i kd" "FRONTEND (fe_env ev d)"
  by (simp_all add: entry_holds_def signed_by_def principal_key_of_def garbage_def fe_env_def)

lemma fe_env_paths:
  assumes "length d < MAXPGPATH"
  shows "get_keyring_infofile_path (fe_env demo_env d) 5 = d @ ''/5_providers''" "open_pg_tde_set_db_file_path (fe_env demo_env d) 5 = d @ ''/5_keys''"
  using assms demo_paths by (simp_all add: path_defs fe_env_def demo_env_def)

lemma demo_fe_load:
  assumes "options p = fit 1024 [114]" "provider_type p = FILE_KEY_PROVIDER"
  shows "\<exists>kr. load_keyring_provider_from_record (fe_env demo_env d) p w = (Inr kr, w) \<and> gk_type kr = FILE_KEY_PROVIDER \<and>
     file_name kr = Some [114] \<and> keyring_id kr = provider_id p"
proof -
  have "load_keyring_provider_from_record (fe_env demo_env d) p w = load_keyring_provider_from_record demo_env p w"
    using assms(2) by (simp add: load_keyring_provider_from_record_def load_file_keyring_provider_options_def ParseKeyringJSONOptions_def fe_env_def)
  then show ?thesis using demo_load [OF assms] by simp
qed

text \<open>A directory with the key file of database 5 and its provider.\<close>

definition demo_provider_files :: "string \<Rightarrow> string set" where
  "demo_provider_files d = {d @ ''/5_providers'', ''r''}"

lemma demo_keyring_gives:
  assumes "disk w (get_keyring_infofile_path (fe_env demo_env d) db) = Some (enc_prov demo_prov)" "disk w ''r'' = Some (enc_key demo_ring_key)"
    and "keyringId i = 1" "pk_name i = fit 256 [97]"
  shows "keyring_gives (fe_env demo_env d) db (principal_key_of demo_env i (ki_data demo_ring_key)) {get_keyring_infofile_path (fe_env demo_env d) db, ''r''} w"
proof -
  have wf: "wf_prov demo_prov" "wf_key demo_ring_key" by (simp_all add: wf_prov_def demo_prov_def wf_key_def demo_ring_key_def)
  have r: "providers_in (enc_prov demo_prov) = [demo_prov]"
    using prov.recs_snoc [OF wf(1), of "[]"] by (simp add: recs_end prov.sz_pos)
  have sm: "scan_match (PROVIDER_SCAN_BY_ID 1) demo_prov" by (simp add: scan_match_def demo_prov_def provider_types)
  have "\<exists>kr. GetKeyProviderByID (fe_env demo_env d) 1 db w' = (Inr (Some kr), w') \<and>
      KeyringGetKey (fe_env demo_env d) kr (fit 256 [97]) w' = (Inr (KEYRING_CODE_SUCCESS, Some demo_ring_key), w')"
    if w': "disk w' (get_keyring_infofile_path (fe_env demo_env d) db) = Some (enc_prov demo_prov)" "disk w' ''r'' = Some (enc_key demo_ring_key)" for w'
  proof -
    obtain kr where kr: "load_keyring_provider_from_record (fe_env demo_env d) demo_prov w' = (Inr kr, w')" "gk_type kr = FILE_KEY_PROVIDER"
        "file_name kr = Some [114]"
      using demo_fe_load [of demo_prov] by (auto simp: demo_prov_def)
    have "GetKeyProviderByID (fe_env demo_env d) 1 db w' = (Inr (Some kr), w')"
      using scan_good [OF w'(1), of "PROVIDER_SCAN_BY_ID 1"] prov.enc_length [OF wf(1)] r sm kr(1) by (auto simp: GetKeyProviderByID_def runM)
    moreover have "keys_of (disk w' (path_of [114])) = [demo_ring_key]"
      using key.recs_snoc [OF wf(2), of "[]"] w'(2) by (simp add: keys_of_def recs_end key.sz_pos demo_ring_path)
    moreover have "same_key_name (fit 256 [97]) demo_ring_key" "ValidateKey demo_ring_key"
      by (simp_all add: same_key_name_def pg_strncasecmp_eq_def demo_ring_key_def ValidateKey_def size_consts fit_def)
    ultimately show ?thesis using keyring_get_file [OF kr(2,3)] by auto
  qed
  moreover have "kd_material (ki_data demo_ring_key) = pk_material (principal_key_of demo_env i (ki_data demo_ring_key))"
    by (simp add: kd_material_def pk_material_def demo_ring_key_def principal_key_of_def overlay_def size_consts)
  moreover have "keyInfo (principal_key_of demo_env i kd) = i" for kd by (simp add: principal_key_of_def)
  ultimately show ?thesis
    unfolding keyring_gives_def using assms by (intro exI [of _ demo_ring_key]) simp
qed

lemma demo_rel_key:
  assumes "wf_ik k"
  shows "\<exists>f. \<forall>d w. length d < MAXPGPATH \<and> disk w (d @ ''/5_providers'') = Some (enc_prov demo_prov) \<and> disk w ''r'' = Some (enc_key demo_ring_key) \<and>
     disk w (d @ ''/5_keys'') = Some f \<and> io w = [] \<longrightarrow> rel_key (fe_env demo_env d) demo_ring_pk (demo_provider_files d) demo_rel k w"
proof -
  obtain f e where f: "good_file f" "map_entries f = [e]" "entry_holds demo_env demo_pk e k" "keymap_inv [e]" "find (entry_matches demo_rel) [e] = Some e"
      "signed_by demo_env demo_pk (signed_key_info (file_header f))"
    using demo_file_of [OF assms] by blast
  have pk: "entry_holds demo_env demo_ring_pk e k" "signed_by demo_env demo_ring_pk (signed_key_info (file_header f))"
    using f(3,6) by (simp_all add: entry_holds_def signed_by_def)
  have "rel_key (fe_env demo_env d) demo_ring_pk (demo_provider_files d) demo_rel k w"
    if d: "length d < MAXPGPATH" "disk w (d @ ''/5_providers'') = Some (enc_prov demo_prov)" "disk w ''r'' = Some (enc_key demo_ring_key)"
      "disk w (d @ ''/5_keys'') = Some f" "io w = []" for d w
  proof -
    have "keyringId (keyInfo demo_pk) = 1" "pk_name (keyInfo demo_pk) = fit 256 [97]" by (simp_all add: demo_pk_def)
    then have kg: "keyring_gives (fe_env demo_env d) 5 demo_ring_pk (demo_provider_files d) w"
      unfolding demo_ring_pk_def demo_provider_files_def using demo_keyring_gives [of w d 5 "keyInfo demo_pk"] fe_env_paths [OF d(1)] d by simp
    have "d @ ''/5_keys'' \<notin> demo_provider_files d" by (auto simp: demo_provider_files_def append_eq_Cons_conv)
    moreover have "(5 :: Oid) \<noteq> GLOBAL_DATA_TDE_OID" by (simp add: GLOBAL_DATA_TDE_OID_def)
    ultimately show ?thesis
      using kg fe_env_paths [OF d(1)] f pk d demo_pk_wf(1)
      by (auto simp: rel_key_def fe_keys_def keys_file_ok_def rel_entry_def entries_of_def usable_file_def sealed_under_def)
  qed
  then show ?thesis by (intro exI [of _ f]) auto
qed

definition demo_rw :: rewind where
  "demo_rw = \<lparr>rw_pg = demo_pg, datadir_target = ''t'', datadir_source = ''s'', dry_run = False, WalSegSz = 2 ^ 20,
     rw_XLogFromFileName = (\<lambda>n s. (1, 1)), TMPDIR = None, rw_mkdtemp = (\<lambda>t. Some ''x''), is_dir = (\<lambda>w d. True),
     readdir = (\<lambda>w d. Some [(''5_keys'', True), (''5_providers'', True)]), rmtree = (\<lambda>d b w. w), open_fails = (\<lambda>p. False),
     path_is_safe_for_extraction = (\<lambda>p. True)\<rparr>"

definition demo_rewind_state :: rewind_state where
  "demo_rewind_state = \<lparr>current_tde_file = no_file, tde_tmp_source = ''x'', source_has_tde = True, archive_wal_segments = [], keepwal = [], dstpath = None\<rparr>"

text \<open>The files of both servers; the relation has two files of one block on the source, whose blocks are there and empty on the target.\<close>

definition demo_block :: bytes where
  "demo_block = replicate BLCK 1"

definition demo_rewind_world :: "bytes \<Rightarrow> bytes \<Rightarrow> world" where
  "demo_rewind_world fs ft = demo_world\<lparr>disk :=
     [''x/5_providers'' \<mapsto> enc_prov demo_prov, ''t/open_pg_tde/5_providers'' \<mapsto> enc_prov demo_prov, ''r'' \<mapsto> enc_key demo_ring_key,
      ''x/5_keys'' \<mapsto> fs, ''t/open_pg_tde/5_keys'' \<mapsto> ft, ''s/base/5/16384'' \<mapsto> demo_block, ''t/base/5/16384'' \<mapsto> [],
      ''s/base/5/16384.1'' \<mapsto> demo_block, ''t/base/5/16384.1'' \<mapsto> []]\<rparr>"

lemma demo_digits: "digits 5 = ''5''" "digits 16384 = ''16384''" "digits (Suc 0) = ''1''"
  by (simp_all add: digits.simps digit_char_def char_of_eq_iff)

lemma demo_rewind_simps:
  "source_env demo_env demo_rewind_state = fe_env demo_env ''x''" "target_env demo_env demo_rw = fe_env demo_env ''t/open_pg_tde''"
  "path_in (datadir_source demo_rw) p = take 1023 (''s/'' @ p)" "path_in (datadir_target demo_rw) p = take 1023 (''t/'' @ p)" "rw_pg demo_rw = demo_pg"
  "open_pg_tde_set_db_file_path (fe_env demo_env ''x'') 5 = ''x/5_keys''"
  "open_pg_tde_set_db_file_path (fe_env demo_env ''t/open_pg_tde'') 5 = ''t/open_pg_tde/5_keys''"
  using fe_env_paths [of "''x''"] fe_env_paths [of "''t/open_pg_tde''"]
  by (simp_all add: source_env_def demo_rewind_state_def target_env_def target_tde_path_def demo_rw_def path_in_def MAXPGPATH_def)

lemma demo_forks: "forks_of demo_rw demo_rel = {''t/base/5/16384_fsm'', ''t/base/5/16384_vm''}"
  "fork_path demo_rw demo_rel FSM_FORKNUM = ''t/base/5/16384_fsm''" "fork_path demo_rw demo_rel VISIBILITYMAP_FORKNUM = ''t/base/5/16384_vm''"
  by (simp_all add: forks_of_def fork_path_def demo_rw_def demo_pg_def path_in_def MAXPGPATH_def GLOBALTABLESPACE_OID_def DEFAULTTABLESPACE_OID_def demo_digits)

lemma demo_apart: "files_apart demo_env demo_rw demo_rewind_state demo_rel (demo_provider_files ''x'') (demo_provider_files ''t/open_pg_tde'') {''base/5/16384'', ''base/5/16384.1''}"
  by (simp add: files_apart_def Let_def demo_rewind_simps demo_forks demo_provider_files_def)

lemma demo_rlocators:
  "path_rlocator demo_pg ''base/5/16384'' = Some (demo_rel, 0)" "path_rlocator demo_pg ''base/5/16384.1'' = Some (demo_rel, 1)"
proof -
  have "datasegpath demo_pg demo_rel MAIN_FORKNUM 0 = ''base/5/16384''" "datasegpath demo_pg demo_rel MAIN_FORKNUM 1 = ''base/5/16384.1''"
    by (simp_all add: datasegpath_def demo_pg_def GLOBALTABLESPACE_OID_def DEFAULTTABLESPACE_OID_def demo_digits)
  then show "path_rlocator demo_pg ''base/5/16384'' = Some (demo_rel, 0)" "path_rlocator demo_pg ''base/5/16384.1'' = Some (demo_rel, 1)"
    using path_rlocator_datasegpath [OF demo_relpath_documented, of demo_rel 0] path_rlocator_datasegpath [OF demo_relpath_documented, of demo_rel 1]
    by (simp_all add: GLOBALTABLESPACE_OID_def)
qed

lemma demo_page: "page_holds demo_E k fk b demo_block (demo_mask (ik_material k) (CalcBlockIv fk b (ik_base_iv k)) demo_block)" "\<not> all_zero 32 demo_block"
proof -
  have "demo_block ! 0 \<noteq> 0" by (simp add: demo_block_def)
  then show "\<not> all_zero 32 demo_block" unfolding all_zero_def by (metis zero_less_numeral)
  then show "page_holds demo_E k fk b demo_block (demo_mask (ik_material k) (CalcBlockIv fk b (ik_base_iv k)) demo_block)"
    by (simp add: page_holds_def demo_E_def demo_block_def demo_mask_def)
qed

lemma demo_rewind_world_simps [simp]:
  "disk (demo_rewind_world fs ft) ''s/base/5/16384'' = Some demo_block" "disk (demo_rewind_world fs ft) ''t/base/5/16384'' = Some []"
  "disk (demo_rewind_world fs ft) ''s/base/5/16384.1'' = Some demo_block" "disk (demo_rewind_world fs ft) ''t/base/5/16384.1'' = Some []"
  "disk (demo_rewind_world fs ft) ''t/base/5/16384_fsm'' = None" "disk (demo_rewind_world fs ft) ''t/base/5/16384_vm'' = None"
  by (simp_all add: demo_rewind_world_def)

lemma demo_rewind_ready:
  "\<exists>fs ft. rel_key (source_env demo_env demo_rewind_state) demo_ring_pk (demo_provider_files ''x'') demo_rel demo_key (demo_rewind_world fs ft) \<and>
     rel_key (target_env demo_env demo_rw) demo_ring_pk (demo_provider_files ''t/open_pg_tde'') demo_rel demo_key2 (demo_rewind_world fs ft) \<and>
     ctxs_inv (demo_rewind_world fs ft)"
proof -
  obtain fs where fs: "\<forall>d w. length d < MAXPGPATH \<and> disk w (d @ ''/5_providers'') = Some (enc_prov demo_prov) \<and> disk w ''r'' = Some (enc_key demo_ring_key) \<and>
      disk w (d @ ''/5_keys'') = Some fs \<and> io w = [] \<longrightarrow> rel_key (fe_env demo_env d) demo_ring_pk (demo_provider_files d) demo_rel demo_key w"
    using demo_rel_key [OF demo_key_wf] by blast
  obtain ft where ft: "\<forall>d w. length d < MAXPGPATH \<and> disk w (d @ ''/5_providers'') = Some (enc_prov demo_prov) \<and> disk w ''r'' = Some (enc_key demo_ring_key) \<and>
      disk w (d @ ''/5_keys'') = Some ft \<and> io w = [] \<longrightarrow> rel_key (fe_env demo_env d) demo_ring_pk (demo_provider_files d) demo_rel demo_key2 w"
    using demo_rel_key [OF demo_key2_wf] by blast
  have "rel_key (fe_env demo_env ''x'') demo_ring_pk (demo_provider_files ''x'') demo_rel demo_key (demo_rewind_world fs ft)"
    using fs by (simp add: demo_rewind_world_def MAXPGPATH_def)
  moreover have "rel_key (fe_env demo_env ''t/open_pg_tde'') demo_ring_pk (demo_provider_files ''t/open_pg_tde'') demo_rel demo_key2 (demo_rewind_world fs ft)"
    using ft by (simp add: demo_rewind_world_def MAXPGPATH_def)
  moreover have "ctxs_inv (demo_rewind_world fs ft)" using demo_ctxs_inv by (simp add: demo_rewind_world_def ctxs_inv_def)
  ultimately show ?thesis unfolding demo_rewind_simps by blast
qed

lemma demo_plain_run: "plain_run demo_rw"
  by (simp add: plain_run_def demo_rw_def)

lemma demo_rewind_state_simps [simp]: "source_has_tde demo_rewind_state" "current_tde_file demo_rewind_state = no_file" "dstpath demo_rewind_state = None"
  by (simp_all add: demo_rewind_state_def)

theorem rewind_reencrypts_file_witness:
  "\<exists>fs ft st' w' T'. bindM (local_queue_fetch_range demo_env demo_rw ''base/5/16384'' (0 * BLCK) (1 * BLCK) demo_rewind_state) (local_finish_fetch demo_env demo_rw)
       (demo_rewind_world fs ft) = (Inr st', w') \<and> disk w' ''t/base/5/16384'' = Some T' \<and>
     (\<not> all_zero 32 (blk T' 0) \<longrightarrow> page_holds demo_E demo_key2 MAIN_FORKNUM 0 (blk T' 0)
        (demo_mask (ik_material demo_key) (CalcBlockIv MAIN_FORKNUM 0 (ik_base_iv demo_key)) demo_block)) \<and>
     rel_key (fe_env demo_env ''x'') demo_ring_pk (demo_provider_files ''x'') demo_rel demo_key2 w'"
proof -
  obtain fs ft where k: "rel_key (source_env demo_env demo_rewind_state) demo_ring_pk (demo_provider_files ''x'') demo_rel demo_key (demo_rewind_world fs ft)"
      "rel_key (target_env demo_env demo_rw) demo_ring_pk (demo_provider_files ''t/open_pg_tde'') demo_rel demo_key2 (demo_rewind_world fs ft)"
      "ctxs_inv (demo_rewind_world fs ft)" using demo_rewind_ready by blast
  let ?pl = "\<lambda>j :: nat. demo_mask (ik_material demo_key) (CalcBlockIv MAIN_FORKNUM (of_nat j) (ik_base_iv demo_key)) demo_block"
  have ap: "files_apart demo_env demo_rw demo_rewind_state demo_rel (demo_provider_files ''x'') (demo_provider_files ''t/open_pg_tde'') {''base/5/16384''}"
    by (simp add: files_apart_def Let_def demo_rewind_simps demo_forks demo_provider_files_def)
  have "blk demo_block 0 = demo_block" by (simp add: blk_def demo_block_def)
  then have pg: "\<forall>j. 0 \<le> j \<and> j < 0 + 1 \<longrightarrow> page_holds demo_E demo_key MAIN_FORKNUM (of_nat j) (blk demo_block j) (?pl j)"
    using demo_page(1) by simp
  have "\<exists>st' w' T'. bindM (local_queue_fetch_range demo_env demo_rw ''base/5/16384'' (0 * BLCK) (1 * BLCK) demo_rewind_state) (local_finish_fetch demo_env demo_rw)
         (demo_rewind_world fs ft) = (Inr st', w') \<and> disk w' (path_in (datadir_target demo_rw) ''base/5/16384'') = Some T' \<and>
     (\<forall>j. if 0 \<le> j \<and> j < 0 + 1 then (\<not> all_zero 32 (blk T' j) \<longrightarrow> page_holds demo_E demo_key2 MAIN_FORKNUM (of_nat j) (blk T' j) (?pl j)) else blk T' j = blk [] j) \<and>
     (\<forall>fk\<in>{FSM_FORKNUM, VISIBILITYMAP_FORKNUM}. fork_change demo_E of_nat demo_key demo_key2 fk (disk (demo_rewind_world fs ft) (fork_path demo_rw demo_rel fk))
        (disk w' (fork_path demo_rw demo_rel fk))) \<and>
     rel_key (source_env demo_env demo_rewind_state) demo_ring_pk (demo_provider_files ''x'') demo_rel demo_key2 w'"
    by (rule rewind_reencrypts_file [OF demo_plain_run ap _ _ _ _ _ _ demo_evp_is demo_page_cipher_ok demo_gcm_ok demo_rand_ok k(3,1,2) _ _ _ _ pg])
      (simp_all add: demo_rewind_simps demo_rlocators demo_forks fork_readable_def demo_block_def)
  then obtain st' w' T' where o: "bindM (local_queue_fetch_range demo_env demo_rw ''base/5/16384'' (0 * BLCK) (1 * BLCK) demo_rewind_state)
        (local_finish_fetch demo_env demo_rw) (demo_rewind_world fs ft) = (Inr st', w')"
      "disk w' (path_in (datadir_target demo_rw) ''base/5/16384'') = Some T'"
      "\<And>j. if 0 \<le> j \<and> j < 0 + 1 then (\<not> all_zero 32 (blk T' j) \<longrightarrow> page_holds demo_E demo_key2 MAIN_FORKNUM (of_nat j) (blk T' j) (?pl j)) else blk T' j = blk [] j"
      "rel_key (source_env demo_env demo_rewind_state) demo_ring_pk (demo_provider_files ''x'') demo_rel demo_key2 w'" by blast
  show ?thesis
    using o(1,2,4) o(3) [of 0] by (intro exI [of _ fs] exI [of _ ft] exI [of _ st'] exI [of _ w'] exI [of _ T']) (simp add: demo_rewind_simps)
qed

lemma demo_page_cipher_onto: "page_cipher_onto demo_E"
  by (simp add: page_cipher_onto_def demo_E_def)

theorem rewind_second_segment_not_reencrypted_witness:
  "\<exists>fs ft st' w' T'. bindM (local_queue_fetch_range demo_env demo_rw ''base/5/16384'' (0 * BLCK) (1 * BLCK) demo_rewind_state) (\<lambda>st.
       bindM (local_queue_fetch_range demo_env demo_rw ''base/5/16384.1'' (0 * BLCK) (1 * BLCK) st) (local_finish_fetch demo_env demo_rw))
       (demo_rewind_world fs ft) = (Inr st', w') \<and> disk w' ''t/base/5/16384.1'' = Some T' \<and> blk T' 0 = demo_block \<and>
     rel_key (fe_env demo_env ''x'') demo_ring_pk (demo_provider_files ''x'') demo_rel demo_key2 w'"
proof -
  obtain fs ft where k: "rel_key (source_env demo_env demo_rewind_state) demo_ring_pk (demo_provider_files ''x'') demo_rel demo_key (demo_rewind_world fs ft)"
      "rel_key (target_env demo_env demo_rw) demo_ring_pk (demo_provider_files ''t/open_pg_tde'') demo_rel demo_key2 (demo_rewind_world fs ft)"
      "ctxs_inv (demo_rewind_world fs ft)" using demo_rewind_ready by blast
  have b: "blk demo_block 0 = demo_block" by (simp add: blk_def demo_block_def)
  have h: "blocks_hold demo_E (\<lambda>j. of_nat j + 0 * RELSEG_SIZE (rw_pg demo_rw)) demo_key MAIN_FORKNUM demo_block 0 1
      (\<lambda>j. demo_mask (ik_material demo_key) (CalcBlockIv MAIN_FORKNUM (of_nat j) (ik_base_iv demo_key)) demo_block)"
    using b demo_page(1) by (simp add: blocks_hold_def demo_block_def)
  have z: "\<forall>j. 0 \<le> j \<and> j < 0 + 1 \<longrightarrow> \<not> all_zero 32 (blk demo_block j)" using b demo_page(2) by simp
  have "\<exists>st' w' T'. bindM (local_queue_fetch_range demo_env demo_rw ''base/5/16384'' (0 * BLCK) (1 * BLCK) demo_rewind_state) (\<lambda>st.
       bindM (local_queue_fetch_range demo_env demo_rw ''base/5/16384.1'' (0 * BLCK) (1 * BLCK) st) (local_finish_fetch demo_env demo_rw))
       (demo_rewind_world fs ft) = (Inr st', w') \<and> disk w' (path_in (datadir_target demo_rw) ''base/5/16384.1'') = Some T' \<and>
     (\<forall>j. blk T' j = (if 0 \<le> j \<and> j < 0 + 1 then blk demo_block j else blk [] j)) \<and>
     rel_key (source_env demo_env demo_rewind_state) demo_ring_pk (demo_provider_files ''x'') demo_rel demo_key2 w'"
    by (rule rewind_second_segment_not_reencrypted [OF demo_plain_run demo_apart _ _ _ _ _ _ _ _ _ _ demo_evp_is demo_page_cipher_ok demo_page_cipher_onto
          demo_gcm_ok demo_rand_ok k(3,1,2) _ _ _ h _ _ _ _ z])
      (simp_all add: demo_rewind_simps demo_rlocators demo_forks demo_block_def, simp add: demo_rw_def MAXPGPATH_def)
  then obtain st' w' T' where o: "bindM (local_queue_fetch_range demo_env demo_rw ''base/5/16384'' (0 * BLCK) (1 * BLCK) demo_rewind_state) (\<lambda>st.
       bindM (local_queue_fetch_range demo_env demo_rw ''base/5/16384.1'' (0 * BLCK) (1 * BLCK) st) (local_finish_fetch demo_env demo_rw))
       (demo_rewind_world fs ft) = (Inr st', w')" "disk w' (path_in (datadir_target demo_rw) ''base/5/16384.1'') = Some T'"
      "\<And>j. blk T' j = (if 0 \<le> j \<and> j < 0 + 1 then blk demo_block j else blk [] j)"
      "rel_key (source_env demo_env demo_rewind_state) demo_ring_pk (demo_provider_files ''x'') demo_rel demo_key2 w'" by blast
  show ?thesis
    using o(1,2,4) o(3) [of 0] b by (intro exI [of _ fs] exI [of _ ft] exI [of _ st'] exI [of _ w'] exI [of _ T']) (simp add: demo_rewind_simps)
qed

end
