(* ===== verification/Tde_Rewind_Wal.thy ===== *)
theory Tde_Rewind_Wal
  imports Tde_Rewind_Ops
begin

text \<open>
  Re-encryption of WAL segments in \<open>pg_rewind\<close>: a segment that stays on the target can be read with the WAL keys of the source, which the target takes
  over.
\<close>

section \<open>WAL keys in a command line tool\<close>

definition fe_server :: "env \<Rightarrow> TDEPrincipalKey \<Rightarrow> string set \<Rightarrow> world \<Rightarrow> bool" where
  "fe_server ev pk P w \<longleftrightarrow> FRONTEND ev \<and> get_wal_key_file_path ev \<notin> P \<and> keyring_gives ev GLOBAL_DATA_TDE_OID pk P w \<and>
     (\<exists>f. disk w (get_wal_key_file_path ev) = Some f \<and> good_wal f \<and> signed_by ev pk (signed_key_info (file_header f)))"

lemma fe_server_key:
  assumes "fe_server ev pk P w" "pk_cache w GLOBAL_DATA_TDE_OID = None"
  shows "server_key ev pk w"
proof -
  obtain f where f: "disk w (get_wal_key_file_path ev) = Some f" "good_wal f" "signed_by ev pk (signed_key_info (file_header f))" and fe: "FRONTEND ev"
    using assms(1) by (auto simp: fe_server_def)
  obtain ki kr where k: "kd_material (ki_data ki) = pk_material pk" "pk = principal_key_of ev (keyInfo pk) (ki_data ki)"
      "GetKeyProviderByID ev (keyringId (keyInfo pk)) GLOBAL_DATA_TDE_OID w = (Inr (Some kr), w)"
      "KeyringGetKey ev kr (pk_name (keyInfo pk)) w = (Inr (KEYRING_CODE_SUCCESS, Some ki), w)"
    using assms(1) by (auto simp: fe_server_def keyring_gives_def)
  have sd: "ski_data (signed_key_info (file_header f)) = keyInfo pk" using f(3) by (simp add: signed_by_def)
  have "file_version (file_header f) = OPEN_PG_TDE_WAL_KEY_FILE_MAGIC" using f(2) by (simp add: kf_good_def file_header_def)
  then have "open_pg_tde_get_server_key_info ev w = (Inr (Some (signed_key_info (file_header f))), w)"
    using f(1) kf_header_read_good [OF f(1,2)]
    by (simp add: open_pg_tde_get_server_key_info_def Let_def wal_file_defs kf_open_basic_def runM HEADER_SIZE_def)
  then have "get_principal_key_from_keyring ev GLOBAL_DATA_TDE_OID w = (Inr (Some pk), w)"
    using verify_signed [OF f(3) k(1)] k(2) [symmetric] k(3,4) by (simp add: get_principal_key_from_keyring_def runM sd)
  then show ?thesis
    using fe assms(2)
    by (simp add: server_key_def GetPrincipalKey_def GetPrincipalKeyNoDefault_def get_principal_key_cached_def fe_server_principal_key_cache_def
        set_fe_server_principal_key_cache_def runM whenM_def, intro exI [of _ "(pk_cache w)(GLOBAL_DATA_TDE_OID \<mapsto> pk)"]) simp
qed

text \<open>The ranges of a directory, as a process reads them that has no keys in memory.\<close>

definition fe_wal :: "env \<Rightarrow> TDEPrincipalKey \<Rightarrow> string set \<Rightarrow> WalEncryptionRange list \<Rightarrow> world \<Rightarrow> bool" where
  "fe_wal ev pk P rgs w \<longleftrightarrow> fe_server ev pk P w \<and> wal_ranges_on_disk ev pk rgs w \<and> ranges_ok rgs"

lemma fe_wal_cong:
  assumes "\<forall>p\<in>insert (get_wal_key_file_path ev) P. disk w' p = disk w p" "fe_wal ev pk P rgs w"
  shows "fe_wal ev pk P rgs w'"
  using assms by (auto simp: fe_wal_def fe_server_def keyring_gives_def wal_ranges_on_disk_def)

definition no_keys_loaded :: "world \<Rightarrow> bool" where
  "no_keys_loaded w \<longleftrightarrow> pk_cache w GLOBAL_DATA_TDE_OID = None \<and> tde_wal_key_cache w = []"

lemma fe_wal_uses: "fe_wal ev pk P rgs w \<Longrightarrow> no_keys_loaded w \<Longrightarrow> enc_key_lsn w = 0 \<Longrightarrow> uses_ranges ev pk rgs w"
  using fe_server_key by (auto simp: uses_ranges_def fe_wal_def no_keys_loaded_def)

text \<open>Switching to a directory and transforming a buffer with its keys.\<close>

lemma switch_and_crypt:
  assumes "ecb_is ev F" "m \<le> 30" "(unat sg + 1) * 2 ^ m < 2 ^ 64" "buf \<noteq> []" "pos + length buf \<le> 2 ^ m"
    and "fe_wal ev pk P rgs w" "enc_key_lsn w = 0"
  shows "\<exists>c rs. \<forall>k :: bytes \<Rightarrow> unit tdeM.
     seqM open_pg_tde_set_data_dir (bindM (TDEXLogCryptBuffer ev None buf (of_nat (length buf)) (of_nat pos) t sg (2 ^ m)) k) w =
     k (wal_crypt F (chain_ranges rgs) t sg m pos buf) (w\<lparr>pk_cache := c, tde_wal_key_cache := rs\<rparr>)"
proof -
  let ?w = "w\<lparr>tde_wal_key_cache := [], pk_cache := (pk_cache w)(GLOBAL_DATA_TDE_OID := None)\<rparr>"
  have s: "open_pg_tde_set_data_dir w = (Inr (), ?w)"
    by (simp add: open_pg_tde_set_data_dir_def clean_fe_server_principal_key_cache_def open_pg_tde_free_wal_key_cache_def runM)
  have "fe_wal ev pk P rgs ?w" by (rule fe_wal_cong [OF _ assms(6)]) simp
  then have "uses_ranges ev pk rgs ?w" using assms(7) by (intro fe_wal_uses) (simp_all add: no_keys_loaded_def)
  from crypt_buffer_uses [OF assms(1-5) this, of None t] obtain c rs where
    "TDEXLogCryptBuffer ev None buf (of_nat (length buf)) (of_nat pos) t sg (2 ^ m) ?w =
       (Inr (wal_crypt F (chain_ranges rgs) t sg m pos buf), ?w\<lparr>pk_cache := c, tde_wal_key_cache := rs\<rparr>)" by blast
  then show ?thesis using s by (intro exI [of _ c] exI [of _ rs]) (simp add: runM)
qed

section \<open>A whole segment\<close>

lemma wal_crypt_slice:
  assumes "pos + n \<le> length d"
  shows "wal_crypt F rgs t sg m pos (take n (drop pos d)) = take n (drop pos (wal_crypt F rgs t sg m 0 d))"
proof -
  let ?X = "wal_crypt F rgs t sg m 0 d"
  have "take pos ?X @ wal_crypt F rgs t sg m pos (take n (drop pos d)) = take pos ?X @ take n (drop pos ?X)"
    using wal_crypt_block [OF assms, of F rgs t sg m] by (simp add: take_add)
  then show ?thesis by simp
qed

lemma fe_env_ecb [simp]: "ecb_is (fe_env ev d) F = ecb_is ev F"
  by (simp add: ecb_is_def fe_env_def)

lemma wal_seg_loop_ok:
  assumes "ecb_is ev F" "m \<le> 30" "(unat sg + 1) * 2 ^ m < 2 ^ 64" "WalSegSz rw = 2 ^ m"
    and "fd \<notin> insert (get_wal_key_file_path (target_env ev rw)) Pt" "fd \<notin> insert (get_wal_key_file_path (source_env ev st)) Ps"
    and "P = wal_crypt F (chain_ranges rt) t sg m 0 S" "Q = wal_crypt F (chain_ranges rs) t sg m 0 P" "length S = 2 ^ m"
  shows "pos + n * BLCK = 2 ^ m \<Longrightarrow> n < fuel \<Longrightarrow> disk w fd = Some (take pos Q @ drop pos S) \<Longrightarrow> io w = [] \<Longrightarrow> enc_key_lsn w = 0 \<Longrightarrow>
     fe_wal (target_env ev rw) pkt Pt rt w \<Longrightarrow> fe_wal (source_env ev st) pks Ps rs w \<Longrightarrow>
     \<exists>w'. wal_seg_loop ev rw st fd t sg fuel pos w = (Inr (), w') \<and> disk w' = (disk w)(fd \<mapsto> Q)"
proof (induction n arbitrary: pos fuel w)
  case 0
  then obtain fuel' where "fuel = Suc fuel'" by (metis gr0_implies_Suc)
  moreover have "take pos Q @ drop pos S = Q" "pread Q BLCK pos = []" using 0(1) assms(7-9) by (simp_all add: pread_def)
  ultimately show ?case using 0(3) by (simp add: runM file_bytes_def fun_upd_idem)
next
  case (Suc n)
  obtain fuel' where f: "fuel = Suc fuel'" using Suc.prems(2) by (metis Suc_lessE)
  let ?d = "take BLCK (drop pos S)" and ?p = "take BLCK (drop pos P)" and ?q = "take BLCK (drop pos Q)" and ?T = "take pos Q @ drop pos S"
  have le: "pos + BLCK \<le> 2 ^ m" using Suc.prems(1) by simp
  have len: "length P = 2 ^ m" "length Q = 2 ^ m" using assms(7-9) by simp_all
  have pq: "wal_crypt F (chain_ranges rt) t sg m pos ?d = ?p" "wal_crypt F (chain_ranges rs) t sg m pos ?p = ?q"
    using wal_crypt_slice [of pos BLCK S] wal_crypt_slice [of pos BLCK P] le assms(7-9) len by simp_all
  have ld: "length ?d = BLCK" "length ?p = BLCK" "length ?q = BLCK" "?d \<noteq> []" "?p \<noteq> []" using le len assms(9) by auto
  have rd: "pread ?T BLCK pos = ?d" using le len(2) by (simp add: pread_def)
  let ?rest = "\<lambda>buf'. bindM (pg_pwrite fd buf' pos) (\<lambda>k. if k \<noteq> int (length buf') then ret () else wal_seg_loop ev rw st fd t sg fuel' (pos + length buf'))"
  have env: "ecb_is (target_env ev rw) F" "ecb_is (source_env ev st) F" using assms(1) by (simp_all add: target_env_def source_env_def)
  obtain c1 r1 where s1: "\<forall>k :: bytes \<Rightarrow> unit tdeM.
      seqM open_pg_tde_set_data_dir (bindM (TDEXLogCryptBuffer (target_env ev rw) None ?d (of_nat BLCK) (of_nat pos) t sg (2 ^ m)) k) w =
      k ?p (w\<lparr>pk_cache := c1, tde_wal_key_cache := r1\<rparr>)"
    using switch_and_crypt [OF env(1) assms(2,3) ld(4) _ Suc.prems(6,5), of pos t] le unfolding ld(1) pq(1) by blast
  let ?w1 = "w\<lparr>pk_cache := c1, tde_wal_key_cache := r1\<rparr>"
  have "fe_wal (source_env ev st) pks Ps rs ?w1" by (rule fe_wal_cong [OF _ Suc.prems(7)]) simp
  then obtain c2 r2 where s2: "\<forall>k :: bytes \<Rightarrow> unit tdeM.
      seqM open_pg_tde_set_data_dir (bindM (TDEXLogCryptBuffer (source_env ev st) None ?p (of_nat BLCK) (of_nat pos) t sg (2 ^ m)) k) ?w1 =
      k ?q (?w1\<lparr>pk_cache := c2, tde_wal_key_cache := r2\<rparr>)"
    using switch_and_crypt [OF env(2) assms(2,3) ld(5), of pos pks Ps rs ?w1 t] le Suc.prems(5) unfolding ld(2) pq(2) by auto
  let ?w2 = "?w1\<lparr>pk_cache := c2, tde_wal_key_cache := r2\<rparr>"
  let ?w3 = "set_file fd (take (pos + BLCK) Q @ drop (pos + BLCK) S) ?w2"
  have "pwrite ?T ?q pos = take (pos + BLCK) Q @ drop (pos + BLCK) S"
    using le len(2) ld(3) assms(9) by (simp add: pwrite_def take_add) (simp add: add.commute)
  then have wr: "pg_pwrite fd ?q pos ?w2 = (Inr (int BLCK), ?w3)"
    using pg_pwrite_ok [of ?w2 fd ?q pos] Suc.prems(3,4) ld(3) by (simp add: file_bytes_def)
  have keep: "\<forall>p\<in>insert (get_wal_key_file_path (target_env ev rw)) Pt. disk ?w3 p = disk w p"
      "\<forall>p\<in>insert (get_wal_key_file_path (source_env ev st)) Ps. disk ?w3 p = disk w p"
    using assms(5,6) by (auto simp: set_file_def)
  have step: "wal_seg_loop ev rw st fd t sg fuel pos w = wal_seg_loop ev rw st fd t sg fuel' (pos + BLCK) ?w3"
  proof -
    have "wal_seg_loop ev rw st fd t sg fuel pos w =
        seqM open_pg_tde_set_data_dir (bindM (TDEXLogCryptBuffer (target_env ev rw) None ?d (of_nat BLCK) (of_nat pos) t sg (2 ^ m)) (\<lambda>plain.
          seqM open_pg_tde_set_data_dir (bindM (TDEXLogCryptBuffer (source_env ev st) None plain (of_nat (length plain)) (of_nat pos) t sg (2 ^ m)) ?rest))) w"
      unfolding f wal_seg_loop.simps bindM_def [of "getM _"] getM_run using Suc.prems(3) rd ld(1,4) assms(4) by (simp add: file_bytes_def)
    also have "\<dots> = seqM open_pg_tde_set_data_dir (bindM (TDEXLogCryptBuffer (source_env ev st) None ?p (of_nat (length ?p)) (of_nat pos) t sg (2 ^ m)) ?rest) ?w1"
      by (rule s1 [rule_format])
    also have "\<dots> = ?rest ?q ?w2" unfolding ld(2) by (rule s2 [rule_format])
    also have "\<dots> = wal_seg_loop ev rw st fd t sg fuel' (pos + BLCK) ?w3" using wr ld(3) by (simp add: bindM_def)
    finally show ?thesis .
  qed
  have "\<exists>w'. wal_seg_loop ev rw st fd t sg fuel' (pos + BLCK) ?w3 = (Inr (), w') \<and> disk w' = (disk ?w3)(fd \<mapsto> Q)"
    using Suc.prems f fe_wal_cong [OF keep(1) Suc.prems(6)] fe_wal_cong [OF keep(2) Suc.prems(7)]
    by (intro Suc.IH) (simp_all add: set_file_def)
  then show ?case unfolding step by (auto simp: set_file_def)
qed

text \<open>
  C19. Rewinding WAL: a segment that stays on the target, or was fetched from its archive, is re-encrypted so that decrypting it with the WAL keys of the
  source gives exactly what decrypting the old segment with the WAL keys of the target gave. The loop over its blocks ends, and no other file changes.
\<close>

theorem rewind_reencrypts_wal_segment:
  assumes "ecb_is ev F" "20 \<le> m" "m \<le> 30" "(unat sg + 1) * 2 ^ m < 2 ^ 64" "WalSegSz rw = 2 ^ m" "rw_XLogFromFileName rw (base_name relpath) (2 ^ m) = (t, sg)"
    and "\<not> dry_run rw" "fd = path_in (datadir_target rw) relpath" "\<not> open_fails rw fd"
    and "fd \<notin> insert (get_wal_key_file_path (target_env ev rw)) Pt" "fd \<notin> insert (get_wal_key_file_path (source_env ev st)) Ps"
    and "disk w fd = Some S" "length S = 2 ^ m" "io w = []" "enc_key_lsn w = 0"
    and "fe_wal (target_env ev rw) pkt Pt rt w" "fe_wal (source_env ev st) pks Ps rs w"
  shows "\<exists>w' S'. ensure_tde_wal_seg ev rw st relpath w = (Inr (), w') \<and> disk w' = (disk w)(fd \<mapsto> S') \<and>
     wal_crypt F (chain_ranges rs) t sg m 0 S' = wal_crypt F (chain_ranges rt) t sg m 0 S"
proof -
  let ?P = "wal_crypt F (chain_ranges rt) t sg m 0 S"
  let ?Q = "wal_crypt F (chain_ranges rs) t sg m 0 ?P"
  obtain k where k: "(2 :: nat) ^ m = BLCK + k * BLCK" "k < 2 ^ m" using segment_blocks [OF assms(2)] by blast
  have "\<exists>w'. wal_seg_loop ev rw st fd t sg (Suc (length S)) 0 w = (Inr (), w') \<and> disk w' = (disk w)(fd \<mapsto> ?Q)"
    by (rule wal_seg_loop_ok [OF assms(1,3,4,5,10,11) refl refl assms(13) _ _ _ assms(14-17), where n = "Suc k"])
      (use k assms(12,13) in simp_all)
  then obtain w' where w': "wal_seg_loop ev rw st fd t sg (Suc (length S)) 0 w = (Inr (), w')" "disk w' = (disk w)(fd \<mapsto> ?Q)" by blast
  then have "ensure_tde_wal_seg ev rw st relpath w = (Inr (), w')"
    using assms(5-9,12) by (simp add: ensure_tde_wal_seg_def Let_def runM del: wal_seg_loop.simps)
  with w'(2) show ?thesis by (intro exI [of _ w'] exI [of _ ?Q]) simp
qed

section \<open>Two servers with WAL keys\<close>

definition demo_server_info :: TDEPrincipalKeyInfo where
  "demo_server_info = (keyInfo demo_pk)\<lparr>databaseId := GLOBAL_DATA_TDE_OID\<rparr>"

definition demo_server_pk :: TDEPrincipalKey where
  "demo_server_pk = principal_key_of demo_env demo_server_info (ki_data demo_ring_key)"

lemma fe_env_opens [simp]: "opens_to (fe_env ev d) pk e rg = opens_to ev pk e rg"
  by (simp add: opens_to_def open_pg_tde_wal_range_from_entry_def AesGcmDecrypt_def garbage_def fe_env_def)

lemma demo_wal_paths:
  assumes "length d < MAXPGPATH"
  shows "get_keyring_infofile_path (fe_env demo_env d) GLOBAL_DATA_TDE_OID = d @ ''/1664_providers''" "get_wal_key_file_path (fe_env demo_env d) = d @ ''/wal_keys''"
proof -
  have "digits 1664 = ''1664''" by (simp add: digits.simps digit_char_def char_of_eq_iff)
  then show "get_keyring_infofile_path (fe_env demo_env d) GLOBAL_DATA_TDE_OID = d @ ''/1664_providers''" "get_wal_key_file_path (fe_env demo_env d) = d @ ''/wal_keys''"
    using assms by (simp_all add: path_defs fe_env_def fmt_d_def GLOBAL_DATA_TDE_OID_def)
qed

lemma demo_fe_wal:
  assumes "l = 100 \<or> l = 200"
  shows "\<exists>f rg. wr_type rg = WAL_ENCRYPTION_RANGE_ENCRYPTED \<and> wr_start rg = WalLocation l 1 \<and>
     (\<forall>d w. length d < MAXPGPATH \<and> disk w (d @ ''/wal_keys'') = Some f \<and> disk w (d @ ''/1664_providers'') = Some (enc_prov demo_prov) \<and>
        disk w ''r'' = Some (enc_key demo_ring_key) \<longrightarrow> fe_wal (fe_env demo_env d) demo_server_pk {d @ ''/1664_providers'', ''r''} [rg] w)"
proof -
  have ki: "keyInfo demo_server_pk = demo_server_info" "wf_pki demo_server_info" "keyringId demo_server_info = 1" "pk_name demo_server_info = fit 256 [97]"
    using demo_pk_wf(1) by (simp_all add: demo_server_pk_def principal_key_of_def demo_server_info_def wf_pki_def demo_pk_def)
  obtain ski e f where f: "signed_by demo_env demo_server_pk ski" "good_wal f" "aligned f" "file_header f = file_header (wal_base ski None)"
      "wal_entries f = [e]" "range_of (demo_range l) e" "wal_holds demo_env demo_server_pk e demo_wal_key"
    using write_wal_entry_ok [OF demo_gcm_ok demo_rand_ok _ _ _ _ refl, of "demo_range l" demo_server_pk demo_world] ki(1,2) demo_wal_key_wf
    by (auto simp: usable_file_def wal_entries_of_def)
  then have sk: "signed_by demo_env demo_server_pk (signed_key_info (file_header f))"
    using kf_new_good(2) [of ski] by (simp add: base_file_def signed_by_def)
  obtain rg where rg: "opens_to demo_env demo_server_pk e rg" "ranges_ok [rg]" "wal_entry_wanted (WalLocation 0 1) e"
      "wr_type rg = WAL_ENCRYPTION_RANGE_ENCRYPTED" "wr_start rg = WalLocation l 1"
    using demo_range_opens [OF f(6,7) assms] by blast
  have "fe_wal (fe_env demo_env d) demo_server_pk {d @ ''/1664_providers'', ''r''} [rg] w"
    if d: "length d < MAXPGPATH" "disk w (d @ ''/wal_keys'') = Some f" "disk w (d @ ''/1664_providers'') = Some (enc_prov demo_prov)"
      "disk w ''r'' = Some (enc_key demo_ring_key)" for d w
  proof -
    have "keyring_gives (fe_env demo_env d) GLOBAL_DATA_TDE_OID demo_server_pk {d @ ''/1664_providers'', ''r''} w"
      using demo_keyring_gives [of w d GLOBAL_DATA_TDE_OID demo_server_info] ki(3,4) demo_wal_paths [OF d(1)] d(3,4) by (simp add: demo_server_pk_def)
    moreover have "d @ ''/wal_keys'' \<notin> {d @ ''/1664_providers'', ''r''}" by (auto simp: append_eq_Cons_conv)
    ultimately show ?thesis
      using rg f sk d(2) demo_wal_paths(2) [OF d(1)] by (auto simp: fe_wal_def fe_server_def wal_ranges_on_disk_def)
  qed
  then show ?thesis using rg(4,5) by (intro exI [of _ f] exI [of _ rg]) blast
qed

theorem rewind_reencrypts_wal_segment_witness:
  "\<exists>w rs rt w' S'. wr_start rs = WalLocation 100 1 \<and> wr_start rt = WalLocation 200 1 \<and>
     ensure_tde_wal_seg demo_env demo_rw demo_rewind_state ''pg_wal/000000010000000000000001'' w = (Inr (), w') \<and>
     disk w' ''t/pg_wal/000000010000000000000001'' = Some S' \<and>
     wal_crypt demo_F (chain_ranges [rs]) 1 1 20 0 S' = wal_crypt demo_F (chain_ranges [rt]) 1 1 20 0 demo_segment"
proof -
  obtain fs rs where s: "wr_start rs = WalLocation 100 1" "\<And>d w. length d < MAXPGPATH \<and> disk w (d @ ''/wal_keys'') = Some fs \<and>
      disk w (d @ ''/1664_providers'') = Some (enc_prov demo_prov) \<and> disk w ''r'' = Some (enc_key demo_ring_key) \<longrightarrow>
      fe_wal (fe_env demo_env d) demo_server_pk {d @ ''/1664_providers'', ''r''} [rs] w"
    using demo_fe_wal [of 100] by blast
  obtain ft rt where t: "wr_start rt = WalLocation 200 1" "\<And>d w. length d < MAXPGPATH \<and> disk w (d @ ''/wal_keys'') = Some ft \<and>
      disk w (d @ ''/1664_providers'') = Some (enc_prov demo_prov) \<and> disk w ''r'' = Some (enc_key demo_ring_key) \<longrightarrow>
      fe_wal (fe_env demo_env d) demo_server_pk {d @ ''/1664_providers'', ''r''} [rt] w"
    using demo_fe_wal [of 200] by blast
  let ?p = "''t/pg_wal/000000010000000000000001''"
  let ?w = "demo_world\<lparr>disk := [''x/wal_keys'' \<mapsto> fs, ''t/open_pg_tde/wal_keys'' \<mapsto> ft, ''x/1664_providers'' \<mapsto> enc_prov demo_prov,
      ''t/open_pg_tde/1664_providers'' \<mapsto> enc_prov demo_prov, ''r'' \<mapsto> enc_key demo_ring_key, ?p \<mapsto> demo_segment]\<rparr>"
  have k: "fe_wal (target_env demo_env demo_rw) demo_server_pk {''t/open_pg_tde/1664_providers'', ''r''} [rt] ?w"
      "fe_wal (source_env demo_env demo_rewind_state) demo_server_pk {''x/1664_providers'', ''r''} [rs] ?w"
    using s(2) [of "''x''" ?w] t(2) [of "''t/open_pg_tde''" ?w] by (simp_all add: demo_rewind_simps MAXPGPATH_def)
  have "\<exists>w' S'. ensure_tde_wal_seg demo_env demo_rw demo_rewind_state ''pg_wal/000000010000000000000001'' ?w = (Inr (), w') \<and>
      disk w' = (disk ?w)(?p \<mapsto> S') \<and> wal_crypt demo_F (chain_ranges [rs]) 1 1 20 0 S' = wal_crypt demo_F (chain_ranges [rt]) 1 1 20 0 demo_segment"
    by (rule rewind_reencrypts_wal_segment [OF demo_ecb_is _ _ _ _ _ _ _ _ _ _ _ _ _ _ k])
      (simp_all add: demo_rewind_simps demo_wal_paths MAXPGPATH_def demo_segment_def, simp_all add: demo_rw_def demo_world_def)
  then show ?thesis using s(1) t(1) by (metis fun_upd_same)
qed

end
