(* ===== verification/Tde_Libpq.thy ===== *)
theory Tde_Libpq
  imports Tde_Rewind
begin

text \<open>
  The source server of \<open>pg_rewind\<close> reached through a connection (\<open>fetools/pg18/pg_rewind/libpq_source.c\<close>): requests for ranges of files are
  queued, neighbouring ones are merged and long ones split, and a full queue is fetched with one query whose parameters are array constants.

  The record \<open>server\<close> holds the answers of the source: to the query with its three parameters, the listing of the key directory, a whole file, and
  the list of all files with their sizes, whether they are directories, and the targets of the links of tablespaces.
\<close>

definition MAX_CHUNK_SIZE :: nat where "MAX_CHUNK_SIZE = 1024 * 1024"
definition MAX_CHUNKS_PER_QUERY :: nat where "MAX_CHUNKS_PER_QUERY = 1000"

record fetch_range_request =
  rq_path :: string
  rq_offset :: nat
  rq_length :: nat
  rq_encrypt :: bool

text \<open>
  A result of the query: a row with the name of a file, an offset and the bytes there, if the file exists; the empty result at the end; anything
  else. \<open>Malformed_Tuple\<close> is a row with other columns than expected.
\<close>

datatype PGresult = PGRES_SINGLE_TUPLE string nat "bytes option" | Malformed_Tuple | PGRES_TUPLES_OK | PGRES_OTHER

record server =
  fetch_chunks_stmt :: "string \<Rightarrow> string \<Rightarrow> string \<Rightarrow> PGresult list"
  pg_ls_dir :: "string \<Rightarrow> string option list option"
  pg_read_binary_file :: "string \<Rightarrow> bytes option"
  file_list :: "(string \<times> nat option \<times> bool \<times> string) list option"

type_synonym libpq_state = "rewind_state \<times> fetch_range_request list"

section \<open>The parameters of the query\<close>

fun escape_array_string :: "string \<Rightarrow> string" where
  "escape_array_string [] = []"
| "escape_array_string (ch # s) =
     (if ch = CHR 34 \<or> ch = CHR 92 then [CHR 92, ch] else [ch]) @ escape_array_string s"

definition appendArrayEscapedString :: "string \<Rightarrow> string" where
  "appendArrayEscapedString s = [CHR 34] @ escape_array_string s @ [CHR 34]"

fun comma_separated :: "string list \<Rightarrow> string" where
  "comma_separated [] = []"
| "comma_separated [x] = x"
| "comma_separated (x # xs) = x @ '','' @ comma_separated xs"

definition array_constant :: "string list \<Rightarrow> string" where
  "array_constant xs = ''{'' @ comma_separated xs @ ''}''"

definition paths_param :: "fetch_range_request list \<Rightarrow> string" where
  "paths_param rqs = array_constant (map (\<lambda>rq. appendArrayEscapedString (rq_path rq)) rqs)"

definition offsets_param :: "fetch_range_request list \<Rightarrow> string" where
  "offsets_param rqs = array_constant (map (\<lambda>rq. digits (rq_offset rq)) rqs)"

definition lengths_param :: "fetch_range_request list \<Rightarrow> string" where
  "lengths_param rqs = array_constant (map (\<lambda>rq. digits (rq_length rq)) rqs)"

section \<open>Receiving the chunks\<close>

text \<open>The blocks of a chunk are re-encrypted in place; a rest shorter than a block is left alone.\<close>

function reencrypt_chunk :: "env \<Rightarrow> rewind \<Rightarrow> current_file_data \<Rightarrow> bytes \<Rightarrow> nat \<Rightarrow> bytes tdeM" where
  "reencrypt_chunk ev rw cur chunk off =
     (if length chunk < BLCK then ret chunk
      else
        bindM (tde_reencrypt_block ev rw cur (take BLCK chunk) off MAIN_FORKNUM) (\<lambda>b.
        bindM (reencrypt_chunk ev rw cur (drop BLCK chunk) (off + BLCK)) (\<lambda>rest. ret (b @ rest))))"
  by pat_completeness auto
termination
  by (relation "measure (\<lambda>(ev, rw, cur, chunk, off). length chunk)") auto

declare reencrypt_chunk.simps [simp del]

definition receive_chunk :: "env \<Rightarrow> rewind \<Rightarrow> fetch_range_request \<Rightarrow> string \<Rightarrow> nat \<Rightarrow> bytes option \<Rightarrow> rewind_state \<Rightarrow> rewind_state tdeM" where
  "receive_chunk ev rw rq filename chunkoff chunk st =
     (case chunk of
        None \<Rightarrow> seqM (remove_target_file rw filename True) (ret st)
      | Some d \<Rightarrow>
          seqM (check (filename = rq_path rq) (E_state ''received data for another file''))
          (seqM (check (chunkoff = rq_offset rq) (E_state ''received data at another offset''))
          (seqM (check (length d \<le> rq_length rq) (E_state ''received more than requested''))
          (bindM (open_target_file rw filename False st) (\<lambda>st.
           bindM (if rq_encrypt rq
                  then bindM (ensure_tde_keys ev rw filename st) (\<lambda>st.
                       bindM (reencrypt_chunk ev rw (current_tde_file st) d chunkoff) (\<lambda>d. ret (st, d)))
                  else ret (st, d)) (\<lambda>(st, d).
           seqM (write_target_range rw st d chunkoff) (ret st)))))))"

text \<open>
  The number of a chunk is compared with the number of requests by \<open>>\<close>, so that a row too many takes an entry of the array that
  is not a request; the array is not read behind the requests in the model.
\<close>

fun receive_chunks :: "env \<Rightarrow> rewind \<Rightarrow> fetch_range_request list \<Rightarrow> nat \<Rightarrow> PGresult list \<Rightarrow> rewind_state \<Rightarrow> rewind_state tdeM" where
  "receive_chunks ev rw rqs chunkno [] st =
     seqM (check (chunkno = length rqs) (E_state ''unexpected number of data chunks received'')) (ret st)"
| "receive_chunks ev rw rqs chunkno (PGRES_TUPLES_OK # rs) st = receive_chunks ev rw rqs chunkno rs st"
| "receive_chunks ev rw rqs chunkno (PGRES_OTHER # rs) st = throw (E_state ''unexpected result while fetching remote files'')"
| "receive_chunks ev rw rqs chunkno (Malformed_Tuple # rs) st =
     (if chunkno > length rqs then throw (E_state ''received more data chunks than requested'')
      else throw (E_state ''unexpected result set while fetching remote files''))"
| "receive_chunks ev rw rqs chunkno (PGRES_SINGLE_TUPLE filename chunkoff chunk # rs) st =
     (if chunkno > length rqs then throw (E_state ''received more data chunks than requested'')
      else if chunkno = length rqs then throw (E_state ''reads behind the requests'')
      else
        bindM (receive_chunk ev rw (rqs ! chunkno) filename chunkoff chunk st) (\<lambda>st.
        receive_chunks ev rw rqs (chunkno + 1) rs st))"

definition process_queued_fetch_requests :: "env \<Rightarrow> rewind \<Rightarrow> server \<Rightarrow> libpq_state \<Rightarrow> libpq_state tdeM" where
  "process_queued_fetch_requests ev rw srv s =
     (case s of (st, rqs) \<Rightarrow>
      if rqs = [] then ret (st, rqs)
      else
        bindM (receive_chunks ev rw rqs 0 (fetch_chunks_stmt srv (paths_param rqs) (offsets_param rqs) (lengths_param rqs)) st) (\<lambda>st.
        ret (st, [])))"

section \<open>The queue\<close>

text \<open>The last request grows if the new range continues it; what is left of the range follows.\<close>

definition merge_request :: "string \<Rightarrow> nat \<Rightarrow> nat \<Rightarrow> fetch_range_request list \<Rightarrow> fetch_range_request list \<times> nat" where
  "merge_request p off len rqs =
     (if rqs \<noteq> [] \<and> rq_offset (last rqs) + rq_length (last rqs) = off \<and> rq_length (last rqs) < MAX_CHUNK_SIZE \<and> rq_path (last rqs) = p
      then
        (let thislen = min len (MAX_CHUNK_SIZE - rq_length (last rqs))
         in (butlast rqs @ [(last rqs)\<lparr>rq_length := rq_length (last rqs) + thislen\<rparr>], thislen))
      else (rqs, 0))"

function queue_chunks :: "env \<Rightarrow> rewind \<Rightarrow> server \<Rightarrow> string \<Rightarrow> bool \<Rightarrow> nat \<Rightarrow> nat \<Rightarrow> libpq_state \<Rightarrow> libpq_state tdeM" where
  "queue_chunks ev rw srv p needs_encrypt off len s =
     (if len = 0 then ret s
      else
        bindM (if length (snd s) = MAX_CHUNKS_PER_QUERY then process_queued_fetch_requests ev rw srv s else ret s) (\<lambda>(st, rqs).
        let thislen = min len MAX_CHUNK_SIZE
        in queue_chunks ev rw srv p needs_encrypt (off + thislen) (len - thislen)
             (st, rqs @ [\<lparr>rq_path = p, rq_offset = off, rq_length = thislen, rq_encrypt = needs_encrypt\<rparr>])))"
  by pat_completeness auto
termination
  by (relation "measure (\<lambda>(ev, rw, srv, p, needs_encrypt, off, len, s). len)") (auto simp: MAX_CHUNK_SIZE_def)

declare queue_chunks.simps [simp del]

definition libpq_queue_process_fetch_range :: "env \<Rightarrow> rewind \<Rightarrow> server \<Rightarrow> string \<Rightarrow> bool \<Rightarrow> nat \<Rightarrow> nat \<Rightarrow> libpq_state \<Rightarrow> libpq_state tdeM" where
  "libpq_queue_process_fetch_range ev rw srv p needs_encrypt off len s =
     (case s of (st, rqs) \<Rightarrow>
      case merge_request p off len rqs of (rqs, thislen) \<Rightarrow>
      queue_chunks ev rw srv p needs_encrypt (off + thislen) (len - thislen) (st, rqs))"

definition libpq_queue_fetch_range :: "env \<Rightarrow> rewind \<Rightarrow> server \<Rightarrow> string \<Rightarrow> nat \<Rightarrow> nat \<Rightarrow> libpq_state \<Rightarrow> libpq_state tdeM" where
  "libpq_queue_fetch_range ev rw srv p off len = libpq_queue_process_fetch_range ev rw srv p True off len"

definition libpq_queue_fetch_file :: "env \<Rightarrow> rewind \<Rightarrow> server \<Rightarrow> string \<Rightarrow> nat \<Rightarrow> libpq_state \<Rightarrow> libpq_state tdeM" where
  "libpq_queue_fetch_file ev rw srv p len s =
     (case s of (st, rqs) \<Rightarrow>
      bindM (open_target_file rw p True st) (\<lambda>st.
      libpq_queue_process_fetch_range ev rw srv p False 0 (max len MAX_CHUNK_SIZE) (st, rqs)))"

definition libpq_finish_fetch :: "env \<Rightarrow> rewind \<Rightarrow> server \<Rightarrow> libpq_state \<Rightarrow> libpq_state tdeM" where
  "libpq_finish_fetch ev rw srv s =
     bindM (process_queued_fetch_requests ev rw srv s) (\<lambda>(st, rqs).
     bindM (flush_current_tde_rel_key ev rw st) (\<lambda>st. ret (st, rqs)))"

section \<open>Whole files\<close>

definition libpq_fetch_file :: "server \<Rightarrow> string \<Rightarrow> bytes tdeM" where
  "libpq_fetch_file srv p =
     (case pg_read_binary_file srv p of None \<Rightarrow> throw (E_state ''could not fetch remote file'') | Some b \<Rightarrow> ret b)"

definition libpq_fetch_tde_keys :: "rewind \<Rightarrow> server \<Rightarrow> rewind_state \<Rightarrow> rewind_state tdeM" where
  "libpq_fetch_tde_keys rw srv st =
     (case pg_ls_dir srv ''open_pg_tde'' of
        None \<Rightarrow> throw (E_state ''could not fetch file list'')
      | Some names \<Rightarrow>
          if names = [] then ret st
          else
            bindM (init_tde rw st) (\<lambda>st.
            seqM (forM names (\<lambda>n.
                    case n of
                      None \<Rightarrow> ret ()
                    | Some p \<Rightarrow>
                        bindM (libpq_fetch_file srv (path_in ''open_pg_tde'' p)) (\<lambda>b. write_tmp_source_file rw st p b)))
            (ret st)))"

section \<open>The list of files\<close>

definition listed_type :: "bool \<Rightarrow> string \<Rightarrow> file_type_t" where
  "listed_type isdir link_target =
     (if link_target \<noteq> [] then (if hd link_target = CHR ''/'' then FILE_TYPE_SYMLINK else FILE_TYPE_DIRECTORY)
      else if isdir then FILE_TYPE_DIRECTORY else FILE_TYPE_REGULAR)"

fun traverse_rows :: "pg \<Rightarrow> (string \<times> nat option \<times> bool \<times> string) list \<Rightarrow> filehash \<Rightarrow> tde_error + filehash" where
  "traverse_rows pg [] h = Inr h"
| "traverse_rows pg ((p, filesize, isdir, link_target) # rows) h =
     (case filesize of
        None \<Rightarrow> traverse_rows pg rows h
      | Some sz \<Rightarrow>
          (case process_source_file pg h p (listed_type isdir link_target) sz (Some link_target) of
             Inl e \<Rightarrow> Inl e
           | Inr h \<Rightarrow> traverse_rows pg rows h))"

definition libpq_traverse_files :: "pg \<Rightarrow> server \<Rightarrow> filehash \<Rightarrow> tde_error + filehash" where
  "libpq_traverse_files pg srv h =
     (case file_list srv of None \<Rightarrow> Inl (E_state ''could not fetch file list'') | Some rows \<Rightarrow> traverse_rows pg rows h)"

end
