(* ===== verification/Tde_Libpq_Ops.thy ===== *)
theory Tde_Libpq_Ops
  imports Tde_Libpq Tde_Rewind_Ops
begin

text \<open>
  Copying blocks of an encrypted relation through a connection gives the same file as copying them from a local directory, however
  the ranges are merged, split and batched; the array constants of the query denote the paths, offsets and lengths of the requests.
\<close>

section \<open>Array constants\<close>

text \<open>Array constants as PostgreSQL documents them: elements in double quotes with backslash escapes, or numbers, separated by commas.\<close>

fun read_quoted :: "string \<Rightarrow> string \<times> string" where
  "read_quoted [] = ([], [])"
| "read_quoted (c # s) =
     (if c = CHR 34 then ([], s)
      else if c = CHR 92 then (case s of [] \<Rightarrow> ([], []) | d # t \<Rightarrow> (case read_quoted t of (x, r) \<Rightarrow> (d # x, r)))
      else (case read_quoted s of (x, r) \<Rightarrow> (c # x, r)))"

fun array_elements :: "nat \<Rightarrow> string \<Rightarrow> string list" where
  "array_elements 0 s = []"
| "array_elements (Suc n) s =
     (if s = [] then []
      else (case read_quoted (tl s) of (x, r) \<Rightarrow> x # (if r \<noteq> [] \<and> hd r = CHR '','' then array_elements n (tl r) else [])))"

definition array_strings :: "string \<Rightarrow> string list" where
  "array_strings s = array_elements (length s) (tl s)"

fun array_number_elements :: "nat \<Rightarrow> string \<Rightarrow> nat list" where
  "array_number_elements 0 s = []"
| "array_number_elements (Suc n) s =
     undigits (takeWhile is_digit s) # (case dropWhile is_digit s of c # r \<Rightarrow> if c = CHR '','' then array_number_elements n r else [] | [] \<Rightarrow> [])"

definition array_numbers :: "string \<Rightarrow> nat list" where
  "array_numbers s = array_number_elements (length s) (tl s)"

lemma read_quoted_escape: "read_quoted (escape_array_string s @ CHR 34 # t) = (s, t)"
  by (induction s) auto

lemma comma_separated_Cons: "xs \<noteq> [] \<Longrightarrow> comma_separated (x # xs) = x @ '','' @ comma_separated xs"
  by (cases xs) simp_all

lemma array_elements_paths:
  "ps \<noteq> [] \<Longrightarrow> length ps \<le> n \<Longrightarrow> array_elements n (comma_separated (map appendArrayEscapedString ps) @ ''}'') = ps"
proof (induction ps arbitrary: n)
  case (Cons p ps)
  then obtain m where m: "n = Suc m" by (cases n) auto
  show ?case
  proof (cases "ps = []")
    case True
    then show ?thesis using m by (simp add: appendArrayEscapedString_def read_quoted_escape)
  next
    case False
    then show ?thesis using m Cons by (simp add: comma_separated_Cons appendArrayEscapedString_def read_quoted_escape)
  qed
qed simp

lemma length_comma_separated: "\<forall>x\<in>set xs. x \<noteq> [] \<Longrightarrow> length xs \<le> Suc (length (comma_separated xs))"
proof (induction xs)
  case (Cons x xs)
  then show ?case by (cases "xs = []") (auto simp: comma_separated_Cons)
qed simp

lemma array_strings_paths: "rqs \<noteq> [] \<Longrightarrow> array_strings (paths_param rqs) = map rq_path rqs"
proof -
  assume "rqs \<noteq> []"
  moreover have "length rqs \<le> Suc (length (comma_separated (map (\<lambda>rq. appendArrayEscapedString (rq_path rq)) rqs)))"
    using length_comma_separated [of "map (\<lambda>rq. appendArrayEscapedString (rq_path rq)) rqs"] by (simp add: appendArrayEscapedString_def)
  ultimately show ?thesis
    using array_elements_paths [of "map rq_path rqs" "Suc (Suc (length (comma_separated (map (\<lambda>rq. appendArrayEscapedString (rq_path rq)) rqs))))"]
    by (simp add: array_strings_def paths_param_def array_constant_def comp_def)
qed

lemma digits_prefix:
  assumes "r = [] \<or> \<not> is_digit (hd r)"
  shows "takeWhile is_digit (digits n @ r) = digits n" "dropWhile is_digit (digits n @ r) = r"
  using assms digits_all by (cases r; simp)+

lemma array_number_elements_digits:
  "ns \<noteq> [] \<Longrightarrow> length ns \<le> n \<Longrightarrow> array_number_elements n (comma_separated (map digits ns) @ ''}'') = ns"
proof (induction ns arbitrary: n)
  case (Cons k ns)
  then obtain m where m: "n = Suc m" by (cases n) auto
  have r: "\<not> is_digit (CHR ''}'')" "\<not> is_digit (CHR '','')" by (simp_all add: is_digit_def)
  show ?case
  proof (cases "ns = []")
    case True
    then show ?thesis using m r digits_prefix [of "''}''" k] by (simp add: undigits_digits)
  next
    case False
    then show ?thesis
      using m Cons r digits_prefix [of "CHR '','' # comma_separated (map digits ns) @ ''}''" k] by (simp add: comma_separated_Cons undigits_digits)
  qed
qed simp

lemma array_numbers_digits: "ns \<noteq> [] \<Longrightarrow> array_numbers (array_constant (map digits ns)) = ns"
  using array_number_elements_digits [of ns "Suc (Suc (length (comma_separated (map digits ns))))"] length_comma_separated [of "map digits ns"]
  by (simp add: array_numbers_def array_constant_def digits_not_Nil)

text \<open>What the query is documented to answer, for the files of the source: one row per element, in order, then the empty result.\<close>

definition server_documented :: "server \<Rightarrow> (string \<Rightarrow> bytes option) \<Rightarrow> bool" where
  "server_documented srv files \<longleftrightarrow> (\<forall>p o' l. fetch_chunks_stmt srv p o' l =
     map (\<lambda>(path, off, len). PGRES_SINGLE_TUPLE path off (map_option (\<lambda>b. take len (drop off b)) (files path)))
       (zip (array_strings p) (zip (array_numbers o') (array_numbers l))) @ [PGRES_TUPLES_OK])"

definition row_for :: "(string \<Rightarrow> bytes option) \<Rightarrow> fetch_range_request \<Rightarrow> PGresult" where
  "row_for files rq = PGRES_SINGLE_TUPLE (rq_path rq) (rq_offset rq) (map_option (\<lambda>b. take (rq_length rq) (drop (rq_offset rq) b)) (files (rq_path rq)))"

lemma server_answers:
  assumes "server_documented srv files" "rqs \<noteq> []"
  shows "fetch_chunks_stmt srv (paths_param rqs) (offsets_param rqs) (lengths_param rqs) = map (row_for files) rqs @ [PGRES_TUPLES_OK]"
proof -
  have "array_numbers (offsets_param rqs) = map rq_offset rqs" "array_numbers (lengths_param rqs) = map rq_length rqs"
    using array_numbers_digits [of "map rq_offset rqs"] array_numbers_digits [of "map rq_length rqs"] assms(2)
    by (simp_all add: offsets_param_def lengths_param_def comp_def)
  moreover have "map (\<lambda>(path, off, len). PGRES_SINGLE_TUPLE path off (map_option (\<lambda>b. take len (drop off b)) (files path)))
      (zip (map rq_path rqs) (zip (map rq_offset rqs) (map rq_length rqs))) = map (row_for files) rqs"
    by (induction rqs) (simp_all add: row_for_def)
  ultimately show ?thesis using assms array_strings_paths by (simp add: server_documented_def)
qed

section \<open>One chunk\<close>

lemma reencrypt_chunk_step:
  "BLCK \<le> length c \<Longrightarrow> reencrypt_chunk ev rw cur c off =
     bindM (tde_reencrypt_block ev rw cur (take BLCK c) off MAIN_FORKNUM) (\<lambda>b.
     bindM (reencrypt_chunk ev rw cur (drop BLCK c) (off + BLCK)) (\<lambda>rest. ret (b @ rest)))"
  by (subst reencrypt_chunk.simps) simp

lemma reencrypt_chunk_ok:
  assumes "has_keys cur ks kt" "evp_is ev E" "page_cipher_ok E"
  shows "blocks_hold E (block_no rw cur) ks MAIN_FORKNUM S i n pl \<Longrightarrow> ctxs_inv w \<Longrightarrow>
     \<exists>w'. reencrypt_chunk ev rw cur (take (n * BLCK) (drop (i * BLCK) S)) (i * BLCK) w = (Inr (blocks_enc E (block_no rw cur) kt MAIN_FORKNUM i n pl), w') \<and> after_block w w'"
proof (induction n arbitrary: i w)
  case 0
  then show ?case by (simp add: reencrypt_chunk.simps blocks_enc_def after_block_def)
next
  case (Suc n)
  note b = blocks_hold_Suc [OF Suc.prems(1)]
  let ?c = "take (Suc n * BLCK) (drop (i * BLCK) S)" and ?e = "page_enc E kt MAIN_FORKNUM (block_no rw cur i) (pl i)"
  have "(i + Suc n) * BLCK \<le> length S" using Suc.prems(1) by (simp add: blocks_hold_def)
  then have "length ?c = Suc n * BLCK" by (auto simp: min_def)
  then have c: "BLCK \<le> length ?c" by simp
  have t: "take BLCK ?c = blk S i" "drop BLCK ?c = take (n * BLCK) (drop (Suc i * BLCK) S)"
    by (simp_all add: blk_def min_def drop_take add.commute)
  obtain w1 where w1: "tde_reencrypt_block ev rw cur (blk S i) (i * BLCK) MAIN_FORKNUM w = (Inr ?e, w1)" "after_block w w1"
    using reencrypt_block_run [OF assms(1) Suc.prems(2) assms(2,3) b(1)] by blast
  then have "ctxs_inv w1" by (simp add: after_block_def)
  then obtain w2 where w2: "reencrypt_chunk ev rw cur (take (n * BLCK) (drop (Suc i * BLCK) S)) (Suc i * BLCK) w1 =
      (Inr (blocks_enc E (block_no rw cur) kt MAIN_FORKNUM (Suc i) n pl), w2)" "after_block w1 w2"
    using Suc.IH [OF b(2)] by blast
  have "reencrypt_chunk ev rw cur ?c (i * BLCK) w = (Inr (?e @ blocks_enc E (block_no rw cur) kt MAIN_FORKNUM (Suc i) n pl), w2)"
    unfolding reencrypt_chunk_step [OF c] t using w1(1) w2(1) by (simp add: runM add.commute)
  then show ?case using w1(2) w2(2) by (auto simp: blocks_enc_Suc after_block_def)
qed

section \<open>Ranges of one file\<close>

text \<open>What is assumed of the two servers, of the file and of the program before the first range of the file is copied.\<close>

definition copy_ready where
  "copy_ready ev rw E p st rl pks Ps ks pkt Pt kt w S T \<longleftrightarrow>
     plain_run rw \<and> files_apart ev rw st rl Ps Pt {p} \<and> source_has_tde st \<and> current_tde_file st = no_file \<and> dstpath st = None \<and>
     path_rlocator (rw_pg rw) p = Some (rl, 0) \<and> p \<noteq> [] \<and> relNumber rl \<noteq> 0 \<and> length (datadir_target rw) + 1 + length p < MAXPGPATH \<and>
     evp_is ev E \<and> page_cipher_ok E \<and> gcm_ok ev \<and> rand_ok ev \<and> ctxs_inv w \<and>
     rel_key (source_env ev st) pks Ps rl ks w \<and> rel_key (target_env ev rw) pkt Pt rl kt w \<and>
     disk w (path_in (datadir_source rw) p) = Some S \<and> disk w (path_in (datadir_target rw) p) = Some T \<and>
     (\<forall>fk\<in>{FSM_FORKNUM, VISIBILITYMAP_FORKNUM}. fork_readable E of_nat ks fk (disk w (fork_path rw rl fk)))"

text \<open>While the ranges are copied, only the file of the target changes, and its keys are loaded when it is written for the first time.\<close>

definition copied :: "rewind \<Rightarrow> string \<Rightarrow> world \<Rightarrow> bytes \<Rightarrow> world \<Rightarrow> bool" where
  "copied rw p w X v \<longleftrightarrow> disk v = (disk w)(path_in (datadir_target rw) p \<mapsto> X) \<and> io v = [] \<and> ctxs_inv v"

definition at_file where
  "at_file rw rl p ks kt st s \<longleftrightarrow> (\<exists>cur. s = st\<lparr>dstpath := Some (path_in (datadir_target rw) p), current_tde_file := cur\<rparr> \<and>
     has_keys cur ks kt \<and> rlocator cur = rl \<and> block_no rw cur = of_nat \<and> cf_path cur = p)"

lemma path_in_short: "length d + 1 + length p < MAXPGPATH \<Longrightarrow> path_in d p = d @ ''/'' @ p"
  by (simp add: path_in_def)

lemma copied_keys:
  assumes "copy_ready ev rw E p st rl pks Ps ks pkt Pt kt w S T" "copied rw p w X v"
  shows "rel_key (source_env ev st) pks Ps rl ks v" "rel_key (target_env ev rw) pkt Pt rl kt v"
    "f \<in> forks_of rw rl \<Longrightarrow> disk v f = disk w f" "disk v (path_in (datadir_source rw) p) = Some S" "disk v (path_in (datadir_target rw) p) = Some X"
proof -
  let ?d = "path_in (datadir_target rw) p"
  have k: "rel_key (source_env ev st) pks Ps rl ks w" "rel_key (target_env ev rw) pkt Pt rl kt w" using assms(1) by (simp_all add: copy_ready_def)
  have d: "?d \<notin> insert (open_pg_tde_set_db_file_path (source_env ev st) (dbOid rl)) Ps" "?d \<notin> insert (open_pg_tde_set_db_file_path (target_env ev rw) (dbOid rl)) Pt"
      "?d \<notin> forks_of rw rl" "?d \<noteq> path_in (datadir_source rw) p"
    using assms(1) by (auto simp: copy_ready_def files_apart_def Let_def)
  show "rel_key (source_env ev st) pks Ps rl ks v" "rel_key (target_env ev rw) pkt Pt rl kt v"
    using d(1,2) assms(2) rel_key_wf [OF k(1)] by (auto intro!: rel_key_cong [OF k(1)] rel_key_cong [OF k(2)] simp: copied_def simp del: insert_iff)
  show "f \<in> forks_of rw rl \<Longrightarrow> disk v f = disk w f" "disk v (path_in (datadir_source rw) p) = Some S" "disk v ?d = Some X"
    using d(3,4) assms by (auto simp: copied_def copy_ready_def)
qed

lemma open_file_ok:
  assumes "copy_ready ev rw E p st rl pks Ps ks pkt Pt kt w S T" "copied rw p w X v" "s = st \<or> at_file rw rl p ks kt st s"
  shows "\<exists>s1 s2 v'. open_target_file rw p False s v = (Inr s1, v) \<and> ensure_tde_keys ev rw p s1 v = (Inr s2, v') \<and>
     at_file rw rl p ks kt st s2 \<and> copied rw p w X v'"
proof (cases "s = st")
  case True
  let ?s = "st\<lparr>dstpath := Some (path_in (datadir_target rw) p)\<rparr>"
  have st: "plain_run rw" "source_has_tde st" "current_tde_file st = no_file" "dstpath st = None" "path_rlocator (rw_pg rw) p = Some (rl, 0)" "p \<noteq> []"
      "length p < MAXPGPATH"
    using assms(1) by (simp_all add: copy_ready_def)
  have "open_target_file rw p False st v = (Inr ?s, v)"
    using st(1,4) copied_keys(5) [OF assms(1,2)] by (simp add: open_target_file_def plain_run_def runM Let_def)
  moreover have "flush_current_tde_rel_key ev rw ?s v = (Inr ?s, v)" using st(3) by (intro flush_no_file) simp
  then obtain v' cur where "ensure_tde_keys ev rw p ?s v = (Inr (?s\<lparr>current_tde_file := cur\<rparr>), v')" "has_keys cur ks kt" "rlocator cur = rl" "segNo cur = 0"
      "cf_path cur = take (MAXPGPATH - 1) p" "disk v' = disk v" "io v' = io v" "ctxs_inv v' = ctxs_inv v"
    using ensure_loads [where st = ?s and ?st1.0 = ?s and ?w0.0 = v and w = v and ev = ev and pks = pks and Ps = Ps and ks = ks and pkt = pkt and Pt = Pt and kt = kt, OF _ _ _ _ st(5)] st(2,3,6) copied_keys(1,2) [OF assms(1,2)] by auto
  ultimately show ?thesis
    using True st(7) assms(2) by (intro exI [of _ ?s] exI [of _ "?s\<lparr>current_tde_file := cur\<rparr>"] exI [of _ v'])
      (auto simp: at_file_def copied_def block_no_def fun_eq_iff)
next
  case False
  then have "at_file rw rl p ks kt st s" using assms(3) by simp
  moreover from this have "open_target_file rw p False s v = (Inr s, v)" "ensure_tde_keys ev rw p s v = (Inr s, v)"
    using assms(1) path_in_short [of "datadir_target rw" p]
    by (auto simp: at_file_def copy_ready_def open_target_file_def ensure_tde_keys_def plain_run_def runM)
  ultimately show ?thesis using assms(2) by blast
qed

text \<open>The blocks of a range, written to the file of the target.\<close>

definition put_range where
  "put_range E kt pl X r = (case r of (i, n) \<Rightarrow> pwrite X (blocks_enc E of_nat kt MAIN_FORKNUM i n pl) (i * BLCK))"

definition range_in where
  "range_in E ks S pl r \<longleftrightarrow> (case r of (i, n) \<Rightarrow> 0 < n \<and> blocks_hold E of_nat ks MAIN_FORKNUM S i n pl)"

lemma local_range_ok:
  assumes "copy_ready ev rw E p st rl pks Ps ks pkt Pt kt w S T" "copied rw p w X v" "s = st \<or> at_file rw rl p ks kt st s"
    and "range_in E ks S pl (i, n)" "i * BLCK \<le> length X"
  shows "\<exists>s' v'. local_queue_fetch_range ev rw p (i * BLCK) (n * BLCK) s v = (Inr s', v') \<and> at_file rw rl p ks kt st s' \<and>
     copied rw p w (put_range E kt pl X (i, n)) v'"
proof -
  let ?d = "path_in (datadir_target rw) p" and ?src = "path_in (datadir_source rw) p"
  obtain s1 s2 v1 where o: "open_target_file rw p False s v = (Inr s1, v)" "ensure_tde_keys ev rw p s1 v = (Inr s2, v1)"
      "at_file rw rl p ks kt st s2" "copied rw p w X v1"
    using open_file_ok [OF assms(1-3)] by blast
  have s2: "has_keys (current_tde_file s2) ks kt" "dstpath s2 = Some ?d" "block_no rw (current_tde_file s2) = of_nat" using o(3) by (auto simp: at_file_def)
  have c: "plain_run rw" "evp_is ev E" "page_cipher_ok E" "?d \<noteq> ?src" using assms(1) by (auto simp: copy_ready_def files_apart_def Let_def)
  have v1: "io v1 = []" "ctxs_inv v1" "disk v1 ?src = Some S" "disk v1 ?d = Some X" "disk v ?src = Some S"
    using o(4) copied_keys(4,5) [OF assms(1) o(4)] copied_keys(4) [OF assms(1,2)] by (simp_all add: copied_def)
  have dr: "\<not> dry_run rw" using c(1) by (simp add: plain_run_def)
  obtain v' where v': "fetch_range_loop ev rw s2 ?src (Suc (n * BLCK)) (i * BLCK) ((i + n) * BLCK) (garbage ev BLCK) v1 = (Inr (), v')"
      "disk v' = (disk v1)(?d \<mapsto> pwrite X (blocks_enc E of_nat kt MAIN_FORKNUM i n pl) (i * BLCK))" "io v' = []" "ctxs_inv v'"
    using fetch_range_ok [OF s2(1) c(2,3) dr s2(2) c(4) _ _ _ v1(3,4) assms(5) v1(1,2), of n pl "Suc (n * BLCK)" "garbage ev BLCK"] s2(3) assms(4)
    by (auto simp: range_in_def)
  have "local_queue_fetch_range ev rw p (i * BLCK) (n * BLCK) s v = (Inr s2, v')"
    using c(1) v1(5) o(1,2) v'(1) by (simp add: local_queue_fetch_range_def Let_def runM plain_run_def del: fetch_range_loop.simps)
  then show ?thesis using o(3,4) v'(2-4) by (auto simp: copied_def put_range_def)
qed

section \<open>The rows of a query\<close>

definition request :: "string \<Rightarrow> nat \<times> nat \<Rightarrow> fetch_range_request" where
  "request p r = (case r of (i, n) \<Rightarrow> \<lparr>rq_path = p, rq_offset = i * BLCK, rq_length = n * BLCK, rq_encrypt = True\<rparr>)"

lemma receive_chunk_ok:
  assumes "copy_ready ev rw E p st rl pks Ps ks pkt Pt kt w S T" "copied rw p w X v" "s = st \<or> at_file rw rl p ks kt st s"
    and "range_in E ks S pl (i, n)"
  shows "\<exists>s' v'. receive_chunk ev rw (request p (i, n)) p (i * BLCK) (Some (take (n * BLCK) (drop (i * BLCK) S))) s v = (Inr s', v') \<and>
     at_file rw rl p ks kt st s' \<and> copied rw p w (put_range E kt pl X (i, n)) v'"
proof -
  let ?d = "path_in (datadir_target rw) p" and ?e = "blocks_enc E of_nat kt MAIN_FORKNUM i n pl"
  obtain s1 s2 v1 where o: "open_target_file rw p False s v = (Inr s1, v)" "ensure_tde_keys ev rw p s1 v = (Inr s2, v1)"
      "at_file rw rl p ks kt st s2" "copied rw p w X v1"
    using open_file_ok [OF assms(1-3)] by blast
  have s2: "has_keys (current_tde_file s2) ks kt" "dstpath s2 = Some ?d" "block_no rw (current_tde_file s2) = of_nat" using o(3) by (auto simp: at_file_def)
  have c: "\<not> dry_run rw" "evp_is ev E" "page_cipher_ok E" using assms(1) by (auto simp: copy_ready_def plain_run_def)
  have h: "blocks_hold E of_nat ks MAIN_FORKNUM S i n pl" "0 < n" using assms(4) by (simp_all add: range_in_def)
  obtain v2 where v2: "reencrypt_chunk ev rw (current_tde_file s2) (take (n * BLCK) (drop (i * BLCK) S)) (i * BLCK) v1 = (Inr ?e, v2)" "after_block v1 v2"
    using reencrypt_chunk_ok [OF s2(1) c(2,3), of rw S i n pl v1] h(1) s2(3) o(4) by (auto simp: copied_def)
  have cp: "copied rw p w X v2" using v2(2) o(4) by (simp add: copied_def after_block_def)
  have "?e \<noteq> []" using length_blocks_enc [OF c(3) h(1), of kt] h(2) by auto
  then have wr: "write_target_range rw s2 ?e (i * BLCK) v2 = (Inr (), set_file ?d (pwrite X ?e (i * BLCK)) v2)"
    using write_target_ok [OF c(1) s2(2)] cp copied_keys(5) [OF assms(1) cp] by (simp add: file_bytes_def copied_def)
  have "receive_chunk ev rw (request p (i, n)) p (i * BLCK) (Some (take (n * BLCK) (drop (i * BLCK) S))) s v =
      (Inr s2, set_file ?d (pwrite X ?e (i * BLCK)) v2)"
    using o(1,2) v2(1) wr by (simp add: receive_chunk_def request_def runM)
  moreover have "copied rw p w (put_range E kt pl X (i, n)) (set_file ?d (pwrite X ?e (i * BLCK)) v2)"
    using cp by (simp add: copied_def put_range_def set_file_def ctxs_inv_def)
  ultimately show ?thesis using o(3) by blast
qed

lemma receive_chunks_ok:
  assumes "copy_ready ev rw E p st rl pks Ps ks pkt Pt kt w S T" "files p = Some S"
  shows "copied rw p w X v \<Longrightarrow> at_file rw rl p ks kt st s \<or> s = st \<and> cs \<noteq> [] \<Longrightarrow> \<forall>r\<in>set cs. range_in E ks S pl r \<Longrightarrow>
     \<exists>s' v'. receive_chunks ev rw (map (request p) (ds @ cs)) (length ds) (map (row_for files) (map (request p) cs) @ [PGRES_TUPLES_OK]) s v = (Inr s', v') \<and>
       at_file rw rl p ks kt st s' \<and> copied rw p w (foldl (put_range E kt pl) X cs) v'"
proof (induction cs arbitrary: ds X s v)
  case Nil
  then show ?case by (auto simp: runM)
next
  case (Cons r cs)
  obtain i n where r: "r = (i, n)" by (cases r)
  obtain s1 v1 where c: "receive_chunk ev rw (request p (i, n)) p (i * BLCK) (Some (take (n * BLCK) (drop (i * BLCK) S))) s v = (Inr s1, v1)"
      "at_file rw rl p ks kt st s1" "copied rw p w (put_range E kt pl X (i, n)) v1"
    using receive_chunk_ok [OF assms(1) Cons.prems(1), of s pl i n] Cons.prems(2,3) r by auto
  obtain s' v' where s': "receive_chunks ev rw (map (request p) ((ds @ [r]) @ cs)) (length (ds @ [r])) (map (row_for files) (map (request p) cs) @ [PGRES_TUPLES_OK]) s1 v1 = (Inr s', v')"
      "at_file rw rl p ks kt st s'" "copied rw p w (foldl (put_range E kt pl) (put_range E kt pl X r) cs) v'"
    using Cons.IH [OF c(3), of s1 "ds @ [r]"] c(2) Cons.prems(3) r by auto
  have "map (request p) (ds @ r # cs) ! length ds = request p (i, n)" by (simp add: nth_append r)
  moreover have "row_for files (request p r) = PGRES_SINGLE_TUPLE p (i * BLCK) (Some (take (n * BLCK) (drop (i * BLCK) S)))"
    using assms(2) by (simp add: row_for_def request_def r)
  ultimately show ?case using c(1) s' by (simp add: runM)
qed

lemma process_ok:
  assumes "copy_ready ev rw E p st rl pks Ps ks pkt Pt kt w S T" "server_documented srv files" "files p = Some S"
    and "copied rw p w X v" "at_file rw rl p ks kt st s \<or> s = st" "cs \<noteq> []" "\<forall>r\<in>set cs. range_in E ks S pl r"
  shows "\<exists>s' v'. process_queued_fetch_requests ev rw srv (s, map (request p) cs) v = (Inr (s', []), v') \<and>
       at_file rw rl p ks kt st s' \<and> copied rw p w (foldl (put_range E kt pl) X cs) v'"
  using receive_chunks_ok [where ds = "[]" and files = files and s = s, OF assms(1,3,4) _ assms(7)] assms(5,6) server_answers [OF assms(2), of "map (request p) cs"]
  by (auto simp: process_queued_fetch_requests_def runM)

section \<open>The queue\<close>

lemma pwrite_continued: "pwrite (pwrite f a off) b (off + length a) = pwrite f (a @ b) off"
  by (cases "off \<le> length f") (simp_all add: pwrite_def ac_simps)

lemma blocks_enc_append: "blocks_enc E bn kt fk i (n + m) pl = blocks_enc E bn kt fk i n pl @ blocks_enc E bn kt fk (i + n) m pl"
  using upt_add_eq_append [of i "i + n" m] by (simp add: blocks_enc_def add.assoc)

lemma put_range_join:
  assumes "page_cipher_ok E" "range_in E ks S pl (i, n)"
  shows "put_range E kt pl (put_range E kt pl X (i, n)) (i + n, m) = put_range E kt pl X (i, n + m)"
proof -
  have "length (blocks_enc E of_nat kt MAIN_FORKNUM i n pl) = n * BLCK"
    using assms(2) by (intro length_blocks_enc [OF assms(1), of _ ks _ S]) (simp add: range_in_def)
  then show ?thesis
    using pwrite_continued [of X "blocks_enc E of_nat kt MAIN_FORKNUM i n pl" "i * BLCK"] by (simp add: put_range_def blocks_enc_append add_mult_distrib)
qed

lemma range_in_join: "range_in E ks S pl (i, n) \<Longrightarrow> range_in E ks S pl (i + n, m) \<Longrightarrow> range_in E ks S pl (i, n + m)"
proof -
  assume a: "range_in E ks S pl (i, n)" "range_in E ks S pl (i + n, m)"
  have "page_holds E ks MAIN_FORKNUM (of_nat j) (blk S j) (pl j)" if "i \<le> j" "j < i + (n + m)" for j
    using a that by (cases "j < i + n") (simp_all add: range_in_def blocks_hold_def)
  then show ?thesis using a by (simp add: range_in_def blocks_hold_def add.assoc)
qed

lemma range_in_split:
  assumes "range_in E ks S pl (i, n)"
  shows "0 < m \<Longrightarrow> m \<le> n \<Longrightarrow> range_in E ks S pl (i, m)" "m < n \<Longrightarrow> range_in E ks S pl (i + m, n - m)"
  using assms by (auto simp: range_in_def blocks_hold_def)

text \<open>The queue holds ranges of the file that are still to be written; \<open>Y\<close> is the file once they are.\<close>

definition queued where
  "queued rw rl p E ks kt S pl st w Y s v \<longleftrightarrow> (\<exists>X cs. snd s = map (request p) cs \<and> (\<forall>r\<in>set cs. range_in E ks S pl r) \<and>
     copied rw p w X v \<and> (at_file rw rl p ks kt st (fst s) \<or> fst s = st) \<and> foldl (put_range E kt pl) X cs = Y)"

lemma merge_ok:
  assumes "page_cipher_ok E" "\<forall>r\<in>set cs. range_in E ks S pl r" "range_in E ks S pl (i, n)"
  shows "\<exists>cs' m. merge_request p (i * BLCK) (n * BLCK) (map (request p) cs) = (map (request p) cs', m * BLCK) \<and> m \<le> n \<and>
     (0 < m \<longrightarrow> cs' \<noteq> []) \<and> (\<forall>r\<in>set cs'. range_in E ks S pl r) \<and>
     foldl (put_range E kt pl) X cs' = (if m = 0 then foldl (put_range E kt pl) X cs else put_range E kt pl (foldl (put_range E kt pl) X cs) (i, m))"
proof (cases "\<exists>cs0 a c. cs = cs0 @ [(a, c)] \<and> a + c = i \<and> c < 128")
  case True
  then obtain cs0 a c where c: "cs = cs0 @ [(a, c)]" "a + c = i" "c < 128" by blast
  let ?m = "min n (128 - c)"
  have "0 < n" using assms(3) by (simp add: range_in_def)
  then have m: "0 < ?m" "?m \<le> n" and m0: "(?m = 0) = False" using c(3) by auto
  have "min (n * BLCK) (MAX_CHUNK_SIZE - c * BLCK) = ?m * BLCK" using c(3) unfolding MAX_CHUNK_SIZE_def min_def by auto
  then have "merge_request p (i * BLCK) (n * BLCK) (map (request p) cs) = (map (request p) (cs0 @ [(a, c + ?m)]), ?m * BLCK)"
    using c by (auto simp: merge_request_def request_def MAX_CHUNK_SIZE_def Let_def add_mult_distrib)
  moreover have "range_in E ks S pl (a, c + ?m)"
    using assms(2) c(1,2) range_in_split(1) [OF assms(3) m] range_in_join [of E ks S pl a c ?m] by simp
  moreover have "put_range E kt pl (foldl (put_range E kt pl) X cs0) (a, c + ?m) = put_range E kt pl (foldl (put_range E kt pl) X cs) (i, ?m)"
    using put_range_join [OF assms(1), of ks S pl a c] assms(2) c by simp
  ultimately show ?thesis using m assms(2) c(1) by (intro exI [of _ "cs0 @ [(a, c + ?m)]"] exI [of _ ?m]) (simp add: m0)
next
  case False
  have "merge_request p (i * BLCK) (n * BLCK) (map (request p) cs) = (map (request p) cs, 0 * BLCK)"
  proof (cases cs rule: rev_cases)
    case (snoc cs0 r)
    obtain a c where "r = (a, c)" by (cases r)
    then have "\<not> (a * BLCK + c * BLCK = i * BLCK \<and> c * BLCK < 128 * BLCK)" using False snoc by auto
    then show ?thesis using snoc \<open>r = (a, c)\<close> by (auto simp: merge_request_def request_def MAX_CHUNK_SIZE_def)
  qed (simp add: merge_request_def)
  then show ?thesis using assms(2) by (intro exI [of _ cs] exI [of _ 0]) simp
qed

lemma queue_chunks_ok:
  assumes "copy_ready ev rw E p st rl pks Ps ks pkt Pt kt w S T" "server_documented srv files" "files p = Some S"
  shows "queued rw rl p E ks kt S pl st w Y s v \<Longrightarrow> 0 < n \<longrightarrow> range_in E ks S pl (i, n) \<Longrightarrow>
     \<exists>s' v'. queue_chunks ev rw srv p True (i * BLCK) (n * BLCK) s v = (Inr s', v') \<and>
       queued rw rl p E ks kt S pl st w (if n = 0 then Y else put_range E kt pl Y (i, n)) s' v' \<and> (if n = 0 then s' = s else snd s' \<noteq> [])"
proof (induction n arbitrary: i Y s v rule: less_induct)
  case (less n)
  show ?case
  proof (cases "n = 0")
    case True
    then show ?thesis using less.prems(1) by (simp add: queue_chunks.simps)
  next
    case False
    let ?t = "min n 128"
    have t: "0 < ?t" "?t \<le> n" "min (n * BLCK) MAX_CHUNK_SIZE = ?t * BLCK" using False by (auto simp: MAX_CHUNK_SIZE_def min_def)
    have r: "range_in E ks S pl (i, n)" using less.prems(2) False by simp
    obtain s1 v1 where s1: "(if length (snd s) = MAX_CHUNKS_PER_QUERY then process_queued_fetch_requests ev rw srv s else ret s) v = (Inr s1, v1)"
        "queued rw rl p E ks kt S pl st w Y s1 v1"
    proof (cases "length (snd s) = MAX_CHUNKS_PER_QUERY")
      case True
      obtain X cs where x: "snd s = map (request p) cs" "\<forall>r\<in>set cs. range_in E ks S pl r" "copied rw p w X v"
          "at_file rw rl p ks kt st (fst s) \<or> fst s = st" "foldl (put_range E kt pl) X cs = Y"
        using less.prems(1) by (auto simp: queued_def)
      have "cs \<noteq> []" using True x(1) by (auto simp: MAX_CHUNKS_PER_QUERY_def)
      from process_ok [OF assms x(3,4) this x(2)] obtain s' v' where
        "process_queued_fetch_requests ev rw srv (fst s, map (request p) cs) v = (Inr (s', []), v')" "at_file rw rl p ks kt st s'" "copied rw p w Y v'"
        using x(5) by auto
      moreover have "(fst s, map (request p) cs) = s" using x(1) by (metis prod.collapse)
      ultimately show ?thesis using True that [of "(s', [])" v'] by (auto simp: queued_def)
    qed (use less.prems(1) that in simp)
    let ?q = "(fst s1, snd s1 @ [request p (i, ?t)])"
    have q: "queued rw rl p E ks kt S pl st w (put_range E kt pl Y (i, ?t)) ?q v1"
    proof -
      obtain X cs where x: "snd s1 = map (request p) cs" "\<forall>r\<in>set cs. range_in E ks S pl r" "copied rw p w X v1"
          "at_file rw rl p ks kt st (fst s1) \<or> fst s1 = st" "foldl (put_range E kt pl) X cs = Y"
        using s1(2) by (auto simp: queued_def)
      then show ?thesis unfolding queued_def
        using range_in_split(1) [OF r t(1,2)] by (intro exI [of _ X] exI [of _ "cs @ [(i, ?t)]"]) (auto simp del: min_less_iff_conj)
    qed
    have step: "queue_chunks ev rw srv p True (i * BLCK) (n * BLCK) s v = queue_chunks ev rw srv p True ((i + ?t) * BLCK) ((n - ?t) * BLCK) ?q v1"
      using s1(1) False t(3) by (cases s1) (simp add: queue_chunks.simps [of ev rw srv p True "i * BLCK"] runM Let_def request_def add_mult_distrib diff_mult_distrib)
    have "n - ?t < n" "0 < n - ?t \<longrightarrow> range_in E ks S pl (i + ?t, n - ?t)" using t r range_in_split(2) [OF r, of ?t] by auto
    from less.IH [OF this(1) q this(2)] obtain s' v' where s': "queue_chunks ev rw srv p True ((i + ?t) * BLCK) ((n - ?t) * BLCK) ?q v1 = (Inr s', v')"
        "queued rw rl p E ks kt S pl st w (if n - ?t = 0 then put_range E kt pl Y (i, ?t) else put_range E kt pl (put_range E kt pl Y (i, ?t)) (i + ?t, n - ?t)) s' v'"
        "if n - ?t = 0 then s' = ?q else snd s' \<noteq> []" by blast
    have "page_cipher_ok E" using assms(1) by (simp add: copy_ready_def)
    then have "(if n - ?t = 0 then put_range E kt pl Y (i, ?t) else put_range E kt pl (put_range E kt pl Y (i, ?t)) (i + ?t, n - ?t)) = put_range E kt pl Y (i, n)"
      using put_range_join [OF _ range_in_split(1) [OF r t(1,2)], of kt Y "n - ?t"] t(2) by (auto simp del: min_less_iff_conj)
    moreover have "snd s' \<noteq> []" using s'(3) by (auto split: if_splits)
    ultimately show ?thesis using step s'(1,2) False by (intro exI [of _ s'] exI [of _ v']) simp
  qed
qed

lemma libpq_range_ok:
  assumes "copy_ready ev rw E p st rl pks Ps ks pkt Pt kt w S T" "server_documented srv files" "files p = Some S"
    and "queued rw rl p E ks kt S pl st w Y s v" "range_in E ks S pl (i, n)"
  shows "\<exists>s' v'. libpq_queue_fetch_range ev rw srv p (i * BLCK) (n * BLCK) s v = (Inr s', v') \<and>
     queued rw rl p E ks kt S pl st w (put_range E kt pl Y (i, n)) s' v' \<and> snd s' \<noteq> []"
proof -
  obtain X cs where x: "snd s = map (request p) cs" "\<forall>r\<in>set cs. range_in E ks S pl r" "copied rw p w X v"
      "at_file rw rl p ks kt st (fst s) \<or> fst s = st" "foldl (put_range E kt pl) X cs = Y"
    using assms(4) by (auto simp: queued_def)
  have E: "page_cipher_ok E" using assms(1) by (simp add: copy_ready_def)
  have n: "0 < n" using assms(5) by (simp add: range_in_def)
  obtain cs' m where m: "merge_request p (i * BLCK) (n * BLCK) (snd s) = (map (request p) cs', m * BLCK)" "m \<le> n" "0 < m \<longrightarrow> cs' \<noteq> []"
      "\<forall>r\<in>set cs'. range_in E ks S pl r" "foldl (put_range E kt pl) X cs' = (if m = 0 then Y else put_range E kt pl Y (i, m))"
    using merge_ok [OF E x(2) assms(5)] x(1,5) by metis
  let ?s = "(fst s, map (request p) cs')"
  have q: "queued rw rl p E ks kt S pl st w (if m = 0 then Y else put_range E kt pl Y (i, m)) ?s v"
    unfolding queued_def using x(3,4) m(4,5) by (intro exI [of _ X] exI [of _ cs']) simp
  have "0 < n - m \<longrightarrow> range_in E ks S pl (i + m, n - m)" using range_in_split(2) [OF assms(5), of m] by simp
  from queue_chunks_ok [OF assms(1-3) q this] obtain s' v' where
    s': "queue_chunks ev rw srv p True ((i + m) * BLCK) ((n - m) * BLCK) ?s v = (Inr s', v')"
      "queued rw rl p E ks kt S pl st w (if n - m = 0 then (if m = 0 then Y else put_range E kt pl Y (i, m))
         else put_range E kt pl (if m = 0 then Y else put_range E kt pl Y (i, m)) (i + m, n - m)) s' v'"
      "if n - m = 0 then s' = ?s else snd s' \<noteq> []" by blast
  have "(if n - m = 0 then (if m = 0 then Y else put_range E kt pl Y (i, m))
         else put_range E kt pl (if m = 0 then Y else put_range E kt pl Y (i, m)) (i + m, n - m)) = put_range E kt pl Y (i, n)"
    using put_range_join [OF E range_in_split(1) [OF assms(5), of m], of kt Y "n - m"] m(2) n by (cases "m = 0"; cases "n = m") simp_all
  moreover have "libpq_queue_fetch_range ev rw srv p (i * BLCK) (n * BLCK) s v = (Inr s', v')"
    using m(1) s'(1) by (cases s) (simp add: libpq_queue_fetch_range_def libpq_queue_process_fetch_range_def add_mult_distrib diff_mult_distrib)
  moreover have "snd s' \<noteq> []" using s'(3) m(2,3) n by (auto split: if_splits)
  ultimately show ?thesis using s'(2) by (intro exI [of _ s'] exI [of _ v']) simp
qed

section \<open>The two sources\<close>

text \<open>The ranges of a file one after the other, with the operation of either source.\<close>

fun fetch_ranges :: "(nat \<Rightarrow> nat \<Rightarrow> 's \<Rightarrow> 's tdeM) \<Rightarrow> (nat \<times> nat) list \<Rightarrow> 's \<Rightarrow> 's tdeM" where
  "fetch_ranges f [] s = ret s"
| "fetch_ranges f ((i, n) # rs) s = bindM (f (i * BLCK) (n * BLCK) s) (fetch_ranges f rs)"

lemma length_put_range: "length X \<le> length (put_range E kt pl X r)"
  by (simp add: put_range_def length_pwrite split: prod.splits)

lemma local_ranges_ok:
  assumes "copy_ready ev rw E p st rl pks Ps ks pkt Pt kt w S T"
  shows "copied rw p w X v \<Longrightarrow> at_file rw rl p ks kt st s \<or> s = st \<and> rs \<noteq> [] \<Longrightarrow> \<forall>r\<in>set rs. range_in E ks S pl r \<and> fst r * BLCK \<le> length X \<Longrightarrow>
     \<exists>s' v'. fetch_ranges (local_queue_fetch_range ev rw p) rs s v = (Inr s', v') \<and> at_file rw rl p ks kt st s' \<and>
       copied rw p w (foldl (put_range E kt pl) X rs) v'"
proof (induction rs arbitrary: X s v)
  case (Cons r rs)
  obtain i n where r: "r = (i, n)" by (cases r)
  obtain s1 v1 where s1: "local_queue_fetch_range ev rw p (i * BLCK) (n * BLCK) s v = (Inr s1, v1)" "at_file rw rl p ks kt st s1"
      "copied rw p w (put_range E kt pl X r) v1"
    using local_range_ok [OF assms Cons.prems(1), of s pl i n] Cons.prems(2,3) r by auto
  have "\<forall>r'\<in>set rs. range_in E ks S pl r' \<and> fst r' * BLCK \<le> length (put_range E kt pl X r)"
    using Cons.prems(3) length_put_range [of X E kt pl r] by (auto intro: order_trans)
  then show ?case using Cons.IH [OF s1(3)] s1(1,2) r by (auto simp: runM)
qed auto

lemma libpq_ranges_ok:
  assumes "copy_ready ev rw E p st rl pks Ps ks pkt Pt kt w S T" "server_documented srv files" "files p = Some S"
  shows "queued rw rl p E ks kt S pl st w Y s v \<Longrightarrow> snd s \<noteq> [] \<or> rs \<noteq> [] \<Longrightarrow> \<forall>r\<in>set rs. range_in E ks S pl r \<Longrightarrow>
     \<exists>s' v'. fetch_ranges (libpq_queue_fetch_range ev rw srv p) rs s v = (Inr s', v') \<and> snd s' \<noteq> [] \<and>
       queued rw rl p E ks kt S pl st w (foldl (put_range E kt pl) Y rs) s' v'"
proof (induction rs arbitrary: Y s v)
  case (Cons r rs)
  obtain i n where r: "r = (i, n)" by (cases r)
  obtain s1 v1 where s1: "libpq_queue_fetch_range ev rw srv p (i * BLCK) (n * BLCK) s v = (Inr s1, v1)"
      "queued rw rl p E ks kt S pl st w (put_range E kt pl Y r) s1 v1" "snd s1 \<noteq> []"
    using libpq_range_ok [OF assms Cons.prems(1), of i n] Cons.prems(3) r by auto
  then show ?case using Cons.IH [OF s1(2)] Cons.prems(3) r by (auto simp: runM)
qed auto

lemma finish_ok:
  assumes "copy_ready ev rw E p st rl pks Ps ks pkt Pt kt w S T" "copied rw p w X v" "at_file rw rl p ks kt st s"
  shows "\<exists>v'. flush_current_tde_rel_key ev rw s v = (Inr (s\<lparr>current_tde_file := no_file\<rparr>), v') \<and> rel_key (source_env ev st) pks Ps rl kt v' \<and>
     disk v' (path_in (datadir_target rw) p) = Some X \<and>
     (\<forall>fk\<in>{FSM_FORKNUM, VISIBILITYMAP_FORKNUM}. fork_change E of_nat ks kt fk (disk w (fork_path rw rl fk)) (disk v' (fork_path rw rl fk)))"
proof -
  let ?K = "open_pg_tde_set_db_file_path (source_env ev st) (dbOid rl)" and ?d = "path_in (datadir_target rw) p"
  have c: "plain_run rw" "files_apart ev rw st rl Ps Pt {p}" "relNumber rl \<noteq> 0" "evp_is ev E" "page_cipher_ok E" "gcm_ok ev" "rand_ok ev"
      "?d \<notin> insert ?K (forks_of rw rl)"
      "\<forall>fk\<in>{FSM_FORKNUM, VISIBILITYMAP_FORKNUM}. fork_readable E of_nat ks fk (disk w (fork_path rw rl fk))"
    using assms(1) by (auto simp: copy_ready_def files_apart_def Let_def)
  note k = copied_keys [OF assms(1,2)]
  obtain cur where cur: "s = st\<lparr>dstpath := Some ?d, current_tde_file := cur\<rparr>" "has_keys cur ks kt" "rlocator cur = rl" "block_no rw cur = of_nat"
    using assms(3) by (auto simp: at_file_def)
  have cx: "ctxs_inv v" using assms(2) by (simp add: copied_def)
  have fk: "disk v (fork_path rw rl f) = disk w (fork_path rw rl f)" if "f \<in> {FSM_FORKNUM, VISIBILITYMAP_FORKNUM}" for f
    using that k(3) by (auto simp: forks_of_def)
  obtain v' where v': "flush_current_tde_rel_key ev rw s v = (Inr (s\<lparr>current_tde_file := no_file\<rparr>), v')" "rel_key (source_env ev st) pks Ps rl kt v'"
      "\<forall>q. q \<notin> insert ?K (forks_of rw rl) \<longrightarrow> disk v' q = disk v q"
      "\<forall>fk\<in>{FSM_FORKNUM, VISIBILITYMAP_FORKNUM}. fork_change E of_nat ks kt fk (disk v (fork_path rw rl fk)) (disk v' (fork_path rw rl fk))"
    using flush_file_ok [OF c(1,2) _ cur(2,3) c(3) _ _ c(4-7) cx k(1,2), of s] rel_key_wf [OF k(2)] cur(1,4) c(9) fk by auto
  then show ?thesis using k(5) c(8) fk by (intro exI [of _ v']) simp
qed

lemma ranges_written:
  assumes "page_cipher_ok E"
  shows "\<forall>r\<in>set rs. range_in E ks S pl r \<and> fst r * BLCK \<le> length X \<Longrightarrow> blk (foldl (put_range E kt pl) X rs) j =
     (if \<exists>(i, n)\<in>set rs. i \<le> j \<and> j < i + n then page_enc E kt MAIN_FORKNUM (of_nat j) (pl j) else blk X j)"
proof (induction rs arbitrary: X)
  case (Cons r rs)
  obtain i n where r: "r = (i, n)" by (cases r)
  have "blk (put_range E kt pl X r) j = (if i \<le> j \<and> j < i + n then page_enc E kt MAIN_FORKNUM (of_nat j) (pl j) else blk X j)"
    using blocks_written [OF assms, of of_nat ks MAIN_FORKNUM S i n pl X kt j] Cons.prems r by (simp add: put_range_def range_in_def)
  moreover have "\<forall>r'\<in>set rs. range_in E ks S pl r' \<and> fst r' * BLCK \<le> length (put_range E kt pl X r)"
    using Cons.prems length_put_range [of X E kt pl r] by (auto intro: order_trans)
  ultimately show ?case using Cons.IH r by auto
qed simp

text \<open>
  C23. A source server that is reached through a connection and answers the query as documented gives the same result as a local one. Whatever ranges of
  an encrypted relation file are fetched, in any order, however they are merged, split into chunks and sent in batches: the program ends with
  the same file of the target, in which the fetched blocks hold the pages of the source under the key of the target and the others are as they
  were, the two forks are re-encrypted, and the key of the target is in the copy of the key files; no request is left.
\<close>

theorem libpq_source_agrees:
  assumes "copy_ready ev rw E p st rl pks Ps ks pkt Pt kt w S T" "server_documented srv files" "files p = Some S"
    and "rs \<noteq> []" "\<forall>(i, n)\<in>set rs. 0 < n \<and> i * BLCK \<le> length T \<and> (i + n) * BLCK \<le> length S \<and>
       (\<forall>j. i \<le> j \<and> j < i + n \<longrightarrow> page_holds E ks MAIN_FORKNUM (of_nat j) (blk S j) (pl j))"
  shows "\<exists>st1 w1 st2 w2 T'.
     bindM (fetch_ranges (local_queue_fetch_range ev rw p) rs st) (local_finish_fetch ev rw) w = (Inr st1, w1) \<and>
     bindM (fetch_ranges (libpq_queue_fetch_range ev rw srv p) rs (st, [])) (libpq_finish_fetch ev rw srv) w = (Inr (st2, []), w2) \<and>
     disk w1 (path_in (datadir_target rw) p) = Some T' \<and> disk w2 (path_in (datadir_target rw) p) = Some T' \<and>
     (\<forall>j. if \<exists>(i, n)\<in>set rs. i \<le> j \<and> j < i + n
        then (\<not> all_zero 32 (blk T' j) \<longrightarrow> page_holds E kt MAIN_FORKNUM (of_nat j) (blk T' j) (pl j)) else blk T' j = blk T j) \<and>
     (\<forall>fk\<in>{FSM_FORKNUM, VISIBILITYMAP_FORKNUM}. fork_change E of_nat ks kt fk (disk w (fork_path rw rl fk)) (disk w2 (fork_path rw rl fk))) \<and>
     rel_key (source_env ev st) pks Ps rl kt w1 \<and> rel_key (source_env ev st) pks Ps rl kt w2"
proof -
  let ?T = "foldl (put_range E kt pl) T rs"
  have E: "page_cipher_ok E" using assms(1) by (simp add: copy_ready_def)
  have rs: "\<forall>r\<in>set rs. range_in E ks S pl r \<and> fst r * BLCK \<le> length T" using assms(5) by (auto simp: range_in_def blocks_hold_def)
  have w: "copied rw p w T w"
    using assms(1) rel_key_wf [of "source_env ev st" pks Ps rl ks w] by (auto simp: copied_def copy_ready_def fun_upd_idem)
  obtain s1 v1 where l: "fetch_ranges (local_queue_fetch_range ev rw p) rs st w = (Inr s1, v1)" "at_file rw rl p ks kt st s1" "copied rw p w ?T v1"
    using local_ranges_ok [OF assms(1) w _ rs, of st] assms(4) by blast
  obtain w1 where w1: "flush_current_tde_rel_key ev rw s1 v1 = (Inr (s1\<lparr>current_tde_file := no_file\<rparr>), w1)" "rel_key (source_env ev st) pks Ps rl kt w1"
      "disk w1 (path_in (datadir_target rw) p) = Some ?T"
    using finish_ok [OF assms(1) l(3,2)] by blast
  have "queued rw rl p E ks kt S pl st w T (st, []) w" unfolding queued_def using w by (intro exI [of _ T] exI [of _ "[]"]) simp
  then obtain s2 v2 where q: "fetch_ranges (libpq_queue_fetch_range ev rw srv p) rs (st, []) w = (Inr s2, v2)" "snd s2 \<noteq> []"
      "queued rw rl p E ks kt S pl st w ?T s2 v2"
    using libpq_ranges_ok [OF assms(1-3)] assms(4) rs by blast
  from q(3) obtain X cs where x: "s2 = (fst s2, map (request p) cs)" "\<forall>r\<in>set cs. range_in E ks S pl r" "copied rw p w X v2"
      "at_file rw rl p ks kt st (fst s2) \<or> fst s2 = st" "foldl (put_range E kt pl) X cs = ?T"
    unfolding queued_def by (metis prod.collapse)
  have "cs \<noteq> []" using q(2) x(1) by (metis list.map_disc_iff snd_conv)
  from process_ok [OF assms(1-3) x(3,4) this x(2)] obtain s3 v3 where
    p: "process_queued_fetch_requests ev rw srv s2 v2 = (Inr (s3, []), v3)" "at_file rw rl p ks kt st s3" "copied rw p w ?T v3"
    using x(1,5) by metis
  obtain w2 where w2: "flush_current_tde_rel_key ev rw s3 v3 = (Inr (s3\<lparr>current_tde_file := no_file\<rparr>), w2)" "rel_key (source_env ev st) pks Ps rl kt w2"
      "disk w2 (path_in (datadir_target rw) p) = Some ?T"
      "\<forall>fk\<in>{FSM_FORKNUM, VISIBILITYMAP_FORKNUM}. fork_change E of_nat ks kt fk (disk w (fork_path rw rl fk)) (disk w2 (fork_path rw rl fk))"
    using finish_ok [OF assms(1) p(3,2)] by blast
  have "if \<exists>(i, n)\<in>set rs. i \<le> j \<and> j < i + n
        then (\<not> all_zero 32 (blk ?T j) \<longrightarrow> page_holds E kt MAIN_FORKNUM (of_nat j) (blk ?T j) (pl j)) else blk ?T j = blk T j" for j
    using ranges_written [OF E rs, of kt j] page_enc_holds [OF E, of "pl j" kt MAIN_FORKNUM "of_nat j"] assms(5) by (auto simp: page_holds_def)
  moreover have "bindM (fetch_ranges (local_queue_fetch_range ev rw p) rs st) (local_finish_fetch ev rw) w = (Inr (s1\<lparr>current_tde_file := no_file\<rparr>), w1)"
    using l(1) w1(1) by (simp add: runM local_finish_fetch_def)
  moreover have "bindM (fetch_ranges (libpq_queue_fetch_range ev rw srv p) rs (st, [])) (libpq_finish_fetch ev rw srv) w = (Inr (s3\<lparr>current_tde_file := no_file\<rparr>, []), w2)"
    using q(1) p(1) w2(1) by (simp add: runM libpq_finish_fetch_def)
  ultimately show ?thesis using w1(2,3) w2(2-4) by blast
qed

section \<open>A run on concrete files\<close>

definition demo_server :: server where
  "demo_server = \<lparr>fetch_chunks_stmt = (\<lambda>p o' l.
     map (\<lambda>(path, off, len). PGRES_SINGLE_TUPLE path off (if path = ''base/5/16384'' then Some (take len (drop off demo_block)) else None))
       (zip (array_strings p) (zip (array_numbers o') (array_numbers l))) @ [PGRES_TUPLES_OK]),
     pg_ls_dir = (\<lambda>d. Some []), pg_read_binary_file = (\<lambda>p. None), file_list = Some []\<rparr>"

lemma demo_server_documented: "server_documented demo_server [''base/5/16384'' \<mapsto> demo_block]"
  by (auto simp: server_documented_def demo_server_def intro!: map_cong)

theorem libpq_source_agrees_witness:
  "\<exists>fs ft st1 w1 st2 w2 T'.
     bindM (fetch_ranges (local_queue_fetch_range demo_env demo_rw ''base/5/16384'') [(0, 1), (0, 1)] demo_rewind_state) (local_finish_fetch demo_env demo_rw)
       (demo_rewind_world fs ft) = (Inr st1, w1) \<and>
     bindM (fetch_ranges (libpq_queue_fetch_range demo_env demo_rw demo_server ''base/5/16384'') [(0, 1), (0, 1)] (demo_rewind_state, []))
       (libpq_finish_fetch demo_env demo_rw demo_server) (demo_rewind_world fs ft) = (Inr (st2, []), w2) \<and>
     disk w1 ''t/base/5/16384'' = Some T' \<and> disk w2 ''t/base/5/16384'' = Some T' \<and>
     rel_key (fe_env demo_env ''x'') demo_ring_pk (demo_provider_files ''x'') demo_rel demo_key2 w2"
proof -
  obtain fs ft where k: "rel_key (source_env demo_env demo_rewind_state) demo_ring_pk (demo_provider_files ''x'') demo_rel demo_key (demo_rewind_world fs ft)"
      "rel_key (target_env demo_env demo_rw) demo_ring_pk (demo_provider_files ''t/open_pg_tde'') demo_rel demo_key2 (demo_rewind_world fs ft)"
      "ctxs_inv (demo_rewind_world fs ft)" using demo_rewind_ready by blast
  let ?pl = "\<lambda>j :: nat. demo_mask (ik_material demo_key) (CalcBlockIv MAIN_FORKNUM (of_nat j) (ik_base_iv demo_key)) demo_block"
  have "files_apart demo_env demo_rw demo_rewind_state demo_rel (demo_provider_files ''x'') (demo_provider_files ''t/open_pg_tde'') {''base/5/16384''}"
    by (simp add: files_apart_def Let_def demo_rewind_simps demo_forks demo_provider_files_def)
  moreover have "length (datadir_target demo_rw) + 1 + length ''base/5/16384'' < MAXPGPATH" by (simp add: demo_rw_def MAXPGPATH_def)
  ultimately have r: "copy_ready demo_env demo_rw demo_E ''base/5/16384'' demo_rewind_state demo_rel demo_ring_pk (demo_provider_files ''x'') demo_key
      demo_ring_pk (demo_provider_files ''t/open_pg_tde'') demo_key2 (demo_rewind_world fs ft) demo_block []"
    unfolding copy_ready_def using k demo_plain_run demo_evp_is demo_page_cipher_ok demo_gcm_ok demo_rand_ok
    by (simp add: demo_rewind_simps demo_rlocators demo_forks fork_readable_def)
  have "blk demo_block 0 = demo_block" by (simp add: blk_def demo_block_def)
  then have "\<forall>(i, n)\<in>set [(0, 1), (0, 1)]. 0 < n \<and> i * BLCK \<le> length ([] :: bytes) \<and> (i + n) * BLCK \<le> length demo_block \<and>
      (\<forall>j. i \<le> j \<and> j < i + n \<longrightarrow> page_holds demo_E demo_key MAIN_FORKNUM (of_nat j) (blk demo_block j) (?pl j))"
    using demo_page(1) by (simp add: demo_block_def)
  from libpq_source_agrees [OF r demo_server_documented _ _ this] show ?thesis
    unfolding demo_rewind_simps by (intro exI [of _ fs] exI [of _ ft]) auto
qed

end
