(* ===== verification/Tde_Checksums.thy ===== *)
theory Tde_Checksums
  imports Tde_Filemap Tde_Relkeys
begin

text \<open>
  Page checksums of encrypted relations: \<open>fetools/pg18/pg_checksums/pg_checksums.c\<close>. The program walks the data directory, decrypts the blocks
  of encrypted relations, and compares or sets the checksum in the page header; a block that was changed is encrypted again.

  The record \<open>checksums\<close> holds what comes from PostgreSQL: the page header, the checksum of a page, the fork a name stands for. A directory is the
  list of its entries, those of a symbolic link are the ones of the directory it leads to.
\<close>

type_synonym u16 = "16 word"

record checksums =
  cs_pg :: pg
  PageIsNew :: "bytes \<Rightarrow> bool"
  pd_checksum :: "bytes \<Rightarrow> u16"
  set_pd_checksum :: "u16 \<Rightarrow> bytes \<Rightarrow> bytes"
  pg_checksum_page :: "bytes \<Rightarrow> u32 \<Rightarrow> u16"
  forkname_to_number :: "string \<Rightarrow> ForkNumber option"
  opendir_fails :: "string \<Rightarrow> bool"
  cs_open_fails :: "string \<Rightarrow> bool"
  option_parse_int :: "string \<Rightarrow> bool"
  parse_sync_method :: "string \<Rightarrow> bool"
  sync_pgdata :: "string \<Rightarrow> unit tdeM"
  PG_DATA_CHECKSUM_VERSION :: u32

datatype PgChecksumMode = PG_MODE_CHECK | PG_MODE_DISABLE | PG_MODE_ENABLE

record counters =
  files_scanned :: nat
  files_written :: nat
  blocks_scanned :: nat
  blocks_written :: nat
  badblocks :: nat
  current_size :: nat

definition no_counts :: counters where
  "no_counts = \<lparr>files_scanned = 0, files_written = 0, blocks_scanned = 0, blocks_written = 0, badblocks = 0, current_size = 0\<rparr>"

definition skip :: "(string \<times> bool) list" where
  "skip = [(''pg_control'', False), (''pg_filenode.map'', False), (''pg_internal.init'', True), (''PG_VERSION'', False)]"

definition skipfile :: "string \<Rightarrow> bool" where
  "skipfile fn \<longleftrightarrow> list_ex (\<lambda>(n, match_prefix). if match_prefix then take (length n) fn = n else fn = n) skip"

section \<open>One file\<close>

text \<open>
  Block \<open>i\<close> of the file; \<open>written\<close> counts the blocks written. After a write the position is behind the block again. Every turn advances by a block:
  the size of the file plus one is enough fuel.
\<close>

fun scan_loop :: "env \<Rightarrow> checksums \<Rightarrow> PgChecksumMode \<Rightarrow> InternalKey option \<Rightarrow> string \<Rightarrow> ForkNumber option \<Rightarrow> u32 \<Rightarrow> nat \<Rightarrow> nat \<Rightarrow> counters \<Rightarrow> nat
    \<Rightarrow> (counters \<times> nat) tdeM" where
  "scan_loop ev cs mode key f forknum segmentno 0 i c written = throw (E_state ''out of fuel'')"
| "scan_loop ev cs mode key f forknum segmentno (Suc fuel) i c written =
     bindM (getM (\<lambda>w. pread (file_bytes w f) BLCK (i * BLCK))) (\<lambda>d.
     if d = [] then ret (c, written)
     else
       seqM (check (length d = BLCK) (E_state (''could not read block in file '' @ f)))
       (let c = c\<lparr>blocks_scanned := blocks_scanned c + 1, current_size := current_size c + length d\<rparr>;
            blkno = of_nat i + segmentno * RELSEG_SIZE (cs_pg cs);
            next_block = scan_loop ev cs mode key f forknum segmentno fuel (Suc i)
        in bindM (case (key, forknum) of
                    (Some k, Some fork) \<Rightarrow> tde_decrypt_smgr_block ev k fork blkno d d
                  | _ \<Rightarrow> ret d) (\<lambda>buf.
           if PageIsNew cs buf then next_block c written
           else
             (let csum = pg_checksum_page cs buf blkno in
              case mode of
                PG_MODE_CHECK \<Rightarrow>
                  next_block (if csum \<noteq> pd_checksum cs buf then c\<lparr>badblocks := badblocks c + 1\<rparr> else c) written
              | PG_MODE_ENABLE \<Rightarrow>
                  if pd_checksum cs buf = csum then next_block c written
                  else
                    (let buf = set_pd_checksum cs csum buf in
                     bindM (case (key, forknum) of
                              (Some k, Some fork) \<Rightarrow> tde_encrypt_smgr_block ev k fork blkno buf
                            | _ \<Rightarrow> ret buf) (\<lambda>buf.
                     bindM (pg_pwrite f buf (i * BLCK)) (\<lambda>n.
                     seqM (check (n = int BLCK) (E_write f)) (next_block c (written + 1)))))
              | PG_MODE_DISABLE \<Rightarrow> next_block c written))))"

definition scan_file :: "env \<Rightarrow> checksums \<Rightarrow> PgChecksumMode \<Rightarrow> string \<Rightarrow> RelFileLocator \<Rightarrow> ForkNumber option \<Rightarrow> u32 \<Rightarrow> counters \<Rightarrow> counters tdeM" where
  "scan_file ev cs mode fn rl forknum segmentno c =
     bindM (getM (\<lambda>w. disk w fn)) (\<lambda>f.
     case f of
       None \<Rightarrow> throw (E_open fn)
     | Some b \<Rightarrow>
         seqM (check (\<not> cs_open_fails cs fn) (E_open fn))
         (let c = c\<lparr>files_scanned := files_scanned c + 1\<rparr> in
          bindM (if forknum \<noteq> None then open_pg_tde_get_smgr_key ev rl else ret None) (\<lambda>key.
          bindM (scan_loop ev cs mode key fn forknum segmentno (Suc (length b)) 0 c 0) (\<lambda>(c, written).
          ret (if written > 0 then c\<lparr>files_written := files_written c + 1, blocks_written := blocks_written c + written\<rparr> else c)))))"

section \<open>Directories\<close>

text \<open>\<open>atooid\<close> is \<open>strtoul\<close>, cut to 32 bits.\<close>

definition atooid :: "string \<Rightarrow> Oid" where
  "atooid s = ucast (fst (strtoul s))"

text \<open>The name before a character, and what follows it, if it occurs.\<close>

definition cut_at :: "char \<Rightarrow> string \<Rightarrow> string \<times> string option" where
  "cut_at c s = (takeWhile (\<lambda>x. x \<noteq> c) s, if c \<in> set s then Some (tl (dropWhile (\<lambda>x. x \<noteq> c) s)) else None)"

text \<open>The file node, the fork name and the segment number in the name of a file.\<close>

definition split_name :: "string \<Rightarrow> tde_error + (string \<times> string option \<times> u32)" where
  "split_name d_name =
     (case cut_at (CHR ''.'') (take (MAXPGPATH - 1) d_name) of (fnonly, segmentpath) \<Rightarrow>
      let segmentno = (case segmentpath of None \<Rightarrow> 0 | Some s \<Rightarrow> atoi s) in
      if segmentpath \<noteq> None \<and> segmentno = 0 then Inl (E_state ''invalid segment number'')
      else (case cut_at (CHR ''_'') fnonly of (fnonly, forkpath) \<Rightarrow> Inr (fnonly, forkpath, segmentno)))"

datatype dirent = S_ISREG (d_name: string) | S_ISDIR_or_LNK (d_name: string) "dirent list" | S_OTHER (d_name: string)

definition skipped_entry :: "string \<Rightarrow> bool" where
  "skipped_entry n \<longleftrightarrow> n = ''.'' \<or> n = ''..'' \<or> take 9 n = ''pgsql_tmp'' \<or> n = ''.DS_Store''"

definition PG_TBLSPC_DIR :: string where "PG_TBLSPC_DIR = ''pg_tblspc''"

definition scan_regular :: "env \<Rightarrow> checksums \<Rightarrow> PgChecksumMode \<Rightarrow> string option \<Rightarrow> bool \<Rightarrow> string \<Rightarrow> string \<Rightarrow> Oid \<Rightarrow> string \<Rightarrow> counters \<Rightarrow> (nat \<times> counters) tdeM" where
  "scan_regular ev cs mode only_filenode sizeonly dir subdir tablespace n c =
     (if skipfile n then ret (0, c)
      else
        (case split_name n of
           Inl e \<Rightarrow> throw e
         | Inr (fnonly, forkpath, segmentno) \<Rightarrow>
             if (case only_filenode of None \<Rightarrow> False | Some node \<Rightarrow> node \<noteq> fnonly) then ret (0, c)
             else
               (let fn = path_in dir n;
                    forknum = (case forkpath of None \<Rightarrow> Some MAIN_FORKNUM | Some p \<Rightarrow> forkname_to_number cs p)
                in bindM (getM (\<lambda>w. length (file_bytes w fn))) (\<lambda>st_size.
                   if sizeonly then ret (st_size, c)
                   else
                     bindM (scan_file ev cs mode fn \<lparr>spcOid = tablespace, dbOid = atooid subdir, relNumber = atooid fnonly\<rparr> forknum segmentno c) (\<lambda>c.
                     ret (st_size, c))))))"

lemma find_dirent_size: "find P des = Some (S_ISDIR_or_LNK v es) \<Longrightarrow> size_list size es < size_list size des"
  by (induction des) (auto split: if_splits)

text \<open>
  \<open>scan_entries\<close> is the loop over the entries of the directory \<open>dir\<close>, whose last component is \<open>subdir\<close>; \<open>scan_subdir\<close> is the call for
  a directory or a symbolic link, which below \<open>pg_tblspc\<close> must be a tablespace.
\<close>

function (sequential) scan_entries :: "env \<Rightarrow> checksums \<Rightarrow> PgChecksumMode \<Rightarrow> string option \<Rightarrow> bool \<Rightarrow> string \<Rightarrow> string \<Rightarrow> Oid \<Rightarrow> dirent list \<Rightarrow> counters \<Rightarrow> (nat \<times> counters) tdeM"
and scan_entry :: "env \<Rightarrow> checksums \<Rightarrow> PgChecksumMode \<Rightarrow> string option \<Rightarrow> bool \<Rightarrow> string \<Rightarrow> string \<Rightarrow> Oid \<Rightarrow> dirent \<Rightarrow> counters \<Rightarrow> (nat \<times> counters) tdeM" where
  "scan_entries ev cs mode only_filenode sizeonly dir subdir tablespace [] c = ret (0, c)"
| "scan_entries ev cs mode only_filenode sizeonly dir subdir tablespace (de # des) c =
     bindM (if skipped_entry (d_name de) then ret (0, c) else scan_entry ev cs mode only_filenode sizeonly dir subdir tablespace de c) (\<lambda>(n, c).
     bindM (scan_entries ev cs mode only_filenode sizeonly dir subdir tablespace des c) (\<lambda>(m, c). ret (n + m, c)))"
| "scan_entry ev cs mode only_filenode sizeonly dir subdir tablespace (S_ISREG n) c =
     scan_regular ev cs mode only_filenode sizeonly dir subdir tablespace n c"
| "scan_entry ev cs mode only_filenode sizeonly dir subdir tablespace (S_OTHER n) c = ret (0, c)"
| "scan_entry ev cs mode only_filenode sizeonly dir subdir tablespace (S_ISDIR_or_LNK n des) c =
     (let sub = path_in dir n in
      if take (length PG_TBLSPC_DIR) subdir = PG_TBLSPC_DIR then
        (case find (\<lambda>de. d_name de = TABLESPACE_VERSION_DIRECTORY (cs_pg cs)) des of
           Some (S_ISDIR_or_LNK v es) \<Rightarrow>
             seqM (check (\<not> opendir_fails cs (path_in sub v)) (E_open (path_in sub v)))
             (scan_entries ev cs mode only_filenode sizeonly (path_in sub v) v (atooid n) es c)
         | Some de \<Rightarrow> throw (E_open (path_in sub (d_name de)))
         | None \<Rightarrow> throw (E_open (path_in sub (TABLESPACE_VERSION_DIRECTORY (cs_pg cs)))))
      else
        seqM (check (\<not> opendir_fails cs sub) (E_open sub))
        (scan_entries ev cs mode only_filenode sizeonly sub n tablespace des c))"
  by pat_completeness auto
termination
proof (relation "measure (\<lambda>x. case x of Inl (_, _, _, _, _, _, _, _, des, _) \<Rightarrow> size_list size des | Inr (_, _, _, _, _, _, _, _, de, _) \<Rightarrow> size de)")
qed (auto dest: find_dirent_size)

definition scan_directory :: "env \<Rightarrow> checksums \<Rightarrow> PgChecksumMode \<Rightarrow> string option \<Rightarrow> bool \<Rightarrow> string \<Rightarrow> string \<Rightarrow> Oid \<Rightarrow> dirent list \<Rightarrow> counters \<Rightarrow> (nat \<times> counters) tdeM" where
  "scan_directory ev cs mode only_filenode sizeonly basedir subdir tablespace des c =
     seqM (check (\<not> opendir_fails cs (path_in basedir subdir)) (E_open (path_in basedir subdir)))
     (scan_entries ev cs mode only_filenode sizeonly (path_in basedir subdir) subdir tablespace des c)"

section \<open>The program\<close>

text \<open>
  The options in the order in which \<open>getopt_long\<close> gives them, then the other arguments. The control file is read and written through
  functions of PostgreSQL; what the program looks at is in the record \<open>ControlFileData\<close>.
\<close>

datatype DBState = DB_SHUTDOWNED | DB_SHUTDOWNED_IN_RECOVERY | DB_OTHER_STATE

record ControlFileData =
  crc_ok :: bool
  version_ok :: bool
  blcksz :: u32
  cf_state :: DBState
  data_checksum_version :: u32

record checksum_options =
  DataDir :: "string option"
  chk_mode :: PgChecksumMode
  opt_filenode :: "string option"
  do_sync :: bool
  showprogress :: bool

fun checksum_getopt :: "checksums \<Rightarrow> (string \<times> string) list \<Rightarrow> checksum_options \<Rightarrow> checksum_options option" where
  "checksum_getopt cs [] opt = Some opt"
| "checksum_getopt cs ((c, optarg) # opts) opt =
     (if c = ''c'' then checksum_getopt cs opts (opt\<lparr>chk_mode := PG_MODE_CHECK\<rparr>)
      else if c = ''d'' then checksum_getopt cs opts (opt\<lparr>chk_mode := PG_MODE_DISABLE\<rparr>)
      else if c = ''D'' then checksum_getopt cs opts (opt\<lparr>DataDir := Some optarg\<rparr>)
      else if c = ''e'' then checksum_getopt cs opts (opt\<lparr>chk_mode := PG_MODE_ENABLE\<rparr>)
      else if c = ''f'' then (if option_parse_int cs optarg then checksum_getopt cs opts (opt\<lparr>opt_filenode := Some optarg\<rparr>) else None)
      else if c = ''N'' then checksum_getopt cs opts (opt\<lparr>do_sync := False\<rparr>)
      else if c = ''P'' then checksum_getopt cs opts (opt\<lparr>showprogress := True\<rparr>)
      else if c = ''sync-method'' then (if parse_sync_method cs optarg then checksum_getopt cs opts opt else None)
      else if c = ''v'' then checksum_getopt cs opts opt
      else None)"

text \<open>
  The result is the exit status, the counters and the control file as it was written, if it was. \<open>tree\<close> gives the entries of the directories
  under the data directory.
\<close>

definition pg_checksums_main :: "env \<Rightarrow> checksums \<Rightarrow> (string \<times> string) list \<Rightarrow> string list \<Rightarrow> string option \<Rightarrow> ControlFileData \<Rightarrow> (string \<Rightarrow> dirent list)
    \<Rightarrow> (nat \<times> counters \<times> ControlFileData option) tdeM" where
  "pg_checksums_main ev cs opts args PGDATA ControlFile tree =
     (case checksum_getopt cs opts \<lparr>DataDir = None, chk_mode = PG_MODE_CHECK, opt_filenode = None, do_sync = True, showprogress = False\<rparr> of
        None \<Rightarrow> ret (1, no_counts, None)
      | Some opt \<Rightarrow>
          (case (if DataDir opt \<noteq> None then (DataDir opt, args) else case args of a # as \<Rightarrow> (Some a, as) | [] \<Rightarrow> (PGDATA, [])) of
             (None, _) \<Rightarrow> ret (1, no_counts, None)
           | (Some _, _ # _) \<Rightarrow> ret (1, no_counts, None)
           | (Some dir, []) \<Rightarrow>
               if chk_mode opt \<noteq> PG_MODE_CHECK \<and> opt_filenode opt \<noteq> None then ret (1, no_counts, None)
               else
                 seqM (check (crc_ok ControlFile) (E_state ''pg_control CRC value is incorrect''))
                 (seqM (check (version_ok ControlFile) (E_state ''cluster is not compatible with this version of pg_checksums''))
                 (if blcksz ControlFile \<noteq> of_nat BLCK then ret (1, no_counts, None)
                  else
                    seqM (check (cf_state ControlFile \<noteq> DB_OTHER_STATE) (E_state ''cluster must be shut down''))
                    (seqM (check (\<not> (data_checksum_version ControlFile = 0 \<and> chk_mode opt = PG_MODE_CHECK)) (E_state ''data checksums are not enabled in cluster''))
                    (seqM (check (\<not> (data_checksum_version ControlFile = 0 \<and> chk_mode opt = PG_MODE_DISABLE)) (E_state ''data checksums are already disabled in cluster''))
                    (seqM (check (\<not> (data_checksum_version ControlFile > 0 \<and> chk_mode opt = PG_MODE_ENABLE)) (E_state ''data checksums are already enabled in cluster''))
                    (let ev = fe_env ev (path_in dir ''open_pg_tde'');
                         scan = (\<lambda>sizeonly sub ts. scan_directory ev cs (chk_mode opt) (opt_filenode opt) sizeonly dir sub ts (tree sub));
                         finish = (\<lambda>c.
                           if chk_mode opt = PG_MODE_CHECK then ret (if badblocks c > 0 then 1 else 0, c, None)
                           else
                             seqM (if do_sync opt then sync_pgdata cs dir else ret ())
                             (ret (0, c, Some (ControlFile\<lparr>data_checksum_version := if chk_mode opt = PG_MODE_ENABLE then PG_DATA_CHECKSUM_VERSION cs else 0\<rparr>))))
                     in seqM open_pg_tde_fe_init
                        (if chk_mode opt = PG_MODE_DISABLE then finish no_counts
                         else
                           seqM (if showprogress opt
                                 then bindM (scan True ''global'' GLOBALTABLESPACE_OID no_counts) (\<lambda>_.
                                      bindM (scan True ''base'' DEFAULTTABLESPACE_OID no_counts) (\<lambda>_.
                                      bindM (scan True PG_TBLSPC_DIR 0 no_counts) (\<lambda>_. ret ())))
                                 else ret ())
                           (bindM (scan False ''global'' GLOBALTABLESPACE_OID no_counts) (\<lambda>(_, c).
                            bindM (scan False ''base'' DEFAULTTABLESPACE_OID c) (\<lambda>(_, c).
                            bindM (scan False PG_TBLSPC_DIR 0 c) (\<lambda>(_, c).
                            finish c)))))))))))))"

end
