(* ===== verification/Tde_Checksums_Ops.thy ===== *)
theory Tde_Checksums_Ops
  imports Tde_Checksums Tde_Rewind_Ops
begin

text \<open>
  What \<open>pg_checksums\<close> does to the files of a relation, encrypted or not: enabling checksums keeps every page but for the checksum in
  its header, and a check afterwards finds no bad block; a check counts exactly the bad pages and changes nothing.
\<close>

text \<open>The page header as documented: the checksum does not depend on the field it is stored in.\<close>

definition pages_ok :: "checksums \<Rightarrow> bool" where
  "pages_ok cs \<longleftrightarrow> (\<forall>p b c. length p = BLCK \<longrightarrow> length (set_pd_checksum cs c p) = BLCK \<and> pd_checksum cs (set_pd_checksum cs c p) = c \<and>
     pg_checksum_page cs (set_pd_checksum cs c p) b = pg_checksum_page cs p b \<and> PageIsNew cs (set_pd_checksum cs c p) = PageIsNew cs p)"

definition bad_page :: "checksums \<Rightarrow> u32 \<Rightarrow> bytes \<Rightarrow> bool" where
  "bad_page cs b p \<longleftrightarrow> \<not> PageIsNew cs p \<and> pd_checksum cs p \<noteq> pg_checksum_page cs p b"

definition checked_page :: "checksums \<Rightarrow> u32 \<Rightarrow> bytes \<Rightarrow> bytes" where
  "checked_page cs b p = (if bad_page cs b p then set_pd_checksum cs (pg_checksum_page cs p b) p else p)"

lemma checked_page_good: "pages_ok cs \<Longrightarrow> length p = BLCK \<Longrightarrow> \<not> bad_page cs b (checked_page cs b p) \<and> length (checked_page cs b p) = BLCK"
  by (auto simp: checked_page_def bad_page_def pages_ok_def)

text \<open>The page in a block of a file, and the block that a page is written to, for the key of the relation if it has one.\<close>

definition block_is where
  "block_is E ko fk b ct p \<longleftrightarrow> (case ko of None \<Rightarrow> ct = p \<and> length p = BLCK | Some k \<Rightarrow> page_holds E k fk b ct p)"

definition block_for where
  "block_for E ko fk b p = (case ko of None \<Rightarrow> p | Some k \<Rightarrow> page_enc E k fk b p)"

definition key_is :: "InternalKey option \<Rightarrow> InternalKey option \<Rightarrow> bool" where
  "key_is key ko \<longleftrightarrow> (case (key, ko) of (None, None) \<Rightarrow> True | (Some k', Some k) \<Rightarrow> ik_equiv k' k \<and> wf_ik k' | _ \<Rightarrow> False)"

definition cs_block :: "checksums \<Rightarrow> u32 \<Rightarrow> nat \<Rightarrow> u32" where
  "cs_block cs segmentno i = of_nat i + segmentno * RELSEG_SIZE (cs_pg cs)"

lemma block_is_length: "block_is E ko fk b ct p \<Longrightarrow> length ct = BLCK \<and> length p = BLCK"
  by (auto simp: block_is_def page_holds_def split: option.splits)

lemma block_for_is:
  assumes "page_cipher_ok E" "length p = BLCK" "ko \<noteq> None \<Longrightarrow> \<not> all_zero 32 (block_for E ko fk b p)"
  shows "block_is E ko fk b (block_for E ko fk b p) p" "length (block_for E ko fk b p) = BLCK"
  using assms page_enc_holds [OF assms(1,2)] page_enc_ok(2) [OF assms(1,2)] by (auto simp: block_is_def block_for_def split: option.splits)

lemma read_block_run:
  assumes "key_is key ko" "ctxs_inv w" "evp_is ev E" "block_is E ko fk b ct p"
  shows "\<exists>w'. (case (key, Some fk) of (Some k, Some fork) \<Rightarrow> tde_decrypt_smgr_block ev k fork b ct ct | _ \<Rightarrow> ret ct) w = (Inr p, w') \<and> after_block w w'"
proof (cases ko)
  case None
  then show ?thesis using assms by (auto simp: key_is_def block_is_def after_block_def split: option.splits)
next
  case (Some k)
  then obtain k' where k': "key = Some k'" "ik_equiv k' k" "wf_ik k'" using assms(1) by (auto simp: key_is_def split: option.splits)
  then have "page_holds E k' fk b ct p" using assms(4) Some ik_equiv_page [OF k'(2), of E] by (simp add: block_is_def)
  from decrypt_block_run [OF k'(3) assms(2,3) this] k'(1) show ?thesis by simp
qed

lemma write_block_run:
  assumes "key_is key ko" "ctxs_inv w" "evp_is ev E" "page_cipher_ok E" "length p = BLCK"
  shows "\<exists>w'. (case (key, Some fk) of (Some k, Some fork) \<Rightarrow> tde_encrypt_smgr_block ev k fork b p | _ \<Rightarrow> ret p) w = (Inr (block_for E ko fk b p), w') \<and> after_block w w'"
proof (cases ko)
  case None
  then show ?thesis using assms by (auto simp: key_is_def block_for_def after_block_def split: option.splits)
next
  case (Some k)
  then obtain k' where k': "key = Some k'" "ik_equiv k' k" "wf_ik k'" using assms(1) by (auto simp: key_is_def split: option.splits)
  then show ?thesis using encrypt_block_run [OF k'(3) assms(2-5), of fk b] ik_equiv_page [OF k'(2), of E] Some by (simp add: block_for_def)
qed

section \<open>The loop over the blocks\<close>

definition file_is where
  "file_is E ko fk bn f i n pl \<longleftrightarrow> length f = (i + n) * BLCK \<and> (\<forall>j. i \<le> j \<and> j < i + n \<longrightarrow> block_is E ko fk (bn j) (blk f j) (pl j))"

definition count_blocks :: "nat \<Rightarrow> counters \<Rightarrow> counters" where
  "count_blocks n c = c\<lparr>blocks_scanned := blocks_scanned c + n, current_size := current_size c + n * BLCK\<rparr>"

lemma file_is_step:
  assumes "file_is E ko fk bn f i (Suc n) pl"
  shows "block_is E ko fk (bn i) (blk f i) (pl i)" "file_is E ko fk bn f (Suc i) n pl" "pread f BLCK (i * BLCK) = blk f i" "blk f i \<noteq> []" "length (blk f i) = BLCK"
proof -
  show b: "block_is E ko fk (bn i) (blk f i) (pl i)" and "file_is E ko fk bn f (Suc i) n pl" using assms by (auto simp: file_is_def)
  show "length (blk f i) = BLCK" using block_is_length [OF b] by simp
  then show "blk f i \<noteq> []" by auto
  show "pread f BLCK (i * BLCK) = blk f i" using assms by (simp add: file_is_def pread_block blk_def)
qed

lemma scan_loop_end:
  assumes "file_is E ko fk bn T i 0 pl" "disk w f = Some T"
  shows "scan_loop ev cs mode key f forknum seg (Suc fuel) i c written w = (Inr (c, written), w)"
proof -
  have "pread (file_bytes w f) BLCK (i * BLCK) = []" using assms by (simp add: file_is_def file_bytes_def pread_def)
  then show ?thesis by (simp add: runM)
qed

lemma check_loop_ok:
  assumes "key_is key ko" "evp_is ev E"
  shows "file_is E ko fk (cs_block cs seg) T i n pl \<Longrightarrow> n < fuel \<Longrightarrow> disk w f = Some T \<Longrightarrow> ctxs_inv w \<Longrightarrow>
     \<exists>w'. scan_loop ev cs PG_MODE_CHECK key f (Some fk) seg fuel i c written w =
         (Inr ((count_blocks n c)\<lparr>badblocks := badblocks c + length (filter (\<lambda>j. bad_page cs (cs_block cs seg j) (pl j)) [i..<i + n])\<rparr>, written), w') \<and>
       disk w' = disk w \<and> io w' = io w \<and> ctxs_inv w'"
proof (induction n arbitrary: i fuel w c)
  case 0
  then obtain fuel' where "fuel = Suc fuel'" by (metis gr0_implies_Suc)
  with 0 scan_loop_end [OF 0(1,3)] show ?case by (simp add: count_blocks_def)
next
  case (Suc n)
  obtain fuel' where f: "fuel = Suc fuel'" using Suc.prems(2) by (metis Suc_lessE)
  note s = file_is_step [OF Suc.prems(1)]
  let ?b = "cs_block cs seg i"
  obtain w1 where w1: "(case (key, Some fk) of (Some k, Some fork) \<Rightarrow> tde_decrypt_smgr_block ev k fork ?b (blk T i) (blk T i) | _ \<Rightarrow> ret (blk T i)) w = (Inr (pl i), w1)"
      "ctxs_inv w1" "disk w1 = disk w" "io w1 = io w"
    using read_block_run [OF assms(1) Suc.prems(4) assms(2) s(1)] by (auto simp: after_block_def)
  let ?c = "\<lambda>c. c\<lparr>badblocks := badblocks c + (if bad_page cs ?b (pl i) then 1 else 0)\<rparr>"
  have "scan_loop ev cs PG_MODE_CHECK key f (Some fk) seg fuel i c written w =
      scan_loop ev cs PG_MODE_CHECK key f (Some fk) seg fuel' (Suc i) (?c (count_blocks 1 c)) written w1"
    unfolding f using s(3-5) w1(1) Suc.prems(3)
    by (simp add: runM file_bytes_def Let_def cs_block_def [symmetric] bad_page_def count_blocks_def eq_commute [of "pd_checksum cs (pl i)"])
  moreover obtain w' where "scan_loop ev cs PG_MODE_CHECK key f (Some fk) seg fuel' (Suc i) (?c (count_blocks 1 c)) written w1 =
      (Inr ((count_blocks n (?c (count_blocks 1 c)))\<lparr>badblocks := badblocks (?c (count_blocks 1 c)) +
         length (filter (\<lambda>j. bad_page cs (cs_block cs seg j) (pl j)) [Suc i..<Suc i + n])\<rparr>, written), w')" "disk w' = disk w1" "io w' = io w1" "ctxs_inv w'"
    using Suc.IH [OF s(2), of fuel' w1 "?c (count_blocks 1 c)"] Suc.prems f w1 by auto
  ultimately show ?case using w1 upt_conv_Cons [of i "i + Suc n"] by (simp add: count_blocks_def algebra_simps)
qed

text \<open>One block in enabling mode: it is kept, or written again with the checksum.\<close>

lemma enable_step:
  assumes "key_is key ko" "evp_is ev E" "page_cipher_ok E" "pages_ok cs" "file_is E ko fk (cs_block cs seg) T i (Suc n) pl"
    and "disk w f = Some T" "io w = []" "ctxs_inv w"
    and "ko \<noteq> None \<Longrightarrow> bad_page cs (cs_block cs seg i) (pl i) \<Longrightarrow> \<not> all_zero 32 (block_for E ko fk (cs_block cs seg i) (checked_page cs (cs_block cs seg i) (pl i)))"
  shows "\<exists>w' e m. scan_loop ev cs PG_MODE_ENABLE key f (Some fk) seg (Suc fuel) i c written w =
       scan_loop ev cs PG_MODE_ENABLE key f (Some fk) seg fuel (Suc i) (count_blocks 1 c) (written + m) w' \<and>
     disk w' = (disk w)(f \<mapsto> pwrite T e (i * BLCK)) \<and> length e = BLCK \<and> block_is E ko fk (cs_block cs seg i) e (checked_page cs (cs_block cs seg i) (pl i)) \<and>
     io w' = [] \<and> ctxs_inv w'"
proof -
  note s = file_is_step [OF assms(5)]
  let ?b = "cs_block cs seg i"
  obtain w1 where w1: "(case (key, Some fk) of (Some k, Some fork) \<Rightarrow> tde_decrypt_smgr_block ev k fork ?b (blk T i) (blk T i) | _ \<Rightarrow> ret (blk T i)) w = (Inr (pl i), w1)"
      "ctxs_inv w1" "disk w1 = disk w" "io w1 = io w"
    using read_block_run [OF assms(1,8,2) s(1)] by (auto simp: after_block_def)
  have i: "i * BLCK + BLCK \<le> length T" using assms(5) by (simp add: file_is_def)
  show ?thesis
  proof (cases "bad_page cs ?b (pl i)")
    case False
    then have "scan_loop ev cs PG_MODE_ENABLE key f (Some fk) seg (Suc fuel) i c written w =
        scan_loop ev cs PG_MODE_ENABLE key f (Some fk) seg fuel (Suc i) (count_blocks 1 c) (written + 0) w1"
      using s(3-5) w1(1) assms(6)
      by (auto simp: runM file_bytes_def Let_def cs_block_def [symmetric] bad_page_def count_blocks_def)
    moreover have "pwrite T (blk T i) (i * BLCK) = T" using i by (simp add: pwrite_def blk_def drop_drop add.commute flip: drop_drop)
    ultimately show ?thesis
      using w1 assms(6,7) s(1,5) False by (intro exI [of _ w1] exI [of _ "blk T i"] exI [of _ 0]) (simp add: fun_upd_idem checked_page_def)
  next
    case True
    let ?p = "checked_page cs ?b (pl i)"
    have p: "length ?p = BLCK" "?p = set_pd_checksum cs (pg_checksum_page cs (pl i) ?b) (pl i)"
      using checked_page_good [OF assms(4), of "pl i" ?b] block_is_length [OF s(1)] True by (simp_all add: checked_page_def)
    obtain w2 where w2: "(case (key, Some fk) of (Some k, Some fork) \<Rightarrow> tde_encrypt_smgr_block ev k fork ?b ?p | _ \<Rightarrow> ret ?p) w1 = (Inr (block_for E ko fk ?b ?p), w2)"
        "ctxs_inv w2" "disk w2 = disk w" "io w2 = []"
      using write_block_run [OF assms(1) w1(2) assms(2,3) p(1), where fk = fk and b = ?b] w1 assms(7) by (auto simp: after_block_def)
    let ?e = "block_for E ko fk ?b ?p"
    have e: "block_is E ko fk ?b ?e ?p" "length ?e = BLCK" using block_for_is [OF assms(3) p(1)] assms(9) True by auto
    let ?w3 = "set_file f (pwrite T ?e (i * BLCK)) w2"
    have wr: "pg_pwrite f ?e (i * BLCK) w2 = (Inr (int BLCK), ?w3)"
      using pg_pwrite_ok [of w2 f ?e "i * BLCK"] assms(6) w2(3,4) e(2) by (simp add: file_bytes_def)
    have nn: "\<not> PageIsNew cs (pl i)" "pd_checksum cs (pl i) \<noteq> pg_checksum_page cs (pl i) ?b" using True by (simp_all add: bad_page_def)
    have "scan_loop ev cs PG_MODE_ENABLE key f (Some fk) seg (Suc fuel) i c written w =
        scan_loop ev cs PG_MODE_ENABLE key f (Some fk) seg fuel (Suc i) (count_blocks 1 c) (written + 1) ?w3"
      using s(3-5) w1(1) w2(1) wr nn assms(6) unfolding p(2)
      by (simp add: runM file_bytes_def Let_def cs_block_def [symmetric] count_blocks_def)
    then show ?thesis
      using w2 e by (intro exI [of _ ?w3] exI [of _ ?e] exI [of _ 1]) (simp add: set_file_def ctxs_inv_def)
  qed
qed

lemma enable_loop_ok:
  assumes "key_is key ko" "evp_is ev E" "page_cipher_ok E" "pages_ok cs"
  shows "file_is E ko fk (cs_block cs seg) T i n pl \<Longrightarrow> n < fuel \<Longrightarrow> disk w f = Some T \<Longrightarrow> io w = [] \<Longrightarrow> ctxs_inv w \<Longrightarrow>
     (\<forall>j. i \<le> j \<and> j < i + n \<and> ko \<noteq> None \<and> bad_page cs (cs_block cs seg j) (pl j) \<longrightarrow>
        \<not> all_zero 32 (block_for E ko fk (cs_block cs seg j) (checked_page cs (cs_block cs seg j) (pl j)))) \<Longrightarrow>
     \<exists>w' T' m. scan_loop ev cs PG_MODE_ENABLE key f (Some fk) seg fuel i c written w = (Inr (count_blocks n c, written + m), w') \<and>
       disk w' = (disk w)(f \<mapsto> T') \<and> (\<forall>j<i. blk T' j = blk T j) \<and>
       file_is E ko fk (cs_block cs seg) T' i n (\<lambda>j. checked_page cs (cs_block cs seg j) (pl j)) \<and> io w' = [] \<and> ctxs_inv w'"
proof (induction n arbitrary: i fuel w c written T)
  case 0
  then obtain fuel' where "fuel = Suc fuel'" by (metis gr0_implies_Suc)
  with 0 scan_loop_end [OF 0(1,3)] show ?case
    by (intro exI [of _ w] exI [of _ T] exI [of _ 0]) (auto simp: count_blocks_def file_is_def fun_upd_idem simp del: scan_loop.simps)
next
  case (Suc n)
  obtain fuel' where f: "fuel = Suc fuel'" using Suc.prems(2) by (metis Suc_lessE)
  let ?b = "cs_block cs seg i"
  obtain w1 e m1 where s: "scan_loop ev cs PG_MODE_ENABLE key f (Some fk) seg fuel i c written w =
        scan_loop ev cs PG_MODE_ENABLE key f (Some fk) seg fuel' (Suc i) (count_blocks 1 c) (written + m1) w1"
      "disk w1 = (disk w)(f \<mapsto> pwrite T e (i * BLCK))" "length e = BLCK" "block_is E ko fk ?b e (checked_page cs ?b (pl i))" "io w1 = []" "ctxs_inv w1"
    unfolding f using enable_step [OF assms Suc.prems(1,3-5), of fuel' c written] Suc.prems(6) by auto
  have i: "i * BLCK \<le> length T" "length (pwrite T e (i * BLCK)) = length T" using Suc.prems(1) s(3) by (auto simp: file_is_def length_pwrite)
  have fi: "file_is E ko fk (cs_block cs seg) (pwrite T e (i * BLCK)) (Suc i) n pl"
    using Suc.prems(1) i(2) by (auto simp: file_is_def blk_pwrite [OF s(3) i(1)])
  have n: "n < fuel'" and d1: "disk w1 f = Some (pwrite T e (i * BLCK))" using f Suc.prems(2) s(2) by auto
  have nz: "\<forall>j. Suc i \<le> j \<and> j < Suc i + n \<and> ko \<noteq> None \<and> bad_page cs (cs_block cs seg j) (pl j) \<longrightarrow>
        \<not> all_zero 32 (block_for E ko fk (cs_block cs seg j) (checked_page cs (cs_block cs seg j) (pl j)))" using Suc.prems(6) by auto
  obtain w' T' m where r: "scan_loop ev cs PG_MODE_ENABLE key f (Some fk) seg fuel' (Suc i) (count_blocks 1 c) (written + m1) w1 =
        (Inr (count_blocks n (count_blocks 1 c), written + m1 + m), w')" "disk w' = (disk w1)(f \<mapsto> T')"
      "\<forall>j<Suc i. blk T' j = blk (pwrite T e (i * BLCK)) j" "file_is E ko fk (cs_block cs seg) T' (Suc i) n (\<lambda>j. checked_page cs (cs_block cs seg j) (pl j))"
      "io w' = []" "ctxs_inv w'"
    using Suc.IH [OF fi n d1 s(5,6) nz, of "count_blocks 1 c" "written + m1"] by blast
  have "blk T' i = e" "\<forall>j<i. blk T' j = blk T j" using r(3) blk_pwrite [OF s(3) i(1)] by auto
  moreover have "block_is E ko fk (cs_block cs seg j) (blk T' j) (checked_page cs (cs_block cs seg j) (pl j))" if "i \<le> j" "j < i + Suc n" for j
    using r(4) s(4) that \<open>blk T' i = e\<close> by (cases "j = i") (auto simp: file_is_def)
  moreover have "length T' = (i + Suc n) * BLCK" using r(4) by (simp add: file_is_def)
  ultimately show ?case
    using s(1,2) r(1,2,5,6) by (intro exI [of _ w'] exI [of _ T'] exI [of _ "m1 + m"]) (simp add: count_blocks_def file_is_def ac_simps)
qed

section \<open>Files\<close>

text \<open>The key of a relation in the key files of the tool: an entry that holds it, or none.\<close>

definition key_of_rel :: "env \<Rightarrow> TDEPrincipalKey \<Rightarrow> string set \<Rightarrow> RelFileLocator \<Rightarrow> InternalKey option \<Rightarrow> world \<Rightarrow> bool" where
  "key_of_rel ev pk P rl ko w \<longleftrightarrow> (case ko of
     None \<Rightarrow> fe_keys ev pk (dbOid rl) P w \<and> rel_entry ev rl w = None
   | Some k \<Rightarrow> rel_key ev pk P rl k w)"

lemma key_of_rel_get: "key_of_rel ev pk P rl ko w \<Longrightarrow> \<exists>key. open_pg_tde_get_smgr_key ev rl w = (Inr key, w) \<and> key_is key ko"
proof (cases ko)
  case None
  moreover assume "key_of_rel ev pk P rl ko w"
  ultimately have k: "fe_keys ev pk (dbOid rl) P w" "rel_entry ev rl w = None" by (simp_all add: key_of_rel_def)
  then show ?thesis using None get_spec_lookup [OF fe_lookup [OF k(1)]] by (auto simp: fe_keys_def keys_file_ok_def key_is_def)
next
  case (Some k)
  moreover assume "key_of_rel ev pk P rl ko w"
  ultimately show ?thesis using fe_get by (fastforce simp: key_of_rel_def rel_key_def key_is_def)
qed

lemma key_of_rel_cong:
  assumes "key_of_rel ev pk P rl ko w" "\<forall>p\<in>insert (open_pg_tde_set_db_file_path ev (dbOid rl)) P. disk w' p = disk w p" "io w' = io w"
  shows "key_of_rel ev pk P rl ko w'"
  using assms(1) rel_key_cong [OF _ assms(2,3)] fe_keys_cong [OF assms(2,3)] rel_entry_cong [of w' ev rl w] assms(2)
  by (auto simp: key_of_rel_def split: option.splits)

lemma key_of_rel_io: "key_of_rel ev pk P rl ko w \<Longrightarrow> io w = []"
  by (auto simp: key_of_rel_def fe_keys_def keys_file_ok_def rel_key_def split: option.splits)

lemma check_file_ok:
  assumes "key_of_rel ev pk P rl ko w" "evp_is ev E" "ctxs_inv w" "\<not> cs_open_fails cs fn" "disk w fn = Some T" "file_is E ko fk (cs_block cs seg) T 0 n pl"
  shows "\<exists>c' w'. scan_file ev cs PG_MODE_CHECK fn rl (Some fk) seg c w = (Inr c', w') \<and>
     badblocks c' = badblocks c + length (filter (\<lambda>j. bad_page cs (cs_block cs seg j) (pl j)) [0..<n]) \<and> blocks_scanned c' = blocks_scanned c + n \<and>
     disk w' = disk w \<and> io w' = io w \<and> ctxs_inv w'"
proof -
  obtain key where key: "open_pg_tde_get_smgr_key ev rl w = (Inr key, w)" "key_is key ko" using key_of_rel_get [OF assms(1)] by blast
  have "n < Suc (length T)" using assms(6) by (simp add: file_is_def)
  from check_loop_ok [OF key(2) assms(2,6) this assms(5,3), of "c\<lparr>files_scanned := files_scanned c + 1\<rparr>" 0] obtain w' where
    w': "scan_loop ev cs PG_MODE_CHECK key fn (Some fk) seg (Suc (length T)) 0 (c\<lparr>files_scanned := files_scanned c + 1\<rparr>) 0 w =
        (Inr ((count_blocks n (c\<lparr>files_scanned := files_scanned c + 1\<rparr>))\<lparr>badblocks := badblocks c +
           length (filter (\<lambda>j. bad_page cs (cs_block cs seg j) (pl j)) [0..<n])\<rparr>, 0), w')" "disk w' = disk w" "io w' = io w" "ctxs_inv w'" by auto
  then show ?thesis using key(1) assms(4,5) by (simp add: scan_file_def runM count_blocks_def del: scan_loop.simps)
qed

lemma enable_file_ok:
  assumes "key_of_rel ev pk P rl ko w" "evp_is ev E" "page_cipher_ok E" "pages_ok cs" "ctxs_inv w" "\<not> cs_open_fails cs fn" "disk w fn = Some T"
    and "file_is E ko fk (cs_block cs seg) T 0 n pl"
    and "\<forall>j<n. ko \<noteq> None \<and> bad_page cs (cs_block cs seg j) (pl j) \<longrightarrow>
        \<not> all_zero 32 (block_for E ko fk (cs_block cs seg j) (checked_page cs (cs_block cs seg j) (pl j)))"
  shows "\<exists>c' w' T'. scan_file ev cs PG_MODE_ENABLE fn rl (Some fk) seg c w = (Inr c', w') \<and> badblocks c' = badblocks c \<and>
     disk w' = (disk w)(fn \<mapsto> T') \<and> file_is E ko fk (cs_block cs seg) T' 0 n (\<lambda>j. checked_page cs (cs_block cs seg j) (pl j)) \<and> io w' = [] \<and> ctxs_inv w'"
proof -
  obtain key where key: "open_pg_tde_get_smgr_key ev rl w = (Inr key, w)" "key_is key ko" using key_of_rel_get [OF assms(1)] by blast
  have "n < Suc (length T)" using assms(8) by (simp add: file_is_def)
  from enable_loop_ok [OF key(2) assms(2-4,8) this assms(7) key_of_rel_io [OF assms(1)] assms(5), of "c\<lparr>files_scanned := files_scanned c + 1\<rparr>" 0] assms(9)
  obtain w' T' m where w': "scan_loop ev cs PG_MODE_ENABLE key fn (Some fk) seg (Suc (length T)) 0 (c\<lparr>files_scanned := files_scanned c + 1\<rparr>) 0 w =
        (Inr (count_blocks n (c\<lparr>files_scanned := files_scanned c + 1\<rparr>), m), w')" "disk w' = (disk w)(fn \<mapsto> T')"
      "file_is E ko fk (cs_block cs seg) T' 0 n (\<lambda>j. checked_page cs (cs_block cs seg j) (pl j))" "io w' = []" "ctxs_inv w'" by auto
  show ?thesis
    using key(1) assms(6,7) w' by (auto simp: scan_file_def runM count_blocks_def simp del: scan_loop.simps)
qed

text \<open>
  C25. Enabling checksums on a file of a relation, encrypted or not: the program reads every block with the key of the relation; afterwards every page
  can be read with that key as it was, but for the checksum of a page that is not new, no other file is changed, and a check of the file counts not one
  bad block and changes nothing. Before, the check counts exactly the pages whose checksum is wrong. The block that a page is written to must not start
  with 32 zero bytes, which stands for a page that was never written.
\<close>

theorem checksums_enable_then_check:
  assumes "key_of_rel ev pk P rl ko w" "evp_is ev E" "page_cipher_ok E" "pages_ok cs" "ctxs_inv w" "\<not> cs_open_fails cs fn"
    and "fn \<notin> insert (open_pg_tde_set_db_file_path ev (dbOid rl)) P" "disk w fn = Some T" "length T = n * BLCK"
    and "\<forall>j<n. block_is E ko fk (cs_block cs seg j) (blk T j) (pl j)"
    and "\<forall>j<n. ko \<noteq> None \<longrightarrow> bad_page cs (cs_block cs seg j) (pl j) \<longrightarrow>
        \<not> all_zero 32 (block_for E ko fk (cs_block cs seg j) (checked_page cs (cs_block cs seg j) (pl j)))"
  shows "(\<exists>c1 w1 T' c2 w2. scan_file ev cs PG_MODE_ENABLE fn rl (Some fk) seg c w = (Inr c1, w1) \<and> disk w1 = (disk w)(fn \<mapsto> T') \<and> length T' = length T \<and>
       (\<forall>j<n. block_is E ko fk (cs_block cs seg j) (blk T' j) (checked_page cs (cs_block cs seg j) (pl j))) \<and>
       scan_file ev cs PG_MODE_CHECK fn rl (Some fk) seg c1 w1 = (Inr c2, w2) \<and> badblocks c2 = badblocks c \<and> disk w2 = disk w1) \<and>
     (\<exists>c1 w1. scan_file ev cs PG_MODE_CHECK fn rl (Some fk) seg c w = (Inr c1, w1) \<and> disk w1 = disk w \<and>
       badblocks c1 = badblocks c + length (filter (\<lambda>j. bad_page cs (cs_block cs seg j) (pl j)) [0..<n]))"
proof (rule conjI)
  have f: "file_is E ko fk (cs_block cs seg) T 0 n pl" using assms(9,10) by (simp add: file_is_def)
  then show "\<exists>c1 w1. scan_file ev cs PG_MODE_CHECK fn rl (Some fk) seg c w = (Inr c1, w1) \<and> disk w1 = disk w \<and>
     badblocks c1 = badblocks c + length (filter (\<lambda>j. bad_page cs (cs_block cs seg j) (pl j)) [0..<n])"
    using check_file_ok [OF assms(1,2,5,6,8)] by blast
  obtain c1 w1 T' where e: "scan_file ev cs PG_MODE_ENABLE fn rl (Some fk) seg c w = (Inr c1, w1)" "badblocks c1 = badblocks c" "disk w1 = (disk w)(fn \<mapsto> T')"
      "file_is E ko fk (cs_block cs seg) T' 0 n (\<lambda>j. checked_page cs (cs_block cs seg j) (pl j))" "io w1 = []" "ctxs_inv w1"
    using enable_file_ok [OF assms(1-6,8) f, of c] assms(11) by blast
  have k: "key_of_rel ev pk P rl ko w1" by (rule key_of_rel_cong [OF assms(1)]) (use assms(7) e(3,5) key_of_rel_io [OF assms(1)] in auto)
  obtain c2 w2 where c: "scan_file ev cs PG_MODE_CHECK fn rl (Some fk) seg c1 w1 = (Inr c2, w2)" "disk w2 = disk w1"
      "badblocks c2 = badblocks c1 + length (filter (\<lambda>j. bad_page cs (cs_block cs seg j) (checked_page cs (cs_block cs seg j) (pl j))) [0..<n])"
    using check_file_ok [OF k assms(2) e(6) assms(6) _ e(4), of c1] e(3) by auto
  have "\<forall>j<n. \<not> bad_page cs (cs_block cs seg j) (checked_page cs (cs_block cs seg j) (pl j))"
    using assms(10) block_is_length checked_page_good [OF assms(4)] by blast
  then have "filter (\<lambda>j. bad_page cs (cs_block cs seg j) (checked_page cs (cs_block cs seg j) (pl j))) [0..<n] = []" by (auto simp: filter_empty_conv)
  moreover have "length T' = length T" using e(4) assms(9) by (simp add: file_is_def)
  moreover have "\<forall>j<n. block_is E ko fk (cs_block cs seg j) (blk T' j) (checked_page cs (cs_block cs seg j) (pl j))" using e(4) by (simp add: file_is_def)
  ultimately show "\<exists>c1 w1 T' c2 w2. scan_file ev cs PG_MODE_ENABLE fn rl (Some fk) seg c w = (Inr c1, w1) \<and> disk w1 = (disk w)(fn \<mapsto> T') \<and> length T' = length T \<and>
     (\<forall>j<n. block_is E ko fk (cs_block cs seg j) (blk T' j) (checked_page cs (cs_block cs seg j) (pl j))) \<and>
     scan_file ev cs PG_MODE_CHECK fn rl (Some fk) seg c1 w1 = (Inr c2, w2) \<and> badblocks c2 = badblocks c \<and> disk w2 = disk w1"
    using e(1-3) c by (intro exI [of _ c1] exI [of _ w1] exI [of _ T'] exI [of _ c2] exI [of _ w2]) simp
qed

section \<open>Names\<close>

lemma takeWhile_all_digits: "takeWhile is_digit (digits n) = digits n"
  using digits_all by (simp add: takeWhile_eq_all_conv)

lemma digits_start: "dropWhile is_space (digits n) = digits n" "hd (digits n) \<noteq> CHR ''-''" "hd (digits n) \<noteq> CHR ''+''"
proof -
  obtain c r where cs: "digits n = c # r" by (meson digits_not_Nil neq_Nil_conv)
  then have d: "is_digit c" using hd_digits [of n] by simp
  then show "dropWhile is_space (digits n) = digits n" using cs dropWhile_space by simp
  show "hd (digits n) \<noteq> CHR ''-''" "hd (digits n) \<noteq> CHR ''+''" using d cs by (auto simp: is_digit_def)
qed

lemma atoi_digits: "n < 2 ^ 63 \<Longrightarrow> atoi (digits n) = of_nat n"
  using digits_start [of n] by (simp add: atoi_def Let_def takeWhile_all_digits undigits_digits)

lemma atooid_digits: "atooid (digits (unat (x :: u32))) = x"
  using scan_digits_end [of x] by (auto simp: scan_u_def atooid_def split: prod.splits if_splits)

lemma cut_at_none: "c \<notin> set s \<Longrightarrow> cut_at c s = (s, None)"
  by (auto simp: cut_at_def takeWhile_eq_all_conv)

lemma cut_at_here: "c \<notin> set s \<Longrightarrow> cut_at c (s @ c # t) = (s, Some t)"
  by (induction s) (auto simp: cut_at_def)

lemma not_in_digits: "CHR ''.'' \<notin> set (digits n)" "CHR ''_'' \<notin> set (digits n)"
  using digits_all by (fastforce simp: is_digit_def)+

text \<open>The name of a file of a relation gives the number of the relation, the fork and the segment.\<close>

lemma split_relation_name:
  assumes "CHR ''.'' \<notin> set fork" "seg < 2 ^ 31" "length (digits (unat rel)) + length fork + length (digits seg) < 1000"
  shows "split_name (digits (unat rel) @ (if fork = [] then [] else CHR ''_'' # fork) @ (if seg = 0 then [] else CHR ''.'' # digits seg)) =
     Inr (digits (unat rel), if fork = [] then None else Some fork, of_nat seg)"
proof -
  let ?n = "digits (unat rel) @ (if fork = [] then [] else CHR ''_'' # fork)"
  have n: "CHR ''.'' \<notin> set ?n" using assms(1) not_in_digits by auto
  have f: "cut_at (CHR ''_'') ?n = (digits (unat rel), if fork = [] then None else Some fork)"
    using cut_at_here [of "CHR ''_''" "digits (unat rel)" fork] cut_at_none [of "CHR ''_''"] not_in_digits by auto
  have c: "cut_at (CHR ''.'') (?n @ (if seg = 0 then [] else CHR ''.'' # digits seg)) = (?n, if seg = 0 then None else Some (digits seg))"
    using cut_at_here [OF n, of "digits seg"] cut_at_none [OF n] by (cases "seg = 0") simp_all
  have l: "take (MAXPGPATH - 1) (?n @ (if seg = 0 then [] else CHR ''.'' # digits seg)) = ?n @ (if seg = 0 then [] else CHR ''.'' # digits seg)"
    using assms(3) by (auto simp: MAXPGPATH_def)
  have s: "atoi (digits seg) = of_nat seg" "seg \<noteq> 0 \<Longrightarrow> (of_nat seg :: u32) \<noteq> 0"
    using atoi_digits [of seg] assms(2) by (auto simp: word_of_nat_eq_0_iff dest: dvd_imp_le)
  show ?thesis unfolding append_assoc [symmetric] split_name_def l c using f s by simp
qed

section \<open>A concrete file\<close>

definition demo_cs :: checksums where
  "demo_cs = \<lparr>cs_pg = demo_pg, PageIsNew = (\<lambda>p. p ! 14 = 0 \<and> p ! 15 = 0), pd_checksum = (\<lambda>p. or (ucast (p ! 8)) (push_bit 8 (ucast (p ! 9)))),
     set_pd_checksum = (\<lambda>c p. p[8 := ucast c, 9 := ucast (drop_bit 8 c)]), pg_checksum_page = (\<lambda>p b. ucast b + ucast (p ! 20)),
     forkname_to_number = (\<lambda>n. if n = ''fsm'' then Some FSM_FORKNUM else if n = ''vm'' then Some VISIBILITYMAP_FORKNUM else None),
     opendir_fails = (\<lambda>p. False), cs_open_fails = (\<lambda>p. False), option_parse_int = (\<lambda>s. True), parse_sync_method = (\<lambda>s. True),
     sync_pgdata = (\<lambda>d. ret ()), PG_DATA_CHECKSUM_VERSION = 1\<rparr>"

lemma demo_two_bytes: "or (ucast (ucast c :: byte)) (push_bit 8 (ucast (ucast (drop_bit 8 c) :: byte))) = (c :: u16)"
  by (rule bit_word_eqI) (auto simp: bit_unsigned_iff bit_or_iff bit_push_bit_iff bit_drop_bit_eq)

lemma demo_pages_ok: "pages_ok demo_cs"
  by (simp add: pages_ok_def demo_cs_def demo_two_bytes)

lemma fe_env_evp: "evp_is (fe_env ev d) E = evp_is ev E"
  by (simp add: evp_is_def fe_env_def)

theorem checksums_enable_then_check_witness:
  "\<exists>fs ft c1 w1 c2 w2. scan_file (fe_env demo_env ''x'') demo_cs PG_MODE_ENABLE ''s/base/5/16384'' demo_rel (Some MAIN_FORKNUM) 0 no_counts (demo_rewind_world fs ft) = (Inr c1, w1) \<and>
     scan_file (fe_env demo_env ''x'') demo_cs PG_MODE_CHECK ''s/base/5/16384'' demo_rel (Some MAIN_FORKNUM) 0 c1 w1 = (Inr c2, w2) \<and> badblocks c2 = 0"
proof -
  obtain fs ft where k: "rel_key (source_env demo_env demo_rewind_state) demo_ring_pk (demo_provider_files ''x'') demo_rel demo_key (demo_rewind_world fs ft)"
      "ctxs_inv (demo_rewind_world fs ft)" using demo_rewind_ready by blast
  let ?ev = "fe_env demo_env ''x''" and ?b = "cs_block demo_cs 0"
  let ?pl = "\<lambda>j. demo_mask (ik_material demo_key) (CalcBlockIv MAIN_FORKNUM (?b j) (ik_base_iv demo_key)) demo_block"
  have kr: "key_of_rel ?ev demo_ring_pk (demo_provider_files ''x'') demo_rel (Some demo_key) (demo_rewind_world fs ft)"
    using k(1) by (simp add: key_of_rel_def demo_rewind_simps)
  have ev: "evp_is ?ev demo_E" using demo_evp_is by (simp add: fe_env_evp)
  have b: "blk demo_block 0 = demo_block" by (simp add: blk_def demo_block_def)
  have pg: "\<forall>j<1. block_is demo_E (Some demo_key) MAIN_FORKNUM (?b j) (blk demo_block j) (?pl j)"
    using demo_page(1) b by (simp add: block_is_def)
  have "block_for demo_E (Some demo_key) MAIN_FORKNUM (?b 0) (checked_page demo_cs (?b 0) (?pl 0)) ! 0 = demo_block ! 0"
    by (simp add: block_for_def page_enc_def demo_E_def checked_page_def demo_mask_nth demo_block_def demo_cs_def xor.assoc)
  then have "\<not> all_zero 32 (block_for demo_E (Some demo_key) MAIN_FORKNUM (?b 0) (checked_page demo_cs (?b 0) (?pl 0)))"
    by (auto simp: all_zero_def demo_block_def intro!: exI [of _ 0])
  then have nz: "\<forall>j<1. Some demo_key \<noteq> None \<longrightarrow> bad_page demo_cs (?b j) (?pl j) \<longrightarrow>
      \<not> all_zero 32 (block_for demo_E (Some demo_key) MAIN_FORKNUM (?b j) (checked_page demo_cs (?b j) (?pl j)))" by simp
  have apart: "''s/base/5/16384'' \<notin> insert (open_pg_tde_set_db_file_path ?ev (dbOid demo_rel)) (demo_provider_files ''x'')"
    by (simp add: demo_rewind_simps demo_provider_files_def)
  have "length demo_block = 1 * BLCK" "\<not> cs_open_fails demo_cs ''s/base/5/16384''" by (simp_all add: demo_block_def demo_cs_def)
  from checksums_enable_then_check [OF kr ev demo_page_cipher_ok demo_pages_ok k(2) this(2) apart demo_rewind_world_simps(1) this(1) pg nz, of no_counts]
  have "\<exists>c1 w1 c2 w2. scan_file ?ev demo_cs PG_MODE_ENABLE ''s/base/5/16384'' demo_rel (Some MAIN_FORKNUM) 0 no_counts (demo_rewind_world fs ft) = (Inr c1, w1) \<and>
     scan_file ?ev demo_cs PG_MODE_CHECK ''s/base/5/16384'' demo_rel (Some MAIN_FORKNUM) 0 c1 w1 = (Inr c2, w2) \<and> badblocks c2 = badblocks no_counts" by blast
  then show ?thesis unfolding no_counts_def counters.simps by blast
qed

end
