(* ===== verification/Tde_ChangeProvider.thy ===== *)
theory Tde_ChangeProvider
  imports Tde_Archive Tde_Providers_Ops
begin

text \<open>
  The program that changes a key provider while the server is down (\<open>bin/open_pg_tde_change_key_provider.c\<close>): it builds the JSON text
  of the options from its arguments and writes it into the record of the provider. It changes exactly that record, or nothing.
\<close>

section \<open>The JSON text\<close>

text \<open>\<open>strlcat\<close> into a buffer of \<open>bufsize\<close> bytes; a step is skipped once one did not fit.\<close>

definition json_append :: "nat \<Rightarrow> bytes \<Rightarrow> bytes \<times> bool \<Rightarrow> bytes \<times> bool" where
  "json_append bufsize src b =
     (case b of (buffer, ok) \<Rightarrow>
      if ok then (take (bufsize - 1) (buffer @ src), length buffer + length src < bufsize) else (buffer, False))"

definition add_quotes :: "bytes option \<Rightarrow> bool" where
  "add_quotes v = (case v of None \<Rightarrow> True | Some b \<Rightarrow> take 1 b \<noteq> bytes_of ''{'' \<and> take 1 b \<noteq> [34])"

definition json_quote :: bytes where "json_quote = [34]"

fun build_pairs :: "nat \<Rightarrow> bool \<Rightarrow> (string \<times> bytes option) list \<Rightarrow> bytes \<times> bool \<Rightarrow> bytes \<times> bool" where
  "build_pairs bufsize first [] b = b"
| "build_pairs bufsize first ((key, val) # ps) b =
     (if \<not> snd b then b
      else
        (let b = (if first then b else json_append bufsize (bytes_of '','') b);
             b = json_append bufsize json_quote b;
             b = json_append bufsize (bytes_of key) b;
             b = json_append bufsize (json_quote @ bytes_of '':'') b;
             b = (if add_quotes val then json_append bufsize json_quote b else b);
             b = (case val of None \<Rightarrow> b | Some v \<Rightarrow> json_append bufsize v b);
             b = (if add_quotes val then json_append bufsize json_quote b else b)
         in build_pairs bufsize False ps b))"

definition build_json :: "nat \<Rightarrow> (string \<times> bytes option) list \<Rightarrow> bytes option" where
  "build_json bufsize ps =
     (let b = json_append bufsize (bytes_of ''{'') ([], True);
          b = build_pairs bufsize True ps b;
          b = json_append bufsize (bytes_of ''}'') b
      in if snd b then Some (fst b) else None)"

section \<open>The program\<close>

text \<open>The names and values of the options of a provider type, or \<open>None\<close> if the type is unknown or the number of arguments is wrong.\<close>

definition provider_arguments :: "string \<Rightarrow> bytes list \<Rightarrow> (string \<times> bytes option) list option" where
  "provider_arguments new_provider_type args =
     (if new_provider_type = ''file'' then
        (case args of [p] \<Rightarrow> Some [(''path'', Some p)] | _ \<Rightarrow> None)
      else if new_provider_type = ''openbao'' then
        (case args of
           [url, mount, token] \<Rightarrow> Some [(''url'', Some url), (''mountPath'', Some mount), (''tokenPath'', Some token), (''caPath'', Some [])]
         | [url, mount, token, ca] \<Rightarrow> Some [(''url'', Some url), (''mountPath'', Some mount), (''tokenPath'', Some token), (''caPath'', Some ca)]
         | _ \<Rightarrow> None)
      else if new_provider_type = ''kmip'' then
        (case args of
           [h, port, cert, key] \<Rightarrow> Some [(''host'', Some h), (''port'', Some port), (''certPath'', Some cert), (''keyPath'', Some key), (''caPath'', Some [])]
         | [h, port, cert, key, ca] \<Rightarrow> Some [(''host'', Some h), (''port'', Some port), (''certPath'', Some cert), (''keyPath'', Some key), (''caPath'', Some ca)]
         | _ \<Rightarrow> None)
      else None)"

text \<open>
  The arguments that follow the options, with the data directory that the option or the environment gives. \<open>crc_ok\<close> and \<open>shut_down\<close> are
  what the control file says. The directory of the key files is put together with \<open>strcat\<close>, which does not look at the size of the array.
\<close>

definition change_key_provider_main :: "env \<Rightarrow> string option \<Rightarrow> bytes list \<Rightarrow> bool \<Rightarrow> bool \<Rightarrow> unit tdeM" where
  "change_key_provider_main ev datadir args control_crc_ok shut_down =
     (case datadir of
        None \<Rightarrow> throw (E_state ''no data directory specified'')
      | Some dir \<Rightarrow>
          (case args of
             dbarg # pname # new_provider_type # rest \<Rightarrow>
               (let db_oid = atoi (path_of dbarg) in
                case provider_arguments (path_of new_provider_type) rest of
                  None \<Rightarrow> throw (E_state ''wrong number of arguments or unknown provider type'')
                | Some ps \<Rightarrow>
                    (case build_json PROVIDER_OPTIONS_SIZE ps of
                       None \<Rightarrow> throw (E_state ''configuration too long'')
                     | Some json \<Rightarrow>
                         seqM (check control_crc_ok (E_state ''pg_control CRC value is incorrect''))
                         (seqM (check shut_down (E_state ''cluster must be shut down''))
                         (seqM (check (length dir + length ''/open_pg_tde'' < MAXPGPATH) (E_state ''tdedir overflows''))
                         (let ev = fe_env ev (dir @ ''/open_pg_tde'') in
                          seqM open_pg_tde_set_data_dir
                          (bindM (get_keyring_info_file_record_by_name ev pname db_oid) (\<lambda>record.
                           case record of
                             None \<Rightarrow> throw E_provider_not_found
                           | Some r \<Rightarrow>
                               write_key_provider_info ev
                                 (r\<lparr>provider := (provider r)\<lparr>provider_type := get_keyring_provider_from_typename new_provider_type,
                                    options := fit PROVIDER_OPTIONS_SIZE (cstr json)\<rparr>\<rparr>) False)))))))
           | _ \<Rightarrow> throw (E_state ''too few arguments'')))"

section \<open>The text that is built\<close>

definition json_value :: "bytes option \<Rightarrow> bytes" where
  "json_value v = (let t = (case v of None \<Rightarrow> [] | Some b \<Rightarrow> b) in if add_quotes v then json_quote @ t @ json_quote else t)"

definition json_pair :: "string \<times> bytes option \<Rightarrow> bytes" where
  "json_pair p = json_quote @ bytes_of (fst p) @ json_quote @ bytes_of '':'' @ json_value (snd p)"

definition json_text :: "(string \<times> bytes option) list \<Rightarrow> bytes" where
  "json_text ps = bytes_of ''{'' @ drop 1 (concat (map (\<lambda>p. bytes_of '','' @ json_pair p) ps)) @ bytes_of ''}''"

text \<open>Appending: the text so far is complete if it fits, and the flag says whether it does.\<close>

definition holds_text :: "nat \<Rightarrow> bytes \<Rightarrow> bytes \<times> bool \<Rightarrow> bool" where
  "holds_text n t b \<longleftrightarrow> snd b = (length t < n) \<and> (length t < n \<longrightarrow> fst b = t)"

lemma append_holds: "holds_text n t b \<Longrightarrow> holds_text n (t @ s) (json_append n s b)"
  by (cases b) (auto simp: holds_text_def json_append_def)

lemma holds_too_long: "holds_text n t b \<Longrightarrow> \<not> snd b \<Longrightarrow> holds_text n (t @ s) b"
  by (auto simp: holds_text_def)

lemma value_holds:
  assumes "holds_text n u b"
  shows "holds_text n (u @ json_value v) (let b = (if add_quotes v then json_append n json_quote b else b);
     b = (case v of None \<Rightarrow> b | Some x \<Rightarrow> json_append n x b) in if add_quotes v then json_append n json_quote b else b)"
proof (cases v)
  case None
  then show ?thesis
    using append_holds [OF append_holds [OF assms, of json_quote], of json_quote] by (simp add: json_value_def add_quotes_def)
next
  case (Some x)
  show ?thesis
  proof (cases "add_quotes v")
    case True
    then show ?thesis
      using Some append_holds [OF append_holds [OF append_holds [OF assms, of json_quote], of x], of json_quote] by (simp add: json_value_def)
  next
    case False
    then show ?thesis using Some append_holds [OF assms, of x] by (simp add: json_value_def)
  qed
qed

lemma build_pairs_holds:
  "holds_text n t b \<Longrightarrow> holds_text n (t @ drop (if first then 1 else 0) (concat (map (\<lambda>p. bytes_of '','' @ json_pair p) ps))) (build_pairs n first ps b)"
proof (induction ps arbitrary: first t b)
  case (Cons p ps)
  obtain key v where p: "p = (key, v)" by fastforce
  show ?case
  proof (cases "snd b")
    case False
    then show ?thesis using Cons.prems p by (simp add: holds_too_long del: concat.simps)
  next
    case True
    let ?t1 = "t @ (if first then [] else bytes_of '','')"
    let ?b1 = "if first then b else json_append n (bytes_of '','') b"
    let ?b2 = "json_append n (json_quote @ bytes_of '':'') (json_append n (bytes_of key) (json_append n json_quote ?b1))"
    let ?b5 = "let b = (if add_quotes v then json_append n json_quote ?b2 else ?b2);
       b = (case v of None \<Rightarrow> b | Some x \<Rightarrow> json_append n x b) in if add_quotes v then json_append n json_quote b else b"
    have "holds_text n ?t1 ?b1" using Cons.prems append_holds by auto
    then have "holds_text n (((?t1 @ json_quote) @ bytes_of key) @ json_quote @ bytes_of '':'') ?b2" by (intro append_holds)
    from value_holds [OF this, of v] have "holds_text n ((((?t1 @ json_quote) @ bytes_of key) @ json_quote @ bytes_of '':'') @ json_value v) ?b5" .
    then have "holds_text n (?t1 @ json_pair p) ?b5" by (simp add: json_pair_def p)
    from Cons.IH [OF this, of False]
    have "holds_text n ((?t1 @ json_pair p) @ concat (map (\<lambda>p. bytes_of '','' @ json_pair p) ps)) (build_pairs n False ps ?b5)" by simp
    moreover have "build_pairs n first (p # ps) b = build_pairs n False ps ?b5" using True by (simp add: p Let_def)
    moreover have "t @ drop (if first then 1 else 0) (concat (map (\<lambda>p. bytes_of '','' @ json_pair p) (p # ps))) =
        (?t1 @ json_pair p) @ concat (map (\<lambda>p. bytes_of '','' @ json_pair p) ps)"
      by (simp add: bytes_of_def)
    ultimately show ?thesis by simp
  qed
qed simp

lemma build_json_exact: "0 < n \<Longrightarrow> build_json n ps = (if length (json_text ps) < n then Some (json_text ps) else None)"
proof -
  assume n: "0 < n"
  then have "holds_text n [] ([], True)" by (simp add: holds_text_def)
  from append_holds [OF this, of "bytes_of ''{''"] have "holds_text n (bytes_of ''{'') (json_append n (bytes_of ''{'') ([], True))" by simp
  from append_holds [OF build_pairs_holds [OF this, of True ps], of "bytes_of ''}''"] show ?thesis
    by (auto simp: build_json_def json_text_def Let_def holds_text_def)
qed

section \<open>What the program changes\<close>

abbreviation live_named :: "bytes \<Rightarrow> KeyringProviderRecord \<Rightarrow> bool" where
  "live_named n x \<equiv> provider_type x \<noteq> UNKNOWN_KEY_PROVIDER \<and> strcmp_eq (provider_name x) n"

lemma record_by_name:
  assumes "disk w (get_keyring_infofile_path ev db) = Some f"
  shows "get_keyring_info_file_record_by_name ev n db w =
     (let k = find_index (live_named n) (providers_in f) in
      if k < length (providers_in f) then (Inr (Some \<lparr>database_id = db, offset_in_file = k * PROVIDER_SIZE, provider = providers_in f ! k\<rparr>), w)
      else (if length f mod PROVIDER_SIZE = 0 then Inr None else Inl E_provider_corrupted, w))"
  using assms find_at_offsets [of "live_named n" PROVIDER_SIZE 0 "providers_in f"]
  by (simp add: get_keyring_info_file_record_by_name_def open_keyring_infofile_def runM Let_def file_bytes_def fetch_all_eq
      read_all_eq [OF prov.sz_pos] liftM_def split: if_splits)

lemma record_missing: "disk w (get_keyring_infofile_path ev db) = None \<Longrightarrow>
    get_keyring_info_file_record_by_name ev n db w = (Inl (E_open (get_keyring_infofile_path ev db)), w)"
  by (simp add: get_keyring_info_file_record_by_name_def open_keyring_infofile_def runM Let_def)

text \<open>The request that the arguments of the program make: the file of providers, the name, and the type and options to set.\<close>

definition change_request :: "env \<Rightarrow> string option \<Rightarrow> bytes list \<Rightarrow> (string \<times> bytes \<times> u32 \<times> bytes) option" where
  "change_request ev datadir args =
     (case (datadir, args) of
        (Some dir, dbarg # n # ty # rest) \<Rightarrow>
          (case provider_arguments (path_of ty) rest of
             Some ps \<Rightarrow>
               if length (json_text ps) < PROVIDER_OPTIONS_SIZE \<and> length dir + 12 < MAXPGPATH
               then Some (get_keyring_infofile_path (fe_env ev (dir @ ''/open_pg_tde'')) (atoi (path_of dbarg)), n, get_keyring_provider_from_typename ty, json_text ps)
               else None
           | None \<Rightarrow> None)
      | _ \<Rightarrow> None)"

definition with_options :: "u32 \<Rightarrow> bytes \<Rightarrow> KeyringProviderRecord \<Rightarrow> KeyringProviderRecord" where
  "with_options t json p = p\<lparr>provider_type := t, options := fit PROVIDER_OPTIONS_SIZE (cstr json)\<rparr>"

lemma change_run:
  assumes "io w = []" "change_request ev datadir args = Some (path, n, t, json)" "disk w path = Some f"
    and "k = find_index (live_named n) (providers_in f)" "k < length (providers_in f)"
  shows "\<exists>w' f'. change_key_provider_main ev datadir args True True w = (Inr (), w') \<and> disk w' = (disk w)(path \<mapsto> f') \<and>
     providers_in f' = (providers_in f)[k := with_options t json (providers_in f ! k)]"
proof -
  obtain dir dbarg ty rest ps where a: "datadir = Some dir" "args = dbarg # n # ty # rest" "provider_arguments (path_of ty) rest = Some ps"
      "length json < PROVIDER_OPTIONS_SIZE" "length dir + 12 < MAXPGPATH" "json = json_text ps" "t = get_keyring_provider_from_typename ty"
      "path = get_keyring_infofile_path (fe_env ev (dir @ ''/open_pg_tde'')) (atoi (path_of dbarg))"
    using assms(2) by (auto simp: change_request_def split: option.splits list.splits if_splits)
  obtain w1 where w1: "open_pg_tde_set_data_dir w = (Inr (), w1)" "disk w1 = disk w" "io w1 = []"
    using assms(1) by (simp add: open_pg_tde_set_data_dir_def clean_fe_server_principal_key_cache_def open_pg_tde_free_wal_key_cache_def runM)
  let ?e = "with_options t json (providers_in f ! k)" and ?ev = "fe_env ev (dir @ ''/open_pg_tde'')"
  have "k * PROVIDER_SIZE + PROVIDER_SIZE \<le> length f" using recs_slot_bound [OF prov.sz_pos assms(5)] by simp
  then have "length (pread f PROVIDER_SIZE (k * PROVIDER_SIZE)) = PROVIDER_SIZE" by (simp add: length_pread)
  then have "wf_prov (providers_in f ! k)" using prov.dec_wf nth_recs [OF prov.sz_pos assms(5)] by simp
  then have wf: "wf_prov ?e" by (simp add: wf_prov_def with_options_def PROVIDER_OPTIONS_SIZE_def)
  have r: "get_keyring_info_file_record_by_name ?ev n (atoi (path_of dbarg)) w1 =
      (Inr (Some \<lparr>database_id = atoi (path_of dbarg), offset_in_file = k * PROVIDER_SIZE, provider = providers_in f ! k\<rparr>), w1)"
    using record_by_name [of w1 ?ev "atoi (path_of dbarg)" f n] w1(2) assms(3-5) a(8) by (simp add: Let_def)
  have j: "build_json PROVIDER_OPTIONS_SIZE ps = Some json" using build_json_exact [of PROVIDER_OPTIONS_SIZE ps] a(4,6) by (simp add: PROVIDER_OPTIONS_SIZE_def)
  let ?f = "pwrite f (enc_prov ?e) (k * PROVIDER_SIZE)"
  have "write_key_provider_info ?ev \<lparr>database_id = atoi (path_of dbarg), offset_in_file = k * PROVIDER_SIZE, provider = ?e\<rparr> False w1 = (Inr (), set_file path ?f w1)"
    using w1(2,3) assms(3) a(8) by (simp add: write_key_provider_info_def Let_def runM write_at_ok fsync_ok file_bytes_def set_file_simps whenM_def)
  then have "change_key_provider_main ev datadir args True True w = (Inr (), set_file path ?f w1)"
    using a(1-3,5,7) j w1(1) r by (simp add: change_key_provider_main_def Let_def runM with_options_def)
  moreover have "providers_in ?f = (providers_in f)[k := ?e]" using prov.recs_pwrite_replace [OF wf assms(5)] by simp
  ultimately show ?thesis using w1(2) by (auto simp: set_file_def)
qed

lemma change_refused:
  assumes "\<not> (crc_valid \<and> shut_down \<and> (\<exists>path n t json f. change_request ev datadir args = Some (path, n, t, json) \<and>
        disk w path = Some f \<and> (\<exists>p\<in>set (providers_in f). live_named n p)))"
  shows "\<exists>e w'. change_key_provider_main ev datadir args crc_valid shut_down w = (Inl e, w') \<and> disk w' = disk w"
proof (cases "change_request ev datadir args")
  case None
  have "0 < PROVIDER_OPTIONS_SIZE" by (simp add: PROVIDER_OPTIONS_SIZE_def)
  note b = build_json_exact [OF this]
  from None show ?thesis
    by (auto simp: change_request_def change_key_provider_main_def Let_def runM b check_def throw_def split: option.splits list.splits if_splits)
next
  case (Some r)
  then obtain path n t json where r: "change_request ev datadir args = Some (path, n, t, json)" by (metis prod_cases4)
  obtain dir dbarg ty rest ps where a: "datadir = Some dir" "args = dbarg # n # ty # rest" "provider_arguments (path_of ty) rest = Some ps"
      "length json < PROVIDER_OPTIONS_SIZE" "length dir + 12 < MAXPGPATH" "json = json_text ps"
      "path = get_keyring_infofile_path (fe_env ev (dir @ ''/open_pg_tde'')) (atoi (path_of dbarg))"
    using r by (auto simp: change_request_def split: option.splits list.splits if_splits)
  let ?ev = "fe_env ev (dir @ ''/open_pg_tde'')"
  have j: "build_json PROVIDER_OPTIONS_SIZE ps = Some json" using build_json_exact [of PROVIDER_OPTIONS_SIZE ps] a(4,6) by (simp add: PROVIDER_OPTIONS_SIZE_def)
  obtain w1 where w1: "open_pg_tde_set_data_dir w = (Inr (), w1)" "disk w1 = disk w"
    by (simp add: open_pg_tde_set_data_dir_def clean_fe_server_principal_key_cache_def open_pg_tde_free_wal_key_cache_def runM)
  show ?thesis
  proof (cases "crc_valid \<and> shut_down")
    case False
    then show ?thesis using a(1-3) j by (auto simp: change_key_provider_main_def Let_def runM check_def throw_def)
  next
    case True
    have "\<exists>x. get_keyring_info_file_record_by_name ?ev n (atoi (path_of dbarg)) w1 = (x, w1) \<and> (x = Inr None \<or> isl x)"
    proof (cases "disk w1 path")
      case None
      then show ?thesis using record_missing [of w1 ?ev "atoi (path_of dbarg)" n] a(7) by simp
    next
      case (Some f)
      then have "\<not> find_index (live_named n) (providers_in f) < length (providers_in f)" using assms True r w1(2) by (auto simp: find_index_less)
      then show ?thesis using record_by_name [of w1 ?ev "atoi (path_of dbarg)" f n] a(7) Some by (auto simp: Let_def)
    qed
    then show ?thesis
      using True a(1-3,5) j w1 by (auto simp: change_key_provider_main_def Let_def runM throw_def isl_def)
  qed
qed

text \<open>
  C26. The program that changes a key provider offline changes one record, or nothing. It succeeds exactly if its arguments make sense, the JSON text of
  the options fits into the record, the server is shut down and a provider of that name exists; then the first record of
  the name has the new type and options, which are the whole JSON text, and every other record and file is as before. In all other
  cases no file is changed.
\<close>

theorem change_provider_one_record:
  assumes "io w = []"
  shows "case change_key_provider_main ev datadir args crc_valid shut_down w of
     (Inl e, w') \<Rightarrow> disk w' = disk w \<and> \<not> (crc_valid \<and> shut_down \<and> (\<exists>path n t json f. change_request ev datadir args = Some (path, n, t, json) \<and>
        disk w path = Some f \<and> (\<exists>p\<in>set (providers_in f). live_named n p)))
   | (Inr _, w') \<Rightarrow> crc_valid \<and> shut_down \<and> (\<exists>path n t json f f' k. change_request ev datadir args = Some (path, n, t, json) \<and> disk w path = Some f \<and>
        k = find_index (live_named n) (providers_in f) \<and> k < length (providers_in f) \<and> disk w' = (disk w)(path \<mapsto> f') \<and>
        providers_in f' = (providers_in f)[k := with_options t json (providers_in f ! k)])"
proof (cases "crc_valid \<and> shut_down \<and> (\<exists>path n t json f. change_request ev datadir args = Some (path, n, t, json) \<and>
        disk w path = Some f \<and> (\<exists>p\<in>set (providers_in f). live_named n p))")
  case True
  then obtain path n t json f where c: "crc_valid" "shut_down" "change_request ev datadir args = Some (path, n, t, json)" "disk w path = Some f"
      "\<exists>p\<in>set (providers_in f). live_named n p" by blast
  define k where "k = find_index (live_named n) (providers_in f)"
  have k: "k < length (providers_in f)" unfolding k_def find_index_less by (rule c(5))
  obtain w' f' where r: "change_key_provider_main ev datadir args True True w = (Inr (), w')"
      "disk w' = (disk w)(path \<mapsto> f')" "providers_in f' = (providers_in f)[k := with_options t json (providers_in f ! k)]"
    using change_run [OF assms c(3,4) k_def k] by blast
  have "\<exists>path n t json f f' k. change_request ev datadir args = Some (path, n, t, json) \<and> disk w path = Some f \<and>
        k = find_index (live_named n) (providers_in f) \<and> k < length (providers_in f) \<and> disk w' = (disk w)(path \<mapsto> f') \<and>
        providers_in f' = (providers_in f)[k := with_options t json (providers_in f ! k)]"
    by (rule exI [of _ path], rule exI [of _ n], rule exI [of _ t], rule exI [of _ json], rule exI [of _ f], rule exI [of _ f'], rule exI [of _ k])
      (intro conjI c(3,4) k_def k r(2,3))
  with r(1) c(1,2) show ?thesis by simp
next
  case False
  from change_refused [OF this] False show ?thesis by auto
qed

definition demo_args :: "bytes list" where
  "demo_args = [bytes_of ''5'', [118], bytes_of ''file'', [120]]"

lemma demo_change_request:
  "change_request demo_env (Some ''d'') demo_args =
     Some (get_keyring_infofile_path (fe_env demo_env ''d/open_pg_tde'') 5, [118], FILE_KEY_PROVIDER, json_text [(''path'', Some [120])])"
proof -
  have "path_of (bytes_of ''5'') = ''5''" "path_of (bytes_of ''file'') = ''file''" "atoi ''5'' = 5" by code_simp+
  moreover have "get_keyring_provider_from_typename (bytes_of ''file'') = FILE_KEY_PROVIDER" by (simp add: get_keyring_provider_from_typename_def strcmp_eq_def)
  moreover have "length (json_text [(''path'', Some [120])]) < PROVIDER_OPTIONS_SIZE" by code_simp
  ultimately show ?thesis by (simp add: change_request_def demo_args_def provider_arguments_def MAXPGPATH_def)
qed

theorem change_provider_one_record_witness:
  "\<exists>w w' f'. change_key_provider_main demo_env (Some ''d'') demo_args True True w = (Inr (), w') \<and>
     disk w' (get_keyring_infofile_path (fe_env demo_env ''d/open_pg_tde'') 5) = Some f' \<and>
     providers_in f' = [with_options FILE_KEY_PROVIDER (json_text [(''path'', Some [120])]) demo_prov]"
proof -
  let ?path = "get_keyring_infofile_path (fe_env demo_env ''d/open_pg_tde'') 5"
  let ?w = "demo_world\<lparr>disk := [?path \<mapsto> enc_prov demo_prov]\<rparr>"
  have "wf_prov demo_prov" by (simp add: wf_prov_def demo_prov_def)
  then have ps: "providers_in (enc_prov demo_prov) = [demo_prov]"
    using prov.recs_snoc [of demo_prov "[]"] by (simp add: recs_end prov.sz_pos)
  have live: "live_named [118] demo_prov"
    using cstr_fit_1 [of 118 128] by (simp add: demo_prov_def provider_types strcmp_eq_def cstr_def [of "[118]"])
  obtain r w' where m: "change_key_provider_main demo_env (Some ''d'') demo_args True True ?w = (r, w')" by fastforce
  have io: "io ?w = []" by simp
  note t = change_provider_one_record [OF io, where ev = demo_env and datadir = "Some ''d''" and args = demo_args and crc_valid = True and shut_down = True, unfolded m demo_change_request]
  show ?thesis
  proof (cases r)
    case (Inl e)
    with t ps live show ?thesis by simp
  next
    case (Inr u)
    with t ps live show ?thesis using m by (intro exI [of _ ?w] exI [of _ w']) auto
  qed
qed

end
