(* ===== verification/Tde_Receive.thy ===== *)
theory Tde_Receive
  imports Tde_Archive
begin

text \<open>
  Streaming WAL into a backup: \<open>fetools/pg18/pg_basebackup/receivelog.c\<close>, with the directory method of \<open>walmethods.c\<close> (files that are not
  compressed) and the byte order functions of \<open>streamutil.c\<close>. WAL data arrives in messages, is encrypted if the backup asks for it, and
  is written to segment files.

  The record \<open>StreamCtl\<close> holds the options of the stream and what the program calls outside the repository. A function that returns false after
  it logged an error ends the stream: it is an error of the model.
\<close>

datatype send = CopyData bytes | CopyEnd

record StreamCtl =
  startpos :: u64
  sc_timeline :: u32
  standby_message_timeout :: int
  synchronous :: bool
  mark_done :: bool
  sc_encrypt :: bool
  stream_stop :: "u64 \<Rightarrow> u32 \<Rightarrow> bool \<Rightarrow> bool"
  partial_suffix :: "string option"
  wm_basedir :: string
  wm_sync :: bool
  sc_WalSegSz :: nat
  reportFlushPosition :: bool
  sc_XLogFileName :: "u32 \<Rightarrow> u64 \<Rightarrow> nat \<Rightarrow> string"
  sc_open_fails :: "string \<Rightarrow> bool"
  send_fails :: "send list \<Rightarrow> send \<Rightarrow> bool"

record Walfile =
  wf_pathname :: string
  currpos :: nat
  wf_fullpath :: string
  temp_suffix :: "string option"

datatype WalCloseMethod = CLOSE_NORMAL | CLOSE_UNLINK | CLOSE_NO_RENAME

record receive_state =
  walfile :: "Walfile option"
  lastFlushPosition :: u64
  still_sending :: bool
  sent :: "send list"

section \<open>Files in a directory\<close>

definition dir_get_file_name :: "string \<Rightarrow> string option \<Rightarrow> string" where
  "dir_get_file_name pathname suffix = take (MAXPGPATH - 1) (pathname @ (case suffix of None \<Rightarrow> [] | Some s \<Rightarrow> s))"

definition dir_existsfile :: "StreamCtl \<Rightarrow> string \<Rightarrow> bool tdeM" where
  "dir_existsfile sc pathname =
     (let tmppath = path_in (wm_basedir sc) pathname in getM (\<lambda>w. disk w tmppath \<noteq> None \<and> \<not> sc_open_fails sc tmppath))"

definition dir_get_file_size :: "StreamCtl \<Rightarrow> string \<Rightarrow> int tdeM" where
  "dir_get_file_size sc pathname =
     getM (\<lambda>w. case disk w (path_in (wm_basedir sc) pathname) of None \<Rightarrow> -1 | Some b \<Rightarrow> int (length b))"

definition dir_open_for_write :: "StreamCtl \<Rightarrow> string \<Rightarrow> string option \<Rightarrow> nat \<Rightarrow> Walfile tdeM" where
  "dir_open_for_write sc pathname suffix pad_to_size =
     (let tmppath = path_in (wm_basedir sc) (dir_get_file_name pathname suffix) in
      seqM (check (\<not> sc_open_fails sc tmppath) (E_open tmppath))
      (seqM (modifyM (\<lambda>w. if disk w tmppath = None then set_file tmppath [] w else w))
      (seqM (if pad_to_size > 0 then write_at tmppath (zeros pad_to_size) 0 else ret ())
      (seqM (if wm_sync sc then fsync tmppath else ret ())
      (ret \<lparr>wf_pathname = pathname, currpos = 0, wf_fullpath = tmppath, temp_suffix = suffix\<rparr>)))))"

definition dir_write :: "Walfile \<Rightarrow> bytes \<Rightarrow> (int \<times> Walfile) tdeM" where
  "dir_write f buf =
     bindM (pg_pwrite (wf_fullpath f) buf (currpos f)) (\<lambda>r.
     ret (r, if r > 0 then f\<lparr>currpos := currpos f + nat r\<rparr> else f))"

definition rename_file :: "string \<Rightarrow> string \<Rightarrow> unit tdeM" where
  "rename_file old new w =
     (case next_io w of
        (IO_ok, w') \<Rightarrow> (Inr (), w'\<lparr>disk := (disk w')(new := disk w' old, old := None)\<rparr>)
      | (_, w') \<Rightarrow> (Inl (E_rename old), w'))"

definition dir_close :: "StreamCtl \<Rightarrow> Walfile \<Rightarrow> WalCloseMethod \<Rightarrow> unit tdeM" where
  "dir_close sc f method =
     (let tmppath = path_in (wm_basedir sc) (dir_get_file_name (wf_pathname f) (temp_suffix f));
          tmppath2 = path_in (wm_basedir sc) (dir_get_file_name (wf_pathname f) None) in
      if method = CLOSE_NORMAL \<and> temp_suffix f \<noteq> None then
        (if wm_sync sc then durable_rename tmppath tmppath2 else rename_file tmppath tmppath2)
      else if method = CLOSE_UNLINK then modifyM (\<lambda>w. w\<lparr>disk := (disk w)(tmppath := None)\<rparr>)
      else if wm_sync sc then fsync (wf_fullpath f)
      else ret ())"

definition dir_sync :: "StreamCtl \<Rightarrow> Walfile \<Rightarrow> unit tdeM" where
  "dir_sync sc f = (if wm_sync sc then fsync (wf_fullpath f) else ret ())"

section \<open>Segments\<close>

definition mark_file_as_archived :: "StreamCtl \<Rightarrow> string \<Rightarrow> unit tdeM" where
  "mark_file_as_archived sc fname =
     bindM (dir_open_for_write sc (take (MAXPGPATH - 1) (''archive_status/'' @ fname @ ''.done'')) None 0) (\<lambda>f.
     dir_close sc f CLOSE_NORMAL)"

definition XLByteToSeg :: "u64 \<Rightarrow> nat \<Rightarrow> u64" where
  "XLByteToSeg xlrp segsz = xlrp div of_nat segsz"

definition open_walfile :: "StreamCtl \<Rightarrow> u64 \<Rightarrow> receive_state \<Rightarrow> receive_state tdeM" where
  "open_walfile sc startpoint rs =
     (let segno = XLByteToSeg startpoint (sc_WalSegSz sc);
          walfile_name = sc_XLogFileName sc (sc_timeline sc) segno (sc_WalSegSz sc);
          fn = dir_get_file_name walfile_name (partial_suffix sc);
          create = bindM (dir_open_for_write sc walfile_name (partial_suffix sc) (sc_WalSegSz sc)) (\<lambda>f. ret (rs\<lparr>walfile := Some f\<rparr>))
      in bindM (dir_existsfile sc fn) (\<lambda>exists.
         if exists then
           bindM (dir_get_file_size sc fn) (\<lambda>size.
           if size < 0 then throw (E_state ''could not get size of write-ahead log file'')
           else if size = int (sc_WalSegSz sc) then
             bindM (dir_open_for_write sc walfile_name (partial_suffix sc) 0) (\<lambda>f.
             seqM (dir_sync sc f) (ret (rs\<lparr>walfile := Some f\<rparr>)))
           else if size \<noteq> 0 then throw (E_state ''write-ahead log file has a wrong size'')
           else create)
         else create))"

definition close_walfile :: "StreamCtl \<Rightarrow> u64 \<Rightarrow> receive_state \<Rightarrow> receive_state tdeM" where
  "close_walfile sc pos rs =
     (case walfile rs of
        None \<Rightarrow> ret rs
      | Some f \<Rightarrow>
          seqM (dir_close sc f (if partial_suffix sc \<noteq> None \<and> currpos f \<noteq> sc_WalSegSz sc then CLOSE_NO_RENAME else CLOSE_NORMAL))
          (seqM (if currpos f = sc_WalSegSz sc \<and> mark_done sc then mark_file_as_archived sc (wf_pathname f) else ret ())
          (ret (rs\<lparr>walfile := None, lastFlushPosition := pos\<rparr>))))"

section \<open>Messages to the server\<close>

definition fe_sendint64 :: "u64 \<Rightarrow> bytes" where "fe_sendint64 i = rev (le64 i)"
definition fe_recvint64 :: "bytes \<Rightarrow> u64" where "fe_recvint64 buf = un64 (rev (take 8 buf))"

definition feTimestampDifferenceExceeds :: "int \<Rightarrow> int \<Rightarrow> int \<Rightarrow> bool" where
  "feTimestampDifferenceExceeds start_time stop_time msec \<longleftrightarrow> stop_time - start_time \<ge> msec * 1000"

definition send_message :: "StreamCtl \<Rightarrow> send \<Rightarrow> receive_state \<Rightarrow> receive_state tdeM" where
  "send_message sc m rs =
     seqM (check (\<not> send_fails sc (sent rs) m) (E_state ''could not send packet'')) (ret (rs\<lparr>sent := sent rs @ [m]\<rparr>))"

definition sendFeedback :: "StreamCtl \<Rightarrow> u64 \<Rightarrow> int \<Rightarrow> bool \<Rightarrow> receive_state \<Rightarrow> receive_state tdeM" where
  "sendFeedback sc blockpos now_ts replyRequested rs =
     send_message sc
       (CopyData (bytes_of ''r'' @ fe_sendint64 blockpos @ fe_sendint64 (if reportFlushPosition sc then lastFlushPosition rs else 0) @
         fe_sendint64 0 @ fe_sendint64 (of_int now_ts) @ [if replyRequested then 1 else 0])) rs"

definition sync_walfile :: "StreamCtl \<Rightarrow> u64 \<Rightarrow> receive_state \<Rightarrow> receive_state tdeM" where
  "sync_walfile sc blockpos rs =
     (case walfile rs of
        None \<Rightarrow> ret rs
      | Some f \<Rightarrow> seqM (dir_sync sc f) (ret (rs\<lparr>lastFlushPosition := blockpos\<rparr>)))"

definition CheckCopyStreamStop :: "StreamCtl \<Rightarrow> u64 \<Rightarrow> receive_state \<Rightarrow> receive_state tdeM" where
  "CheckCopyStreamStop sc blockpos rs =
     (if still_sending rs \<and> stream_stop sc blockpos (sc_timeline sc) False then
        bindM (close_walfile sc blockpos rs) (\<lambda>rs.
        bindM (send_message sc CopyEnd rs) (\<lambda>rs. ret (rs\<lparr>still_sending := False\<rparr>)))
      else ret rs)"

section \<open>Messages from the server\<close>

definition ProcessKeepaliveMsg :: "StreamCtl \<Rightarrow> bytes \<Rightarrow> u64 \<Rightarrow> int \<Rightarrow> int \<Rightarrow> receive_state \<Rightarrow> (receive_state \<times> int) tdeM" where
  "ProcessKeepaliveMsg sc copybuf blockpos now_ts last_status rs =
     (if length copybuf < 18 then throw (E_state ''streaming header too small'')
      else if copybuf ! 17 \<noteq> 0 \<and> still_sending rs then
        bindM (if reportFlushPosition sc \<and> lastFlushPosition rs < blockpos then sync_walfile sc blockpos rs else ret rs) (\<lambda>rs.
        bindM (sendFeedback sc blockpos now_ts False rs) (\<lambda>rs. ret (rs, now_ts)))
      else ret (rs, last_status))"

text \<open>
  The loop over the data \<open>d\<close> of a message that is left. The number \<open>segno\<close> of the segment is computed once, before the loop. Every turn
  writes a byte at least, as long as \<open>xlogoff\<close> lies in a segment: the length plus one is enough fuel.
\<close>

fun xlogdata_loop :: "env \<Rightarrow> StreamCtl \<Rightarrow> u64 \<Rightarrow> nat \<Rightarrow> bytes \<Rightarrow> nat \<Rightarrow> u64 \<Rightarrow> receive_state \<Rightarrow> (receive_state \<times> u64) tdeM" where
  "xlogdata_loop ev sc segno 0 d xlogoff blockpos rs = throw (E_state ''out of fuel'')"
| "xlogdata_loop ev sc segno (Suc fuel) d xlogoff blockpos rs =
     (if d = [] then ret (rs, blockpos)
      else
        (let n = (if xlogoff + length d > sc_WalSegSz sc then sc_WalSegSz sc - xlogoff else length d);
             segSize = of_nat (sc_WalSegSz sc) in
         bindM (if walfile rs = None then open_walfile sc blockpos rs else ret rs) (\<lambda>rs.
         bindM (if sc_encrypt sc
                then
                  bindM (tde_ensure_xlog_key_location ev (WalLocation (XLogSegNoOffsetToRecPtr segno (of_nat xlogoff) segSize) (sc_timeline sc))) (\<lambda>_.
                  TDEXLogCryptBuffer ev None (take n d) (of_nat n) (of_nat xlogoff) (sc_timeline sc) segno segSize)
                else ret (take n d)) (\<lambda>buf.
         case walfile rs of
           None \<Rightarrow> throw (E_null_pointer ''walfile'')
         | Some f \<Rightarrow>
             bindM (dir_write f buf) (\<lambda>(r, f).
             seqM (check (r = int n) (E_write (wf_fullpath f)))
             (let blockpos = blockpos + of_nat n; rs = rs\<lparr>walfile := Some f\<rparr> in
              if XLogSegmentOffset blockpos segSize = 0 then
                bindM (close_walfile sc blockpos rs) (\<lambda>rs.
                if still_sending rs \<and> stream_stop sc blockpos (sc_timeline sc) True then
                  bindM (send_message sc CopyEnd rs) (\<lambda>rs. ret (rs\<lparr>still_sending := False\<rparr>, blockpos))
                else xlogdata_loop ev sc segno fuel (drop n d) 0 blockpos rs)
              else xlogdata_loop ev sc segno fuel (drop n d) (xlogoff + n) blockpos rs))))))"

definition xlogdata_header :: nat where "xlogdata_header = 1 + 8 + 8 + 8"

definition ProcessXLogDataMsg :: "env \<Rightarrow> StreamCtl \<Rightarrow> bytes \<Rightarrow> u64 \<Rightarrow> receive_state \<Rightarrow> (receive_state \<times> u64) tdeM" where
  "ProcessXLogDataMsg ev sc copybuf blockpos rs =
     (if \<not> still_sending rs then ret (rs, blockpos)
      else if length copybuf < xlogdata_header then throw (E_state ''streaming header too small'')
      else
        (let blockpos = fe_recvint64 (drop 1 copybuf);
             xlogoff = unat (XLogSegmentOffset blockpos (of_nat (sc_WalSegSz sc)));
             segno = XLByteToSeg blockpos (sc_WalSegSz sc);
             d = drop xlogdata_header copybuf in
         seqM (check (case walfile rs of None \<Rightarrow> xlogoff = 0 | Some f \<Rightarrow> currpos f = xlogoff) (E_state ''got WAL data at an unexpected offset''))
         (xlogdata_loop ev sc segno (Suc (length d)) d xlogoff blockpos rs)))"

text \<open>The codes of results are those of libpq. The result is the one that the caller gets, with the position where the stream ended.\<close>

definition PGRES_COPY_IN :: nat where "PGRES_COPY_IN = 4"

definition HandleEndOfCopyStream :: "StreamCtl \<Rightarrow> nat \<Rightarrow> nat \<Rightarrow> u64 \<Rightarrow> receive_state \<Rightarrow> (receive_state \<times> u64 \<times> nat) tdeM" where
  "HandleEndOfCopyStream sc res res2 blockpos rs =
     (if still_sending rs then
        bindM (close_walfile sc blockpos rs) (\<lambda>rs.
        if res = PGRES_COPY_IN then bindM (send_message sc CopyEnd rs) (\<lambda>rs. ret (rs\<lparr>still_sending := False\<rparr>, blockpos, res2))
        else ret (rs\<lparr>still_sending := False\<rparr>, blockpos, res))
      else ret (rs, blockpos, res))"

text \<open>What \<open>CopyStreamReceive\<close> returns: nothing within the timeout, an error, a message, or the end of the stream with the results that follow.\<close>

datatype copy_event = Timeout | Failure | Message bytes | Ended nat nat

text \<open>What is done before the program waits for the next message.\<close>

definition before_receive :: "StreamCtl \<Rightarrow> int \<Rightarrow> int \<Rightarrow> u64 \<Rightarrow> receive_state \<Rightarrow> (receive_state \<times> int) tdeM" where
  "before_receive sc now_ts last_status blockpos rs =
     bindM (CheckCopyStreamStop sc blockpos rs) (\<lambda>rs.
     bindM (if synchronous sc \<and> lastFlushPosition rs < blockpos \<and> walfile rs \<noteq> None
            then bindM (sync_walfile sc blockpos rs) (\<lambda>rs. bindM (sendFeedback sc blockpos now_ts False rs) (\<lambda>rs. ret (rs, now_ts)))
            else ret (rs, last_status)) (\<lambda>(rs, last_status).
     if still_sending rs \<and> standby_message_timeout sc > 0 \<and> feTimestampDifferenceExceeds last_status now_ts (standby_message_timeout sc)
     then bindM (sendFeedback sc blockpos now_ts False rs) (\<lambda>rs. ret (rs, now_ts))
     else ret (rs, last_status)))"

text \<open>
  The loop over the events, each with the time it is handled at; \<open>outer\<close> tells whether the outer of the two loops is entered again.
  Without further events the program waits.
\<close>

fun copy_loop :: "env \<Rightarrow> StreamCtl \<Rightarrow> bool \<Rightarrow> (int \<times> copy_event) list \<Rightarrow> int \<Rightarrow> u64 \<Rightarrow> receive_state \<Rightarrow> (receive_state \<times> u64 \<times> nat) tdeM" where
  "copy_loop ev sc outer [] last_status blockpos rs = throw (E_state ''waiting'')"
| "copy_loop ev sc outer ((now_ts, e) # es) last_status blockpos rs =
     bindM (if outer then before_receive sc now_ts last_status blockpos rs else ret (rs, last_status)) (\<lambda>(rs, last_status).
     case e of
       Timeout \<Rightarrow> copy_loop ev sc True es last_status blockpos rs
     | Failure \<Rightarrow> throw (E_state ''could not receive data from WAL stream'')
     | Ended res res2 \<Rightarrow> HandleEndOfCopyStream sc res res2 blockpos rs
     | Message m \<Rightarrow>
         if take 1 m = bytes_of ''k'' then
           bindM (ProcessKeepaliveMsg sc m blockpos now_ts last_status rs) (\<lambda>(rs, last_status).
           copy_loop ev sc False es last_status blockpos rs)
         else if take 1 m = bytes_of ''w'' then
           bindM (ProcessXLogDataMsg ev sc m blockpos rs) (\<lambda>(rs, blockpos).
           bindM (CheckCopyStreamStop sc blockpos rs) (\<lambda>rs.
           copy_loop ev sc False es last_status blockpos rs))
         else throw (E_state ''unrecognized streaming header''))"

definition HandleCopyStream :: "env \<Rightarrow> StreamCtl \<Rightarrow> (int \<times> copy_event) list \<Rightarrow> receive_state \<Rightarrow> (receive_state \<times> u64 \<times> nat) tdeM" where
  "HandleCopyStream ev sc events rs = copy_loop ev sc True events (-1) (startpos sc) (rs\<lparr>still_sending := True\<rparr>)"

section \<open>Timeline history files\<close>

definition existsTimeLineHistoryFile :: "StreamCtl \<Rightarrow> (u32 \<Rightarrow> string) \<Rightarrow> bool tdeM" where
  "existsTimeLineHistoryFile sc TLHistoryFileName =
     (if sc_timeline sc = 1 then ret True else dir_existsfile sc (TLHistoryFileName (sc_timeline sc)))"

definition writeTimeLineHistoryFile :: "StreamCtl \<Rightarrow> (u32 \<Rightarrow> string) \<Rightarrow> string \<Rightarrow> bytes \<Rightarrow> unit tdeM" where
  "writeTimeLineHistoryFile sc TLHistoryFileName filename content =
     (let histfname = TLHistoryFileName (sc_timeline sc) in
      seqM (check (histfname = filename) (E_state ''server reported unexpected history file name''))
      (bindM (dir_open_for_write sc histfname (Some ''.tmp'') 0) (\<lambda>f.
       bindM (dir_write f content) (\<lambda>(r, f).
       if r \<noteq> int (length content) then seqM (dir_close sc f CLOSE_UNLINK) (throw (E_write (wf_fullpath f)))
       else
         seqM (dir_close sc f CLOSE_NORMAL)
         (if mark_done sc then mark_file_as_archived sc histfname else ret ())))))"

section \<open>The stream\<close>

definition CheckServerVersionForStreaming :: "int \<Rightarrow> int \<Rightarrow> bool" where
  "CheckServerVersionForStreaming client server \<longleftrightarrow> 903 \<le> server div 100 \<and> server div 100 \<le> client div 100"

definition PGRES_COMMAND_OK :: nat where "PGRES_COMMAND_OK = 1"
definition PGRES_TUPLES_OK_code :: nat where "PGRES_TUPLES_OK_code = 2"

text \<open>
  What the server answers while one timeline is streamed: to the command for the history file, to the start of the stream, the events of
  the stream, and after its end the next timeline with its start, if the answer can be read, and whether the command was completed.
\<close>

record stream_round =
  history_answer :: "(string \<times> bytes) option"
  copy_both :: bool
  copy_events :: "(int \<times> copy_event) list"
  end_of_streaming :: "(u32 \<times> u64) option"
  command_completed :: bool

text \<open>The return value of \<open>writeTimeLineHistoryFile\<close> is not looked at. When an error ends the stream, closing the open file does not change it.\<close>

fun stream_timelines :: "env \<Rightarrow> StreamCtl \<Rightarrow> (u32 \<Rightarrow> string) \<Rightarrow> stream_round list \<Rightarrow> receive_state \<Rightarrow> receive_state tdeM" where
  "stream_timelines ev sc TLHistoryFileName [] rs = throw (E_state ''waiting'')"
| "stream_timelines ev sc TLHistoryFileName (r # rounds) rs =
     bindM (existsTimeLineHistoryFile sc TLHistoryFileName) (\<lambda>exists.
     seqM (if exists then ret ()
           else
             (case history_answer r of
                None \<Rightarrow> throw (E_state ''could not send replication command'')
              | Some (filename, content) \<Rightarrow> (\<lambda>w. (Inr (), snd (writeTimeLineHistoryFile sc TLHistoryFileName filename content w)))))
     (if stream_stop sc (startpos sc) (sc_timeline sc) False then ret rs
      else
        seqM (check (copy_both r) (E_state ''could not send replication command''))
        (bindM (HandleCopyStream ev sc (copy_events r) rs) (\<lambda>(rs, stoppos, res).
         if res = PGRES_TUPLES_OK_code then
           (case end_of_streaming r of
              None \<Rightarrow> throw (E_state ''could not parse next timeline'')
            | Some (newtimeline, newstart) \<Rightarrow>
                if newtimeline \<le> sc_timeline sc then throw (E_state ''server reported unexpected next timeline'')
                else if newstart > stoppos then throw (E_state ''server reported next timeline to begin later'')
                else if \<not> command_completed r then throw (E_state ''unexpected termination of replication stream'')
                else
                  stream_timelines ev
                    (sc\<lparr>sc_timeline := newtimeline, startpos := newstart - XLogSegmentOffset newstart (of_nat (sc_WalSegSz sc))\<rparr>)
                    TLHistoryFileName rounds rs)
         else if res = PGRES_COMMAND_OK then
           (if stream_stop sc stoppos (sc_timeline sc) False then ret rs
            else throw (E_state ''replication stream was terminated before stop point''))
         else throw (E_state ''unexpected termination of replication stream'')))))"

text \<open>\<open>identified\<close> is what the server says of itself, if the caller wants it to be compared with its own identifier.\<close>

definition ReceiveXlogStream ::
    "env \<Rightarrow> StreamCtl \<Rightarrow> int \<Rightarrow> int \<Rightarrow> bool \<Rightarrow> string option \<Rightarrow> (string \<times> u32) option \<Rightarrow> (u32 \<Rightarrow> string) \<Rightarrow> stream_round list \<Rightarrow> receive_state \<Rightarrow> receive_state tdeM" where
  "ReceiveXlogStream ev sc client server replication_slot sysidentifier identified TLHistoryFileName rounds rs =
     seqM (check (CheckServerVersionForStreaming client server) (E_state ''incompatible server version''))
     (let sc = sc\<lparr>reportFlushPosition := replication_slot \<or> synchronous sc\<rparr> in
      seqM (case sysidentifier of
              None \<Rightarrow> ret ()
            | Some i \<Rightarrow>
                (case identified of
                   None \<Rightarrow> throw (E_state ''could not identify system'')
                 | Some (i', servertli) \<Rightarrow>
                     seqM (check (i = i') (E_state ''system identifier does not match''))
                     (check (sc_timeline sc \<le> servertli) (E_state ''starting timeline is not present in the server''))))
      (stream_timelines ev sc TLHistoryFileName rounds (rs\<lparr>lastFlushPosition := startpos sc\<rparr>)))"

end
