(* ===== verification/Tde_Receive_Ops.thy ===== *)
theory Tde_Receive_Ops
  imports Tde_Receive Tde_Archive_Ops
begin

text \<open>
  What streaming WAL into an encrypted backup achieves: the data of a message that lies in one segment can be read back with the keys of the backup. The
  data behind a segment boundary inside a message cannot: it is encrypted as if it were at the start of the segment before.
\<close>

section \<open>The keys\<close>

text \<open>The state of a process that writes with the last range of its cache, whose start is known.\<close>

definition wal_writer :: "WalEncryptionRange list \<Rightarrow> world \<Rightarrow> bool" where
  "wal_writer rgs w \<longleftrightarrow> keys_current w \<and> cache_ok w \<and> map wc_range (tde_wal_key_cache w) = rgs \<and> enc_key_lsn w \<noteq> 0 \<and> io w = []"

lemma wal_writer_disk [simp]: "wal_writer rgs (w\<lparr>disk := d\<rparr>) = wal_writer rgs w" "wal_writer rgs (set_file p b w) = wal_writer rgs w"
  by (simp_all add: wal_writer_def keys_current_def cache_ok_def set_file_def)

text \<open>A process that reads with the same ranges.\<close>

definition wal_reader :: "WalEncryptionRange list \<Rightarrow> world \<Rightarrow> bool" where
  "wal_reader rgs w \<longleftrightarrow> keys_current w \<and> cache_ok w \<and> map wc_range (tde_wal_key_cache w) = rgs"

lemma wal_reader_cache:
  assumes "wal_reader rgs w" "map wc_range rs = rgs" "\<forall>r\<in>set rs. rec_ok r"
  shows "wal_reader rgs (w\<lparr>tde_wal_key_cache := rs\<rparr>)"
proof -
  have o: "ordered xs \<longleftrightarrow> sorted_wrt (\<lambda>a b. wr_end a \<le> wr_start b) (map wc_range xs)" for xs
    by (simp add: ordered_def sorted_wrt_map)
  have l: "xs \<noteq> [] \<Longrightarrow> wc_range (last xs) = last (map wc_range xs)" for xs :: "WALKeyCacheRec list" by (simp add: last_map)
  have "rs \<noteq> [] \<longleftrightarrow> tde_wal_key_cache w \<noteq> []" using assms(1,2) by (auto simp: wal_reader_def)
  then show ?thesis
    using assms o [of rs] o [of "tde_wal_key_cache w"] l [of rs] l [of "tde_wal_key_cache w"]
    by (auto simp: wal_reader_def keys_current_def cache_ok_def)
qed

lemma wal_writer_reader: "wal_writer rgs w \<longleftrightarrow> wal_reader rgs w \<and> enc_key_lsn w \<noteq> 0 \<and> io w = []"
  by (auto simp: wal_writer_def wal_reader_def)

lemma wal_writer_cache:
  "wal_writer rgs w \<Longrightarrow> map wc_range rs = rgs \<Longrightarrow> \<forall>r\<in>set rs. rec_ok r \<Longrightarrow> wal_writer rgs (w\<lparr>tde_wal_key_cache := rs\<rparr>)"
  by (simp add: wal_writer_reader wal_reader_cache)

lemma encrypt_data_ok:
  assumes "ecb_is ev F" "m \<le> 30" "(unat segno + 1) * 2 ^ m < 2 ^ 64" "buf \<noteq> []" "off + length buf \<le> 2 ^ m" "wal_writer rgs w"
  shows "\<exists>w'. bindM (tde_ensure_xlog_key_location ev loc) (\<lambda>_. TDEXLogCryptBuffer ev None buf (of_nat (length buf)) (of_nat off) t segno (2 ^ m)) w =
     (Inr (wal_crypt F rgs t segno m off buf), w') \<and> wal_writer rgs w' \<and> disk w' = disk w"
proof -
  have k: "keys_current w" "cache_ok w" "map wc_range (tde_wal_key_cache w) = rgs" "enc_key_lsn w \<noteq> 0" using assms(6) by (simp_all add: wal_writer_def)
  have "\<exists>b. tde_ensure_xlog_key_location ev loc w = (Inr b, w)"
    using k(4) by (simp add: tde_ensure_xlog_key_location_def TDEXLogGetEncKeyLsn_def TDEXLogGetEncKeyTli_def runM Let_def)
  moreover obtain rs where "TDEXLogCryptBuffer ev None buf (of_nat (length buf)) (of_nat off) t segno (2 ^ m) w =
      (Inr (wal_crypt F rgs t segno m off buf), w\<lparr>tde_wal_key_cache := rs\<rparr>)" "map wc_range rs = rgs" "\<forall>r\<in>set rs. rec_ok r"
    using crypt_buffer_ok [OF assms(1-5) k(1,2), of None t] k(3) by auto
  ultimately show ?thesis using wal_writer_cache [OF assms(6)] by (auto simp: runM)
qed

lemma read_data_run:
  assumes "ecb_is ev F" "m \<le> 30" "(unat segno + 1) * 2 ^ m < 2 ^ 64" "ct \<noteq> []" "off + length ct \<le> 2 ^ m" "wal_reader rgs w"
    and "pread (file_bytes w fd) (length ct) off = ct" "length old = length ct"
  shows "\<exists>w'. tdeheap_xlog_seg_read ev fd old (of_nat off) t segno (2 ^ m) w = (Inr (int (length ct), wal_crypt F rgs t segno m off ct), w') \<and>
     wal_reader rgs w' \<and> disk w' = disk w"
proof -
  have "(2 :: nat) ^ m \<le> 2 ^ 30" using assms(2) by (rule power_increasing) simp
  then have u: "unat (of_nat off :: u64) = off" using assms(5) by (subst unat_of_nat) simp
  have k: "keys_current w" "cache_ok w" "map wc_range (tde_wal_key_cache w) = rgs" using assms(6) by (simp_all add: wal_reader_def)
  obtain rs where "TDEXLogCryptBuffer ev None ct (of_nat (length ct)) (of_nat off) t segno (2 ^ m) w =
      (Inr (wal_crypt F rgs t segno m off ct), w\<lparr>tde_wal_key_cache := rs\<rparr>)" "map wc_range rs = rgs" "\<forall>r\<in>set rs. rec_ok r"
    using crypt_buffer_ok [OF assms(1-5) k(1,2), of None t] k(3) by auto
  then show ?thesis using u assms(4,7,8) wal_reader_cache [OF assms(6)] unfolding tdeheap_xlog_seg_read_def by (auto simp: runM)
qed

lemma read_data_ok:
  assumes "ecb_is ev F" "m \<le> 30" "(unat segno + 1) * 2 ^ m < 2 ^ 64" "ct \<noteq> []" "off + length ct \<le> 2 ^ m" "wal_reader rgs w"
    and "pread (file_bytes w fd) (length ct) off = ct" "length old = length ct"
  shows "fst (tdeheap_xlog_seg_read ev fd old (of_nat off) t segno (2 ^ m) w) = Inr (int (length ct), wal_crypt F rgs t segno m off ct)"
  using read_data_run [OF assms, of t] by auto

section \<open>Messages\<close>

definition xlogdata_message :: "u64 \<Rightarrow> bytes \<Rightarrow> bytes \<Rightarrow> bytes" where
  "xlogdata_message pos rest d = bytes_of ''w'' @ fe_sendint64 pos @ rest @ d"

lemma message_parts:
  assumes "length rest = 16"
  shows "xlogdata_header \<le> length (xlogdata_message pos rest d)" "fe_recvint64 (drop 1 (xlogdata_message pos rest d)) = pos"
    "drop xlogdata_header (xlogdata_message pos rest d) = d"
  using assms by (simp_all add: xlogdata_message_def xlogdata_header_def fe_sendint64_def fe_recvint64_def bytes_of_def)

lemma segment_of:
  assumes "m \<le> 30" "(unat (pos div 2 ^ m) + 1) * 2 ^ m < 2 ^ 64"
  shows "unat (pos div 2 ^ m :: u64) = unat pos div 2 ^ m" "unat (XLogSegmentOffset pos (2 ^ m)) = unat pos mod 2 ^ m"
proof -
  have "m < 64" using assms(1) by simp
  then have "unat (2 ^ m :: u64) = 2 ^ m" by (simp add: unsigned_of_nat [of "2 ^ m", simplified] take_bit_nat_eq_self)
  then show "unat (pos div 2 ^ m :: u64) = unat pos div 2 ^ m" by (simp add: unat_div)
  show "unat (XLogSegmentOffset pos (2 ^ m)) = unat pos mod 2 ^ m" by (rule XLogSegmentOffset_mod)
qed

text \<open>One turn of the loop over a message, with a file open.\<close>

lemma turn_ok:
  assumes sc: "sc_WalSegSz sc = 2 ^ m" "sc_encrypt sc" and ev: "ecb_is ev F" "m \<le> 30" "(unat segno + 1) * 2 ^ m < 2 ^ 64"
    and d: "d \<noteq> []" "off < 2 ^ m" "n = (if off + length d > 2 ^ m then 2 ^ m - off else length d)"
    and rs: "walfile rs = Some f" "currpos f = off" and w: "wal_writer rgs w"
  shows "\<exists>w'. xlogdata_loop ev sc segno (Suc fuel) d off pos rs w =
     (let pos = pos + of_nat n; rs = rs\<lparr>walfile := Some (f\<lparr>currpos := off + n\<rparr>)\<rparr> in
      if XLogSegmentOffset pos (2 ^ m) = 0 then
        bindM (close_walfile sc pos rs) (\<lambda>rs.
        if still_sending rs \<and> stream_stop sc pos (sc_timeline sc) True then
          bindM (send_message sc CopyEnd rs) (\<lambda>rs. ret (rs\<lparr>still_sending := False\<rparr>, pos))
        else xlogdata_loop ev sc segno fuel (drop n d) 0 pos rs)
      else xlogdata_loop ev sc segno fuel (drop n d) (off + n) pos rs) w' \<and>
     wal_writer rgs w' \<and>
     disk w' = (disk w)(wf_fullpath f \<mapsto> pwrite (file_bytes w (wf_fullpath f)) (wal_crypt F rgs (sc_timeline sc) segno m off (take n d)) off)"
proof -
  let ?b = "take n d" and ?t = "sc_timeline sc"
  have n: "0 < n" "off + n \<le> 2 ^ m" "length ?b = n" "?b \<noteq> []" using d by (auto split: if_splits)
  let ?ct = "wal_crypt F rgs ?t segno m off ?b"
  obtain w1 where w1: "bindM (tde_ensure_xlog_key_location ev (WalLocation (XLogSegNoOffsetToRecPtr segno (of_nat off) (2 ^ m)) ?t))
      (\<lambda>_. TDEXLogCryptBuffer ev None ?b (of_nat n) (of_nat off) ?t segno (2 ^ m)) w = (Inr ?ct, w1)" "wal_writer rgs w1" "disk w1 = disk w"
    using encrypt_data_ok [OF ev n(4) _ w, of off "WalLocation (XLogSegNoOffsetToRecPtr segno (of_nat off) (2 ^ m)) ?t" ?t] n(2,3) by auto
  let ?w = "set_file (wf_fullpath f) (pwrite (file_bytes w (wf_fullpath f)) ?ct off) w1"
  have "dir_write f ?ct w1 = (Inr (int n, f\<lparr>currpos := off + n\<rparr>), ?w)"
    using w1(2,3) rs(2) n(1,3) by (simp add: dir_write_def runM pg_pwrite_ok wal_writer_def file_bytes_def)
  then have "xlogdata_loop ev sc segno (Suc fuel) d off pos rs w =
     (let pos = pos + of_nat n; rs = rs\<lparr>walfile := Some (f\<lparr>currpos := off + n\<rparr>)\<rparr> in
      if XLogSegmentOffset pos (2 ^ m) = 0 then
        bindM (close_walfile sc pos rs) (\<lambda>rs.
        if still_sending rs \<and> stream_stop sc pos ?t True then
          bindM (send_message sc CopyEnd rs) (\<lambda>rs. ret (rs\<lparr>still_sending := False\<rparr>, pos))
        else xlogdata_loop ev sc segno fuel (drop n d) 0 pos rs)
      else xlogdata_loop ev sc segno fuel (drop n d) (off + n) pos rs) ?w"
    unfolding xlogdata_loop.simps(2) Let_def sc(1) d(3) [symmetric] using d(1) rs(1) sc(2) w1(1) by (simp add: runM split del: if_split)
  then show ?thesis using w1(2,3) by (intro exI [of _ ?w]) simp
qed

lemma message_start:
  assumes "sc_WalSegSz sc = 2 ^ m" "still_sending rs" "length rest = 16" "case walfile rs of None \<Rightarrow> unat pos mod 2 ^ m = 0 | Some f \<Rightarrow> currpos f = unat pos mod 2 ^ m"
  shows "ProcessXLogDataMsg ev sc (xlogdata_message pos rest d) bp rs w = xlogdata_loop ev sc (pos div 2 ^ m) (Suc (length d)) d (unat pos mod 2 ^ m) pos rs w"
  using assms message_parts [OF assms(3), of pos d] XLogSegmentOffset_mod [of pos m]
  by (simp add: ProcessXLogDataMsg_def Let_def XLByteToSeg_def runM del: xlogdata_loop.simps split: option.splits)

lemma offset_after:
  assumes "m \<le> 30" "(unat (pos div 2 ^ m :: u64) + 1) * 2 ^ m < 2 ^ 64" "unat pos mod 2 ^ m + n \<le> 2 ^ m"
  shows "XLogSegmentOffset (pos + of_nat n) (2 ^ m) = 0 \<longleftrightarrow> unat pos mod 2 ^ m + n = 0 \<or> unat pos mod 2 ^ m + n = 2 ^ m"
    "unat (pos + of_nat n) = unat pos + n"
proof -
  let ?q = "unat pos div 2 ^ m" and ?r = "unat pos mod 2 ^ m"
  have p: "unat pos = ?q * 2 ^ m + ?r" by (rule div_mult_mod_eq [symmetric])
  have "(?q + 1) * 2 ^ m < 2 ^ 64" using segment_of(1) [OF assms(1,2)] assms(2) by simp
  then have "unat pos + n < 2 ^ 64" using assms(3) p by (simp add: add_mult_distrib)
  then show u: "unat (pos + of_nat n) = unat pos + n" by (simp add: unat_word_ariths unat_of_nat)
  have "(unat pos + n) mod 2 ^ m = (?r + n) mod 2 ^ m" by (simp add: mod_add_left_eq)
  also have "\<dots> = 0 \<longleftrightarrow> ?r + n = 0 \<or> ?r + n = 2 ^ m" using assms(3) by (cases "?r + n = 2 ^ m") auto
  finally show "XLogSegmentOffset (pos + of_nat n) (2 ^ m) = 0 \<longleftrightarrow> ?r + n = 0 \<or> ?r + n = 2 ^ m"
    using u XLogSegmentOffset_mod [of "pos + of_nat n" m] by (metis unat_0 unsigned_word_eqI)
qed

text \<open>
  C24. WAL that is streamed into an encrypted backup can be read there: if the data of a message continues the open segment file and ends before
  the end of the segment, it is written at its place as ciphertext under the ranges of the backup, nothing else changes, and a process
  that uses the same ranges reads exactly the data that was sent.
\<close>

theorem streamed_wal_readable:
  assumes "ecb_is ev F" "m \<le> 30" "sc_WalSegSz sc = 2 ^ m" "sc_encrypt sc" "(unat (pos div 2 ^ m) + 1) * 2 ^ m < 2 ^ 64"
    and "still_sending rs" "walfile rs = Some f" "currpos f = unat pos mod 2 ^ m" "wal_writer rgs w"
    and "length rest = 16" "d \<noteq> []" "unat pos mod 2 ^ m + length d < 2 ^ m"
  shows "\<exists>w'. ProcessXLogDataMsg ev sc (xlogdata_message pos rest d) bp rs w =
       (Inr (rs\<lparr>walfile := Some (f\<lparr>currpos := unat pos mod 2 ^ m + length d\<rparr>)\<rparr>, pos + of_nat (length d)), w') \<and>
     wal_writer rgs w' \<and>
     disk w' = (disk w)(wf_fullpath f \<mapsto> pwrite (file_bytes w (wf_fullpath f))
       (wal_crypt F rgs (sc_timeline sc) (pos div 2 ^ m) m (unat pos mod 2 ^ m) d) (unat pos mod 2 ^ m)) \<and>
     (\<forall>w2 old. wal_reader rgs w2 \<and> disk w2 (wf_fullpath f) = disk w' (wf_fullpath f) \<and> length old = length d \<longrightarrow>
        fst (tdeheap_xlog_seg_read ev (wf_fullpath f) old (of_nat (unat pos mod 2 ^ m)) (sc_timeline sc) (pos div 2 ^ m) (2 ^ m) w2) = Inr (int (length d), d))"
proof -
  let ?off = "unat pos mod 2 ^ m" and ?s = "pos div 2 ^ m" and ?t = "sc_timeline sc" and ?p = "wf_fullpath f"
  let ?ct = "wal_crypt F rgs ?t ?s m ?off d"
  have st: "ProcessXLogDataMsg ev sc (xlogdata_message pos rest d) bp rs w = xlogdata_loop ev sc ?s (Suc (length d)) d ?off pos rs w"
    using assms(7,8) by (intro message_start [OF assms(3,6,10)]) simp
  have off: "?off < 2 ^ m" and nb: "\<not> 2 ^ m < ?off + length d" using assms(12) by simp_all
  from turn_ok [OF assms(3,4,1,2,5,11) off refl assms(7,8,9), of "length d" pos] obtain w' where
    t: "xlogdata_loop ev sc ?s (Suc (length d)) d ?off pos rs w =
      (let pos = pos + of_nat (length d); rs = rs\<lparr>walfile := Some (f\<lparr>currpos := ?off + length d\<rparr>)\<rparr> in
      if XLogSegmentOffset pos (2 ^ m) = 0 then
        bindM (close_walfile sc pos rs) (\<lambda>rs.
        if still_sending rs \<and> stream_stop sc pos (sc_timeline sc) True then
          bindM (send_message sc CopyEnd rs) (\<lambda>rs. ret (rs\<lparr>still_sending := False\<rparr>, pos))
        else xlogdata_loop ev sc ?s (length d) (drop (length d) d) 0 pos rs)
      else xlogdata_loop ev sc ?s (length d) (drop (length d) d) (?off + length d) pos rs) w'"
      "wal_writer rgs w'" "disk w' = (disk w)(?p \<mapsto> pwrite (file_bytes w ?p) ?ct ?off)"
    using nb by (auto simp del: xlogdata_loop.simps)
  have "XLogSegmentOffset (pos + of_nat (length d)) (2 ^ m) \<noteq> 0"
    using offset_after(1) [OF assms(2,5), of "length d"] assms(11,12) by simp
  moreover obtain k where "length d = Suc k" using assms(11) by (cases d) auto
  ultimately have run: "ProcessXLogDataMsg ev sc (xlogdata_message pos rest d) bp rs w =
      (Inr (rs\<lparr>walfile := Some (f\<lparr>currpos := ?off + length d\<rparr>)\<rparr>, pos + of_nat (length d)), w')"
    using st t(1) by (simp add: Let_def)
  have ct: "?ct \<noteq> []" "?off + length ?ct \<le> 2 ^ m" using assms(11,12) by (auto simp: wal_crypt_def)
  have "fst (tdeheap_xlog_seg_read ev ?p old (of_nat ?off) ?t ?s (2 ^ m) w2) = Inr (int (length d), d)"
    if "wal_reader rgs w2" "disk w2 ?p = disk w' ?p" "length old = length d" for w2 old
    using read_data_ok [OF assms(1,2,5) ct that(1), of ?p old ?t] that(2,3) t(3) pread_pwrite_same [of "file_bytes w ?p" ?ct ?off]
    by (simp add: file_bytes_def)
  then show ?thesis using run t(2,3) by blast
qed

lemma next_segno: "(unat s + 2) * 2 ^ m < (2 :: nat) ^ 64 \<Longrightarrow> unat (s + 1 :: u64) = unat s + 1"
proof -
  assume a: "(unat s + 2) * 2 ^ m < (2 :: nat) ^ 64"
  have "(unat s + 2) * 1 \<le> (unat s + 2) * 2 ^ m" by (intro mult_le_mono) simp_all
  from le_less_trans [OF this a] have "unat s + 1 < 2 ^ 64" by simp
  then show ?thesis by (simp add: unat_word_ariths)
qed

lemma next_segment:
  assumes "m \<le> 30" "(unat (pos div 2 ^ m :: u64) + 1) * 2 ^ m < 2 ^ 64" "unat pos mod 2 ^ m + n = 2 ^ m"
  shows "(pos + of_nat n) div 2 ^ m = pos div 2 ^ m + 1"
proof -
  let ?q = "unat pos div 2 ^ m"
  have q: "unat (pos div 2 ^ m) = ?q" by (rule segment_of(1) [OF assms(1,2)])
  have "unat pos + n = (?q + 1) * 2 ^ m" using assms(3) div_mult_mod_eq [of "unat pos" "2 ^ m"] unfolding add_mult_distrib by linarith
  then have u: "unat (pos + of_nat n) = (?q + 1) * 2 ^ m" using offset_after(2) [OF assms(1,2), of n] assms(3) by simp
  have "m < 64" using assms(1) by simp
  then have "unat (2 ^ m :: u64) = 2 ^ m" by (simp add: unsigned_of_nat [of "2 ^ m", simplified] take_bit_nat_eq_self)
  then have "unat ((pos + of_nat n) div 2 ^ m) = ?q + 1" using u by (simp add: unat_div)
  moreover have "(?q + 1) * 1 \<le> (?q + 1) * 2 ^ m" by (intro mult_le_mono) simp_all
  from le_less_trans [OF this assms(2) [unfolded q]] have "?q + 1 < 2 ^ 64" by simp
  then have "unat (pos div 2 ^ m + 1) = ?q + 1" using q by (simp add: unat_word_ariths)
  ultimately show ?thesis by (simp add: word_unat_eq_iff)
qed

lemma next_segment_offset:
  assumes "m \<le> 30" "(unat (pos div 2 ^ m :: u64) + 2) * 2 ^ m < 2 ^ 64" "unat pos mod 2 ^ m + n = 2 ^ m" "0 < k" "k < 2 ^ m"
  shows "XLogSegmentOffset (pos + of_nat n + of_nat k) (2 ^ m) \<noteq> 0"
proof -
  have s: "(unat (pos div 2 ^ m) + 1) * 2 ^ m < 2 ^ 64" using assms(2) by (simp add: algebra_simps)
  let ?p = "pos + of_nat n"
  have d: "?p div 2 ^ m = pos div 2 ^ m + 1" by (rule next_segment [OF assms(1) s assms(3)])
  then have "(unat (?p div 2 ^ m) + 1) * 2 ^ m < 2 ^ 64" using next_segno [OF assms(2)] assms(2) by simp
  moreover have "unat ?p mod 2 ^ m = 0"
    using offset_after(2) [OF assms(1) s, of n] assms(3) mod_add_left_eq [of "unat pos" "2 ^ m" n] by simp
  ultimately show ?thesis using offset_after(1) [OF assms(1), of ?p k] assms(4,5) by simp
qed

section \<open>A message across a segment boundary\<close>

lemma open_turn:
  assumes "walfile rs = None" "open_walfile sc pos rs w = (Inr rs2, w2)" "walfile rs2 \<noteq> None" "d \<noteq> []"
  shows "xlogdata_loop ev sc segno (Suc fuel) d off pos rs w = xlogdata_loop ev sc segno (Suc fuel) d off pos rs2 w2"
proof -
  have b: "bindM x k w = k y v" if "x w = (Inr y, v)" for x and k :: "receive_state \<Rightarrow> (receive_state \<times> u64) tdeM" and y w v
    using that by (simp add: bindM_def)
  have "(if walfile rs = None then open_walfile sc pos rs else ret rs) w = (Inr rs2, w2)"
      "(if walfile rs2 = None then open_walfile sc pos rs2 else ret rs2) w2 = (Inr rs2, w2)"
    using assms by auto
  then show ?thesis unfolding xlogdata_loop.simps(2) Let_def using assms(4) by (simp only: if_False b)
qed

text \<open>The file that tells that a segment need not be archived; it is created, empty, if it is not there.\<close>

definition done_path :: "StreamCtl \<Rightarrow> Walfile \<Rightarrow> string" where
  "done_path sc f = path_in (wm_basedir sc) (dir_get_file_name (take (MAXPGPATH - 1) (''archive_status/'' @ wf_pathname f @ ''.done'')) None)"

definition created :: "string \<Rightarrow> (string \<rightharpoonup> bytes) \<Rightarrow> (string \<rightharpoonup> bytes)" where
  "created p d = (if d p = None then d(p \<mapsto> []) else d)"

lemma created_other [simp]: "q \<noteq> p \<Longrightarrow> created p d q = d q"
  by (simp add: created_def)

lemma close_full_ok:
  assumes "walfile rs = Some f" "temp_suffix f = None" "partial_suffix sc = None" "mark_done sc" "currpos f = sc_WalSegSz sc"
    "\<not> sc_open_fails sc (done_path sc f)" "io w = []"
  shows "close_walfile sc pos rs w = (Inr (rs\<lparr>walfile := None, lastFlushPosition := pos\<rparr>), w\<lparr>disk := created (done_path sc f) (disk w)\<rparr>)"
  using assms
  by (simp add: close_walfile_def dir_close_def mark_file_as_archived_def dir_open_for_write_def done_path_def created_def set_file_def Let_def runM fsync_def)

definition segment_path :: "StreamCtl \<Rightarrow> u64 \<Rightarrow> string" where
  "segment_path sc segno = path_in (wm_basedir sc) (dir_get_file_name (sc_XLogFileName sc (sc_timeline sc) segno (sc_WalSegSz sc)) None)"

lemma open_new_ok:
  assumes "sc_WalSegSz sc = 2 ^ m" "partial_suffix sc = None" "\<not> sc_open_fails sc (segment_path sc (pos div 2 ^ m))"
    "disk w (segment_path sc (pos div 2 ^ m)) = None" "io w = []"
  shows "\<exists>f. open_walfile sc pos rs w = (Inr (rs\<lparr>walfile := Some f\<rparr>), set_file (segment_path sc (pos div 2 ^ m)) (zeros (2 ^ m)) w) \<and>
     currpos f = 0 \<and> wf_fullpath f = segment_path sc (pos div 2 ^ m) \<and> temp_suffix f = None"
proof -
  have "pwrite [] (zeros (2 ^ m)) 0 = zeros (2 ^ m)" by (simp add: pwrite_def)
  then show ?thesis
    using assms
    by (intro exI [of _ "\<lparr>wf_pathname = sc_XLogFileName sc (sc_timeline sc) (pos div 2 ^ m) (2 ^ m), currpos = 0,
          wf_fullpath = segment_path sc (pos div 2 ^ m), temp_suffix = None\<rparr>"])
      (simp add: open_walfile_def Let_def XLByteToSeg_def dir_existsfile_def dir_open_for_write_def segment_path_def runM write_at_def
        fsync_def file_bytes_def set_file_def)
qed

lemma covered_crypt:
  assumes "cache_ok w" "rg \<in> set (map wc_range (tde_wal_key_cache w))" "\<forall>i<length d. covers rg (seg_loc t segno m (off + i))"
  shows "wal_crypt F (map wc_range (tde_wal_key_cache w)) t segno m off d = map (\<lambda>i. xor (d ! i) (wal_ks F t segno rg (off + i))) [0..<length d]"
proof -
  obtain r where r: "r \<in> set (tde_wal_key_cache w)" "wc_range r = rg" using assms(2) by auto
  then have "find (\<lambda>x. covers x (seg_loc t segno m (off + i))) (map wc_range (tde_wal_key_cache w)) = Some rg" if "i < length d" for i
    using find_covering [of "tde_wal_key_cache w" r "seg_loc t segno m (off + i)"] assms(1,3) that by (auto simp: cache_ok_def)
  then show ?thesis by (auto simp: wal_crypt_def)
qed

lemma xor_twice_same: "xor (xor a x) y = a \<longleftrightarrow> x = y" for a x y :: byte
  by (metis xor.assoc xor.commute xor.left_neutral xor_self_eq)

lemma crypt_of_other_segment:
  assumes "wal_writer rgs w" "rg \<in> set rgs" "\<forall>i<length b. covers rg (seg_loc t segno m i) \<and> covers rg (seg_loc t (segno + 1) m i)"
  shows "wal_crypt F rgs t (segno + 1) m 0 (wal_crypt F rgs t segno m 0 b) = b \<longleftrightarrow> (\<forall>i<length b. wal_ks F t segno rg i = wal_ks F t (segno + 1) rg i)"
proof -
  have w: "cache_ok w" "map wc_range (tde_wal_key_cache w) = rgs" using assms(1) by (simp_all add: wal_writer_def)
  have c: "wal_crypt F rgs t s m 0 d = map (\<lambda>i. xor (d ! i) (wal_ks F t s rg i)) [0..<length d]"
    if "length d = length b" "s = segno \<or> s = segno + 1" for d s
    using covered_crypt [OF w(1), of rg d t s m 0 F] w(2) assms(2,3) that by auto
  let ?k = "map (\<lambda>i. xor (b ! i) (wal_ks F t segno rg i)) [0..<length b]"
  have "wal_crypt F rgs t segno m 0 b = ?k" using c [of b segno] by simp
  moreover have "wal_crypt F rgs t (segno + 1) m 0 ?k = map (\<lambda>i. xor (xor (b ! i) (wal_ks F t segno rg i)) (wal_ks F t (segno + 1) rg i)) [0..<length b]"
    using c [of ?k "segno + 1"] by simp
  ultimately have e: "wal_crypt F rgs t (segno + 1) m 0 (wal_crypt F rgs t segno m 0 b) =
      map (\<lambda>i. xor (xor (b ! i) (wal_ks F t segno rg i)) (wal_ks F t (segno + 1) rg i)) [0..<length b]" by (simp only:)
  have "map g [0..<length b] = b \<longleftrightarrow> (\<forall>i<length b. g i = b ! i)" for g by (subst list_eq_iff_nth_eq) simp
  then show ?thesis unfolding e by (simp only: xor_twice_same)
qed

text \<open>A block cipher is injective for every key; the first blocks of the keystreams of two segments then differ.\<close>

definition block_injective :: "(bytes \<Rightarrow> bytes \<Rightarrow> bytes) \<Rightarrow> bool" where
  "block_injective F \<longleftrightarrow> (\<forall>k x y. length x = 16 \<and> length y = 16 \<and> F k x = F k y \<longrightarrow> x = y)"

lemma keystreams_differ:
  assumes "ecb_is ev F" "block_injective F" "s \<noteq> s'"
  shows "\<exists>i<16. wal_ks F t s rg i \<noteq> wal_ks F t s' rg i"
proof (rule ccontr)
  let ?k = "ik_material (wr_key rg)" and ?iv = "\<lambda>s. CalcXLogPageIVPrefix t s (ik_base_iv (wr_key rg))"
  have l: "length (ctr_block (?iv s) 0) = 16" for s by (simp add: ctr_block_def length_CalcXLogPageIVPrefix)
  then have "length (F ?k (ctr_block (?iv s) 0)) = 16" for s using assms(1) by (simp add: ecb_is_def)
  moreover assume "\<not> ?thesis"
  then have "F ?k (ctr_block (?iv s) 0) ! i = F ?k (ctr_block (?iv s') 0) ! i" if "i < 16" for i using that by (auto simp: wal_ks_def ks_byte_def)
  ultimately have "F ?k (ctr_block (?iv s) 0) = F ?k (ctr_block (?iv s') 0)" by (intro nth_equalityI) simp_all
  then have "ctr_block (?iv s) 0 = ctr_block (?iv s') 0" using assms(2) l unfolding block_injective_def by blast
  then have "take 12 (?iv s) = take 12 (?iv s')" by (simp add: ctr_block_def)
  then have "seg_offset t s = seg_offset t s'"
    unfolding CalcXLogPageIVPrefix_def Let_def by (simp only: prefix_eq_iff [OF unat_offset unat_offset seg_offset_less seg_offset_less])
  then show False using assms(3) by (simp add: seg_offset_inject)
qed

text \<open>
  C38. A message that crosses the end of a segment, in a stream with the options of \<open>pg_basebackup\<close> for an encrypted backup (finished segments are
  marked as archived, no suffix for the file in use): if the next segment file does not exist yet and the stream has not reached its end, the message is written
  to both files without an error, the finished segment is marked, and nothing else changes, but the number of the segment is not advanced with the data: what
  lies behind the boundary is encrypted as the start of the segment before. If that is at least a block of the cipher, and one encrypted range covers
  these positions of both segments, a process that uses the same ranges does not get it back. The block cipher is assumed to be injective for every key, and no disk operation fails.
\<close>

theorem streamed_wal_boundary_unreadable:
  assumes "ecb_is ev F" "m \<le> 30" "sc_WalSegSz sc = 2 ^ m" "sc_encrypt sc" "(unat (pos div 2 ^ m) + 2) * 2 ^ m < 2 ^ 64"
    and "partial_suffix sc = None" "mark_done sc" "\<not> stream_stop sc (pos + of_nat (length a)) (sc_timeline sc) True"
    and "still_sending rs" "walfile rs = Some f" "currpos f = unat pos mod 2 ^ m" "temp_suffix f = None" "wal_writer rgs w"
    and "segno = pos div 2 ^ m" "q = segment_path sc (segno + 1)" "\<not> sc_open_fails sc q" "disk w q = None" "q \<noteq> wf_fullpath f"
    and "length rest = 16" "a \<noteq> []" "unat pos mod 2 ^ m + length a = 2 ^ m" "16 \<le> length b" "length b < 2 ^ m"
    and "rg \<in> set rgs" "\<forall>i<length b. covers rg (seg_loc (sc_timeline sc) segno m i) \<and> covers rg (seg_loc (sc_timeline sc) (segno + 1) m i)" "block_injective F"
    and "\<not> sc_open_fails sc (done_path sc f)" "q \<noteq> done_path sc f"
  shows "\<exists>rs' w'. ProcessXLogDataMsg ev sc (xlogdata_message pos rest (a @ b)) bp rs w = (Inr (rs', pos + of_nat (length a + length b)), w') \<and>
     disk w' = (created (done_path sc f)
         ((disk w)(wf_fullpath f \<mapsto> pwrite (file_bytes w (wf_fullpath f)) (wal_crypt F rgs (sc_timeline sc) segno m (unat pos mod 2 ^ m) a) (unat pos mod 2 ^ m))))
       (q \<mapsto> pwrite (zeros (2 ^ m)) (wal_crypt F rgs (sc_timeline sc) segno m 0 b) 0) \<and>
     (\<forall>w2 old. wal_reader rgs w2 \<and> disk w2 q = disk w' q \<and> length old = length b \<longrightarrow>
        fst (tdeheap_xlog_seg_read ev q old 0 (sc_timeline sc) (segno + 1) (2 ^ m) w2) \<noteq> Inr (int (length b), b))"
proof -
  let ?off = "unat pos mod 2 ^ m" and ?t = "sc_timeline sc" and ?p = "wf_fullpath f" and ?pos = "pos + of_nat (length a)"
  let ?ct = "wal_crypt F rgs ?t segno m 0 b"
  have b: "b \<noteq> []" using assms(22) by auto
  have seg: "(unat segno + 1) * 2 ^ m < 2 ^ 64" "(unat (pos div 2 ^ m) + 1) * 2 ^ m < 2 ^ 64" using assms(5,14) by (simp_all add: algebra_simps)
  have st: "ProcessXLogDataMsg ev sc (xlogdata_message pos rest (a @ b)) bp rs w = xlogdata_loop ev sc segno (Suc (length (a @ b))) (a @ b) ?off pos rs w"
    unfolding assms(14) using assms(10,11) by (intro message_start [OF assms(3,9,19)]) simp
  have n: "length a = (if ?off + length (a @ b) > 2 ^ m then 2 ^ m - ?off else length (a @ b))" using assms(21) b by (cases b) auto
  have off: "?off < 2 ^ m" and ne: "a @ b \<noteq> []" using assms(20) by simp_all
  have z: "XLogSegmentOffset ?pos (2 ^ m) = 0" using offset_after(1) [OF assms(2) seg(2), of "length a"] assms(21) by simp
  obtain w1 where t1: "xlogdata_loop ev sc segno (Suc (length (a @ b))) (a @ b) ?off pos rs w =
      bindM (close_walfile sc ?pos (rs\<lparr>walfile := Some (f\<lparr>currpos := ?off + length a\<rparr>)\<rparr>)) (xlogdata_loop ev sc segno (length (a @ b)) b 0 ?pos) w1"
      "wal_writer rgs w1" "disk w1 = (disk w)(?p \<mapsto> pwrite (file_bytes w ?p) (wal_crypt F rgs ?t segno m ?off a) ?off)"
    using turn_ok [OF assms(3,4,1,2) seg(1) ne off n assms(10,11,13), of "length (a @ b)" pos] assms(8) z by (auto simp: Let_def simp del: xlogdata_loop.simps)
  have io: "io w1 = []" using t1(2) by (simp add: wal_writer_def)
  let ?rs = "rs\<lparr>walfile := None, lastFlushPosition := ?pos\<rparr>"
  have dp: "done_path sc (f\<lparr>currpos := c\<rparr>) = done_path sc f" for c by (simp add: done_path_def)
  let ?w1 = "w1\<lparr>disk := created (done_path sc f) (disk w1)\<rparr>"
  have cl: "close_walfile sc ?pos (rs\<lparr>walfile := Some (f\<lparr>currpos := ?off + length a\<rparr>)\<rparr>) w1 = (Inr ?rs, ?w1)"
    using close_full_ok [of "rs\<lparr>walfile := Some (f\<lparr>currpos := ?off + length a\<rparr>)\<rparr>" "f\<lparr>currpos := ?off + length a\<rparr>" sc w1 ?pos]
      assms(3,6,7,12,21,27) io by (simp add: dp)
  have next_seg: "?pos div 2 ^ m = segno + 1"
    using next_segment [OF assms(2) seg(2), of "length a"] assms(14,21) by simp
  obtain f2 where f2: "open_walfile sc ?pos ?rs ?w1 = (Inr (?rs\<lparr>walfile := Some f2\<rparr>), set_file q (zeros (2 ^ m)) ?w1)" "currpos f2 = 0" "wf_fullpath f2 = q"
    using open_new_ok [OF assms(3,6), of ?pos ?w1 ?rs] assms(15-18,28) t1(3) io next_seg by auto
  obtain k where k: "length (a @ b) = Suc (Suc k)" using assms(20) b by (cases a; cases b) auto
  have o: "xlogdata_loop ev sc segno (Suc (Suc k)) b 0 ?pos ?rs ?w1 =
      xlogdata_loop ev sc segno (Suc (Suc k)) b 0 ?pos (?rs\<lparr>walfile := Some f2\<rparr>) (set_file q (zeros (2 ^ m)) ?w1)"
    using b by (intro open_turn [OF _ f2(1)]) simp_all
  have n2: "length b = (if 0 + length b > 2 ^ m then 2 ^ m - 0 else length b)" using assms(23) by simp
  have nz: "XLogSegmentOffset (?pos + of_nat (length b)) (2 ^ m) \<noteq> 0"
    using next_segment_offset [OF assms(2,5), of "length a" "length b"] assms(21,23) b by simp
  have w2: "wal_writer rgs (set_file q (zeros (2 ^ m)) ?w1)" using t1(2) by simp
  obtain w' where t2: "xlogdata_loop ev sc segno (Suc (Suc k)) b 0 ?pos (?rs\<lparr>walfile := Some f2\<rparr>) (set_file q (zeros (2 ^ m)) ?w1) =
      (Inr (?rs\<lparr>walfile := Some (f2\<lparr>currpos := length b\<rparr>)\<rparr>, ?pos + of_nat (length b)), w')"
      "disk w' = (disk ?w1)(q \<mapsto> pwrite (zeros (2 ^ m)) ?ct 0)"
    using turn_ok [OF assms(3,4,1,2) seg(1) b _ n2 _ _ w2, of "?rs\<lparr>walfile := Some f2\<rparr>" f2 "Suc k" ?pos] nz f2(2,3)
    by (auto simp: Let_def file_bytes_def)
  have ab: "pos + of_nat (length a + length b) = ?pos + of_nat (length b)" by simp
  have run: "ProcessXLogDataMsg ev sc (xlogdata_message pos rest (a @ b)) bp rs w =
      (Inr (?rs\<lparr>walfile := Some (f2\<lparr>currpos := length b\<rparr>)\<rparr>, pos + of_nat (length a + length b)), w')"
    unfolding ab using st [unfolded k] t1(1) [unfolded k] cl o t2(1) by (simp add: runM del: xlogdata_loop.simps)
  have "fst (tdeheap_xlog_seg_read ev q old 0 ?t (segno + 1) (2 ^ m) w2) \<noteq> Inr (int (length b), b)"
    if "wal_reader rgs w2" "disk w2 q = disk w' q" "length old = length b" for w2 old
  proof -
    have "?ct \<noteq> []" "0 + length ?ct \<le> 2 ^ m" using assms(23) b by (auto simp: wal_crypt_def)
    moreover have "(unat (segno + 1) + 1) * 2 ^ m < 2 ^ 64" using next_segno [OF assms(5)] assms(5,14) by simp
    ultimately have "fst (tdeheap_xlog_seg_read ev q old (of_nat 0) ?t (segno + 1) (2 ^ m) w2) = Inr (int (length ?ct), wal_crypt F rgs ?t (segno + 1) m 0 ?ct)"
      using that t2(2) pread_pwrite_same [of "zeros (2 ^ m)" ?ct 0] by (intro read_data_ok [OF assms(1,2)]) (simp_all add: file_bytes_def)
    moreover obtain i where "i < length b" "wal_ks F ?t segno rg i \<noteq> wal_ks F ?t (segno + 1) rg i"
      using keystreams_differ [OF assms(1,26), of segno "segno + 1" ?t rg] assms(22) by (auto dest: less_le_trans)
    ultimately show ?thesis using crypt_of_other_segment [OF assms(13,24,25), of F] by auto
  qed
  moreover have "disk w' = (created (done_path sc f) ((disk w)(?p \<mapsto> pwrite (file_bytes w ?p) (wal_crypt F rgs ?t segno m ?off a) ?off)))(q \<mapsto> pwrite (zeros (2 ^ m)) ?ct 0)"
    using t1(3) t2(2) by simp
  ultimately show ?thesis using run by blast
qed

section \<open>A stream on concrete files\<close>

definition demo_stream :: StreamCtl where
  "demo_stream = \<lparr>startpos = 0x2000000, sc_timeline = 1, standby_message_timeout = 0, synchronous = False, mark_done = True, sc_encrypt = True,
     stream_stop = (\<lambda>l t e. False), partial_suffix = None, wm_basedir = ''p'', wm_sync = False, sc_WalSegSz = 2 ^ 24, reportFlushPosition = False,
     sc_XLogFileName = (\<lambda>t s z. if s = 2 then ''a'' else ''b''), sc_open_fails = (\<lambda>p. False), send_fails = (\<lambda>ms m. False)\<rparr>"

definition demo_receive :: "nat \<Rightarrow> receive_state" where
  "demo_receive p = \<lparr>walfile = Some \<lparr>wf_pathname = ''a'', currpos = p, wf_fullpath = ''p/a'', temp_suffix = None\<rparr>,
     lastFlushPosition = 0, still_sending = True, sent = []\<rparr>"

abbreviation demo_rgs :: "WalEncryptionRange list" where
  "demo_rgs \<equiv> map wc_range demo_wal_ranges"

lemma demo_wal_writer: "wal_writer demo_rgs demo_wal_world" "wal_reader demo_rgs demo_wal_world"
  using demo_wal_world_ok by (simp_all add: wal_writer_def wal_reader_def) (simp_all add: demo_wal_world_def demo_world_def)

theorem streamed_wal_readable_witness:
  "\<exists>w'. ProcessXLogDataMsg demo_env demo_stream (xlogdata_message 0x2000008 (zeros 16) [1, 2, 3]) 0 (demo_receive 8) demo_wal_world =
       (Inr (demo_receive 11, 0x200000B), w') \<and>
     fst (tdeheap_xlog_seg_read demo_env ''p/a'' [0, 0, 0] 8 1 2 (2 ^ 24) (demo_wal_world\<lparr>disk := disk w'\<rparr>)) = Inr (3, [1, 2, 3])"
proof -
  have f: "walfile (demo_receive 8) = Some \<lparr>wf_pathname = ''a'', currpos = 8, wf_fullpath = ''p/a'', temp_suffix = None\<rparr>" by (simp add: demo_receive_def)
  have r: "wal_reader demo_rgs (demo_wal_world\<lparr>disk := d\<rparr>)" for d
    using demo_wal_writer(2) by (simp add: wal_reader_def keys_current_def cache_ok_def)
  obtain w' where w': "ProcessXLogDataMsg demo_env demo_stream (xlogdata_message 0x2000008 (zeros 16) [1, 2, 3]) 0 (demo_receive 8) demo_wal_world =
        (Inr (demo_receive 11, 0x200000B), w')"
      "\<And>w2 old. wal_reader demo_rgs w2 \<and> disk w2 ''p/a'' = disk w' ''p/a'' \<and> length old = length [1, 2, 3 :: byte] \<Longrightarrow>
         fst (tdeheap_xlog_seg_read demo_env ''p/a'' old 8 1 2 (2 ^ 24) w2) = Inr (3, [1, 2, 3])"
    using streamed_wal_readable [OF demo_ecb_is _ _ _ _ _ f _ demo_wal_writer(1), of 24 demo_stream "0x2000008" "zeros 16" "[1, 2, 3]" 0]
    by (auto simp: demo_stream_def demo_receive_def)
  show ?thesis using w'(1) w'(2) [of "demo_wal_world\<lparr>disk := disk w'\<rparr>" "[0, 0, 0]"] r by (intro exI [of _ w']) simp
qed

lemma demo_block_injective: "block_injective demo_F"
  by (auto simp: block_injective_def demo_F_def inj_def dest!: map_injective)

theorem streamed_wal_boundary_unreadable_witness:
  "\<exists>rs' w'. ProcessXLogDataMsg demo_env demo_stream (xlogdata_message 0x2FFFFFE (zeros 16) ([1, 2] @ replicate 16 7)) 0 (demo_receive 0xFFFFFE) demo_wal_world =
       (Inr (rs', 0x3000010), w') \<and>
     fst (tdeheap_xlog_seg_read demo_env ''p/b'' (replicate 16 0) 0 1 3 (2 ^ 24) (demo_wal_world\<lparr>disk := disk w'\<rparr>)) \<noteq> Inr (16, replicate 16 7)"
proof -
  have f: "walfile (demo_receive 0xFFFFFE) = Some \<lparr>wf_pathname = ''a'', currpos = 0xFFFFFE, wf_fullpath = ''p/a'', temp_suffix = None\<rparr>" by (simp add: demo_receive_def)
  have r: "wal_reader demo_rgs (demo_wal_world\<lparr>disk := d\<rparr>)" for d
    using demo_wal_writer(2) by (simp add: wal_reader_def keys_current_def cache_ok_def)
  have q: "segment_path demo_stream 3 = ''p/b''" by (simp add: segment_path_def demo_stream_def path_in_def dir_get_file_name_def MAXPGPATH_def)
  have c: "covers (demo_rgs ! 1) (seg_loc 1 s 24 i)" if "s = 2 \<or> s = 3" "i < 16" for s i
  proof -
    have "unat (s * 2 ^ 24 + of_nat i :: u64) = unat s * 2 ^ 24 + i" using that by (intro unat_pos) auto
    moreover have "(1 :: u32) < - 1" by code_simp
    ultimately show ?thesis using that
      by (auto simp: covers_def WAL_ENCRYPTION_RANGE_ENCRYPTED_def demo_wal_ranges_def seg_loc_def loc_le less_loc max_location_def MaxXLogRecPtr_def MaxTimeLineID_def wal_location_valid_def word_le_nat_alt)
  qed
  obtain rs' w' where w': "ProcessXLogDataMsg demo_env demo_stream (xlogdata_message 0x2FFFFFE (zeros 16) ([1, 2] @ replicate 16 7)) 0 (demo_receive 0xFFFFFE) demo_wal_world =
        (Inr (rs', 0x3000010), w')"
      "\<And>w2 old. wal_reader demo_rgs w2 \<and> disk w2 ''p/b'' = disk w' ''p/b'' \<and> length old = 16 \<Longrightarrow>
         fst (tdeheap_xlog_seg_read demo_env ''p/b'' old 0 1 3 (2 ^ 24) w2) \<noteq> Inr (16, replicate 16 7)"
    using streamed_wal_boundary_unreadable [where sc = demo_stream and m = 24 and pos = "0x2FFFFFE" and segno = 2 and q = "''p/b''" and rest = "zeros 16" and a = "[1, 2]"
        and b = "replicate 16 7" and bp = 0 and rg = "demo_rgs ! 1", OF demo_ecb_is _ _ _ _ _ _ _ _ f _ _ demo_wal_writer(1) _ _ _ _ _ _ _ _ _ _ _ _ demo_block_injective]
      q c
    by (auto simp: demo_stream_def demo_receive_def demo_wal_world_def demo_world_def demo_wal_ranges_def done_path_def path_in_def dir_get_file_name_def MAXPGPATH_def)
  show ?thesis using w'(1) w'(2) [of "demo_wal_world\<lparr>disk := disk w'\<rparr>" "replicate 16 0"] r by (intro exI [of _ rs'] exI [of _ w']) simp
qed

end
