(* ===== verification/Tde_Streamer.thy ===== *)
theory Tde_Streamer
  imports Tde_Archive
begin

text \<open>
  Editing the archive of a base backup: \<open>fetools/pg18/pg_basebackup/astreamer_inject.c\<close>. The archive arrives as a sequence of chunks: the header of a
  member, its contents in pieces, its trailer, and the trailer of the archive. One streamer adds the recovery settings, the next one keeps the WAL keys of
  the source out of a backup whose WAL is encrypted with keys of its own. Chunk by chunk they do what is specified for whole members.
\<close>

section \<open>Chunks\<close>

datatype astreamer_archive_context =
    ASTREAMER_UNKNOWN | ASTREAMER_MEMBER_HEADER | ASTREAMER_MEMBER_CONTENTS | ASTREAMER_MEMBER_TRAILER | ASTREAMER_ARCHIVE_TRAILER

record astreamer_member =
  am_pathname :: string
  am_size :: nat
  am_mode :: nat
  am_uid :: nat
  am_gid :: nat
  am_is_regular :: bool
  am_is_directory :: bool
  am_is_symlink :: bool
  am_linktarget :: string

text \<open>The member, the data and the kind of a chunk; there is no member with the trailer of the archive.\<close>

type_synonym chunk = "astreamer_member option \<times> bytes \<times> astreamer_archive_context"

definition astreamer_inject_file :: "nat \<Rightarrow> string \<Rightarrow> bytes \<Rightarrow> chunk list" where
  "astreamer_inject_file pg_file_create_mode pathname d =
     (let member = \<lparr>am_pathname = take (MAXPGPATH - 1) pathname, am_size = length d, am_mode = pg_file_create_mode, am_uid = 2048, am_gid = 1024,
                    am_is_regular = True, am_is_directory = False, am_is_symlink = False, am_linktarget = []\<rparr>
      in [(Some member, [], ASTREAMER_MEMBER_HEADER), (Some member, d, ASTREAMER_MEMBER_CONTENTS), (Some member, [], ASTREAMER_MEMBER_TRAILER)])"

section \<open>Recovery settings\<close>

record astreamer_recovery_injector =
  ri_skip_file :: bool
  is_recovery_guc_supported :: bool
  is_postgresql_auto_conf :: bool
  found_postgresql_auto_conf :: bool
  recoveryconfcontents :: bytes
  ri_member :: "astreamer_member option"
  file_create_mode :: nat

definition astreamer_recovery_injector_new :: "bool \<Rightarrow> bytes \<Rightarrow> nat \<Rightarrow> astreamer_recovery_injector" where
  "astreamer_recovery_injector_new guc conf mode =
     \<lparr>ri_skip_file = False, is_recovery_guc_supported = guc, is_postgresql_auto_conf = False, found_postgresql_auto_conf = False,
      recoveryconfcontents = conf, ri_member = None, file_create_mode = mode\<rparr>"

text \<open>What a chunk does to the state of the streamer, and the chunks for the next one. A header without a member is a null pointer.\<close>

definition astreamer_recovery_injector_content :: "astreamer_recovery_injector \<Rightarrow> chunk \<Rightarrow> tde_error + (astreamer_recovery_injector \<times> chunk list)" where
  "astreamer_recovery_injector_content s c =
     (case c of (member, d, context) \<Rightarrow>
      case context of
        ASTREAMER_MEMBER_HEADER \<Rightarrow>
          (case member of
             None \<Rightarrow> Inl (E_null_pointer ''member'')
           | Some m \<Rightarrow>
               let s = s\<lparr>ri_member := Some m\<rparr> in
               if is_recovery_guc_supported s then
                 (let auto_conf = (am_pathname m = ''postgresql.auto.conf'');
                      s = s\<lparr>ri_skip_file := (am_pathname m = ''standby.signal''), is_postgresql_auto_conf := auto_conf\<rparr> in
                  if ri_skip_file s then Inr (s, [])
                  else if auto_conf then
                    (let m' = m\<lparr>am_size := am_size m + length (recoveryconfcontents s)\<rparr>
                     in Inr (s\<lparr>found_postgresql_auto_conf := True, ri_member := Some m'\<rparr>, [(Some m', [], context)]))
                  else Inr (s, [(Some m, d, context)]))
               else
                 (let s = s\<lparr>ri_skip_file := (am_pathname m = ''recovery.conf'')\<rparr> in
                  if ri_skip_file s then Inr (s, []) else Inr (s, [(Some m, d, context)])))
      | ASTREAMER_MEMBER_CONTENTS \<Rightarrow> if ri_skip_file s then Inr (s, []) else Inr (s, [(ri_member s, d, context)])
      | ASTREAMER_MEMBER_TRAILER \<Rightarrow>
          if ri_skip_file s then Inr (s, [])
          else Inr (s, (if is_postgresql_auto_conf s then [(member, recoveryconfcontents s, ASTREAMER_MEMBER_CONTENTS)] else []) @ [(ri_member s, d, context)])
      | ASTREAMER_ARCHIVE_TRAILER \<Rightarrow>
          Inr (s, (if is_recovery_guc_supported s
                   then (if found_postgresql_auto_conf s then []
                         else astreamer_inject_file (file_create_mode s) ''postgresql.auto.conf'' (recoveryconfcontents s)) @
                        astreamer_inject_file (file_create_mode s) ''standby.signal'' []
                   else astreamer_inject_file (file_create_mode s) ''recovery.conf'' (recoveryconfcontents s)) @ [(ri_member s, d, context)])
      | ASTREAMER_UNKNOWN \<Rightarrow> Inl (E_state ''unexpected state while injecting recovery settings''))"

section \<open>WAL keys\<close>

record astreamer_open_pg_tde_injector =
  ti_skip_file :: bool
  encrypted_wal :: bool

definition astreamer_open_pg_tde_injector_new :: "bool \<Rightarrow> astreamer_open_pg_tde_injector" where
  "astreamer_open_pg_tde_injector_new enc = \<lparr>ti_skip_file = False, encrypted_wal = enc\<rparr>"

definition wal_keys_member :: "string \<Rightarrow> bool" where
  "wal_keys_member p \<longleftrightarrow> p = ''open_pg_tde/wal_keys'' \<or> p = ''open_pg_tde'' \<or> p = ''open_pg_tde/''"

definition astreamer_open_pg_tde_injector_content :: "astreamer_open_pg_tde_injector \<Rightarrow> chunk \<Rightarrow> tde_error + (astreamer_open_pg_tde_injector \<times> chunk list)" where
  "astreamer_open_pg_tde_injector_content s c =
     (case c of (member, d, context) \<Rightarrow>
      case context of
        ASTREAMER_MEMBER_HEADER \<Rightarrow>
          (case member of
             None \<Rightarrow> Inl (E_null_pointer ''member'')
           | Some m \<Rightarrow>
               if wal_keys_member (am_pathname m) \<and> encrypted_wal s then Inr (s\<lparr>ti_skip_file := True\<rparr>, [])
               else Inr (s\<lparr>ti_skip_file := False\<rparr>, [c]))
      | ASTREAMER_MEMBER_CONTENTS \<Rightarrow> if ti_skip_file s then Inr (s, []) else Inr (s, [c])
      | ASTREAMER_MEMBER_TRAILER \<Rightarrow> if ti_skip_file s then Inr (s, []) else Inr (s, [c])
      | _ \<Rightarrow> Inr (s, [c]))"

section \<open>Streams\<close>

fun stream_chunks :: "('s \<Rightarrow> chunk \<Rightarrow> tde_error + ('s \<times> chunk list)) \<Rightarrow> 's \<Rightarrow> chunk list \<Rightarrow> tde_error + ('s \<times> chunk list)" where
  "stream_chunks f s [] = Inr (s, [])"
| "stream_chunks f s (c # cs) =
     (case f s c of
        Inl e \<Rightarrow> Inl e
      | Inr (s, out) \<Rightarrow> (case stream_chunks f s cs of Inl e \<Rightarrow> Inl e | Inr (s, out') \<Rightarrow> Inr (s, out @ out')))"

section \<open>The chain of streamers\<close>

text \<open>The options of the command line that \<open>CreateBackupStreamer\<close> looks at, and the check of those for the encryption of WAL.\<close>

record backup_options =
  bo_format :: char
  bo_basedir :: string
  bo_tablespace_dirs :: "(string \<times> string) list"
  bo_manifest :: bool
  bo_writerecoveryconf :: bool
  bo_recoveryconfcontents :: bytes
  bo_encrypt_wal_key_len :: nat
  bo_stream_wal :: bool
  bo_file_create_mode :: nat

definition check_wal_encryption :: "backup_options \<Rightarrow> tde_error + unit" where
  "check_wal_encryption opts =
     (if bo_encrypt_wal_key_len opts \<noteq> 0 then
        (if \<not> bo_stream_wal opts then Inl (E_state ''WAL encryption can only be used with WAL streaming'')
         else if bo_format opts \<noteq> CHR ''p'' then Inl (E_state ''can not encrypt WAL in tar mode'')
         else Inr ())
      else Inr ())"

definition has_suffix :: "string \<Rightarrow> string \<Rightarrow> bool" where
  "has_suffix name sfx \<longleftrightarrow> length sfx < length name \<and> drop (length name - length sfx) name = sfx"

datatype pg_compress_algorithm = PG_COMPRESSION_NONE | PG_COMPRESSION_GZIP | PG_COMPRESSION_LZ4 | PG_COMPRESSION_ZSTD

definition get_tablespace_mapping :: "(string \<Rightarrow> string) \<Rightarrow> backup_options \<Rightarrow> string \<Rightarrow> string" where
  "get_tablespace_mapping canonicalize_path opts dir =
     (case find (\<lambda>(old, new). old = canonicalize_path (take (MAXPGPATH - 1) dir)) (bo_tablespace_dirs opts) of None \<Rightarrow> dir | Some (_, new) \<Rightarrow> new)"

text \<open>
  What the chain is made of, from the end where the data of the server come in: a decompressor, a parser (or a terminator) of the tar format, the
  two streamers above, and then an extractor into a directory, or a writer of an archive, before it one that makes an archive again of what was parsed. If
  \<open>ch_inject_manifest\<close> is set, the manifest is handed to the part behind the two streamers.
\<close>

datatype archive_writer = Extractor string | Archive_writer string pg_compress_algorithm

record streamer_chain =
  ch_decompress :: pg_compress_algorithm
  ch_parse :: bool
  ch_terminate :: bool
  ch_recovery :: "astreamer_recovery_injector option"
  ch_tde :: astreamer_open_pg_tde_injector
  ch_inject_manifest :: bool
  ch_tar_archiver :: bool
  ch_writer :: archive_writer

definition chain_end :: "(string \<Rightarrow> string) \<Rightarrow> backup_options \<Rightarrow> string \<Rightarrow> string option \<Rightarrow> pg_compress_algorithm \<Rightarrow> archive_writer" where
  "chain_end canonicalize_path opts archive_name spclocation compress =
     (if bo_format opts = CHR ''p'' then
        Extractor (case spclocation of
            None \<Rightarrow> bo_basedir opts
          | Some loc \<Rightarrow> if take 1 loc \<noteq> ''/'' then bo_basedir opts @ ''/'' @ loc else get_tablespace_mapping canonicalize_path opts loc)
      else
        (let archive_filename = (if bo_basedir opts = ''-'' then ''-'' else path_in (bo_basedir opts) archive_name);
             suffix = (case compress of PG_COMPRESSION_NONE \<Rightarrow> [] | PG_COMPRESSION_GZIP \<Rightarrow> ''.gz'' | PG_COMPRESSION_LZ4 \<Rightarrow> ''.lz4'' | PG_COMPRESSION_ZSTD \<Rightarrow> ''.zst'')
         in Archive_writer (take (MAXPGPATH - 1) (archive_filename @ suffix)) compress))"

definition CreateBackupStreamer ::
  "(string \<Rightarrow> string) \<Rightarrow> backup_options \<Rightarrow> string \<Rightarrow> string option \<Rightarrow> bool \<Rightarrow> bool \<Rightarrow> pg_compress_algorithm \<Rightarrow> tde_error + streamer_chain" where
  "CreateBackupStreamer canonicalize_path opts archive_name spclocation guc expect_unterminated_tarfile compress =
     (let inject_manifest = (bo_format opts = CHR ''t'' \<and> bo_basedir opts = ''-'' \<and> bo_manifest opts);
          is_tar = has_suffix archive_name ''.tar'';
          is_tar_gz = has_suffix archive_name ''.tar.gz'';
          is_tar_lz4 = has_suffix archive_name ''.tar.lz4'';
          is_tar_zstd = has_suffix archive_name ''.tar.zst'';
          is_compressed_tar = (is_tar_gz \<or> is_tar_lz4 \<or> is_tar_zstd);
          must_parse_archive = (bo_format opts = CHR ''p'' \<or> inject_manifest \<or> (spclocation = None \<and> bo_writerecoveryconf opts))
      in
      if inject_manifest \<and> is_compressed_tar then Inl (E_state ''cannot inject manifest into a compressed tar file'')
      else if must_parse_archive \<and> \<not> is_tar \<and> \<not> is_compressed_tar then Inl (E_state ''cannot parse archive'')
      else Inr \<lparr>ch_decompress =
                  (if bo_format opts = CHR ''p'' then
                     (if is_tar_gz then PG_COMPRESSION_GZIP else if is_tar_lz4 then PG_COMPRESSION_LZ4
                      else if is_tar_zstd then PG_COMPRESSION_ZSTD else PG_COMPRESSION_NONE)
                   else PG_COMPRESSION_NONE),
                ch_parse = must_parse_archive,
                ch_terminate = (\<not> must_parse_archive \<and> expect_unterminated_tarfile),
                ch_recovery =
                  (if spclocation = None \<and> bo_writerecoveryconf opts
                   then Some (astreamer_recovery_injector_new guc (bo_recoveryconfcontents opts) (bo_file_create_mode opts)) else None),
                ch_tde = astreamer_open_pg_tde_injector_new (bo_encrypt_wal_key_len opts \<noteq> 0),
                ch_inject_manifest = inject_manifest,
                ch_tar_archiver = (bo_format opts \<noteq> CHR ''p'' \<and> must_parse_archive),
                ch_writer = chain_end canonicalize_path opts archive_name spclocation compress\<rparr>)"

text \<open>
  The streamers of PostgreSQL at the head of the chain, on all the pieces in which the data of the server arrive: the decompressors, the parser
  and the terminator of the tar format.
\<close>

record tar_tools =
  tt_decompress :: "pg_compress_algorithm \<Rightarrow> bytes list \<Rightarrow> bytes list"
  tt_parse :: "bytes list \<Rightarrow> chunk list"
  tt_terminate :: "bytes list \<Rightarrow> bytes list"

definition unpacked :: "tar_tools \<Rightarrow> streamer_chain \<Rightarrow> bytes list \<Rightarrow> bytes list" where
  "unpacked tools ch pieces = (if ch_decompress ch = PG_COMPRESSION_NONE then pieces else tt_decompress tools (ch_decompress ch) pieces)"

definition incoming_chunks :: "tar_tools \<Rightarrow> streamer_chain \<Rightarrow> bytes list \<Rightarrow> chunk list" where
  "incoming_chunks tools ch pieces =
     (let pieces = unpacked tools ch pieces in
      if ch_parse ch then tt_parse tools pieces
      else map (\<lambda>d. (None, d, ASTREAMER_UNKNOWN)) (if ch_terminate ch then tt_terminate tools pieces else pieces))"

text \<open>The chunks that leave the two streamers; an error of either ends the program.\<close>

definition run_streamers :: "tar_tools \<Rightarrow> streamer_chain \<Rightarrow> bytes list \<Rightarrow> tde_error + chunk list" where
  "run_streamers tools ch pieces =
     (case (case ch_recovery ch of
              None \<Rightarrow> Inr (incoming_chunks tools ch pieces)
            | Some s \<Rightarrow> map_sum id snd (stream_chunks astreamer_recovery_injector_content s (incoming_chunks tools ch pieces))) of
        Inl e \<Rightarrow> Inl e
      | Inr cs \<Rightarrow> map_sum id snd (stream_chunks astreamer_open_pg_tde_injector_content (ch_tde ch) cs))"

definition inject_archive ::
  "tar_tools \<Rightarrow> (string \<Rightarrow> string) \<Rightarrow> backup_options \<Rightarrow> string \<Rightarrow> string option \<Rightarrow> bool \<Rightarrow> bool \<Rightarrow> pg_compress_algorithm \<Rightarrow> bytes list \<Rightarrow> tde_error + chunk list" where
  "inject_archive tools canonicalize_path opts archive_name spclocation guc expect_unterminated_tarfile compress pieces =
     (case CreateBackupStreamer canonicalize_path opts archive_name spclocation guc expect_unterminated_tarfile compress of
        Inl e \<Rightarrow> Inl e
      | Inr ch \<Rightarrow> run_streamers tools ch pieces)"

end
