(* ===== verification/Tde_Streamer_Ops.thy ===== *)
theory Tde_Streamer_Ops
  imports Tde_Streamer Tde_Instance
begin

text \<open>The streamers of a base backup edit the members of the archive as specified, however the contents of the members are cut into chunks.\<close>

section \<open>Archives\<close>

text \<open>A member with its header, the pieces of its contents and its trailer.\<close>

type_synonym archive_file = "astreamer_member \<times> bytes \<times> bytes list \<times> bytes"

definition file_chunks :: "archive_file \<Rightarrow> chunk list" where
  "file_chunks f = (case f of (m, h, cs, t) \<Rightarrow>
     (Some m, h, ASTREAMER_MEMBER_HEADER) # map (\<lambda>c. (Some m, c, ASTREAMER_MEMBER_CONTENTS)) cs @ [(Some m, t, ASTREAMER_MEMBER_TRAILER)])"

definition archive_chunks :: "archive_file list \<Rightarrow> bytes \<Rightarrow> chunk list" where
  "archive_chunks fs tr = concat (map file_chunks fs) @ [(None, tr, ASTREAMER_ARCHIVE_TRAILER)]"

text \<open>What the reader of an archive looks at: the member comes with its header.\<close>

definition view :: "chunk \<Rightarrow> chunk" where
  "view c = (case c of (m, d, k) \<Rightarrow> (if k = ASTREAMER_MEMBER_HEADER then m else None, d, k))"

abbreviation file_name :: "archive_file \<Rightarrow> string" where
  "file_name f \<equiv> am_pathname (fst f)"

definition sized :: "archive_file \<Rightarrow> bool" where
  "sized f = (case f of (m, h, cs, t) \<Rightarrow> am_size m = length (concat cs))"

section \<open>The specification\<close>

definition new_file :: "nat \<Rightarrow> string \<Rightarrow> bytes \<Rightarrow> archive_file" where
  "new_file mode p d = (\<lparr>am_pathname = p, am_size = length d, am_mode = mode, am_uid = 2048, am_gid = 1024, am_is_regular = True,
     am_is_directory = False, am_is_symlink = False, am_linktarget = []\<rparr>, [], [d], [])"

definition append_conf :: "bytes \<Rightarrow> archive_file \<Rightarrow> archive_file" where
  "append_conf conf f = (case f of (m, h, cs, t) \<Rightarrow>
     if am_pathname m = ''postgresql.auto.conf'' then (m\<lparr>am_size := am_size m + length conf\<rparr>, [], cs @ [conf], t) else f)"

definition with_recovery :: "bool \<Rightarrow> bytes \<Rightarrow> nat \<Rightarrow> archive_file list \<Rightarrow> archive_file list" where
  "with_recovery guc conf mode fs =
     (if guc then
        map (append_conf conf) (filter (\<lambda>f. file_name f \<noteq> ''standby.signal'') fs) @
        (if \<exists>f\<in>set fs. file_name f = ''postgresql.auto.conf'' then [] else [new_file mode ''postgresql.auto.conf'' conf]) @
        [new_file mode ''standby.signal'' []]
      else filter (\<lambda>f. file_name f \<noteq> ''recovery.conf'') fs @ [new_file mode ''recovery.conf'' conf])"

definition without_wal_keys :: "bool \<Rightarrow> archive_file list \<Rightarrow> archive_file list" where
  "without_wal_keys enc fs = (if enc then filter (\<lambda>f. \<not> wal_keys_member (file_name f)) fs else fs)"

section \<open>The recovery settings\<close>

lemma stream_chunks_append:
  "stream_chunks f s (xs @ ys) = (case stream_chunks f s xs of Inl e \<Rightarrow> Inl e | Inr (s, out) \<Rightarrow>
     (case stream_chunks f s ys of Inl e \<Rightarrow> Inl e | Inr (s, out') \<Rightarrow> Inr (s, out @ out')))"
  by (induction xs arbitrary: s) (auto split: sum.splits)

lemma recovery_contents:
  "stream_chunks astreamer_recovery_injector_content s (map (\<lambda>c. (Some m, c, ASTREAMER_MEMBER_CONTENTS)) cs) =
     Inr (s, if ri_skip_file s then [] else map (\<lambda>c. (ri_member s, c, ASTREAMER_MEMBER_CONTENTS)) cs)"
  by (induction cs) (simp_all add: astreamer_recovery_injector_content_def)

definition recovery_drops :: "bool \<Rightarrow> archive_file \<Rightarrow> bool" where
  "recovery_drops guc f \<longleftrightarrow> file_name f = (if guc then ''standby.signal'' else ''recovery.conf'')"

text \<open>The part of the state that lasts from member to member.\<close>

definition recovery_state :: "bool \<Rightarrow> bytes \<Rightarrow> nat \<Rightarrow> bool \<Rightarrow> astreamer_recovery_injector \<Rightarrow> bool" where
  "recovery_state guc conf mode found s \<longleftrightarrow> is_recovery_guc_supported s = guc \<and> recoveryconfcontents s = conf \<and> file_create_mode s = mode \<and>
     found_postgresql_auto_conf s = (guc \<and> found) \<and> (\<not> guc \<longrightarrow> \<not> is_postgresql_auto_conf s)"

lemma recovery_file:
  assumes "recovery_state guc conf mode found s"
  shows "\<exists>s' out. stream_chunks astreamer_recovery_injector_content s (file_chunks f) = Inr (s', out) \<and>
     recovery_state guc conf mode (found \<or> file_name f = ''postgresql.auto.conf'') s' \<and>
     map view out = (if recovery_drops guc f then [] else map view (file_chunks (if guc then append_conf conf f else f)))"
proof -
  obtain m h cs t where f: "f = (m, h, cs, t)" by (cases f)
  show ?thesis
    using assms unfolding f file_chunks_def
    by (cases guc) (auto simp: stream_chunks_append recovery_contents astreamer_recovery_injector_content_def recovery_state_def recovery_drops_def
        append_conf_def Let_def view_def)
qed

lemma recovery_files:
  assumes "recovery_state guc conf mode found s"
  shows "\<exists>s' out. stream_chunks astreamer_recovery_injector_content s (concat (map file_chunks fs)) = Inr (s', out) \<and>
     recovery_state guc conf mode (found \<or> (\<exists>f\<in>set fs. file_name f = ''postgresql.auto.conf'')) s' \<and>
     map view out = map view (concat (map file_chunks (map (\<lambda>f. if guc then append_conf conf f else f) (filter (\<lambda>f. \<not> recovery_drops guc f) fs))))"
  using assms
proof (induction fs arbitrary: found s)
  case (Cons f fs)
  obtain s1 out1 where 1: "stream_chunks astreamer_recovery_injector_content s (file_chunks f) = Inr (s1, out1)"
      "recovery_state guc conf mode (found \<or> file_name f = ''postgresql.auto.conf'') s1"
      "map view out1 = (if recovery_drops guc f then [] else map view (file_chunks (if guc then append_conf conf f else f)))"
    using recovery_file [OF Cons.prems] by blast
  show ?case using Cons.IH [OF 1(2)] 1(1,3) by (auto simp: stream_chunks_append disj_assoc)
qed auto

lemma inject_file_chunks: "length p < MAXPGPATH \<Longrightarrow> astreamer_inject_file mode p d = file_chunks (new_file mode p d)"
  by (simp add: astreamer_inject_file_def file_chunks_def new_file_def Let_def)

lemma recovery_archive:
  "\<exists>s' out. stream_chunks astreamer_recovery_injector_content (astreamer_recovery_injector_new guc conf mode) (archive_chunks fs tr) = Inr (s', out) \<and>
     map view out = map view (archive_chunks (with_recovery guc conf mode fs) tr)"
proof -
  have "recovery_state guc conf mode False (astreamer_recovery_injector_new guc conf mode)"
    by (simp add: recovery_state_def astreamer_recovery_injector_new_def)
  from recovery_files [OF this, of fs] obtain s out where
    s: "stream_chunks astreamer_recovery_injector_content (astreamer_recovery_injector_new guc conf mode) (concat (map file_chunks fs)) = Inr (s, out)"
      "recovery_state guc conf mode (\<exists>f\<in>set fs. file_name f = ''postgresql.auto.conf'') s"
      "map view out = map view (concat (map file_chunks (map (\<lambda>f. if guc then append_conf conf f else f) (filter (\<lambda>f. \<not> recovery_drops guc f) fs))))"
    by auto
  let ?new = "(if guc then (if \<exists>f\<in>set fs. file_name f = ''postgresql.auto.conf'' then [] else [new_file mode ''postgresql.auto.conf'' conf]) @
      [new_file mode ''standby.signal'' []] else [new_file mode ''recovery.conf'' conf])"
  have "astreamer_recovery_injector_content s (None, tr, ASTREAMER_ARCHIVE_TRAILER) =
      Inr (s, concat (map file_chunks ?new) @ [(ri_member s, tr, ASTREAMER_ARCHIVE_TRAILER)])"
    using s(2) by (auto simp: astreamer_recovery_injector_content_def recovery_state_def inject_file_chunks MAXPGPATH_def)
  moreover have "with_recovery guc conf mode fs = map (\<lambda>f. if guc then append_conf conf f else f) (filter (\<lambda>f. \<not> recovery_drops guc f) fs) @ ?new"
    by (simp add: with_recovery_def recovery_drops_def)
  ultimately show ?thesis using s(1,3) by (simp add: archive_chunks_def stream_chunks_append view_def)
qed

section \<open>The WAL keys\<close>

lemma tde_contents:
  "stream_chunks astreamer_open_pg_tde_injector_content s (map (\<lambda>c. (m, c, ASTREAMER_MEMBER_CONTENTS)) cs) =
     Inr (s, if ti_skip_file s then [] else map (\<lambda>c. (m, c, ASTREAMER_MEMBER_CONTENTS)) cs)"
  by (induction cs) (simp_all add: astreamer_open_pg_tde_injector_content_def)

lemma tde_file:
  "\<exists>s'. stream_chunks astreamer_open_pg_tde_injector_content s (file_chunks f) =
     Inr (s', if encrypted_wal s \<and> wal_keys_member (file_name f) then [] else file_chunks f) \<and> encrypted_wal s' = encrypted_wal s"
  by (cases f) (auto simp: file_chunks_def stream_chunks_append tde_contents astreamer_open_pg_tde_injector_content_def)

lemma tde_archive:
  "\<exists>s'. stream_chunks astreamer_open_pg_tde_injector_content s (archive_chunks fs tr) = Inr (s', archive_chunks (without_wal_keys (encrypted_wal s) fs) tr)"
proof (induction fs arbitrary: s)
  case Nil
  then show ?case by (simp add: archive_chunks_def without_wal_keys_def astreamer_open_pg_tde_injector_content_def)
next
  case (Cons f fs)
  obtain s1 where 1: "stream_chunks astreamer_open_pg_tde_injector_content s (file_chunks f) =
      Inr (s1, if encrypted_wal s \<and> wal_keys_member (file_name f) then [] else file_chunks f)" "encrypted_wal s1 = encrypted_wal s"
    using tde_file by blast
  have "archive_chunks (f # fs) tr = file_chunks f @ archive_chunks fs tr" for fs by (simp add: archive_chunks_def)
  then show ?case using Cons.IH [of s1] 1 by (auto simp: stream_chunks_append without_wal_keys_def)
qed

text \<open>The second streamer looks at no more of a chunk than is viewed.\<close>

lemma tde_view:
  "map view xs = map view ys \<Longrightarrow> stream_chunks astreamer_open_pg_tde_injector_content s ys = Inr (s', out) \<Longrightarrow>
     \<exists>out'. stream_chunks astreamer_open_pg_tde_injector_content s xs = Inr (s', out') \<and> map view out' = map view out"
proof (induction xs arbitrary: ys s out)
  case (Cons x xs)
  then obtain y ys' where y: "ys = y # ys'" "view x = view y" "map view xs = map view ys'" by (cases ys) auto
  obtain s1 o1 o2 where c: "astreamer_open_pg_tde_injector_content s y = Inr (s1, o1)"
      "stream_chunks astreamer_open_pg_tde_injector_content s1 ys' = Inr (s', o2)" "out = o1 @ o2"
    using Cons.prems(2) y(1) by (auto split: sum.splits)
  have "\<exists>o1'. astreamer_open_pg_tde_injector_content s x = Inr (s1, o1') \<and> map view o1' = map view o1"
    using y(2) c(1) by (cases x; cases y) (auto simp: view_def astreamer_open_pg_tde_injector_content_def split: if_splits astreamer_archive_context.splits option.splits)
  then show ?case using Cons.IH [OF y(3) c(2)] c(3) by auto
qed auto

section \<open>The archive of the backup\<close>

lemma sized_append_conf: "sized f \<Longrightarrow> sized (append_conf conf f)"
  by (cases f) (simp add: sized_def append_conf_def)

lemma sized_new_file: "sized (new_file mode p d)"
  by (simp add: sized_def new_file_def)

lemma sized_with_recovery: "list_all sized fs \<Longrightarrow> list_all sized (with_recovery guc conf mode fs)"
  by (auto simp: list_all_iff with_recovery_def sized_new_file intro!: sized_append_conf)

lemma sized_without_wal_keys: "list_all sized fs \<Longrightarrow> list_all sized (without_wal_keys enc fs)"
  by (auto simp: list_all_iff without_wal_keys_def)

text \<open>A parsed archive: what the two streamers make of its members, the first of them if it is there.\<close>

definition recovery_wanted :: "backup_options \<Rightarrow> string option \<Rightarrow> bool" where
  "recovery_wanted opts spclocation \<longleftrightarrow> spclocation = None \<and> bo_writerecoveryconf opts"

definition edited :: "backup_options \<Rightarrow> string option \<Rightarrow> bool \<Rightarrow> archive_file list \<Rightarrow> archive_file list" where
  "edited opts spclocation guc fs =
     without_wal_keys (bo_encrypt_wal_key_len opts \<noteq> 0)
       (if recovery_wanted opts spclocation then with_recovery guc (bo_recoveryconfcontents opts) (bo_file_create_mode opts) fs else fs)"

lemma sized_edited: "list_all sized fs \<Longrightarrow> list_all sized (edited opts spclocation guc fs)"
  by (simp add: edited_def sized_with_recovery sized_without_wal_keys)

lemma streamers_parsed:
  assumes "incoming_chunks tools ch pieces = archive_chunks fs tr" "encrypted_wal (ch_tde ch) = (bo_encrypt_wal_key_len opts \<noteq> 0)"
    "ch_recovery ch = (if recovery_wanted opts spclocation
       then Some (astreamer_recovery_injector_new guc (bo_recoveryconfcontents opts) (bo_file_create_mode opts)) else None)"
  shows "\<exists>out. run_streamers tools ch pieces = Inr out \<and> map view out = map view (archive_chunks (edited opts spclocation guc fs) tr)"
proof -
  let ?fs = "if recovery_wanted opts spclocation then with_recovery guc (bo_recoveryconfcontents opts) (bo_file_create_mode opts) fs else fs"
  obtain cs where cs: "(case ch_recovery ch of None \<Rightarrow> Inr (incoming_chunks tools ch pieces)
       | Some s \<Rightarrow> map_sum id snd (stream_chunks astreamer_recovery_injector_content s (incoming_chunks tools ch pieces))) = Inr cs"
      "map view cs = map view (archive_chunks ?fs tr)"
    using recovery_archive [of guc "bo_recoveryconfcontents opts" "bo_file_create_mode opts" fs tr] assms(1,3) by (auto split: if_splits)
  obtain s2 where "stream_chunks astreamer_open_pg_tde_injector_content (ch_tde ch) (archive_chunks ?fs tr) =
      Inr (s2, archive_chunks (edited opts spclocation guc fs) tr)"
    using tde_archive [of "ch_tde ch" ?fs tr] assms(2) unfolding edited_def by auto
  from tde_view [OF cs(2) this] show ?thesis using cs(1) by (auto simp: run_streamers_def)
qed

lemma checked_value: "(if a then Inl x else if b then Inl y else Inr z) = Inr v \<Longrightarrow> v = z"
  by (simp split: if_split_asm)

lemma chain_fields:
  assumes "CreateBackupStreamer canon opts name spclocation guc unterminated compress = Inr ch"
  shows "ch_parse ch \<longleftrightarrow> bo_format opts = CHR ''p'' \<or> bo_format opts = CHR ''t'' \<and> bo_basedir opts = ''-'' \<and> bo_manifest opts \<or> recovery_wanted opts spclocation"
    and "ch_recovery ch = (if recovery_wanted opts spclocation
       then Some (astreamer_recovery_injector_new guc (bo_recoveryconfcontents opts) (bo_file_create_mode opts)) else None)"
    and "encrypted_wal (ch_tde ch) = (bo_encrypt_wal_key_len opts \<noteq> 0)"
    and "ch_terminate ch = (\<not> ch_parse ch \<and> unterminated)"
    and "bo_format opts \<noteq> CHR ''p'' \<Longrightarrow> ch_decompress ch = PG_COMPRESSION_NONE"
  using checked_value [OF assms [unfolded CreateBackupStreamer_def Let_def]]
  by (simp_all add: recovery_wanted_def astreamer_open_pg_tde_injector_new_def)

text \<open>Pieces of an archive that is not parsed have no kind; the streamer of the keys passes them on.\<close>

lemma tde_unknown:
  "stream_chunks astreamer_open_pg_tde_injector_content s (map (\<lambda>d. (None, d, ASTREAMER_UNKNOWN)) ds) = Inr (s, map (\<lambda>d. (None, d, ASTREAMER_UNKNOWN)) ds)"
  by (induction ds) (simp_all add: astreamer_open_pg_tde_injector_content_def)

text \<open>
  C27. The streamers that \<open>pg_basebackup\<close> puts between an archive of the server and the backup, for all options that the program accepts for the
  encryption of WAL. The chain cannot be built exactly if the manifest would go into a compressed archive, or if the archive has to be parsed and its
  name is not that of a tar archive. If the archive is parsed (plain format, a manifest in the archive on standard output, or recovery settings for
  the main data directory), then, in whatever pieces the contents arrive, the archive that comes out has the members of the specification: with recovery
  settings asked for and for the main data directory only, the settings are appended to \<open>postgresql.auto.conf\<close>, or that file is added, and a file
  \<open>standby.signal\<close> replaces any other (or \<open>recovery.conf\<close> for old servers); if WAL is encrypted with keys of the backup, the key file of the source and
  the entry of its directory are left out, in tablespaces too; everything else is passed on as it is, and sizes in headers that were right stay so. An archive
  that is not parsed comes out as it came in (with a terminator for old servers), and then WAL is not encrypted with keys of the backup. The tar parser,
  the terminator and the decompressors are PostgreSQL's: the parser is assumed to give the members \<open>fs\<close> of the archive.
\<close>

theorem archive_injected:
  assumes "check_wal_encryption opts = Inr ()"
    and "\<And>ch. CreateBackupStreamer canon opts name spclocation guc unterminated compress = Inr ch \<Longrightarrow> ch_parse ch \<Longrightarrow>
      tt_parse tools (unpacked tools ch pieces) = archive_chunks fs tr"
  shows "((\<exists>e. inject_archive tools canon opts name spclocation guc unterminated compress pieces = Inl e) \<longleftrightarrow>
       (let manifest = (bo_format opts = CHR ''t'' \<and> bo_basedir opts = ''-'' \<and> bo_manifest opts);
            compressed = list_ex (has_suffix name) [''.tar.gz'', ''.tar.lz4'', ''.tar.zst''] in
        manifest \<and> compressed \<or>
        (bo_format opts = CHR ''p'' \<or> manifest \<or> recovery_wanted opts spclocation) \<and> \<not> has_suffix name ''.tar'' \<and> \<not> compressed)) \<and>
     (\<forall>out. inject_archive tools canon opts name spclocation guc unterminated compress pieces = Inr out \<longrightarrow>
       (if bo_format opts = CHR ''p'' \<or> bo_format opts = CHR ''t'' \<and> bo_basedir opts = ''-'' \<and> bo_manifest opts \<or> recovery_wanted opts spclocation
        then map view out = map view (archive_chunks (edited opts spclocation guc fs) tr) \<and>
             (list_all sized fs \<longrightarrow> list_all sized (edited opts spclocation guc fs))
        else bo_encrypt_wal_key_len opts = 0 \<and>
             out = map (\<lambda>d. (None, d, ASTREAMER_UNKNOWN)) (if unterminated then tt_terminate tools pieces else pieces)))"
    (is "?errors \<and> (\<forall>out. _ \<longrightarrow> ?result out)")
proof -
  have chain: "(\<exists>out. run_streamers tools ch pieces = Inr out) \<and> (\<forall>out. run_streamers tools ch pieces = Inr out \<longrightarrow> ?result out)"
    if ch: "CreateBackupStreamer canon opts name spclocation guc unterminated compress = Inr ch" for ch
  proof (cases "ch_parse ch")
    case True
    then have "incoming_chunks tools ch pieces = archive_chunks fs tr" using assms(2) [OF ch] by (simp add: incoming_chunks_def)
    from streamers_parsed [OF this chain_fields(3,2) [OF ch]] show ?thesis using True chain_fields(1) [OF ch] sized_edited by auto
  next
    case False
    then have "bo_format opts \<noteq> CHR ''p''" "ch_recovery ch = None" using chain_fields(1,2) [OF ch] by simp_all
    moreover have "bo_encrypt_wal_key_len opts = 0" using assms(1) calculation(1) by (simp add: check_wal_encryption_def split: if_split_asm)
    moreover have "run_streamers tools ch pieces = Inr (map (\<lambda>d. (None, d, ASTREAMER_UNKNOWN)) (if unterminated then tt_terminate tools pieces else pieces))"
      using False calculation(2) chain_fields(4) [OF ch] chain_fields(5) [OF ch calculation(1)]
      by (simp add: run_streamers_def incoming_chunks_def unpacked_def tde_unknown)
    ultimately show ?thesis using False chain_fields(1) [OF ch] by auto
  qed
  then have "(\<exists>e. inject_archive tools canon opts name spclocation guc unterminated compress pieces = Inl e) \<longleftrightarrow>
      (\<exists>e. CreateBackupStreamer canon opts name spclocation guc unterminated compress = Inl e)"
    by (cases "CreateBackupStreamer canon opts name spclocation guc unterminated compress") (fastforce simp: inject_archive_def)+
  then have ?errors by (simp add: CreateBackupStreamer_def Let_def recovery_wanted_def)
  moreover have "?result out" if "inject_archive tools canon opts name spclocation guc unterminated compress pieces = Inr out" for out
    using that chain by (auto simp: inject_archive_def split: sum.splits)
  ultimately show ?thesis by blast
qed

definition demo_archive :: "archive_file list" where
  "demo_archive = [append_conf [] (new_file 384 ''postgresql.auto.conf'' [1, 2]), new_file 384 ''open_pg_tde/wal_keys'' [3], new_file 384 ''PG_VERSION'' [4]]"

definition demo_options :: backup_options where
  "demo_options = \<lparr>bo_format = CHR ''p'', bo_basedir = ''data'', bo_tablespace_dirs = [], bo_manifest = True, bo_writerecoveryconf = True, bo_recoveryconfcontents = [9],
     bo_encrypt_wal_key_len = 16, bo_stream_wal = True, bo_file_create_mode = 384\<rparr>"

text \<open>A parser that knows one archive, which comes in two pieces.\<close>

definition demo_tools :: tar_tools where
  "demo_tools = \<lparr>tt_decompress = (\<lambda>_ ps. ps), tt_parse = (\<lambda>ps. if ps = [[1], [2]] then archive_chunks demo_archive [] else []), tt_terminate = (\<lambda>ps. ps)\<rparr>"

theorem archive_injected_witness:
  "\<exists>out. inject_archive demo_tools id demo_options ''base.tar'' None True False PG_COMPRESSION_NONE [[1], [2]] = Inr out \<and>
     map view out = map view (archive_chunks [append_conf [9] (demo_archive ! 0), demo_archive ! 2, new_file 384 ''standby.signal'' []] []) \<and>
     list_all sized [append_conf [9] (demo_archive ! 0), demo_archive ! 2, new_file 384 ''standby.signal'' []]"
proof -
  have e: "edited demo_options None True demo_archive = [append_conf [9] (demo_archive ! 0), demo_archive ! 2, new_file 384 ''standby.signal'' []]"
    by (simp add: edited_def recovery_wanted_def demo_options_def without_wal_keys_def with_recovery_def demo_archive_def new_file_def append_conf_def
        wal_keys_member_def)
  have z: "list_all sized demo_archive" by (simp add: demo_archive_def sized_new_file sized_append_conf)
  have c: "check_wal_encryption demo_options = Inr ()" by (simp add: check_wal_encryption_def demo_options_def)
  have p: "tt_parse demo_tools (unpacked demo_tools ch [[1], [2]]) = archive_chunks demo_archive []"
    if "CreateBackupStreamer id demo_options ''base.tar'' None True False PG_COMPRESSION_NONE = Inr ch" for ch
    using that by (auto simp: CreateBackupStreamer_def Let_def demo_options_def has_suffix_def unpacked_def demo_tools_def)
  have o: "bo_format demo_options = CHR ''p''" by (simp add: demo_options_def)
  have z': "list_all sized (edited demo_options None True demo_archive)" using z by (rule sized_edited)
  have t: "has_suffix ''base.tar'' ''.tar''" "\<not> has_suffix ''base.tar'' ''.tar.gz''" "\<not> has_suffix ''base.tar'' ''.tar.lz4''"
      "\<not> has_suffix ''base.tar'' ''.tar.zst''" by (simp_all add: has_suffix_def)
  show ?thesis
    using archive_injected [of demo_options id "''base.tar''" None True False PG_COMPRESSION_NONE demo_tools "[[1], [2]]" demo_archive "[]", OF c p] z'
    by (cases "inject_archive demo_tools id demo_options ''base.tar'' None True False PG_COMPRESSION_NONE [[1], [2]]") (simp_all add: e o t)
qed

end
