(* ===== verification/Tde_Settings.thy ===== *)
theory Tde_Settings
  imports Tde_Smgr_Ops Tde_Redo Tde_Tempfile
begin

text \<open>
  The settings of the extension (\<open>open_pg_tde_guc.c\<close>), the function that tells whether a relation is encrypted
  (\<open>common/open_pg_tde_utils.c\<close>) and the load of the library (\<open>_PG_init\<close> of \<open>open_pg_tde.c\<close>). The server accepts for an
  enumeration only a value of its options, and calls the hook of a setting when it is defined and whenever it changes; whatever is set, the
  ciphers and the key length are ones that the other theories rely on.
\<close>

section \<open>The settings\<close>

datatype GucContext = PGC_POSTMASTER | PGC_SUSET

datatype config_value = Bool_value bool | Enum_value int

record config =
  cfg_AllowInheritGlobalProviders :: bool
  cfg_EncryptXLog :: bool
  cfg_EnforceEncryption :: bool
  cfg_RequireFips :: bool
  cfg_Cipher :: int
  cfg_KeyLength :: int
  cfg_DataCipher :: int

definition DATA_CIPHER_INHERIT :: int where "DATA_CIPHER_INHERIT = -1"

definition initial_config :: config where
  "initial_config = \<lparr>cfg_AllowInheritGlobalProviders = True, cfg_EncryptXLog = False, cfg_EnforceEncryption = False, cfg_RequireFips = False,
     cfg_Cipher = uint CIPHER_AES_128, cfg_KeyLength = int KEY_DATA_SIZE_128, cfg_DataCipher = uint CIPHER_AES_128_XTS\<rparr>"

definition cipher_options :: "(string \<times> int) list" where
  "cipher_options = [(''aes_128'', uint CIPHER_AES_128), (''aes_256'', uint CIPHER_AES_256)]"

definition data_cipher_options :: "(string \<times> int) list" where
  "data_cipher_options = [(''inherit'', DATA_CIPHER_INHERIT), (''aes_xts'', uint CIPHER_AES_128_XTS), (''aes_256_xts'', uint CIPHER_AES_256_XTS)]"

text \<open>An unknown cipher is an error of \<open>open_pg_tde_cipher_key_length\<close>.\<close>

definition assign_keys_size :: "int \<Rightarrow> config \<Rightarrow> tde_error + config" where
  "assign_keys_size newval cfg =
     (case open_pg_tde_cipher_key_length (word_of_int newval) of Inl e \<Rightarrow> Inl e | Inr n \<Rightarrow> Inr (cfg\<lparr>cfg_KeyLength := uint n\<rparr>))"

text \<open>A setting: its name, the value it is defined with, the context in which it may change, the options of an enumeration, and what an assignment does.\<close>

record guc =
  guc_name :: string
  boot_value :: config_value
  guc_context :: GucContext
  guc_options :: "(string \<times> int) list"
  guc_assign :: "config_value \<Rightarrow> config \<Rightarrow> tde_error + config"

definition bool_guc :: "string \<Rightarrow> bool \<Rightarrow> GucContext \<Rightarrow> (bool \<Rightarrow> config \<Rightarrow> config) \<Rightarrow> guc" where
  "bool_guc n boot ctx set_var =
     \<lparr>guc_name = n, boot_value = Bool_value boot, guc_context = ctx, guc_options = [],
      guc_assign = (\<lambda>v cfg. case v of Bool_value b \<Rightarrow> Inr (set_var b cfg) | Enum_value _ \<Rightarrow> Inl (E_state ''invalid value''))\<rparr>"

definition enum_guc :: "string \<Rightarrow> int \<Rightarrow> (string \<times> int) list \<Rightarrow> (int \<Rightarrow> config \<Rightarrow> config) \<Rightarrow> (int \<Rightarrow> config \<Rightarrow> tde_error + config) \<Rightarrow> guc" where
  "enum_guc n boot opts set_var assign_hook =
     \<lparr>guc_name = n, boot_value = Enum_value boot, guc_context = PGC_SUSET, guc_options = opts,
      guc_assign = (\<lambda>v cfg. case v of
          Enum_value i \<Rightarrow> (case assign_hook i cfg of Inl e \<Rightarrow> Inl e | Inr cfg \<Rightarrow> Inr (set_var i cfg))
        | Bool_value _ \<Rightarrow> Inl (E_state ''invalid value''))\<rparr>"

definition tde_gucs :: "guc list" where
  "tde_gucs =
     [bool_guc ''open_pg_tde.inherit_global_providers'' True PGC_SUSET (\<lambda>b c. c\<lparr>cfg_AllowInheritGlobalProviders := b\<rparr>),
      bool_guc ''open_pg_tde.wal_encrypt'' False PGC_POSTMASTER (\<lambda>b c. c\<lparr>cfg_EncryptXLog := b\<rparr>),
      bool_guc ''open_pg_tde.enforce_encryption'' False PGC_SUSET (\<lambda>b c. c\<lparr>cfg_EnforceEncryption := b\<rparr>),
      bool_guc ''open_pg_tde.require_fips'' False PGC_POSTMASTER (\<lambda>b c. c\<lparr>cfg_RequireFips := b\<rparr>),
      enum_guc ''open_pg_tde.cipher'' (uint CIPHER_AES_128) cipher_options (\<lambda>i c. c\<lparr>cfg_Cipher := i\<rparr>) assign_keys_size,
      enum_guc ''open_pg_tde.data_cipher'' (uint CIPHER_AES_128_XTS) data_cipher_options (\<lambda>i c. c\<lparr>cfg_DataCipher := i\<rparr>) (\<lambda>i. Inr)]"

definition valid_value :: "guc \<Rightarrow> config_value \<Rightarrow> bool" where
  "valid_value g v =
     (case (boot_value g, v) of
        (Bool_value _, Bool_value _) \<Rightarrow> True
      | (Enum_value _, Enum_value i) \<Rightarrow> i \<in> snd ` set (guc_options g)
      | _ \<Rightarrow> False)"

text \<open>A setting that is defined gets its first value, then the one that the configuration \<open>conf\<close> has for it; the server ignores one that is not valid.\<close>

definition define_guc :: "(string \<Rightarrow> config_value option) \<Rightarrow> guc \<Rightarrow> config \<Rightarrow> tde_error + config" where
  "define_guc conf g cfg =
     (case guc_assign g (boot_value g) cfg of
        Inl e \<Rightarrow> Inl e
      | Inr cfg \<Rightarrow> (case conf (guc_name g) of Some v \<Rightarrow> if valid_value g v then guc_assign g v cfg else Inr cfg | None \<Rightarrow> Inr cfg))"

fun define_gucs :: "(string \<Rightarrow> config_value option) \<Rightarrow> guc list \<Rightarrow> config \<Rightarrow> tde_error + config" where
  "define_gucs conf [] cfg = Inr cfg"
| "define_gucs conf (g # gs) cfg = (case define_guc conf g cfg of Inl e \<Rightarrow> Inl e | Inr cfg \<Rightarrow> define_gucs conf gs cfg)"

definition TdeGucInit :: "(string \<Rightarrow> config_value option) \<Rightarrow> config \<Rightarrow> tde_error + config" where
  "TdeGucInit conf = define_gucs conf tde_gucs"

section \<open>Assignments by the server\<close>

inductive assigned :: "config \<Rightarrow> config \<Rightarrow> bool" where
  assignedI: "g \<in> set tde_gucs \<Longrightarrow> valid_value g v \<Longrightarrow> guc_assign g v cfg = Inr cfg' \<Longrightarrow> assigned cfg cfg'"

inductive_cases assignedE: "assigned cfg cfg'"

text \<open>The values that the code in the other theories sees.\<close>

definition env_of_config :: "env \<Rightarrow> config \<Rightarrow> env" where
  "env_of_config ev cfg = ev\<lparr>guc_Cipher := cfg_Cipher cfg, guc_DataCipher := cfg_DataCipher cfg, guc_KeyLength := cfg_KeyLength cfg,
     AllowInheritGlobalProviders := cfg_AllowInheritGlobalProviders cfg, EnforceEncryption := cfg_EnforceEncryption cfg\<rparr>"

definition config_ok :: "config \<Rightarrow> bool" where
  "config_ok cfg \<longleftrightarrow> cfg_Cipher cfg \<in> {0, 1} \<and> cfg_DataCipher cfg \<in> {-1, 2, 3} \<and>
     open_pg_tde_cipher_key_length (word_of_int (cfg_Cipher cfg)) = Inr (word_of_int (cfg_KeyLength cfg)) \<and> cfg_KeyLength cfg \<in> {16, 32}"

lemma config_ok_initial: "config_ok initial_config"
  by (simp add: config_ok_def initial_config_def open_pg_tde_cipher_key_length_def cipher_ids size_consts)

lemma assign_keys_size_ok:
  "i \<in> {0, 1} \<Longrightarrow> config_ok cfg \<Longrightarrow> \<exists>cfg'. assign_keys_size i cfg = Inr cfg' \<and> config_ok (cfg'\<lparr>cfg_Cipher := i\<rparr>)"
  by (auto simp: config_ok_def assign_keys_size_def open_pg_tde_cipher_key_length_def cipher_ids size_consts)

lemma bool_guc_ok: "(\<And>b. config_ok (f b cfg)) \<Longrightarrow> valid_value (bool_guc n b0 ctx f) v \<Longrightarrow>
    \<exists>cfg'. guc_assign (bool_guc n b0 ctx f) v cfg = Inr cfg' \<and> config_ok cfg'"
  by (cases v) (simp_all add: valid_value_def bool_guc_def)

lemma enum_guc_ok: "(\<And>i. i \<in> snd ` set opts \<Longrightarrow> \<exists>cfg'. hook i cfg = Inr cfg' \<and> config_ok (f i cfg')) \<Longrightarrow> valid_value (enum_guc n i0 opts f hook) v \<Longrightarrow>
    \<exists>cfg'. guc_assign (enum_guc n i0 opts f hook) v cfg = Inr cfg' \<and> config_ok cfg'"
  by (cases v) (simp_all add: valid_value_def enum_guc_def, metis (no_types, lifting) sum.simps(6))

lemma option_values: "snd ` set cipher_options = {0, 1}" "snd ` set data_cipher_options = {-1, 2, 3}"
  by (simp_all add: cipher_options_def data_cipher_options_def DATA_CIPHER_INHERIT_def cipher_ids)

lemma guc_assign_ok:
  assumes "g \<in> set tde_gucs" "valid_value g v" "config_ok cfg"
  obtains cfg' where "guc_assign g v cfg = Inr cfg'" "config_ok cfg'"
proof -
  have bools: "config_ok (cfg\<lparr>cfg_AllowInheritGlobalProviders := b\<rparr>)" "config_ok (cfg\<lparr>cfg_EncryptXLog := b\<rparr>)"
      "config_ok (cfg\<lparr>cfg_EnforceEncryption := b\<rparr>)" "config_ok (cfg\<lparr>cfg_RequireFips := b\<rparr>)" for b
    using assms(3) by (simp_all add: config_ok_def)
  have data: "i \<in> {-1, 2, 3} \<Longrightarrow> config_ok (cfg\<lparr>cfg_DataCipher := i\<rparr>)" for i using assms(3) by (simp add: config_ok_def)
  have "list_all (\<lambda>g. valid_value g v \<longrightarrow> (\<exists>cfg'. guc_assign g v cfg = Inr cfg' \<and> config_ok cfg')) tde_gucs"
    unfolding tde_gucs_def list.pred_inject
    apply (intro conjI impI list.pred_inject)
         apply (erule bool_guc_ok [rotated], rule bools)+
     apply (erule enum_guc_ok [rotated], unfold option_values, erule assign_keys_size_ok [OF _ assms(3)])
    apply (erule enum_guc_ok [rotated], unfold option_values, use data in blast)
    done
  then show ?thesis using that assms(1,2) unfolding list_all_iff by blast
qed

lemma boot_value_valid: "g \<in> set tde_gucs \<Longrightarrow> valid_value g (boot_value g)"
proof -
  have "list_all (\<lambda>g. valid_value g (boot_value g)) tde_gucs"
    by (simp add: tde_gucs_def bool_guc_def enum_guc_def valid_value_def cipher_options_def data_cipher_options_def)
  then show "g \<in> set tde_gucs \<Longrightarrow> valid_value g (boot_value g)" by (simp add: list_all_iff)
qed

lemma config_ok_assigned: "assigned cfg cfg' \<Longrightarrow> config_ok cfg \<Longrightarrow> config_ok cfg'"
  by (erule assignedE, erule (2) guc_assign_ok) simp

lemma define_guc_ok:
  assumes g: "g \<in> set tde_gucs" and "config_ok cfg"
  obtains cfg' where "define_guc conf g cfg = Inr cfg'" "config_ok cfg'"
proof -
  obtain c1 where c1: "guc_assign g (boot_value g) cfg = Inr c1" "config_ok c1" using guc_assign_ok [OF g boot_value_valid [OF g] assms(2)] .
  show ?thesis
  proof (cases "\<exists>v. conf (guc_name g) = Some v \<and> valid_value g v")
    case True
    then obtain v where v: "conf (guc_name g) = Some v" "valid_value g v" by blast
    obtain c2 where "guc_assign g v c1 = Inr c2" "config_ok c2" using guc_assign_ok [OF g v(2) c1(2)] .
    then show ?thesis using c1 v that by (simp add: define_guc_def)
  next
    case False
    then have "define_guc conf g cfg = Inr c1" using c1 by (auto simp: define_guc_def split: option.splits)
    then show ?thesis using c1 that by blast
  qed
qed

lemma define_gucs_ok: "set gs \<subseteq> set tde_gucs \<Longrightarrow> config_ok cfg \<Longrightarrow> \<exists>cfg'. define_gucs conf gs cfg = Inr cfg' \<and> config_ok cfg'"
proof (induction gs arbitrary: cfg)
  case (Cons g gs)
  then obtain c1 where "define_guc conf g cfg = Inr c1" "config_ok c1" using define_guc_ok [of g cfg conf] by auto
  with Cons show ?case by auto
qed simp

lemma TdeGucInit_ok: "\<exists>cfg. TdeGucInit conf initial_config = Inr cfg \<and> config_ok cfg"
  by (simp add: TdeGucInit_def define_gucs_ok config_ok_initial)

lemma config_ok_reachable: "assigned\<^sup>*\<^sup>* cfg cfg' \<Longrightarrow> config_ok cfg \<Longrightarrow> config_ok cfg'"
  by (induction rule: rtranclp_induct) (auto intro: config_ok_assigned)

lemma config_ok_env: "config_ok cfg \<Longrightarrow> cipher_gucs_ok (env_of_config ev cfg)"
  by (simp add: cipher_gucs_ok_def env_of_config_def config_ok_def)

lemma config_rand_ok: "rand_ok ev \<Longrightarrow> rand_ok (env_of_config ev cfg)"
  by (simp add: rand_ok_def env_of_config_def)

text \<open>
  C29. Whatever is set: the settings can be defined with every configuration, and after any sequence of assignments the key length belongs to
  the cipher and is 16 or 32, and a key that is generated for a new relation has one of the two XTS ciphers and a key of the length that this
  cipher takes.
\<close>

theorem settings_consistent:
  assumes "rand_ok ev"
  shows "\<exists>cfg0. TdeGucInit conf initial_config = Inr cfg0 \<and>
     (\<forall>cfg. assigned\<^sup>*\<^sup>* cfg0 cfg \<longrightarrow> cfg_KeyLength cfg \<in> {16, 32} \<and>
       open_pg_tde_cipher_key_length (word_of_int (cfg_Cipher cfg)) = Inr (word_of_int (cfg_KeyLength cfg)) \<and>
       (\<exists>k w'. open_pg_tde_generate_internal_key (env_of_config ev cfg) (tde_smgr_data_cipher (env_of_config ev cfg)) w = (Inr k, w') \<and>
          wf_ik k \<and> ik_cipher k \<in> {CIPHER_AES_128_XTS, CIPHER_AES_256_XTS}))"
proof -
  obtain cfg0 where cfg0: "TdeGucInit conf initial_config = Inr cfg0" "config_ok cfg0" using TdeGucInit_ok by blast
  {
    fix cfg assume "assigned\<^sup>*\<^sup>* cfg0 cfg"
    then have ok: "config_ok cfg" using cfg0(2) config_ok_reachable by blast
    let ?ev = "env_of_config ev cfg"
    obtain n where "open_pg_tde_cipher_key_length (tde_smgr_data_cipher ?ev) = Inr n" using data_cipher_length [OF config_ok_env [OF ok]] by blast
    then obtain k where "open_pg_tde_generate_internal_key ?ev (tde_smgr_data_cipher ?ev) w = (Inr k, w\<lparr>rng := rng w + 2\<rparr>)" "wf_ik k"
        "ik_cipher k = tde_smgr_data_cipher ?ev" using generate_internal_key_ok [OF config_rand_ok [OF assms]] by blast
    then have "\<exists>k w'. open_pg_tde_generate_internal_key ?ev (tde_smgr_data_cipher ?ev) w = (Inr k, w') \<and>
        wf_ik k \<and> ik_cipher k \<in> {CIPHER_AES_128_XTS, CIPHER_AES_256_XTS}"
      using data_cipher_cases [OF config_ok_env [OF ok]] by auto
    then have "cfg_KeyLength cfg \<in> {16, 32} \<and>
        open_pg_tde_cipher_key_length (word_of_int (cfg_Cipher cfg)) = Inr (word_of_int (cfg_KeyLength cfg)) \<and>
        (\<exists>k w'. open_pg_tde_generate_internal_key ?ev (tde_smgr_data_cipher ?ev) w = (Inr k, w') \<and>
          wf_ik k \<and> ik_cipher k \<in> {CIPHER_AES_128_XTS, CIPHER_AES_256_XTS})"
      using ok by (simp add: config_ok_def)
  }
  then show ?thesis using cfg0(1) by blast
qed

theorem settings_consistent_witness:
  "TdeGucInit (\<lambda>_. None) initial_config = Inr initial_config \<and>
   (let cfg = initial_config\<lparr>cfg_KeyLength := 32, cfg_Cipher := 1, cfg_DataCipher := -1\<rparr>; ev = env_of_config demo_env cfg in
      assigned\<^sup>*\<^sup>* initial_config cfg \<and> open_pg_tde_cipher_key_length (word_of_int (cfg_Cipher cfg)) = Inr (word_of_int (cfg_KeyLength cfg)) \<and>
      tde_smgr_data_cipher ev = CIPHER_AES_256_XTS \<and>
      (\<exists>k w'. open_pg_tde_generate_internal_key ev (tde_smgr_data_cipher ev) demo_world = (Inr k, w') \<and>
         wf_ik k \<and> ik_cipher k \<in> {CIPHER_AES_128_XTS, CIPHER_AES_256_XTS}))"
proof -
  let ?cfg = "initial_config\<lparr>cfg_KeyLength := 32, cfg_Cipher := 1, cfg_DataCipher := -1\<rparr>"
  let ?ev = "env_of_config demo_env ?cfg"
  have i: "TdeGucInit (\<lambda>_. None) initial_config = Inr initial_config"
    by (simp add: TdeGucInit_def define_guc_def tde_gucs_def bool_guc_def enum_guc_def assign_keys_size_def open_pg_tde_cipher_key_length_def
        cipher_ids size_consts initial_config_def)
  have "assigned initial_config (initial_config\<lparr>cfg_KeyLength := 32, cfg_Cipher := 1\<rparr>)"
    by (rule assignedI [of "tde_gucs ! 4" "Enum_value 1"])
       (simp_all add: tde_gucs_def enum_guc_def valid_value_def cipher_options_def assign_keys_size_def open_pg_tde_cipher_key_length_def
        cipher_ids size_consts)
  moreover have "assigned (initial_config\<lparr>cfg_KeyLength := 32, cfg_Cipher := 1\<rparr>) ?cfg"
    by (rule assignedI [of "tde_gucs ! 5" "Enum_value (-1)"])
       (simp_all add: tde_gucs_def enum_guc_def valid_value_def data_cipher_options_def DATA_CIPHER_INHERIT_def cipher_ids size_consts)
  ultimately have a: "assigned\<^sup>*\<^sup>* initial_config ?cfg" by (rule converse_rtranclp_into_rtranclp [OF _ r_into_rtranclp])
  have d: "tde_smgr_data_cipher ?ev = CIPHER_AES_256_XTS"
    by (simp add: tde_smgr_data_cipher_def env_of_config_def cipher_ids initial_config_def)
  have "open_pg_tde_cipher_key_length (word_of_int (cfg_Cipher ?cfg)) = Inr (word_of_int (cfg_KeyLength ?cfg)) \<and>
      (\<exists>k w'. open_pg_tde_generate_internal_key ?ev (tde_smgr_data_cipher ?ev) demo_world = (Inr k, w') \<and>
         wf_ik k \<and> ik_cipher k \<in> {CIPHER_AES_128_XTS, CIPHER_AES_256_XTS})"
    using settings_consistent [OF demo_rand_ok, of "\<lambda>_. None" demo_world] i a
    by (metis (no_types, lifting) sum.inject(2))
  with i a d show ?thesis by (simp only: Let_def simp_thms)
qed

section \<open>Loading of the library\<close>

definition InstallFileKeyring :: "(u32 \<times> TDEKeyringRoutine) list \<Rightarrow> tde_error + (u32 \<times> TDEKeyringRoutine) list" where
  "InstallFileKeyring = RegisterKeyProviderType keyringFileRoutine FILE_KEY_PROVIDER"

definition InstallKmipKeyring :: "env \<Rightarrow> (u32 \<times> TDEKeyringRoutine) list \<Rightarrow> tde_error + (u32 \<times> TDEKeyringRoutine) list" where
  "InstallKmipKeyring ev = RegisterKeyProviderType (keyringKmipRoutine ev) KMIP_KEY_PROVIDER"

definition InstallOpenBaoKeyring :: "env \<Rightarrow> (u32 \<times> TDEKeyringRoutine) list \<Rightarrow> tde_error + (u32 \<times> TDEKeyringRoutine) list" where
  "InstallOpenBaoKeyring ev = RegisterKeyProviderType (keyringOpenBaoRoutine ev) OPENBAO_KEY_PROVIDER"

text \<open>\<open>next_id\<close>: the number that \<open>smgr_register\<close> gives to a new storage manager.\<close>

definition RegisterStorageMgr :: "nat \<Rightarrow> nat \<Rightarrow> nat \<Rightarrow> tde_error + nat" where
  "RegisterStorageMgr storage_manager_id MdSMgrId next_id =
     (if storage_manager_id \<noteq> MdSMgrId then Inl (E_state ''Another storage manager was loaded before open_pg_tde. Multiple storage managers is unsupported.'')
      else Inr next_id)"

text \<open>What the server knows of the extension when it is loaded, and what the library asks it.\<close>

record loading =
  process_shared_preload_libraries_in_progress :: bool
  ld_dir_exists :: bool
  ld_dir_made :: bool
  ld_conf :: "string \<Rightarrow> config_value option"
  ld_fips :: bool
  ld_storage_manager_id :: nat
  ld_MdSMgrId :: nat
  ld_next_smgr_id :: nat

text \<open>
  \<open>_PG_init\<close>: the result is the settings, the registered key providers and the number of the storage manager. The hooks of utility commands,
  of temporary files and of shared memory are set to the functions of the other theories; the warning about hint bits is left out.
\<close>

definition PG_init :: "env \<Rightarrow> loading \<Rightarrow> (config \<times> (u32 \<times> TDEKeyringRoutine) list \<times> nat) tdeM" where
  "PG_init ev ld =
     seqM (check (process_shared_preload_libraries_in_progress ld) (E_state ''open_pg_tde can only be loaded at server startup. Restart required.''))
     (seqM (open_pg_tde_init_data_dir ev (ld_dir_exists ld) (ld_dir_made ld))
     (seqM (AesInit ev)
     (bindM (liftM (TdeGucInit (ld_conf ld) initial_config)) (\<lambda>cfg.
      seqM (liftM (open_pg_tde_check_fips (cfg_RequireFips cfg) (ld_fips ld)))
     (seqM (TdeTempFileInit ev)
     (bindM (liftM (InstallFileKeyring [])) (\<lambda>reg.
      bindM (liftM (InstallKmipKeyring ev reg)) (\<lambda>reg.
      bindM (liftM (InstallOpenBaoKeyring ev reg)) (\<lambda>reg.
      bindM (liftM (RegisterStorageMgr (ld_storage_manager_id ld) (ld_MdSMgrId ld) (ld_next_smgr_id ld))) (\<lambda>smgr.
      ret (cfg, reg, smgr)))))))))))"

lemma liftM_eq_Inr: "liftM r w = (Inr x, w') \<longleftrightarrow> r = Inr x \<and> w' = w"
  by (cases r) auto

lemma installed_keyrings:
  assumes "InstallFileKeyring [] = Inr r1" "InstallKmipKeyring ev r1 = Inr r2" "InstallOpenBaoKeyring ev r2 = Inr r3"
  shows "find_key_provider_type r3 = find_key_provider_type (registeredKeyProviderTypes ev)"
  using assms by (auto simp: fun_eq_iff InstallFileKeyring_def InstallKmipKeyring_def InstallOpenBaoKeyring_def RegisterKeyProviderType_def
      registeredKeyProviderTypes_def find_key_provider_type_def provider_types)

text \<open>
  The library is loaded only at server start, only in FIPS mode when that is required, and then as the only storage manager; the settings are
  consistent and requests find exactly the keyrings that the key provider interface dispatches to.
\<close>

lemma PG_init_loaded:
  assumes "PG_init ev ld w = (Inr (cfg, reg, smgr), w')"
  shows "process_shared_preload_libraries_in_progress ld \<and> config_ok cfg \<and> (cfg_RequireFips cfg \<longrightarrow> ld_fips ld) \<and>
     find_key_provider_type reg = find_key_provider_type (registeredKeyProviderTypes ev) \<and>
     ld_storage_manager_id ld = ld_MdSMgrId ld \<and> smgr = ld_next_smgr_id ld"
proof -
  obtain cfg0 where cfg0: "TdeGucInit (ld_conf ld) initial_config = Inr cfg0" "config_ok cfg0" using TdeGucInit_ok by blast
  note run = bindM_eq_Inr seqM_eq_Inr
  show ?thesis
    using assms cfg0 unfolding PG_init_def run liftM_eq_Inr ret_run
    by (elim exE conjE) (auto simp: open_pg_tde_check_fips_def RegisterStorageMgr_def check_def dest: installed_keyrings split: if_splits)
qed

section \<open>Is a relation encrypted?\<close>

text \<open>\<open>None\<close> is the SQL null. \<open>reln\<close> is what \<open>RelationGetSmgr\<close> returns.\<close>

definition open_pg_tde_is_encrypted :: "env \<Rightarrow> nat \<Rightarrow> bool \<Rightarrow> bool \<Rightarrow> nat \<Rightarrow> bool option tdeM" where
  "open_pg_tde_is_encrypted ev OurSMgrId has_storage is_other_temp reln =
     (if \<not> has_storage then ret None
      else if is_other_temp then throw (E_state ''we cannot check if temporary relations from other backends are encrypted'')
      else bindM (tde_smgr_rel_is_encrypted ev OurSMgrId reln) (\<lambda>r. ret (Some r)))"

end
