(* ===== verification/Tde_Decode.thy ===== *)
theory Tde_Decode
  imports Tde_Redo
begin

text \<open>
  Decoding of WAL records (\<open>fetools/pg18/xlogreader.c\<close>): the record header, the headers of the blocks and of the data, the copies of images
  and data, and the restoring of page images. Lengths are kept with 32 and 16 bits.

  The layout of records and pages and the numbers of the flags are the ones PostgreSQL documents for its WAL (\<open>xlogrecord.h\<close>,
  \<open>xlog_internal.h\<close>). The copy of data that the record does not have is an undefined read of the program; here it is an error of its own.
\<close>

section \<open>Errors as sums\<close>

definition bindS :: "tde_error + 'a \<Rightarrow> ('a \<Rightarrow> tde_error + 'b) \<Rightarrow> tde_error + 'b" where
  "bindS m f = (case m of Inl e \<Rightarrow> Inl e | Inr x \<Rightarrow> f x)"

lemma bindS_simps [simp]: "bindS (Inl e) f = Inl e" "bindS (Inr x) f = f x"
  by (simp_all add: bindS_def)

lemma bindS_eq_Inr: "bindS m f = Inr y \<longleftrightarrow> (\<exists>x. m = Inr x \<and> f x = Inr y)"
  by (cases m) simp_all

lemma bindS_cong [fundef_cong]: "m = m' \<Longrightarrow> (\<And>x. m' = Inr x \<Longrightarrow> f x = f' x) \<Longrightarrow> bindS m f = bindS m' f'"
  by (cases m') simp_all

definition checkS :: "bool \<Rightarrow> string \<Rightarrow> tde_error + unit" where
  "checkS b msg = (if b then Inr () else Inl (E_state msg))"

lemma checkS_simps [simp]: "checkS True msg = Inr ()" "checkS False msg = Inl (E_state msg)"
  by (simp_all add: checkS_def)

lemma checkS_eq_Inr [simp]: "checkS b msg = Inr () \<longleftrightarrow> b"
  by (simp add: checkS_def)

section \<open>The format\<close>

type_synonym uint16 = "16 word"

definition un16 :: "bytes \<Rightarrow> uint16" where
  "un16 bs = of_nat (nat_le bs)"

definition le16 :: "uint16 \<Rightarrow> bytes" where
  "le16 w = le_nat 2 (unat w)"

definition SizeOfXLogRecord :: nat where "SizeOfXLogRecord = 24"

record XLogRecord =
  xl_tot_len :: u32
  xl_xid :: u32
  xl_prev :: u64
  xl_info :: byte
  xl_rmid :: byte
  xl_crc :: u32

definition dec_XLogRecord :: "bytes \<Rightarrow> XLogRecord" where
  "dec_XLogRecord b =
     \<lparr>xl_tot_len = un32 (slice 0 4 b), xl_xid = un32 (slice 4 4 b), xl_prev = un64 (slice 8 8 b), xl_info = b ! 16, xl_rmid = b ! 17,
      xl_crc = un32 (slice 20 4 b)\<rparr>"

definition XLR_MAX_BLOCK_ID :: byte where "XLR_MAX_BLOCK_ID = 32"
definition XLR_BLOCK_ID_DATA_SHORT :: byte where "XLR_BLOCK_ID_DATA_SHORT = 255"
definition XLR_BLOCK_ID_DATA_LONG :: byte where "XLR_BLOCK_ID_DATA_LONG = 254"
definition XLR_BLOCK_ID_ORIGIN :: byte where "XLR_BLOCK_ID_ORIGIN = 253"
definition XLR_BLOCK_ID_TOPLEVEL_XID :: byte where "XLR_BLOCK_ID_TOPLEVEL_XID = 252"

lemmas block_id_consts = XLR_MAX_BLOCK_ID_def XLR_BLOCK_ID_DATA_SHORT_def XLR_BLOCK_ID_DATA_LONG_def XLR_BLOCK_ID_ORIGIN_def XLR_BLOCK_ID_TOPLEVEL_XID_def

definition BKPBLOCK_FORK_MASK :: byte where "BKPBLOCK_FORK_MASK = 0x0F"
definition BKPBLOCK_HAS_IMAGE :: "byte \<Rightarrow> bool" where "BKPBLOCK_HAS_IMAGE flags = bit flags 4"
definition BKPBLOCK_HAS_DATA :: "byte \<Rightarrow> bool" where "BKPBLOCK_HAS_DATA flags = bit flags 5"
definition BKPBLOCK_SAME_REL :: "byte \<Rightarrow> bool" where "BKPBLOCK_SAME_REL flags = bit flags 7"
definition BKPIMAGE_HAS_HOLE :: "byte \<Rightarrow> bool" where "BKPIMAGE_HAS_HOLE info = bit info 0"
definition BKPIMAGE_APPLY :: "byte \<Rightarrow> bool" where "BKPIMAGE_APPLY info = bit info 1"
definition BKPIMAGE_COMPRESS_PGLZ :: "byte \<Rightarrow> bool" where "BKPIMAGE_COMPRESS_PGLZ info = bit info 2"
definition BKPIMAGE_COMPRESS_LZ4 :: "byte \<Rightarrow> bool" where "BKPIMAGE_COMPRESS_LZ4 info = bit info 3"
definition BKPIMAGE_COMPRESS_ZSTD :: "byte \<Rightarrow> bool" where "BKPIMAGE_COMPRESS_ZSTD info = bit info 4"

definition BKPIMAGE_COMPRESSED :: "byte \<Rightarrow> bool" where
  "BKPIMAGE_COMPRESSED info \<longleftrightarrow> BKPIMAGE_COMPRESS_PGLZ info \<or> BKPIMAGE_COMPRESS_LZ4 info \<or> BKPIMAGE_COMPRESS_ZSTD info"

section \<open>Decoded records\<close>

record DecodedBkpBlock =
  in_use :: bool
  bkp_rlocator :: RelFileLocator
  bkp_forknum :: byte
  bkp_blkno :: u32
  bkp_flags :: byte
  has_image :: bool
  apply_image :: bool
  bkp_image :: bytes
  hole_offset :: uint16
  hole_length :: uint16
  bimg_len :: uint16
  bimg_info :: byte
  has_data :: bool
  bkp_data :: bytes
  data_len :: uint16

definition unused_block :: DecodedBkpBlock where
  "unused_block =
     \<lparr>in_use = False, bkp_rlocator = \<lparr>spcOid = 0, dbOid = 0, relNumber = 0\<rparr>, bkp_forknum = 0, bkp_blkno = 0, bkp_flags = 0, has_image = False,
      apply_image = False, bkp_image = [], hole_offset = 0, hole_length = 0, bimg_len = 0, bimg_info = 0, has_data = False, bkp_data = [], data_len = 0\<rparr>"

text \<open>The blocks up to \<open>max_block_id\<close>, which is one less than the length of the list.\<close>

record DecodedXLogRecord =
  rec_lsn :: u64
  next_lsn :: u64
  rec_header :: XLogRecord
  record_origin :: uint16
  toplevel_xid :: u32
  main_data :: bytes
  main_data_len :: u32
  rec_blocks :: "DecodedBkpBlock list"

section \<open>Decoding the headers\<close>

record decoder =
  dc_rec :: DecodedXLogRecord
  dc_rlocator :: "RelFileLocator option"
  dc_ptr :: bytes
  dc_remaining :: u32
  dc_datatotal :: u32

definition COPY_HEADER_FIELD :: "nat \<Rightarrow> decoder \<Rightarrow> tde_error + (bytes \<times> decoder)" where
  "COPY_HEADER_FIELD n d =
     (if dc_remaining d < of_nat n then Inl (E_state ''record with invalid length'')
      else Inr (take n (dc_ptr d), d\<lparr>dc_ptr := drop n (dc_ptr d), dc_remaining := dc_remaining d - of_nat n\<rparr>))"

text \<open>The header of a page image, with its cross-checks. \<open>hole_length\<close> has 16 bits.\<close>

definition check_image :: "DecodedBkpBlock \<Rightarrow> tde_error + unit" where
  "check_image blk =
     (let hole = BKPIMAGE_HAS_HOLE (bimg_info blk); compressed = BKPIMAGE_COMPRESSED (bimg_info blk) in
      bindS (checkS (\<not> (hole \<and> (hole_offset blk = 0 \<or> hole_length blk = 0 \<or> bimg_len blk = 8192))) ''BKPIMAGE_HAS_HOLE set'') (\<lambda>_.
      bindS (checkS (\<not> (\<not> hole \<and> (hole_offset blk \<noteq> 0 \<or> hole_length blk \<noteq> 0))) ''BKPIMAGE_HAS_HOLE not set'') (\<lambda>_.
      bindS (checkS (\<not> (compressed \<and> bimg_len blk = 8192)) ''BKPIMAGE_COMPRESSED set'') (\<lambda>_.
      checkS (\<not> (\<not> hole \<and> \<not> compressed \<and> bimg_len blk \<noteq> 8192)) ''neither BKPIMAGE_HAS_HOLE nor BKPIMAGE_COMPRESSED set''))))"

definition decode_image_header :: "DecodedBkpBlock \<Rightarrow> decoder \<Rightarrow> tde_error + (DecodedBkpBlock \<times> decoder)" where
  "decode_image_header blk d =
     bindS (COPY_HEADER_FIELD 2 d) (\<lambda>(b_len, d).
     bindS (COPY_HEADER_FIELD 2 d) (\<lambda>(b_off, d).
     bindS (COPY_HEADER_FIELD 1 d) (\<lambda>(b_info, d).
     let blk = blk\<lparr>bimg_len := un16 b_len, hole_offset := un16 b_off, bimg_info := hd b_info, apply_image := BKPIMAGE_APPLY (hd b_info)\<rparr> in
     bindS (if BKPIMAGE_COMPRESSED (bimg_info blk) then
              (if BKPIMAGE_HAS_HOLE (bimg_info blk)
               then bindS (COPY_HEADER_FIELD 2 d) (\<lambda>(b, d). Inr (blk\<lparr>hole_length := un16 b\<rparr>, d))
               else Inr (blk\<lparr>hole_length := 0\<rparr>, d))
            else Inr (blk\<lparr>hole_length := 8192 - bimg_len blk\<rparr>, d)) (\<lambda>(blk, d).
     bindS (check_image blk) (\<lambda>_.
     Inr (blk, d\<lparr>dc_datatotal := dc_datatotal d + ucast (bimg_len blk)\<rparr>))))))"

definition decode_image :: "DecodedBkpBlock \<Rightarrow> decoder \<Rightarrow> tde_error + (DecodedBkpBlock \<times> decoder)" where
  "decode_image blk d = (if has_image blk then decode_image_header blk d else Inr (blk, d))"

definition decode_rel :: "byte \<Rightarrow> decoder \<Rightarrow> tde_error + (RelFileLocator \<times> decoder)" where
  "decode_rel fork_flags d =
     (if \<not> BKPBLOCK_SAME_REL fork_flags
      then bindS (COPY_HEADER_FIELD 12 d) (\<lambda>(b, d). Inr (dec_rlocator b, d))
      else (case dc_rlocator d of None \<Rightarrow> Inl (E_state ''BKPBLOCK_SAME_REL set but no previous rel'') | Some rl \<Rightarrow> Inr (rl, d)))"

definition decode_block_header :: "byte \<Rightarrow> decoder \<Rightarrow> tde_error + decoder" where
  "decode_block_header block_id d =
     (let r = dc_rec d; n = length (rec_blocks r) in
      bindS (checkS (\<not> unat block_id < n) ''out-of-order block_id'') (\<lambda>_.
      bindS (COPY_HEADER_FIELD 1 d) (\<lambda>(b, d).
      let fork_flags = hd b in
      bindS (COPY_HEADER_FIELD 2 d) (\<lambda>(b, d).
      let blk = unused_block\<lparr>in_use := True, bkp_forknum := and fork_flags BKPBLOCK_FORK_MASK, bkp_flags := fork_flags,
            has_image := BKPBLOCK_HAS_IMAGE fork_flags, has_data := BKPBLOCK_HAS_DATA fork_flags, data_len := un16 b\<rparr> in
      bindS (checkS (\<not> (has_data blk \<and> data_len blk = 0)) ''BKPBLOCK_HAS_DATA set, but no data included'') (\<lambda>_.
      bindS (checkS (\<not> (\<not> has_data blk \<and> data_len blk \<noteq> 0)) ''BKPBLOCK_HAS_DATA not set'') (\<lambda>_.
      bindS (decode_image blk (d\<lparr>dc_datatotal := dc_datatotal d + ucast (data_len blk)\<rparr>)) (\<lambda>(blk, d).
      bindS (decode_rel fork_flags d) (\<lambda>(rl, d).
      bindS (COPY_HEADER_FIELD 4 d) (\<lambda>(b, d).
      Inr (d\<lparr>dc_rlocator := Some rl,
             dc_rec := r\<lparr>rec_blocks := rec_blocks r @ replicate (unat block_id - n) unused_block @ [blk\<lparr>bkp_rlocator := rl, bkp_blkno := un32 b\<rparr>]\<rparr>\<rparr>))))))))))"

text \<open>One turn of the loop; the flag tells that the loop ends, since the main data come last.\<close>

definition decode_fragment :: "decoder \<Rightarrow> tde_error + (bool \<times> decoder)" where
  "decode_fragment d =
     bindS (COPY_HEADER_FIELD 1 d) (\<lambda>(b, d).
     let block_id = hd b in
     if block_id = XLR_BLOCK_ID_DATA_SHORT then
       bindS (COPY_HEADER_FIELD 1 d) (\<lambda>(b, d).
       Inr (True, d\<lparr>dc_rec := dc_rec d\<lparr>main_data_len := ucast (hd b)\<rparr>, dc_datatotal := dc_datatotal d + ucast (hd b)\<rparr>))
     else if block_id = XLR_BLOCK_ID_DATA_LONG then
       bindS (COPY_HEADER_FIELD 4 d) (\<lambda>(b, d).
       Inr (True, d\<lparr>dc_rec := dc_rec d\<lparr>main_data_len := un32 b\<rparr>, dc_datatotal := dc_datatotal d + un32 b\<rparr>))
     else if block_id = XLR_BLOCK_ID_ORIGIN then
       bindS (COPY_HEADER_FIELD 2 d) (\<lambda>(b, d). Inr (False, d\<lparr>dc_rec := dc_rec d\<lparr>record_origin := un16 b\<rparr>\<rparr>))
     else if block_id = XLR_BLOCK_ID_TOPLEVEL_XID then
       bindS (COPY_HEADER_FIELD 4 d) (\<lambda>(b, d). Inr (False, d\<lparr>dc_rec := dc_rec d\<lparr>toplevel_xid := un32 b\<rparr>\<rparr>))
     else if block_id \<le> XLR_MAX_BLOCK_ID then bindS (decode_block_header block_id d) (\<lambda>d. Inr (False, d))
     else Inl (E_state ''invalid block_id''))"

lemma copy_field_remaining:
  assumes "COPY_HEADER_FIELD n d = Inr (b, d')"
  shows "dc_remaining d' \<le> dc_remaining d" "0 < n \<Longrightarrow> n < 2 ^ 32 \<Longrightarrow> dc_remaining d' < dc_remaining d"
proof -
  have r: "of_nat n \<le> dc_remaining d" "dc_remaining d' = dc_remaining d - of_nat n" using assms by (auto simp: COPY_HEADER_FIELD_def split: if_splits)
  then show "dc_remaining d' \<le> dc_remaining d" by (simp add: word_le_nat_alt unat_sub)
  show "dc_remaining d' < dc_remaining d" if "0 < n" "n < 2 ^ 32"
  proof -
    have "unat (of_nat n :: u32) = n" using that by (simp add: unat_of_nat take_bit_nat_eq_self)
    then show ?thesis using r that by (simp add: word_less_nat_alt word_le_nat_alt unat_sub)
  qed
qed

text \<open>What is read never grows the rest; \<open>g\<close> picks the decoder from a result.\<close>

definition shrinks :: "('a \<Rightarrow> decoder) \<Rightarrow> decoder \<Rightarrow> tde_error + 'a \<Rightarrow> bool" where
  "shrinks g d m \<longleftrightarrow> (\<forall>x. m = Inr x \<longrightarrow> dc_remaining (g x) \<le> dc_remaining d)"

lemma shrinks_bind:
  "shrinks snd d m \<Longrightarrow> (\<And>x d'. dc_remaining d' \<le> dc_remaining d \<Longrightarrow> shrinks g d (f x d')) \<Longrightarrow> shrinks g d (bindS m (\<lambda>(x, d). f x d))"
  by (cases m) (auto simp: shrinks_def)

lemma shrinks_check: "shrinks g d (f ()) \<Longrightarrow> shrinks g d (bindS (checkS b msg) f)"
  by (cases b) (auto simp: shrinks_def)

lemma shrinks_check_image: "shrinks g d (f ()) \<Longrightarrow> shrinks g d (bindS (check_image blk) f)"
  by (cases "check_image blk") (auto simp: shrinks_def)

lemma shrinks_copy: "dc_remaining d1 \<le> dc_remaining d \<Longrightarrow> shrinks snd d (COPY_HEADER_FIELD n d1)"
  unfolding shrinks_def by (metis copy_field_remaining(1) order_trans prod.collapse)

lemma shrinks_ret: "dc_remaining (g x) \<le> dc_remaining d \<Longrightarrow> shrinks g d (Inr x)"
  by (simp add: shrinks_def)

lemma shrinks_err: "shrinks g d (Inl e)"
  by (simp add: shrinks_def)

lemma shrinks_if: "(b \<Longrightarrow> shrinks g d m) \<Longrightarrow> (\<not> b \<Longrightarrow> shrinks g d m') \<Longrightarrow> shrinks g d (if b then m else m')"
  by simp

lemma shrinks_option: "shrinks g d m \<Longrightarrow> (\<And>x. shrinks g d (f x)) \<Longrightarrow> shrinks g d (case o1 of None \<Rightarrow> m | Some x \<Rightarrow> f x)"
  by (cases o1) simp_all

lemma decode_image_remaining: "dc_remaining d1 \<le> dc_remaining d \<Longrightarrow> shrinks snd d (decode_image_header blk d1)"
  unfolding decode_image_header_def Let_def prod.case
  by (intro shrinks_bind shrinks_copy shrinks_if shrinks_ret shrinks_check_image; simp)

lemmas shrinks_rules = shrinks_bind shrinks_check shrinks_copy shrinks_if shrinks_ret shrinks_err shrinks_option decode_image_remaining

lemma decode_block_remaining: "dc_remaining d1 \<le> dc_remaining d \<Longrightarrow> shrinks id d (decode_block_header i d1)"
  unfolding decode_block_header_def decode_image_def decode_rel_def Let_def prod.case by (intro shrinks_rules; simp)

lemma decode_block_le: "decode_block_header i d = Inr d' \<Longrightarrow> dc_remaining d' \<le> dc_remaining d"
  using decode_block_remaining [of d d i] by (simp add: shrinks_def)

lemma decode_fragment_remaining:
  assumes "decode_fragment d = Inr (fin, d')"
  shows "unat (dc_remaining d') < unat (dc_remaining d)"
proof -
  obtain b d1 where d1: "COPY_HEADER_FIELD 1 d = Inr (b, d1)" using assms by (auto simp: decode_fragment_def bindS_eq_Inr)
  then have "dc_remaining d' \<le> dc_remaining d1"
    using assms by (auto simp: decode_fragment_def bindS_eq_Inr Let_def dest!: copy_field_remaining(1) decode_block_le split: if_splits)
  then show ?thesis using copy_field_remaining(2) [OF d1] by (simp add: word_less_nat_alt word_le_nat_alt)
qed

function decode_headers :: "decoder \<Rightarrow> tde_error + decoder" where
  "decode_headers d =
     (if \<not> dc_remaining d > dc_datatotal d then Inr d
      else (case decode_fragment d of Inl e \<Rightarrow> Inl e | Inr (fin, d') \<Rightarrow> if fin then Inr d' else decode_headers d'))"
  by pat_completeness auto
termination by (relation "measure (\<lambda>d. unat (dc_remaining d))") (auto dest: decode_fragment_remaining)

declare decode_headers.simps [simp del]

section \<open>Copying the data\<close>

definition copy_data :: "nat \<Rightarrow> bytes \<Rightarrow> tde_error + (bytes \<times> bytes)" where
  "copy_data n ptr = (if length ptr < n then Inl (E_state ''read behind the end of the record'') else Inr (take n ptr, drop n ptr))"

definition copy_block :: "DecodedBkpBlock \<Rightarrow> bytes \<Rightarrow> tde_error + (DecodedBkpBlock \<times> bytes)" where
  "copy_block blk ptr =
     (if \<not> in_use blk then Inr (blk, ptr)
      else
        bindS (if has_image blk then bindS (copy_data (unat (bimg_len blk)) ptr) (\<lambda>(b, ptr). Inr (blk\<lparr>bkp_image := b\<rparr>, ptr)) else Inr (blk, ptr)) (\<lambda>(blk, ptr).
        if has_data blk then bindS (copy_data (unat (data_len blk)) ptr) (\<lambda>(b, ptr). Inr (blk\<lparr>bkp_data := b\<rparr>, ptr)) else Inr (blk, ptr)))"

fun copy_blocks :: "DecodedBkpBlock list \<Rightarrow> bytes \<Rightarrow> tde_error + (DecodedBkpBlock list \<times> bytes)" where
  "copy_blocks [] ptr = Inr ([], ptr)"
| "copy_blocks (blk # blks) ptr =
     bindS (copy_block blk ptr) (\<lambda>(blk, ptr). bindS (copy_blocks blks ptr) (\<lambda>(bs, ptr). Inr (blk # bs, ptr)))"

text \<open>\<open>buf\<close> holds the record, its header first, and nothing behind it.\<close>

definition DecodeXLogRecord :: "bytes \<Rightarrow> u64 \<Rightarrow> tde_error + DecodedXLogRecord" where
  "DecodeXLogRecord buf recptr =
     (let header = dec_XLogRecord buf;
          r = \<lparr>rec_lsn = recptr, next_lsn = 0, rec_header = header, record_origin = 0, toplevel_xid = 0, main_data = [], main_data_len = 0, rec_blocks = []\<rparr> in
      bindS (decode_headers \<lparr>dc_rec = r, dc_rlocator = None, dc_ptr = drop SizeOfXLogRecord buf,
               dc_remaining = xl_tot_len header - of_nat SizeOfXLogRecord, dc_datatotal = 0\<rparr>) (\<lambda>d.
      bindS (checkS (dc_remaining d = dc_datatotal d) ''record with invalid length'') (\<lambda>_.
      bindS (copy_blocks (rec_blocks (dc_rec d)) (dc_ptr d)) (\<lambda>(bs, ptr).
      let r = dc_rec d\<lparr>rec_blocks := bs\<rparr> in
      if main_data_len r > 0 then bindS (copy_data (unat (main_data_len r)) ptr) (\<lambda>(b, _). Inr (r\<lparr>main_data := b\<rparr>)) else Inr r))))"

section \<open>Access to the blocks of a record\<close>

definition XLogRecHasBlockRef :: "DecodedXLogRecord \<Rightarrow> nat \<Rightarrow> bool" where
  "XLogRecHasBlockRef r block_id \<longleftrightarrow> block_id < length (rec_blocks r) \<and> in_use (rec_blocks r ! block_id)"

definition XLogRecGetBlockTagExtended :: "DecodedXLogRecord \<Rightarrow> nat \<Rightarrow> (RelFileLocator \<times> byte \<times> u32) option" where
  "XLogRecGetBlockTagExtended r block_id =
     (if \<not> XLogRecHasBlockRef r block_id then None
      else (let bkpb = rec_blocks r ! block_id in Some (bkp_rlocator bkpb, bkp_forknum bkpb, bkp_blkno bkpb)))"

definition XLogRecGetBlockTag :: "DecodedXLogRecord \<Rightarrow> nat \<Rightarrow> tde_error + (RelFileLocator \<times> byte \<times> u32)" where
  "XLogRecGetBlockTag r block_id =
     (case XLogRecGetBlockTagExtended r block_id of
        None \<Rightarrow> Inl (E_state ''could not locate backup block in WAL record'')
      | Some t \<Rightarrow> Inr t)"

definition XLogRecGetBlockData :: "DecodedXLogRecord \<Rightarrow> nat \<Rightarrow> bytes option" where
  "XLogRecGetBlockData r block_id =
     (if \<not> XLogRecHasBlockRef r block_id then None
      else if \<not> has_data (rec_blocks r ! block_id) then None
      else Some (bkp_data (rec_blocks r ! block_id)))"

text \<open>
  The decompressors take the compressed bytes and the length of the result; those that the build does not have are \<open>None\<close>. Parts of the page
  that the image does not give are not copied.
\<close>

record decompressors =
  pglz_decompress :: "bytes \<Rightarrow> nat \<Rightarrow> bytes option"
  LZ4_decompress_safe :: "(bytes \<Rightarrow> nat \<Rightarrow> bytes option) option"
  ZSTD_decompress :: "(bytes \<Rightarrow> nat \<Rightarrow> bytes option) option"

definition decompress_image :: "decompressors \<Rightarrow> DecodedBkpBlock \<Rightarrow> tde_error + bytes" where
  "decompress_image dz bkpb =
     (let n = 8192 - unat (hole_length bkpb);
          run = (\<lambda>f. case f (bkp_image bkpb) n of None \<Rightarrow> Inl (E_state ''could not decompress image'') | Some b \<Rightarrow> Inr b) in
      if BKPIMAGE_COMPRESS_PGLZ (bimg_info bkpb) then run (pglz_decompress dz)
      else if BKPIMAGE_COMPRESS_LZ4 (bimg_info bkpb) then
        (case LZ4_decompress_safe dz of None \<Rightarrow> Inl (E_state ''not supported by build'') | Some f \<Rightarrow> run f)
      else if BKPIMAGE_COMPRESS_ZSTD (bimg_info bkpb) then
        (case ZSTD_decompress dz of None \<Rightarrow> Inl (E_state ''not supported by build'') | Some f \<Rightarrow> run f)
      else Inl (E_state ''compressed with unknown method''))"

definition RestoreBlockImage :: "decompressors \<Rightarrow> DecodedXLogRecord \<Rightarrow> nat \<Rightarrow> tde_error + bytes" where
  "RestoreBlockImage dz r block_id =
     bindS (checkS (XLogRecHasBlockRef r block_id) ''could not restore image with invalid block specified'') (\<lambda>_.
     let bkpb = rec_blocks r ! block_id in
     bindS (checkS (has_image bkpb) ''could not restore image with invalid state'') (\<lambda>_.
     bindS (if BKPIMAGE_COMPRESSED (bimg_info bkpb) then decompress_image dz bkpb else Inr (bkp_image bkpb)) (\<lambda>ptr.
     Inr (if hole_length bkpb = 0 then take 8192 ptr
          else take (unat (hole_offset bkpb)) ptr @ zeros (unat (hole_length bkpb)) @
               take (8192 - (unat (hole_offset bkpb) + unat (hole_length bkpb))) (drop (unat (hole_offset bkpb)) ptr)))))"

end
