(* ===== verification/Tde_Decode_Ops.thy ===== *)
theory Tde_Decode_Ops
  imports Tde_Decode Tde_Redo_Ops
begin

text \<open>
  What the decoder of WAL records makes of a record: a record that was written in the documented layout is decoded to exactly its parts, and
  the sum of the lengths, which has 32 bits, lets through a record whose parts are longer than the record.
\<close>

section \<open>Records as they are written\<close>

record wal_image =
  wi_bytes :: bytes
  wi_hole_offset :: uint16
  wi_hole_length :: uint16
  wi_info :: byte

record wal_block =
  wb_id :: byte
  wb_flags :: byte
  wb_rlocator :: RelFileLocator
  wb_blkno :: u32
  wb_image :: "wal_image option"
  wb_data :: bytes

record wal_record =
  wr_xid :: u32
  wr_prev :: u64
  wr_info :: byte
  wr_rmid :: byte
  wr_crc :: u32
  wr_blocks :: "wal_block list"
  wr_origin :: "uint16 option"
  wr_toplevel_xid :: "u32 option"
  wr_main_data :: bytes

definition enc_image_header :: "wal_image \<Rightarrow> bytes" where
  "enc_image_header im =
     le16 (of_nat (length (wi_bytes im))) @ le16 (wi_hole_offset im) @ [wi_info im] @
     (if BKPIMAGE_COMPRESSED (wi_info im) \<and> BKPIMAGE_HAS_HOLE (wi_info im) then le16 (wi_hole_length im) else [])"

definition image_bytes :: "wal_block \<Rightarrow> bytes" where
  "image_bytes b = (case wb_image b of None \<Rightarrow> [] | Some im \<Rightarrow> wi_bytes im)"

definition enc_opt_image :: "wal_image option \<Rightarrow> bytes" where
  "enc_opt_image x = (case x of None \<Rightarrow> [] | Some im \<Rightarrow> enc_image_header im)"

definition enc_rel :: "wal_block \<Rightarrow> bytes" where
  "enc_rel b = (if BKPBLOCK_SAME_REL (wb_flags b) then [] else enc_rlocator (wb_rlocator b))"

definition enc_block_header :: "wal_block \<Rightarrow> bytes" where
  "enc_block_header b =
     [wb_id b] @ [wb_flags b] @ le16 (of_nat (length (wb_data b))) @
     enc_opt_image (wb_image b) @ enc_rel b @ le32 (wb_blkno b)"

definition enc_block_data :: "wal_block \<Rightarrow> bytes" where
  "enc_block_data b = image_bytes b @ wb_data b"

definition enc_origin :: "uint16 option \<Rightarrow> bytes" where
  "enc_origin x = (case x of None \<Rightarrow> [] | Some v \<Rightarrow> [XLR_BLOCK_ID_ORIGIN] @ le16 v)"

definition enc_toplevel_xid :: "u32 option \<Rightarrow> bytes" where
  "enc_toplevel_xid x = (case x of None \<Rightarrow> [] | Some v \<Rightarrow> [XLR_BLOCK_ID_TOPLEVEL_XID] @ le32 v)"

definition enc_main_header :: "bytes \<Rightarrow> bytes" where
  "enc_main_header m =
     (if m = [] then []
      else if length m < 256 then [XLR_BLOCK_ID_DATA_SHORT] @ [of_nat (length m)]
      else [XLR_BLOCK_ID_DATA_LONG] @ le32 (of_nat (length m)))"

definition enc_headers :: "wal_record \<Rightarrow> bytes" where
  "enc_headers r = concat (map enc_block_header (wr_blocks r)) @ enc_origin (wr_origin r) @ enc_toplevel_xid (wr_toplevel_xid r) @ enc_main_header (wr_main_data r)"

definition enc_data :: "wal_record \<Rightarrow> bytes" where
  "enc_data r = concat (map enc_block_data (wr_blocks r)) @ wr_main_data r"

definition tot_len :: "wal_record \<Rightarrow> nat" where
  "tot_len r = 24 + length (enc_headers r) + length (enc_data r)"

definition enc_record :: "wal_record \<Rightarrow> bytes" where
  "enc_record r =
     (le32 (of_nat (tot_len r)) @ le32 (wr_xid r) @ le64 (wr_prev r) @ [wr_info r, wr_rmid r, 0, 0] @ le32 (wr_crc r)) @ enc_headers r @ enc_data r"

section \<open>Well-formed records\<close>

definition image_ok :: "wal_image \<Rightarrow> bool" where
  "image_ok im \<longleftrightarrow>
     (let hole = BKPIMAGE_HAS_HOLE (wi_info im); compressed = BKPIMAGE_COMPRESSED (wi_info im); n = length (wi_bytes im) in
      n < 2 ^ 16 \<and> (if hole then wi_hole_offset im \<noteq> 0 \<and> wi_hole_length im \<noteq> 0 \<and> n \<noteq> 8192 else wi_hole_offset im = 0 \<and> wi_hole_length im = 0) \<and>
      (compressed \<longrightarrow> n \<noteq> 8192) \<and> (\<not> compressed \<longrightarrow> wi_hole_length im = 8192 - of_nat n) \<and> (\<not> hole \<and> \<not> compressed \<longrightarrow> n = 8192))"

definition block_ok :: "RelFileLocator option \<Rightarrow> nat \<Rightarrow> wal_block \<Rightarrow> bool" where
  "block_ok rl n b \<longleftrightarrow>
     n \<le> unat (wb_id b) \<and> wb_id b \<le> XLR_MAX_BLOCK_ID \<and> (BKPBLOCK_HAS_IMAGE (wb_flags b) \<longleftrightarrow> wb_image b \<noteq> None) \<and>
     (BKPBLOCK_HAS_DATA (wb_flags b) \<longleftrightarrow> wb_data b \<noteq> []) \<and> length (wb_data b) < 2 ^ 16 \<and>
     (BKPBLOCK_SAME_REL (wb_flags b) \<longrightarrow> rl = Some (wb_rlocator b)) \<and> (case wb_image b of None \<Rightarrow> True | Some im \<Rightarrow> image_ok im)"

fun blocks_ok :: "RelFileLocator option \<Rightarrow> nat \<Rightarrow> wal_block list \<Rightarrow> bool" where
  "blocks_ok rl n [] = True"
| "blocks_ok rl n (b # bs) = (block_ok rl n b \<and> blocks_ok (Some (wb_rlocator b)) (Suc (unat (wb_id b))) bs)"

definition record_ok :: "wal_record \<Rightarrow> bool" where
  "record_ok r \<longleftrightarrow> blocks_ok None 0 (wr_blocks r) \<and> tot_len r < 2 ^ 32"

text \<open>The block as it is decoded; before the data were copied \<open>full\<close> is false.\<close>

definition decoded_block :: "bool \<Rightarrow> wal_block \<Rightarrow> DecodedBkpBlock" where
  "decoded_block full b =
     (let blk = unused_block\<lparr>in_use := True, bkp_rlocator := wb_rlocator b, bkp_forknum := and (wb_flags b) BKPBLOCK_FORK_MASK, bkp_blkno := wb_blkno b,
            bkp_flags := wb_flags b, has_image := wb_image b \<noteq> None, has_data := wb_data b \<noteq> [], data_len := of_nat (length (wb_data b)),
            bkp_data := (if full then wb_data b else [])\<rparr>
      in case wb_image b of
           None \<Rightarrow> blk
         | Some im \<Rightarrow> blk\<lparr>apply_image := BKPIMAGE_APPLY (wi_info im), bkp_image := (if full then wi_bytes im else []), hole_offset := wi_hole_offset im,
              hole_length := wi_hole_length im, bimg_len := of_nat (length (wi_bytes im)), bimg_info := wi_info im\<rparr>)"

text \<open>Each block at the place that its number says.\<close>

fun placed :: "bool \<Rightarrow> DecodedBkpBlock list \<Rightarrow> wal_block list \<Rightarrow> DecodedBkpBlock list" where
  "placed full acc [] = acc"
| "placed full acc (b # bs) = placed full (acc @ replicate (unat (wb_id b) - length acc) unused_block @ [decoded_block full b]) bs"

definition decoded_record :: "wal_record \<Rightarrow> u64 \<Rightarrow> DecodedXLogRecord" where
  "decoded_record r recptr =
     \<lparr>rec_lsn = recptr, next_lsn = 0,
      rec_header = \<lparr>xl_tot_len = of_nat (tot_len r), xl_xid = wr_xid r, xl_prev = wr_prev r, xl_info = wr_info r, xl_rmid = wr_rmid r, xl_crc = wr_crc r\<rparr>,
      record_origin = (case wr_origin r of None \<Rightarrow> 0 | Some v \<Rightarrow> v), toplevel_xid = (case wr_toplevel_xid r of None \<Rightarrow> 0 | Some v \<Rightarrow> v),
      main_data = wr_main_data r, main_data_len = of_nat (length (wr_main_data r)), rec_blocks = placed True [] (wr_blocks r)\<rparr>"

section \<open>Decoding the parts\<close>

lemma un16_le16 [simp]: "un16 (le16 w) = w"
proof -
  have "unat w < 256 ^ 2" using unsigned_less [of w] by simp
  then show ?thesis by (simp add: un16_def le16_def nat_le_le_nat)
qed

lemma length_le16 [simp]: "length (le16 w) = 2"
  by (simp add: le16_def)

definition at_pos :: "DecodedXLogRecord \<Rightarrow> RelFileLocator option \<Rightarrow> bytes \<Rightarrow> nat \<Rightarrow> nat \<Rightarrow> decoder" where
  "at_pos r rl p n t = \<lparr>dc_rec = r, dc_rlocator = rl, dc_ptr = p, dc_remaining = of_nat n, dc_datatotal = of_nat t\<rparr>"

lemma at_pos_simps [simp]:
  "dc_rec (at_pos r rl p n t) = r" "dc_rlocator (at_pos r rl p n t) = rl" "dc_ptr (at_pos r rl p n t) = p"
  "at_pos r rl p n t\<lparr>dc_rec := r'\<rparr> = at_pos r' rl p n t" "at_pos r rl p n t\<lparr>dc_rlocator := rl'\<rparr> = at_pos r rl' p n t"
  "at_pos r rl p n t\<lparr>dc_datatotal := dc_datatotal (at_pos r2 rl2 p2 n2 t) + of_nat k\<rparr> = at_pos r rl p n (t + k)"
  by (simp_all add: at_pos_def)

lemma of_nat_less_u32: "n < 2 ^ 32 \<Longrightarrow> m < 2 ^ 32 \<Longrightarrow> (of_nat n :: u32) < of_nat m \<longleftrightarrow> n < m"
  by (simp add: word_less_nat_alt unat_of_nat take_bit_nat_eq_self)

lemma copy_field [simp]:
  assumes "length x = k" "k \<le> n" "n < 2 ^ 32"
  shows "COPY_HEADER_FIELD k (at_pos r rl (x @ p) n t) = Inr (x, at_pos r rl p (n - k) t)"
proof -
  have "\<not> (of_nat n :: u32) < of_nat k" using assms of_nat_less_u32 [of n k] by simp
  then show ?thesis using assms by (auto simp: COPY_HEADER_FIELD_def at_pos_def)
qed

lemma copy_byte [simp]: "0 < n \<Longrightarrow> n < 2 ^ 32 \<Longrightarrow> COPY_HEADER_FIELD (Suc 0) (at_pos r rl (x # p) n t) = Inr ([x], at_pos r rl p (n - 1) t)"
  using copy_field [of "[x]" 1 n r rl p t] by simp

lemma of_nat_16: "n < 2 ^ 16 \<Longrightarrow> unat (of_nat n :: uint16) = n"
  by (simp add: unat_of_nat take_bit_nat_eq_self)

lemma of_nat_16_eq: "n < 2 ^ 16 \<Longrightarrow> (of_nat n :: uint16) = 8192 \<longleftrightarrow> n = 8192"
  using of_nat_16 [of n] by auto

lemma of_nat_16_zero: "n < 2 ^ 16 \<Longrightarrow> (of_nat n :: uint16) = 0 \<longleftrightarrow> n = 0"
  using of_nat_16 [of n] by auto

lemma ucast_16: "n < 2 ^ 16 \<Longrightarrow> (ucast (of_nat n :: uint16) :: u32) = of_nat n"
  using of_nat_16 [of n] by (metis of_nat_unat)

lemma five: "Suc (Suc (Suc (Suc (Suc 0)))) = 5" and three: "Suc (Suc (Suc 0)) = 3"
  by simp_all

lemma decode_image_enc:
  assumes "image_ok im" "n < 2 ^ 32" "length (enc_image_header im) \<le> n"
  shows "decode_image_header blk (at_pos r rl (enc_image_header im @ p) n t) =
    Inr (blk\<lparr>bimg_len := of_nat (length (wi_bytes im)), hole_offset := wi_hole_offset im, bimg_info := wi_info im, apply_image := BKPIMAGE_APPLY (wi_info im),
              hole_length := wi_hole_length im\<rparr>,
         at_pos r rl p (n - length (enc_image_header im)) (t + length (wi_bytes im)))"
  using assms
  by (auto simp: decode_image_header_def enc_image_header_def image_ok_def check_image_def Let_def of_nat_16_eq ucast_16 five split: if_splits)

lemma length_enc_rlocator [simp]: "length (enc_rlocator rl) = 12"
  by (simp add: enc_rlocator_def)

definition with_image :: "wal_image option \<Rightarrow> DecodedBkpBlock \<Rightarrow> DecodedBkpBlock" where
  "with_image x blk = (case x of None \<Rightarrow> blk
     | Some im \<Rightarrow> blk\<lparr>bimg_len := of_nat (length (wi_bytes im)), hole_offset := wi_hole_offset im, bimg_info := wi_info im,
         apply_image := BKPIMAGE_APPLY (wi_info im), hole_length := wi_hole_length im\<rparr>)"

lemma decode_opt_image:
  assumes "case x of None \<Rightarrow> True | Some im \<Rightarrow> image_ok im" "n < 2 ^ 32" "length (enc_opt_image x) \<le> n" "has_image blk \<longleftrightarrow> x \<noteq> None"
  shows "decode_image blk (at_pos r rl (enc_opt_image x @ p) n t) =
    Inr (with_image x blk, at_pos r rl p (n - length (enc_opt_image x)) (t + (case x of None \<Rightarrow> 0 | Some im \<Rightarrow> length (wi_bytes im))))"
  using assms by (cases x) (simp_all add: enc_opt_image_def with_image_def decode_image_def decode_image_enc)

lemma decode_rel_enc:
  assumes "BKPBLOCK_SAME_REL (wb_flags b) \<longrightarrow> rl = Some (wb_rlocator b)" "n < 2 ^ 32" "length (enc_rel b) \<le> n"
  shows "decode_rel (wb_flags b) (at_pos r rl (enc_rel b @ p) n t) = Inr (wb_rlocator b, at_pos r rl p (n - length (enc_rel b)) t)"
  using assms by (auto simp: decode_rel_def enc_rel_def)

lemma decode_block:
  assumes "block_ok rl (length (rec_blocks r)) b" "n < 2 ^ 32" "length (enc_block_header b) \<le> Suc n"
  shows "decode_block_header (wb_id b) (at_pos r rl (tl (enc_block_header b) @ p) n t) =
    Inr (at_pos (r\<lparr>rec_blocks := rec_blocks r @ replicate (unat (wb_id b) - length (rec_blocks r)) unused_block @ [decoded_block False b]\<rparr>)
           (Some (wb_rlocator b)) p (Suc n - length (enc_block_header b)) (t + length (enc_block_data b)))"
proof -
  let ?blk = "unused_block\<lparr>in_use := True, bkp_forknum := and (wb_flags b) BKPBLOCK_FORK_MASK, bkp_flags := wb_flags b,
      has_image := wb_image b \<noteq> None, has_data := wb_data b \<noteq> [], data_len := of_nat (length (wb_data b))\<rparr>"
  have ok: "\<not> unat (wb_id b) < length (rec_blocks r)" "BKPBLOCK_HAS_IMAGE (wb_flags b) \<longleftrightarrow> wb_image b \<noteq> None" "BKPBLOCK_HAS_DATA (wb_flags b) \<longleftrightarrow> wb_data b \<noteq> []"
      "length (wb_data b) < 2 ^ 16" "BKPBLOCK_SAME_REL (wb_flags b) \<longrightarrow> rl = Some (wb_rlocator b)" "case wb_image b of None \<Rightarrow> True | Some im \<Rightarrow> image_ok im"
    using assms(1) by (simp_all add: block_ok_def)
  have len: "length (enc_block_header b) = 8 + length (enc_opt_image (wb_image b)) + length (enc_rel b)" by (simp add: enc_block_header_def)
  have fin: "(with_image (wb_image b) ?blk)\<lparr>bkp_rlocator := wb_rlocator b, bkp_blkno := wb_blkno b\<rparr> = decoded_block False b"
    by (cases "wb_image b") (simp_all add: with_image_def decoded_block_def unused_block_def)
  have total: "length (enc_block_data b) = length (wb_data b) + (case wb_image b of None \<Rightarrow> 0 | Some im \<Rightarrow> length (wi_bytes im))"
    by (cases "wb_image b") (simp_all add: enc_block_data_def image_bytes_def)
  show ?thesis
    using assms(2,3) ok(1-3)
    by (simp add: decode_block_header_def enc_block_header_def Let_def of_nat_16_zero [OF ok(4)] ucast_16 [OF ok(4)] decode_opt_image [OF ok(6)]
        decode_rel_enc [OF ok(5)] fin [unfolded not_None_eq] total len add.assoc)
qed

lemma decode_block_fragment:
  assumes "block_ok rl (length (rec_blocks r)) b" "n < 2 ^ 32" "length (enc_block_header b) \<le> n"
  shows "decode_fragment (at_pos r rl (enc_block_header b @ p) n t) =
    Inr (False, at_pos (r\<lparr>rec_blocks := rec_blocks r @ replicate (unat (wb_id b) - length (rec_blocks r)) unused_block @ [decoded_block False b]\<rparr>)
           (Some (wb_rlocator b)) p (n - length (enc_block_header b)) (t + length (enc_block_data b)))"
proof -
  have id: "wb_id b \<le> 32" using assms(1) by (simp add: block_ok_def XLR_MAX_BLOCK_ID_def)
  then have ne: "wb_id b \<noteq> 255" "wb_id b \<noteq> 254" "wb_id b \<noteq> 253" "wb_id b \<noteq> 252" by auto
  have hdr: "enc_block_header b @ p = wb_id b # tl (enc_block_header b) @ p" by (simp add: enc_block_header_def)
  have pos: "0 < n" "length (enc_block_header b) \<le> Suc (n - 1)" using assms(3) by (auto simp: enc_block_header_def)
  have "decode_block_header (wb_id b) (at_pos r rl (tl (enc_block_header b) @ p) (n - 1) t) =
      Inr (at_pos (r\<lparr>rec_blocks := rec_blocks r @ replicate (unat (wb_id b) - length (rec_blocks r)) unused_block @ [decoded_block False b]\<rparr>)
           (Some (wb_rlocator b)) p (n - length (enc_block_header b)) (t + length (enc_block_data b)))"
    using decode_block [OF assms(1) _ pos(2)] assms(2) pos(1) by simp
  then show ?thesis
    unfolding hdr using assms(2) pos(1) ne id by (simp add: decode_fragment_def Let_def block_id_consts)
qed

lemma at_pos_continue: "n < 2 ^ 32 \<Longrightarrow> t < n \<Longrightarrow> dc_datatotal (at_pos r rl p n t) < dc_remaining (at_pos r rl p n t)"
  by (simp add: at_pos_def of_nat_less_u32)

lemma headers_step:
  assumes "decode_fragment (at_pos r rl p n t) = Inr (fin, d)" "n < 2 ^ 32" "t < n"
  shows "decode_headers (at_pos r rl p n t) = (if fin then Inr d else decode_headers d)"
  by (subst decode_headers.simps) (simp add: at_pos_continue [OF assms(2,3)] assms(1))

lemma decode_block_headers:
  assumes "blocks_ok rl (length (rec_blocks r)) bs" "n = length (concat (map enc_block_header bs)) + m"
    "n < 2 ^ 32" "t + length (concat (map enc_block_data bs)) \<le> m"
  shows "\<exists>rl'. decode_headers (at_pos r rl (concat (map enc_block_header bs) @ p) n t) =
    decode_headers (at_pos (r\<lparr>rec_blocks := placed False (rec_blocks r) bs\<rparr>) rl' p m (t + length (concat (map enc_block_data bs))))"
  using assms
proof (induction bs arbitrary: r rl n t)
  case Nil
  then show ?case by auto
next
  case (Cons b bs)
  let ?bl = "rec_blocks r @ replicate (unat (wb_id b) - length (rec_blocks r)) unused_block @ [decoded_block False b]"
  let ?p = "concat (map enc_block_header bs) @ p"
  have ok: "block_ok rl (length (rec_blocks r)) b" "blocks_ok (Some (wb_rlocator b)) (Suc (unat (wb_id b))) bs" using Cons.prems(1) by simp_all
  have lb: "length ?bl = Suc (unat (wb_id b))" using ok(1) by (simp add: block_ok_def)
  have "0 < length (enc_block_header b)" by (simp add: enc_block_header_def)
  then have "t < n" using Cons.prems(2,4) by (simp del: length_greater_0_conv)
  then have "decode_headers (at_pos r rl (enc_block_header b @ ?p) n t) =
      decode_headers (at_pos (r\<lparr>rec_blocks := ?bl\<rparr>) (Some (wb_rlocator b)) ?p (n - length (enc_block_header b)) (t + length (enc_block_data b)))"
    using headers_step [OF decode_block_fragment [OF ok(1)]] Cons.prems(2,3) by simp
  moreover have "\<exists>rl'. decode_headers (at_pos (r\<lparr>rec_blocks := ?bl\<rparr>) (Some (wb_rlocator b)) ?p (n - length (enc_block_header b)) (t + length (enc_block_data b))) =
      decode_headers (at_pos (r\<lparr>rec_blocks := ?bl, rec_blocks := placed False ?bl bs\<rparr>) rl' p m
        (t + length (enc_block_data b) + length (concat (map enc_block_data bs))))"
    using Cons.IH [of "Some (wb_rlocator b)" "r\<lparr>rec_blocks := ?bl\<rparr>" "n - length (enc_block_header b)" "t + length (enc_block_data b)"] ok(2) lb Cons.prems(2-4)
    by simp
  ultimately show ?case by (simp add: add.assoc)
qed

lemma decode_origin:
  assumes "n < 2 ^ 32" "length (enc_origin x) + t \<le> n" "record_origin r = 0"
  shows "decode_headers (at_pos r rl (enc_origin x @ p) n t) =
    decode_headers (at_pos (r\<lparr>record_origin := (case x of None \<Rightarrow> 0 | Some v \<Rightarrow> v)\<rparr>) rl p (n - length (enc_origin x)) t)"
proof (cases x)
  case (Some v)
  then have n: "3 + t \<le> n" using assms(2) by (simp add: enc_origin_def)
  have "decode_fragment (at_pos r rl (enc_origin x @ p) n t) = Inr (False, at_pos (r\<lparr>record_origin := v\<rparr>) rl p (n - 3) t)"
    using Some n assms(1) by (simp add: decode_fragment_def enc_origin_def Let_def block_id_consts three)
  from headers_step [OF this] show ?thesis using n assms(1) Some by (simp add: enc_origin_def three)
next
  case None
  then show ?thesis using assms(3) by (cases r) (simp add: enc_origin_def)
qed

lemma decode_toplevel_xid:
  assumes "n < 2 ^ 32" "length (enc_toplevel_xid x) + t \<le> n" "toplevel_xid r = 0"
  shows "decode_headers (at_pos r rl (enc_toplevel_xid x @ p) n t) =
    decode_headers (at_pos (r\<lparr>toplevel_xid := (case x of None \<Rightarrow> 0 | Some v \<Rightarrow> v)\<rparr>) rl p (n - length (enc_toplevel_xid x)) t)"
proof (cases x)
  case (Some v)
  then have n: "5 + t \<le> n" using assms(2) by (simp add: enc_toplevel_xid_def)
  have "decode_fragment (at_pos r rl (enc_toplevel_xid x @ p) n t) = Inr (False, at_pos (r\<lparr>toplevel_xid := v\<rparr>) rl p (n - 5) t)"
    using Some n assms(1) by (simp add: decode_fragment_def enc_toplevel_xid_def Let_def block_id_consts)
  from headers_step [OF this] show ?thesis using n assms(1) Some by (simp add: enc_toplevel_xid_def)
next
  case None
  then show ?thesis using assms(3) by (cases r) (simp add: enc_toplevel_xid_def)
qed

lemma decode_main_header:
  assumes "n = length (enc_main_header m) + t + length m" "n < 2 ^ 32" "main_data_len r = 0"
  shows "decode_headers (at_pos r rl (enc_main_header m @ p) n t) =
    Inr (at_pos (r\<lparr>main_data_len := of_nat (length m)\<rparr>) rl p (t + length m) (t + length m))"
proof -
  consider "m = []" | "m \<noteq> []" "length m < 256" | "256 \<le> length m" by linarith
  then show ?thesis
  proof cases
    case 1
    then show ?thesis using assms by (subst decode_headers.simps) (simp add: enc_main_header_def at_pos_def)
  next
    case 2
    have "unat (of_nat (length m) :: byte) = length m" using 2(2) by (simp add: unat_of_nat)
    then have u: "(ucast (of_nat (length m) :: byte) :: u32) = of_nat (length m)" by (metis of_nat_unat)
    have "decode_fragment (at_pos r rl (enc_main_header m @ p) n t) = Inr (True, at_pos (r\<lparr>main_data_len := of_nat (length m)\<rparr>) rl p (n - 2) (t + length m))"
      using 2 assms(1,2) by (simp add: decode_fragment_def enc_main_header_def Let_def block_id_consts u)
    from headers_step [OF this] show ?thesis using 2 assms(1,2) by (simp add: enc_main_header_def)
  next
    case 3
    then have "m \<noteq> []" by auto
    then have "decode_fragment (at_pos r rl (enc_main_header m @ p) n t) = Inr (True, at_pos (r\<lparr>main_data_len := of_nat (length m)\<rparr>) rl p (n - 5) (t + length m))"
      using 3 assms(1,2) by (simp add: decode_fragment_def enc_main_header_def Let_def block_id_consts)
    from headers_step [OF this] show ?thesis using 3 \<open>m \<noteq> []\<close> assms(1,2) by (simp add: enc_main_header_def)
  qed
qed

section \<open>Copying the parts\<close>

lemma copy_data_append [simp]: "copy_data (length x) (x @ p) = Inr (x, p)"
  by (simp add: copy_data_def)

lemma copy_blocks_append:
  "copy_blocks (xs @ ys) ptr = bindS (copy_blocks xs ptr) (\<lambda>(a, p). bindS (copy_blocks ys p) (\<lambda>(b, p). Inr (a @ b, p)))"
proof (induction xs arbitrary: ptr)
  case Nil
  then show ?case by (cases "copy_blocks ys ptr") auto
next
  case (Cons x xs)
  show ?case
  proof (cases "copy_block x ptr")
    case (Inr y)
    then show ?thesis by (cases y; cases "copy_blocks xs (snd y)"; cases "copy_blocks ys (snd (projr (copy_blocks xs (snd y))))") (auto simp: Cons.IH)
  qed simp
qed

lemma copy_unused: "copy_blocks (replicate k unused_block) ptr = Inr (replicate k unused_block, ptr)"
  by (induction k) (simp_all add: unused_block_def copy_block_def)

lemma copy_block_enc:
  assumes "block_ok rl n b"
  shows "copy_blocks [decoded_block False b] (enc_block_data b @ p) = Inr ([decoded_block True b], p)"
proof -
  have d: "unat (of_nat (length (wb_data b)) :: uint16) = length (wb_data b)" using assms by (intro of_nat_16) (simp add: block_ok_def)
  show ?thesis
  proof (cases "wb_image b")
    case None
    then show ?thesis using d by (auto simp: decoded_block_def enc_block_data_def image_bytes_def unused_block_def copy_block_def)
  next
    case (Some im)
    then have "length (wi_bytes im) < 2 ^ 16" using assms by (simp add: block_ok_def image_ok_def Let_def)
    then have "unat (of_nat (length (wi_bytes im)) :: uint16) = length (wi_bytes im)" by (rule of_nat_16)
    then show ?thesis using Some d by (auto simp: decoded_block_def enc_block_data_def image_bytes_def unused_block_def copy_block_def)
  qed
qed

lemma copy_block_short:
  assumes "block_ok rl n b" "4 \<le> length (enc_block_data b)"
  shows "copy_blocks [decoded_block False b] (take (length (enc_block_data b) - 4) (enc_block_data b)) = Inl (E_state ''read behind the end of the record'')"
proof -
  have d: "unat (of_nat (length (wb_data b)) :: uint16) = length (wb_data b)" using assms by (intro of_nat_16) (simp add: block_ok_def)
  show ?thesis
  proof (cases "wb_image b")
    case None
    then show ?thesis using d assms(2) by (auto simp: decoded_block_def enc_block_data_def image_bytes_def unused_block_def copy_block_def copy_data_def)
  next
    case (Some im)
    then have "length (wi_bytes im) < 2 ^ 16" using assms by (simp add: block_ok_def image_ok_def Let_def)
    then have "unat (of_nat (length (wi_bytes im)) :: uint16) = length (wi_bytes im)" by (rule of_nat_16)
    then show ?thesis using Some d assms(2) by (auto simp: decoded_block_def enc_block_data_def image_bytes_def unused_block_def copy_block_def copy_data_def)
  qed
qed

lemma copy_placed:
  assumes "blocks_ok rl (length acc) bs" "copy_blocks acc q = Inr (acc', concat (map enc_block_data bs) @ p)" "length acc' = length acc"
  shows "copy_blocks (placed False acc bs) q = Inr (placed True acc' bs, p)"
  using assms
proof (induction bs arbitrary: acc acc' rl)
  case (Cons b bs)
  have ok: "block_ok rl (length acc) b" using Cons.prems(1) by simp
  then have l: "length (acc @ replicate (unat (wb_id b) - length acc) unused_block @ [decoded_block False b]) = Suc (unat (wb_id b))"
    by (simp add: block_ok_def)
  have "copy_blocks (acc @ replicate (unat (wb_id b) - length acc) unused_block @ [decoded_block False b]) q =
      Inr (acc' @ replicate (unat (wb_id b) - length acc) unused_block @ [decoded_block True b], concat (map enc_block_data bs) @ p)"
    using Cons.prems(2) copy_block_enc [OF ok] by (simp add: copy_blocks_append copy_unused del: copy_blocks.simps)
  with Cons.IH [of "Some (wb_rlocator b)"] Cons.prems(1,3) l show ?case by simp
qed simp

section \<open>Round trip\<close>

lemma decode_enc_headers:
  assumes "blocks_ok None 0 (wr_blocks r)" "length (enc_headers r) + length (enc_data r) < 2 ^ 32"
    "rec_blocks r0 = []" "main_data_len r0 = 0" "record_origin r0 = 0" "toplevel_xid r0 = 0"
  shows "\<exists>rl. decode_headers (at_pos r0 None (enc_headers r @ q) (length (enc_headers r) + length (enc_data r)) 0) =
    Inr (at_pos (r0\<lparr>rec_blocks := placed False [] (wr_blocks r), record_origin := (case wr_origin r of None \<Rightarrow> 0 | Some v \<Rightarrow> v),
           toplevel_xid := (case wr_toplevel_xid r of None \<Rightarrow> 0 | Some v \<Rightarrow> v), main_data_len := of_nat (length (wr_main_data r))\<rparr>)
         rl q (length (enc_data r)) (length (enc_data r)))"
proof -
  let ?D = "length (concat (map enc_block_data (wr_blocks r)))" and ?o = "enc_origin (wr_origin r)" and ?x = "enc_toplevel_xid (wr_toplevel_xid r)"
    and ?m = "enc_main_header (wr_main_data r)" and ?k = "length (wr_main_data r)"
  let ?r1 = "r0\<lparr>rec_blocks := placed False [] (wr_blocks r)\<rparr>"
  let ?r2 = "?r1\<lparr>record_origin := (case wr_origin r of None \<Rightarrow> 0 | Some v \<Rightarrow> v)\<rparr>"
  let ?r3 = "?r2\<lparr>toplevel_xid := (case wr_toplevel_xid r of None \<Rightarrow> 0 | Some v \<Rightarrow> v)\<rparr>"
  have D: "length (enc_data r) = ?D + ?k" by (simp add: enc_data_def)
  have H: "length (enc_headers r) = length (concat (map enc_block_header (wr_blocks r))) + length ?o + length ?x + length ?m" by (simp add: enc_headers_def)
  obtain rl where 1: "decode_headers (at_pos r0 None (enc_headers r @ q) (length (enc_headers r) + length (enc_data r)) 0) =
      decode_headers (at_pos ?r1 rl (?o @ ?x @ ?m @ q) (length ?o + length ?x + length ?m + ?D + ?k) ?D)"
    using decode_block_headers [of None r0 "wr_blocks r" "length (enc_headers r) + length (enc_data r)" "length ?o + length ?x + length ?m + ?D + ?k" 0 "?o @ ?x @ ?m @ q"]
      assms(1-3) H D by (auto simp: enc_headers_def)
  have 2: "decode_headers (at_pos ?r1 rl (?o @ ?x @ ?m @ q) (length ?o + length ?x + length ?m + ?D + ?k) ?D) =
      decode_headers (at_pos ?r2 rl (?x @ ?m @ q) (length ?x + length ?m + ?D + ?k) ?D)"
    using decode_origin [of "length ?o + length ?x + length ?m + ?D + ?k" "wr_origin r" ?D ?r1 rl "?x @ ?m @ q"] assms(2,5) H D by (simp add: add.assoc)
  have 3: "decode_headers (at_pos ?r2 rl (?x @ ?m @ q) (length ?x + length ?m + ?D + ?k) ?D) =
      decode_headers (at_pos ?r3 rl (?m @ q) (length ?m + ?D + ?k) ?D)"
    using decode_toplevel_xid [of "length ?x + length ?m + ?D + ?k" "wr_toplevel_xid r" ?D ?r2 rl "?m @ q"] assms(2,6) H D by (simp add: add.assoc)
  have 4: "decode_headers (at_pos ?r3 rl (?m @ q) (length ?m + ?D + ?k) ?D) = Inr (at_pos (?r3\<lparr>main_data_len := of_nat ?k\<rparr>) rl q (?D + ?k) (?D + ?k))"
    using decode_main_header [of "length ?m + ?D + ?k" "wr_main_data r" ?D ?r3 rl q] assms(2,4) H D by simp
  from trans [OF 1 trans [OF 2 trans [OF 3 4]]] show ?thesis unfolding D [symmetric] by auto
qed

lemma dec_header_enc:
  "dec_XLogRecord (enc_record r) = \<lparr>xl_tot_len = of_nat (tot_len r), xl_xid = wr_xid r, xl_prev = wr_prev r, xl_info = wr_info r, xl_rmid = wr_rmid r, xl_crc = wr_crc r\<rparr>"
  by (simp add: dec_XLogRecord_def enc_record_def nth_append)

text \<open>
  C28. A WAL record that was written in the documented layout is decoded without an error, and to exactly its parts: the header, every block at
  the place of its number with its relation, fork, block, image and data, the origin, the top-level transaction and the main data.
\<close>

theorem decode_record_roundtrip:
  assumes "record_ok r"
  shows "DecodeXLogRecord (enc_record r) recptr = Inr (decoded_record r recptr)"
proof -
  let ?hd = "\<lparr>xl_tot_len = of_nat (tot_len r), xl_xid = wr_xid r, xl_prev = wr_prev r, xl_info = wr_info r, xl_rmid = wr_rmid r, xl_crc = wr_crc r\<rparr>"
  let ?r0 = "\<lparr>rec_lsn = recptr, next_lsn = 0, rec_header = ?hd, record_origin = 0, toplevel_xid = 0, main_data = [], main_data_len = 0, rec_blocks = []\<rparr>"
  let ?n = "length (enc_headers r) + length (enc_data r)"
  have ok: "blocks_ok None 0 (wr_blocks r)" "?n < 2 ^ 32" "tot_len r = 24 + ?n" "?n + 24 < 2 ^ 32" using assms by (auto simp: record_ok_def tot_len_def)
  have ptr: "drop SizeOfXLogRecord (enc_record r) = enc_headers r @ enc_data r" by (simp add: enc_record_def SizeOfXLogRecord_def)
  have rem: "(of_nat (tot_len r) :: u32) - of_nat SizeOfXLogRecord = of_nat ?n" using ok(3) by (simp add: SizeOfXLogRecord_def)
  obtain rl where h: "decode_headers (at_pos ?r0 None (enc_headers r @ enc_data r) ?n 0) =
      Inr (at_pos (?r0\<lparr>rec_blocks := placed False [] (wr_blocks r), record_origin := (case wr_origin r of None \<Rightarrow> 0 | Some v \<Rightarrow> v),
           toplevel_xid := (case wr_toplevel_xid r of None \<Rightarrow> 0 | Some v \<Rightarrow> v), main_data_len := of_nat (length (wr_main_data r))\<rparr>)
         rl (enc_data r) (length (enc_data r)) (length (enc_data r)))"
    using decode_enc_headers [OF ok(1,2), of ?r0 "enc_data r"] by auto
  have c: "copy_blocks (placed False [] (wr_blocks r)) (enc_data r) = Inr (placed True [] (wr_blocks r), wr_main_data r)"
    using copy_placed [of None "[]" "wr_blocks r" "enc_data r" "[]" "wr_main_data r"] ok(1) by (simp add: enc_data_def)
  have "length (wr_main_data r) < 2 ^ 32" using ok(2) by (simp add: enc_data_def)
  then have m: "unat (of_nat (length (wr_main_data r)) :: u32) = length (wr_main_data r)" by (simp add: unat_of_nat take_bit_nat_eq_self)
  have "\<not> 0 < (of_nat (length (wr_main_data r)) :: u32) \<Longrightarrow> wr_main_data r = []" using m by (metis length_0_conv unat_0 word_neq_0_conv)
  moreover have "copy_data (length (wr_main_data r)) (wr_main_data r) = Inr (wr_main_data r, [])" by (simp add: copy_data_def)
  ultimately show ?thesis
    unfolding DecodeXLogRecord_def Let_def dec_header_enc ptr XLogRecord.simps rem at_pos_def [symmetric]
    using h c m by (auto simp: at_pos_def decoded_record_def)
qed

definition demo_wal_block :: wal_block where
  "demo_wal_block = \<lparr>wb_id = 1, wb_flags = 0x20, wb_rlocator = \<lparr>spcOid = 1663, dbOid = 5, relNumber = 7\<rparr>, wb_blkno = 3, wb_image = None, wb_data = [9, 8, 7, 6, 5]\<rparr>"

definition demo_wal_record :: wal_record where
  "demo_wal_record = \<lparr>wr_xid = 700, wr_prev = 100, wr_info = 0, wr_rmid = 10, wr_crc = 0, wr_blocks = [demo_wal_block], wr_origin = None,
     wr_toplevel_xid = Some 5, wr_main_data = [1, 2, 3]\<rparr>"

lemma demo_block_ok: "block_ok rl 0 demo_wal_block"
  by (simp add: block_ok_def demo_wal_block_def block_id_consts BKPBLOCK_HAS_IMAGE_def BKPBLOCK_HAS_DATA_def BKPBLOCK_SAME_REL_def)

lemma demo_record_ok: "record_ok demo_wal_record"
  using demo_block_ok [of None]
  by (simp add: record_ok_def demo_wal_record_def tot_len_def enc_headers_def enc_data_def enc_block_header_def enc_opt_image_def enc_rel_def enc_origin_def
      enc_toplevel_xid_def enc_main_header_def enc_block_data_def image_bytes_def demo_wal_block_def BKPBLOCK_SAME_REL_def)

theorem decode_record_roundtrip_witness:
  "record_ok demo_wal_record \<and> (\<exists>d. DecodeXLogRecord (enc_record demo_wal_record) 200 = Inr d \<and> main_data d = [1, 2, 3] \<and> length (rec_blocks d) = 2 \<and>
     XLogRecGetBlockTagExtended d 1 = Some (\<lparr>spcOid = 1663, dbOid = 5, relNumber = 7\<rparr>, 0, 3) \<and> XLogRecGetBlockData d 1 = Some [9, 8, 7, 6, 5])"
  using decode_record_roundtrip [OF demo_record_ok, of 200] demo_record_ok
  by (simp add: decoded_record_def demo_wal_record_def demo_wal_block_def decoded_block_def unused_block_def XLogRecGetBlockTagExtended_def XLogRecHasBlockRef_def
      XLogRecGetBlockData_def BKPBLOCK_FORK_MASK_def)

section \<open>A length that wraps around\<close>

text \<open>A record with one block whose main data header claims four bytes less than nothing, and that ends four bytes early.\<close>

definition wrapping_record :: "bytes \<Rightarrow> wal_block \<Rightarrow> bytes" where
  "wrapping_record hdr b = hdr @ enc_block_header b @ [XLR_BLOCK_ID_DATA_LONG] @ le32 (- 4) @ take (length (enc_block_data b) - 4) (enc_block_data b)"

text \<open>
  C39. The lengths of the parts are added up with 32 bits: for every block with at least four bytes there is a record that passes all checks
  of lengths, although it is four bytes shorter than the data of its block and its main data claims \<open>2\<^sup>32 - 4\<close> bytes; the copy of the data
  then reads behind the end of the record.
\<close>

theorem decode_reads_behind_record:
  assumes "block_ok None 0 b" "4 \<le> length (enc_block_data b)" "length hdr = SizeOfXLogRecord" "length (wrapping_record hdr b) < 2 ^ 32"
    "xl_tot_len (dec_XLogRecord (wrapping_record hdr b)) = of_nat (length (wrapping_record hdr b))"
  shows "DecodeXLogRecord (wrapping_record hdr b) recptr = Inl (E_state ''read behind the end of the record'')"
proof -
  let ?buf = "wrapping_record hdr b" and ?B = "length (enc_block_header b)" and ?d = "length (enc_block_data b)"
  let ?r0 = "\<lparr>rec_lsn = recptr, next_lsn = 0, rec_header = dec_XLogRecord ?buf, record_origin = 0, toplevel_xid = 0, main_data = [], main_data_len = 0, rec_blocks = []\<rparr>"
  let ?bl = "replicate (unat (wb_id b)) unused_block @ [decoded_block False b]"
  let ?n = "?B + 5 + (?d - 4)" and ?rest = "[XLR_BLOCK_ID_DATA_LONG] @ le32 (- 4) @ take (?d - 4) (enc_block_data b)"
  have len: "length ?buf = 24 + ?n" using assms(3) by (simp add: wrapping_record_def SizeOfXLogRecord_def)
  then have n: "?n < 2 ^ 32" using assms(4) by simp
  have ptr: "drop SizeOfXLogRecord ?buf = enc_block_header b @ ?rest" using assms(3) by (simp add: wrapping_record_def)
  have rem: "xl_tot_len (dec_XLogRecord ?buf) - of_nat SizeOfXLogRecord = of_nat ?n" by (simp add: assms(5) len SizeOfXLogRecord_def)
  have 1: "decode_headers (at_pos ?r0 None (enc_block_header b @ ?rest) ?n 0) = decode_headers (at_pos (?r0\<lparr>rec_blocks := ?bl\<rparr>) (Some (wb_rlocator b)) ?rest (?n - ?B) ?d)"
    using headers_step [OF decode_block_fragment [of None ?r0 b ?n ?rest 0]] assms(1) n by simp
  have "decode_fragment (at_pos (?r0\<lparr>rec_blocks := ?bl\<rparr>) (Some (wb_rlocator b)) ?rest (?n - ?B) ?d) =
      Inr (True, \<lparr>dc_rec = ?r0\<lparr>rec_blocks := ?bl, main_data_len := - 4\<rparr>, dc_rlocator = Some (wb_rlocator b), dc_ptr = take (?d - 4) (enc_block_data b),
         dc_remaining = of_nat (?d - 4), dc_datatotal = of_nat ?d + - 4\<rparr>)"
    using n by (simp add: decode_fragment_def Let_def block_id_consts) (simp add: at_pos_def)
  from headers_step [OF this] have 2: "decode_headers (at_pos (?r0\<lparr>rec_blocks := ?bl\<rparr>) (Some (wb_rlocator b)) ?rest (?n - ?B) ?d) =
      Inr \<lparr>dc_rec = ?r0\<lparr>rec_blocks := ?bl, main_data_len := - 4\<rparr>, dc_rlocator = Some (wb_rlocator b), dc_ptr = take (?d - 4) (enc_block_data b),
         dc_remaining = of_nat (?d - 4), dc_datatotal = of_nat ?d + - 4\<rparr>"
    using n assms(2) by simp
  have eq: "(of_nat (?d - 4) :: u32) = of_nat ?d + - 4" using assms(2) by (simp add: of_nat_diff)
  have "copy_blocks ?bl (take (?d - 4) (enc_block_data b)) = Inl (E_state ''read behind the end of the record'')"
    using copy_block_short [OF assms(1,2)] by (simp add: copy_blocks_append copy_unused del: copy_blocks.simps)
  then show ?thesis
    unfolding DecodeXLogRecord_def Let_def ptr rem using trans [OF 1 2] by (simp add: at_pos_def eq del: of_nat_diff)
qed

definition demo_header :: bytes where
  "demo_header = le32 50 @ le32 700 @ le64 100 @ [0, 10, 0, 0] @ le32 0"

theorem decode_reads_behind_record_witness:
  "DecodeXLogRecord (wrapping_record demo_header demo_wal_block) 200 = Inl (E_state ''read behind the end of the record'')"
proof -
  have d: "enc_block_data demo_wal_block = [9, 8, 7, 6, 5]" by (simp add: enc_block_data_def image_bytes_def demo_wal_block_def)
  have h: "length (enc_block_header demo_wal_block) = 20"
    by (simp add: enc_block_header_def enc_opt_image_def enc_rel_def demo_wal_block_def BKPBLOCK_SAME_REL_def)
  have l: "length demo_header = 24" by (simp add: demo_header_def)
  have len: "length (wrapping_record demo_header demo_wal_block) = 50" by (simp add: wrapping_record_def d h l)
  have "xl_tot_len (dec_XLogRecord (wrapping_record demo_header demo_wal_block)) = 50"
    by (simp add: dec_XLogRecord_def wrapping_record_def demo_header_def)
  then show ?thesis using decode_reads_behind_record [OF demo_block_ok, of demo_header 200] d l len by (simp add: SizeOfXLogRecord_def)
qed

end
