(* ===== verification/Tde_Timeline.thy ===== *)
theory Tde_Timeline
  imports Tde_Libpq
begin

text \<open>
  Timelines and control files in \<open>pg_rewind\<close> (\<open>fetools/pg18/pg_rewind/timeline.c\<close>, \<open>pg_rewind.c\<close>): the parsing of history files, the point where the
  histories of two servers part, the checks of the control files, the backup label, and what is written into the new control file.

  The record \<open>control\<close> holds what PostgreSQL gives: the layout of the control file, its checksum, the names of WAL and history files and the clock.
\<close>

section \<open>Numbers in history files\<close>

definition is_xdigit :: "char \<Rightarrow> bool" where
  "is_xdigit c \<longleftrightarrow> is_digit c \<or> 65 \<le> (of_char c :: nat) \<and> (of_char c :: nat) \<le> 70 \<or> 97 \<le> (of_char c :: nat) \<and> (of_char c :: nat) \<le> 102"

definition xdigit_value :: "char \<Rightarrow> nat" where
  "xdigit_value c = (if is_digit c then of_char c - 48 else if (of_char c :: nat) \<le> 70 then of_char c - 55 else of_char c - 87)"

definition unxdigits :: "string \<Rightarrow> nat" where
  "unxdigits s = foldl (\<lambda>a c. 16 * a + xdigit_value c) 0 s"

text \<open>\<open>%X\<close> of \<open>sscanf\<close>: white space, a sign and the prefix \<open>0x\<close> are allowed; the value is that of \<open>strtoul\<close>, cut to 32 bits.\<close>

definition scan_X :: "string \<Rightarrow> (u32 \<times> string) option" where
  "scan_X s =
     (let t = dropWhile is_space s;
          neg = (t \<noteq> [] \<and> hd t = CHR ''-'');
          u = (if t \<noteq> [] \<and> (hd t = CHR ''-'' \<or> hd t = CHR ''+'') then tl t else t);
          u = (if take 2 u = ''0x'' \<or> take 2 u = ''0X'' then drop 2 u else u);
          ds = takeWhile is_xdigit u;
          v = unxdigits ds
      in if ds = [] then None
         else Some (if v \<ge> 2 ^ 64 then - 1 else if neg then - of_nat v else of_nat v, dropWhile is_xdigit u))"

text \<open>The fields that \<open>sscanf(fline, "%u\t%X/%X", ...)\<close> converts.\<close>

definition scan_history :: "string \<Rightarrow> u32 list" where
  "scan_history fline =
     (case scan_u fline of
        None \<Rightarrow> []
      | Some (t, r) \<Rightarrow>
          t # (case scan_X (dropWhile is_space r) of
                   None \<Rightarrow> []
                 | Some (hi, r) \<Rightarrow>
                     hi # (if r \<noteq> [] \<and> hd r = CHR ''/'' then (case scan_X (tl r) of None \<Rightarrow> [] | Some (lo, _) \<Rightarrow> [lo]) else [])))"

section \<open>History files\<close>

record TimeLineHistoryEntry =
  tlh_tli :: u32
  tlh_begin :: u64
  tlh_end :: u64

text \<open>The lines of the text; the last one ends at the end of the text.\<close>

fun history_lines :: "string \<Rightarrow> string list" where
  "history_lines [] = [[]]"
| "history_lines (c # s) =
     (if c = CHR 0x0A then [] # history_lines s
      else (case history_lines s of l # ls \<Rightarrow> (c # l) # ls | [] \<Rightarrow> [[c]]))"

fun parse_lines :: "string list \<Rightarrow> TimeLineHistoryEntry list \<Rightarrow> u32 \<Rightarrow> u64 \<Rightarrow> tde_error + (TimeLineHistoryEntry list \<times> u32 \<times> u64)" where
  "parse_lines [] entries lasttli prevend = Inr (entries, lasttli, prevend)"
| "parse_lines (fline # ls) entries lasttli prevend =
     (let ptr = dropWhile is_space fline in
      if ptr = [] \<or> hd ptr = CHR ''#'' then parse_lines ls entries lasttli prevend
      else
        (case scan_history fline of
           [] \<Rightarrow> Inl (E_state ''syntax error in history file: expected a numeric timeline ID'')
         | [t, switchpoint_hi, switchpoint_lo] \<Rightarrow>
             if entries \<noteq> [] \<and> t \<le> lasttli then Inl (E_state ''invalid data in history file: timeline IDs must be in increasing sequence'')
             else
               (let e = or (push_bit 32 (ucast switchpoint_hi)) (ucast switchpoint_lo) in
                parse_lines ls (entries @ [\<lparr>tlh_tli = t, tlh_begin = prevend, tlh_end = e\<rparr>]) t e)
         | _ \<Rightarrow> Inl (E_state ''syntax error in history file: expected a write-ahead log switchpoint location'')))"

text \<open>The text ends at the first zero byte.\<close>

definition rewind_parseTimeLineHistory :: "string \<Rightarrow> u32 \<Rightarrow> tde_error + TimeLineHistoryEntry list" where
  "rewind_parseTimeLineHistory buffer targetTLI =
     (case parse_lines (history_lines (takeWhile (\<lambda>c. c \<noteq> CHR 0x00) buffer)) [] 0 0 of
        Inl e \<Rightarrow> Inl e
      | Inr (entries, lasttli, prevend) \<Rightarrow>
          if entries \<noteq> [] \<and> targetTLI \<le> lasttli then Inl (E_state ''invalid data in history file: timeline IDs must be less than child timeline's ID'')
          else Inr (entries @ [\<lparr>tlh_tli = targetTLI, tlh_begin = prevend, tlh_end = 0\<rparr>]))"

section \<open>The common ancestor\<close>

definition MinXLogRecPtr :: "u64 \<Rightarrow> u64 \<Rightarrow> u64" where
  "MinXLogRecPtr a b = (if a = 0 then b else if b = 0 then a else min a b)"

fun common_entries :: "TimeLineHistoryEntry list \<Rightarrow> TimeLineHistoryEntry list \<Rightarrow> nat" where
  "common_entries (a # as) (b # bs) =
     (if tlh_tli a \<noteq> tlh_tli b \<or> tlh_begin a \<noteq> tlh_begin b then 0 else Suc (common_entries as bs))"
| "common_entries _ _ = 0"

definition findCommonAncestorTimeline :: "TimeLineHistoryEntry list \<Rightarrow> TimeLineHistoryEntry list \<Rightarrow> tde_error + (u64 \<times> nat)" where
  "findCommonAncestorTimeline a_history b_history =
     (let i = common_entries a_history b_history in
      if i > 0 then Inr (MinXLogRecPtr (tlh_end (a_history ! (i - 1))) (tlh_end (b_history ! (i - 1))), i - 1)
      else Inl (E_state ''could not find common ancestor of the source and target cluster's timelines''))"

section \<open>Control files\<close>

datatype ClusterState = SHUTDOWNED | SHUTDOWNED_IN_RECOVERY | IN_ARCHIVE_RECOVERY | IN_PRODUCTION | OTHER_STATE

record ControlFile =
  system_identifier :: u64
  pg_control_version :: u32
  catalog_version_no :: u32
  cluster_state :: ClusterState
  checkPoint :: u64
  checkPointCopy_redo :: u64
  checkPointCopy_ThisTimeLineID :: u32
  minRecoveryPoint :: u64
  minRecoveryPointTLI :: u32
  wal_log_hints :: bool
  checksum_version :: u32
  xlog_seg_size :: u32

record control =
  PG_CONTROL_FILE_SIZE :: nat
  sizeof_ControlFileData :: nat
  PG_CONTROL_VERSION :: u32
  CATALOG_VERSION_NO :: u32
  PG_DATA_CHECKSUM_VERSION :: u32
  decode_control :: "bytes \<Rightarrow> ControlFile"
  control_crc_ok :: "bytes \<Rightarrow> bool"
  update_controlfile :: "ControlFile \<Rightarrow> unit tdeM"
  XLogFileName :: "u32 \<Rightarrow> u64 \<Rightarrow> int \<Rightarrow> string"
  TLHistoryFilePath :: "u32 \<Rightarrow> string"
  strftime_now :: string

text \<open>A power of two between 1 MB and 1 GB.\<close>

definition IsValidWalSegSize :: "u32 \<Rightarrow> bool" where
  "IsValidWalSegSize sz \<longleftrightarrow> and sz (sz - 1) = 0 \<and> 2 ^ 20 \<le> sz \<and> sz \<le> 2 ^ 30"

definition digestControlFile :: "control \<Rightarrow> bytes \<Rightarrow> tde_error + ControlFile" where
  "digestControlFile ctl content =
     (if length content \<noteq> PG_CONTROL_FILE_SIZE ctl then Inl (E_state ''unexpected control file size'')
      else
        (let cf = decode_control ctl content in
         if \<not> IsValidWalSegSize (xlog_seg_size cf) then Inl (E_state ''invalid WAL segment size in control file'')
         else if \<not> control_crc_ok ctl content then Inl (E_state ''unexpected control file CRC'')
         else Inr cf))"

definition shut_down :: "ControlFile \<Rightarrow> bool" where
  "shut_down cf \<longleftrightarrow> cluster_state cf = SHUTDOWNED \<or> cluster_state cf = SHUTDOWNED_IN_RECOVERY"

text \<open>\<open>local\<close>: the source is a data directory and not a server.\<close>

definition sanityChecks :: "control \<Rightarrow> bool \<Rightarrow> ControlFile \<Rightarrow> ControlFile \<Rightarrow> tde_error + unit" where
  "sanityChecks ctl local target source =
     (if system_identifier target \<noteq> system_identifier source then Inl (E_state ''source and target clusters are from different systems'')
      else if pg_control_version target \<noteq> PG_CONTROL_VERSION ctl \<or> pg_control_version source \<noteq> PG_CONTROL_VERSION ctl \<or>
              catalog_version_no target \<noteq> CATALOG_VERSION_NO ctl \<or> catalog_version_no source \<noteq> CATALOG_VERSION_NO ctl
      then Inl (E_state ''clusters are not compatible with this version of pg_rewind'')
      else if checksum_version target \<noteq> PG_DATA_CHECKSUM_VERSION ctl \<and> \<not> wal_log_hints target
      then Inl (E_state ''target server needs to use either data checksums or wal_log_hints'')
      else if \<not> shut_down target then Inl (E_state ''target server must be shut down cleanly'')
      else if local \<and> \<not> shut_down source then Inl (E_state ''source data directory must be shut down cleanly'')
      else Inr ())"

section \<open>The backup label\<close>

text \<open>\<open>%X\<close> of \<open>printf\<close>.\<close>

fun xdigits :: "nat \<Rightarrow> string" where
  "xdigits n = (if n < 16 then [hex_digit n] else xdigits (n div 16) @ [hex_digit n])"

declare xdigits.simps [simp del]

definition lsn_string :: "u64 \<Rightarrow> string" where
  "lsn_string p = xdigits (unat (drop_bit 32 p)) @ ''/'' @ xdigits (unat (ucast p :: u32))"

definition backup_label :: "control \<Rightarrow> int \<Rightarrow> u64 \<Rightarrow> u32 \<Rightarrow> u64 \<Rightarrow> string" where
  "backup_label ctl segsz startpoint starttli checkpointloc =
     ''START WAL LOCATION: '' @ lsn_string startpoint @ '' (file '' @ XLogFileName ctl starttli (startpoint div word_of_int segsz) segsz @ '')'' @ [CHR 0x0A] @
     ''CHECKPOINT LOCATION: '' @ lsn_string checkpointloc @ [CHR 0x0A] @
     ''BACKUP METHOD: pg_rewind'' @ [CHR 0x0A] @
     ''BACKUP FROM: standby'' @ [CHR 0x0A] @
     ''START TIME: '' @ strftime_now ctl @ [CHR 0x0A]"

definition createBackupLabel :: "control \<Rightarrow> rewind \<Rightarrow> u64 \<Rightarrow> u32 \<Rightarrow> u64 \<Rightarrow> rewind_state \<Rightarrow> rewind_state tdeM" where
  "createBackupLabel ctl rw startpoint starttli checkpointloc st =
     (let buf = backup_label ctl (WalSegSz rw) startpoint starttli checkpointloc in
      seqM (check (\<not> length buf \<ge> 1000) (E_state ''backup label buffer too small''))
      (bindM (open_target_file rw ''backup_label'' True st) (\<lambda>st.
       seqM (write_target_range rw st (map of_char buf) 0) (ret (close_target_file st)))))"

section \<open>The end of the rewind\<close>

text \<open>
  The part of \<open>perform_rewind\<close> behind the file map. \<open>after\<close> is the control file of the source at the end; \<open>insert_lsn\<close> is the current end of WAL of
  a source server, \<open>None\<close> for a local source.
\<close>

definition rewind_end :: "u64 option \<Rightarrow> ControlFile \<Rightarrow> tde_error + (u64 \<times> u32)" where
  "rewind_end insert_lsn after =
     (case insert_lsn of
        Some l \<Rightarrow>
          if cluster_state after = IN_ARCHIVE_RECOVERY then Inr (minRecoveryPoint after, minRecoveryPointTLI after)
          else if cluster_state after \<noteq> IN_PRODUCTION then Inl (E_state ''source system was in unexpected state at end of rewind'')
          else Inr (l, max (checkPointCopy_ThisTimeLineID after) (minRecoveryPointTLI after))
      | None \<Rightarrow> Inr (checkPoint after, checkPointCopy_ThisTimeLineID after))"

definition finish_rewind ::
  "control \<Rightarrow> rewind \<Rightarrow> (string \<Rightarrow> bytes tdeM) \<Rightarrow> u64 option \<Rightarrow> ControlFile \<Rightarrow> bytes \<Rightarrow> u64 \<Rightarrow> u32 \<Rightarrow> u64 \<Rightarrow> rewind_state \<Rightarrow> rewind_state tdeM" where
  "finish_rewind ctl rw fetch_file insert_lsn source source_content chkptrec chkpttli chkptredo st =
     bindM (fetch_file (XLOG_CONTROL_FILE (rw_pg rw))) (\<lambda>buffer.
     bindM (liftM (digestControlFile ctl buffer)) (\<lambda>after.
     seqM (check (\<not> (insert_lsn = None \<and> take (sizeof_ControlFileData ctl) buffer \<noteq> take (sizeof_ControlFileData ctl) source_content)) (E_state ''source system was modified while pg_rewind was running''))
     (let (redo, t, loc) =
            (if checkPointCopy_redo source < chkptredo then (checkPointCopy_redo source, checkPointCopy_ThisTimeLineID source, checkPoint source)
             else (chkptredo, chkpttli, chkptrec)) in
      bindM (createBackupLabel ctl rw redo t loc st) (\<lambda>st.
      bindM (liftM (rewind_end insert_lsn after)) (\<lambda>(endrec, endtli).
      seqM (whenM (\<not> dry_run rw)
              (update_controlfile ctl (after\<lparr>minRecoveryPoint := endrec, minRecoveryPointTLI := endtli, cluster_state := IN_ARCHIVE_RECOVERY\<rparr>)))
      (ret st))))))"

section \<open>Getting the histories\<close>

definition getTimelineHistory :: "control \<Rightarrow> (string \<Rightarrow> bytes tdeM) \<Rightarrow> u32 \<Rightarrow> TimeLineHistoryEntry list tdeM" where
  "getTimelineHistory ctl fetch t =
     (if t = 1 then ret [\<lparr>tlh_tli = t, tlh_begin = 0, tlh_end = 0\<rparr>]
      else
        bindM (fetch (TLHistoryFilePath ctl t)) (\<lambda>histfile.
        liftM (rewind_parseTimeLineHistory (map (\<lambda>b. char_of (unat b)) histfile) t)))"

definition cluster_tli :: "ControlFile \<Rightarrow> u32" where
  "cluster_tli cf = max (minRecoveryPointTLI cf) (checkPointCopy_ThisTimeLineID cf)"

end
