(* ===== verification/Tde_Timeline_Ops.thy ===== *)
theory Tde_Timeline_Ops
  imports Tde_Timeline Tde_Filemap_Ops
begin

text \<open>
  What the timelines of \<open>pg_rewind\<close> come to: a history file is read back as it was written, and the histories of two servers are found to part
  where they do.
\<close>

section \<open>Hexadecimal numbers\<close>

lemma hex_digit_cases: "n < 16 \<Longrightarrow> hex_digit n \<in> set ''0123456789ABCDEF''"
  unfolding hex_digit_def by (intro nth_mem) simp

lemma hex_digit_lt: "hex_digit n = hex_digit (n mod 16)"
  by (simp add: hex_digit_def)

lemma xdigit_hex_all: "list_all (\<lambda>n. is_xdigit (hex_digit n) \<and> xdigit_value (hex_digit n) = n \<and> \<not> is_space (hex_digit n)) [0..<16]"
  by code_simp

lemma xdigit_hex: "is_xdigit (hex_digit n)" "xdigit_value (hex_digit n) = n mod 16" "\<not> is_space (hex_digit n)"
proof -
  have "n mod 16 \<in> set [0..<16]" by simp
  then have "is_xdigit (hex_digit (n mod 16)) \<and> xdigit_value (hex_digit (n mod 16)) = n mod 16 \<and> \<not> is_space (hex_digit (n mod 16))"
    using xdigit_hex_all unfolding list_all_iff by blast
  then show "is_xdigit (hex_digit n)" "xdigit_value (hex_digit n) = n mod 16" "\<not> is_space (hex_digit n)"
    using hex_digit_lt [of n] by simp_all
qed

lemma xdigits_all: "c \<in> set (xdigits n) \<Longrightarrow> is_xdigit c"
proof (induction n rule: xdigits.induct)
  case (1 n)
  then show ?case by (subst (asm) (2) xdigits.simps) (auto simp: xdigit_hex split: if_splits)
qed

lemma xdigits_not_Nil [simp]: "xdigits n \<noteq> []"
  by (subst xdigits.simps) simp

lemma unxdigits_xdigits [simp]: "unxdigits (xdigits n) = n"
proof (induction n rule: xdigits.induct)
  case (1 n)
  show ?case
  proof (cases "n < 16")
    case True
    then show ?thesis by (subst xdigits.simps) (simp add: unxdigits_def xdigit_hex)
  next
    case False
    then have "unxdigits (xdigits n) = 16 * unxdigits (xdigits (n div 16)) + n mod 16"
      by (subst xdigits.simps) (simp add: unxdigits_def xdigit_hex)
    with False 1 show ?thesis by simp
  qed
qed

definition no_xdigit_first :: "string \<Rightarrow> bool" where
  "no_xdigit_first r \<longleftrightarrow> r = [] \<or> \<not> is_xdigit (hd r) \<and> hd r \<noteq> CHR ''x'' \<and> hd r \<noteq> CHR ''X''"

lemma scan_xdigits:
  assumes "no_xdigit_first r"
  shows "scan_X (xdigits (unat (v :: u32)) @ r) = Some (v, r)"
proof -
  let ?n = "unat v"
  obtain c cs where ds: "xdigits ?n = c # cs" by (meson xdigits_not_Nil neq_Nil_conv)
  then have c: "is_xdigit c" using xdigits_all [of c ?n] by simp
  then have hd: "\<not> is_space c" "c \<noteq> CHR ''-''" "c \<noteq> CHR ''+''" by (auto simp: is_xdigit_def is_digit_def is_space_def)
  have x: "\<not> is_xdigit CHR ''x''" "\<not> is_xdigit CHR ''X''" by (simp_all add: is_xdigit_def is_digit_def)
  have "hd (cs @ r) \<noteq> CHR ''x'' \<and> hd (cs @ r) \<noteq> CHR ''X''" if "cs @ r \<noteq> []"
    using that assms ds xdigits_all [of "hd cs" ?n] x by (cases cs) (auto simp: no_xdigit_first_def)
  then have t2: "take 2 (xdigits ?n @ r) \<noteq> ''0x''" "take 2 (xdigits ?n @ r) \<noteq> ''0X''" unfolding ds by (cases "cs @ r"; simp add: numeral_2_eq_2)+
  have sign: "dropWhile is_space (xdigits ?n @ r) = xdigits ?n @ r" "hd (xdigits ?n @ r) \<noteq> CHR ''-''" "hd (xdigits ?n @ r) \<noteq> CHR ''+''"
    using ds hd by simp_all
  have tw: "takeWhile is_xdigit (xdigits ?n @ r) = xdigits ?n" "dropWhile is_xdigit (xdigits ?n @ r) = r"
    using xdigits_all assms by (cases r; simp add: no_xdigit_first_def)+
  have n: "?n < 2 ^ 64" using unsigned_less [of v, where ?'a = nat] by simp
  show ?thesis unfolding scan_X_def Let_def sign(1) using sign(2,3) t2 tw n by simp
qed

section \<open>History files\<close>

definition history_line :: "(u32 \<times> u64) \<times> string \<Rightarrow> string" where
  "history_line e = (case e of ((t, switchpoint), reason) \<Rightarrow> digits (unat t) @ [CHR 0x09] @ lsn_string switchpoint @ [CHR 0x09] @ reason)"

definition history_file :: "((u32 \<times> u64) \<times> string) list \<Rightarrow> string" where
  "history_file es = concat (map (\<lambda>e. history_line e @ [CHR 0x0A]) es)"

fun history_entries :: "u64 \<Rightarrow> (u32 \<times> u64) list \<Rightarrow> u32 \<Rightarrow> TimeLineHistoryEntry list" where
  "history_entries prevend [] targetTLI = [\<lparr>tlh_tli = targetTLI, tlh_begin = prevend, tlh_end = 0\<rparr>]"
| "history_entries prevend ((t, switchpoint) # es) targetTLI = \<lparr>tlh_tli = t, tlh_begin = prevend, tlh_end = switchpoint\<rparr> # history_entries switchpoint es targetTLI"

lemma lsn_halves: "or (push_bit 32 (ucast (ucast (drop_bit 32 e) :: u32))) (ucast (ucast e :: u32)) = (e :: u64)"
  by (rule bit_word_eqI) (auto simp: bit_simps)

lemma unat_high: "unat (drop_bit 32 e) = unat (ucast (drop_bit 32 e) :: u32)" for e :: u64
proof -
  have "unat (drop_bit 32 e) < 2 ^ 32"
    using unsigned_less [of e, where ?'a = nat] by (simp add: unat_drop_bit_eq drop_bit_eq_div unat_div_distrib less_mult_imp_div_less)
  then show ?thesis by (simp add: unsigned_ucast_eq take_bit_nat_eq_self)
qed

lemma scan_history_line: "scan_history (history_line ((t, e), reason)) = [t, ucast (drop_bit 32 e), ucast e]"
proof -
  have nf: "no_digit_first (CHR 0x09 # s)" "no_xdigit_first (CHR ''/'' # s)" "no_xdigit_first (CHR 0x09 # s)" for s
    by (simp_all add: no_digit_first_def no_xdigit_first_def is_xdigit_def is_digit_def)
  obtain c cs where ds: "xdigits (unat (drop_bit 32 e)) = c # cs" by (meson xdigits_not_Nil neq_Nil_conv)
  then have "is_xdigit c" using xdigits_all [of c] by (metis list.set_intros(1))
  then have "\<not> is_space c" by (auto simp: is_xdigit_def is_digit_def is_space_def)
  then have dw: "dropWhile is_space (CHR 0x09 # lsn_string e @ r) = lsn_string e @ r" for r by (simp add: lsn_string_def ds is_space_def [of "CHR 0x09"])
  have hi: "scan_X (lsn_string e @ r) = Some (ucast (drop_bit 32 e), CHR ''/'' # xdigits (unat (ucast e :: u32)) @ r)" for r
    using scan_xdigits [OF nf(2), of "ucast (drop_bit 32 e)"] by (simp add: lsn_string_def unat_high)
  have lo: "scan_X (xdigits (unat (ucast e :: u32)) @ CHR 0x09 # r) = Some (ucast e, CHR 0x09 # r)" for r using scan_xdigits [OF nf(3)] .
  have "scan_u (history_line ((t, e), reason)) = Some (t, CHR 0x09 # lsn_string e @ CHR 0x09 # reason)"
    using scan_digits [OF nf(1)] by (simp add: history_line_def)
  then show ?thesis using hi lo dw by (simp add: scan_history_def)
qed

lemma history_lines_line: "CHR 0x0A \<notin> set l \<Longrightarrow> history_lines (l @ CHR 0x0A # s) = l # history_lines s"
  by (induction l) auto

lemma history_lines_file: "\<forall>e\<in>set es. CHR 0x0A \<notin> set (history_line e) \<Longrightarrow> history_lines (history_file es) = map history_line es @ [[]]"
  by (induction es) (simp_all add: history_file_def history_lines_line)

lemma line_chars:
  assumes "c \<in> set (history_line ((t, e), reason))" "c \<noteq> CHR 0x09" "c \<noteq> CHR ''/''"
  shows "is_xdigit c \<or> c \<in> set reason"
  using assms digits_all [of c "unat t"] xdigits_all by (auto simp: history_line_def lsn_string_def is_xdigit_def)

lemma line_not_comment: "dropWhile is_space (history_line ((t, e), reason)) \<noteq> []" "hd (dropWhile is_space (history_line ((t, e), reason))) \<noteq> CHR ''#''"
proof -
  obtain c cs where ds: "digits (unat t) = c # cs" by (meson digits_not_Nil neq_Nil_conv)
  then have "is_digit c" using hd_digits [of "unat t"] by simp
  then have "\<not> is_space c" "c \<noteq> CHR ''#''" by (auto simp: is_digit_def is_space_def)
  then show "dropWhile is_space (history_line ((t, e), reason)) \<noteq> []" "hd (dropWhile is_space (history_line ((t, e), reason))) \<noteq> CHR ''#''"
    by (simp_all add: history_line_def ds)
qed

lemma parse_history:
  assumes "sorted_wrt (<) (map (fst \<circ> fst) es)" "entries \<noteq> [] \<longrightarrow> (\<forall>e\<in>set es. lasttli < fst (fst e))"
  shows "parse_lines (map history_line es @ [[]]) entries lasttli prevend =
    Inr (entries @ butlast (history_entries prevend (map fst es) 0), if es = [] then lasttli else fst (fst (last es)), if es = [] then prevend else snd (fst (last es)))"
  using assms
proof (induction es arbitrary: entries lasttli prevend)
  case (Cons x es)
  obtain t e reason where x: "x = ((t, e), reason)" by (metis prod.collapse)
  have e: "or (push_bit 32 (ucast (ucast (drop_bit 32 e) :: u32))) (ucast (ucast e :: u32)) = e" by (rule lsn_halves)
  have "\<not> (entries \<noteq> [] \<and> t \<le> lasttli)" using Cons.prems(2) x by auto
  then have "parse_lines (map history_line (x # es) @ [[]]) entries lasttli prevend =
      parse_lines (map history_line es @ [[]]) (entries @ [\<lparr>tlh_tli = t, tlh_begin = prevend, tlh_end = e\<rparr>]) t e"
    using line_not_comment [of t e reason] by (auto simp: x Let_def scan_history_line e simp del: dropWhile_eq_Nil_conv)
  also have "\<dots> = Inr ((entries @ [\<lparr>tlh_tli = t, tlh_begin = prevend, tlh_end = e\<rparr>]) @ butlast (history_entries e (map fst es) 0),
      if es = [] then t else fst (fst (last es)), if es = [] then e else snd (fst (last es)))"
    using Cons.prems(1) x by (intro Cons.IH) (auto simp: comp_def)
  finally show ?case using x by (cases es) (auto split: prod.splits)
qed simp

definition history_ok :: "((u32 \<times> u64) \<times> string) list \<Rightarrow> u32 \<Rightarrow> bool" where
  "history_ok es targetTLI \<longleftrightarrow> sorted_wrt (<) (map (fst \<circ> fst) es) \<and> (\<forall>e\<in>set es. fst (fst e) < targetTLI) \<and>
     (\<forall>e\<in>set es. CHR 0x0A \<notin> set (snd e) \<and> CHR 0x00 \<notin> set (snd e))"

lemma history_tip:
  "butlast (history_entries p es 0) @ [\<lparr>tlh_tli = targetTLI, tlh_begin = (if es = [] then p else snd (last es)), tlh_end = 0\<rparr>] = history_entries p es targetTLI"
proof (induction es arbitrary: p)
  case (Cons x es)
  have "history_entries q es 0 \<noteq> []" for q by (cases es) (auto split: prod.splits)
  with Cons show ?case by (cases x) auto
qed simp

text \<open>
  A history file whose lines give a timeline, the location where the next one branched off and any reason, with growing timelines, is read back:
  each timeline from where its parent ended to its own end, and the timeline of the file itself at the tip.
\<close>

lemma history_roundtrip:
  assumes "history_ok es targetTLI"
  shows "rewind_parseTimeLineHistory (history_file es) targetTLI = Inr (history_entries 0 (map fst es) targetTLI)"
proof -
  have ok: "sorted_wrt (<) (map (fst \<circ> fst) es)" "\<forall>e\<in>set es. fst (fst e) < targetTLI" using assms by (simp_all add: history_ok_def)
  have lines: "CHR 0x0A \<notin> set (history_line e)" "CHR 0x00 \<notin> set (history_line e)" if "e \<in> set es" for e
  proof -
    have "e = ((fst (fst e), snd (fst e)), snd e)" by simp
    moreover have "\<not> is_xdigit CHR 0x0A" "\<not> is_xdigit CHR 0x00" by (simp_all add: is_xdigit_def is_digit_def)
    ultimately show "CHR 0x0A \<notin> set (history_line e)" "CHR 0x00 \<notin> set (history_line e)"
      using line_chars [of _ "fst (fst e)" "snd (fst e)" "snd e"] assms that unfolding history_ok_def by force+
  qed
  have "CHR 0x00 \<notin> set (history_file es)" using lines(2) by (auto simp: history_file_def)
  then have tw: "takeWhile (\<lambda>c. c \<noteq> CHR 0x00) (history_file es) = history_file es" by (auto simp: takeWhile_eq_all_conv)
  have "history_lines (history_file es) = map history_line es @ [[]]" using lines(1) by (intro history_lines_file) blast
  then have p: "parse_lines (history_lines (history_file es)) [] 0 0 =
      Inr (butlast (history_entries 0 (map fst es) 0), if es = [] then 0 else fst (fst (last es)), if es = [] then 0 else snd (fst (last es)))"
    using parse_history [OF ok(1), of "[]" 0 0] by simp
  have "\<not> (butlast (history_entries 0 (map fst es) 0) \<noteq> [] \<and> targetTLI \<le> (if es = [] then 0 else fst (fst (last es))))"
    using ok(2) last_in_set [of es] by (cases es) (auto simp: leD)
  moreover have "(if es = [] then 0 else snd (fst (last es))) = (if map fst es = [] then 0 else snd (last (map fst es)))" by (simp add: last_map)
  ultimately show ?thesis using history_tip [of 0 "map fst es" targetTLI] by (auto simp: rewind_parseTimeLineHistory_def tw p)
qed

lemma history_roundtrip_witness:
  "rewind_parseTimeLineHistory (history_file [((1, 0x5000148), ''no recovery target specified''), ((2, 0x100000028), ''x'')]) 5 =
     Inr [\<lparr>tlh_tli = 1, tlh_begin = 0, tlh_end = 0x5000148\<rparr>, \<lparr>tlh_tli = 2, tlh_begin = 0x5000148, tlh_end = 0x100000028\<rparr>,
          \<lparr>tlh_tli = 5, tlh_begin = 0x100000028, tlh_end = 0\<rparr>]"
  by (subst history_roundtrip) (simp_all add: history_ok_def)

section \<open>Where histories part\<close>

abbreviation same_entry :: "TimeLineHistoryEntry list \<Rightarrow> TimeLineHistoryEntry list \<Rightarrow> nat \<Rightarrow> bool" where
  "same_entry a b j \<equiv> tlh_tli (a ! j) = tlh_tli (b ! j) \<and> tlh_begin (a ! j) = tlh_begin (b ! j)"

lemma common_entries_spec:
  "common_entries a b \<le> length a \<and> common_entries a b \<le> length b \<and> (\<forall>j<common_entries a b. same_entry a b j) \<and>
   (common_entries a b < length a \<and> common_entries a b < length b \<longrightarrow> \<not> same_entry a b (common_entries a b))"
proof (induction a b rule: common_entries.induct)
  case (1 a as b bs)
  then show ?case by (auto simp: less_Suc_eq_0_disj)
qed auto

text \<open>The last timeline that both histories have with the same start, and the earlier one of its two ends.\<close>

lemma common_ancestor_exact:
  "findCommonAncestorTimeline a b = Inr (p, i) \<longleftrightarrow>
     i < length a \<and> i < length b \<and> (\<forall>j\<le>i. same_entry a b j) \<and> (Suc i < length a \<and> Suc i < length b \<longrightarrow> \<not> same_entry a b (Suc i)) \<and>
     p = MinXLogRecPtr (tlh_end (a ! i)) (tlh_end (b ! i))" (is "?l \<longleftrightarrow> ?r")
proof
  assume ?l
  then have c: "common_entries a b = Suc i" "p = MinXLogRecPtr (tlh_end (a ! i)) (tlh_end (b ! i))"
    by (auto simp: findCommonAncestorTimeline_def Let_def split: if_splits)
  then show ?r using common_entries_spec [of a b] unfolding c(1) by (simp add: less_Suc_eq_le Suc_le_eq)
next
  assume r: ?r
  have "common_entries a b = Suc i"
  proof (rule ccontr)
    assume n: "common_entries a b \<noteq> Suc i"
    then consider "common_entries a b \<le> i" | "Suc i < common_entries a b" by linarith
    then show False
    proof cases
      case 1
      then show False using r common_entries_spec [of a b] by auto
    next
      case 2
      then show False using r common_entries_spec [of a b] by (metis less_le_trans)
    qed
  qed
  then show ?l using r by (simp add: findCommonAncestorTimeline_def)
qed

end
