(* ===== verification/Tde_Parsexlog.thy ===== *)
theory Tde_Parsexlog
  imports Tde_Timeline Tde_Decode
begin

text \<open>
  The reading of the WAL of the target in \<open>pg_rewind\<close> (\<open>fetools/pg18/pg_rewind/parsexlog.c\<close>) and the program around it (\<open>main\<close> of
  \<open>pg_rewind.c\<close>): the callback that reads and decrypts a page of WAL from the segment of the right timeline, the search for the last common
  checkpoint, the collection of the blocks that records changed, and the order of the steps.

  \<open>XLogReadRecord\<close> is a parameter: it gets the callback, the position to read from, the start of the record before (zero when the position was
  set by \<open>XLogBeginRead\<close>), and gives the decoded record, or nothing when there is none. Fatal errors end the program.
\<close>

section \<open>Reading a page\<close>

record page_state =
  xlogread :: "string option"
  xlogreadsegno :: u64
  ps_tliIndex :: nat
  ws_tli :: u32
  ws_segno :: u64
  ps_rewind :: rewind_state

record walread =
  XLogReadRecord :: "(u64 \<Rightarrow> page_state \<Rightarrow> (bytes option \<times> page_state) tdeM) \<Rightarrow> u64 \<Rightarrow> u64 \<Rightarrow> page_state \<Rightarrow> (DecodedXLogRecord option \<times> page_state) tdeM"
  RestoreArchivedFile :: "string \<Rightarrow> string \<Rightarrow> world \<Rightarrow> bool \<times> world"
  restoreCommand :: bool

function tli_forward :: "TimeLineHistoryEntry list \<Rightarrow> u64 \<Rightarrow> nat \<Rightarrow> nat" where
  "tli_forward h seg_end i = (if i < length h - 1 \<and> tlh_end (h ! i) < seg_end then tli_forward h seg_end (Suc i) else i)"
  by pat_completeness auto
termination by (relation "measure (\<lambda>(h, e, i). length h - i)") auto

declare tli_forward.simps [simp del]

fun tli_back :: "TimeLineHistoryEntry list \<Rightarrow> u64 \<Rightarrow> nat \<Rightarrow> nat" where
  "tli_back h seg_end 0 = 0"
| "tli_back h seg_end (Suc i) = (if tlh_begin (h ! Suc i) \<ge> seg_end then tli_back h seg_end i else Suc i)"

text \<open>Opens the segment \<open>xlogreadsegno\<close> of the timeline that holds it, from the archive if need be; the result tells whether it is open.\<close>

definition open_segment :: "control \<Rightarrow> rewind \<Rightarrow> walread \<Rightarrow> TimeLineHistoryEntry list \<Rightarrow> u64 \<Rightarrow> page_state \<Rightarrow> (bool \<times> page_state) tdeM" where
  "open_segment ctl rw rd targetHistory targetSegEnd ps =
     (let i = tli_back targetHistory targetSegEnd (tli_forward targetHistory targetSegEnd (ps_tliIndex ps));
          ps = ps\<lparr>ps_tliIndex := i\<rparr>;
          xlogfname = XLogFileName ctl (tlh_tli (targetHistory ! i)) (xlogreadsegno ps) (WalSegSz rw);
          xlogfpath = path_in (path_in (datadir_target rw) ''pg_wal'') xlogfname in
      bindM (getM (\<lambda>w. disk w xlogfpath)) (\<lambda>f.
      if f \<noteq> None \<and> \<not> open_fails rw xlogfpath then ret (True, ps\<lparr>xlogread := Some xlogfpath\<rparr>)
      else if \<not> restoreCommand rd then ret (False, ps)
      else
        bindM (\<lambda>w. case RestoreArchivedFile rd (datadir_target rw) xlogfname w of (ok, w') \<Rightarrow> (Inr ok, w')) (\<lambda>ok.
        if \<not> ok then ret (False, ps)
        else ret (True, ps\<lparr>xlogread := Some xlogfpath, ps_rewind := archive_wal_segments_add_entry (path_in ''pg_wal'' xlogfname) (ps_rewind ps)\<rparr>))))"

definition SimpleXLogPageRead ::
  "env \<Rightarrow> control \<Rightarrow> rewind \<Rightarrow> walread \<Rightarrow> TimeLineHistoryEntry list \<Rightarrow> u64 \<Rightarrow> page_state \<Rightarrow> (bytes option \<times> page_state) tdeM" where
  "SimpleXLogPageRead ev ctl rw rd targetHistory targetPagePtr ps =
     (let sz = word_of_int (WalSegSz rw);
          targetSegNo = targetPagePtr div sz;
          targetSegEnd = (targetSegNo + 1) * sz;
          targetPageOff = targetPagePtr mod sz;
          ps = (if xlogread ps \<noteq> None \<and> targetSegNo \<noteq> xlogreadsegno ps then ps\<lparr>xlogread := None\<rparr> else ps)\<lparr>xlogreadsegno := targetSegNo\<rparr> in
      bindM (if xlogread ps = None then open_segment ctl rw rd targetHistory targetSegEnd ps else ret (True, ps)) (\<lambda>(ok, ps).
      if \<not> ok then ret (None, ps)
      else
        (let t = tlh_tli (targetHistory ! ps_tliIndex ps) in
         bindM (tdeheap_xlog_seg_read (target_env ev rw) (the (xlogread ps)) (garbage ev BLCK) targetPageOff t (xlogreadsegno ps) sz) (\<lambda>(r, readBuf).
         if r \<noteq> int BLCK then ret (None, ps)
         else ret (Some readBuf, ps\<lparr>ws_tli := t\<rparr>)))))"

section \<open>What a record changes\<close>

definition RM_XLOG_ID :: byte where "RM_XLOG_ID = 0"
definition RM_XACT_ID :: byte where "RM_XACT_ID = 1"
definition RM_SMGR_ID :: byte where "RM_SMGR_ID = 2"
definition RM_DBASE_ID :: byte where "RM_DBASE_ID = 4"

text \<open>Records that change files in a way the tool knows: new and dropped databases, files made and truncated, ends of transactions.\<close>

definition recognised_record :: "byte \<Rightarrow> byte \<Rightarrow> bool" where
  "recognised_record rmid rminfo \<longleftrightarrow>
     rmid = RM_DBASE_ID \<and> (rminfo = 0x00 \<or> rminfo = 0x10 \<or> rminfo = 0x20) \<or>
     rmid = RM_SMGR_ID \<and> (rminfo = 0x10 \<or> rminfo = 0x20) \<or>
     rmid = RM_XACT_ID \<and> and rminfo 0x70 \<in> {0x00, 0x30, 0x20, 0x40}"

fun block_changes :: "pg \<Rightarrow> (RelFileLocator \<times> byte \<times> u32) option list \<Rightarrow> filehash \<Rightarrow> tde_error + filehash" where
  "block_changes pg [] h = Inr h"
| "block_changes pg (b # bs) h =
     (case b of
        None \<Rightarrow> block_changes pg bs h
      | Some (rl, forknum, blkno) \<Rightarrow>
          if forknum \<noteq> 0 then block_changes pg bs h
          else bindS (process_target_wal_block_change pg h MAIN_FORKNUM rl blkno) (block_changes pg bs))"

definition extractPageInfo :: "pg \<Rightarrow> DecodedXLogRecord \<Rightarrow> filehash \<Rightarrow> tde_error + filehash" where
  "extractPageInfo pg r h =
     (let rmid = xl_rmid (rec_header r); info = xl_info (rec_header r); rminfo = and info (not XLR_INFO_MASK) in
      if \<not> recognised_record rmid rminfo \<and> bit info 0
      then Inl (E_state ''WAL record modifies a relation, but record type is not recognized'')
      else block_changes pg (map (XLogRecGetBlockTagExtended r) [0..<length (rec_blocks r)]) h)"

section \<open>The loops over the records\<close>

text \<open>At the end the open segment is closed.\<close>

definition close_wal :: "page_state \<Rightarrow> page_state" where
  "close_wal ps = ps\<lparr>xlogread := None\<rparr>"

text \<open>Every record ends behind its start, so that the distance to the end bounds the number of turns.\<close>

fun extract_loop ::
  "nat \<Rightarrow> env \<Rightarrow> control \<Rightarrow> rewind \<Rightarrow> walread \<Rightarrow> TimeLineHistoryEntry list \<Rightarrow> u64 \<Rightarrow> u64 \<Rightarrow> u64 \<Rightarrow> filehash \<Rightarrow> page_state \<Rightarrow> (filehash \<times> page_state) tdeM" where
  "extract_loop 0 ev ctl rw rd th next prev endpoint h ps = throw (E_state ''out of fuel'')"
| "extract_loop (Suc fuel) ev ctl rw rd th next prev endpoint h ps =
     bindM (XLogReadRecord rd (SimpleXLogPageRead ev ctl rw rd th) next prev ps) (\<lambda>(r, ps).
     case r of
       None \<Rightarrow> throw (E_state ''could not read WAL record'')
     | Some r \<Rightarrow>
         bindM (liftM (extractPageInfo (rw_pg rw) r h)) (\<lambda>h.
         if next_lsn r < endpoint then extract_loop fuel ev ctl rw rd th (next_lsn r) (rec_lsn r) endpoint h ps
         else if next_lsn r \<noteq> endpoint then throw (E_state ''end pointer is not a valid end point'')
         else ret (h, close_wal ps)))"

definition new_page_state :: "nat \<Rightarrow> rewind_state \<Rightarrow> page_state" where
  "new_page_state tliIndex st = \<lparr>xlogread = None, xlogreadsegno = 0, ps_tliIndex = tliIndex, ws_tli = 0, ws_segno = 0, ps_rewind = st\<rparr>"

definition extractPageMap ::
  "env \<Rightarrow> control \<Rightarrow> rewind \<Rightarrow> walread \<Rightarrow> TimeLineHistoryEntry list \<Rightarrow> u64 \<Rightarrow> nat \<Rightarrow> u64 \<Rightarrow> filehash \<Rightarrow> rewind_state \<Rightarrow> (filehash \<times> rewind_state) tdeM" where
  "extractPageMap ev ctl rw rd th startpoint tliIndex endpoint h st =
     bindM (extract_loop (Suc (unat (endpoint - startpoint))) ev ctl rw rd th startpoint 0 endpoint h (new_page_state tliIndex st)) (\<lambda>(h, ps).
     ret (h, ps_rewind ps))"

definition readOneRecord ::
  "env \<Rightarrow> control \<Rightarrow> rewind \<Rightarrow> walread \<Rightarrow> TimeLineHistoryEntry list \<Rightarrow> u64 \<Rightarrow> nat \<Rightarrow> rewind_state \<Rightarrow> (u64 \<times> rewind_state) tdeM" where
  "readOneRecord ev ctl rw rd th ptr tliIndex st =
     bindM (XLogReadRecord rd (SimpleXLogPageRead ev ctl rw rd th) ptr 0 (new_page_state tliIndex st)) (\<lambda>(r, ps).
     case r of
       None \<Rightarrow> throw (E_state ''could not read WAL record'')
     | Some r \<Rightarrow> ret (next_lsn r, ps_rewind ps))"

definition SizeOfXLogShortPHD :: u64 where "SizeOfXLogShortPHD = 24"
definition SizeOfXLogLongPHD :: u64 where "SizeOfXLogLongPHD = 40"

definition skip_page_header :: "rewind \<Rightarrow> u64 \<Rightarrow> u64" where
  "skip_page_header rw forkptr =
     (if forkptr mod 8192 = 0
      then forkptr + (if forkptr mod word_of_int (WalSegSz rw) = 0 then SizeOfXLogLongPHD else SizeOfXLogShortPHD)
      else forkptr)"

text \<open>\<open>redo\<close> and \<open>ThisTimeLineID\<close> are the first fields of a checkpoint.\<close>

definition is_checkpoint :: "DecodedXLogRecord \<Rightarrow> bool" where
  "is_checkpoint r \<longleftrightarrow>
     xl_rmid (rec_header r) = RM_XLOG_ID \<and>
     (let info = and (xl_info (rec_header r)) (not XLR_INFO_MASK) in info = 0x00 \<or> info = 0x10)"

definition keep_segment :: "control \<Rightarrow> rewind \<Rightarrow> u32 \<times> u64 \<Rightarrow> page_state \<Rightarrow> page_state" where
  "keep_segment ctl rw current ps =
     (if (ws_tli ps, ws_segno ps) = current then ps
      else ps\<lparr>ps_rewind := keepwal_add_entry (path_in ''pg_wal'' (XLogFileName ctl (ws_tli ps) (ws_segno ps) (WalSegSz rw))) (ps_rewind ps)\<rparr>)"

text \<open>A record read at a position given by the caller points back behind that position, so that the position bounds the number of turns.\<close>

fun checkpoint_loop ::
  "nat \<Rightarrow> env \<Rightarrow> control \<Rightarrow> rewind \<Rightarrow> walread \<Rightarrow> TimeLineHistoryEntry list \<Rightarrow> u64 \<Rightarrow> u64 \<Rightarrow> u32 \<times> u64 \<Rightarrow> page_state \<Rightarrow> ((u64 \<times> u32 \<times> u64) \<times> page_state) tdeM" where
  "checkpoint_loop 0 ev ctl rw rd th forkptr searchptr current ps = throw (E_state ''out of fuel'')"
| "checkpoint_loop (Suc fuel) ev ctl rw rd th forkptr searchptr current ps =
     bindM (XLogReadRecord rd (SimpleXLogPageRead ev ctl rw rd th) searchptr 0 ps) (\<lambda>(r, ps).
     case r of
       None \<Rightarrow> throw (E_state ''could not find previous WAL record'')
     | Some r \<Rightarrow>
         (let ps = keep_segment ctl rw current ps in
          if searchptr < forkptr \<and> is_checkpoint r
          then ret ((searchptr, un32 (slice 8 4 (main_data r)), un64 (slice 0 8 (main_data r))), close_wal ps)
          else checkpoint_loop fuel ev ctl rw rd th forkptr (xl_prev (rec_header r)) (ws_tli ps, ws_segno ps) ps))"

definition findLastCheckpoint ::
  "env \<Rightarrow> control \<Rightarrow> rewind \<Rightarrow> walread \<Rightarrow> TimeLineHistoryEntry list \<Rightarrow> u64 \<Rightarrow> nat \<Rightarrow> rewind_state \<Rightarrow> ((u64 \<times> u32 \<times> u64) \<times> rewind_state) tdeM" where
  "findLastCheckpoint ev ctl rw rd th forkptr tliIndex st =
     (let forkptr = skip_page_header rw forkptr in
      bindM (checkpoint_loop (Suc (unat forkptr)) ev ctl rw rd th forkptr forkptr (0, 0) (new_page_state tliIndex st)) (\<lambda>(c, ps).
      ret (c, ps_rewind ps)))"

section \<open>The program\<close>

text \<open>
  The source: the copy of its key files, a file of it, the list of its files with type, size and link, and its current end of WAL if it is a server. The file map is
  executed as for a local source.
\<close>

record rewind_source =
  src_fetch_tde_keys :: "rewind_state \<Rightarrow> rewind_state tdeM"
  src_fetch_file :: "string \<Rightarrow> bytes tdeM"
  src_files :: "(string \<times> file_type_t \<times> nat \<times> string option) list"
  src_insert_lsn :: "u64 option"

fun traverse :: "(filehash \<Rightarrow> string \<Rightarrow> file_type_t \<Rightarrow> nat \<Rightarrow> string option \<Rightarrow> tde_error + filehash)
    \<Rightarrow> (string \<times> file_type_t \<times> nat \<times> string option) list \<Rightarrow> filehash \<Rightarrow> tde_error + filehash" where
  "traverse f [] h = Inr h"
| "traverse f ((p, t, n, l) # fs) h = bindS (f h p t n l) (traverse f fs)"

text \<open>The end of WAL of the target, and whether it is behind the point where the histories part; the result is \<open>None\<close> if no rewind is needed.\<close>

definition rewind_plan ::
  "env \<Rightarrow> control \<Rightarrow> rewind \<Rightarrow> walread \<Rightarrow> rewind_source \<Rightarrow> ControlFile \<Rightarrow> ControlFile \<Rightarrow> rewind_state
    \<Rightarrow> ((TimeLineHistoryEntry list \<times> u64 \<times> nat \<times> u64) option \<times> rewind_state) tdeM" where
  "rewind_plan ev ctl rw rd src target source st =
     (let source_tli = cluster_tli source; target_tli = cluster_tli target in
      if target_tli = source_tli then ret (None, st)
      else
        bindM (getTimelineHistory ctl (src_fetch_file src) source_tli) (\<lambda>sourceHistory.
        bindM (getTimelineHistory ctl (slurpFile rw (datadir_target rw)) target_tli) (\<lambda>targetHistory.
        bindM (liftM (findCommonAncestorTimeline sourceHistory targetHistory)) (\<lambda>(divergerec, lastcommontliIndex).
        bindM (readOneRecord ev ctl rw rd targetHistory (checkPoint target) (length targetHistory - 1) st) (\<lambda>(chkptendrec, st).
        let target_wal_endrec = (if minRecoveryPoint target > chkptendrec then minRecoveryPoint target else chkptendrec) in
        ret (if target_wal_endrec > divergerec then Some (targetHistory, divergerec, lastcommontliIndex, target_wal_endrec) else None, st))))))"

text \<open>
  \<open>main\<close> after the options: \<open>target_content\<close> and \<open>source_content\<close> are the control files, \<open>target_files\<close> the files of the target. The start of the
  single-user server that finishes recovery, the configuration for a standby and the sync of the directory are left out. The result tells
  whether a rewind was needed.
\<close>

definition pg_rewind_main ::
  "env \<Rightarrow> control \<Rightarrow> rewind \<Rightarrow> walread \<Rightarrow> rewind_source \<Rightarrow> bytes \<Rightarrow> bytes \<Rightarrow> (string \<times> file_type_t \<times> nat \<times> string option) list \<Rightarrow> rewind_state
    \<Rightarrow> (bool \<times> rewind_state) tdeM" where
  "pg_rewind_main ev ctl rw rd src target_content source_content target_files st =
     bindM (src_fetch_tde_keys src st) (\<lambda>st.
     bindM (liftM (digestControlFile ctl target_content)) (\<lambda>target.
     bindM (liftM (digestControlFile ctl source_content)) (\<lambda>source.
     seqM (liftM (sanityChecks ctl (src_insert_lsn src = None) target source))
     (bindM (rewind_plan ev ctl rw rd src target source st) (\<lambda>(plan, st).
      case plan of
        None \<Rightarrow> ret (False, st)
      | Some (th, divergerec, lastcommontliIndex, target_wal_endrec) \<Rightarrow>
          bindM (findLastCheckpoint ev ctl rw rd th divergerec lastcommontliIndex (st\<lparr>keepwal := []\<rparr>)) (\<lambda>((chkptrec, chkpttli, chkptredo), st).
          bindM (liftM (traverse (process_source_file (rw_pg rw)) (src_files src) [])) (\<lambda>h.
          bindM (liftM (traverse (process_target_file (rw_pg rw)) target_files h)) (\<lambda>h.
          bindM (extractPageMap ev ctl rw rd th chkptrec lastcommontliIndex target_wal_endrec h st) (\<lambda>(h, st).
          case decide_file_actions (rw_pg rw) (keepwal st) h of
            None \<Rightarrow> throw (E_state ''no action decided for file'')
          | Some filemap \<Rightarrow>
              bindM (perform_rewind ev rw filemap st) (\<lambda>st.
              bindM (finish_rewind ctl rw (src_fetch_file src) (src_insert_lsn src) source source_content chkptrec chkpttli chkptredo st) (\<lambda>st.
              ret (True, st))))))))))))"

end
