(* ===== verification/Tde_Parsexlog_Ops.thy ===== *)
theory Tde_Parsexlog_Ops
  imports Tde_Parsexlog Tde_Rewind_Ops Tde_Receive_Ops
begin

text \<open>
  What the reading of the WAL of the target achieves: exactly the blocks that records changed since the last common checkpoint are marked for
  copying, and the checkpoint found is the last one before the histories part.
\<close>

section \<open>The blocks that records change\<close>

definition block_in_files :: "file_entry_t \<Rightarrow> u32 \<Rightarrow> bool" where
  "block_in_files e b \<longleftrightarrow> target_exists e \<and> source_exists e \<and> unat ((b + 1) * 8192) \<le> source_size e \<and> unat ((b + 1) * 8192) \<le> target_size e"

definition changed_block :: "pg \<Rightarrow> file_entry_t \<Rightarrow> (RelFileLocator \<times> byte \<times> u32) option \<Rightarrow> u32 list" where
  "changed_block pg e ref =
     (case ref of
        None \<Rightarrow> []
      | Some (rl, forknum, blkno) \<Rightarrow>
          if forknum = 0 \<and> path e = datasegpath pg rl MAIN_FORKNUM (blkno div RELSEG_SIZE pg) \<and> block_in_files e (blkno mod RELSEG_SIZE pg)
          then [blkno mod RELSEG_SIZE pg] else [])"

definition mark :: "u32 list \<Rightarrow> file_entry_t \<Rightarrow> file_entry_t" where
  "mark bs e = e\<lparr>target_pages_to_overwrite := fold (\<lambda>b pm. datapagemap_add pm b) bs (target_pages_to_overwrite e)\<rparr>"

definition rel_files_regular :: "pg \<Rightarrow> filehash \<Rightarrow> bool" where
  "rel_files_regular pg h \<longleftrightarrow> (\<forall>e\<in>set h. \<forall>rl seg. path e = datasegpath pg rl MAIN_FORKNUM seg \<and> target_exists e \<longrightarrow> target_type e = FILE_TYPE_REGULAR)"

lemma mark_simps [simp]:
  "path (mark bs e) = path e" "target_exists (mark bs e) = target_exists e" "source_exists (mark bs e) = source_exists e" "target_type (mark bs e) = target_type e"
  "source_size (mark bs e) = source_size e" "target_size (mark bs e) = target_size e" "mark [] e = e" "mark cs (mark bs e) = mark (bs @ cs) e"
  "target_pages_to_overwrite (mark bs e) = fold (\<lambda>b pm. datapagemap_add pm b) bs (target_pages_to_overwrite e)"
  by (simp_all add: mark_def)

lemma changed_block_mark [simp]: "changed_block pg (mark bs e) = changed_block pg e"
  by (rule ext) (simp add: changed_block_def block_in_files_def split: option.split)

lemma lookup_distinct: "distinct (map path h) \<Longrightarrow> e \<in> set h \<Longrightarrow> lookup_filehash_entry h (path e) = Some e"
  unfolding lookup_filehash_entry_def by (induction h) (auto simp: image_iff)

lemma lookup_none: "lookup_filehash_entry h p = None \<Longrightarrow> e \<in> set h \<Longrightarrow> path e \<noteq> p"
  unfolding lookup_filehash_entry_def by (auto simp: find_None_iff)

lemma lookup_some: "lookup_filehash_entry h p = Some e \<Longrightarrow> e \<in> set h \<and> path e = p"
  unfolding lookup_filehash_entry_def by (auto simp: find_Some_iff)

lemma block_change_spec:
  assumes "distinct (map path h)" "rel_files_regular pg h"
  shows "process_target_wal_block_change pg h MAIN_FORKNUM rl blkno = Inr (map (\<lambda>e. mark (changed_block pg e (Some (rl, 0, blkno))) e) h)"
proof -
  let ?p = "datasegpath pg rl MAIN_FORKNUM (blkno div RELSEG_SIZE pg)" and ?b = "blkno mod RELSEG_SIZE pg"
  have same: "map (\<lambda>e. mark (changed_block pg e (Some (rl, 0, blkno))) e) h = h"
    if "\<And>e. e \<in> set h \<Longrightarrow> path e = ?p \<Longrightarrow> \<not> block_in_files e ?b"
    using that by (intro map_idI) (auto simp: changed_block_def)
  show ?thesis
  proof (cases "lookup_filehash_entry h ?p")
    case None
    then show ?thesis using same lookup_none [OF None] by (simp add: process_target_wal_block_change_def Let_def)
  next
    case (Some e)
    then have e: "e \<in> set h" "path e = ?p" using lookup_some by blast+
    have uniq: "e' = e" if "e' \<in> set h" "path e' = ?p" for e' using lookup_distinct [OF assms(1) that(1)] that(2) Some by simp
    have reg: "target_exists e \<Longrightarrow> target_type e = FILE_TYPE_REGULAR" using assms(2) e by (auto simp: rel_files_regular_def)
    show ?thesis
    proof (cases "block_in_files e ?b")
      case True
      then have "map (\<lambda>e. mark (changed_block pg e (Some (rl, 0, blkno))) e) h =
          update_entry ?p (\<lambda>e. e\<lparr>target_pages_to_overwrite := datapagemap_add (target_pages_to_overwrite e) ?b\<rparr>) h"
        unfolding update_entry_def using uniq by (intro map_cong refl) (auto simp: changed_block_def mark_def)
      then show ?thesis using Some True reg by (simp add: process_target_wal_block_change_def Let_def block_in_files_def)
    next
      case False
      then have "\<not> block_in_files e' ?b" if "e' \<in> set h" "path e' = ?p" for e' using uniq [OF that] by simp
      then have "map (\<lambda>e. mark (changed_block pg e (Some (rl, 0, blkno))) e) h = h" by (rule same)
      moreover have "process_target_wal_block_change pg h MAIN_FORKNUM rl blkno = Inr h"
        using Some False reg by (auto simp: process_target_wal_block_change_def Let_def block_in_files_def)
      ultimately show ?thesis by (simp only:)
    qed
  qed
qed

lemma marked_ok:
  "distinct (map path h) \<Longrightarrow> distinct (map path (map (\<lambda>e. mark (f e) e) h))"
  "rel_files_regular pg h \<Longrightarrow> rel_files_regular pg (map (\<lambda>e. mark (f e) e) h)"
  by (simp_all add: comp_def rel_files_regular_def)

lemma block_changes_spec:
  assumes "distinct (map path h)" "rel_files_regular pg h"
  shows "block_changes pg refs h = Inr (map (\<lambda>e. mark (concat (map (changed_block pg e) refs)) e) h)"
  using assms
proof (induction refs arbitrary: h)
  case (Cons ref refs)
  show ?case
  proof (cases "\<exists>rl blkno. ref = Some (rl, 0, blkno)")
    case True
    then obtain rl blkno where ref: "ref = Some (rl, 0, blkno)" by blast
    let ?h = "map (\<lambda>e. mark (changed_block pg e ref) e) h"
    have "block_changes pg refs ?h = Inr (map (\<lambda>e. mark (concat (map (changed_block pg e) refs)) e) ?h)"
      by (rule Cons.IH [OF marked_ok(1) [OF Cons.prems(1)] marked_ok(2) [OF Cons.prems(2)]])
    then show ?thesis using block_change_spec [OF Cons.prems] by (simp add: ref)
  next
    case False
    then have "changed_block pg e ref = []" for e by (auto simp: changed_block_def split: option.split)
    moreover have "block_changes pg (ref # refs) h = block_changes pg refs h" using False by (auto split: option.split)
    ultimately show ?thesis using Cons.IH [OF Cons.prems] by simp
  qed
qed (simp add: map_idI)

section \<open>The records read\<close>

definition record_refs :: "DecodedXLogRecord \<Rightarrow> (RelFileLocator \<times> byte \<times> u32) option list" where
  "record_refs r = map (XLogRecGetBlockTagExtended r) [0..<length (rec_blocks r)]"

definition understood :: "DecodedXLogRecord \<Rightarrow> bool" where
  "understood r \<longleftrightarrow> recognised_record (xl_rmid (rec_header r)) (and (xl_info (rec_header r)) (not XLR_INFO_MASK)) \<or> \<not> bit (xl_info (rec_header r)) 0"

lemma extractPageInfo_spec:
  assumes "distinct (map path h)" "rel_files_regular pg h" "understood r"
  shows "extractPageInfo pg r h = Inr (map (\<lambda>e. mark (concat (map (changed_block pg e) (record_refs r))) e) h)"
  using assms block_changes_spec [OF assms(1,2), of "record_refs r"] by (auto simp: extractPageInfo_def Let_def understood_def record_refs_def)

text \<open>
  The records follow each other from \<open>ptr\<close> to \<open>endpoint\<close>, and the reader gives them, in every state of the pages and of the world that \<open>I\<close>
  allows, which reading keeps.
\<close>

fun wal_chain :: "u64 \<Rightarrow> u64 \<Rightarrow> DecodedXLogRecord list \<Rightarrow> bool" where
  "wal_chain ptr endpoint [] = False"
| "wal_chain ptr endpoint (r # rs) =
     (ptr < next_lsn r \<and> (if rs = [] then next_lsn r = endpoint else next_lsn r < endpoint \<and> wal_chain (next_lsn r) endpoint rs))"

definition reads :: "walread \<Rightarrow> (u64 \<Rightarrow> page_state \<Rightarrow> (bytes option \<times> page_state) tdeM) \<Rightarrow> (page_state \<Rightarrow> world \<Rightarrow> bool) \<Rightarrow> u64 \<Rightarrow> u64 \<Rightarrow> DecodedXLogRecord \<Rightarrow> bool" where
  "reads rd cb I ptr prev r \<longleftrightarrow> (\<forall>ps w. I ps w \<longrightarrow> (\<exists>ps' w'. XLogReadRecord rd cb ptr prev ps w = (Inr (Some r, ps'), w') \<and> I ps' w'))"

fun reads_all :: "walread \<Rightarrow> (u64 \<Rightarrow> page_state \<Rightarrow> (bytes option \<times> page_state) tdeM) \<Rightarrow> (page_state \<Rightarrow> world \<Rightarrow> bool) \<Rightarrow> u64 \<Rightarrow> u64 \<Rightarrow> DecodedXLogRecord list \<Rightarrow> bool" where
  "reads_all rd cb I ptr prev [] = True"
| "reads_all rd cb I ptr prev (r # rs) = (reads rd cb I ptr prev r \<and> reads_all rd cb I (next_lsn r) (rec_lsn r) rs)"

definition wal_blocks :: "pg \<Rightarrow> DecodedXLogRecord list \<Rightarrow> file_entry_t \<Rightarrow> u32 list" where
  "wal_blocks pg rs e = concat (map (\<lambda>r. concat (map (changed_block pg e) (record_refs r))) rs)"

lemma wal_blocks_mark [simp]: "wal_blocks pg rs (mark bs e) = wal_blocks pg rs e"
  by (simp add: wal_blocks_def)

lemma chain_distance:
  assumes "ptr < n" "n < (endpoint :: u64)"
  shows "unat (endpoint - n) < unat (endpoint - ptr)"
  using assms by (simp add: unat_sub word_less_nat_alt word_le_nat_alt)

lemma extract_loop_spec:
  assumes "wal_chain ptr endpoint rs" "reads_all rd (SimpleXLogPageRead ev ctl rw rd th) I ptr prev rs" "\<forall>r\<in>set rs. understood r"
    "distinct (map path h)" "rel_files_regular (rw_pg rw) h" "I ps w" "unat (endpoint - ptr) \<le> fuel"
  shows "\<exists>ps' w'. extract_loop (Suc fuel) ev ctl rw rd th ptr prev endpoint h ps w =
    (Inr (map (\<lambda>e. mark (wal_blocks (rw_pg rw) rs e) e) h, ps'), w')"
  using assms
proof (induction rs arbitrary: ptr prev h ps w fuel)
  case (Cons r rs)
  let ?h = "map (\<lambda>e. mark (concat (map (changed_block (rw_pg rw) e) (record_refs r))) e) h"
  obtain ps1 w1 where r: "XLogReadRecord rd (SimpleXLogPageRead ev ctl rw rd th) ptr prev ps w = (Inr (Some r, ps1), w1)" "I ps1 w1"
    using Cons.prems(2,6) unfolding reads_all.simps reads_def by blast
  have h: "extractPageInfo (rw_pg rw) r h = Inr ?h" using extractPageInfo_spec Cons.prems(3-5) by simp
  show ?case
  proof (cases "rs = []")
    case True
    then show ?thesis using Cons.prems(1) r h by (simp add: runM wal_blocks_def)
  next
    case False
    then have c: "ptr < next_lsn r" "next_lsn r < endpoint" "wal_chain (next_lsn r) endpoint rs" using Cons.prems(1) by simp_all
    then have "unat (endpoint - next_lsn r) < fuel" using chain_distance [OF c(1,2)] Cons.prems(7) by simp
    then obtain f where f: "fuel = Suc f" "unat (endpoint - next_lsn r) \<le> f" by (cases fuel) auto
    have "\<exists>ps' w'. extract_loop (Suc f) ev ctl rw rd th (next_lsn r) (rec_lsn r) endpoint ?h ps1 w1 =
        (Inr (map (\<lambda>e. mark (wal_blocks (rw_pg rw) rs e) e) ?h, ps'), w')"
      using Cons.prems(2,3) marked_ok(1) [OF Cons.prems(4)] marked_ok(2) [OF Cons.prems(5)] r(2) f(2)
      by (intro Cons.IH [OF c(3)]) simp_all
    then show ?thesis using r h c(2) f(1) by (simp add: runM wal_blocks_def comp_def)
  qed
qed simp

text \<open>A record that modifies a relation in a way that the tool does not know ends the program, after the records before it were read.\<close>

lemma extractPageInfo_refused: "\<not> understood r \<Longrightarrow> \<exists>e. extractPageInfo pg r h = Inl e"
  by (auto simp: extractPageInfo_def Let_def understood_def)

lemma extract_loop_refused:
  assumes "wal_chain ptr endpoint rs" "reads_all rd (SimpleXLogPageRead ev ctl rw rd th) I ptr prev rs" "\<not> (\<forall>r\<in>set rs. understood r)"
    "distinct (map path h)" "rel_files_regular (rw_pg rw) h" "I ps w" "unat (endpoint - ptr) \<le> fuel"
  shows "\<exists>e w'. extract_loop (Suc fuel) ev ctl rw rd th ptr prev endpoint h ps w = (Inl e, w')"
  using assms
proof (induction rs arbitrary: ptr prev h ps w fuel)
  case (Cons r rs)
  let ?h = "map (\<lambda>e. mark (concat (map (changed_block (rw_pg rw) e) (record_refs r))) e) h"
  obtain ps1 w1 where r: "XLogReadRecord rd (SimpleXLogPageRead ev ctl rw rd th) ptr prev ps w = (Inr (Some r, ps1), w1)" "I ps1 w1"
    using Cons.prems(2,6) unfolding reads_all.simps reads_def by blast
  show ?case
  proof (cases "understood r")
    case True
    then have c: "ptr < next_lsn r" "next_lsn r < endpoint" "wal_chain (next_lsn r) endpoint rs" using Cons.prems(1,3) by (auto split: if_splits)
    then have "unat (endpoint - next_lsn r) < fuel" using chain_distance [OF c(1,2)] Cons.prems(7) by simp
    then obtain f where f: "fuel = Suc f" "unat (endpoint - next_lsn r) \<le> f" by (cases fuel) auto
    have "\<exists>e w'. extract_loop (Suc f) ev ctl rw rd th (next_lsn r) (rec_lsn r) endpoint ?h ps1 w1 = (Inl e, w')"
      using True Cons.prems(2,3) marked_ok(1) [OF Cons.prems(4)] marked_ok(2) [OF Cons.prems(5)] r(2) f(2)
      by (intro Cons.IH [OF c(3)]) simp_all
    then show ?thesis using r extractPageInfo_spec [OF Cons.prems(4,5) True] c(2) f(1) by (auto simp: runM)
  next
    case False
    then show ?thesis using r extractPageInfo_refused [OF False, of "rw_pg rw" h] by (auto simp: runM)
  qed
qed simp

text \<open>The blocks of a file that the records change: in the main fork, in a file that both servers have, inside both files.\<close>

definition wal_changes :: "pg \<Rightarrow> DecodedXLogRecord list \<Rightarrow> file_entry_t \<Rightarrow> u32 set" where
  "wal_changes pg rs e =
     {blkno mod RELSEG_SIZE pg | blkno. \<exists>r\<in>set rs. \<exists>i rl. XLogRecGetBlockTagExtended r i = Some (rl, 0, blkno) \<and>
        path e = datasegpath pg rl MAIN_FORKNUM (blkno div RELSEG_SIZE pg) \<and> block_in_files e (blkno mod RELSEG_SIZE pg)}"

lemma record_refs_set: "Some t \<in> set (record_refs r) \<longleftrightarrow> (\<exists>i. XLogRecGetBlockTagExtended r i = Some t)"
proof
  assume "\<exists>i. XLogRecGetBlockTagExtended r i = Some t"
  then obtain i where i: "XLogRecGetBlockTagExtended r i = Some t" ..
  then have "i < length (rec_blocks r)" by (simp add: XLogRecGetBlockTagExtended_def XLogRecHasBlockRef_def split: if_splits)
  then show "Some t \<in> set (record_refs r)" using i by (auto simp: record_refs_def intro: image_eqI [of _ _ i])
qed (auto simp: record_refs_def dest: sym)

lemma set_wal_blocks: "set (wal_blocks pg rs e) = wal_changes pg rs e"
proof -
  have "b \<in> set (changed_block pg e ref) \<longleftrightarrow> (\<exists>rl blkno. ref = Some (rl, 0, blkno) \<and> b = blkno mod RELSEG_SIZE pg \<and>
      path e = datasegpath pg rl MAIN_FORKNUM (blkno div RELSEG_SIZE pg) \<and> block_in_files e (blkno mod RELSEG_SIZE pg))" for b ref
    by (auto simp: changed_block_def split: option.split)
  then show ?thesis unfolding wal_blocks_def wal_changes_def using record_refs_set by (auto simp: image_iff) blast+
qed

text \<open>
  C20. The search of the target's WAL for changes, when the records that follow each other from the last common checkpoint to the end of WAL can be read:
  if one of them modifies a relation in a way that the tool does not know, the search ends with an error. Otherwise it returns, and marks in each file exactly the blocks
  of the main fork that the records refer to and that lie inside the file on both servers, to be copied in ascending order; blocks behind the end of the file
  of one of them are not marked.
\<close>

theorem page_map_exact:
  assumes "wal_chain startpoint endpoint rs" "reads_all rd (SimpleXLogPageRead ev ctl rw rd th) I startpoint 0 rs"
    "distinct (map path h)" "rel_files_regular (rw_pg rw) h" "\<forall>e\<in>set h. target_pages_to_overwrite e = no_pages"
    "0 < RELSEG_SIZE (rw_pg rw)" "RELSEG_SIZE (rw_pg rw) \<le> 2 ^ 31" "I (new_page_state i st) w"
  shows "if \<forall>r\<in>set rs. understood r
    then \<exists>h' st' w'. extractPageMap ev ctl rw rd th startpoint i endpoint h st w = (Inr (h', st'), w') \<and> map path h' = map path h \<and>
      (\<forall>e\<in>set h'. datapagemap_blocks (target_pages_to_overwrite e) = Some (sorted_list_of_set (wal_changes (rw_pg rw) rs e)))
    else \<exists>e w'. extractPageMap ev ctl rw rd th startpoint i endpoint h st w = (Inl e, w')"
proof (cases "\<forall>r\<in>set rs. understood r")
  case True
  let ?h = "map (\<lambda>e. mark (wal_blocks (rw_pg rw) rs e) e) h"
  obtain ps' w' where x: "extract_loop (Suc (unat (endpoint - startpoint))) ev ctl rw rd th startpoint 0 endpoint h (new_page_state i st) w = (Inr (?h, ps'), w')"
    using extract_loop_spec [OF assms(1,2) True assms(3,4,8) order_refl] by blast
  have changes: "wal_changes (rw_pg rw) rs (mark bs e) = wal_changes (rw_pg rw) rs e" for bs e by (simp add: set_wal_blocks [symmetric])
  have "datapagemap_blocks (target_pages_to_overwrite (mark (wal_blocks (rw_pg rw) rs e) e)) = Some (sorted_list_of_set (wal_changes (rw_pg rw) rs e))" if "e \<in> set h" for e
  proof -
    have "b < 2 ^ 31" if "b \<in> set (wal_blocks (rw_pg rw) rs e)" for b
    proof -
      obtain c where "b = c mod RELSEG_SIZE (rw_pg rw)" using \<open>b \<in> _\<close> by (auto simp: set_wal_blocks wal_changes_def)
      then have "b < RELSEG_SIZE (rw_pg rw)" using assms(6) by (simp add: word_mod_less_divisor)
      then show ?thesis using assms(7) by (rule less_le_trans)
    qed
    then show ?thesis using datapagemap_exact [of "wal_blocks (rw_pg rw) rs e"] assms(5) that by (simp add: set_wal_blocks)
  qed
  then show ?thesis using x True by (auto simp: extractPageMap_def runM changes comp_def)
next
  case False
  from extract_loop_refused [OF assms(1,2) False assms(3,4,8) order_refl] show ?thesis using False by (auto simp: extractPageMap_def runM)
qed

definition demo_wal_rec :: "u64 \<Rightarrow> u64 \<Rightarrow> byte \<Rightarrow> DecodedBkpBlock list \<Rightarrow> bytes \<Rightarrow> DecodedXLogRecord" where
  "demo_wal_rec prev nxt rmid bs d =
     \<lparr>rec_lsn = 0, next_lsn = nxt, rec_header = \<lparr>xl_tot_len = 0, xl_xid = 0, xl_prev = prev, xl_info = 0, xl_rmid = rmid, xl_crc = 0\<rparr>,
      record_origin = 0, toplevel_xid = 0, main_data = d, main_data_len = of_nat (length d), rec_blocks = bs\<rparr>"

definition demo_ref :: DecodedBkpBlock where
  "demo_ref = unused_block\<lparr>in_use := True, bkp_rlocator := \<lparr>spcOid = 1663, dbOid = 5, relNumber = 16384\<rparr>, bkp_blkno := 2\<rparr>"

text \<open>A checkpoint at 100, then a record that changes block 2, then another one.\<close>

definition demo_walread :: walread where
  "demo_walread = \<lparr>XLogReadRecord = (\<lambda>cb ptr prev ps. ret (
       if ptr = 100 then Some (demo_wal_rec 50 150 0 [] (le64 90 @ le32 1))
       else if ptr = 150 then Some (demo_wal_rec 100 200 10 [demo_ref] [])
       else if ptr = 200 then Some (demo_wal_rec 150 250 10 [] [])
       else None, ps)),
     RestoreArchivedFile = (\<lambda>d n w. (False, w)), restoreCommand = False\<rparr>"

definition demo_control :: control where
  "demo_control = \<lparr>PG_CONTROL_FILE_SIZE = 0, sizeof_ControlFileData = 0, PG_CONTROL_VERSION = 0, CATALOG_VERSION_NO = 0, PG_DATA_CHECKSUM_VERSION = 0,
     decode_control = (\<lambda>b. \<lparr>system_identifier = 0, pg_control_version = 0, catalog_version_no = 0, cluster_state = SHUTDOWNED, checkPoint = 0,
       checkPointCopy_redo = 0, checkPointCopy_ThisTimeLineID = 0, minRecoveryPoint = 0, minRecoveryPointTLI = 0, wal_log_hints = True, checksum_version = 0,
       xlog_seg_size = 0\<rparr>), control_crc_ok = (\<lambda>b. True), update_controlfile = (\<lambda>c. ret ()), XLogFileName = (\<lambda>t s n. ''w''),
     TLHistoryFilePath = (\<lambda>t. ''h''), strftime_now = []\<rparr>"

definition demo_file :: file_entry_t where
  "demo_file = (new_entry demo_pg ''base/5/16384'')\<lparr>target_exists := True, target_type := FILE_TYPE_REGULAR, target_size := 32768,
     source_exists := True, source_type := FILE_TYPE_REGULAR, source_size := 32768\<rparr>"

theorem page_map_exact_witness:
  "\<exists>h' st' w'. extractPageMap demo_env demo_control demo_rw demo_walread [] 100 0 250 [demo_file] demo_rewind_state demo_world = (Inr (h', st'), w') \<and>
     map path h' = [''base/5/16384''] \<and>
     (\<forall>e\<in>set h'. datapagemap_blocks (target_pages_to_overwrite e) = Some (sorted_list_of_set (wal_changes demo_pg
        [demo_wal_rec 50 150 0 [] (le64 90 @ le32 1), demo_wal_rec 100 200 10 [demo_ref] [], demo_wal_rec 150 250 10 [] []] e)))"
proof -
  have rw: "rw_pg demo_rw = demo_pg" by (simp add: demo_rw_def)
  show ?thesis
    using page_map_exact [of 100 250 "[demo_wal_rec 50 150 0 [] (le64 90 @ le32 1), demo_wal_rec 100 200 10 [demo_ref] [], demo_wal_rec 150 250 10 [] []]"
        demo_walread demo_env demo_control demo_rw "[]" "\<lambda>_ _. True" "[demo_file]" 0 demo_rewind_state demo_world]
    unfolding rw
    by (simp add: demo_wal_rec_def demo_walread_def reads_def understood_def rel_files_regular_def demo_file_def new_entry_def demo_pg_def)
qed

section \<open>The last common checkpoint\<close>

fun reads_back :: "walread \<Rightarrow> (u64 \<Rightarrow> page_state \<Rightarrow> (bytes option \<times> page_state) tdeM) \<Rightarrow> (page_state \<Rightarrow> world \<Rightarrow> bool) \<Rightarrow> u64 \<Rightarrow> DecodedXLogRecord list \<Rightarrow> bool" where
  "reads_back rd cb I ptr [] = True"
| "reads_back rd cb I ptr (r # rs) = (reads rd cb I ptr 0 r \<and> xl_prev (rec_header r) < ptr \<and> reads_back rd cb I (xl_prev (rec_header r)) rs)"

text \<open>The position of the last record of a list that was read backwards from \<open>ptr\<close>.\<close>

fun last_position :: "u64 \<Rightarrow> DecodedXLogRecord list \<Rightarrow> u64" where
  "last_position ptr [] = ptr"
| "last_position ptr (r # rs) = last_position (xl_prev (rec_header r)) rs"

definition checkpoint_of :: "u64 \<Rightarrow> DecodedXLogRecord \<Rightarrow> u64 \<times> u32 \<times> u64" where
  "checkpoint_of ptr c = (ptr, un32 (slice 8 4 (main_data c)), un64 (slice 0 8 (main_data c)))"

lemma checkpoint_step:
  assumes "reads rd (SimpleXLogPageRead ev ctl rw rd th) I ptr 0 r" "I ps w" "\<And>ps w st. I ps w \<Longrightarrow> I (ps\<lparr>ps_rewind := st\<rparr>) w"
  shows "\<exists>current' ps' w'. I ps' w' \<and> checkpoint_loop (Suc fuel) ev ctl rw rd th forkptr ptr current ps w =
    (if ptr < forkptr \<and> is_checkpoint r then (Inr (checkpoint_of ptr r, close_wal ps'), w')
     else checkpoint_loop fuel ev ctl rw rd th forkptr (xl_prev (rec_header r)) current' ps' w')"
proof -
  obtain ps1 w1 where r: "XLogReadRecord rd (SimpleXLogPageRead ev ctl rw rd th) ptr 0 ps w = (Inr (Some r, ps1), w1)" "I ps1 w1"
    using assms(1,2) unfolding reads_def by blast
  let ?ps = "keep_segment ctl rw current ps1"
  have "I ?ps w1" using r(2) assms(3) by (simp add: keep_segment_def)
  then show ?thesis
    using r(1) by (intro exI [of _ "(ws_tli ?ps, ws_segno ?ps)"] exI [of _ ?ps] exI [of _ w1]) (simp add: runM Let_def checkpoint_of_def)
qed

lemma checkpoint_loop_spec:
  assumes "reads_back rd (SimpleXLogPageRead ev ctl rw rd th) I ptr (rs @ [c])" "ptr < forkptr" "is_checkpoint c" "\<forall>r\<in>set rs. \<not> is_checkpoint r"
    "I ps w" "\<And>ps w st. I ps w \<Longrightarrow> I (ps\<lparr>ps_rewind := st\<rparr>) w" "unat ptr < fuel"
  shows "\<exists>ps' w'. checkpoint_loop fuel ev ctl rw rd th forkptr ptr current ps w = (Inr (checkpoint_of (last_position ptr rs) c, ps'), w')"
  using assms(1-5,7)
proof (induction rs arbitrary: ptr ps w fuel current)
  case Nil
  then obtain f where f: "fuel = Suc f" by (cases fuel) auto
  from Nil.prems have "reads rd (SimpleXLogPageRead ev ctl rw rd th) I ptr 0 c" by simp
  from checkpoint_step [OF this Nil.prems(5) assms(6), of f forkptr current] show ?case using Nil.prems(2,3) f by auto
next
  case (Cons r rs)
  then obtain f where f: "fuel = Suc f" by (cases fuel) auto
  let ?p = "xl_prev (rec_header r)"
  have r: "reads rd (SimpleXLogPageRead ev ctl rw rd th) I ptr 0 r" "?p < ptr" "reads_back rd (SimpleXLogPageRead ev ctl rw rd th) I ?p (rs @ [c])"
    using Cons.prems(1) by simp_all
  obtain current' ps1 w1 where s: "I ps1 w1" "checkpoint_loop (Suc f) ev ctl rw rd th forkptr ptr current ps w =
      checkpoint_loop f ev ctl rw rd th forkptr ?p current' ps1 w1"
    using checkpoint_step [OF r(1) Cons.prems(5) assms(6), of f forkptr current] Cons.prems(4) by auto
  have "?p < forkptr" using r(2) Cons.prems(2) by (rule less_trans)
  moreover have "unat ?p < f" using r(2) Cons.prems(6) f by (simp add: word_less_nat_alt)
  ultimately have "\<exists>ps' w'. checkpoint_loop f ev ctl rw rd th forkptr ?p current' ps1 w1 = (Inr (checkpoint_of (last_position ?p rs) c, ps'), w')"
    using Cons.prems(3,4) s(1) by (intro Cons.IH [OF r(3)]) simp_all
  then show ?case using s(2) f by simp
qed

text \<open>
  C22. Walking back from the record at the fork, the search for the last common checkpoint ends, and it finds the checkpoint before the fork that
  is the last one: no record between it and the fork is a checkpoint, and one that starts at the fork itself does not count.
\<close>

theorem last_checkpoint_found:
  assumes "reads_back rd (SimpleXLogPageRead ev ctl rw rd th) I (skip_page_header rw forkptr) (r # rs @ [c])" "is_checkpoint c" "\<forall>r\<in>set rs. \<not> is_checkpoint r"
    "I (new_page_state i st) w" "\<And>ps w st. I ps w \<Longrightarrow> I (ps\<lparr>ps_rewind := st\<rparr>) w"
  shows "\<exists>st' w'. findLastCheckpoint ev ctl rw rd th forkptr i st w =
    (Inr (checkpoint_of (last_position (skip_page_header rw forkptr) (r # rs)) c, st'), w')"
proof -
  let ?f = "skip_page_header rw forkptr" and ?p = "xl_prev (rec_header r)"
  have r: "reads rd (SimpleXLogPageRead ev ctl rw rd th) I ?f 0 r" "?p < ?f" "reads_back rd (SimpleXLogPageRead ev ctl rw rd th) I ?p (rs @ [c])"
    using assms(1) by simp_all
  obtain current' ps1 w1 where s: "I ps1 w1" "checkpoint_loop (Suc (unat ?f)) ev ctl rw rd th ?f ?f (0, 0) (new_page_state i st) w =
      checkpoint_loop (unat ?f) ev ctl rw rd th ?f ?p current' ps1 w1"
    using checkpoint_step [OF r(1) assms(4,5), of "unat ?f" ?f "(0, 0)"] by auto
  have "unat ?p < unat ?f" using r(2) by (simp add: word_less_nat_alt)
  from checkpoint_loop_spec [OF r(3,2) assms(2,3) s(1) assms(5) this, of current']
  show ?thesis using s(2) by (auto simp: findLastCheckpoint_def runM Let_def)
qed

theorem last_checkpoint_found_witness:
  "\<exists>st' w'. findLastCheckpoint demo_env demo_control demo_rw demo_walread [] 200 0 demo_rewind_state demo_world = (Inr ((100, 1, 90), st'), w')"
proof -
  have skip: "skip_page_header demo_rw 200 = 200" by (simp add: skip_page_header_def)
  have "reads_back demo_walread (SimpleXLogPageRead demo_env demo_control demo_rw demo_walread []) (\<lambda>_ _. True) (skip_page_header demo_rw 200)
      (demo_wal_rec 150 250 10 [] [] # [demo_wal_rec 100 200 10 [demo_ref] []] @ [demo_wal_rec 50 150 0 [] (le64 90 @ le32 1)])"
    unfolding skip by (simp add: demo_walread_def reads_def) (simp add: demo_wal_rec_def)
  from last_checkpoint_found [OF this, of 0 demo_rewind_state demo_world] show ?thesis
    unfolding skip by (simp add: is_checkpoint_def demo_wal_rec_def RM_XLOG_ID_def checkpoint_of_def)
qed

section \<open>Reading a page\<close>

text \<open>
  Each timeline of a history begins where the one before ended, and ends behind its begin. The right timeline for a segment is the last one that begins before the
  end of the segment: incomplete segments are copied into the next timeline.
\<close>

definition linked_history :: "TimeLineHistoryEntry list \<Rightarrow> bool" where
  "linked_history th \<longleftrightarrow> (\<forall>i. Suc i < length th \<longrightarrow> tlh_begin (th ! Suc i) = tlh_end (th ! i) \<and> tlh_begin (th ! i) \<le> tlh_end (th ! i))"

definition right_timeline :: "TimeLineHistoryEntry list \<Rightarrow> u64 \<Rightarrow> nat \<Rightarrow> bool" where
  "right_timeline th seg_end i \<longleftrightarrow> i < length th \<and> (0 < i \<longrightarrow> tlh_begin (th ! i) < seg_end) \<and> (\<forall>j. i < j \<and> j < length th \<longrightarrow> seg_end \<le> tlh_begin (th ! j))"

lemma right_timeline_unique: "right_timeline th e i \<Longrightarrow> right_timeline th e j \<Longrightarrow> i = j"
  unfolding right_timeline_def by (metis linorder_neqE_nat not_less_zero leD gr_zeroI)

lemma begins_sorted:
  assumes "linked_history th" "i \<le> j" "j < length th"
  shows "tlh_begin (th ! i) \<le> tlh_begin (th ! j)"
  using assms(2,3)
proof (induction rule: dec_induct)
  case (step n)
  then have "tlh_begin (th ! n) \<le> tlh_begin (th ! Suc n)" using assms(1) by (simp add: linked_history_def)
  then show ?case using step by (meson Suc_lessD order_trans)
qed simp

lemma tli_forward_spec:
  assumes "linked_history th" "i < length th"
  shows "tli_forward th e i < length th \<and> (\<forall>j. tli_forward th e i < j \<and> j < length th \<longrightarrow> e \<le> tlh_begin (th ! j))"
  using assms
proof (induction th e i rule: tli_forward.induct)
  case (1 th e i)
  show ?case
  proof (cases "i < length th - 1 \<and> tlh_end (th ! i) < e")
    case True
    then have "Suc i < length th" by linarith
    then show ?thesis using "1.IH" [OF True "1.prems"(1)] True by (simp add: tli_forward.simps [of th e i])
  next
    case False
    have "e \<le> tlh_begin (th ! j)" if j: "i < j" "j < length th" for j
    proof -
      have "e \<le> tlh_begin (th ! Suc i)" using False j "1.prems"(1) by (auto simp: linked_history_def)
      also have "\<dots> \<le> tlh_begin (th ! j)" using j by (intro begins_sorted [OF "1.prems"(1)]) simp_all
      finally show ?thesis .
    qed
    moreover have "tli_forward th e i = i" using False by (subst tli_forward.simps) auto
    ultimately show ?thesis using "1.prems"(2) by simp
  qed
qed

lemma tli_back_spec:
  assumes "i < length th" "\<forall>j. i < j \<and> j < length th \<longrightarrow> e \<le> tlh_begin (th ! j)"
  shows "right_timeline th e (tli_back th e i)"
  using assms
proof (induction i)
  case (Suc i)
  show ?case
  proof (cases "e \<le> tlh_begin (th ! Suc i)")
    case True
    then have "\<forall>j. i < j \<and> j < length th \<longrightarrow> e \<le> tlh_begin (th ! j)" using Suc.prems(2) by (metis Suc_lessI)
    then show ?thesis using True Suc by simp
  qed (use Suc.prems in \<open>auto simp: right_timeline_def\<close>)
qed (simp add: right_timeline_def)

lemma tli_search:
  "linked_history th \<Longrightarrow> i < length th \<Longrightarrow> right_timeline th e j \<Longrightarrow> tli_back th e (tli_forward th e i) = j"
  using tli_back_spec tli_forward_spec right_timeline_unique by metis

text \<open>The file of a segment, and the state between two calls: the open file, if there is one, is that of the right timeline.\<close>

definition wal_path :: "control \<Rightarrow> rewind \<Rightarrow> u32 \<Rightarrow> u64 \<Rightarrow> string" where
  "wal_path ctl rw t segno = path_in (path_in (datadir_target rw) ''pg_wal'') (XLogFileName ctl t segno (WalSegSz rw))"

definition page_state_ok :: "control \<Rightarrow> rewind \<Rightarrow> TimeLineHistoryEntry list \<Rightarrow> page_state \<Rightarrow> bool" where
  "page_state_ok ctl rw th ps \<longleftrightarrow> ps_tliIndex ps < length th \<and>
     (\<forall>p. xlogread ps = Some p \<longrightarrow> right_timeline th ((xlogreadsegno ps + 1) * word_of_int (WalSegSz rw)) (ps_tliIndex ps) \<and>
        p = wal_path ctl rw (tlh_tli (th ! ps_tliIndex ps)) (xlogreadsegno ps))"

text \<open>The file at \<open>p\<close> holds the page \<open>plain\<close> at its place, encrypted under the key ranges.\<close>

definition holds_page :: "(bytes \<Rightarrow> bytes \<Rightarrow> bytes) \<Rightarrow> WalEncryptionRange list \<Rightarrow> u32 \<Rightarrow> nat \<Rightarrow> u64 \<Rightarrow> world \<Rightarrow> string \<Rightarrow> bytes \<Rightarrow> bool" where
  "holds_page F rgs t m ptr w p plain \<longleftrightarrow> length plain = BLCK \<and> disk w p \<noteq> None \<and>
     pread (file_bytes w p) BLCK (unat ptr mod 2 ^ m) = wal_crypt F rgs t (ptr div 2 ^ m) m (unat ptr mod 2 ^ m) plain"

lemma word_page_offset:
  assumes "m \<le> 30"
  shows "(ptr :: u64) mod 2 ^ m = of_nat (unat ptr mod 2 ^ m)"
proof -
  have "m < 64" using assms by simp
  then have "unat (2 ^ m :: u64) = 2 ^ m" by (simp add: unsigned_of_nat [of "2 ^ m", simplified] take_bit_nat_eq_self)
  then have "unat (ptr mod 2 ^ m) = unat ptr mod 2 ^ m" by (simp add: unat_mod)
  then show ?thesis by (metis of_nat_unat ucast_id)
qed

text \<open>The read from the file that is open, and the decryption.\<close>

lemma page_of_file:
  assumes "ecb_is ev F" "m \<le> 30" "(unat (ptr div 2 ^ m) + 1) * 2 ^ m < 2 ^ 64" "unat ptr mod 2 ^ m + BLCK \<le> 2 ^ m" "wal_reader rgs w" "holds_page F rgs t m ptr w p plain"
  shows "\<exists>w'. tdeheap_xlog_seg_read (target_env ev rw) p (garbage ev BLCK) (ptr mod 2 ^ m) t (ptr div 2 ^ m) (2 ^ m) w = (Inr (int BLCK, plain), w') \<and>
     wal_reader rgs w' \<and> disk w' = disk w"
proof -
  let ?ct = "wal_crypt F rgs t (ptr div 2 ^ m) m (unat ptr mod 2 ^ m) plain"
  have e: "ecb_is (target_env ev rw) F" using assms(1) by (simp add: ecb_is_def target_env_def fe_env_def)
  have pl: "length plain = BLCK" "pread (file_bytes w p) BLCK (unat ptr mod 2 ^ m) = ?ct" using assms(6) by (simp_all add: holds_page_def)
  then have "length ?ct = BLCK" by simp
  moreover from this have "?ct \<noteq> []" by (metis list.size(3) zero_neq_numeral)
  ultimately show ?thesis
    unfolding word_page_offset [OF assms(2)]
    using read_data_run [OF e assms(2,3) _ _ assms(5), of ?ct "unat ptr mod 2 ^ m" p "garbage ev BLCK" t] pl assms(4) by simp
qed

text \<open>
  C21. The WAL of the target is read in plain text: for a linked history, in every state that earlier calls can leave, and for every page inside a segment,
  the page is read from the file of the last timeline that begins before the end of the segment, whether that file is open already, is opened, or
  is restored from the archive (and then noted), and it is decrypted with the key ranges of the target; files on disk are not changed by the reading. If the file is not
  there and there is no restore command, or it fails, there is no page. The segment size is a power of two of at most 1 GB, and the segment does not reach
  the end of the address space.
\<close>

theorem page_read_decrypts:
  assumes "ecb_is ev F" "m \<le> 30" "WalSegSz rw = 2 ^ m" "(unat (ptr div 2 ^ m) + 1) * 2 ^ m < 2 ^ 64" "unat ptr mod 2 ^ m + BLCK \<le> 2 ^ m"
    and "linked_history th" "page_state_ok ctl rw th ps" "right_timeline th ((ptr div 2 ^ m + 1) * 2 ^ m) i"
    and "t = tlh_tli (th ! i)" "p = wal_path ctl rw t (ptr div 2 ^ m)"
    and "is_open \<longleftrightarrow> xlogread ps \<noteq> None \<and> xlogreadsegno ps = ptr div 2 ^ m"
    and "restored = RestoreArchivedFile rd (datadir_target rw) (XLogFileName ctl t (ptr div 2 ^ m) (WalSegSz rw)) w"
  shows "((is_open \<or> disk w p \<noteq> None \<and> \<not> open_fails rw p) \<and> wal_reader rgs w \<and> holds_page F rgs t m ptr w p plain \<longrightarrow>
       (\<exists>ps' w'. SimpleXLogPageRead ev ctl rw rd th ptr ps w = (Inr (Some plain, ps'), w') \<and> page_state_ok ctl rw th ps' \<and> ws_tli ps' = t \<and>
          xlogread ps' = Some p \<and> ps_rewind ps' = ps_rewind ps \<and> wal_reader rgs w' \<and> disk w' = disk w)) \<and>
     (\<not> is_open \<and> (disk w p = None \<or> open_fails rw p) \<and> restoreCommand rd \<and> fst restored \<and> wal_reader rgs (snd restored) \<and>
        holds_page F rgs t m ptr (snd restored) p plain \<longrightarrow>
       (\<exists>ps' w'. SimpleXLogPageRead ev ctl rw rd th ptr ps w = (Inr (Some plain, ps'), w') \<and> page_state_ok ctl rw th ps' \<and> ws_tli ps' = t \<and>
          xlogread ps' = Some p \<and> wal_reader rgs w' \<and> disk w' = disk (snd restored) \<and>
          ps_rewind ps' = archive_wal_segments_add_entry (path_in ''pg_wal'' (XLogFileName ctl t (ptr div 2 ^ m) (WalSegSz rw))) (ps_rewind ps))) \<and>
     (\<not> is_open \<and> (disk w p = None \<or> open_fails rw p) \<and> (restoreCommand rd \<longrightarrow> \<not> fst restored) \<longrightarrow>
       (\<exists>ps' w'. SimpleXLogPageRead ev ctl rw rd th ptr ps w = (Inr (None, ps'), w') \<and> page_state_ok ctl rw th ps' \<and> ps_rewind ps' = ps_rewind ps))"
proof -
  let ?seg = "ptr div 2 ^ m" and ?cb = "SimpleXLogPageRead ev ctl rw rd th ptr ps w"
  let ?ps = "ps\<lparr>xlogread := None, xlogreadsegno := ?seg, ps_tliIndex := i\<rparr>"
  let ?nam = "XLogFileName ctl t ?seg (WalSegSz rw)"
  have sz: "word_of_int (WalSegSz rw) = (2 ^ m :: u64)" using assms(3) by simp
  have i: "tli_back th ((?seg + 1) * 2 ^ m) (tli_forward th ((?seg + 1) * 2 ^ m) (ps_tliIndex ps)) = i"
    using assms(6-8) tli_search by (auto simp: page_state_ok_def)
  have ok: "page_state_ok ctl rw th ps'" if "xlogread ps' = None \<or> xlogread ps' = Some p" "xlogreadsegno ps' = ?seg" "ps_tliIndex ps' = i" for ps'
    using that assms(8-10) sz by (auto simp: page_state_ok_def right_timeline_def)
  note rd = page_of_file [OF assms(1,2,4,5), of rgs _ t p plain rw]
  have opened: "is_open \<Longrightarrow> xlogread ps = Some p \<and> ps_tliIndex ps = i"
    using assms(7-11) sz right_timeline_unique [OF assms(8), of "ps_tliIndex ps"] by (auto simp: page_state_ok_def)
  have closed: "?cb = bindM (open_segment ctl rw rd th ((?seg + 1) * 2 ^ m) (ps\<lparr>xlogread := None, xlogreadsegno := ?seg\<rparr>)) (\<lambda>(ok, ps).
      if \<not> ok then ret (None, ps)
      else bindM (tdeheap_xlog_seg_read (target_env ev rw) (the (xlogread ps)) (garbage ev BLCK) (ptr mod 2 ^ m) (tlh_tli (th ! ps_tliIndex ps)) (xlogreadsegno ps) (2 ^ m))
        (\<lambda>(r, readBuf). if r \<noteq> int BLCK then ret (None, ps) else ret (Some readBuf, ps\<lparr>ws_tli := tlh_tli (th ! ps_tliIndex ps)\<rparr>))) w" if "\<not> is_open"
  proof -
    have "(if xlogread ps \<noteq> None \<and> ?seg \<noteq> xlogreadsegno ps then ps\<lparr>xlogread := None\<rparr> else ps)\<lparr>xlogreadsegno := ?seg\<rparr> = ps\<lparr>xlogread := None, xlogreadsegno := ?seg\<rparr>"
      using that assms(11) by auto
    then show ?thesis unfolding SimpleXLogPageRead_def Let_def sz by simp
  qed
  have os: "open_segment ctl rw rd th ((?seg + 1) * 2 ^ m) (ps\<lparr>xlogread := None, xlogreadsegno := ?seg\<rparr>) w =
     (if disk w p \<noteq> None \<and> \<not> open_fails rw p then (Inr (True, ?ps\<lparr>xlogread := Some p\<rparr>), w)
      else if \<not> restoreCommand rd then (Inr (False, ?ps), w)
      else if \<not> fst restored then (Inr (False, ?ps), snd restored)
      else (Inr (True, ?ps\<lparr>xlogread := Some p, ps_rewind := archive_wal_segments_add_entry (path_in ''pg_wal'' ?nam) (ps_rewind ps)\<rparr>), snd restored))"
    using i assms(9,10,12) by (cases restored) (simp add: open_segment_def Let_def runM wal_path_def split: prod.split)
  have "\<exists>ps' w'. ?cb = (Inr (Some plain, ps'), w') \<and> page_state_ok ctl rw th ps' \<and> ws_tli ps' = t \<and> xlogread ps' = Some p \<and> ps_rewind ps' = ps_rewind ps \<and>
      wal_reader rgs w' \<and> disk w' = disk w" if op: "is_open" "wal_reader rgs w" "holds_page F rgs t m ptr w p plain"
  proof -
    obtain w' where w': "tdeheap_xlog_seg_read (target_env ev rw) p (garbage ev BLCK) (ptr mod 2 ^ m) t ?seg (2 ^ m) w = (Inr (int BLCK, plain), w')"
        "wal_reader rgs w'" "disk w' = disk w" using rd [OF op(2,3)] by blast
    have "?cb = (Inr (Some plain, ps\<lparr>ws_tli := t\<rparr>), w')"
      using w'(1) opened [OF op(1)] op(1) assms(9,11) by (simp add: SimpleXLogPageRead_def Let_def runM sz)
    moreover have "page_state_ok ctl rw th (ps\<lparr>ws_tli := t\<rparr>)" using assms(7) by (simp add: page_state_ok_def)
    ultimately show ?thesis using w'(2,3) opened [OF that(1)] by simp
  qed
  moreover have "\<exists>ps' w'. ?cb = (Inr (Some plain, ps'), w') \<and> page_state_ok ctl rw th ps' \<and> ws_tli ps' = t \<and> xlogread ps' = Some p \<and> ps_rewind ps' = ps_rewind ps \<and>
      wal_reader rgs w' \<and> disk w' = disk w" if "\<not> is_open" "disk w p \<noteq> None \<and> \<not> open_fails rw p" "wal_reader rgs w" "holds_page F rgs t m ptr w p plain"
    using rd [OF that(3,4)] closed [OF that(1)] os that(2) assms(9) by (auto simp: runM intro!: ok)
  moreover have "\<exists>ps' w'. ?cb = (Inr (Some plain, ps'), w') \<and> page_state_ok ctl rw th ps' \<and> ws_tli ps' = t \<and> xlogread ps' = Some p \<and>
      wal_reader rgs w' \<and> disk w' = disk (snd restored) \<and> ps_rewind ps' = archive_wal_segments_add_entry (path_in ''pg_wal'' ?nam) (ps_rewind ps)"
    if "\<not> is_open" "disk w p = None \<or> open_fails rw p" "restoreCommand rd" "fst restored" "wal_reader rgs (snd restored)" "holds_page F rgs t m ptr (snd restored) p plain"
    using rd [OF that(5,6)] closed [OF that(1)] os that(2-4) assms(9)
    by (auto simp: runM intro!: ok)
  moreover have "\<exists>ps' w'. ?cb = (Inr (None, ps'), w') \<and> page_state_ok ctl rw th ps' \<and> ps_rewind ps' = ps_rewind ps"
    if "\<not> is_open" "disk w p = None \<or> open_fails rw p" "restoreCommand rd \<longrightarrow> \<not> fst restored"
    using closed [OF that(1)] os that(2,3) by (auto simp: runM intro!: ok)
  ultimately show ?thesis by blast
qed

definition demo_history :: "TimeLineHistoryEntry list" where
  "demo_history = [\<lparr>tlh_tli = 1, tlh_begin = 0, tlh_end = 0x100100\<rparr>, \<lparr>tlh_tli = 2, tlh_begin = 0x100100, tlh_end = 0\<rparr>]"

text \<open>The second segment was begun on the first timeline and belongs to the second one.\<close>

theorem page_read_decrypts_witness:
  "\<exists>ps' w'. SimpleXLogPageRead demo_env demo_control demo_rw demo_walread demo_history 0x100000 (new_page_state 0 demo_rewind_state)
     (demo_wal_world\<lparr>disk := [''t/pg_wal/w'' \<mapsto> wal_crypt demo_F demo_rgs 2 1 20 0 demo_block]\<rparr>) = (Inr (Some demo_block, ps'), w') \<and> ws_tli ps' = 2"
proof -
  let ?ct = "wal_crypt demo_F demo_rgs 2 1 20 0 demo_block"
  let ?w = "demo_wal_world\<lparr>disk := [''t/pg_wal/w'' \<mapsto> ?ct]\<rparr>" and ?ps = "new_page_state 0 demo_rewind_state"
  have seg: "0x100000 div 2 ^ 20 = (1 :: u64)" by code_simp
  have p: "wal_path demo_control demo_rw 2 1 = ''t/pg_wal/w''" by (simp add: wal_path_def demo_control_def demo_rw_def path_in_def MAXPGPATH_def)
  have h: "linked_history demo_history" "right_timeline demo_history ((0x100000 div 2 ^ 20 + 1) * 2 ^ 20) 1" "page_state_ok demo_control demo_rw demo_history ?ps"
    "tlh_tli (demo_history ! 1) = 2"
    by (auto simp: linked_history_def right_timeline_def page_state_ok_def demo_history_def new_page_state_def less_Suc_eq seg)
  have rd: "wal_reader demo_rgs ?w" using demo_wal_writer(2) by (simp add: wal_reader_def keys_current_def cache_ok_def)
  have l: "length demo_block = BLCK" by (simp add: demo_block_def)
  then have hold: "holds_page demo_F demo_rgs 2 20 0x100000 ?w ''t/pg_wal/w'' demo_block"
    by (simp add: holds_page_def pread_def file_bytes_def seg)
  show ?thesis
    using page_read_decrypts [OF demo_ecb_is, of 20 demo_rw "0x100000" demo_history demo_control ?ps 1 2 "''t/pg_wal/w''" False
        "RestoreArchivedFile demo_walread (datadir_target demo_rw) (XLogFileName demo_control 2 1 (WalSegSz demo_rw)) ?w" demo_walread ?w demo_rgs demo_block]
      h rd hold p
    by (simp add: seg new_page_state_def) (auto simp: demo_rw_def)
qed

end
