(* ===== verification/Spec2Isabelle.thy ===== *)
theory Spec2Isabelle
  imports Tde_Enc Tde_Keymap_Ops Tde_Keyring_Ops Tde_WalKeyFile_Ops Tde_WalCache Tde_Principal_Ops
    Tde_Relkeys_Ops Tde_Smgr_Ops Tde_Event_Ops Tde_Providers_Ops Tde_Redo_Ops Tde_Tempfile_Ops
    Tde_DefaultKey Tde_Keyring_Contract Tde_Archive_Ops Tde_Filemap_Ops Tde_Rewind_Ops Tde_Rewind_Wal
    Tde_Libpq_Ops Tde_Checksums_Ops Tde_ChangeProvider Tde_Receive_Ops Tde_Streamer_Ops Tde_Settings
    Tde_Decode_Ops Tde_Timeline_Ops Tde_Parsexlog_Ops
begin

text \<open>
  \<^bold>\<open>open_pg_tde: transparent data encryption for PostgreSQL.\<close>

  The extension (C, under \<open>src/src\<close>) encrypts the files of relations, the write-ahead log and temporary files.
  A relation has an internal key in the key file of its database; the entries of a key file are sealed (AES-GCM) with
  the principal key of the database, whose name and keyring are in the signed header of the file; the principal key itself lives in
  a keyring (a file, or a key server). WAL is encrypted with keys of \<^emph>\<open>ranges\<close>, kept in a file of the same
  kind that the server key seals. Storage managers for relations and for WAL encrypt and decrypt what the server writes and reads,
  event triggers tell the storage manager which new relations are to be encrypted, SQL functions administer
  providers and keys, and WAL records carry all changes to replicas.

  \<^bold>\<open>Layers.\<close>
  \<^item> \<open>Tde_Prelude\<close>: bytes, little-endian fields, positional reads and writes. \<open>Tde_Recfile\<close>: files of records after a
    header, with the locale \<open>codec\<close>. \<open>Tde_Types\<close>: the structures of \<open>include/\<close> with their layout on disk.
  \<^item> \<open>Tde_World\<close>: what the code runs against. The record \<open>env\<close> holds the code that is not part of the repository
    (OpenSSL, the server, key servers, the JSON lexer, \<open>md.c\<close>) and the settings; the record \<open>world\<close> holds the
    state: the disk, a script of I/O outcomes, the random source, the WAL inserted, and the variables of the modules. An
    operation is of type \<open>'a tdeM\<close>: it takes a world and gives an error or a result, and the world afterwards.
    \<open>ereport(ERROR)\<close> is \<open>throw\<close>, with the changes made so far kept. The locale \<open>frame\<close> states what a relation between
    worlds must satisfy to be kept by every operation built from the primitives; \<open>wp\<close> is the postcondition calculus
    the longer operations are verified with.
  \<^item> \<open>Tde_Cipher\<close> (\<open>encryption/cipher_provider.c\<close>, \<open>encryption/enc_aes.c\<close>) and \<open>Tde_Enc\<close> (\<open>encryption/enc_tde.c\<close>):
    cipher suites, cached contexts, stream and page encryption. The stream cipher equals byte-wise XOR with
    the keystream of the absolute position; whatever pages were encrypted and decrypted before, with whatever keys, a page operation gives the
    same result as with fresh contexts; pages come back; IVs of blocks differ.
  \<^item> \<open>Tde_Keyfile\<close>: the operations the two kinds of key file share, as the locale \<open>key_file\<close>, interpreted by
    \<open>Tde_Keymap\<close> (\<open>access/open_pg_tde_tdemap.c\<close>) and \<open>Tde_WalKeyFile\<close> (\<open>access/open_pg_tde_xlog_keys.c\<close>). The theories
    \<open>Tde_Keymap_Ops\<close> and \<open>Tde_WalKeyFile_Ops\<close> describe insertion, lookup, freeing, counting, rotation in terms of the list of entries;
    rotation keeps all keys and is atomic under every failure of a write, sync or rename.
  \<^item> \<open>Tde_Keyring\<close> (\<open>keyring/keyring_api.c\<close>, \<open>keyring/keyring_file.c\<close>, \<open>catalog/tde_keyring_parse_opts.c\<close>), with
    \<open>Tde_Keyring_Ops\<close> and \<open>Tde_Keyring_Files\<close>: a key stored in a file keyring is found again; parsing options of one type of provider
    accepts the options of that type only and sets no other field. \<open>Tde_Cstring\<close>, \<open>Tde_OpenBao\<close> (\<open>keyring/keyring_openbao.c\<close>, \<open>keyring_curl.c\<close>) and \<open>Tde_Kmip\<close>
    (\<open>keyring/keyring_kmip.c\<close>, \<open>keyring_kmip_impl.c\<close>) are the clients of key servers; \<open>Tde_OpenBao_Ops\<close> shows that the answer of the server
    gives the key and nothing else does, and \<open>Tde_Keyring_Contract\<close> states what a keyring promises as a locale, which all three kinds of provider meet
    for the names that their server takes.
    \<open>Tde_Providers\<close> (\<open>catalog/tde_keyring.c\<close>), with \<open>Tde_Providers_Ops\<close>: new providers get
    fresh numbers and never reuse one of a deleted provider.
  \<^item> \<open>Tde_Principal\<close> (\<open>catalog/tde_principal_key.c\<close>), with \<open>Tde_Principal_Ops\<close> and \<open>Tde_DefaultKey\<close>: a principal key handed out
    matches the signature of the key file; the default key is inherited by databases without a key; deleting a principal key
    leaves relation keys usable.
  \<^item> \<open>Tde_Relkeys\<close> (rest of \<open>open_pg_tde_tdemap.c\<close>): saving and reading relation keys and the migration of old files.
    \<open>Tde_Smgr\<close> (\<open>smgr/open_pg_tde_smgr.c\<close>), with \<open>Tde_Smgr_Ops\<close>: the locale \<open>rel_key_store\<close> is the contract of a store of
    relation keys; the key file and the hash table of temporary relations both provide it, and the storage manager keeps what
    is written to an encrypted relation readable through close and open, synchronously or asynchronously.
  \<^item> \<open>Tde_WalKeys\<close> and \<open>Tde_WalCache\<close> (cache of WAL ranges, migration), \<open>Tde_WalSmgr\<close>
    (\<open>access/open_pg_tde_xlog_smgr.c\<close>), \<open>Tde_WalIv\<close> and \<open>Tde_WalCrypt\<close>: the loop over the cached ranges implements \<open>wal_crypt\<close>, which
    treats each byte according to the range that covers its location; the cache has no gaps.
  \<^item> \<open>Tde_Event\<close> (\<open>open_pg_tde_event_capture.c\<close>), with \<open>Tde_Event_Ops\<close>: the event stack, the encryption mode each statement
    asks for, refused commands. Under enforcement every \<open>ALTER TABLE\<close> of a plain relation that leaves it plain is refused.
  \<^item> \<open>Tde_Redo\<close> (\<open>access/open_pg_tde_xlog.c\<close>, \<open>open_pg_tde.c\<close>), with \<open>Tde_Redo_Ops\<close>: WAL records and start-up.
    \<open>Tde_Tempfile\<close> (\<open>open_pg_tde_tempfile.c\<close>), with \<open>Tde_Tempfile_Ops\<close>.
  \<^item> \<open>Tde_Archive\<close> (\<open>bin/open_pg_tde_archive_decrypt.c\<close>, \<open>bin/open_pg_tde_restore_encrypt.c\<close>, \<open>open_pg_tde_fe.c\<close>), with \<open>Tde_WalFetch\<close> (what the cache of ranges
    holds after keys were fetched from the file) and \<open>Tde_Archive_Ops\<close>: the archived segment is the plain text of the segment, and restoring it gives the
    encrypted segment again.
  \<^item> \<open>Tde_Filemap\<close> (\<open>fetools/pg18/pg_rewind/filemap.c\<close>, \<open>datapagemap.c\<close>), with \<open>Tde_Filemap_Ops\<close>, and \<open>Tde_Rewind\<close> (\<open>tde_ops.c\<close>, \<open>file_ops.c\<close>,
    \<open>local_source.c\<close>, \<open>pg_rewind.c\<close>), with \<open>Tde_Rewind_Ops\<close> and \<open>Tde_Rewind_Wal\<close>: the map of changed pages gives back exactly the pages added,
    names of relation files are recognised, the blocks copied into a relation file end up under the key of the target, kept WAL segments under the ranges of
    the source; a second segment of a relation does not. \<open>Tde_Libpq\<close> (\<open>libpq_source.c\<close>), with \<open>Tde_Libpq_Ops\<close>: a source reached through a connection, whose ranges are
    merged, split and sent in batches, gives the same file as a local one.
  \<^item> \<open>Tde_Decode\<close> (\<open>fetools/pg18/xlogreader.c\<close>), with \<open>Tde_Decode_Ops\<close>: the decoding of a WAL record. A record that refers to blocks and carries data is
    decoded to what it was made of; a length of the main data that wraps around is not noticed.
  \<^item> \<open>Tde_Timeline\<close> (\<open>pg_rewind/timeline.c\<close>, histories, control files and backup label of \<open>pg_rewind.c\<close>), with \<open>Tde_Timeline_Ops\<close>: the history of a timeline is read back, and
    the common ancestor is the last entry the histories share. \<open>Tde_Parsexlog\<close> (\<open>pg_rewind/parsexlog.c\<close>, \<open>main\<close> of \<open>pg_rewind.c\<close>), with \<open>Tde_Parsexlog_Ops\<close>: a page of
    encrypted WAL is read as its plain text from the file of the right timeline, the search finds the last checkpoint before the fork, and the map of pages holds exactly the blocks of the main fork that the records
    between that checkpoint and the end of WAL change and that both servers have.
  \<^item> \<open>Tde_Checksums\<close> (\<open>fetools/pg18/pg_checksums/pg_checksums.c\<close>), with \<open>Tde_Checksums_Ops\<close>: after checksums were enabled in an encrypted relation file,
    checking it finds none that is wrong, and the pages are the same but for the checksum.
  \<^item> \<open>Tde_ChangeProvider\<close> (\<open>bin/open_pg_tde_change_key_provider.c\<close>): the text of the options is complete or refused, and exactly one record of
    the provider file changes.
  \<^item> \<open>Tde_Receive\<close> (\<open>fetools/pg18/pg_basebackup/receivelog.c\<close> and the directory method of \<open>walmethods.c\<close>), with \<open>Tde_Receive_Ops\<close>: WAL streamed
    message by message into encrypted segments is readable, as long as no message crosses the end of a segment. \<open>Tde_Streamer\<close>
    (\<open>astreamer_inject.c\<close>, \<open>CreateBackupStreamer\<close>), with \<open>Tde_Streamer_Ops\<close>: the chain of streamers for each set of options, and what it makes of an archive of a base backup.
  \<^item> \<open>Tde_Settings\<close> (\<open>open_pg_tde_guc.c\<close>, \<open>common/open_pg_tde_utils.c\<close>, \<open>_PG_init\<close>): the settings, what may be assigned to them, and the load of the library.
  \<^item> \<open>Tde_Frame\<close>: which parts of the state the key management leaves alone. \<open>Tde_Instance\<close>: a concrete environment, a toy
    cipher that meets the documented laws of the real one; the witnesses compute with it.

  \<^bold>\<open>Hypotheses.\<close> Of OpenSSL: \<open>evp_is\<close> (a context behaves as the cipher its key, direction and IV determine),
  \<open>gcm_ok\<close> (what was sealed opens to itself under the same key, IV and additional data), \<open>rand_ok\<close> (the random source gives
  as many bytes as asked). Of the source server of \<open>pg_rewind\<close>:
  \<open>server_documented\<close> (a row per element of the arrays, in order). Of the block cipher, for the streamed segment that is not readable:
  \<open>block_injective\<close> (different blocks have different images). Of \<open>md.c\<close>: \<open>md_ok\<close> (a block reads as it was last written). Of the catalog: \<open>acyclic_catalog\<close>.
  Of key servers: \<open>kv2_server\<close> (for plain names, the secret of a name is the one stored there last and other names do not matter) and \<open>kmip_server\<close> (a key that was registered
  under a new name is located and fetched). Of the tar parser of PostgreSQL: that it gives the members of the archive.
  Of the WAL reader: \<open>reads\<close>, \<open>reads_all\<close> and \<open>reads_back\<close> (asked for the record at a location it gives the record there). No theorem assumes that ciphertexts are unforgeable.

  \<^bold>\<open>Bounds and fuel.\<close> The recursion of \<open>alter_table_encryption_mix\<close> over the inheritance tree takes a depth bound, the
  size of the server's stack; for an acyclic catalog some depth suffices and every larger one gives the same result. The
  retry loop of \<open>get_db_info\<close> runs over the list of rounds other sessions make it go through. \<open>extract_loop\<close> takes one more turn than there are bytes up to
  the end of WAL and \<open>checkpoint_loop\<close> one more than the position it starts from: every record has at least one byte, and a record read backwards
  starts before the one that refers to it, so that both are enough. The loops of the tools over a file, a segment or a message
  (\<open>decrypt_loop\<close>, \<open>encrypt_loop\<close>, \<open>scan_loop\<close>, \<open>xlogdata_loop\<close>, \<open>write_loop\<close>, \<open>reencrypt_loop\<close>, \<open>wal_seg_loop\<close>, \<open>fetch_file_loop\<close>) take one more turn than there are bytes
  left, each of them handles a byte at least, and running out of turns is an error that the theorems exclude. All other loops are structural or have a measure. Machine integers keep their width.

  \<^bold>\<open>Not modelled.\<close> Key servers, libcurl, libkmip and OpenSSL: their answers are parameters. Locks and shared memory: an operation
  runs as if alone; descriptions of settings and sizes of shared memory. The program
  \<open>open_pg_tde_upgrade\<close>, which runs other programs. Of \<open>xlogreader.c\<close>: the cache of pages and the assembly of records that span pages. Of \<open>pg_rewind\<close>: the start of a
  single-user server, the configuration of a standby, the settings of a new connection, directories and symbolic links. Options are given as \<open>getopt_long\<close> delivers them; messages are left out.
  Of \<open>pg_basebackup\<close>: waiting for input, compression and tar output, the connection. The other forks of PostgreSQL programs under \<open>fetools\<close>, which differ from the
  originals in a few calls of the modules above.
\<close>

section \<open>Privileges\<close>

text \<open>
  Whoever is not a superuser can neither add, change or delete a key provider nor create a key in, or set a key from, a global
  provider, nor change or delete the server key or the default key: each of these calls fails with the privilege error, whatever the
  arguments, before anything was read or changed.
\<close>

lemma privileged_operations_refused:
  assumes "\<not> superuser ev"
  shows "open_pg_tde_add_key_provider_internal ev db t n opts w = (Inl E_privilege, w) \<and>
    open_pg_tde_change_key_provider_internal ev db t n opts w = (Inl E_privilege, w) \<and>
    open_pg_tde_delete_key_provider_internal ev db n w = (Inl E_privilege, w) \<and>
    open_pg_tde_create_key_using_global_key_provider ev k n w = (Inl E_privilege, w) \<and>
    open_pg_tde_set_key_using_global_key_provider ev k n w = (Inl E_privilege, w) \<and>
    open_pg_tde_set_server_key_using_global_key_provider ev k n w = (Inl E_privilege, w) \<and>
    open_pg_tde_set_default_key_using_global_key_provider ev k n w = (Inl E_privilege, w) \<and>
    open_pg_tde_delete_default_key ev w = (Inl E_privilege, w)"
  using assms
  by (simp add: open_pg_tde_add_key_provider_internal_def open_pg_tde_change_key_provider_internal_def
      open_pg_tde_delete_key_provider_internal_def open_pg_tde_create_key_using_global_key_provider_def
      open_pg_tde_create_principal_key_internal_def open_pg_tde_set_key_using_global_key_provider_def
      open_pg_tde_set_server_key_using_global_key_provider_def open_pg_tde_set_principal_key_internal_def
      open_pg_tde_set_default_key_using_global_key_provider_def open_pg_tde_delete_default_key_def
      check_key_arguments_def runM check_def throw_def)

lemma privileged_operations_refused_witness:
  "\<not> superuser (demo_env\<lparr>superuser := False\<rparr>) \<and>
   open_pg_tde_add_key_provider_internal (demo_env\<lparr>superuser := False\<rparr>) 5 (Some []) (Some []) (Some []) demo_world
     = (Inl E_privilege, demo_world) \<and>
   open_pg_tde_delete_default_key (demo_env\<lparr>superuser := False\<rparr>) demo_world = (Inl E_privilege, demo_world)"
  using privileged_operations_refused [of "demo_env\<lparr>superuser := False\<rparr>" 5 "Some []" "Some []" "Some []" demo_world]
  by simp

end
